(* ===== verification/Prelude.thy ===== *)
theory Prelude
  imports Complex_Main "HOL-Library.Multiset"
begin

text \<open>
  Shared vocabulary of the development: JavaScript completions (a value or a thrown
  exception), the array idioms the sources use (\<open>findIndex\<close>, replacing or removing by
  index, inserting at an index, \<open>slice\<close> from the end), decimal numerals for template
  strings, and the lemmas on them that the component theories share.
\<close>

section \<open>Collections of facts\<close>

named_theorems step_defs \<open>definitions of the operations of a component\<close>
named_theorems inv_defs \<open>definitions of the invariants of a component\<close>

section \<open>Completions\<close>

text \<open>A JavaScript function returns a value or throws; \<open>Inl\<close> is the thrown error, \<open>GenericError\<close> one
  made by \<open>new Error(message)\<close>.\<close>

datatype js_error = TypeError | RangeError | GenericError

type_synonym 'a js = "js_error + 'a"

definition js_bind :: "'a js \<Rightarrow> ('a \<Rightarrow> 'b js) \<Rightarrow> 'b js" where
  "js_bind m f = (case m of Inl e \<Rightarrow> Inl e | Inr x \<Rightarrow> f x)"

lemma js_bind_simps [simp]:
  "js_bind (Inl e) f = Inl e"
  "js_bind (Inr x) f = f x"
  by (simp_all add: js_bind_def)

lemma js_bind_eq_Inr: "js_bind m f = Inr y \<longleftrightarrow> (\<exists>x. m = Inr x \<and> f x = Inr y)"
  by (cases m) auto

section \<open>Arrays\<close>

text \<open>\<open>xs.findIndex(p)\<close>, with \<open>None\<close> for \<open>-1\<close>.\<close>

fun find_index :: "('a \<Rightarrow> bool) \<Rightarrow> 'a list \<Rightarrow> nat option" where
  "find_index P [] = None"
| "find_index P (x # xs) = (if P x then Some 0 else map_option Suc (find_index P xs))"

lemma find_index_None: "find_index P xs = None \<longleftrightarrow> (\<forall>x \<in> set xs. \<not> P x)"
  by (induction xs) auto

lemma find_index_Some:
  "find_index P xs = Some i \<Longrightarrow> i < length xs \<and> P (xs ! i) \<and> (\<forall>j < i. \<not> P (xs ! j))"
proof (induction xs arbitrary: i)
  case Nil
  then show ?case by simp
next
  case (Cons x xs)
  show ?case
  proof (cases "P x")
    case True
    with Cons.prems show ?thesis by simp
  next
    case False
    with Cons.prems obtain k where k: "find_index P xs = Some k" "i = Suc k" by auto
    from Cons.IH [OF k(1)] False k(2) show ?thesis by (auto simp: less_Suc_eq_0_disj)
  qed
qed

lemma find_index_less: "find_index P xs = Some i \<Longrightarrow> i < length xs"
  by (simp add: find_index_Some)

lemma find_index_holds: "find_index P xs = Some i \<Longrightarrow> P (xs ! i)"
  by (simp add: find_index_Some)

lemma find_index_ex: "(\<exists>i. find_index P xs = Some i) \<longleftrightarrow> (\<exists>x \<in> set xs. P x)"
  by (metis find_index_None not_None_eq)

text \<open>\<open>[...xs.slice(0, n), x, ...xs.slice(n)]\<close>.\<close>

definition insert_at :: "nat \<Rightarrow> 'a \<Rightarrow> 'a list \<Rightarrow> 'a list" where
  "insert_at n x xs = take n xs @ x # drop n xs"

lemma set_insert_at [simp]: "set (insert_at n x xs) = insert x (set xs)"
  by (metis Un_insert_right append_take_drop_id insert_at_def list.simps(15) set_append)

lemma length_insert_at [simp]: "length (insert_at n x xs) = Suc (length xs)"
  by (simp add: insert_at_def)

lemma map_insert_at [simp]: "map f (insert_at n x xs) = insert_at n (f x) (map f xs)"
  by (simp add: insert_at_def take_map drop_map)

lemma mset_insert_at [simp]: "mset (insert_at n x xs) = add_mset x (mset xs)"
  by (metis (no_types) append_take_drop_id insert_at_def mset.simps(2) mset_append union_mset_add_mset_right)

lemma distinct_insert_at [simp]: "distinct (insert_at n x xs) \<longleftrightarrow> x \<notin> set xs \<and> distinct xs"
  by (metis distinct.simps(2) mset.simps(2) mset_eq_imp_distinct_iff mset_insert_at)

lemma nth_insert_at [simp]: "n \<le> length xs \<Longrightarrow> insert_at n x xs ! n = x"
  by (simp add: insert_at_def nth_append)

text \<open>\<open>xs.filter((_x, index) => index !== n)\<close>.\<close>

definition remove_nth :: "nat \<Rightarrow> 'a list \<Rightarrow> 'a list" where
  "remove_nth n xs = take n xs @ drop (Suc n) xs"

lemma set_remove_nth: "set (remove_nth n xs) \<subseteq> set xs"
  by (auto simp: remove_nth_def dest: in_set_takeD in_set_dropD)

lemma map_remove_nth [simp]: "map f (remove_nth n xs) = remove_nth n (map f xs)"
  by (simp add: remove_nth_def take_map drop_map)

lemma distinct_remove_nth [simp]: "distinct xs \<Longrightarrow> distinct (remove_nth n xs)"
  unfolding remove_nth_def
  by (simp add: set_take_disj_set_drop_if_distinct)

lemma length_remove_nth [simp]: "n < length xs \<Longrightarrow> length (remove_nth n xs) = length xs - 1"
  by (simp add: remove_nth_def)

lemma nth_remove_nth:
  "n < length xs \<Longrightarrow> i < length xs - 1 \<Longrightarrow>
     remove_nth n xs ! i = (if i < n then xs ! i else xs ! Suc i)"
  by (auto simp: remove_nth_def nth_append min_def)

lemma remove_nth_out [simp]: "length xs \<le> n \<Longrightarrow> remove_nth n xs = xs"
  by (simp add: remove_nth_def)

text \<open>\<open>xs.slice(-n)\<close> for a positive \<open>n\<close>: the last \<open>n\<close> elements.\<close>

definition slice_last :: "nat \<Rightarrow> 'a list \<Rightarrow> 'a list" where
  "slice_last n xs = drop (length xs - n) xs"

lemma length_slice_last [simp]: "length (slice_last n xs) = min n (length xs)"
  by (simp add: slice_last_def)

lemma distinct_slice_last [simp]: "distinct xs \<Longrightarrow> distinct (slice_last n xs)"
  by (simp add: slice_last_def)

lemma set_slice_last: "set (slice_last n xs) \<subseteq> set xs"
  by (simp add: slice_last_def set_drop_subset)

lemma map_slice_last [simp]: "map f (slice_last n xs) = slice_last n (map f xs)"
  by (simp add: slice_last_def drop_map)

lemma slice_last_all [simp]: "length xs \<le> n \<Longrightarrow> slice_last n xs = xs"
  by (simp add: slice_last_def)

text \<open>\<open>xs.some(p)\<close> over a list with a key, and the facts on updates by index.\<close>

lemma map_list_update_id: "f (xs ! i) = f y \<Longrightarrow> map f (xs[i := y]) = map f xs"
  by (cases "i < length xs") (simp_all add: map_update list_update_same_conv list_update_beyond)

lemma filter_neq_id: "k \<notin> f ` set xs \<Longrightarrow> filter (\<lambda>x. f x \<noteq> k) xs = xs"
  by (induction xs) auto

lemma distinct_map_filter' [simp]: "distinct (map f xs) \<Longrightarrow> distinct (map f (filter P xs))"
  by (simp add: distinct_map_filter)

lemma length_filter_key:
  "distinct (map f xs) \<Longrightarrow> k \<in> f ` set xs \<Longrightarrow>
     length (filter (\<lambda>x. f x \<noteq> k) xs) = length xs - 1"
proof (induction xs)
  case Nil
  then show ?case by simp
next
  case (Cons x xs)
  show ?case
  proof (cases "f x = k")
    case True
    with Cons.prems have "k \<notin> f ` set xs" by auto
    with True show ?thesis by (simp add: filter_neq_id)
  next
    case False
    with Cons.prems have "k \<in> f ` set xs" by auto
    moreover from this have "xs \<noteq> []" by auto
    ultimately show ?thesis using Cons.IH Cons.prems False by (cases xs) auto
  qed
qed

lemma filter_key_remove_nth:
  "distinct (map f xs) \<Longrightarrow> find_index (\<lambda>x. f x = k) xs = Some i \<Longrightarrow>
     filter (\<lambda>x. f x \<noteq> k) xs = remove_nth i xs"
proof (induction xs arbitrary: i)
  case Nil
  then show ?case by simp
next
  case (Cons x xs)
  show ?case
  proof (cases "f x = k")
    case True
    with Cons.prems have "k \<notin> f ` set xs" "i = 0" by auto
    with True show ?thesis by (simp add: filter_neq_id remove_nth_def)
  next
    case False
    with Cons.prems obtain j where "find_index (\<lambda>x. f x = k) xs = Some j" "i = Suc j" by auto
    with Cons False show ?thesis by (simp add: remove_nth_def)
  qed
qed

lemma find_Some_mem: "List.find P xs = Some x \<Longrightarrow> x \<in> set xs \<and> P x"
  by (auto simp: find_Some_iff)

lemma find_key:
  "distinct (map f xs) \<Longrightarrow> x \<in> set xs \<Longrightarrow> List.find (\<lambda>y. f y = f x) xs = Some x"
  by (induction xs) auto

section \<open>Decimal numerals\<close>

text \<open>The text of a non-negative integer in a template string, \<open>`${n}`\<close>.\<close>

definition digit_char :: "nat \<Rightarrow> char" where
  "digit_char d = char_of (48 + d)"

fun nat_string :: "nat \<Rightarrow> string" where
  "nat_string n = (if n < 10 then [digit_char n] else nat_string (n div 10) @ [digit_char (n mod 10)])"

declare nat_string.simps [simp del]

lemma digit_char_inj: "d < 10 \<Longrightarrow> e < 10 \<Longrightarrow> digit_char d = digit_char e \<Longrightarrow> d = e"
  unfolding digit_char_def by (simp add: char_of_eq_iff take_bit_eq_mod)

lemma nat_string_neq_Nil [simp]: "nat_string n \<noteq> []" "[] \<noteq> nat_string n"
  by (subst nat_string.simps, simp)+

lemma nat_string_inject: "nat_string m = nat_string n \<Longrightarrow> m = n"
proof (induction m arbitrary: n rule: nat_string.induct)
  case (1 m)
  show ?case
  proof (cases "m < 10")
    case m: True
    show ?thesis
    proof (cases "n < 10")
      case True
      with m "1.prems" show ?thesis
        by (simp add: nat_string.simps [of m] nat_string.simps [of n] digit_char_inj)
    next
      case False
      with m "1.prems" show ?thesis
        by (simp add: nat_string.simps [of m] nat_string.simps [of n])
    qed
  next
    case m: False
    show ?thesis
    proof (cases "n < 10")
      case True
      with m "1.prems" show ?thesis
        by (simp add: nat_string.simps [of m] nat_string.simps [of n])
    next
      case False
      with m "1.prems" have "nat_string (m div 10) = nat_string (n div 10)"
        and d: "digit_char (m mod 10) = digit_char (n mod 10)"
        by (simp_all add: nat_string.simps [of m] nat_string.simps [of n])
      then have "m div 10 = n div 10" using "1.IH" m by blast
      moreover from d have "m mod 10 = n mod 10" by (simp add: digit_char_inj)
      ultimately show ?thesis by (metis div_mult_mod_eq)
    qed
  qed
qed

lemma nat_string_eq_iff [simp]: "nat_string m = nat_string n \<longleftrightarrow> m = n"
  by (auto dest: nat_string_inject)

end
