(* ===== verification/JsNumber.thy ===== *)
theory JsNumber
  imports Prelude
begin

text \<open>
  JavaScript's \<open>number\<close>. A value is not-a-number, an infinity or a finite number. Finite
  numbers are exact rationals: rounding of IEEE doubles, the sign of zero and overflow to
  an infinity are not modelled. What the sources do test, \<open>Number.isFinite\<close>,
  \<open>Number.isInteger\<close>, \<open>Math.floor\<close> and the comparisons, all false on \<open>NaN\<close>, is.
\<close>

datatype jsnum = NaN | PosInf | NegInf | Fin rat

section \<open>Tests and comparisons\<close>

fun is_finite :: "jsnum \<Rightarrow> bool" where
  "is_finite (Fin _) = True"
| "is_finite _ = False"

fun is_integer :: "jsnum \<Rightarrow> bool" where
  "is_integer (Fin q) = (of_int \<lfloor>q\<rfloor> = q)"
| "is_integer _ = False"

fun js_less :: "jsnum \<Rightarrow> jsnum \<Rightarrow> bool" where
  "js_less NaN _ = False"
| "js_less _ NaN = False"
| "js_less (Fin p) (Fin q) = (p < q)"
| "js_less NegInf NegInf = False"
| "js_less NegInf _ = True"
| "js_less PosInf _ = False"
| "js_less _ PosInf = True"
| "js_less _ _ = False"

fun js_le :: "jsnum \<Rightarrow> jsnum \<Rightarrow> bool" where
  "js_le NaN _ = False"
| "js_le _ NaN = False"
| "js_le (Fin p) (Fin q) = (p \<le> q)"
| "js_le NegInf _ = True"
| "js_le _ PosInf = True"
| "js_le _ _ = False"

section \<open>Arithmetic\<close>

instantiation jsnum :: plus
begin

fun plus_jsnum :: "jsnum \<Rightarrow> jsnum \<Rightarrow> jsnum" where
  "plus_jsnum NaN _ = NaN"
| "plus_jsnum _ NaN = NaN"
| "plus_jsnum PosInf NegInf = NaN"
| "plus_jsnum NegInf PosInf = NaN"
| "plus_jsnum PosInf _ = PosInf"
| "plus_jsnum _ PosInf = PosInf"
| "plus_jsnum NegInf _ = NegInf"
| "plus_jsnum _ NegInf = NegInf"
| "plus_jsnum (Fin p) (Fin q) = Fin (p + q)"

instance ..

end

fun js_neg :: "jsnum \<Rightarrow> jsnum" where
  "js_neg NaN = NaN"
| "js_neg PosInf = NegInf"
| "js_neg NegInf = PosInf"
| "js_neg (Fin q) = Fin (- q)"

definition js_sub :: "jsnum \<Rightarrow> jsnum \<Rightarrow> jsnum" where
  "js_sub a b = a + js_neg b"

fun js_floor :: "jsnum \<Rightarrow> jsnum" where
  "js_floor (Fin q) = Fin (of_int \<lfloor>q\<rfloor>)"
| "js_floor x = x"

definition js_max :: "jsnum \<Rightarrow> jsnum \<Rightarrow> jsnum" where
  "js_max a b = (if a = NaN \<or> b = NaN then NaN else if js_less a b then b else a)"

definition js_min :: "jsnum \<Rightarrow> jsnum \<Rightarrow> jsnum" where
  "js_min a b = (if a = NaN \<or> b = NaN then NaN else if js_less b a then b else a)"

text \<open>The integer of a number known to be one.\<close>

fun js_int :: "jsnum \<Rightarrow> int" where
  "js_int (Fin q) = \<lfloor>q\<rfloor>"
| "js_int _ = 0"

abbreviation num :: "int \<Rightarrow> jsnum" where
  "num i \<equiv> Fin (of_int i)"

section \<open>Lemmas\<close>

lemma js_less_irrefl [simp]: "\<not> js_less a a"
  by (cases a) auto

lemma js_le_imp_not_less: "js_le a b \<Longrightarrow> \<not> js_less b a"
  by (cases a; cases b) auto

lemma js_less_trans: "js_less a b \<Longrightarrow> js_less b c \<Longrightarrow> js_less a c"
  by (cases a; cases b; cases c) auto

lemma js_max_not_less [simp]: "\<not> js_less (js_max a b) a"
  by (cases a; cases b) (auto simp: js_max_def)

lemma js_max_ge: "is_finite a \<Longrightarrow> b \<noteq> NaN \<Longrightarrow> js_le a (js_max a b)"
  by (cases a; cases b) (auto simp: js_max_def)

lemma js_max_Fin [simp]: "js_max (Fin p) (Fin q) = Fin (max p q)"
  by (auto simp: js_max_def max_def)

lemma js_min_Fin [simp]: "js_min (Fin p) (Fin q) = Fin (min p q)"
  by (auto simp: js_min_def min_def)

lemma is_finite_Ex: "is_finite a \<longleftrightarrow> (\<exists>q. a = Fin q)"
  by (cases a) auto

lemma is_integer_Ex: "is_integer a \<longleftrightarrow> (\<exists>i. a = num i)"
  by (cases a) (auto simp: eq_commute)

lemma is_integer_finite: "is_integer a \<Longrightarrow> is_finite a"
  by (cases a) auto

lemma js_floor_integer: "is_finite a \<Longrightarrow> is_integer (js_floor a)"
  by (cases a) auto

lemma js_floor_NaN [simp]: "js_floor a = NaN \<longleftrightarrow> a = NaN"
  by (cases a) auto

lemma js_max_eq_NaN [simp]: "js_max a b = NaN \<longleftrightarrow> a = NaN \<or> b = NaN"
  by (auto simp: js_max_def)

end
