(* ===== verification/GameModel.thy ===== *)
theory GameModel
  imports JsNumber
begin

text \<open>
  The data of a game as the client holds it, one type per declaration of
  \<^verbatim>\<open>core/models/game.model.ts\<close>: cards, players, relations between cards, votes, chat, log
  and the whole snapshot.

  Conventions. A string union is an enumeration datatype; an interface is a record whose
  fields carry a short prefix. An optional field \<open>f?: T\<close> is a \<open>T option\<close>; an optional
  nullable field \<open>f?: T | null\<close> is a \<open>T option option\<close> (\<open>None\<close> for an absent field,
  \<open>Some None\<close> for \<open>null\<close>). A \<open>Record<string, T>\<close> is a map. Values the modelled code
  never looks into (\<open>unknown\<close>, user profiles) are JSON values.
\<close>

section \<open>JSON values\<close>

datatype json = JNull | JBool bool | JNum jsnum | JStr string
  | JArr "json list" | JObj "(string \<times> json) list"

section \<open>Enumerations and small records\<close>

datatype game_zone_name = Library | Hand | Battlefield | Graveyard | Exile | Command

datatype special_entity_template =
  Monarch | Initiative | CitysBlessing | DayNight | TheRing | Emblem | Dungeon

datatype special_entity_scope = GlobalScope | PlayerScope

datatype card_stat_value = StatNum jsnum | StatStr string | StatNull

record card_face_runtime_stats =
  frs_defaultPower :: card_stat_value
  frs_defaultToughness :: card_stat_value
  frs_defaultLoyalty :: card_stat_value
  frs_defaultDefense :: card_stat_value
  frs_power :: card_stat_value
  frs_toughness :: card_stat_value
  frs_loyalty :: card_stat_value
  frs_defense :: card_stat_value
  frs_saga :: "jsnum option"

datatype game_phase = PhaseMulligan | PhasePlaying | PhaseFinished

datatype mulligan_rule = London | Vancouver | Paris | Generous

datatype bottom_order_mode = NoBottomOrder | PlayerChosenOrder | RandomServerSide

datatype mulligan_player_status = Deciding | Scrying | Ready

datatype game_card_position =
    PixelPosition (pos_x: jsnum) (pos_y: jsnum)
  | RatioPosition (pos_x: jsnum) (pos_y: jsnum)

record dungeon_marker =
  dm_x :: jsnum
  dm_y :: jsnum

section \<open>Cards\<close>

record game_card_instance =
  card_instanceId :: string
  card_ownerId :: "string option"
  card_controllerId :: "string option"
  card_scryfallId :: "string option"
  card_name :: string
  card_imageUris :: "(string \<rightharpoonup> string) option"
  card_cardFaces :: "json list option"
  card_faceRuntimeStats :: "card_face_runtime_stats list option"
  card_hasRulings :: "bool option"
  card_typeLine :: "string option option"
  card_layout :: "string option option"
  card_manaCost :: "string option option"
  card_oracleText :: "string option option"
  card_colorIdentity :: "string list option"
  card_power :: "card_stat_value option"
  card_toughness :: "card_stat_value option"
  card_loyalty :: "card_stat_value option"
  card_defense :: "card_stat_value option"
  card_saga :: "jsnum option option"
  card_defaultPower :: "card_stat_value option"
  card_defaultToughness :: "card_stat_value option"
  card_defaultLoyalty :: "card_stat_value option"
  card_defaultDefense :: "card_stat_value option"
  card_tapped :: bool
  card_faceDown :: "bool option"
  card_activeFaceIndex :: "jsnum option"
  card_hidden :: "bool option"
  card_staticCardPending :: "bool option"
  card_revealedTo :: "string list option"
  card_revealMarker :: "bool option"
  card_position :: "game_card_position option"
  card_dungeonMarker :: "dungeon_marker option option"
  card_rotation :: "jsnum option"
  card_counters :: "(string \<rightharpoonup> jsnum) option"
  card_zone :: "game_zone_name option"
  card_isToken :: "bool option"
  card_isTokenCopy :: "bool option"
  card_isCommander :: "bool option"

text \<open>
  \<open>Record<GameZoneName, GameCardInstance[]>\<close>. The reducers test \<open>Array.isArray\<close> on a zone
  before they use it, so a zone of a snapshot from the wire may be missing: \<open>None\<close>.
\<close>

type_synonym game_zones = "game_zone_name \<rightharpoonup> game_card_instance list"

type_synonym game_zone_counts = "game_zone_name \<rightharpoonup> jsnum"

section \<open>Players\<close>

record game_mulligan_config =
  mc_rule :: mulligan_rule
  mc_firstMulliganFree :: bool

record player_mulligan_state =
  pm_rule :: "mulligan_rule option"
  pm_firstMulliganFree :: "bool option"
  pm_mulligansTaken :: jsnum
  pm_effectiveMulligans :: jsnum
  pm_drawCount :: "jsnum option"
  pm_bottomSelectionCount :: "jsnum option"
  pm_finalHandSize :: "jsnum option"
  pm_needsBottomSelection :: "bool option"
  pm_bottomOrderMode :: "bottom_order_mode option"
  pm_needsScryAfterKeep :: "bool option"
  pm_canTakeAnotherMulligan :: "bool option"
  pm_status :: mulligan_player_status
  pm_ready :: bool
  pm_handCount :: "jsnum option"
  pm_scryCard :: "game_card_instance option"

datatype player_status = ActivePlayer | ConcededPlayer

record game_player_state =
  pl_user :: json
  pl_isOnline :: "bool option"
  pl_status :: "player_status option"
  pl_concededAt :: "string option option"
  pl_deckName :: "string option option"
  pl_colorIdentity :: "string list option"
  pl_backgroundName :: "string option"
  pl_sleevesName :: "string option"
  pl_playTopLibraryRevealed :: "bool option"
  pl_topLibraryRevealMarker :: "bool option"
  pl_topLibraryRevealedTo :: "string list option"
  pl_revealedLibraryTo :: "string list option"
  pl_libraryShuffleRevision :: "int option"
  pl_revealedHandIndexes :: "int list option"
  pl_life :: jsnum
  pl_zones :: game_zones
  pl_zoneCounts :: "game_zone_counts option"
  pl_handCount :: "jsnum option"
  pl_mulligan :: "player_mulligan_state option"
  pl_commanderDamage :: "string \<rightharpoonup> jsnum"
  pl_counters :: "string \<rightharpoonup> jsnum"

record game_turn =
  gt_activePlayerId :: "string option"
  gt_phase :: string
  gt_number :: jsnum

section \<open>Chat and log\<close>

datatype chat_reaction_type = Like | Dislike | Love | Laugh | Angry | Vomit | Cry

record chat_reaction_entry =
  cr_userId :: string
  cr_displayName :: string
  cr_createdAt :: string

type_synonym chat_reactions = "chat_reaction_type \<rightharpoonup> chat_reaction_entry list"

record chat_message =
  cm_id :: "string option"
  cm_userId :: string
  cm_displayName :: string
  cm_message :: string
  cm_targetPlayerId :: "string option option"
  cm_targetDisplayName :: "string option option"
  cm_createdAt :: string
  cm_reactions :: "chat_reactions option"

datatype log_visibility = LogPublic | LogPrivate | LogGroup

record game_log_entry =
  le_id :: string
  le_type :: string
  le_message :: "string option"
  le_version :: "int option"
  le_createdAt :: "string option"
  le_actorId :: "string option option"
  le_displayName :: "string option option"
  le_i18nKey :: "string option"
  le_params :: "json option"
  le_subject :: "string option"
  le_refs :: "json option"
  le_visibility :: "log_visibility option"
  le_cardNames :: "string list option"
  le_cardInstanceId :: "string option"
  le_cardPlayerId :: "string option"
  le_cardZone :: "game_zone_name option"

section \<open>Relations between cards\<close>

record game_stack_item =
  si_id :: string
  si_kind :: string
  si_card :: "game_card_instance option"
  si_createdAt :: string

record game_arrow =
  ar_id :: string
  ar_ownerId :: "string option"
  ar_fromInstanceId :: string
  ar_toInstanceId :: string
  ar_color :: string
  ar_createdAt :: string

record game_attachment =
  at_id :: string
  at_ownerId :: "string option"
  at_equipmentInstanceId :: string
  at_attachedToInstanceId :: string
  at_createdAt :: string

record game_battlefield_stack =
  bs_id :: string
  bs_ownerId :: "string option"
  bs_stackedInstanceId :: string
  bs_stackTopInstanceId :: string
  bs_createdAt :: string

record special_entity_card_ref =
  sc_scryfallId :: string
  sc_name :: string
  sc_imageUris :: "json option"
  sc_cardFaces :: "json list option"
  sc_typeLine :: "string option option"
  sc_oracleText :: "string option option"
  sc_layout :: "string option option"

record game_special_entity =
  se_id :: string
  se_template :: special_entity_template
  se_scope :: special_entity_scope
  se_ownerPlayerId :: "string option"
  se_card :: "special_entity_card_ref option"
  se_state :: "string \<rightharpoonup> json"
  se_createdAt :: string

section \<open>Votes and the control plane\<close>

datatype rematch_vote = PlayAgain | LeaveRoom

record rematch_vote_state =
  rv_playerId :: string
  rv_displayName :: string
  rv_vote :: rematch_vote
  rv_votedAt :: string
  rv_clientActionId :: "string option option"

record rematch_state =
  rm_votes :: "string \<rightharpoonup> rematch_vote_state"
  rm_deadlineAt :: "string option option"

datatype disconnect_vote_choice = VoteWait | VoteExpel

datatype disconnect_vote_status = VoteOpen | ResolvedWait | ResolvedExpel | VoteCancelled

record disconnect_vote_entry =
  dv_playerId :: string
  dv_displayName :: string
  dv_vote :: disconnect_vote_choice
  dv_votedAt :: string

record disconnect_vote_state =
  dvs_targetPlayerId :: "string option"
  dvs_status :: disconnect_vote_status
  dvs_openedAt :: "string option"
  dvs_deadlineAt :: "string option"
  dvs_cooldownUntil :: "string option"
  dvs_eligible :: "string list option"
  dvs_version :: "int option"
  dvs_votes :: "string \<rightharpoonup> disconnect_vote_entry"

type_synonym disconnect_votes = "string \<rightharpoonup> disconnect_vote_state"

section \<open>The snapshot\<close>

datatype snapshot_timer_mode = TimerNone | TimerTurn

datatype snapshot_timer_status = TimerIdle | TimerRunning | TimerPaused

record snapshot_timer =
  st_mode :: snapshot_timer_mode
  st_status :: snapshot_timer_status
  st_durationSeconds :: "jsnum option"
  st_remainingSeconds :: "jsnum option"

record game_snapshot =
  sn_version :: int
  sn_faceRuntimeStatsVersion :: "int option"
  sn_controlPlaneRevision :: "int option"
  sn_ownerId :: "string option"
  sn_status :: "string option"
  sn_winnerPlayerId :: "string option option"
  sn_finishedAt :: "string option option"
  sn_finishReason :: "string option option"
  sn_allDisconnectedSince :: "string option option"
  sn_nextLifecycleAt :: "string option option"
  sn_gamePhase :: "game_phase option"
  sn_mulligan :: "game_mulligan_config option"
  sn_players :: "string \<rightharpoonup> game_player_state"
  sn_turn :: game_turn
  sn_timer :: "snapshot_timer option"
  sn_stack :: "game_stack_item list"
  sn_arrows :: "game_arrow list"
  sn_attachments :: "game_attachment list option"
  sn_battlefieldStacks :: "game_battlefield_stack list option"
  sn_specialEntities :: "game_special_entity list option"
  sn_chat :: "chat_message list"
  sn_eventLog :: "game_log_entry list"
  sn_rematch :: "rematch_state option"
  sn_disconnectVotes :: "disconnect_votes option"
  sn_createdAt :: string
  sn_updatedAt :: "string option"
  sn_counters :: "(string \<rightharpoonup> (string \<rightharpoonup> jsnum)) option"

section \<open>Sample data\<close>

text \<open>A bare card, player and snapshot, from which examples are built by record update.\<close>

definition bare_card :: "string \<Rightarrow> game_card_instance" where
  "bare_card i = \<lparr>card_instanceId = i, card_ownerId = None, card_controllerId = None,
     card_scryfallId = None, card_name = [], card_imageUris = None, card_cardFaces = None,
     card_faceRuntimeStats = None, card_hasRulings = None, card_typeLine = None,
     card_layout = None, card_manaCost = None, card_oracleText = None, card_colorIdentity = None,
     card_power = None, card_toughness = None, card_loyalty = None, card_defense = None,
     card_saga = None, card_defaultPower = None, card_defaultToughness = None,
     card_defaultLoyalty = None, card_defaultDefense = None, card_tapped = False,
     card_faceDown = None, card_activeFaceIndex = None, card_hidden = None,
     card_staticCardPending = None, card_revealedTo = None, card_revealMarker = None,
     card_position = None, card_dungeonMarker = None, card_rotation = None,
     card_counters = None, card_zone = None, card_isToken = None, card_isTokenCopy = None,
     card_isCommander = None\<rparr>"

definition bare_zones :: game_zones where
  "bare_zones z = Some []"

definition bare_player :: game_player_state where
  "bare_player = \<lparr>pl_user = JNull, pl_isOnline = None, pl_status = None, pl_concededAt = None,
     pl_deckName = None, pl_colorIdentity = None, pl_backgroundName = None, pl_sleevesName = None,
     pl_playTopLibraryRevealed = None, pl_topLibraryRevealMarker = None,
     pl_topLibraryRevealedTo = None, pl_revealedLibraryTo = None, pl_libraryShuffleRevision = None,
     pl_revealedHandIndexes = None, pl_life = num 40, pl_zones = bare_zones,
     pl_zoneCounts = None, pl_handCount = None, pl_mulligan = None,
     pl_commanderDamage = Map.empty, pl_counters = Map.empty\<rparr>"

definition bare_turn :: game_turn where
  "bare_turn = \<lparr>gt_activePlayerId = None, gt_phase = [], gt_number = num 1\<rparr>"

definition bare_snapshot :: game_snapshot where
  "bare_snapshot = \<lparr>sn_version = 0, sn_faceRuntimeStatsVersion = None,
     sn_controlPlaneRevision = None, sn_ownerId = None, sn_status = None, sn_winnerPlayerId = None,
     sn_finishedAt = None, sn_finishReason = None, sn_allDisconnectedSince = None,
     sn_nextLifecycleAt = None, sn_gamePhase = None, sn_mulligan = None, sn_players = Map.empty,
     sn_turn = bare_turn, sn_timer = None, sn_stack = [], sn_arrows = [], sn_attachments = None,
     sn_battlefieldStacks = None, sn_specialEntities = None, sn_chat = [], sn_eventLog = [],
     sn_rematch = None, sn_disconnectVotes = None, sn_createdAt = [], sn_updatedAt = None,
     sn_counters = None\<rparr>"

end
