(* ===== verification/JsString.thy ===== *)
theory JsString
  imports Prelude "HOL-Library.Char_ord" "HOL-Library.List_Lexorder"
begin

text \<open>
  The string operations the sources use. A string is a list of \<open>char\<close>, that is of Latin-1
  characters; the JavaScript functions are modelled on those. \<open>sort()\<close> without a comparison
  orders strings by code unit, which is the lexicographic order of the library.
\<close>

definition is_js_space :: "char \<Rightarrow> bool" where
  "is_js_space c = ((of_char c :: nat) \<in> {9, 10, 11, 12, 13, 32, 160})"

definition js_trim :: "string \<Rightarrow> string" where
  "js_trim s = rev (dropWhile is_js_space (rev (dropWhile is_js_space s)))"

text \<open>\<open>toUpperCase\<close> and \<open>toLowerCase\<close>; the former on ASCII letters only.\<close>

definition upper_char :: "char \<Rightarrow> char" where
  "upper_char c = (let n = (of_char c :: nat) in if 97 \<le> n \<and> n \<le> 122 then char_of (n - 32) else c)"

definition lower_char :: "char \<Rightarrow> char" where
  "lower_char c = (let n = (of_char c :: nat) in
     if 65 \<le> n \<and> n \<le> 90 \<or> 192 \<le> n \<and> n \<le> 222 \<and> n \<noteq> 215 then char_of (n + 32) else c)"

definition js_lower :: "string \<Rightarrow> string" where
  "js_lower s = map lower_char s"

fun join_strings :: "string \<Rightarrow> string list \<Rightarrow> string" where
  "join_strings sep [] = []"
| "join_strings sep [x] = x"
| "join_strings sep (x # y # ys) = x @ sep @ join_strings sep (y # ys)"

fun starts_with :: "string \<Rightarrow> string \<Rightarrow> bool" where
  "starts_with [] s = True"
| "starts_with (c # cs) [] = False"
| "starts_with (c # cs) (d # ds) = (c = d \<and> starts_with cs ds)"

fun str_includes :: "string \<Rightarrow> string \<Rightarrow> bool" where
  "str_includes p [] = (p = [])"
| "str_includes p (d # ds) = (starts_with p (d # ds) \<or> str_includes p ds)"

text \<open>The regular expression \<open>/\bword\b/i\<close>: an occurrence of the word, in any case, with no
  word character before or after it. \<open>inWord\<close> tells whether the preceding character is one.\<close>

definition is_word_char :: "char \<Rightarrow> bool" where
  "is_word_char c = (let n = (of_char c :: nat) in
     48 \<le> n \<and> n \<le> 57 \<or> 65 \<le> n \<and> n \<le> 90 \<or> n = 95 \<or> 97 \<le> n \<and> n \<le> 122)"

definition word_boundary_after :: "string \<Rightarrow> bool" where
  "word_boundary_after s = (case s of [] \<Rightarrow> True | c # _ \<Rightarrow> \<not> is_word_char c)"

fun find_word :: "string \<Rightarrow> bool \<Rightarrow> string \<Rightarrow> bool" where
  "find_word w inWord [] = False"
| "find_word w inWord (c # cs) =
     (\<not> inWord \<and> starts_with w (js_lower (c # cs)) \<and> word_boundary_after (drop (length w) (c # cs))
      \<or> find_word w (is_word_char c) cs)"

definition has_word :: "string \<Rightarrow> string \<Rightarrow> bool" where
  "has_word w s = find_word w False s"

end
