(* ===== verification/BattlefieldGeometry.thy ===== *)
theory BattlefieldGeometry
  imports GameModel JsString
begin

text \<open>
  Positions on a battlefield, \<^verbatim>\<open>utils/battlefield-position.ts\<close>, and the kinds of gameplay
  cards, \<^verbatim>\<open>utils/gameplay-card-kind.ts\<close>. A stored position is in pixels or a ratio of the room
  a card has on its battlefield; the functions convert between stored and rendered positions.
  Sizes and measured coordinates are finite, hence rationals; a stored position may hold any
  number. What the browser measures of an element is passed as a record.
\<close>

section \<open>Sizes and rounding\<close>

record area_size =
  sz_width :: rat
  sz_height :: rat

record pixel_position =
  px_x :: rat
  px_y :: rat

definition DEFAULT_BATTLEFIELD_SIZE :: area_size where
  "DEFAULT_BATTLEFIELD_SIZE = \<lparr>sz_width = 900, sz_height = 520\<rparr>"

definition DEFAULT_BATTLEFIELD_CARD_SIZE :: area_size where
  "DEFAULT_BATTLEFIELD_CARD_SIZE = \<lparr>sz_width = 116, sz_height = 162\<rparr>"

definition CENTER_BATTLEFIELD_RATIO_POSITION :: game_card_position where
  "CENTER_BATTLEFIELD_RATIO_POSITION = RatioPosition (Fin (1 / 2)) (Fin (1 / 2))"

text \<open>\<open>Math.round\<close>: the nearest integer, halves upwards.\<close>

definition js_round :: "rat \<Rightarrow> int" where
  "js_round q = \<lfloor>q + 1 / 2\<rfloor>"

section \<open>Stored and rendered positions\<close>

fun isRatioPosition :: "game_card_position option \<Rightarrow> bool" where
  "isRatioPosition (Some (RatioPosition x y)) = True"
| "isRatioPosition _ = False"

definition availableAxis :: "rat \<Rightarrow> rat \<Rightarrow> int" where
  "availableAxis containerSize cardSize = max 1 (js_round (containerSize - cardSize))"

definition clampRatio :: "jsnum \<Rightarrow> rat" where
  "clampRatio v = max 0 (min 1 (case v of Fin q \<Rightarrow> q | _ \<Rightarrow> 0))"

definition roundRatio :: "jsnum \<Rightarrow> rat" where
  "roundRatio v = of_int (js_round (clampRatio v * 1000000)) / 1000000"

definition renderedBattlefieldPosition ::
  "game_card_position option \<Rightarrow> area_size \<Rightarrow> area_size \<Rightarrow> (jsnum \<times> jsnum) option" where
  "renderedBattlefieldPosition position battlefieldSize cardSize =
     (case position of
        None \<Rightarrow> None
      | Some (PixelPosition x y) \<Rightarrow>
          if js_le x (num 0) \<and> js_le y (num 0) then None else Some (x, y)
      | Some (RatioPosition x y) \<Rightarrow>
          Some (num (js_round (clampRatio x * of_int (availableAxis (sz_width battlefieldSize) (sz_width cardSize)))),
                num (js_round (clampRatio y * of_int (availableAxis (sz_height battlefieldSize) (sz_height cardSize))))))"

definition ratioBattlefieldPosition ::
  "pixel_position \<Rightarrow> area_size \<Rightarrow> area_size \<Rightarrow> game_card_position" where
  "ratioBattlefieldPosition position battlefieldSize cardSize =
     RatioPosition
       (Fin (roundRatio (Fin (px_x position / of_int (availableAxis (sz_width battlefieldSize) (sz_width cardSize))))))
       (Fin (roundRatio (Fin (px_y position / of_int (availableAxis (sz_height battlefieldSize) (sz_height cardSize))))))"

text \<open>\<open>===\<close> on numbers: \<open>NaN\<close> differs from itself.\<close>

definition js_same :: "jsnum \<Rightarrow> jsnum \<Rightarrow> bool" where
  "js_same a b \<longleftrightarrow> a = b \<and> a \<noteq> NaN"

definition sameBattlefieldPosition :: "game_card_position \<Rightarrow> game_card_position \<Rightarrow> bool" where
  "sameBattlefieldPosition left right \<longleftrightarrow>
     js_same (pos_x left) (pos_x right) \<and> js_same (pos_y left) (pos_y right) \<and>
     isRatioPosition (Some left) = isRatioPosition (Some right)"

section \<open>Measured elements\<close>

record card_element =
  mel_instanceId :: string
  mel_boundsWidth :: rat
  mel_boundsHeight :: rat
  mel_offsetWidth :: rat
  mel_offsetHeight :: rat

text \<open>The card elements of a battlefield (\<open>None\<close> when there is no battlefield) and its probe.\<close>

definition measuredBattlefieldCardSize ::
  "(card_element list \<times> card_element option) option \<Rightarrow> string option \<Rightarrow> area_size" where
  "measuredBattlefieldCardSize battlefield instanceId =
     (let cards = (case battlefield of None \<Rightarrow> [] | Some (cs, _) \<Rightarrow> cs);
          probe = (case battlefield of None \<Rightarrow> None | Some (_, p) \<Rightarrow> p);
          found = (case List.find (\<lambda>c. Some (mel_instanceId c) = instanceId) cards of
              Some c \<Rightarrow> Some c
            | None \<Rightarrow> (case cards of c # _ \<Rightarrow> Some c | [] \<Rightarrow> probe))
      in case found of
           None \<Rightarrow> DEFAULT_BATTLEFIELD_CARD_SIZE
         | Some c \<Rightarrow>
             if mel_boundsWidth c > 0 \<and> mel_boundsHeight c > 0
             then \<lparr>sz_width = of_int (max 1 (js_round
                     (if mel_offsetWidth c \<noteq> 0 then mel_offsetWidth c else mel_boundsWidth c))),
                   sz_height = of_int (max 1 (js_round
                     (if mel_offsetHeight c \<noteq> 0 then mel_offsetHeight c else mel_boundsHeight c)))\<rparr>
             else DEFAULT_BATTLEFIELD_CARD_SIZE)"

record battlefield_element =
  bel_verticallyInverted :: bool
  bel_clientHeight :: rat
  bel_boundsHeight :: rat

definition verticallyReflectedBattlefieldPosition ::
  "battlefield_element \<Rightarrow> pixel_position \<Rightarrow> rat \<Rightarrow> pixel_position" where
  "verticallyReflectedBattlefieldPosition battlefield position cardHeight =
     (if \<not> bel_verticallyInverted battlefield then position
      else
        let battlefieldHeight = (if bel_clientHeight battlefield \<noteq> 0 then bel_clientHeight battlefield
              else bel_boundsHeight battlefield)
        in if battlefieldHeight \<le> 0 then position
           else position\<lparr>px_y := of_int (max 0 (js_round (battlefieldHeight - cardHeight - px_y position)))\<rparr>)"

definition logicalBattlefieldPositionForElement ::
  "battlefield_element \<Rightarrow> pixel_position \<Rightarrow> rat \<Rightarrow> pixel_position" where
  "logicalBattlefieldPositionForElement battlefield renderedPosition cardHeight =
     verticallyReflectedBattlefieldPosition battlefield renderedPosition cardHeight"

definition renderedBattlefieldPositionForElement ::
  "battlefield_element \<Rightarrow> pixel_position \<Rightarrow> rat \<Rightarrow> pixel_position" where
  "renderedBattlefieldPositionForElement battlefield logicalPosition cardHeight =
     verticallyReflectedBattlefieldPosition battlefield logicalPosition cardHeight"

section \<open>Kinds of gameplay cards\<close>

datatype gameplay_card_kind = MonarchKind | InitiativeKind | EmblemKind | DungeonKind

definition OFFICIAL_DUNGEON_CARD_NAMES :: "string list" where
  "OFFICIAL_DUNGEON_CARD_NAMES = [''dungeon of the mad mage'', ''lost mine of phandelver'',
     ''the undercity'', ''tomb of annihilation'']"

definition THE_RING_SCRYFALL_ID :: string where
  "THE_RING_SCRYFALL_ID = ''7215460e-8c06-47d0-94e5-d1832d0218af''"

definition THE_RING_CARD_NAMES :: "string list" where
  "THE_RING_CARD_NAMES = [''the ring'', ''the ring // the ring tempts you'']"

text \<open>\<open>field?.trim().toLowerCase() ?? ''\<close>, for a field that may be missing or null.\<close>

definition normalizedField :: "string option option \<Rightarrow> string" where
  "normalizedField field =
     (case field of Some (Some s) \<Rightarrow> js_lower (js_trim s) | _ \<Rightarrow> [])"

definition isTheRingCard :: "game_card_instance option \<Rightarrow> bool" where
  "isTheRingCard crd =
     (case crd of
        None \<Rightarrow> False
      | Some c \<Rightarrow> normalizedField (Some (card_scryfallId c)) = THE_RING_SCRYFALL_ID \<or>
                  js_lower (js_trim (card_name c)) \<in> set THE_RING_CARD_NAMES)"

definition isEmblemCard :: "game_card_instance option \<Rightarrow> bool" where
  "isEmblemCard crd =
     (if isTheRingCard crd then False
      else case crd of
        None \<Rightarrow> False
      | Some c \<Rightarrow> normalizedField (card_layout c) = ''emblem'' \<or>
                  normalizedField (card_typeLine c) = ''emblem'' \<or>
                  starts_with ''emblem '' (normalizedField (card_typeLine c)))"

definition isDungeonCard :: "game_card_instance option \<Rightarrow> bool" where
  "isDungeonCard crd =
     (case crd of
        None \<Rightarrow> False
      | Some c \<Rightarrow> normalizedField (card_layout c) = ''dungeon'' \<or>
                  normalizedField (card_typeLine c) = ''dungeon'' \<or>
                  starts_with ''dungeon '' (normalizedField (card_typeLine c)) \<or>
                  js_lower (js_trim (card_name c)) \<in> set OFFICIAL_DUNGEON_CARD_NAMES)"

definition isDayNightCard :: "game_card_instance option \<Rightarrow> bool" where
  "isDayNightCard crd =
     (case crd of
        None \<Rightarrow> False
      | Some c \<Rightarrow> js_trim (card_name c) = ''Day // Night'' \<and>
                  normalizedField (card_layout c) = ''double_faced_token'')"

definition isMonarchCard :: "game_card_instance option \<Rightarrow> bool" where
  "isMonarchCard crd = (case crd of None \<Rightarrow> False | Some c \<Rightarrow> normalizedField (card_layout c) = ''monarch'')"

definition isInitiativeCard :: "game_card_instance option \<Rightarrow> bool" where
  "isInitiativeCard crd = (case crd of None \<Rightarrow> False | Some c \<Rightarrow> normalizedField (card_layout c) = ''initiative'')"

definition gameplayCardKind :: "game_card_instance option \<Rightarrow> gameplay_card_kind option" where
  "gameplayCardKind crd =
     (if isMonarchCard crd then Some MonarchKind
      else if isInitiativeCard crd then Some InitiativeKind
      else if isEmblemCard crd then Some EmblemKind
      else if isDungeonCard crd then Some DungeonKind else None)"

definition isGameplayCard :: "game_card_instance option \<Rightarrow> bool" where
  "isGameplayCard crd \<longleftrightarrow> gameplayCardKind crd \<noteq> None"

definition isGameplayCardTapLocked :: "game_card_instance option \<Rightarrow> bool" where
  "isGameplayCardTapLocked crd \<longleftrightarrow> isGameplayCard crd \<or> isDayNightCard crd"

definition isBattlefieldMechanicOverlayCard :: "game_card_instance option \<Rightarrow> bool" where
  "isBattlefieldMechanicOverlayCard crd \<longleftrightarrow>
     isDayNightCard crd \<or> isMonarchCard crd \<or> isInitiativeCard crd \<or> isEmblemCard crd"

section \<open>Lemmas\<close>

lemma js_round_of_int [simp]: "js_round (of_int i) = i"
  by (simp add: js_round_def floor_eq_iff)

lemma js_round_unique: "\<bar>q - of_int i\<bar> < 1 / 2 \<Longrightarrow> js_round q = i"
  unfolding js_round_def floor_eq_iff abs_less_iff by (intro conjI; linarith)

lemma js_round_error: "\<bar>of_int (js_round q) - q\<bar> \<le> 1 / 2"
  using floor_correct [of "q + 1 / 2"] unfolding js_round_def abs_le_iff of_int_add of_int_1
  by (intro conjI; linarith)

lemma scaled_error:
  fixes r q m :: rat
  assumes "\<bar>r - q * m\<bar> \<le> e" and "0 < m"
  shows "\<bar>r / m - q\<bar> \<le> e / m"
proof -
  have "r / m - q = (r - q * m) / m" using assms(2) by (simp add: field_simps)
  then have "\<bar>r / m - q\<bar> = \<bar>r - q * m\<bar> / m" using assms(2) by (simp add: abs_divide)
  then show ?thesis using assms by (simp add: divide_right_mono)
qed

lemma scaled_abs:
  fixes r q m :: rat
  shows "0 < m \<Longrightarrow> \<bar>r * m - q\<bar> = \<bar>r - q / m\<bar> * m"
  using abs_mult [of "r - q / m" m] by (simp add: left_diff_distrib)

lemma js_round_mono: "p \<le> q \<Longrightarrow> js_round p \<le> js_round q"
  by (simp add: js_round_def floor_mono)

lemma clampRatio_bounds: "0 \<le> clampRatio v" "clampRatio v \<le> 1"
  by (simp_all add: clampRatio_def)

lemma clampRatio_Fin: "0 \<le> q \<Longrightarrow> q \<le> 1 \<Longrightarrow> clampRatio (Fin q) = q"
  by (simp add: clampRatio_def)

lemma availableAxis_pos: "1 \<le> availableAxis c k"
  by (simp add: availableAxis_def)

lemma roundRatio_bounds: "0 \<le> roundRatio v" "roundRatio v \<le> 1"
proof -
  have "js_round (of_int 0) \<le> js_round (clampRatio v * 1000000)"
    "js_round (clampRatio v * 1000000) \<le> js_round (of_int 1000000)"
    using clampRatio_bounds [of v] by (auto intro!: js_round_mono)
  then have "0 \<le> js_round (clampRatio v * 1000000)" "js_round (clampRatio v * 1000000) \<le> 1000000"
    by (simp_all only: js_round_of_int)
  then show "0 \<le> roundRatio v" "roundRatio v \<le> 1"
    by (simp_all add: roundRatio_def)
qed

text \<open>One axis of the round trip: a whole pixel survives being stored as a ratio.\<close>

lemma axis_roundtrip:
  assumes "0 \<le> i" and "i \<le> a" and "1 \<le> a" and "a < 1000000"
  shows "js_round (clampRatio (Fin (roundRatio (Fin (of_int i / of_int a)))) * of_int a) = i"
proof (rule js_round_unique)
  let ?q = "of_int i / of_int a :: rat"
  have a: "(1 :: rat) \<le> of_int a" "of_int a < (1000000 :: rat)" using assms(3,4) by simp_all
  have q: "0 \<le> ?q" "?q \<le> 1" using assms a by (simp_all add: divide_le_eq_1)
  have "\<bar>of_int (js_round (?q * 1000000)) - ?q * 1000000\<bar> \<le> 1 / 2" by (rule js_round_error)
  then have err: "\<bar>roundRatio (Fin ?q) - ?q\<bar> \<le> 1 / 2 / 1000000"
    unfolding roundRatio_def clampRatio_Fin [OF q] by (rule scaled_error) simp
  have "\<bar>roundRatio (Fin ?q) * of_int a - of_int i\<bar> = \<bar>roundRatio (Fin ?q) - ?q\<bar> * of_int a"
    by (rule scaled_abs) (use a in simp)
  also have "\<dots> \<le> 1 / 2000000 * of_int a"
    using err a by (intro mult_right_mono) simp_all
  also have "\<dots> < 1 / 2" using a by simp
  finally show "\<bar>clampRatio (Fin (roundRatio (Fin ?q))) * of_int a - of_int i\<bar> < 1 / 2"
    using clampRatio_Fin [OF roundRatio_bounds, of "Fin ?q"] by simp
qed

section \<open>Properties\<close>

text \<open>C40: a position in whole pixels within the room a card has is recovered exactly after being
  stored as a ratio with six decimals and rendered again, on battlefields of less than a
  million pixels.\<close>

theorem battlefield_position_roundtrip:
  assumes "0 \<le> i" and "i \<le> availableAxis (sz_width field) (sz_width crd)"
    and "0 \<le> j" and "j \<le> availableAxis (sz_height field) (sz_height crd)"
    and "availableAxis (sz_width field) (sz_width crd) < 1000000"
    and "availableAxis (sz_height field) (sz_height crd) < 1000000"
  shows "renderedBattlefieldPosition
      (Some (ratioBattlefieldPosition \<lparr>px_x = of_int i, px_y = of_int j\<rparr> field crd)) field crd =
    Some (num i, num j)"
  using assms
  by (simp add: renderedBattlefieldPosition_def ratioBattlefieldPosition_def axis_roundtrip availableAxis_pos)

theorem battlefield_position_roundtrip_witness:
  "renderedBattlefieldPosition
      (Some (ratioBattlefieldPosition \<lparr>px_x = of_int 333, px_y = of_int 77\<rparr>
         DEFAULT_BATTLEFIELD_SIZE DEFAULT_BATTLEFIELD_CARD_SIZE))
      DEFAULT_BATTLEFIELD_SIZE DEFAULT_BATTLEFIELD_CARD_SIZE = Some (num 333, num 77)"
proof -
  have "availableAxis 900 116 = 784" "availableAxis 520 162 = 358"
    using js_round_of_int [of 784] js_round_of_int [of 358] by (simp_all add: availableAxis_def)
  then show ?thesis
    by (intro battlefield_position_roundtrip)
      (simp_all add: DEFAULT_BATTLEFIELD_SIZE_def DEFAULT_BATTLEFIELD_CARD_SIZE_def)
qed

text \<open>A position stored as a ratio, whatever numbers it holds, is rendered inside the
  battlefield: between zero and the room the card has on each axis.\<close>

theorem rendered_ratio_in_bounds:
  "\<exists>i j. renderedBattlefieldPosition (Some (RatioPosition x y)) field crd = Some (num i, num j) \<and>
     0 \<le> i \<and> i \<le> availableAxis (sz_width field) (sz_width crd) \<and>
     0 \<le> j \<and> j \<le> availableAxis (sz_height field) (sz_height crd)"
proof -
  have axis: "0 \<le> js_round (clampRatio v * of_int a) \<and> js_round (clampRatio v * of_int a) \<le> a"
    if "1 \<le> a" for v and a :: int
  proof -
    have "clampRatio v * of_int a \<le> of_int a"
      using clampRatio_bounds [of v] that by (simp add: mult_left_le_one_le)
    moreover have "of_int 0 \<le> clampRatio v * of_int a" using clampRatio_bounds [of v] that by simp
    ultimately have "js_round (of_int 0) \<le> js_round (clampRatio v * of_int a)"
      "js_round (clampRatio v * of_int a) \<le> js_round (of_int a)"
      by (simp_all only: js_round_mono)
    then show ?thesis by (simp only: js_round_of_int)
  qed
  show ?thesis using axis [OF availableAxis_pos] by (simp add: renderedBattlefieldPosition_def)
qed

text \<open>Converting a rendered position of an upside-down battlefield to a stored one and back
  is the identity for a card that lies within the battlefield at whole pixels.\<close>

theorem reflection_roundtrip:
  assumes "px_y pos = of_int j" and "cardHeight = of_int k" and "bel_clientHeight field = of_int h"
    and "0 < h" and "0 \<le> j" and "j + k \<le> h"
  shows "renderedBattlefieldPositionForElement field
     (logicalBattlefieldPositionForElement field pos cardHeight) cardHeight = pos"
proof -
  have "js_round (of_int h - of_int k - of_int j) = h - k - j" for j
    using js_round_of_int [of "h - k - j"] by simp
  with assms show ?thesis
    by (simp add: renderedBattlefieldPositionForElement_def logicalBattlefieldPositionForElement_def
        verticallyReflectedBattlefieldPosition_def Let_def)
qed

theorem reflection_roundtrip_witness:
  "renderedBattlefieldPositionForElement
     \<lparr>bel_verticallyInverted = True, bel_clientHeight = of_int 520, bel_boundsHeight = 0\<rparr>
     (logicalBattlefieldPositionForElement
       \<lparr>bel_verticallyInverted = True, bel_clientHeight = of_int 520, bel_boundsHeight = 0\<rparr>
       \<lparr>px_x = 3, px_y = of_int 20\<rparr> (of_int 162)) (of_int 162) = \<lparr>px_x = 3, px_y = of_int 20\<rparr>"
  by (rule reflection_roundtrip [where j = 20 and k = 162 and h = 520]) simp_all

text \<open>Outside the battlefield the reflection is not its own inverse: a card that overflows the
  lower edge comes back on the edge.\<close>

lemma reflection_not_involutive:
  "renderedBattlefieldPositionForElement
     \<lparr>bel_verticallyInverted = True, bel_clientHeight = of_int 520, bel_boundsHeight = 0\<rparr>
     (logicalBattlefieldPositionForElement
       \<lparr>bel_verticallyInverted = True, bel_clientHeight = of_int 520, bel_boundsHeight = 0\<rparr>
       \<lparr>px_x = 3, px_y = of_int 400\<rparr> (of_int 162)) (of_int 162) = \<lparr>px_x = 3, px_y = of_int 358\<rparr>"
proof -
  have "js_round (520 - 162 - 400) = - 42" "js_round (520 - 162) = 358"
    using js_round_of_int [of "- 42"] js_round_of_int [of 358] by simp_all
  then show ?thesis
    by (simp add: renderedBattlefieldPositionForElement_def logicalBattlefieldPositionForElement_def
        verticallyReflectedBattlefieldPosition_def Let_def)
qed

end
