(* ===== verification/PatchModel.thy ===== *)
theory PatchModel
  imports GameModel
begin

text \<open>
  The realtime patch protocol of \<^verbatim>\<open>core/models/game-realtime.model.ts\<close>: the operations a
  \<^verbatim>\<open>game_patch\<close> message carries, the message itself, and the version gate
  \<open>getGamePatchDecision\<close>. The union \<open>GameSnapshotPatchOperation\<close> has 47 alternatives; it
  is kept as three datatypes, operations on the cards of a zone, on a player (and the counters)
  and on the rest of the table, and a constructor for an operation whose \<open>op\<close> the client does not know.
\<close>

section \<open>Operations on cards and zones\<close>

record zone_ref =
  zr_playerId :: string
  zr_zone :: game_zone_name

record zone_target =
  zt_playerId :: string
  zt_zone :: game_zone_name
  zt_index :: "jsnum option"

record card_position_entry =
  cp_instanceId :: string
  cp_position :: game_card_position

record card_move_op =
  mv_instanceId :: string
  mv_from :: zone_ref
  mv_to :: zone_target
  mv_card :: "game_card_instance option"
  mv_zoneCounts :: "game_zone_counts option"

record card_remove_op =
  rmv_playerId :: string
  rmv_zone :: game_zone_name
  rmv_instanceId :: string
  rmv_zoneCounts :: "game_zone_counts option"

record card_state_fields =
  cs_tapped :: "bool option"
  cs_rotation :: "jsnum option"
  cs_faceDown :: "bool option"
  cs_hidden :: "bool option"
  cs_revealedTo :: "string list option"

record card_state_op = card_state_fields +
  cs_counters :: "(string \<rightharpoonup> jsnum) option"
  cs_dungeonMarker :: "dungeon_marker option option"

record card_stats_op =
  cst_power :: "card_stat_value option"
  cst_toughness :: "card_stat_value option"
  cst_loyalty :: "card_stat_value option"
  cst_defense :: "card_stat_value option"
  cst_saga :: "jsnum option option"
  cst_faceRuntimeStats :: "card_face_runtime_stats list option"

record card_state_entry =
  ce_instanceId :: string
  ce_fields :: card_state_fields

text \<open>The leading arguments of an operation on one card are player, zone and instance id.\<close>

datatype card_zone_op =
    CardPositionSet string game_zone_name string game_card_position
  | CardsPositionSet string game_zone_name "card_position_entry list"
  | CardMove card_move_op
  | CardRemove card_remove_op
  | CardStateSet string game_zone_name string card_state_op
  | CardProjectionSet string game_zone_name string game_card_instance
  | CardCountersSet string game_zone_name string "(string \<rightharpoonup> jsnum) option"
  | CardStatsSet string game_zone_name string card_stats_op
  | CardsStateSet string game_zone_name "card_state_entry list"
  | CardCreate string game_zone_name game_card_instance "jsnum option"
  | ZoneCountsSet string game_zone_counts
  | ZoneVisibleSet string game_zone_name "game_card_instance list"

section \<open>Operations on players, relations and the table\<close>

datatype player_op =
    GameCountersSet string "string \<rightharpoonup> jsnum"
  | PlayerLifeSet string jsnum
  | PlayerCountersSet string "string \<rightharpoonup> jsnum"
  | PlayerCommanderDamageSet string "string \<rightharpoonup> jsnum"
  | PlayerSleevesSet string string
  | PlayerBackgroundSet string string
  | PlayerLibraryVisibilitySet string "bool option" "string list option"
  | PlayerStatusSet string "player_status option" "string option option"
  | PlayerPresenceSet string bool

datatype table_op =
    StackItemAdd game_stack_item
  | StackItemRemove string
  | StackSet "game_stack_item list"
  | ArrowAdd game_arrow
  | ArrowRemove string
  | ArrowsSet "game_arrow list"
  | AttachmentAdd game_attachment
  | AttachmentRemove string
  | AttachmentsSet "game_attachment list"
  | BattlefieldStackAdd game_battlefield_stack
  | BattlefieldStackRemove string
  | BattlefieldStacksSet "game_battlefield_stack list"
  | RematchSet "rematch_state option"
  | SpecialEntityAdd game_special_entity
  | SpecialEntityUpdate string "string \<rightharpoonup> json" "game_special_entity option"
  | SpecialEntityRemove string
  | SpecialEntitiesSet "game_special_entity list"
  | ChatAppend "chat_message list"
  | ChatMessageSet chat_message
  | EventLogAppend "game_log_entry list"
  | TurnSet game_turn
  | GamePhaseSet game_phase
  | GameStatusSet string "game_phase option"
  | TimerSet "snapshot_timer option"
  | DisconnectVoteSet "disconnect_votes option" "disconnect_votes option"

text \<open>
  \<open>DisconnectVoteSet direct data\<close> carries the two places where the reducer looks for the
  votes: the field of the operation and the field of its \<open>data\<close> object.
\<close>

datatype patch_op = CardZoneOp card_zone_op | PlayerOp player_op | TableOp table_op | UnknownOp string

section \<open>The patch message and its version gate\<close>

record game_event =
  ev_id :: string
  ev_type :: string
  ev_payload :: json
  ev_createdBy :: "string option"
  ev_createdAt :: string

record game_patch =
  gp_gameId :: string
  gp_baseVersion :: int
  gp_version :: int
  gp_operations :: "patch_op list"
  gp_event :: "game_event option"
  gp_clientActionId :: "string option"

datatype patch_decision = DecideApply | DecideIgnore | DecideResync

definition getGamePatchDecision :: "int \<Rightarrow> int \<Rightarrow> int \<Rightarrow> patch_decision" where
  "getGamePatchDecision snapshotVersion baseVersion version =
     (if version \<le> snapshotVersion then DecideIgnore
      else if baseVersion \<noteq> snapshotVersion then DecideResync
      else if version \<noteq> snapshotVersion + 1 then DecideResync
      else DecideApply)"

lemma decision_apply_iff:
  "getGamePatchDecision v b w = DecideApply \<longleftrightarrow> b = v \<and> w = v + 1"
  by (auto simp: getGamePatchDecision_def)

lemma decision_ignore_iff: "getGamePatchDecision v b w = DecideIgnore \<longleftrightarrow> w \<le> v"
  by (auto simp: getGamePatchDecision_def)

end
