(* ===== verification/JsObject.thy ===== *)
theory JsObject
  imports JsString "HOL-Library.AList"
begin

text \<open>
  JavaScript objects used as dictionaries, and the array idioms of the stores built on them.
  An object is an association list in the order its own properties were created. Assignment
  replaces the value of a key in place or appends the key; \<open>Object.keys\<close>, \<open>Object.values\<close> and
  \<open>Object.entries\<close> list the integer keys first, in ascending order, then the others in creation
  order. Properties inherited from \<open>Object.prototype\<close> are not modelled.
\<close>

type_synonym 'v obj = "(string \<times> 'v) list"

abbreviation obj_get :: "'v obj \<Rightarrow> string \<Rightarrow> 'v option" where
  "obj_get \<equiv> map_of"

text \<open>\<open>o[k] = v\<close>, also \<open>{ ...o, [k]: v }\<close>.\<close>

abbreviation obj_set :: "string \<Rightarrow> 'v \<Rightarrow> 'v obj \<Rightarrow> 'v obj" where
  "obj_set \<equiv> AList.update"

text \<open>\<open>omitKey(o, k)\<close>, and \<open>delete o[k]\<close> for the keys that fail a test.\<close>

definition omitKey :: "'v obj \<Rightarrow> string \<Rightarrow> 'v obj" where
  "omitKey ob key = filter (\<lambda>(k, _). k \<noteq> key) ob"

definition fromEntries :: "(string \<times> 'v) list \<Rightarrow> 'v obj" where
  "fromEntries es = foldl (\<lambda>ob (k, v). obj_set k v ob) [] es"

section \<open>Optional values\<close>

text \<open>
  \<open>v ?? w\<close>, with a default and with another optional value, and the value of an optional
  nullable field, \<open>v ?? null\<close>.
\<close>

definition or_default :: "'a option \<Rightarrow> 'a \<Rightarrow> 'a" where
  "or_default v d = (case v of None \<Rightarrow> d | Some x \<Rightarrow> x)"

definition or_else :: "'a option \<Rightarrow> 'a option \<Rightarrow> 'a option" where
  "or_else v w = (case v of None \<Rightarrow> w | Some x \<Rightarrow> Some x)"

definition non_null :: "'a option option \<Rightarrow> 'a option" where
  "non_null v = (case v of Some (Some x) \<Rightarrow> Some x | _ \<Rightarrow> None)"

lemma opt_simps [simp]:
  "or_default None d = d" "or_default (Some x) d = x"
  "or_else None w = w" "or_else (Some x) w = Some x" "or_else v None = v"
  "non_null None = None" "non_null (Some v) = v"
  by (simp_all add: or_default_def or_else_def non_null_def split: option.split)

section \<open>Order of the keys\<close>

definition is_digit :: "char \<Rightarrow> bool" where
  "is_digit c = (let n = (of_char c :: nat) in 48 \<le> n \<and> n \<le> 57)"

definition digits_value :: "string \<Rightarrow> nat" where
  "digits_value s = foldl (\<lambda>acc c. 10 * acc + (of_char c - 48)) 0 s"

text \<open>An integer key is a canonical numeral below $2^{32} - 1$.\<close>

definition is_index_key :: "string \<Rightarrow> bool" where
  "is_index_key s = (s \<noteq> [] \<and> list_all is_digit s \<and> (hd s = CHR ''0'' \<longrightarrow> length s = 1) \<and>
     digits_value s < 4294967295)"

definition objectEntries :: "'v obj \<Rightarrow> (string \<times> 'v) list" where
  "objectEntries ob =
     sort_key (\<lambda>(k, _). digits_value k) (filter (\<lambda>(k, _). is_index_key k) ob)
     @ filter (\<lambda>(k, _). \<not> is_index_key k) ob"

definition objectKeys :: "'v obj \<Rightarrow> string list" where
  "objectKeys ob = map fst (objectEntries ob)"

definition objectValues :: "'v obj \<Rightarrow> 'v list" where
  "objectValues ob = map snd (objectEntries ob)"

text \<open>An object has each key once.\<close>

definition wf_obj :: "'v obj \<Rightarrow> bool" where
  "wf_obj ob = distinct (map fst ob)"

section \<open>Sets and arrays of strings\<close>

text \<open>\<open>[...new Set(xs)]\<close>: the elements at their first occurrence.\<close>

definition unique :: "'a list \<Rightarrow> 'a list" where
  "unique xs = rev (remdups (rev xs))"

text \<open>\<open>xs.splice(i, 0, ...ys)\<close> on a copy.\<close>

definition insertAt :: "'a list \<Rightarrow> nat \<Rightarrow> 'a list \<Rightarrow> 'a list" where
  "insertAt items index inserted = take index items @ inserted @ drop index items"

definition removeIds :: "string list \<Rightarrow> string list \<Rightarrow> string list" where
  "removeIds items ids = filter (\<lambda>item. item \<notin> set ids) items"

text \<open>The multiset comparison of \<open>sameStringSet\<close>, with its counting map as an object.\<close>

definition count_up :: "int \<Rightarrow> string \<Rightarrow> int obj \<Rightarrow> int obj" where
  "count_up d item counts =
     obj_set item ((case obj_get counts item of None \<Rightarrow> 0 | Some n \<Rightarrow> n) + d) counts"

definition sameStringSet :: "string list \<Rightarrow> string list \<Rightarrow> bool" where
  "sameStringSet left right =
     (length left = length right \<and>
      (let counts = foldl (\<lambda>m i. count_up 1 i m) [] left;
           counts' = foldl (\<lambda>m i. count_up (- 1) i m) counts right
       in list_all (\<lambda>(_, n). n = 0) counts'))"

section \<open>Splitting at a separator\<close>

text \<open>\<open>s.split(c)\<close> for a one-character separator.\<close>

fun split_at :: "char \<Rightarrow> string \<Rightarrow> string list" where
  "split_at c [] = [[]]"
| "split_at c (d # ds) =
     (if d = c then [] # split_at c ds
      else case split_at c ds of
        [] \<Rightarrow> [[d]]
      | w # ws \<Rightarrow> (d # w) # ws)"

section \<open>Lemmas\<close>

lemma obj_get_set [simp]: "obj_get (obj_set k v ob) k' = (if k' = k then Some v else obj_get ob k')"
  by (simp add: update_conv')

lemma wf_obj_Nil [simp]: "wf_obj []"
  by (simp add: wf_obj_def)

lemma wf_obj_set [simp]: "wf_obj ob \<Longrightarrow> wf_obj (obj_set k v ob)"
  by (simp add: wf_obj_def distinct_update)

lemma wf_obj_filter [simp]: "wf_obj ob \<Longrightarrow> wf_obj (filter P ob)"
  by (simp add: wf_obj_def distinct_map_filter)

lemma wf_omitKey [simp]: "wf_obj ob \<Longrightarrow> wf_obj (omitKey ob k)"
  by (simp add: omitKey_def)

lemma obj_get_omitKey [simp]: "obj_get (omitKey ob k) k' = (if k' = k then None else obj_get ob k')"
  by (induction ob) (auto simp: omitKey_def)

lemma fst_set_obj_set [simp]: "fst ` set (obj_set k v ob) = insert k (fst ` set ob)"
  by (simp add: dom_update)

lemma wf_foldl_set: "wf_obj ob \<Longrightarrow> wf_obj (foldl (\<lambda>ob (k, v). obj_set k v ob) ob es)"
  by (induction es arbitrary: ob) (auto split: prod.splits)

lemma wf_fromEntries [simp]: "wf_obj (fromEntries es)"
  by (simp add: fromEntries_def wf_foldl_set)

lemma obj_get_foldl_set:
  "obj_get (foldl (\<lambda>ob (k, v). obj_set k v ob) ob es) k =
     (case map_of (rev es) k of Some v \<Rightarrow> Some v | None \<Rightarrow> obj_get ob k)"
proof (induction es rule: rev_induct)
  case Nil
  then show ?case by simp
next
  case (snoc e es)
  then show ?case by (cases e) auto
qed

lemma obj_get_fromEntries: "obj_get (fromEntries es) k = map_of (rev es) k"
  by (simp add: fromEntries_def obj_get_foldl_set split: option.split)

lemma obj_set_new: "k \<notin> fst ` set ob \<Longrightarrow> obj_set k v ob = ob @ [(k, v)]"
  by (induction ob) auto

lemma fromEntries_distinct: "distinct (map fst es) \<Longrightarrow> fromEntries es = es"
proof (induction es rule: rev_induct)
  case Nil
  then show ?case by (simp add: fromEntries_def)
next
  case (snoc e es)
  obtain k v where e: "e = (k, v)" by (cases e)
  have "fromEntries (es @ [e]) = obj_set k v (fromEntries es)" by (simp add: fromEntries_def e)
  also have "fromEntries es = es" using snoc by simp
  also have "obj_set k v es = es @ [(k, v)]"
    using snoc.prems by (simp add: e obj_set_new)
  finally show ?case by (simp add: e)
qed

lemma mset_objectEntries [simp]: "mset (objectEntries ob) = mset ob"
  by (simp add: objectEntries_def case_prod_unfold)

lemma set_objectEntries [simp]: "set (objectEntries ob) = set ob"
  using mset_objectEntries [of ob] by (metis set_mset_mset)

lemma set_objectKeys [simp]: "set (objectKeys ob) = fst ` set ob"
  by (simp add: objectKeys_def)

lemma distinct_objectKeys [simp]: "wf_obj ob \<Longrightarrow> distinct (objectKeys ob)"
  unfolding wf_obj_def objectKeys_def
  by (metis mset_eq_imp_distinct_iff mset_map mset_objectEntries)

lemma set_objectValues [simp]: "set (objectValues ob) = snd ` set ob"
  by (simp add: objectValues_def)

lemma map_of_objectEntries [simp]: "wf_obj ob \<Longrightarrow> map_of (objectEntries ob) = map_of ob"
  by (metis distinct_objectKeys map_of_eqI mset_objectEntries mset_map objectKeys_def
      set_mset_mset map_of_inject_set set_objectEntries wf_obj_def)

lemma set_unique [simp]: "set (unique xs) = set xs"
  by (simp add: unique_def)

lemma distinct_unique [simp]: "distinct (unique xs)"
  by (simp add: unique_def)

lemma mset_insertAt [simp]: "mset (insertAt xs i ys) = mset xs + mset ys"
  by (metis (no_types, lifting) append_take_drop_id insertAt_def mset_append union_assoc
      union_commute)

lemma set_insertAt [simp]: "set (insertAt xs i ys) = set xs \<union> set ys"
  by (metis mset_insertAt set_mset_mset set_mset_union)

lemma length_insertAt [simp]: "length (insertAt xs i ys) = length xs + length ys"
  by (metis mset_insertAt size_mset size_union)

lemma distinct_insertAt [simp]:
  "distinct (insertAt xs i ys) \<longleftrightarrow> distinct xs \<and> distinct ys \<and> set xs \<inter> set ys = {}"
  by (metis distinct_append mset_append mset_eq_imp_distinct_iff mset_insertAt)

lemma set_removeIds [simp]: "set (removeIds xs ids) = set xs - set ids"
  by (auto simp: removeIds_def)

lemma distinct_removeIds [simp]: "distinct xs \<Longrightarrow> distinct (removeIds xs ids)"
  by (simp add: removeIds_def)

section \<open>The multiset comparison\<close>

text \<open>The count a counting map holds for an item, an absent one counting for zero.\<close>

definition count_of :: "int obj \<Rightarrow> string \<Rightarrow> int" where
  "count_of counts x = (case obj_get counts x of None \<Rightarrow> 0 | Some n \<Rightarrow> n)"

lemma count_of_count_up [simp]:
  "count_of (count_up d i m) x = count_of m x + (if x = i then d else 0)"
  by (simp add: count_of_def count_up_def split: option.split)

lemma count_of_Nil [simp]: "count_of [] x = 0"
  by (simp add: count_of_def)

lemma wf_count_up [simp]: "wf_obj m \<Longrightarrow> wf_obj (count_up d i m)"
  by (simp add: count_up_def)

lemma wf_foldl_count_up: "wf_obj m \<Longrightarrow> wf_obj (foldl (\<lambda>m i. count_up d i m) m xs)"
  by (induction xs arbitrary: m) auto

lemma count_of_foldl:
  "count_of (foldl (\<lambda>m i. count_up d i m) m xs) x = count_of m x + d * int (count (mset xs) x)"
  by (induction xs arbitrary: m) (auto simp: algebra_simps)

lemma all_zero_iff:
  assumes "wf_obj m"
  shows "list_all (\<lambda>(_, n). n = 0) m \<longleftrightarrow> (\<forall>x. count_of m x = 0)"
proof -
  have "count_of m k = n" if "(k, n) \<in> set m" for k n
    using that assms by (simp add: count_of_def wf_obj_def)
  moreover have "count_of m x = 0 \<or> (x, count_of m x) \<in> set m" for x
    by (auto simp: count_of_def dest: map_of_SomeD split: option.split)
  ultimately show ?thesis by (fastforce simp: list_all_iff)
qed

lemma sameStringSet_iff: "sameStringSet xs ys \<longleftrightarrow> mset xs = mset ys"
proof -
  let ?m = "foldl (\<lambda>m i. count_up (- 1) i m) (foldl (\<lambda>m i. count_up 1 i m) [] xs) ys"
  have "wf_obj ?m" by (simp add: wf_foldl_count_up)
  then have "list_all (\<lambda>(_, n). n = 0) ?m \<longleftrightarrow> (\<forall>x. count_of ?m x = 0)" by (rule all_zero_iff)
  also have "\<dots> \<longleftrightarrow> (\<forall>x. count (mset xs) x = count (mset ys) x)"
    by (simp add: count_of_foldl)
  also have "\<dots> \<longleftrightarrow> mset xs = mset ys" by (simp add: multiset_eq_iff)
  finally have "list_all (\<lambda>(_, n). n = 0) ?m \<longleftrightarrow> mset xs = mset ys" .
  moreover have "length xs = length ys" if "mset xs = mset ys"
    using that by (rule mset_eq_length)
  ultimately show ?thesis unfolding sameStringSet_def by (auto simp: Let_def)
qed

end
