(* ===== verification/V2Model.thy ===== *)
theory V2Model
  imports PatchModel JsObject
begin

text \<open>
  The data of the version 2 realtime protocol (\<^verbatim>\<open>core/models/game-v2.model.ts\<close>) and of the
  normalized store built on it (the interfaces of
  \<^verbatim>\<open>state/realtime/game-table-normalized-v2.store.ts\<close>): cards as instances that refer to static
  cards, the bootstrap message, the patch operations and the normalized state.

  Dictionaries whose order the code observes are objects (\<open>'v obj\<close>), the others maps. The
  code casts some strings from the wire to a union (\<open>as GameSnapshot['gamePhase']\<close>); they are
  values of that union here.
\<close>

section \<open>Cards\<close>

record card_token_meta =
  tm_isCopy :: "bool option"
  tm_templateCardKey :: "string option"
  tm_templateCardVersion :: "string option"
  tm_templateScryfallId :: "string option"
  tm_copiedFromInstanceId :: "string option"
  tm_copiedFromCardKey :: "string option"
  tm_copiedValues :: "json option"
  tm_mutableOverrides :: "json option"
  tm_flags :: "(string \<rightharpoonup> bool) option"

record v2_instance =
  vi_instanceId :: string
  vi_cardRef :: string
  vi_cardKey :: "string option"
  vi_printId :: "string option option"
  vi_cardVersion :: "string option"
  vi_language :: "string option option"
  vi_viewerVisibility :: "string option option"
  vi_zoneId :: string
  vi_ownerId :: "string option option"
  vi_controllerId :: "string option option"
  vi_hidden :: "bool option"
  vi_faceDown :: "bool option"
  vi_staticCardPending :: "bool option"
  vi_tapped :: "bool option"
  vi_position :: "game_card_position option option"
  vi_rotation :: "jsnum option option"
  vi_counters :: "(string \<rightharpoonup> jsnum) option"
  vi_power :: "card_stat_value option"
  vi_toughness :: "card_stat_value option"
  vi_loyalty :: "card_stat_value option"
  vi_defense :: "card_stat_value option"
  vi_saga :: "jsnum option option"
  vi_activeFaceIndex :: "jsnum option option"
  vi_faceRuntimeStats :: "card_face_runtime_stats list option"
  vi_dungeonMarker :: "dungeon_marker option option"
  vi_revealedTo :: "string list option"
  vi_revealMarker :: "bool option"
  vi_isToken :: "bool option"
  vi_isTokenCopy :: "bool option"
  vi_isCommander :: "bool option"
  vi_tokenMeta :: "card_token_meta option"

text \<open>An entry of \<open>CardImageUris\<close> may be undefined.\<close>

type_synonym image_uris = "string option obj"

record v2_static_card =
  vc_cardRef :: string
  vc_cardKey :: "string option"
  vc_printId :: "string option option"
  vc_cardVersion :: "string option"
  vc_language :: "string option option"
  vc_viewerVisibility :: "string option option"
  vc_scryfallId :: "string option option"
  vc_name :: "string option option"
  vc_imageUris :: "image_uris option option"
  vc_cardFaces :: "json list option"
  vc_typeLine :: "string option option"
  vc_manaCost :: "string option option"
  vc_colorIdentity :: "string list option"
  vc_defaultPower :: "card_stat_value option"
  vc_defaultToughness :: "card_stat_value option"
  vc_defaultLoyalty :: "card_stat_value option"
  vc_defaultDefense :: "card_stat_value option"
  vc_hasRulings :: "bool option"

record legacy_card =
  lp_instanceId :: string
  lp_cardRef :: "string option"
  lp_cardKey :: "string option"
  lp_printId :: "string option option"
  lp_cardVersion :: "string option"
  lp_language :: "string option option"
  lp_viewerVisibility :: "string option option"
  lp_ownerId :: "string option"
  lp_controllerId :: "string option"
  lp_scryfallId :: "string option"
  lp_name :: "string option"
  lp_imageUris :: "string obj option"
  lp_cardFaces :: "json list option"
  lp_hasRulings :: "bool option"
  lp_typeLine :: "string option option"
  lp_manaCost :: "string option option"
  lp_colorIdentity :: "string list option"
  lp_power :: "card_stat_value option"
  lp_toughness :: "card_stat_value option"
  lp_loyalty :: "card_stat_value option"
  lp_defense :: "card_stat_value option"
  lp_saga :: "jsnum option option"
  lp_defaultPower :: "card_stat_value option"
  lp_defaultToughness :: "card_stat_value option"
  lp_defaultLoyalty :: "card_stat_value option"
  lp_defaultDefense :: "card_stat_value option"
  lp_tapped :: "bool option"
  lp_faceDown :: "bool option"
  lp_activeFaceIndex :: "jsnum option option"
  lp_hidden :: "bool option"
  lp_revealedTo :: "string list option"
  lp_position :: "game_card_position option option"
  lp_rotation :: "jsnum option option"
  lp_counters :: "(string \<rightharpoonup> jsnum) option"
  lp_dungeonMarker :: "dungeon_marker option option"
  lp_zone :: "game_zone_name option"
  lp_isToken :: "bool option"
  lp_isTokenCopy :: "bool option"
  lp_isCommander :: "bool option"
  lp_tokenMeta :: "card_token_meta option"

text \<open>\<open>BootstrapInstanceV2 | LegacyCardPatchPayload\<close>.\<close>

datatype incoming_card = CompactCard v2_instance | LegacyCard legacy_card

record compact_card_ref =
  gc_instanceId :: string
  gc_cardKey :: "string option option"
  gc_printId :: "string option option"
  gc_cardVersion :: "string option option"
  gc_language :: "string option option"
  gc_viewerVisibility :: "string option option"
  gc_name :: "string option option"
  gc_hidden :: "bool option"
  gc_tapped :: "bool option"
  gc_zone :: "game_zone_name option"

record v2_stack_item =
  vk_stackId :: "string option"
  vk_id :: "string option"
  vk_kind :: string
  vk_sourceInstanceId :: "string option option"
  vk_cardRef :: "string option option"
  vk_cardKey :: "string option option"
  vk_controllerId :: "string option option"
  vk_text :: "string option option"
  vk_createdAt :: "string option option"

section \<open>The bootstrap message\<close>

record control_plane =
  cpl_controlPlaneRevision :: int
  cpl_status :: string
  cpl_winnerPlayerId :: "string option"
  cpl_finishedAt :: "string option"
  cpl_finishReason :: "string option"
  cpl_allDisconnectedSince :: "string option"
  cpl_nextLifecycleAt :: "string option"
  cpl_ownerId :: "string option"
  cpl_rematch :: rematch_state

record boot_game =
  bg_id :: string
  bg_status :: string
  bg_controlPlaneRevision :: "int option"
  bg_controlPlane :: "control_plane option"
  bg_winnerPlayerId :: "string option option"
  bg_finishedAt :: "string option option"
  bg_finishReason :: "string option option"
  bg_allDisconnectedSince :: "string option option"
  bg_nextLifecycleAt :: "string option option"
  bg_version :: int
  bg_viewerId :: string
  bg_ownerId :: "string option option"
  bg_gamePhase :: "game_phase option option"
  bg_mulligan :: "game_mulligan_config option option"
  bg_disconnectVotes :: "disconnect_votes option"
  bg_rematch :: "rematch_state option option"
  bg_createdAt :: "string option option"
  bg_updatedAt :: "string option option"

record boot_player =
  bp_playerId :: string
  bp_user :: "json option"
  bp_displayName :: string
  bp_life :: jsnum
  bp_isOnline :: "bool option"
  bp_status :: player_status
  bp_handCount :: jsnum
  bp_zoneIds :: "string list"
  bp_zoneCounts :: game_zone_counts
  bp_commanderDamage :: "string \<rightharpoonup> jsnum"
  bp_counters :: "string \<rightharpoonup> jsnum"
  bp_deckName :: "string option option"
  bp_colorIdentity :: "string list option"
  bp_backgroundName :: "string option option"
  bp_sleevesName :: "string option option"
  bp_playTopLibraryRevealed :: "bool option"
  bp_topLibraryRevealMarker :: "bool option"
  bp_topLibraryRevealedTo :: "string list option"
  bp_revealedHandIndexes :: "int list option"
  bp_mulligan :: "player_mulligan_state option option"

record boot_zone =
  bz_zoneId :: string
  bz_playerId :: string
  bz_name :: game_zone_name
  bz_instanceIds :: "string list"

record boot_relations =
  br_stack :: "v2_stack_item list"
  br_arrows :: "game_arrow list"
  br_attachments :: "game_attachment list"
  br_battlefieldStacks :: "game_battlefield_stack list option"
  br_specialEntities :: "game_special_entity list"

record bootstrap_v2 =
  bv_game :: boot_game
  bv_players :: "boot_player obj"
  bv_zones :: "boot_zone obj"
  bv_instances :: "string \<rightharpoonup> v2_instance"
  bv_zoneCounts :: "string \<rightharpoonup> jsnum"
  bv_sharedCounters :: "(string \<rightharpoonup> (string \<rightharpoonup> jsnum)) option"
  bv_relations :: boot_relations
  bv_turn :: game_turn
  bv_staticCards :: "v2_static_card obj"
  bv_chat :: "chat_message list option"
  bv_eventLog :: "game_log_entry list option"
  bv_chatCursor :: "string option option"
  bv_logCursor :: "string option option"

section \<open>Patch operations\<close>

record cards_move =
  cmv_instanceId :: string
  cmv_fromPlayer :: string
  cmv_fromZone :: game_zone_name
  cmv_toPlayer :: string
  cmv_toZone :: game_zone_name
  cmv_index :: "jsnum option"
  cmv_card :: "incoming_card option"
  cmv_staticCard :: "v2_static_card option"

record card_field_set =
  fs_tapped :: "bool option"
  fs_rotation :: "jsnum option"
  fs_faceDown :: "bool option"
  fs_hidden :: "bool option"
  fs_cardKey :: "string option"
  fs_printId :: "string option"
  fs_cardVersion :: "string option"
  fs_language :: "string option"
  fs_viewerVisibility :: "string option"
  fs_staticCard :: "v2_static_card option"
  fs_controllerId :: "string option"
  fs_revealedTo :: "string list option"
  fs_revealMarker :: "bool option"
  fs_counters :: "(string \<rightharpoonup> jsnum) option"
  fs_dungeonMarker :: "dungeon_marker option option"
  fs_activeFaceIndex :: "jsnum option option"
  fs_position :: "game_card_position option option"
  fs_power :: "card_stat_value option"
  fs_toughness :: "card_stat_value option"
  fs_loyalty :: "card_stat_value option"
  fs_defense :: "card_stat_value option"
  fs_saga :: "jsnum option option"
  fs_faceRuntimeStats :: "card_face_runtime_stats list option"

text \<open>
  The code tests the identity fields of \<^verbatim>\<open>card.field.set\<close> against \<open>undefined\<close> and \<open>null\<close>
  alike, so one level of \<open>option\<close> is enough for them; likewise for the static cards.
\<close>

record mulligan_private_patch =
  mpp_rule :: "mulligan_rule option"
  mpp_firstMulliganFree :: "bool option"
  mpp_mulligansTaken :: "jsnum option"
  mpp_effectiveMulligans :: "jsnum option"
  mpp_drawCount :: "jsnum option"
  mpp_bottomSelectionCount :: "jsnum option"
  mpp_finalHandSize :: "jsnum option"
  mpp_needsBottomSelection :: "bool option"
  mpp_bottomOrderMode :: "bottom_order_mode option"
  mpp_needsScryAfterKeep :: "bool option"
  mpp_canTakeAnotherMulligan :: "bool option"
  mpp_status :: "mulligan_player_status option"
  mpp_ready :: "bool option"
  mpp_handSize :: "jsnum option"
  mpp_cardsToBottom :: "jsnum option"
  mpp_bottomPending :: "bool option"
  mpp_scryPending :: "bool option"

datatype v2_relation =
    RelArrow game_arrow
  | RelAttachment game_attachment
  | RelBattlefieldStack game_battlefield_stack

datatype relation_kind = ArrowKind | AttachmentKind | BattlefieldStackKind

datatype dice_value = DiceNum jsnum | DiceStr string

datatype v2_player_op =
    V2LifeSet string jsnum
  | V2CountersSet string "string \<rightharpoonup> jsnum"
  | V2CommanderDamageSet string "string \<rightharpoonup> jsnum"
  | V2StatusSet string player_status "string option option"
  | V2PresenceSet string bool
  | HandRevealMarkerSet string int bool
  | HandRevealMarkerClear string "int list"
  | LibraryTopMarkerSet string bool
  | LibraryTopAudienceSet string "string list"
  | LibraryVisibilitySet string "bool option" "string list option"
  | PlayTopRevealedSet string bool

datatype v2_card_op =
    FieldSet string game_zone_name string card_field_set
  | CountersPatch string game_zone_name string "string \<rightharpoonup> jsnum"
      "card_stat_value option" "card_stat_value option" "card_face_runtime_stats list option"
  | StateSet string game_zone_name string card_state_op
  | PositionSet string game_zone_name string "game_card_position option"
  | StatsSet string game_zone_name string card_stats_op
  | CountersSet string game_zone_name string "string \<rightharpoonup> jsnum"

text \<open>
  \<^verbatim>\<open>zone.cards.add\<close> carries player, zone, index, cards and static cards; the three ways to
  show the top of a library carry player, cards and static cards, the first with its epoch, the
  third with the audience.
\<close>

datatype v2_zone_op =
    CardsAdd string game_zone_name "jsnum option" "incoming_card list" "v2_static_card obj option"
  | CardsRemove string game_zone_name "string list" "jsnum option list option"
  | CardsMove cards_move
  | CardsBatchMove "cards_move list"
  | ZoneCountSet string game_zone_name jsnum
  | ZoneReordered string game_zone_name "string list"
  | RandomCardSelected string game_zone_name
  | LibraryCountSet string jsnum
  | LibraryTopRevealed string "int option" "incoming_card list" "v2_static_card obj option"
  | LibraryTopViewed string "incoming_card list" "v2_static_card obj option"
  | LibraryRevealedSet string "incoming_card list" "v2_static_card obj option" "string list option"
  | LibraryTopHidden string
  | LibraryTopReordered string "string list"
  | LibraryTopMoved string
  | LibraryShuffled string "int option"
  | V2ZoneCountsSet string game_zone_counts
  | V2ZoneVisibleSet string game_zone_name "legacy_card list"
  | V2CardMove cards_move
  | V2CardRemove string game_zone_name string

datatype v2_table_op =
    StackAdd v2_stack_item
  | StackItemAdd' v2_stack_item
  | StackRemove string
  | StackItemRemove' string
  | RelationAdd v2_relation
  | RelationRemove relation_kind string
  | V2ArrowAdd game_arrow
  | V2ArrowRemove string
  | V2AttachmentAdd game_attachment
  | V2AttachmentRemove string
  | V2BattlefieldStackAdd game_battlefield_stack
  | V2BattlefieldStackRemove string
  | HelperAdd game_special_entity
  | HelperUpdate game_special_entity
  | HelperRemove string
  | ChatMessageAdd chat_message
  | ChatReactionSet string chat_reactions
  | V2ChatAppend "chat_message list"
  | V2ChatMessageSet chat_message
  | V2EventLogAppend "game_log_entry list"

datatype v2_mulligan_op =
    MulliganStatusSet string mulligan_player_status "bool option" "jsnum option" "jsnum option" "jsnum option"
  | MulliganPrivateStateSet string "mulligan_private_patch option" mulligan_private_patch
      "compact_card_ref list option" "compact_card_ref option" "v2_static_card obj option"
  | MulliganHandReplacePrivate string "compact_card_ref list" "v2_static_card obj option"
  | MulliganHandCountSet string jsnum
  | MulliganBottomRequiredSet string jsnum "bottom_order_mode option"
  | MulliganBottomConfirmed string jsnum
  | MulliganScryAvailableSet string bool "compact_card_ref option"
  | MulliganScryConfirmed string
  | MulliganCompleted

datatype v2_game_op =
    VersionAdvance
  | V2GameCountersSet string "string \<rightharpoonup> jsnum"
  | V2TurnSet game_turn
  | DiceResult "string option" "string option" "dice_value option" "dice_value option" "string option"
  | V2PhaseSet game_phase
  | V2GameStatusSet string "game_phase option" "string option option" "string option option"
      "string option option"
  | V2DisconnectVoteSet "disconnect_votes option"
  | V2RematchSet "rematch_state option"

datatype v2_op =
    V2PlayerOp v2_player_op
  | V2CardOp v2_card_op
  | V2ZoneOp v2_zone_op
  | V2TableOp v2_table_op
  | V2MulliganOp v2_mulligan_op
  | V2GameOp v2_game_op
  | V2UnknownOp string

text \<open>
  On the wire the fields of an operation are its own or lie in its \<open>data\<close> object
  (\<open>GameplayPatchV2WireOperation\<close>).
\<close>

datatype v2_wire_op = Direct v2_op | InData v2_op

record patch_envelope =
  pe_gameId :: string
  pe_version :: int
  pe_visibility :: string
  pe_ops :: "v2_wire_op list"
  pe_ackClientActionId :: "string option"

section \<open>The normalized state\<close>

record v2_dice_result =
  dr_playerId :: "string option"
  dr_kind :: "string option"
  dr_result :: dice_value
  dr_createdAt :: "string option"

record v2_game =
  vg_id :: string
  vg_status :: string
  vg_controlPlaneRevision :: int
  vg_winnerPlayerId :: "string option"
  vg_finishedAt :: "string option"
  vg_finishReason :: "string option"
  vg_allDisconnectedSince :: "string option"
  vg_nextLifecycleAt :: "string option"
  vg_viewerId :: string
  vg_ownerId :: "string option"
  vg_version :: int
  vg_gamePhase :: "game_phase option"
  vg_mulligan :: "game_mulligan_config option"
  vg_createdAt :: "string option"
  vg_updatedAt :: "string option"
  vg_lastDiceResult :: "v2_dice_result option"
  vg_disconnectVotes :: disconnect_votes
  vg_rematch :: "rematch_state option"

text \<open>
  \<open>vp_colorIdentity\<close> is always present in a player built from a bootstrap. It is optional
  here because a reveal for a player the state does not know creates an object without it,
  which the projection to a snapshot then rejects.
\<close>

record v2_player =
  vp_playerId :: string
  vp_user :: "json option"
  vp_displayName :: string
  vp_life :: jsnum
  vp_isOnline :: "bool option"
  vp_status :: player_status
  vp_handCount :: jsnum
  vp_zoneCounts :: game_zone_counts
  vp_commanderDamage :: "string \<rightharpoonup> jsnum"
  vp_counters :: "string \<rightharpoonup> jsnum"
  vp_deckName :: "string option"
  vp_colorIdentity :: "string list option"
  vp_backgroundName :: "string option"
  vp_sleevesName :: "string option"
  vp_concededAt :: "string option option"
  vp_mulligan :: "player_mulligan_state option"
  vp_playTopLibraryRevealed :: "bool option"
  vp_topLibraryRevealMarker :: "bool option"
  vp_topLibraryRevealedTo :: "string list option"
  vp_revealedLibraryTo :: "string list option"
  vp_libraryShuffleRevision :: "int option"
  vp_libraryTopRevealEpoch :: "int option"
  vp_revealedHandIndexes :: "int list option"

record v2_relations =
  vr_arrows :: "game_arrow obj"
  vr_attachments :: "game_attachment obj"
  vr_battlefieldStacks :: "game_battlefield_stack obj"
  vr_specialEntities :: "game_special_entity obj"
  vr_arrowsBySource :: "string list obj"
  vr_arrowsByTarget :: "string list obj"
  vr_attachmentsByEquipment :: "string list obj"
  vr_attachmentsByTarget :: "string list obj"
  vr_battlefieldStacksByTop :: "string list obj"
  vr_battlefieldStacksByCard :: "string list obj"

record v2_chat =
  vh_byId :: "chat_message obj"
  vh_order :: "string list"
  vh_cursor :: "string option"

record v2_log =
  vl_byId :: "game_log_entry obj"
  vl_order :: "string list"
  vl_cursor :: "string option"

record v2_stack =
  vt_byId :: "v2_stack_item obj"
  vt_order :: "string list"

type_synonym zone_map = "game_zone_name \<Rightarrow> string list"

type_synonym zone_count_map = "game_zone_name \<Rightarrow> jsnum"

record v2_state =
  v2_game :: v2_game
  v2_players :: "v2_player obj"
  v2_sharedCounters :: "string \<rightharpoonup> (string \<rightharpoonup> jsnum)"
  v2_turn :: game_turn
  v2_instances :: "string \<rightharpoonup> v2_instance"
  v2_zones :: "string \<rightharpoonup> zone_map"
  v2_zoneCounts :: "string \<rightharpoonup> zone_count_map"
  v2_relations :: v2_relations
  v2_stack :: v2_stack
  v2_staticCards :: "v2_static_card obj"
  v2_chat :: v2_chat
  v2_log :: v2_log
  v2_lastAppliedVersion :: int
  v2_pending :: "string \<rightharpoonup> string"

section \<open>Results\<close>

datatype v2_failure = V2VersionGap | V2TargetNotFound | V2InvalidOperation | V2MissingState

datatype v2_op_result = V2Applied v2_state | V2Failed v2_failure

datatype v2_internal_result =
    PatchApplied v2_state
  | PatchIgnored v2_state
  | PatchResync v2_state v2_failure

datatype v2_apply_result =
    StoreApplied v2_state game_snapshot
  | StoreIgnored v2_state game_snapshot
  | StoreResync "v2_state option" v2_failure

end
