(* ===== verification/SnapshotOps.thy ===== *)
theory SnapshotOps
  imports PatchModel
begin

text \<open>
  The helpers of the snapshot patch reducer
  (\<^verbatim>\<open>game-table/state/realtime/game-snapshot-patch-reducer.ts\<close>): updates of a player, a zone,
  a card, the lists of relations, the chat and the event log, and the rebasing of the
  revealed hand indexes when a card leaves a hand. Each is one definition, in the order of
  the source, with its failures as values of \<open>operation_result\<close> and the exceptions of a
  malformed snapshot (a zone that is not an array) as thrown errors.
\<close>

section \<open>Results\<close>

datatype failure_reason = VersionGap | TargetNotFound | InvalidOperation

datatype operation_result = OpApplied game_snapshot | OpFailed failure_reason

definition ZONE_NAMES :: "game_zone_name list" where
  "ZONE_NAMES = [Library, Hand, Battlefield, Graveyard, Exile, Command]"

definition MAX_EVENT_LOG_ENTRIES :: nat where
  "MAX_EVENT_LOG_ENTRIES = 250"

lemma set_ZONE_NAMES [simp]: "set ZONE_NAMES = UNIV"
  by (auto simp: ZONE_NAMES_def intro: game_zone_name.exhaust)

section \<open>Players\<close>

definition setPlayer :: "game_snapshot \<Rightarrow> string \<Rightarrow> game_player_state \<Rightarrow> game_snapshot" where
  "setPlayer s pid p = s\<lparr>sn_players := (sn_players s)(pid \<mapsto> p)\<rparr>"

definition updatePlayer ::
  "game_snapshot \<Rightarrow> string \<Rightarrow> (game_player_state \<Rightarrow> game_player_state option) \<Rightarrow> operation_result" where
  "updatePlayer s pid update =
     (case sn_players s pid of
        None \<Rightarrow> OpFailed TargetNotFound
      | Some player \<Rightarrow>
          (case update player of
             None \<Rightarrow> OpFailed TargetNotFound
           | Some nextPlayer \<Rightarrow> OpApplied (setPlayer s pid nextPlayer)))"

definition mergeZoneCounts :: "game_player_state \<Rightarrow> game_zone_counts \<Rightarrow> game_zone_counts option" where
  "mergeZoneCounts player counts =
     (case pl_zoneCounts player of None \<Rightarrow> None | Some zc \<Rightarrow> Some (zc ++ counts))"

definition applyZoneCounts :: "game_player_state \<Rightarrow> game_zone_counts \<Rightarrow> game_player_state option" where
  "applyZoneCounts player counts =
     (case mergeZoneCounts player counts of
        None \<Rightarrow> None
      | Some zc \<Rightarrow> Some (player\<lparr>pl_zoneCounts := Some zc\<rparr>))"

section \<open>Zones\<close>

text \<open>Spreading an undefined player throws, so a missing player is a \<open>TypeError\<close>.\<close>

definition replaceZoneSnapshotOnly ::
  "game_snapshot \<Rightarrow> string \<Rightarrow> game_zone_name \<Rightarrow> game_card_instance list \<Rightarrow> game_snapshot js" where
  "replaceZoneSnapshotOnly s pid zone cards =
     (case sn_players s pid of
        None \<Rightarrow> Inl TypeError
      | Some player \<Rightarrow>
          Inr (setPlayer s pid (player\<lparr>pl_zones := (pl_zones player)(zone \<mapsto> cards)\<rparr>)))"

definition replaceZone ::
  "game_snapshot \<Rightarrow> string \<Rightarrow> game_zone_name \<Rightarrow> game_card_instance list \<Rightarrow> operation_result js" where
  "replaceZone s pid zone cards =
     js_bind (replaceZoneSnapshotOnly s pid zone cards) (\<lambda>t. Inr (OpApplied t))"

text \<open>\<open>snapshot.players[playerId]?.zones[zone]\<close> when it is an array.\<close>

definition zoneCards :: "game_snapshot \<Rightarrow> string \<Rightarrow> game_zone_name \<Rightarrow> game_card_instance list option" where
  "zoneCards s pid zone = (case sn_players s pid of None \<Rightarrow> None | Some p \<Rightarrow> pl_zones p zone)"

definition preserveCommanderIdentity ::
  "game_card_instance \<Rightarrow> game_card_instance option \<Rightarrow> game_card_instance" where
  "preserveCommanderIdentity crd previous =
     (if card_isCommander crd \<noteq> None then crd
      else if (case previous of None \<Rightarrow> False | Some p \<Rightarrow> card_isCommander p = Some True)
              \<or> card_zone crd = Some Command
      then crd\<lparr>card_isCommander := Some True\<rparr>
      else crd)"

fun findCardInZones ::
  "game_player_state \<Rightarrow> string \<Rightarrow> game_zone_name list \<Rightarrow> game_card_instance option js" where
  "findCardInZones player iid [] = Inr None"
| "findCardInZones player iid (z # zs) =
     (case pl_zones player z of
        None \<Rightarrow> Inl TypeError
      | Some cards \<Rightarrow>
          (case List.find (\<lambda>c. card_instanceId c = iid) cards of
             Some crd \<Rightarrow> Inr (Some crd)
           | None \<Rightarrow> findCardInZones player iid zs))"

definition cardByInstanceId :: "game_player_state \<Rightarrow> string \<Rightarrow> game_card_instance option js" where
  "cardByInstanceId player iid = findCardInZones player iid ZONE_NAMES"

fun preserveAll ::
  "game_player_state \<Rightarrow> game_card_instance list \<Rightarrow> game_card_instance list js" where
  "preserveAll player [] = Inr []"
| "preserveAll player (c # cs) =
     js_bind (cardByInstanceId player (card_instanceId c)) (\<lambda>previous.
     js_bind (preserveAll player cs) (\<lambda>rest.
       Inr (preserveCommanderIdentity c previous # rest)))"

definition replaceVisibleZone ::
  "game_snapshot \<Rightarrow> string \<Rightarrow> game_zone_name \<Rightarrow> game_card_instance list \<Rightarrow> operation_result js" where
  "replaceVisibleZone s pid zone cards =
     (case sn_players s pid of
        None \<Rightarrow> Inr (OpFailed TargetNotFound)
      | Some player \<Rightarrow>
          if pl_zones player zone = None then Inr (OpFailed TargetNotFound)
          else js_bind (preserveAll player cards) (replaceZone s pid zone))"

section \<open>Cards\<close>

definition updateCard ::
  "game_snapshot \<Rightarrow> string \<Rightarrow> game_zone_name \<Rightarrow> string \<Rightarrow>
   (game_card_instance \<Rightarrow> game_card_instance) \<Rightarrow> operation_result js" where
  "updateCard s pid zone iid update =
     (case zoneCards s pid zone of
        None \<Rightarrow> Inr (OpFailed TargetNotFound)
      | Some cards \<Rightarrow>
          (case find_index (\<lambda>c. card_instanceId c = iid) cards of
             None \<Rightarrow> Inr (OpFailed TargetNotFound)
           | Some i \<Rightarrow> replaceZone s pid zone (cards[i := update (cards ! i)])))"

definition applyCardPositions ::
  "game_snapshot \<Rightarrow> string \<Rightarrow> game_zone_name \<Rightarrow> card_position_entry list \<Rightarrow> operation_result js" where
  "applyCardPositions s pid zone positions =
     (let nextPositions = map_of (rev (map (\<lambda>e. (cp_instanceId e, cp_position e)) positions)) in
      case zoneCards s pid zone of
        None \<Rightarrow> Inr (OpFailed TargetNotFound)
      | Some cards \<Rightarrow>
          if \<exists>e \<in> set positions. \<not> (\<exists>c \<in> set cards. card_instanceId c = cp_instanceId e)
          then Inr (OpFailed TargetNotFound)
          else replaceZone s pid zone (map (\<lambda>crd.
            case nextPositions (card_instanceId crd) of
              None \<Rightarrow> crd
            | Some position \<Rightarrow> crd\<lparr>card_position := Some position\<rparr>) cards))"

definition setIfDefined :: "'a option \<Rightarrow> ('a \<Rightarrow> 'b \<Rightarrow> 'b) \<Rightarrow> 'b \<Rightarrow> 'b" where
  "setIfDefined v f x = (case v of None \<Rightarrow> x | Some a \<Rightarrow> f a x)"

definition applyStateFields :: "('a card_state_fields_scheme) \<Rightarrow> game_card_instance \<Rightarrow> game_card_instance" where
  "applyStateFields st crd =
     setIfDefined (cs_revealedTo st) (\<lambda>v c. c\<lparr>card_revealedTo := Some v\<rparr>)
     (setIfDefined (cs_hidden st) (\<lambda>v c. c\<lparr>card_hidden := Some v\<rparr>)
     (setIfDefined (cs_faceDown st) (\<lambda>v c. c\<lparr>card_faceDown := Some v\<rparr>)
     (setIfDefined (cs_rotation st) (\<lambda>v c. c\<lparr>card_rotation := Some v\<rparr>)
     (setIfDefined (cs_tapped st) (\<lambda>v c. c\<lparr>card_tapped := v\<rparr>) crd))))"

definition applyCardsState ::
  "game_snapshot \<Rightarrow> string \<Rightarrow> game_zone_name \<Rightarrow> card_state_entry list \<Rightarrow> operation_result js" where
  "applyCardsState s pid zone states =
     (case zoneCards s pid zone of
        None \<Rightarrow> Inr (OpFailed TargetNotFound)
      | Some cards \<Rightarrow>
          let statesById = map_of (rev (map (\<lambda>e. (ce_instanceId e, ce_fields e)) states)) in
          if \<exists>e \<in> set states. \<not> (\<exists>c \<in> set cards. card_instanceId c = ce_instanceId e)
          then Inr (OpFailed TargetNotFound)
          else replaceZone s pid zone (map (\<lambda>crd.
            case statesById (card_instanceId crd) of
              None \<Rightarrow> crd
            | Some st \<Rightarrow> applyStateFields st crd) cards))"

text \<open>The index test of \<open>card.create\<close> and \<open>card.move\<close>, and the clamped insertion point.\<close>

definition invalidIndex :: "jsnum option \<Rightarrow> bool" where
  "invalidIndex index =
     (case index of None \<Rightarrow> False | Some i \<Rightarrow> \<not> is_integer i \<or> js_less i (num 0))"

definition insertIndex :: "jsnum option \<Rightarrow> nat \<Rightarrow> nat" where
  "insertIndex index len = (case index of None \<Rightarrow> len | Some i \<Rightarrow> nat (min (js_int i) (int len)))"

definition createCard ::
  "game_snapshot \<Rightarrow> string \<Rightarrow> game_zone_name \<Rightarrow> game_card_instance \<Rightarrow> jsnum option \<Rightarrow> operation_result js" where
  "createCard s pid zone crd index =
     (case zoneCards s pid zone of
        None \<Rightarrow> Inr (OpFailed TargetNotFound)
      | Some cards \<Rightarrow>
          if \<exists>e \<in> set cards. card_instanceId e = card_instanceId crd
          then Inr (OpFailed InvalidOperation)
          else if invalidIndex index then Inr (OpFailed InvalidOperation)
          else replaceZone s pid zone
            (insert_at (insertIndex index (length cards)) (crd\<lparr>card_zone := Some zone\<rparr>) cards))"

section \<open>Revealed hand indexes\<close>

function advanceCursor :: "int list \<Rightarrow> nat \<Rightarrow> int \<Rightarrow> nat" where
  "advanceCursor removed cursor index =
     (if cursor < length removed \<and> removed ! cursor < index
      then advanceCursor removed (Suc cursor) index else cursor)"
  by pat_completeness auto
termination
  by (relation "measure (\<lambda>(removed, cursor, index). length removed - cursor)") auto

declare advanceCursor.simps [simp del]

fun rebaseLoop :: "int list \<Rightarrow> nat \<Rightarrow> int list \<Rightarrow> int list" where
  "rebaseLoop removed cursor [] = []"
| "rebaseLoop removed cursor (index # rest) =
     (let cursor' = advanceCursor removed cursor index in
      if cursor' < length removed \<and> removed ! cursor' = index
      then rebaseLoop removed cursor' rest
      else (index - int cursor') # rebaseLoop removed cursor' rest)"

definition clearRevealedHandIndexes :: "int list \<Rightarrow> int list \<Rightarrow> int list" where
  "clearRevealedHandIndexes indexes removedIndexes =
     (let removed = sort (remdups removedIndexes) in
      if removed = [] \<or> indexes = [] then indexes
      else rebaseLoop removed 0 indexes)"

definition rebaseHandRevealIndexes :: "game_snapshot \<Rightarrow> string \<Rightarrow> int list \<Rightarrow> game_snapshot" where
  "rebaseHandRevealIndexes s pid removedIndexes =
     (if removedIndexes = [] then s
      else case sn_players s pid of
        None \<Rightarrow> s
      | Some player \<Rightarrow>
          let currentIndexes = (case pl_revealedHandIndexes player of None \<Rightarrow> [] | Some xs \<Rightarrow> xs);
              nextIndexes = clearRevealedHandIndexes currentIndexes removedIndexes
          in if nextIndexes = currentIndexes then s
             else setPlayer s pid (player\<lparr>pl_revealedHandIndexes := Some nextIndexes\<rparr>))"

section \<open>Moving and removing cards\<close>

definition isHiddenPlaceholder :: "game_card_instance \<Rightarrow> bool" where
  "isHiddenPlaceholder crd \<longleftrightarrow> card_hidden crd = Some True \<and> card_faceDown crd = Some True"

definition shouldClearRevealRecipientsAfterMove :: "card_move_op \<Rightarrow> bool" where
  "shouldClearRevealRecipientsAfterMove mv =
     (if zr_zone (mv_from mv) = Hand \<and> zt_zone (mv_to mv) \<noteq> Hand \<and> zt_zone (mv_to mv) \<noteq> Library
      then True
      else zr_zone (mv_from mv) = Library \<and> zt_zone (mv_to mv) \<noteq> Library \<and>
           (case mv_card mv of None \<Rightarrow> True | Some c \<Rightarrow> card_revealedTo c = None))"

definition sameZone :: "card_move_op \<Rightarrow> bool" where
  "sameZone mv \<longleftrightarrow> zr_playerId (mv_from mv) = zt_playerId (mv_to mv) \<and>
     zr_zone (mv_from mv) = zt_zone (mv_to mv)"

text \<open>The card as it is stored in the target zone.\<close>

definition placedCard ::
  "card_move_op \<Rightarrow> game_card_instance \<Rightarrow> game_card_instance option \<Rightarrow> game_card_instance" where
  "placedCard mv moving source = preserveCommanderIdentity
     (let c = moving\<lparr>card_zone := Some (zt_zone (mv_to mv))\<rparr> in
      if shouldClearRevealRecipientsAfterMove mv then c\<lparr>card_revealedTo := None\<rparr> else c)
     source"

definition movingCardOf ::
  "card_move_op \<Rightarrow> game_card_instance option \<Rightarrow> game_card_instance option" where
  "movingCardOf mv source =
     (case mv_card mv of
        Some c \<Rightarrow> Some (preserveCommanderIdentity c
          (if Some (card_instanceId c) = map_option card_instanceId source then source else None))
      | None \<Rightarrow> source)"

definition rebaseAfterMove :: "card_move_op \<Rightarrow> nat option \<Rightarrow> game_snapshot \<Rightarrow> game_snapshot" where
  "rebaseAfterMove mv removedHandIndex s =
     (case removedHandIndex of
        None \<Rightarrow> s
      | Some i \<Rightarrow>
          if sameZone mv then s
          else rebaseHandRevealIndexes s (zr_playerId (mv_from mv)) [int i])"

definition finishZoneCounts ::
  "game_snapshot \<Rightarrow> string \<Rightarrow> game_zone_counts option \<Rightarrow> operation_result" where
  "finishZoneCounts s pid counts =
     (case counts of
        None \<Rightarrow> OpApplied s
      | Some zc \<Rightarrow> updatePlayer s pid (\<lambda>player. applyZoneCounts player zc))"

text \<open>
  Where the moving card sat in the source zone: the index of the card, or of a hidden
  placeholder that stands for it (\<open>fromIndex\<close> and \<open>hiddenPlaceholderIndex\<close> of the source),
  the source zone without it, and the target zone without the card.
\<close>

definition sourceCardOf :: "string \<Rightarrow> game_card_instance list \<Rightarrow> game_card_instance option" where
  "sourceCardOf iid fromCards =
     map_option ((!) fromCards) (find_index (\<lambda>c. card_instanceId c = iid) fromCards)"

definition vacatedIndex :: "string \<Rightarrow> game_card_instance list \<Rightarrow> nat option" where
  "vacatedIndex iid fromCards =
     (case find_index (\<lambda>c. card_instanceId c = iid) fromCards of
        Some i \<Rightarrow> Some i
      | None \<Rightarrow> find_index isHiddenPlaceholder fromCards)"

definition nextFromCardsOf :: "string \<Rightarrow> game_card_instance list \<Rightarrow> game_card_instance list" where
  "nextFromCardsOf iid fromCards =
     (if find_index (\<lambda>c. card_instanceId c = iid) fromCards \<noteq> None
      then filter (\<lambda>c. card_instanceId c \<noteq> iid) fromCards
      else case find_index isHiddenPlaceholder fromCards of
        Some i \<Rightarrow> remove_nth i fromCards
      | None \<Rightarrow> fromCards)"

definition targetCardsAfterRemoval ::
  "card_move_op \<Rightarrow> game_card_instance \<Rightarrow> game_card_instance list \<Rightarrow> game_card_instance list \<Rightarrow>
   game_card_instance list" where
  "targetCardsAfterRemoval mv moving nextFromCards toCards =
     (if sameZone mv then nextFromCards
      else filter (\<lambda>c. card_instanceId c \<noteq> mv_instanceId mv \<and>
             card_instanceId c \<noteq> card_instanceId moving) toCards)"

definition moveCard :: "game_snapshot \<Rightarrow> card_move_op \<Rightarrow> operation_result js" where
  "moveCard s mv =
     (let fromId = zr_playerId (mv_from mv); fromZone = zr_zone (mv_from mv);
          toId = zt_playerId (mv_to mv); toZone = zt_zone (mv_to mv); iid = mv_instanceId mv in
      case (zoneCards s fromId fromZone, zoneCards s toId toZone) of
        (Some fromCards, Some toCards) \<Rightarrow>
          let sourceCard = sourceCardOf iid fromCards;
              vacated = vacatedIndex iid fromCards;
              removedHandIndex = (if fromZone = Hand then vacated else None);
              movingCard = movingCardOf mv sourceCard;
              nextFromCards = nextFromCardsOf iid fromCards
          in if movingCard = None \<and> vacated = None then Inr (OpFailed TargetNotFound)
             else if invalidIndex (zt_index (mv_to mv)) then Inr (OpFailed InvalidOperation)
             else (case movingCard of
                 None \<Rightarrow>
                   js_bind (replaceZoneSnapshotOnly s fromId fromZone nextFromCards) (\<lambda>t.
                     Inr (OpApplied (rebaseAfterMove mv removedHandIndex t)))
               | Some moving \<Rightarrow>
                   let targetCards = targetCardsAfterRemoval mv moving nextFromCards toCards;
                       pos = insertIndex (zt_index (mv_to mv)) (length targetCards);
                       nextToCards = insert_at pos (placedCard mv moving sourceCard) targetCards
                   in js_bind (replaceZoneSnapshotOnly s fromId fromZone nextFromCards) (\<lambda>t.
                      js_bind (replaceZoneSnapshotOnly t toId toZone nextToCards) (\<lambda>u.
                        Inr (finishZoneCounts (rebaseAfterMove mv removedHandIndex u) toId
                          (mv_zoneCounts mv)))))
      | _ \<Rightarrow> Inr (OpFailed TargetNotFound))"

fun removeFromZones ::
  "game_snapshot \<Rightarrow> string \<Rightarrow> string \<Rightarrow> game_zone_name list \<Rightarrow> game_snapshot js" where
  "removeFromZones s pid iid [] = Inr s"
| "removeFromZones s pid iid (z # zs) =
     (case zoneCards s pid z of
        None \<Rightarrow> Inl TypeError
      | Some cards \<Rightarrow>
          js_bind (replaceZoneSnapshotOnly s pid z (filter (\<lambda>c. card_instanceId c \<noteq> iid) cards))
            (\<lambda>t. removeFromZones t pid iid zs))"

definition holdsCard :: "game_player_state \<Rightarrow> string \<Rightarrow> game_zone_name \<Rightarrow> bool" where
  "holdsCard player iid z =
     (case pl_zones player z of
        None \<Rightarrow> False
      | Some cards \<Rightarrow> (\<exists>c \<in> set cards. card_instanceId c = iid))"

definition removeCard :: "game_snapshot \<Rightarrow> card_remove_op \<Rightarrow> operation_result js" where
  "removeCard s rmv =
     (let pid = rmv_playerId rmv; iid = rmv_instanceId rmv in
      case sn_players s pid of
        None \<Rightarrow> Inr (OpFailed TargetNotFound)
      | Some player \<Rightarrow>
          (case pl_zones player (rmv_zone rmv) of
             None \<Rightarrow> Inr (OpFailed TargetNotFound)
           | Some cards \<Rightarrow>
               if \<exists>z \<in> set ZONE_NAMES. pl_zones player z = None then Inl TypeError
               else
                 let zonesWithCard = filter (holdsCard player iid) ZONE_NAMES in
                 if rmv_zone rmv \<notin> set zonesWithCard then Inr (OpFailed TargetNotFound)
                 else
                   let removedHandIndex = (if rmv_zone rmv = Hand
                         then find_index (\<lambda>c. card_instanceId c = iid) cards else None)
                   in js_bind (removeFromZones s pid iid zonesWithCard) (\<lambda>t.
                        let rebased = (case removedHandIndex of
                              None \<Rightarrow> t
                            | Some i \<Rightarrow> rebaseHandRevealIndexes t pid [int i])
                        in Inr (finishZoneCounts rebased pid (rmv_zoneCounts rmv)))))"

section \<open>Stack, arrows, attachments and battlefield stacks\<close>

text \<open>The optional lists are read with \<open>?? []\<close>.\<close>

definition attachmentsOf :: "game_snapshot \<Rightarrow> game_attachment list" where
  "attachmentsOf s = (case sn_attachments s of None \<Rightarrow> [] | Some xs \<Rightarrow> xs)"

definition battlefieldStacksOf :: "game_snapshot \<Rightarrow> game_battlefield_stack list" where
  "battlefieldStacksOf s = (case sn_battlefieldStacks s of None \<Rightarrow> [] | Some xs \<Rightarrow> xs)"

definition specialEntities :: "game_snapshot \<Rightarrow> game_special_entity list" where
  "specialEntities s = (case sn_specialEntities s of None \<Rightarrow> [] | Some xs \<Rightarrow> xs)"

definition addStackItem :: "game_snapshot \<Rightarrow> game_stack_item \<Rightarrow> operation_result" where
  "addStackItem s item =
     (if \<exists>e \<in> set (sn_stack s). si_id e = si_id item then OpFailed InvalidOperation
      else OpApplied (s\<lparr>sn_stack := sn_stack s @ [item]\<rparr>))"

definition removeStackItem :: "game_snapshot \<Rightarrow> string \<Rightarrow> operation_result" where
  "removeStackItem s i =
     (if \<not> (\<exists>e \<in> set (sn_stack s). si_id e = i) then OpFailed TargetNotFound
      else OpApplied (s\<lparr>sn_stack := filter (\<lambda>e. si_id e \<noteq> i) (sn_stack s)\<rparr>))"

definition addArrow :: "game_snapshot \<Rightarrow> game_arrow \<Rightarrow> operation_result" where
  "addArrow s arrow =
     (if \<exists>e \<in> set (sn_arrows s). ar_id e = ar_id arrow then OpFailed InvalidOperation
      else OpApplied (s\<lparr>sn_arrows := sn_arrows s @ [arrow]\<rparr>))"

definition removeArrow :: "game_snapshot \<Rightarrow> string \<Rightarrow> operation_result" where
  "removeArrow s i =
     (if \<not> (\<exists>e \<in> set (sn_arrows s). ar_id e = i) then OpFailed TargetNotFound
      else OpApplied (s\<lparr>sn_arrows := filter (\<lambda>e. ar_id e \<noteq> i) (sn_arrows s)\<rparr>))"

definition addAttachment :: "game_snapshot \<Rightarrow> game_attachment \<Rightarrow> operation_result" where
  "addAttachment s attachment =
     (if \<exists>e \<in> set (attachmentsOf s). at_id e = at_id attachment then OpFailed InvalidOperation
      else OpApplied (s\<lparr>sn_attachments := Some (attachmentsOf s @ [attachment])\<rparr>))"

definition removeAttachment :: "game_snapshot \<Rightarrow> string \<Rightarrow> operation_result" where
  "removeAttachment s i =
     (if \<not> (\<exists>e \<in> set (attachmentsOf s). at_id e = i) then OpFailed TargetNotFound
      else OpApplied (s\<lparr>sn_attachments := Some (filter (\<lambda>e. at_id e \<noteq> i) (attachmentsOf s))\<rparr>))"

definition addBattlefieldStack :: "game_snapshot \<Rightarrow> game_battlefield_stack \<Rightarrow> operation_result" where
  "addBattlefieldStack s stack =
     (if \<exists>e \<in> set (battlefieldStacksOf s). bs_id e = bs_id stack then OpFailed InvalidOperation
      else OpApplied (s\<lparr>sn_battlefieldStacks := Some (battlefieldStacksOf s @ [stack])\<rparr>))"

definition removeBattlefieldStack :: "game_snapshot \<Rightarrow> string \<Rightarrow> operation_result" where
  "removeBattlefieldStack s i =
     (if \<not> (\<exists>e \<in> set (battlefieldStacksOf s). bs_id e = i) then OpFailed TargetNotFound
      else OpApplied (s\<lparr>sn_battlefieldStacks :=
             Some (filter (\<lambda>e. bs_id e \<noteq> i) (battlefieldStacksOf s))\<rparr>))"

section \<open>Special entities, votes, chat and the event log\<close>

definition updateSpecialEntity ::
  "game_snapshot \<Rightarrow> string \<Rightarrow> (game_special_entity \<Rightarrow> game_special_entity) \<Rightarrow> operation_result" where
  "updateSpecialEntity s entityId update =
     (let entities = specialEntities s in
      case find_index (\<lambda>e. se_id e = entityId) entities of
        None \<Rightarrow> OpFailed TargetNotFound
      | Some i \<Rightarrow> OpApplied (s\<lparr>sn_specialEntities := Some (entities[i := update (entities ! i)])\<rparr>))"

definition removeSpecialEntity :: "game_snapshot \<Rightarrow> string \<Rightarrow> operation_result" where
  "removeSpecialEntity s entityId =
     (let entities = specialEntities s in
      case find_index (\<lambda>e. se_id e = entityId) entities of
        None \<Rightarrow> OpFailed TargetNotFound
      | Some i \<Rightarrow> OpApplied (s\<lparr>sn_specialEntities := Some (filter (\<lambda>e. se_id e \<noteq> entityId) entities)\<rparr>))"

definition disconnectVotesPayload ::
  "disconnect_votes option \<Rightarrow> disconnect_votes option \<Rightarrow> disconnect_votes" where
  "disconnectVotesPayload direct data =
     (case direct of
        Some votes \<Rightarrow> votes
      | None \<Rightarrow> (case data of Some votes \<Rightarrow> votes | None \<Rightarrow> Map.empty))"

definition cloneDisconnectVotes :: "disconnect_votes \<Rightarrow> disconnect_votes" where
  "cloneDisconnectVotes votes = (\<lambda>pid. map_option (\<lambda>vote.
     vote\<lparr>dvs_eligible := (case dvs_eligible vote of None \<Rightarrow> None | Some xs \<Rightarrow> Some xs),
          dvs_votes := dvs_votes vote\<rparr>) (votes pid))"

definition updateChatMessage :: "game_snapshot \<Rightarrow> chat_message \<Rightarrow> operation_result" where
  "updateChatMessage s message =
     (case cm_id message of
        None \<Rightarrow> OpFailed InvalidOperation
      | Some messageId \<Rightarrow>
          if messageId = [] then OpFailed InvalidOperation
          else (case find_index (\<lambda>e. cm_id e = Some messageId) (sn_chat s) of
                  None \<Rightarrow> OpFailed TargetNotFound
                | Some i \<Rightarrow> OpApplied (s\<lparr>sn_chat := (sn_chat s)[i := message]\<rparr>)))"

fun collectEntries ::
  "game_log_entry list \<Rightarrow> string list \<Rightarrow> (string \<rightharpoonup> game_log_entry) \<Rightarrow>
   string list \<times> (string \<rightharpoonup> game_log_entry)" where
  "collectEntries [] order byId = (order, byId)"
| "collectEntries (e # es) order byId =
     collectEntries es (if byId (le_id e) = None then order @ [le_id e] else order) (byId(le_id e \<mapsto> e))"

definition appendUniqueEventLogEntries ::
  "game_log_entry list \<Rightarrow> game_log_entry list \<Rightarrow> game_log_entry list" where
  "appendUniqueEventLogEntries existing incoming =
     (case collectEntries (existing @ incoming) [] Map.empty of (order, byId) \<Rightarrow>
        slice_last MAX_EVENT_LOG_ENTRIES (map (\<lambda>i. the (byId i)) order))"

end
