(* ===== verification/V2Identity.thy ===== *)
theory V2Identity
  imports V2Model SnapshotOps
begin

text \<open>
  Card identity in the normalized store: how a card of a patch is matched with a static card,
  completed from it and kept from losing an identity the client already knows. One definition
  per function of \<^verbatim>\<open>game-table-normalized-v2.store.ts\<close> from \<open>normalizeInstance\<close> to
  \<open>isSyntheticUnknownStaticCard\<close>.
\<close>

section \<open>Strings\<close>

definition nonEmptyString :: "string option \<Rightarrow> bool" where
  "nonEmptyString v = (case v of None \<Rightarrow> False | Some s \<Rightarrow> js_trim s \<noteq> [])"

text \<open>\<open>values.filter(nonEmptyString)\<close>.\<close>

definition nonEmptyStrings :: "string option list \<Rightarrow> string list" where
  "nonEmptyStrings vs = map the (filter nonEmptyString vs)"

definition zone_text :: "game_zone_name \<Rightarrow> string" where
  "zone_text z = (case z of Library \<Rightarrow> ''library'' | Hand \<Rightarrow> ''hand'' | Battlefield \<Rightarrow> ''battlefield''
     | Graveyard \<Rightarrow> ''graveyard'' | Exile \<Rightarrow> ''exile'' | Command \<Rightarrow> ''command'')"

definition zoneId :: "string \<Rightarrow> game_zone_name \<Rightarrow> string" where
  "zoneId playerId zone = playerId @ '':'' @ zone_text zone"

definition zoneNameFromZoneId :: "string \<Rightarrow> game_zone_name option" where
  "zoneNameFromZoneId v =
     (case split_at (CHR '':'') v of
        _ # zone # _ \<Rightarrow> List.find (\<lambda>z. zone_text z = zone) ZONE_NAMES
      | _ \<Rightarrow> None)"

definition viewerVisibilityForZone :: "game_zone_name \<Rightarrow> string" where
  "viewerVisibilityForZone zone = (if zone = Hand \<or> zone = Library then ''private'' else ''public'')"

definition fallbackLanguageForZone :: "game_zone_name \<Rightarrow> string option" where
  "fallbackLanguageForZone zone = (if zone = Hand \<or> zone = Library then Some ''en'' else None)"

definition fallbackStaticNameForZone :: "game_zone_name \<Rightarrow> bool \<Rightarrow> string option" where
  "fallbackStaticNameForZone zone hidden =
     (if hidden \<or> zone = Hand \<or> zone = Library then Some ''Card'' else None)"

section \<open>Instances and static cards\<close>

definition normalizeInstance :: "v2_instance \<Rightarrow> v2_instance" where
  "normalizeInstance i = i\<lparr>
     vi_counters := Some (or_default (vi_counters i) Map.empty),
     vi_revealedTo := Some (or_default (vi_revealedTo i) [])\<rparr>"

definition hasCompleteInstanceIdentity :: "v2_instance \<Rightarrow> bool" where
  "hasCompleteInstanceIdentity i = list_all nonEmptyString
     [vi_cardKey i, non_null (vi_printId i), vi_cardVersion i, non_null (vi_language i),
      non_null (vi_viewerVisibility i)]"

definition completeInstanceIdentity :: "v2_instance \<Rightarrow> v2_static_card option \<Rightarrow> v2_instance" where
  "completeInstanceIdentity i staticCard =
     (case staticCard of
        None \<Rightarrow> if hasCompleteInstanceIdentity i then i\<lparr>vi_staticCardPending := Some True\<rparr> else i
      | Some c \<Rightarrow> i\<lparr>
          vi_cardKey := (if nonEmptyString (vi_cardKey i) then vi_cardKey i else vc_cardKey c),
          vi_printId := (if nonEmptyString (non_null (vi_printId i)) then vi_printId i else vc_printId c),
          vi_cardVersion := (if nonEmptyString (vi_cardVersion i) then vi_cardVersion i else vc_cardVersion c),
          vi_language := (if nonEmptyString (non_null (vi_language i)) then vi_language i else vc_language c),
          vi_viewerVisibility := (if nonEmptyString (non_null (vi_viewerVisibility i))
            then vi_viewerVisibility i else vc_viewerVisibility c)\<rparr>)"

definition battlefieldPositionForZone ::
  "game_zone_name \<Rightarrow> game_card_position option \<Rightarrow> game_card_position option \<Rightarrow>
   game_card_position option" where
  "battlefieldPositionForZone zone incoming existing =
     (if zone \<noteq> Battlefield then None else or_else incoming existing)"

definition normalizeStaticCard :: "v2_static_card \<Rightarrow> v2_static_card" where
  "normalizeStaticCard c = c\<lparr>
     vc_imageUris := (case non_null (vc_imageUris c) of None \<Rightarrow> None | Some uris \<Rightarrow> Some (Some uris)),
     vc_cardFaces := Some (or_default (vc_cardFaces c) []),
     vc_colorIdentity := Some (or_default (vc_colorIdentity c) [])\<rparr>"

definition sameStaticIdentity :: "v2_static_card \<Rightarrow> v2_static_card \<Rightarrow> bool" where
  "sameStaticIdentity l r =
     (vc_cardKey l = vc_cardKey r \<and> vc_printId l = vc_printId r \<and>
      vc_cardVersion l = vc_cardVersion r \<and> vc_language l = vc_language r \<and>
      vc_viewerVisibility l = vc_viewerVisibility r)"

definition staticIdentity :: "v2_static_card \<Rightarrow> string option list" where
  "staticIdentity c = [vc_cardKey c, non_null (vc_printId c), vc_cardVersion c,
     non_null (vc_language c), non_null (vc_viewerVisibility c)]"

definition hasCompleteStaticIdentity :: "v2_static_card \<Rightarrow> bool" where
  "hasCompleteStaticIdentity c = list_all nonEmptyString (staticIdentity c)"

text \<open>A name that is not blank and not one of the two placeholders.\<close>

definition renderableName :: "string option \<Rightarrow> bool" where
  "renderableName nm =
     (let name = js_trim (or_default nm []) in
      name \<noteq> [] \<and> name \<noteq> ''Card'' \<and> name \<noteq> ''Unknown Card'')"

definition hasRenderableStaticContent :: "v2_static_card \<Rightarrow> bool" where
  "hasRenderableStaticContent c =
     (renderableName (non_null (vc_name c))
      \<or> or_default (non_null (vc_imageUris c)) [] \<noteq> []
      \<or> or_default (vc_cardFaces c) [] \<noteq> [])"

definition isStaticIdentityCompatible :: "v2_static_card \<Rightarrow> v2_static_card \<Rightarrow> bool" where
  "isStaticIdentityCompatible existing incoming =
     (let incomingKeys = nonEmptyStrings [Some (vc_cardRef incoming), vc_cardKey incoming];
          existingKeys = nonEmptyStrings [Some (vc_cardRef existing), vc_cardKey existing]
      in incomingKeys = [] \<or> existingKeys = [] \<or> list_ex (\<lambda>key. key \<in> set existingKeys) incomingKeys)"

text \<open>\<open>incoming.cardFaces\<close> unless it is missing or empty, and \<open>imageUris ?? \<dots>\<close>.\<close>

definition mergedImages :: "v2_static_card \<Rightarrow> v2_static_card \<Rightarrow> image_uris option option" where
  "mergedImages existing incoming =
     (case non_null (vc_imageUris incoming) of
        Some uris \<Rightarrow> Some (Some uris)
      | None \<Rightarrow> vc_imageUris existing)"

definition mergedFaces :: "v2_static_card \<Rightarrow> v2_static_card \<Rightarrow> json list option" where
  "mergedFaces existing incoming =
     (if or_default (vc_cardFaces incoming) [] \<noteq> [] then vc_cardFaces incoming else vc_cardFaces existing)"

text \<open>\<open>{ ...existing, ...incoming }\<close>: the fields the incoming card has win.\<close>

definition spreadStatic :: "v2_static_card \<Rightarrow> v2_static_card \<Rightarrow> v2_static_card" where
  "spreadStatic existing incoming = \<lparr>
     vc_cardRef = vc_cardRef incoming,
     vc_cardKey = or_else (vc_cardKey incoming) (vc_cardKey existing),
     vc_printId = or_else (vc_printId incoming) (vc_printId existing),
     vc_cardVersion = or_else (vc_cardVersion incoming) (vc_cardVersion existing),
     vc_language = or_else (vc_language incoming) (vc_language existing),
     vc_viewerVisibility = or_else (vc_viewerVisibility incoming) (vc_viewerVisibility existing),
     vc_scryfallId = or_else (vc_scryfallId incoming) (vc_scryfallId existing),
     vc_name = or_else (vc_name incoming) (vc_name existing),
     vc_imageUris = mergedImages existing incoming,
     vc_cardFaces = mergedFaces existing incoming,
     vc_typeLine = or_else (vc_typeLine incoming) (vc_typeLine existing),
     vc_manaCost = or_else (vc_manaCost incoming) (vc_manaCost existing),
     vc_colorIdentity = or_else (vc_colorIdentity incoming) (vc_colorIdentity existing),
     vc_defaultPower = or_else (vc_defaultPower incoming) (vc_defaultPower existing),
     vc_defaultToughness = or_else (vc_defaultToughness incoming) (vc_defaultToughness existing),
     vc_defaultLoyalty = or_else (vc_defaultLoyalty incoming) (vc_defaultLoyalty existing),
     vc_defaultDefense = or_else (vc_defaultDefense incoming) (vc_defaultDefense existing),
     vc_hasRulings = or_else (vc_hasRulings incoming) (vc_hasRulings existing)\<rparr>"

definition mergeStaticCard :: "v2_static_card option \<Rightarrow> v2_static_card \<Rightarrow> v2_static_card" where
  "mergeStaticCard existing incoming =
     (case existing of
        None \<Rightarrow> incoming
      | Some e \<Rightarrow>
          if \<not> hasRenderableStaticContent incoming \<and> isStaticIdentityCompatible e incoming then e
          else if \<not> hasCompleteStaticIdentity incoming \<and> isStaticIdentityCompatible e incoming
          then e\<lparr>vc_imageUris := mergedImages e incoming, vc_cardFaces := mergedFaces e incoming\<rparr>
          else if \<not> sameStaticIdentity e incoming then incoming
          else spreadStatic e incoming)"

text \<open>\<open>staticCards[card.cardRef] = mergeStaticCard(staticCards[card.cardRef], card)\<close>.\<close>

definition storeStaticCard :: "v2_static_card option \<Rightarrow> v2_static_card obj \<Rightarrow> v2_static_card obj" where
  "storeStaticCard card' cards =
     (case card' of
        None \<Rightarrow> cards
      | Some c \<Rightarrow> obj_set (vc_cardRef c) (mergeStaticCard (obj_get cards (vc_cardRef c)) c) cards)"

section \<open>Looking a static card up\<close>

definition scryfallIdFromRuntimeCardKey :: "string \<Rightarrow> string option" where
  "scryfallIdFromRuntimeCardKey key =
     (let parts = split_at (CHR '':'') key in
      if length parts < 3 \<or> parts ! 0 \<noteq> ''scryfall'' then None
      else let scryfallId = js_trim (parts ! 1) in
        if scryfallId = [] then None else Some scryfallId)"

text \<open>The match of \<open>/^(.+):(card|token)$/\<close>; a dot matches no line terminator.\<close>

definition is_line_end :: "char \<Rightarrow> bool" where
  "is_line_end c = ((of_char c :: nat) = 10 \<or> (of_char c :: nat) = 13)"

definition strip_suffix :: "string \<Rightarrow> string \<Rightarrow> string option" where
  "strip_suffix suffix s =
     (let n = length s - length suffix; p = take n s in
      if length suffix < length s \<and> drop n s = suffix \<and> \<not> list_ex is_line_end p then Some p else None)"

definition scryfallIdFromStaticRef :: "string \<Rightarrow> string option" where
  "scryfallIdFromStaticRef key =
     (let match = or_else (strip_suffix '':card'' key) (strip_suffix '':token'' key);
          scryfallId = js_trim (or_default match [])
      in if scryfallId = [] then None else Some scryfallId)"

definition staticLookupAliases :: "string \<Rightarrow> string list" where
  "staticLookupAliases key =
     (let trimmed = js_trim key in
      unique ([trimmed]
        @ (case scryfallIdFromRuntimeCardKey trimmed of
             None \<Rightarrow> [] | Some i \<Rightarrow> [i, i @ '':card'', i @ '':token''])
        @ (case scryfallIdFromStaticRef trimmed of None \<Rightarrow> [] | Some i \<Rightarrow> [i])))"

definition staticLookupKeys :: "string option list \<Rightarrow> string list" where
  "staticLookupKeys keys = unique (concat (map staticLookupAliases (nonEmptyStrings keys)))"

text \<open>One source: a direct hit on a key first, then the first card that shares an alias.\<close>

definition findInSource :: "string list \<Rightarrow> v2_static_card obj \<Rightarrow> v2_static_card option" where
  "findInSource lookupKeys source =
     (case List.find (\<lambda>key. obj_get source key \<noteq> None) lookupKeys of
        Some key \<Rightarrow> obj_get source key
      | None \<Rightarrow> List.find (\<lambda>c.
          let candidateKeys = staticLookupKeys
                [Some (vc_cardRef c), vc_cardKey c, non_null (vc_scryfallId c), non_null (vc_printId c)]
          in list_ex (\<lambda>key. key \<in> set candidateKeys) lookupKeys) (objectValues source))"

definition staticCardForIncomingKeys ::
  "string option list \<Rightarrow> v2_static_card obj \<Rightarrow> v2_static_card obj \<Rightarrow> v2_static_card option" where
  "staticCardForIncomingKeys keys operationStaticCards cachedStaticCards =
     (let lookupKeys = staticLookupKeys keys in
      if lookupKeys = [] then None
      else map_option normalizeStaticCard
        (or_else (findInSource lookupKeys operationStaticCards) (findInSource lookupKeys cachedStaticCards)))"

section \<open>Cards of a patch\<close>

definition hasRenderableLegacyPayload :: "legacy_card \<Rightarrow> bool" where
  "hasRenderableLegacyPayload c =
     (renderableName (lp_name c)
      \<or> or_default (lp_imageUris c) [] \<noteq> []
      \<or> or_default (lp_cardFaces c) [] \<noteq> [])"

definition hasExplicitLegacyStaticIdentity :: "legacy_card \<Rightarrow> bool" where
  "hasExplicitLegacyStaticIdentity c =
     list_ex nonEmptyString [lp_cardRef c, lp_cardKey c, non_null (lp_printId c), lp_scryfallId c]"

definition canReuseExistingInstanceStaticCard ::
  "legacy_card \<Rightarrow> v2_instance \<Rightarrow> v2_static_card \<Rightarrow> bool" where
  "canReuseExistingInstanceStaticCard legacy existing existingStaticCard =
     (let existingZone = zoneNameFromZoneId (vi_zoneId existing) in
      lp_instanceId legacy = vi_instanceId existing
      \<and> \<not> hasExplicitLegacyStaticIdentity legacy
      \<and> ((existingZone = Some Library \<or> existingZone = Some Hand) \<or> vi_isTokenCopy existing = Some True)
      \<and> hasRenderableStaticContent existingStaticCard)"

definition copiedFromCardKey :: "card_token_meta option \<Rightarrow> string option" where
  "copiedFromCardKey meta = (case meta of None \<Rightarrow> None | Some m \<Rightarrow> tm_copiedFromCardKey m)"

definition templateCardKey :: "card_token_meta option \<Rightarrow> string option" where
  "templateCardKey meta = (case meta of None \<Rightarrow> None | Some m \<Rightarrow> tm_templateCardKey m)"

definition staticCardForLegacyPatch ::
  "legacy_card \<Rightarrow> v2_instance option \<Rightarrow> v2_static_card obj \<Rightarrow> v2_static_card obj \<Rightarrow>
   v2_static_card option" where
  "staticCardForLegacyPatch legacy existing operationStaticCards cachedStaticCards =
     (case staticCardForIncomingKeys
        [lp_cardRef legacy, lp_cardKey legacy, copiedFromCardKey (lp_tokenMeta legacy), lp_scryfallId legacy]
        operationStaticCards cachedStaticCards of
        Some direct \<Rightarrow> Some direct
      | None \<Rightarrow> (case existing of
          None \<Rightarrow> None
        | Some e \<Rightarrow> (case staticCardForIncomingKeys [Some (vi_cardRef e), vi_cardKey e]
              operationStaticCards cachedStaticCards of
            None \<Rightarrow> None
          | Some existingStaticCard \<Rightarrow>
              if canReuseExistingInstanceStaticCard legacy e existingStaticCard
              then Some existingStaticCard
              else
                let incomingKeys = nonEmptyStrings [lp_cardRef legacy, lp_cardKey legacy];
                    existingKeys = nonEmptyStrings [Some (vi_cardRef e), vi_cardKey e,
                      Some (vc_cardRef existingStaticCard), vc_cardKey existingStaticCard]
                in if incomingKeys = [] \<or> list_ex (\<lambda>key. key \<in> set existingKeys) incomingKeys
                   then Some existingStaticCard else None)))"

text \<open>The first non-blank candidate, trimmed.\<close>

definition inferCardRefFromLegacyCard :: "legacy_card \<Rightarrow> string" where
  "inferCardRefFromLegacyCard c =
     (let cardRef = js_trim (or_default (lp_cardRef c) []);
          cardKey = js_trim (or_default (lp_cardKey c) []);
          template = js_trim (or_default (templateCardKey (lp_tokenMeta c)) []);
          copied = js_trim (or_default (copiedFromCardKey (lp_tokenMeta c)) []);
          scryfallId = js_trim (or_default (lp_scryfallId c) [])
      in if cardRef \<noteq> [] then cardRef
         else if cardKey \<noteq> [] then cardKey
         else if template \<noteq> [] then template
         else if copied \<noteq> [] then copied
         else if scryfallId \<noteq> []
         then scryfallId @ (if lp_isToken c = Some True \<or> lp_isTokenCopy c = Some True
                            then '':token'' else '':card'')
         else ''instance:'' @ lp_instanceId c)"

definition normalizeImageUris :: "string obj option \<Rightarrow> image_uris option option" where
  "normalizeImageUris uris =
     (case uris of
        None \<Rightarrow> None
      | Some us \<Rightarrow> if us = [] then None else Some (Some (map (\<lambda>(k, v). (k, Some v)) us)))"

text \<open>\<open>v ?? null\<close> where the value itself may be \<open>null\<close>.\<close>

definition stat_or_null :: "card_stat_value option \<Rightarrow> card_stat_value option" where
  "stat_or_null v = Some (or_default v StatNull)"

text \<open>The static card a legacy payload describes by itself.\<close>

definition staticCardOfLegacy :: "legacy_card \<Rightarrow> string \<Rightarrow> game_zone_name \<Rightarrow> v2_static_card" where
  "staticCardOfLegacy c cardRef zone = \<lparr>
     vc_cardRef = cardRef,
     vc_cardKey = Some (or_default (lp_cardKey c) cardRef),
     vc_printId = Some (or_else (non_null (lp_printId c)) (or_else (lp_scryfallId c)
       (or_else (lp_cardKey c) (Some cardRef)))),
     vc_cardVersion = Some (or_default (lp_cardVersion c) ''legacy-snapshot-v1''),
     vc_language = Some (or_else (non_null (lp_language c)) (fallbackLanguageForZone zone)),
     vc_viewerVisibility = Some (or_else (non_null (lp_viewerVisibility c)) (Some (viewerVisibilityForZone zone))),
     vc_scryfallId = Some (lp_scryfallId c),
     vc_name = Some (or_else (lp_name c) (fallbackStaticNameForZone zone (or_default (lp_hidden c) False))),
     vc_imageUris = normalizeImageUris (lp_imageUris c),
     vc_cardFaces = Some (or_default (lp_cardFaces c) []),
     vc_typeLine = Some (non_null (lp_typeLine c)),
     vc_manaCost = Some (non_null (lp_manaCost c)),
     vc_colorIdentity = Some (or_default (lp_colorIdentity c) []),
     vc_defaultPower = stat_or_null (lp_defaultPower c),
     vc_defaultToughness = stat_or_null (lp_defaultToughness c),
     vc_defaultLoyalty = stat_or_null (lp_defaultLoyalty c),
     vc_defaultDefense = stat_or_null (lp_defaultDefense c),
     vc_hasRulings = Some (or_default (lp_hasRulings c) False)\<rparr>"

text \<open>
  The instance of a legacy payload. Without a static card the identity falls back on the key
  of the card; with one it is left to \<open>completeInstanceIdentity\<close>.
\<close>

definition instanceOfLegacy ::
  "legacy_card \<Rightarrow> string \<Rightarrow> v2_static_card option \<Rightarrow> string \<Rightarrow> game_zone_name \<Rightarrow> v2_instance" where
  "instanceOfLegacy c cardRef staticCard playerId zone = \<lparr>
     vi_instanceId = lp_instanceId c,
     vi_cardRef = cardRef,
     vi_cardKey = lp_cardKey c,
     vi_printId = (case or_else (non_null (lp_printId c)) (lp_scryfallId c) of
         Some p \<Rightarrow> Some (Some p)
       | None \<Rightarrow> if staticCard \<noteq> None then None else Some (Some (or_default (lp_cardKey c) cardRef))),
     vi_cardVersion = (case lp_cardVersion c of
         Some v \<Rightarrow> Some v
       | None \<Rightarrow> if staticCard \<noteq> None then None else Some ''legacy-snapshot-v1''),
     vi_language = (case non_null (lp_language c) of
         Some l \<Rightarrow> Some (Some l)
       | None \<Rightarrow> if staticCard \<noteq> None then None else Some (fallbackLanguageForZone zone)),
     vi_viewerVisibility = (case non_null (lp_viewerVisibility c) of
         Some v \<Rightarrow> Some (Some v)
       | None \<Rightarrow> if staticCard \<noteq> None then None else Some (Some (viewerVisibilityForZone zone))),
     vi_zoneId = zoneId playerId zone,
     vi_ownerId = Some (Some (or_default (lp_ownerId c) playerId)),
     vi_controllerId = Some (Some (or_default (lp_controllerId c) playerId)),
     vi_hidden = Some (or_default (lp_hidden c) False),
     vi_faceDown = Some (or_default (lp_faceDown c) False),
     vi_staticCardPending = None,
     vi_tapped = Some (or_default (lp_tapped c) False),
     vi_position = Some (non_null (lp_position c)),
     vi_rotation = Some (Some (or_default (non_null (lp_rotation c)) (num 0))),
     vi_counters = Some (or_default (lp_counters c) Map.empty),
     vi_power = stat_or_null (lp_power c),
     vi_toughness = stat_or_null (lp_toughness c),
     vi_loyalty = stat_or_null (lp_loyalty c),
     vi_defense = stat_or_null (lp_defense c),
     vi_saga = Some (non_null (lp_saga c)),
     vi_activeFaceIndex = Some (non_null (lp_activeFaceIndex c)),
     vi_faceRuntimeStats = None,
     vi_dungeonMarker = Some (non_null (lp_dungeonMarker c)),
     vi_revealedTo = Some (or_default (lp_revealedTo c) []),
     vi_revealMarker = None,
     vi_isToken = Some (or_default (lp_isToken c) False),
     vi_isTokenCopy = Some (or_default (lp_isTokenCopy c) False),
     vi_isCommander = Some (or_default (lp_isCommander c) False),
     vi_tokenMeta = lp_tokenMeta c\<rparr>"

text \<open>A legacy payload with a \<open>cardRef\<close> is read as an instance (\<open>card as BootstrapInstanceV2\<close>).\<close>

definition compactOfLegacy :: "legacy_card \<Rightarrow> string \<Rightarrow> string \<Rightarrow> v2_instance" where
  "compactOfLegacy c cardRef zid = \<lparr>
     vi_instanceId = lp_instanceId c, vi_cardRef = cardRef, vi_cardKey = lp_cardKey c,
     vi_printId = lp_printId c, vi_cardVersion = lp_cardVersion c, vi_language = lp_language c,
     vi_viewerVisibility = lp_viewerVisibility c, vi_zoneId = zid,
     vi_ownerId = map_option Some (lp_ownerId c), vi_controllerId = map_option Some (lp_controllerId c),
     vi_hidden = lp_hidden c, vi_faceDown = lp_faceDown c, vi_staticCardPending = None,
     vi_tapped = lp_tapped c, vi_position = lp_position c, vi_rotation = lp_rotation c,
     vi_counters = lp_counters c, vi_power = lp_power c, vi_toughness = lp_toughness c,
     vi_loyalty = lp_loyalty c, vi_defense = lp_defense c, vi_saga = lp_saga c,
     vi_activeFaceIndex = lp_activeFaceIndex c, vi_faceRuntimeStats = None,
     vi_dungeonMarker = lp_dungeonMarker c, vi_revealedTo = lp_revealedTo c, vi_revealMarker = None,
     vi_isToken = lp_isToken c, vi_isTokenCopy = lp_isTokenCopy c,
     vi_isCommander = lp_isCommander c, vi_tokenMeta = lp_tokenMeta c\<rparr>"

definition normalizeCompact ::
  "v2_instance \<Rightarrow> string \<Rightarrow> game_zone_name \<Rightarrow> v2_static_card obj \<Rightarrow> v2_static_card obj \<Rightarrow>
   v2_instance \<times> v2_static_card option" where
  "normalizeCompact crd playerId zone operationStaticCards cachedStaticCards =
     (let staticCard = staticCardForIncomingKeys
            [Some (vi_cardRef crd), vi_cardKey crd, copiedFromCardKey (vi_tokenMeta crd)]
            operationStaticCards cachedStaticCards;
          i = (normalizeInstance crd)\<lparr>vi_zoneId := zoneId playerId zone\<rparr>
      in (case staticCard of None \<Rightarrow> i | Some c \<Rightarrow> i\<lparr>vi_cardRef := vc_cardRef c\<rparr>, staticCard))"

definition normalizeIncomingCard ::
  "incoming_card \<Rightarrow> string \<Rightarrow> game_zone_name \<Rightarrow> v2_static_card obj \<Rightarrow>
   (string \<rightharpoonup> v2_instance) \<Rightarrow> v2_static_card obj \<Rightarrow> v2_instance \<times> v2_static_card option" where
  "normalizeIncomingCard crd playerId zone staticCards ctxInstances ctxStaticCards =
     (case crd of
        CompactCard i \<Rightarrow> normalizeCompact i playerId zone staticCards ctxStaticCards
      | LegacyCard c \<Rightarrow> (case lp_cardRef c of
          Some ref \<Rightarrow> normalizeCompact (compactOfLegacy c ref (zoneId playerId zone)) playerId zone
            staticCards ctxStaticCards
        | None \<Rightarrow>
            let cached = staticCardForLegacyPatch c (ctxInstances (lp_instanceId c)) staticCards ctxStaticCards;
                cardRef = (case cached of Some s \<Rightarrow> vc_cardRef s | None \<Rightarrow> inferCardRefFromLegacyCard c);
                staticCard = (case cached of
                    Some s \<Rightarrow> Some s
                  | None \<Rightarrow> if hasRenderableLegacyPayload c then Some (staticCardOfLegacy c cardRef zone) else None)
            in (instanceOfLegacy c cardRef staticCard playerId zone, staticCard)))"

section \<open>Keeping a known identity\<close>

definition hasRenderableIdentity :: "v2_instance \<Rightarrow> v2_static_card option \<Rightarrow> bool" where
  "hasRenderableIdentity i staticCard =
     (case staticCard of
        None \<Rightarrow> False
      | Some c \<Rightarrow> list_all nonEmptyString
          ([vi_cardKey i, non_null (vi_printId i), vi_cardVersion i, non_null (vi_language i),
            non_null (vi_viewerVisibility i)] @ staticIdentity c)
          \<and> hasRenderableStaticContent c)"

definition isIncomingIdentityCompatibleWithExisting ::
  "v2_instance \<Rightarrow> v2_static_card option \<Rightarrow> v2_instance \<Rightarrow> bool" where
  "isIncomingIdentityCompatibleWithExisting incoming incomingStaticCard existing =
     (let incomingKeys = nonEmptyStrings [Some (vi_cardRef incoming), vi_cardKey incoming,
            map_option vc_cardRef incomingStaticCard, Option.bind incomingStaticCard vc_cardKey];
          existingKeys = nonEmptyStrings [Some (vi_cardRef existing), vi_cardKey existing];
          hasExplicitIncomingKey =
            list_ex (\<lambda>key. key \<noteq> ''instance:'' @ vi_instanceId incoming) incomingKeys
      in (vi_instanceId incoming = vi_instanceId existing \<and> \<not> hasExplicitIncomingKey)
         \<or> incomingKeys = [] \<or> existingKeys = [] \<or> list_ex (\<lambda>key. key \<in> set existingKeys) incomingKeys)"

definition isSyntheticUnknownStaticCard :: "v2_static_card \<Rightarrow> string \<Rightarrow> bool" where
  "isSyntheticUnknownStaticCard c instanceId =
     (vc_cardRef c = ''instance:'' @ instanceId
      \<and> \<not> nonEmptyString (non_null (vc_scryfallId c))
      \<and> (or_default (non_null (vc_name c)) [] = [] \<or> non_null (vc_name c) = Some ''Unknown Card'')
      \<and> \<not> nonEmptyString (non_null (vc_typeLine c))
      \<and> \<not> nonEmptyString (non_null (vc_manaCost c))
      \<and> or_default (non_null (vc_imageUris c)) [] = []
      \<and> or_default (vc_cardFaces c) [] = [])"

definition shouldPreserveExistingStaticIdentity ::
  "v2_instance \<Rightarrow> v2_static_card option \<Rightarrow> v2_instance \<Rightarrow> bool" where
  "shouldPreserveExistingStaticIdentity incoming incomingStaticCard existing =
     (if hasRenderableIdentity incoming incomingStaticCard
         \<and> ((case incomingStaticCard of
               None \<Rightarrow> False
             | Some c \<Rightarrow> \<not> isSyntheticUnknownStaticCard c (vi_instanceId incoming))
            \<or> nonEmptyString (vi_cardKey incoming))
      then False
      else if \<not> isIncomingIdentityCompatibleWithExisting incoming incomingStaticCard existing then False
      else nonEmptyString (Some (vi_cardRef existing)))"

text \<open>The identity fields of the existing instance, spread over the incoming one when kept.\<close>

definition keepIdentity :: "v2_instance \<Rightarrow> v2_static_card option \<Rightarrow> v2_instance option \<Rightarrow> v2_instance" where
  "keepIdentity incoming incomingStaticCard existing =
     (case existing of
        None \<Rightarrow> incoming
      | Some e \<Rightarrow>
          if shouldPreserveExistingStaticIdentity incoming incomingStaticCard e
          then incoming\<lparr>vi_cardRef := vi_cardRef e, vi_cardKey := vi_cardKey e,
                 vi_printId := vi_printId e, vi_cardVersion := vi_cardVersion e,
                 vi_language := vi_language e, vi_viewerVisibility := vi_viewerVisibility e\<rparr>
          else incoming)"

end
