(* ===== verification/DropFeedback.thy ===== *)
theory DropFeedback
  imports V2Identity
begin

text \<open>
  \<open>GameTableDropFeedbackState\<close> (\<^verbatim>\<open>state/drag-drop/game-table-drop-feedback.state.ts\<close>): the highlights
  of cards and zones after a change of the snapshot. A highlight is active for a key until a timer of
  the browser removes it; cards that a command brings onto the battlefield are marked beforehand.
\<close>

section \<open>State\<close>

text \<open>The five signals with active keys, each with the prefix its timers have.\<close>

datatype feedback = CardFeedback | ManaFeedback | ZoneFeedback | EntryFeedback | CommanderFeedback

text \<open>\<open>positionKey\<close> is a text made of the coordinates and the unit, or empty; it is compared only.\<close>

record indexed_card =
  ix_playerId :: string
  ix_zone :: game_zone_name
  ix_instanceId :: string
  ix_positionKey :: "game_card_position option"

text \<open>\<open>df_running\<close> are the timers of the browser that have not fired: a number, what it removes, and the
  duration in milliseconds.\<close>

record drop_feedback =
  df_previousVersion :: "int option"
  df_previousCards :: "indexed_card obj"
  df_timers :: "feedback \<times> string \<rightharpoonup> nat"
  df_pendingManaDrops :: "string set"
  df_pendingBattlefieldEntries :: "string set"
  df_pendingCommanderBattlefieldEntries :: "string set"
  df_active :: "feedback \<Rightarrow> string set"
  df_running :: "(nat \<times> (feedback \<times> string) \<times> nat) list"
  df_fresh :: nat

definition noDropFeedback :: drop_feedback where
  "noDropFeedback = \<lparr>df_previousVersion = None, df_previousCards = [], df_timers = Map.empty,
     df_pendingManaDrops = {}, df_pendingBattlefieldEntries = {}, df_pendingCommanderBattlefieldEntries = {},
     df_active = (\<lambda>k. {}), df_running = [], df_fresh = 0\<rparr>"

text \<open>The order in which \<open>Object.entries\<close> lists the players of a snapshot and the zones of a player.\<close>

record key_order =
  ko_playerIds :: "game_snapshot \<Rightarrow> string list"
  ko_zones :: "game_player_state \<Rightarrow> game_zone_name list"

definition fbCardKey :: "string \<Rightarrow> game_zone_name \<Rightarrow> string \<Rightarrow> string" where
  "fbCardKey playerId zone instanceId = playerId @ '':'' @ zone_text zone @ '':'' @ instanceId"

definition manaKey :: "string \<Rightarrow> string \<Rightarrow> string" where
  "manaKey playerId instanceId = playerId @ '':'' @ instanceId"

definition fbZoneKey :: "string \<Rightarrow> game_zone_name \<Rightarrow> string" where
  "fbZoneKey playerId zone = playerId @ '':'' @ zone_text zone"

definition indexCard :: "string \<Rightarrow> game_zone_name \<Rightarrow> game_card_instance \<Rightarrow> indexed_card" where
  "indexCard playerId zone c = \<lparr>ix_playerId = playerId, ix_zone = zone, ix_instanceId = card_instanceId c,
     ix_positionKey = card_position c\<rparr>"

text \<open>The three nested loops as one list, then the assignments to the map.\<close>

definition cardsOf :: "key_order \<Rightarrow> game_snapshot \<Rightarrow> indexed_card list" where
  "cardsOf ko t = concat (map (\<lambda>playerId. case sn_players t playerId of
       None \<Rightarrow> []
     | Some player \<Rightarrow> concat (map (\<lambda>zone. case pl_zones player zone of
           None \<Rightarrow> [] | Some cards \<Rightarrow> map (indexCard playerId zone) cards) (ko_zones ko player)))
     (ko_playerIds ko t))"

definition indexKey :: "indexed_card \<Rightarrow> string" where
  "indexKey c = fbCardKey (ix_playerId c) (ix_zone c) (ix_instanceId c)"

definition indexSnapshot :: "key_order \<Rightarrow> game_snapshot \<Rightarrow> indexed_card obj" where
  "indexSnapshot ko t = foldl (\<lambda>cards c. obj_set (indexKey c) c cards) [] (cardsOf ko t)"

section \<open>Highlights and their timers\<close>

definition activateKey :: "feedback \<Rightarrow> string \<Rightarrow> nat \<Rightarrow> drop_feedback \<Rightarrow> drop_feedback" where
  "activateKey k key' ms s = s\<lparr>
     df_active := (df_active s)(k := insert key' (df_active s k)),
     df_running := (case df_timers s (k, key') of None \<Rightarrow> df_running s
       | Some existing \<Rightarrow> filter (\<lambda>(i, _). i \<noteq> existing) (df_running s)) @ [(df_fresh s, (k, key'), ms)],
     df_timers := (df_timers s)((k, key') \<mapsto> df_fresh s),
     df_fresh := Suc (df_fresh s)\<rparr>"

definition feedbackTimerFires :: "nat \<Rightarrow> drop_feedback \<Rightarrow> drop_feedback" where
  "feedbackTimerFires n s = (case map_of (df_running s) n of
     None \<Rightarrow> s
   | Some ((k, key'), _) \<Rightarrow> s\<lparr>
       df_running := filter (\<lambda>(i, _). i \<noteq> n) (df_running s),
       df_active := (df_active s)(k := df_active s k - {key'}),
       df_timers := (df_timers s)((k, key') := None)\<rparr>)"

definition clearAllFeedback :: "drop_feedback \<Rightarrow> drop_feedback" where
  "clearAllFeedback s = s\<lparr>
     df_running := filter (\<lambda>(i, _). i \<notin> ran (df_timers s)) (df_running s), df_timers := Map.empty,
     df_active := (\<lambda>k. {}),
     df_pendingManaDrops := {}, df_pendingBattlefieldEntries := {}, df_pendingCommanderBattlefieldEntries := {}\<rparr>"

definition FEEDBACK_DURATION_MS :: nat where
  "FEEDBACK_DURATION_MS = 520"

definition BATTLEFIELD_ENTRY_DURATION_MS :: nat where
  "BATTLEFIELD_ENTRY_DURATION_MS = 900"

definition ZONE_FEEDBACK_DURATION_MS :: nat where
  "ZONE_FEEDBACK_DURATION_MS = 2400"

definition activateCard :: "indexed_card \<Rightarrow> drop_feedback \<Rightarrow> drop_feedback" where
  "activateCard c = activateKey CardFeedback (indexKey c) FEEDBACK_DURATION_MS"

definition activateZone :: "string \<Rightarrow> game_zone_name \<Rightarrow> drop_feedback \<Rightarrow> drop_feedback" where
  "activateZone playerId zone = activateKey ZoneFeedback (fbZoneKey playerId zone) ZONE_FEEDBACK_DURATION_MS"

definition activateBattlefieldEntry :: "indexed_card \<Rightarrow> bool \<Rightarrow> drop_feedback \<Rightarrow> drop_feedback" where
  "activateBattlefieldEntry c commanderEntry s =
     (let key' = manaKey (ix_playerId c) (ix_instanceId c);
          t = activateKey EntryFeedback key' BATTLEFIELD_ENTRY_DURATION_MS s
      in if \<not> commanderEntry then t else activateKey CommanderFeedback key' 980 t)"

definition activateEnteredCard :: "indexed_card \<Rightarrow> drop_feedback \<Rightarrow> drop_feedback" where
  "activateEnteredCard c s =
     (if ix_zone c = Battlefield \<or> ix_zone c = Hand then activateCard c s
      else activateZone (ix_playerId c) (ix_zone c) s)"

section \<open>Marks\<close>

definition markPendingManaDrop :: "string \<Rightarrow> string list \<Rightarrow> drop_feedback \<Rightarrow> drop_feedback" where
  "markPendingManaDrop playerId instanceIds s =
     s\<lparr>df_pendingManaDrops := df_pendingManaDrops s \<union> manaKey playerId ` set instanceIds\<rparr>"

definition markPendingBattlefieldEntry :: "string \<Rightarrow> string list \<Rightarrow> drop_feedback \<Rightarrow> drop_feedback" where
  "markPendingBattlefieldEntry playerId instanceIds s =
     s\<lparr>df_pendingBattlefieldEntries := df_pendingBattlefieldEntries s \<union> manaKey playerId ` set instanceIds\<rparr>"

definition markPendingCommanderBattlefieldEntry :: "string \<Rightarrow> string list \<Rightarrow> drop_feedback \<Rightarrow> drop_feedback" where
  "markPendingCommanderBattlefieldEntry playerId instanceIds s = s\<lparr>df_pendingCommanderBattlefieldEntries :=
     df_pendingCommanderBattlefieldEntries s \<union> manaKey playerId ` set instanceIds\<rparr>"

definition clearPendingBattlefieldEntries :: "drop_feedback \<Rightarrow> drop_feedback" where
  "clearPendingBattlefieldEntries s =
     s\<lparr>df_pendingBattlefieldEntries := {}, df_pendingCommanderBattlefieldEntries := {}\<rparr>"

section \<open>Comparing snapshots\<close>

definition activatePendingBattlefieldEntry :: "indexed_card \<Rightarrow> drop_feedback \<Rightarrow> drop_feedback" where
  "activatePendingBattlefieldEntry c s =
     (let key' = manaKey (ix_playerId c) (ix_instanceId c)
      in if ix_zone c \<noteq> Battlefield \<or> key' \<notin> df_pendingBattlefieldEntries s then s
         else activateBattlefieldEntry c (key' \<in> df_pendingCommanderBattlefieldEntries s)
           ((activateCard c (s\<lparr>df_pendingBattlefieldEntries := df_pendingBattlefieldEntries s - {key'}\<rparr>))
             \<lparr>df_pendingCommanderBattlefieldEntries := df_pendingCommanderBattlefieldEntries s - {key'}\<rparr>))"

definition activatePendingBattlefieldEntries :: "indexed_card obj \<Rightarrow> drop_feedback \<Rightarrow> drop_feedback" where
  "activatePendingBattlefieldEntries cards s =
     (if df_pendingBattlefieldEntries s = {} then s
      else foldl (\<lambda>t (key', c). activatePendingBattlefieldEntry c t) s cards)"

definition collectManaDrop :: "indexed_card \<Rightarrow> drop_feedback \<times> string set \<Rightarrow> drop_feedback \<times> string set" where
  "collectManaDrop c = (\<lambda>(s, consumed).
     let pendingKey = manaKey (ix_playerId c) (ix_instanceId c)
     in if ix_zone c \<noteq> Battlefield \<or> pendingKey \<notin> df_pendingManaDrops s then (s, consumed)
        else (activateKey ManaFeedback pendingKey FEEDBACK_DURATION_MS s, insert pendingKey consumed))"

definition activateBattlefieldEntryIfNeeded ::
  "indexed_card obj \<Rightarrow> indexed_card \<Rightarrow> drop_feedback \<Rightarrow> drop_feedback" where
  "activateBattlefieldEntryIfNeeded previousCards c s =
     (if ix_zone c \<noteq> Battlefield then s
      else case List.find (\<lambda>p. ix_playerId p = ix_playerId c \<and> ix_instanceId p = ix_instanceId c)
          (map snd previousCards) of
        None \<Rightarrow> s
      | Some p \<Rightarrow> if ix_zone p = Battlefield then s else activateBattlefieldEntry c (ix_zone p = Command) s)"

text \<open>The body of the loop over the cards that are there now.\<close>

definition recordCard ::
  "indexed_card obj \<Rightarrow> string \<times> indexed_card \<Rightarrow> drop_feedback \<times> string set \<Rightarrow> drop_feedback \<times> string set" where
  "recordCard previousCards = (\<lambda>(key', c) (s, consumed).
     let s1 = activatePendingBattlefieldEntry c s
     in case obj_get previousCards key' of
       None \<Rightarrow> collectManaDrop c
         (activateBattlefieldEntryIfNeeded previousCards c (activateEnteredCard c s1), consumed)
     | Some p \<Rightarrow>
         if ix_zone c = Battlefield \<and> ix_positionKey p \<noteq> ix_positionKey c
         then collectManaDrop c (activateCard c s1, consumed) else (s1, consumed))"

definition recordSnapshotChanges :: "indexed_card obj \<Rightarrow> indexed_card obj \<Rightarrow> drop_feedback \<Rightarrow> drop_feedback" where
  "recordSnapshotChanges previousCards nextCards s =
     (let (t, consumed) = fold (recordCard previousCards) nextCards (s, {})
      in t\<lparr>df_pendingManaDrops := df_pendingManaDrops t - consumed\<rparr>)"

definition trackSnapshot :: "key_order \<Rightarrow> game_snapshot option \<Rightarrow> drop_feedback \<Rightarrow> drop_feedback" where
  "trackSnapshot ko snapshot s = (case snapshot of
     None \<Rightarrow> clearAllFeedback (s\<lparr>df_previousVersion := None, df_previousCards := [], df_pendingManaDrops := {},
       df_pendingBattlefieldEntries := {}, df_pendingCommanderBattlefieldEntries := {}\<rparr>)
   | Some t \<Rightarrow>
       let nextCards = indexSnapshot ko t
       in case df_previousVersion s of
         None \<Rightarrow> s\<lparr>df_previousVersion := Some (sn_version t), df_previousCards := nextCards\<rparr>
       | Some v \<Rightarrow>
           if sn_version t = v
           then (activatePendingBattlefieldEntries nextCards s)\<lparr>df_previousCards := nextCards\<rparr>
           else (recordSnapshotChanges (df_previousCards s) nextCards s)
             \<lparr>df_previousVersion := Some (sn_version t), df_previousCards := nextCards\<rparr>)"

section \<open>Reading\<close>

definition isCardDropSettling :: "string \<Rightarrow> game_zone_name \<Rightarrow> string \<Rightarrow> drop_feedback \<Rightarrow> bool" where
  "isCardDropSettling playerId zone instanceId s \<longleftrightarrow> fbCardKey playerId zone instanceId \<in> df_active s CardFeedback"

definition isManaDropSettling :: "string \<Rightarrow> string \<Rightarrow> drop_feedback \<Rightarrow> bool" where
  "isManaDropSettling playerId instanceId s \<longleftrightarrow> manaKey playerId instanceId \<in> df_active s ManaFeedback"

definition isBattlefieldEntrySettling :: "string \<Rightarrow> string \<Rightarrow> drop_feedback \<Rightarrow> bool" where
  "isBattlefieldEntrySettling playerId instanceId s \<longleftrightarrow> manaKey playerId instanceId \<in> df_active s EntryFeedback"

definition isCommanderEntrySettling :: "string \<Rightarrow> string \<Rightarrow> drop_feedback \<Rightarrow> bool" where
  "isCommanderEntrySettling playerId instanceId s \<longleftrightarrow> manaKey playerId instanceId \<in> df_active s CommanderFeedback"

definition isZoneDropSettling :: "string \<Rightarrow> game_zone_name \<Rightarrow> drop_feedback \<Rightarrow> bool" where
  "isZoneDropSettling playerId zone s \<longleftrightarrow> fbZoneKey playerId zone \<in> df_active s ZoneFeedback"

section \<open>Events\<close>

datatype feedback_event =
    TrackSnapshot "game_snapshot option"
  | MarkManaDrop string "string list"
  | MarkEntry string "string list"
  | MarkCommanderEntry string "string list"
  | ClearEntries
  | FeedbackTimer nat
  | DestroyFeedback

fun feedbackStep :: "key_order \<Rightarrow> drop_feedback \<Rightarrow> feedback_event \<Rightarrow> drop_feedback" where
  "feedbackStep ko s (TrackSnapshot t) = trackSnapshot ko t s"
| "feedbackStep ko s (MarkManaDrop p ids) = markPendingManaDrop p ids s"
| "feedbackStep ko s (MarkEntry p ids) = markPendingBattlefieldEntry p ids s"
| "feedbackStep ko s (MarkCommanderEntry p ids) = markPendingCommanderBattlefieldEntry p ids s"
| "feedbackStep ko s ClearEntries = clearPendingBattlefieldEntries s"
| "feedbackStep ko s (FeedbackTimer n) = feedbackTimerFires n s"
| "feedbackStep ko s DestroyFeedback = clearAllFeedback s"

end
