(* ===== verification/SnapshotSelectors.thy ===== *)
theory SnapshotSelectors
  imports BattlefieldGeometry DropFeedback
begin

text \<open>
  What the table shows of a snapshot, \<^verbatim>\<open>state/core/game-table-snapshot-selectors.ts\<close>, with the
  commanders of a player (\<^verbatim>\<open>utils/command-zone-drop.ts\<close>) and the image of a sleeve
  (\<^verbatim>\<open>utils/game-table-visual-assets.ts\<close>). A set of ids that is only asked for its members is a
  predicate. The caches of the selectors return the same values by identity and are not modelled.
\<close>

section \<open>Commanders\<close>

type_synonym id_set = "string \<Rightarrow> bool"

definition isKnownCommanderCard :: "game_card_instance option \<Rightarrow> id_set \<Rightarrow> bool" where
  "isKnownCommanderCard crd known = (case crd of
     None \<Rightarrow> False | Some c \<Rightarrow> card_isCommander c = Some True \<or> known (card_instanceId c))"

definition canDropCardOnZone :: "game_zone_name \<Rightarrow> game_card_instance option \<Rightarrow> id_set \<Rightarrow> bool" where
  "canDropCardOnZone zone crd known \<longleftrightarrow> zone \<noteq> Command \<or> isKnownCommanderCard crd known"

definition canDropCardsOnZone :: "game_zone_name \<Rightarrow> game_card_instance list \<Rightarrow> id_set \<Rightarrow> bool" where
  "canDropCardsOnZone zone cards known \<longleftrightarrow>
     zone \<noteq> Command \<or> cards \<noteq> [] \<and> list_all (\<lambda>c. isKnownCommanderCard (Some c) known) cards"

text \<open>\<open>Object.values(player.zones).flat()\<close>; the zones are listed in the order of the object.\<close>

definition allZoneCards :: "key_order \<Rightarrow> game_player_state \<Rightarrow> game_card_instance list" where
  "allZoneCards ko player = concat (map (\<lambda>z. or_default (pl_zones player z) []) (ko_zones ko player))"

text \<open>A scope \<open>commander:id\<close> of counters adds the id.\<close>

definition commanderScope :: "string \<Rightarrow> string" where
  "commanderScope i = ''commander:'' @ i"

definition addKnownPlayerCommanderIds :: "key_order \<Rightarrow> game_player_state \<Rightarrow> id_set \<Rightarrow> id_set" where
  "addKnownPlayerCommanderIds ko player known = (\<lambda>i. known i
     \<or> list_ex (\<lambda>c. card_isCommander c = Some True \<and> card_instanceId c = i) (allZoneCards ko player)
     \<or> pl_commanderDamage player i \<noteq> None \<or> pl_counters player (commanderScope i) \<noteq> None)"

definition knownCommanderInstanceIdsFromPlayerState :: "key_order \<Rightarrow> game_player_state \<Rightarrow> id_set" where
  "knownCommanderInstanceIdsFromPlayerState ko player = addKnownPlayerCommanderIds ko player (\<lambda>i. False)"

definition snapshotPlayers :: "key_order \<Rightarrow> game_snapshot \<Rightarrow> (string \<times> game_player_state) list" where
  "snapshotPlayers ko t = List.map_filter (\<lambda>p. map_option (Pair p) (sn_players t p)) (ko_playerIds ko t)"

definition knownCommanderInstanceIds :: "key_order \<Rightarrow> game_snapshot option \<Rightarrow> id_set" where
  "knownCommanderInstanceIds ko snapshot = (case snapshot of
     None \<Rightarrow> (\<lambda>i. False)
   | Some t \<Rightarrow>
       (let known = foldl (\<lambda>known (_, player). addKnownPlayerCommanderIds ko player known) (\<lambda>i. False)
              (snapshotPlayers ko t)
        in (\<lambda>i. known i \<or> or_default (sn_counters t) Map.empty (commanderScope i) \<noteq> None)))"

section \<open>Players\<close>

record player_view =
  pv_id :: string
  pv_state :: game_player_state
  pv_knownCommanderInstanceIds :: "id_set option"

definition players :: "key_order \<Rightarrow> game_snapshot option \<Rightarrow> player_view list" where
  "players ko snapshot = (case snapshot of
     None \<Rightarrow> []
   | Some t \<Rightarrow> map (\<lambda>(i, state). \<lparr>pv_id = i, pv_state = state,
       pv_knownCommanderInstanceIds = Some (knownCommanderInstanceIds ko snapshot)\<rparr>) (snapshotPlayers ko t))"

definition focusedPlayer ::
  "game_snapshot option \<Rightarrow> player_view list \<Rightarrow> string option \<Rightarrow> player_view option" where
  "focusedPlayer snapshot views focusedPlayerId =
     (let first = (case views of [] \<Rightarrow> None | v # _ \<Rightarrow> Some v);
          focusedId = or_else focusedPlayerId (or_else
            (Option.bind snapshot (\<lambda>t. gt_activePlayerId (sn_turn t))) (map_option pv_id first))
      in or_else (List.find (\<lambda>v. Some (pv_id v) = focusedId) views) first)"

text \<open>\<open>player.state.user.id\<close>; the user is an opaque value.\<close>

definition userId :: "game_player_state \<Rightarrow> string option" where
  "userId player = (case pl_user player of
     JObj entries \<Rightarrow> (case map_of entries ''id'' of Some (JStr i) \<Rightarrow> Some i | _ \<Rightarrow> None)
   | _ \<Rightarrow> None)"

definition currentPlayer :: "player_view list \<Rightarrow> string option \<Rightarrow> player_view option" where
  "currentPlayer views user = List.find (\<lambda>v. userId (pv_state v) = user) views"

definition isGameOwner :: "game_snapshot option \<Rightarrow> player_view option \<Rightarrow> bool" where
  "isGameOwner snapshot current \<longleftrightarrow> Option.bind snapshot sn_ownerId = map_option pv_id current"

section \<open>Zones and commanders of a player\<close>

definition zoneTitle :: "game_zone_name \<Rightarrow> string" where
  "zoneTitle zone = (case zone of Library \<Rightarrow> ''Library'' | Hand \<Rightarrow> ''Hand'' | Battlefield \<Rightarrow> ''Battlefield''
     | Graveyard \<Rightarrow> ''Graveyard'' | Exile \<Rightarrow> ''Exile'' | Command \<Rightarrow> ''Command'')"

definition zoneCount :: "player_view \<Rightarrow> game_zone_name \<Rightarrow> jsnum" where
  "zoneCount player zone = or_default (or_else (Option.bind (pl_zoneCounts (pv_state player)) (\<lambda>m. m zone))
     (map_option (\<lambda>cards. num (int (length cards))) (pl_zones (pv_state player) zone))) (num 0)"

definition commandZoneCards :: "player_view \<Rightarrow> game_card_instance list" where
  "commandZoneCards player = or_default (pl_zones (pv_state player) Command) []"

definition knownCommanderIds :: "key_order \<Rightarrow> player_view \<Rightarrow> id_set" where
  "knownCommanderIds ko player = or_default (pv_knownCommanderInstanceIds player)
     (knownCommanderInstanceIdsFromPlayerState ko (pv_state player))"

text \<open>The filter with the set of ids it has seen: the first card of each id.\<close>

fun firstOfEachId :: "string set \<Rightarrow> game_card_instance list \<Rightarrow> game_card_instance list" where
  "firstOfEachId seen [] = []"
| "firstOfEachId seen (c # cs) = (if card_instanceId c \<in> seen then firstOfEachId seen cs
     else c # firstOfEachId (insert (card_instanceId c) seen) cs)"

definition commanderCards :: "key_order \<Rightarrow> player_view \<Rightarrow> game_card_instance list" where
  "commanderCards ko player = firstOfEachId {}
     (filter (\<lambda>c. isKnownCommanderCard (Some c) (knownCommanderIds ko player)) (allZoneCards ko (pv_state player)))"

definition head_option :: "'a list \<Rightarrow> 'a option" where
  "head_option xs = (case xs of [] \<Rightarrow> None | x # _ \<Rightarrow> Some x)"

definition primaryCommander :: "key_order \<Rightarrow> player_view \<Rightarrow> game_card_instance option" where
  "primaryCommander ko player =
     or_else (head_option (commandZoneCards player)) (head_option (commanderCards ko player))"

definition casts :: "game_snapshot option \<Rightarrow> string \<Rightarrow> jsnum option" where
  "casts snapshot i = Option.bind snapshot (\<lambda>t. Option.bind (sn_counters t) (\<lambda>m.
     Option.bind (m (commanderScope i)) (\<lambda>n. n ''casts'')))"

definition commanderCastCount ::
  "key_order \<Rightarrow> game_snapshot option \<Rightarrow> player_view \<Rightarrow> game_card_instance option \<Rightarrow> jsnum" where
  "commanderCastCount ko snapshot player commander = (case or_else commander (primaryCommander ko player) of
     None \<Rightarrow> num 0
   | Some c \<Rightarrow> (case casts snapshot (card_instanceId c) of
       Some v \<Rightarrow> js_max (num 0) v
     | None \<Rightarrow>
         if map_option card_instanceId (primaryCommander ko player) = Some (card_instanceId c)
         then js_max (num 0) (or_default (casts snapshot (pv_id player)) (num 0)) else num 0))"

section \<open>Faces and images\<close>

type_synonym image_uri = "string option"

definition field :: "string \<Rightarrow> json \<Rightarrow> json option" where
  "field name value = (case value of JObj entries \<Rightarrow> map_of entries name | _ \<Rightarrow> None)"

definition text_value :: "json option \<Rightarrow> string option" where
  "text_value value = (case value of Some (JStr s) \<Rightarrow> Some s | _ \<Rightarrow> None)"

definition requestedIndex :: "game_card_instance \<Rightarrow> int" where
  "requestedIndex c = (case card_activeFaceIndex c of Some n \<Rightarrow> if is_integer n then js_int n else 0 | None \<Rightarrow> 0)"

definition activeCardFace :: "game_card_instance \<Rightarrow> json option" where
  "activeCardFace c = (let faces = or_default (card_cardFaces c) [] in
     if faces = [] then None
     else Some (faces ! nat (max 0 (min (int (length faces) - 1) (requestedIndex c)))))"

definition faceImage :: "json option \<Rightarrow> image_uri" where
  "faceImage face = text_value (Option.bind (Option.bind face (field ''imageUris'')) (field ''normal''))"

text \<open>\<open>visibleCardImage\<close> and \<open>publicCardImage\<close>.\<close>

definition publicCardImage :: "game_card_instance \<Rightarrow> image_uri" where
  "publicCardImage c = or_else (faceImage (activeCardFace c))
     (or_else (Option.bind (card_imageUris c) (\<lambda>m. m ''normal''))
       (faceImage (head_option (or_default (card_cardFaces c) []))))"

definition truthy :: "bool option \<Rightarrow> bool" where
  "truthy b \<longleftrightarrow> b = Some True"

definition shouldShowCardBack :: "game_card_instance \<Rightarrow> bool" where
  "shouldShowCardBack c \<longleftrightarrow> truthy (card_faceDown c) \<or> truthy (card_hidden c)"

text \<open>\<open>replace(/\.(png|jpg|jpeg|webp)$/i, '')\<close> and \<open>/^[a-z]+(?:_[a-z]+)?_\d+$/\<close>.\<close>

definition withoutExtension :: "string \<Rightarrow> string" where
  "withoutExtension s = (case List.find (\<lambda>e. length e \<le> length s \<and> js_lower (drop (length s - length e) s) = e)
       [''.png'', ''.jpg'', ''.jpeg'', ''.webp''] of
     None \<Rightarrow> s | Some e \<Rightarrow> take (length s - length e) s)"

definition normalizeAssetName :: "string option \<Rightarrow> string" where
  "normalizeAssetName assetName = withoutExtension (js_trim (or_default assetName []))"

definition is_lower_word :: "string \<Rightarrow> bool" where
  "is_lower_word s \<longleftrightarrow> s \<noteq> [] \<and> list_all (\<lambda>c. 97 \<le> (of_char c :: nat) \<and> (of_char c :: nat) \<le> 122) s"

definition is_digits :: "string \<Rightarrow> bool" where
  "is_digits s \<longleftrightarrow> s \<noteq> [] \<and> list_all is_digit s"

definition customVisualImageUrl :: "string \<Rightarrow> string \<Rightarrow> string option" where
  "customVisualImageUrl basePath assetName =
     (if case split_at CHR ''_'' assetName of
           [a, n] \<Rightarrow> is_lower_word a \<and> is_digits n
         | [a, b, n] \<Rightarrow> is_lower_word a \<and> is_lower_word b \<and> is_digits n
         | _ \<Rightarrow> False
      then Some (basePath @ assetName @ ''.webp'') else None)"

definition gameSleevesImageUrl :: "string option \<Rightarrow> string" where
  "gameSleevesImageUrl sleevesName =
     (let name = normalizeAssetName sleevesName; default = ''/assets/images/facedown_card.jpg''
      in if name = ''facedown_card'' then default
         else or_default (customVisualImageUrl ''/assets/images/sleeves/'' name) default)"

definition cardOwnerSleevesName :: "game_card_instance \<Rightarrow> game_snapshot option \<Rightarrow> string option" where
  "cardOwnerSleevesName c snapshot = (case or_else (card_ownerId c) (card_controllerId c) of
     None \<Rightarrow> None
   | Some i \<Rightarrow> if i = [] then None
       else Option.bind snapshot (\<lambda>t. Option.bind (sn_players t i) pl_sleevesName))"

definition cardImage :: "game_card_instance \<Rightarrow> game_snapshot option \<Rightarrow> image_uri" where
  "cardImage c snapshot = (if shouldShowCardBack c then Some (gameSleevesImageUrl (cardOwnerSleevesName c snapshot))
     else publicCardImage c)"

section \<open>Piles\<close>

definition isLibraryTopCardVisible :: "player_view \<Rightarrow> game_card_instance \<Rightarrow> bool" where
  "isLibraryTopCardVisible player c \<longleftrightarrow> pl_playTopLibraryRevealed (pv_state player) = Some True
     \<or> pl_topLibraryRevealMarker (pv_state player) = Some True \<or> or_default (card_revealedTo c) [] \<noteq> []"

text \<open>\<open>cards.at(-n)\<close> for a positive \<open>n\<close>.\<close>

definition from_end :: "nat \<Rightarrow> 'a list \<Rightarrow> 'a option" where
  "from_end n xs = (if n \<le> length xs then Some (xs ! (length xs - n)) else None)"

definition commanderFirst :: "game_card_instance list \<Rightarrow> game_zone_name \<Rightarrow> id_set \<Rightarrow> bool" where
  "commanderFirst cards zone known \<longleftrightarrow>
     (zone = Graveyard \<or> zone = Exile) \<and> isKnownCommanderCard (head_option cards) known"

definition publicPilePrimaryCard ::
  "game_card_instance list \<Rightarrow> game_zone_name \<Rightarrow> id_set \<Rightarrow> game_card_instance option" where
  "publicPilePrimaryCard cards zone known =
     (if commanderFirst cards zone known then head_option cards else from_end 1 cards)"

definition publicPileLayerCard ::
  "game_card_instance list \<Rightarrow> game_zone_name \<Rightarrow> id_set \<Rightarrow> game_card_instance option" where
  "publicPileLayerCard cards zone known =
     (if commanderFirst cards zone known then head_option (tl cards) else from_end 2 cards)"

definition topVisibleCard :: "key_order \<Rightarrow> player_view \<Rightarrow> game_zone_name \<Rightarrow> game_card_instance option" where
  "topVisibleCard ko player zone =
     (if zone = Hand then None
      else let cards = or_default (pl_zones (pv_state player) zone) [] in
        if zone = Library then (case cards of
            [] \<Rightarrow> None
          | c # _ \<Rightarrow> if isLibraryTopCardVisible player c then Some c else None)
        else publicPilePrimaryCard cards zone (knownCommanderIds ko player))"

definition zonePreviewImage :: "key_order \<Rightarrow> player_view \<Rightarrow> game_zone_name \<Rightarrow> image_uri" where
  "zonePreviewImage ko player zone =
     (if zone = Library then (case topVisibleCard ko player zone of
          Some c \<Rightarrow> if \<not> truthy (card_hidden c) then publicCardImage c
            else if js_less (num 0) (zoneCount player zone)
              then Some (gameSleevesImageUrl (pl_sleevesName (pv_state player))) else None
        | None \<Rightarrow> if js_less (num 0) (zoneCount player zone)
            then Some (gameSleevesImageUrl (pl_sleevesName (pv_state player))) else None)
      else Option.bind (topVisibleCard ko player zone) publicCardImage)"

definition zoneStackLayerImage :: "key_order \<Rightarrow> player_view \<Rightarrow> game_zone_name \<Rightarrow> image_uri" where
  "zoneStackLayerImage ko player zone =
     (if zone = Hand \<or> zone = Battlefield \<or> zone = Command then None
      else let cards = or_default (pl_zones (pv_state player) zone) [];
               back = Some (gameSleevesImageUrl (pl_sleevesName (pv_state player)));
               secondCard = (if zone = Library then head_option (tl cards)
                 else publicPileLayerCard cards zone (knownCommanderIds ko player))
        in case secondCard of
             None \<Rightarrow> if zone = Library \<and> js_less (num 1) (zoneCount player zone) then back else None
           | Some c \<Rightarrow>
               if zone = Library
               then (if \<not> truthy (card_hidden c) \<and> or_default (card_revealedTo c) [] \<noteq> []
                     then publicCardImage c else back)
               else publicCardImage c)"

definition topDraggableCard ::
  "key_order \<Rightarrow> player_view \<Rightarrow> game_zone_name \<Rightarrow> bool \<Rightarrow> game_card_instance option" where
  "topDraggableCard ko player zone canControlPlayer =
     (if \<not> canControlPlayer \<or> zone = Hand \<or> zone = Battlefield then None
      else let cards = or_default (pl_zones (pv_state player) zone) [] in
        if zone = Library then head_option cards
        else publicPilePrimaryCard cards zone (knownCommanderIds ko player))"

section \<open>Battles and sagas\<close>

definition activeCardTypeLine :: "game_card_instance option \<Rightarrow> string" where
  "activeCardTypeLine crd = (case crd of
     None \<Rightarrow> []
   | Some c \<Rightarrow>
       if or_default (card_cardFaces c) [] \<noteq> []
       then js_lower (js_trim (or_default (text_value (Option.bind (activeCardFace c) (field ''typeLine''))) []))
       else normalizedField (card_typeLine c))"

definition isBattleCard :: "game_card_instance option \<Rightarrow> bool" where
  "isBattleCard crd \<longleftrightarrow> starts_with ''battle'' (activeCardTypeLine crd)"

definition isSagaCard :: "game_card_instance option \<Rightarrow> bool" where
  "isSagaCard crd \<longleftrightarrow> str_includes ''saga'' (activeCardTypeLine crd)"

section \<open>Power, toughness, loyalty and defense\<close>

datatype stat_key = Power | Toughness | Loyalty | Defense

definition stat_name :: "stat_key \<Rightarrow> string" where
  "stat_name k = (case k of Power \<Rightarrow> ''power'' | Toughness \<Rightarrow> ''toughness'' | Loyalty \<Rightarrow> ''loyalty'' | Defense \<Rightarrow> ''defense'')"

definition card_stat :: "stat_key \<Rightarrow> game_card_instance \<Rightarrow> card_stat_value option" where
  "card_stat k = (case k of Power \<Rightarrow> card_power | Toughness \<Rightarrow> card_toughness | Loyalty \<Rightarrow> card_loyalty | Defense \<Rightarrow> card_defense)"

definition default_stat :: "stat_key \<Rightarrow> game_card_instance \<Rightarrow> card_stat_value option" where
  "default_stat k = (case k of Power \<Rightarrow> card_defaultPower | Toughness \<Rightarrow> card_defaultToughness
     | Loyalty \<Rightarrow> card_defaultLoyalty | Defense \<Rightarrow> card_defaultDefense)"

definition runtime_stat :: "stat_key \<Rightarrow> card_face_runtime_stats \<Rightarrow> card_stat_value" where
  "runtime_stat k = (case k of Power \<Rightarrow> frs_power | Toughness \<Rightarrow> frs_toughness | Loyalty \<Rightarrow> frs_loyalty | Defense \<Rightarrow> frs_defense)"

definition json_stat :: "json option \<Rightarrow> card_stat_value option" where
  "json_stat value = (case value of Some (JNum n) \<Rightarrow> Some (StatNum n) | Some (JStr s) \<Rightarrow> Some (StatStr s) | _ \<Rightarrow> None)"

text \<open>\<open>Number\<close> of a text is an argument. The answer \<open>null\<close> is \<open>None\<close>.\<close>

definition statValue :: "(string \<Rightarrow> jsnum) \<Rightarrow> card_stat_value option \<Rightarrow> card_stat_value option" where
  "statValue parse value = (case value of
     None \<Rightarrow> None
   | Some StatNull \<Rightarrow> None
   | Some (StatNum n) \<Rightarrow> Some (StatNum n)
   | Some (StatStr s) \<Rightarrow> if s = [] then None
       else if is_finite (parse s) then Some (StatNum (parse s)) else Some (StatStr s))"

definition isVariablePrintedStat :: "string \<Rightarrow> bool" where
  "isVariablePrintedStat s \<longleftrightarrow> CHR ''x'' \<in> set (js_lower s) \<or> CHR ''*'' \<in> set s"

definition variableStat :: "card_stat_value option \<Rightarrow> bool" where
  "variableStat v = (case v of Some (StatStr s) \<Rightarrow> isVariablePrintedStat s | _ \<Rightarrow> False)"

definition currentOrPrintedVariableStatValue ::
  "card_stat_value option \<Rightarrow> card_stat_value option \<Rightarrow> card_stat_value option" where
  "currentOrPrintedVariableStatValue currentValue printedValue =
     (if variableStat printedValue \<and> currentValue = Some (StatNum (num 0)) then printedValue
      else or_else currentValue printedValue)"

definition activeFaceVisualStatValue ::
  "card_stat_value option \<Rightarrow> card_stat_value option \<Rightarrow> card_stat_value option" where
  "activeFaceVisualStatValue currentValue printedValue =
     (if \<not> variableStat printedValue then printedValue
      else currentOrPrintedVariableStatValue currentValue printedValue)"

definition activeFaceRuntimeStats :: "game_card_instance \<Rightarrow> card_face_runtime_stats option" where
  "activeFaceRuntimeStats c = (let stats = or_default (card_faceRuntimeStats c) []; i = requestedIndex c in
     if 0 \<le> i \<and> i < int (length stats) then Some (stats ! nat i) else None)"

definition activeCardStatValue ::
  "(string \<Rightarrow> jsnum) \<Rightarrow> game_card_instance \<Rightarrow> stat_key \<Rightarrow> card_stat_value option" where
  "activeCardStatValue parse c k = (case activeCardFace c of
     Some face \<Rightarrow>
       (let printedValue = statValue parse (json_stat (field (stat_name k) face)) in
        if printedValue = None then None
        else case activeFaceRuntimeStats c of
          Some stats \<Rightarrow> currentOrPrintedVariableStatValue (statValue parse (Some (runtime_stat k stats))) printedValue
        | None \<Rightarrow> activeFaceVisualStatValue (statValue parse (card_stat k c)) printedValue)
   | None \<Rightarrow> currentOrPrintedVariableStatValue (statValue parse (card_stat k c)) (statValue parse (default_stat k c)))"

definition cardBattleValue :: "(string \<Rightarrow> jsnum) \<Rightarrow> game_card_instance \<Rightarrow> card_stat_value option" where
  "cardBattleValue parse c =
     (if \<not> isBattleCard (Some c) then None
      else let face = statValue parse (json_stat (Option.bind (activeCardFace c) (field ''defense'')));
               printedValue = or_else face (statValue parse (card_defaultDefense c))
        in if or_default (card_cardFaces c) [] \<noteq> [] \<and> face = None then None
           else currentOrPrintedVariableStatValue (statValue parse (card_defense c)) printedValue)"

definition hasPowerToughness :: "(string \<Rightarrow> jsnum) \<Rightarrow> game_card_instance \<Rightarrow> bool" where
  "hasPowerToughness parse c \<longleftrightarrow> activeCardStatValue parse c Power \<noteq> None \<and> activeCardStatValue parse c Toughness \<noteq> None"

section \<open>Colours and phases\<close>

definition colorIdentity :: "player_view option \<Rightarrow> string list" where
  "colorIdentity player = or_default (Option.bind player (\<lambda>v. pl_colorIdentity (pv_state v))) []"

definition colorAccent :: "player_view option \<Rightarrow> string" where
  "colorAccent player = or_default (map_of [(''W'', ''#f8f3df''), (''U'', ''#7cc7ff''), (''B'', ''#b9a8c9''),
     (''R'', ''#f08264''), (''G'', ''#76c779'')] (or_default (head_option (colorIdentity player)) [])) ''#ded8bf''"

definition isPhasePast :: "string list \<Rightarrow> game_snapshot option \<Rightarrow> string \<Rightarrow> bool" where
  "isPhasePast phases snapshot phase = (case Option.bind snapshot (\<lambda>t.
       if gt_phase (sn_turn t) = [] then None else find_index (\<lambda>p. p = gt_phase (sn_turn t)) phases) of
     None \<Rightarrow> False
   | Some active \<Rightarrow> (case find_index (\<lambda>p. p = phase) phases of None \<Rightarrow> False | Some i \<Rightarrow> i < active))"

section \<open>Lemmas\<close>

lemma firstOfEachId_props:
  "distinct (map card_instanceId (firstOfEachId seen cs))
   \<and> set (firstOfEachId seen cs) \<subseteq> set cs
   \<and> card_instanceId ` set (firstOfEachId seen cs) = card_instanceId ` set cs - seen"
  by (induction cs arbitrary: seen) (auto simp: image_iff)

text \<open>The commanders of a player: one card for each id of a known commander in a zone of the player.\<close>

lemma commanderCards_ids:
  "distinct (map card_instanceId (commanderCards ko player))
   \<and> card_instanceId ` set (commanderCards ko player) = card_instanceId `
       {c \<in> set (allZoneCards ko (pv_state player)). isKnownCommanderCard (Some c) (knownCommanderIds ko player)}"
  using firstOfEachId_props by (simp add: commanderCards_def)

lemma commander_drop: "canDropCardOnZone Command (Some c) known \<longleftrightarrow> isKnownCommanderCard (Some c) known"
  by (simp add: canDropCardOnZone_def)

lemma cast_count_not_negative: "\<not> js_less (commanderCastCount ko snapshot player commander) (num 0)"
  unfolding commanderCastCount_def by (auto split: option.split simp: Let_def)

text \<open>A library shows a card only if it is not hidden and was revealed, and else the sleeve of its owner.\<close>

lemma library_image:
  assumes "zonePreviewImage ko player Library = Some img"
    and "img \<noteq> gameSleevesImageUrl (pl_sleevesName (pv_state player))"
  shows "\<exists>c cs. pl_zones (pv_state player) Library = Some (c # cs) \<and> isLibraryTopCardVisible player c
    \<and> \<not> truthy (card_hidden c) \<and> publicCardImage c = Some img"
  using assms
  by (auto simp: zonePreviewImage_def topVisibleCard_def Let_def or_default_def split: if_splits option.splits list.splits)

lemma library_layer_image:
  assumes "zoneStackLayerImage ko player Library = Some img"
    and "img \<noteq> gameSleevesImageUrl (pl_sleevesName (pv_state player))"
  shows "\<exists>b c cs. pl_zones (pv_state player) Library = Some (b # c # cs) \<and> or_default (card_revealedTo c) [] \<noteq> []
    \<and> \<not> truthy (card_hidden c) \<and> publicCardImage c = Some img"
  using assms
  by (cases "pl_zones (pv_state player) Library")
    (auto simp: zoneStackLayerImage_def head_option_def Let_def tl_def split: if_splits option.splits list.splits)

lemma card_back_hides: "shouldShowCardBack c \<Longrightarrow> cardImage c snapshot = Some (gameSleevesImageUrl (cardOwnerSleevesName c snapshot))"
  by (simp add: cardImage_def)

text \<open>A face without a printed value shows none, whatever the card has.\<close>

lemma stat_without_printed_value:
  "activeCardFace c = Some face \<Longrightarrow> statValue parse (json_stat (field (stat_name k) face)) = None \<Longrightarrow>
     activeCardStatValue parse c k = None"
  by (simp add: activeCardStatValue_def)

end
