(* ===== verification/V2State.thy ===== *)
theory V2State
  imports V2Identity "HOL-Library.Sorting_Algorithms"
begin

text \<open>
  The parts of the normalized state and how they are built: relations with their indexes, the
  stack, the chat and the log with their bounded, ordered histories, players, zones, and the
  whole state from a bootstrap message (\<open>createGameTableNormalizedV2State\<close>).

  \<open>localeCompare\<close> depends on the locale of the browser. It is the parameter \<open>coll\<close>, a
  comparator of the library: reflexive, transitive and antisymmetric up to equivalence, which is
  what ECMA-402 requires of a collation. \<open>Array.prototype.sort\<close> is stable.
\<close>

abbreviation js_sort :: "'a comparator \<Rightarrow> 'a list \<Rightarrow> 'a list" where
  "js_sort \<equiv> Sorting_Algorithms.sort"

abbreviation js_sorted :: "'a comparator \<Rightarrow> 'a list \<Rightarrow> bool" where
  "js_sorted \<equiv> Sorting_Algorithms.sorted"

section \<open>Relations\<close>

definition appendIndex :: "string \<Rightarrow> string \<Rightarrow> string list obj \<Rightarrow> string list obj" where
  "appendIndex k v index =
     (let entry = or_default (obj_get index k) [] in
      obj_set k (if v \<in> set entry then entry else entry @ [v]) index)"

text \<open>The loop that fills one index: the key and the id of each relation in turn.\<close>

definition buildIndex :: "('a \<Rightarrow> string) \<Rightarrow> ('a \<Rightarrow> string) \<Rightarrow> 'a list \<Rightarrow> string list obj" where
  "buildIndex keyOf idOf xs = foldl (\<lambda>index x. appendIndex (keyOf x) (idOf x) index) [] xs"

definition keyById :: "('a \<Rightarrow> string) \<Rightarrow> 'a list \<Rightarrow> 'a obj" where
  "keyById idOf xs = fromEntries (map (\<lambda>x. (idOf x, x)) xs)"

definition createRelationsState ::
  "game_arrow list \<Rightarrow> game_attachment list \<Rightarrow> game_battlefield_stack list \<Rightarrow>
   game_special_entity list \<Rightarrow> v2_relations" where
  "createRelationsState arrows attachments stacks entities = \<lparr>
     vr_arrows = keyById ar_id arrows,
     vr_attachments = keyById at_id attachments,
     vr_battlefieldStacks = keyById bs_id stacks,
     vr_specialEntities = keyById se_id entities,
     vr_arrowsBySource = buildIndex ar_fromInstanceId ar_id arrows,
     vr_arrowsByTarget = buildIndex ar_toInstanceId ar_id arrows,
     vr_attachmentsByEquipment = buildIndex at_equipmentInstanceId at_id attachments,
     vr_attachmentsByTarget = buildIndex at_attachedToInstanceId at_id attachments,
     vr_battlefieldStacksByTop = buildIndex bs_stackTopInstanceId bs_id stacks,
     vr_battlefieldStacksByCard = buildIndex bs_stackedInstanceId bs_id stacks\<rparr>"

section \<open>The stack\<close>

definition stackItemId :: "v2_stack_item \<Rightarrow> string option" where
  "stackItemId item =
     (let v = or_else (vk_stackId item) (vk_id item) in if nonEmptyString v then v else None)"

definition storeStackItem :: "v2_stack_item \<Rightarrow> string \<Rightarrow> v2_stack_item obj \<Rightarrow> v2_stack_item obj" where
  "storeStackItem item i byId = obj_set i (item\<lparr>vk_stackId := Some i, vk_id := Some i\<rparr>) byId"

definition createStackState :: "v2_stack_item list \<Rightarrow> v2_stack" where
  "createStackState items = foldl (\<lambda>s item.
     case stackItemId item of
       None \<Rightarrow> s
     | Some i \<Rightarrow> \<lparr>vt_byId = storeStackItem item i (vt_byId s), vt_order = vt_order s @ [i]\<rparr>)
     \<lparr>vt_byId = [], vt_order = []\<rparr> items"

section \<open>Chat\<close>

datatype retention = KeepOldest | KeepNewest

definition retain :: "retention \<Rightarrow> nat \<Rightarrow> 'a list \<Rightarrow> 'a list" where
  "retain mode limit order = (case mode of KeepOldest \<Rightarrow> take limit order | KeepNewest \<Rightarrow> slice_last limit order)"

definition ACTIVITY_BOOTSTRAP_LIMIT :: nat where
  "ACTIVITY_BOOTSTRAP_LIMIT = 50"

definition chatMessageId :: "chat_message \<Rightarrow> string" where
  "chatMessageId m =
     (let i = js_trim (or_default (cm_id m) []) in
      if i \<noteq> [] then i else cm_userId m @ '':'' @ cm_createdAt m @ '':'' @ cm_message m)"

definition emptyChatMessage :: chat_message where
  "emptyChatMessage = \<lparr>cm_id = None, cm_userId = [], cm_displayName = [], cm_message = [],
     cm_targetPlayerId = None, cm_targetDisplayName = None, cm_createdAt = [], cm_reactions = None\<rparr>"

text \<open>What \<open>compareChatMessages\<close> compares: the time, then the id.\<close>

definition chat_rank :: "chat_message option \<Rightarrow> string \<times> string" where
  "chat_rank m = (case m of None \<Rightarrow> [] | Some x \<Rightarrow> cm_createdAt x,
     chatMessageId (or_default m emptyChatMessage))"

definition compareChatMessages :: "string comparator \<Rightarrow> chat_message option comparator" where
  "compareChatMessages coll = key chat_rank (prod_lex coll coll)"

definition mergeChatMessages ::
  "string comparator \<Rightarrow> v2_chat \<Rightarrow> chat_message list \<Rightarrow> nat \<Rightarrow> retention \<Rightarrow> v2_chat" where
  "mergeChatMessages coll current incoming maximumEntries mode =
     (let byId = foldl (\<lambda>ob m. let i = chatMessageId m in obj_set i (m\<lparr>cm_id := Some i\<rparr>) ob)
            (vh_byId current) incoming;
          order = js_sort (key (obj_get byId) (compareChatMessages coll)) (objectKeys byId);
          retainedOrder = retain mode (max 1 maximumEntries) order;
          retainedById = fromEntries (map (\<lambda>i. (i, the (obj_get byId i))) retainedOrder);
          lastId = (if retainedOrder = [] then [] else last retainedOrder)
      in \<lparr>vh_byId = retainedById, vh_order = retainedOrder,
          vh_cursor = or_else (Option.bind (obj_get retainedById lastId) cm_id) (vh_cursor current)\<rparr>)"

definition createChatState ::
  "string comparator \<Rightarrow> chat_message list option \<Rightarrow> string option \<Rightarrow> v2_chat" where
  "createChatState coll entries fallbackCursor =
     mergeChatMessages coll \<lparr>vh_byId = [], vh_order = [], vh_cursor = fallbackCursor\<rparr>
       (or_default entries []) ACTIVITY_BOOTSTRAP_LIMIT KeepNewest"

section \<open>Log\<close>

definition log_rank :: "game_log_entry option \<Rightarrow> string \<times> string" where
  "log_rank e = (case e of None \<Rightarrow> ([], []) | Some x \<Rightarrow> (or_default (le_createdAt x) [], le_id x))"

definition compareLogEntries :: "string comparator \<Rightarrow> game_log_entry option comparator" where
  "compareLogEntries coll = key log_rank (prod_lex coll coll)"

definition storeLogEntries :: "game_log_entry obj \<Rightarrow> game_log_entry list \<Rightarrow> game_log_entry obj" where
  "storeLogEntries byId entries = foldl (\<lambda>ob e. obj_set (le_id e) e ob) byId entries"

definition mergeLogEntries ::
  "string comparator \<Rightarrow> v2_log \<Rightarrow> game_log_entry list \<Rightarrow> nat \<Rightarrow> retention \<Rightarrow> v2_log" where
  "mergeLogEntries coll current incoming maximumEntries mode =
     (let byId = storeLogEntries (vl_byId current) incoming;
          order = js_sort (key (obj_get byId) (compareLogEntries coll)) (objectKeys byId);
          retainedOrder = retain mode (max 1 maximumEntries) order;
          retainedById = fromEntries (map (\<lambda>i. (i, the (obj_get byId i))) retainedOrder)
      in \<lparr>vl_byId = retainedById, vl_order = retainedOrder,
          vl_cursor = (if retainedOrder = [] then None else Some (last retainedOrder))\<rparr>)"

definition createLogState ::
  "string comparator \<Rightarrow> game_log_entry list option \<Rightarrow> string option \<Rightarrow> v2_log" where
  "createLogState coll entries fallbackCursor =
     (let es = or_default entries [];
          byId = storeLogEntries [] es;
          order = unique (map le_id es);
          cursor = (if es = [] then fallbackCursor else Some (le_id (last es)));
          retainedOrder = slice_last ACTIVITY_BOOTSTRAP_LIMIT
            (js_sort (key (obj_get byId) (compareLogEntries coll)) order)
      in \<lparr>vl_byId = filter (\<lambda>(i, _). i \<in> set retainedOrder) byId, vl_order = retainedOrder,
          vl_cursor = cursor\<rparr>)"

section \<open>Players and zones\<close>

definition emptyZones :: zone_map where
  "emptyZones = (\<lambda>_. [])"

definition emptyZoneCounts :: zone_count_map where
  "emptyZoneCounts = (\<lambda>_. num 0)"

definition normalizePlayer :: "boot_player \<Rightarrow> v2_player" where
  "normalizePlayer p = \<lparr>
     vp_playerId = bp_playerId p, vp_user = bp_user p, vp_displayName = bp_displayName p,
     vp_life = bp_life p, vp_isOnline = bp_isOnline p, vp_status = bp_status p,
     vp_handCount = bp_handCount p, vp_zoneCounts = bp_zoneCounts p,
     vp_commanderDamage = bp_commanderDamage p, vp_counters = bp_counters p,
     vp_deckName = non_null (bp_deckName p),
     vp_colorIdentity = Some (or_default (bp_colorIdentity p) []),
     vp_backgroundName = non_null (bp_backgroundName p),
     vp_sleevesName = non_null (bp_sleevesName p),
     vp_concededAt = None,
     vp_mulligan = non_null (bp_mulligan p),
     vp_playTopLibraryRevealed = Some (or_default (bp_playTopLibraryRevealed p) False),
     vp_topLibraryRevealMarker = Some (or_default (bp_topLibraryRevealMarker p) False),
     vp_topLibraryRevealedTo = Some (or_default (bp_topLibraryRevealedTo p) []),
     vp_revealedLibraryTo = None,
     vp_libraryShuffleRevision = None,
     vp_libraryTopRevealEpoch = None,
     vp_revealedHandIndexes = Some (or_default (bp_revealedHandIndexes p) [])\<rparr>"

text \<open>The loop over the zones of the bootstrap, from one empty zone map per player.\<close>

definition placeZone :: "(string \<rightharpoonup> zone_map) \<Rightarrow> boot_zone \<Rightarrow> string \<rightharpoonup> zone_map" where
  "placeZone zones z = zones(bz_playerId z \<mapsto>
     (or_default (zones (bz_playerId z)) emptyZones)(bz_name z := bz_instanceIds z))"

definition bootZones :: "bootstrap_v2 \<Rightarrow> string \<rightharpoonup> zone_map" where
  "bootZones b = foldl placeZone
     (map_of (map (\<lambda>pid. (pid, emptyZones)) (objectKeys (bv_players b)))) (objectValues (bv_zones b))"

definition placeZoneCount ::
  "(string \<rightharpoonup> jsnum) \<Rightarrow> (string \<rightharpoonup> zone_count_map) \<Rightarrow> boot_zone \<Rightarrow> string \<rightharpoonup> zone_count_map" where
  "placeZoneCount zoneCounts counts z = counts(bz_playerId z \<mapsto>
     (or_default (counts (bz_playerId z)) emptyZoneCounts)(bz_name z :=
       js_max (num 0) (or_default (zoneCounts (bz_zoneId z)) (num (int (length (bz_instanceIds z)))))))"

definition bootZoneCounts :: "bootstrap_v2 \<Rightarrow> string \<rightharpoonup> zone_count_map" where
  "bootZoneCounts b = foldl (placeZoneCount (bv_zoneCounts b))
     (map_of (map (\<lambda>pid. (pid, emptyZoneCounts)) (objectKeys (bv_players b)))) (objectValues (bv_zones b))"

section \<open>The state from a bootstrap\<close>

text \<open>
  \<open>controlPlane?.f ?? game.f ?? null\<close>: a \<open>null\<close> of the control plane falls through to the
  field of the game.
\<close>

definition controlled ::
  "boot_game \<Rightarrow> (control_plane \<Rightarrow> 'a option) \<Rightarrow> 'a option option \<Rightarrow> 'a option" where
  "controlled g f own = or_else (Option.bind (bg_controlPlane g) f) (non_null own)"

definition bootGame :: "boot_game \<Rightarrow> v2_game" where
  "bootGame g = \<lparr>
     vg_id = bg_id g,
     vg_status = or_default (map_option cpl_status (bg_controlPlane g)) (bg_status g),
     vg_controlPlaneRevision = or_default (or_else
       (map_option cpl_controlPlaneRevision (bg_controlPlane g)) (bg_controlPlaneRevision g)) 0,
     vg_winnerPlayerId = controlled g cpl_winnerPlayerId (bg_winnerPlayerId g),
     vg_finishedAt = controlled g cpl_finishedAt (bg_finishedAt g),
     vg_finishReason = controlled g cpl_finishReason (bg_finishReason g),
     vg_allDisconnectedSince = controlled g cpl_allDisconnectedSince (bg_allDisconnectedSince g),
     vg_nextLifecycleAt = controlled g cpl_nextLifecycleAt (bg_nextLifecycleAt g),
     vg_viewerId = bg_viewerId g,
     vg_ownerId = controlled g cpl_ownerId (bg_ownerId g),
     vg_version = bg_version g,
     vg_gamePhase = non_null (bg_gamePhase g),
     vg_mulligan = non_null (bg_mulligan g),
     vg_createdAt = non_null (bg_createdAt g),
     vg_updatedAt = non_null (bg_updatedAt g),
     vg_lastDiceResult = None,
     vg_disconnectVotes = cloneDisconnectVotes (or_default (bg_disconnectVotes g) Map.empty),
     vg_rematch = controlled g (\<lambda>cp. Some (cpl_rematch cp)) (bg_rematch g)\<rparr>"

definition createGameTableNormalizedV2State ::
  "string comparator \<Rightarrow> bootstrap_v2 \<Rightarrow> (string \<rightharpoonup> string) \<Rightarrow> v2_state" where
  "createGameTableNormalizedV2State coll b pending =
     (let staticCards = fromEntries (map (\<lambda>(ref, c). (ref, normalizeStaticCard c))
            (objectEntries (bv_staticCards b)))
      in \<lparr>v2_game = bootGame (bv_game b),
          v2_players = fromEntries (map (\<lambda>(pid, p). (pid, normalizePlayer p)) (objectEntries (bv_players b))),
          v2_sharedCounters = or_default (bv_sharedCounters b) Map.empty,
          v2_turn = bv_turn b,
          v2_instances = (\<lambda>iid. map_option (\<lambda>i.
            let n = normalizeInstance i in completeInstanceIdentity n (obj_get staticCards (vi_cardRef n)))
            (bv_instances b iid)),
          v2_zones = bootZones b,
          v2_zoneCounts = bootZoneCounts b,
          v2_relations = createRelationsState (br_arrows (bv_relations b)) (br_attachments (bv_relations b))
            (or_default (br_battlefieldStacks (bv_relations b)) []) (br_specialEntities (bv_relations b)),
          v2_stack = createStackState (br_stack (bv_relations b)),
          v2_staticCards = staticCards,
          v2_chat = createChatState coll (bv_chat b) (non_null (bv_chatCursor b)),
          v2_log = createLogState coll (bv_eventLog b) (non_null (bv_logCursor b)),
          v2_lastAppliedVersion = bg_version (bv_game b),
          v2_pending = pending\<rparr>)"

end
