(* ===== verification/V2Zones.thy ===== *)
theory V2Zones
  imports V2State
begin

text \<open>
  The operations of the normalized store on cards, zones, libraries and players: adding,
  removing, moving and reordering cards, the counts of the zones, what is revealed of a library
  and of a hand. One definition per function of \<^verbatim>\<open>game-table-normalized-v2.store.ts\<close>.
\<close>

section \<open>Insertion points\<close>

definition clampInsertIndex :: "jsnum option \<Rightarrow> nat \<Rightarrow> nat" where
  "clampInsertIndex index currentLength =
     (case index of
        None \<Rightarrow> currentLength
      | Some i \<Rightarrow> if is_integer i then nat (max 0 (min (int currentLength) (js_int i))) else currentLength)"

section \<open>Players\<close>

definition updatePlayerV2 :: "v2_state \<Rightarrow> string \<Rightarrow> (v2_player \<Rightarrow> v2_player) \<Rightarrow> v2_op_result" where
  "updatePlayerV2 s pid update =
     (case obj_get (v2_players s) pid of
        None \<Rightarrow> V2Failed V2TargetNotFound
      | Some player \<Rightarrow> V2Applied (s\<lparr>v2_players := obj_set pid (update player) (v2_players s)\<rparr>))"

definition setRevealedHandIndex :: "int list option \<Rightarrow> int \<Rightarrow> bool \<Rightarrow> int list" where
  "setRevealedHandIndex indexes index revealed =
     (let current = unique (or_default indexes []) in
      List.sort (if revealed then (if index \<in> set current then current else current @ [index])
                 else filter (\<lambda>i. i \<noteq> index) current))"

text \<open>The loops are those of the reducer of snapshots, \<open>rebaseLoop\<close> with \<open>advanceCursor\<close>.\<close>

definition clearRevealedHandIndexesV2 :: "int list option \<Rightarrow> int list \<Rightarrow> int list" where
  "clearRevealedHandIndexesV2 indexes removedIndexes =
     (let removed = List.sort (unique removedIndexes); current = or_default indexes [] in
      if removed = [] \<or> current = [] then current else rebaseLoop removed 0 current)"

definition rebaseHandRevealIndexesV2 :: "v2_player obj \<Rightarrow> string \<Rightarrow> int list \<Rightarrow> v2_player obj" where
  "rebaseHandRevealIndexesV2 players pid removedIndexes =
     (if removedIndexes = [] then players
      else case obj_get players pid of
        None \<Rightarrow> players
      | Some player \<Rightarrow>
          let nextIndexes = clearRevealedHandIndexesV2 (vp_revealedHandIndexes player) removedIndexes;
              currentIndexes = or_default (vp_revealedHandIndexes player) []
          in if nextIndexes = currentIndexes then players
             else obj_set pid (player\<lparr>vp_revealedHandIndexes := Some nextIndexes\<rparr>) players)"

definition setPlayerLibraryVisibility ::
  "v2_state \<Rightarrow> string \<Rightarrow> bool option \<Rightarrow> string list option \<Rightarrow> v2_op_result" where
  "setPlayerLibraryVisibility s pid playTop revealedTo = updatePlayerV2 s pid (\<lambda>player. player\<lparr>
     vp_playTopLibraryRevealed := or_else playTop (vp_playTopLibraryRevealed player),
     vp_revealedLibraryTo := or_else revealedTo (vp_revealedLibraryTo player)\<rparr>)"

definition setPlayTopLibraryRevealed :: "v2_state \<Rightarrow> string \<Rightarrow> bool \<Rightarrow> v2_op_result" where
  "setPlayTopLibraryRevealed s pid enabled =
     updatePlayerV2 s pid (\<lambda>player. player\<lparr>vp_playTopLibraryRevealed := Some enabled\<rparr>)"

section \<open>One card\<close>

definition updateInstanceAtZone ::
  "v2_state \<Rightarrow> string \<Rightarrow> game_zone_name \<Rightarrow> string \<Rightarrow> (v2_instance \<Rightarrow> v2_instance) \<Rightarrow> v2_op_result" where
  "updateInstanceAtZone s pid zone iid update =
     (let playerZone = (case v2_zones s pid of None \<Rightarrow> [] | Some zones \<Rightarrow> zones zone) in
      case v2_instances s iid of
        None \<Rightarrow> V2Failed V2TargetNotFound
      | Some i \<Rightarrow>
          if iid \<notin> set playerZone then V2Failed V2TargetNotFound
          else V2Applied (s\<lparr>v2_instances := (v2_instances s)(iid \<mapsto> update i)\<rparr>))"

section \<open>Adding cards\<close>

text \<open>What a loop over the cards of an operation carries.\<close>

type_synonym card_acc = "(string \<rightharpoonup> v2_instance) \<times> v2_static_card obj \<times> string list"

definition addCardStep ::
  "string \<Rightarrow> game_zone_name \<Rightarrow> v2_static_card obj \<Rightarrow> card_acc \<Rightarrow> incoming_card \<Rightarrow> card_acc" where
  "addCardStep pid zone opStatics acc crd =
     (case acc of (instances, statics, inserted) \<Rightarrow>
      case normalizeIncomingCard crd pid zone opStatics instances statics of (inst, staticCard) \<Rightarrow>
        let existing = instances (vi_instanceId inst);
            nextInstance = keepIdentity
              (inst\<lparr>vi_position := Some (battlefieldPositionForZone zone (non_null (vi_position inst))
                 (Option.bind existing (\<lambda>e. non_null (vi_position e))))\<rparr>) staticCard existing;
            statics' = storeStaticCard staticCard statics
        in (instances(vi_instanceId inst \<mapsto>
              completeInstanceIdentity nextInstance (obj_get statics' (vi_cardRef nextInstance))),
            statics', inserted @ [vi_instanceId inst]))"

definition setZone :: "v2_state \<Rightarrow> string \<Rightarrow> game_zone_name \<Rightarrow> string list \<Rightarrow> string \<rightharpoonup> zone_map" where
  "setZone s pid zone ids =
     (v2_zones s)(pid \<mapsto> (or_default (v2_zones s pid) emptyZones)(zone := ids))"

definition setCount :: "v2_state \<Rightarrow> string \<Rightarrow> game_zone_name \<Rightarrow> jsnum \<Rightarrow> string \<rightharpoonup> zone_count_map" where
  "setCount s pid zone n =
     (v2_zoneCounts s)(pid \<mapsto> (or_default (v2_zoneCounts s pid) emptyZoneCounts)(zone := n))"

definition addCardsToZone ::
  "v2_state \<Rightarrow> string \<Rightarrow> game_zone_name \<Rightarrow> incoming_card list \<Rightarrow> jsnum option \<Rightarrow>
   v2_static_card obj \<Rightarrow> v2_op_result" where
  "addCardsToZone s pid zone cards index staticCards =
     (case (v2_zones s pid, v2_zoneCounts s pid) of
        (Some playerZones, Some playerZoneCounts) \<Rightarrow>
          (case foldl (addCardStep pid zone staticCards) (v2_instances s, v2_staticCards s, []) cards of
             (nextInstances, nextStaticCards, insertedIds) \<Rightarrow>
               let currentZone = playerZones zone;
                   nextZone = insertAt (removeIds currentZone insertedIds)
                     (clampInsertIndex index (length currentZone)) insertedIds
               in V2Applied (s\<lparr>v2_instances := nextInstances, v2_staticCards := nextStaticCards,
                    v2_zones := setZone s pid zone nextZone,
                    v2_zoneCounts := setCount s pid zone (num (int (length nextZone)))\<rparr>))
      | _ \<Rightarrow> V2Failed V2TargetNotFound)"

section \<open>Removing cards\<close>

text \<open>
  The ids to remove: those of the operation and, for an id that is not in the zone (a card
  hidden from this client), the card at its source index.
\<close>

definition fallbackRemoval :: "string list \<Rightarrow> string \<Rightarrow> jsnum option \<Rightarrow> string list" where
  "fallbackRemoval currentZone iid sourceIndex =
     (if iid \<in> set currentZone then []
      else case sourceIndex of
        None \<Rightarrow> []
      | Some i \<Rightarrow>
          if \<not> is_integer i \<or> js_less i (num 0) then []
          else let n = nat (js_int i) in
            if n < length currentZone \<and> currentZone ! n \<noteq> [] then [currentZone ! n] else [])"

definition sourceIndexAt :: "jsnum option list option \<Rightarrow> nat \<Rightarrow> jsnum option" where
  "sourceIndexAt sourceIndexes k =
     (case sourceIndexes of None \<Rightarrow> None | Some xs \<Rightarrow> if k < length xs then xs ! k else None)"

definition removalIds :: "string list \<Rightarrow> string list \<Rightarrow> jsnum option list option \<Rightarrow> string list" where
  "removalIds currentZone instanceIds sourceIndexes =
     unique (instanceIds @ concat (map (\<lambda>k. fallbackRemoval currentZone (instanceIds ! k)
       (sourceIndexAt sourceIndexes k)) [0..<length instanceIds]))"

definition removeCardsFromZone ::
  "v2_state \<Rightarrow> string \<Rightarrow> game_zone_name \<Rightarrow> string list \<Rightarrow> jsnum option list option \<Rightarrow> v2_op_result" where
  "removeCardsFromZone s pid zone instanceIds sourceIndexes =
     (case (v2_zones s pid, v2_zoneCounts s pid) of
        (Some playerZones, Some playerZoneCounts) \<Rightarrow>
          let currentZone = playerZones zone;
              removal = removalIds currentZone instanceIds sourceIndexes;
              knownRemovalCount = length (filter (\<lambda>i. i \<in> set removal) currentZone);
              removedHandIndexes = (if zone = Hand
                then map int (filter (\<lambda>k. currentZone ! k \<in> set removal) [0..<length currentZone]) else []);
              nextZone = removeIds currentZone removal
          in V2Applied (s\<lparr>
               v2_players := rebaseHandRevealIndexesV2 (v2_players s) pid removedHandIndexes,
               v2_zones := setZone s pid zone nextZone,
               v2_zoneCounts := setCount s pid zone
                 (if knownRemovalCount = 0 then playerZoneCounts zone else num (int (length nextZone)))\<rparr>)
      | _ \<Rightarrow> V2Failed V2TargetNotFound)"

section \<open>Moving a card\<close>

definition incomingRevealedTo :: "incoming_card \<Rightarrow> string list option" where
  "incomingRevealedTo crd = (case crd of CompactCard i \<Rightarrow> vi_revealedTo i | LegacyCard c \<Rightarrow> lp_revealedTo c)"

definition shouldClearRevealRecipientsV2 :: "cards_move \<Rightarrow> bool" where
  "shouldClearRevealRecipientsV2 mv =
     (if cmv_fromZone mv = Hand \<and> cmv_toZone mv \<noteq> Hand \<and> cmv_toZone mv \<noteq> Library then True
      else cmv_fromZone mv = Library \<and> cmv_toZone mv \<noteq> Library
           \<and> Option.bind (cmv_card mv) incomingRevealedTo = None)"

definition clearRecipients :: "cards_move \<Rightarrow> v2_instance \<Rightarrow> v2_instance" where
  "clearRecipients mv i = (if shouldClearRevealRecipientsV2 mv then i\<lparr>vi_revealedTo := None\<rparr> else i)"

text \<open>
  The instances and static cards after a move: with a card in the operation it is normalized
  for the target zone, otherwise the known instance is moved; \<open>None\<close> when there is neither.
\<close>

definition movedInstance ::
  "v2_state \<Rightarrow> cards_move \<Rightarrow> (v2_instance \<times> v2_static_card obj) option" where
  "movedInstance s mv =
     (let existing = v2_instances s (cmv_instanceId mv); zone = cmv_toZone mv in
      case cmv_card mv of
        Some crd \<Rightarrow>
          (case normalizeIncomingCard crd (cmv_toPlayer mv) zone
              (case cmv_staticCard mv of None \<Rightarrow> [] | Some c \<Rightarrow> [(vc_cardRef c, c)])
              (v2_instances s) (v2_staticCards s) of (inst, staticCard) \<Rightarrow>
            let positioned = inst\<lparr>vi_position := Some (battlefieldPositionForZone zone
                  (non_null (vi_position inst)) (Option.bind existing (\<lambda>e. non_null (vi_position e))))\<rparr>;
                nextInstance = (keepIdentity positioned staticCard existing)\<lparr>vi_instanceId := cmv_instanceId mv\<rparr>;
                statics = storeStaticCard staticCard (v2_staticCards s)
            in Some (clearRecipients mv
                 (completeInstanceIdentity nextInstance (obj_get statics (vi_cardRef nextInstance))), statics))
      | None \<Rightarrow>
          (case existing of
             None \<Rightarrow> None
           | Some e \<Rightarrow> Some (clearRecipients mv (e\<lparr>vi_zoneId := zoneId (cmv_toPlayer mv) zone,
               vi_position := Some (battlefieldPositionForZone zone (non_null (vi_position e))
                 (non_null (vi_position e)))\<rparr>), v2_staticCards s)))"

text \<open>
  The zones after a move: the source without the card, the target with the card at the clamped
  index of the old target; within one zone the card is taken out of it first.
\<close>

definition sameZoneMove :: "cards_move \<Rightarrow> bool" where
  "sameZoneMove mv \<longleftrightarrow> cmv_fromPlayer mv = cmv_toPlayer mv \<and> cmv_fromZone mv = cmv_toZone mv"

definition nextSourceZone :: "cards_move \<Rightarrow> string list \<Rightarrow> string list" where
  "nextSourceZone mv sourceZone =
     (if cmv_instanceId mv \<in> set sourceZone
      then filter (\<lambda>i. i \<noteq> cmv_instanceId mv) sourceZone else sourceZone)"

definition nextTargetZone :: "cards_move \<Rightarrow> string list \<Rightarrow> string list \<Rightarrow> string list" where
  "nextTargetZone mv sourceZone targetZone =
     insertAt (filter (\<lambda>i. i \<noteq> cmv_instanceId mv) (if sameZoneMove mv then sourceZone else targetZone))
       (clampInsertIndex (cmv_index mv) (length targetZone)) [cmv_instanceId mv]"

text \<open>The records \<open>nextPlayerZones\<close> and \<open>nextTargetPlayerZones\<close>, also for the counts.\<close>

definition movedMaps ::
  "cards_move \<Rightarrow> 'a \<Rightarrow> 'a \<Rightarrow> (game_zone_name \<Rightarrow> 'a) \<Rightarrow> (game_zone_name \<Rightarrow> 'a) \<Rightarrow>
   (game_zone_name \<Rightarrow> 'a) \<times> (game_zone_name \<Rightarrow> 'a)" where
  "movedMaps mv source target fromMap toMap =
     (if cmv_fromPlayer mv = cmv_toPlayer mv
      then let m = fromMap(cmv_fromZone mv := if sameZoneMove mv then target else source,
                           cmv_toZone mv := target)
           in (m, m)
      else (fromMap(cmv_fromZone mv := source), toMap(cmv_toZone mv := target)))"

definition movedPlayers :: "cards_move \<Rightarrow> string list \<Rightarrow> v2_player obj \<Rightarrow> v2_player obj" where
  "movedPlayers mv sourceZone players =
     (case find_index (\<lambda>i. i = cmv_instanceId mv) sourceZone of
        None \<Rightarrow> players
      | Some k \<Rightarrow> if cmv_fromZone mv = Hand \<and> \<not> sameZoneMove mv
          then rebaseHandRevealIndexesV2 players (cmv_fromPlayer mv) [int k] else players)"

definition moveOneCard :: "v2_state \<Rightarrow> cards_move \<Rightarrow> v2_op_result" where
  "moveOneCard s mv =
     (let iid = cmv_instanceId mv; fromP = cmv_fromPlayer mv; toP = cmv_toPlayer mv in
      case (v2_zones s fromP, v2_zones s toP, v2_zoneCounts s fromP, v2_zoneCounts s toP) of
        (Some fromZones, Some toZones, Some fromCounts, Some toCounts) \<Rightarrow>
          let sourceZone = fromZones (cmv_fromZone mv); targetZone = toZones (cmv_toZone mv) in
          if iid \<notin> set sourceZone \<and> iid \<notin> set targetZone then V2Failed V2TargetNotFound
          else (case movedInstance s mv of
            None \<Rightarrow> V2Failed V2TargetNotFound
          | Some (inst, nextStaticCards) \<Rightarrow>
              let source = nextSourceZone mv sourceZone;
                  target = nextTargetZone mv sourceZone targetZone
              in (case movedMaps mv source target fromZones toZones of (fz, tz) \<Rightarrow>
                 (case movedMaps mv (num (int (length source))) (num (int (length target)))
                    fromCounts toCounts of (fc, tc) \<Rightarrow>
                   V2Applied (s\<lparr>v2_instances := (v2_instances s)(iid \<mapsto> inst),
                     v2_staticCards := nextStaticCards,
                     v2_players := movedPlayers mv sourceZone (v2_players s),
                     v2_zones := (v2_zones s)(fromP \<mapsto> fz, toP \<mapsto> tz),
                     v2_zoneCounts := (v2_zoneCounts s)(fromP \<mapsto> fc, toP \<mapsto> tc)\<rparr>))))
      | _ \<Rightarrow> V2Failed V2TargetNotFound)"

section \<open>Reordering and counting\<close>

definition reorderZoneByIds :: "v2_state \<Rightarrow> string \<Rightarrow> game_zone_name \<Rightarrow> string list \<Rightarrow> v2_op_result" where
  "reorderZoneByIds s pid zone instanceIds =
     (case v2_zones s pid of
        None \<Rightarrow> V2Failed V2TargetNotFound
      | Some playerZones \<Rightarrow>
          if \<not> sameStringSet (playerZones zone) instanceIds then V2Failed V2TargetNotFound
          else V2Applied (s\<lparr>v2_zones := setZone s pid zone instanceIds\<rparr>))"

definition setZoneCount :: "v2_state \<Rightarrow> string \<Rightarrow> game_zone_name \<Rightarrow> jsnum \<Rightarrow> v2_op_result" where
  "setZoneCount s pid zone n =
     (case v2_zoneCounts s pid of
        None \<Rightarrow> V2Failed V2TargetNotFound
      | Some _ \<Rightarrow> V2Applied (s\<lparr>v2_zoneCounts := setCount s pid zone (js_max (num 0) n)\<rparr>))"

section \<open>Libraries\<close>

definition revealCardStep :: "string \<Rightarrow> v2_static_card obj \<Rightarrow> card_acc \<Rightarrow> incoming_card \<Rightarrow> card_acc" where
  "revealCardStep pid opStatics acc crd =
     (case acc of (instances, statics, topIds) \<Rightarrow>
      case normalizeIncomingCard crd pid Library opStatics instances statics of (inst, staticCard) \<Rightarrow>
        let statics' = storeStaticCard staticCard statics
        in (instances(vi_instanceId inst \<mapsto> completeInstanceIdentity
              (inst\<lparr>vi_hidden := Some False, vi_faceDown := Some False\<rparr>)
              (obj_get statics' (vi_cardRef inst))),
            statics', topIds @ [vi_instanceId inst]))"

text \<open>A player object that holds nothing but the epoch, \<open>{ ...undefined, libraryTopRevealEpoch }\<close>.\<close>

definition undefined_player :: v2_player where
  "undefined_player = \<lparr>vp_playerId = [], vp_user = None, vp_displayName = [], vp_life = NaN,
     vp_isOnline = None, vp_status = ActivePlayer, vp_handCount = NaN, vp_zoneCounts = Map.empty,
     vp_commanderDamage = Map.empty, vp_counters = Map.empty, vp_deckName = None,
     vp_colorIdentity = None, vp_backgroundName = None, vp_sleevesName = None, vp_concededAt = None,
     vp_mulligan = None, vp_playTopLibraryRevealed = None, vp_topLibraryRevealMarker = None,
     vp_topLibraryRevealedTo = None, vp_revealedLibraryTo = None, vp_libraryShuffleRevision = None,
     vp_libraryTopRevealEpoch = None, vp_revealedHandIndexes = None\<rparr>"

definition revealLibraryTop ::
  "v2_state \<Rightarrow> string \<Rightarrow> incoming_card list \<Rightarrow> v2_static_card obj \<Rightarrow> int option \<Rightarrow> v2_op_result" where
  "revealLibraryTop s pid cards staticCards revealEpoch =
     (case v2_zones s pid of
        None \<Rightarrow> V2Failed V2TargetNotFound
      | Some playerZones \<Rightarrow>
          (case foldl (revealCardStep pid staticCards) (v2_instances s, v2_staticCards s, []) cards of
             (nextInstances, nextStaticCards, topIds) \<Rightarrow>
               let currentLibrary = playerZones Library;
                   nextLibrary = topIds @ filter (\<lambda>i. i \<notin> set topIds) currentLibrary
               in V2Applied (s\<lparr>v2_instances := nextInstances, v2_staticCards := nextStaticCards,
                    v2_zones := setZone s pid Library nextLibrary,
                    v2_players := (case revealEpoch of
                        None \<Rightarrow> v2_players s
                      | Some e \<Rightarrow> obj_set pid
                          ((or_default (obj_get (v2_players s) pid) undefined_player)
                             \<lparr>vp_libraryTopRevealEpoch := Some e\<rparr>) (v2_players s))\<rparr>)))"

definition reorderLibraryTop :: "v2_state \<Rightarrow> string \<Rightarrow> string list \<Rightarrow> v2_op_result" where
  "reorderLibraryTop s pid instanceIds =
     (case v2_zones s pid of
        None \<Rightarrow> V2Failed V2TargetNotFound
      | Some playerZones \<Rightarrow>
          let currentLibrary = playerZones Library;
              requested = filter (\<lambda>i. i \<in> set currentLibrary) instanceIds
          in if length requested \<noteq> length instanceIds then V2Failed V2TargetNotFound
             else V2Applied (s\<lparr>v2_zones := setZone s pid Library
               (requested @ filter (\<lambda>i. i \<notin> set requested) currentLibrary)\<rparr>))"

definition clearKnownLibraryOrder :: "v2_state \<Rightarrow> string \<Rightarrow> int option \<Rightarrow> v2_op_result" where
  "clearKnownLibraryOrder s pid preserveTopRevealEpoch =
     (case v2_zones s pid of
        None \<Rightarrow> V2Failed V2TargetNotFound
      | Some playerZones \<Rightarrow>
          let player = obj_get (v2_players s) pid;
              preservesCurrentTop = (preserveTopRevealEpoch \<noteq> None \<and>
                Option.bind player vp_libraryTopRevealEpoch = preserveTopRevealEpoch)
          in V2Applied (s\<lparr>
               v2_zones := setZone s pid Library
                 (if preservesCurrentTop then take 1 (playerZones Library) else []),
               v2_players := (case player of
                   None \<Rightarrow> v2_players s
                 | Some p \<Rightarrow> obj_set pid (p\<lparr>vp_libraryTopRevealEpoch :=
                     (if preservesCurrentTop then vp_libraryTopRevealEpoch p else None)\<rparr>) (v2_players s))\<rparr>))"

text \<open>\<open>library.revealed.set\<close>: a reveal, then the audience when the operation has one.\<close>

definition revealLibraryTo ::
  "v2_state \<Rightarrow> string \<Rightarrow> incoming_card list \<Rightarrow> v2_static_card obj \<Rightarrow> string list option \<Rightarrow> v2_op_result" where
  "revealLibraryTo s pid cards staticCards audience =
     (case revealLibraryTop s pid cards staticCards None of
        V2Failed r \<Rightarrow> V2Failed r
      | V2Applied t \<Rightarrow> (case audience of
          None \<Rightarrow> V2Applied t
        | Some to \<Rightarrow> (case obj_get (v2_players t) pid of
            None \<Rightarrow> V2Applied t
          | Some player \<Rightarrow> V2Applied (t\<lparr>v2_players :=
              obj_set pid (player\<lparr>vp_revealedLibraryTo := Some to\<rparr>) (v2_players t)\<rparr>))))"

end
