(* ===== verification/V2Patch.thy ===== *)
theory V2Patch
  imports V2Zones
begin

text \<open>
  The reducer of version 2 patches: the operations on cards, the stack, relations, chat, log,
  mulligans and the game, their dispatch (\<open>applyOperation\<close>), and the application of a patch
  envelope with its version gate (\<open>applyPatchEnvelopeV2\<close> and the same-version merges).
\<close>

section \<open>Sequencing\<close>

text \<open>\<open>if (result.status === 'failed') return result\<close>, and a loop of such steps.\<close>

definition v2_then :: "v2_op_result \<Rightarrow> (v2_state \<Rightarrow> v2_op_result) \<Rightarrow> v2_op_result" where
  "v2_then r f = (case r of V2Failed e \<Rightarrow> V2Failed e | V2Applied s \<Rightarrow> f s)"

fun applyEach :: "(v2_state \<Rightarrow> 'x \<Rightarrow> v2_op_result) \<Rightarrow> v2_state \<Rightarrow> 'x list \<Rightarrow> v2_op_result" where
  "applyEach f s [] = V2Applied s"
| "applyEach f s (x # xs) = v2_then (f s x) (\<lambda>t. applyEach f t xs)"

section \<open>Cards\<close>

definition orNull :: "'a option \<Rightarrow> 'a option option \<Rightarrow> 'a option option" where
  "orNull v old = (case v of None \<Rightarrow> old | Some x \<Rightarrow> Some (Some x))"

text \<open>The truthiness of \<open>operation.cardKey\<close> in the face-up test.\<close>

definition becomesVisible :: "card_field_set \<Rightarrow> bool" where
  "becomesVisible f = (fs_faceDown f = Some False \<and> fs_hidden f = Some False
     \<and> or_default (fs_cardKey f) [] \<noteq> [])"

definition applyFieldSet :: "card_field_set \<Rightarrow> v2_instance \<Rightarrow> v2_instance" where
  "applyFieldSet f i = i\<lparr>
     vi_tapped := or_else (fs_tapped f) (vi_tapped i),
     vi_rotation := orNull (fs_rotation f) (vi_rotation i),
     vi_faceDown := or_else (fs_faceDown f) (vi_faceDown i),
     vi_hidden := or_else (fs_hidden f) (vi_hidden i),
     vi_staticCardPending :=
       (if fs_staticCard f \<noteq> None then Some False
        else if becomesVisible f then Some True else vi_staticCardPending i),
     vi_cardKey := or_else (fs_cardKey f) (vi_cardKey i),
     vi_cardRef := or_default (fs_cardKey f) (vi_cardRef i),
     vi_printId := orNull (fs_printId f) (vi_printId i),
     vi_cardVersion := or_else (fs_cardVersion f) (vi_cardVersion i),
     vi_language := orNull (fs_language f) (vi_language i),
     vi_viewerVisibility := orNull (fs_viewerVisibility f) (vi_viewerVisibility i),
     vi_controllerId := orNull (fs_controllerId f) (vi_controllerId i),
     vi_revealedTo := or_else (fs_revealedTo f) (vi_revealedTo i),
     vi_revealMarker := or_else (fs_revealMarker f) (vi_revealMarker i),
     vi_counters := or_else (fs_counters f) (vi_counters i),
     vi_dungeonMarker := or_else (fs_dungeonMarker f) (vi_dungeonMarker i),
     vi_activeFaceIndex := or_else (fs_activeFaceIndex f) (vi_activeFaceIndex i),
     vi_position := or_else (fs_position f) (vi_position i),
     vi_power := or_else (fs_power f) (vi_power i),
     vi_toughness := or_else (fs_toughness f) (vi_toughness i),
     vi_loyalty := or_else (fs_loyalty f) (vi_loyalty i),
     vi_defense := or_else (fs_defense f) (vi_defense i),
     vi_saga := or_else (fs_saga f) (vi_saga i),
     vi_faceRuntimeStats := or_else (fs_faceRuntimeStats f) (vi_faceRuntimeStats i)\<rparr>"

definition cardFieldSet ::
  "v2_state \<Rightarrow> string \<Rightarrow> game_zone_name \<Rightarrow> string \<Rightarrow> card_field_set \<Rightarrow> v2_op_result" where
  "cardFieldSet s pid zone iid f =
     v2_then (updateInstanceAtZone s pid zone iid (applyFieldSet f)) (\<lambda>t.
       V2Applied (t\<lparr>v2_staticCards := storeStaticCard (fs_staticCard f) (v2_staticCards t)\<rparr>))"

definition cardCountersPatch ::
  "v2_state \<Rightarrow> string \<Rightarrow> game_zone_name \<Rightarrow> string \<Rightarrow> (string \<rightharpoonup> jsnum) \<Rightarrow>
   card_stat_value option \<Rightarrow> card_stat_value option \<Rightarrow> card_face_runtime_stats list option \<Rightarrow> v2_op_result" where
  "cardCountersPatch s pid zone iid counters pow tough stats =
     updateInstanceAtZone s pid zone iid (\<lambda>i. i\<lparr>vi_counters := Some counters,
       vi_power := or_else pow (vi_power i), vi_toughness := or_else tough (vi_toughness i),
       vi_faceRuntimeStats := or_else stats (vi_faceRuntimeStats i)\<rparr>)"

definition no_fields :: card_field_set where
  "no_fields = \<lparr>fs_tapped = None, fs_rotation = None, fs_faceDown = None, fs_hidden = None,
     fs_cardKey = None, fs_printId = None, fs_cardVersion = None, fs_language = None,
     fs_viewerVisibility = None, fs_staticCard = None, fs_controllerId = None, fs_revealedTo = None,
     fs_revealMarker = None, fs_counters = None, fs_dungeonMarker = None, fs_activeFaceIndex = None,
     fs_position = None, fs_power = None, fs_toughness = None, fs_loyalty = None, fs_defense = None,
     fs_saga = None, fs_faceRuntimeStats = None\<rparr>"

definition applyCardOpV2 :: "v2_state \<Rightarrow> v2_card_op \<Rightarrow> v2_op_result" where
  "applyCardOpV2 s operation =
     (case operation of
        FieldSet pid zone iid f \<Rightarrow> cardFieldSet s pid zone iid f
      | CountersPatch pid zone iid counters pow tough stats \<Rightarrow>
          cardCountersPatch s pid zone iid counters pow tough stats
      | StateSet pid zone iid st \<Rightarrow> cardFieldSet s pid zone iid (no_fields\<lparr>
          fs_tapped := cs_tapped st, fs_rotation := cs_rotation st, fs_faceDown := cs_faceDown st,
          fs_hidden := cs_hidden st, fs_revealedTo := cs_revealedTo st,
          fs_counters := cs_counters st, fs_dungeonMarker := cs_dungeonMarker st\<rparr>)
      | PositionSet pid zone iid position \<Rightarrow>
          cardFieldSet s pid zone iid (no_fields\<lparr>fs_position := Some position\<rparr>)
      | StatsSet pid zone iid st \<Rightarrow> cardFieldSet s pid zone iid (no_fields\<lparr>
          fs_power := cst_power st, fs_toughness := cst_toughness st, fs_loyalty := cst_loyalty st,
          fs_defense := cst_defense st, fs_saga := cst_saga st,
          fs_faceRuntimeStats := cst_faceRuntimeStats st\<rparr>)
      | CountersSet pid zone iid counters \<Rightarrow>
          cardCountersPatch s pid zone iid counters None None None)"

section \<open>Players\<close>

definition applyPlayerOpV2 :: "v2_state \<Rightarrow> v2_player_op \<Rightarrow> v2_op_result" where
  "applyPlayerOpV2 s operation =
     (case operation of
        V2LifeSet pid v \<Rightarrow> updatePlayerV2 s pid (\<lambda>p. p\<lparr>vp_life := v\<rparr>)
      | V2CountersSet pid counters \<Rightarrow> updatePlayerV2 s pid (\<lambda>p. p\<lparr>vp_counters := counters\<rparr>)
      | V2CommanderDamageSet pid damage \<Rightarrow> updatePlayerV2 s pid (\<lambda>p. p\<lparr>vp_commanderDamage := damage\<rparr>)
      | V2StatusSet pid status concededAt \<Rightarrow> updatePlayerV2 s pid (\<lambda>p. p\<lparr>vp_status := status,
          vp_concededAt := or_else concededAt (vp_concededAt p)\<rparr>)
      | V2PresenceSet pid online \<Rightarrow> updatePlayerV2 s pid (\<lambda>p. p\<lparr>vp_isOnline := Some online\<rparr>)
      | HandRevealMarkerSet pid index revealed \<Rightarrow> updatePlayerV2 s pid (\<lambda>p. p\<lparr>vp_revealedHandIndexes :=
          Some (setRevealedHandIndex (vp_revealedHandIndexes p) index revealed)\<rparr>)
      | HandRevealMarkerClear pid indexes \<Rightarrow> updatePlayerV2 s pid (\<lambda>p. p\<lparr>vp_revealedHandIndexes :=
          Some (clearRevealedHandIndexesV2 (vp_revealedHandIndexes p) indexes)\<rparr>)
      | LibraryTopMarkerSet pid revealed \<Rightarrow>
          updatePlayerV2 s pid (\<lambda>p. p\<lparr>vp_topLibraryRevealMarker := Some revealed\<rparr>)
      | LibraryTopAudienceSet pid revealedTo \<Rightarrow>
          updatePlayerV2 s pid (\<lambda>p. p\<lparr>vp_topLibraryRevealedTo := Some revealedTo\<rparr>)
      | LibraryVisibilitySet pid playTop revealedTo \<Rightarrow> setPlayerLibraryVisibility s pid playTop revealedTo
      | PlayTopRevealedSet pid enabled \<Rightarrow> setPlayTopLibraryRevealed s pid enabled)"

section \<open>Zones\<close>

definition setZoneCounts :: "v2_state \<Rightarrow> string \<Rightarrow> game_zone_counts \<Rightarrow> v2_op_result" where
  "setZoneCounts s pid counts = applyEach (\<lambda>t zone.
     case counts zone of None \<Rightarrow> V2Applied t | Some n \<Rightarrow> setZoneCount t pid zone n) s ZONE_NAMES"

definition applyZoneOpV2 :: "v2_state \<Rightarrow> v2_zone_op \<Rightarrow> v2_op_result" where
  "applyZoneOpV2 s operation =
     (case operation of
        CardsAdd pid zone index cards statics \<Rightarrow> addCardsToZone s pid zone cards index (or_default statics [])
      | CardsRemove pid zone ids indexes \<Rightarrow> removeCardsFromZone s pid zone ids indexes
      | CardsMove mv \<Rightarrow> moveOneCard s mv
      | CardsBatchMove moves \<Rightarrow> applyEach moveOneCard s moves
      | ZoneCountSet pid zone n \<Rightarrow> setZoneCount s pid zone n
      | ZoneReordered pid zone ids \<Rightarrow> reorderZoneByIds s pid zone ids
      | RandomCardSelected pid zone \<Rightarrow> V2Applied s
      | LibraryCountSet pid n \<Rightarrow> setZoneCount s pid Library n
      | LibraryTopRevealed pid epoch cards statics \<Rightarrow> revealLibraryTop s pid cards (or_default statics []) epoch
      | LibraryTopViewed pid cards statics \<Rightarrow> revealLibraryTop s pid cards (or_default statics []) None
      | LibraryRevealedSet pid cards statics audience \<Rightarrow>
          revealLibraryTo s pid cards (or_default statics []) audience
      | LibraryTopHidden pid \<Rightarrow> clearKnownLibraryOrder s pid None
      | LibraryTopReordered pid ids \<Rightarrow> reorderLibraryTop s pid ids
      | LibraryTopMoved pid \<Rightarrow> clearKnownLibraryOrder s pid None
      | LibraryShuffled pid epoch \<Rightarrow> clearKnownLibraryOrder s pid epoch
      | V2ZoneCountsSet pid counts \<Rightarrow> setZoneCounts s pid counts
      | V2ZoneVisibleSet pid zone cards \<Rightarrow>
          if zone = Library then revealLibraryTop s pid (map LegacyCard cards) [] None else V2Applied s
      | V2CardMove mv \<Rightarrow> moveOneCard s (mv\<lparr>cmv_staticCard := None\<rparr>)
      | V2CardRemove pid zone iid \<Rightarrow> removeCardsFromZone s pid zone [iid] None)"

section \<open>Stack, relations, helpers, chat and log\<close>

definition addStackItemV2 :: "v2_state \<Rightarrow> v2_stack_item \<Rightarrow> v2_op_result" where
  "addStackItemV2 s item =
     (case stackItemId item of
        None \<Rightarrow> V2Failed V2InvalidOperation
      | Some i \<Rightarrow> V2Applied (s\<lparr>v2_stack := \<lparr>
          vt_byId = storeStackItem item i (vt_byId (v2_stack s)),
          vt_order = (if i \<in> set (vt_order (v2_stack s)) then vt_order (v2_stack s)
                      else vt_order (v2_stack s) @ [i])\<rparr>\<rparr>))"

definition removeStackItemV2 :: "v2_state \<Rightarrow> string \<Rightarrow> v2_op_result" where
  "removeStackItemV2 s i =
     (if obj_get (vt_byId (v2_stack s)) i = None then V2Failed V2TargetNotFound
      else V2Applied (s\<lparr>v2_stack := \<lparr>vt_byId = omitKey (vt_byId (v2_stack s)) i,
             vt_order = filter (\<lambda>j. j \<noteq> i) (vt_order (v2_stack s))\<rparr>\<rparr>))"

definition arrowsOf :: "v2_state \<Rightarrow> game_arrow list" where
  "arrowsOf s = objectValues (vr_arrows (v2_relations s))"

definition attachmentsOfV2 :: "v2_state \<Rightarrow> game_attachment list" where
  "attachmentsOfV2 s = objectValues (vr_attachments (v2_relations s))"

definition stacksOf :: "v2_state \<Rightarrow> game_battlefield_stack list" where
  "stacksOf s = objectValues (vr_battlefieldStacks (v2_relations s))"

definition entitiesOf :: "v2_state \<Rightarrow> game_special_entity list" where
  "entitiesOf s = objectValues (vr_specialEntities (v2_relations s))"

definition addRelation :: "v2_state \<Rightarrow> v2_relation \<Rightarrow> v2_op_result" where
  "addRelation s relation = V2Applied (s\<lparr>v2_relations :=
     (case relation of
        RelArrow a \<Rightarrow> createRelationsState (filter (\<lambda>e. ar_id e \<noteq> ar_id a) (arrowsOf s) @ [a])
          (attachmentsOfV2 s) (stacksOf s) (entitiesOf s)
      | RelAttachment a \<Rightarrow> createRelationsState (arrowsOf s)
          (filter (\<lambda>e. at_id e \<noteq> at_id a) (attachmentsOfV2 s) @ [a]) (stacksOf s) (entitiesOf s)
      | RelBattlefieldStack b \<Rightarrow> createRelationsState (arrowsOf s) (attachmentsOfV2 s)
          (filter (\<lambda>e. bs_id e \<noteq> bs_id b) (stacksOf s) @ [b]) (entitiesOf s))\<rparr>)"

definition removeRelation :: "v2_state \<Rightarrow> relation_kind \<Rightarrow> string \<Rightarrow> v2_op_result" where
  "removeRelation s kind i = V2Applied (s\<lparr>v2_relations :=
     (case kind of
        ArrowKind \<Rightarrow> createRelationsState (filter (\<lambda>e. ar_id e \<noteq> i) (arrowsOf s))
          (attachmentsOfV2 s) (stacksOf s) (entitiesOf s)
      | AttachmentKind \<Rightarrow> createRelationsState (arrowsOf s)
          (filter (\<lambda>e. at_id e \<noteq> i) (attachmentsOfV2 s)) (stacksOf s) (entitiesOf s)
      | BattlefieldStackKind \<Rightarrow> createRelationsState (arrowsOf s) (attachmentsOfV2 s)
          (filter (\<lambda>e. bs_id e \<noteq> i) (stacksOf s)) (entitiesOf s))\<rparr>)"

definition upsertHelper :: "v2_state \<Rightarrow> game_special_entity \<Rightarrow> v2_op_result" where
  "upsertHelper s entity = V2Applied (s\<lparr>v2_relations := createRelationsState (arrowsOf s)
     (attachmentsOfV2 s) (stacksOf s) (filter (\<lambda>e. se_id e \<noteq> se_id entity) (entitiesOf s) @ [entity])\<rparr>)"

definition removeHelper :: "v2_state \<Rightarrow> string \<Rightarrow> v2_op_result" where
  "removeHelper s i = V2Applied (s\<lparr>v2_relations := createRelationsState (arrowsOf s)
     (attachmentsOfV2 s) (stacksOf s) (filter (\<lambda>e. se_id e \<noteq> i) (entitiesOf s))\<rparr>)"

definition upsertChatMessage ::
  "string comparator \<Rightarrow> v2_state \<Rightarrow> chat_message \<Rightarrow> bool \<Rightarrow> v2_op_result" where
  "upsertChatMessage coll s message appendIfMissing =
     (let messageId = chatMessageId message;
          chat = v2_chat s
      in V2Applied (s\<lparr>v2_chat :=
           (if obj_get (vh_byId chat) messageId \<noteq> None \<or> \<not> appendIfMissing
            then chat\<lparr>vh_byId := obj_set messageId message (vh_byId chat),
                   vh_cursor := Some (or_default (cm_id message) (cm_createdAt message))\<rparr>
            else mergeChatMessages coll chat [message] 250 KeepNewest)\<rparr>))"

definition setChatReactions :: "v2_state \<Rightarrow> string \<Rightarrow> chat_reactions \<Rightarrow> v2_op_result" where
  "setChatReactions s messageId reactions =
     (case obj_get (vh_byId (v2_chat s)) messageId of
        None \<Rightarrow> V2Failed V2TargetNotFound
      | Some existing \<Rightarrow> V2Applied (s\<lparr>v2_chat := (v2_chat s)\<lparr>vh_byId :=
          obj_set messageId (existing\<lparr>cm_reactions := Some reactions\<rparr>) (vh_byId (v2_chat s))\<rparr>\<rparr>))"

definition appendEventLogEntries ::
  "string comparator \<Rightarrow> v2_state \<Rightarrow> game_log_entry list \<Rightarrow> v2_op_result" where
  "appendEventLogEntries coll s entries =
     V2Applied (s\<lparr>v2_log := mergeLogEntries coll (v2_log s) entries 250 KeepNewest\<rparr>)"

definition applyTableOpV2 :: "string comparator \<Rightarrow> v2_state \<Rightarrow> v2_table_op \<Rightarrow> v2_op_result" where
  "applyTableOpV2 coll s operation =
     (case operation of
        StackAdd item \<Rightarrow> addStackItemV2 s item
      | StackItemAdd' item \<Rightarrow> addStackItemV2 s item
      | StackRemove i \<Rightarrow> removeStackItemV2 s i
      | StackItemRemove' i \<Rightarrow> removeStackItemV2 s i
      | RelationAdd relation \<Rightarrow> addRelation s relation
      | RelationRemove kind i \<Rightarrow> removeRelation s kind i
      | V2ArrowAdd a \<Rightarrow> addRelation s (RelArrow a)
      | V2ArrowRemove i \<Rightarrow> removeRelation s ArrowKind i
      | V2AttachmentAdd a \<Rightarrow> addRelation s (RelAttachment a)
      | V2AttachmentRemove i \<Rightarrow> removeRelation s AttachmentKind i
      | V2BattlefieldStackAdd b \<Rightarrow> addRelation s (RelBattlefieldStack b)
      | V2BattlefieldStackRemove i \<Rightarrow> removeRelation s BattlefieldStackKind i
      | HelperAdd e \<Rightarrow> upsertHelper s e
      | HelperUpdate e \<Rightarrow> upsertHelper s e
      | HelperRemove i \<Rightarrow> removeHelper s i
      | ChatMessageAdd m \<Rightarrow> upsertChatMessage coll s m True
      | ChatReactionSet i reactions \<Rightarrow> setChatReactions s i reactions
      | V2ChatAppend entries \<Rightarrow> applyEach (\<lambda>t m. upsertChatMessage coll t m True) s entries
      | V2ChatMessageSet m \<Rightarrow> upsertChatMessage coll s m False
      | V2EventLogAppend entries \<Rightarrow> appendEventLogEntries coll s entries)"

section \<open>Mulligans\<close>

definition emptyMulliganState :: player_mulligan_state where
  "emptyMulliganState = \<lparr>pm_rule = None, pm_firstMulliganFree = None, pm_mulligansTaken = num 0,
     pm_effectiveMulligans = num 0, pm_drawCount = None, pm_bottomSelectionCount = None,
     pm_finalHandSize = None, pm_needsBottomSelection = None, pm_bottomOrderMode = None,
     pm_needsScryAfterKeep = None, pm_canTakeAnotherMulligan = None, pm_status = Deciding,
     pm_ready = False, pm_handCount = None, pm_scryCard = None\<rparr>"

text \<open>\<open>{ ...emptyMulliganState(), ...player.mulligan }\<close>.\<close>

definition mulliganOf :: "v2_player \<Rightarrow> player_mulligan_state" where
  "mulliganOf p = or_default (vp_mulligan p) emptyMulliganState"

definition nonEmptyOrNone :: "string option option \<Rightarrow> string option" where
  "nonEmptyOrNone v = (if nonEmptyString (non_null v) then non_null v else None)"

definition compactRefToLegacyPatchPayload :: "compact_card_ref \<Rightarrow> legacy_card" where
  "compactRefToLegacyPatchPayload c = \<lparr>
     lp_instanceId = gc_instanceId c, lp_cardRef = None,
     lp_cardKey = nonEmptyOrNone (gc_cardKey c),
     lp_printId = map_option Some (nonEmptyOrNone (gc_printId c)),
     lp_cardVersion = nonEmptyOrNone (gc_cardVersion c),
     lp_language = map_option Some (nonEmptyOrNone (gc_language c)),
     lp_viewerVisibility = map_option Some (nonEmptyOrNone (gc_viewerVisibility c)),
     lp_ownerId = None, lp_controllerId = None, lp_scryfallId = None,
     lp_name = nonEmptyOrNone (gc_name c), lp_imageUris = None, lp_cardFaces = None,
     lp_hasRulings = None, lp_typeLine = None, lp_manaCost = None, lp_colorIdentity = None,
     lp_power = None, lp_toughness = None, lp_loyalty = None, lp_defense = None, lp_saga = None,
     lp_defaultPower = None, lp_defaultToughness = None, lp_defaultLoyalty = None,
     lp_defaultDefense = None, lp_tapped = gc_tapped c, lp_faceDown = None,
     lp_activeFaceIndex = None, lp_hidden = gc_hidden c, lp_revealedTo = None, lp_position = None,
     lp_rotation = None, lp_counters = None, lp_dungeonMarker = None, lp_zone = gc_zone c,
     lp_isToken = None, lp_isTokenCopy = None, lp_isCommander = None, lp_tokenMeta = None\<rparr>"

definition compactRefToLegacyCard :: "compact_card_ref \<Rightarrow> string \<Rightarrow> game_zone_name \<Rightarrow> game_card_instance" where
  "compactRefToLegacyCard c pid zone =
     (let name = js_trim (or_default (non_null (gc_name c)) []);
          cardKey = js_trim (or_default (non_null (gc_cardKey c)) [])
      in (bare_card (gc_instanceId c))\<lparr>card_ownerId := Some pid, card_controllerId := Some pid,
           card_name := (if name \<noteq> [] then name else if cardKey \<noteq> [] then cardKey else ''Card''),
           card_tapped := or_default (gc_tapped c) False,
           card_hidden := Some (or_default (gc_hidden c) False),
           card_zone := Some zone\<rparr>)"

definition mulliganPrivateStatePatch ::
  "mulligan_private_patch option \<Rightarrow> mulligan_private_patch \<Rightarrow> mulligan_private_patch" where
  "mulliganPrivateStatePatch st own = or_default st own"

definition mergeMulliganPrivateStatePatch ::
  "player_mulligan_state option \<Rightarrow> mulligan_private_patch \<Rightarrow> jsnum option \<Rightarrow>
   game_card_instance option \<Rightarrow> player_mulligan_state" where
  "mergeMulliganPrivateStatePatch current patch handCount scryCard =
     (let m = or_default current emptyMulliganState in \<lparr>
       pm_rule = or_else (mpp_rule patch) (pm_rule m),
       pm_firstMulliganFree = or_else (mpp_firstMulliganFree patch) (pm_firstMulliganFree m),
       pm_mulligansTaken = or_default (mpp_mulligansTaken patch) (pm_mulligansTaken m),
       pm_effectiveMulligans = or_default (mpp_effectiveMulligans patch) (pm_effectiveMulligans m),
       pm_drawCount = or_else (mpp_drawCount patch) (pm_drawCount m),
       pm_bottomSelectionCount = or_else (mpp_cardsToBottom patch)
         (or_else (mpp_bottomSelectionCount patch) (pm_bottomSelectionCount m)),
       pm_finalHandSize = or_else (mpp_finalHandSize patch) (pm_finalHandSize m),
       pm_needsBottomSelection = or_else (mpp_bottomPending patch)
         (or_else (mpp_needsBottomSelection patch) (pm_needsBottomSelection m)),
       pm_bottomOrderMode = or_else (mpp_bottomOrderMode patch) (pm_bottomOrderMode m),
       pm_needsScryAfterKeep = or_else (mpp_scryPending patch)
         (or_else (mpp_needsScryAfterKeep patch) (pm_needsScryAfterKeep m)),
       pm_canTakeAnotherMulligan = or_else (mpp_canTakeAnotherMulligan patch) (pm_canTakeAnotherMulligan m),
       pm_status = or_default (mpp_status patch) (pm_status m),
       pm_ready = (case mpp_ready patch of
           Some r \<Rightarrow> r
         | None \<Rightarrow> if mpp_status patch = Some Ready then True else pm_ready m),
       pm_handCount = or_else handCount (pm_handCount m),
       pm_scryCard = or_else scryCard (pm_scryCard m)\<rparr>)"

definition setHandCount :: "jsnum \<Rightarrow> v2_player \<Rightarrow> v2_player" where
  "setHandCount n p = p\<lparr>vp_handCount := n, vp_zoneCounts := (vp_zoneCounts p)(Hand \<mapsto> n),
     vp_mulligan := Some ((mulliganOf p)\<lparr>pm_handCount := Some n\<rparr>)\<rparr>"

definition setMulliganHandCount :: "v2_state \<Rightarrow> string \<Rightarrow> jsnum \<Rightarrow> v2_op_result" where
  "setMulliganHandCount s pid n =
     (case (obj_get (v2_players s) pid, v2_zoneCounts s pid) of
        (Some player, Some _) \<Rightarrow> V2Applied (s\<lparr>
          v2_players := obj_set pid (setHandCount n player) (v2_players s),
          v2_zoneCounts := setCount s pid Hand n\<rparr>)
      | _ \<Rightarrow> V2Failed V2TargetNotFound)"

definition handCardStep ::
  "string \<Rightarrow> v2_static_card obj \<Rightarrow> (string \<rightharpoonup> v2_instance) \<times> v2_static_card obj \<Rightarrow> compact_card_ref \<Rightarrow>
   (string \<rightharpoonup> v2_instance) \<times> v2_static_card obj" where
  "handCardStep pid opStatics acc c =
     (case acc of (instances, statics) \<Rightarrow>
      case normalizeIncomingCard (LegacyCard (compactRefToLegacyPatchPayload c)) pid Hand opStatics
          instances statics of (inst, staticCard) \<Rightarrow>
        let statics' = storeStaticCard staticCard statics
        in (instances(gc_instanceId c \<mapsto> completeInstanceIdentity inst (obj_get statics' (vi_cardRef inst))),
            statics'))"

definition replacePrivateMulliganHand ::
  "v2_state \<Rightarrow> string \<Rightarrow> compact_card_ref list \<Rightarrow> v2_static_card obj \<Rightarrow> v2_op_result" where
  "replacePrivateMulliganHand s pid hand staticCards =
     (case (v2_zones s pid, v2_zoneCounts s pid, obj_get (v2_players s) pid) of
        (Some _, Some _, Some player) \<Rightarrow>
          (case foldl (handCardStep pid staticCards) (v2_instances s, v2_staticCards s) hand of
             (nextInstances, nextStaticCards) \<Rightarrow>
               let n = num (int (length hand)) in
               V2Applied (s\<lparr>v2_instances := nextInstances, v2_staticCards := nextStaticCards,
                 v2_players := obj_set pid (setHandCount n player) (v2_players s),
                 v2_zones := setZone s pid Hand (map gc_instanceId hand),
                 v2_zoneCounts := setCount s pid Hand n\<rparr>))
      | _ \<Rightarrow> V2Failed V2TargetNotFound)"

definition applyMulliganOpV2 :: "v2_state \<Rightarrow> v2_mulligan_op \<Rightarrow> v2_op_result" where
  "applyMulliganOpV2 s operation =
     (case operation of
        MulliganStatusSet pid status ready handCount taken effective \<Rightarrow>
          v2_then (case handCount of None \<Rightarrow> V2Applied s | Some n \<Rightarrow> setMulliganHandCount s pid n)
            (\<lambda>t. updatePlayerV2 t pid (\<lambda>p. p\<lparr>vp_mulligan := Some ((mulliganOf p)\<lparr>
              pm_mulligansTaken := or_default taken (pm_mulligansTaken (mulliganOf p)),
              pm_effectiveMulligans := or_default effective (pm_effectiveMulligans (mulliganOf p)),
              pm_status := status,
              pm_ready := or_default (or_else ready (map_option pm_ready (vp_mulligan p))) (status = Ready),
              pm_handCount := Some (or_default (or_else handCount
                (Option.bind (vp_mulligan p) pm_handCount)) (vp_handCount p))\<rparr>)\<rparr>))
      | MulliganPrivateStateSet pid st own hand scryCard statics \<Rightarrow>
          (let patch = mulliganPrivateStatePatch st own in
           v2_then (updatePlayerV2 s pid (\<lambda>p. p\<lparr>vp_mulligan := Some (mergeMulliganPrivateStatePatch
               (vp_mulligan p) patch
               (Some (or_default (or_else (map_option (\<lambda>h. num (int (length h))) hand)
                  (mpp_handSize patch)) (vp_handCount p)))
               (map_option (\<lambda>c. compactRefToLegacyCard c pid Library) scryCard))\<rparr>))
             (\<lambda>t. case hand of
                None \<Rightarrow> V2Applied t
              | Some h \<Rightarrow> replacePrivateMulliganHand t pid h (or_default statics [])))
      | MulliganHandReplacePrivate pid hand statics \<Rightarrow>
          replacePrivateMulliganHand s pid hand (or_default statics [])
      | MulliganHandCountSet pid n \<Rightarrow> setMulliganHandCount s pid n
      | MulliganBottomRequiredSet pid n orderMode \<Rightarrow>
          updatePlayerV2 s pid (\<lambda>p. p\<lparr>vp_mulligan := Some ((mulliganOf p)\<lparr>
            pm_bottomSelectionCount := Some n,
            pm_needsBottomSelection := Some (js_less (num 0) n),
            pm_bottomOrderMode := Some (or_default (or_else orderMode
              (Option.bind (vp_mulligan p) pm_bottomOrderMode)) NoBottomOrder)\<rparr>)\<rparr>)
      | MulliganBottomConfirmed pid n \<Rightarrow>
          updatePlayerV2 s pid (\<lambda>p. p\<lparr>vp_mulligan := Some ((mulliganOf p)\<lparr>
            pm_bottomSelectionCount := Some (num 0),
            pm_needsBottomSelection := Some False,
            pm_handCount := Some (js_max (num 0) (js_sub (vp_handCount p) n))\<rparr>)\<rparr>)
      | MulliganScryAvailableSet pid available crd \<Rightarrow>
          updatePlayerV2 s pid (\<lambda>p. p\<lparr>vp_mulligan := Some ((mulliganOf p)\<lparr>
            pm_needsScryAfterKeep := Some available,
            pm_status := (if available then Scrying
              else or_default (map_option pm_status (vp_mulligan p)) Deciding),
            pm_scryCard := or_else (map_option (\<lambda>c. compactRefToLegacyCard c pid Library) crd)
              (pm_scryCard (mulliganOf p))\<rparr>)\<rparr>)
      | MulliganScryConfirmed pid \<Rightarrow>
          updatePlayerV2 s pid (\<lambda>p. p\<lparr>vp_mulligan := Some ((mulliganOf p)\<lparr>
            pm_status := Ready, pm_ready := True, pm_needsScryAfterKeep := Some False,
            pm_scryCard := None\<rparr>)\<rparr>)
      | MulliganCompleted \<Rightarrow>
          V2Applied (s\<lparr>v2_game := (v2_game s)\<lparr>vg_gamePhase := Some PhasePlaying\<rparr>\<rparr>))"

section \<open>The game\<close>

definition applyGameOpV2 :: "v2_state \<Rightarrow> v2_game_op \<Rightarrow> v2_op_result" where
  "applyGameOpV2 s operation =
     (case operation of
        VersionAdvance \<Rightarrow> V2Applied s
      | V2GameCountersSet scope counters \<Rightarrow>
          V2Applied (s\<lparr>v2_sharedCounters := (v2_sharedCounters s)(scope \<mapsto> counters)\<rparr>)
      | V2TurnSet turn \<Rightarrow> V2Applied (s\<lparr>v2_turn := turn\<rparr>)
      | DiceResult pid kind result v createdAt \<Rightarrow>
          V2Applied (s\<lparr>v2_game := (v2_game s)\<lparr>vg_lastDiceResult := Some \<lparr>dr_playerId = pid,
            dr_kind = kind, dr_result = or_default (or_else result v) (DiceStr []),
            dr_createdAt = createdAt\<rparr>\<rparr>\<rparr>)
      | V2PhaseSet phase \<Rightarrow> V2Applied (s\<lparr>v2_game := (v2_game s)\<lparr>vg_gamePhase := Some phase\<rparr>\<rparr>)
      | V2GameStatusSet status phase winner finishedAt reason \<Rightarrow>
          V2Applied (s\<lparr>v2_game := (v2_game s)\<lparr>
            vg_status := status,
            vg_winnerPlayerId := or_default winner (vg_winnerPlayerId (v2_game s)),
            vg_finishedAt := or_default finishedAt (vg_finishedAt (v2_game s)),
            vg_finishReason := or_default reason (vg_finishReason (v2_game s)),
            vg_gamePhase := or_else phase (vg_gamePhase (v2_game s))\<rparr>\<rparr>)
      | V2DisconnectVoteSet votes \<Rightarrow>
          V2Applied (s\<lparr>v2_game := (v2_game s)\<lparr>vg_disconnectVotes :=
            cloneDisconnectVotes (or_default votes Map.empty)\<rparr>\<rparr>)
      | V2RematchSet rematch \<Rightarrow> V2Applied (s\<lparr>v2_game := (v2_game s)\<lparr>vg_rematch := rematch\<rparr>\<rparr>))"

definition applyOperationV2 :: "string comparator \<Rightarrow> v2_state \<Rightarrow> v2_op \<Rightarrow> v2_op_result" where
  "applyOperationV2 coll s operation =
     (case operation of
        V2PlayerOp op \<Rightarrow> applyPlayerOpV2 s op
      | V2CardOp op \<Rightarrow> applyCardOpV2 s op
      | V2ZoneOp op \<Rightarrow> applyZoneOpV2 s op
      | V2TableOp op \<Rightarrow> applyTableOpV2 coll s op
      | V2MulliganOp op \<Rightarrow> applyMulliganOpV2 s op
      | V2GameOp op \<Rightarrow> applyGameOpV2 s op
      | V2UnknownOp _ \<Rightarrow> V2Failed V2InvalidOperation)"

section \<open>Patch envelopes\<close>

fun normalizePatchOperation :: "v2_wire_op \<Rightarrow> v2_op" where
  "normalizePatchOperation (Direct op) = op"
| "normalizePatchOperation (InData op) = op"

definition isShuffle :: "v2_op \<Rightarrow> string option" where
  "isShuffle op = (case op of V2ZoneOp (LibraryShuffled pid _) \<Rightarrow> Some pid | _ \<Rightarrow> None)"

definition recordShuffle :: "int \<Rightarrow> v2_player obj \<Rightarrow> string \<Rightarrow> v2_player obj" where
  "recordShuffle revision players pid =
     (case obj_get players pid of
        None \<Rightarrow> players
      | Some player \<Rightarrow>
          if vp_libraryShuffleRevision player = Some revision then players
          else obj_set pid (player\<lparr>vp_libraryShuffleRevision := Some revision\<rparr>) players)"

definition recordLibraryShuffleRevisions :: "v2_state \<Rightarrow> v2_wire_op list \<Rightarrow> int \<Rightarrow> v2_state" where
  "recordLibraryShuffleRevisions s operations revision =
     (let shuffledPlayerIds = unique (List.map_filter isShuffle (map normalizePatchOperation operations))
      in s\<lparr>v2_players := foldl (recordShuffle revision) (v2_players s) shuffledPlayerIds\<rparr>)"

text \<open>The acknowledged action leaves the pending ones; an empty id is falsy.\<close>

definition acknowledge :: "string option \<Rightarrow> (string \<rightharpoonup> string) \<Rightarrow> string \<rightharpoonup> string" where
  "acknowledge ack pending =
     (case ack of None \<Rightarrow> pending | Some i \<Rightarrow> if i = [] then pending else pending(i := None))"

definition isSameVersionStreamPatch :: "patch_envelope \<Rightarrow> bool" where
  "isSameVersionStreamPatch patch =
     (pe_ops patch \<noteq> [] \<and> list_all (\<lambda>wire. case normalizePatchOperation wire of
        V2TableOp (ChatMessageAdd _) \<Rightarrow> True
      | V2TableOp (ChatReactionSet _ _) \<Rightarrow> True
      | V2TableOp (V2EventLogAppend _) \<Rightarrow> True
      | _ \<Rightarrow> False) (pe_ops patch))"

text \<open>
  The test reads \<open>operation.zone\<close> before the operation is normalized, so the removal from a
  library counts only when its fields are not in \<open>data\<close>.
\<close>

definition isIdempotentVisibilityOperation :: "v2_wire_op \<Rightarrow> bool" where
  "isIdempotentVisibilityOperation wire =
     (case normalizePatchOperation wire of
        V2ZoneOp (CardsRemove _ zone _ _) \<Rightarrow> (case wire of Direct _ \<Rightarrow> zone = Library | InData _ \<Rightarrow> False)
      | V2PlayerOp (HandRevealMarkerSet _ _ _) \<Rightarrow> True
      | V2PlayerOp (HandRevealMarkerClear _ _) \<Rightarrow> True
      | V2PlayerOp (LibraryTopMarkerSet _ _) \<Rightarrow> True
      | V2ZoneOp (LibraryTopRevealed _ _ _ _) \<Rightarrow> True
      | V2ZoneOp (LibraryRevealedSet _ _ _ _) \<Rightarrow> True
      | _ \<Rightarrow> False)"

definition isSameVersionVisibilityMergeOperation :: "v2_wire_op \<Rightarrow> bool" where
  "isSameVersionVisibilityMergeOperation wire =
     (case normalizePatchOperation wire of
        V2GameOp VersionAdvance \<Rightarrow> True
      | V2CardOp (FieldSet _ _ _ _) \<Rightarrow> True
      | V2ZoneOp (CardsAdd _ _ _ _ _) \<Rightarrow> True
      | V2ZoneOp (CardsRemove _ _ _ _) \<Rightarrow> True
      | V2ZoneOp (CardsMove _) \<Rightarrow> True
      | V2ZoneOp (CardsBatchMove _) \<Rightarrow> True
      | V2ZoneOp (ZoneCountSet _ _ _) \<Rightarrow> True
      | V2ZoneOp (LibraryCountSet _ _) \<Rightarrow> True
      | V2PlayerOp (HandRevealMarkerSet _ _ _) \<Rightarrow> True
      | V2PlayerOp (HandRevealMarkerClear _ _) \<Rightarrow> True
      | V2PlayerOp (LibraryTopMarkerSet _ _) \<Rightarrow> True
      | V2PlayerOp (LibraryTopAudienceSet _ _) \<Rightarrow> True
      | V2ZoneOp (LibraryTopRevealed _ _ _ _) \<Rightarrow> True
      | V2ZoneOp (LibraryTopViewed _ _ _) \<Rightarrow> True
      | V2ZoneOp (LibraryRevealedSet _ _ _ _) \<Rightarrow> True
      | V2PlayerOp (PlayTopRevealedSet _ _) \<Rightarrow> True
      | V2ZoneOp (LibraryTopHidden _) \<Rightarrow> True
      | V2ZoneOp (LibraryTopReordered _ _) \<Rightarrow> True
      | V2ZoneOp (LibraryTopMoved _) \<Rightarrow> True
      | V2ZoneOp (LibraryShuffled _ _) \<Rightarrow> True
      | V2GameOp (V2GameCountersSet _ _) \<Rightarrow> True
      | V2MulliganOp (MulliganStatusSet _ _ _ _ _ _) \<Rightarrow> True
      | V2MulliganOp (MulliganPrivateStateSet _ _ _ _ _ _) \<Rightarrow> True
      | V2MulliganOp (MulliganHandReplacePrivate _ _ _) \<Rightarrow> True
      | V2MulliganOp (MulliganHandCountSet _ _) \<Rightarrow> True
      | V2MulliganOp (MulliganBottomRequiredSet _ _ _) \<Rightarrow> True
      | V2MulliganOp (MulliganScryAvailableSet _ _ _) \<Rightarrow> True
      | V2MulliganOp MulliganCompleted \<Rightarrow> True
      | V2GameOp (V2PhaseSet _) \<Rightarrow> True
      | V2TableOp (V2EventLogAppend _) \<Rightarrow> True
      | _ \<Rightarrow> False)"

definition isSameVersionVisibilityMergePatch :: "patch_envelope \<Rightarrow> bool" where
  "isSameVersionVisibilityMergePatch patch =
     (if pe_ops patch = [] then False
      else if list_all isIdempotentVisibilityOperation (pe_ops patch) then True
      else nonEmptyString (pe_ackClientActionId patch)
        \<and> list_all isSameVersionVisibilityMergeOperation (pe_ops patch))"

definition zoneCountsForTargets ::
  "v2_state \<Rightarrow> (string \<times> game_zone_name) list \<Rightarrow> (string \<times> game_zone_name \<times> jsnum) list" where
  "zoneCountsForTargets s targets =
     List.map_filter (\<lambda>(pid, zone). map_option (\<lambda>counts. (pid, zone, counts zone)) (v2_zoneCounts s pid))
       (snd (foldl (\<lambda>(seen, ts) (pid, zone).
          if zoneId pid zone \<in> set seen then (seen, ts)
          else (seen @ [zoneId pid zone], ts @ [(pid, zone)])) ([], []) targets))"

definition restoreZoneCountsForTargets ::
  "v2_state \<Rightarrow> (string \<times> game_zone_name \<times> jsnum) list \<Rightarrow> v2_state" where
  "restoreZoneCountsForTargets s counts = s\<lparr>v2_zoneCounts := foldl (\<lambda>m (pid, zone, n).
     case m pid of None \<Rightarrow> m | Some playerCounts \<Rightarrow> m(pid \<mapsto> playerCounts(zone := n)))
     (v2_zoneCounts s) counts\<rparr>"

definition applyOperationPreservingZoneCounts ::
  "string comparator \<Rightarrow> v2_state \<Rightarrow> v2_op \<Rightarrow> (string \<times> game_zone_name) list \<Rightarrow> v2_op_result" where
  "applyOperationPreservingZoneCounts coll s operation targets =
     (let preservedCounts = zoneCountsForTargets s targets in
      v2_then (applyOperationV2 coll s operation) (\<lambda>t.
        V2Applied (restoreZoneCountsForTargets t preservedCounts)))"

definition moveTargets :: "cards_move \<Rightarrow> (string \<times> game_zone_name) list" where
  "moveTargets mv = [(cmv_fromPlayer mv, cmv_fromZone mv), (cmv_toPlayer mv, cmv_toZone mv)]"

definition applySameVersionOperation :: "string comparator \<Rightarrow> v2_state \<Rightarrow> v2_op \<Rightarrow> v2_op_result" where
  "applySameVersionOperation coll s operation =
     (case operation of
        V2ZoneOp (CardsAdd pid zone _ _ _) \<Rightarrow> applyOperationPreservingZoneCounts coll s operation [(pid, zone)]
      | V2ZoneOp (CardsRemove pid zone _ _) \<Rightarrow> applyOperationPreservingZoneCounts coll s operation [(pid, zone)]
      | V2ZoneOp (CardsMove mv) \<Rightarrow> applyOperationPreservingZoneCounts coll s operation (moveTargets mv)
      | V2ZoneOp (CardsBatchMove moves) \<Rightarrow>
          applyOperationPreservingZoneCounts coll s operation (concat (map moveTargets moves))
      | _ \<Rightarrow> applyOperationV2 coll s operation)"

definition applySameVersionPatch ::
  "string comparator \<Rightarrow> v2_state \<Rightarrow> patch_envelope \<Rightarrow> v2_internal_result" where
  "applySameVersionPatch coll s patch =
     (case applyEach (applySameVersionOperation coll) s (map normalizePatchOperation (pe_ops patch)) of
        V2Failed r \<Rightarrow> PatchResync s r
      | V2Applied t \<Rightarrow>
          let u = recordLibraryShuffleRevisions t (pe_ops patch) (pe_version patch)
          in PatchApplied (u\<lparr>v2_pending := acknowledge (pe_ackClientActionId patch) (v2_pending u)\<rparr>))"

definition applyPatchEnvelopeV2 ::
  "string comparator \<Rightarrow> v2_state \<Rightarrow> patch_envelope \<Rightarrow> v2_internal_result" where
  "applyPatchEnvelopeV2 coll s patch =
     (if pe_version patch \<le> v2_lastAppliedVersion s then
        if pe_version patch = v2_lastAppliedVersion s
           \<and> (isSameVersionStreamPatch patch \<or> isSameVersionVisibilityMergePatch patch)
        then applySameVersionPatch coll s patch
        else PatchIgnored s
      else if pe_version patch \<noteq> v2_lastAppliedVersion s + 1 then PatchResync s V2VersionGap
      else (case applyEach (applyOperationV2 coll) s (map normalizePatchOperation (pe_ops patch)) of
        V2Failed r \<Rightarrow> PatchResync s r
      | V2Applied t \<Rightarrow>
          let u = recordLibraryShuffleRevisions t (pe_ops patch) (pe_version patch)
          in PatchApplied (u\<lparr>v2_game := (v2_game u)\<lparr>vg_version := pe_version patch\<rparr>,
               v2_lastAppliedVersion := pe_version patch,
               v2_pending := acknowledge (pe_ackClientActionId patch) (v2_pending u)\<rparr>)))"

end
