(* ===== verification/V2Hydrate.thy ===== *)
theory V2Hydrate
  imports V2Patch
begin

text \<open>
  The projection of the normalized state to the snapshot the view reads: cards, zones, players,
  stack items and the whole snapshot, without the caches of the projector (those are in theory
  \<^verbatim>\<open>V2Projector\<close>). A visible card without a renderable identity throws
  (\<open>assertRenderableIdentity\<close>).
\<close>

section \<open>Cards\<close>

fun js_map :: "('a \<Rightarrow> 'b js) \<Rightarrow> 'a list \<Rightarrow> 'b list js" where
  "js_map f [] = Inr []"
| "js_map f (x # xs) = js_bind (f x) (\<lambda>y. js_bind (js_map f xs) (\<lambda>ys. Inr (y # ys)))"

text \<open>The checks of \<open>assertRenderableIdentity\<close>: \<open>True\<close> when none of them throws.\<close>

definition renderable :: "v2_instance \<Rightarrow> v2_static_card option \<Rightarrow> bool" where
  "renderable i staticCard =
     (vi_hidden i = Some True \<or> vi_faceDown i = Some True
      \<or> (hasCompleteInstanceIdentity i
         \<and> (case staticCard of
              None \<Rightarrow> vi_staticCardPending i = Some True
            | Some c \<Rightarrow> list_all nonEmptyString (staticIdentity c) \<and> hasRenderableStaticContent c)))"

definition assertRenderableIdentity :: "v2_instance \<Rightarrow> v2_static_card option \<Rightarrow> unit js" where
  "assertRenderableIdentity i staticCard = (if renderable i staticCard then Inr () else Inl GenericError)"

definition toLegacyImageUris :: "image_uris option \<Rightarrow> (string \<rightharpoonup> string) option" where
  "toLegacyImageUris uris =
     (case uris of
        None \<Rightarrow> None
      | Some us \<Rightarrow>
          let normalized = map (\<lambda>(k, v). (k, the v)) (filter (\<lambda>(_, v). nonEmptyString v) us)
          in if normalized = [] then None else Some (map_of normalized))"

text \<open>\<open>v ?? w ?? null\<close> for statistics, where \<open>v\<close> and \<open>w\<close> may be \<open>null\<close> themselves.\<close>

definition known_stat :: "card_stat_value option \<Rightarrow> card_stat_value option" where
  "known_stat v = (if v = Some StatNull then None else v)"

definition stat_of :: "card_stat_value option \<Rightarrow> card_stat_value option \<Rightarrow> card_stat_value" where
  "stat_of v w = or_default (or_else (known_stat v) (known_stat w)) StatNull"

text \<open>\<open>staticCard?.f\<close>.\<close>

definition static_field :: "v2_static_card option \<Rightarrow> (v2_static_card \<Rightarrow> 'a option) \<Rightarrow> 'a option" where
  "static_field staticCard f = Option.bind staticCard f"

definition hydratedCard :: "v2_instance \<Rightarrow> v2_static_card option \<Rightarrow> string \<Rightarrow> game_zone_name \<Rightarrow> game_card_instance" where
  "hydratedCard i sc iid zone = \<lparr>
     card_instanceId = iid,
     card_ownerId = non_null (vi_ownerId i),
     card_controllerId = non_null (vi_controllerId i),
     card_scryfallId = or_else (static_field sc (\<lambda>c. non_null (vc_scryfallId c)))
       (or_else (non_null (vi_printId i)) (vi_cardKey i)),
     card_name = or_default (static_field sc (\<lambda>c. non_null (vc_name c))) ''Card'',
     card_imageUris = toLegacyImageUris (static_field sc (\<lambda>c. non_null (vc_imageUris c))),
     card_cardFaces = static_field sc vc_cardFaces,
     card_faceRuntimeStats = vi_faceRuntimeStats i,
     card_hasRulings = Some (or_default (static_field sc vc_hasRulings) False),
     card_typeLine = Some (static_field sc (\<lambda>c. non_null (vc_typeLine c))),
     card_layout = None,
     card_manaCost = Some (static_field sc (\<lambda>c. non_null (vc_manaCost c))),
     card_oracleText = None,
     card_colorIdentity = Some (or_default (static_field sc vc_colorIdentity) []),
     card_power = Some (stat_of (vi_power i) (static_field sc vc_defaultPower)),
     card_toughness = Some (stat_of (vi_toughness i) (static_field sc vc_defaultToughness)),
     card_loyalty = Some (stat_of (vi_loyalty i) (static_field sc vc_defaultLoyalty)),
     card_defense = Some (stat_of (vi_defense i) (static_field sc vc_defaultDefense)),
     card_saga = Some (non_null (vi_saga i)),
     card_defaultPower = Some (stat_of (static_field sc vc_defaultPower) None),
     card_defaultToughness = Some (stat_of (static_field sc vc_defaultToughness) None),
     card_defaultLoyalty = Some (stat_of (static_field sc vc_defaultLoyalty) None),
     card_defaultDefense = Some (stat_of (static_field sc vc_defaultDefense) None),
     card_tapped = or_default (vi_tapped i) False,
     card_faceDown = Some (or_default (vi_faceDown i) False),
     card_activeFaceIndex = non_null (vi_activeFaceIndex i),
     card_hidden = Some (or_default (vi_hidden i) False),
     card_staticCardPending = Some (vi_staticCardPending i = Some True),
     card_revealedTo = vi_revealedTo i,
     card_revealMarker = vi_revealMarker i,
     card_position = non_null (vi_position i),
     card_dungeonMarker = map_option Some (non_null (vi_dungeonMarker i)),
     card_rotation = Some (or_default (non_null (vi_rotation i)) (num 0)),
     card_counters = vi_counters i,
     card_zone = Some zone,
     card_isToken = Some (or_default (vi_isToken i) False),
     card_isTokenCopy = Some (or_default (vi_isTokenCopy i) False),
     card_isCommander = Some (or_default (vi_isCommander i) False)\<rparr>"

definition hydrateCardInstance :: "v2_state \<Rightarrow> string \<Rightarrow> game_zone_name \<Rightarrow> game_card_instance option js" where
  "hydrateCardInstance s iid zone =
     (case v2_instances s iid of
        None \<Rightarrow> Inr None
      | Some i \<Rightarrow>
          let sc = obj_get (v2_staticCards s) (vi_cardRef i) in
          js_bind (assertRenderableIdentity i sc) (\<lambda>_. Inr (Some (hydratedCard i sc iid zone))))"

section \<open>Zones and players\<close>

definition zoneIdsOf :: "v2_state \<Rightarrow> string \<Rightarrow> game_zone_name \<Rightarrow> string list" where
  "zoneIdsOf s pid zone = (or_default (v2_zones s pid) emptyZones) zone"

definition countsOf :: "v2_state \<Rightarrow> string \<Rightarrow> zone_count_map" where
  "countsOf s pid = or_default (v2_zoneCounts s pid) emptyZoneCounts"

text \<open>\<open>ids.map(id => hydrateCardInstance(state, id, zone)).filter(isCardInstance)\<close>.\<close>

definition hydrateCards :: "v2_state \<Rightarrow> string list \<Rightarrow> game_zone_name \<Rightarrow> game_card_instance list js" where
  "hydrateCards s ids zone =
     js_bind (js_map (\<lambda>iid. hydrateCardInstance s iid zone) ids) (\<lambda>cards.
       Inr (map the (filter (\<lambda>c. c \<noteq> None) cards)))"

definition hydrateZones :: "v2_state \<Rightarrow> string \<Rightarrow> game_zones js" where
  "hydrateZones s pid =
     js_bind (js_map (\<lambda>zone. hydrateCards s (zoneIdsOf s pid zone) zone) ZONE_NAMES) (\<lambda>zs.
       Inr (map_of (zip ZONE_NAMES zs)))"

definition fallbackUser :: "string \<Rightarrow> string \<Rightarrow> json" where
  "fallbackUser pid displayName = JObj [(''id'', JStr pid), (''email'', JStr []),
     (''displayName'', JStr displayName), (''roles'', JArr [])]"

text \<open>The player with its zones already projected; spreading a missing colour identity throws.\<close>

definition hydratePlayerWith :: "v2_state \<Rightarrow> string \<Rightarrow> v2_player \<Rightarrow> game_zones \<Rightarrow> game_player_state js" where
  "hydratePlayerWith s pid p zones =
     (case vp_colorIdentity p of
        None \<Rightarrow> Inl TypeError
      | Some colors \<Rightarrow> Inr \<lparr>
          pl_user = or_default (vp_user p) (fallbackUser pid (vp_displayName p)),
          pl_isOnline = vp_isOnline p,
          pl_status = Some (vp_status p),
          pl_concededAt = Some (non_null (vp_concededAt p)),
          pl_deckName = Some (vp_deckName p),
          pl_colorIdentity = Some colors,
          pl_backgroundName = vp_backgroundName p,
          pl_sleevesName = vp_sleevesName p,
          pl_playTopLibraryRevealed = vp_playTopLibraryRevealed p,
          pl_topLibraryRevealMarker = vp_topLibraryRevealMarker p,
          pl_topLibraryRevealedTo = vp_topLibraryRevealedTo p,
          pl_revealedLibraryTo = None,
          pl_libraryShuffleRevision = vp_libraryShuffleRevision p,
          pl_revealedHandIndexes = vp_revealedHandIndexes p,
          pl_life = vp_life p,
          pl_zones = zones,
          pl_zoneCounts = Some (\<lambda>z. Some (countsOf s pid z)),
          pl_handCount = Some (countsOf s pid Hand),
          pl_mulligan = vp_mulligan p,
          pl_commanderDamage = vp_commanderDamage p,
          pl_counters = vp_counters p\<rparr>)"

definition hydratePlayerState :: "v2_state \<Rightarrow> string \<Rightarrow> v2_player \<Rightarrow> game_player_state js" where
  "hydratePlayerState s pid p = js_bind (hydrateZones s pid) (hydratePlayerWith s pid p)"

definition hydratePlayers :: "v2_state \<Rightarrow> game_player_state obj js" where
  "hydratePlayers s =
     js_bind (js_map (\<lambda>(pid, p). js_bind (hydratePlayerState s pid p) (\<lambda>h. Inr (pid, h)))
       (objectEntries (v2_players s))) (\<lambda>entries. Inr (fromEntries entries))"

section \<open>The stack\<close>

text \<open>\<open>new Date(0).toISOString()\<close>.\<close>

definition EPOCH :: string where
  "EPOCH = ''1970-01-01T00:00:00.000Z''"

definition staticStackCard :: "v2_static_card \<Rightarrow> string \<Rightarrow> game_card_instance" where
  "staticStackCard c iid = (bare_card iid)\<lparr>
     card_name := or_default (non_null (vc_name c)) ''Card'',
     card_scryfallId := non_null (vc_scryfallId c),
     card_imageUris := toLegacyImageUris (non_null (vc_imageUris c)),
     card_cardFaces := vc_cardFaces c,
     card_typeLine := Some (non_null (vc_typeLine c)),
     card_manaCost := Some (non_null (vc_manaCost c)),
     card_colorIdentity := Some (or_default (vc_colorIdentity c) []),
     card_defaultPower := Some (stat_of (vc_defaultPower c) None),
     card_defaultToughness := Some (stat_of (vc_defaultToughness c) None),
     card_defaultLoyalty := Some (stat_of (vc_defaultLoyalty c) None),
     card_defaultDefense := Some (stat_of (vc_defaultDefense c) None)\<rparr>"

text \<open>The card shown for a stack item: its source instance if known, else its static card.\<close>

definition stackItemCard :: "v2_state \<Rightarrow> v2_stack_item \<Rightarrow> string \<Rightarrow> game_card_instance option js" where
  "stackItemCard s item i =
     (let source = or_default (non_null (vk_sourceInstanceId item)) [];
          ref = or_default (non_null (vk_cardRef item)) [] in
      case (if source = [] then None else v2_instances s source) of
        Some inst \<Rightarrow> hydrateCardInstance s source
          (or_default (zoneNameFromZoneId (vi_zoneId inst)) Battlefield)
      | None \<Rightarrow> (case (if ref = [] then None else obj_get (v2_staticCards s) ref) of
          None \<Rightarrow> Inr None
        | Some c \<Rightarrow> Inr (Some (staticStackCard c (or_default (non_null (vk_sourceInstanceId item)) i)))))"

definition hydrateStackItem :: "v2_state \<Rightarrow> v2_stack_item option \<Rightarrow> game_stack_item option js" where
  "hydrateStackItem s item =
     (case item of
        None \<Rightarrow> Inr None
      | Some it \<Rightarrow> (case stackItemId it of
          None \<Rightarrow> Inr None
        | Some i \<Rightarrow> js_bind (stackItemCard s it i) (\<lambda>crd. Inr (Some \<lparr>si_id = i, si_kind = vk_kind it,
            si_card = crd, si_createdAt = or_default (non_null (vk_createdAt it)) EPOCH\<rparr>))))"

definition hydrateStack :: "v2_state \<Rightarrow> game_stack_item list js" where
  "hydrateStack s =
     js_bind (js_map (\<lambda>i. hydrateStackItem s (obj_get (vt_byId (v2_stack s)) i)) (vt_order (v2_stack s)))
       (\<lambda>items. Inr (map the (filter (\<lambda>x. x \<noteq> None) items)))"

section \<open>Chat, log and the snapshot\<close>

definition hydrateChat :: "v2_chat \<Rightarrow> chat_message list" where
  "hydrateChat c = List.map_filter (obj_get (vh_byId c)) (vh_order c)"

definition hydrateLog :: "v2_log \<Rightarrow> game_log_entry list" where
  "hydrateLog l = List.map_filter (obj_get (vl_byId l)) (vl_order l)"

definition cloneRematchState :: "rematch_state \<Rightarrow> rematch_state" where
  "cloneRematchState r = r\<lparr>rm_deadlineAt := Some (non_null (rm_deadlineAt r))\<rparr>"

text \<open>The snapshot once players and stack are projected.\<close>

definition snapshotWith :: "v2_state \<Rightarrow> game_player_state obj \<Rightarrow> game_stack_item list \<Rightarrow> game_snapshot" where
  "snapshotWith s players stack = (let g = v2_game s in \<lparr>
     sn_version = v2_lastAppliedVersion s,
     sn_faceRuntimeStatsVersion = None,
     sn_controlPlaneRevision = Some (vg_controlPlaneRevision g),
     sn_ownerId = vg_ownerId g,
     sn_status = Some (vg_status g),
     sn_winnerPlayerId = Some (vg_winnerPlayerId g),
     sn_finishedAt = Some (vg_finishedAt g),
     sn_finishReason = Some (vg_finishReason g),
     sn_allDisconnectedSince = Some (vg_allDisconnectedSince g),
     sn_nextLifecycleAt = Some (vg_nextLifecycleAt g),
     sn_gamePhase = vg_gamePhase g,
     sn_mulligan = vg_mulligan g,
     sn_players = map_of players,
     sn_turn = v2_turn s,
     sn_timer = None,
     sn_stack = stack,
     sn_arrows = arrowsOf s,
     sn_attachments = Some (attachmentsOfV2 s),
     sn_battlefieldStacks = Some (stacksOf s),
     sn_specialEntities = Some (entitiesOf s),
     sn_chat = hydrateChat (v2_chat s),
     sn_eventLog = hydrateLog (v2_log s),
     sn_rematch = map_option cloneRematchState (vg_rematch g),
     sn_disconnectVotes = Some (cloneDisconnectVotes (vg_disconnectVotes g)),
     sn_createdAt = or_default (vg_createdAt g) EPOCH,
     sn_updatedAt = vg_updatedAt g,
     sn_counters = Some (v2_sharedCounters s)\<rparr>)"

definition hydrateSnapshot :: "v2_state \<Rightarrow> game_snapshot js" where
  "hydrateSnapshot s =
     js_bind (hydratePlayers s) (\<lambda>players.
     js_bind (hydrateStack s) (\<lambda>stack. Inr (snapshotWith s players stack)))"

end
