(* ===== verification/V2Projector.thy ===== *)
theory V2Projector
  imports V2Hydrate
begin

text \<open>
  The class \<open>GameTableSnapshotProjector\<close>: the same projection with its caches, which reuse a
  card, a zone, a player or a list when the source object is the same as before.

  JavaScript's \<open>===\<close> on objects compares references, which values of HOL do not have. The model
  is parametric in the test: \<open>same a b\<close> tells whether two objects of the run are one, and all the
  lemmas assume of it is that one object has one content (\<open>sound_identity\<close>). The caches survive
  an exception, so an operation returns its result, which may be an error, and the new caches.
\<close>

section \<open>Object identity\<close>

datatype object_ref =
    RefPlayers "v2_player obj"
  | RefZones "string \<rightharpoonup> zone_map"
  | RefCounts "string \<rightharpoonup> zone_count_map"
  | RefInstances "string \<rightharpoonup> v2_instance"
  | RefStatics "v2_static_card obj"
  | RefInstance v2_instance
  | RefStatic "v2_static_card option"
  | RefIds "string list"
  | RefCard game_card_instance
  | RefCards "game_card_instance list"
  | RefGameZones game_zones
  | RefPlayer v2_player
  | RefZoneCounts zone_count_map
  | RefPlayerState game_player_state
  | RefShared "string \<rightharpoonup> (string \<rightharpoonup> jsnum)"
  | RefTurn game_turn
  | RefStack v2_stack
  | RefArrows "game_arrow obj"
  | RefAttachments "game_attachment obj"
  | RefBattlefieldStacks "game_battlefield_stack obj"
  | RefEntities "game_special_entity obj"
  | RefChat v2_chat
  | RefLog v2_log
  | RefVotes disconnect_votes
  | RefRematch rematch_state

type_synonym identity_test = "object_ref \<Rightarrow> object_ref \<Rightarrow> bool"

definition sound_identity :: "identity_test \<Rightarrow> bool" where
  "sound_identity same \<longleftrightarrow> (\<forall>a b. same a b \<longrightarrow> a = b)"

section \<open>The caches\<close>

record card_projection =
  cpj_instance :: v2_instance
  cpj_staticCard :: "v2_static_card option"
  cpj_zone :: game_zone_name
  cpj_card :: "game_card_instance option"

record zone_projection =
  zpj_instanceIds :: "string list"
  zpj_cards :: "game_card_instance list"

record player_projection =
  ppj_source :: v2_player
  ppj_zoneCounts :: zone_count_map
  ppj_zones :: game_zones
  ppj_player :: game_player_state

record projector =
  pj_cards :: "string \<rightharpoonup> card_projection"
  pj_zones :: "string \<rightharpoonup> zone_projection"
  pj_projections :: "string \<rightharpoonup> player_projection"
  pj_playersSource :: "v2_player obj option"
  pj_zonesSource :: "(string \<rightharpoonup> zone_map) option"
  pj_countsSource :: "(string \<rightharpoonup> zone_count_map) option"
  pj_instancesSource :: "(string \<rightharpoonup> v2_instance) option"
  pj_staticsSource :: "v2_static_card obj option"
  pj_players :: "game_player_state obj option"
  pj_shared :: "((string \<rightharpoonup> (string \<rightharpoonup> jsnum)) \<times> (string \<rightharpoonup> (string \<rightharpoonup> jsnum))) option"
  pj_turn :: "(game_turn \<times> game_turn) option"
  pj_stackSource :: "v2_stack option"
  pj_stackInstancesSource :: "(string \<rightharpoonup> v2_instance) option"
  pj_stackStaticsSource :: "v2_static_card obj option"
  pj_stack :: "game_stack_item list option"
  pj_arrows :: "(game_arrow obj \<times> game_arrow list) option"
  pj_attachments :: "(game_attachment obj \<times> game_attachment list) option"
  pj_battlefieldStacks :: "(game_battlefield_stack obj \<times> game_battlefield_stack list) option"
  pj_entities :: "(game_special_entity obj \<times> game_special_entity list) option"
  pj_chat :: "(v2_chat \<times> chat_message list) option"
  pj_log :: "(v2_log \<times> game_log_entry list) option"
  pj_votes :: "(disconnect_votes \<times> disconnect_votes) option"
  pj_rematch :: "(rematch_state \<times> rematch_state) option"

definition empty_projector :: projector where
  "empty_projector = \<lparr>pj_cards = Map.empty, pj_zones = Map.empty, pj_projections = Map.empty,
     pj_playersSource = None, pj_zonesSource = None, pj_countsSource = None,
     pj_instancesSource = None, pj_staticsSource = None, pj_players = None, pj_shared = None,
     pj_turn = None, pj_stackSource = None, pj_stackInstancesSource = None,
     pj_stackStaticsSource = None, pj_stack = None, pj_arrows = None, pj_attachments = None,
     pj_battlefieldStacks = None, pj_entities = None, pj_chat = None, pj_log = None,
     pj_votes = None, pj_rematch = None\<rparr>"

text \<open>Reading a cached source against an object of the state: \<open>null\<close> is no object.\<close>

definition hit :: "identity_test \<Rightarrow> ('s \<Rightarrow> object_ref) \<Rightarrow> 's option \<Rightarrow> 's \<Rightarrow> bool" where
  "hit same ref cached source = (case cached of None \<Rightarrow> False | Some old \<Rightarrow> same (ref old) (ref source))"

text \<open>A slot with a source and a value, computed again for another source.\<close>

definition memo ::
  "identity_test \<Rightarrow> ('s \<Rightarrow> object_ref) \<Rightarrow> ('s \<times> 'v) option \<Rightarrow> 's \<Rightarrow> 'v \<Rightarrow> 'v \<times> ('s \<times> 'v) option" where
  "memo same ref slot source fresh =
     (case slot of
        None \<Rightarrow> (fresh, Some (source, fresh))
      | Some (old, v) \<Rightarrow> if same (ref old) (ref source) then (v, slot) else (fresh, Some (source, fresh)))"

section \<open>Computations with caches\<close>

type_synonym 'a pj = "projector \<Rightarrow> 'a js \<times> projector"

definition pj_return :: "'a \<Rightarrow> 'a pj" where
  "pj_return x p = (Inr x, p)"

definition pj_bind :: "'a pj \<Rightarrow> ('a \<Rightarrow> 'b pj) \<Rightarrow> 'b pj" where
  "pj_bind m f p = (case m p of (Inl e, q) \<Rightarrow> (Inl e, q) | (Inr x, q) \<Rightarrow> f x q)"

fun pj_map :: "('a \<Rightarrow> 'b pj) \<Rightarrow> 'a list \<Rightarrow> 'b list pj" where
  "pj_map f [] p = (Inr [], p)"
| "pj_map f (x # xs) p = pj_bind (f x) (\<lambda>y. pj_bind (pj_map f xs) (\<lambda>ys. pj_return (y # ys))) p"

section \<open>Cards and zones\<close>

definition pjCard :: "identity_test \<Rightarrow> v2_state \<Rightarrow> game_zone_name \<Rightarrow> string \<Rightarrow> game_card_instance option pj" where
  "pjCard same s zone iid p =
     (case v2_instances s iid of
        None \<Rightarrow> (Inr None, p)
      | Some i \<Rightarrow>
          let sc = obj_get (v2_staticCards s) (vi_cardRef i);
              compute = (case hydrateCardInstance s iid zone of
                  Inl e \<Rightarrow> (Inl e, p)
                | Inr c \<Rightarrow> (Inr c, p\<lparr>pj_cards := (pj_cards p)(iid \<mapsto>
                    \<lparr>cpj_instance = i, cpj_staticCard = sc, cpj_zone = zone, cpj_card = c\<rparr>)\<rparr>))
          in (case pj_cards p iid of
               None \<Rightarrow> compute
             | Some cached \<Rightarrow>
                 if same (RefInstance (cpj_instance cached)) (RefInstance i)
                    \<and> same (RefStatic (cpj_staticCard cached)) (RefStatic sc) \<and> cpj_zone cached = zone
                 then (Inr (cpj_card cached), p) else compute))"

fun pjCardsMatch ::
  "identity_test \<Rightarrow> v2_state \<Rightarrow> game_zone_name \<Rightarrow> game_card_instance list \<Rightarrow> nat \<Rightarrow> string list \<Rightarrow> bool pj" where
  "pjCardsMatch same s zone cards cardIndex [] p = (Inr (cardIndex = length cards), p)"
| "pjCardsMatch same s zone cards cardIndex (iid # ids) p =
     pj_bind (pjCard same s zone iid) (\<lambda>crd.
       case crd of
         None \<Rightarrow> pjCardsMatch same s zone cards cardIndex ids
       | Some c \<Rightarrow>
           if cardIndex < length cards \<and> same (RefCard (cards ! cardIndex)) (RefCard c)
           then pjCardsMatch same s zone cards (Suc cardIndex) ids
           else pj_return False) p"

definition pjFreshZone ::
  "identity_test \<Rightarrow> v2_state \<Rightarrow> string \<Rightarrow> game_zone_name \<Rightarrow> string list \<Rightarrow> game_card_instance list pj" where
  "pjFreshZone same s key' zone ids =
     pj_bind (pj_map (pjCard same s zone) ids) (\<lambda>cs p.
       let cards = map the (filter (\<lambda>c. c \<noteq> None) cs) in
       (Inr cards, p\<lparr>pj_zones := (pj_zones p)(key' \<mapsto> \<lparr>zpj_instanceIds = ids, zpj_cards = cards\<rparr>)\<rparr>))"

definition pjZone :: "identity_test \<Rightarrow> v2_state \<Rightarrow> string \<Rightarrow> game_zone_name \<Rightarrow> game_card_instance list pj" where
  "pjZone same s pid zone p =
     (let ids = zoneIdsOf s pid zone; cacheKey = zoneId pid zone in
      case pj_zones p cacheKey of
        None \<Rightarrow> pjFreshZone same s cacheKey zone ids p
      | Some cached \<Rightarrow>
          if same (RefIds (zpj_instanceIds cached)) (RefIds ids)
          then pj_bind (pjCardsMatch same s zone (zpj_cards cached) 0 ids) (\<lambda>matches.
            if matches then pj_return (zpj_cards cached)
            else pjFreshZone same s cacheKey zone ids) p
          else pjFreshZone same s cacheKey zone ids p)"

text \<open>The six zones of a player; the cached record when no zone has changed.\<close>

definition sameZones :: "identity_test \<Rightarrow> game_zones \<Rightarrow> game_zones \<Rightarrow> bool" where
  "sameZones same old zs = list_all (\<lambda>z. case (old z, zs z) of
     (Some a, Some b) \<Rightarrow> same (RefCards a) (RefCards b) | _ \<Rightarrow> False) ZONE_NAMES"

definition pjPlayerZones :: "identity_test \<Rightarrow> v2_state \<Rightarrow> string \<Rightarrow> game_zones pj" where
  "pjPlayerZones same s pid =
     pj_bind (pj_map (pjZone same s pid) ZONE_NAMES) (\<lambda>lists p.
       let zones = map_of (zip ZONE_NAMES lists) in
       case pj_projections p pid of
         Some cached \<Rightarrow> (Inr (if sameZones same (ppj_zones cached) zones then ppj_zones cached else zones), p)
       | None \<Rightarrow> (Inr zones, p))"

section \<open>Players\<close>

definition canReusePlayerZones :: "identity_test \<Rightarrow> v2_state \<Rightarrow> projector \<Rightarrow> bool" where
  "canReusePlayerZones same s p \<longleftrightarrow>
     hit same RefZones (pj_zonesSource p) (v2_zones s)
     \<and> hit same RefInstances (pj_instancesSource p) (v2_instances s)
     \<and> hit same RefStatics (pj_staticsSource p) (v2_staticCards s)"

definition pjPlayerWith ::
  "identity_test \<Rightarrow> v2_state \<Rightarrow> string \<Rightarrow> v2_player \<Rightarrow> game_zones \<Rightarrow> game_player_state pj" where
  "pjPlayerWith same s pid player zones p =
     (let compute = (case hydratePlayerWith s pid player zones of
            Inl e \<Rightarrow> (Inl e, p)
          | Inr h \<Rightarrow> (Inr h, p\<lparr>pj_projections := (pj_projections p)(pid \<mapsto> \<lparr>ppj_source = player,
              ppj_zoneCounts = countsOf s pid, ppj_zones = zones, ppj_player = h\<rparr>)\<rparr>))
      in case pj_projections p pid of
        None \<Rightarrow> compute
      | Some cached \<Rightarrow>
          if same (RefPlayer (ppj_source cached)) (RefPlayer player)
             \<and> same (RefZoneCounts (ppj_zoneCounts cached)) (RefZoneCounts (countsOf s pid))
             \<and> same (RefGameZones (ppj_zones cached)) (RefGameZones zones)
          then (Inr (ppj_player cached), p) else compute)"

definition pjPlayer :: "identity_test \<Rightarrow> v2_state \<Rightarrow> string \<Rightarrow> v2_player \<Rightarrow> game_player_state pj" where
  "pjPlayer same s pid player p =
     pj_bind (\<lambda>q. case pj_projections q pid of
         Some cached \<Rightarrow> if canReusePlayerZones same s q then (Inr (ppj_zones cached), q)
           else pjPlayerZones same s pid q
       | None \<Rightarrow> pjPlayerZones same s pid q)
       (pjPlayerWith same s pid player) p"

definition samePlayerEntries ::
  "identity_test \<Rightarrow> game_player_state obj \<Rightarrow> game_player_state obj \<Rightarrow> bool" where
  "samePlayerEntries same entries players =
     (length entries = length players \<and> list_all (\<lambda>(pid, player). case obj_get players pid of
        None \<Rightarrow> False | Some old \<Rightarrow> same (RefPlayerState old) (RefPlayerState player)) entries)"

definition recordPlayerSources :: "v2_state \<Rightarrow> projector \<Rightarrow> projector" where
  "recordPlayerSources s p = p\<lparr>pj_playersSource := Some (v2_players s),
     pj_zonesSource := Some (v2_zones s), pj_countsSource := Some (v2_zoneCounts s),
     pj_instancesSource := Some (v2_instances s), pj_staticsSource := Some (v2_staticCards s)\<rparr>"

definition sameSources :: "identity_test \<Rightarrow> v2_state \<Rightarrow> projector \<Rightarrow> bool" where
  "sameSources same s p \<longleftrightarrow>
     hit same RefPlayers (pj_playersSource p) (v2_players s)
     \<and> hit same RefCounts (pj_countsSource p) (v2_zoneCounts s) \<and> canReusePlayerZones same s p"

definition pjPlayers :: "identity_test \<Rightarrow> v2_state \<Rightarrow> game_player_state obj pj" where
  "pjPlayers same s p =
     (case (sameSources same s p, pj_players p) of
        (True, Some players) \<Rightarrow> (Inr players, p)
      | _ \<Rightarrow>
          pj_bind (pj_map (\<lambda>(pid, player). pj_bind (pjPlayer same s pid player) (\<lambda>h. pj_return (pid, h)))
              (objectEntries (v2_players s))) (\<lambda>entries q.
            case pj_players q of
              Some old \<Rightarrow>
                if samePlayerEntries same entries old then (Inr old, recordPlayerSources s q)
                else (Inr (fromEntries entries),
                      (recordPlayerSources s q)\<lparr>pj_players := Some (fromEntries entries)\<rparr>)
            | None \<Rightarrow> (Inr (fromEntries entries),
                      (recordPlayerSources s q)\<lparr>pj_players := Some (fromEntries entries)\<rparr>)) p)"

section \<open>The stack\<close>

text \<open>The sources are recorded before the items are projected.\<close>

definition pjStack :: "identity_test \<Rightarrow> v2_state \<Rightarrow> game_stack_item list pj" where
  "pjStack same s p =
     (let sources = hit same RefStack (pj_stackSource p) (v2_stack s)
            \<and> hit same RefInstances (pj_stackInstancesSource p) (v2_instances s)
            \<and> hit same RefStatics (pj_stackStaticsSource p) (v2_staticCards s);
          q = p\<lparr>pj_stackSource := Some (v2_stack s), pj_stackInstancesSource := Some (v2_instances s),
                pj_stackStaticsSource := Some (v2_staticCards s)\<rparr>;
          compute = (case hydrateStack s of
              Inl e \<Rightarrow> (Inl e, q) | Inr items \<Rightarrow> (Inr items, q\<lparr>pj_stack := Some items\<rparr>))
      in case pj_stack p of
        None \<Rightarrow> compute
      | Some old \<Rightarrow> if sources then (Inr old, p) else compute)"

section \<open>The snapshot\<close>

text \<open>The lists and small objects, each in a slot of its own.\<close>

definition pjRematch :: "identity_test \<Rightarrow> rematch_state option \<Rightarrow> projector \<Rightarrow> rematch_state option \<times> projector" where
  "pjRematch same source p =
     (case source of
        None \<Rightarrow> (None, p)
      | Some r \<Rightarrow> (case memo same RefRematch (pj_rematch p) r (cloneRematchState r) of
          (v, slot) \<Rightarrow> (Some v, p\<lparr>pj_rematch := slot\<rparr>)))"

definition pjShared :: "identity_test \<Rightarrow> v2_state \<Rightarrow> projector \<Rightarrow> (string \<rightharpoonup> (string \<rightharpoonup> jsnum)) \<times> projector" where
  "pjShared same s p =
     (case memo same RefShared (pj_shared p) (v2_sharedCounters s) (v2_sharedCounters s) of
        (v, slot) \<Rightarrow> (v, p\<lparr>pj_shared := slot\<rparr>))"

definition pjTurn :: "identity_test \<Rightarrow> v2_state \<Rightarrow> projector \<Rightarrow> game_turn \<times> projector" where
  "pjTurn same s p =
     (case memo same RefTurn (pj_turn p) (v2_turn s) (v2_turn s) of (v, slot) \<Rightarrow> (v, p\<lparr>pj_turn := slot\<rparr>))"

definition pjArrows :: "identity_test \<Rightarrow> v2_state \<Rightarrow> projector \<Rightarrow> game_arrow list \<times> projector" where
  "pjArrows same s p =
     (case memo same RefArrows (pj_arrows p) (vr_arrows (v2_relations s)) (arrowsOf s) of
        (v, slot) \<Rightarrow> (v, p\<lparr>pj_arrows := slot\<rparr>))"

definition pjAttachments :: "identity_test \<Rightarrow> v2_state \<Rightarrow> projector \<Rightarrow> game_attachment list \<times> projector" where
  "pjAttachments same s p =
     (case memo same RefAttachments (pj_attachments p) (vr_attachments (v2_relations s)) (attachmentsOfV2 s) of
        (v, slot) \<Rightarrow> (v, p\<lparr>pj_attachments := slot\<rparr>))"

definition pjBattlefieldStacks ::
  "identity_test \<Rightarrow> v2_state \<Rightarrow> projector \<Rightarrow> game_battlefield_stack list \<times> projector" where
  "pjBattlefieldStacks same s p =
     (case memo same RefBattlefieldStacks (pj_battlefieldStacks p)
        (vr_battlefieldStacks (v2_relations s)) (stacksOf s) of
        (v, slot) \<Rightarrow> (v, p\<lparr>pj_battlefieldStacks := slot\<rparr>))"

definition pjEntities :: "identity_test \<Rightarrow> v2_state \<Rightarrow> projector \<Rightarrow> game_special_entity list \<times> projector" where
  "pjEntities same s p =
     (case memo same RefEntities (pj_entities p) (vr_specialEntities (v2_relations s)) (entitiesOf s) of
        (v, slot) \<Rightarrow> (v, p\<lparr>pj_entities := slot\<rparr>))"

definition pjChat :: "identity_test \<Rightarrow> v2_state \<Rightarrow> projector \<Rightarrow> chat_message list \<times> projector" where
  "pjChat same s p =
     (case memo same RefChat (pj_chat p) (v2_chat s) (hydrateChat (v2_chat s)) of
        (v, slot) \<Rightarrow> (v, p\<lparr>pj_chat := slot\<rparr>))"

definition pjLog :: "identity_test \<Rightarrow> v2_state \<Rightarrow> projector \<Rightarrow> game_log_entry list \<times> projector" where
  "pjLog same s p =
     (case memo same RefLog (pj_log p) (v2_log s) (hydrateLog (v2_log s)) of
        (v, slot) \<Rightarrow> (v, p\<lparr>pj_log := slot\<rparr>))"

definition pjVotes :: "identity_test \<Rightarrow> v2_state \<Rightarrow> projector \<Rightarrow> disconnect_votes \<times> projector" where
  "pjVotes same s p =
     (case memo same RefVotes (pj_votes p) (vg_disconnectVotes (v2_game s))
        (cloneDisconnectVotes (vg_disconnectVotes (v2_game s))) of
        (v, slot) \<Rightarrow> (v, p\<lparr>pj_votes := slot\<rparr>))"

text \<open>\<open>hydrate\<close>: the fields of the literal, in their order.\<close>

definition hydrateWithCaches :: "identity_test \<Rightarrow> v2_state \<Rightarrow> game_snapshot pj" where
  "hydrateWithCaches same s =
     pj_bind (pjPlayers same s) (\<lambda>players p0.
       case pjShared same s p0 of (shared, p1) \<Rightarrow>
       case pjTurn same s p1 of (turn, p2) \<Rightarrow>
       pj_bind (pjStack same s) (\<lambda>stack p3.
         case pjArrows same s p3 of (arrows, p4) \<Rightarrow>
         case pjAttachments same s p4 of (attachments, p5) \<Rightarrow>
         case pjBattlefieldStacks same s p5 of (stacks, p6) \<Rightarrow>
         case pjEntities same s p6 of (entities, p7) \<Rightarrow>
         case pjChat same s p7 of (chat, p8) \<Rightarrow>
         case pjLog same s p8 of (logs, p9) \<Rightarrow>
         case pjRematch same (vg_rematch (v2_game s)) p9 of (rematch, p10) \<Rightarrow>
         case pjVotes same s p10 of (votes, p11) \<Rightarrow>
           (Inr ((snapshotWith s players stack)\<lparr>sn_counters := Some shared, sn_turn := turn,
              sn_arrows := arrows, sn_attachments := Some attachments,
              sn_battlefieldStacks := Some stacks, sn_specialEntities := Some entities,
              sn_chat := chat, sn_eventLog := logs, sn_rematch := rematch,
              sn_disconnectVotes := Some votes\<rparr>), p11)) p2)"

definition hydrateGameSnapshotFromV2State :: "identity_test \<Rightarrow> v2_state \<Rightarrow> game_snapshot js" where
  "hydrateGameSnapshotFromV2State same s = fst (hydrateWithCaches same s empty_projector)"

end
