(* ===== verification/V2Store.thy ===== *)
theory V2Store
  imports V2Projector
begin

text \<open>
  The service \<open>GameTableNormalizedV2Store\<close>: a signal that holds the state, or \<open>null\<close> before
  the first bootstrap, and the projector. Every method returns its result together with the
  store after the call. Only \<open>applyPatch\<close> catches the exceptions of the projection, and it
  stores the new state after the projection has succeeded; the other methods store it before.
\<close>

record v2_store =
  st_state :: "v2_state option"
  st_projector :: projector

definition empty_store :: v2_store where
  "empty_store = \<lparr>st_state = None, st_projector = empty_projector\<rparr>"

definition storeClear :: "v2_store \<Rightarrow> v2_store" where
  "storeClear st = \<lparr>st_state = None, st_projector = empty_projector\<rparr>"

text \<open>\<open>this.state.set(nextState); return this.snapshotProjector.hydrate(nextState)\<close>.\<close>

definition setAndHydrate :: "identity_test \<Rightarrow> v2_store \<Rightarrow> v2_state \<Rightarrow> game_snapshot js \<times> v2_store" where
  "setAndHydrate same st nextState =
     (case hydrateWithCaches same nextState (st_projector st) of
        (r, p) \<Rightarrow> (r, \<lparr>st_state = Some nextState, st_projector = p\<rparr>))"

definition applyBootstrap ::
  "identity_test \<Rightarrow> string comparator \<Rightarrow> v2_store \<Rightarrow> bootstrap_v2 \<Rightarrow> game_snapshot js \<times> v2_store" where
  "applyBootstrap same coll st bootstrap =
     (let pending = (case st_state st of None \<Rightarrow> Map.empty | Some s \<Rightarrow> v2_pending s);
          nextState = createGameTableNormalizedV2State coll bootstrap pending
      in setAndHydrate same (st\<lparr>st_projector := empty_projector\<rparr>) nextState)"

text \<open>The projection after an accepted patch, with its exceptions caught.\<close>

definition commitPatch ::
  "identity_test \<Rightarrow> v2_store \<Rightarrow> v2_state \<Rightarrow> v2_state \<Rightarrow> (v2_state \<Rightarrow> game_snapshot \<Rightarrow> v2_apply_result) \<Rightarrow>
   v2_apply_result \<times> v2_store" where
  "commitPatch same st currentState nextState result =
     (case hydrateWithCaches same nextState (st_projector st) of
        (Inl e, p) \<Rightarrow> (StoreResync (Some currentState) V2InvalidOperation, st\<lparr>st_projector := p\<rparr>)
      | (Inr snapshot, p) \<Rightarrow>
          (result nextState snapshot, \<lparr>st_state = Some nextState, st_projector = p\<rparr>))"

definition storeApplyPatch ::
  "identity_test \<Rightarrow> string comparator \<Rightarrow> v2_store \<Rightarrow> patch_envelope \<Rightarrow> v2_apply_result \<times> v2_store" where
  "storeApplyPatch same coll st patch =
     (case st_state st of
        None \<Rightarrow> (StoreResync None V2MissingState, st)
      | Some currentState \<Rightarrow> (case applyPatchEnvelopeV2 coll currentState patch of
          PatchResync s reason \<Rightarrow> (StoreResync (Some s) reason, st)
        | PatchIgnored s \<Rightarrow> commitPatch same st currentState s StoreIgnored
        | PatchApplied s \<Rightarrow> commitPatch same st currentState s StoreApplied))"

text \<open>The methods that answer \<open>null\<close> without a state, or without entries, and else store and project.\<close>

definition storeUpdate ::
  "identity_test \<Rightarrow> v2_store \<Rightarrow> bool \<Rightarrow> (v2_state \<Rightarrow> v2_state) \<Rightarrow> game_snapshot option js \<times> v2_store" where
  "storeUpdate same st skip f =
     (case st_state st of
        None \<Rightarrow> (Inr None, st)
      | Some s \<Rightarrow>
          if skip then (Inr None, st)
          else (case setAndHydrate same st (f s) of
            (r, st') \<Rightarrow> (js_bind r (\<lambda>snapshot. Inr (Some snapshot)), st')))"

definition mergedStatics :: "v2_static_card obj \<Rightarrow> v2_static_card obj \<Rightarrow> v2_static_card obj" where
  "mergedStatics current incoming = foldl (\<lambda>cards (ref, c).
     obj_set ref (mergeStaticCard (obj_get cards ref) c) cards) current (objectEntries incoming)"

definition mergeStaticCards ::
  "identity_test \<Rightarrow> v2_store \<Rightarrow> v2_static_card obj \<Rightarrow> game_snapshot option js \<times> v2_store" where
  "mergeStaticCards same st staticCards = storeUpdate same st (staticCards = [])
     (\<lambda>s. s\<lparr>v2_staticCards := mergedStatics (v2_staticCards s) staticCards\<rparr>)"

definition prependLogEntries ::
  "identity_test \<Rightarrow> string comparator \<Rightarrow> v2_store \<Rightarrow> game_log_entry list \<Rightarrow> nat \<Rightarrow>
   game_snapshot option js \<times> v2_store" where
  "prependLogEntries same coll st entries maximumEntries = storeUpdate same st (entries = [])
     (\<lambda>s. s\<lparr>v2_log := mergeLogEntries coll (v2_log s) entries maximumEntries KeepOldest\<rparr>)"

definition appendLogEntries ::
  "identity_test \<Rightarrow> string comparator \<Rightarrow> v2_store \<Rightarrow> game_log_entry list \<Rightarrow> nat \<Rightarrow>
   game_snapshot option js \<times> v2_store" where
  "appendLogEntries same coll st entries maximumEntries = storeUpdate same st (entries = [])
     (\<lambda>s. s\<lparr>v2_log := mergeLogEntries coll (v2_log s) entries maximumEntries KeepNewest\<rparr>)"

definition replaceLogEntries ::
  "identity_test \<Rightarrow> string comparator \<Rightarrow> v2_store \<Rightarrow> game_log_entry list \<Rightarrow> game_snapshot option js \<times> v2_store" where
  "replaceLogEntries same coll st entries = storeUpdate same st False
     (\<lambda>s. s\<lparr>v2_log := createLogState coll (Some entries) None\<rparr>)"

definition prependChatMessages ::
  "identity_test \<Rightarrow> string comparator \<Rightarrow> v2_store \<Rightarrow> chat_message list \<Rightarrow> nat \<Rightarrow>
   game_snapshot option js \<times> v2_store" where
  "prependChatMessages same coll st entries maximumEntries = storeUpdate same st (entries = [])
     (\<lambda>s. s\<lparr>v2_chat := mergeChatMessages coll (v2_chat s) entries maximumEntries KeepOldest\<rparr>)"

definition appendChatMessages ::
  "identity_test \<Rightarrow> string comparator \<Rightarrow> v2_store \<Rightarrow> chat_message list \<Rightarrow> nat \<Rightarrow>
   game_snapshot option js \<times> v2_store" where
  "appendChatMessages same coll st entries maximumEntries = storeUpdate same st (entries = [])
     (\<lambda>s. s\<lparr>v2_chat := mergeChatMessages coll (v2_chat s) entries maximumEntries KeepNewest\<rparr>)"

definition replaceChatMessages ::
  "identity_test \<Rightarrow> string comparator \<Rightarrow> v2_store \<Rightarrow> chat_message list \<Rightarrow> game_snapshot option js \<times> v2_store" where
  "replaceChatMessages same coll st entries = storeUpdate same st False
     (\<lambda>s. s\<lparr>v2_chat := createChatState coll (Some entries) None\<rparr>)"

definition applyControlPlane ::
  "identity_test \<Rightarrow> v2_store \<Rightarrow> control_plane \<Rightarrow> game_snapshot option js \<times> v2_store" where
  "applyControlPlane same st cp = storeUpdate same st False (\<lambda>s. s\<lparr>v2_game := (v2_game s)\<lparr>
     vg_controlPlaneRevision := cpl_controlPlaneRevision cp,
     vg_status := cpl_status cp,
     vg_winnerPlayerId := cpl_winnerPlayerId cp,
     vg_finishedAt := cpl_finishedAt cp,
     vg_finishReason := cpl_finishReason cp,
     vg_allDisconnectedSince := cpl_allDisconnectedSince cp,
     vg_nextLifecycleAt := cpl_nextLifecycleAt cp,
     vg_ownerId := cpl_ownerId cp,
     vg_rematch := Some (cloneRematchState (cpl_rematch cp))\<rparr>\<rparr>)"

end
