(* ===== verification/Replica.thy ===== *)
theory Replica
  imports Prelude
begin

text \<open>
  The contract between a stream of versioned patches and a client that holds a copy of the
  state they describe. A client is given by a partial function \<open>applied\<close>: the new state
  when it applies a patch, \<open>None\<close> when it keeps its state (the patch is late, leaves a gap
  or fails). The lemmas say what the version gate buys for every delivery sequence, whatever
  the network duplicates, drops or reorders.
\<close>

section \<open>Delivering patches\<close>

definition deliver :: "('s \<Rightarrow> 'p \<Rightarrow> 's option) \<Rightarrow> 's \<Rightarrow> 'p \<Rightarrow> 's" where
  "deliver f s p = (case f s p of Some t \<Rightarrow> t | None \<Rightarrow> s)"

fun deliver_all :: "('s \<Rightarrow> 'p \<Rightarrow> 's option) \<Rightarrow> 's \<Rightarrow> 'p list \<Rightarrow> 's" where
  "deliver_all f s [] = s"
| "deliver_all f s (p # ps) = deliver_all f (deliver f s p) ps"

text \<open>The patches of a delivery sequence that the client applied, in the order it did.\<close>

fun applied_log :: "('s \<Rightarrow> 'p \<Rightarrow> 's option) \<Rightarrow> 's \<Rightarrow> 'p list \<Rightarrow> 'p list" where
  "applied_log f s [] = []"
| "applied_log f s (p # ps) =
     (case f s p of Some t \<Rightarrow> p # applied_log f t ps | None \<Rightarrow> applied_log f s ps)"

lemma deliver_simps [simp]:
  "f s p = Some t \<Longrightarrow> deliver f s p = t"
  "f s p = None \<Longrightarrow> deliver f s p = s"
  by (simp_all add: deliver_def)

lemma deliver_all_append: "deliver_all f s (ps @ qs) = deliver_all f (deliver_all f s ps) qs"
  by (induction ps arbitrary: s) auto

lemma applied_log_subset: "set (applied_log f s ps) \<subseteq> set ps"
  by (induction ps arbitrary: s) (auto split: option.splits)

lemma deliver_applied_log: "deliver_all f s (applied_log f s ps) = deliver_all f s ps"
  by (induction ps arbitrary: s) (auto split: option.splits)

section \<open>A client that never goes back\<close>

locale patch_replica =
  fixes version :: "'s \<Rightarrow> int"
    and target :: "'p \<Rightarrow> int"
    and applied :: "'s \<Rightarrow> 'p \<Rightarrow> 's option"
  assumes applied_version: "applied s p = Some t \<Longrightarrow> version t = target p"
    and applied_window: "applied s p = Some t \<Longrightarrow> version s \<le> target p \<and> target p \<le> version s + 1"
begin

lemma deliver_version: "version s \<le> version (deliver applied s p)"
proof (cases "applied s p")
  case (Some t)
  then show ?thesis using applied_version [OF Some] applied_window [OF Some] by simp
qed simp

lemma deliver_all_version: "version s \<le> version (deliver_all applied s ps)"
proof (induction ps arbitrary: s)
  case (Cons p ps)
  show ?case using deliver_version [of s p] Cons.IH [of "deliver applied s p"] by simp
qed simp

lemma late_version: "applied s p = Some t \<Longrightarrow> \<not> target p < version s"
  using applied_window by fastforce

end

section \<open>A client that applies each version once\<close>

locale strict_replica = patch_replica +
  assumes applied_next: "applied s p = Some t \<Longrightarrow> target p = version s + 1"
begin

lemma late_dropped: "target p \<le> version s \<Longrightarrow> applied s p = None"
  using applied_next by (cases "applied s p") fastforce+

lemma redelivery: "applied s p = Some t \<Longrightarrow> applied t p = None"
  by (rule late_dropped) (simp add: applied_version)

lemma applied_log_targets:
  "map target (applied_log applied s ps) =
     map (\<lambda>k. version s + 1 + int k) [0..<length (applied_log applied s ps)]"
proof (induction ps arbitrary: s)
  case (Cons p ps)
  show ?case
  proof (cases "applied s p")
    case None
    then show ?thesis using Cons.IH [of s] by simp
  next
    case (Some t)
    have v: "version t = version s + 1"
      using applied_version [OF Some] applied_next [OF Some] by simp
    have "map target (applied_log applied s (p # ps)) =
        target p # map target (applied_log applied t ps)" using Some by simp
    also have "\<dots> = (version s + 1 + int 0) #
        map (\<lambda>k. version s + 1 + int (Suc k)) [0..<length (applied_log applied t ps)]"
      using Cons.IH [of t] v applied_next [OF Some] by simp
    also have "\<dots> = map (\<lambda>k. version s + 1 + int k) [0..<length (applied_log applied s (p # ps))]"
      using Some by (simp add: upt_conv_Cons map_Suc_upt [symmetric] comp_def del: upt_Suc map_Suc_upt)
    finally show ?thesis .
  qed
qed simp

lemma deliver_all_count:
  "version (deliver_all applied s ps) = version s + int (length (applied_log applied s ps))"
proof (induction ps arbitrary: s)
  case (Cons p ps)
  show ?case
  proof (cases "applied s p")
    case (Some t)
    then show ?thesis
      using Cons.IH [of t] applied_version [OF Some] applied_next [OF Some] by simp
  qed (use Cons.IH [of s] in simp)
qed simp

lemma applied_log_distinct: "distinct (map target (applied_log applied s ps))"
  unfolding applied_log_targets by (simp add: distinct_map inj_on_def)

text \<open>
  Two copies that start equal and see patches of one authoritative stream agree whenever
  they have reached the same version.
\<close>

lemma convergence:
  assumes inj: "inj_on target (set ps \<union> set qs)"
    and same: "version (deliver_all applied s ps) = version (deliver_all applied s qs)"
  shows "deliver_all applied s ps = deliver_all applied s qs"
proof -
  let ?P = "applied_log applied s ps" and ?Q = "applied_log applied s qs"
  have "length ?P = length ?Q" using same by (simp add: deliver_all_count)
  then have "map target ?P = map target ?Q" by (simp add: applied_log_targets)
  moreover have "inj_on target (set ?P \<union> set ?Q)"
    by (rule inj_on_subset [OF inj]) (use applied_log_subset in fast)
  ultimately have "?P = ?Q" by (rule map_inj_on)
  then show ?thesis by (metis deliver_applied_log)
qed

end

section \<open>Invariants of a step function\<close>

text \<open>
  The other shared contract: an operation of a component keeps a predicate on its state.
  \<open>run_steps\<close> folds the operations of a session, and the predicate holds after all of them.
\<close>

fun run_steps :: "('s \<Rightarrow> 'e \<Rightarrow> 's) \<Rightarrow> 's \<Rightarrow> 'e list \<Rightarrow> 's" where
  "run_steps f s [] = s"
| "run_steps f s (e # es) = run_steps f (f s e) es"

lemma run_steps_append: "run_steps f s (es @ fs) = run_steps f (run_steps f s es) fs"
  by (induction es arbitrary: s) auto

locale invariant_machine =
  fixes step :: "'s \<Rightarrow> 'e \<Rightarrow> 's"
    and ok :: "'e \<Rightarrow> bool"
    and invar :: "'s \<Rightarrow> bool"
  assumes step_invar: "invar s \<Longrightarrow> ok e \<Longrightarrow> invar (step s e)"
begin

lemma run_invar: "invar s \<Longrightarrow> list_all ok es \<Longrightarrow> invar (run_steps step s es)"
  by (induction es arbitrary: s) (auto intro: step_invar)

end

end
