(* ===== verification/SnapshotPatch.thy ===== *)
theory SnapshotPatch
  imports SnapshotOps Replica
begin

text \<open>
  The snapshot patch reducer itself: \<open>applyOperation\<close> (the switch over the operations),
  \<open>applyGameSnapshotPatchOperations\<close> (all operations of a patch or none) and
  \<open>applyGameSnapshotPatch\<close> (behind the version gate).
\<close>

section \<open>One operation\<close>

fun applyCardZoneOp :: "game_snapshot \<Rightarrow> card_zone_op \<Rightarrow> operation_result js" where
  "applyCardZoneOp s (CardPositionSet pid zone iid position) =
     updateCard s pid zone iid (\<lambda>c. c\<lparr>card_position := Some position\<rparr>)"
| "applyCardZoneOp s (CardsPositionSet pid zone positions) = applyCardPositions s pid zone positions"
| "applyCardZoneOp s (CardMove mv) = moveCard s mv"
| "applyCardZoneOp s (CardRemove rmv) = removeCard s rmv"
| "applyCardZoneOp s (CardStateSet pid zone iid st) =
     updateCard s pid zone iid (\<lambda>c.
       setIfDefined (cs_dungeonMarker st) (\<lambda>v c. c\<lparr>card_dungeonMarker := Some v\<rparr>)
       (setIfDefined (cs_counters st) (\<lambda>v c. c\<lparr>card_counters := Some v\<rparr>)
       (applyStateFields st c)))"
| "applyCardZoneOp s (CardProjectionSet pid zone iid crd) =
     updateCard s pid zone iid (\<lambda>c. preserveCommanderIdentity (crd\<lparr>card_zone := Some zone\<rparr>) (Some c))"
| "applyCardZoneOp s (CardCountersSet pid zone iid counters) =
     updateCard s pid zone iid (\<lambda>c. c\<lparr>card_counters :=
       Some (case counters of None \<Rightarrow> Map.empty | Some m \<Rightarrow> m)\<rparr>)"
| "applyCardZoneOp s (CardStatsSet pid zone iid st) =
     updateCard s pid zone iid (\<lambda>c.
       setIfDefined (cst_faceRuntimeStats st) (\<lambda>v c. c\<lparr>card_faceRuntimeStats := Some v\<rparr>)
       (setIfDefined (cst_saga st) (\<lambda>v c. c\<lparr>card_saga := Some v\<rparr>)
       (setIfDefined (cst_defense st) (\<lambda>v c. c\<lparr>card_defense := Some v\<rparr>)
       (setIfDefined (cst_loyalty st) (\<lambda>v c. c\<lparr>card_loyalty := Some v\<rparr>)
       (setIfDefined (cst_toughness st) (\<lambda>v c. c\<lparr>card_toughness := Some v\<rparr>)
       (setIfDefined (cst_power st) (\<lambda>v c. c\<lparr>card_power := Some v\<rparr>) c))))))"
| "applyCardZoneOp s (CardsStateSet pid zone states) = applyCardsState s pid zone states"
| "applyCardZoneOp s (CardCreate pid zone crd index) = createCard s pid zone crd index"
| "applyCardZoneOp s (ZoneCountsSet pid counts) =
     Inr (updatePlayer s pid (\<lambda>p. applyZoneCounts p counts))"
| "applyCardZoneOp s (ZoneVisibleSet pid zone cards) = replaceVisibleZone s pid zone cards"

fun applyPlayerOp :: "game_snapshot \<Rightarrow> player_op \<Rightarrow> operation_result" where
  "applyPlayerOp s (GameCountersSet scope counters) =
     OpApplied (s\<lparr>sn_counters :=
       Some ((case sn_counters s of None \<Rightarrow> Map.empty | Some m \<Rightarrow> m)(scope \<mapsto> counters))\<rparr>)"
| "applyPlayerOp s (PlayerLifeSet pid v) = updatePlayer s pid (\<lambda>p. Some (p\<lparr>pl_life := v\<rparr>))"
| "applyPlayerOp s (PlayerCountersSet pid m) = updatePlayer s pid (\<lambda>p. Some (p\<lparr>pl_counters := m\<rparr>))"
| "applyPlayerOp s (PlayerCommanderDamageSet pid m) =
     updatePlayer s pid (\<lambda>p. Some (p\<lparr>pl_commanderDamage := m\<rparr>))"
| "applyPlayerOp s (PlayerSleevesSet pid name) =
     updatePlayer s pid (\<lambda>p. Some (p\<lparr>pl_sleevesName := Some name\<rparr>))"
| "applyPlayerOp s (PlayerBackgroundSet pid name) =
     updatePlayer s pid (\<lambda>p. Some (p\<lparr>pl_backgroundName := Some name\<rparr>))"
| "applyPlayerOp s (PlayerLibraryVisibilitySet pid revealed revealedTo) =
     updatePlayer s pid (\<lambda>p. Some
       (setIfDefined revealedTo (\<lambda>v p. p\<lparr>pl_revealedLibraryTo := Some v\<rparr>)
       (setIfDefined revealed (\<lambda>v p. p\<lparr>pl_playTopLibraryRevealed := Some v\<rparr>) p)))"
| "applyPlayerOp s (PlayerStatusSet pid status concededAt) =
     updatePlayer s pid (\<lambda>p. Some
       (setIfDefined concededAt (\<lambda>v p. p\<lparr>pl_concededAt := Some v\<rparr>) (p\<lparr>pl_status := status\<rparr>)))"
| "applyPlayerOp s (PlayerPresenceSet pid online) =
     updatePlayer s pid (\<lambda>p. Some (p\<lparr>pl_isOnline := Some online\<rparr>))"

fun applyTableOp :: "game_snapshot \<Rightarrow> table_op \<Rightarrow> operation_result" where
  "applyTableOp s (TurnSet turn) = OpApplied (s\<lparr>sn_turn := turn\<rparr>)"
| "applyTableOp s (GamePhaseSet phase) = OpApplied (s\<lparr>sn_gamePhase := Some phase\<rparr>)"
| "applyTableOp s (GameStatusSet status phase) =
     OpApplied (case phase of None \<Rightarrow> s | Some ph \<Rightarrow> s\<lparr>sn_gamePhase := Some ph\<rparr>)"
| "applyTableOp s (TimerSet timer) = OpApplied (s\<lparr>sn_timer := timer\<rparr>)"
| "applyTableOp s (DisconnectVoteSet direct data) =
     OpApplied (s\<lparr>sn_disconnectVotes := Some (cloneDisconnectVotes (disconnectVotesPayload direct data))\<rparr>)"
| "applyTableOp s (RematchSet rematch) = OpApplied (s\<lparr>sn_rematch := rematch\<rparr>)"
| "applyTableOp s (ChatAppend entries) = OpApplied (s\<lparr>sn_chat := sn_chat s @ entries\<rparr>)"
| "applyTableOp s (ChatMessageSet message) = updateChatMessage s message"
| "applyTableOp s (EventLogAppend entries) =
     OpApplied (s\<lparr>sn_eventLog := appendUniqueEventLogEntries (sn_eventLog s) entries\<rparr>)"
| "applyTableOp s (StackItemAdd item) = addStackItem s item"
| "applyTableOp s (StackItemRemove i) = removeStackItem s i"
| "applyTableOp s (StackSet stack) = OpApplied (s\<lparr>sn_stack := stack\<rparr>)"
| "applyTableOp s (ArrowAdd arrow) = addArrow s arrow"
| "applyTableOp s (ArrowRemove i) = removeArrow s i"
| "applyTableOp s (ArrowsSet arrows) = OpApplied (s\<lparr>sn_arrows := arrows\<rparr>)"
| "applyTableOp s (AttachmentAdd attachment) = addAttachment s attachment"
| "applyTableOp s (AttachmentRemove i) = removeAttachment s i"
| "applyTableOp s (AttachmentsSet attachments) = OpApplied (s\<lparr>sn_attachments := Some attachments\<rparr>)"
| "applyTableOp s (BattlefieldStackAdd stack) = addBattlefieldStack s stack"
| "applyTableOp s (BattlefieldStackRemove i) = removeBattlefieldStack s i"
| "applyTableOp s (BattlefieldStacksSet stacks) = OpApplied (s\<lparr>sn_battlefieldStacks := Some stacks\<rparr>)"
| "applyTableOp s (SpecialEntityAdd entity) =
     OpApplied (s\<lparr>sn_specialEntities := Some (specialEntities s @ [entity])\<rparr>)"
| "applyTableOp s (SpecialEntityUpdate i state entity) =
     updateSpecialEntity s i (\<lambda>e. case entity of Some e' \<Rightarrow> e' | None \<Rightarrow> e\<lparr>se_state := state\<rparr>)"
| "applyTableOp s (SpecialEntityRemove i) = removeSpecialEntity s i"
| "applyTableOp s (SpecialEntitiesSet entities) = OpApplied (s\<lparr>sn_specialEntities := Some entities\<rparr>)"

fun applyOperation :: "game_snapshot \<Rightarrow> patch_op \<Rightarrow> operation_result js" where
  "applyOperation s (CardZoneOp op) = applyCardZoneOp s op"
| "applyOperation s (PlayerOp op) = Inr (applyPlayerOp s op)"
| "applyOperation s (TableOp op) = Inr (applyTableOp s op)"
| "applyOperation s (UnknownOp name) = Inr (OpFailed InvalidOperation)"

section \<open>A whole patch\<close>

datatype operations_result = OpsApplied game_snapshot | OpsResync game_snapshot failure_reason

fun applyOperationsFrom ::
  "game_snapshot \<Rightarrow> game_snapshot \<Rightarrow> patch_op list \<Rightarrow> operations_result js" where
  "applyOperationsFrom s nextSnapshot [] = Inr (OpsApplied nextSnapshot)"
| "applyOperationsFrom s nextSnapshot (op # ops) =
     js_bind (applyOperation nextSnapshot op) (\<lambda>result.
       case result of
         OpFailed reason \<Rightarrow> Inr (OpsResync s reason)
       | OpApplied t \<Rightarrow> applyOperationsFrom s t ops)"

definition applyGameSnapshotPatchOperations ::
  "game_snapshot \<Rightarrow> patch_op list \<Rightarrow> operations_result js" where
  "applyGameSnapshotPatchOperations s ops = applyOperationsFrom s s ops"

datatype apply_result =
    Applied game_snapshot
  | Ignored game_snapshot
  | ResyncRequired game_snapshot failure_reason

definition applyGameSnapshotPatch :: "game_snapshot \<Rightarrow> game_patch \<Rightarrow> apply_result js" where
  "applyGameSnapshotPatch s patch =
     (case getGamePatchDecision (sn_version s) (gp_baseVersion patch) (gp_version patch) of
        DecideIgnore \<Rightarrow> Inr (Ignored s)
      | DecideResync \<Rightarrow> Inr (ResyncRequired s VersionGap)
      | DecideApply \<Rightarrow>
          js_bind (applyGameSnapshotPatchOperations s (gp_operations patch)) (\<lambda>result.
            case result of
              OpsResync t reason \<Rightarrow> Inr (ResyncRequired t reason)
            | OpsApplied t \<Rightarrow> Inr (Applied (t\<lparr>sn_version := gp_version patch\<rparr>))))"

end
