(* ===== verification/CommandQueue.thy ===== *)
theory CommandQueue
  imports V2Store SnapshotPatch JsString
begin

text \<open>
  The state and the queue of \<open>GameTableWebsocketGameplayService\<close>
  (\<^verbatim>\<open>game-table/services/game-table-websocket-gameplay.service.ts\<close>): commands wait in a queue,
  one at a time is in flight, and whoever sent one waits for its promise. The handlers of the
  server's messages are in \<^verbatim>\<open>GameplaySocket\<close>.

  Closures and promises are data here. The callers whose promises a command settles are the list
  \<open>pc_listeners\<close>, and what was settled is a log. A handler that awaits a resync leaves a
  \<open>continuation\<close>. A timer is an entry of \<open>gp_timers\<close>, and it can fire as long as it is there.
\<close>

section \<open>Signatures\<close>

text \<open>\<open>JSON.stringify\<close> of a string; of a number it is the argument \<open>number\<close>.\<close>

definition hex_char :: "nat \<Rightarrow> char" where
  "hex_char n = (if n < 10 then char_of (48 + n) else char_of (87 + n))"

definition json_char :: "char \<Rightarrow> string" where
  "json_char c = (let n = (of_char c :: nat) in
     if n = 34 \<or> n = 92 then [char_of (92 :: nat), c]
     else if n = 8 then [char_of (92 :: nat), CHR ''b'']
     else if n = 9 then [char_of (92 :: nat), CHR ''t'']
     else if n = 10 then [char_of (92 :: nat), CHR ''n'']
     else if n = 12 then [char_of (92 :: nat), CHR ''f'']
     else if n = 13 then [char_of (92 :: nat), CHR ''r'']
     else if n < 32 then char_of (92 :: nat) # ''u00'' @ [hex_char (n div 16), hex_char (n mod 16)]
     else [c])"

definition json_string :: "string \<Rightarrow> string" where
  "json_string s = char_of (34 :: nat) # concat (map json_char s) @ [char_of (34 :: nat)]"

fun stableStringify :: "(jsnum \<Rightarrow> string) \<Rightarrow> json \<Rightarrow> string" where
  "stableStringify number (JArr xs) = ''['' @ join_strings '','' (map (stableStringify number) xs) @ '']''"
| "stableStringify number (JObj kvs) = ''{'' @ join_strings '',''
     (map (\<lambda>(k, v). json_string k @ '':'' @ v)
       (sort_key fst (map (\<lambda>(k, v). (k, stableStringify number v)) kvs))) @ ''}''"
| "stableStringify number JNull = ''null''"
| "stableStringify number (JBool b) = (if b then ''true'' else ''false'')"
| "stableStringify number (JNum n) = number n"
| "stableStringify number (JStr s) = json_string s"

type_synonym payload = "(string \<times> json) list"

definition commandSignature :: "(jsnum \<Rightarrow> string) \<Rightarrow> string \<Rightarrow> payload \<Rightarrow> string" where
  "commandSignature number type payload = type @ '':'' @ stableStringify number (JObj payload)"

section \<open>Kinds of commands\<close>

definition WEBSOCKET_COMMANDS :: "string list" where
  "WEBSOCKET_COMMANDS = [''life.changed'', ''commander.damage.changed'', ''counter.changed'',
     ''chat.message'', ''chat.reaction.toggled'', ''dice.rolled'', ''turn.changed'',
     ''card.position.changed'', ''card.dungeon_marker.changed'', ''cards.position.changed'',
     ''card.tapped'', ''card.moved'', ''cards.moved'', ''zone.changed'', ''zone.move_all'',
     ''zone.random_card.selected'', ''library.draw'', ''library.draw_many'', ''library.shuffle'',
     ''library.move_top'', ''library.play_top_face_down'', ''library.reveal_top'', ''library.reveal'',
     ''library.view'', ''library.play_top_revealed'', ''library.reorder_top'', ''card.face_down.changed'',
     ''card.face_down.inspected'', ''card.face.changed'', ''card.revealed'', ''card.counter.changed'',
     ''card.power_toughness.changed'', ''card.controller.changed'', ''battlefield.untap_all'',
     ''card.token.created'', ''card.token_copy.created'', ''stack.card_added'', ''stack.item_removed'',
     ''arrow.created'', ''arrow.removed'', ''attachment.created'', ''attachment.removed'',
     ''battlefield_stack.created'', ''battlefield_stack.removed'', ''helper.created'',
     ''helper.updated'', ''helper.removed'', ''game.concede'', ''disconnect.vote'']"

definition COALESCED_COMMANDS :: "string list" where
  "COALESCED_COMMANDS = [''life.changed'', ''commander.damage.changed'', ''counter.changed'',
     ''card.position.changed'', ''cards.position.changed'']"

definition POSITION_COMMANDS :: "string list" where
  "POSITION_COMMANDS = [''card.position.changed'', ''cards.position.changed'']"

definition IN_FLIGHT_DEDUPED_COMMANDS :: "string list" where
  "IN_FLIGHT_DEDUPED_COMMANDS = [''life.changed'', ''commander.damage.changed'', ''counter.changed'',
     ''card.position.changed'', ''cards.position.changed'', ''card.counter.changed'']"

definition RETRYABLE_COMMANDS :: "string list" where
  "RETRYABLE_COMMANDS = [''life.changed'', ''commander.damage.changed'', ''counter.changed'',
     ''card.position.changed'', ''card.dungeon_marker.changed'', ''cards.position.changed'',
     ''card.tapped'', ''card.moved'', ''cards.moved'', ''zone.changed'', ''zone.move_all'',
     ''zone.random_card.selected'', ''library.draw'', ''library.draw_many'', ''library.shuffle'',
     ''library.move_top'', ''library.play_top_face_down'', ''library.reveal_top'', ''library.reveal'',
     ''library.view'', ''library.play_top_revealed'', ''library.reorder_top'', ''card.face_down.changed'',
     ''card.face_down.inspected'', ''card.face.changed'', ''card.revealed'', ''card.counter.changed'',
     ''card.power_toughness.changed'', ''card.controller.changed'', ''battlefield.untap_all'',
     ''card.token.created'', ''card.token_copy.created'', ''stack.card_added'', ''stack.item_removed'',
     ''arrow.created'', ''arrow.removed'', ''attachment.created'', ''attachment.removed'',
     ''helper.created'', ''helper.updated'', ''helper.removed'', ''disconnect.vote'']"

definition MAX_RETRY_COUNT :: nat where "MAX_RETRY_COUNT = 1"
definition MAX_QUEUE_DEPTH :: nat where "MAX_QUEUE_DEPTH = 200"
definition MAX_DEAD_LETTER :: nat where "MAX_DEAD_LETTER = 100"
definition MAX_COMPLETED_COMMAND_IDS :: nat where "MAX_COMPLETED_COMMAND_IDS = 200"
definition REJECTION_WINDOW_MS :: int where "REJECTION_WINDOW_MS = 2000"
definition REJECTION_THRESHOLD :: nat where "REJECTION_THRESHOLD = 3"
definition CIRCUIT_COOLDOWN_MS :: int where "CIRCUIT_COOLDOWN_MS = 2000"
definition ERROR_THROTTLE_MS :: int where "ERROR_THROTTLE_MS = 2000"
definition DEAD_LETTER_DEDUP_WINDOW_MS :: int where "DEAD_LETTER_DEDUP_WINDOW_MS = 1000"
definition MULLIGAN_QUEUE_LIMIT :: nat where "MULLIGAN_QUEUE_LIMIT = 8"
definition REFETCH_GUARD_WINDOW_MS :: int where "REFETCH_GUARD_WINDOW_MS = 3000"

definition isMigratedCommand :: "string \<Rightarrow> bool" where
  "isMigratedCommand type \<longleftrightarrow> type \<in> set WEBSOCKET_COMMANDS"

definition isPositionCommand :: "string \<Rightarrow> bool" where
  "isPositionCommand type \<longleftrightarrow> type \<in> set POSITION_COMMANDS"

text \<open>\<open>typeof payload[key] === 'string'\<close>, with the string.\<close>

definition text_field :: "payload \<Rightarrow> string \<Rightarrow> string option" where
  "text_field payload key' = (case map_of payload key' of Some (JStr s) \<Rightarrow> Some s | _ \<Rightarrow> None)"

definition joined_key :: "string \<Rightarrow> string option list \<Rightarrow> string option" where
  "joined_key type texts =
     (if None \<in> set texts then None else Some (join_strings '':'' (type # map the texts)))"

definition coalesceKey :: "string \<Rightarrow> payload \<Rightarrow> string option" where
  "coalesceKey type payload =
     (if type \<notin> set COALESCED_COMMANDS then None
      else if type = ''life.changed'' then joined_key type [text_field payload ''playerId'']
      else if type = ''commander.damage.changed''
      then joined_key type [text_field payload ''targetPlayerId'', text_field payload ''commanderInstanceId'']
      else if type = ''counter.changed''
      then joined_key type [text_field payload ''scope'', text_field payload ''key'']
      else if type = ''card.position.changed''
      then joined_key type [text_field payload ''playerId'', text_field payload ''zone'',
             text_field payload ''instanceId'']
      else if type = ''cards.position.changed''
      then joined_key type [text_field payload ''playerId'', text_field payload ''zone'']
      else None)"

definition cardInstanceId :: "json \<Rightarrow> string option" where
  "cardInstanceId c = (case c of
     JObj members \<Rightarrow> (case text_field members ''instanceId'' of
       Some iid \<Rightarrow> if js_trim iid \<noteq> [] then Some iid else None | None \<Rightarrow> None)
   | _ \<Rightarrow> None)"

definition websocketPayload :: "string \<Rightarrow> payload \<Rightarrow> payload option" where
  "websocketPayload type payload =
     (if type \<noteq> ''zone.changed'' then Some payload
      else (case (text_field payload ''playerId'', text_field payload ''zone'', map_of payload ''cards'') of
        (Some playerId, Some zone, Some (JArr cards)) \<Rightarrow>
          if js_trim playerId = [] \<or> js_trim zone = [] \<or> None \<in> set (map cardInstanceId cards) then None
          else Some [(''playerId'', JStr playerId), (''zone'', JStr zone),
                     (''instanceIds'', JArr (map (JStr \<circ> the \<circ> cardInstanceId) cards))]
      | _ \<Rightarrow> None))"

section \<open>State\<close>

datatype command_outcome = Resolved | RejectedWith string

datatype dead_letter_reason = Timeout | Rejected | ResyncRetryExhausted | QueueDropped | QueueFull
  | CircuitBlocked | Disconnect

record dead_letter_event =
  dl_gameId :: string
  dl_commandType :: string
  dl_reason :: dead_letter_reason
  dl_retryCount :: nat
  dl_createdAt :: int
  dl_details :: "string option"

text \<open>\<open>pc_id\<close> is the identity of the object, \<open>pc_listeners\<close> what \<open>resolve\<close> and \<open>reject\<close> settle.\<close>

record pending_command =
  pc_id :: nat
  pc_messageId :: string
  pc_clientActionId :: string
  pc_type :: string
  pc_payload :: payload
  pc_signature :: string
  pc_context :: nat
  pc_retryCount :: nat
  pc_retryable :: bool
  pc_coalesceKey :: "string option"
  pc_listeners :: "nat list"
  pc_timeoutId :: nat

record queue_counters =
  qc_enqueueTotal :: nat
  qc_drainTotal :: nat
  qc_dropTotal :: nat
  qc_retryTotal :: nat
  qc_resyncTotal :: nat
  qc_lateAckIgnoredTotal :: nat
  qc_rejectedTotal :: nat
  qc_circuitBlockedTotal :: nat
  qc_queueFullTotal :: nat
  qc_coalescedPositionEvents :: nat
  qc_droppedEphemeralEvents :: nat
  qc_positionCommandsPerDrag :: nat

datatype client_message =
    CommandMessage string string string payload string int
  | CommandV2Message string string string payload string int
  | MulliganTake string string
  | MulliganKeep string string "string list option"
  | MulliganScryConfirm string string string

fun message_gameId :: "client_message \<Rightarrow> string" where
  "message_gameId (CommandMessage gameId _ _ _ _ _) = gameId"
| "message_gameId (CommandV2Message gameId _ _ _ _ _) = gameId"
| "message_gameId (MulliganTake gameId _) = gameId"
| "message_gameId (MulliganKeep gameId _ _) = gameId"
| "message_gameId (MulliganScryConfirm gameId _ _) = gameId"

datatype socket_status = SocketStopped | SocketConnecting | SocketConnected | SocketDisconnected | SocketError

text \<open>The context a caller passes: what the service reads of it, and the error it sets.\<close>

record gameplay_context =
  gx_gameId :: string
  gx_snapshot :: "game_snapshot option"
  gx_error :: "string option"
  gx_currentPlayerDefeated :: bool

text \<open>What an awaiting handler still does, and the tasks that run later.\<close>

datatype continuation =
    FinishPatch "string option"
  | DrainOnly
  | RetryCommand pending_command
  | NothingMore

datatype task = StartRefetch nat nat | Refetching nat nat

text \<open>
  The fields of the service, then what it shares with others: the flag of the second protocol, the
  transport's status and whether its socket is open, the contexts, the normalized store, the
  messages sent, the promises settled, the timers and tasks, and the counters new ids come from.
\<close>

record gameplay =
  gp_commandQueue :: "pending_command list"
  gp_mulliganQueue :: "client_message list"
  gp_inFlight :: "pending_command option"
  gp_context :: "nat option"
  gp_resync :: "nat option"
  gp_queuedResync :: "nat option"
  gp_counters :: queue_counters
  gp_refetchGuard :: "string \<rightharpoonup> int"
  gp_deadLetter :: "dead_letter_event list"
  gp_deadLetterDedupe :: "string \<rightharpoonup> int"
  gp_completedIds :: "string list"
  gp_completedIdSet :: "string set"
  gp_rejectedBySignature :: "string \<rightharpoonup> int list"
  gp_blockedSignatures :: "string \<rightharpoonup> int"
  gp_throttledErrors :: "string \<rightharpoonup> int"
  gp_suppressed :: "string set"
  gp_connectionStateMessages :: nat
  gp_connected :: bool
  gp_v2Enabled :: bool
  gp_status :: socket_status
  gp_socketOpen :: bool
  gp_contexts :: "nat \<Rightarrow> gameplay_context"
  gp_store :: v2_store
  gp_sent :: "client_message list"
  gp_settled :: "(nat \<times> command_outcome) list"
  gp_timers :: "nat \<rightharpoonup> string \<times> string"
  gp_tasks :: "task list"
  gp_refetchWaiters :: "(nat \<times> continuation) list"
  gp_queuedWaiters :: "(nat \<times> continuation) list"
  gp_fresh :: nat
  gp_callers :: nat

text \<open>What the host provides: random ids, the text of a number, object identity, collation.\<close>

record runtime =
  rt_randomId :: "nat \<Rightarrow> string"
  rt_number :: "jsnum \<Rightarrow> string"
  rt_same :: identity_test
  rt_collation :: "string comparator"

definition count_up :: "(queue_counters \<Rightarrow> queue_counters) \<Rightarrow> gameplay \<Rightarrow> gameplay" where
  "count_up f s = s\<lparr>gp_counters := f (gp_counters s)\<rparr>"

text \<open>Resolving or rejecting a promise that is already settled does nothing.\<close>

definition settle :: "nat list \<Rightarrow> command_outcome \<Rightarrow> gameplay \<Rightarrow> gameplay" where
  "settle listeners outcome s = s\<lparr>gp_settled :=
     fold (\<lambda>l settled. if l \<in> fst ` set settled then settled else settled @ [(l, outcome)])
       listeners (gp_settled s)\<rparr>"

definition clearTimeout :: "nat \<Rightarrow> gameplay \<Rightarrow> gameplay" where
  "clearTimeout timer s = s\<lparr>gp_timers := (gp_timers s)(timer := None)\<rparr>"

definition isResyncing :: "gameplay \<Rightarrow> bool" where
  "isResyncing s \<longleftrightarrow> gp_resync s \<noteq> None \<or> gp_queuedResync s \<noteq> None"

definition totalQueueDepth :: "gameplay \<Rightarrow> nat" where
  "totalQueueDepth s = length (gp_commandQueue s) + (if gp_inFlight s = None then 0 else 1)"

section \<open>Telemetry that other operations read\<close>

text \<open>The entries of a map with timestamps that still count.\<close>

definition prune_map :: "('v \<Rightarrow> bool) \<Rightarrow> (string \<rightharpoonup> 'v) \<Rightarrow> string \<rightharpoonup> 'v" where
  "prune_map keep m = (\<lambda>k. case m k of Some v \<Rightarrow> if keep v then Some v else None | None \<Rightarrow> None)"

definition recent_rejections :: "int \<Rightarrow> int list \<Rightarrow> int list" where
  "recent_rejections now = filter (\<lambda>timestamp. now - timestamp \<le> REJECTION_WINDOW_MS)"

definition pruneRejectionTelemetry :: "int \<Rightarrow> gameplay \<Rightarrow> gameplay" where
  "pruneRejectionTelemetry now s = s\<lparr>
     gp_rejectedBySignature := map_option (recent_rejections now) \<circ>
       prune_map (\<lambda>timestamps. recent_rejections now timestamps \<noteq> []) (gp_rejectedBySignature s),
     gp_blockedSignatures := prune_map (\<lambda>blockedUntil. blockedUntil > now) (gp_blockedSignatures s),
     gp_throttledErrors := prune_map (\<lambda>emitted. now - emitted \<le> ERROR_THROTTLE_MS) (gp_throttledErrors s)\<rparr>"

text \<open>Publishing prunes the telemetry; the message to the debug channel is not part of the model.\<close>

definition publishQueueMetrics :: "int \<Rightarrow> gameplay \<Rightarrow> gameplay" where
  "publishQueueMetrics now s = pruneRejectionTelemetry now s"

definition setErrorThrottled :: "int \<Rightarrow> string \<Rightarrow> string \<Rightarrow> gameplay \<Rightarrow> gameplay" where
  "setErrorThrottled now throttleKey message s =
     (case gp_context s of
        None \<Rightarrow> s
      | Some ctx \<Rightarrow>
          if js_trim message = [] \<or> now - or_default (gp_throttledErrors s throttleKey) 0 < ERROR_THROTTLE_MS
          then s
          else s\<lparr>gp_throttledErrors := (gp_throttledErrors s)(throttleKey \<mapsto> now),
                 gp_contexts := (gp_contexts s)(ctx := (gp_contexts s ctx)\<lparr>gx_error := Some message\<rparr>)\<rparr>)"

fun dead_letter_text :: "dead_letter_reason \<Rightarrow> string" where
  "dead_letter_text Timeout = ''timeout''"
| "dead_letter_text Rejected = ''rejected''"
| "dead_letter_text ResyncRetryExhausted = ''resync_retry_exhausted''"
| "dead_letter_text QueueDropped = ''queue_dropped''"
| "dead_letter_text QueueFull = ''queue_full''"
| "dead_letter_text CircuitBlocked = ''circuit_blocked''"
| "dead_letter_text Disconnect = ''disconnect''"

definition deadLetterSignature :: "dead_letter_event \<Rightarrow> string" where
  "deadLetterSignature ev = join_strings ''|'' [dl_gameId ev, dl_commandType ev,
     dead_letter_text (dl_reason ev), nat_string (dl_retryCount ev), or_default (dl_details ev) []]"

definition recordDeadLetterEvent :: "int \<Rightarrow> dead_letter_event \<Rightarrow> gameplay \<Rightarrow> gameplay" where
  "recordDeadLetterEvent now ev s =
     (let dedupe = prune_map (\<lambda>timestamp. now - timestamp \<le> DEAD_LETTER_DEDUP_WINDOW_MS) (gp_deadLetterDedupe s);
          signature = deadLetterSignature ev
      in case dedupe signature of
        Some previous \<Rightarrow>
          if now - previous < DEAD_LETTER_DEDUP_WINDOW_MS then s\<lparr>gp_deadLetterDedupe := dedupe\<rparr>
          else s\<lparr>gp_deadLetterDedupe := dedupe(signature \<mapsto> now),
                 gp_deadLetter := slice_last MAX_DEAD_LETTER (gp_deadLetter s @ [ev])\<rparr>
      | None \<Rightarrow> s\<lparr>gp_deadLetterDedupe := dedupe(signature \<mapsto> now),
                 gp_deadLetter := slice_last MAX_DEAD_LETTER (gp_deadLetter s @ [ev])\<rparr>)"

definition non_blank :: "string \<Rightarrow> string option" where
  "non_blank details = (if js_trim details \<noteq> [] then Some details else None)"

definition recordDeadLetter ::
  "int \<Rightarrow> pending_command \<Rightarrow> dead_letter_reason \<Rightarrow> string \<Rightarrow> gameplay \<Rightarrow> gameplay" where
  "recordDeadLetter now command reason details s = recordDeadLetterEvent now
     \<lparr>dl_gameId = gx_gameId (gp_contexts s (pc_context command)), dl_commandType = pc_type command,
      dl_reason = reason, dl_retryCount = pc_retryCount command, dl_createdAt = now,
      dl_details = non_blank details\<rparr> s"

definition recordAdhocDeadLetter ::
  "int \<Rightarrow> string \<Rightarrow> string \<Rightarrow> dead_letter_reason \<Rightarrow> string \<Rightarrow> gameplay \<Rightarrow> gameplay" where
  "recordAdhocDeadLetter now gameId type reason details s = recordDeadLetterEvent now
     \<lparr>dl_gameId = gameId, dl_commandType = type, dl_reason = reason, dl_retryCount = 0,
      dl_createdAt = now, dl_details = non_blank details\<rparr> s"

definition recordLateAckIgnored :: "int \<Rightarrow> gameplay \<Rightarrow> gameplay" where
  "recordLateAckIgnored now s = publishQueueMetrics now
     (count_up (\<lambda>c. c\<lparr>qc_lateAckIgnoredTotal := qc_lateAckIgnoredTotal c + 1\<rparr>) s)"

definition trackRejectedSignature :: "int \<Rightarrow> string \<Rightarrow> gameplay \<Rightarrow> gameplay" where
  "trackRejectedSignature now signature s =
     (let recent = recent_rejections now (or_default (gp_rejectedBySignature s signature) []) @ [now]
      in s\<lparr>gp_rejectedBySignature := (gp_rejectedBySignature s)(signature \<mapsto> recent),
           gp_blockedSignatures := (if length recent \<ge> REJECTION_THRESHOLD
             then (gp_blockedSignatures s)(signature \<mapsto> now + CIRCUIT_COOLDOWN_MS)
             else gp_blockedSignatures s)\<rparr>)"

text \<open>A timestamp of 0 counts as none, like \<open>undefined\<close>.\<close>

definition isCircuitBlocked :: "int \<Rightarrow> string \<Rightarrow> gameplay \<Rightarrow> bool \<times> gameplay" where
  "isCircuitBlocked now signature s =
     (case gp_blockedSignatures s signature of
        None \<Rightarrow> (False, s)
      | Some blockedUntil \<Rightarrow>
          if blockedUntil = 0 then (False, s)
          else if blockedUntil \<le> now
          then (False, s\<lparr>gp_blockedSignatures := (gp_blockedSignatures s)(signature := None)\<rparr>)
          else (True, s))"

section \<open>The queue\<close>

definition findOldestDroppableQueueIndex :: "pending_command list \<Rightarrow> nat option" where
  "findOldestDroppableQueueIndex queue =
     (case find_index (\<lambda>c. isPositionCommand (pc_type c)) queue of
        Some i \<Rightarrow> Some i
      | None \<Rightarrow> find_index (\<lambda>c. pc_coalesceKey c \<noteq> None) queue)"

lemma findOldestDroppable_less: "findOldestDroppableQueueIndex queue = Some i \<Longrightarrow> i < length queue"
  by (auto simp: findOldestDroppableQueueIndex_def split: option.splits dest: find_index_less)

definition QUEUE_FULL_MESSAGE :: string where
  "QUEUE_FULL_MESSAGE = ''WebSocket command dropped because the local queue is full.''"

definition dropQueuedAt :: "int \<Rightarrow> nat \<Rightarrow> gameplay \<Rightarrow> gameplay" where
  "dropQueuedAt now i s =
     (let dropped = gp_commandQueue s ! i
      in settle (pc_listeners dropped) (RejectedWith QUEUE_FULL_MESSAGE)
        (recordDeadLetter now dropped QueueDropped
          ''Dropped coalescible command due to queue depth cap.''
          (count_up (\<lambda>c. c\<lparr>qc_dropTotal := qc_dropTotal c + 1\<rparr>)
            (s\<lparr>gp_commandQueue := remove_nth i (gp_commandQueue s)\<rparr>))))"

lemma recordDeadLetterEvent_queue [simp]:
  "gp_commandQueue (recordDeadLetterEvent now ev s) = gp_commandQueue s"
  "gp_inFlight (recordDeadLetterEvent now ev s) = gp_inFlight s"
  by (simp_all add: recordDeadLetterEvent_def Let_def split: option.split)

lemma dropQueuedAt_queue: "gp_commandQueue (dropQueuedAt now i s) = remove_nth i (gp_commandQueue s)"
  by (simp add: dropQueuedAt_def Let_def settle_def recordDeadLetter_def count_up_def)

text \<open>\<open>while (this.totalQueueDepth() > MAX_QUEUE_DEPTH)\<close>.\<close>

function dropDownToCap :: "int \<Rightarrow> gameplay \<Rightarrow> gameplay" where
  "dropDownToCap now s =
     (if totalQueueDepth s > MAX_QUEUE_DEPTH
      then (case findOldestDroppableQueueIndex (gp_commandQueue s) of
          None \<Rightarrow> s
        | Some i \<Rightarrow> dropDownToCap now (dropQueuedAt now i s))
      else s)"
  by pat_completeness auto
termination
  by (relation "measure (\<lambda>(now, s). length (gp_commandQueue s))")
    (auto simp: dropQueuedAt_queue dest: findOldestDroppable_less)

declare dropDownToCap.simps [simp del]

definition enforceQueueDepthCap :: "int \<Rightarrow> pending_command \<Rightarrow> gameplay \<Rightarrow> gameplay" where
  "enforceQueueDepthCap now incoming s =
     (let t = dropDownToCap now s;
          u = (if totalQueueDepth t \<ge> MAX_QUEUE_DEPTH
               then (case find_index (\<lambda>c. pc_id c = pc_id incoming) (gp_commandQueue t) of
                   Some i \<Rightarrow> t\<lparr>gp_commandQueue := remove_nth i (gp_commandQueue t)\<rparr>
                 | None \<Rightarrow> t)
               else t)
      in publishQueueMetrics now u)"

text \<open>\<open>for (index = length - 1; \<dots>; index -= 1)\<close>: the last element with the property.\<close>

definition find_last_index :: "('a \<Rightarrow> bool) \<Rightarrow> 'a list \<Rightarrow> nat option" where
  "find_last_index P xs = map_option (\<lambda>i. length xs - 1 - i) (find_index P (rev xs))"

definition coalesceInto :: "runtime \<Rightarrow> pending_command \<Rightarrow> pending_command \<Rightarrow> pending_command" where
  "coalesceInto rt command queued = queued\<lparr>
     pc_payload := pc_payload command,
     pc_signature := commandSignature (rt_number rt) (pc_type queued) (pc_payload command),
     pc_context := pc_context command,
     pc_listeners := pc_listeners queued @ pc_listeners command\<rparr>"

definition pushCommand :: "int \<Rightarrow> pending_command \<Rightarrow> gameplay \<Rightarrow> bool \<times> gameplay" where
  "pushCommand now command s =
     (let t = publishQueueMetrics now (enforceQueueDepthCap now command
            (count_up (\<lambda>c. c\<lparr>qc_enqueueTotal := qc_enqueueTotal c + 1\<rparr>)
              (s\<lparr>gp_commandQueue := gp_commandQueue s @ [command]\<rparr>)))
      in (\<exists>c \<in> set (gp_commandQueue t). pc_id c = pc_id command, t))"

definition enqueueCommand :: "runtime \<Rightarrow> int \<Rightarrow> pending_command \<Rightarrow> gameplay \<Rightarrow> bool \<times> gameplay" where
  "enqueueCommand rt now command s =
     (case (if pc_coalesceKey command = None then None
            else find_last_index (\<lambda>c. pc_coalesceKey c = pc_coalesceKey command) (gp_commandQueue s)) of
        Some i \<Rightarrow> (True,
          (if isPositionCommand (pc_type command)
           then count_up (\<lambda>c. c\<lparr>qc_coalescedPositionEvents := qc_coalescedPositionEvents c + 1\<rparr>) else id)
          (s\<lparr>gp_commandQueue := (gp_commandQueue s)
            [i := coalesceInto rt command (gp_commandQueue s ! i)]\<rparr>))
      | None \<Rightarrow> pushCommand now command s)"

text \<open>Gameplay goes before positions.\<close>

definition shiftNextCommand :: "pending_command list \<Rightarrow> (pending_command \<times> pending_command list) option" where
  "shiftNextCommand queue =
     (case find_index (\<lambda>c. \<not> isPositionCommand (pc_type c)) queue of
        Some i \<Rightarrow> Some (queue ! i, remove_nth i queue)
      | None \<Rightarrow> (case queue of [] \<Rightarrow> None | c # rest \<Rightarrow> Some (c, rest)))"

section \<open>The command in flight\<close>

text \<open>\<open>undefined\<close> and the empty string are no id.\<close>

definition given :: "string option \<Rightarrow> bool" where
  "given i \<longleftrightarrow> or_default i [] \<noteq> []"

definition matchesInFlight :: "pending_command \<Rightarrow> string option \<Rightarrow> string option \<Rightarrow> bool" where
  "matchesInFlight inFlight clientActionId messageId =
     (if given messageId then Some (pc_messageId inFlight) = messageId
      else if given clientActionId then Some (pc_clientActionId inFlight) = clientActionId
      else True)"

definition rememberCompletedCommandId :: "string \<Rightarrow> gameplay \<Rightarrow> gameplay" where
  "rememberCompletedCommandId value s =
     (if js_trim value = [] \<or> value \<in> gp_completedIdSet s then s
      else let ids = gp_completedIds s @ [value];
               excess = length ids - MAX_COMPLETED_COMMAND_IDS
        in s\<lparr>gp_completedIds := drop excess ids,
             gp_completedIdSet := insert value (gp_completedIdSet s) - set (take excess ids)\<rparr>)"

definition rememberCompletedCommand :: "string \<Rightarrow> string \<Rightarrow> gameplay \<Rightarrow> gameplay" where
  "rememberCompletedCommand clientActionId messageId s =
     rememberCompletedCommandId messageId (rememberCompletedCommandId clientActionId s)"

definition completedCommandId :: "gameplay \<Rightarrow> string option \<Rightarrow> bool" where
  "completedCommandId s value = (case value of
     None \<Rightarrow> False | Some v \<Rightarrow> js_trim v \<noteq> [] \<and> v \<in> gp_completedIdSet s)"

definition isCompletedCommandMessage :: "gameplay \<Rightarrow> string option \<Rightarrow> string option \<Rightarrow> bool" where
  "isCompletedCommandMessage s clientActionId messageId \<longleftrightarrow>
     completedCommandId s clientActionId \<or> completedCommandId s messageId"

definition resolveInFlightCommand ::
  "int \<Rightarrow> string option \<Rightarrow> string option \<Rightarrow> gameplay \<Rightarrow> bool \<times> gameplay" where
  "resolveInFlightCommand now clientActionId messageId s =
     (case gp_inFlight s of
        None \<Rightarrow> (False, s)
      | Some c \<Rightarrow>
          if \<not> matchesInFlight c clientActionId messageId then (False, s)
          else (True, publishQueueMetrics now (settle (pc_listeners c) Resolved
            (rememberCompletedCommand (pc_clientActionId c) (pc_messageId c)
              ((clearTimeout (pc_timeoutId c) s)\<lparr>gp_inFlight := None\<rparr>)))))"

definition rejectInFlightCommand ::
  "int \<Rightarrow> string \<Rightarrow> string option \<Rightarrow> string option \<Rightarrow> dead_letter_reason \<Rightarrow> gameplay \<Rightarrow> bool \<times> gameplay" where
  "rejectInFlightCommand now message clientActionId messageId reason s =
     (case gp_inFlight s of
        None \<Rightarrow> (False, s)
      | Some c \<Rightarrow>
          if \<not> matchesInFlight c clientActionId messageId then (False, s)
          else (True, publishQueueMetrics now (settle (pc_listeners c) (RejectedWith message)
            (recordDeadLetter now c reason message
              ((clearTimeout (pc_timeoutId c) s)\<lparr>gp_inFlight := None\<rparr>)))))"

lemma settle_queue [simp]:
  "gp_commandQueue (settle ls r s) = gp_commandQueue s" "gp_inFlight (settle ls r s) = gp_inFlight s"
  by (simp_all add: settle_def)

lemma rejectInFlight_queue [simp]:
  "gp_commandQueue (snd (rejectInFlightCommand now message ca mi reason s)) = gp_commandQueue s"
  by (simp add: rejectInFlightCommand_def publishQueueMetrics_def pruneRejectionTelemetry_def
      recordDeadLetter_def clearTimeout_def split: option.split)

section \<open>Sending\<close>

text \<open>The transport sends when its socket is open.\<close>

definition transportSend :: "client_message \<Rightarrow> gameplay \<Rightarrow> bool \<times> gameplay" where
  "transportSend message s =
     (if gp_socketOpen s then (True, s\<lparr>gp_sent := gp_sent s @ [message]\<rparr>) else (False, s))"

definition commandMessage :: "gameplay \<Rightarrow> pending_command \<Rightarrow> string \<Rightarrow> string \<Rightarrow> int \<Rightarrow> client_message" where
  "commandMessage s c messageId clientActionId baseVersion =
     (if gp_v2Enabled s
      then CommandV2Message (gx_gameId (gp_contexts s (pc_context c))) messageId (pc_type c) (pc_payload c)
        clientActionId baseVersion
      else CommandMessage (gx_gameId (gp_contexts s (pc_context c))) messageId (pc_type c) (pc_payload c)
        clientActionId baseVersion)"

text \<open>The command gets its ids and its timer and is in flight; three fresh numbers are used.\<close>

definition launchCommand :: "runtime \<Rightarrow> int \<Rightarrow> pending_command \<Rightarrow> gameplay \<Rightarrow> gameplay" where
  "launchCommand rt now c s =
     (let n = gp_fresh s; clientActionId = rt_randomId rt n; messageId = rt_randomId rt (Suc n);
          timer = Suc (Suc n)
      in publishQueueMetrics now (count_up (\<lambda>q. q\<lparr>qc_drainTotal := qc_drainTotal q + 1\<rparr>)
        (s\<lparr>gp_fresh := n + 3, gp_timers := (gp_timers s)(timer \<mapsto> (clientActionId, messageId)),
           gp_inFlight := Some (c\<lparr>pc_messageId := messageId, pc_clientActionId := clientActionId,
             pc_timeoutId := timer\<rparr>)\<rparr>)))"

lemma publishQueueMetrics_queue [simp]:
  "gp_commandQueue (publishQueueMetrics now s) = gp_commandQueue s"
  "gp_inFlight (publishQueueMetrics now s) = gp_inFlight s"
  by (simp_all add: publishQueueMetrics_def pruneRejectionTelemetry_def)

lemma launchCommand_queue [simp]: "gp_commandQueue (launchCommand rt now c s) = gp_commandQueue s"
  by (simp add: launchCommand_def Let_def count_up_def)

lemma shiftNextCommand_length: "shiftNextCommand queue = Some (c, rest) \<Longrightarrow> length rest < length queue"
  by (auto simp: shiftNextCommand_def split: option.splits list.splits dest: find_index_less)

definition SNAPSHOT_UNAVAILABLE :: string where
  "SNAPSHOT_UNAVAILABLE =
     ''WebSocket command could not be prepared because the local snapshot is unavailable.''"

text \<open>One round of \<open>drainQueue\<close>: nothing to do, or the new state and whether the method calls itself.\<close>

definition drainStep :: "runtime \<Rightarrow> int \<Rightarrow> gameplay \<Rightarrow> (bool \<times> gameplay) option" where
  "drainStep rt now s =
     (if gp_inFlight s \<noteq> None \<or> gp_commandQueue s = [] \<or> isResyncing s \<or> gp_status s \<noteq> SocketConnected
      then None
      else case shiftNextCommand (gp_commandQueue s) of
        None \<Rightarrow> None
      | Some (c, rest) \<Rightarrow>
          let t = s\<lparr>gp_commandQueue := rest\<rparr>; ctx = gp_contexts s (pc_context c)
          in case (if gx_gameId ctx = [] then None else gx_snapshot ctx) of
            None \<Rightarrow> Some (True, publishQueueMetrics now
              (recordDeadLetter now c Rejected ''Local snapshot unavailable while draining queue.''
                (settle (pc_listeners c) (RejectedWith SNAPSHOT_UNAVAILABLE) t)))
          | Some snapshot \<Rightarrow>
              let n = gp_fresh s; clientActionId = rt_randomId rt n; messageId = rt_randomId rt (Suc n);
                  u = launchCommand rt now c t
              in case transportSend (commandMessage s c messageId clientActionId (sn_version snapshot)) u of
                (True, v) \<Rightarrow> Some (False, v)
              | (False, v) \<Rightarrow> Some (True, snd (rejectInFlightCommand now
                  ''WebSocket gameplay connection is not available.''
                  (Some clientActionId) (Some messageId) Disconnect v)))"

lemma drainStep_shorter:
  "drainStep rt now s = Some (again, t) \<Longrightarrow> length (gp_commandQueue t) < length (gp_commandQueue s)"
  by (auto simp: drainStep_def Let_def recordDeadLetter_def transportSend_def
      split: if_splits option.splits prod.splits dest: shiftNextCommand_length)

function drainQueue :: "runtime \<Rightarrow> int \<Rightarrow> gameplay \<Rightarrow> gameplay" where
  "drainQueue rt now s = (case drainStep rt now s of
     None \<Rightarrow> s
   | Some (again, t) \<Rightarrow> if again then drainQueue rt now t else t)"
  by pat_completeness auto
termination
  by (relation "measure (\<lambda>(rt, now, s). length (gp_commandQueue s))") (auto dest: drainStep_shorter)

declare drainQueue.simps [simp del]

end
