(* ===== verification/PendingTransfer.thy ===== *)
theory PendingTransfer
  imports DropFeedback CommandQueue
begin

text \<open>
  \<open>GameTablePendingTransferState\<close> (\<^verbatim>\<open>state/core/game-table-pending-transfer.state.ts\<close>), the cards that
  are on their way out of a zone, and \<open>GameTablePendingTransferRegistrarState\<close>
  (\<^verbatim>\<open>state/core/game-table-pending-transfer-registrar.state.ts\<close>), which reads them from a command.
\<close>

section \<open>Transfers\<close>

record pending_transfer =
  tr_key :: string
  tr_playerId :: string
  tr_fromZone :: game_zone_name
  tr_instanceIds :: "string list"
  tr_sourceVersion :: "int option"
  tr_sourceZoneCount :: "jsnum option"

record transfer_registration =
  reg_playerId :: string
  reg_fromZone :: game_zone_name
  reg_instanceIds :: "string list"
  reg_sourceVersion :: "int option"
  reg_sourceZoneCount :: "jsnum option"

record pending_transfers =
  pt_transfers :: "pending_transfer list"
  pt_cardKeys :: "string set"
  pt_zoneKeys :: "string set"

definition noTransfers :: pending_transfers where
  "noTransfers = \<lparr>pt_transfers = [], pt_cardKeys = {}, pt_zoneKeys = {}\<rparr>"

definition transferCardKey :: "string \<Rightarrow> game_zone_name \<Rightarrow> string \<Rightarrow> string" where
  "transferCardKey playerId zone instanceId = playerId @ '':'' @ zone_text zone @ '':'' @ instanceId"

definition transferZoneKey :: "string \<Rightarrow> game_zone_name \<Rightarrow> string" where
  "transferZoneKey playerId zone = playerId @ '':'' @ zone_text zone"

definition transferKey :: "string \<Rightarrow> game_zone_name \<Rightarrow> string list \<Rightarrow> string" where
  "transferKey playerId zone instanceIds =
     transferZoneKey playerId zone @ '':'' @ join_strings ''|'' (List.sort instanceIds)"

definition rebuildKeys :: "pending_transfers \<Rightarrow> pending_transfers" where
  "rebuildKeys s = s\<lparr>
     pt_cardKeys := set (concat (map (\<lambda>t. map (transferCardKey (tr_playerId t) (tr_fromZone t)) (tr_instanceIds t))
       (pt_transfers s))),
     pt_zoneKeys := set (map (\<lambda>t. transferZoneKey (tr_playerId t) (tr_fromZone t)) (pt_transfers s))\<rparr>"

definition removeTransfers :: "(pending_transfer \<Rightarrow> bool) \<Rightarrow> pending_transfers \<Rightarrow> pending_transfers" where
  "removeTransfers predicate s =
     (let nextTransfers = filter (\<lambda>t. \<not> predicate t) (pt_transfers s)
      in if length nextTransfers = length (pt_transfers s) then s
         else rebuildKeys (s\<lparr>pt_transfers := nextTransfers\<rparr>))"

definition registerTransfer :: "transfer_registration \<Rightarrow> pending_transfers \<Rightarrow> pending_transfers" where
  "registerTransfer registration s =
     (let instanceIds = unique (reg_instanceIds registration);
          key' = transferKey (reg_playerId registration) (reg_fromZone registration) instanceIds;
          t = removeTransfers (\<lambda>x. tr_key x = key') s
      in rebuildKeys (t\<lparr>pt_transfers := pt_transfers t @ [\<lparr>tr_key = key', tr_playerId = reg_playerId registration,
           tr_fromZone = reg_fromZone registration, tr_instanceIds = instanceIds,
           tr_sourceVersion = reg_sourceVersion registration,
           tr_sourceZoneCount = reg_sourceZoneCount registration\<rparr>]\<rparr>))"

text \<open>The predicate of \<open>reconcileSnapshot\<close>: the transfer is over. A missing player has no cards in any zone;
  a player without the zone has none in it.\<close>

definition sourceCardsOf :: "game_snapshot \<Rightarrow> pending_transfer \<Rightarrow> game_card_instance list" where
  "sourceCardsOf snapshot t = (case sn_players snapshot (tr_playerId t) of
     None \<Rightarrow> []
   | Some player \<Rightarrow> or_default (pl_zones player (tr_fromZone t)) [])"

definition sourceCountOf :: "game_snapshot \<Rightarrow> pending_transfer \<Rightarrow> jsnum" where
  "sourceCountOf snapshot t = or_default
     (Option.bind (sn_players snapshot (tr_playerId t)) (\<lambda>player.
       Option.bind (pl_zoneCounts player) (\<lambda>counts. counts (tr_fromZone t))))
     (num (length (sourceCardsOf snapshot t)))"

definition transferOver :: "game_snapshot \<Rightarrow> pending_transfer \<Rightarrow> bool" where
  "transferOver snapshot t =
     (if tr_fromZone t = Library
         \<and> (case tr_sourceZoneCount t of None \<Rightarrow> False | Some n \<Rightarrow> js_less (sourceCountOf snapshot t) n) then True
      else if tr_instanceIds t = []
      then \<not> (case tr_sourceVersion t of None \<Rightarrow> False | Some v \<Rightarrow> sn_version snapshot \<le> v)
      else \<not> list_ex (\<lambda>i. i \<in> card_instanceId ` set (sourceCardsOf snapshot t)) (tr_instanceIds t))"

definition reconcileSnapshot :: "game_snapshot option \<Rightarrow> pending_transfers \<Rightarrow> pending_transfers" where
  "reconcileSnapshot snapshot s = (case snapshot of
     None \<Rightarrow> s
   | Some t \<Rightarrow> if pt_transfers s = [] then s else removeTransfers (transferOver t) s)"

definition clearTransfers :: "pending_transfers \<Rightarrow> pending_transfers" where
  "clearTransfers s = rebuildKeys (s\<lparr>pt_transfers := []\<rparr>)"

definition isCardPending :: "string \<Rightarrow> game_zone_name \<Rightarrow> string \<Rightarrow> pending_transfers \<Rightarrow> bool" where
  "isCardPending playerId zone instanceId s \<longleftrightarrow> transferCardKey playerId zone instanceId \<in> pt_cardKeys s"

definition isZonePending :: "string \<Rightarrow> game_zone_name \<Rightarrow> pending_transfers \<Rightarrow> bool" where
  "isZonePending playerId zone s \<longleftrightarrow> transferZoneKey playerId zone \<in> pt_zoneKeys s"

section \<open>Reading a payload\<close>

text \<open>\<open>stringPayload\<close>: a text that is not empty.\<close>

definition stringPayload :: "payload \<Rightarrow> string \<Rightarrow> string option" where
  "stringPayload payload key' = (case text_field payload key' of
     None \<Rightarrow> None | Some v \<Rightarrow> if v \<noteq> [] then Some v else None)"

definition zoneValue :: "json option \<Rightarrow> game_zone_name option" where
  "zoneValue v = (case v of
     Some (JStr s) \<Rightarrow> List.find (\<lambda>z. zone_text z = s) [Library, Hand, Battlefield, Graveyard, Exile, Command]
   | _ \<Rightarrow> None)"

definition zonePayload :: "payload \<Rightarrow> string \<Rightarrow> game_zone_name option" where
  "zonePayload payload key' = zoneValue (map_of payload key')"

fun nonEmptyText :: "json \<Rightarrow> string option" where
  "nonEmptyText (JStr s) = (if s \<noteq> [] then Some s else None)"
| "nonEmptyText _ = None"

definition instanceIdsPayload :: "payload \<Rightarrow> string list" where
  "instanceIdsPayload payload = (case map_of payload ''instanceIds'' of
     Some (JArr xs) \<Rightarrow> List.map_filter nonEmptyText xs
   | _ \<Rightarrow> (case stringPayload payload ''instanceId'' of Some i \<Rightarrow> [i] | None \<Rightarrow> []))"

text \<open>\<open>Number(payload['count'] ?? 1)\<close>; the conversion of a text is an argument, an array of one element
  is converted as its element, an empty one to zero.\<close>

fun js_Number :: "(string \<Rightarrow> jsnum) \<Rightarrow> json \<Rightarrow> jsnum" where
  "js_Number parse (JNum n) = n"
| "js_Number parse (JBool b) = (if b then num 1 else num 0)"
| "js_Number parse JNull = num 0"
| "js_Number parse (JStr s) = parse s"
| "js_Number parse (JArr []) = num 0"
| "js_Number parse (JArr [JBool b]) = NaN"
| "js_Number parse (JArr [v]) = js_Number parse v"
| "js_Number parse (JArr _) = NaN"
| "js_Number parse (JObj _) = NaN"

definition drawCount :: "(string \<Rightarrow> jsnum) \<Rightarrow> payload \<Rightarrow> nat" where
  "drawCount parse payload =
     (case (case map_of payload ''count'' of None \<Rightarrow> num 1 | Some JNull \<Rightarrow> num 1 | Some v \<Rightarrow> js_Number parse v) of
        Fin q \<Rightarrow> nat (max 1 \<lfloor>q\<rfloor>)
      | _ \<Rightarrow> 1)"

section \<open>The registrar\<close>

text \<open>The two services the registrar calls.\<close>

record transfer_tracking =
  tt_transfers :: pending_transfers
  tt_feedback :: drop_feedback

definition zoneCardsOf :: "game_snapshot option \<Rightarrow> string \<Rightarrow> game_zone_name \<Rightarrow> game_card_instance list" where
  "zoneCardsOf snapshot playerId zone = or_default
     (Option.bind snapshot (\<lambda>t. Option.bind (sn_players t playerId) (\<lambda>player. pl_zones player zone))) []"

definition areCardsInZone :: "game_snapshot option \<Rightarrow> string \<Rightarrow> game_zone_name \<Rightarrow> string list \<Rightarrow> bool" where
  "areCardsInZone snapshot playerId zone instanceIds \<longleftrightarrow> instanceIds \<noteq> []
     \<and> list_all (\<lambda>i. i \<in> card_instanceId ` set (zoneCardsOf snapshot playerId zone)) instanceIds"

definition register :: "transfer_registration \<Rightarrow> transfer_tracking \<Rightarrow> transfer_tracking" where
  "register registration s = s\<lparr>tt_transfers := registerTransfer registration (tt_transfers s)\<rparr>"

definition mark :: "(drop_feedback \<Rightarrow> drop_feedback) \<Rightarrow> transfer_tracking \<Rightarrow> transfer_tracking" where
  "mark f s = s\<lparr>tt_feedback := f (tt_feedback s)\<rparr>"

definition registerCardMovePendingTransfer ::
  "game_snapshot option \<Rightarrow> payload \<Rightarrow> transfer_tracking \<Rightarrow> transfer_tracking" where
  "registerCardMovePendingTransfer snapshot payload s =
     (let instanceIds = instanceIdsPayload payload
      in case (stringPayload payload ''playerId'', zonePayload payload ''fromZone'', zonePayload payload ''toZone'') of
        (Some playerId, Some fromZone, Some toZone) \<Rightarrow>
          if instanceIds = [] then s
          else let moveTargetPlayerId = or_default (stringPayload payload ''targetPlayerId'') playerId
            in if fromZone = toZone \<and> playerId = moveTargetPlayerId then s
            else let s1 =
                (if fromZone \<noteq> Battlefield \<and> toZone = Battlefield
                    \<and> \<not> areCardsInZone snapshot moveTargetPlayerId Battlefield instanceIds
                 then (let s0 = mark (markPendingBattlefieldEntry moveTargetPlayerId instanceIds) s
                   in if fromZone = Command
                      then mark (markPendingCommanderBattlefieldEntry moveTargetPlayerId instanceIds) s0 else s0)
                 else s)
              in register \<lparr>reg_playerId = playerId, reg_fromZone = fromZone, reg_instanceIds = instanceIds,
                   reg_sourceVersion = map_option sn_version snapshot, reg_sourceZoneCount = None\<rparr> s1
      | _ \<Rightarrow> s)"

definition registerLibraryTopPendingTransfer :: "(string \<Rightarrow> jsnum) \<Rightarrow>
    game_snapshot option \<Rightarrow> payload \<Rightarrow> json option \<Rightarrow> transfer_tracking \<Rightarrow> transfer_tracking" where
  "registerLibraryTopPendingTransfer parse snapshot payload toZoneValue s =
     (case stringPayload payload ''playerId'' of
        None \<Rightarrow> s
      | Some playerId \<Rightarrow>
          if zoneValue toZoneValue = Some Library then s
          else let targetPlayerId = or_default (stringPayload payload ''targetPlayerId'') playerId;
                   library = zoneCardsOf snapshot playerId Library;
                   sourceZoneCount = or_default (Option.bind snapshot (\<lambda>t. Option.bind (sn_players t playerId) (\<lambda>p.
                     Option.bind (pl_zoneCounts p) (\<lambda>counts. counts Library)))) (num (length library));
                   instanceIds = map card_instanceId (take (drawCount parse payload) library);
                   s1 = (if zoneValue toZoneValue = Some Battlefield
                     then mark (markPendingBattlefieldEntry targetPlayerId instanceIds) s else s)
               in register \<lparr>reg_playerId = playerId, reg_fromZone = Library, reg_instanceIds = instanceIds,
                    reg_sourceVersion = map_option sn_version snapshot,
                    reg_sourceZoneCount = Some sourceZoneCount\<rparr> s1)"

definition registerZoneMoveAllPendingTransfer ::
  "game_snapshot option \<Rightarrow> payload \<Rightarrow> transfer_tracking \<Rightarrow> transfer_tracking" where
  "registerZoneMoveAllPendingTransfer snapshot payload s =
     (case (stringPayload payload ''playerId'', zonePayload payload ''fromZone'', zonePayload payload ''toZone'') of
        (Some playerId, Some fromZone, Some toZone) \<Rightarrow>
          if fromZone = toZone then s
          else let instanceIds = map card_instanceId (zoneCardsOf snapshot playerId fromZone);
                   s1 = (if toZone = Battlefield then mark (markPendingBattlefieldEntry playerId instanceIds) s else s)
               in register \<lparr>reg_playerId = playerId, reg_fromZone = fromZone, reg_instanceIds = instanceIds,
                    reg_sourceVersion = map_option sn_version snapshot, reg_sourceZoneCount = None\<rparr> s1
      | _ \<Rightarrow> s)"

definition registerCommand ::
  "(string \<Rightarrow> jsnum) \<Rightarrow> game_snapshot option \<Rightarrow> string \<Rightarrow> payload \<Rightarrow> transfer_tracking \<Rightarrow> transfer_tracking" where
  "registerCommand parse snapshot type payload s =
     (if type \<in> {''card.moved'', ''cards.moved''} then registerCardMovePendingTransfer snapshot payload s
      else if type \<in> {''library.draw'', ''library.draw_many''}
      then registerLibraryTopPendingTransfer parse snapshot payload (Some (JStr ''hand'')) s
      else if type = ''library.move_top''
      then registerLibraryTopPendingTransfer parse snapshot payload (map_of payload ''toZone'') s
      else if type = ''zone.move_all'' then registerZoneMoveAllPendingTransfer snapshot payload s
      else s)"

end
