(* ===== verification/TurnActions.thy ===== *)
theory TurnActions
  imports SnapshotSelectors PendingTransfer
begin

text \<open>
  Changing the turn, \<^verbatim>\<open>services/game-table-turn-actions.service.ts\<close> and \<^verbatim>\<open>utils/game-player-defeat.ts\<close>:
  the commands \<open>turn.changed\<close> that pass the turn or advance the phase. The reference is a clock with
  three hands: the phase, the seat of the active player and the round.
\<close>

section \<open>The actions\<close>

text \<open>The payload of \<open>turn.changed\<close>: \<open>None\<close> for a field it does not have, \<open>Some None\<close> for one that is
  undefined or null.\<close>

record turn_change =
  tn_activePlayerId :: "string option option"
  tn_phase :: "string option option"
  tn_number :: "jsnum option"

definition playerIsDefeated :: "player_view \<Rightarrow> bool" where
  "playerIsDefeated player \<longleftrightarrow> pl_status (pv_state player) = Some ConcededPlayer"

definition playerIsActiveForTurn :: "player_view \<Rightarrow> bool" where
  "playerIsActiveForTurn player \<longleftrightarrow> pl_status (pv_state player) = Some ActivePlayer"

definition phases :: "string list" where
  "phases = [''untap'', ''upkeep'', ''draw'', ''main-1'', ''combat'', ''main-2'', ''end'']"

definition changeTurnPlayer :: "string \<Rightarrow> turn_change" where
  "changeTurnPlayer activePlayerId = \<lparr>tn_activePlayerId = Some (Some activePlayerId), tn_phase = None, tn_number = None\<rparr>"

definition changePhase :: "string \<Rightarrow> turn_change" where
  "changePhase phase = \<lparr>tn_activePlayerId = None, tn_phase = Some (Some phase), tn_number = None\<rparr>"

definition changeTurnNumber :: "(string \<Rightarrow> jsnum) \<Rightarrow> json \<Rightarrow> turn_change" where
  "changeTurnNumber parse number = \<lparr>tn_activePlayerId = None, tn_phase = None, tn_number = Some (js_Number parse number)\<rparr>"

definition turnEligiblePlayers :: "player_view list \<Rightarrow> player_view list" where
  "turnEligiblePlayers views = (let alivePlayers = filter playerIsActiveForTurn views in
     if length alivePlayers \<ge> 2 then alivePlayers else views)"

definition nextTurnNumber :: "jsnum \<Rightarrow> nat option \<Rightarrow> nat option \<Rightarrow> jsnum" where
  "nextTurnNumber currentNumber activeIndex nextIndex = (case (activeIndex, nextIndex) of
     (Some i, Some j) \<Rightarrow> if j \<le> i then currentNumber + num 1 else currentNumber
   | _ \<Rightarrow> currentNumber)"

text \<open>The next player and the number of the turn, which \<open>advanceTurnPhase\<close> and \<open>passTableTurn\<close> compute alike:
  without an active player among the eligible ones the first is next.\<close>

definition nextTurn :: "player_view list \<Rightarrow> game_turn \<Rightarrow> string option \<times> jsnum" where
  "nextTurn views turn =
     (let ps = turnEligiblePlayers views;
          activeIndex = find_index (\<lambda>v. Some (pv_id v) = gt_activePlayerId turn) ps;
          nextIndex = (if ps = [] then None
            else Some ((case activeIndex of None \<Rightarrow> 0 | Some i \<Rightarrow> Suc i) mod length ps))
      in (case nextIndex of None \<Rightarrow> gt_activePlayerId turn | Some j \<Rightarrow> Some (pv_id (ps ! j)),
          nextTurnNumber (gt_number turn) activeIndex nextIndex))"

definition advanceTurnPhase ::
  "string list \<Rightarrow> player_view list \<Rightarrow> game_snapshot option \<Rightarrow> turn_change option" where
  "advanceTurnPhase phs views snapshot = (case snapshot of
     None \<Rightarrow> None
   | Some t \<Rightarrow>
       (let currentIndex = or_default (find_index (\<lambda>p. p = gt_phase (sn_turn t)) phs) 0
        in if Suc currentIndex < length phs \<and> phs ! Suc currentIndex \<noteq> []
           then Some (changePhase (phs ! Suc currentIndex))
           else case nextTurn views (sn_turn t) of (player, number) \<Rightarrow>
             Some \<lparr>tn_activePlayerId = Some player, tn_phase = Some (head_option phs), tn_number = Some number\<rparr>))"

definition passTableTurn :: "string list \<Rightarrow> player_view list \<Rightarrow> game_snapshot option \<Rightarrow> turn_change option" where
  "passTableTurn phs views snapshot = (case snapshot of
     None \<Rightarrow> None
   | Some t \<Rightarrow> (case nextTurn views (sn_turn t) of (player, number) \<Rightarrow>
       Some \<lparr>tn_activePlayerId = Some player,
         tn_phase = Some (Some (or_default (head_option phs) (gt_phase (sn_turn t)))), tn_number = Some number\<rparr>))"

section \<open>The clock of turns\<close>

text \<open>The turn a command asks for.\<close>

definition asked :: "turn_change option \<Rightarrow> game_snapshot \<Rightarrow> game_snapshot" where
  "asked change t = (case change of
     None \<Rightarrow> t
   | Some ch \<Rightarrow> t\<lparr>sn_turn := \<lparr>gt_activePlayerId = or_default (tn_activePlayerId ch) (gt_activePlayerId (sn_turn t)),
       gt_phase = or_default (map_option (\<lambda>p. or_default p []) (tn_phase ch)) (gt_phase (sn_turn t)),
       gt_number = or_default (tn_number ch) (gt_number (sn_turn t))\<rparr>\<rparr>)"

definition advanced :: "player_view list \<Rightarrow> game_snapshot \<Rightarrow> game_snapshot" where
  "advanced views t = asked (advanceTurnPhase phases views (Some t)) t"

definition passed :: "player_view list \<Rightarrow> game_snapshot \<Rightarrow> game_snapshot" where
  "passed views t = asked (passTableTurn phases views (Some t)) t"

text \<open>Phases tick, seven make a turn, and a turn of every eligible player makes a round.\<close>

definition turn_at :: "player_view list \<Rightarrow> jsnum \<Rightarrow> nat \<Rightarrow> game_turn" where
  "turn_at ps firstRound ticks = \<lparr>gt_activePlayerId = Some (pv_id (ps ! (ticks div 7 mod length ps))),
     gt_phase = phases ! (ticks mod 7), gt_number = firstRound + num (int (ticks div 7 div length ps))\<rparr>"

lemma find_index_nth:
  "distinct (map f xs) \<Longrightarrow> i < length xs \<Longrightarrow> find_index (\<lambda>x. f x = f (xs ! i)) xs = Some i"
proof (induction xs arbitrary: i)
  case (Cons x xs)
  then show ?case by (cases i) (auto simp: rev_image_eqI)
qed simp

lemma plus_Fin: "k + Fin p + Fin q = k + Fin (q + p)"
  by (cases k) simp_all

lemma eligible_distinct: "distinct (map pv_id views) \<Longrightarrow> distinct (map pv_id (turnEligiblePlayers views))"
  by (simp add: turnEligiblePlayers_def Let_def)

lemma eligible_nonempty: "views \<noteq> [] \<Longrightarrow> turnEligiblePlayers views \<noteq> []"
  by (auto simp: turnEligiblePlayers_def Let_def)

lemma nextTurn_at:
  assumes "distinct (map pv_id views)" "views \<noteq> []"
  defines "ps \<equiv> turnEligiblePlayers views"
  shows "nextTurn views (turn_at ps k c) =
    (Some (pv_id (ps ! (Suc (c div 7) mod length ps))), k + num (int (Suc (c div 7) div length ps)))"
proof -
  define n d i where "n = length ps" and "d = c div 7" and "i = d mod n"
  have ps: "ps \<noteq> []" "distinct (map pv_id ps)"
    using assms(1,2) by (simp_all add: ps_def eligible_nonempty eligible_distinct)
  then have n: "i < n" "n > 0" by (simp_all add: n_def i_def)
  have at: "find_index (\<lambda>v. pv_id v = pv_id (ps ! i)) ps = Some i"
    using find_index_nth [OF ps(2)] n(1) by (simp add: n_def)
  have seat: "Suc i mod n = Suc d mod n" by (simp add: i_def mod_Suc_eq)
  have wrap: "Suc i mod n \<le> i \<longleftrightarrow> Suc d mod n = 0"
    using n(1) seat by (cases "Suc i = n") auto
  have "nextTurnNumber (k + num (int (d div n))) (Some i) (Some (Suc i mod n)) = k + num (int (Suc d div n))"
    using wrap by (simp add: nextTurnNumber_def plus_Fin div_Suc add.commute)
  with at seat show ?thesis
    by (simp add: nextTurn_def ps_def [symmetric] ps(1) Let_def turn_at_def n_def [symmetric] i_def [symmetric] d_def [symmetric])
qed

lemma length_phases: "length phases = 7" "phases \<noteq> []"
  by (simp_all add: phases_def)

lemma head_phases: "head_option phases = Some (phases ! 0)"
  by (simp add: phases_def head_option_def)

lemma phase_index: "find_index (\<lambda>p. p = phases ! (c mod 7)) phases = Some (c mod 7)"
proof -
  have "c mod 7 < length phases" by (simp add: phases_def)
  from find_index_nth [of id phases, OF _ this] show ?thesis by (simp add: phases_def)
qed

lemma phase_named: "i < 7 \<Longrightarrow> phases ! i \<noteq> []"
  by (simp add: phases_def less_Suc_eq numeral_eq_Suc) auto

lemma advanced_tick:
  assumes "distinct (map pv_id views)" "views \<noteq> []" "sn_turn t = turn_at (turnEligiblePlayers views) k c"
  shows "sn_turn (advanced views t) = turn_at (turnEligiblePlayers views) k (Suc c)"
proof (cases "Suc (c mod 7) < 7")
  case True
  then have "Suc c mod 7 = Suc (c mod 7)" "Suc c div 7 = c div 7" by (simp_all add: mod_Suc div_Suc)
  with True phase_named [of "Suc (c mod 7)"] show ?thesis
    by (simp add: advanced_def advanceTurnPhase_def asked_def assms(3) turn_at_def phase_index changePhase_def
        length_phases Let_def)
next
  case False
  moreover have "c mod 7 < 7" by simp
  ultimately have c: "c mod 7 = 6" by linarith
  then have "Suc c mod 7 = 0" "Suc c div 7 = Suc (c div 7)" by (simp_all add: mod_Suc div_Suc)
  with c phase_index [of c] nextTurn_at [OF assms(1,2), of k c] show ?thesis
    by (simp add: advanced_def advanceTurnPhase_def asked_def assms(3) length_phases Let_def head_phases)
      (simp add: turn_at_def)
qed

text \<open>C20: The buttons for the next phase and the next turn work as a clock: starting anywhere, any number
  of phase advances walks through the seven phases in order, after the last one to the next eligible
  player in the order of the table, and counts a round when the first one is reached again, so each
  eligible player gets every phase once per round; passing the turn is advancing to the next first phase.\<close>

theorem phases_turns_and_rounds:
  assumes "distinct (map pv_id views)" and "views \<noteq> []"
    and "sn_turn t = turn_at (turnEligiblePlayers views) k c"
  shows "sn_turn ((advanced views ^^ m) t) = turn_at (turnEligiblePlayers views) k (c + m)
    \<and> sn_turn (passed views t) = turn_at (turnEligiblePlayers views) k (7 * Suc (c div 7))"
proof
  show "sn_turn ((advanced views ^^ m) t) = turn_at (turnEligiblePlayers views) k (c + m)"
    by (induction m) (simp_all add: assms advanced_tick)
  show "sn_turn (passed views t) = turn_at (turnEligiblePlayers views) k (7 * Suc (c div 7))"
    using nextTurn_at [OF assms(1,2), of k c]
    by (simp add: passed_def passTableTurn_def asked_def assms(3) head_phases) (simp add: turn_at_def)
qed

definition seat :: "string \<Rightarrow> player_status \<Rightarrow> player_view" where
  "seat i status = \<lparr>pv_id = i, pv_state = bare_player\<lparr>pl_status := Some status\<rparr>, pv_knownCommanderInstanceIds = None\<rparr>"

definition seats :: "player_view list" where
  "seats = [seat ''a'' ActivePlayer, seat ''b'' ConcededPlayer, seat ''c'' ActivePlayer]"

theorem phases_turns_and_rounds_witness:
  "\<exists>t. gt_activePlayerId (sn_turn t) = Some ''a'' \<and> gt_number (sn_turn t) = num 3
     \<and> gt_activePlayerId (sn_turn ((advanced seats ^^ 14) t)) = Some ''a''
     \<and> gt_number (sn_turn ((advanced seats ^^ 14) t)) = num 4
     \<and> gt_activePlayerId (sn_turn (passed seats t)) = Some ''c''"
proof -
  have seats: "turnEligiblePlayers seats = [seat ''a'' ActivePlayer, seat ''c'' ActivePlayer]"
    by (simp add: turnEligiblePlayers_def seats_def seat_def playerIsActiveForTurn_def)
  define t where "t = bare_snapshot\<lparr>sn_turn := turn_at (turnEligiblePlayers seats) (num 3) 0\<rparr>"
  have "distinct (map pv_id seats)" "seats \<noteq> []" "sn_turn t = turn_at (turnEligiblePlayers seats) (num 3) 0"
    by (simp_all add: seats_def seat_def t_def)
  from phases_turns_and_rounds [OF this, of 14] show ?thesis
    by (intro exI [of _ t]) (simp add: seats turn_at_def t_def seat_def flip: numeral_2_eq_2)
qed

text \<open>Without an eligible active player, the first eligible player is next and the number stays.\<close>

lemma turn_of_nobody:
  assumes "gt_activePlayerId turn \<notin> Some ` pv_id ` set (turnEligiblePlayers views)" "views \<noteq> []"
  shows "nextTurn views turn = (Some (pv_id (hd (turnEligiblePlayers views))), gt_number turn)"
proof -
  have "find_index (\<lambda>v. Some (pv_id v) = gt_activePlayerId turn) (turnEligiblePlayers views) = None"
    using assms(1) unfolding find_index_None by (metis image_eqI)
  with eligible_nonempty [OF assms(2)] show ?thesis
    by (simp add: nextTurn_def nextTurnNumber_def hd_conv_nth)
qed

end
