(* ===== verification/RematchVotes.thy ===== *)
theory RematchVotes
  imports V2Model JsObject Replica
begin

text \<open>
  Voting for another game: \<open>GameTableRematchVoteService\<close>
  (\<^verbatim>\<open>services/game-table-rematch-vote.service.ts\<close>), which gives every vote an action id, and the part
  of the component that submits a vote (\<^verbatim>\<open>game-table.component.ts\<close>, \<open>submitRematchVote\<close>). A request is a
  running submission; its answer is an event. An action id is an argument of the vote: the sources
  take a random UUID.
\<close>

section \<open>The service\<close>

record rematch_attempt =
  ra_gameId :: string
  ra_vote :: rematch_vote
  ra_clientActionId :: string
  ra_previousActionId :: "string option"

record rematch_service =
  rs_acceptedActionIds :: "string \<rightharpoonup> string"
  rs_retryAttempt :: "rematch_attempt option"

datatype rematch_status = RoomReady string | LeftRoom | RoomDeleted | WaitingForGameEnd | OtherStatus

record rematch_response =
  rr_status :: rematch_status
  rr_message :: "string option"
  rr_clientActionId :: "string option"
  rr_controlPlane :: "control_plane option"

text \<open>An error of the request: the status 409 with the control plane of its body, if it has one of that
  shape, or any other error. The text is what the error says for the player.\<close>

datatype rematch_error = Conflict "control_plane option" string | OtherError string

definition attemptFor ::
  "string \<Rightarrow> rematch_vote \<Rightarrow> string \<Rightarrow> rematch_service \<Rightarrow> rematch_attempt \<times> rematch_service" where
  "attemptFor gameId vote newId s =
     (let new = \<lparr>ra_gameId = gameId, ra_vote = vote, ra_clientActionId = newId,
            ra_previousActionId = rs_acceptedActionIds s gameId\<rparr>
      in case rs_retryAttempt s of
           Some a \<Rightarrow> if ra_gameId a = gameId \<and> ra_vote a = vote then (a, s)
             else (new, s\<lparr>rs_retryAttempt := Some new\<rparr>)
         | None \<Rightarrow> (new, s\<lparr>rs_retryAttempt := Some new\<rparr>))"

definition submitSucceeds :: "rematch_attempt \<Rightarrow> rematch_response \<Rightarrow> rematch_service \<Rightarrow> rematch_service" where
  "submitSucceeds attempt response s = s\<lparr>
     rs_acceptedActionIds := (rs_acceptedActionIds s)(ra_gameId attempt \<mapsto>
       or_default (rr_clientActionId response) (ra_clientActionId attempt)),
     rs_retryAttempt := None\<rparr>"

definition isSemanticConflict :: "rematch_error \<Rightarrow> bool" where
  "isSemanticConflict e = (case e of Conflict _ _ \<Rightarrow> True | OtherError _ \<Rightarrow> False)"

definition submitFails :: "rematch_error \<Rightarrow> rematch_service \<Rightarrow> rematch_service" where
  "submitFails e s = (if isSemanticConflict e then s\<lparr>rs_retryAttempt := None\<rparr> else s)"

definition controlPlaneFromError :: "rematch_error \<Rightarrow> control_plane option" where
  "controlPlaneFromError e = (case e of Conflict cp _ \<Rightarrow> cp | OtherError _ \<Rightarrow> None)"

definition votedActionId :: "string \<Rightarrow> control_plane \<Rightarrow> string option" where
  "votedActionId playerId cp =
     Option.bind (rm_votes (cpl_rematch cp) playerId) (\<lambda>v. non_null (rv_clientActionId v))"

definition acceptControlPlane :: "string \<Rightarrow> string option \<Rightarrow> control_plane \<Rightarrow> rematch_service \<Rightarrow> rematch_service" where
  "acceptControlPlane gameId currentPlayerId cp s =
     (if gameId = [] \<or> or_default currentPlayerId [] = [] then s
      else case votedActionId (or_default currentPlayerId []) cp of
        None \<Rightarrow> s
      | Some i \<Rightarrow> if js_trim i \<noteq> [] then s\<lparr>rs_acceptedActionIds := (rs_acceptedActionIds s)(gameId \<mapsto> i)\<rparr> else s)"

section \<open>Submitting a vote\<close>

datatype rematch_effect = Acknowledge control_plane | ToRooms | ToWaitingRoom string

text \<open>\<open>rp_running\<close> are the submissions that wait: for the answer to a request, or for the router.
  \<open>rp_sent\<close> are the requests made, in order.\<close>

datatype running = AwaitsAnswer rematch_attempt | AwaitsRouter

record rematch_page =
  rp_gameId :: string
  rp_playerId :: "string option"
  rp_service :: rematch_service
  rp_pending :: bool
  rp_modalOpen :: bool
  rp_toast :: "string option"
  rp_running :: "running list"
  rp_sent :: "rematch_attempt list"
  rp_effects :: "rematch_effect list"

definition submitRematchVote :: "rematch_vote \<Rightarrow> string \<Rightarrow> rematch_page \<Rightarrow> rematch_page" where
  "submitRematchVote vote newId s =
     (if rp_pending s \<or> rp_gameId s = [] then s
      else case attemptFor (rp_gameId s) vote newId (rp_service s) of (attempt, service) \<Rightarrow>
        s\<lparr>rp_pending := True, rp_toast := None, rp_service := service,
          rp_running := rp_running s @ [AwaitsAnswer attempt], rp_sent := rp_sent s @ [attempt]\<rparr>)"

text \<open>\<open>applyControlPlaneAcknowledgement\<close> of the store, and the new predecessor.\<close>

definition acknowledgeRematch :: "control_plane option \<Rightarrow> rematch_page \<Rightarrow> rematch_page" where
  "acknowledgeRematch controlPlane s = (case controlPlane of
     None \<Rightarrow> s
   | Some cp \<Rightarrow> s\<lparr>rp_effects := rp_effects s @ [Acknowledge cp],
       rp_service := acceptControlPlane (rp_gameId s) (rp_playerId s) cp (rp_service s)\<rparr>)"

definition leaveFor :: "rematch_effect \<Rightarrow> rematch_page \<Rightarrow> rematch_page" where
  "leaveFor e s = s\<lparr>rp_modalOpen := False, rp_effects := rp_effects s @ [e], rp_running := rp_running s @ [AwaitsRouter]\<rparr>"

text \<open>The submission after a successful request; the last branches run its \<open>finally\<close> at once.\<close>

definition voteAccepted :: "string \<Rightarrow> rematch_attempt \<Rightarrow> rematch_response \<Rightarrow> rematch_page \<Rightarrow> rematch_page" where
  "voteAccepted waitMessage attempt response s =
     (let t = acknowledgeRematch (rr_controlPlane response)
            (s\<lparr>rp_service := submitSucceeds attempt response (rp_service s)\<rparr>)
      in if ra_vote attempt = LeaveRoom then leaveFor ToRooms t
         else case rr_status response of
           RoomReady room \<Rightarrow> leaveFor (ToWaitingRoom room) t
         | LeftRoom \<Rightarrow> leaveFor ToRooms t
         | RoomDeleted \<Rightarrow> leaveFor ToRooms t
         | WaitingForGameEnd \<Rightarrow> t\<lparr>rp_modalOpen := False,
             rp_toast := Some (or_default (rr_message response) waitMessage), rp_pending := False\<rparr>
         | OtherStatus \<Rightarrow> t\<lparr>rp_pending := False\<rparr>)"

definition rematchErrorMessage :: "rematch_error \<Rightarrow> string" where
  "rematchErrorMessage e = (case e of Conflict _ m \<Rightarrow> m | OtherError m \<Rightarrow> m)"

definition voteRefused :: "rematch_error \<Rightarrow> rematch_page \<Rightarrow> rematch_page" where
  "voteRefused e s =
     (let t = acknowledgeRematch (controlPlaneFromError e) (s\<lparr>rp_service := submitFails e (rp_service s)\<rparr>)
      in t\<lparr>rp_toast := Some (rematchErrorMessage e), rp_pending := False\<rparr>)"

section \<open>Runs\<close>

datatype rematch_event =
    Vote rematch_vote string
  | Answered nat "rematch_error + rematch_response"
  | RouterDone nat
  | Seen control_plane

definition voteAnswered :: "nat \<Rightarrow> rematch_error + rematch_response \<Rightarrow> rematch_page \<Rightarrow> rematch_page" where
  "voteAnswered n answer s = (if n < length (rp_running s) then (case rp_running s ! n of
       AwaitsAnswer attempt \<Rightarrow>
         (let t = s\<lparr>rp_running := remove_nth n (rp_running s)\<rparr> in case answer of
            Inl e \<Rightarrow> voteRefused e t | Inr r \<Rightarrow> voteAccepted ''game.gameRematchModal.waitForGameEnd'' attempt r t)
     | AwaitsRouter \<Rightarrow> s) else s)"

definition routerDone :: "nat \<Rightarrow> rematch_page \<Rightarrow> rematch_page" where
  "routerDone n s = (if n < length (rp_running s) \<and> rp_running s ! n = AwaitsRouter
     then s\<lparr>rp_running := remove_nth n (rp_running s), rp_pending := False\<rparr> else s)"

fun rematchStep :: "rematch_page \<Rightarrow> rematch_event \<Rightarrow> rematch_page" where
  "rematchStep s (Vote vote newId) = submitRematchVote vote newId s"
| "rematchStep s (Answered n answer) = voteAnswered n answer s"
| "rematchStep s (RouterDone n) = routerDone n s"
| "rematchStep s (Seen cp) = s\<lparr>rp_service := acceptControlPlane (rp_gameId s) (rp_playerId s) cp (rp_service s)\<rparr>"

definition rematchPage :: "string \<Rightarrow> string option \<Rightarrow> rematch_page" where
  "rematchPage gameId playerId = \<lparr>rp_gameId = gameId, rp_playerId = playerId,
     rp_service = \<lparr>rs_acceptedActionIds = Map.empty, rs_retryAttempt = None\<rparr>, rp_pending = False,
     rp_modalOpen = False, rp_toast = None, rp_running = [], rp_sent = [], rp_effects = []\<rparr>"

abbreviation rematchRun :: "rematch_page \<Rightarrow> rematch_event list \<Rightarrow> rematch_page" where
  "rematchRun \<equiv> run_steps rematchStep"

section \<open>Requests\<close>

definition voteIds :: "rematch_event list \<Rightarrow> string list" where
  "voteIds es = List.map_filter (\<lambda>e. case e of Vote _ i \<Rightarrow> Some i | _ \<Rightarrow> None) es"

text \<open>The pending flag says whether a submission runs, and at most one does; an action id names one
  request; the attempt that would be sent again was sent, and no other with its id.\<close>

definition rematch_ok :: "string set \<Rightarrow> rematch_page \<Rightarrow> bool" where
  "rematch_ok ids s \<longleftrightarrow>
     length (rp_running s) = (if rp_pending s then 1 else 0)
     \<and> ra_clientActionId ` set (rp_sent s) \<subseteq> ids
     \<and> inj_on ra_clientActionId (set (rp_sent s))
     \<and> set_option (rs_retryAttempt (rp_service s)) \<subseteq> set (rp_sent s)
     \<and> (\<forall>a. AwaitsAnswer a \<in> set (rp_running s) \<longrightarrow>
          rs_retryAttempt (rp_service s) = Some a \<and> ra_gameId a = rp_gameId s \<and> rp_gameId s \<noteq> [])"

lemma ok_service:
  "rs_retryAttempt (acceptControlPlane g p cp v) = rs_retryAttempt v"
  "rp_sent (acknowledgeRematch c s) = rp_sent s" "rp_running (acknowledgeRematch c s) = rp_running s"
  "rp_pending (acknowledgeRematch c s) = rp_pending s" "rp_gameId (acknowledgeRematch c s) = rp_gameId s"
  "rs_retryAttempt (rp_service (acknowledgeRematch c s)) = rs_retryAttempt (rp_service s)"
  by (simp_all add: acceptControlPlane_def acknowledgeRematch_def split: option.split)

lemma submit_ok:
  assumes "rematch_ok ids s" "newId \<notin> ids"
  shows "rematch_ok (insert newId ids) (submitRematchVote vote newId s)"
proof (cases "rp_pending s \<or> rp_gameId s = []")
  case False
  define r where "r = rp_service s"
  have "\<exists>a v. attemptFor (rp_gameId s) vote newId r = (a, v) \<and> rs_retryAttempt v = Some a
      \<and> (a \<in> set (rp_sent s) \<or> ra_clientActionId a = newId) \<and> ra_gameId a = rp_gameId s"
    using assms(1) by (auto simp: attemptFor_def rematch_ok_def r_def Let_def split: option.split)
  then obtain a v where a: "attemptFor (rp_gameId s) vote newId r = (a, v)" "rs_retryAttempt v = Some a"
    "a \<in> set (rp_sent s) \<or> ra_clientActionId a = newId" "ra_gameId a = rp_gameId s" by blast
  have "ra_clientActionId ` (set (rp_sent s) - {a}) \<subseteq> ids" "inj_on ra_clientActionId (set (rp_sent s))"
    using assms(1) unfolding rematch_ok_def by blast+
  then have "inj_on ra_clientActionId (insert a (set (rp_sent s)))"
    using a(3) assms(2) by (metis inj_on_insert insert_absorb subsetD)
  moreover have "ra_clientActionId a \<in> insert newId ids" using assms(1) a(3) by (auto simp: rematch_ok_def)
  moreover have "submitRematchVote vote newId s = s\<lparr>rp_pending := True, rp_toast := None, rp_service := v,
      rp_running := rp_running s @ [AwaitsAnswer a], rp_sent := rp_sent s @ [a]\<rparr>"
    using False a(1) by (simp add: submitRematchVote_def r_def)
  ultimately show ?thesis using assms(1) a(2,4) False by (simp add: rematch_ok_def) blast
qed (use assms in \<open>auto simp: submitRematchVote_def rematch_ok_def\<close>)

lemma answer_ok:
  assumes "rematch_ok ids s"
  shows "rematch_ok ids (voteAnswered n answer s)"
proof (cases "\<exists>a. n < length (rp_running s) \<and> rp_running s ! n = AwaitsAnswer a")
  case True
  then obtain a where a: "n < length (rp_running s)" "rp_running s ! n = AwaitsAnswer a" by blast
  with assms have one: "rp_pending s" "rp_running s = [AwaitsAnswer a]" "n = 0"
    by (auto simp: rematch_ok_def length_Suc_conv split: if_splits)
  then show ?thesis
    using assms
    by (auto simp: voteAnswered_def voteAccepted_def voteRefused_def leaveFor_def submitSucceeds_def submitFails_def
        rematch_ok_def ok_service remove_nth_def Let_def split: sum.split rematch_status.split)
qed (use assms in \<open>auto simp: voteAnswered_def split: running.split\<close>)

lemma rematch_step_ok:
  assumes "rematch_ok ids s" "set (voteIds [e]) \<inter> ids = {}"
  shows "rematch_ok (ids \<union> set (voteIds [e])) (rematchStep s e)"
proof (cases e)
  case (Vote v i)
  with assms submit_ok [of ids s i v] show ?thesis by (simp add: voteIds_def map_filter_def)
next
  case (Answered n answer)
  with assms answer_ok show ?thesis by (simp add: voteIds_def map_filter_def)
next
  case (RouterDone n)
  with assms show ?thesis
    by (auto simp: voteIds_def map_filter_def rematch_ok_def routerDone_def remove_nth_def length_Suc_conv split: if_splits)
next
  case (Seen cp)
  with assms show ?thesis by (simp add: voteIds_def map_filter_def rematch_ok_def ok_service)
qed

lemma rematch_run_ok:
  "rematch_ok ids s \<Longrightarrow> distinct (voteIds es) \<Longrightarrow> set (voteIds es) \<inter> ids = {} \<Longrightarrow>
     rematch_ok (ids \<union> set (voteIds es)) (rematchRun s es)"
proof (induction es arbitrary: ids s)
  case (Cons e es)
  have ids: "voteIds (e # es) = voteIds [e] @ voteIds es" by (simp add: voteIds_def map_filter_def)
  from Cons.prems have "rematch_ok (ids \<union> set (voteIds [e])) (rematchStep s e)"
    by (intro rematch_step_ok) (auto simp: ids)
  with Cons.prems Cons.IH [of "ids \<union> set (voteIds [e])" "rematchStep s e"] show ?case
    by (auto simp: ids Un_assoc)
qed (simp add: voteIds_def map_filter_def)

text \<open>C21: Votes for another game are idempotent: whatever is voted, answered, refused or lost, at most one
  request runs, requests with the same action id are the same request, with the same vote and the same
  predecessor, and after an error that is no conflict the same vote sends the very same request again.\<close>

theorem rematch_requests_idempotent:
  fixes g :: string and p :: "string option"
  assumes "distinct (voteIds es)"
  defines "s \<equiv> rematchRun (rematchPage g p) es"
  shows "length (rp_running s) \<le> 1
    \<and> (\<forall>a b. a \<in> set (rp_sent s) \<longrightarrow> b \<in> set (rp_sent s) \<longrightarrow> ra_clientActionId a = ra_clientActionId b \<longrightarrow> a = b)
    \<and> (\<forall>a m j. rp_running s = [AwaitsAnswer a] \<longrightarrow>
        rp_sent (rematchRun s [Answered 0 (Inl (OtherError m)), Vote (ra_vote a) j]) = rp_sent s @ [a])"
proof -
  have "rematch_ok {} (rematchPage g p)" by (simp add: rematch_ok_def rematchPage_def)
  from rematch_run_ok [OF this assms(1)] have ok: "rematch_ok (set (voteIds es)) s" by (simp add: s_def)
  have "rp_sent (rematchRun s [Answered 0 (Inl (OtherError m)), Vote (ra_vote a) j]) = rp_sent s @ [a]"
    if "rp_running s = [AwaitsAnswer a]" for a m j
  proof -
    have "rs_retryAttempt (rp_service s) = Some a" "ra_gameId a = rp_gameId s" "rp_gameId s \<noteq> []"
      using ok that by (simp_all add: rematch_ok_def)
    then show ?thesis
      by (simp add: voteAnswered_def that voteRefused_def submitFails_def isSemanticConflict_def acknowledgeRematch_def
          controlPlaneFromError_def submitRematchVote_def attemptFor_def)
  qed
  with ok show ?thesis unfolding rematch_ok_def inj_on_def by (simp split: if_splits)
qed

theorem rematch_requests_idempotent_witness:
  "map ra_clientActionId (rp_sent (rematchRun (rematchPage ''g'' (Some ''a''))
     ([Vote PlayAgain ''i''] @ [Answered 0 (Inl (OtherError ''lost'')), Vote PlayAgain ''j'']))) = [''i'', ''i'']"
proof -
  have one: "distinct (voteIds [Vote PlayAgain ''i''])" by (simp add: voteIds_def map_filter_def)
  define s where "s = rematchRun (rematchPage ''g'' (Some ''a'')) [Vote PlayAgain ''i'']"
  define a where "a = \<lparr>ra_gameId = ''g'', ra_vote = PlayAgain, ra_clientActionId = ''i'', ra_previousActionId = None\<rparr>"
  have s: "rp_running s = [AwaitsAnswer a]" "rp_sent s = [a]" "ra_vote a = PlayAgain" "ra_clientActionId a = ''i''"
    by (simp_all add: s_def a_def rematchPage_def submitRematchVote_def attemptFor_def Let_def)
  have "rp_sent (rematchRun s [Answered 0 (Inl (OtherError ''lost'')), Vote (ra_vote a) ''j'']) = rp_sent s @ [a]"
    using rematch_requests_idempotent [OF one, of "''g''" "Some ''a''"] s(1) unfolding s_def by blast
  then show ?thesis unfolding run_steps_append s_def [symmetric] by (simp add: s)
qed

text \<open>After a conflict that tells the vote of the player, the next vote names it as its predecessor.\<close>

lemma vote_after_conflict:
  assumes "rp_running s = [AwaitsAnswer a]" "rp_gameId s \<noteq> []" "rp_playerId s = Some p" "p \<noteq> []"
    and "votedActionId p cp = Some i" "js_trim i \<noteq> []"
  shows "rp_sent (rematchRun s [Answered 0 (Inl (Conflict (Some cp) m)), Vote v j])
    = rp_sent s @ [\<lparr>ra_gameId = rp_gameId s, ra_vote = v, ra_clientActionId = j, ra_previousActionId = Some i\<rparr>]"
  using assms
  by (simp add: voteAnswered_def voteRefused_def submitFails_def isSemanticConflict_def acknowledgeRematch_def
      controlPlaneFromError_def acceptControlPlane_def submitRematchVote_def attemptFor_def Let_def)

end
