(* ===== verification/V2Wf.thy ===== *)
theory V2Wf
  imports V2Patch
begin

text \<open>
  Well-formedness of the normalized state. The players are the keys of the zone maps and of the
  zone counts, and a zone lists no card twice; the relations are stored under their own ids and
  the six indexes say exactly which relations start, end or stack at a card; the stack lists its
  items once; the chat and the log list entries they hold, at most 250, the log all of them in
  the order of the collation. Every operation of a patch preserves it.
\<close>

section \<open>The invariant\<close>

definition table_of :: "('a \<Rightarrow> string) \<Rightarrow> 'a obj \<Rightarrow> bool" where
  "table_of idOf ob \<longleftrightarrow> wf_obj ob \<and> (\<forall>(k, x) \<in> set ob. idOf x = k)"

text \<open>An index lists, under each key, the ids of the relations with that key, each once.\<close>

definition index_of :: "('a \<Rightarrow> string) \<Rightarrow> ('a \<Rightarrow> string) \<Rightarrow> 'a obj \<Rightarrow> string list obj \<Rightarrow> bool" where
  "index_of keyOf idOf ob index \<longleftrightarrow>
     (\<forall>k. set (or_default (obj_get index k) []) = {idOf x | x. x \<in> snd ` set ob \<and> keyOf x = k}
        \<and> distinct (or_default (obj_get index k) []))"

definition relations_wf :: "v2_relations \<Rightarrow> bool" where
  "relations_wf r \<longleftrightarrow>
     table_of ar_id (vr_arrows r) \<and> table_of at_id (vr_attachments r)
     \<and> table_of bs_id (vr_battlefieldStacks r) \<and> table_of se_id (vr_specialEntities r)
     \<and> index_of ar_fromInstanceId ar_id (vr_arrows r) (vr_arrowsBySource r)
     \<and> index_of ar_toInstanceId ar_id (vr_arrows r) (vr_arrowsByTarget r)
     \<and> index_of at_equipmentInstanceId at_id (vr_attachments r) (vr_attachmentsByEquipment r)
     \<and> index_of at_attachedToInstanceId at_id (vr_attachments r) (vr_attachmentsByTarget r)
     \<and> index_of bs_stackTopInstanceId bs_id (vr_battlefieldStacks r) (vr_battlefieldStacksByTop r)
     \<and> index_of bs_stackedInstanceId bs_id (vr_battlefieldStacks r) (vr_battlefieldStacksByCard r)"

definition stack_wf :: "v2_stack \<Rightarrow> bool" where
  "stack_wf st \<longleftrightarrow> wf_obj (vt_byId st) \<and> distinct (vt_order st)
     \<and> set (vt_order st) = fst ` set (vt_byId st)
     \<and> (\<forall>(k, item) \<in> set (vt_byId st). vk_stackId item = Some k \<and> stackItemId item = Some k)"

definition chat_wf :: "v2_chat \<Rightarrow> bool" where
  "chat_wf c \<longleftrightarrow> wf_obj (vh_byId c) \<and> distinct (vh_order c) \<and> length (vh_order c) \<le> 250
     \<and> set (vh_order c) \<subseteq> fst ` set (vh_byId c)"

definition log_wf :: "string comparator \<Rightarrow> v2_log \<Rightarrow> bool" where
  "log_wf coll l \<longleftrightarrow> table_of le_id (vl_byId l) \<and> distinct (vl_order l) \<and> length (vl_order l) \<le> 250
     \<and> set (vl_order l) = fst ` set (vl_byId l)
     \<and> js_sorted (key (obj_get (vl_byId l)) (compareLogEntries coll)) (vl_order l)"

definition players_wf :: "v2_player obj \<Rightarrow> bool" where
  "players_wf ps \<longleftrightarrow> wf_obj ps \<and> (\<forall>p \<in> snd ` set ps. vp_colorIdentity p \<noteq> None)"

definition zones_wf :: "v2_player obj \<Rightarrow> (string \<rightharpoonup> zone_map) \<Rightarrow> (string \<rightharpoonup> zone_count_map) \<Rightarrow> bool" where
  "zones_wf ps zones counts \<longleftrightarrow> dom zones = fst ` set ps \<and> dom counts = fst ` set ps
     \<and> (\<forall>zm \<in> ran zones. \<forall>z. distinct (zm z))"

definition v2_wf :: "string comparator \<Rightarrow> v2_state \<Rightarrow> bool" where
  "v2_wf coll s \<longleftrightarrow> players_wf (v2_players s) \<and> zones_wf (v2_players s) (v2_zones s) (v2_zoneCounts s)
     \<and> relations_wf (v2_relations s) \<and> stack_wf (v2_stack s) \<and> chat_wf (v2_chat s)
     \<and> log_wf coll (v2_log s)"

text \<open>An operation is well formed when the cards it brings are distinct.\<close>

definition incoming_id :: "incoming_card \<Rightarrow> string" where
  "incoming_id crd = (case crd of CompactCard i \<Rightarrow> vi_instanceId i | LegacyCard c \<Rightarrow> lp_instanceId c)"

definition zone_op_wf :: "v2_zone_op \<Rightarrow> bool" where
  "zone_op_wf op = (case op of
     CardsAdd _ _ _ cards _ \<Rightarrow> distinct (map incoming_id cards)
   | LibraryTopRevealed _ _ cards _ \<Rightarrow> distinct (map incoming_id cards)
   | LibraryTopViewed _ cards _ \<Rightarrow> distinct (map incoming_id cards)
   | LibraryRevealedSet _ cards _ _ \<Rightarrow> distinct (map incoming_id cards)
   | LibraryTopReordered _ ids \<Rightarrow> distinct ids
   | V2ZoneVisibleSet _ _ cards \<Rightarrow> distinct (map lp_instanceId cards)
   | _ \<Rightarrow> True)"

definition mulligan_op_wf :: "v2_mulligan_op \<Rightarrow> bool" where
  "mulligan_op_wf op = (case op of
     MulliganPrivateStateSet _ _ _ (Some hand) _ _ \<Rightarrow> distinct (map gc_instanceId hand)
   | MulliganHandReplacePrivate _ hand _ \<Rightarrow> distinct (map gc_instanceId hand)
   | _ \<Rightarrow> True)"

definition v2_op_wf :: "v2_op \<Rightarrow> bool" where
  "v2_op_wf op = (case op of V2ZoneOp zop \<Rightarrow> zone_op_wf zop | V2MulliganOp mop \<Rightarrow> mulligan_op_wf mop | _ \<Rightarrow> True)"

definition envelope_wf :: "patch_envelope \<Rightarrow> bool" where
  "envelope_wf patch = list_all (\<lambda>wire. v2_op_wf (normalizePatchOperation wire)) (pe_ops patch)"

section \<open>Tables\<close>

lemma table_of_iff:
  "table_of idOf ob \<longleftrightarrow> wf_obj ob \<and> (\<forall>k x. obj_get ob k = Some x \<longrightarrow> idOf x = k)"
  by (auto simp: table_of_def wf_obj_def dest: map_of_SomeD)

lemma table_of_get: "table_of idOf ob \<Longrightarrow> obj_get ob i = Some x \<Longrightarrow> idOf x = i"
  by (simp add: table_of_iff)

lemma table_of_set: "table_of idOf ob \<Longrightarrow> idOf x = k \<Longrightarrow> table_of idOf (obj_set k x ob)"
  by (simp add: table_of_iff)

section \<open>Building relations\<close>

lemma get_appendIndex:
  "or_default (obj_get (appendIndex k v index) k') [] =
     (let entry = or_default (obj_get index k') [] in
      if k' = k \<and> v \<notin> set entry then entry @ [v] else entry)"
  by (simp add: appendIndex_def Let_def)

lemma buildIndex_gen:
  assumes "\<And>k. distinct (or_default (obj_get index k) [])"
  shows "set (or_default (obj_get (foldl (\<lambda>index x. appendIndex (keyOf x) (idOf x) index) index xs) k) [])
       = set (or_default (obj_get index k) []) \<union> {idOf x | x. x \<in> set xs \<and> keyOf x = k}
     \<and> distinct (or_default (obj_get (foldl (\<lambda>index x. appendIndex (keyOf x) (idOf x) index) index xs) k) [])"
  using assms
proof (induction xs arbitrary: index)
  case Nil
  then show ?case by simp
next
  case (Cons x xs)
  let ?i = "appendIndex (keyOf x) (idOf x) index"
  have "distinct (or_default (obj_get ?i k) [])" for k
    using Cons.prems by (auto simp: get_appendIndex Let_def)
  note IH = Cons.IH [OF this]
  have "set (or_default (obj_get ?i k) []) =
      set (or_default (obj_get index k) []) \<union> (if keyOf x = k then {idOf x} else {})"
    by (auto simp: get_appendIndex Let_def)
  with IH show ?case by (auto split: if_splits)
qed

lemma set_keyById:
  assumes "distinct (map idOf xs)"
  shows "keyById idOf xs = map (\<lambda>x. (idOf x, x)) xs"
  unfolding keyById_def by (rule fromEntries_distinct) (simp add: assms comp_def)

lemma table_of_keyById: "distinct (map idOf xs) \<Longrightarrow> table_of idOf (keyById idOf xs)"
  by (auto simp: set_keyById table_of_def wf_obj_def comp_def)

lemma index_of_buildIndex:
  assumes "distinct (map idOf xs)"
  shows "index_of keyOf idOf (keyById idOf xs) (buildIndex keyOf idOf xs)"
proof -
  have "snd ` set (keyById idOf xs) = set xs" using assms by (force simp: set_keyById)
  moreover have "set (or_default (obj_get (buildIndex keyOf idOf xs) k) [])
      = {idOf x | x. x \<in> set xs \<and> keyOf x = k}
      \<and> distinct (or_default (obj_get (buildIndex keyOf idOf xs) k) [])" for k
    using buildIndex_gen [of "[]" keyOf idOf xs k] by (simp add: buildIndex_def)
  ultimately show ?thesis by (simp add: index_of_def)
qed

lemma createRelationsState_wf:
  assumes "distinct (map ar_id as)" and "distinct (map at_id ts)"
    and "distinct (map bs_id bs)" and "distinct (map se_id es)"
  shows "relations_wf (createRelationsState as ts bs es)"
  using assms
  by (simp add: relations_wf_def createRelationsState_def table_of_keyById index_of_buildIndex)

lemma distinct_ids_values:
  assumes "table_of idOf ob"
  shows "distinct (map idOf (objectValues ob))"
proof -
  have "map idOf (objectValues ob) = map fst (objectEntries ob)"
    using assms by (auto simp: objectValues_def table_of_def)
  then show ?thesis using assms by (metis distinct_objectKeys objectKeys_def table_of_def)
qed

lemma distinct_ids_replace:
  "distinct (map f xs) \<Longrightarrow> distinct (map f (filter (\<lambda>e. f e \<noteq> f x) xs @ [x]))"
  by (auto simp: distinct_map_filter)

lemma relations_values_distinct:
  assumes "relations_wf (v2_relations s)"
  shows "distinct (map ar_id (arrowsOf s))" "distinct (map at_id (attachmentsOfV2 s))"
    "distinct (map bs_id (stacksOf s))" "distinct (map se_id (entitiesOf s))"
  using assms
  by (auto simp: relations_wf_def arrowsOf_def attachmentsOfV2_def stacksOf_def entitiesOf_def
      intro: distinct_ids_values)

end
