(* ===== verification/V2Preserve.thy ===== *)
theory V2Preserve
  imports V2Activity
begin

text \<open>
  Every operation of a patch preserves the well-formedness of the normalized state, group by
  group in the order of \<^verbatim>\<open>V2Patch\<close>, and so do whole patches. The collections
  \<open>v2_frame\<close> and \<open>inv_defs\<close> hold the facts the groups share.
\<close>

named_theorems v2_frame \<open>players and zones after the updates of the store\<close>

section \<open>Players and zones\<close>

lemma players_wf_iff:
  "players_wf ps \<longleftrightarrow> wf_obj ps \<and> (\<forall>pid p. obj_get ps pid = Some p \<longrightarrow> vp_colorIdentity p \<noteq> None)"
  unfolding players_wf_def wf_obj_def
  by (metis (no_types, lifting) image_iff map_of_SomeD map_of_is_SomeI prod.collapse snd_conv)

lemma players_wf_set [v2_frame]:
  "players_wf ps \<Longrightarrow> vp_colorIdentity p \<noteq> None \<Longrightarrow> players_wf (obj_set pid p ps)"
  by (simp add: players_wf_iff)

lemma players_wf_get: "players_wf ps \<Longrightarrow> obj_get ps pid = Some p \<Longrightarrow> vp_colorIdentity p \<noteq> None"
  by (simp add: players_wf_iff)

lemma obj_get_key: "obj_get ps pid = Some p \<Longrightarrow> pid \<in> fst ` set ps"
  by (force dest: map_of_SomeD)

lemma zones_wf_player [v2_frame]:
  "zones_wf ps zones counts \<Longrightarrow> pid \<in> fst ` set ps \<Longrightarrow> zones_wf (obj_set pid p ps) zones counts"
  by (simp add: zones_wf_def insert_absorb)

lemma zones_wf_zone [v2_frame]:
  assumes "zones_wf ps zones counts" and "pid \<in> fst ` set ps" and "\<And>z. distinct (zm z)"
  shows "zones_wf ps (zones(pid \<mapsto> zm)) counts"
  using assms unfolding zones_wf_def by (auto simp: ran_def insert_absorb)

lemma zones_wf_count [v2_frame]:
  "zones_wf ps zones counts \<Longrightarrow> pid \<in> fst ` set ps \<Longrightarrow> zones_wf ps zones (counts(pid \<mapsto> n))"
  by (auto simp: zones_wf_def insert_absorb)

lemma zones_wf_key: "zones_wf ps zones counts \<Longrightarrow> zones pid = Some zm \<Longrightarrow> pid \<in> fst ` set ps"
  unfolding zones_wf_def by blast

lemma zones_wf_counts_key: "zones_wf ps zones counts \<Longrightarrow> counts pid = Some c \<Longrightarrow> pid \<in> fst ` set ps"
  unfolding zones_wf_def by blast

lemma zones_wf_distinct: "zones_wf ps zones counts \<Longrightarrow> zones pid = Some zm \<Longrightarrow> distinct (zm z)"
  unfolding zones_wf_def by (auto simp: ran_def)

text \<open>The part of the invariant that updates of players, zones and counts concern.\<close>

definition seats_wf :: "v2_state \<Rightarrow> bool" where
  "seats_wf s \<longleftrightarrow> players_wf (v2_players s) \<and> zones_wf (v2_players s) (v2_zones s) (v2_zoneCounts s)"

text \<open>The rest of the state, which those updates leave alone.\<close>

definition same_rest :: "v2_state \<Rightarrow> v2_state \<Rightarrow> bool" where
  "same_rest s t \<longleftrightarrow> v2_relations t = v2_relations s \<and> v2_stack t = v2_stack s
     \<and> v2_chat t = v2_chat s \<and> v2_log t = v2_log s"

lemma v2_wf_seats: "v2_wf coll s \<longleftrightarrow> seats_wf s \<and> relations_wf (v2_relations s)
    \<and> stack_wf (v2_stack s) \<and> chat_wf (v2_chat s) \<and> log_wf coll (v2_log s)"
  by (auto simp: v2_wf_def seats_wf_def)

lemma v2_wf_same_rest: "v2_wf coll s \<Longrightarrow> seats_wf t \<Longrightarrow> same_rest s t \<Longrightarrow> v2_wf coll t"
  by (simp add: v2_wf_seats same_rest_def)

lemma seats_wf_player:
  "seats_wf s \<Longrightarrow> obj_get (v2_players s) pid = Some p \<Longrightarrow> vp_colorIdentity p' = vp_colorIdentity p \<Longrightarrow>
     seats_wf (s\<lparr>v2_players := obj_set pid p' (v2_players s)\<rparr>)"
  unfolding seats_wf_def
  by (auto intro!: players_wf_set zones_wf_player dest: players_wf_get obj_get_key)

lemma updatePlayerV2_wf:
  assumes "updatePlayerV2 s pid f = V2Applied t" and "seats_wf s"
    and "\<And>p. vp_colorIdentity (f p) = vp_colorIdentity p"
  shows "seats_wf t \<and> same_rest s t"
  using assms
  by (auto simp: updatePlayerV2_def same_rest_def intro: seats_wf_player split: option.splits)

lemma rebase_players_wf:
  assumes "players_wf ps" and "zones_wf ps zones counts"
  shows "players_wf (rebaseHandRevealIndexesV2 ps pid removed)
       \<and> zones_wf (rebaseHandRevealIndexesV2 ps pid removed) zones counts"
  using assms players_wf_get [OF assms(1)] obj_get_key
  by (auto simp: rebaseHandRevealIndexesV2_def Let_def intro!: players_wf_set zones_wf_player
      split: option.splits)

lemma keys_rebase [simp]:
  "fst ` set (rebaseHandRevealIndexesV2 ps pid removed) = fst ` set ps"
  by (auto simp: rebaseHandRevealIndexesV2_def Let_def insert_absorb dest: obj_get_key split: option.splits)

section \<open>Cards and zones\<close>

lemma normalized_id [simp]:
  "vi_instanceId (fst (normalizeIncomingCard crd pid zone ops instances statics)) = incoming_id crd"
  by (cases crd)
    (auto simp: normalizeIncomingCard_def normalizeCompact_def normalizeInstance_def incoming_id_def
      instanceOfLegacy_def compactOfLegacy_def Let_def split: option.splits)

lemma addCardStep_ids:
  "snd (snd (foldl (addCardStep pid zone ops) acc cards)) = snd (snd acc) @ map incoming_id cards"
proof (induction cards arbitrary: acc)
  case Nil
  then show ?case by simp
next
  case (Cons c cards)
  obtain i st ids where acc: "acc = (i, st, ids)" by (cases acc)
  have "snd (snd (addCardStep pid zone ops acc c)) = ids @ [incoming_id c]"
    using normalized_id [of c pid zone ops i st]
    by (cases "normalizeIncomingCard c pid zone ops i st") (simp add: addCardStep_def acc Let_def)
  with Cons show ?case by (simp add: acc)
qed

lemma revealCardStep_ids:
  "snd (snd (foldl (revealCardStep pid ops) acc cards)) = snd (snd acc) @ map incoming_id cards"
proof (induction cards arbitrary: acc)
  case Nil
  then show ?case by simp
next
  case (Cons c cards)
  obtain i st ids where acc: "acc = (i, st, ids)" by (cases acc)
  have "snd (snd (revealCardStep pid ops acc c)) = ids @ [incoming_id c]"
    using normalized_id [of c pid Library ops i st]
    by (cases "normalizeIncomingCard c pid Library ops i st") (simp add: revealCardStep_def acc Let_def)
  with Cons show ?case by (simp add: acc)
qed

text \<open>Replacing one zone by a list without repetitions, and the counts, keeps the seats in order.\<close>

lemma seats_wf_zone:
  assumes "seats_wf s" and "v2_zones s pid = Some zm" and "distinct ids"
  shows "zones_wf (v2_players s) (setZone s pid zone ids) (v2_zoneCounts s)"
  using assms unfolding seats_wf_def setZone_def
  by (auto intro!: zones_wf_zone dest: zones_wf_key zones_wf_distinct)

lemma seats_wf_zone_player:
  assumes "seats_wf s" and "v2_zones s pid = Some zm" and "distinct ids"
    and "obj_get (v2_players s) pid = Some p" and "vp_colorIdentity p' = vp_colorIdentity p"
  shows "players_wf (obj_set pid p' (v2_players s))"
    "zones_wf (obj_set pid p' (v2_players s)) (setZone s pid zone ids) (v2_zoneCounts s)"
  using assms seats_wf_zone [OF assms(1,2,3), of zone] players_wf_get [OF _ assms(4)]
    obj_get_key [OF assms(4)]
  by (simp_all add: seats_wf_def players_wf_set zones_wf_player)

lemma zones_wf_setCount:
  assumes "zones_wf ps zones (v2_zoneCounts s)" and "v2_zoneCounts s pid = Some c"
  shows "zones_wf ps zones (setCount s pid zone n)"
  using assms unfolding setCount_def by (auto intro!: zones_wf_count dest: zones_wf_counts_key)

lemma seats_wf_zone_count:
  assumes "seats_wf s" and "v2_zones s pid = Some zm" and "v2_zoneCounts s pid = Some c" and "distinct ids"
  shows "zones_wf (v2_players s) (setZone s pid zone ids) (setCount s pid zone n)"
  using seats_wf_zone [OF assms(1,2,4)] assms(3) by (rule zones_wf_setCount)

lemma addCardsToZone_wf:
  assumes "addCardsToZone s pid zone cards index statics = V2Applied t" and "seats_wf s"
    and "distinct (map incoming_id cards)"
  shows "seats_wf t \<and> same_rest s t"
proof -
  obtain zm c where z: "v2_zones s pid = Some zm" and c: "v2_zoneCounts s pid = Some c"
    using assms(1) by (auto simp: addCardsToZone_def split: option.splits)
  obtain i st ids where f: "foldl (addCardStep pid zone statics) (v2_instances s, v2_staticCards s, []) cards = (i, st, ids)"
    using prod_cases3 by blast
  then have ids: "ids = map incoming_id cards"
    using addCardStep_ids [of pid zone statics "(v2_instances s, v2_staticCards s, [])" cards] by simp
  have "distinct (zm zone)" using assms(2) z by (auto simp: seats_wf_def dest: zones_wf_distinct)
  then have "distinct (insertAt (removeIds (zm zone) ids) k ids)" for k
    using assms(3) by (auto simp: ids)
  with seats_wf_zone_count [OF assms(2) z c] assms(1,2) show ?thesis
    by (auto simp: addCardsToZone_def z c f Let_def seats_wf_def same_rest_def)
qed

lemma removeCardsFromZone_wf:
  assumes "removeCardsFromZone s pid zone ids indexes = V2Applied t" and "seats_wf s"
  shows "seats_wf t \<and> same_rest s t"
proof -
  obtain zm c where z: "v2_zones s pid = Some zm" and c: "v2_zoneCounts s pid = Some c"
    using assms(1) by (auto simp: removeCardsFromZone_def split: option.splits)
  have "distinct (zm zone)" using assms(2) z by (auto simp: seats_wf_def dest: zones_wf_distinct)
  then have "distinct (removeIds (zm zone) r)" for r by simp
  then have zc: "zones_wf (v2_players s) (setZone s pid zone (removeIds (zm zone) r)) (setCount s pid zone n)" for r n
    by (rule seats_wf_zone_count [OF assms(2) z c])
  have "players_wf (v2_players s)" using assms(2) by (simp add: seats_wf_def)
  note rebased = rebase_players_wf [OF this zc]
  show ?thesis
    using assms(1) rebased by (auto simp: removeCardsFromZone_def z c Let_def seats_wf_def same_rest_def)
qed

lemma nextSourceZone_distinct: "distinct xs \<Longrightarrow> distinct (nextSourceZone mv xs)"
  by (simp add: nextSourceZone_def)

lemma nextTargetZone_distinct: "distinct xs \<Longrightarrow> distinct ys \<Longrightarrow> distinct (nextTargetZone mv xs ys)"
  by (auto simp: nextTargetZone_def)

lemma movedMaps_all:
  assumes "movedMaps mv source target f g = (f', g')" and "P source" and "P target"
    and "\<And>z. P (f z)" and "\<And>z. P (g z)"
  shows "P (f' z)" "P (g' z)"
  using assms by (auto simp: movedMaps_def Let_def split: if_splits)

lemma movedPlayers_wf:
  assumes "players_wf ps" and "zones_wf ps zones counts"
  shows "players_wf (movedPlayers mv xs ps) \<and> zones_wf (movedPlayers mv xs ps) zones counts"
  using assms rebase_players_wf [OF assms] by (simp add: movedPlayers_def split: option.split)

lemma keys_movedPlayers [simp]: "fst ` set (movedPlayers mv xs ps) = fst ` set ps"
  by (simp add: movedPlayers_def split: option.split)

text \<open>What a successful move found and made.\<close>

lemma moveOneCard_applied:
  assumes "moveOneCard s mv = V2Applied t"
  obtains fz tz fc tc inst st fz' tz' fc' tc' where
    "v2_zones s (cmv_fromPlayer mv) = Some fz" "v2_zones s (cmv_toPlayer mv) = Some tz"
    "v2_zoneCounts s (cmv_fromPlayer mv) = Some fc" "v2_zoneCounts s (cmv_toPlayer mv) = Some tc"
    "cmv_instanceId mv \<in> set (fz (cmv_fromZone mv)) \<union> set (tz (cmv_toZone mv))"
    "movedInstance s mv = Some (inst, st)"
    "movedMaps mv (nextSourceZone mv (fz (cmv_fromZone mv)))
       (nextTargetZone mv (fz (cmv_fromZone mv)) (tz (cmv_toZone mv))) fz tz = (fz', tz')"
    "t = s\<lparr>v2_instances := (v2_instances s)(cmv_instanceId mv \<mapsto> inst), v2_staticCards := st,
       v2_players := movedPlayers mv (fz (cmv_fromZone mv)) (v2_players s),
       v2_zones := (v2_zones s)(cmv_fromPlayer mv \<mapsto> fz', cmv_toPlayer mv \<mapsto> tz'),
       v2_zoneCounts := (v2_zoneCounts s)(cmv_fromPlayer mv \<mapsto> fc', cmv_toPlayer mv \<mapsto> tc')\<rparr>"
  using assms unfolding moveOneCard_def Let_def
  by (auto split: option.splits if_splits prod.splits)

lemma moveOneCard_wf:
  assumes m: "moveOneCard s mv = V2Applied t" and w: "seats_wf s"
  shows "seats_wf t \<and> same_rest s t"
proof -
  from m obtain fz tz fc tc inst st fz' tz' fc' tc' where
    z: "v2_zones s (cmv_fromPlayer mv) = Some fz" "v2_zones s (cmv_toPlayer mv) = Some tz"
    and maps: "movedMaps mv (nextSourceZone mv (fz (cmv_fromZone mv)))
       (nextTargetZone mv (fz (cmv_fromZone mv)) (tz (cmv_toZone mv))) fz tz = (fz', tz')"
    and t: "t = s\<lparr>v2_instances := (v2_instances s)(cmv_instanceId mv \<mapsto> inst), v2_staticCards := st,
       v2_players := movedPlayers mv (fz (cmv_fromZone mv)) (v2_players s),
       v2_zones := (v2_zones s)(cmv_fromPlayer mv \<mapsto> fz', cmv_toPlayer mv \<mapsto> tz'),
       v2_zoneCounts := (v2_zoneCounts s)(cmv_fromPlayer mv \<mapsto> fc', cmv_toPlayer mv \<mapsto> tc')\<rparr>"
    by (rule moveOneCard_applied)
  have pw: "players_wf (v2_players s)" "zones_wf (v2_players s) (v2_zones s) (v2_zoneCounts s)"
    using w by (simp_all add: seats_wf_def)
  have dz: "distinct (fz z)" "distinct (tz z)" for z
    using pw(2) z by (auto dest: zones_wf_distinct)
  have d: "distinct (fz' z)" "distinct (tz' z)" for z
    using movedMaps_all [OF maps, of distinct z] dz
    by (simp_all add: nextSourceZone_distinct nextTargetZone_distinct)
  have keys: "cmv_fromPlayer mv \<in> fst ` set (v2_players s)" "cmv_toPlayer mv \<in> fst ` set (v2_players s)"
    using pw(2) z by (auto dest: zones_wf_key)
  have "players_wf (movedPlayers mv xs (v2_players s))"
    "zones_wf (movedPlayers mv xs (v2_players s)) (v2_zones s) (v2_zoneCounts s)" for xs
    using movedPlayers_wf [OF pw] by simp_all
  then show ?thesis
    using d keys unfolding t seats_wf_def same_rest_def
    by (simp add: zones_wf_count zones_wf_zone)
qed


section \<open>Counts, reordering and libraries\<close>

lemma same_rest_refl [simp]: "same_rest s s"
  by (simp add: same_rest_def)

lemma same_rest_trans: "same_rest s t \<Longrightarrow> same_rest t u \<Longrightarrow> same_rest s u"
  by (simp add: same_rest_def)

lemma setZoneCount_wf:
  assumes "setZoneCount s pid zone n = V2Applied t" and "seats_wf s"
  shows "seats_wf t \<and> same_rest s t"
  using assms
  by (auto simp: setZoneCount_def seats_wf_def same_rest_def intro: zones_wf_setCount split: option.splits)

lemma reorderZoneByIds_wf:
  assumes "reorderZoneByIds s pid zone ids = V2Applied t" and w: "seats_wf s"
  shows "seats_wf t \<and> same_rest s t"
proof -
  obtain zm where z: "v2_zones s pid = Some zm" and same: "sameStringSet (zm zone) ids"
    and t: "t = s\<lparr>v2_zones := setZone s pid zone ids\<rparr>"
    using assms(1) by (auto simp: reorderZoneByIds_def split: option.splits if_splits)
  have "distinct (zm zone)" using w z by (auto simp: seats_wf_def dest: zones_wf_distinct)
  with same have "distinct ids" by (metis mset_eq_imp_distinct_iff sameStringSet_iff)
  from seats_wf_zone [OF w z this] w show ?thesis by (simp add: t seats_wf_def same_rest_def)
qed

lemma distinct_to_front: "distinct xs \<Longrightarrow> distinct ys \<Longrightarrow> distinct (xs @ filter (\<lambda>i. i \<notin> set xs) ys)"
  by auto

lemma revealLibraryTop_wf:
  assumes r: "revealLibraryTop s pid cards statics epoch = V2Applied t" and w: "seats_wf s"
    and d: "distinct (map incoming_id cards)"
  shows "seats_wf t \<and> same_rest s t"
proof -
  obtain zm where z: "v2_zones s pid = Some zm"
    using r by (auto simp: revealLibraryTop_def split: option.splits)
  obtain i st ids where f: "foldl (revealCardStep pid statics) (v2_instances s, v2_staticCards s, []) cards = (i, st, ids)"
    using prod_cases3 by blast
  then have ids: "ids = map incoming_id cards"
    using revealCardStep_ids [of pid statics "(v2_instances s, v2_staticCards s, [])" cards] by simp
  have "distinct (zm Library)" using w z by (auto simp: seats_wf_def dest: zones_wf_distinct)
  with d have "distinct (ids @ filter (\<lambda>i. i \<notin> set ids) (zm Library))"
    unfolding ids by (rule distinct_to_front)
  note zw = seats_wf_zone [OF w z this, of Library] seats_wf_zone_player [OF w z this]
  have "pid \<in> fst ` set (v2_players s)" using w z by (auto simp: seats_wf_def dest: zones_wf_key)
  then obtain p where p: "obj_get (v2_players s) pid = Some p"
    by (metis map_of_eq_None_iff not_None_eq)
  from r zw w show ?thesis
    by (auto simp: revealLibraryTop_def z f Let_def p seats_wf_def same_rest_def split: option.splits)
qed

lemma reorderLibraryTop_wf:
  assumes r: "reorderLibraryTop s pid ids = V2Applied t" and w: "seats_wf s" and d: "distinct ids"
  shows "seats_wf t \<and> same_rest s t"
proof -
  obtain zm where z: "v2_zones s pid = Some zm"
    using r by (auto simp: reorderLibraryTop_def split: option.splits)
  have "distinct (zm Library)" using w z by (auto simp: seats_wf_def dest: zones_wf_distinct)
  then have "distinct (filter (\<lambda>i. i \<in> set (zm Library)) ids
      @ filter (\<lambda>i. i \<notin> set (filter (\<lambda>i. i \<in> set (zm Library)) ids)) (zm Library))"
    using d by (intro distinct_to_front) simp_all
  from seats_wf_zone [OF w z this, of Library] r w show ?thesis
    by (auto simp: reorderLibraryTop_def z Let_def seats_wf_def same_rest_def split: if_splits)
qed

lemma clearKnownLibraryOrder_wf:
  assumes r: "clearKnownLibraryOrder s pid epoch = V2Applied t" and w: "seats_wf s"
  shows "seats_wf t \<and> same_rest s t"
proof -
  obtain zm where z: "v2_zones s pid = Some zm"
    using r by (auto simp: clearKnownLibraryOrder_def split: option.splits)
  have "distinct (zm Library)" using w z by (auto simp: seats_wf_def dest: zones_wf_distinct)
  then have "distinct (take 1 (zm Library))" by (rule distinct_take)
  then have d: "distinct (if b then take 1 (zm Library) else [])" for b by simp
  obtain b where t: "t = s\<lparr>v2_zones := setZone s pid Library (if b then take 1 (zm Library) else []),
      v2_players := (case obj_get (v2_players s) pid of
          None \<Rightarrow> v2_players s
        | Some p \<Rightarrow> obj_set pid (p\<lparr>vp_libraryTopRevealEpoch :=
            (if b then vp_libraryTopRevealEpoch p else None)\<rparr>) (v2_players s))\<rparr>"
    using r by (simp add: clearKnownLibraryOrder_def z Let_def) blast
  show ?thesis
  proof (cases "obj_get (v2_players s) pid")
    case None
    with seats_wf_zone [OF w z d] w show ?thesis by (simp add: t seats_wf_def same_rest_def)
  next
    case (Some p)
    with seats_wf_zone_player [OF w z d Some] show ?thesis by (simp add: t seats_wf_def same_rest_def)
  qed
qed

lemma revealLibraryTo_wf:
  assumes r: "revealLibraryTo s pid cards statics audience = V2Applied t" and w: "seats_wf s"
    and d: "distinct (map incoming_id cards)"
  shows "seats_wf t \<and> same_rest s t"
proof -
  obtain u where u: "revealLibraryTop s pid cards statics None = V2Applied u"
    using r by (auto simp: revealLibraryTo_def split: v2_op_result.splits)
  from revealLibraryTop_wf [OF this w d] have uw: "seats_wf u" "same_rest s u" by simp_all
  from r show ?thesis
    using uw seats_wf_player [OF uw(1)]
    by (auto simp: revealLibraryTo_def u same_rest_def split: option.splits)
qed

section \<open>Loops\<close>

lemma v2_then_applied:
  "v2_then r f = V2Applied t \<longleftrightarrow> (\<exists>s. r = V2Applied s \<and> f s = V2Applied t)"
  by (cases r) (auto simp: v2_then_def)

lemma applyEach_induct:
  assumes "applyEach f s xs = V2Applied t" and "P s"
    and "\<And>s x t. x \<in> set xs \<Longrightarrow> P s \<Longrightarrow> f s x = V2Applied t \<Longrightarrow> P t"
  shows "P t"
  using assms
proof (induction xs arbitrary: s)
  case Nil
  then show ?case by simp
next
  case (Cons x xs)
  from Cons.prems(1) obtain u where u: "f s x = V2Applied u" and rest: "applyEach f u xs = V2Applied t"
    by (auto simp: v2_then_applied)
  have "P u" by (rule Cons.prems(3) [OF _ Cons.prems(2) u]) simp
  from Cons.IH [OF rest this] Cons.prems(3) show ?case by (meson list.set_intros(2))
qed

lemma seats_step:
  assumes "seats_wf t \<and> same_rest s t" and "v2_wf coll s"
  shows "v2_wf coll t"
  using assms by (blast intro: v2_wf_same_rest)

lemma v2_wf_seats_wf: "v2_wf coll s \<Longrightarrow> seats_wf s"
  by (simp add: v2_wf_seats)

lemma setZoneCounts_wf:
  assumes "setZoneCounts s pid counts = V2Applied t" and "v2_wf coll s"
  shows "v2_wf coll t"
proof -
  have "applyEach (\<lambda>t zone. case counts zone of None \<Rightarrow> V2Applied t | Some n \<Rightarrow> setZoneCount t pid zone n)
      s ZONE_NAMES = V2Applied t"
    using assms(1) by (simp add: setZoneCounts_def)
  then show ?thesis
  proof (rule applyEach_induct [where P = "v2_wf coll"])
    show "v2_wf coll s" by (rule assms(2))
  next
    fix u z v
    assume u: "v2_wf coll u" and "(case counts z of None \<Rightarrow> V2Applied u | Some n \<Rightarrow> setZoneCount u pid z n) = V2Applied v"
    then show "v2_wf coll v"
      by (cases "counts z") (auto intro: seats_step [OF setZoneCount_wf [OF _ v2_wf_seats_wf [OF u]] u])
  qed
qed

lemma applyZoneOpV2_wf:
  assumes "applyZoneOpV2 s op = V2Applied t" and w: "v2_wf coll s" and o: "zone_op_wf op"
  shows "v2_wf coll t"
proof -
  note sw = v2_wf_seats_wf [OF w]
  have batch: "v2_wf coll t" if "applyEach moveOneCard s moves = V2Applied t" for moves
    using that w
  proof (rule applyEach_induct)
    fix u mv v
    assume u: "v2_wf coll u" and "moveOneCard u mv = V2Applied v"
    from seats_step [OF moveOneCard_wf [OF this(2) v2_wf_seats_wf [OF u]] u] show "v2_wf coll v" .
  qed
  show ?thesis
  proof (cases op)
    case (CardsAdd pid zone index cards statics)
    with assms show ?thesis
      by (auto simp: applyZoneOpV2_def zone_op_wf_def intro: seats_step [OF addCardsToZone_wf [OF _ sw] w])
  next
    case (CardsRemove pid zone ids indexes)
    with assms show ?thesis
      by (auto simp: applyZoneOpV2_def intro: seats_step [OF removeCardsFromZone_wf [OF _ sw] w])
  next
    case (CardsMove mv)
    with assms show ?thesis by (auto simp: applyZoneOpV2_def intro: seats_step [OF moveOneCard_wf [OF _ sw] w])
  next
    case (CardsBatchMove moves)
    with assms batch show ?thesis by (simp add: applyZoneOpV2_def)
  next
    case (ZoneCountSet pid zone n)
    with assms show ?thesis by (auto simp: applyZoneOpV2_def intro: seats_step [OF setZoneCount_wf [OF _ sw] w])
  next
    case (ZoneReordered pid zone ids)
    with assms show ?thesis by (auto simp: applyZoneOpV2_def intro: seats_step [OF reorderZoneByIds_wf [OF _ sw] w])
  next
    case (RandomCardSelected pid zone)
    with assms show ?thesis by (simp add: applyZoneOpV2_def)
  next
    case (LibraryCountSet pid n)
    with assms show ?thesis by (auto simp: applyZoneOpV2_def intro: seats_step [OF setZoneCount_wf [OF _ sw] w])
  next
    case (LibraryTopRevealed pid epoch cards statics)
    with assms show ?thesis
      by (auto simp: applyZoneOpV2_def zone_op_wf_def intro: seats_step [OF revealLibraryTop_wf [OF _ sw] w])
  next
    case (LibraryTopViewed pid cards statics)
    with assms show ?thesis
      by (auto simp: applyZoneOpV2_def zone_op_wf_def intro: seats_step [OF revealLibraryTop_wf [OF _ sw] w])
  next
    case (LibraryRevealedSet pid cards statics audience)
    with assms show ?thesis
      by (auto simp: applyZoneOpV2_def zone_op_wf_def intro: seats_step [OF revealLibraryTo_wf [OF _ sw] w])
  next
    case (LibraryTopHidden pid)
    with assms show ?thesis
      by (auto simp: applyZoneOpV2_def intro: seats_step [OF clearKnownLibraryOrder_wf [OF _ sw] w])
  next
    case (LibraryTopReordered pid ids)
    with assms show ?thesis
      by (auto simp: applyZoneOpV2_def zone_op_wf_def intro: seats_step [OF reorderLibraryTop_wf [OF _ sw] w])
  next
    case (LibraryTopMoved pid)
    with assms show ?thesis
      by (auto simp: applyZoneOpV2_def intro: seats_step [OF clearKnownLibraryOrder_wf [OF _ sw] w])
  next
    case (LibraryShuffled pid epoch)
    with assms show ?thesis
      by (auto simp: applyZoneOpV2_def intro: seats_step [OF clearKnownLibraryOrder_wf [OF _ sw] w])
  next
    case (V2ZoneCountsSet pid counts)
    with assms show ?thesis by (auto simp: applyZoneOpV2_def intro: setZoneCounts_wf)
  next
    case (V2ZoneVisibleSet pid zone cards)
    have "distinct (map incoming_id (map LegacyCard cards))"
      using o V2ZoneVisibleSet by (simp add: zone_op_wf_def incoming_id_def comp_def)
    with V2ZoneVisibleSet assms show ?thesis
      by (auto simp: applyZoneOpV2_def split: if_splits intro: seats_step [OF revealLibraryTop_wf [OF _ sw] w])
  next
    case (V2CardMove mv)
    with assms show ?thesis by (auto simp: applyZoneOpV2_def intro: seats_step [OF moveOneCard_wf [OF _ sw] w])
  next
    case (V2CardRemove pid zone iid)
    with assms show ?thesis
      by (auto simp: applyZoneOpV2_def intro: seats_step [OF removeCardsFromZone_wf [OF _ sw] w])
  qed
qed


section \<open>Players, cards and mulligans\<close>

lemma applyPlayerOpV2_wf:
  assumes "applyPlayerOpV2 s op = V2Applied t" and "v2_wf coll s"
  shows "v2_wf coll t"
  using assms
  by (cases op)
    (auto simp: applyPlayerOpV2_def setPlayerLibraryVisibility_def setPlayTopLibraryRevealed_def
      intro: seats_step [OF updatePlayerV2_wf [OF _ v2_wf_seats_wf]])

lemma updateInstanceAtZone_wf:
  "updateInstanceAtZone s pid zone iid f = V2Applied t \<Longrightarrow> v2_wf coll s \<Longrightarrow> v2_wf coll t"
  by (auto simp: updateInstanceAtZone_def Let_def v2_wf_def split: option.splits if_splits)

lemma cardFieldSet_wf:
  assumes "cardFieldSet s pid zone iid f = V2Applied t" and "v2_wf coll s"
  shows "v2_wf coll t"
proof -
  obtain u where u: "updateInstanceAtZone s pid zone iid (applyFieldSet f) = V2Applied u"
    and t: "t = u\<lparr>v2_staticCards := storeStaticCard (fs_staticCard f) (v2_staticCards u)\<rparr>"
    using assms(1) by (auto simp: cardFieldSet_def v2_then_applied)
  from updateInstanceAtZone_wf [OF u assms(2)] show ?thesis by (simp add: t v2_wf_def)
qed

lemma applyCardOpV2_wf:
  assumes "applyCardOpV2 s op = V2Applied t" and "v2_wf coll s"
  shows "v2_wf coll t"
  using assms
  by (cases op) (auto simp: applyCardOpV2_def cardCountersPatch_def
      intro: cardFieldSet_wf updateInstanceAtZone_wf)

lemma setMulliganHandCount_wf:
  assumes "setMulliganHandCount s pid n = V2Applied t" and "v2_wf coll s"
  shows "v2_wf coll t"
proof -
  obtain p c where p: "obj_get (v2_players s) pid = Some p" and c: "v2_zoneCounts s pid = Some c"
    and t: "t = s\<lparr>v2_players := obj_set pid (setHandCount n p) (v2_players s), v2_zoneCounts := setCount s pid Hand n\<rparr>"
    using assms(1) by (auto simp: setMulliganHandCount_def split: option.splits)
  have "seats_wf (s\<lparr>v2_players := obj_set pid (setHandCount n p) (v2_players s)\<rparr>)"
    by (rule seats_wf_player [OF v2_wf_seats_wf [OF assms(2)] p]) (simp add: setHandCount_def)
  then have "seats_wf t \<and> same_rest s t"
    using c by (auto simp: t seats_wf_def same_rest_def intro: zones_wf_setCount)
  then show ?thesis by (rule seats_step [OF _ assms(2)])
qed

lemma replacePrivateMulliganHand_wf:
  assumes r: "replacePrivateMulliganHand s pid hand statics = V2Applied t" and w: "v2_wf coll s"
    and d: "distinct (map gc_instanceId hand)"
  shows "v2_wf coll t"
proof -
  obtain zm c p where z: "v2_zones s pid = Some zm" and c: "v2_zoneCounts s pid = Some c"
    and p: "obj_get (v2_players s) pid = Some p"
    using r by (auto simp: replacePrivateMulliganHand_def split: option.splits)
  have col: "vp_colorIdentity (setHandCount n p) = vp_colorIdentity p" for n by (simp add: setHandCount_def)
  note zw = seats_wf_zone_player [OF v2_wf_seats_wf [OF w] z d p col]
  have "seats_wf t \<and> same_rest s t"
    using r zw(1) zones_wf_setCount [OF zw(2) c]
    by (auto simp: replacePrivateMulliganHand_def z c p Let_def seats_wf_def same_rest_def
        split: prod.splits)
  then show ?thesis by (rule seats_step [OF _ w])
qed

lemma updatePlayerV2_v2_wf:
  assumes "updatePlayerV2 s pid f = V2Applied t" and "v2_wf coll s"
    and "\<And>p. vp_colorIdentity (f p) = vp_colorIdentity p"
  shows "v2_wf coll t"
  using updatePlayerV2_wf [OF assms(1) v2_wf_seats_wf [OF assms(2)] assms(3)] assms(2) by (rule seats_step)

lemma applyMulliganOpV2_wf:
  assumes "applyMulliganOpV2 s op = V2Applied t" and "v2_wf coll s" and "mulligan_op_wf op"
  shows "v2_wf coll t"
  using assms
proof (cases op)
  case MulliganCompleted
  with assms show ?thesis by (auto simp: applyMulliganOpV2_def v2_wf_def)
next
  case (MulliganStatusSet pid status ready handCount taken effective)
  with assms show ?thesis
    by (auto simp: applyMulliganOpV2_def v2_then_applied elim!: updatePlayerV2_v2_wf
        intro: setMulliganHandCount_wf split: option.splits)
next
  case (MulliganPrivateStateSet pid st own hand scryCard statics)
  with assms show ?thesis
    by (auto simp: applyMulliganOpV2_def v2_then_applied Let_def mulligan_op_wf_def
        elim!: updatePlayerV2_v2_wf replacePrivateMulliganHand_wf split: option.splits)
qed (auto simp: applyMulliganOpV2_def mulligan_op_wf_def
    intro: setMulliganHandCount_wf replacePrivateMulliganHand_wf updatePlayerV2_v2_wf)

section \<open>Stack, relations, chat, log and the game\<close>

lemma stackItemId_stored: "stackItemId item = Some i \<Longrightarrow> stackItemId (item\<lparr>vk_stackId := Some i, vk_id := Some i\<rparr>) = Some i"
  by (auto simp: stackItemId_def Let_def split: if_splits)

lemma stack_entries_iff:
  "wf_obj byId \<Longrightarrow> (\<forall>(k, item) \<in> set byId. P k item) \<longleftrightarrow> (\<forall>k item. obj_get byId k = Some item \<longrightarrow> P k item)"
  by (auto simp: wf_obj_def dest: map_of_SomeD)

lemma stack_wf_store:
  assumes "stack_wf st" and "stackItemId item = Some i"
  shows "stack_wf \<lparr>vt_byId = storeStackItem item i (vt_byId st),
     vt_order = (if i \<in> set (vt_order st) then vt_order st else vt_order st @ [i])\<rparr>"
  using assms stackItemId_stored [OF assms(2)]
  by (auto simp: stack_wf_def storeStackItem_def stack_entries_iff insert_absorb)

lemma stack_wf_remove:
  assumes "stack_wf st"
  shows "stack_wf \<lparr>vt_byId = omitKey (vt_byId st) i, vt_order = filter (\<lambda>j. j \<noteq> i) (vt_order st)\<rparr>"
  using assms by (auto simp: stack_wf_def omitKey_def)

lemma upsertChatMessage_wf:
  assumes "upsertChatMessage coll s m missing = V2Applied t" and "v2_wf coll s"
  shows "v2_wf coll t"
  using assms mergeChatMessages_wf [of "v2_chat s" 250 coll "[m]" KeepNewest]
  by (auto simp: upsertChatMessage_def Let_def v2_wf_def chat_wf_def split: if_splits)

lemma relations_step:
  assumes "v2_wf coll s" and "distinct (map ar_id as)" and "distinct (map at_id ts)"
    and "distinct (map bs_id bs)" and "distinct (map se_id es)"
  shows "v2_wf coll (s\<lparr>v2_relations := createRelationsState as ts bs es\<rparr>)"
  using assms(1) createRelationsState_wf [OF assms(2-5)] by (simp add: v2_wf_def)

lemma relations_values:
  assumes "v2_wf coll s"
  shows "distinct (map ar_id (arrowsOf s))" "distinct (map at_id (attachmentsOfV2 s))"
    "distinct (map bs_id (stacksOf s))" "distinct (map se_id (entitiesOf s))"
  using relations_values_distinct [of s] assms by (simp_all add: v2_wf_def)

lemma addRelation_wf: "addRelation s rel = V2Applied t \<Longrightarrow> v2_wf coll s \<Longrightarrow> v2_wf coll t"
  using relations_values [of coll s]
  by (cases rel) (auto simp: addRelation_def distinct_map_filter intro!: relations_step)

lemma removeRelation_wf: "removeRelation s kind i = V2Applied t \<Longrightarrow> v2_wf coll s \<Longrightarrow> v2_wf coll t"
  using relations_values [of coll s]
  by (cases kind) (auto simp: removeRelation_def distinct_map_filter intro!: relations_step)

lemma upsertHelper_wf: "upsertHelper s e = V2Applied t \<Longrightarrow> v2_wf coll s \<Longrightarrow> v2_wf coll t"
  using relations_values [of coll s]
  by (auto simp: upsertHelper_def distinct_map_filter intro!: relations_step)

lemma removeHelper_wf: "removeHelper s i = V2Applied t \<Longrightarrow> v2_wf coll s \<Longrightarrow> v2_wf coll t"
  using relations_values [of coll s]
  by (auto simp: removeHelper_def distinct_map_filter intro!: relations_step)

lemma addStackItemV2_wf:
  assumes "addStackItemV2 s item = V2Applied t" and "v2_wf coll s"
  shows "v2_wf coll t"
proof -
  obtain i where i: "stackItemId item = Some i"
    using assms(1) by (auto simp: addStackItemV2_def split: option.splits)
  have "stack_wf (v2_stack s)" using assms(2) by (simp add: v2_wf_def)
  from stack_wf_store [OF this i] assms show ?thesis by (auto simp: addStackItemV2_def i v2_wf_def)
qed

lemma removeStackItemV2_wf:
  assumes "removeStackItemV2 s i = V2Applied t" and "v2_wf coll s"
  shows "v2_wf coll t"
  using assms stack_wf_remove [of "v2_stack s" i]
  by (auto simp: removeStackItemV2_def v2_wf_def split: if_splits)

lemma setChatReactions_wf:
  assumes "setChatReactions s i reactions = V2Applied t" and "v2_wf coll s"
  shows "v2_wf coll t"
  using assms by (auto simp: setChatReactions_def v2_wf_def chat_wf_def split: option.splits)

lemma appendEventLogEntries_wf:
  assumes "appendEventLogEntries coll s es = V2Applied t" and "v2_wf coll s"
  shows "v2_wf coll t"
proof -
  have "log_wf coll (mergeLogEntries coll (v2_log s) es 250 KeepNewest)"
    using assms(2) by (intro mergeLogEntries_wf) (simp_all add: v2_wf_def log_wf_def)
  with assms show ?thesis by (auto simp: appendEventLogEntries_def v2_wf_def)
qed

lemma chatAppend_wf:
  assumes "applyEach (\<lambda>t m. upsertChatMessage coll t m True) s ms = V2Applied t" and "v2_wf coll s"
  shows "v2_wf coll t"
  using assms by (rule applyEach_induct) (rule upsertChatMessage_wf)

lemmas table_steps_wf = relations_step addRelation_wf removeRelation_wf upsertHelper_wf removeHelper_wf
  addStackItemV2_wf removeStackItemV2_wf setChatReactions_wf appendEventLogEntries_wf chatAppend_wf
  upsertChatMessage_wf

lemma applyTableOpV2_wf:
  assumes "applyTableOpV2 coll s op = V2Applied t" and "v2_wf coll s"
  shows "v2_wf coll t"
  using assms by (cases op) (auto simp: applyTableOpV2_def intro: table_steps_wf)

lemma applyGameOpV2_wf: "applyGameOpV2 s op = V2Applied t \<Longrightarrow> v2_wf coll s \<Longrightarrow> v2_wf coll t"
  by (cases op) (auto simp: applyGameOpV2_def v2_wf_def)

section \<open>Patches\<close>

lemma applyOperationV2_wf:
  assumes "applyOperationV2 coll s op = V2Applied t" and "v2_wf coll s" and "v2_op_wf op"
  shows "v2_wf coll t"
  using assms
  by (cases op) (auto simp: applyOperationV2_def v2_op_wf_def
      intro: applyPlayerOpV2_wf applyCardOpV2_wf applyZoneOpV2_wf applyTableOpV2_wf
        applyMulliganOpV2_wf applyGameOpV2_wf)

lemma dom_restore:
  "dom (foldl (\<lambda>m (pid, zone, n). case m pid of None \<Rightarrow> m | Some c \<Rightarrow> m(pid \<mapsto> c(zone := n))) counts xs) = dom counts"
  by (induction xs arbitrary: counts) (auto split: option.splits if_splits)

lemma restore_wf: "v2_wf coll s \<Longrightarrow> v2_wf coll (restoreZoneCountsForTargets s counts)"
  by (simp add: restoreZoneCountsForTargets_def v2_wf_def zones_wf_def dom_restore)

lemma preserving_wf:
  assumes "applyOperationPreservingZoneCounts coll s op targets = V2Applied t" and "v2_wf coll s" and "v2_op_wf op"
  shows "v2_wf coll t"
  using assms
  by (auto simp: applyOperationPreservingZoneCounts_def Let_def v2_then_applied
      intro: restore_wf applyOperationV2_wf)

lemma applySameVersionOperation_wf:
  assumes "applySameVersionOperation coll s op = V2Applied t" and "v2_wf coll s" and "v2_op_wf op"
  shows "v2_wf coll t"
proof -
  have "applyOperationV2 coll s op = V2Applied t
      \<or> (\<exists>targets. applyOperationPreservingZoneCounts coll s op targets = V2Applied t)"
    using assms(1) unfolding applySameVersionOperation_def
    by (auto split: v2_op.splits v2_zone_op.splits)
  with assms show ?thesis by (auto intro: applyOperationV2_wf preserving_wf)
qed

lemma players_wf_record:
  assumes "players_wf ps" and "zones_wf ps zones counts"
  shows "players_wf (foldl (recordShuffle v) ps ids) \<and> zones_wf (foldl (recordShuffle v) ps ids) zones counts"
  using assms
proof (induction ids arbitrary: ps)
  case Nil
  then show ?case by simp
next
  case (Cons i ids)
  have "players_wf (recordShuffle v ps i) \<and> zones_wf (recordShuffle v ps i) zones counts"
    using Cons.prems players_wf_get [OF Cons.prems(1)] obj_get_key
    by (auto simp: recordShuffle_def intro!: players_wf_set zones_wf_player split: option.splits)
  with Cons.IH show ?case by simp
qed

lemma record_wf: "v2_wf coll s \<Longrightarrow> v2_wf coll (recordLibraryShuffleRevisions s ops v)"
  using players_wf_record [of "v2_players s" "v2_zones s" "v2_zoneCounts s" v]
  by (simp add: recordLibraryShuffleRevisions_def Let_def v2_wf_def)

text \<open>The operations of a patch in turn, normally or within a version.\<close>

lemma applyEach_wf:
  assumes "applyEach f s ops = V2Applied t" and "v2_wf coll s" and "list_all v2_op_wf ops"
    and "\<And>s op t. f s op = V2Applied t \<Longrightarrow> v2_wf coll s \<Longrightarrow> v2_op_wf op \<Longrightarrow> v2_wf coll t"
  shows "v2_wf coll t"
  using assms(1,2) by (rule applyEach_induct) (use assms(3,4) in \<open>auto simp: list_all_iff\<close>)

fun internal_state :: "v2_internal_result \<Rightarrow> v2_state" where
  "internal_state (PatchApplied s) = s"
| "internal_state (PatchIgnored s) = s"
| "internal_state (PatchResync s _) = s"

lemma applyPatchEnvelopeV2_wf:
  assumes "v2_wf coll s" and "envelope_wf patch"
  shows "v2_wf coll (internal_state (applyPatchEnvelopeV2 coll s patch))"
proof -
  have ops: "list_all v2_op_wf (map normalizePatchOperation (pe_ops patch))"
    using assms(2) by (simp add: envelope_wf_def list_all_iff)
  have "v2_wf coll t" if "applyEach (applyOperationV2 coll) s (map normalizePatchOperation (pe_ops patch)) = V2Applied t" for t
    using that assms(1) ops by (rule applyEach_wf) (rule applyOperationV2_wf)
  moreover have "v2_wf coll t" if "applyEach (applySameVersionOperation coll) s (map normalizePatchOperation (pe_ops patch)) = V2Applied t" for t
    using that assms(1) ops by (rule applyEach_wf) (rule applySameVersionOperation_wf)
  ultimately show ?thesis
    using assms(1) record_wf
    by (auto simp: applyPatchEnvelopeV2_def applySameVersionPatch_def Let_def v2_wf_def
        split: v2_op_result.splits)
qed

end
