(* ===== verification/V2Session.thy ===== *)
theory V2Session
  imports V2Preserve V2Store
begin

text \<open>
  The life of the store: every state it holds in a session of well-formed messages is well
  formed, from the bootstrap on, through patches, history pages and control-plane updates.
\<close>

section \<open>Bootstrap messages\<close>

text \<open>
  What a server promises of a bootstrap: zones belong to players of the message, no zone lists a
  card twice, and relations and stack items have different ids.
\<close>

definition boot_wf :: "bootstrap_v2 \<Rightarrow> bool" where
  "boot_wf b \<longleftrightarrow> wf_obj (bv_players b)
     \<and> list_all (\<lambda>z. bz_playerId z \<in> set (objectKeys (bv_players b)) \<and> distinct (bz_instanceIds z))
         (objectValues (bv_zones b))
     \<and> distinct (map ar_id (br_arrows (bv_relations b)))
     \<and> distinct (map at_id (br_attachments (bv_relations b)))
     \<and> distinct (map bs_id (or_default (br_battlefieldStacks (bv_relations b)) []))
     \<and> distinct (map se_id (br_specialEntities (bv_relations b)))
     \<and> distinct (List.map_filter stackItemId (br_stack (bv_relations b)))"

text \<open>The keys stay the players, the zones free of repetitions.\<close>

definition zone_maps_ok :: "string set \<Rightarrow> (string \<rightharpoonup> zone_map) \<Rightarrow> bool" where
  "zone_maps_ok ids m \<longleftrightarrow> dom m = ids \<and> (\<forall>pid zm z. m pid = Some zm \<longrightarrow> distinct (zm z))"

lemma placeZone_ok:
  assumes "zone_maps_ok ids m" and "bz_playerId z \<in> ids" and "distinct (bz_instanceIds z)"
  shows "zone_maps_ok ids (placeZone m z)"
  using assms unfolding zone_maps_ok_def placeZone_def
  by (cases "m (bz_playerId z)") (auto simp: emptyZones_def)

lemma placeZones_ok:
  assumes "zone_maps_ok ids m" and "list_all (\<lambda>z. bz_playerId z \<in> ids \<and> distinct (bz_instanceIds z)) zs"
  shows "zone_maps_ok ids (foldl placeZone m zs)"
  using assms by (induction zs arbitrary: m) (auto intro: placeZone_ok)

lemma placeZoneCounts_dom:
  assumes "dom m = ids" and "list_all (\<lambda>z. bz_playerId z \<in> ids) zs"
  shows "dom (foldl (placeZoneCount c) m zs) = ids"
  using assms
proof (induction zs arbitrary: m)
  case Nil
  then show ?case by simp
next
  case (Cons z zs)
  then have "dom (placeZoneCount c m z) = ids" by (auto simp: placeZoneCount_def)
  with Cons show ?case by simp
qed

lemma dom_const_map: "dom (map_of (map (\<lambda>pid. (pid, v)) (objectKeys ps))) = fst ` set ps"
  by (simp add: dom_map_of_conv_image_fst image_image)

lemma bootZones_wf:
  assumes "boot_wf b"
  shows "zone_maps_ok (fst ` set (bv_players b)) (bootZones b)"
    "dom (bootZoneCounts b) = fst ` set (bv_players b)"
proof -
  have zs: "list_all (\<lambda>z. bz_playerId z \<in> fst ` set (bv_players b) \<and> distinct (bz_instanceIds z))
      (objectValues (bv_zones b))"
    using assms by (simp add: boot_wf_def)
  show "zone_maps_ok (fst ` set (bv_players b)) (bootZones b)"
    unfolding bootZones_def
    by (rule placeZones_ok [OF _ zs])
      (auto simp: zone_maps_ok_def dom_const_map emptyZones_def dest!: map_of_SomeD)
  show "dom (bootZoneCounts b) = fst ` set (bv_players b)"
    unfolding bootZoneCounts_def
    by (rule placeZoneCounts_dom [OF dom_const_map]) (use zs in \<open>auto simp: list_all_iff\<close>)
qed

lemma stack_fold_wf:
  assumes "stack_wf st" and "distinct (vt_order st @ List.map_filter stackItemId items)"
  shows "stack_wf (foldl (\<lambda>s item. case stackItemId item of None \<Rightarrow> s
     | Some i \<Rightarrow> \<lparr>vt_byId = storeStackItem item i (vt_byId s), vt_order = vt_order s @ [i]\<rparr>) st items)"
  using assms
proof (induction items arbitrary: st)
  case Nil
  then show ?case by simp
next
  case (Cons item items)
  show ?case
  proof (cases "stackItemId item")
    case None
    with Cons show ?thesis by (simp add: List.map_filter_simps)
  next
    case (Some i)
    with stack_wf_store [OF Cons.prems(1) Some] Cons.prems(2) Cons.IH show ?thesis
      by (simp add: List.map_filter_simps)
  qed
qed

lemma createStackState_wf:
  "distinct (List.map_filter stackItemId items) \<Longrightarrow> stack_wf (createStackState items)"
  unfolding createStackState_def by (rule stack_fold_wf) (simp_all add: stack_wf_def)

lemma bootstrap_players:
  assumes "wf_obj ps"
  shows "fromEntries (map (\<lambda>(pid, p). (pid, normalizePlayer p)) (objectEntries ps))
     = map (\<lambda>(pid, p). (pid, normalizePlayer p)) (objectEntries ps)"
proof (rule fromEntries_distinct)
  have "map fst (map (\<lambda>(pid, p). (pid, normalizePlayer p)) (objectEntries ps)) = objectKeys ps"
    by (simp add: objectKeys_def case_prod_unfold comp_def)
  with assms show "distinct (map fst (map (\<lambda>(pid, p). (pid, normalizePlayer p)) (objectEntries ps)))"
    by (simp del: map_map)
qed

lemma createGameTableNormalizedV2State_wf:
  assumes "boot_wf b"
  shows "v2_wf coll (createGameTableNormalizedV2State coll b pending)"
proof -
  have ps: "wf_obj (bv_players b)" using assms by (simp add: boot_wf_def)
  let ?ps = "map (\<lambda>(pid, p). (pid, normalizePlayer p)) (objectEntries (bv_players b))"
  have "wf_obj ?ps" using wf_fromEntries [of ?ps] bootstrap_players [OF ps] by simp
  then have "players_wf ?ps" by (auto simp: players_wf_def normalizePlayer_def)
  moreover have "zones_wf ?ps (bootZones b) (bootZoneCounts b)"
    using bootZones_wf [OF assms]
    by (auto simp: zones_wf_def zone_maps_ok_def ran_def image_image case_prod_unfold)
  ultimately show ?thesis
    using assms
    by (simp add: createGameTableNormalizedV2State_def Let_def v2_wf_def bootstrap_players [OF ps]
        createRelationsState_wf createStackState_wf createChatState_wf createLogState_wf boot_wf_def)
qed


section \<open>Sessions\<close>

text \<open>
  The stores reached by the calls of a session: bootstraps, patches, pages of history and
  control-plane updates, with well-formed messages and the page sizes the services use.
\<close>

inductive store_reached :: "identity_test \<Rightarrow> string comparator \<Rightarrow> v2_store \<Rightarrow> bool"
  for same :: identity_test and coll :: "string comparator" where
  reached_empty: "store_reached same coll empty_store"
| reached_clear: "store_reached same coll st \<Longrightarrow> store_reached same coll (storeClear st)"
| reached_bootstrap: "store_reached same coll st \<Longrightarrow> boot_wf b \<Longrightarrow>
    store_reached same coll (snd (applyBootstrap same coll st b))"
| reached_patch: "store_reached same coll st \<Longrightarrow> envelope_wf patch \<Longrightarrow>
    store_reached same coll (snd (storeApplyPatch same coll st patch))"
| reached_statics: "store_reached same coll st \<Longrightarrow>
    store_reached same coll (snd (mergeStaticCards same st cards))"
| reached_prepend_log: "store_reached same coll st \<Longrightarrow> n \<le> 250 \<Longrightarrow>
    store_reached same coll (snd (prependLogEntries same coll st entries n))"
| reached_append_log: "store_reached same coll st \<Longrightarrow> n \<le> 250 \<Longrightarrow>
    store_reached same coll (snd (appendLogEntries same coll st entries n))"
| reached_replace_log: "store_reached same coll st \<Longrightarrow>
    store_reached same coll (snd (replaceLogEntries same coll st entries))"
| reached_prepend_chat: "store_reached same coll st \<Longrightarrow> n \<le> 250 \<Longrightarrow>
    store_reached same coll (snd (prependChatMessages same coll st messages n))"
| reached_append_chat: "store_reached same coll st \<Longrightarrow> n \<le> 250 \<Longrightarrow>
    store_reached same coll (snd (appendChatMessages same coll st messages n))"
| reached_replace_chat: "store_reached same coll st \<Longrightarrow>
    store_reached same coll (snd (replaceChatMessages same coll st messages))"
| reached_control: "store_reached same coll st \<Longrightarrow>
    store_reached same coll (snd (applyControlPlane same st cp))"

definition store_wf :: "string comparator \<Rightarrow> v2_store \<Rightarrow> bool" where
  "store_wf coll st \<longleftrightarrow> (case st_state st of None \<Rightarrow> True | Some s \<Rightarrow> v2_wf coll s)"

lemma setAndHydrate_state [simp]: "st_state (snd (setAndHydrate same st s)) = Some s"
  by (simp add: setAndHydrate_def split: prod.split)

lemma storeUpdate_wf:
  assumes "store_wf coll st" and "\<And>s. v2_wf coll s \<Longrightarrow> v2_wf coll (f s)"
  shows "store_wf coll (snd (storeUpdate same st skip f))"
  using assms setAndHydrate_state [of same st]
  by (auto simp: storeUpdate_def store_wf_def split: option.split prod.split)
    (metis option.sel option.simps(3) setAndHydrate_state snd_conv)+

lemma commitPatch_wf:
  assumes "store_wf coll st" and "v2_wf coll t"
  shows "store_wf coll (snd (commitPatch same st s t result))"
  using assms by (auto simp: commitPatch_def store_wf_def split: prod.split sum.split option.split)

lemma storeApplyPatch_wf:
  assumes "store_wf coll st" and "envelope_wf patch"
  shows "store_wf coll (snd (storeApplyPatch same coll st patch))"
proof (cases "st_state st")
  case None
  with assms show ?thesis by (simp add: storeApplyPatch_def)
next
  case (Some s)
  with assms(1) have "v2_wf coll s" by (simp add: store_wf_def)
  from applyPatchEnvelopeV2_wf [OF this assms(2)] show ?thesis
    using assms(1) Some commitPatch_wf [OF assms(1)]
    by (cases "applyPatchEnvelopeV2 coll s patch") (auto simp: storeApplyPatch_def)
qed

lemma store_history_wf:
  assumes "v2_wf coll s"
  shows "n \<le> 250 \<Longrightarrow> v2_wf coll (s\<lparr>v2_log := mergeLogEntries coll (v2_log s) es n mode\<rparr>)"
    "n \<le> 250 \<Longrightarrow> v2_wf coll (s\<lparr>v2_chat := mergeChatMessages coll (v2_chat s) ms n mode\<rparr>)"
    "v2_wf coll (s\<lparr>v2_log := createLogState coll entries cursor\<rparr>)"
    "v2_wf coll (s\<lparr>v2_chat := createChatState coll messages cursor\<rparr>)"
    "v2_wf coll (s\<lparr>v2_staticCards := cards\<rparr>)" "v2_wf coll (s\<lparr>v2_game := g\<rparr>)"
proof -
  have log: "table_of le_id (vl_byId (v2_log s))" and chat: "wf_obj (vh_byId (v2_chat s))"
    using assms by (simp_all add: v2_wf_def log_wf_def chat_wf_def)
  show "n \<le> 250 \<Longrightarrow> v2_wf coll (s\<lparr>v2_log := mergeLogEntries coll (v2_log s) es n mode\<rparr>)"
    using mergeLogEntries_wf [OF log] assms by (simp add: v2_wf_def)
  show "n \<le> 250 \<Longrightarrow> v2_wf coll (s\<lparr>v2_chat := mergeChatMessages coll (v2_chat s) ms n mode\<rparr>)"
    using mergeChatMessages_wf [OF chat] assms by (simp add: v2_wf_def)
qed (use assms in \<open>simp_all add: v2_wf_def createLogState_wf createChatState_wf\<close>)

lemma store_wf_None [simp]: "store_wf coll \<lparr>st_state = None, st_projector = p\<rparr>"
  by (simp add: store_wf_def)

lemma store_reached_wf: "store_reached same coll st \<Longrightarrow> store_wf coll st"
proof (induction rule: store_reached.induct)
  case (reached_bootstrap st b)
  from createGameTableNormalizedV2State_wf [OF reached_bootstrap.hyps(2)] show ?case
    by (simp add: applyBootstrap_def Let_def store_wf_def)
next
  case (reached_patch st patch)
  from storeApplyPatch_wf [OF reached_patch.IH reached_patch.hyps(2)] show ?case .
qed (auto simp: empty_store_def storeClear_def mergeStaticCards_def prependLogEntries_def
    appendLogEntries_def replaceLogEntries_def prependChatMessages_def appendChatMessages_def
    replaceChatMessages_def applyControlPlane_def intro!: storeUpdate_wf store_history_wf)

end
