(* ===== verification/SnapshotWf.thy ===== *)
theory SnapshotWf
  imports SnapshotPatch
begin

text \<open>
  Well-formedness of a snapshot and its preservation by the reducer: every zone of every
  player is an array without two cards of the same instance id, the relation lists hold no
  id twice, and the event log holds no id twice and at most 250 entries. On a well-formed
  snapshot no operation throws.
\<close>

section \<open>The invariant\<close>

definition player_wf :: "game_player_state \<Rightarrow> bool" where
  [inv_defs]: "player_wf p \<longleftrightarrow>
     (\<forall>z \<in> set ZONE_NAMES. case pl_zones p z of
        None \<Rightarrow> False
      | Some cards \<Rightarrow> distinct (map card_instanceId cards))"

definition table_wf :: "game_snapshot \<Rightarrow> bool" where
  [inv_defs]: "table_wf s \<longleftrightarrow>
     distinct (map si_id (sn_stack s)) \<and> distinct (map ar_id (sn_arrows s)) \<and>
     distinct (map at_id (attachmentsOf s)) \<and> distinct (map bs_id (battlefieldStacksOf s)) \<and>
     distinct (map le_id (sn_eventLog s)) \<and> length (sn_eventLog s) \<le> MAX_EVENT_LOG_ENTRIES"

definition snapshot_wf :: "game_snapshot \<Rightarrow> bool" where
  [inv_defs]: "snapshot_wf s \<longleftrightarrow>
     (\<forall>pid p. sn_players s pid = Some p \<longrightarrow> player_wf p) \<and> table_wf s"

text \<open>
  The operations that replace a card or a whole list carry their own content; they are
  well-formed when that content is: a replacement card keeps the instance id it replaces
  and a replacement list holds no id twice.
\<close>

fun card_zone_op_wf :: "card_zone_op \<Rightarrow> bool" where
  "card_zone_op_wf (CardMove mv) \<longleftrightarrow>
     (case mv_card mv of None \<Rightarrow> True | Some c \<Rightarrow> card_instanceId c = mv_instanceId mv)"
| "card_zone_op_wf (CardProjectionSet pid zone iid crd) \<longleftrightarrow> card_instanceId crd = iid"
| "card_zone_op_wf (ZoneVisibleSet pid zone cards) \<longleftrightarrow> distinct (map card_instanceId cards)"
| "card_zone_op_wf _ \<longleftrightarrow> True"

fun table_op_wf :: "table_op \<Rightarrow> bool" where
  "table_op_wf (StackSet xs) \<longleftrightarrow> distinct (map si_id xs)"
| "table_op_wf (ArrowsSet xs) \<longleftrightarrow> distinct (map ar_id xs)"
| "table_op_wf (AttachmentsSet xs) \<longleftrightarrow> distinct (map at_id xs)"
| "table_op_wf (BattlefieldStacksSet xs) \<longleftrightarrow> distinct (map bs_id xs)"
| "table_op_wf _ \<longleftrightarrow> True"

fun patch_op_wf :: "patch_op \<Rightarrow> bool" where
  "patch_op_wf (CardZoneOp op) \<longleftrightarrow> card_zone_op_wf op"
| "patch_op_wf (PlayerOp op) \<longleftrightarrow> True"
| "patch_op_wf (TableOp op) \<longleftrightarrow> table_op_wf op"
| "patch_op_wf (UnknownOp name) \<longleftrightarrow> True"

text \<open>An operation's outcome: it does not throw, and a state it applies satisfies \<open>P\<close>.\<close>

fun outcome_ok :: "(game_snapshot \<Rightarrow> bool) \<Rightarrow> operation_result \<Rightarrow> bool" where
  "outcome_ok P (OpFailed r) = True"
| "outcome_ok P (OpApplied t) = P t"

fun result_ok :: "(game_snapshot \<Rightarrow> bool) \<Rightarrow> operation_result js \<Rightarrow> bool" where
  "result_ok P (Inl e) = False"
| "result_ok P (Inr r) = outcome_ok P r"

section \<open>Lemmas on the helpers\<close>

lemma setPlayer_players [simp]: "sn_players (setPlayer s pid p) = (sn_players s)(pid \<mapsto> p)"
  by (simp add: setPlayer_def)

lemma setPlayer_frame [simp]:
  "sn_stack (setPlayer s pid p) = sn_stack s" "sn_arrows (setPlayer s pid p) = sn_arrows s"
  "sn_attachments (setPlayer s pid p) = sn_attachments s"
  "sn_battlefieldStacks (setPlayer s pid p) = sn_battlefieldStacks s"
  "sn_specialEntities (setPlayer s pid p) = sn_specialEntities s"
  "sn_eventLog (setPlayer s pid p) = sn_eventLog s" "sn_chat (setPlayer s pid p) = sn_chat s"
  "sn_version (setPlayer s pid p) = sn_version s"
  by (simp_all add: setPlayer_def)

lemma table_wf_setPlayer [simp]: "table_wf (setPlayer s pid p) = table_wf s"
  by (simp add: table_wf_def attachmentsOf_def battlefieldStacksOf_def)

lemma snapshot_wf_setPlayer:
  "snapshot_wf s \<Longrightarrow> player_wf p \<Longrightarrow> snapshot_wf (setPlayer s pid p)"
  by (auto simp: snapshot_wf_def)

lemma snapshot_wf_player: "snapshot_wf s \<Longrightarrow> sn_players s pid = Some p \<Longrightarrow> player_wf p"
  by (simp add: snapshot_wf_def)

lemma player_wf_zone:
  "player_wf p \<Longrightarrow> \<exists>cards. pl_zones p z = Some cards \<and> distinct (map card_instanceId cards)"
  by (auto simp: player_wf_def split: option.splits)

lemma player_wf_distinct:
  "player_wf p \<Longrightarrow> pl_zones p z = Some cards \<Longrightarrow> distinct (map card_instanceId cards)"
  by (auto dest: player_wf_zone [of p z])

lemma player_wf_setZone:
  "player_wf p \<Longrightarrow> distinct (map card_instanceId cards) \<Longrightarrow>
     player_wf (p\<lparr>pl_zones := (pl_zones p)(z \<mapsto> cards)\<rparr>)"
  by (auto simp: player_wf_def)

lemma player_wf_cong: "pl_zones p = pl_zones q \<Longrightarrow> player_wf p = player_wf q"
  by (simp add: player_wf_def)

lemma zoneCards_Some:
  "zoneCards s pid z = Some cards \<longleftrightarrow> (\<exists>p. sn_players s pid = Some p \<and> pl_zones p z = Some cards)"
  by (auto simp: zoneCards_def split: option.splits)

lemma zoneCards_None_wf:
  "snapshot_wf s \<Longrightarrow> zoneCards s pid z = None \<longleftrightarrow> sn_players s pid = None"
  by (auto simp: zoneCards_def split: option.splits dest: snapshot_wf_player player_wf_zone)

lemma zoneCards_distinct:
  "snapshot_wf s \<Longrightarrow> zoneCards s pid z = Some cards \<Longrightarrow> distinct (map card_instanceId cards)"
  by (auto simp: zoneCards_Some dest: snapshot_wf_player player_wf_distinct)

lemma replaceZoneSnapshotOnly_Some:
  "sn_players s pid = Some p \<Longrightarrow> replaceZoneSnapshotOnly s pid z cards =
     Inr (setPlayer s pid (p\<lparr>pl_zones := (pl_zones p)(z \<mapsto> cards)\<rparr>))"
  by (simp add: replaceZoneSnapshotOnly_def)

lemma replaceZone_Some:
  "sn_players s pid = Some p \<Longrightarrow> replaceZone s pid z cards =
     Inr (OpApplied (setPlayer s pid (p\<lparr>pl_zones := (pl_zones p)(z \<mapsto> cards)\<rparr>)))"
  by (simp add: replaceZone_def replaceZoneSnapshotOnly_Some)

lemma replaceZone_wf:
  assumes "snapshot_wf s" and "zoneCards s pid z = Some old"
    and "distinct (map card_instanceId cards)"
  shows "result_ok snapshot_wf (replaceZone s pid z cards)"
  using assms
  by (auto simp: zoneCards_Some replaceZone_Some
      intro!: snapshot_wf_setPlayer player_wf_setZone dest: snapshot_wf_player)

lemma setZone_wf:
  assumes "snapshot_wf s" and "sn_players s pid = Some p"
    and "distinct (map card_instanceId cards)"
  shows "snapshot_wf (setPlayer s pid (p\<lparr>pl_zones := (pl_zones p)(z \<mapsto> cards)\<rparr>))"
  using assms by (auto intro!: snapshot_wf_setPlayer player_wf_setZone dest: snapshot_wf_player)

lemma updatePlayer_wf:
  assumes "snapshot_wf s"
    and "\<And>p q. update p = Some q \<Longrightarrow> pl_zones q = pl_zones p"
  shows "outcome_ok snapshot_wf (updatePlayer s pid update)"
  using assms
  by (auto simp: updatePlayer_def split: option.splits
      intro!: snapshot_wf_setPlayer dest: snapshot_wf_player)
     (metis player_wf_cong snapshot_wf_player)

lemma applyZoneCounts_zones: "applyZoneCounts p c = Some q \<Longrightarrow> pl_zones q = pl_zones p"
  by (auto simp: applyZoneCounts_def split: option.splits)

lemma finishZoneCounts_wf: "snapshot_wf s \<Longrightarrow> outcome_ok snapshot_wf (finishZoneCounts s pid c)"
  by (auto simp: finishZoneCounts_def split: option.splits
      intro!: updatePlayer_wf dest: applyZoneCounts_zones)

lemma rebaseHandRevealIndexes_wf: "snapshot_wf s \<Longrightarrow> snapshot_wf (rebaseHandRevealIndexes s pid is)"
  by (auto simp: rebaseHandRevealIndexes_def Let_def split: option.splits
      intro!: snapshot_wf_setPlayer dest: snapshot_wf_player)
     (auto dest!: snapshot_wf_player simp: player_wf_def)

lemma rebaseAfterMove_wf: "snapshot_wf s \<Longrightarrow> snapshot_wf (rebaseAfterMove mv i s)"
  by (auto simp: rebaseAfterMove_def rebaseHandRevealIndexes_wf split: option.splits)

lemma preserveCommanderIdentity_id [simp]:
  "card_instanceId (preserveCommanderIdentity c p) = card_instanceId c"
  by (simp add: preserveCommanderIdentity_def)

lemma placedCard_id [simp]: "card_instanceId (placedCard mv c src) = card_instanceId c"
  by (simp add: placedCard_def Let_def)

lemma applyStateFields_id [simp]: "card_instanceId (applyStateFields st c) = card_instanceId c"
  by (simp add: applyStateFields_def setIfDefined_def split: option.splits)

section \<open>Operations on cards and zones\<close>

lemma updateCard_wf:
  assumes wf: "snapshot_wf s"
    and upd: "\<And>c. card_instanceId c = iid \<Longrightarrow> card_instanceId (update c) = iid"
  shows "result_ok snapshot_wf (updateCard s pid zone iid update)"
proof (cases "zoneCards s pid zone")
  case None
  then show ?thesis by (simp add: updateCard_def)
next
  case (Some cards)
  show ?thesis
  proof (cases "find_index (\<lambda>c. card_instanceId c = iid) cards")
    case None
    with Some show ?thesis by (simp add: updateCard_def)
  next
    case i: (Some i)
    have "card_instanceId (cards ! i) = iid" using find_index_holds [OF i] .
    with upd have "map card_instanceId (cards[i := update (cards ! i)]) = map card_instanceId cards"
      by (intro map_list_update_id) simp
    with zoneCards_distinct [OF wf Some] have "distinct (map card_instanceId (cards[i := update (cards ! i)]))"
      by simp
    from replaceZone_wf [OF wf Some this] Some i show ?thesis by (simp add: updateCard_def)
  qed
qed

lemma mapZone_wf:
  assumes "snapshot_wf s" and "zoneCards s pid zone = Some cards"
    and "\<And>c. card_instanceId (f c) = card_instanceId c"
  shows "result_ok snapshot_wf (replaceZone s pid zone (map f cards))"
proof -
  have "map card_instanceId (map f cards) = map card_instanceId cards" using assms(3) by simp
  with zoneCards_distinct [OF assms(1,2)] have "distinct (map card_instanceId (map f cards))" by metis
  then show ?thesis by (rule replaceZone_wf [OF assms(1,2)])
qed

lemma applyCardPositions_wf: "snapshot_wf s \<Longrightarrow> result_ok snapshot_wf (applyCardPositions s pid zone ps)"
  by (auto simp: applyCardPositions_def Let_def split: option.splits intro!: mapZone_wf)

lemma applyCardsState_wf: "snapshot_wf s \<Longrightarrow> result_ok snapshot_wf (applyCardsState s pid zone ss)"
  by (auto simp: applyCardsState_def Let_def split: option.splits intro!: mapZone_wf)

lemma createCard_wf: "snapshot_wf s \<Longrightarrow> result_ok snapshot_wf (createCard s pid zone crd i)"
  by (force simp: createCard_def split: option.splits intro!: replaceZone_wf dest: zoneCards_distinct)

lemma findCardInZones_wf:
  "player_wf p \<Longrightarrow> \<exists>r. findCardInZones p iid zs = Inr r"
proof (induction zs)
  case (Cons z zs)
  obtain cards where "pl_zones p z = Some cards" using player_wf_zone [OF Cons.prems] by blast
  with Cons show ?case by (auto split: option.splits)
qed simp

lemma preserveAll_wf:
  "player_wf p \<Longrightarrow> \<exists>ds. preserveAll p cs = Inr ds \<and> map card_instanceId ds = map card_instanceId cs"
proof (induction cs)
  case (Cons c cs)
  obtain prev where "cardByInstanceId p (card_instanceId c) = Inr prev"
    using findCardInZones_wf [OF Cons.prems] by (auto simp: cardByInstanceId_def)
  with Cons show ?case by auto
qed simp

lemma replaceVisibleZone_wf:
  assumes wf: "snapshot_wf s" and d: "distinct (map card_instanceId cards)"
  shows "result_ok snapshot_wf (replaceVisibleZone s pid zone cards)"
proof (cases "sn_players s pid")
  case None
  then show ?thesis by (simp add: replaceVisibleZone_def)
next
  case (Some p)
  have p: "player_wf p" using wf Some by (rule snapshot_wf_player)
  obtain old where old: "pl_zones p zone = Some old" using player_wf_zone [OF p] by blast
  obtain ds where ds: "preserveAll p cards = Inr ds" "map card_instanceId ds = map card_instanceId cards"
    using preserveAll_wf [OF p] by blast
  have "result_ok snapshot_wf (replaceZone s pid zone ds)"
    using wf by (rule replaceZone_wf) (use Some old ds(2) d in \<open>auto simp: zoneCards_Some\<close>)
  with Some old ds show ?thesis by (simp add: replaceVisibleZone_def)
qed

lemma removeFromZones_wf:
  assumes "snapshot_wf s" and "sn_players s pid = Some p"
  shows "\<exists>t q. removeFromZones s pid iid zs = Inr t \<and> snapshot_wf t \<and> sn_players t pid = Some q"
  using assms
proof (induction zs arbitrary: s p)
  case (Cons z zs)
  obtain cards where cards: "pl_zones p z = Some cards"
    using player_wf_zone [OF snapshot_wf_player [OF Cons.prems]] by blast
  let ?q = "p\<lparr>pl_zones := (pl_zones p)(z \<mapsto> filter (\<lambda>c. card_instanceId c \<noteq> iid) cards)\<rparr>"
  have "snapshot_wf (setPlayer s pid ?q)"
    using Cons.prems player_wf_distinct [OF snapshot_wf_player [OF Cons.prems] cards]
    by (auto intro: setZone_wf)
  from Cons.IH [OF this, of ?q] cards Cons.prems(2) show ?case
    by (simp add: zoneCards_def replaceZoneSnapshotOnly_Some)
qed simp

lemma removeCard_wf:
  assumes wf: "snapshot_wf s"
  shows "result_ok snapshot_wf (removeCard s rmv)"
proof (cases "sn_players s (rmv_playerId rmv)")
  case None
  then show ?thesis by (simp add: removeCard_def Let_def)
next
  case (Some p)
  have p: "player_wf p" using wf Some by (rule snapshot_wf_player)
  have all: "pl_zones p z = None \<longleftrightarrow> False" for z using player_wf_zone [OF p, of z] by auto
  obtain t q where t: "removeFromZones s (rmv_playerId rmv) (rmv_instanceId rmv)
       (filter (holdsCard p (rmv_instanceId rmv)) ZONE_NAMES) = Inr t" "snapshot_wf t"
    using removeFromZones_wf [OF wf Some] by blast
  show ?thesis using Some t
    by (auto simp: all removeCard_def Let_def rebaseHandRevealIndexes_wf split: option.splits
        intro!: finishZoneCounts_wf)
qed

section \<open>Moving a card\<close>

text \<open>The zones a successful \<open>card.move\<close> computes, before it writes them.\<close>

lemma sourceCardOf_id: "sourceCardOf iid cs = Some c \<Longrightarrow> c \<in> set cs \<and> card_instanceId c = iid"
  by (auto simp: sourceCardOf_def dest: find_index_holds find_index_less)

lemma movingCardOf_id:
  assumes "card_zone_op_wf (CardMove mv)" and "movingCardOf mv (sourceCardOf (mv_instanceId mv) cs) = Some c"
  shows "card_instanceId c = mv_instanceId mv"
  using assms by (auto simp: movingCardOf_def dest: sourceCardOf_id split: option.splits if_splits)

lemma nextFromCardsOf_distinct:
  "distinct (map card_instanceId cs) \<Longrightarrow> distinct (map card_instanceId (nextFromCardsOf iid cs))"
  by (auto simp: nextFromCardsOf_def split: option.split)

lemma nextFromCardsOf_removed: "iid \<notin> card_instanceId ` set (nextFromCardsOf iid cs)"
  using set_remove_nth [of _ cs]
  by (auto simp: nextFromCardsOf_def find_index_None split: option.split)

lemma targetCards_insert_distinct:
  assumes "distinct (map card_instanceId fromCards)" and "distinct (map card_instanceId toCards)"
    and "card_instanceId c = mv_instanceId mv"
  shows "distinct (map card_instanceId (insert_at i (placedCard mv c src)
    (targetCardsAfterRemoval mv c (nextFromCardsOf (mv_instanceId mv) fromCards) toCards)))"
  using assms nextFromCardsOf_removed nextFromCardsOf_distinct
  by (auto simp: targetCardsAfterRemoval_def)

text \<open>The state a move writes, before the hand indexes and the counts are brought up to date.\<close>

definition movedZones ::
  "game_snapshot \<Rightarrow> string \<Rightarrow> game_zone_name \<Rightarrow> game_card_instance list \<Rightarrow>
   string \<Rightarrow> game_zone_name \<Rightarrow> game_card_instance list \<Rightarrow> game_snapshot" where
  "movedZones s fromId fromZone fromCards toId toZone toCards =
     (let p = the (sn_players s fromId);
          t = setPlayer s fromId (p\<lparr>pl_zones := (pl_zones p)(fromZone \<mapsto> fromCards)\<rparr>);
          q = the (sn_players t toId)
      in setPlayer t toId (q\<lparr>pl_zones := (pl_zones q)(toZone \<mapsto> toCards)\<rparr>))"

lemma movedZones_write:
  assumes "zoneCards s fromId fromZone = Some old" and "zoneCards s toId toZone = Some old'"
  shows "js_bind (replaceZoneSnapshotOnly s fromId fromZone fromCards) (\<lambda>t.
           js_bind (replaceZoneSnapshotOnly t toId toZone toCards) (\<lambda>u. Inr (g u))) =
         Inr (g (movedZones s fromId fromZone fromCards toId toZone toCards))"
  using assms by (auto simp: zoneCards_Some replaceZoneSnapshotOnly_def movedZones_def Let_def)

lemma movedZones_wf:
  assumes "snapshot_wf s" and "zoneCards s fromId fromZone = Some old"
    and "zoneCards s toId toZone = Some old'"
    and "distinct (map card_instanceId fromCards)" and "distinct (map card_instanceId toCards)"
  shows "snapshot_wf (movedZones s fromId fromZone fromCards toId toZone toCards)"
proof -
  obtain p where p: "sn_players s fromId = Some p" using assms(2) by (auto simp: zoneCards_Some)
  let ?t = "setPlayer s fromId (p\<lparr>pl_zones := (pl_zones p)(fromZone \<mapsto> fromCards)\<rparr>)"
  obtain q where q: "sn_players ?t toId = Some q"
    using assms(3) by (cases "toId = fromId") (auto simp: zoneCards_Some)
  have "snapshot_wf ?t" using assms(1) p assms(4) by (rule setZone_wf)
  from setZone_wf [OF this q assms(5)] p q show ?thesis by (simp add: movedZones_def Let_def)
qed

lemma moveCard_Some:
  assumes "zoneCards s (zr_playerId (mv_from mv)) (zr_zone (mv_from mv)) = Some fromCards"
    and "zoneCards s (zt_playerId (mv_to mv)) (zt_zone (mv_to mv)) = Some toCards"
    and "movingCardOf mv (sourceCardOf (mv_instanceId mv) fromCards) = Some c"
    and "\<not> invalidIndex (zt_index (mv_to mv))"
  defines "nf \<equiv> nextFromCardsOf (mv_instanceId mv) fromCards"
  defines "tc \<equiv> targetCardsAfterRemoval mv c nf toCards"
  shows "moveCard s mv = Inr (finishZoneCounts
     (rebaseAfterMove mv (if zr_zone (mv_from mv) = Hand
          then vacatedIndex (mv_instanceId mv) fromCards else None)
        (movedZones s (zr_playerId (mv_from mv)) (zr_zone (mv_from mv)) nf
           (zt_playerId (mv_to mv)) (zt_zone (mv_to mv))
           (insert_at (insertIndex (zt_index (mv_to mv)) (length tc))
              (placedCard mv c (sourceCardOf (mv_instanceId mv) fromCards)) tc)))
     (zt_playerId (mv_to mv)) (mv_zoneCounts mv))"
  using assms by (simp add: moveCard_def Let_def movedZones_write)

lemma moveCard_placeholder:
  assumes "zoneCards s (zr_playerId (mv_from mv)) (zr_zone (mv_from mv)) = Some fromCards"
    and "zoneCards s (zt_playerId (mv_to mv)) (zt_zone (mv_to mv)) = Some toCards"
    and "movingCardOf mv (sourceCardOf (mv_instanceId mv) fromCards) = None"
    and "vacatedIndex (mv_instanceId mv) fromCards = Some i"
    and "\<not> invalidIndex (zt_index (mv_to mv))"
    and "sn_players s (zr_playerId (mv_from mv)) = Some p"
  shows "moveCard s mv = Inr (OpApplied
     (rebaseAfterMove mv (if zr_zone (mv_from mv) = Hand then Some i else None)
        (setPlayer s (zr_playerId (mv_from mv))
           (p\<lparr>pl_zones := (pl_zones p)(zr_zone (mv_from mv) \<mapsto>
              nextFromCardsOf (mv_instanceId mv) fromCards)\<rparr>))))"
  using assms by (simp add: moveCard_def Let_def replaceZoneSnapshotOnly_Some)

lemma moveCard_wf:
  assumes wf: "snapshot_wf s" and op: "card_zone_op_wf (CardMove mv)"
  shows "result_ok snapshot_wf (moveCard s mv)"
proof (cases "zoneCards s (zr_playerId (mv_from mv)) (zr_zone (mv_from mv))")
  case None
  then show ?thesis by (simp add: moveCard_def Let_def)
next
  case fc: (Some fromCards)
  show ?thesis
  proof (cases "zoneCards s (zt_playerId (mv_to mv)) (zt_zone (mv_to mv))")
    case None
    with fc show ?thesis by (simp add: moveCard_def Let_def)
  next
    case tc: (Some toCards)
    have df: "distinct (map card_instanceId fromCards)" and dt: "distinct (map card_instanceId toCards)"
      using zoneCards_distinct [OF wf fc] zoneCards_distinct [OF wf tc] by auto
    obtain p where p: "sn_players s (zr_playerId (mv_from mv)) = Some p"
      using fc by (auto simp: zoneCards_Some)
    show ?thesis
    proof (cases "invalidIndex (zt_index (mv_to mv))")
      case True
      with fc tc show ?thesis by (simp add: moveCard_def Let_def)
    next
      case idx: False
      show ?thesis
      proof (cases "movingCardOf mv (sourceCardOf (mv_instanceId mv) fromCards)")
        case (Some c)
        show ?thesis unfolding moveCard_Some [OF fc tc Some idx] result_ok.simps
          by (intro finishZoneCounts_wf rebaseAfterMove_wf movedZones_wf [OF wf fc tc]
              nextFromCardsOf_distinct [OF df]
              targetCards_insert_distinct [OF df dt movingCardOf_id [OF op Some]])
      next
        case None
        show ?thesis
        proof (cases "vacatedIndex (mv_instanceId mv) fromCards")
          case None
          with \<open>movingCardOf mv _ = None\<close> fc tc show ?thesis by (simp add: moveCard_def Let_def)
        next
          case i: (Some i)
          show ?thesis
            unfolding moveCard_placeholder [OF fc tc None i idx p] result_ok.simps outcome_ok.simps
            by (intro rebaseAfterMove_wf setZone_wf [OF wf p] nextFromCardsOf_distinct [OF df])
        qed
      qed
    qed
  qed
qed

section \<open>Every operation\<close>

lemma applyCardZoneOp_wf:
  assumes wf: "snapshot_wf s" and op: "card_zone_op_wf op"
  shows "result_ok snapshot_wf (applyCardZoneOp s op)"
proof (cases op)
  case (CardMove mv)
  with op moveCard_wf [OF wf] show ?thesis by simp
next
  case (ZoneCountsSet pid counts)
  with updatePlayer_wf [OF wf, of "\<lambda>p. applyZoneCounts p counts"] show ?thesis
    by (simp add: applyZoneCounts_zones)
next
  case (ZoneVisibleSet pid zone cards)
  with op replaceVisibleZone_wf [OF wf] show ?thesis by simp
next
  case (CardProjectionSet pid zone iid crd)
  with op show ?thesis by (auto intro: updateCard_wf [OF wf])
qed (simp_all add: setIfDefined_def updateCard_wf applyCardPositions_wf removeCard_wf
      applyCardsState_wf createCard_wf wf split: option.split)

lemma collectEntries_dom:
  "dom byId = set order \<Longrightarrow> distinct order \<Longrightarrow> (\<And>i e. byId i = Some e \<Longrightarrow> le_id e = i) \<Longrightarrow>
   collectEntries es order byId = (order', byId') \<Longrightarrow>
   dom byId' = set order' \<and> distinct order' \<and> (\<forall>i e. byId' i = Some e \<longrightarrow> le_id e = i)"
proof (induction es arbitrary: order byId)
  case (Cons e es)
  let ?o = "if byId (le_id e) = None then order @ [le_id e] else order"
  let ?m = "byId(le_id e \<mapsto> e)"
  have key: "byId (le_id e) = None \<longleftrightarrow> le_id e \<notin> set order"
    by (simp add: Cons.prems(1) [symmetric] domIff)
  show ?case
  proof (rule Cons.IH [of ?m ?o])
    show "dom ?m = set ?o" using Cons.prems(1) key by auto
    show "distinct ?o" using Cons.prems(2) key by simp
    show "\<And>i x. ?m i = Some x \<Longrightarrow> le_id x = i" using Cons.prems(3) by (simp split: if_splits)
    show "collectEntries es ?o ?m = (order', byId')" using Cons.prems(4) by simp
  qed
qed auto

lemma collected_ids:
  assumes "collectEntries es [] Map.empty = (order, byId)"
  shows "map le_id (map (\<lambda>i. the (byId i)) order) = order" and "distinct order"
proof -
  from collectEntries_dom [OF _ _ _ assms] have d: "dom byId = set order" "distinct order"
    "\<And>i e. byId i = Some e \<Longrightarrow> le_id e = i" by auto
  then show "distinct order" by simp
  show "map le_id (map (\<lambda>i. the (byId i)) order) = order"
    using d by (auto simp: comp_def intro!: map_idI) (metis domIff option.collapse)
qed

lemma appendUnique_wf:
  "distinct (map le_id (appendUniqueEventLogEntries xs ys)) \<and>
   length (appendUniqueEventLogEntries xs ys) \<le> MAX_EVENT_LOG_ENTRIES"
proof -
  obtain order byId where c: "collectEntries (xs @ ys) [] Map.empty = (order, byId)"
    by (cases "collectEntries (xs @ ys) [] Map.empty")
  have "map le_id (slice_last MAX_EVENT_LOG_ENTRIES (map (\<lambda>i. the (byId i)) order)) =
      slice_last MAX_EVENT_LOG_ENTRIES order"
    using collected_ids(1) [OF c] by (simp only: map_slice_last)
  with c collected_ids(2) [OF c] show ?thesis by (simp add: appendUniqueEventLogEntries_def)
qed

lemmas table_op_defs [step_defs] =
  addStackItem_def removeStackItem_def addArrow_def removeArrow_def addAttachment_def
  removeAttachment_def addBattlefieldStack_def removeBattlefieldStack_def
  updateSpecialEntity_def removeSpecialEntity_def updateChatMessage_def

lemma table_op_player_wf:
  assumes "snapshot_wf s" and "\<And>p. pl_zones (f p) = pl_zones p"
  shows "outcome_ok snapshot_wf (updatePlayer s pid (\<lambda>p. Some (f p)))"
  using assms by (auto intro!: updatePlayer_wf)

lemma applyPlayerOp_wf:
  assumes wf: "snapshot_wf s"
  shows "outcome_ok snapshot_wf (applyPlayerOp s op)"
proof -
  have u: "outcome_ok snapshot_wf (updatePlayer s pid (\<lambda>p. Some (f p)))"
    if "\<And>p. pl_zones (f p) = pl_zones p" for pid f
    using wf that by (rule table_op_player_wf)
  have p: "\<forall>pid p. sn_players s pid = Some p \<longrightarrow> player_wf p" and t: "table_wf s"
    using wf by (simp_all add: snapshot_wf_def)
  show ?thesis
    by (cases op)
      (use p t in \<open>simp_all add: u snapshot_wf_def table_wf_def attachmentsOf_def
           battlefieldStacksOf_def setIfDefined_def split: option.split\<close>)
qed

lemma applyTableOp_wf:
  assumes wf: "snapshot_wf s" and op: "table_op_wf op"
  shows "outcome_ok snapshot_wf (applyTableOp s op)"
proof -
  have p: "\<forall>pid p. sn_players s pid = Some p \<longrightarrow> player_wf p" and t: "table_wf s"
    using wf by (simp_all add: snapshot_wf_def)
  note n = snapshot_wf_def table_wf_def attachmentsOf_def battlefieldStacksOf_def
  show ?thesis
    by (cases op)
      (use op p t appendUnique_wf in
        \<open>simp_all add: n step_defs Let_def image_iff eq_commute split: option.split\<close>)
qed

lemma applyOperation_wf:
  "snapshot_wf s \<Longrightarrow> patch_op_wf op \<Longrightarrow> result_ok snapshot_wf (applyOperation s op)"
  by (cases op) (auto intro: applyCardZoneOp_wf applyPlayerOp_wf applyTableOp_wf)

end
