(* ===== verification/V2Projection.thy ===== *)
theory V2Projection
  imports V2Session SnapshotWf
begin

text \<open>
  What the projection of a well-formed state is: a well-formed snapshot, unless a card it shows
  has no renderable identity, in which case it throws the identity error and no other.
\<close>

section \<open>Loops that may throw\<close>

lemma js_map_Inr: "js_map f xs = Inr ys \<longleftrightarrow> list_all2 (\<lambda>x y. f x = Inr y) xs ys"
proof (induction xs arbitrary: ys)
  case Nil
  then show ?case by auto
next
  case (Cons x xs)
  have "js_map f (x # xs) = Inr ys \<longleftrightarrow> (\<exists>y zs. ys = y # zs \<and> f x = Inr y \<and> js_map f xs = Inr zs)"
    by (auto simp: js_bind_eq_Inr)
  then show ?case by (simp add: Cons.IH list_all2_Cons1)
qed

lemma js_map_Inl: "js_map f xs = Inl e \<Longrightarrow> \<exists>x \<in> set xs. f x = Inl e"
proof (induction xs)
  case Nil
  then show ?case by simp
next
  case (Cons x xs)
  then show ?case by (cases "f x"; cases "js_map f xs") auto
qed

lemma js_map_total: "(\<exists>ys. js_map f xs = Inr ys) \<longleftrightarrow> (\<forall>x \<in> set xs. \<exists>y. f x = Inr y)"
proof (induction xs)
  case Nil
  then show ?case by simp
next
  case (Cons x xs)
  then show ?case by (cases "f x"; cases "js_map f xs") auto
qed

section \<open>Cards and zones\<close>

text \<open>The cards a state shows: those of a zone and the sources of stack items.\<close>

definition shows_card :: "v2_state \<Rightarrow> string \<Rightarrow> bool" where
  "shows_card s iid \<longleftrightarrow>
     (\<exists>pid \<in> fst ` set (v2_players s). \<exists>zone. iid \<in> set (zoneIdsOf s pid zone))
     \<or> (\<exists>item \<in> snd ` set (vt_byId (v2_stack s)). iid \<noteq> [] \<and> non_null (vk_sourceInstanceId item) = Some iid)"

definition identity_ok :: "v2_state \<Rightarrow> bool" where
  "identity_ok s \<longleftrightarrow> (\<forall>iid i. shows_card s iid \<longrightarrow> v2_instances s iid = Some i \<longrightarrow>
     renderable i (obj_get (v2_staticCards s) (vi_cardRef i)))"

lemma hydrateCardInstance_cases:
  "hydrateCardInstance s iid zone =
     (case v2_instances s iid of
        None \<Rightarrow> Inr None
      | Some i \<Rightarrow>
          let sc = obj_get (v2_staticCards s) (vi_cardRef i) in
          if renderable i sc then Inr (Some (hydratedCard i sc iid zone)) else Inl GenericError)"
  by (simp add: hydrateCardInstance_def assertRenderableIdentity_def Let_def split: option.split)

lemma hydrateCardInstance_error: "hydrateCardInstance s iid zone = Inl e \<Longrightarrow> e = GenericError"
  by (auto simp: hydrateCardInstance_cases Let_def split: option.splits if_splits)

lemma hydratedCard_id [simp]: "card_instanceId (hydratedCard i sc iid zone) = iid"
  by (simp add: hydratedCard_def)

lemma hydrateCards_ids:
  assumes "hydrateCards s ids zone = Inr cards"
  shows "map card_instanceId cards = filter (\<lambda>i. v2_instances s i \<noteq> None) ids"
proof -
  obtain cs where cs: "js_map (\<lambda>iid. hydrateCardInstance s iid zone) ids = Inr cs"
    and cards: "cards = map the (filter (\<lambda>c. c \<noteq> None) cs)"
    using assms by (auto simp: hydrateCards_def js_bind_eq_Inr)
  from cs have "list_all2 (\<lambda>iid c. hydrateCardInstance s iid zone = Inr c) ids cs" by (simp add: js_map_Inr)
  then have "map card_instanceId (map the (filter (\<lambda>c. c \<noteq> None) cs)) = filter (\<lambda>i. v2_instances s i \<noteq> None) ids"
    by (induction rule: list_all2_induct)
      (auto simp: hydrateCardInstance_cases Let_def split: option.splits if_splits)
  then show ?thesis by (simp add: cards)
qed

lemma hydrateZones_wf:
  assumes "hydrateZones s pid = Inr zones" and "\<And>z. distinct (zoneIdsOf s pid z)"
  shows "\<exists>cards. zones z = Some cards \<and> distinct (map card_instanceId cards)"
proof -
  obtain zs where zs: "js_map (\<lambda>zone. hydrateCards s (zoneIdsOf s pid zone) zone) ZONE_NAMES = Inr zs"
    and zones: "zones = map_of (zip ZONE_NAMES zs)"
    using assms(1) by (auto simp: hydrateZones_def js_bind_eq_Inr)
  then have l2: "list_all2 (\<lambda>zone cards. hydrateCards s (zoneIdsOf s pid zone) zone = Inr cards) ZONE_NAMES zs"
    by (simp add: js_map_Inr)
  then have len: "length ZONE_NAMES = length zs" by (rule list_all2_lengthD)
  have "z \<in> set ZONE_NAMES" by simp
  then obtain k where k: "k < length ZONE_NAMES" "ZONE_NAMES ! k = z" by (metis in_set_conv_nth)
  have "distinct ZONE_NAMES" by (simp add: ZONE_NAMES_def)
  then have "zones z = Some (zs ! k)"
    using map_of_zip_nth [of ZONE_NAMES zs k] k len by (simp add: zones)
  moreover have "hydrateCards s (zoneIdsOf s pid z) z = Inr (zs ! k)"
    using l2 k by (auto dest: list_all2_nthD)
  then have "distinct (map card_instanceId (zs ! k))"
    using hydrateCards_ids assms(2) by (metis distinct_filter)
  ultimately show ?thesis by blast
qed

section \<open>Players\<close>

lemma zoneIdsOf_distinct: "seats_wf s \<Longrightarrow> distinct (zoneIdsOf s pid z)"
  by (cases "v2_zones s pid") (auto simp: zoneIdsOf_def emptyZones_def seats_wf_def dest: zones_wf_distinct)

lemma hydratePlayerState_wf:
  assumes "seats_wf s" and "hydratePlayerState s pid p = Inr h"
  shows "player_wf h"
proof -
  obtain zones where z: "hydrateZones s pid = Inr zones" and h: "hydratePlayerWith s pid p zones = Inr h"
    using assms(2) by (auto simp: hydratePlayerState_def js_bind_eq_Inr)
  have "pl_zones h = zones" using h by (auto simp: hydratePlayerWith_def split: option.splits)
  then show ?thesis
    using hydrateZones_wf [OF z zoneIdsOf_distinct [OF assms(1)]]
    by (auto simp: player_wf_def split: option.split) (metis option.distinct(1) option.inject)+
qed

lemma hydrateZones_total:
  "(\<exists>zones. hydrateZones s pid = Inr zones) \<longleftrightarrow>
     (\<forall>zone. \<forall>iid \<in> set (zoneIdsOf s pid zone). \<exists>c. hydrateCardInstance s iid zone = Inr c)"
proof -
  have one: "(\<exists>cards. hydrateCards s ids zone = Inr cards) \<longleftrightarrow> (\<forall>iid \<in> set ids. \<exists>c. hydrateCardInstance s iid zone = Inr c)"
    for ids zone
    using js_map_total [of "\<lambda>iid. hydrateCardInstance s iid zone" ids]
    by (simp add: hydrateCards_def js_bind_eq_Inr)
  have "(\<exists>zones. hydrateZones s pid = Inr zones) \<longleftrightarrow>
      (\<forall>zone \<in> set ZONE_NAMES. \<exists>cards. hydrateCards s (zoneIdsOf s pid zone) zone = Inr cards)"
    using js_map_total [of "\<lambda>zone. hydrateCards s (zoneIdsOf s pid zone) zone" ZONE_NAMES]
    by (simp add: hydrateZones_def js_bind_eq_Inr)
  then show ?thesis by (simp add: one)
qed

lemma hydrateZones_error: "hydrateZones s pid = Inl e \<Longrightarrow> e = GenericError"
proof -
  have one: "hydrateCards s ids zone = Inl e \<Longrightarrow> e = GenericError" for ids zone
    by (cases "js_map (\<lambda>iid. hydrateCardInstance s iid zone) ids")
      (auto simp: hydrateCards_def dest!: js_map_Inl hydrateCardInstance_error)
  assume "hydrateZones s pid = Inl e"
  then show ?thesis
    by (cases "js_map (\<lambda>zone. hydrateCards s (zoneIdsOf s pid zone) zone) ZONE_NAMES")
      (auto simp: hydrateZones_def dest!: js_map_Inl one)
qed

lemma hydratePlayers_Inr:
  assumes "players_wf (v2_players s)" and "hydratePlayers s = Inr hs"
  shows "list_all2 (\<lambda>(pid, p) (pid', h). pid' = pid \<and> hydratePlayerState s pid p = Inr h)
      (objectEntries (v2_players s)) hs"
proof -
  let ?f = "\<lambda>(pid, p). js_bind (hydratePlayerState s pid p) (\<lambda>h. Inr (pid, h))"
  obtain es where es: "js_map ?f (objectEntries (v2_players s)) = Inr es" and hs: "hs = fromEntries es"
    using assms(2) by (auto simp: hydratePlayers_def js_bind_eq_Inr)
  have l2: "list_all2 (\<lambda>(pid, p) (pid', h). pid' = pid \<and> hydratePlayerState s pid p = Inr h)
      (objectEntries (v2_players s)) es"
    using es by (auto simp: js_map_Inr js_bind_eq_Inr elim!: list.rel_mono_strong)
  then have "map fst es = map fst (objectEntries (v2_players s))"
    by (induction rule: list_all2_induct) auto
  then have "distinct (map fst es)"
    using assms(1) by (metis distinct_objectKeys objectKeys_def players_wf_iff)
  with l2 show ?thesis by (simp add: hs fromEntries_distinct)
qed


section \<open>The stack\<close>

lemma stackItemCard_error: "stackItemCard s item i = Inl e \<Longrightarrow> e = GenericError"
  by (auto simp: stackItemCard_def Let_def split: option.splits if_splits dest: hydrateCardInstance_error)

lemma hydrateStackItem_error: "hydrateStackItem s item = Inl e \<Longrightarrow> e = GenericError"
  by (auto simp: hydrateStackItem_def js_bind_def split: option.splits sum.splits dest: stackItemCard_error)

lemma hydrateStackItem_id:
  assumes "stack_wf (v2_stack s)" and "i \<in> set (vt_order (v2_stack s))"
    and "hydrateStackItem s (obj_get (vt_byId (v2_stack s)) i) = Inr r"
  shows "\<exists>x. r = Some x \<and> si_id x = i"
proof -
  obtain item where item: "obj_get (vt_byId (v2_stack s)) i = Some item"
    using assms(1,2) unfolding stack_wf_def by (metis map_of_eq_None_iff not_None_eq)
  then have "stackItemId item = Some i"
    using assms(1) by (auto simp: stack_wf_def dest: map_of_SomeD)
  with item assms(3) show ?thesis by (auto simp: hydrateStackItem_def js_bind_eq_Inr)
qed

lemma hydrateStack_ids:
  assumes "stack_wf (v2_stack s)" and "hydrateStack s = Inr items"
  shows "map si_id items = vt_order (v2_stack s)"
proof -
  obtain rs where rs: "js_map (\<lambda>i. hydrateStackItem s (obj_get (vt_byId (v2_stack s)) i)) (vt_order (v2_stack s)) = Inr rs"
    and items: "items = map the (filter (\<lambda>x. x \<noteq> None) rs)"
    using assms(2) by (auto simp: hydrateStack_def js_bind_eq_Inr)
  have "list_all2 (\<lambda>i r. \<exists>x. r = Some x \<and> si_id x = i) (vt_order (v2_stack s)) rs"
    using rs hydrateStackItem_id [OF assms(1)] by (auto simp: js_map_Inr elim!: list.rel_mono_strong)
  then have "map si_id (map the (filter (\<lambda>x. x \<noteq> None) rs)) = vt_order (v2_stack s)"
    by (induction rule: list_all2_induct) auto
  then show ?thesis by (simp add: items)
qed

section \<open>The snapshot\<close>

lemma hydrateSnapshot_error:
  assumes "players_wf (v2_players s)" and "hydrateSnapshot s = Inl e"
  shows "e = GenericError"
proof -
  have player: "e = GenericError" if "(pid, p) \<in> set (objectEntries (v2_players s))"
    and "js_bind (hydratePlayerState s pid p) (\<lambda>h. Inr (pid, h)) = Inl e" for pid p
  proof -
    have "vp_colorIdentity p \<noteq> None" using that(1) assms(1) by (force simp: players_wf_def)
    with that(2) show ?thesis
      by (auto simp: hydratePlayerState_def hydratePlayerWith_def js_bind_def
          split: sum.splits option.splits dest: hydrateZones_error)
  qed
  consider "hydratePlayers s = Inl e" | "hydrateStack s = Inl e"
    using assms(2) by (auto simp: hydrateSnapshot_def js_bind_def split: sum.splits)
  then show ?thesis
  proof cases
    case 1
    then show ?thesis
      by (auto simp: hydratePlayers_def js_bind_def split: sum.splits dest!: js_map_Inl player)
  next
    case 2
    then show ?thesis
      by (auto simp: hydrateStack_def js_bind_def split: sum.splits dest!: js_map_Inl hydrateStackItem_error)
  qed
qed

lemma map_of_list_all2:
  "list_all2 (\<lambda>(k, x) (k', y). k' = k \<and> R k x y) xs ys \<Longrightarrow> rel_option (R k) (map_of xs k) (map_of ys k)"
  by (induction rule: list_all2_induct) auto

lemma hydratePlayers_get:
  assumes "players_wf (v2_players s)" and "hydratePlayers s = Inr hs"
  shows "rel_option (\<lambda>p h. hydratePlayerState s pid p = Inr h) (obj_get (v2_players s) pid) (map_of hs pid)"
  using map_of_list_all2 [OF hydratePlayers_Inr [OF assms], of pid] assms(1) by (simp add: players_wf_def)

lemma players_of_snapshot:
  assumes "v2_wf coll s" and "hydratePlayers s = Inr hs" and "map_of hs pid = Some h"
  shows "player_wf h"
proof -
  have "players_wf (v2_players s)" using assms(1) by (simp add: v2_wf_def)
  from hydratePlayers_get [OF this assms(2), of pid] assms(3) obtain p where "hydratePlayerState s pid p = Inr h"
    by (auto simp: option_rel_Some2)
  with assms(1) show ?thesis by (blast intro: hydratePlayerState_wf v2_wf_seats_wf)
qed

lemma map_filter_ids:
  "(\<And>i. i \<in> set is \<Longrightarrow> \<exists>e. f i = Some e \<and> idOf e = i) \<Longrightarrow> map idOf (List.map_filter f is) = is"
proof (induction "is")
  case Nil
  then show ?case by (simp add: List.map_filter_simps)
next
  case (Cons i "is")
  obtain e where "f i = Some e" "idOf e = i" using Cons.prems [of i] by auto
  with Cons show ?case by (simp add: List.map_filter_simps)
qed

lemma hydrateLog_ids:
  assumes "log_wf coll l"
  shows "map le_id (hydrateLog l) = vl_order l"
  unfolding hydrateLog_def
proof (rule map_filter_ids)
  fix i
  assume "i \<in> set (vl_order l)"
  with assms show "\<exists>e. obj_get (vl_byId l) i = Some e \<and> le_id e = i"
    unfolding log_wf_def by (metis map_of_eq_None_iff not_None_eq table_of_get)
qed

lemma hydrateSnapshot_wf:
  assumes w: "v2_wf coll s" and h: "hydrateSnapshot s = Inr snap"
  shows "snapshot_wf snap"
proof -
  obtain hs items where hs: "hydratePlayers s = Inr hs" and items: "hydrateStack s = Inr items"
    and snap: "snap = snapshotWith s hs items"
    using h by (auto simp: hydrateSnapshot_def js_bind_eq_Inr)
  have parts: "stack_wf (v2_stack s)" "log_wf coll (v2_log s)" "relations_wf (v2_relations s)"
    using w by (simp_all add: v2_wf_def)
  have "distinct (map si_id items)" using hydrateStack_ids [OF parts(1) items] parts(1) by (simp add: stack_wf_def)
  moreover have "distinct (map le_id (hydrateLog (v2_log s)))" "length (hydrateLog (v2_log s)) \<le> MAX_EVENT_LOG_ENTRIES"
    using hydrateLog_ids [OF parts(2)] parts(2)
    by (simp_all add: log_wf_def MAX_EVENT_LOG_ENTRIES_def) (metis length_map)
  ultimately have "table_wf snap"
    using relations_values_distinct [OF parts(3)]
    by (simp add: snap snapshotWith_def Let_def table_wf_def attachmentsOf_def battlefieldStacksOf_def)
  moreover have "player_wf p" if "sn_players snap pid = Some p" for pid p
    using that players_of_snapshot [OF w hs] by (simp add: snap snapshotWith_def Let_def)
  ultimately show ?thesis by (simp add: snapshot_wf_def)
qed


section \<open>When the projection throws\<close>

definition card_renderable :: "v2_state \<Rightarrow> string \<Rightarrow> bool" where
  "card_renderable s iid \<longleftrightarrow>
     (\<forall>i. v2_instances s iid = Some i \<longrightarrow> renderable i (obj_get (v2_staticCards s) (vi_cardRef i)))"

lemma hydrateCardInstance_total: "(\<exists>c. hydrateCardInstance s iid zone = Inr c) \<longleftrightarrow> card_renderable s iid"
  by (auto simp: hydrateCardInstance_cases card_renderable_def Let_def split: option.split)

lemma hydratePlayers_total:
  assumes "players_wf (v2_players s)"
  shows "(\<exists>hs. hydratePlayers s = Inr hs) \<longleftrightarrow>
     (\<forall>pid \<in> fst ` set (v2_players s). \<forall>zone. \<forall>iid \<in> set (zoneIdsOf s pid zone). card_renderable s iid)"
proof -
  have one: "(\<exists>y. js_bind (hydratePlayerState s pid p) (\<lambda>h. Inr (pid, h)) = Inr y) \<longleftrightarrow>
      (\<forall>zone. \<forall>iid \<in> set (zoneIdsOf s pid zone). card_renderable s iid)"
    if "(pid, p) \<in> set (v2_players s)" for pid p
  proof -
    have "vp_colorIdentity p \<noteq> None" using that assms by (force simp: players_wf_def)
    then have "(\<exists>y. js_bind (hydratePlayerState s pid p) (\<lambda>h. Inr (pid, h)) = Inr y) \<longleftrightarrow>
        (\<exists>zones. hydrateZones s pid = Inr zones)"
      by (auto simp: js_bind_eq_Inr hydratePlayerState_def hydratePlayerWith_def split: option.splits)
    then show ?thesis by (simp add: hydrateZones_total hydrateCardInstance_total)
  qed
  let ?f = "\<lambda>(pid, p). js_bind (hydratePlayerState s pid p) (\<lambda>h. Inr (pid, h))"
  have "(\<exists>hs. hydratePlayers s = Inr hs) \<longleftrightarrow> (\<exists>es. js_map ?f (objectEntries (v2_players s)) = Inr es)"
    by (simp add: hydratePlayers_def js_bind_eq_Inr)
  also have "\<dots> \<longleftrightarrow> (\<forall>x \<in> set (v2_players s). \<exists>y. ?f x = Inr y)"
    using js_map_total [of ?f "objectEntries (v2_players s)"] by (simp del: split_paired_Ex)
  also have "\<dots> \<longleftrightarrow> (\<forall>(pid, p) \<in> set (v2_players s). \<forall>zone. \<forall>iid \<in> set (zoneIdsOf s pid zone). card_renderable s iid)"
    using one by (intro ball_cong refl) (auto simp del: split_paired_Ex)
  finally show ?thesis by auto
qed

lemma hydrateStackItem_total:
  assumes "stackItemId item = Some i"
  shows "(\<exists>r. hydrateStackItem s (Some item) = Inr r) \<longleftrightarrow>
     (\<forall>iid. iid \<noteq> [] \<longrightarrow> non_null (vk_sourceInstanceId item) = Some iid \<longrightarrow> card_renderable s iid)"
proof -
  have "(\<exists>r. hydrateStackItem s (Some item) = Inr r) \<longleftrightarrow> (\<exists>c. stackItemCard s item i = Inr c)"
    by (simp add: hydrateStackItem_def assms js_bind_eq_Inr)
  also have "\<dots> \<longleftrightarrow> (\<forall>iid. iid \<noteq> [] \<longrightarrow> non_null (vk_sourceInstanceId item) = Some iid \<longrightarrow> card_renderable s iid)"
  proof (cases "non_null (vk_sourceInstanceId item)")
    case None
    then show ?thesis by (simp add: stackItemCard_def Let_def split: option.split)
  next
    case (Some src)
    then show ?thesis
      using hydrateCardInstance_total [of s src]
      by (cases "src = []"; cases "v2_instances s src")
        (auto simp: stackItemCard_def Let_def card_renderable_def split: option.split)
  qed
  finally show ?thesis .
qed

lemma hydrateStack_total:
  assumes "stack_wf (v2_stack s)"
  shows "(\<exists>items. hydrateStack s = Inr items) \<longleftrightarrow>
     (\<forall>item \<in> snd ` set (vt_byId (v2_stack s)). \<forall>iid. iid \<noteq> [] \<longrightarrow>
        non_null (vk_sourceInstanceId item) = Some iid \<longrightarrow> card_renderable s iid)"
proof -
  let ?byId = "vt_byId (v2_stack s)"
  have wf: "wf_obj ?byId" and order: "set (vt_order (v2_stack s)) = fst ` set ?byId"
    using assms by (simp_all add: stack_wf_def)
  have "(\<exists>items. hydrateStack s = Inr items) \<longleftrightarrow>
      (\<forall>i \<in> fst ` set ?byId. \<exists>r. hydrateStackItem s (obj_get ?byId i) = Inr r)"
    by (simp add: hydrateStack_def js_bind_eq_Inr js_map_total [symmetric] order [symmetric])
  also have "\<dots> \<longleftrightarrow> (\<forall>(i, item) \<in> set ?byId. \<exists>r. hydrateStackItem s (Some item) = Inr r)"
    using wf by (auto simp: wf_obj_def)
  also have "\<dots> \<longleftrightarrow> (\<forall>(i, item) \<in> set ?byId. \<forall>iid. iid \<noteq> [] \<longrightarrow>
      non_null (vk_sourceInstanceId item) = Some iid \<longrightarrow> card_renderable s iid)"
    using assms hydrateStackItem_total by (fastforce simp: stack_wf_def)
  finally show ?thesis by auto
qed

lemma hydrateSnapshot_total:
  assumes "v2_wf coll s"
  shows "(\<exists>snap. hydrateSnapshot s = Inr snap) \<longleftrightarrow> identity_ok s"
proof -
  have "(\<exists>snap. hydrateSnapshot s = Inr snap) \<longleftrightarrow>
      (\<exists>hs. hydratePlayers s = Inr hs) \<and> (\<exists>items. hydrateStack s = Inr items)"
    by (auto simp: hydrateSnapshot_def js_bind_eq_Inr)
  moreover have "players_wf (v2_players s)" "stack_wf (v2_stack s)" using assms by (simp_all add: v2_wf_def)
  ultimately have "(\<exists>snap. hydrateSnapshot s = Inr snap) \<longleftrightarrow>
      (\<forall>pid \<in> fst ` set (v2_players s). \<forall>zone. \<forall>iid \<in> set (zoneIdsOf s pid zone). card_renderable s iid)
      \<and> (\<forall>item \<in> snd ` set (vt_byId (v2_stack s)). \<forall>iid. iid \<noteq> [] \<longrightarrow>
           non_null (vk_sourceInstanceId item) = Some iid \<longrightarrow> card_renderable s iid)"
    by (simp only: hydratePlayers_total hydrateStack_total)
  then show ?thesis by (simp only: identity_ok_def shows_card_def card_renderable_def) blast
qed

section \<open>States that share their maps\<close>

lemma zones_same_maps:
  assumes "v2_zones t = v2_zones s" "v2_instances t = v2_instances s" "v2_staticCards t = v2_staticCards s"
  shows "hydrateZones t = hydrateZones s" "card_renderable t = card_renderable s"
    "zoneIdsOf t = zoneIdsOf s"
proof -
  have card: "hydrateCardInstance t = hydrateCardInstance s"
    by (intro ext) (simp only: hydrateCardInstance_def assms)
  have ids: "zoneIdsOf t = zoneIdsOf s" by (intro ext) (simp add: zoneIdsOf_def assms)
  then show "zoneIdsOf t = zoneIdsOf s" .
  show "hydrateZones t = hydrateZones s"
    by (intro ext) (simp add: hydrateZones_def hydrateCards_def card ids)
  show "card_renderable t = card_renderable s" by (intro ext) (simp only: card_renderable_def assms)
qed

lemma hydrateStack_same:
  assumes "v2_stack t = v2_stack s" "v2_instances t = v2_instances s" "v2_staticCards t = v2_staticCards s"
  shows "hydrateStack t = hydrateStack s"
proof -
  have "hydrateCardInstance t = hydrateCardInstance s"
    by (intro ext) (simp only: hydrateCardInstance_def assms)
  then have "stackItemCard t = stackItemCard s"
    by (intro ext) (simp only: stackItemCard_def assms)
  then have "hydrateStackItem t = hydrateStackItem s"
    by (intro ext) (simp only: hydrateStackItem_def)
  then show ?thesis by (simp add: hydrateStack_def assms)
qed

lemma hydratePlayers_same:
  assumes "v2_players t = v2_players s" "v2_zones t = v2_zones s" "v2_zoneCounts t = v2_zoneCounts s"
    "v2_instances t = v2_instances s" "v2_staticCards t = v2_staticCards s"
  shows "hydratePlayers t = hydratePlayers s"
proof -
  have "hydratePlayerWith t = hydratePlayerWith s"
    by (intro ext) (simp only: hydratePlayerWith_def countsOf_def assms)
  then have "hydratePlayerState t = hydratePlayerState s"
    by (intro ext) (simp add: hydratePlayerState_def zones_same_maps [OF assms(2,4,5)])
  then show ?thesis by (simp add: hydratePlayers_def assms)
qed

lemma hydrated_entries_distinct:
  assumes "wf_obj (v2_players s)"
    and "js_map (\<lambda>(pid, p). js_bind (hydratePlayerState s pid p) (\<lambda>h. Inr (pid, h)))
           (objectEntries (v2_players s)) = Inr entries"
  shows "distinct (map fst entries)"
proof -
  have "list_all2 (\<lambda>(pid, p) (pid', h). pid' = pid \<and> hydratePlayerState s pid p = Inr h)
      (objectEntries (v2_players s)) entries"
    using assms(2) by (auto simp: js_map_Inr js_bind_eq_Inr elim!: list.rel_mono_strong)
  then have "map fst entries = map fst (objectEntries (v2_players s))"
    by (induction rule: list_all2_induct) auto
  then show ?thesis using assms(1) by (metis distinct_objectKeys objectKeys_def)
qed

text \<open>The state keeps who may see a revealed library; the snapshot never tells.\<close>

lemma revealed_library_not_projected:
  "hydratePlayerState s pid p = Inr h \<Longrightarrow> pl_revealedLibraryTo h = None"
  by (auto simp: hydratePlayerState_def hydratePlayerWith_def js_bind_eq_Inr split: option.splits)

end
