(* ===== verification/V2Samples.thy ===== *)
theory V2Samples
  imports V2Projection "HOL-Library.Char_ord" "HOL-Library.List_Lexorder"
begin

text \<open>
  A small table of the normalized store on which its properties are exercised: two players, the
  first with two cards in hand and one on the battlefield, all of them face down.
\<close>

text \<open>The collation of the samples: the lexicographic order of the character codes.\<close>

definition string_order :: "string comparator" where
  "string_order = default"

definition hidden_instance :: "string \<Rightarrow> v2_instance" where
  "hidden_instance i = \<lparr>vi_instanceId = i, vi_cardRef = ''ref'', vi_cardKey = None, vi_printId = None,
     vi_cardVersion = None, vi_language = None, vi_viewerVisibility = None, vi_zoneId = [],
     vi_ownerId = None, vi_controllerId = None, vi_hidden = Some True, vi_faceDown = None,
     vi_staticCardPending = None, vi_tapped = None, vi_position = None, vi_rotation = None,
     vi_counters = None, vi_power = None, vi_toughness = None, vi_loyalty = None, vi_defense = None,
     vi_saga = None, vi_activeFaceIndex = None, vi_faceRuntimeStats = None, vi_dungeonMarker = None,
     vi_revealedTo = None, vi_revealMarker = None, vi_isToken = None, vi_isTokenCopy = None,
     vi_isCommander = None, vi_tokenMeta = None\<rparr>"

definition plain_player :: "string \<Rightarrow> v2_player" where
  "plain_player pid = \<lparr>vp_playerId = pid, vp_user = None, vp_displayName = pid, vp_life = num 40,
     vp_isOnline = None, vp_status = ActivePlayer, vp_handCount = num 0, vp_zoneCounts = Map.empty,
     vp_commanderDamage = Map.empty, vp_counters = Map.empty, vp_deckName = None,
     vp_colorIdentity = Some [], vp_backgroundName = None, vp_sleevesName = None,
     vp_concededAt = None, vp_mulligan = None, vp_playTopLibraryRevealed = None,
     vp_topLibraryRevealMarker = None, vp_topLibraryRevealedTo = None, vp_revealedLibraryTo = None,
     vp_libraryShuffleRevision = None, vp_libraryTopRevealEpoch = None, vp_revealedHandIndexes = None\<rparr>"

definition plain_game :: v2_game where
  "plain_game = \<lparr>vg_id = ''g'', vg_status = ''active'', vg_controlPlaneRevision = 0,
     vg_winnerPlayerId = None, vg_finishedAt = None, vg_finishReason = None,
     vg_allDisconnectedSince = None, vg_nextLifecycleAt = None, vg_viewerId = ''a'',
     vg_ownerId = None, vg_version = 0, vg_gamePhase = None, vg_mulligan = None,
     vg_createdAt = None, vg_updatedAt = None, vg_lastDiceResult = None,
     vg_disconnectVotes = Map.empty, vg_rematch = None\<rparr>"

definition table_zones :: "string \<rightharpoonup> zone_map" where
  "table_zones = [''a'' \<mapsto> emptyZones(Hand := [''c1'', ''c2''], Battlefield := [''b1'']),
     ''b'' \<mapsto> emptyZones(Library := [''d1''])]"

definition two_player_table :: v2_state where
  "two_player_table = \<lparr>v2_game = plain_game,
     v2_players = [(''a'', plain_player ''a''), (''b'', plain_player ''b'')],
     v2_sharedCounters = Map.empty, v2_turn = bare_turn,
     v2_instances = [''c1'' \<mapsto> hidden_instance ''c1'', ''c2'' \<mapsto> hidden_instance ''c2'',
       ''b1'' \<mapsto> hidden_instance ''b1'', ''d1'' \<mapsto> hidden_instance ''d1''],
     v2_zones = table_zones,
     v2_zoneCounts = [''a'' \<mapsto> emptyZoneCounts(Hand := num 2, Battlefield := num 1),
       ''b'' \<mapsto> emptyZoneCounts(Library := num 1)],
     v2_relations = createRelationsState [] [] [] [], v2_stack = createStackState [],
     v2_staticCards = [], v2_chat = \<lparr>vh_byId = [], vh_order = [], vh_cursor = None\<rparr>,
     v2_log = \<lparr>vl_byId = [], vl_order = [], vl_cursor = None\<rparr>, v2_lastAppliedVersion = 0,
     v2_pending = Map.empty\<rparr>"

lemmas table_defs = two_player_table_def table_zones_def plain_game_def plain_player_def

lemma two_player_table_wf: "v2_wf coll two_player_table"
  by (simp add: v2_wf_def two_player_table_def createRelationsState_wf createStackState_wf
      List.map_filter_simps players_wf_def wf_obj_def plain_player_def chat_wf_def log_wf_def table_of_def)
    (auto simp: zones_wf_def table_zones_def emptyZones_def ran_def split: if_splits)

lemma two_player_table_identity: "identity_ok two_player_table"
  by (auto simp: identity_ok_def two_player_table_def renderable_def hidden_instance_def split: if_splits)

lemma two_player_table_projects: "\<exists>snap. hydrateSnapshot two_player_table = Inr snap"
  using hydrateSnapshot_total [OF two_player_table_wf] two_player_table_identity by simp

lemma two_player_table_version [simp]: "v2_lastAppliedVersion two_player_table = 0"
  by (simp add: two_player_table_def)

definition sample_envelope :: "int \<Rightarrow> v2_op list \<Rightarrow> patch_envelope" where
  "sample_envelope v ops = \<lparr>pe_gameId = ''g'', pe_version = v, pe_visibility = ''public'',
     pe_ops = map Direct ops, pe_ackClientActionId = None\<rparr>"

lemma sample_envelope_simps [simp]: "pe_version (sample_envelope v ops) = v"
  "map normalizePatchOperation (pe_ops (sample_envelope v ops)) = ops"
  "pe_ackClientActionId (sample_envelope v ops) = None"
  by (simp_all add: sample_envelope_def comp_def)

end
