(* ===== verification/DisconnectVotes.thy ===== *)
theory DisconnectVotes
  imports SnapshotSelectors V2Samples Replica
begin

text \<open>
  Voting about a player who has lost the connection: \<open>GameTableDisconnectVoteService\<close>
  (\<^verbatim>\<open>services/game-table-disconnect-vote.service.ts\<close>). The signals it computes are functions of its
  state; its effects run after every event. The time at which the countdown was last computed is an
  argument of the event, \<open>Date.parse\<close> and the order of the votes in their object are parameters.
\<close>

section \<open>State\<close>

record vote_host =
  vh_parse :: "string \<Rightarrow> jsnum"
  vh_collation :: "string comparator"
  vh_voteIds :: "disconnect_votes \<Rightarrow> string list"
  vh_playerIds :: "game_snapshot \<Rightarrow> string list"

text \<open>\<open>dc_running\<close> are the votes that wait for the gameplay service, \<open>dc_sent\<close> all that were sent;
  \<open>dc_now\<close> is the time in milliseconds at which the countdown was last computed.\<close>

record disconnect_page =
  dc_snapshot :: "game_snapshot option"
  dc_gameId :: string
  dc_playerId :: "string option"
  dc_online :: "string \<rightharpoonup> bool"
  dc_now :: rat
  dc_dismissed :: "string set"
  dc_modalOpen :: bool
  dc_pending :: bool
  dc_error :: "string option"
  dc_countdown :: bool
  dc_running :: "(string \<times> disconnect_vote_choice) list"
  dc_sent :: "(string \<times> disconnect_vote_choice) list"

section \<open>What the service shows\<close>

definition playerByUser :: "vote_host \<Rightarrow> game_snapshot \<Rightarrow> string \<Rightarrow> string option" where
  "playerByUser h t i = List.find (\<lambda>p. case sn_players t p of None \<Rightarrow> False | Some player \<Rightarrow> userId player = Some i)
     (vh_playerIds h t)"

definition isPlayerOffline :: "vote_host \<Rightarrow> disconnect_page \<Rightarrow> string \<Rightarrow> string \<Rightarrow> bool" where
  "isPlayerOffline h s playerId user =
     (let player = Option.bind (dc_snapshot s) (\<lambda>t. or_else (sn_players t playerId)
            (Option.bind (playerByUser h t user) (sn_players t)))
      in case Option.bind player pl_isOnline of
           Some online \<Rightarrow> \<not> online
         | None \<Rightarrow> (case or_else (dc_online s playerId) (if user = playerId then None else dc_online s user) of
             Some online \<Rightarrow> \<not> online
           | None \<Rightarrow> (case Option.bind (dc_snapshot s) (\<lambda>t. Option.bind (sn_disconnectVotes t) (\<lambda>m. m playerId)) of
               None \<Rightarrow> False
             | Some v \<Rightarrow> dvs_targetPlayerId v = Some playerId \<and> dvs_status v \<noteq> VoteCancelled)))"

definition openVoteStates :: "vote_host \<Rightarrow> disconnect_page \<Rightarrow> disconnect_vote_state list" where
  "openVoteStates h s =
     (let votes = or_default (Option.bind (dc_snapshot s) sn_disconnectVotes) Map.empty
      in js_sort (key (\<lambda>v. or_default (dvs_openedAt v) []) (vh_collation h))
           (filter (\<lambda>v. dvs_status v = VoteOpen) (List.map_filter votes (vh_voteIds h votes))))"

definition truthyText :: "string option \<Rightarrow> bool" where
  "truthyText v \<longleftrightarrow> or_default v [] \<noteq> []"

definition voteKeyFor :: "disconnect_vote_state option \<Rightarrow> string option" where
  "voteKeyFor state = (case state of
     None \<Rightarrow> None
   | Some v \<Rightarrow> if dvs_status v \<noteq> VoteOpen \<or> \<not> truthyText (dvs_targetPlayerId v) then None
       else Some (or_default (dvs_targetPlayerId v) [] @ '':'' @ or_default (dvs_openedAt v) [] @ '':''
         @ or_default (dvs_deadlineAt v) []))"

definition visibleOpenVoteStates :: "vote_host \<Rightarrow> disconnect_page \<Rightarrow> disconnect_vote_state list" where
  "visibleOpenVoteStates h s = filter (\<lambda>v. case voteKeyFor (Some v) of
     None \<Rightarrow> False | Some k \<Rightarrow> k \<notin> dc_dismissed s) (openVoteStates h s)"

definition eligibleFor :: "disconnect_vote_state \<Rightarrow> string \<Rightarrow> bool" where
  "eligibleFor v playerId \<longleftrightarrow> playerId \<in> set (or_default (dvs_eligible v) [])"

definition voteState :: "vote_host \<Rightarrow> disconnect_page \<Rightarrow> disconnect_vote_state option" where
  "voteState h s = (if \<not> truthyText (dc_playerId s) then None
     else List.find (\<lambda>v. eligibleFor v (or_default (dc_playerId s) [])) (visibleOpenVoteStates h s))"

definition passiveVoteState :: "vote_host \<Rightarrow> disconnect_page \<Rightarrow> disconnect_vote_state option" where
  "passiveVoteState h s = (if voteState h s \<noteq> None then None else head_option (visibleOpenVoteStates h s))"

definition visibleVoteState :: "vote_host \<Rightarrow> disconnect_page \<Rightarrow> disconnect_vote_state option" where
  "visibleVoteState h s = or_else (voteState h s) (passiveVoteState h s)"

definition targetPlayerId :: "vote_host \<Rightarrow> disconnect_page \<Rightarrow> string option" where
  "targetPlayerId h s = Option.bind (visibleVoteState h s) dvs_targetPlayerId"

definition targetIsOnline :: "vote_host \<Rightarrow> disconnect_page \<Rightarrow> bool" where
  "targetIsOnline h s \<longleftrightarrow> truthyText (targetPlayerId h s) \<and> dc_online s (or_default (targetPlayerId h s) []) = Some True"

definition currentVote :: "vote_host \<Rightarrow> disconnect_page \<Rightarrow> disconnect_vote_choice option" where
  "currentVote h s = (if \<not> truthyText (dc_playerId s) then None
     else Option.bind (visibleVoteState h s) (\<lambda>v. map_option dv_vote (dvs_votes v (or_default (dc_playerId s) []))))"

definition countdownSeconds :: "vote_host \<Rightarrow> disconnect_page \<Rightarrow> int option" where
  "countdownSeconds h s = (case visibleVoteState h s of
     None \<Rightarrow> None
   | Some v \<Rightarrow>
       if \<not> truthyText (dvs_deadlineAt v) \<or> dvs_status v \<noteq> VoteOpen then None
       else case vh_parse h (or_default (dvs_deadlineAt v) []) of
         Fin deadline \<Rightarrow> Some (max 0 \<lceil>(deadline - dc_now s) / 1000\<rceil>)
       | _ \<Rightarrow> None)"

definition voteFinished :: "vote_host \<Rightarrow> disconnect_page \<Rightarrow> bool" where
  "voteFinished h s \<longleftrightarrow>
     map_option dvs_status (visibleVoteState h s) = Some VoteOpen \<and> countdownSeconds h s = Some 0"

definition canVote :: "vote_host \<Rightarrow> disconnect_page \<Rightarrow> bool" where
  "canVote h s = (case (dc_snapshot s, voteState h s) of
     (Some t, Some v) \<Rightarrow>
       (let playerId = or_default (dc_playerId s) [] in
        playerId \<noteq> [] \<and> dvs_status v = VoteOpen \<and> truthyText (dvs_targetPlayerId v)
        \<and> countdownSeconds h s \<noteq> Some 0
        \<and> dvs_targetPlayerId v \<noteq> Some playerId
        \<and> Option.bind (sn_players t playerId) pl_status = Some ActivePlayer
        \<and> eligibleFor v playerId)
   | _ \<Rightarrow> False)"

definition isPassive :: "vote_host \<Rightarrow> disconnect_page \<Rightarrow> bool" where
  "isPassive h s \<longleftrightarrow> visibleVoteState h s \<noteq> None \<and> \<not> canVote h s"

record vote_player_view =
  vp_playerId :: string
  vp_displayName :: "json option"
  vp_online :: bool
  vp_vote :: "disconnect_vote_choice option"

definition votePlayers :: "vote_host \<Rightarrow> disconnect_page \<Rightarrow> vote_player_view list" where
  "votePlayers h s = (case (dc_snapshot s, visibleVoteState h s) of
     (Some t, Some v) \<Rightarrow>
       if \<not> truthyText (dvs_targetPlayerId v) then []
       else List.map_filter (\<lambda>p. case sn_players t p of
           None \<Rightarrow> None
         | Some player \<Rightarrow> if Some p \<noteq> dvs_targetPlayerId v \<and> eligibleFor v p
             then Some \<lparr>vp_playerId = p, vp_displayName = field ''displayName'' (pl_user player),
               vp_online = (dc_online s p \<noteq> Some False), vp_vote = map_option dv_vote (dvs_votes v p)\<rparr>
             else None) (vh_playerIds h t)
   | _ \<Rightarrow> [])"

definition voteLabel :: "disconnect_vote_choice option \<Rightarrow> string" where
  "voteLabel vote = (case vote of
     Some VoteWait \<Rightarrow> ''game.gameDisconnectVoteModal.wait''
   | Some VoteExpel \<Rightarrow> ''game.gameDisconnectVoteModal.expel''
   | None \<Rightarrow> ''shared.text.noVote'')"

section \<open>Operations and effects\<close>

text \<open>The two effects of the constructor: the dialog is open while a vote is visible, and the countdown runs
  while it is open with time left.\<close>

definition dialogEffect :: "vote_host \<Rightarrow> disconnect_page \<Rightarrow> disconnect_page" where
  "dialogEffect h s = (case visibleVoteState h s of
     None \<Rightarrow> s\<lparr>dc_modalOpen := False,
       dc_dismissed := (if openVoteStates h s = [] then {} else dc_dismissed s)\<rparr>
   | Some _ \<Rightarrow> s\<lparr>dc_modalOpen := True\<rparr>)"

definition countdownEffect :: "vote_host \<Rightarrow> disconnect_page \<Rightarrow> disconnect_page" where
  "countdownEffect h s = s\<lparr>dc_countdown := dc_modalOpen s
     \<and> (case countdownSeconds h s of None \<Rightarrow> False | Some seconds \<Rightarrow> seconds > 0)
     \<and> map_option dvs_status (visibleVoteState h s) = Some VoteOpen\<rparr>"

definition openModal :: "vote_host \<Rightarrow> disconnect_page \<Rightarrow> disconnect_page" where
  "openModal h s = (if canVote h s then s\<lparr>dc_modalOpen := True\<rparr> else s)"

definition closeModal :: "vote_host \<Rightarrow> disconnect_page \<Rightarrow> disconnect_page" where
  "closeModal h s = (case voteKeyFor (visibleVoteState h s) of
     None \<Rightarrow> s\<lparr>dc_modalOpen := False\<rparr>
   | Some k \<Rightarrow> s\<lparr>dc_modalOpen := False, dc_dismissed := insert k (dc_dismissed s)\<rparr>)"

definition disconnectVote :: "vote_host \<Rightarrow> disconnect_vote_choice \<Rightarrow> disconnect_page \<Rightarrow> disconnect_page" where
  "disconnectVote h choice s =
     (if dc_pending s \<or> \<not> canVote h s then s
      else let target = or_default (targetPlayerId h s) [] in
        if target = [] \<or> dc_gameId s = [] then s
        else s\<lparr>dc_pending := True, dc_error := None, dc_running := dc_running s @ [(target, choice)],
          dc_sent := dc_sent s @ [(target, choice)]\<rparr>)"

text \<open>The answer of the gameplay service: whether the vote was sent, or a message for an exception.\<close>

definition voteEnds :: "nat \<Rightarrow> string + bool \<Rightarrow> disconnect_page \<Rightarrow> disconnect_page" where
  "voteEnds n answer s = (if n < length (dc_running s) then s\<lparr>
     dc_running := remove_nth n (dc_running s), dc_pending := False,
     dc_error := (case answer of
         Inl message \<Rightarrow> Some message
       | Inr sent \<Rightarrow> if sent then dc_error s else Some ''errors.runtime.la-conexion-de-juego-no-esta-disponible'')\<rparr>
     else s)"

definition consumePresenceMessage :: "vote_host \<Rightarrow> string \<Rightarrow> bool \<Rightarrow> disconnect_page \<Rightarrow> disconnect_page" where
  "consumePresenceMessage h i isOnline s = (case dc_snapshot s of
     None \<Rightarrow> s
   | Some t \<Rightarrow> (case List.find (\<lambda>p. case sn_players t p of None \<Rightarrow> False
         | Some player \<Rightarrow> p = i \<or> userId player = Some i) (vh_playerIds h t) of
       None \<Rightarrow> s
     | Some p \<Rightarrow> (case sn_players t p of
         None \<Rightarrow> s
       | Some player \<Rightarrow> if p = [] \<or> pl_isOnline player = Some isOnline then s
           else s\<lparr>dc_snapshot := Some (t\<lparr>sn_players := (sn_players t)(p \<mapsto> player\<lparr>pl_isOnline := Some isOnline\<rparr>)\<rparr>)\<rparr>)))"

datatype disconnect_event =
    NewSnapshot "game_snapshot option"
  | Presence string bool
  | OnlineChanged "string \<rightharpoonup> bool"
  | CountdownTick
  | OpenDialog
  | CloseDialog
  | CastVote disconnect_vote_choice
  | VoteEnds nat "string + bool"

fun disconnectEvent :: "vote_host \<Rightarrow> disconnect_event \<Rightarrow> disconnect_page \<Rightarrow> disconnect_page" where
  "disconnectEvent h (NewSnapshot t) s = s\<lparr>dc_snapshot := t\<rparr>"
| "disconnectEvent h (Presence i isOnline) s = consumePresenceMessage h i isOnline s"
| "disconnectEvent h (OnlineChanged m) s = s\<lparr>dc_online := m\<rparr>"
| "disconnectEvent h CountdownTick s = s"
| "disconnectEvent h OpenDialog s = openModal h s"
| "disconnectEvent h CloseDialog s = closeModal h s"
| "disconnectEvent h (CastVote choice) s = disconnectVote h choice s"
| "disconnectEvent h (VoteEnds n answer) s = voteEnds n answer s"

text \<open>An event at a time, then the effects.\<close>

definition disconnectStep :: "vote_host \<Rightarrow> disconnect_page \<Rightarrow> rat \<times> disconnect_event \<Rightarrow> disconnect_page" where
  "disconnectStep h s = (\<lambda>(now, e).
     countdownEffect h (dialogEffect h (disconnectEvent h e (s\<lparr>dc_now := now\<rparr>))))"

definition disconnectPage :: "string \<Rightarrow> string option \<Rightarrow> disconnect_page" where
  "disconnectPage gameId playerId = \<lparr>dc_snapshot = None, dc_gameId = gameId, dc_playerId = playerId,
     dc_online = Map.empty, dc_now = 0, dc_dismissed = {}, dc_modalOpen = False, dc_pending = False,
     dc_error = None, dc_countdown = False, dc_running = [], dc_sent = []\<rparr>"

abbreviation disconnectRun :: "vote_host \<Rightarrow> disconnect_page \<Rightarrow> (rat \<times> disconnect_event) list \<Rightarrow> disconnect_page" where
  "disconnectRun h \<equiv> run_steps (disconnectStep h)"

section \<open>Casting a vote\<close>

lemma effects_keep:
  "dc_running (countdownEffect h s) = dc_running s" "dc_running (dialogEffect h s) = dc_running s"
  "dc_pending (countdownEffect h s) = dc_pending s" "dc_pending (dialogEffect h s) = dc_pending s"
  "dc_sent (countdownEffect h s) = dc_sent s" "dc_sent (dialogEffect h s) = dc_sent s"
  "dc_playerId (countdownEffect h s) = dc_playerId s" "dc_playerId (dialogEffect h s) = dc_playerId s"
  by (simp_all add: countdownEffect_def dialogEffect_def split: option.split)

lemma visible_open: "v \<in> set (visibleOpenVoteStates h s) \<Longrightarrow>
    dvs_status v = VoteOpen \<and> (\<exists>t m i. dc_snapshot s = Some t \<and> sn_disconnectVotes t = Some m \<and> m i = Some v)"
  by (cases "Option.bind (dc_snapshot s) sn_disconnectVotes")
    (auto simp: visibleOpenVoteStates_def openVoteStates_def Let_def map_filter_def bind_eq_Some_conv)

lemma time_left:
  assumes "countdownSeconds h s \<noteq> Some 0" "visibleVoteState h s = Some v" "dvs_status v = VoteOpen"
    and "dvs_deadlineAt v = Some d" "d \<noteq> []" "vh_parse h d = Fin deadline"
  shows "dc_now s < deadline"
proof -
  have "countdownSeconds h s = Some (max 0 \<lceil>(deadline - dc_now s) / 1000\<rceil>)"
    using assms(2-) by (simp add: countdownSeconds_def truthyText_def)
  with assms(1) have "max 0 \<lceil>(deadline - dc_now s) / 1000\<rceil> \<noteq> 0" by simp
  then have "0 < \<lceil>(deadline - dc_now s) / 1000\<rceil>" by (metis max_absorb1 not_le)
  then show ?thesis by (simp only: zero_less_ceiling) simp
qed

text \<open>One message runs exactly while the pending flag is set.\<close>

lemma vote_running: "length (dc_running (disconnectRun h (disconnectPage g p) es))
    = (if dc_pending (disconnectRun h (disconnectPage g p) es) then 1 else 0)"
proof -
  have "length (dc_running (disconnectRun h s es)) = (if dc_pending (disconnectRun h s es) then 1 else 0)"
    if "length (dc_running s) = (if dc_pending s then 1 else 0)" for s
    using that
  proof (induction es arbitrary: s)
    case (Cons e es)
    obtain now ev where e: "e = (now, ev)" by (cases e)
    have "length (dc_running (disconnectStep h s e)) = (if dc_pending (disconnectStep h s e) then 1 else 0)"
      using Cons.prems
      by (cases ev) (auto simp: e disconnectStep_def effects_keep openModal_def closeModal_def disconnectVote_def
          voteEnds_def consumePresenceMessage_def Let_def length_Suc_conv remove_nth_def split: option.split if_splits)
    from Cons.IH [OF this] show ?case by simp
  qed simp
  then show ?thesis by (simp add: disconnectPage_def)
qed


definition lostPlayerVote :: disconnect_vote_state where
  "lostPlayerVote = \<lparr>dvs_targetPlayerId = Some ''b'', dvs_status = VoteOpen, dvs_openedAt = Some ''t'',
     dvs_deadlineAt = Some ''d'', dvs_cooldownUntil = None, dvs_eligible = Some [''a''], dvs_version = None,
     dvs_votes = Map.empty\<rparr>"

definition votingTable :: game_snapshot where
  "votingTable = bare_snapshot\<lparr>sn_players := [''a'' \<mapsto> bare_player\<lparr>pl_status := Some ActivePlayer\<rparr>],
     sn_disconnectVotes := Some [''b'' \<mapsto> lostPlayerVote]\<rparr>"

definition votingHost :: vote_host where
  "votingHost = \<lparr>vh_parse = (\<lambda>s. num 5000), vh_collation = string_order, vh_voteIds = (\<lambda>m. [''b'']), vh_playerIds = (\<lambda>t. [''a''])\<rparr>"


section \<open>Dismissing a vote\<close>

lemma dismissed_stays:
  assumes "openVoteStates h (disconnectStep h s e) \<noteq> []" "k \<in> dc_dismissed s"
  shows "k \<in> dc_dismissed (disconnectStep h s e)"
proof -
  obtain now ev where e: "e = (now, ev)" by (cases e)
  define u where "u = disconnectEvent h ev (s\<lparr>dc_now := now\<rparr>)"
  have k: "k \<in> dc_dismissed u"
    using assms(2) by (cases ev) (auto simp: u_def openModal_def closeModal_def voteEnds_def consumePresenceMessage_def
        disconnectVote_def Let_def split: option.split)
  have "openVoteStates h (disconnectStep h s e) = openVoteStates h u"
    by (simp add: e disconnectStep_def u_def openVoteStates_def countdownEffect_def dialogEffect_def split: option.split)
  with assms(1) k show ?thesis
    by (simp add: e disconnectStep_def u_def countdownEffect_def dialogEffect_def split: option.split)
qed

text \<open>A vote that was closed does not open again as long as some vote is open.\<close>

lemma closed_vote_stays_closed:
  assumes "k \<in> dc_dismissed s"
    and "\<forall>n \<le> length es. openVoteStates h (disconnectRun h s (take n es)) \<noteq> []"
    and "v \<in> set (visibleOpenVoteStates h (disconnectRun h s es))"
  shows "voteKeyFor (Some v) \<noteq> Some k"
proof -
  have "k \<in> dc_dismissed (disconnectRun h s (take n es))" if "n \<le> length es" for n
    using that
  proof (induction n)
    case (Suc n)
    then have "k \<in> dc_dismissed (disconnectRun h s (take n es))" by simp
    moreover have run: "disconnectRun h s (take (Suc n) es) = disconnectStep h (disconnectRun h s (take n es)) (es ! n)"
      using Suc.prems by (simp add: take_Suc_conv_app_nth run_steps_append)
    moreover have "openVoteStates h (disconnectRun h s (take (Suc n) es)) \<noteq> []" using assms(2) Suc.prems by blast
    ultimately show ?case using dismissed_stays by metis
  qed (simp add: assms(1))
  from this [of "length es"] assms(3) show ?thesis by (auto simp: visibleOpenVoteStates_def split: option.splits)
qed

text \<open>After every event the dialog is open exactly when an open vote is not dismissed.\<close>

lemma dialog_open: "dc_modalOpen (disconnectStep h s e) \<longleftrightarrow> visibleVoteState h (disconnectStep h s e) \<noteq> None"
proof -
  obtain now ev where e: "e = (now, ev)" by (cases e)
  define u where "u = disconnectEvent h ev (s\<lparr>dc_now := now\<rparr>)"
  have vis: "visibleVoteState h x = None \<longleftrightarrow> visibleOpenVoteStates h x = []" for x
    by (auto simp: visibleVoteState_def passiveVoteState_def voteState_def head_option_def or_else_def
        split: option.splits list.splits dest: find_Some_mem)
  have keep: "visibleVoteState h (x\<lparr>dc_countdown := b\<rparr>) = visibleVoteState h x"
    "visibleVoteState h (x\<lparr>dc_modalOpen := b\<rparr>) = visibleVoteState h x"
    "openVoteStates h (x\<lparr>dc_modalOpen := b, dc_dismissed := d\<rparr>) = openVoteStates h x" for x b d
    by (simp_all add: visibleVoteState_def passiveVoteState_def voteState_def visibleOpenVoteStates_def openVoteStates_def
        cong: option.case_cong)
  have "visibleVoteState h (u\<lparr>dc_modalOpen := False, dc_dismissed := if openVoteStates h u = [] then {} else dc_dismissed u\<rparr>) = None"
    if "visibleVoteState h u = None"
    using that by (simp add: vis visibleOpenVoteStates_def keep cong: option.case_cong)
  then show ?thesis
    by (cases "visibleVoteState h u")
      (simp_all add: e disconnectStep_def u_def [symmetric] countdownEffect_def dialogEffect_def keep split: if_split_asm)
qed

end
