(* ===== verification/SnapshotSamples.thy ===== *)
theory SnapshotSamples
  imports SnapshotWf
begin

text \<open>
  A small table on which the properties of the reducer are exercised: one player with two
  cards in hand and one on the battlefield, playing the first card, removing it, and the
  patches that carry these operations.
\<close>

definition two_zone_snapshot :: game_snapshot where
  "two_zone_snapshot = bare_snapshot\<lparr>sn_players := [''a'' \<mapsto> bare_player\<lparr>pl_zones :=
     bare_zones(Hand \<mapsto> [bare_card ''c1'', bare_card ''c2''], Battlefield \<mapsto> [bare_card ''b1''])\<rparr>]\<rparr>"

definition play_first_card :: card_move_op where
  "play_first_card = \<lparr>mv_instanceId = ''c1'',
     mv_from = \<lparr>zr_playerId = ''a'', zr_zone = Hand\<rparr>,
     mv_to = \<lparr>zt_playerId = ''a'', zt_zone = Battlefield, zt_index = Some (num 0)\<rparr>,
     mv_card = None, mv_zoneCounts = None\<rparr>"

lemma play_first_card_zones:
  "zoneCards two_zone_snapshot ''a'' Hand = Some [bare_card ''c1'', bare_card ''c2'']"
  "zoneCards two_zone_snapshot ''a'' Battlefield = Some [bare_card ''b1'']"
  by (simp_all add: zoneCards_def two_zone_snapshot_def bare_zones_def)

lemma play_first_card_runs:
  "\<exists>t. applyOperation two_zone_snapshot (CardZoneOp (CardMove play_first_card)) = Inr (OpApplied t)"
proof -
  have "moveCard two_zone_snapshot play_first_card = Inr (finishZoneCounts u ''a'' None)"
    if "u = rebaseAfterMove play_first_card (Some 0)
      (movedZones two_zone_snapshot ''a'' Hand [bare_card ''c2''] ''a'' Battlefield
        (insert_at 0 (placedCard play_first_card (bare_card ''c1'') (Some (bare_card ''c1''))) [bare_card ''b1'']))" for u
    using moveCard_Some [of two_zone_snapshot play_first_card "[bare_card ''c1'', bare_card ''c2'']"
        "[bare_card ''b1'']" "bare_card ''c1''"] play_first_card_zones that
    by (simp add: play_first_card_def movingCardOf_def sourceCardOf_def bare_card_def invalidIndex_def
        nextFromCardsOf_def targetCardsAfterRemoval_def sameZone_def insertIndex_def vacatedIndex_def)
  then show ?thesis by (simp add: finishZoneCounts_def)
qed

definition commander_snapshot :: game_snapshot where
  "commander_snapshot = bare_snapshot\<lparr>sn_players := [''a'' \<mapsto> bare_player\<lparr>pl_zones :=
     bare_zones(Hand \<mapsto> [(bare_card ''c1'')\<lparr>card_isCommander := Some True\<rparr>])\<rparr>]\<rparr>"

lemma play_commander_runs:
  "\<exists>t. applyOperation commander_snapshot (CardZoneOp (CardMove play_first_card)) = Inr (OpApplied t)"
proof -
  have zones: "zoneCards commander_snapshot ''a'' Hand = Some [(bare_card ''c1'')\<lparr>card_isCommander := Some True\<rparr>]"
    "zoneCards commander_snapshot ''a'' Battlefield = Some []"
    by (simp_all add: zoneCards_def commander_snapshot_def bare_zones_def)
  show ?thesis
    using moveCard_Some [of commander_snapshot play_first_card
        "[(bare_card ''c1'')\<lparr>card_isCommander := Some True\<rparr>]" "[]"
        "(bare_card ''c1'')\<lparr>card_isCommander := Some True\<rparr>"] zones
    by (simp add: play_first_card_def movingCardOf_def sourceCardOf_def bare_card_def invalidIndex_def
        finishZoneCounts_def)
qed

definition drop_first_card :: card_remove_op where
  "drop_first_card = \<lparr>rmv_playerId = ''a'', rmv_zone = Hand, rmv_instanceId = ''c1'',
     rmv_zoneCounts = None\<rparr>"

lemma two_zone_wf: "snapshot_wf two_zone_snapshot"
  by (auto simp: snapshot_wf_def two_zone_snapshot_def bare_snapshot_def table_wf_def
      attachmentsOf_def battlefieldStacksOf_def player_wf_def bare_zones_def bare_card_def)

lemma two_zone_version: "sn_version two_zone_snapshot = 0" "sn_eventLog two_zone_snapshot = []"
  "sn_arrows two_zone_snapshot = []" "sn_attachments two_zone_snapshot = None"
  by (simp_all add: two_zone_snapshot_def bare_snapshot_def)

lemma drop_first_card_runs:
  "\<exists>t. applyOperation two_zone_snapshot (CardZoneOp (CardRemove drop_first_card)) = Inr (OpApplied t)"
proof -
  have "result_ok snapshot_wf (removeCard two_zone_snapshot drop_first_card)"
    using two_zone_wf by (rule removeCard_wf)
  moreover have "removeCard two_zone_snapshot drop_first_card \<noteq> Inr (OpFailed r)" for r
    by (simp add: removeCard_def drop_first_card_def two_zone_snapshot_def Let_def holdsCard_def
        bare_zones_def bare_card_def ZONE_NAMES_def replaceZoneSnapshotOnly_def zoneCards_def
        finishZoneCounts_def)
  ultimately show ?thesis by (auto elim!: result_ok.elims outcome_ok.elims)
qed

definition sample_patch :: "int \<Rightarrow> patch_op list \<Rightarrow> game_patch" where
  "sample_patch v ops = \<lparr>gp_gameId = ''g'', gp_baseVersion = v, gp_version = v + 1,
     gp_operations = ops, gp_event = None, gp_clientActionId = None\<rparr>"

lemma sample_patch_version [simp]: "gp_version (sample_patch v ops) = v + 1"
  "gp_baseVersion (sample_patch v ops) = v" "gp_operations (sample_patch v ops) = ops"
  by (simp_all add: sample_patch_def)

abbreviation play_patch :: game_patch where
  "play_patch \<equiv> sample_patch 0 [CardZoneOp (CardMove play_first_card)]"

lemma play_patch_applies: "\<exists>t. applyGameSnapshotPatch two_zone_snapshot play_patch = Inr (Applied t)"
proof -
  obtain t where "applyOperation two_zone_snapshot (CardZoneOp (CardMove play_first_card)) = Inr (OpApplied t)"
    using play_first_card_runs by blast
  then show ?thesis
    by (simp add: applyGameSnapshotPatch_def applyGameSnapshotPatchOperations_def
        getGamePatchDecision_def two_zone_version)
qed

definition sample_entry :: "string \<Rightarrow> game_log_entry" where
  "sample_entry i = \<lparr>le_id = i, le_type = ''card.moved'', le_message = None, le_version = None,
     le_createdAt = None, le_actorId = None, le_displayName = None, le_i18nKey = None,
     le_params = None, le_subject = None, le_refs = None, le_visibility = None, le_cardNames = None,
     le_cardInstanceId = None, le_cardPlayerId = None, le_cardZone = None\<rparr>"

end
