(* ===== verification/V2Converge.thy ===== *)
theory V2Converge
  imports V2Samples SnapshotSamples
begin

text \<open>
  The log of the store does not depend on how its entries arrive: clients that have received the
  same entries, in pages and patches of any size and order, with repetitions, hold the same log.
  The argument is about keeping the newest of a growing set under a total order.
\<close>

section \<open>Sorted lists without repetitions\<close>

definition separates :: "'a comparator \<Rightarrow> 'a set \<Rightarrow> bool" where
  "separates cmp A \<longleftrightarrow> (\<forall>x \<in> A. \<forall>y \<in> A. compare cmp x y = Equiv \<longrightarrow> x = y)"

lemma separates_subset: "separates cmp B \<Longrightarrow> A \<subseteq> B \<Longrightarrow> separates cmp A"
  by (auto simp: separates_def)

lemma js_sorted_head: "js_sorted cmp (x # xs) \<Longrightarrow> y \<in> set xs \<Longrightarrow> compare cmp x y \<noteq> Greater"
  using sorted_append_iff [of cmp "[x]" xs] by simp

lemma compare_flip: "compare cmp x y \<noteq> Greater \<Longrightarrow> compare cmp y x \<noteq> Less"
  by (simp add: compare.greater_iff_sym_less)

lemma sorted_unique:
  assumes "js_sorted cmp xs" "js_sorted cmp ys" "distinct xs" "distinct ys" "set xs = set ys"
    and "separates cmp (set xs)"
  shows "xs = ys"
  using assms
proof (induction xs arbitrary: ys rule: list.induct)
  case Nil
  then show ?case by simp
next
  case (Cons x xs)
  then obtain y ys' where ys: "ys = y # ys'" by (cases ys) auto
  have "compare cmp x y = Equiv"
  proof (cases "x = y")
    case False
    have "y \<in> set ys" "x \<in> set (x # xs)" by (simp_all add: ys)
    then have "y \<in> set (x # xs)" "x \<in> set ys" by (simp_all only: Cons.prems(5))
    with False have mem: "y \<in> set xs" "x \<in> set ys'" by (simp_all add: ys)
    have le: "compare cmp x y \<noteq> Greater" by (rule js_sorted_head [OF Cons.prems(1) mem(1)])
    have "compare cmp y x \<noteq> Greater" by (rule js_sorted_head [OF Cons.prems(2) [unfolded ys] mem(2)])
    then have "compare cmp x y \<noteq> Less" by (rule compare_flip)
    with le show ?thesis by (meson comp.exhaust)
  qed simp
  then have xy: "x = y" using Cons.prems(5,6) ys by (auto simp: separates_def)
  have "set xs = set ys'" using Cons.prems(3,4,5) ys xy by auto
  moreover have "separates cmp (set xs)" by (rule separates_subset [OF Cons.prems(6)]) auto
  ultimately have "xs = ys'"
    using Cons.prems(1-4) ys by (intro Cons.IH) (auto dest: sorted_Cons_imp_sorted)
  with xy ys show ?case by simp
qed

section \<open>Keeping the newest\<close>

definition newer :: "'a comparator \<Rightarrow> 'a set \<Rightarrow> 'a \<Rightarrow> 'a set" where
  "newer cmp A x = {y \<in> A. compare cmp x y = Less}"

definition newest :: "'a comparator \<Rightarrow> nat \<Rightarrow> 'a set \<Rightarrow> 'a set" where
  "newest cmp n A = {x \<in> A. card (newer cmp A x) < n}"

lemma newest_subset: "newest cmp n A \<subseteq> A"
  by (auto simp: newest_def)

lemma finite_newer: "finite A \<Longrightarrow> finite (newer cmp A x)"
  by (simp add: newer_def)

lemma newer_head:
  fixes x :: 'a and xs :: "'a list"
  assumes "js_sorted cmp (x # xs)" "distinct (x # xs)" "separates cmp (set (x # xs))"
  shows "newer cmp (set (x # xs)) x = set xs"
    and "y \<in> set xs \<Longrightarrow> newer cmp (set (x # xs)) y = newer cmp (set xs) y"
proof -
  have "compare cmp x y = Less" if "y \<in> set xs" for y
  proof -
    have "compare cmp x y \<noteq> Greater" using assms(1) that by (rule js_sorted_head)
    moreover have "compare cmp x y \<noteq> Equiv" using assms(2,3) that by (auto simp: separates_def)
    ultimately show ?thesis by (cases "compare cmp x y") auto
  qed
  then show "newer cmp (set (x # xs)) x = set xs" by (auto simp: newer_def)
  show "newer cmp (set (x # xs)) y = newer cmp (set xs) y" if "y \<in> set xs"
    using compare_flip [OF js_sorted_head [OF assms(1) that]] by (auto simp: newer_def)
qed

lemma slice_last_newest:
  assumes "js_sorted cmp xs" "distinct xs" "separates cmp (set xs)"
  shows "set (slice_last n xs) = newest cmp n (set xs)"
  using assms
proof (induction xs rule: list.induct)
  case Nil
  then show ?case by (simp add: slice_last_def newest_def)
next
  case (Cons x xs)
  have IH: "set (slice_last n xs) = newest cmp n (set xs)"
    using Cons.prems by (intro Cons.IH) (auto dest: sorted_Cons_imp_sorted intro: separates_subset)
  have rest: "{y \<in> set xs. card (newer cmp (set (x # xs)) y) < n} = newest cmp n (set xs)"
    using newer_head(2) [OF Cons.prems(1-3)] by (auto simp: newest_def)
  have x: "card (newer cmp (set (x # xs)) x) = length xs"
    using newer_head(1) [OF Cons.prems] Cons.prems(2) by (simp add: distinct_card)
  have "newest cmp n (set (x # xs)) = (if length xs < n then {x} else {}) \<union> newest cmp n (set xs)"
    unfolding rest [symmetric] using x by (auto simp: newest_def)
  moreover have "set (slice_last n (x # xs)) = (if length xs < n then {x} else {}) \<union> set (slice_last n xs)"
    by (auto simp: slice_last_def drop_Cons' Suc_diff_le)
  ultimately show ?case by (simp add: IH)
qed

lemma sorted_enumeration:
  assumes "finite A" "separates cmp A"
  obtains xs where "js_sorted cmp xs" "distinct xs" "set xs = A"
proof -
  obtain ys where ys: "set ys = A" "distinct ys" using finite_distinct_list [OF assms(1)] by blast
  show thesis
  proof
    show "js_sorted cmp (js_sort cmp ys)" by simp
    show "distinct (js_sort cmp ys)" using ys(2)
      by (metis Sorting_Algorithms.mset_sort mset_eq_imp_distinct_iff)
    show "set (js_sort cmp ys) = A" using ys(1) by simp
  qed
qed

text \<open>An element that is not among the newest has enough newer ones among the newest.\<close>

lemma card_newest:
  assumes "finite A" "separates cmp A" "x \<in> A" "x \<notin> newest cmp n A"
  shows "n \<le> card (newer cmp (newest cmp n A) x)"
proof -
  obtain xs where xs: "js_sorted cmp xs" "distinct xs" "set xs = A"
    using assms(1,2) by (rule sorted_enumeration)
  define old where "old = take (length xs - n) xs"
  have split: "xs = old @ slice_last n xs" by (simp add: old_def slice_last_def)
  have kept: "set (slice_last n xs) = newest cmp n A" using slice_last_newest [of cmp xs n] xs assms(2) by simp
  then have old: "x \<in> set old" using assms(3,4) xs(3) split by (metis UnE set_append)
  have "js_sorted cmp (old @ slice_last n xs)" using xs(1) split by metis
  then have "compare cmp x y \<noteq> Greater" if "y \<in> newest cmp n A" for y
    using that old kept unfolding sorted_append_iff by blast
  moreover have "compare cmp x y \<noteq> Equiv" if "y \<in> newest cmp n A" for y
    using that assms newest_subset [of cmp n A] by (auto simp: separates_def)
  ultimately have "compare cmp x y = Less" if "y \<in> newest cmp n A" for y
    using that by (cases "compare cmp x y") auto
  then have "newer cmp (newest cmp n A) x = newest cmp n A" by (auto simp: newer_def)
  moreover have "card (newest cmp n A) = length (slice_last n xs)"
    using xs(2) by (simp add: kept [symmetric] slice_last_def distinct_card)
  moreover have "n < length xs" using old by (cases "n < length xs") (auto simp: old_def)
  ultimately show ?thesis by simp
qed

lemma newest_newest:
  assumes "finite A" "finite B" "separates cmp (A \<union> B)"
  shows "newest cmp n (newest cmp n A \<union> B) = newest cmp n (A \<union> B)"
proof (rule set_eqI)
  fix x
  have sub: "newer cmp (newest cmp n A \<union> B) x \<subseteq> newer cmp (A \<union> B) x"
    by (auto simp: newer_def newest_def)
  have fin: "finite (newer cmp (A \<union> B) x)" using assms(1,2) by (simp add: newer_def)
  have sepA: "separates cmp A" by (rule separates_subset [OF assms(3)]) simp
  show "x \<in> newest cmp n (newest cmp n A \<union> B) \<longleftrightarrow> x \<in> newest cmp n (A \<union> B)"
  proof
    assume x: "x \<in> newest cmp n (newest cmp n A \<union> B)"
    then have less: "card (newer cmp (newest cmp n A \<union> B) x) < n" and mem: "x \<in> A \<union> B"
      using newest_subset [of cmp n A] by (auto simp: newest_def)
    have "newer cmp (A \<union> B) x \<subseteq> newer cmp (newest cmp n A \<union> B) x"
    proof (rule ccontr)
      assume "\<not> newer cmp (A \<union> B) x \<subseteq> newer cmp (newest cmp n A \<union> B) x"
      then obtain y where y: "y \<in> A" "y \<notin> newest cmp n A" "compare cmp x y = Less"
        by (auto simp: newer_def)
      have "newer cmp (newest cmp n A) y \<subseteq> newer cmp (newest cmp n A \<union> B) x"
        using y(3) by (auto simp: newer_def intro: compare.trans_less)
      moreover have "finite (newer cmp (newest cmp n A \<union> B) x)" using sub fin by (rule finite_subset)
      ultimately have "card (newer cmp (newest cmp n A) y) \<le> card (newer cmp (newest cmp n A \<union> B) x)"
        by (intro card_mono)
      with card_newest [OF assms(1) sepA y(1,2)] less show False by simp
    qed
    with sub less mem show "x \<in> newest cmp n (A \<union> B)" by (auto simp: newest_def)
  next
    assume x: "x \<in> newest cmp n (A \<union> B)"
    then have less: "card (newer cmp (A \<union> B) x) < n" and mem: "x \<in> A \<union> B" by (auto simp: newest_def)
    have "card (newer cmp (newest cmp n A \<union> B) x) < n" using card_mono [OF fin sub] less by simp
    moreover have "x \<in> newest cmp n A" if "x \<in> A"
    proof -
      have "card (newer cmp A x) \<le> card (newer cmp (A \<union> B) x)"
        using fin by (intro card_mono) (auto simp: newer_def)
      with that less show ?thesis by (simp add: newest_def)
    qed
    ultimately show "x \<in> newest cmp n (newest cmp n A \<union> B)" using mem by (auto simp: newest_def)
  qed
qed

section \<open>Merging logs\<close>

text \<open>
  The log that lists \<open>order\<close>, with the entries that \<open>V\<close> gives for the ids. Every merge of entries
  that agree with \<open>V\<close> ends in such a log, which is determined by the set of its ids.
\<close>

definition logOf :: "(string \<Rightarrow> game_log_entry) \<Rightarrow> string list \<Rightarrow> v2_log" where
  "logOf V order = \<lparr>vl_byId = map (\<lambda>i. (i, V i)) order, vl_order = order,
     vl_cursor = (if order = [] then None else Some (last order))\<rparr>"

abbreviation entry_order :: "string comparator \<Rightarrow> (string \<Rightarrow> game_log_entry) \<Rightarrow> string comparator" where
  "entry_order coll V \<equiv> key (\<lambda>i. Some (V i)) (compareLogEntries coll)"

definition agrees :: "(string \<Rightarrow> game_log_entry) \<Rightarrow> game_log_entry obj \<Rightarrow> bool" where
  "agrees V byId \<longleftrightarrow> wf_obj byId \<and> (\<forall>i e. obj_get byId i = Some e \<longrightarrow> e = V i)"

definition settled :: "string comparator \<Rightarrow> (string \<Rightarrow> game_log_entry) \<Rightarrow> string set \<Rightarrow> v2_log \<Rightarrow> bool" where
  "settled coll V ids l \<longleftrightarrow> (\<exists>order. l = logOf V order \<and> distinct order
     \<and> js_sorted (entry_order coll V) order \<and> set order = newest (entry_order coll V) 250 ids)"

lemma agrees_store:
  assumes "agrees V byId" and "\<forall>e \<in> set es. V (le_id e) = e"
  shows "agrees V (storeLogEntries byId es)"
  using assms
proof (induction es arbitrary: byId)
  case Nil
  then show ?case by (simp add: storeLogEntries_def)
next
  case (Cons e es)
  have "agrees V (obj_set (le_id e) e byId)" using Cons.prems by (auto simp: agrees_def)
  from Cons.IH [OF this] Cons.prems(2) show ?case by (simp add: storeLogEntries_def)
qed

lemma agrees_get: "agrees V byId \<Longrightarrow> i \<in> fst ` set byId \<Longrightarrow> obj_get byId i = Some (V i)"
  unfolding agrees_def by (metis map_of_eq_None_iff not_None_eq)

lemma agrees_logOf: "distinct order \<Longrightarrow> agrees V (vl_byId (logOf V order))"
  by (auto simp: agrees_def logOf_def wf_obj_def comp_def get_restricted split: if_splits)

lemma merge_settled:
  assumes "agrees V (vl_byId l)" and "\<forall>e \<in> set es. V (le_id e) = e"
    and "separates (entry_order coll V) (fst ` set (vl_byId l) \<union> le_id ` set es)"
  shows "settled coll V (fst ` set (vl_byId l) \<union> le_id ` set es) (mergeLogEntries coll l es 250 KeepNewest)"
proof -
  define byId where "byId = storeLogEntries (vl_byId l) es"
  have ag: "agrees V byId" unfolding byId_def by (rule agrees_store [OF assms(1,2)])
  have keys: "fst ` set byId = fst ` set (vl_byId l) \<union> le_id ` set es"
    by (simp add: byId_def keys_storeLogEntries)
  define sorted where "sorted = js_sort (key (obj_get byId) (compareLogEntries coll)) (objectKeys byId)"
  have d: "distinct sorted"
    using ag unfolding sorted_def agrees_def
    by (metis Sorting_Algorithms.mset_sort distinct_objectKeys mset_eq_imp_distinct_iff)
  have set_sorted: "set sorted = fst ` set byId" by (simp add: sorted_def)
  have "js_sorted (key (obj_get byId) (compareLogEntries coll)) sorted" by (simp add: sorted_def)
  then have s: "js_sorted (entry_order coll V) sorted"
    using js_sorted_key_cong [of sorted "obj_get byId" "\<lambda>i. Some (V i)" "compareLogEntries coll"]
      agrees_get [OF ag] by (simp add: set_sorted)
  define order where "order = slice_last 250 sorted"
  have order: "distinct order" "js_sorted (entry_order coll V) order"
    "set order = newest (entry_order coll V) 250 (fst ` set byId)"
    using d s js_sorted_retain [OF s, of KeepNewest 250] slice_last_newest [OF s d, of 250] assms(3)
    by (simp_all add: order_def retain_def set_sorted keys)
  have "set order \<subseteq> fst ` set byId" using order(3) newest_subset by metis
  then have get: "obj_get byId i = Some (V i)" if "i \<in> set order" for i
    using that agrees_get [OF ag] by blast
  have kept: "retain KeepNewest (max 1 250) sorted = order" by (simp add: order_def retain_def)
  have "mergeLogEntries coll l es 250 KeepNewest = logOf V order"
    unfolding mergeLogEntries_def Let_def byId_def [symmetric] sorted_def [symmetric] kept
      restricted_obj [OF order(1)] logOf_def
    using get by simp
  with order show ?thesis unfolding settled_def keys by blast
qed

lemma settled_agrees: "settled coll V ids l \<Longrightarrow> agrees V (vl_byId l)"
  unfolding settled_def by (elim exE conjE) (simp only: agrees_logOf)

lemma logOf_keys: "fst ` set (vl_byId (logOf V order)) = set order"
  by (simp add: logOf_def image_image)

lemma settled_keys: "settled coll V ids l \<Longrightarrow> fst ` set (vl_byId l) = newest (entry_order coll V) 250 ids"
  unfolding settled_def by (elim exE conjE) (simp only: logOf_keys)

text \<open>One batch more keeps the newest of all that have arrived.\<close>

lemma settled_step:
  assumes "settled coll V ids l" and "\<forall>e \<in> set es. V (le_id e) = e" and "finite ids"
    and "separates (entry_order coll V) (ids \<union> le_id ` set es)"
  shows "settled coll V (ids \<union> le_id ` set es) (mergeLogEntries coll l es 250 KeepNewest)"
proof -
  have "separates (entry_order coll V) (fst ` set (vl_byId l) \<union> le_id ` set es)"
    using assms(4) newest_subset [of "entry_order coll V" 250 ids] settled_keys [OF assms(1)]
    by (auto intro: separates_subset)
  from merge_settled [OF settled_agrees [OF assms(1)] assms(2) this]
  show ?thesis
    using newest_newest [OF assms(3) _ assms(4)] by (simp add: settled_def settled_keys [OF assms(1)])
qed

lemma settled_batches:
  assumes "settled coll V ids l" and "\<forall>e \<in> set (concat batches). V (le_id e) = e" and "finite ids"
    and "separates (entry_order coll V) (ids \<union> le_id ` set (concat batches))"
  shows "settled coll V (ids \<union> le_id ` set (concat batches))
     (foldl (\<lambda>l es. mergeLogEntries coll l es 250 KeepNewest) l batches)"
  using assms
proof (induction batches arbitrary: l ids)
  case Nil
  then show ?case by simp
next
  case (Cons es batches)
  have "separates (entry_order coll V) (ids \<union> le_id ` set es)"
    by (rule separates_subset [OF Cons.prems(4)]) auto
  then have step: "settled coll V (ids \<union> le_id ` set es) (mergeLogEntries coll l es 250 KeepNewest)"
    using Cons.prems by (intro settled_step) auto
  have "separates (entry_order coll V) (ids \<union> le_id ` set es \<union> le_id ` set (concat batches))"
    using Cons.prems(4) by (simp add: image_Un Un_assoc)
  from Cons.IH [OF step _ _ this] Cons.prems show ?case by (simp add: image_Un Un_assoc)
qed

lemma settled_unique:
  assumes "settled coll V ids l" "settled coll V ids l'" "separates (entry_order coll V) ids"
  shows "l = l'"
proof -
  from assms obtain xs ys where l: "l = logOf V xs" "l' = logOf V ys"
    and xs: "js_sorted (entry_order coll V) xs" "js_sorted (entry_order coll V) ys" "distinct xs" "distinct ys"
      "set xs = newest (entry_order coll V) 250 ids" "set ys = newest (entry_order coll V) 250 ids"
    unfolding settled_def by blast
  have "separates (entry_order coll V) (set xs)"
    by (rule separates_subset [OF assms(3)]) (simp add: xs newest_subset)
  then have "xs = ys" using xs by (intro sorted_unique) auto
  then show ?thesis by (simp add: l)
qed

section \<open>Convergence\<close>

lemma separates_entries:
  assumes "separates coll ids" and "\<forall>i \<in> ids. le_id (V i) = i"
  shows "separates (entry_order coll V) ids"
  unfolding separates_def
proof (intro ballI impI)
  fix i j
  assume ij: "i \<in> ids" "j \<in> ids" and "compare (entry_order coll V) i j = Equiv"
  then have "compare coll (le_id (V i)) (le_id (V j)) = Equiv"
    by (simp add: compareLogEntries_def compare_prod_lex_apply log_rank_def split: comp.splits)
  with ij assms show "i = j" by (simp add: separates_def)
qed

definition mergeBatches :: "string comparator \<Rightarrow> v2_log \<Rightarrow> game_log_entry list list \<Rightarrow> v2_log" where
  "mergeBatches coll l batches = foldl (\<lambda>l es. mergeLogEntries coll l es 250 KeepNewest) l batches"

lemma merge_batches_settled:
  assumes "log_wf coll l" and "batches \<noteq> []"
    and "\<forall>e \<in> snd ` set (vl_byId l) \<union> set (concat batches). V (le_id e) = e"
    and "separates (entry_order coll V) (le_id ` (snd ` set (vl_byId l) \<union> set (concat batches)))"
  shows "settled coll V (le_id ` (snd ` set (vl_byId l) \<union> set (concat batches))) (mergeBatches coll l batches)"
proof -
  obtain es rest where b: "batches = es # rest" using assms(2) by (cases batches) auto
  have t: "table_of le_id (vl_byId l)" using assms(1) by (simp add: log_wf_def)
  then have stored: "fst ` set (vl_byId l) = le_id ` snd ` set (vl_byId l)"
    by (force simp: table_of_def image_image)
  have "agrees V (vl_byId l)"
    unfolding agrees_def
  proof (intro conjI allI impI)
    show "wf_obj (vl_byId l)" using t by (simp add: table_of_def)
    fix i e
    assume e: "obj_get (vl_byId l) i = Some e"
    then have "e \<in> snd ` set (vl_byId l)" by (force dest: map_of_SomeD)
    with assms(3) have "V (le_id e) = e" by blast
    with table_of_get [OF t e] show "e = V i" by simp
  qed
  moreover have "separates (entry_order coll V) (fst ` set (vl_byId l) \<union> le_id ` set es)"
    by (rule separates_subset [OF assms(4)]) (auto simp: stored b)
  ultimately have "settled coll V (fst ` set (vl_byId l) \<union> le_id ` set es) (mergeLogEntries coll l es 250 KeepNewest)"
    using assms(3) by (intro merge_settled) (auto simp: b)
  from settled_batches [OF this, of rest] assms(3,4) show ?thesis
    by (simp add: mergeBatches_def b stored image_Un Un_assoc)
qed



end
