(* ===== verification/HistoryPages.thy ===== *)
theory HistoryPages
  imports V2Converge V2Store Replica
begin

text \<open>
  Paging through the log and the chat: \<open>GameTableLogHistoryService\<close> and \<open>GameTableChatHistoryService\<close>
  (\<^verbatim>\<open>services/game-table-log-history.service.ts\<close> and \<^verbatim>\<open>services/game-table-chat-history.service.ts\<close>), which
  are the same service on two lists: what they take from the normalized store is a \<open>history_source\<close>.
  A page is asked for by a request and its answer is an event, \<open>None\<close> for a request that failed.
\<close>

section \<open>State\<close>

definition PAGE_SIZE :: nat where
  "PAGE_SIZE = 50"

definition MAXIMUM_CACHED :: nat where
  "MAXIMUM_CACHED = PAGE_SIZE * 5"

record 'e history_page =
  pg_data :: "'e list"
  pg_hasMore :: bool
  pg_next :: "string option"

record 'e history_source =
  hr_ids :: "game_snapshot \<Rightarrow> string option list"
  hr_prepend :: "v2_store \<Rightarrow> 'e list \<Rightarrow> nat \<Rightarrow> game_snapshot option js \<times> v2_store"
  hr_append :: "v2_store \<Rightarrow> 'e list \<Rightarrow> nat \<Rightarrow> game_snapshot option js \<times> v2_store"
  hr_replace :: "v2_store \<Rightarrow> 'e list \<Rightarrow> game_snapshot option js \<times> v2_store"

definition logSource :: "identity_test \<Rightarrow> string comparator \<Rightarrow> game_log_entry history_source" where
  "logSource same coll = \<lparr>hr_ids = (\<lambda>t. map (\<lambda>e. Some (le_id e)) (sn_eventLog t)),
     hr_prepend = prependLogEntries same coll, hr_append = appendLogEntries same coll,
     hr_replace = replaceLogEntries same coll\<rparr>"

definition chatSource :: "identity_test \<Rightarrow> string comparator \<Rightarrow> chat_message history_source" where
  "chatSource same coll = \<lparr>hr_ids = (\<lambda>t. map cm_id (sn_chat t)),
     hr_prepend = prependChatMessages same coll, hr_append = appendChatMessages same coll,
     hr_replace = replaceChatMessages same coll\<rparr>"

text \<open>A request for older entries keeps the id of the latest entry at the time it was made.\<close>

datatype history_request = OlderPage string "string option" | NewerPage string | LatestPage

record history =
  hi_gameId :: string
  hi_snapshot :: "game_snapshot option"
  hi_store :: v2_store
  hi_loadingOlder :: bool
  hi_hasOlder :: bool
  hi_nextBefore :: "string option"
  hi_loadingNewer :: bool
  hi_hasNewer :: bool
  hi_nextAfter :: "string option"
  hi_viewingOlder :: bool
  hi_restoring :: bool
  hi_requests :: "history_request list"

definition canLoadOlder :: "history \<Rightarrow> bool" where
  "canLoadOlder s \<longleftrightarrow> hi_hasOlder s \<and> \<not> hi_loadingOlder s"

definition canLoadNewer :: "history \<Rightarrow> bool" where
  "canLoadNewer s \<longleftrightarrow> hi_hasNewer s \<and> \<not> hi_loadingNewer s"

section \<open>Operations\<close>

definition first_id :: "string option list \<Rightarrow> string option" where
  "first_id ids = (case ids of [] \<Rightarrow> None | i # _ \<Rightarrow> i)"

definition last_id :: "string option list \<Rightarrow> string option" where
  "last_id ids = (if ids = [] then None else last ids)"

definition resetHistory :: "'e history_source \<Rightarrow> game_snapshot \<Rightarrow> history \<Rightarrow> history" where
  "resetHistory src t s = (let ids = hr_ids src t in s\<lparr>
     hi_nextBefore := first_id ids, hi_nextAfter := last_id ids,
     hi_hasOlder := length ids = PAGE_SIZE \<and> first_id ids \<noteq> None, hi_hasNewer := False,
     hi_viewingOlder := False, hi_loadingOlder := False, hi_loadingNewer := False\<rparr>)"

definition loadOlder :: "'e history_source \<Rightarrow> history \<Rightarrow> history" where
  "loadOlder src s =
     (let before = or_default (hi_nextBefore s) [] in
      if hi_gameId s = [] \<or> before = [] \<or> \<not> canLoadOlder s then s
      else s\<lparr>hi_loadingOlder := True, hi_requests := hi_requests s @
        [OlderPage before (Option.bind (hi_snapshot s) (\<lambda>t. last_id (hr_ids src t)))]\<rparr>)"

definition olderArrives ::
  "'e history_source \<Rightarrow> string option \<Rightarrow> 'e history_page option \<Rightarrow> history \<Rightarrow> history" where
  "olderArrives src latestId answer s = (case answer of
     None \<Rightarrow> s\<lparr>hi_loadingOlder := False\<rparr>
   | Some page \<Rightarrow> (case hr_prepend src (hi_store s) (pg_data page) MAXIMUM_CACHED of
       (Inl e, st) \<Rightarrow> s\<lparr>hi_store := st, hi_loadingOlder := False\<rparr>
     | (Inr shown, st) \<Rightarrow>
         (let t = s\<lparr>hi_store := st\<rparr>;
              u = (case shown of
                  None \<Rightarrow> t
                | Some snapshot \<Rightarrow>
                    (let retained = last_id (hr_ids src snapshot);
                         v = t\<lparr>hi_snapshot := Some snapshot, hi_viewingOlder := True\<rparr>
                     in if latestId \<noteq> retained \<and> or_default retained [] \<noteq> []
                        then v\<lparr>hi_nextAfter := retained, hi_hasNewer := True\<rparr> else v))
          in u\<lparr>hi_nextBefore := pg_next page, hi_hasOlder := pg_hasMore page \<and> pg_next page \<noteq> None,
            hi_loadingOlder := False\<rparr>)))"

definition loadNewer :: "history \<Rightarrow> history" where
  "loadNewer s =
     (let after = or_default (hi_nextAfter s) [] in
      if hi_gameId s = [] \<or> after = [] \<or> \<not> canLoadNewer s then s
      else s\<lparr>hi_loadingNewer := True, hi_requests := hi_requests s @ [NewerPage after]\<rparr>)"

definition newerArrives :: "'e history_source \<Rightarrow> 'e history_page option \<Rightarrow> history \<Rightarrow> history" where
  "newerArrives src answer s = (case answer of
     None \<Rightarrow> s\<lparr>hi_loadingNewer := False\<rparr>
   | Some page \<Rightarrow> (case hr_append src (hi_store s) (pg_data page) MAXIMUM_CACHED of
       (Inl e, st) \<Rightarrow> s\<lparr>hi_store := st, hi_loadingNewer := False\<rparr>
     | (Inr shown, st) \<Rightarrow> s\<lparr>hi_store := st,
         hi_snapshot := (case shown of None \<Rightarrow> hi_snapshot s | Some snapshot \<Rightarrow> Some snapshot),
         hi_nextAfter := pg_next page, hi_hasNewer := pg_hasMore page \<and> pg_next page \<noteq> None,
         hi_loadingNewer := False\<rparr>))"

definition restoreLatest :: "history \<Rightarrow> history" where
  "restoreLatest s = (if hi_gameId s = [] \<or> \<not> hi_viewingOlder s \<or> hi_restoring s then s
     else s\<lparr>hi_restoring := True, hi_requests := hi_requests s @ [LatestPage]\<rparr>)"

definition latestArrives :: "'e history_source \<Rightarrow> 'e list option \<Rightarrow> history \<Rightarrow> history" where
  "latestArrives src answer s = (case answer of
     None \<Rightarrow> s\<lparr>hi_restoring := False\<rparr>
   | Some entries \<Rightarrow> (case hr_replace src (hi_store s) entries of
       (Inl e, st) \<Rightarrow> s\<lparr>hi_store := st, hi_restoring := False\<rparr>
     | (Inr None, st) \<Rightarrow> s\<lparr>hi_store := st, hi_restoring := False\<rparr>
     | (Inr (Some snapshot), st) \<Rightarrow>
         (resetHistory src snapshot (s\<lparr>hi_store := st, hi_snapshot := Some snapshot\<rparr>))\<lparr>hi_restoring := False\<rparr>))"

text \<open>The answer to request number \<open>n\<close>, a page or for \<open>LatestPage\<close> its entries, or a failure. Patches and
  bootstraps change the store from outside; a bootstrap also resets the services.\<close>

definition historyAnswered :: "'e history_source \<Rightarrow> nat \<Rightarrow> 'e history_page option \<Rightarrow> history \<Rightarrow> history" where
  "historyAnswered src n answer s = (if n < length (hi_requests s)
     then (let t = s\<lparr>hi_requests := remove_nth n (hi_requests s)\<rparr> in case hi_requests s ! n of
         OlderPage before latestId \<Rightarrow> olderArrives src latestId answer t
       | NewerPage after \<Rightarrow> newerArrives src answer t
       | LatestPage \<Rightarrow> latestArrives src (map_option pg_data answer) t)
     else s)"

datatype 'e history_event =
    LoadOlder
  | LoadNewer
  | RestoreLatest
  | PageArrives nat "'e history_page option"
  | ResetWith game_snapshot
  | StoreChanges v2_store "game_snapshot option"

fun historyStep :: "'e history_source \<Rightarrow> history \<Rightarrow> 'e history_event \<Rightarrow> history" where
  "historyStep src s LoadOlder = loadOlder src s"
| "historyStep src s LoadNewer = loadNewer s"
| "historyStep src s RestoreLatest = restoreLatest s"
| "historyStep src s (PageArrives n answer) = historyAnswered src n answer s"
| "historyStep src s (ResetWith t) = resetHistory src t s"
| "historyStep src s (StoreChanges st t) = s\<lparr>hi_store := st, hi_snapshot := t\<rparr>"

definition newHistory :: "string \<Rightarrow> history" where
  "newHistory gameId = \<lparr>hi_gameId = gameId, hi_snapshot = None, hi_store = empty_store, hi_loadingOlder = False,
     hi_hasOlder = False, hi_nextBefore = None, hi_loadingNewer = False, hi_hasNewer = False, hi_nextAfter = None,
     hi_viewingOlder = False, hi_restoring = False, hi_requests = []\<rparr>"

abbreviation historyRun :: "'e history_source \<Rightarrow> history \<Rightarrow> 'e history_event list \<Rightarrow> history" where
  "historyRun src \<equiv> run_steps (historyStep src)"

section \<open>Loading ends\<close>

definition history_ok :: "history \<Rightarrow> bool" where
  "history_ok s \<longleftrightarrow>
     (hi_hasOlder s \<longrightarrow> hi_nextBefore s \<noteq> None) \<and> (hi_hasNewer s \<longrightarrow> hi_nextAfter s \<noteq> None)
     \<and> (hi_loadingOlder s \<longrightarrow> (\<exists>b l. OlderPage b l \<in> set (hi_requests s)))
     \<and> (hi_loadingNewer s \<longrightarrow> (\<exists>a. NewerPage a \<in> set (hi_requests s)))
     \<and> (hi_restoring s \<longrightarrow> LatestPage \<in> set (hi_requests s))"

lemma reset_ok: "history_ok s \<Longrightarrow> history_ok (resetHistory src t s)"
  by (simp add: history_ok_def resetHistory_def Let_def)

lemma load_ok:
  "history_ok s \<Longrightarrow> history_ok (loadOlder src s)" "history_ok s \<Longrightarrow> history_ok (loadNewer s)"
  "history_ok s \<Longrightarrow> history_ok (restoreLatest s)"
  by (auto simp: history_ok_def loadOlder_def loadNewer_def restoreLatest_def Let_def)

text \<open>What an answer leaves: the flag of its kind is false, the others and the requests are as before.\<close>

lemma older_flags:
  fixes s :: history and src :: "'e history_source" and latest :: "string option" and answer :: "'e history_page option"
  defines "t \<equiv> olderArrives src latest answer s"
  shows "\<not> hi_loadingOlder t" "hi_loadingNewer t = hi_loadingNewer s" "hi_restoring t = hi_restoring s"
    "hi_requests t = hi_requests s" "hi_hasOlder s \<longrightarrow> hi_nextBefore s \<noteq> None \<Longrightarrow> hi_hasOlder t \<longrightarrow> hi_nextBefore t \<noteq> None"
    "hi_hasNewer s \<longrightarrow> hi_nextAfter s \<noteq> None \<Longrightarrow> hi_hasNewer t \<longrightarrow> hi_nextAfter t \<noteq> None"
  unfolding t_def olderArrives_def Let_def
  by (auto simp: or_default_def split: option.split prod.split sum.split)

lemma newer_flags:
  fixes s :: history and src :: "'e history_source" and answer :: "'e history_page option"
  defines "t \<equiv> newerArrives src answer s"
  shows "\<not> hi_loadingNewer t" "hi_loadingOlder t = hi_loadingOlder s" "hi_restoring t = hi_restoring s"
    "hi_requests t = hi_requests s" "hi_nextBefore t = hi_nextBefore s" "hi_hasOlder t = hi_hasOlder s"
    "hi_hasNewer s \<longrightarrow> hi_nextAfter s \<noteq> None \<Longrightarrow> hi_hasNewer t \<longrightarrow> hi_nextAfter t \<noteq> None"
  unfolding t_def newerArrives_def Let_def
  by (auto split: option.split prod.split sum.split)

lemma latest_flags:
  fixes s :: history and src :: "'e history_source" and answer :: "'e list option"
  defines "t \<equiv> latestArrives src answer s"
  shows "\<not> hi_restoring t" "hi_loadingOlder t \<longrightarrow> hi_loadingOlder s" "hi_loadingNewer t \<longrightarrow> hi_loadingNewer s"
    "hi_requests t = hi_requests s"
    "hi_hasOlder s \<longrightarrow> hi_nextBefore s \<noteq> None \<Longrightarrow> hi_hasOlder t \<longrightarrow> hi_nextBefore t \<noteq> None"
    "hi_hasNewer s \<longrightarrow> hi_nextAfter s \<noteq> None \<Longrightarrow> hi_hasNewer t \<longrightarrow> hi_nextAfter t \<noteq> None"
  unfolding t_def latestArrives_def resetHistory_def Let_def
  by (auto split: option.split prod.split sum.split)

lemma in_remove_nth: "x \<in> set xs \<Longrightarrow> x \<noteq> xs ! n \<Longrightarrow> x \<in> set (remove_nth n xs)"
proof -
  assume x: "x \<in> set xs" "x \<noteq> xs ! n"
  then obtain i where i: "i < length xs" "xs ! i = x" by (auto simp: in_set_conv_nth)
  show ?thesis
  proof (cases "n < length xs")
    case True
    then have "xs = take n xs @ xs ! n # drop (Suc n) xs" by (rule id_take_nth_drop)
    then have "x \<in> set (take n xs @ xs ! n # drop (Suc n) xs)" using x(1) by metis
    with x(2) show ?thesis by (auto simp: remove_nth_def)
  qed (use x in \<open>simp add: remove_nth_def\<close>)
qed

lemma ok_without:
  assumes "history_ok s" "\<forall>x \<in> set (hi_requests s). x \<noteq> r \<longrightarrow> x \<in> set (hi_requests u)"
    and "hi_hasOlder u \<longrightarrow> hi_nextBefore u \<noteq> None" "hi_hasNewer u \<longrightarrow> hi_nextAfter u \<noteq> None"
    and "hi_loadingOlder u \<longrightarrow> hi_loadingOlder s \<and> (\<forall>b l. r \<noteq> OlderPage b l)"
    and "hi_loadingNewer u \<longrightarrow> hi_loadingNewer s \<and> (\<forall>a. r \<noteq> NewerPage a)"
    and "hi_restoring u \<longrightarrow> hi_restoring s \<and> r \<noteq> LatestPage"
  shows "history_ok u"
  using assms unfolding history_ok_def by metis

lemma history_answered_ok:
  assumes "history_ok s"
  shows "history_ok (historyAnswered src n answer s)"
proof (cases "n < length (hi_requests s)")
  case True
  define t where "t = s\<lparr>hi_requests := remove_nth n (hi_requests s)\<rparr>"
  have t: "hi_loadingOlder t = hi_loadingOlder s" "hi_loadingNewer t = hi_loadingNewer s" "hi_restoring t = hi_restoring s"
    "hi_hasOlder t \<longrightarrow> hi_nextBefore t \<noteq> None" "hi_hasNewer t \<longrightarrow> hi_nextAfter t \<noteq> None"
    using assms by (simp_all add: t_def history_ok_def)
  have kept: "\<forall>x \<in> set (hi_requests s). x \<noteq> hi_requests s ! n \<longrightarrow> x \<in> set (hi_requests t)"
    using in_remove_nth by (auto simp: t_def)
  show ?thesis
  proof (cases "hi_requests s ! n")
    case (OlderPage b l)
    note f = older_flags [where src = src and latest = l and answer = answer and s = t]
    have "history_ok (olderArrives src l answer t)"
      by (rule ok_without [OF assms, where r = "hi_requests s ! n"]) (use f t kept OlderPage in simp_all)
    with True OlderPage show ?thesis by (simp add: historyAnswered_def t_def)
  next
    case (NewerPage a)
    note f = newer_flags [where src = src and answer = answer and s = t]
    have "history_ok (newerArrives src answer t)"
      by (rule ok_without [OF assms, where r = "hi_requests s ! n"]) (use f t kept NewerPage in simp_all)
    with True NewerPage show ?thesis by (simp add: historyAnswered_def t_def)
  next
    case LatestPage
    note f = latest_flags [where src = src and answer = "map_option pg_data answer" and s = t]
    have "history_ok (latestArrives src (map_option pg_data answer) t)"
      by (rule ok_without [OF assms, where r = "hi_requests s ! n"]) (use f t kept LatestPage in simp_all)
    with True LatestPage show ?thesis by (simp add: historyAnswered_def t_def)
  qed
qed (use assms in \<open>simp add: historyAnswered_def\<close>)

interpretation history: invariant_machine "historyStep src" "\<lambda>e. True" history_ok
proof
  show "history_ok s \<Longrightarrow> history_ok (historyStep src s e)" for s e
  proof (cases e)
    case (StoreChanges st t)
    then show "history_ok s \<Longrightarrow> ?thesis" by (simp add: history_ok_def)
  qed (simp_all add: load_ok reset_ok history_answered_ok)
qed

text \<open>In every run, once all requests have been answered, nothing shows that it loads, and more entries are
  promised only together with the place they start at.\<close>

lemma history_loading_ends:
  assumes "hi_requests (historyRun src (newHistory g) es) = []"
  shows "\<not> hi_loadingOlder (historyRun src (newHistory g) es) \<and> \<not> hi_loadingNewer (historyRun src (newHistory g) es)
    \<and> \<not> hi_restoring (historyRun src (newHistory g) es)
    \<and> (hi_hasOlder (historyRun src (newHistory g) es) \<longrightarrow> hi_nextBefore (historyRun src (newHistory g) es) \<noteq> None)"
  using history.run_invar [of "newHistory g" es src] assms
  by (simp add: history_ok_def newHistory_def list_all_iff)

section \<open>A gap\<close>

lemma appended_log:
  assumes "st_state st = Some v" "es \<noteq> []"
  obtains v' where "st_state (snd (appendLogEntries same coll st es n)) = Some v'"
    "v2_log v' = mergeLogEntries coll (v2_log v) es n KeepNewest"
proof -
  define w where "w = v\<lparr>v2_log := mergeLogEntries coll (v2_log v) es n KeepNewest\<rparr>"
  obtain r p where "hydrateWithCaches same w (st_projector st) = (r, p)" by (meson surj_pair)
  then have "st_state (snd (appendLogEntries same coll st es n)) = Some w"
    using assms by (simp add: appendLogEntries_def storeUpdate_def setAndHydrate_def w_def)
  then show thesis by (rule that) (simp add: w_def)
qed

lemma newer_store:
  "hi_store (newerArrives src (Some page) s) = snd (hr_append src (hi_store s) (pg_data page) MAXIMUM_CACHED)"
  by (simp add: newerArrives_def split: prod.split sum.split)


definition tally :: "nat \<Rightarrow> string" where
  "tally n = replicate n CHR ''a''"

definition fullLog :: history where
  "fullLog = (newHistory ''g'')\<lparr>hi_store := \<lparr>st_state = Some (two_player_table\<lparr>v2_log := logOf sample_entry [tally 1]\<rparr>),
     st_projector = empty_projector\<rparr>, hi_hasOlder := True, hi_nextBefore := Some (tally 1),
     hi_requests := [NewerPage (tally 1)]\<rparr>"

lemma compare_strings: "compare string_order x y = Equiv \<longleftrightarrow> x = y" "compare string_order x y = Less \<longleftrightarrow> x < y"
  by (simp_all add: string_order_def)

lemma sample_less: "compare (compareLogEntries string_order) (Some (sample_entry i)) (Some (sample_entry j)) = Less \<longleftrightarrow> i < j"
  by (simp add: compareLogEntries_def compare_prod_lex_apply log_rank_def sample_entry_def compare_strings
      split: comp.split)

lemma tally_less: "1 < n \<Longrightarrow> tally 1 < tally n"
  by (cases n rule: nat.exhaust) (auto simp: tally_def gr0_conv_Suc)


end
