(* ===== verification/ZoneDialog.thy ===== *)
theory ZoneDialog
  imports SnapshotSelectors PendingTransfer Replica
begin

text \<open>
  The actions on a library (\<^verbatim>\<open>services/game-table-library-actions.service.ts\<close>) and the dialog that shows
  the cards of a zone: its state (\<^verbatim>\<open>state/zones/game-table-zone-modal.state.ts\<close>), loading it
  (\<^verbatim>\<open>services/game-table-zone-actions.service.ts\<close>), the top of a library
  (\<^verbatim>\<open>state/zones/game-table-library-top.state.ts\<close>), and what the store does around them
  (\<^verbatim>\<open>game-table.store.ts\<close>: \<open>viewLibrary\<close>, \<open>closeZoneModal\<close>). An asynchronous method is cut at its
  awaits: a request of the API and a command are answered by an event.
\<close>

section \<open>Actions on a library\<close>

type_synonym fields = "(string \<times> json) list"

datatype library_outcome = LibraryError string | LibraryCommand string fields | LibraryNothing

definition sanitizeCount :: "jsnum \<Rightarrow> jsnum" where
  "sanitizeCount n = (if is_finite n then js_max (num 1) (js_floor n) else num 1)"

definition libraryDraw :: "bool \<Rightarrow> string \<Rightarrow> jsnum \<Rightarrow> library_outcome" where
  "libraryDraw isCurrentPlayer playerId n =
     (if \<not> isCurrentPlayer then LibraryError ''You can only draw from your own library.''
      else if sanitizeCount n = num 1
      then LibraryCommand ''library.draw'' [(''playerId'', JStr playerId), (''count'', JNum (num 1))]
      else LibraryCommand ''library.draw_many'' [(''playerId'', JStr playerId), (''count'', JNum (sanitizeCount n))])"

definition libraryShuffle :: "bool \<Rightarrow> string \<Rightarrow> library_outcome" where
  "libraryShuffle isCurrentPlayer playerId =
     (if \<not> isCurrentPlayer then LibraryError ''You can only shuffle your own library.''
      else LibraryCommand ''library.shuffle'' [(''playerId'', JStr playerId)])"

definition shuffleRevealedLibrary :: "string \<Rightarrow> library_outcome" where
  "shuffleRevealedLibrary playerId = LibraryCommand ''library.shuffle''
     [(''playerId'', JStr playerId), (''reason'', JStr ''revealed-library-closed'')]"

definition revealTop :: "bool \<Rightarrow> string \<Rightarrow> string \<Rightarrow> jsnum \<Rightarrow> game_card_instance option \<Rightarrow> library_outcome" where
  "revealTop isCurrentPlayer playerId target n ownTop =
     (if \<not> isCurrentPlayer then LibraryError ''You can only reveal from your own library.''
      else let name = (if sanitizeCount n = num 1 then or_default (map_option (js_trim \<circ> card_name) ownTop) [] else [])
        in LibraryCommand ''library.reveal_top'' ([(''playerId'', JStr playerId), (''count'', JNum (sanitizeCount n)),
             (''to'', JStr target)] @ (if name = [] then [] else [(''revealedCardName'', JStr name)])))"

definition withTarget :: "bool \<Rightarrow> string option \<Rightarrow> fields" where
  "withTarget test target = (if test \<and> or_default target [] \<noteq> [] then [(''to'', JStr (or_default target []))] else [])"

definition stopRevealTop :: "bool \<Rightarrow> string \<Rightarrow> string option \<Rightarrow> library_outcome" where
  "stopRevealTop isCurrentPlayer playerId target =
     (if \<not> isCurrentPlayer then LibraryError ''You can only stop revealing from your own library.''
      else LibraryCommand ''library.reveal_top''
        ([(''playerId'', JStr playerId), (''stop'', JBool True)] @ withTarget True target))"

definition setPlayTopRevealed :: "bool \<Rightarrow> string \<Rightarrow> bool \<Rightarrow> string option \<Rightarrow> library_outcome" where
  "setPlayTopRevealed isCurrentPlayer playerId enabled target =
     (if \<not> isCurrentPlayer then LibraryError ''You can only reveal your own library.''
      else LibraryCommand ''library.play_top_revealed''
        ([(''playerId'', JStr playerId), (''enabled'', JBool enabled)] @ withTarget enabled target))"

definition playTopFaceDown :: "bool \<Rightarrow> string \<Rightarrow> library_outcome" where
  "playTopFaceDown isCurrentPlayer playerId =
     (if \<not> isCurrentPlayer then LibraryError ''You can only play from your own library.''
      else LibraryCommand ''library.play_top_face_down'' [(''playerId'', JStr playerId)])"

definition revealLibrary :: "bool \<Rightarrow> string \<Rightarrow> string \<Rightarrow> library_outcome" where
  "revealLibrary isCurrentPlayer playerId targetPlayerId =
     (if \<not> isCurrentPlayer then LibraryError ''You can only reveal your own library.''
      else if targetPlayerId = [] \<or> targetPlayerId = playerId
      then LibraryError ''Choose another player to reveal your library.''
      else LibraryCommand ''library.reveal'' [(''playerId'', JStr playerId), (''to'', JStr targetPlayerId)])"

definition libraryMoveTop ::
  "bool \<Rightarrow> string \<Rightarrow> game_zone_name \<Rightarrow> jsnum \<Rightarrow> string option \<Rightarrow> string option \<Rightarrow> library_outcome" where
  "libraryMoveTop isCurrentPlayer playerId toZone n targetPlayerId position =
     (if \<not> isCurrentPlayer then LibraryError ''You can only move cards from your own library.''
      else LibraryCommand ''library.move_top''
        ([(''playerId'', JStr playerId), (''toZone'', JStr (zone_text toZone)), (''count'', JNum (sanitizeCount n))]
         @ (if or_default targetPlayerId [] \<noteq> [] then [(''targetPlayerId'', JStr (or_default targetPlayerId []))] else [])
         @ (if or_default position [] \<noteq> [] then [(''position'', JStr (or_default position []))] else [])))"

definition libraryView :: "bool \<Rightarrow> string \<Rightarrow> jsnum option \<Rightarrow> library_outcome" where
  "libraryView isCurrentPlayer playerId n =
     (if \<not> isCurrentPlayer then LibraryError ''You can only view your own library.''
      else LibraryCommand ''library.view'' ((''playerId'', JStr playerId) #
        (case n of None \<Rightarrow> [] | Some k \<Rightarrow> [(''count'', JNum (sanitizeCount k))])))"

definition reorderTop :: "bool \<Rightarrow> string \<Rightarrow> string list \<Rightarrow> library_outcome" where
  "reorderTop isCurrentPlayer playerId instanceIds =
     (if \<not> isCurrentPlayer then LibraryError ''You can only reorder your own library.''
      else let ids = filter (\<lambda>i. i \<noteq> []) (map js_trim instanceIds)
        in if length ids \<le> 1 then LibraryNothing
           else LibraryCommand ''library.reorder_top'' [(''playerId'', JStr playerId), (''instanceIds'', JArr (map JStr ids))])"

section \<open>The state of the dialog\<close>

record zone_modal =
  zm_playerId :: string
  zm_zone :: game_zone_name
  zm_title :: string
  zm_selectedCardId :: "string option"
  zm_cards :: "game_card_instance list"
  zm_filterSourceCards :: "game_card_instance list option"
  zm_total :: int
  zm_type :: string
  zm_search :: string
  zm_showFilters :: bool
  zm_readOnly :: bool
  zm_allowRandomSelect :: bool
  zm_allowGiveDestination :: bool
  zm_allowReorder :: bool
  zm_drawOrderLabels :: "string list"
  zm_viewTopCount :: "jsnum option"
  zm_libraryImageOrderAuthorized :: bool
  zm_selectedCard :: "game_card_instance option"
  zm_loading :: bool

text \<open>\<open>cards.find(\<dots>) ?? cards[0] ?? null\<close>.\<close>

definition selectedOf :: "string option \<Rightarrow> game_card_instance list \<Rightarrow> game_card_instance option" where
  "selectedOf i cards = or_else (List.find (\<lambda>c. Some (card_instanceId c) = i) cards) (head_option cards)"

definition openedModal ::
  "string \<Rightarrow> game_zone_name \<Rightarrow> string \<Rightarrow> string option \<Rightarrow> bool \<Rightarrow> bool \<Rightarrow> zone_modal" where
  "openedModal playerId zone title selectedCardId readOnly allowGiveDestination = \<lparr>
     zm_playerId = playerId, zm_zone = zone, zm_title = title, zm_selectedCardId = selectedCardId, zm_cards = [],
     zm_filterSourceCards = None, zm_total = 0, zm_type = [], zm_search = [], zm_showFilters = True,
     zm_readOnly = readOnly, zm_allowRandomSelect = True, zm_allowGiveDestination = allowGiveDestination,
     zm_allowReorder = False, zm_drawOrderLabels = [], zm_viewTopCount = None,
     zm_libraryImageOrderAuthorized = False, zm_selectedCard = None, zm_loading = True\<rparr>"

text \<open>The options of \<open>openFixed\<close>; a missing one is false, empty or null.\<close>

record fixed_options =
  fo_readOnly :: bool
  fo_allowGiveDestination :: bool
  fo_allowReorder :: bool
  fo_drawOrderLabels :: "string list"
  fo_viewTopCount :: "jsnum option"
  fo_showFilters :: bool
  fo_libraryImageOrderAuthorized :: bool

definition fixedModal ::
  "string \<Rightarrow> game_zone_name \<Rightarrow> string \<Rightarrow> game_card_instance list \<Rightarrow> string option \<Rightarrow> bool \<Rightarrow> fixed_options \<Rightarrow> zone_modal" where
  "fixedModal playerId zone title cards selectedCardId allowRandomSelect op = \<lparr>
     zm_playerId = playerId, zm_zone = zone, zm_title = title, zm_selectedCardId = selectedCardId, zm_cards = cards,
     zm_filterSourceCards = (if fo_showFilters op then Some cards else None), zm_total = int (length cards),
     zm_type = [], zm_search = [], zm_showFilters = fo_showFilters op, zm_readOnly = fo_readOnly op,
     zm_allowRandomSelect = allowRandomSelect, zm_allowGiveDestination = fo_allowGiveDestination op,
     zm_allowReorder = fo_allowReorder op, zm_drawOrderLabels = fo_drawOrderLabels op,
     zm_viewTopCount = fo_viewTopCount op, zm_libraryImageOrderAuthorized = fo_libraryImageOrderAuthorized op,
     zm_selectedCard = selectedOf selectedCardId cards, zm_loading = False\<rparr>"

text \<open>\<open>setLoaded\<close>; \<open>None\<close> as the source leaves it as it is.\<close>

definition setLoaded ::
  "game_card_instance list \<Rightarrow> int \<Rightarrow> game_card_instance list option option \<Rightarrow> zone_modal \<Rightarrow> zone_modal" where
  "setLoaded cards n source m = m\<lparr>zm_cards := cards,
     zm_filterSourceCards := or_default source (zm_filterSourceCards m), zm_total := n,
     zm_selectedCard := selectedOf (zm_selectedCardId m) cards,
     zm_drawOrderLabels := take (length cards) (zm_drawOrderLabels m), zm_loading := False\<rparr>"

definition patchFilters :: "string option \<Rightarrow> string option \<Rightarrow> zone_modal \<Rightarrow> zone_modal" where
  "patchFilters type search m =
     m\<lparr>zm_type := or_default type (zm_type m), zm_search := or_default search (zm_search m)\<rparr>"

definition selectModalCard :: "game_card_instance \<Rightarrow> zone_modal \<Rightarrow> zone_modal" where
  "selectModalCard c m = m\<lparr>zm_selectedCardId := Some (card_instanceId c), zm_selectedCard := Some c\<rparr>"

definition replaceCards :: "game_card_instance list \<Rightarrow> zone_modal \<Rightarrow> zone_modal" where
  "replaceCards cards m = m\<lparr>zm_cards := cards, zm_filterSourceCards := None,
     zm_total := (if zm_allowReorder m
       then max (max (zm_total m) (int (length (zm_drawOrderLabels m)))) (int (length cards)) else int (length cards)),
     zm_selectedCard := selectedOf (zm_selectedCardId m) cards,
     zm_drawOrderLabels := (if zm_allowReorder m then zm_drawOrderLabels m
       else take (length cards) (zm_drawOrderLabels m))\<rparr>"

definition removeCards :: "string list \<Rightarrow> zone_modal \<Rightarrow> zone_modal" where
  "removeCards instanceIds m =
     (let cards = filter (\<lambda>c. card_instanceId c \<notin> set instanceIds) (zm_cards m);
          removed = length (zm_cards m) - length cards
      in if instanceIds = [] \<or> removed = 0 then m
         else m\<lparr>zm_cards := cards, zm_filterSourceCards := None,
           zm_total := (if zm_allowReorder m then max (zm_total m) (int (length (zm_drawOrderLabels m)))
             else max 0 (zm_total m - int removed)),
           zm_selectedCard := selectedOf (zm_selectedCardId m) cards,
           zm_drawOrderLabels := (if zm_allowReorder m then zm_drawOrderLabels m
             else take (length cards) (zm_drawOrderLabels m)),
           zm_loading := False\<rparr>)"

section \<open>Loading a zone\<close>

text \<open>What continues after a method returns: nothing, or \<open>viewLibrary\<close> after its \<open>openZone\<close>.\<close>

datatype dialog_then = NothingMore | ShuffleOnClose string

text \<open>A request keeps the dialog it was made for; \<open>LibraryFiltered\<close> and \<open>LibraryWhole\<close> are the two of
  \<open>loadLibraryZone\<close>. \<open>ViewCommand\<close> is the command \<open>library.view\<close> that \<open>viewLibrary\<close> or \<open>viewTopLibrary\<close> awaits.\<close>

datatype dialog_request =
    ZoneRequest zone_modal dialog_then
  | LibraryFiltered zone_modal dialog_then
  | LibraryWhole zone_modal dialog_then
  | ViewCommand string
  | ViewTopCommand string jsnum

datatype shuffle_reason = OwnerView | RevealedLibraryClosed

record zone_dialog =
  zd_modal :: "zone_modal option"
  zd_snapshot :: "game_snapshot option"
  zd_gameId :: string
  zd_playerId :: "string option"
  zd_shufflePlayerId :: "string option"
  zd_shuffleReason :: "shuffle_reason option"
  zd_error :: "string option"
  zd_requests :: "dialog_request list"
  zd_commands :: "(string \<times> fields) list"

text \<open>The names of players and zones and the translation of \<open>shared.text.draw\<close>.\<close>

record dialog_texts =
  dt_playerName :: "game_snapshot option \<Rightarrow> string \<Rightarrow> string"
  dt_draw :: string

definition modalDo :: "(zone_modal \<Rightarrow> zone_modal) \<Rightarrow> zone_dialog \<Rightarrow> zone_dialog" where
  "modalDo f s = s\<lparr>zd_modal := map_option f (zd_modal s)\<rparr>"

definition continueWith :: "dialog_then \<Rightarrow> zone_dialog \<Rightarrow> zone_dialog" where
  "continueWith k s = (case k of
     NothingMore \<Rightarrow> s
   | ShuffleOnClose p \<Rightarrow> s\<lparr>zd_shufflePlayerId := Some p, zd_shuffleReason := Some OwnerView\<rparr>)"

definition zoneOf :: "zone_dialog \<Rightarrow> string \<Rightarrow> game_zone_name \<Rightarrow> game_card_instance list" where
  "zoneOf s playerId zone = or_default (Option.bind (zd_snapshot s) (\<lambda>t. Option.bind (sn_players t playerId)
     (\<lambda>player. pl_zones player zone))) []"

definition zoneSize :: "zone_dialog \<Rightarrow> string \<Rightarrow> game_zone_name \<Rightarrow> jsnum" where
  "zoneSize s playerId zone = or_default (Option.bind (zd_snapshot s) (\<lambda>t. Option.bind (sn_players t playerId)
     (\<lambda>player. Option.bind (pl_zoneCounts player) (\<lambda>m. m zone)))) (num (int (length (zoneOf s playerId zone))))"

definition shouldBlockEmptyZone :: "zone_dialog \<Rightarrow> string \<Rightarrow> game_zone_name \<Rightarrow> bool" where
  "shouldBlockEmptyZone s playerId zone \<longleftrightarrow>
     (zone = Graveyard \<or> zone = Exile) \<and> js_less (zoneSize s playerId zone) (num 1)"

definition filteredCards :: "game_card_instance list \<Rightarrow> zone_modal \<Rightarrow> game_card_instance list" where
  "filteredCards cards m =
     (let type = js_lower (js_trim (zm_type m)); search = js_lower (js_trim (zm_search m))
      in filter (\<lambda>c. (type = [] \<or> str_includes type (js_lower (or_default (non_null (card_typeLine c)) [])))
           \<and> (search = [] \<or> str_includes search (js_lower (card_name c)))) cards)"

definition hasModalFilters :: "zone_modal \<Rightarrow> bool" where
  "hasModalFilters m \<longleftrightarrow> js_trim (zm_type m) \<noteq> [] \<or> js_trim (zm_search m) \<noteq> []"

definition snapshotBacked :: "zone_dialog \<Rightarrow> bool" where
  "snapshotBacked s = (case zd_modal s of None \<Rightarrow> False | Some m \<Rightarrow> zm_zone m = Graveyard \<or> zm_zone m = Exile)"

definition loadSnapshotBackedZone :: "zone_dialog \<Rightarrow> zone_dialog" where
  "loadSnapshotBackedZone s = modalDo (\<lambda>m. let cards = filteredCards (zoneOf s (zm_playerId m) (zm_zone m)) m
     in setLoaded cards (int (length cards)) None m) s"

definition loadZone :: "dialog_then \<Rightarrow> zone_dialog \<Rightarrow> zone_dialog" where
  "loadZone k s =
     (if snapshotBacked s then continueWith k (loadSnapshotBackedZone s)
      else case zd_modal s of
        None \<Rightarrow> continueWith k s
      | Some m \<Rightarrow>
          if zd_gameId s = [] then continueWith k s
          else let t = modalDo (\<lambda>m. m\<lparr>zm_loading := True\<rparr>) s;
                   r = (if zm_zone m \<noteq> Library then ZoneRequest m k
                     else if hasModalFilters m \<and> zm_filterSourceCards m = None then LibraryFiltered m k
                     else LibraryWhole m k)
            in t\<lparr>zd_requests := zd_requests t @ [r]\<rparr>)"

definition openZone ::
  "dialog_texts \<Rightarrow> string \<Rightarrow> game_zone_name \<Rightarrow> string option \<Rightarrow> bool \<Rightarrow> bool \<Rightarrow> dialog_then \<Rightarrow> zone_dialog \<Rightarrow> zone_dialog" where
  "openZone x playerId zone selectedCardId readOnly allowGiveDestination k s =
     (if shouldBlockEmptyZone s playerId zone
      then continueWith k (s\<lparr>zd_error := Some (''No cards in '' @ js_lower (zoneTitle zone) @ ''.'')\<rparr>)
      else loadZone k (s\<lparr>zd_modal := Some (openedModal playerId zone
        (dt_playerName x (zd_snapshot s) playerId @ '' '' @ zoneTitle zone) selectedCardId readOnly
        (allowGiveDestination \<or> \<not> readOnly \<and> (zone = Graveyard \<or> zone = Exile)))\<rparr>))"

definition updateZoneFilter :: "string option \<Rightarrow> string option \<Rightarrow> zone_dialog \<Rightarrow> zone_dialog" where
  "updateZoneFilter type search s =
     (let t = modalDo (patchFilters type search) s in
      if snapshotBacked t then loadSnapshotBackedZone t
      else case zd_modal t of
        None \<Rightarrow> loadZone NothingMore t
      | Some m \<Rightarrow> (case zm_filterSourceCards m of
          Some source \<Rightarrow>
            if zm_zone m = Library
            then (let cards = filteredCards source m in modalDo (setLoaded cards (int (length cards)) (Some (Some source))) t)
            else loadZone NothingMore t
        | None \<Rightarrow> loadZone NothingMore t))"

text \<open>An answer: the cards and their number. A failed request ends the method with the exception.\<close>

definition zoneAnswered :: "nat \<Rightarrow> (game_card_instance list \<times> int) option \<Rightarrow> zone_dialog \<Rightarrow> zone_dialog" where
  "zoneAnswered n answer s = (if n < length (zd_requests s)
     then (let t = s\<lparr>zd_requests := remove_nth n (zd_requests s)\<rparr> in case (zd_requests s ! n, answer) of
         (ZoneRequest m k, Some (cards, total')) \<Rightarrow> continueWith k (modalDo (setLoaded cards total' None) t)
       | (LibraryFiltered m k, Some (cards, total')) \<Rightarrow> continueWith k (modalDo (setLoaded cards total' (Some None)) t)
       | (LibraryWhole m k, Some (cards, total')) \<Rightarrow> (case zd_modal t of
             None \<Rightarrow> continueWith k t
           | Some c \<Rightarrow>
               if zm_playerId c \<noteq> zm_playerId m \<or> zm_zone c \<noteq> zm_zone m then continueWith k t
               else if total' = int (length cards)
               then (let shown = filteredCards cards c
                 in continueWith k (modalDo (setLoaded shown (int (length shown)) (Some (Some cards))) t))
               else continueWith k (modalDo (setLoaded cards total' (Some None)) t))
       | (ZoneRequest m k, None) \<Rightarrow> t
       | (LibraryFiltered m k, None) \<Rightarrow> t
       | (LibraryWhole m k, None) \<Rightarrow> t
       | _ \<Rightarrow> s)
     else s)"

section \<open>Looking at a library\<close>

definition perform :: "library_outcome \<Rightarrow> zone_dialog \<Rightarrow> zone_dialog" where
  "perform result s = (case result of
     LibraryError message \<Rightarrow> s\<lparr>zd_error := Some message\<rparr>
   | LibraryCommand type payload \<Rightarrow> s\<lparr>zd_commands := zd_commands s @ [(type, payload)]\<rparr>
   | LibraryNothing \<Rightarrow> s)"

definition viewedLibrary :: "dialog_texts \<Rightarrow> string \<Rightarrow> zone_dialog \<Rightarrow> zone_dialog" where
  "viewedLibrary x playerId s = openZone x playerId Library None False True (ShuffleOnClose playerId) s"

definition viewLibrary :: "dialog_texts \<Rightarrow> string \<Rightarrow> zone_dialog \<Rightarrow> zone_dialog" where
  "viewLibrary x playerId s =
     (let own = (zd_playerId s = Some playerId); t = perform (libraryView own playerId None) s
      in if own then t\<lparr>zd_requests := zd_requests t @ [ViewCommand playerId]\<rparr> else viewedLibrary x playerId t)"

definition visibleLibraryCards :: "zone_dialog \<Rightarrow> string \<Rightarrow> game_card_instance list" where
  "visibleLibraryCards s playerId = filter (\<lambda>c. \<not> truthy (card_hidden c)) (zoneOf s playerId Library)"

definition drawOrderLabels :: "dialog_texts \<Rightarrow> nat \<Rightarrow> string list" where
  "drawOrderLabels x n = map (\<lambda>i. dt_draw x @ '' '' @ nat_string (Suc i)) [0..<n]"

text \<open>\<open>slice(0, count)\<close> for a sanitized count.\<close>

definition topCards :: "zone_dialog \<Rightarrow> string \<Rightarrow> jsnum \<Rightarrow> game_card_instance list" where
  "topCards s playerId n = take (nat (js_int n)) (visibleLibraryCards s playerId)"

definition openViewedTopLibrary :: "dialog_texts \<Rightarrow> string \<Rightarrow> jsnum \<Rightarrow> zone_dialog \<Rightarrow> zone_dialog" where
  "openViewedTopLibrary x playerId n s =
     (let cards = topCards s playerId n in
      if cards = [] then s
      else if (case zd_modal s of None \<Rightarrow> False
          | Some m \<Rightarrow> zm_playerId m = playerId \<and> zm_zone m = Library \<and> zm_allowReorder m) then s
      else s\<lparr>zd_modal := Some (fixedModal playerId Library ''game.numberAction.viewTopCards.title'' cards
        (Some (card_instanceId (hd cards))) False \<lparr>fo_readOnly = False, fo_allowGiveDestination = False,
          fo_allowReorder = True, fo_drawOrderLabels = drawOrderLabels x (length cards), fo_viewTopCount = Some n,
          fo_showFilters = False, fo_libraryImageOrderAuthorized = True\<rparr>)\<rparr>)"

definition openRevealedTopLibrary :: "dialog_texts \<Rightarrow> string \<Rightarrow> jsnum \<Rightarrow> zone_dialog \<Rightarrow> zone_dialog" where
  "openRevealedTopLibrary x playerId n s =
     (let cards = topCards s playerId n in
      if zd_playerId s = Some playerId \<or> cards = [] then s
      else s\<lparr>zd_modal := Some (fixedModal playerId Library ''game.numberAction.viewTopCards.title'' cards
        (Some (card_instanceId (hd cards))) False \<lparr>fo_readOnly = True, fo_allowGiveDestination = False,
          fo_allowReorder = False, fo_drawOrderLabels = drawOrderLabels x (length cards), fo_viewTopCount = Some n,
          fo_showFilters = False, fo_libraryImageOrderAuthorized = True\<rparr>)\<rparr>)"

definition viewTopLibrary :: "dialog_texts \<Rightarrow> string \<Rightarrow> jsnum \<Rightarrow> zone_dialog \<Rightarrow> zone_dialog" where
  "viewTopLibrary x playerId n s =
     (if zoneSize s playerId Library = num 0 then s\<lparr>zd_error := Some ''common.ui.emptyZone''\<rparr>
      else let own = (zd_playerId s = Some playerId); t = perform (libraryView own playerId (Some (sanitizeCount n))) s
        in if own then t\<lparr>zd_requests := zd_requests t @ [ViewTopCommand playerId (sanitizeCount n)]\<rparr>
           else openViewedTopLibrary x playerId (sanitizeCount n) t)"

definition reorderTopLibraryCards :: "game_card_instance list \<Rightarrow> zone_dialog \<Rightarrow> zone_dialog" where
  "reorderTopLibraryCards cards s = (case zd_modal s of
     None \<Rightarrow> s
   | Some m \<Rightarrow>
       if \<not> zm_allowReorder m \<or> zm_zone m \<noteq> Library then s
       else perform (reorderTop (zd_playerId s = Some (zm_playerId m)) (zm_playerId m) (map card_instanceId cards))
         (modalDo (replaceCards cards) s))"

text \<open>The end of the command \<open>library.view\<close>; an exception ends the method.\<close>

definition viewAnswered :: "dialog_texts \<Rightarrow> nat \<Rightarrow> bool \<Rightarrow> zone_dialog \<Rightarrow> zone_dialog" where
  "viewAnswered x n succeeded s = (if n < length (zd_requests s)
     then (let t = s\<lparr>zd_requests := remove_nth n (zd_requests s)\<rparr> in case zd_requests s ! n of
         ViewCommand p \<Rightarrow> if succeeded then viewedLibrary x p t else t
       | ViewTopCommand p k \<Rightarrow> if succeeded then openViewedTopLibrary x p k t else t
       | _ \<Rightarrow> s)
     else s)"

definition openRevealedLibraryModal :: "dialog_texts \<Rightarrow> string \<Rightarrow> zone_dialog \<Rightarrow> zone_dialog" where
  "openRevealedLibraryModal x playerId s =
     (if (case zd_modal s of None \<Rightarrow> False | Some m \<Rightarrow> zm_playerId m = playerId \<and> zm_zone m = Library) then s
      else s\<lparr>zd_modal := Some (fixedModal playerId Library
          (dt_playerName x (zd_snapshot s) playerId @ '' '' @ zoneTitle Library) (zoneOf s playerId Library) None False
          \<lparr>fo_readOnly = True, fo_allowGiveDestination = False, fo_allowReorder = False, fo_drawOrderLabels = [],
            fo_viewTopCount = None, fo_showFilters = True, fo_libraryImageOrderAuthorized = True\<rparr>),
        zd_shufflePlayerId := Some playerId, zd_shuffleReason := Some RevealedLibraryClosed\<rparr>)"

definition closeZoneModal :: "zone_dialog \<Rightarrow> zone_dialog" where
  "closeZoneModal s =
     (let t = s\<lparr>zd_shufflePlayerId := None, zd_shuffleReason := None, zd_modal := None\<rparr>
      in case (zd_shufflePlayerId s, zd_modal s) of
           (Some p, Some m) \<Rightarrow>
             if zm_playerId m = p \<and> zm_zone m = Library \<and> zm_showFilters m
             then perform (if zd_shuffleReason s = Some RevealedLibraryClosed then shuffleRevealedLibrary p
               else libraryShuffle (zd_playerId s = Some p) p) t
             else t
         | _ \<Rightarrow> t)"

section \<open>Runs\<close>

datatype dialog_event =
    OpenZone string game_zone_name "string option" bool bool
  | UpdateFilter "string option" "string option"
  | ZoneAnswered nat "(game_card_instance list \<times> int) option"
  | ViewLibrary string
  | ViewTopLibrary string jsnum
  | ViewAnswered nat bool
  | RevealedLibrary string
  | RevealedTop string jsnum
  | SelectCard game_card_instance
  | ReorderTop "game_card_instance list"
  | CardsRemoved "string list"
  | DialogSnapshot "game_snapshot option"
  | CloseZone

fun dialogStep :: "dialog_texts \<Rightarrow> zone_dialog \<Rightarrow> dialog_event \<Rightarrow> zone_dialog" where
  "dialogStep x s (OpenZone p z i readOnly give) = openZone x p z i readOnly give NothingMore s"
| "dialogStep x s (UpdateFilter type search) = updateZoneFilter type search s"
| "dialogStep x s (ZoneAnswered n answer) = zoneAnswered n answer s"
| "dialogStep x s (ViewLibrary p) = viewLibrary x p s"
| "dialogStep x s (ViewTopLibrary p n) = viewTopLibrary x p n s"
| "dialogStep x s (ViewAnswered n succeeded) = viewAnswered x n succeeded s"
| "dialogStep x s (RevealedLibrary p) = openRevealedLibraryModal x p s"
| "dialogStep x s (RevealedTop p n) = openRevealedTopLibrary x p n s"
| "dialogStep x s (SelectCard c) = modalDo (selectModalCard c) s"
| "dialogStep x s (ReorderTop cards) = reorderTopLibraryCards cards s"
| "dialogStep x s (CardsRemoved ids) = modalDo (removeCards ids) s"
| "dialogStep x s (DialogSnapshot t) = s\<lparr>zd_snapshot := t\<rparr>"
| "dialogStep x s CloseZone = closeZoneModal s"

definition noDialog :: "string \<Rightarrow> string option \<Rightarrow> zone_dialog" where
  "noDialog gameId playerId = \<lparr>zd_modal = None, zd_snapshot = None, zd_gameId = gameId, zd_playerId = playerId,
     zd_shufflePlayerId = None, zd_shuffleReason = None, zd_error = None, zd_requests = [], zd_commands = []\<rparr>"

abbreviation dialogRun :: "dialog_texts \<Rightarrow> zone_dialog \<Rightarrow> dialog_event list \<Rightarrow> zone_dialog" where
  "dialogRun x \<equiv> run_steps (dialogStep x)"

section \<open>A library that was looked at is shuffled\<close>

fun insideDialog :: "dialog_event \<Rightarrow> bool" where
  "insideDialog (UpdateFilter _ _) = True"
| "insideDialog (ZoneAnswered _ _) = True"
| "insideDialog (SelectCard _) = True"
| "insideDialog (ReorderTop _) = True"
| "insideDialog (CardsRemoved _) = True"
| "insideDialog (DialogSnapshot _) = True"
| "insideDialog _ = False"

definition onlyFor :: "string \<Rightarrow> dialog_request \<Rightarrow> bool" where
  "onlyFor p r = (case r of ZoneRequest _ k \<Rightarrow> k \<in> {NothingMore, ShuffleOnClose p}
     | LibraryFiltered _ k \<Rightarrow> k \<in> {NothingMore, ShuffleOnClose p}
     | LibraryWhole _ k \<Rightarrow> k \<in> {NothingMore, ShuffleOnClose p} | _ \<Rightarrow> True)"

definition ownLibrary :: "string \<Rightarrow> zone_modal \<Rightarrow> bool" where
  "ownLibrary p m \<longleftrightarrow> zm_playerId m = p \<and> zm_zone m = Library \<and> zm_showFilters m"

definition lookingAt :: "string \<Rightarrow> zone_dialog \<Rightarrow> bool" where
  "lookingAt p s \<longleftrightarrow> (\<exists>m. zd_modal s = Some m \<and> ownLibrary p m)
     \<and> zd_shufflePlayerId s = Some p \<and> zd_shuffleReason s = Some OwnerView \<and> zd_playerId s = Some p
     \<and> list_all (onlyFor p) (zd_requests s)"

lemma own_kept [simp]:
  "ownLibrary p (setLoaded cards n source m) = ownLibrary p m" "ownLibrary p (patchFilters type search m) = ownLibrary p m"
  "ownLibrary p (selectModalCard c m) = ownLibrary p m" "ownLibrary p (replaceCards cards m) = ownLibrary p m"
  "ownLibrary p (removeCards ids m) = ownLibrary p m" "ownLibrary p (m\<lparr>zm_loading := b\<rparr>) = ownLibrary p m"
  by (simp_all add: ownLibrary_def setLoaded_def patchFilters_def selectModalCard_def replaceCards_def removeCards_def Let_def)

lemma looking_modal: "lookingAt p s \<Longrightarrow> (\<And>m. ownLibrary p (f m) = ownLibrary p m) \<Longrightarrow> lookingAt p (modalDo f s)"
  by (auto simp: lookingAt_def modalDo_def)

lemma looking_continue: "lookingAt p s \<Longrightarrow> k \<in> {NothingMore, ShuffleOnClose p} \<Longrightarrow> lookingAt p (continueWith k s)"
  by (auto simp: lookingAt_def continueWith_def)

lemma looking_load: "lookingAt p s \<Longrightarrow> lookingAt p (loadZone NothingMore s)"
  by (auto simp: loadZone_def lookingAt_def snapshotBacked_def ownLibrary_def modalDo_def continueWith_def onlyFor_def Let_def)

lemma looking_library: "lookingAt p s \<Longrightarrow> \<not> snapshotBacked s"
  by (auto simp: lookingAt_def snapshotBacked_def ownLibrary_def)

lemma looking_filter: "lookingAt p s \<Longrightarrow> lookingAt p (updateZoneFilter type search s)"
proof -
  assume s: "lookingAt p s"
  define t where "t = modalDo (patchFilters type search) s"
  have t: "lookingAt p t" unfolding t_def by (rule looking_modal [OF s]) simp
  then obtain m where "zd_modal t = Some m" "zm_zone m = Library" by (auto simp: lookingAt_def ownLibrary_def)
  with t show ?thesis
    by (auto simp: updateZoneFilter_def t_def [symmetric] looking_library Let_def
        intro!: looking_load looking_modal split: option.split)
qed

lemma looking_answer:
  assumes "lookingAt p s"
  shows "lookingAt p (zoneAnswered n answer s)"
proof (cases "n < length (zd_requests s)")
  case True
  define t where "t = s\<lparr>zd_requests := remove_nth n (zd_requests s)\<rparr>"
  have "set (remove_nth n (zd_requests s)) \<subseteq> set (zd_requests s)" by (rule set_remove_nth)
  then have t: "lookingAt p t" using assms by (auto simp: lookingAt_def t_def list_all_iff)
  have r: "onlyFor p (zd_requests s ! n)" using assms True by (auto simp: lookingAt_def list_all_length)
  obtain m where m: "zd_modal t = Some m" using t by (auto simp: lookingAt_def)
  show ?thesis
    using t r m assms True
    by (cases "zd_requests s ! n"; cases answer)
      (auto simp: zoneAnswered_def t_def [symmetric] onlyFor_def Let_def intro!: looking_continue looking_modal)
qed (use assms in \<open>simp add: zoneAnswered_def\<close>)

lemma perform_kept:
  "zd_modal (perform r s) = zd_modal s" "zd_shufflePlayerId (perform r s) = zd_shufflePlayerId s"
  "zd_shuffleReason (perform r s) = zd_shuffleReason s" "zd_playerId (perform r s) = zd_playerId s"
  "zd_requests (perform r s) = zd_requests s"
  by (simp_all add: perform_def split: library_outcome.split)

lemma looking_reorder:
  assumes "lookingAt p s"
  shows "lookingAt p (reorderTopLibraryCards cards s)"
proof -
  have "lookingAt p (modalDo (replaceCards cards) s)" by (rule looking_modal [OF assms]) simp
  with assms show ?thesis
    by (auto simp: reorderTopLibraryCards_def lookingAt_def perform_kept split: option.split)
qed

lemma looking_step: "lookingAt p s \<Longrightarrow> insideDialog e \<Longrightarrow> lookingAt p (dialogStep x s e)"
  by (cases e) (auto simp: looking_filter looking_answer looking_reorder intro: looking_modal, simp add: lookingAt_def)

interpretation looking: invariant_machine "dialogStep x" insideDialog "lookingAt p"
  by unfold_locales (rule looking_step)

lemma closing_shuffles:
  "lookingAt p s \<Longrightarrow> zd_commands (closeZoneModal s) = zd_commands s @ [(''library.shuffle'', [(''playerId'', JStr p)])]"
  by (auto simp: lookingAt_def closeZoneModal_def ownLibrary_def perform_def libraryShuffle_def Let_def)


definition plainTexts :: dialog_texts where
  "plainTexts = \<lparr>dt_playerName = (\<lambda>t p. p), dt_draw = ''Draw''\<rparr>"

definition viewing :: zone_dialog where
  "viewing = dialogRun plainTexts (noDialog ''g'' (Some ''a'')) [ViewLibrary ''a'']"

lemma viewing_simps: "zd_playerId viewing = Some ''a''" "zd_gameId viewing = ''g''" "zd_requests viewing = [ViewCommand ''a'']"
  by (simp_all add: viewing_def noDialog_def viewLibrary_def libraryView_def perform_def Let_def)


section \<open>Answers that come late\<close>

lemma open_library_search:
  assumes "zd_modal s = Some m" "zm_zone m = Library" "zm_filterSourceCards m = None" "zd_gameId s \<noteq> []" "js_trim search \<noteq> []"
  shows "updateZoneFilter None (Some search) s = s\<lparr>zd_modal := Some (m\<lparr>zm_search := search, zm_loading := True\<rparr>),
    zd_requests := zd_requests s @ [LibraryFiltered (m\<lparr>zm_search := search\<rparr>) NothingMore]\<rparr>"
  using assms by (simp add: updateZoneFilter_def modalDo_def patchFilters_def snapshotBacked_def loadZone_def hasModalFilters_def Let_def)

text \<open>C35: Answers to searches are not matched with the search: when a second search is typed before the first
  has been answered and the first answer comes last, the dialog shows the cards of the first search below
  the text of the second one, and nothing is under way that would change it.\<close>

theorem late_search_result_is_shown:
  assumes "zd_modal s = Some m" and "zm_zone m = Library" and "zm_filterSourceCards m = None"
    and "zd_gameId s \<noteq> []" and "zd_requests s = []" and "js_trim first \<noteq> []" and "js_trim second \<noteq> []"
  shows "\<exists>shown. zd_modal (dialogRun x s [UpdateFilter None (Some first), UpdateFilter None (Some second),
      ZoneAnswered 1 (Some (found2, n2)), ZoneAnswered 0 (Some (found1, n1))]) = Some shown
    \<and> zm_search shown = second \<and> zm_cards shown = found1 \<and> \<not> zm_loading shown
    \<and> zd_requests (dialogRun x s [UpdateFilter None (Some first), UpdateFilter None (Some second),
      ZoneAnswered 1 (Some (found2, n2)), ZoneAnswered 0 (Some (found1, n1))]) = []"
proof -
  define t where "t = updateZoneFilter None (Some first) s"
  have t: "zd_modal t = Some (m\<lparr>zm_search := first, zm_loading := True\<rparr>)" "zd_gameId t \<noteq> []"
    "zd_requests t = [LibraryFiltered (m\<lparr>zm_search := first\<rparr>) NothingMore]"
    using open_library_search [OF assms(1-4,6)] assms(4,5) by (simp_all add: t_def)
  define u where "u = updateZoneFilter None (Some second) t"
  have u: "zd_modal u = Some (m\<lparr>zm_search := second, zm_loading := True\<rparr>)"
    "\<exists>k l. zd_requests u = [LibraryFiltered k NothingMore, LibraryFiltered l NothingMore]"
    using open_library_search [OF t(1) _ _ t(2) assms(7)] assms(2,3) t(3) by (simp_all add: u_def)
  then obtain k l where r: "zd_requests u = [LibraryFiltered k NothingMore, LibraryFiltered l NothingMore]" by blast
  have "dialogRun x s [UpdateFilter None (Some first), UpdateFilter None (Some second),
      ZoneAnswered 1 (Some (found2, n2)), ZoneAnswered 0 (Some (found1, n1))]
      = zoneAnswered 0 (Some (found1, n1)) (zoneAnswered 1 (Some (found2, n2)) u)"
    by (simp add: t_def u_def)
  with u(1) r show ?thesis
    by (simp add: zoneAnswered_def remove_nth_def continueWith_def modalDo_def setLoaded_def Let_def)
qed

definition largeLibrary :: zone_dialog where
  "largeLibrary = (noDialog ''g'' (Some ''a''))\<lparr>zd_modal := Some (openedModal ''a'' Library [] None False True)\<rparr>"

theorem late_search_result_is_shown_witness:
  "\<exists>shown. zd_modal (dialogRun plainTexts largeLibrary [UpdateFilter None (Some ''el''), UpdateFilter None (Some ''elf''),
      ZoneAnswered 1 (Some ([], 0)), ZoneAnswered 0 (Some ([bare_card ''eldrazi''], 1))]) = Some shown
    \<and> zm_search shown = ''elf'' \<and> map card_instanceId (zm_cards shown) = [''eldrazi'']"
  using late_search_result_is_shown [of largeLibrary "openedModal ''a'' Library [] None False True" "''el''" "''elf''"
      plainTexts "[]" 0 "[bare_card ''eldrazi'']" 1]
  by (auto simp: largeLibrary_def noDialog_def openedModal_def js_trim_def is_js_space_def bare_card_def)

text \<open>When the cards did not arrive at first and come with a search, closing the dialog does not shuffle:
  \<open>viewLibrary\<close> has ended with the failed request.\<close>

lemma searched_after_failure_is_not_shuffled:
  fixes cards :: "game_card_instance list" and n :: int
  assumes "zd_playerId s = Some p" "zd_gameId s \<noteq> []" "zd_requests s = [ViewCommand p]" "zd_shufflePlayerId s = None"
    and "js_trim search \<noteq> []"
  defines "es \<equiv> [ViewAnswered 0 True, ZoneAnswered 0 None, UpdateFilter None (Some search), ZoneAnswered 0 (Some (cards, n))]"
  shows "map_option zm_cards (zd_modal (dialogRun plainTexts s es)) = Some cards
    \<and> zd_commands (dialogRun plainTexts s (es @ [CloseZone])) = zd_commands s"
proof -
  define m where "m = openedModal p Library (p @ '' '' @ zoneTitle Library) None False True"
  have viewed: "viewAnswered plainTexts 0 True s = s\<lparr>zd_requests := [LibraryWhole m (ShuffleOnClose p)],
      zd_modal := Some (m\<lparr>zm_loading := True\<rparr>)\<rparr>"
    using assms(2,3) by (simp add: viewAnswered_def viewedLibrary_def openZone_def shouldBlockEmptyZone_def loadZone_def
        snapshotBacked_def openedModal_def modalDo_def hasModalFilters_def js_trim_def remove_nth_def m_def plainTexts_def Let_def)
  define t where "t = zoneAnswered 0 None (viewAnswered plainTexts 0 True s)"
  have t: "t = s\<lparr>zd_requests := [], zd_modal := Some (m\<lparr>zm_loading := True\<rparr>)\<rparr>"
    unfolding t_def viewed by (simp add: zoneAnswered_def remove_nth_def)
  define u where "u = updateZoneFilter None (Some search) t"
  have u: "zd_modal u = Some (m\<lparr>zm_search := search, zm_loading := True\<rparr>)" "zd_shufflePlayerId u = None"
    "zd_requests u = [LibraryFiltered (m\<lparr>zm_search := search, zm_loading := True\<rparr>) NothingMore]" "zd_commands u = zd_commands s"
    using open_library_search [of t "m\<lparr>zm_loading := True\<rparr>" search] assms(2,4,5)
    by (simp_all add: u_def t m_def openedModal_def)
  have "dialogRun plainTexts s es = zoneAnswered 0 (Some (cards, n)) u"
    by (simp add: es_def t_def u_def)
  with u show ?thesis
    by (simp add: run_steps_append zoneAnswered_def remove_nth_def continueWith_def modalDo_def setLoaded_def
        closeZoneModal_def Let_def)
qed

end
