(* ===== verification/StackPresentation.thy ===== *)
theory StackPresentation
  imports BattlefieldGeometry
begin

text \<open>
  The visual piles shared by attachments and land stacks,
  \<^verbatim>\<open>utils/permanent-stack-presentation.ts\<close>, and the contract both kinds of pile satisfy. A
  JavaScript \<open>Map\<close> from ids to lists is a list of pairs in insertion order.
\<close>

section \<open>The groups\<close>

datatype stack_role = TargetRole | LayerRole

record stack_relation =
  srel_targetInstanceId :: string
  srel_layeredInstanceId :: string

record stack_member =
  smem_card :: game_card_instance
  smem_position :: pixel_position
  smem_layer :: nat
  smem_role :: stack_role

record stack_group =
  sgrp_id :: string
  sgrp_targetCard :: game_card_instance
  sgrp_members :: "stack_member list"

definition cardsById :: "game_card_instance list \<Rightarrow> string \<rightharpoonup> game_card_instance" where
  "cardsById cards = map_of (rev (map (\<lambda>c. (card_instanceId c, c)) cards))"

text \<open>\<open>map.set(key, [...(map.get(key) ?? []), value])\<close>.\<close>

fun append_at :: "'k \<Rightarrow> 'v \<Rightarrow> ('k \<times> 'v list) list \<Rightarrow> ('k \<times> 'v list) list" where
  "append_at k v [] = [(k, [v])]"
| "append_at k v ((k', vs) # rest) =
     (if k' = k then (k', vs @ [v]) # rest else (k', vs) # append_at k v rest)"

definition relationsByTarget ::
  "game_card_instance list \<Rightarrow> stack_relation list \<Rightarrow> (string \<times> stack_relation list) list" where
  "relationsByTarget cards relations =
     foldl (\<lambda>groups r.
       if cardsById cards (srel_targetInstanceId r) = None \<or> cardsById cards (srel_layeredInstanceId r) = None
       then groups else append_at (srel_targetInstanceId r) r groups) [] relations"

definition layerMember ::
  "game_card_instance list \<Rightarrow> (game_card_instance \<Rightarrow> pixel_position option) \<Rightarrow>
   stack_relation \<times> nat \<Rightarrow> stack_member option" where
  "layerMember cards positionFor entry =
     (case cardsById cards (srel_layeredInstanceId (fst entry)) of
        None \<Rightarrow> None
      | Some c \<Rightarrow>
          (case positionFor c of
             None \<Rightarrow> None
           | Some position \<Rightarrow> Some \<lparr>smem_card = c, smem_position = position,
               smem_layer = snd entry + 1, smem_role = LayerRole\<rparr>))"

definition layerMembers ::
  "game_card_instance list \<Rightarrow> (game_card_instance \<Rightarrow> pixel_position option) \<Rightarrow> stack_relation list \<Rightarrow>
   stack_member list" where
  "layerMembers cards positionFor targetRelations =
     List.map_filter (layerMember cards positionFor) (zip targetRelations [0..<length targetRelations])"

definition presentationGroup ::
  "game_card_instance list \<Rightarrow> (game_card_instance \<Rightarrow> pixel_position option) \<Rightarrow> nat option \<Rightarrow>
   string \<times> stack_relation list \<Rightarrow> stack_group option" where
  "presentationGroup cards positionFor maxLayeredCards entry =
     (case cardsById cards (fst entry) of
        None \<Rightarrow> None
      | Some targetCard \<Rightarrow>
          (case positionFor targetCard of
             None \<Rightarrow> None
           | Some targetPosition \<Rightarrow>
               let layered = (case maxLayeredCards of None \<Rightarrow> snd entry | Some n \<Rightarrow> take n (snd entry));
                   members = \<lparr>smem_card = targetCard, smem_position = targetPosition, smem_layer = 0,
                     smem_role = TargetRole\<rparr> # layerMembers cards positionFor layered
               in if length members > 1
                  then Some \<lparr>sgrp_id = join_strings '':'' (map (card_instanceId \<circ> smem_card) members),
                         sgrp_targetCard = targetCard, sgrp_members = members\<rparr>
                  else None))"

text \<open>\<open>maxLayeredCards\<close> is \<open>None\<close> for positive infinity.\<close>

definition buildPermanentStackPresentationGroups ::
  "game_card_instance list \<Rightarrow> stack_relation list \<Rightarrow> (game_card_instance \<Rightarrow> pixel_position option) \<Rightarrow>
   nat option \<Rightarrow> stack_group list" where
  "buildPermanentStackPresentationGroups cards relations positionFor maxLayeredCards =
     List.map_filter (presentationGroup cards positionFor maxLayeredCards)
       (relationsByTarget cards relations)"

section \<open>Lemmas\<close>

lemma cardsById_Some: "cardsById cards i = Some c \<Longrightarrow> c \<in> set cards \<and> card_instanceId c = i"
  by (auto simp: cardsById_def dest!: map_of_SomeD)

lemma cardsById_mem:
  assumes "distinct (map card_instanceId cards)" and "c \<in> set cards"
  shows "cardsById cards (card_instanceId c) = Some c"
  using assms by (auto simp: cardsById_def rev_map [symmetric] map_of_eq_Some_iff comp_def)

lemma map_filter_Some: "y \<in> set (List.map_filter f xs) \<longleftrightarrow> (\<exists>x \<in> set xs. f x = Some y)"
  by (force simp: List.map_filter_def)

lemma append_at_keys:
  "map fst (append_at k v xs) = (if k \<in> fst ` set xs then map fst xs else map fst xs @ [k])"
  by (induction xs) (auto, force+)

lemma append_at_mem:
  "(k', vs) \<in> set (append_at k v xs) \<Longrightarrow> (k', vs) \<in> set xs \<or>
     (k' = k \<and> (vs = [v] \<or> (\<exists>us. (k, us) \<in> set xs \<and> vs = us @ [v])))"
  by (induction xs) (auto split: if_splits)

definition relation_groups_ok :: "(string \<times> stack_relation list) list \<Rightarrow> bool" where
  [inv_defs]: "relation_groups_ok groups \<longleftrightarrow> distinct (map fst groups) \<and>
     (\<forall>(k, rs) \<in> set groups. rs \<noteq> [] \<and> (\<forall>r \<in> set rs. srel_targetInstanceId r = k))"

lemma append_at_ok:
  "relation_groups_ok groups \<Longrightarrow> srel_targetInstanceId r = k \<Longrightarrow> relation_groups_ok (append_at k r groups)"
  by (fastforce simp: relation_groups_ok_def append_at_keys dest!: append_at_mem)

lemma relationsByTarget_ok: "relation_groups_ok (relationsByTarget cards relations)"
proof -
  have "relation_groups_ok (foldl (\<lambda>groups r.
      if cardsById cards (srel_targetInstanceId r) = None \<or> cardsById cards (srel_layeredInstanceId r) = None
      then groups else append_at (srel_targetInstanceId r) r groups) gs relations)"
    if "relation_groups_ok gs" for gs
    using that by (induction relations arbitrary: gs) (simp_all add: append_at_ok)
  from this [of "[]"] show ?thesis unfolding relationsByTarget_def by (simp add: relation_groups_ok_def)
qed

lemma map_of_append_at:
  "map_of (append_at k v xs) =
     (map_of xs)(k \<mapsto> (case map_of xs k of None \<Rightarrow> [v] | Some us \<Rightarrow> us @ [v]))"
  by (induction xs) (auto simp: fun_upd_twist split: option.split)

lemma map_of_relationsByTarget:
  "map_of (relationsByTarget cards relations) k =
     (let rs = filter (\<lambda>r. srel_targetInstanceId r = k \<and> cardsById cards k \<noteq> None \<and>
            cardsById cards (srel_layeredInstanceId r) \<noteq> None) relations
      in if rs = [] then None else Some rs)"
  by (induction relations rule: rev_induct)
    (auto simp: relationsByTarget_def map_of_append_at Let_def split: if_splits)

lemma relationsByTarget_mem:
  assumes "(k, rs) \<in> set (relationsByTarget cards relations)"
  shows "rs = filter (\<lambda>r. srel_targetInstanceId r = k \<and>
      cardsById cards (srel_layeredInstanceId r) \<noteq> None) relations"
proof -
  have "map_of (relationsByTarget cards relations) k = Some rs"
    using assms relationsByTarget_ok [of cards relations] by (simp add: relation_groups_ok_def map_of_eq_Some_iff)
  moreover from this have "cardsById cards k \<noteq> None"
    by (auto simp: map_of_relationsByTarget Let_def filter_empty_conv split: if_splits)
  ultimately show ?thesis by (auto simp: map_of_relationsByTarget Let_def split: if_splits)
qed

lemma layerMember_Some:
  "layerMember cards positionFor e = Some m \<Longrightarrow>
     smem_card m \<in> set cards \<and> positionFor (smem_card m) = Some (smem_position m) \<and>
     smem_role m = LayerRole \<and> smem_layer m = snd e + 1"
  by (auto simp: layerMember_def split: option.split_asm dest: cardsById_Some)

lemma layerMembers_props:
  assumes "m \<in> set (layerMembers cards positionFor rs)"
  shows "smem_card m \<in> set cards \<and> positionFor (smem_card m) = Some (smem_position m) \<and>
     smem_role m = LayerRole \<and> 1 \<le> smem_layer m \<and> smem_layer m \<le> length rs"
proof -
  obtain e where "e \<in> set (zip rs [0..<length rs])" "layerMember cards positionFor e = Some m"
    using assms by (auto simp: layerMembers_def map_filter_Some)
  moreover from this have "snd e < length rs" by (auto simp: set_zip)
  ultimately show ?thesis using layerMember_Some [of cards positionFor e m] by auto
qed

lemma map_filter_Nil [simp]: "List.map_filter f [] = []"
  by (simp add: List.map_filter_def)

lemma map_filter_Cons:
  "List.map_filter f (x # xs) = (case f x of None \<Rightarrow> List.map_filter f xs | Some y \<Rightarrow> y # List.map_filter f xs)"
  by (simp add: List.map_filter_def split: option.split)

lemma layers_sorted:
  "sorted_wrt (<) (map smem_layer (List.map_filter (layerMember cards positionFor)
     (zip rs [k..<k + length rs]))) \<and>
   (\<forall>m \<in> set (List.map_filter (layerMember cards positionFor) (zip rs [k..<k + length rs])).
     k < smem_layer m)"
proof (induction rs arbitrary: k)
  case (Cons r rs)
  have "[k..<k + length (r # rs)] = k # [Suc k..<Suc k + length rs]" by (simp add: upt_conv_Cons del: upt_Suc)
  then show ?case
    using Cons.IH [of "Suc k"]
    by (auto simp: map_filter_Cons layerMember_def split: option.split simp del: upt_Suc)
qed simp

lemma layerMembers_sorted: "sorted_wrt (<) (map smem_layer (layerMembers cards positionFor rs))"
  using layers_sorted [where k = 0 and rs = rs] by (simp add: layerMembers_def)

lemma length_map_filter: "length (List.map_filter f xs) \<le> length xs"
  by (induction xs) (simp_all add: map_filter_Cons split: option.split)

lemma length_layerMembers: "length (layerMembers cards positionFor rs) \<le> length rs"
  using length_map_filter [of _ "zip rs [0..<length rs]"] by (simp add: layerMembers_def)

section \<open>The contract of a pile\<close>

text \<open>What the views and the moves of attachments and land stacks rely on.\<close>

definition stack_group_ok ::
  "game_card_instance list \<Rightarrow> (game_card_instance \<Rightarrow> pixel_position option) \<Rightarrow> stack_group \<Rightarrow> bool" where
  [inv_defs]: "stack_group_ok cards positionFor g \<longleftrightarrow>
     (\<exists>first rest. sgrp_members g = first # rest \<and> rest \<noteq> [] \<and> smem_role first = TargetRole \<and>
        smem_layer first = 0 \<and> smem_card first = sgrp_targetCard g \<and>
        (\<forall>m \<in> set rest. smem_role m = LayerRole)) \<and>
     sorted_wrt (<) (map smem_layer (sgrp_members g)) \<and>
     (\<forall>m \<in> set (sgrp_members g). smem_card m \<in> set cards \<and>
        positionFor (smem_card m) = Some (smem_position m))"

lemma presentationGroup_ok:
  assumes "presentationGroup cards positionFor n entry = Some g"
  shows "stack_group_ok cards positionFor g \<and> card_instanceId (sgrp_targetCard g) = fst entry \<and>
     (\<forall>k. n = Some k \<longrightarrow> length (sgrp_members g) \<le> Suc k)"
proof -
  let ?rs = "case n of None \<Rightarrow> snd entry | Some n \<Rightarrow> take n (snd entry)"
  obtain t p where t: "cardsById cards (fst entry) = Some t" "positionFor t = Some p"
    and g: "sgrp_targetCard g = t" "sgrp_members g = \<lparr>smem_card = t, smem_position = p, smem_layer = 0,
        smem_role = TargetRole\<rparr> # layerMembers cards positionFor ?rs"
      "layerMembers cards positionFor ?rs \<noteq> []"
    using assms by (auto simp: presentationGroup_def Let_def split: option.splits if_splits)
  have "length (sgrp_members g) \<le> Suc k" if "n = Some k" for k
    using length_layerMembers [of cards positionFor ?rs] that by (simp add: g)
  moreover have "\<forall>m \<in> set (layerMembers cards positionFor ?rs). 0 < smem_layer m"
    using layerMembers_props by fastforce
  ultimately show ?thesis
    using t cardsById_Some [OF t(1)] g layerMembers_sorted [of cards positionFor ?rs] layerMembers_props
    by (auto simp: stack_group_ok_def)
qed

lemma buildGroups_ok:
  assumes "g \<in> set (buildPermanentStackPresentationGroups cards relations positionFor n)"
  shows "stack_group_ok cards positionFor g" and "n = Some k \<Longrightarrow> length (sgrp_members g) \<le> Suc k"
  using assms presentationGroup_ok
  by (fastforce simp: buildPermanentStackPresentationGroups_def map_filter_Some)+

lemma map_filter_distinct_key:
  "(\<And>x y. x \<in> set xs \<Longrightarrow> f x = Some y \<Longrightarrow> k y = h x) \<Longrightarrow> distinct (map h xs) \<Longrightarrow>
     distinct (map k (List.map_filter f xs))"
proof (induction xs)
  case (Cons x xs)
  show ?case
  proof (cases "f x")
    case (Some y)
    have "k y \<notin> k ` set (List.map_filter f xs)"
    proof
      assume "k y \<in> k ` set (List.map_filter f xs)"
      then obtain x' y' where "x' \<in> set xs" "f x' = Some y'" "k y' = k y" by (auto simp: map_filter_Some)
      then have "h x' = h x" using Cons.prems(1) Some by (metis list.set_intros)
      moreover have "h x \<notin> h ` set xs" using Cons.prems(2) by simp
      ultimately show False using \<open>x' \<in> set xs\<close> by (metis imageI)
    qed
    with Some Cons show ?thesis by (simp add: map_filter_Cons)
  qed (use Cons in \<open>simp add: map_filter_Cons\<close>)
qed simp

lemma buildGroups_targets:
  "distinct (map (card_instanceId \<circ> sgrp_targetCard)
     (buildPermanentStackPresentationGroups cards relations positionFor n))"
  unfolding buildPermanentStackPresentationGroups_def
proof (rule map_filter_distinct_key [where h = fst])
  show "distinct (map fst (relationsByTarget cards relations))"
    using relationsByTarget_ok by (simp add: relation_groups_ok_def)
qed (use presentationGroup_ok in simp)

text \<open>The same contract as an interface, for the group types of the two kinds of pile: a pile has
  a target and at least one card on it, and the layers tell its cards apart.\<close>

locale pile_groups =
  fixes members :: "'g \<Rightarrow> 'm list"
    and member_card :: "'m \<Rightarrow> game_card_instance"
    and is_target :: "'m \<Rightarrow> bool"
    and layer :: "'m \<Rightarrow> nat"
    and valid :: "'g \<Rightarrow> bool"
  assumes valid_shape: "valid g \<Longrightarrow> \<exists>first rest. members g = first # rest \<and> rest \<noteq> [] \<and>
      is_target first \<and> layer first = 0 \<and> (\<forall>m \<in> set rest. \<not> is_target m)"
    and valid_layers: "valid g \<Longrightarrow> sorted_wrt (<) (map layer (members g))"
begin

lemma at_least_two: "valid g \<Longrightarrow> 2 \<le> length (members g)"
  using valid_shape [of g] by (auto simp: neq_Nil_conv)

lemma hd_target: "valid g \<Longrightarrow> is_target (hd (members g)) \<and> layer (hd (members g)) = 0"
  using valid_shape [of g] by auto

lemma layers_inj: "valid g \<Longrightarrow> inj_on layer (set (members g))"
  using valid_layers [of g] strict_sorted_iff distinct_map by blast

lemma target_iff:
  assumes "valid g" and "m \<in> set (members g)"
  shows "is_target m \<longleftrightarrow> m = hd (members g)"
  using valid_shape [OF assms(1)] assms(2) by auto

lemma layer_zero_iff:
  assumes "valid g" and "m \<in> set (members g)"
  shows "layer m = 0 \<longleftrightarrow> is_target m"
proof
  have "hd (members g) \<in> set (members g)" using assms(2) by (cases "members g") auto
  moreover assume "layer m = 0"
  then have "layer m = layer (hd (members g))" using hd_target [OF assms(1)] by simp
  ultimately have "m = hd (members g)"
    using inj_onD [OF layers_inj [OF assms(1)]] assms(2) by blast
  then show "is_target m" using hd_target [OF assms(1)] by simp
next
  assume "is_target m"
  then show "layer m = 0" using target_iff [OF assms] hd_target [OF assms(1)] by simp
qed

text \<open>Looking a card up finds a pile exactly when the card is in one.\<close>

lemma lookup:
  "(\<exists>g. List.find (\<lambda>g. \<exists>m \<in> set (members g). card_instanceId (member_card m) = iid) groups = Some g) \<longleftrightarrow>
     (\<exists>g \<in> set groups. \<exists>m \<in> set (members g). card_instanceId (member_card m) = iid)"
  by (induction groups) auto

lemma lookup_member:
  assumes "List.find (\<lambda>g. \<exists>m \<in> set (members g). card_instanceId (member_card m) = iid) groups = Some g"
  shows "\<exists>m. List.find (\<lambda>m. card_instanceId (member_card m) = iid) (members g) = Some m"
proof -
  have "\<exists>m \<in> set (members g). card_instanceId (member_card m) = iid" using find_Some_mem [OF assms] by simp
  then have "List.find (\<lambda>m. card_instanceId (member_card m) = iid) (members g) \<noteq> None"
    by (auto simp: find_None_iff)
  then show ?thesis by (simp add: not_None_eq)
qed

end

end
