(* ===== verification/LandStack.thy ===== *)
theory LandStack
  imports StackPresentation
begin

text \<open>
  Piles of lands and tokens, \<^verbatim>\<open>utils/land-stack.ts\<close>: building the groups from the stored
  relations, choosing the card a dragged card is dropped on, and the positions the cards of a
  pile move to when it grows, is taken apart or loses a card. Coordinates are rationals.
\<close>

section \<open>Cards and groups\<close>

datatype land_stack_role = TopRole | UnderRole

record land_stack_member =
  lsm_card :: game_card_instance
  lsm_position :: pixel_position
  lsm_layer :: nat
  lsm_role :: land_stack_role

record land_stack_group =
  lsg_id :: string
  lsg_topCard :: game_card_instance
  lsg_members :: "land_stack_member list"

record land_stack_view =
  lsv_stackId :: string
  lsv_size :: nat
  lsv_layer :: nat
  lsv_role :: land_stack_role

record land_drop_target =
  ldt_targetCard :: game_card_instance
  ldt_targetPosition :: pixel_position
  ldt_targetStack :: "land_stack_group option"
  ldt_nextSize :: nat

record land_layout_move =
  llm_card :: game_card_instance
  llm_position :: pixel_position

record detach_member =
  dmem_instanceId :: string
  dmem_x :: rat
  dmem_y :: rat
  dmem_layer :: nat

record land_detach_source =
  lds_playerId :: string
  lds_detachedInstanceId :: string
  lds_stackId :: string
  lds_members :: "detach_member list"

record instance_move =
  imv_instanceId :: string
  imv_position :: pixel_position

definition STACK_OFFSET_Y :: rat where "STACK_OFFSET_Y = 18"
definition STACK_OFFSET_X :: rat where "STACK_OFFSET_X = 10"
definition MAX_STACK_SIZE :: nat where "MAX_STACK_SIZE = 3"
definition DROP_OVERLAP_RATIO :: rat where "DROP_OVERLAP_RATIO = 32 / 100"
definition REMOVE_STACK_GAP :: rat where "REMOVE_STACK_GAP = 14"

definition isLandCard :: "game_card_instance option \<Rightarrow> bool" where
  "isLandCard crd =
     has_word ''land'' (case crd of None \<Rightarrow> [] | Some c \<Rightarrow>
       (case card_typeLine c of Some (Some t) \<Rightarrow> t | _ \<Rightarrow> []))"

definition isStackableBattlefieldCard :: "game_card_instance option \<Rightarrow> bool" where
  "isStackableBattlefieldCard crd =
     (case crd of
        None \<Rightarrow> False
      | Some c \<Rightarrow> isLandCard (Some c) \<or> card_isToken c = Some True \<or> card_isTokenCopy c = Some True)"

definition stacksByTop ::
  "game_card_instance list \<Rightarrow> game_battlefield_stack list \<Rightarrow> (string \<times> game_battlefield_stack list) list" where
  "stacksByTop cards stacks =
     foldl (\<lambda>groups stack.
       if cardsById cards (bs_stackTopInstanceId stack) = None
          \<or> cardsById cards (bs_stackedInstanceId stack) = None
       then groups else append_at (bs_stackTopInstanceId stack) stack groups) [] stacks"

definition landMember :: "stack_member \<Rightarrow> land_stack_member" where
  "landMember m = \<lparr>lsm_card = smem_card m, lsm_position = smem_position m, lsm_layer = smem_layer m,
     lsm_role = (if smem_role m = TargetRole then TopRole else UnderRole)\<rparr>"

definition landGroup :: "(string \<times> game_battlefield_stack list) list \<Rightarrow> stack_group \<Rightarrow> land_stack_group" where
  "landGroup byTop g =
     (let pile = card_instanceId (sgrp_targetCard g);
          topStacks = (case map_of byTop pile of None \<Rightarrow> [] | Some ss \<Rightarrow> ss)
      in \<lparr>lsg_id = pile @ '':'' @ join_strings '':'' (sort (map bs_id topStacks)),
          lsg_topCard = sgrp_targetCard g, lsg_members = map landMember (sgrp_members g)\<rparr>)"

definition buildLandStackGroups ::
  "game_card_instance list \<Rightarrow> game_battlefield_stack list \<Rightarrow>
   (game_card_instance \<Rightarrow> pixel_position option) \<Rightarrow> land_stack_group list" where
  "buildLandStackGroups cards stacks positionFor =
     (let byTop = stacksByTop cards stacks in
      map (landGroup byTop)
        (buildPermanentStackPresentationGroups cards
          (concat (map (\<lambda>(_, topStacks). map (\<lambda>stack.
             \<lparr>srel_targetInstanceId = bs_stackTopInstanceId stack,
              srel_layeredInstanceId = bs_stackedInstanceId stack\<rparr>) topStacks) byTop))
          positionFor (Some (MAX_STACK_SIZE - 1))))"

definition landStackGroupContaining :: "land_stack_group list \<Rightarrow> string \<Rightarrow> land_stack_group option" where
  "landStackGroupContaining groups iid =
     List.find (\<lambda>g. \<exists>m \<in> set (lsg_members g). card_instanceId (lsm_card m) = iid) groups"

definition landStackViewFor :: "land_stack_group list \<Rightarrow> string \<Rightarrow> land_stack_view option" where
  "landStackViewFor groups iid =
     (case landStackGroupContaining groups iid of
        None \<Rightarrow> None
      | Some g \<Rightarrow>
          (case List.find (\<lambda>m. card_instanceId (lsm_card m) = iid) (lsg_members g) of
             None \<Rightarrow> None
           | Some m \<Rightarrow> Some \<lparr>lsv_stackId = lsg_id g, lsv_size = length (lsg_members g),
               lsv_layer = lsm_layer m, lsv_role = lsm_role m\<rparr>))"

definition landStackRelationInstanceIds :: "game_battlefield_stack list \<Rightarrow> string set" where
  "landStackRelationInstanceIds stacks =
     foldl (\<lambda>ids stack. insert (bs_stackTopInstanceId stack) (insert (bs_stackedInstanceId stack) ids)) {} stacks"

section \<open>Dropping a card\<close>

text \<open>The candidates within reach with their distance, and the nearest of them.\<close>

definition landDropDistance ::
  "pixel_position \<Rightarrow> rat option \<Rightarrow> area_size \<Rightarrow> pixel_position \<Rightarrow> rat option" where
  "landDropDistance dragged minimumOverlapRatio cardSize position =
     (let cardWidth = sz_width cardSize; cardHeight = sz_height cardSize;
          dx = \<bar>px_x dragged - px_x position\<bar>; dy = \<bar>px_y dragged - px_y position\<bar>;
          overlap = ((cardWidth - dx) * (cardHeight - dy)) / (cardWidth * cardHeight)
      in case minimumOverlapRatio of
           None \<Rightarrow>
             if dx > cardWidth * (1 - DROP_OVERLAP_RATIO) \<or> dy > cardHeight * (1 - DROP_OVERLAP_RATIO)
             then None else Some (dx + dy)
         | Some r \<Rightarrow>
             if dx \<ge> cardWidth \<or> dy \<ge> cardHeight \<or> overlap < r then None else Some (dx + dy))"

definition landDropCandidate ::
  "pixel_position \<Rightarrow> (game_card_instance \<Rightarrow> pixel_position option) \<Rightarrow> rat option \<Rightarrow> area_size \<Rightarrow>
   game_card_instance \<Rightarrow> (game_card_instance \<times> rat) option" where
  "landDropCandidate dragged positionFor minimumOverlapRatio cardSize crd =
     (case positionFor crd of
        None \<Rightarrow> None
      | Some position \<Rightarrow>
          map_option (Pair crd) (landDropDistance dragged minimumOverlapRatio cardSize position))"

definition landBestDropTarget ::
  "game_card_instance list \<Rightarrow> string \<Rightarrow> pixel_position \<Rightarrow> (game_card_instance \<Rightarrow> pixel_position option) \<Rightarrow>
   rat option \<Rightarrow> area_size \<Rightarrow> game_card_instance option" where
  "landBestDropTarget cards draggedId draggedPosition positionFor minimumOverlapRatio cardSize =
     (case sort_key snd (List.map_filter
         (landDropCandidate draggedPosition positionFor minimumOverlapRatio cardSize)
         (filter (\<lambda>c. card_instanceId c \<noteq> draggedId) cards)) of
        [] \<Rightarrow> None
      | (crd, _) # _ \<Rightarrow> Some crd)"

definition landStackDropTarget ::
  "game_card_instance list \<Rightarrow> game_battlefield_stack list \<Rightarrow> string \<Rightarrow> pixel_position \<Rightarrow>
   (game_card_instance \<Rightarrow> pixel_position option) \<Rightarrow> string set \<Rightarrow> rat option \<Rightarrow> area_size \<Rightarrow>
   land_drop_target option" where
  "landStackDropTarget cards stacks draggedId draggedPosition positionFor blocked minimumOverlapRatio cardSize =
     (let dragged = List.find (\<lambda>c. card_instanceId c = draggedId) cards in
      if dragged = None \<or> \<not> isStackableBattlefieldCard dragged \<or> draggedId \<in> blocked then None
      else
        let targetCards = filter (\<lambda>c. card_instanceId c \<noteq> draggedId) cards;
            groups = buildLandStackGroups targetCards stacks positionFor;
            target = landBestDropTarget targetCards draggedId draggedPosition positionFor
              minimumOverlapRatio cardSize
        in case target of
             None \<Rightarrow> None
           | Some t \<Rightarrow>
               if \<not> isStackableBattlefieldCard (Some t) then None
               else (case landStackGroupContaining groups (card_instanceId t) of
                   Some targetStack \<Rightarrow>
                     if length (lsg_members targetStack) \<ge> MAX_STACK_SIZE
                        \<or> (\<exists>m \<in> set (lsg_members targetStack). card_instanceId (lsm_card m) \<in> blocked)
                     then None
                     else Some \<lparr>ldt_targetCard = lsg_topCard targetStack,
                       ldt_targetPosition = lsm_position (hd (lsg_members targetStack)),
                       ldt_targetStack = Some targetStack, ldt_nextSize = 3\<rparr>
                 | None \<Rightarrow>
                     if card_instanceId t \<in> blocked then None
                     else Some \<lparr>ldt_targetCard = t, ldt_targetPosition = the (positionFor t),
                       ldt_targetStack = None, ldt_nextSize = 2\<rparr>))"

definition fullLandStackDropTarget ::
  "game_card_instance list \<Rightarrow> game_battlefield_stack list \<Rightarrow> string \<Rightarrow> pixel_position \<Rightarrow>
   (game_card_instance \<Rightarrow> pixel_position option) \<Rightarrow> rat option \<Rightarrow> area_size \<Rightarrow> land_stack_group option" where
  "fullLandStackDropTarget cards stacks draggedId draggedPosition positionFor minimumOverlapRatio cardSize =
     (if \<not> isStackableBattlefieldCard (List.find (\<lambda>c. card_instanceId c = draggedId) cards) then None
      else
        let targetCards = filter (\<lambda>c. card_instanceId c \<noteq> draggedId) cards;
            groups = buildLandStackGroups targetCards stacks positionFor
        in case Option.bind (landBestDropTarget targetCards draggedId draggedPosition positionFor
                 minimumOverlapRatio cardSize) (\<lambda>t. landStackGroupContaining groups (card_instanceId t)) of
             None \<Rightarrow> None
           | Some g \<Rightarrow> if length (lsg_members g) < MAX_STACK_SIZE then None else Some g)"

section \<open>Moves\<close>

definition fanned :: "pixel_position \<Rightarrow> nat \<Rightarrow> pixel_position" where
  "fanned pile layer = \<lparr>px_x = px_x pile + STACK_OFFSET_X * of_nat layer,
     px_y = px_y pile - STACK_OFFSET_Y * of_nat layer\<rparr>"

definition createLandStackMoves ::
  "land_drop_target \<Rightarrow> game_card_instance \<Rightarrow> pixel_position \<Rightarrow> land_layout_move list" where
  "createLandStackMoves target dragged topPosition =
     (let layer = (case ldt_targetStack target of None \<Rightarrow> 1 | Some g \<Rightarrow> length (lsg_members g));
          targetMoved = (px_x topPosition \<noteq> px_x (ldt_targetPosition target)
                       \<or> px_y topPosition \<noteq> px_y (ldt_targetPosition target));
          draggedMove = \<lparr>llm_card = dragged, llm_position = fanned topPosition layer\<rparr>
      in case ldt_targetStack target of
           Some g \<Rightarrow>
             if targetMoved
             then map (\<lambda>m. \<lparr>llm_card = lsm_card m, llm_position = fanned topPosition (lsm_layer m)\<rparr>)
                    (lsg_members g) @ [draggedMove]
             else [draggedMove]
         | None \<Rightarrow> [draggedMove])"

definition removeLandStackMoves :: "land_stack_group \<Rightarrow> land_layout_move list" where
  "removeLandStackMoves g =
     (case lsg_members g of
        [] \<Rightarrow> []
      | pile # _ \<Rightarrow>
          let stepX = sz_width DEFAULT_BATTLEFIELD_CARD_SIZE + REMOVE_STACK_GAP;
              direction = (if px_x (lsm_position pile) \<ge> stepX * of_nat (length (lsg_members g) - 1)
                           then - 1 else 1 :: rat)
          in map (\<lambda>(m, index). \<lparr>llm_card = lsm_card m, llm_position =
                 \<lparr>px_x = px_x (lsm_position pile) + stepX * of_nat index * direction,
                  px_y = px_y (lsm_position pile)\<rparr>\<rparr>)
               (zip (lsg_members g) [0..<length (lsg_members g)]))"

definition detachLandStackMoves :: "land_detach_source \<Rightarrow> instance_move list" where
  "detachLandStackMoves source =
     (let remaining = sort_key dmem_layer
            (filter (\<lambda>m. dmem_instanceId m \<noteq> lds_detachedInstanceId source) (lds_members source))
      in case remaining of
           pile # _ # _ \<Rightarrow>
             map (\<lambda>(m, index). \<lparr>imv_instanceId = dmem_instanceId m,
                 imv_position = fanned \<lparr>px_x = dmem_x pile, px_y = dmem_y pile\<rparr> index\<rparr>)
               (zip remaining [0..<length remaining])
         | _ \<Rightarrow> [])"

definition landStackDetachSource ::
  "string \<Rightarrow> game_battlefield_stack list \<Rightarrow> land_stack_group \<Rightarrow> string \<Rightarrow> land_detach_source option" where
  "landStackDetachSource playerId stacks g detachedId =
     (let detached = List.find (\<lambda>m. card_instanceId (lsm_card m) = detachedId) (lsg_members g);
          stack = List.find (\<lambda>s. bs_stackedInstanceId s = detachedId
                    \<and> bs_stackTopInstanceId s = card_instanceId (lsg_topCard g)) stacks
      in case (detached, stack) of
           (Some d, Some s) \<Rightarrow>
             if lsm_role d \<noteq> UnderRole then None
             else Some \<lparr>lds_playerId = playerId, lds_detachedInstanceId = detachedId,
               lds_stackId = bs_id s,
               lds_members = map (\<lambda>m. \<lparr>dmem_instanceId = card_instanceId (lsm_card m),
                 dmem_x = px_x (lsm_position m), dmem_y = px_y (lsm_position m),
                 dmem_layer = lsm_layer m\<rparr>) (lsg_members g)\<rparr>
         | _ \<Rightarrow> None)"

section \<open>Lemmas\<close>

lemma landMember_simps [simp]:
  "lsm_card (landMember m) = smem_card m" "lsm_position (landMember m) = smem_position m"
  "lsm_layer (landMember m) = smem_layer m" "lsm_role (landMember m) = TopRole \<longleftrightarrow> smem_role m = TargetRole"
  by (simp_all add: landMember_def)

definition land_group_ok ::
  "game_card_instance list \<Rightarrow> (game_card_instance \<Rightarrow> pixel_position option) \<Rightarrow> land_stack_group \<Rightarrow> bool" where
  [inv_defs]: "land_group_ok cards positionFor g \<longleftrightarrow>
     (\<exists>first rest. lsg_members g = first # rest \<and> rest \<noteq> [] \<and> lsm_role first = TopRole \<and>
        lsm_layer first = 0 \<and> lsm_card first = lsg_topCard g \<and> (\<forall>m \<in> set rest. lsm_role m \<noteq> TopRole)) \<and>
     sorted_wrt (<) (map lsm_layer (lsg_members g)) \<and> length (lsg_members g) \<le> MAX_STACK_SIZE \<and>
     (\<forall>m \<in> set (lsg_members g). lsm_card m \<in> set cards \<and> positionFor (lsm_card m) = Some (lsm_position m))"

lemma buildLandStackGroups_ok:
  assumes "g \<in> set (buildLandStackGroups cards stacks positionFor)"
  shows "land_group_ok cards positionFor g"
proof -
  obtain h byTop relations where g: "g = landGroup byTop h"
    and h: "h \<in> set (buildPermanentStackPresentationGroups cards relations positionFor (Some (MAX_STACK_SIZE - 1)))"
    using assms by (auto simp: buildLandStackGroups_def Let_def)
  have "length (sgrp_members h) \<le> MAX_STACK_SIZE"
    using buildGroups_ok(2) [OF h, of "MAX_STACK_SIZE - 1"] by (simp add: MAX_STACK_SIZE_def)
  with buildGroups_ok(1) [OF h] show ?thesis
    by (auto simp: land_group_ok_def stack_group_ok_def g landGroup_def Let_def comp_def)
qed

interpretation land_piles: pile_groups lsg_members lsm_card "\<lambda>m. lsm_role m = TopRole" lsm_layer
  "\<lambda>g. \<exists>cards positionFor. land_group_ok cards positionFor g"
  by unfold_locales (auto simp: land_group_ok_def)

lemma landStackGroupContaining_Some:
  "landStackGroupContaining groups iid = Some g \<Longrightarrow>
     g \<in> set groups \<and> (\<exists>m \<in> set (lsg_members g). card_instanceId (lsm_card m) = iid)"
  unfolding landStackGroupContaining_def by (drule find_Some_mem) simp

lemma landBestDropTarget_nearest:
  assumes "landBestDropTarget cards draggedId pos positionFor r cardSize = Some t"
  shows "t \<in> set cards \<and> card_instanceId t \<noteq> draggedId \<and>
     (\<exists>d. landDropCandidate pos positionFor r cardSize t = Some (t, d) \<and>
        (\<forall>c d'. c \<in> set cards \<longrightarrow> card_instanceId c \<noteq> draggedId \<longrightarrow>
           landDropCandidate pos positionFor r cardSize c = Some (c, d') \<longrightarrow> d \<le> d'))"
proof -
  let ?cs = "List.map_filter (landDropCandidate pos positionFor r cardSize)
    (filter (\<lambda>c. card_instanceId c \<noteq> draggedId) cards)"
  obtain d rest where sorted: "sort_key snd ?cs = (t, d) # rest"
    using assms by (auto simp: landBestDropTarget_def split: list.splits)
  have cs: "set ?cs = insert (t, d) (set rest)"
    using arg_cong [OF sorted, of set] by simp
  have head: "\<forall>x \<in> set rest. d \<le> snd x"
    using sorted_sort_key [of snd ?cs] unfolding sorted by simp
  have least: "d \<le> snd x" if "x \<in> set ?cs" for x
  proof -
    have "x = (t, d) \<or> x \<in> set rest" using that unfolding cs by blast
    with head show ?thesis by auto
  qed
  have "(t, d) \<in> set ?cs" unfolding cs by blast
  then obtain c where "c \<in> set cards" "card_instanceId c \<noteq> draggedId"
    "landDropCandidate pos positionFor r cardSize c = Some (t, d)"
    by (auto simp: map_filter_Some)
  moreover from this(3) have "c = t"
    by (auto simp: landDropCandidate_def split: option.splits)
  moreover have "d \<le> d'" if "c' \<in> set cards" "card_instanceId c' \<noteq> draggedId"
    "landDropCandidate pos positionFor r cardSize c' = Some (c', d')" for c' d'
    using least [of "(c', d')"] that by (auto simp: map_filter_Some)
  ultimately show ?thesis by blast
qed

section \<open>A sample battlefield\<close>

definition land_card :: "string \<Rightarrow> game_card_instance" where
  "land_card i = (bare_card i)\<lparr>card_typeLine := Some (Some ''Basic Land'')\<rparr>"

definition land_places :: "game_card_instance \<Rightarrow> pixel_position option" where
  "land_places c = Some (if card_instanceId c = ''l3'' then \<lparr>px_x = 300, px_y = 40\<rparr>
     else if card_instanceId c = ''l2'' then \<lparr>px_x = 30, px_y = 22\<rparr> else \<lparr>px_x = 20, px_y = 40\<rparr>)"

definition land_relation :: game_battlefield_stack where
  "land_relation = \<lparr>bs_id = ''s'', bs_ownerId = None, bs_stackedInstanceId = ''l2'',
     bs_stackTopInstanceId = ''l1'', bs_createdAt = []\<rparr>"

definition land_pair :: land_stack_group where
  "land_pair = \<lparr>lsg_id = ''l1:s'', lsg_topCard = land_card ''l1'', lsg_members =
     [\<lparr>lsm_card = land_card ''l1'', lsm_position = \<lparr>px_x = 20, px_y = 40\<rparr>, lsm_layer = 0, lsm_role = TopRole\<rparr>,
      \<lparr>lsm_card = land_card ''l2'', lsm_position = \<lparr>px_x = 30, px_y = 22\<rparr>, lsm_layer = 1, lsm_role = UnderRole\<rparr>]\<rparr>"

section \<open>Properties\<close>

text \<open>The groups drawn for land stacks are piles of two or three cards of the battlefield,
  each at its own position, the stored top card first in layer zero and the others under it
  in strictly increasing layers; no two groups share their top card.\<close>

theorem land_groups_are_piles:
  "(\<forall>g \<in> set (buildLandStackGroups cards stacks positionFor).
      land_group_ok cards positionFor g \<and> 2 \<le> length (lsg_members g) \<and> length (lsg_members g) \<le> 3) \<and>
   distinct (map (card_instanceId \<circ> lsg_topCard) (buildLandStackGroups cards stacks positionFor))"
proof -
  have "land_group_ok cards positionFor g \<and> 2 \<le> length (lsg_members g) \<and> length (lsg_members g) \<le> 3"
    if "g \<in> set (buildLandStackGroups cards stacks positionFor)" for g
    using buildLandStackGroups_ok [OF that] land_piles.at_least_two [of g]
    by (auto simp: land_group_ok_def MAX_STACK_SIZE_def)
  moreover have "lsg_topCard \<circ> landGroup byTop = sgrp_targetCard" for byTop
    by (auto simp: landGroup_def Let_def)
  then have "distinct (map (card_instanceId \<circ> lsg_topCard) (buildLandStackGroups cards stacks positionFor))"
    using buildGroups_targets [of cards] by (simp add: buildLandStackGroups_def Let_def comp_assoc)
  ultimately show ?thesis by blast
qed

theorem land_groups_are_piles_witness:
  "\<exists>g. buildLandStackGroups (map land_card [''l1'', ''l2'']) [land_relation] land_places = [g] \<and>
     land_group_ok (map land_card [''l1'', ''l2'']) land_places g \<and> 2 \<le> length (lsg_members g)"
proof -
  have "length (buildLandStackGroups (map land_card [''l1'', ''l2'']) [land_relation] land_places) = 1"
    by code_simp
  then obtain g where "buildLandStackGroups (map land_card [''l1'', ''l2'']) [land_relation] land_places = [g]"
    by (auto simp: length_Suc_conv)
  with land_groups_are_piles [of "map land_card [''l1'', ''l2'']" "[land_relation]" land_places]
  show ?thesis by auto
qed

text \<open>A drop never overfills a pile and never lands on a blocked card or on the dragged card
  itself. The announced size is the size the pile will have, two or three, and the card dropped
  on is within reach with no nearer candidate.\<close>

theorem land_drop_target_fits:
  assumes "landStackDropTarget cards stacks draggedId pos positionFor blocked r cardSize = Some target"
  shows "draggedId \<notin> blocked \<and>
     (case ldt_targetStack target of
        None \<Rightarrow> ldt_nextSize target = 2 \<and> card_instanceId (ldt_targetCard target) \<noteq> draggedId \<and>
          card_instanceId (ldt_targetCard target) \<notin> blocked \<and>
          positionFor (ldt_targetCard target) = Some (ldt_targetPosition target) \<and>
          (\<exists>d. landDropDistance pos r cardSize (ldt_targetPosition target) = Some d \<and>
             (\<forall>c d'. c \<in> set cards \<longrightarrow> card_instanceId c \<noteq> draggedId \<longrightarrow>
                landDropCandidate pos positionFor r cardSize c = Some (c, d') \<longrightarrow> d \<le> d'))
      | Some g \<Rightarrow> ldt_nextSize target = length (lsg_members g) + 1 \<and> length (lsg_members g) = 2 \<and>
          ldt_targetCard target = lsg_topCard g \<and>
          (\<forall>m \<in> set (lsg_members g). card_instanceId (lsm_card m) \<noteq> draggedId \<and>
             card_instanceId (lsm_card m) \<notin> blocked))"
proof -
  let ?cards = "filter (\<lambda>c. card_instanceId c \<noteq> draggedId) cards"
  let ?groups = "buildLandStackGroups ?cards stacks positionFor"
  obtain t where notBlocked: "draggedId \<notin> blocked"
    and t: "landBestDropTarget ?cards draggedId pos positionFor r cardSize = Some t"
    using assms by (auto simp: landStackDropTarget_def Let_def split: if_splits option.splits)
  note run = assms [unfolded landStackDropTarget_def Let_def t option.case]
  show ?thesis
  proof (cases "landStackGroupContaining ?groups (card_instanceId t)")
    case None
    then have target: "target = \<lparr>ldt_targetCard = t, ldt_targetPosition = the (positionFor t),
        ldt_targetStack = None, ldt_nextSize = 2\<rparr>" "card_instanceId t \<notin> blocked"
      using run by (auto split: if_splits)
    have "positionFor t \<noteq> None"
      using landBestDropTarget_nearest [OF t] by (auto simp: landDropCandidate_def split: option.splits)
    with landBestDropTarget_nearest [OF t] target notBlocked show ?thesis
      by (auto simp: landDropCandidate_def split: option.splits)
  next
    case (Some g)
    then have target: "target = \<lparr>ldt_targetCard = lsg_topCard g,
        ldt_targetPosition = lsm_position (hd (lsg_members g)), ldt_targetStack = Some g, ldt_nextSize = 3\<rparr>"
      and small: "\<not> MAX_STACK_SIZE \<le> length (lsg_members g)"
      and free: "\<forall>m \<in> set (lsg_members g). card_instanceId (lsm_card m) \<notin> blocked"
      using run by (auto split: if_splits)
    have ok: "land_group_ok ?cards positionFor g"
      using landStackGroupContaining_Some [OF Some] buildLandStackGroups_ok by blast
    then have "2 \<le> length (lsg_members g)" using land_piles.at_least_two by blast
    with small have "length (lsg_members g) = 2" by (simp add: MAX_STACK_SIZE_def)
    moreover have "\<forall>m \<in> set (lsg_members g). card_instanceId (lsm_card m) \<noteq> draggedId"
      using ok by (auto simp: land_group_ok_def)
    ultimately show ?thesis using target free notBlocked by simp
  qed
qed

theorem land_drop_target_fits_witness:
  "\<exists>target g. landStackDropTarget (map land_card [''l1'', ''l2'', ''l3'']) [land_relation] ''l3''
       \<lparr>px_x = 25, px_y = 40\<rparr> land_places {} None DEFAULT_BATTLEFIELD_CARD_SIZE = Some target \<and>
     ldt_targetStack target = Some g \<and> ldt_nextSize target = length (lsg_members g) + 1"
proof -
  let ?drop = "landStackDropTarget (map land_card [''l1'', ''l2'', ''l3'']) [land_relation] ''l3''
    \<lparr>px_x = 25, px_y = 40\<rparr> land_places {} None DEFAULT_BATTLEFIELD_CARD_SIZE"
  have "case ?drop of None \<Rightarrow> False | Some target \<Rightarrow> ldt_targetStack target \<noteq> None" by code_simp
  then obtain target g where "?drop = Some target" "ldt_targetStack target = Some g"
    by (auto split: option.splits)
  with land_drop_target_fits [OF this(1)] show ?thesis by simp
qed

text \<open>Taking a pile apart lays its cards out in a row: they keep their height, any two of
  them are at least a card width and the gap apart, the first stays where it is, and no card is
  moved past the left edge.\<close>

theorem remove_land_stack_row:
  assumes "lsg_members g = first # rest" and "0 \<le> px_x (lsm_position first)"
    and "i < length (lsg_members g)" and "j < length (lsg_members g)"
  defines "moves \<equiv> removeLandStackMoves g"
  shows "map llm_card moves = map lsm_card (lsg_members g) \<and>
     px_y (llm_position (moves ! i)) = px_y (lsm_position first) \<and>
     0 \<le> px_x (llm_position (moves ! i)) \<and> llm_position (moves ! 0) = lsm_position first \<and>
     (i \<noteq> j \<longrightarrow> 130 \<le> \<bar>px_x (llm_position (moves ! i)) - px_x (llm_position (moves ! j))\<bar>)"
proof -
  let ?n = "length (lsg_members g)" and ?x = "px_x (lsm_position first)"
  let ?d = "if 130 * of_nat (?n - 1) \<le> ?x then - 1 else 1 :: rat"
  have moves: "moves = map (\<lambda>(m, index). \<lparr>llm_card = lsm_card m, llm_position =
      \<lparr>px_x = ?x + 130 * of_nat index * ?d, px_y = px_y (lsm_position first)\<rparr>\<rparr>)
      (zip (lsg_members g) [0..<?n])"
    using assms(1)
    by (simp add: moves_def removeLandStackMoves_def DEFAULT_BATTLEFIELD_CARD_SIZE_def REMOVE_STACK_GAP_def Let_def
        del: upt_Suc)
  have pos: "llm_position (moves ! k) = \<lparr>px_x = ?x + 130 * of_nat k * ?d, px_y = px_y (lsm_position first)\<rparr>"
    if "k < ?n" for k using that by (simp add: moves)
  have "map llm_card moves = map lsm_card (map fst (zip (lsg_members g) [0..<?n]))"
    unfolding moves map_map by (simp add: case_prod_unfold comp_def del: upt_Suc)
  moreover have "map fst (zip (lsg_members g) [0..<?n]) = lsg_members g" by (rule map_fst_zip) simp
  ultimately have cards: "map llm_card moves = map lsm_card (lsg_members g)" by metis
  have "of_nat i \<le> (of_nat (?n - 1) :: rat)" using assms(3) by simp
  then have "0 \<le> ?x + 130 * of_nat i * ?d" using assms(2) by auto
  moreover have "130 \<le> \<bar>(?x + 130 * of_nat i * ?d) - (?x + 130 * of_nat j * ?d)\<bar>" if "i \<noteq> j"
  proof -
    have "(?x + 130 * of_nat i * ?d) - (?x + 130 * of_nat j * ?d) = of_int (130 * ((int i - int j) * (if ?d = 1 then 1 else - 1)))"
      by simp
    moreover have "130 \<le> \<bar>130 * ((int i - int j) * (if ?d = 1 then 1 else - 1))\<bar>"
      using that by (simp add: abs_mult)
    ultimately show ?thesis by (metis of_int_abs of_int_le_iff of_int_numeral)
  qed
  ultimately show ?thesis using cards pos [OF assms(3)] pos [OF assms(4)] pos [of 0] assms(1) by simp
qed

theorem remove_land_stack_row_witness:
  "px_x (llm_position (removeLandStackMoves land_pair ! 0)) = 20 \<and>
   130 \<le> \<bar>20 - px_x (llm_position (removeLandStackMoves land_pair ! 1))\<bar>"
proof -
  have x: "px_x (lsm_position (hd (lsg_members land_pair))) = 20" and n: "length (lsg_members land_pair) = 2"
    and split: "lsg_members land_pair = hd (lsg_members land_pair) # tl (lsg_members land_pair)"
    by (simp_all add: land_pair_def)
  have "0 \<le> px_x (lsm_position (hd (lsg_members land_pair)))" "0 < length (lsg_members land_pair)"
    "1 < length (lsg_members land_pair)" by (simp_all add: x n)
  note row = remove_land_stack_row [OF split this]
  from row have "llm_position (removeLandStackMoves land_pair ! 0) = lsm_position (hd (lsg_members land_pair))"
    by blast
  moreover from row have "130 \<le> \<bar>px_x (llm_position (removeLandStackMoves land_pair ! 0))
       - px_x (llm_position (removeLandStackMoves land_pair ! 1))\<bar>" using zero_neq_one by blast
  ultimately show ?thesis using x by metis
qed

end
