(* ===== verification/AttachmentStack.thy ===== *)
theory AttachmentStack
  imports LandStack "HOL-Library.AList"
begin

text \<open>
  Equipment attached to other permanents, \<^verbatim>\<open>utils/attachment-stack.ts\<close>: the piles drawn
  for attachments, the permanent an equipment is dropped on, and the moves that fan the
  equipment of a permanent out when one is attached, detached or the pile is taken apart.
\<close>

section \<open>Groups\<close>

datatype attachment_stack_role = AttachTargetRole | EquipmentRole

record attachment_stack_member =
  asm_card :: game_card_instance
  asm_position :: pixel_position
  asm_layer :: nat
  asm_role :: attachment_stack_role

record attachment_stack_group =
  asg_id :: string
  asg_targetCard :: game_card_instance
  asg_members :: "attachment_stack_member list"

record attachment_stack_view =
  asv_stackId :: string
  asv_layer :: nat
  asv_role :: attachment_stack_role

record attachment_drop_target =
  adt_targetCard :: game_card_instance
  adt_targetPosition :: pixel_position
  adt_targetStack :: "attachment_stack_group option"

record attachment_detach_source =
  ads_playerId :: string
  ads_detachedInstanceId :: string
  ads_attachmentId :: string
  ads_members :: "detach_member list"

definition REMOVE_ATTACHMENT_STACK_GAP :: rat where "REMOVE_ATTACHMENT_STACK_GAP = 14"

definition attachmentMember :: "stack_member \<Rightarrow> attachment_stack_member" where
  "attachmentMember m = \<lparr>asm_card = smem_card m, asm_position = smem_position m, asm_layer = smem_layer m,
     asm_role = (if smem_role m = TargetRole then AttachTargetRole else EquipmentRole)\<rparr>"

definition attachmentGroup :: "stack_group \<Rightarrow> attachment_stack_group" where
  "attachmentGroup g = \<lparr>asg_id = sgrp_id g, asg_targetCard = sgrp_targetCard g,
     asg_members = map attachmentMember (sgrp_members g)\<rparr>"

definition attachmentRelation :: "game_attachment \<Rightarrow> stack_relation" where
  "attachmentRelation a = \<lparr>srel_targetInstanceId = at_attachedToInstanceId a,
     srel_layeredInstanceId = at_equipmentInstanceId a\<rparr>"

definition buildAttachmentStackGroups ::
  "game_card_instance list \<Rightarrow> game_attachment list \<Rightarrow>
   (game_card_instance \<Rightarrow> pixel_position option) \<Rightarrow> attachment_stack_group list" where
  "buildAttachmentStackGroups cards attachments positionFor =
     map attachmentGroup
       (buildPermanentStackPresentationGroups cards (map attachmentRelation attachments) positionFor None)"

definition attachmentStackGroupContaining ::
  "attachment_stack_group list \<Rightarrow> string \<Rightarrow> attachment_stack_group option" where
  "attachmentStackGroupContaining groups iid =
     List.find (\<lambda>g. \<exists>m \<in> set (asg_members g). card_instanceId (asm_card m) = iid) groups"

definition attachmentStackViewFor ::
  "attachment_stack_group list \<Rightarrow> string \<Rightarrow> attachment_stack_view option" where
  "attachmentStackViewFor groups iid =
     (case attachmentStackGroupContaining groups iid of
        None \<Rightarrow> None
      | Some g \<Rightarrow>
          (case List.find (\<lambda>m. card_instanceId (asm_card m) = iid) (asg_members g) of
             None \<Rightarrow> None
           | Some m \<Rightarrow> Some \<lparr>asv_stackId = asg_id g, asv_layer = asm_layer m, asv_role = asm_role m\<rparr>))"

definition attachmentRelationInstanceIds :: "game_attachment list \<Rightarrow> string set" where
  "attachmentRelationInstanceIds attachments =
     foldl (\<lambda>ids a. insert (at_attachedToInstanceId a) (insert (at_equipmentInstanceId a) ids)) {} attachments"

section \<open>Dropping an equipment\<close>

definition isLandPermanent :: "game_card_instance option \<Rightarrow> bool" where
  "isLandPermanent crd =
     has_word ''land'' (case crd of None \<Rightarrow> [] | Some c \<Rightarrow>
       (case card_typeLine c of Some (Some t) \<Rightarrow> t | _ \<Rightarrow> []))"

record card_rect =
  rect_left :: rat
  rect_top :: rat
  rect_right :: rat
  rect_bottom :: rat
  rect_width :: rat
  rect_height :: rat

definition cardRect :: "pixel_position \<Rightarrow> area_size \<Rightarrow> card_rect" where
  "cardRect position cardSize =
     \<lparr>rect_left = px_x position, rect_top = px_y position,
      rect_right = px_x position + sz_width cardSize, rect_bottom = px_y position + sz_height cardSize,
      rect_width = sz_width cardSize, rect_height = sz_height cardSize\<rparr>"

definition overlapRatio :: "card_rect \<Rightarrow> card_rect \<Rightarrow> rat" where
  "overlapRatio l r =
     (let overlapWidth = max 0 (min (rect_right l) (rect_right r) - max (rect_left l) (rect_left r));
          overlapHeight = max 0 (min (rect_bottom l) (rect_bottom r) - max (rect_top l) (rect_top r))
      in overlapWidth * overlapHeight / max 1 (rect_width l * rect_height l))"

definition attachDropCandidate ::
  "pixel_position \<Rightarrow> (game_card_instance \<Rightarrow> pixel_position option) \<Rightarrow> rat \<Rightarrow> area_size \<Rightarrow>
   game_card_instance \<Rightarrow> (game_card_instance \<times> rat) option" where
  "attachDropCandidate dragged positionFor minimumOverlapRatio cardSize crd =
     (case positionFor crd of
        None \<Rightarrow> None
      | Some position \<Rightarrow>
          let overlap = overlapRatio (cardRect dragged cardSize) (cardRect position cardSize)
          in if overlap \<ge> minimumOverlapRatio then Some (crd, overlap) else None)"

definition attachBestDropTarget ::
  "game_card_instance list \<Rightarrow> string \<Rightarrow> pixel_position \<Rightarrow> (game_card_instance \<Rightarrow> pixel_position option) \<Rightarrow>
   rat \<Rightarrow> area_size \<Rightarrow> game_card_instance option" where
  "attachBestDropTarget cards draggedId draggedPosition positionFor minimumOverlapRatio cardSize =
     (case sort_key (\<lambda>e. - snd e) (List.map_filter
         (attachDropCandidate draggedPosition positionFor minimumOverlapRatio cardSize)
         (filter (\<lambda>c. card_instanceId c \<noteq> draggedId) cards)) of
        [] \<Rightarrow> None
      | (crd, _) # _ \<Rightarrow> Some crd)"

definition attachedTo :: "game_attachment list \<Rightarrow> string \<Rightarrow> string \<Rightarrow> bool" where
  "attachedTo attachments equipmentId targetId \<longleftrightarrow>
     (\<exists>a \<in> set attachments. at_equipmentInstanceId a = equipmentId \<and> at_attachedToInstanceId a = targetId)"

definition attachmentDropTarget ::
  "game_card_instance list \<Rightarrow> game_attachment list \<Rightarrow> game_battlefield_stack list \<Rightarrow> string \<Rightarrow>
   pixel_position \<Rightarrow> (game_card_instance \<Rightarrow> pixel_position option) \<Rightarrow> rat \<Rightarrow> area_size \<Rightarrow>
   attachment_drop_target option" where
  "attachmentDropTarget cards attachments stacks equipmentId equipmentPosition positionFor
     minimumOverlapRatio cardSize =
     (let equipment = List.find (\<lambda>c. card_instanceId c = equipmentId) cards;
          landGroups = buildLandStackGroups cards stacks positionFor;
          inLandStack = (\<lambda>i. landStackGroupContaining landGroups i \<noteq> None)
      in if equipment = None \<or> isLandPermanent equipment \<or> isDayNightCard equipment
            \<or> isGameplayCard equipment \<or> inLandStack equipmentId
            \<or> (\<exists>a \<in> set attachments. at_attachedToInstanceId a = equipmentId)
         then None
         else
           let targetCards = filter (\<lambda>c. card_instanceId c \<noteq> equipmentId) cards;
               groups = buildAttachmentStackGroups targetCards attachments positionFor
           in case attachBestDropTarget targetCards equipmentId equipmentPosition positionFor
                     minimumOverlapRatio cardSize of
                None \<Rightarrow> None
              | Some t \<Rightarrow>
                  if isDayNightCard (Some t) \<or> isGameplayCard (Some t) \<or> card_instanceId t = equipmentId
                     \<or> attachedTo attachments equipmentId (card_instanceId t)
                  then None
                  else (case attachmentStackGroupContaining groups (card_instanceId t) of
                      Some g \<Rightarrow>
                        if (\<exists>m \<in> set (asg_members g). card_instanceId (asm_card m) = equipmentId)
                           \<or> card_instanceId (asg_targetCard g) = equipmentId
                           \<or> isGameplayCard (Some (asg_targetCard g))
                           \<or> (\<exists>m \<in> set (asg_members g). inLandStack (card_instanceId (asm_card m)))
                           \<or> attachedTo attachments equipmentId (card_instanceId (asg_targetCard g))
                        then None
                        else Some \<lparr>adt_targetCard = asg_targetCard g,
                          adt_targetPosition =
                            (case asg_members g of
                               m # _ \<Rightarrow> asm_position m
                             | [] \<Rightarrow>
                                 (case positionFor (asg_targetCard g) of
                                    Some position \<Rightarrow> position
                                  | None \<Rightarrow>
                                      (case List.find (\<lambda>m. card_instanceId (asm_card m) = card_instanceId t)
                                              (asg_members g) of
                                         Some m \<Rightarrow> asm_position m
                                       | None \<Rightarrow> equipmentPosition))),
                          adt_targetStack = Some g\<rparr>
                    | None \<Rightarrow>
                        (case positionFor t of
                           Some position \<Rightarrow>
                             if inLandStack (card_instanceId t) then None
                             else Some \<lparr>adt_targetCard = t, adt_targetPosition = position, adt_targetStack = None\<rparr>
                         | None \<Rightarrow> None)))"

section \<open>Moves\<close>

definition stackMovesForTarget ::
  "(string \<rightharpoonup> game_card_instance) \<Rightarrow> string list \<Rightarrow> string \<Rightarrow>
   (game_card_instance \<Rightarrow> pixel_position option) \<Rightarrow> instance_move list" where
  "stackMovesForTarget byId equipmentIds attachedToId positionFor =
     (case Option.bind (byId attachedToId) positionFor of
        None \<Rightarrow> []
      | Some targetPosition \<Rightarrow>
          (let present = filter (\<lambda>i. byId i \<noteq> None) equipmentIds in
           map (\<lambda>(i, index). \<lparr>imv_instanceId = i, imv_position = fanned targetPosition (index + 1)\<rparr>)
             (zip present [0..<length present])))"

definition uniqueMoves :: "instance_move list \<Rightarrow> instance_move list" where
  "uniqueMoves moves = map snd (foldl (\<lambda>unique mv. AList.update (imv_instanceId mv) mv unique) [] moves)"

definition createAttachmentStackMoves ::
  "game_card_instance list \<Rightarrow> game_attachment list \<Rightarrow> string \<Rightarrow> string \<Rightarrow>
   (game_card_instance \<Rightarrow> pixel_position option) \<Rightarrow> instance_move list" where
  "createAttachmentStackMoves cards attachments equipmentId attachedToId positionFor =
     (let byId = cardsById cards in
      if byId equipmentId = None \<or> byId attachedToId = None then []
      else
        let current = List.find (\<lambda>a. at_equipmentInstanceId a = equipmentId) attachments;
            others = filter (\<lambda>a. at_equipmentInstanceId a \<noteq> equipmentId) attachments;
            equipmentOf = (\<lambda>t. map at_equipmentInstanceId (filter (\<lambda>a. at_attachedToInstanceId a = t) others));
            leaving = (case current of
                Some a \<Rightarrow> if at_attachedToInstanceId a \<noteq> attachedToId
                  then stackMovesForTarget byId (equipmentOf (at_attachedToInstanceId a))
                         (at_attachedToInstanceId a) positionFor
                  else []
              | None \<Rightarrow> [])
        in uniqueMoves (leaving @
             stackMovesForTarget byId (equipmentOf attachedToId @ [equipmentId]) attachedToId positionFor))"

definition removeAttachmentStackMoves :: "attachment_stack_group \<Rightarrow> instance_move list" where
  "removeAttachmentStackMoves g =
     (case asg_members g of
        [] \<Rightarrow> []
      | target # _ \<Rightarrow>
          let equipmentMembers = filter (\<lambda>m. asm_role m = EquipmentRole) (asg_members g);
              stepX = sz_width DEFAULT_BATTLEFIELD_CARD_SIZE + REMOVE_ATTACHMENT_STACK_GAP;
              direction = (if px_x (asm_position target) \<ge> stepX * of_nat (length equipmentMembers)
                           then - 1 else 1 :: rat)
          in map (\<lambda>(m, index). \<lparr>imv_instanceId = card_instanceId (asm_card m), imv_position =
                 \<lparr>px_x = px_x (asm_position target) + stepX * of_nat (index + 1) * direction,
                  px_y = px_y (asm_position target)\<rparr>\<rparr>)
               (zip equipmentMembers [0..<length equipmentMembers]))"

definition attachmentStackDetachSource ::
  "string \<Rightarrow> game_attachment list \<Rightarrow> attachment_stack_group \<Rightarrow> string \<Rightarrow>
   attachment_detach_source option" where
  "attachmentStackDetachSource playerId attachments g detachedId =
     (case (List.find (\<lambda>m. card_instanceId (asm_card m) = detachedId) (asg_members g),
            List.find (\<lambda>a. at_equipmentInstanceId a = detachedId) attachments) of
        (Some detached, Some attachment) \<Rightarrow>
          if asm_role detached \<noteq> EquipmentRole then None
          else Some \<lparr>ads_playerId = playerId, ads_detachedInstanceId = detachedId,
            ads_attachmentId = at_id attachment,
            ads_members = map (\<lambda>m. \<lparr>dmem_instanceId = card_instanceId (asm_card m),
              dmem_x = px_x (asm_position m), dmem_y = px_y (asm_position m),
              dmem_layer = asm_layer m\<rparr>) (asg_members g)\<rparr>
      | _ \<Rightarrow> None)"

definition detachAttachmentStackMoves :: "attachment_detach_source \<Rightarrow> instance_move list" where
  "detachAttachmentStackMoves source =
     (case List.find (\<lambda>m. dmem_layer m = 0) (ads_members source) of
        None \<Rightarrow> []
      | Some target \<Rightarrow>
          (let equipment = sort_key dmem_layer (filter (\<lambda>m. dmem_layer m > 0
                 \<and> dmem_instanceId m \<noteq> ads_detachedInstanceId source) (ads_members source))
           in map (\<lambda>(m, index). \<lparr>imv_instanceId = dmem_instanceId m,
                  imv_position = fanned \<lparr>px_x = dmem_x target, px_y = dmem_y target\<rparr> (index + 1)\<rparr>)
                (zip equipment [0..<length equipment])))"

section \<open>Lemmas\<close>

definition attachment_group_ok ::
  "game_card_instance list \<Rightarrow> (game_card_instance \<Rightarrow> pixel_position option) \<Rightarrow>
   attachment_stack_group \<Rightarrow> bool" where
  [inv_defs]: "attachment_group_ok cards positionFor g \<longleftrightarrow>
     (\<exists>first rest. asg_members g = first # rest \<and> rest \<noteq> [] \<and> asm_role first = AttachTargetRole \<and>
        asm_layer first = 0 \<and> asm_card first = asg_targetCard g \<and>
        (\<forall>m \<in> set rest. asm_role m = EquipmentRole)) \<and>
     sorted_wrt (<) (map asm_layer (asg_members g)) \<and>
     (\<forall>m \<in> set (asg_members g). asm_card m \<in> set cards \<and> positionFor (asm_card m) = Some (asm_position m))"

lemma attachmentMember_simps [simp]:
  "asm_card (attachmentMember m) = smem_card m" "asm_position (attachmentMember m) = smem_position m"
  "asm_layer (attachmentMember m) = smem_layer m"
  "asm_role (attachmentMember m) = AttachTargetRole \<longleftrightarrow> smem_role m = TargetRole"
  "asm_role (attachmentMember m) = EquipmentRole \<longleftrightarrow> smem_role m = LayerRole"
  by (simp_all add: attachmentMember_def) (cases "smem_role m", simp_all)

lemma buildAttachmentStackGroups_ok:
  assumes "g \<in> set (buildAttachmentStackGroups cards attachments positionFor)"
  shows "attachment_group_ok cards positionFor g"
proof -
  obtain h where "g = attachmentGroup h"
    and "h \<in> set (buildPermanentStackPresentationGroups cards (map attachmentRelation attachments) positionFor None)"
    using assms by (auto simp: buildAttachmentStackGroups_def)
  with buildGroups_ok(1) [OF this(2)] show ?thesis
    by (auto simp: attachment_group_ok_def stack_group_ok_def attachmentGroup_def comp_def)
qed

interpretation attachment_piles: pile_groups asg_members asm_card "\<lambda>m. asm_role m = AttachTargetRole" asm_layer
  "\<lambda>g. \<exists>cards positionFor. attachment_group_ok cards positionFor g"
  by unfold_locales (auto simp: attachment_group_ok_def)

lemma attachmentStackGroupContaining_Some:
  "attachmentStackGroupContaining groups iid = Some g \<Longrightarrow>
     g \<in> set groups \<and> (\<exists>m \<in> set (asg_members g). card_instanceId (asm_card m) = iid)"
  unfolding attachmentStackGroupContaining_def by (drule find_Some_mem) simp

text \<open>The moves of a pile give each present equipment the position of its layer.\<close>

lemma stackMoves_ids:
  assumes "byId t = Some c" and "positionFor c = Some p"
  shows "map imv_instanceId (stackMovesForTarget byId ids t positionFor) = filter (\<lambda>i. byId i \<noteq> None) ids"
proof -
  have "map imv_instanceId (stackMovesForTarget byId ids t positionFor) =
      map fst (zip (filter (\<lambda>i. byId i \<noteq> None) ids) [0..<length (filter (\<lambda>i. byId i \<noteq> None) ids)])"
    using assms by (simp add: stackMovesForTarget_def Let_def case_prod_unfold comp_def)
  then show ?thesis by simp
qed

lemma stackMoves_ids_subset:
  "set (map imv_instanceId (stackMovesForTarget byId ids t positionFor)) \<subseteq> set ids"
proof (cases "Option.bind (byId t) positionFor")
  case (Some p)
  then obtain c where "byId t = Some c" "positionFor c = Some p" by (auto simp: bind_eq_Some_conv)
  then show ?thesis using stackMoves_ids [of byId t c positionFor p ids] by auto
qed (simp add: stackMovesForTarget_def)

lemma stackMoves_distinct:
  "distinct ids \<Longrightarrow> distinct (map imv_instanceId (stackMovesForTarget byId ids t positionFor))"
proof (cases "Option.bind (byId t) positionFor")
  case (Some p)
  assume "distinct ids"
  moreover obtain c where "byId t = Some c" "positionFor c = Some p" using Some by (auto simp: bind_eq_Some_conv)
  ultimately show ?thesis using stackMoves_ids [of byId t c positionFor p ids] by simp
qed (simp add: stackMovesForTarget_def)

lemma stackMoves_position:
  assumes "byId t = Some c" and "positionFor c = Some p"
    and "i < length (filter (\<lambda>i. byId i \<noteq> None) ids)"
  shows "\<lparr>imv_instanceId = filter (\<lambda>i. byId i \<noteq> None) ids ! i, imv_position = fanned p (i + 1)\<rparr>
     \<in> set (stackMovesForTarget byId ids t positionFor)"
  using assms by (auto simp: stackMovesForTarget_def Let_def set_zip image_iff intro!: exI [of _ i])

lemma update_new: "k \<notin> fst ` set al \<Longrightarrow> AList.update k v al = al @ [(k, v)]"
  by (induction al) auto

lemma foldl_update_new:
  "distinct (map imv_instanceId moves) \<Longrightarrow> fst ` set al \<inter> imv_instanceId ` set moves = {} \<Longrightarrow>
     map snd (foldl (\<lambda>unique mv. AList.update (imv_instanceId mv) mv unique) al moves) = map snd al @ moves"
  for moves :: "instance_move list"
proof (induction moves arbitrary: al)
  case (Cons mv moves)
  have "AList.update (imv_instanceId mv) mv al = al @ [(imv_instanceId mv, mv)]"
    using Cons.prems by (intro update_new) auto
  then show ?case using Cons.prems Cons.IH [of "al @ [(imv_instanceId mv, mv)]"] by auto
qed simp

lemma uniqueMoves_id: "distinct (map imv_instanceId moves) \<Longrightarrow> uniqueMoves moves = moves"
  using foldl_update_new [of moves "[]"] by (simp add: uniqueMoves_def)

lemma find_unique:
  "distinct (map f xs) \<Longrightarrow> x \<in> set xs \<Longrightarrow> List.find (\<lambda>y. f y = f x) xs = Some x"
  by (induction xs) (auto simp: rev_image_eqI)

lemma attachBestDropTarget_best:
  assumes "attachBestDropTarget cards draggedId pos positionFor r cardSize = Some t"
  shows "t \<in> set cards \<and> card_instanceId t \<noteq> draggedId \<and>
     (\<exists>p. positionFor t = Some p \<and> overlapRatio (cardRect pos cardSize) (cardRect p cardSize) \<ge> r)"
proof -
  let ?cs = "List.map_filter (attachDropCandidate pos positionFor r cardSize)
    (filter (\<lambda>c. card_instanceId c \<noteq> draggedId) cards)"
  obtain d rest where sorted: "sort_key (\<lambda>e. - snd e) ?cs = (t, d) # rest"
    using assms by (auto simp: attachBestDropTarget_def split: list.splits)
  have "(t, d) \<in> set ?cs" using arg_cong [OF sorted, of set] by simp
  then show ?thesis
    by (auto simp: map_filter_Some attachDropCandidate_def Let_def split: option.splits if_splits)
qed

section \<open>Properties\<close>

text \<open>The positions after the moves are sent, and the relations after an equipment is attached:
  it leaves the permanent it was on and becomes the last on the new one.\<close>

definition afterMoves ::
  "(game_card_instance \<Rightarrow> pixel_position option) \<Rightarrow> instance_move list \<Rightarrow> game_card_instance \<Rightarrow> pixel_position option" where
  "afterMoves positionFor moves crd =
     (case List.find (\<lambda>m. imv_instanceId m = card_instanceId crd) moves of
        Some m \<Rightarrow> Some (imv_position m)
      | None \<Rightarrow> positionFor crd)"

definition afterAttaching :: "game_attachment list \<Rightarrow> game_attachment \<Rightarrow> game_attachment list" where
  "afterAttaching attachments a =
     filter (\<lambda>x. at_equipmentInstanceId x \<noteq> at_equipmentInstanceId a) attachments @ [a]"

definition equipmentOn :: "game_attachment list \<Rightarrow> string \<Rightarrow> string list" where
  "equipmentOn attachments t =
     map at_equipmentInstanceId (filter (\<lambda>a. at_attachedToInstanceId a = t) attachments)"

lemma equipmentOn_distinct:
  "distinct (map at_equipmentInstanceId attachments) \<Longrightarrow> distinct (equipmentOn attachments t)"
  unfolding equipmentOn_def by (rule distinct_map_filter)

lemma equipmentOn_disjoint:
  assumes "distinct (map at_equipmentInstanceId attachments)" and "t \<noteq> u"
  shows "set (equipmentOn attachments t) \<inter> set (equipmentOn attachments u) = {}"
  using assms by (auto simp: equipmentOn_def distinct_map inj_on_def)

definition leavingPermanent :: "game_attachment list \<Rightarrow> string \<Rightarrow> string \<Rightarrow> string option" where
  "leavingPermanent attachments e t =
     (case List.find (\<lambda>a. at_equipmentInstanceId a = e) attachments of
        Some a \<Rightarrow> if at_attachedToInstanceId a \<noteq> t then Some (at_attachedToInstanceId a) else None
      | None \<Rightarrow> None)"

text \<open>The moves are the two fans, one for each permanent whose equipment changes.\<close>

lemma createMoves_fans:
  fixes positionFor
  assumes "distinct (map at_equipmentInstanceId attachments)"
    and "cardsById cards e \<noteq> None" and "cardsById cards t \<noteq> None"
    and "at_equipmentInstanceId a = e" and "at_attachedToInstanceId a = t"
  defines "fan \<equiv> (\<lambda>k. stackMovesForTarget (cardsById cards)
      (equipmentOn (afterAttaching attachments a) k) k positionFor)"
  shows "createAttachmentStackMoves cards attachments e t positionFor =
     (case leavingPermanent attachments e t of None \<Rightarrow> [] | Some k \<Rightarrow> fan k) @ fan t"
    and "distinct (map imv_instanceId (createAttachmentStackMoves cards attachments e t positionFor))"
proof -
  let ?others = "filter (\<lambda>x. at_equipmentInstanceId x \<noteq> e) attachments"
  have new: "equipmentOn (afterAttaching attachments a) k = equipmentOn ?others k @ (if k = t then [e] else [])"
    for k using assms(4,5) by (auto simp: equipmentOn_def afterAttaching_def)
  have dist: "distinct (map at_equipmentInstanceId (afterAttaching attachments a))"
    using assms(1,4) by (auto simp: afterAttaching_def distinct_map inj_on_def)
  let ?moves = "(case leavingPermanent attachments e t of None \<Rightarrow> [] | Some k \<Rightarrow> fan k) @ fan t"
  have "createAttachmentStackMoves cards attachments e t positionFor = uniqueMoves ?moves"
    using assms(2,3) new
    by (auto simp: createAttachmentStackMoves_def Let_def leavingPermanent_def fan_def equipmentOn_def
        split: option.split)
  moreover have "distinct (map imv_instanceId ?moves)"
  proof (cases "leavingPermanent attachments e t")
    case None
    then show ?thesis using stackMoves_distinct [OF equipmentOn_distinct [OF dist]] by (simp add: fan_def)
  next
    case (Some k)
    then have "k \<noteq> t" by (auto simp: leavingPermanent_def split: option.splits if_splits)
    have "set (map imv_instanceId (fan k)) \<inter> set (map imv_instanceId (fan t)) = {}"
      using equipmentOn_disjoint [OF dist \<open>k \<noteq> t\<close>] stackMoves_ids_subset unfolding fan_def by blast
    then show ?thesis using Some stackMoves_distinct [OF equipmentOn_distinct [OF dist]]
      by (auto simp: fan_def)
  qed
  ultimately show "createAttachmentStackMoves cards attachments e t positionFor = ?moves"
    and "distinct (map imv_instanceId (createAttachmentStackMoves cards attachments e t positionFor))"
    by (simp_all add: uniqueMoves_id)
qed

text \<open>The equipment of a drawn pile is the equipment attached to its target, in order.\<close>

lemma group_layers:
  assumes "g \<in> set (buildAttachmentStackGroups cards attachments positionFor)"
    and "m \<in> set (asg_members g)" and "asm_role m = EquipmentRole"
  shows "\<exists>i < length (filter (\<lambda>i. cardsById cards i \<noteq> None)
            (equipmentOn attachments (card_instanceId (asg_targetCard g)))).
     card_instanceId (asm_card m) = filter (\<lambda>i. cardsById cards i \<noteq> None)
            (equipmentOn attachments (card_instanceId (asg_targetCard g))) ! i \<and> asm_layer m = i + 1"
proof -
  obtain k rs h where g: "g = attachmentGroup h"
    and rel: "(k, rs) \<in> set (relationsByTarget cards (map attachmentRelation attachments))"
    and h: "presentationGroup cards positionFor None (k, rs) = Some h"
    using assms(1) by (auto simp: buildAttachmentStackGroups_def buildPermanentStackPresentationGroups_def map_filter_Some)
  have k: "card_instanceId (asg_targetCard g) = k"
    using presentationGroup_ok [OF h] by (simp add: g attachmentGroup_def)
  have ids: "map srel_layeredInstanceId rs = filter (\<lambda>i. cardsById cards i \<noteq> None) (equipmentOn attachments k)"
    using relationsByTarget_mem [OF rel]
    by (auto simp: filter_map equipmentOn_def attachmentRelation_def comp_def conj_commute intro: filter_cong)
  obtain m' where m: "m = attachmentMember m'" "m' \<in> set (layerMembers cards positionFor rs)"
    using assms(2,3) h by (auto simp: g attachmentGroup_def presentationGroup_def Let_def split: option.splits if_splits)
  then obtain i where "i < length rs" "layerMember cards positionFor (rs ! i, i) = Some m'"
    by (auto simp: layerMembers_def map_filter_Some set_zip)
  then have "card_instanceId (smem_card m') = map srel_layeredInstanceId rs ! i" "smem_layer m' = i + 1"
      "i < length (map srel_layeredInstanceId rs)"
    by (auto simp: layerMember_def split: option.splits dest: cardsById_Some)
  then show ?thesis unfolding k ids [symmetric] using m by auto
qed

text \<open>Attaching an equipment fans both piles out. After the moves that attaching \<open>a\<close> sends,
  the piles drawn for the permanent it joins and for the one it leaves have every card at the
  slot of its layer above the permanent, which has not moved; the slots of the equipment are the
  ones the drop and the detach compute.\<close>

theorem attaching_fans_piles_out:
  assumes "distinct (map at_equipmentInstanceId attachments)"
    and "cardsById cards (at_equipmentInstanceId a) \<noteq> None" and "cardsById cards (at_attachedToInstanceId a) \<noteq> None"
    and "moves = createAttachmentStackMoves cards attachments (at_equipmentInstanceId a)
      (at_attachedToInstanceId a) positionFor"
    and "g \<in> set (buildAttachmentStackGroups cards (afterAttaching attachments a) (afterMoves positionFor moves))"
    and "card_instanceId (asg_targetCard g) = at_attachedToInstanceId a \<or>
      leavingPermanent attachments (at_equipmentInstanceId a) (at_attachedToInstanceId a)
        = Some (card_instanceId (asg_targetCard g))"
    and "card_instanceId (asg_targetCard g) \<notin> at_equipmentInstanceId ` set (afterAttaching attachments a)"
    and "m \<in> set (asg_members g)"
    and "positionFor (asg_targetCard g) = Some p"
    and "distinct (map card_instanceId cards)"
  shows "asm_position m = fanned p (asm_layer m)"
proof -
  let ?k = "card_instanceId (asg_targetCard g)" and ?e = "at_equipmentInstanceId a" and ?t = "at_attachedToInstanceId a"
  let ?fan = "\<lambda>k. stackMovesForTarget (cardsById cards) (equipmentOn (afterAttaching attachments a) k) k positionFor"
  note fans = createMoves_fans [OF assms(1,2,3) refl refl, where positionFor = positionFor, folded assms(4)]
  have ok: "attachment_group_ok cards (afterMoves positionFor moves) g"
    using buildAttachmentStackGroups_ok [OF assms(5)] .
  then have target: "asg_targetCard g \<in> set cards" by (auto simp: attachment_group_ok_def)
  then have byId: "cardsById cards ?k = Some (asg_targetCard g)" using cardsById_mem assms(10) by blast
  have sub: "set (?fan ?k) \<subseteq> set moves" using assms(6) fans(1) by auto
  have position: "afterMoves positionFor moves (asm_card m) = Some (asm_position m)"
    using ok assms(8) by (auto simp: attachment_group_ok_def)
  show ?thesis
  proof (cases "asm_role m")
    case AttachTargetRole
    then have m: "asm_card m = asg_targetCard g" "asm_layer m = 0" using ok assms(8) by (auto simp: attachment_group_ok_def)
    have "imv_instanceId ` set (?fan k) \<subseteq> at_equipmentInstanceId ` set (afterAttaching attachments a)" for k
    proof -
      have "imv_instanceId ` set (?fan k) \<subseteq> set (equipmentOn (afterAttaching attachments a) k)"
        using stackMoves_ids_subset unfolding set_map .
      also have "\<dots> \<subseteq> at_equipmentInstanceId ` set (afterAttaching attachments a)"
        by (auto simp: equipmentOn_def)
      finally show ?thesis .
    qed
    then have "imv_instanceId ` set moves \<subseteq> at_equipmentInstanceId ` set (afterAttaching attachments a)"
      unfolding fans(1) by (cases "leavingPermanent attachments ?e ?t") (simp_all add: image_Un)
    then have "?k \<notin> imv_instanceId ` set moves" using assms(7) by blast
    then have "List.find (\<lambda>m. imv_instanceId m = ?k) moves = None"
      unfolding find_None_iff by (metis image_eqI)
    then have "asm_position m = p" using position m assms(9) by (simp add: afterMoves_def)
    then show ?thesis using m by (simp add: fanned_def)
  next
    case EquipmentRole
    obtain i where i: "i < length (filter (\<lambda>i. cardsById cards i \<noteq> None) (equipmentOn (afterAttaching attachments a) ?k))"
      "card_instanceId (asm_card m) = filter (\<lambda>i. cardsById cards i \<noteq> None)
         (equipmentOn (afterAttaching attachments a) ?k) ! i" "asm_layer m = i + 1"
      using group_layers [OF assms(5,8) EquipmentRole] by blast
    let ?mv = "\<lparr>imv_instanceId = card_instanceId (asm_card m), imv_position = fanned p (i + 1)\<rparr>"
    have "?mv \<in> set moves"
      using stackMoves_position [of "cardsById cards" ?k "asg_targetCard g" positionFor p i,
          OF byId assms(9) i(1)] sub i(2) by auto
    from find_unique [OF fans(2) this]
    have "List.find (\<lambda>y. imv_instanceId y = card_instanceId (asm_card m)) moves = Some ?mv" by simp
    then show ?thesis using position i(3) by (simp add: afterMoves_def)
  qed
qed

definition bear_card :: "string \<Rightarrow> game_card_instance" where
  "bear_card i = (bare_card i)\<lparr>card_typeLine := Some (Some ''Creature'')\<rparr>"

definition bear_places :: "game_card_instance \<Rightarrow> pixel_position option" where
  "bear_places c = Some (if card_instanceId c = ''e'' then \<lparr>px_x = 400, px_y = 90\<rparr>
     else if card_instanceId c = ''b2'' then \<lparr>px_x = 200, px_y = 60\<rparr> else \<lparr>px_x = 20, px_y = 60\<rparr>)"

definition on_bear :: "string \<Rightarrow> game_attachment" where
  "on_bear t = \<lparr>at_id = ''a'', at_ownerId = None, at_equipmentInstanceId = ''e'',
     at_attachedToInstanceId = t, at_createdAt = []\<rparr>"

lemma bear_card_id [simp]: "card_instanceId (bear_card i) = i"
  by (simp add: bear_card_def bare_card_def)

theorem attaching_fans_piles_out_witness:
  "\<exists>g moves. moves = createAttachmentStackMoves (map bear_card [''b1'', ''b2'', ''e'']) [on_bear ''b1''] ''e'' ''b2'' bear_places \<and>
     buildAttachmentStackGroups (map bear_card [''b1'', ''b2'', ''e'']) (afterAttaching [on_bear ''b1''] (on_bear ''b2''))
       (afterMoves bear_places moves) = [g] \<and>
     (\<forall>m \<in> set (asg_members g). asm_position m = fanned \<lparr>px_x = 200, px_y = 60\<rparr> (asm_layer m))"
proof -
  let ?cards = "map bear_card [''b1'', ''b2'', ''e'']"
  let ?moves = "createAttachmentStackMoves ?cards [on_bear ''b1''] ''e'' ''b2'' bear_places"
  let ?groups = "buildAttachmentStackGroups ?cards (afterAttaching [on_bear ''b1''] (on_bear ''b2''))
    (afterMoves bear_places ?moves)"
  have "map (\<lambda>g. card_instanceId (asg_targetCard g)) ?groups = [''b2'']" by code_simp
  then obtain g where g: "?groups = [g]" "card_instanceId (asg_targetCard g) = ''b2''" by auto
  have "asm_position m = fanned \<lparr>px_x = 200, px_y = 60\<rparr> (asm_layer m)" if "m \<in> set (asg_members g)" for m
    by (rule attaching_fans_piles_out [of "[on_bear ''b1'']" ?cards "on_bear ''b2''" ?moves bear_places g])
      (use g that in \<open>simp_all add: on_bear_def bear_places_def afterAttaching_def cardsById_def\<close>)
  with g show ?thesis by blast
qed

text \<open>What may be attached to what. When a drop is accepted the dragged card is neither a
  land nor a marker or gameplay card, is in no land stack and carries no equipment; the
  permanent it goes on is another card, not a gameplay card, in no land stack, is the target
  of its own pile when it has one, and does not carry the dragged card already.\<close>

theorem attachment_drop_is_legal:
  assumes "attachmentDropTarget cards attachments stacks e pos positionFor r cardSize = Some target"
  shows "\<exists>equipment \<in> set cards. card_instanceId equipment = e \<and>
     \<not> isLandPermanent (Some equipment) \<and> \<not> isGameplayCardTapLocked (Some equipment) \<and>
     equipmentOn attachments e = [] \<and>
     adt_targetCard target \<in> set cards \<and> card_instanceId (adt_targetCard target) \<noteq> e \<and>
     positionFor (adt_targetCard target) = Some (adt_targetPosition target) \<and>
     \<not> isGameplayCard (Some (adt_targetCard target)) \<and>
     \<not> attachedTo attachments e (card_instanceId (adt_targetCard target)) \<and>
     (\<forall>i \<in> {e, card_instanceId (adt_targetCard target)}.
        landStackGroupContaining (buildLandStackGroups cards stacks positionFor) i = None) \<and>
     (\<forall>g. adt_targetStack target = Some g \<longrightarrow> asg_targetCard g = adt_targetCard target \<and>
        asm_card (hd (asg_members g)) = adt_targetCard target)"
proof -
  let ?cards = "filter (\<lambda>c. card_instanceId c \<noteq> e) cards"
  let ?groups = "buildAttachmentStackGroups ?cards attachments positionFor"
  let ?land = "\<lambda>i. landStackGroupContaining (buildLandStackGroups cards stacks positionFor) i"
  obtain equipment t where find: "List.find (\<lambda>c. card_instanceId c = e) cards = Some equipment"
    and equipment: "\<not> isLandPermanent (Some equipment)" "\<not> isDayNightCard (Some equipment)"
      "\<not> isGameplayCard (Some equipment)" "?land e = None"
      "\<forall>a \<in> set attachments. at_attachedToInstanceId a \<noteq> e"
    and t: "attachBestDropTarget ?cards e pos positionFor r cardSize = Some t"
    using assms by (auto simp: attachmentDropTarget_def Let_def split: if_splits option.splits)
  have equip: "equipment \<in> set cards" "card_instanceId equipment = e" using find_Some_mem [OF find] by auto
  have alone: "equipmentOn attachments e = []" using equipment(5) by (simp add: equipmentOn_def filter_empty_conv)
  note best = attachBestDropTarget_best [OF t]
  note run = assms [unfolded attachmentDropTarget_def Let_def t option.case]
  have tap: "\<not> isGameplayCardTapLocked (Some equipment)" using equipment by (simp add: isGameplayCardTapLocked_def)
  show ?thesis
  proof (cases "attachmentStackGroupContaining ?groups (card_instanceId t)")
    case None
    then have "adt_targetCard target = t" "positionFor t = Some (adt_targetPosition target)"
        "adt_targetStack target = None" "\<not> isGameplayCard (Some t)" "?land (card_instanceId t) = None"
        "\<not> attachedTo attachments e (card_instanceId t)"
      using run by (auto split: if_splits option.splits)
    then show ?thesis using equip alone tap equipment best by auto
  next
    case (Some g)
    have ok: "attachment_group_ok ?cards positionFor g"
      using attachmentStackGroupContaining_Some [OF Some] buildAttachmentStackGroups_ok by blast
    then obtain first rest where members: "asg_members g = first # rest" "asm_card first = asg_targetCard g"
        "asm_card first \<in> set ?cards" "positionFor (asm_card first) = Some (asm_position first)"
      by (auto simp: attachment_group_ok_def)
    have target: "adt_targetCard target = asg_targetCard g" "adt_targetPosition target = asm_position first"
        "adt_targetStack target = Some g" "\<not> isGameplayCard (Some (asg_targetCard g))"
        "\<not> attachedTo attachments e (card_instanceId (asg_targetCard g))"
        "\<forall>m \<in> set (asg_members g). ?land (card_instanceId (asm_card m)) = None"
      using run Some by (auto simp: members(1) split: if_splits)
    then show ?thesis using equip alone tap equipment members by auto
  qed
qed

theorem attachment_drop_is_legal_witness:
  "\<exists>target. attachmentDropTarget (map bear_card [''b1'', ''b2'', ''e'']) [on_bear ''b1''] [] ''e''
       \<lparr>px_x = 190, px_y = 70\<rparr> bear_places (32 / 100) DEFAULT_BATTLEFIELD_CARD_SIZE = Some target \<and>
     card_instanceId (adt_targetCard target) = ''b2'' \<and>
     bear_places (adt_targetCard target) = Some (adt_targetPosition target)"
proof -
  let ?drop = "attachmentDropTarget (map bear_card [''b1'', ''b2'', ''e'']) [on_bear ''b1''] [] ''e''
    \<lparr>px_x = 190, px_y = 70\<rparr> bear_places (32 / 100) DEFAULT_BATTLEFIELD_CARD_SIZE"
  have "map_option (\<lambda>t. card_instanceId (adt_targetCard t)) ?drop = Some ''b2''" by code_simp
  then obtain target where "?drop = Some target" "card_instanceId (adt_targetCard target) = ''b2''" by auto
  with attachment_drop_is_legal [OF this(1)] show ?thesis by blast
qed

end
