(* ===== verification/TableInteractions.thy ===== *)
theory TableInteractions
  imports SnapshotSelectors AttachmentStack Replica
begin

text \<open>
  Small parts of the table. Relations between permanents
  (\<^verbatim>\<open>services/game-table-permanent-relation.service.ts\<close>), selected cards
  (\<^verbatim>\<open>services/game-table-selection.service.ts\<close>, \<^verbatim>\<open>utils/transient-card-ui.ts\<close>), arrows
  (\<^verbatim>\<open>state/arrows/game-table-arrows.state.ts\<close>), mana pools
  (\<^verbatim>\<open>state/mana/game-table-mana-pool.state.ts\<close>) and unread chat messages
  (\<^verbatim>\<open>services/game-table-chat-read-state.service.ts\<close>).
\<close>

section \<open>Relations between permanents\<close>

text \<open>A missing battlefield throws.\<close>

fun battlefieldCardIn ::
  "(string \<times> game_player_state) list \<Rightarrow> string \<Rightarrow> (string \<times> game_card_instance) option js" where
  "battlefieldCardIn [] i = Inr None"
| "battlefieldCardIn ((playerId, player) # ps) i = (case pl_zones player Battlefield of
     None \<Rightarrow> Inl TypeError
   | Some cards \<Rightarrow> (case List.find (\<lambda>c. card_instanceId c = i) cards of
       Some c \<Rightarrow> Inr (Some (playerId, c)) | None \<Rightarrow> battlefieldCardIn ps i))"

definition battlefieldCard ::
  "key_order \<Rightarrow> game_snapshot option \<Rightarrow> string \<Rightarrow> (string \<times> game_card_instance) option js" where
  "battlefieldCard ko snapshot i = (case snapshot of
     None \<Rightarrow> Inr None | Some t \<Rightarrow> if i = [] then Inr None else battlefieldCardIn (snapshotPlayers ko t) i)"

definition battlefieldInstanceIds :: "key_order \<Rightarrow> game_snapshot option \<Rightarrow> string option \<Rightarrow> string set" where
  "battlefieldInstanceIds ko snapshot playerId =
     (let ids = (\<lambda>player. map card_instanceId (or_default (pl_zones player Battlefield) []))
      in case snapshot of
           None \<Rightarrow> {}
         | Some t \<Rightarrow>
             if or_default playerId [] \<noteq> []
             then (case sn_players t (or_default playerId []) of None \<Rightarrow> {} | Some player \<Rightarrow> set (ids player))
             else set (concat (map (ids \<circ> snd) (snapshotPlayers ko t))))"

definition snapshotAttachments :: "game_snapshot option \<Rightarrow> game_attachment list" where
  "snapshotAttachments snapshot = or_default (Option.bind snapshot sn_attachments) []"

definition attachmentForEquipment :: "game_snapshot option \<Rightarrow> string \<Rightarrow> game_attachment option" where
  "attachmentForEquipment snapshot i = List.find (\<lambda>a. at_equipmentInstanceId a = i) (snapshotAttachments snapshot)"

definition attachmentsForTarget :: "game_snapshot option \<Rightarrow> string \<Rightarrow> game_attachment list" where
  "attachmentsForTarget snapshot i = filter (\<lambda>a. at_attachedToInstanceId a = i) (snapshotAttachments snapshot)"

definition isAttachedEquipment :: "game_snapshot option \<Rightarrow> string \<Rightarrow> bool" where
  "isAttachedEquipment snapshot i \<longleftrightarrow> attachmentForEquipment snapshot i \<noteq> None"

definition isBattlefieldStacked :: "game_snapshot option \<Rightarrow> string \<Rightarrow> bool" where
  "isBattlefieldStacked snapshot i \<longleftrightarrow> list_ex (\<lambda>b. bs_stackedInstanceId b = i \<or> bs_stackTopInstanceId b = i)
     (or_default (Option.bind snapshot sn_battlefieldStacks) [])"

definition canAttachSource :: "game_snapshot option \<Rightarrow> game_card_instance option \<Rightarrow> bool" where
  "canAttachSource snapshot crd = (case crd of
     None \<Rightarrow> False
   | Some c \<Rightarrow> \<not> isLandPermanent crd \<and> \<not> isDayNightCard crd \<and> \<not> isGameplayCard crd
       \<and> \<not> isBattlefieldStacked snapshot (card_instanceId c)
       \<and> attachmentsForTarget snapshot (card_instanceId c) = [])"

definition canAttachTarget :: "game_card_instance option \<Rightarrow> bool" where
  "canAttachTarget crd \<longleftrightarrow> crd \<noteq> None \<and> \<not> isDayNightCard crd \<and> \<not> isGameplayCard crd"

definition canEquipSource :: "game_card_instance option \<Rightarrow> bool" where
  "canEquipSource crd = canAttachSource None crd"

datatype attachment_role = SourceRole | TargetRole

definition gameplayAttachmentError :: "game_card_instance option \<Rightarrow> attachment_role \<Rightarrow> string option" where
  "gameplayAttachmentError crd role =
     (if isDayNightCard crd
      then Some (case role of SourceRole \<Rightarrow> ''Day/Night cannot be attached to another permanent.''
        | TargetRole \<Rightarrow> ''Day/Night cannot be an attachment target.'')
      else map_option (\<lambda>kind. case (kind, role) of
          (EmblemKind, SourceRole) \<Rightarrow> ''Emblems cannot be attached to another permanent.''
        | (EmblemKind, TargetRole) \<Rightarrow> ''Emblems cannot be attachment targets.''
        | (MonarchKind, SourceRole) \<Rightarrow> ''Monarch cannot be attached to another permanent.''
        | (MonarchKind, TargetRole) \<Rightarrow> ''Monarch cannot be an attachment target.''
        | (InitiativeKind, SourceRole) \<Rightarrow> ''Initiative cannot be attached to another permanent.''
        | (InitiativeKind, TargetRole) \<Rightarrow> ''Initiative cannot be an attachment target.''
        | (DungeonKind, SourceRole) \<Rightarrow> ''Dungeons cannot be attached to another permanent.''
        | (DungeonKind, TargetRole) \<Rightarrow> ''Dungeons cannot be attachment targets.'') (gameplayCardKind crd))"

definition relationHasBattlefieldEndpoints :: "key_order \<Rightarrow> game_snapshot option \<Rightarrow> string \<Rightarrow> string \<Rightarrow> bool js" where
  "relationHasBattlefieldEndpoints ko snapshot i j = js_bind (battlefieldCard ko snapshot i) (\<lambda>a.
     if a = None then Inr False else js_bind (battlefieldCard ko snapshot j) (\<lambda>b. Inr (b \<noteq> None)))"

section \<open>Selected cards\<close>

record selected_card =
  sl_playerId :: string
  sl_zone :: game_zone_name
  sl_card :: game_card_instance

datatype toggle_result = SelectionUpdated | ReplacedSource

definition selectMany :: "string \<Rightarrow> game_zone_name \<Rightarrow> game_card_instance list \<Rightarrow> selected_card list" where
  "selectMany playerId zone cards = map (\<lambda>c. \<lparr>sl_playerId = playerId, sl_zone = zone, sl_card = c\<rparr>) cards"

definition selectSingle :: "string \<Rightarrow> game_zone_name \<Rightarrow> game_card_instance \<Rightarrow> selected_card list" where
  "selectSingle playerId zone c = [\<lparr>sl_playerId = playerId, sl_zone = zone, sl_card = c\<rparr>]"

definition activeKeyboardCard :: "selected_card list \<Rightarrow> selected_card option \<Rightarrow> selected_card option" where
  "activeKeyboardCard selected hovered = or_else (head_option selected) hovered"

definition isSelected :: "selected_card list \<Rightarrow> string \<Rightarrow> bool" where
  "isSelected selected i \<longleftrightarrow> list_ex (\<lambda>x. card_instanceId (sl_card x) = i) selected"

definition toggleSelection ::
  "bool \<Rightarrow> string \<Rightarrow> game_zone_name \<Rightarrow> game_card_instance \<Rightarrow> selected_card list \<Rightarrow> toggle_result \<times> selected_card list" where
  "toggleSelection shiftKey playerId zone c selected =
     (let existing = isSelected selected (card_instanceId c);
          one = \<lparr>sl_playerId = playerId, sl_zone = zone, sl_card = c\<rparr>
      in if shiftKey
         then if \<not> existing \<and> (case selected of [] \<Rightarrow> False
                | f # _ \<Rightarrow> sl_zone f \<noteq> zone \<or> sl_playerId f \<noteq> playerId)
              then (ReplacedSource, [one])
              else (SelectionUpdated, if existing
                then filter (\<lambda>x. card_instanceId (sl_card x) \<noteq> card_instanceId c) selected else selected @ [one])
         else (SelectionUpdated, [one]))"

definition isCurrentPlayer :: "player_view option \<Rightarrow> string \<Rightarrow> bool" where
  "isCurrentPlayer current playerId \<longleftrightarrow> map_option pv_id current = Some playerId"

definition canControlPlayer :: "player_view option \<Rightarrow> string \<Rightarrow> bool" where
  "canControlPlayer current playerId \<longleftrightarrow> (case current of
     None \<Rightarrow> False | Some v \<Rightarrow> pv_id v = playerId \<and> pl_status (pv_state v) = Some ActivePlayer)"

definition canUseHiddenZone :: "player_view option \<Rightarrow> string \<Rightarrow> game_zone_name \<Rightarrow> bool" where
  "canUseHiddenZone current playerId zone \<longleftrightarrow> zone \<notin> {Library, Hand} \<or> isCurrentPlayer current playerId"

definition cardRefStillInZone :: "game_snapshot option \<Rightarrow> string \<Rightarrow> game_zone_name \<Rightarrow> string \<Rightarrow> bool" where
  "cardRefStillInZone snapshot playerId zone i = (case Option.bind snapshot (\<lambda>t.
       Option.bind (sn_players t playerId) (\<lambda>player. pl_zones player zone)) of
     None \<Rightarrow> False | Some cards \<Rightarrow> list_ex (\<lambda>c. card_instanceId c = i) cards)"

type_synonym card_ref = "string \<times> game_zone_name \<times> string"

record transient_ui =
  tu_selectedCards :: "selected_card list"
  tu_hoveredSelection :: "card_ref option"
  tu_contextMenu :: "card_ref option"

text \<open>The menu of a zone, without a card, counts as none. The answer: the selection, and whether the preview
  is cleared and the menu closed.\<close>

definition pruneTransientCardUiState :: "game_snapshot option \<Rightarrow> transient_ui \<Rightarrow> selected_card list \<times> bool \<times> bool" where
  "pruneTransientCardUiState snapshot ui =
     (let gone = (\<lambda>(p, z, i). \<not> cardRefStillInZone snapshot p z i)
      in (filter (\<lambda>x. cardRefStillInZone snapshot (sl_playerId x) (sl_zone x) (card_instanceId (sl_card x))) (tu_selectedCards ui),
          pred_option gone (tu_hoveredSelection ui) \<and> tu_hoveredSelection ui \<noteq> None,
          pred_option gone (tu_contextMenu ui) \<and> tu_contextMenu ui \<noteq> None))"

text \<open>With the shift key only cards of one zone of one player are selected together, each once.\<close>

definition selection_ok :: "selected_card list \<Rightarrow> bool" where
  "selection_ok selected \<longleftrightarrow> distinct (map (card_instanceId \<circ> sl_card) selected)
     \<and> (\<forall>x \<in> set selected. \<forall>y \<in> set selected. sl_zone x = sl_zone y \<and> sl_playerId x = sl_playerId y)"

lemma toggle_ok:
  assumes "selection_ok selected"
  shows "selection_ok (snd (toggleSelection shift p z c selected))"
proof -
  define one where "one = \<lparr>sl_playerId = p, sl_zone = z, sl_card = c\<rparr>"
  have single: "selection_ok [one]" by (simp add: selection_ok_def)
  have fewer: "selection_ok (filter P selected)" for P
    using assms by (auto simp: selection_ok_def distinct_map_filter)
  have more: "selection_ok (selected @ [one])"
    if "\<not> isSelected selected (card_instanceId c)" "selected = f # rest" "sl_zone f = z" "sl_playerId f = p" for f rest
  proof -
    have "card_instanceId c \<notin> (card_instanceId \<circ> sl_card) ` set selected" using that(1) by (auto simp: isSelected_def list_ex_iff)
    moreover have "sl_zone x = z \<and> sl_playerId x = p" if "x \<in> set selected" for x
      using assms that \<open>selected = f # rest\<close> \<open>sl_zone f = z\<close> \<open>sl_playerId f = p\<close> by (auto simp: selection_ok_def)
    ultimately show ?thesis using assms by (auto simp: selection_ok_def one_def)
  qed
  have first: "selection_ok (selected @ [one])"
    if new: "\<not> isSelected selected (card_instanceId c)"
      and here: "\<not> (case selected of [] \<Rightarrow> False | f # _ \<Rightarrow> sl_zone f \<noteq> z \<or> sl_playerId f \<noteq> p)"
  proof (cases selected)
    case Nil
    with single show ?thesis by simp
  next
    case (Cons f rest)
    with here show ?thesis by (intro more [OF new Cons]) auto
  qed
  show ?thesis
    unfolding toggleSelection_def Let_def one_def [symmetric] using single first fewer by (simp split del: list.split)
qed

section \<open>Arrows\<close>

record pending_arrow =
  pa_instanceId :: string
  pa_cardName :: string
  pa_color :: string
  pa_targetCount :: int
  pa_selectedTargetInstanceIds :: "string list"

record arrow_payload =
  ap_fromInstanceId :: string
  ap_toInstanceId :: string
  ap_color :: string

text \<open>The chain of promises sends one command after the other: the first of \<open>aw_queue\<close> is under way.\<close>

record arrows =
  aw_pending :: "pending_arrow option"
  aw_queue :: "arrow_payload list"
  aw_sent :: "arrow_payload list"
  aw_error :: "string option"

definition arrowColorPalette :: "string list \<Rightarrow> string list" where
  "arrowColorPalette identity =
     (let colors = map snd (filter (\<lambda>(c, _). c \<in> set identity)
            [(''W'', ''white''), (''U'', ''blue''), (''B'', ''black''), (''R'', ''red''), (''G'', ''green'')])
      in if colors = [] then [''yellow''] else colors)"

definition arrowColorForCard :: "game_card_instance \<Rightarrow> string" where
  "arrowColorForCard c = or_default (head_option (arrowColorPalette (or_default (card_colorIdentity c) []))) ''yellow''"

definition startArrowFrom :: "bool \<Rightarrow> game_zone_name \<Rightarrow> game_card_instance option \<Rightarrow> jsnum \<Rightarrow> arrows \<Rightarrow> arrows" where
  "startArrowFrom canControl zone crd targetCount s = (case crd of
     None \<Rightarrow> s
   | Some c \<Rightarrow>
       if zone \<noteq> Battlefield then s
       else if \<not> canControl then s\<lparr>aw_error := Some ''You can only draw arrows from cards you control.''\<rparr>
       else s\<lparr>aw_pending := Some \<lparr>pa_instanceId = card_instanceId c, pa_cardName = card_name c,
         pa_color = arrowColorForCard c,
         pa_targetCount = max 1 (if is_finite targetCount then js_int (js_floor targetCount) else 1),
         pa_selectedTargetInstanceIds = []\<rparr>\<rparr>)"

definition queueArrowCreatedCommand :: "arrow_payload \<Rightarrow> arrows \<Rightarrow> arrows" where
  "queueArrowCreatedCommand payload s =
     s\<lparr>aw_queue := aw_queue s @ [payload], aw_sent := (if aw_queue s = [] then aw_sent s @ [payload] else aw_sent s)\<rparr>"

definition arrowCommandEnds :: "arrows \<Rightarrow> arrows" where
  "arrowCommandEnds s = s\<lparr>aw_queue := tl (aw_queue s),
     aw_sent := (case tl (aw_queue s) of [] \<Rightarrow> aw_sent s | x # _ \<Rightarrow> aw_sent s @ [x])\<rparr>"

definition handleBattlefieldCardClick :: "string \<Rightarrow> arrows \<Rightarrow> bool \<times> arrows" where
  "handleBattlefieldCardClick i s = (case aw_pending s of
     None \<Rightarrow> (False, s)
   | Some a \<Rightarrow>
       if pa_instanceId a = i then (True, s\<lparr>aw_pending := None\<rparr>)
       else if i \<in> set (pa_selectedTargetInstanceIds a) then (True, s)
       else let chosen = pa_selectedTargetInstanceIds a @ [i];
                remaining = pa_targetCount a - int (length chosen);
                t = s\<lparr>aw_pending := (if remaining > 0 then Some (a\<lparr>pa_selectedTargetInstanceIds := chosen\<rparr>) else None)\<rparr>
         in (True, queueArrowCreatedCommand \<lparr>ap_fromInstanceId = pa_instanceId a, ap_toInstanceId = i,
               ap_color = pa_color a\<rparr> t))"

definition ownedArrowIds :: "key_order \<Rightarrow> game_snapshot option \<Rightarrow> string \<Rightarrow> string list" where
  "ownedArrowIds ko snapshot playerId = (case snapshot of
     None \<Rightarrow> []
   | Some t \<Rightarrow> (let sources = battlefieldInstanceIds ko snapshot (Some playerId)
       in map ar_id (filter (\<lambda>a. ar_ownerId a = Some playerId
            \<or> or_default (ar_ownerId a) [] = [] \<and> ar_fromInstanceId a \<in> sources) (sn_arrows t))))"

text \<open>Clicking on as many different cards as there are targets creates the arrows in that order and ends
  the choice; a repeated click changes nothing.\<close>

fun clickAll :: "string list \<Rightarrow> arrows \<Rightarrow> arrows" where
  "clickAll [] s = s"
| "clickAll (i # is') s = clickAll is' (snd (handleBattlefieldCardClick i s))"

lemma choosing_targets:
  assumes "aw_pending s = Some a" "distinct (pa_selectedTargetInstanceIds a @ is')" "pa_instanceId a \<notin> set is'"
    and "int (length (pa_selectedTargetInstanceIds a) + length is') = pa_targetCount a" "is' \<noteq> []"
  shows "aw_pending (clickAll is' s) = None
    \<and> aw_queue (clickAll is' s) = aw_queue s @ map (\<lambda>i. \<lparr>ap_fromInstanceId = pa_instanceId a,
        ap_toInstanceId = i, ap_color = pa_color a\<rparr>) is'"
  using assms
proof (induction is' arbitrary: s a)
  case (Cons i rest)
  define p where "p = \<lparr>ap_fromInstanceId = pa_instanceId a, ap_toInstanceId = i, ap_color = pa_color a\<rparr>"
  define b where "b = a\<lparr>pa_selectedTargetInstanceIds := pa_selectedTargetInstanceIds a @ [i]\<rparr>"
  define t where "t = snd (handleBattlefieldCardClick i s)"
  have t: "aw_pending t = (if rest = [] then None else Some b)" "aw_queue t = aw_queue s @ [p]"
  proof -
    have "i \<noteq> pa_instanceId a" "i \<notin> set (pa_selectedTargetInstanceIds a)" using Cons.prems(2,3) by auto
    moreover have "1 + int (length (pa_selectedTargetInstanceIds a)) < pa_targetCount a \<longleftrightarrow> rest \<noteq> []"
      using Cons.prems(4) by (cases rest) simp_all
    ultimately show "aw_pending t = (if rest = [] then None else Some b)" "aw_queue t = aw_queue s @ [p]"
      using Cons.prems(1) by (simp_all add: t_def b_def p_def handleBattlefieldCardClick_def queueArrowCreatedCommand_def Let_def)
  qed
  show ?case
  proof (cases "rest = []")
    case True
    with t show ?thesis by (simp add: t_def [symmetric] p_def)
  next
    case False
    with t Cons.prems Cons.IH [of t b] show ?thesis by (simp add: t_def [symmetric] b_def p_def)
  qed
qed simp

section \<open>Mana pools\<close>

datatype mana_color = ManaW | ManaU | ManaB | ManaR | ManaG | ManaC

type_synonym mana_pool = "mana_color \<Rightarrow> jsnum"

definition EMPTY_POOL :: mana_pool where
  "EMPTY_POOL c = num 0"

definition MAX_MANA_POOL_AMOUNT :: jsnum where
  "MAX_MANA_POOL_AMOUNT = num 99"

definition js_trunc :: "jsnum \<Rightarrow> jsnum" where
  "js_trunc n = (case n of Fin q \<Rightarrow> if q < 0 then num \<lceil>q\<rceil> else num \<lfloor>q\<rfloor> | _ \<Rightarrow> n)"

definition clampAmount :: "jsnum \<Rightarrow> jsnum" where
  "clampAmount n = js_max (num 0) (js_min MAX_MANA_POOL_AMOUNT (js_trunc n))"

definition manaPool :: "(string \<rightharpoonup> mana_pool) \<Rightarrow> string \<Rightarrow> mana_pool" where
  "manaPool pools playerId = or_default (pools playerId) EMPTY_POOL"

definition updatePool :: "string \<Rightarrow> (mana_pool \<Rightarrow> mana_pool) \<Rightarrow> (string \<rightharpoonup> mana_pool) \<Rightarrow> (string \<rightharpoonup> mana_pool)" where
  "updatePool playerId f pools = pools(playerId \<mapsto> f (manaPool pools playerId))"

definition addMana :: "string \<Rightarrow> (mana_color \<times> jsnum) list \<Rightarrow> (string \<rightharpoonup> mana_pool) \<Rightarrow> (string \<rightharpoonup> mana_pool)" where
  "addMana playerId additions = updatePool playerId (\<lambda>pool.
     foldl (\<lambda>next' (c, n). next'(c := clampAmount (next' c + n))) pool additions)"

definition changeMana :: "string \<Rightarrow> mana_color \<Rightarrow> jsnum \<Rightarrow> (string \<rightharpoonup> mana_pool) \<Rightarrow> (string \<rightharpoonup> mana_pool)" where
  "changeMana playerId c delta = updatePool playerId (\<lambda>pool. pool(c := clampAmount (pool c + delta)))"

definition incrementMana :: "string \<Rightarrow> mana_color \<Rightarrow> (string \<rightharpoonup> mana_pool) \<Rightarrow> (string \<rightharpoonup> mana_pool)" where
  "incrementMana playerId c = changeMana playerId c (num 1)"

definition decrementMana :: "string \<Rightarrow> mana_color \<Rightarrow> (string \<rightharpoonup> mana_pool) \<Rightarrow> (string \<rightharpoonup> mana_pool)" where
  "decrementMana playerId c = changeMana playerId c (num (-1))"

definition resetColor :: "string \<Rightarrow> mana_color \<Rightarrow> (string \<rightharpoonup> mana_pool) \<Rightarrow> (string \<rightharpoonup> mana_pool)" where
  "resetColor playerId c = updatePool playerId (\<lambda>pool. pool(c := num 0))"

definition resetMana :: "string \<Rightarrow> (string \<rightharpoonup> mana_pool) \<Rightarrow> (string \<rightharpoonup> mana_pool)" where
  "resetMana playerId pools = pools(playerId \<mapsto> EMPTY_POOL)"

text \<open>The amounts are whole numbers from 0 to 99, as long as only finite amounts are added.\<close>

definition pool_ok :: "mana_pool \<Rightarrow> bool" where
  "pool_ok pool \<longleftrightarrow> (\<forall>c. \<exists>n. pool c = num n \<and> 0 \<le> n \<and> n \<le> 99)"

lemma clamp_ok: "is_finite n \<Longrightarrow> \<exists>k. clampAmount n = num k \<and> 0 \<le> k \<and> k \<le> 99"
proof -
  assume "is_finite n"
  then obtain q where "n = Fin q" by (cases n) auto
  then obtain i where i: "js_trunc n = num i" by (cases "q < 0") (simp_all add: js_trunc_def)
  have "clampAmount n = num (max 0 (min 99 i))" by (simp add: clampAmount_def i MAX_MANA_POOL_AMOUNT_def of_int_max of_int_min)
  then show ?thesis by (intro exI [of _ "max 0 (min 99 i)"]) simp
qed

lemma change_ok:
  assumes "pool_ok pool" "is_finite n"
  shows "pool_ok (pool(c := clampAmount (pool c + n)))"
proof -
  obtain k where "pool c = num k" using assms(1) unfolding pool_ok_def by blast
  then have "is_finite (pool c + n)" using assms(2) by (cases n) simp_all
  from clamp_ok [OF this] assms(1) show ?thesis by (simp add: pool_ok_def)
qed

lemma add_mana_ok:
  assumes "pool_ok (manaPool pools p)" "list_all (\<lambda>(c, n). is_finite n) additions"
  shows "pool_ok (manaPool (addMana p additions pools) p)"
proof -
  have "pool_ok (foldl (\<lambda>next' (c, n). next'(c := clampAmount (next' c + n))) pool additions)" if "pool_ok pool" for pool
    using assms(2) that
  proof (induction additions arbitrary: pool)
    case (Cons a additions)
    obtain c n where a: "a = (c, n)" by (cases a)
    with Cons.prems have "pool_ok (pool(c := clampAmount (pool c + n)))" by (intro change_ok) simp_all
    with Cons.IH [of "pool(c := clampAmount (pool c + n))"] Cons.prems(1) a show ?case by (simp del: fun_upd_apply)
  qed simp
  with assms(1) show ?thesis by (simp add: addMana_def updatePool_def manaPool_def)
qed

section \<open>Unread messages\<close>

record chat_read_context =
  cc_gameId :: string
  cc_currentPlayerId :: string
  cc_currentUserId :: string
  cc_messages :: "chat_message list"

text \<open>The storage of the browser: \<open>None\<close> if it is missing or throws.\<close>

type_synonym local_storage = "(string \<rightharpoonup> string) option"

definition messageKey :: "chat_message \<Rightarrow> nat \<Rightarrow> string" where
  "messageKey m i = (if or_default (cm_id m) [] \<noteq> [] then or_default (cm_id m) []
     else join_strings ''|'' [nat_string i, cm_createdAt m, cm_userId m,
       or_default (non_null (cm_targetPlayerId m)) ''all'', cm_message m])"

definition isOwnMessage :: "chat_read_context \<Rightarrow> chat_message \<Rightarrow> bool" where
  "isOwnMessage x m \<longleftrightarrow> cm_userId m = cc_currentUserId x \<or> cm_userId m = cc_currentPlayerId x"

definition isVisibleToCurrentPlayer :: "chat_read_context \<Rightarrow> chat_message \<Rightarrow> bool" where
  "isVisibleToCurrentPlayer x m \<longleftrightarrow> (case non_null (cm_targetPlayerId m) of
     None \<Rightarrow> True
   | Some t \<Rightarrow> t = cc_currentPlayerId x \<or> t = cc_currentUserId x \<or> isOwnMessage x m)"

definition incomingKeys :: "chat_read_context \<Rightarrow> string list" where
  "incomingKeys x = map (\<lambda>(m, i). messageKey m i)
     (filter (\<lambda>(m, i). isVisibleToCurrentPlayer x m \<and> \<not> isOwnMessage x m)
       (zip (cc_messages x) [0..<length (cc_messages x)]))"

definition storageKey :: "(string \<Rightarrow> string) \<Rightarrow> chat_read_context \<Rightarrow> string" where
  "storageKey encode x = join_strings '':'' [''commanderZone:game-chat-read:v1'', encode (cc_gameId x), encode (cc_currentPlayerId x)]"

definition readKey :: "(string \<Rightarrow> string) \<Rightarrow> local_storage \<Rightarrow> chat_read_context \<Rightarrow> string option" where
  "readKey encode storage x = Option.bind storage (\<lambda>m. m (storageKey encode x))"

definition unreadMessageKeys :: "(string \<Rightarrow> string) \<Rightarrow> local_storage \<Rightarrow> chat_read_context \<Rightarrow> string list" where
  "unreadMessageKeys encode storage x =
     (let incoming = incomingKeys x in
      if incoming = [] \<or> last incoming = [] then []
      else case readKey encode storage x of
        None \<Rightarrow> incoming
      | Some k \<Rightarrow> if k = [] then incoming
          else (case find_index (\<lambda>i. i = k) incoming of None \<Rightarrow> incoming | Some n \<Rightarrow> drop (Suc n) incoming))"

definition latestUnreadMessageKey :: "(string \<Rightarrow> string) \<Rightarrow> local_storage \<Rightarrow> chat_read_context \<Rightarrow> string option" where
  "latestUnreadMessageKey encode storage x = from_end 1 (unreadMessageKeys encode storage x)"

definition hasStoredReadKey :: "(string \<Rightarrow> string) \<Rightarrow> local_storage \<Rightarrow> chat_read_context \<Rightarrow> bool" where
  "hasStoredReadKey encode storage x \<longleftrightarrow> readKey encode storage x \<noteq> None"

definition markRead :: "(string \<Rightarrow> string) \<Rightarrow> chat_read_context \<Rightarrow> local_storage \<Rightarrow> local_storage" where
  "markRead encode x storage = (let incoming = incomingKeys x in
     if incoming = [] \<or> last incoming = [] then storage
     else map_option (\<lambda>m. m(storageKey encode x \<mapsto> last incoming)) storage)"

text \<open>After reading, exactly the incoming messages that came later are unread, as long as the keys are distinct.\<close>

lemma find_index_last_distinct: "distinct (xs @ [k] @ ys) \<Longrightarrow> find_index (\<lambda>i. i = k) (xs @ [k] @ ys) = Some (length xs)"
  by (induction xs) auto

lemma unread_after_reading:
  assumes "incomingKeys y = incomingKeys x @ later" "distinct (incomingKeys y)" "[] \<notin> set (incomingKeys y)"
    and "incomingKeys x \<noteq> []" "storage \<noteq> None" "storageKey encode y = storageKey encode x"
  shows "unreadMessageKeys encode (markRead encode x storage) y = later"
proof -
  define k where "k = last (incomingKeys x)"
  obtain xs where xs: "incomingKeys x = xs @ [k]" using assms(4) by (metis append_butlast_last_id k_def)
  have k: "k \<noteq> []" using assms(1,3) xs by auto
  have "find_index (\<lambda>i. i = k) (incomingKeys y) = Some (length xs)"
    using find_index_last_distinct [of xs k later] assms(1,2) xs by simp
  moreover have "readKey encode (markRead encode x storage) y = Some k"
    using assms(5,6) xs k by (auto simp: readKey_def markRead_def Let_def)
  moreover have "last (incomingKeys y) \<noteq> []" using assms(1,3,4) by (metis append_is_Nil_conv last_in_set)
  ultimately show ?thesis using k assms(1,4) xs by (simp add: unreadMessageKeys_def Let_def)
qed

end
