(* ===== verification/SnapshotReplica.thy ===== *)
theory SnapshotReplica
  imports SnapshotSamples
begin

text \<open>
  The snapshot reducer as a replica: the version gate of \<open>applyGameSnapshotPatch\<close> makes it a
  \<open>strict_replica\<close>, and well-formedness is kept along every delivery sequence.
\<close>

definition snapshotApplied :: "game_snapshot \<Rightarrow> game_patch \<Rightarrow> game_snapshot option" where
  "snapshotApplied s patch =
     (case applyGameSnapshotPatch s patch of Inr (Applied t) \<Rightarrow> Some t | _ \<Rightarrow> None)"

definition game_patch_wf :: "game_patch \<Rightarrow> bool" where
  "game_patch_wf patch = list_all patch_op_wf (gp_operations patch)"

section \<open>The gate\<close>

lemma applyOperationsFrom_resync:
  "applyOperationsFrom s n ops = Inr (OpsResync t r) \<Longrightarrow> t = s"
  by (induction ops arbitrary: n) (auto simp: js_bind_def split: sum.splits operation_result.splits)

lemma applyPatch_Applied:
  "applyGameSnapshotPatch s p = Inr (Applied t) \<Longrightarrow>
     sn_version t = gp_version p \<and> gp_version p = sn_version s + 1 \<and> gp_baseVersion p = sn_version s"
  by (auto simp: applyGameSnapshotPatch_def decision_apply_iff js_bind_def
      split: patch_decision.splits sum.splits operations_result.splits)

lemma applyPatch_kept:
  assumes "applyGameSnapshotPatch s p = Inr r" and "\<And>t. r \<noteq> Applied t"
  shows "(r = Ignored s \<and> gp_version p \<le> sn_version s) \<or>
         (\<exists>reason. r = ResyncRequired s reason \<and> sn_version s < gp_version p)"
  using assms
  by (auto simp: applyGameSnapshotPatch_def applyGameSnapshotPatchOperations_def decision_ignore_iff
      decision_apply_iff js_bind_def dest: applyOperationsFrom_resync
      split: patch_decision.splits sum.splits operations_result.splits)
     (auto simp: getGamePatchDecision_def split: if_splits)

lemma snapshotApplied_Some:
  "snapshotApplied s p = Some t \<longleftrightarrow> applyGameSnapshotPatch s p = Inr (Applied t)"
  by (auto simp: snapshotApplied_def split: sum.splits apply_result.splits)

interpretation snap: strict_replica sn_version gp_version snapshotApplied
  by unfold_locales (auto simp: snapshotApplied_Some dest: applyPatch_Applied)

section \<open>Well-formedness along a session\<close>

lemma applyOperationsFrom_wf:
  "snapshot_wf n \<Longrightarrow> list_all patch_op_wf ops \<Longrightarrow>
     (\<exists>t. applyOperationsFrom s n ops = Inr (OpsApplied t) \<and> snapshot_wf t) \<or>
     (\<exists>r. applyOperationsFrom s n ops = Inr (OpsResync s r))"
proof (induction ops arbitrary: n)
  case (Cons op ops)
  have "result_ok snapshot_wf (applyOperation n op)"
    using Cons.prems by (simp add: applyOperation_wf)
  then consider r where "applyOperation n op = Inr (OpFailed r)"
    | t where "applyOperation n op = Inr (OpApplied t)" "snapshot_wf t"
    by (auto elim!: result_ok.elims outcome_ok.elims)
  then show ?case using Cons by cases auto
qed simp

lemma table_wf_version [simp]: "table_wf (s\<lparr>sn_version := v\<rparr>) = table_wf s"
  by (simp add: table_wf_def attachmentsOf_def battlefieldStacksOf_def)

lemma snapshot_wf_version [simp]: "snapshot_wf (s\<lparr>sn_version := v\<rparr>) = snapshot_wf s"
  by (simp add: snapshot_wf_def)

fun resultSnapshot :: "apply_result \<Rightarrow> game_snapshot" where
  "resultSnapshot (Applied t) = t"
| "resultSnapshot (Ignored t) = t"
| "resultSnapshot (ResyncRequired t r) = t"

lemma applyPatch_wf:
  assumes "snapshot_wf s" and "game_patch_wf p"
  shows "\<exists>r. applyGameSnapshotPatch s p = Inr r \<and> snapshot_wf (resultSnapshot r)"
  using applyOperationsFrom_wf [of s "gp_operations p" s] assms
  by (auto simp: applyGameSnapshotPatch_def applyGameSnapshotPatchOperations_def game_patch_wf_def
      split: patch_decision.split)

interpretation snap_wf: invariant_machine "deliver snapshotApplied" game_patch_wf snapshot_wf
proof
  fix s p
  assume "snapshot_wf s" "game_patch_wf p"
  then show "snapshot_wf (deliver snapshotApplied s p)"
    using applyPatch_wf [of s p]
    by (cases "snapshotApplied s p") (auto simp: snapshotApplied_Some)
qed

lemma deliver_all_run_steps: "deliver_all f s ps = run_steps (deliver f) s ps"
  by (induction ps arbitrary: s) auto

section \<open>Properties\<close>

text \<open>C36: two clients that start from the same snapshot and receive, in any order and with
  any duplicates and losses, patches of one stream (one patch per version) hold the same
  snapshot whenever they are at the same version.\<close>

theorem snapshot_clients_converge:
  assumes "inj_on gp_version (set ps \<union> set qs)"
    and "sn_version (deliver_all snapshotApplied s ps) = sn_version (deliver_all snapshotApplied s qs)"
  shows "deliver_all snapshotApplied s ps = deliver_all snapshotApplied s qs"
  using assms by (rule snap.convergence)

theorem snapshot_clients_converge_witness:
  "deliver_all snapshotApplied two_zone_snapshot [play_patch] =
     deliver_all snapshotApplied two_zone_snapshot [sample_patch 4 [], play_patch, play_patch]"
proof (rule snapshot_clients_converge)
  obtain t where t: "snapshotApplied two_zone_snapshot play_patch = Some t"
    using play_patch_applies by (auto simp: snapshotApplied_Some)
  moreover have "snapshotApplied two_zone_snapshot (sample_patch 4 []) = None"
    by (simp add: snapshotApplied_def applyGameSnapshotPatch_def getGamePatchDecision_def two_zone_version)
  ultimately show "sn_version (deliver_all snapshotApplied two_zone_snapshot [play_patch]) =
      sn_version (deliver_all snapshotApplied two_zone_snapshot [sample_patch 4 [], play_patch, play_patch])"
    using snap.redelivery [OF t] by simp
qed (auto simp: inj_on_def)

text \<open>Whatever is delivered, the patches a client applies carry consecutive versions from
  its own version on: none is skipped and none is applied twice, and the client ends at its
  start version plus the number of patches it applied.\<close>

theorem snapshot_patches_exactly_once:
  "map gp_version (applied_log snapshotApplied s ps) =
     map (\<lambda>k. sn_version s + 1 + int k) [0..<length (applied_log snapshotApplied s ps)] \<and>
   sn_version (deliver_all snapshotApplied s ps) =
     sn_version s + int (length (applied_log snapshotApplied s ps))"
  by (simp add: snap.applied_log_targets snap.deliver_all_count)

text \<open>A patch is all or nothing. Either it is the next version and every operation
  succeeded, or the snapshot is returned as it was: ignored when the patch is not newer,
  otherwise with a request to resynchronise.\<close>

theorem snapshot_patch_atomic:
  assumes "applyGameSnapshotPatch s p = Inr r"
  shows "(\<exists>t. r = Applied t \<and> gp_baseVersion p = sn_version s \<and>
              gp_version p = sn_version s + 1 \<and> sn_version t = gp_version p) \<or>
         (r = Ignored s \<and> gp_version p \<le> sn_version s) \<or>
         (\<exists>reason. r = ResyncRequired s reason \<and> sn_version s < gp_version p)"
proof (cases r)
  case (Applied t)
  with assms applyPatch_Applied show ?thesis by blast
qed (use applyPatch_kept [OF assms] in auto)

theorem snapshot_patch_atomic_witness:
  "\<exists>t. applyGameSnapshotPatch two_zone_snapshot play_patch = Inr (Applied t) \<and> sn_version t = 1"
proof -
  obtain t where t: "applyGameSnapshotPatch two_zone_snapshot play_patch = Inr (Applied t)"
    using play_patch_applies by blast
  from snapshot_patch_atomic [OF t] t show ?thesis by auto
qed

text \<open>On a well-formed snapshot a well-formed patch never throws, and the snapshot it
  leaves is well-formed again: six zone arrays per player without a repeated instance id, no
  repeated id in a relation list, and a log of at most 250 entries.\<close>

theorem snapshot_patch_safe:
  assumes "snapshot_wf s" and "game_patch_wf p"
  shows "\<exists>r. applyGameSnapshotPatch s p = Inr r \<and> snapshot_wf (resultSnapshot r)"
  using assms by (rule applyPatch_wf)

theorem snapshot_patch_safe_witness:
  "\<exists>r. applyGameSnapshotPatch two_zone_snapshot play_patch = Inr r \<and> snapshot_wf (resultSnapshot r)"
  by (rule snapshot_patch_safe [OF two_zone_wf]) (simp add: game_patch_wf_def play_first_card_def)

text \<open>Well-formedness holds after every sequence of deliveries.\<close>

theorem snapshot_session_wf:
  assumes "snapshot_wf s" and "list_all game_patch_wf ps"
  shows "snapshot_wf (deliver_all snapshotApplied s ps)"
  using snap_wf.run_invar [OF assms] by (simp add: deliver_all_run_steps)

theorem snapshot_session_wf_witness:
  "snapshot_wf (deliver_all snapshotApplied two_zone_snapshot [play_patch, sample_patch 3 [], play_patch])"
  by (rule snapshot_session_wf [OF two_zone_wf]) (simp_all add: game_patch_wf_def play_first_card_def)

end
