(* ===== verification/SnapshotFrame.thy ===== *)
theory SnapshotFrame
  imports SnapshotReplica
begin

text \<open>
  The frame of the reducer: an operation changes the players it names and nothing of the
  others, adds and drops no player, and leaves the version to the gate.
\<close>

section \<open>The players an operation names\<close>

fun card_zone_op_players :: "card_zone_op \<Rightarrow> string set" where
  "card_zone_op_players (CardPositionSet pid zone iid position) = {pid}"
| "card_zone_op_players (CardsPositionSet pid zone positions) = {pid}"
| "card_zone_op_players (CardMove mv) = {zr_playerId (mv_from mv), zt_playerId (mv_to mv)}"
| "card_zone_op_players (CardRemove rmv) = {rmv_playerId rmv}"
| "card_zone_op_players (CardStateSet pid zone iid st) = {pid}"
| "card_zone_op_players (CardProjectionSet pid zone iid crd) = {pid}"
| "card_zone_op_players (CardCountersSet pid zone iid counters) = {pid}"
| "card_zone_op_players (CardStatsSet pid zone iid st) = {pid}"
| "card_zone_op_players (CardsStateSet pid zone states) = {pid}"
| "card_zone_op_players (CardCreate pid zone crd index) = {pid}"
| "card_zone_op_players (ZoneCountsSet pid counts) = {pid}"
| "card_zone_op_players (ZoneVisibleSet pid zone cards) = {pid}"

fun player_op_players :: "player_op \<Rightarrow> string set" where
  "player_op_players (GameCountersSet scope counters) = {}"
| "player_op_players (PlayerLifeSet pid v) = {pid}"
| "player_op_players (PlayerCountersSet pid m) = {pid}"
| "player_op_players (PlayerCommanderDamageSet pid m) = {pid}"
| "player_op_players (PlayerSleevesSet pid name) = {pid}"
| "player_op_players (PlayerBackgroundSet pid name) = {pid}"
| "player_op_players (PlayerLibraryVisibilitySet pid revealed revealedTo) = {pid}"
| "player_op_players (PlayerStatusSet pid status concededAt) = {pid}"
| "player_op_players (PlayerPresenceSet pid online) = {pid}"

fun patch_op_players :: "patch_op \<Rightarrow> string set" where
  "patch_op_players (CardZoneOp op) = card_zone_op_players op"
| "patch_op_players (PlayerOp op) = player_op_players op"
| "patch_op_players (TableOp op) = {}"
| "patch_op_players (UnknownOp name) = {}"

definition frame :: "string set \<Rightarrow> game_snapshot \<Rightarrow> game_snapshot \<Rightarrow> bool" where
  "frame pids s t \<longleftrightarrow> sn_version t = sn_version s \<and> dom (sn_players t) = dom (sn_players s) \<and>
     (\<forall>pid. pid \<notin> pids \<longrightarrow> sn_players t pid = sn_players s pid)"

lemma frame_refl [simp]: "frame pids s s"
  by (simp add: frame_def)

lemma frame_trans: "frame ps s t \<Longrightarrow> frame qs t u \<Longrightarrow> frame (ps \<union> qs) s u"
  by (simp add: frame_def)

lemma frame_trans_same: "frame ps s t \<Longrightarrow> frame ps t u \<Longrightarrow> frame ps s u"
  by (simp add: frame_def)

lemma frame_mono: "frame ps s t \<Longrightarrow> ps \<subseteq> qs \<Longrightarrow> frame qs s t"
  by (auto simp: frame_def)

lemma frame_setPlayer: "sn_players s pid = Some q \<Longrightarrow> frame {pid} s (setPlayer s pid p)"
  by (auto simp: frame_def)

section \<open>The helpers\<close>

lemma updatePlayer_frame: "updatePlayer s pid f = OpApplied t \<Longrightarrow> frame {pid} s t"
  by (auto simp: updatePlayer_def split: option.splits intro: frame_setPlayer)

lemma replaceZoneSnapshotOnly_frame: "replaceZoneSnapshotOnly s pid z cs = Inr t \<Longrightarrow> frame {pid} s t"
  by (auto simp: replaceZoneSnapshotOnly_def split: option.splits intro: frame_setPlayer)

lemma replaceZone_frame: "replaceZone s pid z cs = Inr (OpApplied t) \<Longrightarrow> frame {pid} s t"
  by (auto simp: replaceZone_def js_bind_eq_Inr intro: replaceZoneSnapshotOnly_frame)

lemma updateCard_frame: "updateCard s pid z iid f = Inr (OpApplied t) \<Longrightarrow> frame {pid} s t"
  by (auto simp: updateCard_def split: option.splits intro: replaceZone_frame)

lemma applyCardPositions_frame: "applyCardPositions s pid z ps = Inr (OpApplied t) \<Longrightarrow> frame {pid} s t"
  by (auto simp: applyCardPositions_def Let_def split: option.split_asm if_split_asm
      intro: replaceZone_frame)

lemma applyCardsState_frame: "applyCardsState s pid z ps = Inr (OpApplied t) \<Longrightarrow> frame {pid} s t"
  by (auto simp: applyCardsState_def Let_def split: option.split_asm if_split_asm
      intro: replaceZone_frame)

lemma createCard_frame: "createCard s pid z crd i = Inr (OpApplied t) \<Longrightarrow> frame {pid} s t"
  by (auto simp: createCard_def split: option.split_asm if_split_asm intro: replaceZone_frame)

lemma replaceVisibleZone_frame: "replaceVisibleZone s pid z cs = Inr (OpApplied t) \<Longrightarrow> frame {pid} s t"
  by (auto simp: replaceVisibleZone_def js_bind_eq_Inr split: option.split_asm if_split_asm
      intro: replaceZone_frame)

lemma rebaseHandRevealIndexes_frame: "frame {pid} s (rebaseHandRevealIndexes s pid is)"
  by (auto simp: rebaseHandRevealIndexes_def Let_def split: option.split intro: frame_setPlayer)

lemma rebaseAfterMove_frame: "frame {zr_playerId (mv_from mv)} s (rebaseAfterMove mv i s)"
  by (simp add: rebaseAfterMove_def rebaseHandRevealIndexes_frame split: option.split)

lemma finishZoneCounts_frame: "finishZoneCounts s pid c = OpApplied t \<Longrightarrow> frame {pid} s t"
  by (auto simp: finishZoneCounts_def split: option.splits intro: updatePlayer_frame)

lemma removeFromZones_frame: "removeFromZones s pid iid zs = Inr t \<Longrightarrow> frame {pid} s t"
proof (induction zs arbitrary: s)
  case (Cons z zs)
  then obtain u cs where "replaceZoneSnapshotOnly s pid z cs = Inr u" "removeFromZones u pid iid zs = Inr t"
    by (auto simp: js_bind_eq_Inr split: option.splits)
  then show ?case using replaceZoneSnapshotOnly_frame Cons.IH frame_trans_same by blast
qed simp

lemma removeCard_zones:
  assumes "removeCard s rmv = Inr (OpApplied t)" and "sn_players s (rmv_playerId rmv) = Some p"
  obtains u h where
    "removeFromZones s (rmv_playerId rmv) (rmv_instanceId rmv)
       (filter (holdsCard p (rmv_instanceId rmv)) ZONE_NAMES) = Inr u"
    "finishZoneCounts (case h of None \<Rightarrow> u
       | Some i \<Rightarrow> rebaseHandRevealIndexes u (rmv_playerId rmv) [int i])
       (rmv_playerId rmv) (rmv_zoneCounts rmv) = OpApplied t"
proof -
  obtain cards where cards: "pl_zones p (rmv_zone rmv) = Some cards"
    using assms by (auto simp: removeCard_def Let_def split: option.split_asm)
  then obtain u where "removeFromZones s (rmv_playerId rmv) (rmv_instanceId rmv)
       (filter (holdsCard p (rmv_instanceId rmv)) ZONE_NAMES) = Inr u"
    "finishZoneCounts (case (if rmv_zone rmv = Hand
          then find_index (\<lambda>c. card_instanceId c = rmv_instanceId rmv) cards else None) of None \<Rightarrow> u
       | Some i \<Rightarrow> rebaseHandRevealIndexes u (rmv_playerId rmv) [int i])
       (rmv_playerId rmv) (rmv_zoneCounts rmv) = OpApplied t"
    using assms
    by (simp add: removeCard_def Let_def js_bind_eq_Inr split: if_split_asm) blast+
  then show ?thesis by (rule that)
qed

lemma removeCard_frame:
  assumes "removeCard s rmv = Inr (OpApplied t)"
  shows "frame {rmv_playerId rmv} s t"
proof -
  obtain p where "sn_players s (rmv_playerId rmv) = Some p"
    using assms by (auto simp: removeCard_def Let_def split: option.split_asm)
  from removeCard_zones [OF assms this] obtain u h zs
    where "removeFromZones s (rmv_playerId rmv) (rmv_instanceId rmv) zs = Inr u"
    "finishZoneCounts (case h of None \<Rightarrow> u | Some i \<Rightarrow> rebaseHandRevealIndexes u (rmv_playerId rmv) [int i])
      (rmv_playerId rmv) (rmv_zoneCounts rmv) = OpApplied t" by blast
  then show ?thesis
    using rebaseHandRevealIndexes_frame [of "rmv_playerId rmv" u]
    by (cases h) (auto dest!: removeFromZones_frame finishZoneCounts_frame dest: frame_trans_same)
qed

lemma movedZones_frame:
  assumes "zoneCards s fromId fromZone = Some old" and "zoneCards s toId toZone = Some old'"
  shows "frame {fromId, toId} s (movedZones s fromId fromZone fs toId toZone ts)"
  using assms by (auto simp: zoneCards_Some movedZones_def Let_def frame_def)

lemma moveCard_cases:
  assumes "moveCard s mv = Inr (OpApplied t)"
  obtains (placed) fromCards toCards i fs ts where
      "zoneCards s (zr_playerId (mv_from mv)) (zr_zone (mv_from mv)) = Some fromCards"
      "zoneCards s (zt_playerId (mv_to mv)) (zt_zone (mv_to mv)) = Some toCards"
      "finishZoneCounts (rebaseAfterMove mv i
         (movedZones s (zr_playerId (mv_from mv)) (zr_zone (mv_from mv)) fs
            (zt_playerId (mv_to mv)) (zt_zone (mv_to mv)) ts))
         (zt_playerId (mv_to mv)) (mv_zoneCounts mv) = OpApplied t"
    | (gone) i u fs where
      "replaceZoneSnapshotOnly s (zr_playerId (mv_from mv)) (zr_zone (mv_from mv)) fs = Inr u"
      "t = rebaseAfterMove mv i u"
proof -
  obtain fc tc where fc: "zoneCards s (zr_playerId (mv_from mv)) (zr_zone (mv_from mv)) = Some fc"
    and tc: "zoneCards s (zt_playerId (mv_to mv)) (zt_zone (mv_to mv)) = Some tc"
    using assms by (auto simp: moveCard_def Let_def split: option.split_asm)
  have idx: "\<not> invalidIndex (zt_index (mv_to mv))"
    using assms fc tc by (auto simp: moveCard_def Let_def split: if_split_asm)
  show thesis
  proof (cases "movingCardOf mv (sourceCardOf (mv_instanceId mv) fc)")
    case (Some c)
    show thesis using assms placed [OF fc tc] by (simp add: moveCard_Some [OF fc tc Some idx])
  next
    case None
    with assms fc tc idx gone show thesis
      by (auto simp: moveCard_def Let_def js_bind_eq_Inr split: if_split_asm)
  qed
qed

lemma moveCard_frame:
  assumes "moveCard s mv = Inr (OpApplied t)"
  shows "frame {zr_playerId (mv_from mv), zt_playerId (mv_to mv)} s t"
  using assms
proof (cases rule: moveCard_cases)
  case (placed fromCards toCards i fs ts)
  let ?pids = "{zr_playerId (mv_from mv), zt_playerId (mv_to mv)}"
  let ?m = "movedZones s (zr_playerId (mv_from mv)) (zr_zone (mv_from mv)) fs
    (zt_playerId (mv_to mv)) (zt_zone (mv_to mv)) ts"
  have "frame ?pids s ?m" using placed(1,2) by (rule movedZones_frame)
  moreover have "frame ?pids ?m (rebaseAfterMove mv i ?m)"
    using rebaseAfterMove_frame by (rule frame_mono) simp
  moreover have "frame ?pids (rebaseAfterMove mv i ?m) t"
    using finishZoneCounts_frame [OF placed(3)] by (rule frame_mono) simp
  ultimately show ?thesis using frame_trans_same by blast
next
  case (gone i u fs)
  from replaceZoneSnapshotOnly_frame [OF gone(1)] rebaseAfterMove_frame [of mv u i]
  show ?thesis using gone(2) frame_trans_same frame_mono by blast
qed

section \<open>Operations and patches\<close>

lemma applyCardZoneOp_frame:
  "applyCardZoneOp s op = Inr (OpApplied t) \<Longrightarrow> frame (card_zone_op_players op) s t"
  by (cases op)
    (simp_all add: updateCard_frame applyCardPositions_frame moveCard_frame removeCard_frame
      applyCardsState_frame createCard_frame updatePlayer_frame replaceVisibleZone_frame)

lemma applyPlayerOp_frame: "applyPlayerOp s op = OpApplied t \<Longrightarrow> frame (player_op_players op) s t"
  by (cases op) (auto simp: updatePlayer_frame, auto simp: frame_def)

lemma applyTableOp_frame: "applyTableOp s op = OpApplied t \<Longrightarrow> frame {} s t"
  by (cases op) (auto simp: step_defs Let_def frame_def split: if_split_asm option.split_asm)

lemma applyOperation_frame:
  "applyOperation s op = Inr (OpApplied t) \<Longrightarrow> frame (patch_op_players op) s t"
  by (cases op) (auto intro: applyCardZoneOp_frame applyPlayerOp_frame applyTableOp_frame)

lemma applyOperationsFrom_frame:
  "applyOperationsFrom s n ops = Inr (OpsApplied t) \<Longrightarrow> frame (\<Union> (patch_op_players ` set ops)) n t"
proof (induction ops arbitrary: n)
  case (Cons op ops)
  then obtain u where "applyOperation n op = Inr (OpApplied u)" "applyOperationsFrom s u ops = Inr (OpsApplied t)"
    by (auto simp: js_bind_def split: sum.splits operation_result.splits)
  with Cons.IH show ?case using applyOperation_frame frame_trans by fastforce
qed simp

text \<open>An applied patch changes only players its operations name. It adds and drops no
  player, and every player that no operation names is kept as it was, zones, life and all.\<close>

theorem patch_changes_named_players_only:
  assumes "applyGameSnapshotPatch s p = Inr (Applied t)"
  shows "dom (sn_players t) = dom (sn_players s) \<and>
     (\<forall>pid. (\<forall>op \<in> set (gp_operations p). pid \<notin> patch_op_players op) \<longrightarrow>
        sn_players t pid = sn_players s pid)"
proof -
  obtain u where "applyOperationsFrom s s (gp_operations p) = Inr (OpsApplied u)"
    and "sn_players t = sn_players u"
    using assms
    by (auto simp: applyGameSnapshotPatch_def applyGameSnapshotPatchOperations_def js_bind_def
        split: patch_decision.splits operations_result.splits sum.splits)
  with applyOperationsFrom_frame [of s s "gp_operations p" u] show ?thesis by (simp add: frame_def)
qed

theorem patch_changes_named_players_only_witness:
  "\<exists>t. applyGameSnapshotPatch two_zone_snapshot play_patch = Inr (Applied t) \<and>
     dom (sn_players t) = dom (sn_players two_zone_snapshot)"
proof -
  obtain t where "applyGameSnapshotPatch two_zone_snapshot play_patch = Inr (Applied t)"
    using play_patch_applies by blast
  with patch_changes_named_players_only [OF this] show ?thesis by blast
qed

end
