(* ===== verification/SnapshotProps.thy ===== *)
theory SnapshotProps
  imports SnapshotFrame
begin

text \<open>
  What the operations of the snapshot reducer do: moving and removing cards, keeping the
  revealed positions of a hand, the event log, the relation lists, the commander flag, and
  the parts of the table an operation leaves alone.
\<close>

section \<open>Revealed hand indexes\<close>

lemma advanceCursor_takeWhile:
  "cursor \<le> length removed \<Longrightarrow> advanceCursor removed cursor index =
     cursor + length (takeWhile (\<lambda>r. r < index) (drop cursor removed))"
proof (induction removed cursor index rule: advanceCursor.induct)
  case (1 removed cursor index)
  show ?case
  proof (cases "cursor < length removed")
    case True
    with 1 show ?thesis
      by (simp add: advanceCursor.simps [of removed cursor] Cons_nth_drop_Suc [symmetric])
  next
    case False
    with "1.prems" show ?thesis by (subst advanceCursor.simps) simp
  qed
qed

lemma advanceCursor_from:
  assumes "cursor \<le> length removed" and "\<And>k. k < cursor \<Longrightarrow> removed ! k < index"
  shows "advanceCursor removed cursor index = length (takeWhile (\<lambda>r. r < index) removed)"
proof -
  have "takeWhile (\<lambda>r. r < index) (take cursor removed @ drop cursor removed) =
      take cursor removed @ takeWhile (\<lambda>r. r < index) (drop cursor removed)"
    using assms by (intro takeWhile_append2) (auto simp: in_set_conv_nth)
  with assms(1) show ?thesis by (simp add: advanceCursor_takeWhile)
qed

lemma sorted_takeWhile_filter:
  fixes xs :: "int list"
  shows "sorted xs \<Longrightarrow> takeWhile (\<lambda>r. r < i) xs = filter (\<lambda>r. r < i) xs"
  by (induction xs) (auto simp: filter_empty_conv eq_commute [of "[]"])

lemma sorted_cursor_hit:
  fixes xs :: "int list"
  shows "sorted xs \<Longrightarrow> (length (takeWhile (\<lambda>r. r < i) xs) < length xs \<and>
     xs ! length (takeWhile (\<lambda>r. r < i) xs) = i) \<longleftrightarrow> i \<in> set xs"
  by (induction xs) auto

definition shiftedIndex :: "int list \<Rightarrow> int \<Rightarrow> int" where
  "shiftedIndex removed index = index - int (card {r \<in> set removed. r < index})"

lemma length_filter_card: "distinct xs \<Longrightarrow> length (filter P xs) = card {x \<in> set xs. P x}"
  by (metis distinct_card distinct_filter set_filter)

lemma rebaseLoop_eq:
  assumes "sorted removed" and "distinct removed" and "sorted indexes"
    and "cursor \<le> length removed"
    and "\<And>i k. i \<in> set indexes \<Longrightarrow> k < cursor \<Longrightarrow> removed ! k < i"
  shows "rebaseLoop removed cursor indexes =
     map (shiftedIndex removed) (filter (\<lambda>i. i \<notin> set removed) indexes)"
  using assms
proof (induction indexes arbitrary: cursor)
  case (Cons i rest)
  let ?c = "advanceCursor removed cursor i"
  have c: "?c = length (takeWhile (\<lambda>r. r < i) removed)"
    using Cons.prems by (intro advanceCursor_from) auto
  have hit: "(?c < length removed \<and> removed ! ?c = i) \<longleftrightarrow> i \<in> set removed"
    using sorted_cursor_hit [OF Cons.prems(1), of i] by (simp add: c)
  have low: "removed ! k < i" if "k < ?c" for k
    using that set_takeWhileD [of "removed ! k" "\<lambda>r. r < i" removed]
    by (metis c nth_mem takeWhile_nth)
  have IH: "rebaseLoop removed ?c rest = map (shiftedIndex removed) (filter (\<lambda>i. i \<notin> set removed) rest)"
  proof (rule Cons.IH)
    show "?c \<le> length removed" by (simp add: c length_takeWhile_le)
    show "removed ! k < j" if "j \<in> set rest" "k < ?c" for j k
      using low [OF that(2)] that(1) Cons.prems(3) by fastforce
  qed (use Cons.prems in auto)
  have "int ?c = int (card {r \<in> set removed. r < i})"
    using Cons.prems(1,2) by (simp add: c sorted_takeWhile_filter length_filter_card)
  with hit IH show ?case by (auto simp: Let_def shiftedIndex_def)
qed simp

lemma clearRevealed_eq:
  assumes "sorted indexes"
  shows "clearRevealedHandIndexes indexes removedIndexes =
     map (shiftedIndex removedIndexes) (filter (\<lambda>i. i \<notin> set removedIndexes) indexes)"
proof -
  have "rebaseLoop (sort (remdups removedIndexes)) 0 indexes =
      map (shiftedIndex removedIndexes) (filter (\<lambda>i. i \<notin> set removedIndexes) indexes)"
    using rebaseLoop_eq [of "sort (remdups removedIndexes)" indexes 0] assms
    by (simp add: shiftedIndex_def)
  moreover have "map (shiftedIndex []) indexes = indexes"
    by (simp add: shiftedIndex_def map_idI)
  moreover have "sort (remdups removedIndexes) = [] \<longleftrightarrow> removedIndexes = []"
    by (metis remdups_eq_nil_iff set_empty set_sort)
  ultimately show ?thesis by (auto simp: clearRevealedHandIndexes_def Let_def)
qed

text \<open>Reading a hand at the revealed positions, before and after a card left it.\<close>

lemma shiftedIndex_single:
  "shiftedIndex [r] i = (if r < i then i - 1 else i)"
proof -
  have "{x \<in> set [r]. x < i} = (if r < i then {r} else {})" by auto
  then show ?thesis by (simp add: shiftedIndex_def)
qed

lemma remove_nth_shifted:
  assumes "r < length hand" and "0 \<le> i" and "i < int (length hand)" and "i \<noteq> int r"
  shows "remove_nth r hand ! nat (shiftedIndex [int r] i) = hand ! nat i"
proof (cases "int r < i")
  case True
  then have "nat (i - 1) < length hand - 1" "\<not> nat (i - 1) < r" "Suc (nat (i - 1)) = nat i"
    using assms by auto
  with True assms(1) show ?thesis by (simp add: shiftedIndex_single nth_remove_nth)
next
  case False
  with assms have "nat i < r" "nat i < length hand - 1" by auto
  with False assms(1) show ?thesis by (simp add: shiftedIndex_single nth_remove_nth)
qed

text \<open>C37: when a card leaves a hand, the rebased reveal indexes still point at the cards they
  pointed at. For ascending indexes within the hand, the cards read at the new indexes in the
  hand without position \<open>r\<close> are the revealed cards other than the one that left, in order.\<close>

theorem revealed_cards_survive_removal:
  assumes "sorted indexes" and "list_all (\<lambda>i. 0 \<le> i \<and> i < int (length hand)) indexes"
    and "r < length hand"
  shows "map (\<lambda>i. remove_nth r hand ! nat i) (clearRevealedHandIndexes indexes [int r]) =
     map (\<lambda>i. hand ! nat i) (filter (\<lambda>i. i \<noteq> int r) indexes)"
  using assms
  by (auto simp: clearRevealed_eq list_all_iff intro!: remove_nth_shifted)

theorem revealed_cards_survive_removal_witness:
  "map (\<lambda>i. remove_nth 1 [10, 20, 30, 40 :: nat] ! nat i) (clearRevealedHandIndexes [0, 1, 3] [int 1]) =
     map (\<lambda>i. [10, 20, 30, 40] ! nat i) (filter (\<lambda>i. i \<noteq> int 1) [0, 1, 3])"
  by (rule revealed_cards_survive_removal) simp_all

section \<open>Moving a card\<close>

definition zoneIds :: "game_snapshot \<Rightarrow> string \<Rightarrow> game_zone_name \<Rightarrow> string list" where
  "zoneIds s pid z = (case zoneCards s pid z of None \<Rightarrow> [] | Some cards \<Rightarrow> map card_instanceId cards)"

lemma zoneIds_Some [simp]: "zoneCards s pid z = Some cards \<Longrightarrow> zoneIds s pid z = map card_instanceId cards"
  by (simp add: zoneIds_def)

lemma zoneCards_setPlayer:
  "zoneCards (setPlayer s pid p) pid' z = (if pid' = pid then pl_zones p z else zoneCards s pid' z)"
  by (simp add: zoneCards_def)

lemma zoneCards_movedZones:
  assumes "zoneCards s fromId fromZone = Some old" and "zoneCards s toId toZone = Some old'"
  shows "zoneCards (movedZones s fromId fromZone fromCards toId toZone toCards) pid z =
     (if pid = toId \<and> z = toZone then Some toCards
      else if pid = fromId \<and> z = fromZone then Some fromCards
      else zoneCards s pid z)"
  using assms
  by (auto simp: movedZones_def Let_def zoneCards_setPlayer zoneCards_Some zoneCards_def
      split: option.splits)

lemma zoneCards_rebase [simp]: "zoneCards (rebaseHandRevealIndexes s pid is) pid' z = zoneCards s pid' z"
  by (auto simp: rebaseHandRevealIndexes_def Let_def zoneCards_def split: option.splits)

lemma zoneCards_rebaseAfterMove [simp]: "zoneCards (rebaseAfterMove mv i s) pid z = zoneCards s pid z"
  by (auto simp: rebaseAfterMove_def split: option.splits)

lemma zoneCards_updatePlayer:
  assumes "updatePlayer s pid f = OpApplied t" and "\<And>p q. f p = Some q \<Longrightarrow> pl_zones q = pl_zones p"
  shows "zoneCards t pid' z = zoneCards s pid' z"
  using assms
  by (auto simp: updatePlayer_def zoneCards_setPlayer split: option.splits) (simp add: zoneCards_def)

lemma zoneCards_finish:
  assumes "finishZoneCounts s pid c = OpApplied t"
  shows "zoneCards t pid' z = zoneCards s pid' z"
proof (cases c)
  case None
  with assms show ?thesis by (simp add: finishZoneCounts_def)
next
  case (Some zc)
  with assms have "updatePlayer s pid (\<lambda>p. applyZoneCounts p zc) = OpApplied t"
    by (simp add: finishZoneCounts_def)
  then show ?thesis by (rule zoneCards_updatePlayer) (rule applyZoneCounts_zones)
qed

lemma map_filter_key: "map f (filter (\<lambda>x. f x \<noteq> k) xs) = filter (\<lambda>y. y \<noteq> k) (map f xs)"
  by (induction xs) auto

lemma find_index_key:
  "k \<in> f ` set xs \<Longrightarrow> \<exists>i. find_index (\<lambda>x. f x = k) xs = Some i"
  by (induction xs) auto

lemma sourceCardOf_mem:
  assumes "iid \<in> card_instanceId ` set cs"
  obtains c where "sourceCardOf iid cs = Some c" and "c \<in> set cs" and "card_instanceId c = iid"
proof -
  obtain i where "find_index (\<lambda>c. card_instanceId c = iid) cs = Some i"
    using find_index_key [OF assms] by blast
  then have src: "sourceCardOf iid cs = Some (cs ! i)" by (simp add: sourceCardOf_def)
  show ?thesis using that [OF src] sourceCardOf_id [OF src] by blast
qed

lemma nextFromCardsOf_present:
  "iid \<in> card_instanceId ` set cs \<Longrightarrow>
     nextFromCardsOf iid cs = filter (\<lambda>c. card_instanceId c \<noteq> iid) cs"
  using find_index_key [of iid card_instanceId cs] by (auto simp: nextFromCardsOf_def)

lemma movingCardOf_present: "\<exists>c. movingCardOf mv (Some d) = Some c"
  by (simp add: movingCardOf_def split: option.split)

lemma moveCard_index: "moveCard s mv = Inr (OpApplied t) \<Longrightarrow> \<not> invalidIndex (zt_index (mv_to mv))"
  by (auto simp: moveCard_def Let_def split: option.splits if_splits)

text \<open>The zones after an applied move of a card between two zones, \<open>placed\<close> being the card
  as it is stored in the target zone.\<close>

definition zonesAfterMove ::
  "game_snapshot \<Rightarrow> card_move_op \<Rightarrow> game_card_instance list \<Rightarrow> game_card_instance list \<Rightarrow>
   game_card_instance \<Rightarrow> string \<Rightarrow> game_zone_name \<Rightarrow> game_card_instance list option" where
  "zonesAfterMove s mv fromCards toCards placed pid z =
     (let others = filter (\<lambda>c. card_instanceId c \<noteq> mv_instanceId mv) in
      if pid = zt_playerId (mv_to mv) \<and> z = zt_zone (mv_to mv)
      then Some (insert_at (insertIndex (zt_index (mv_to mv)) (length (others toCards))) placed (others toCards))
      else if pid = zr_playerId (mv_from mv) \<and> z = zr_zone (mv_from mv)
      then Some (others fromCards)
      else zoneCards s pid z)"

lemma move_between_zones:
  assumes fc: "zoneCards s (zr_playerId (mv_from mv)) (zr_zone (mv_from mv)) = Some fromCards"
    and tc: "zoneCards s (zt_playerId (mv_to mv)) (zt_zone (mv_to mv)) = Some toCards"
    and other: "\<not> sameZone mv"
    and present: "mv_instanceId mv \<in> card_instanceId ` set fromCards"
    and op: "card_zone_op_wf (CardMove mv)"
    and run: "applyOperation s (CardZoneOp (CardMove mv)) = Inr (OpApplied t)"
  shows "\<exists>src c. sourceCardOf (mv_instanceId mv) fromCards = Some src \<and>
     movingCardOf mv (Some src) = Some c \<and> card_instanceId c = mv_instanceId mv \<and>
     zoneCards t = zonesAfterMove s mv fromCards toCards (placedCard mv c (Some src))"
proof -
  let ?tcs = "filter (\<lambda>c. card_instanceId c \<noteq> mv_instanceId mv) toCards"
  obtain src where src: "sourceCardOf (mv_instanceId mv) fromCards = Some src"
    using present by (rule sourceCardOf_mem)
  obtain c where c: "movingCardOf mv (sourceCardOf (mv_instanceId mv) fromCards) = Some c"
    using movingCardOf_present src by metis
  have cid: "card_instanceId c = mv_instanceId mv" using movingCardOf_id [OF op] c by simp
  have idx: "\<not> invalidIndex (zt_index (mv_to mv))" using run moveCard_index by simp
  have target: "targetCardsAfterRemoval mv c (nextFromCardsOf (mv_instanceId mv) fromCards) toCards = ?tcs"
    using other by (simp add: targetCardsAfterRemoval_def cid)
  let ?to = "insert_at (insertIndex (zt_index (mv_to mv)) (length ?tcs)) (placedCard mv c (Some src)) ?tcs"
  note moved = moveCard_Some [OF fc tc c idx, unfolded target src]
  have "zoneCards t pid z = zoneCards (movedZones s (zr_playerId (mv_from mv))
      (zr_zone (mv_from mv)) (nextFromCardsOf (mv_instanceId mv) fromCards)
      (zt_playerId (mv_to mv)) (zt_zone (mv_to mv)) ?to) pid z" for pid z
    using run zoneCards_finish [of _ _ _ t pid z] by (simp add: moved)
  then have "zoneCards t = zonesAfterMove s mv fromCards toCards (placedCard mv c (Some src))"
    using nextFromCardsOf_present [OF present]
    by (intro ext) (simp add: zoneCards_movedZones [OF fc tc] zonesAfterMove_def Let_def)
  with src c cid show ?thesis by simp
qed

text \<open>\<open>card.move\<close> of a card that its source zone holds, into another zone. When the
  operation is applied the card has left the source zone, stands in the target zone exactly
  once, at the requested index or at the end, the other cards keep their order, and no other
  zone of any player changes.\<close>

theorem move_card_between_zones:
  assumes "zoneCards s (zr_playerId (mv_from mv)) (zr_zone (mv_from mv)) = Some fromCards"
    and "zoneCards s (zt_playerId (mv_to mv)) (zt_zone (mv_to mv)) = Some toCards"
    and other: "\<not> sameZone mv"
    and "mv_instanceId mv \<in> card_instanceId ` set fromCards"
    and "card_zone_op_wf (CardMove mv)"
    and "applyOperation s (CardZoneOp (CardMove mv)) = Inr (OpApplied t)"
  defines "iid \<equiv> mv_instanceId mv"
  defines "rest \<equiv> filter (\<lambda>i. i \<noteq> iid) (map card_instanceId toCards)"
  shows "zoneIds t (zr_playerId (mv_from mv)) (zr_zone (mv_from mv)) =
           filter (\<lambda>i. i \<noteq> iid) (map card_instanceId fromCards) \<and>
         zoneIds t (zt_playerId (mv_to mv)) (zt_zone (mv_to mv)) =
           insert_at (insertIndex (zt_index (mv_to mv)) (length rest)) iid rest \<and>
         (\<forall>pid z. (pid, z) \<notin> {(zr_playerId (mv_from mv), zr_zone (mv_from mv)),
                              (zt_playerId (mv_to mv), zt_zone (mv_to mv))} \<longrightarrow>
            zoneCards t pid z = zoneCards s pid z)"
proof -
  obtain src c where cid: "card_instanceId c = mv_instanceId mv"
    and zones: "zoneCards t = zonesAfterMove s mv fromCards toCards (placedCard mv c (Some src))"
    using move_between_zones [OF assms(1-6)] by blast
  let ?tc = "filter (\<lambda>c. card_instanceId c \<noteq> mv_instanceId mv) toCards"
  have rest: "map card_instanceId ?tc = rest" by (simp add: rest_def iid_def filter_map comp_def)
  then have "length ?tc = length rest" by (metis length_map)
  with rest other show ?thesis
    by (auto simp: zoneIds_def sameZone_def cid iid_def map_filter_key zones zonesAfterMove_def Let_def)
qed

theorem move_card_between_zones_witness:
  "\<exists>t. zoneIds t ''a'' Hand = [''c2''] \<and> zoneIds t ''a'' Battlefield = [''c1'', ''b1'']"
proof -
  obtain t where "applyOperation two_zone_snapshot (CardZoneOp (CardMove play_first_card)) = Inr (OpApplied t)"
    using play_first_card_runs by blast
  from move_card_between_zones [of two_zone_snapshot play_first_card, OF _ _ _ _ _ this]
  have "zoneIds t ''a'' Hand = [''c2''] \<and> zoneIds t ''a'' Battlefield = [''c1'', ''b1'']"
    using play_first_card_zones
    by (simp add: play_first_card_def sameZone_def bare_card_def insertIndex_def insert_at_def)
  then show ?thesis by blast
qed

section \<open>Removing a card\<close>

lemma removeFromZones_zones:
  "removeFromZones s pid iid zs = Inr t \<Longrightarrow> zoneCards t pid' z =
     (if pid' = pid \<and> z \<in> set zs
      then map_option (filter (\<lambda>c. card_instanceId c \<noteq> iid)) (zoneCards s pid z)
      else zoneCards s pid' z)"
proof (induction zs arbitrary: s)
  case (Cons x xs)
  then obtain cards p where x: "zoneCards s pid x = Some cards" and p: "sn_players s pid = Some p"
    by (auto simp: zoneCards_def split: option.splits)
  let ?u = "setPlayer s pid (p\<lparr>pl_zones := (pl_zones p)(x \<mapsto> filter (\<lambda>c. card_instanceId c \<noteq> iid) cards)\<rparr>)"
  have "removeFromZones ?u pid iid xs = Inr t"
    using Cons.prems x p by (simp add: replaceZoneSnapshotOnly_Some)
  from Cons.IH [OF this] x p show ?case
    by (auto simp: zoneCards_setPlayer zoneCards_def option.map_comp comp_def)
qed simp

lemma holdsCard_filter:
  "\<not> holdsCard p iid z \<Longrightarrow> pl_zones p z = Some cards \<Longrightarrow>
     filter (\<lambda>i. i \<noteq> iid) (map card_instanceId cards) = map card_instanceId cards"
  by (auto simp: holdsCard_def filter_id_conv)

text \<open>\<open>card.remove\<close> takes the card out of every zone of its player, not only out of the
  zone the operation names, keeps the order of the other cards and leaves the zones of every
  other player as they were.\<close>

theorem remove_card_everywhere:
  assumes "applyOperation s (CardZoneOp (CardRemove rmv)) = Inr (OpApplied t)"
  shows "zoneIds t (rmv_playerId rmv) z =
           filter (\<lambda>i. i \<noteq> rmv_instanceId rmv) (zoneIds s (rmv_playerId rmv) z) \<and>
         (pid \<noteq> rmv_playerId rmv \<longrightarrow> zoneCards t pid z = zoneCards s pid z)"
proof -
  let ?pid = "rmv_playerId rmv" and ?iid = "rmv_instanceId rmv"
  obtain p where p: "sn_players s ?pid = Some p" and all: "\<And>z. pl_zones p z \<noteq> None"
    using assms by (auto simp: removeCard_def Let_def split: option.splits if_splits)
  let ?zs = "filter (holdsCard p ?iid) ZONE_NAMES"
  have run: "removeCard s rmv = Inr (OpApplied t)" using assms by simp
  obtain u h where u: "removeFromZones s ?pid ?iid ?zs = Inr u"
    and fin: "finishZoneCounts (case h of None \<Rightarrow> u | Some i \<Rightarrow> rebaseHandRevealIndexes u ?pid [int i])
      ?pid (rmv_zoneCounts rmv) = OpApplied t"
    using removeCard_zones [OF run p] by blast
  have t: "zoneCards t q y = zoneCards u q y" for q y
    using zoneCards_finish [OF fin, of q y] by (simp split: option.splits)
  obtain cards where cards: "pl_zones p z = Some cards" using all by blast
  then have "zoneCards s ?pid z = Some cards" using p by (simp add: zoneCards_def)
  moreover have "holdsCard p ?iid z \<longleftrightarrow> z \<in> set ?zs" by (cases z) (simp_all add: ZONE_NAMES_def)
  ultimately show ?thesis
    using removeFromZones_zones [OF u] holdsCard_filter [OF _ cards, of ?iid]
    by (auto simp: t zoneIds_def map_filter_key)
qed

theorem remove_card_everywhere_witness:
  "\<exists>t. zoneIds t ''a'' Hand = [''c2''] \<and> zoneCards t ''b'' Hand = zoneCards two_zone_snapshot ''b'' Hand"
proof -
  obtain t where "applyOperation two_zone_snapshot (CardZoneOp (CardRemove drop_first_card)) = Inr (OpApplied t)"
    using drop_first_card_runs by blast
  from remove_card_everywhere [OF this, of Hand "''b''"]
  show ?thesis by (auto simp: drop_first_card_def play_first_card_zones bare_card_def)
qed

text \<open>Removing a card of a player one of whose zones is not an array throws a
  \<open>TypeError\<close> instead of asking for a resynchronisation, although the zone the operation names
  is an array that holds the card: the reducer reads every zone of the player.\<close>

theorem remove_card_throws_on_missing_zone:
  assumes "sn_players s (rmv_playerId rmv) = Some p"
    and "pl_zones p (rmv_zone rmv) = Some cards"
    and "pl_zones p z = None"
  shows "applyOperation s (CardZoneOp (CardRemove rmv)) = Inl TypeError"
proof -
  have "\<exists>z. pl_zones p z = None" using assms(3) by blast
  with assms(1,2) show ?thesis by (simp add: removeCard_def Let_def)
qed

theorem remove_card_throws_on_missing_zone_witness:
  "applyOperation (setPlayer bare_snapshot ''a'' (bare_player\<lparr>pl_zones :=
       bare_zones(Hand \<mapsto> [bare_card ''c1''], Exile := None)\<rparr>)) (CardZoneOp (CardRemove drop_first_card)) =
     Inl TypeError"
  by (rule remove_card_throws_on_missing_zone [of _ _ "bare_player\<lparr>pl_zones :=
       bare_zones(Hand \<mapsto> [bare_card ''c1''], Exile := None)\<rparr>" "[bare_card ''c1'']" Exile])
    (simp_all add: drop_first_card_def)

section \<open>Commanders\<close>

lemma preserveCommander_flag:
  "card_isCommander c = None \<Longrightarrow> card_isCommander src = Some True \<Longrightarrow>
     card_isCommander (preserveCommanderIdentity c (Some src)) = Some True"
  by (simp add: preserveCommanderIdentity_def)

lemma preserveCommander_keeps:
  "card_isCommander c = Some b \<Longrightarrow> preserveCommanderIdentity c src = c"
  by (simp add: preserveCommanderIdentity_def)

lemma placedCard_commander:
  assumes "movingCardOf mv (Some src) = Some c" and "card_isCommander src = Some True"
    and "\<And>d. mv_card mv = Some d \<Longrightarrow> card_isCommander d = None"
  shows "card_isCommander (placedCard mv c (Some src)) = Some True"
  using assms
  by (auto simp: movingCardOf_def placedCard_def preserveCommanderIdentity_def Let_def
      split: option.split_asm if_split_asm)

text \<open>A commander stays a commander. When \<open>card.move\<close> takes a commander from one zone to
  another and the card the message carries, if any, says nothing about the flag, the card in
  the target zone is marked as a commander.\<close>

theorem move_keeps_commander:
  assumes "zoneCards s (zr_playerId (mv_from mv)) (zr_zone (mv_from mv)) = Some fromCards"
    and "zoneCards s (zt_playerId (mv_to mv)) (zt_zone (mv_to mv)) = Some toCards"
    and "\<not> sameZone mv"
    and "sourceCardOf (mv_instanceId mv) fromCards = Some src" and "card_isCommander src = Some True"
    and "card_zone_op_wf (CardMove mv)"
    and "\<And>d. mv_card mv = Some d \<Longrightarrow> card_isCommander d = None"
    and "applyOperation s (CardZoneOp (CardMove mv)) = Inr (OpApplied t)"
  shows "\<exists>cards c. zoneCards t (zt_playerId (mv_to mv)) (zt_zone (mv_to mv)) = Some cards \<and>
     c \<in> set cards \<and> card_instanceId c = mv_instanceId mv \<and> card_isCommander c = Some True"
proof -
  have present: "mv_instanceId mv \<in> card_instanceId ` set fromCards"
    using sourceCardOf_id [OF assms(4)] by force
  obtain src' c where src: "sourceCardOf (mv_instanceId mv) fromCards = Some src'"
    and c: "movingCardOf mv (Some src') = Some c" and cid: "card_instanceId c = mv_instanceId mv"
    and zones: "zoneCards t = zonesAfterMove s mv fromCards toCards (placedCard mv c (Some src'))"
    using move_between_zones [OF assms(1-3) present assms(6,8)] by blast
  have "card_isCommander (placedCard mv c (Some src')) = Some True"
    using placedCard_commander [OF c] src assms(4,5,7) by simp
  then show ?thesis by (auto simp: zones zonesAfterMove_def Let_def cid)
qed

theorem move_keeps_commander_witness:
  "\<exists>t cards c. applyOperation commander_snapshot (CardZoneOp (CardMove play_first_card)) = Inr (OpApplied t) \<and>
     zoneCards t ''a'' Battlefield = Some cards \<and> c \<in> set cards \<and>
     card_instanceId c = ''c1'' \<and> card_isCommander c = Some True"
proof -
  obtain t where t: "applyOperation commander_snapshot (CardZoneOp (CardMove play_first_card)) = Inr (OpApplied t)"
    using play_commander_runs by blast
  have "\<exists>cards c. zoneCards t (zt_playerId (mv_to play_first_card)) (zt_zone (mv_to play_first_card)) = Some cards \<and>
     c \<in> set cards \<and> card_instanceId c = mv_instanceId play_first_card \<and> card_isCommander c = Some True"
    by (rule move_keeps_commander
        [of commander_snapshot _ "[(bare_card ''c1'')\<lparr>card_isCommander := Some True\<rparr>]" "[]"
          "(bare_card ''c1'')\<lparr>card_isCommander := Some True\<rparr>", OF _ _ _ _ _ _ _ t])
      (simp_all add: commander_snapshot_def zoneCards_def play_first_card_def bare_zones_def
        sameZone_def sourceCardOf_def bare_card_def)
  with t show ?thesis by (auto simp: play_first_card_def)
qed

end
