(* ===== verification/SnapshotTable.thy ===== *)
theory SnapshotTable
  imports SnapshotSamples
begin

text \<open>
  The rest of the table: the event log as a list of latest entries, the relation lists (stack,
  arrows, attachments, battlefield stacks) as keyed collections, and the frame of an
  operation, that is what it leaves as it was.
\<close>

section \<open>The event log\<close>

text \<open>The distinct elements of a list in the order of their first occurrence, the order in
  which a JavaScript \<open>Map\<close> keeps its keys.\<close>

definition firsts :: "'a list \<Rightarrow> 'a list" where
  "firsts xs = rev (remdups (rev xs))"

lemma firsts_simps [simp]:
  "firsts [] = []"
  "firsts (xs @ [x]) = (if x \<in> set xs then firsts xs else firsts xs @ [x])"
  by (simp_all add: firsts_def)

lemma set_firsts [simp]: "set (firsts xs) = set xs"
  by (simp add: firsts_def)

lemma distinct_firsts [simp]: "distinct (firsts xs)"
  by (simp add: firsts_def)

lemma firsts_id: "distinct xs \<Longrightarrow> firsts xs = xs"
  by (simp add: firsts_def distinct_remdups_id)

lemma firsts_append_subset: "set ys \<subseteq> set xs \<Longrightarrow> firsts (xs @ ys) = firsts xs"
proof (induction ys rule: rev_induct)
  case (snoc y ys)
  then show ?case using firsts_simps(2) [of "xs @ ys" y] by auto
qed simp

text \<open>The reference: the entry a log holds for an id is the last one written with that id.\<close>

definition latestEntry :: "game_log_entry list \<Rightarrow> string \<rightharpoonup> game_log_entry" where
  "latestEntry es = map_of (rev (map (\<lambda>e. (le_id e, e)) es))"

definition latestEntries :: "game_log_entry list \<Rightarrow> game_log_entry list" where
  "latestEntries es = map (\<lambda>i. the (latestEntry es i)) (firsts (map le_id es))"

lemma latestEntry_snoc: "latestEntry (es @ [e]) = (latestEntry es)(le_id e \<mapsto> e)"
  by (simp add: latestEntry_def)

lemma latestEntry_None: "latestEntry es i = None \<longleftrightarrow> i \<notin> le_id ` set es"
  by (force simp: latestEntry_def map_of_eq_None_iff)

lemma collectEntries_latest:
  "collectEntries es (firsts (map le_id ps)) (latestEntry ps) =
     (firsts (map le_id (ps @ es)), latestEntry (ps @ es))"
proof (induction es arbitrary: ps)
  case (Cons e es)
  have key: "(if latestEntry ps (le_id e) = None then firsts (map le_id ps) @ [le_id e]
      else firsts (map le_id ps)) = firsts (map le_id (ps @ [e]))"
    by (auto simp: latestEntry_None)
  show ?case
    unfolding collectEntries.simps key latestEntry_snoc [symmetric] Cons.IH [of "ps @ [e]"] by simp
qed simp

lemma appendUnique_latest:
  "appendUniqueEventLogEntries xs ys = slice_last MAX_EVENT_LOG_ENTRIES (latestEntries (xs @ ys))"
  using collectEntries_latest [of "xs @ ys" "[]"]
  by (simp add: appendUniqueEventLogEntries_def latestEntries_def latestEntry_def)

lemma latestEntry_mem: "latestEntry es i = Some e \<Longrightarrow> e \<in> set es \<and> le_id e = i"
  by (auto simp: latestEntry_def dest!: map_of_SomeD)

lemma latestEntry_distinct:
  assumes "distinct (map le_id es)" and "e \<in> set es"
  shows "latestEntry es (le_id e) = Some e"
  using assms by (auto simp: latestEntry_def rev_map [symmetric] map_of_eq_Some_iff comp_def)

lemma latestEntries_replay:
  assumes "distinct (map le_id es)" and "set ys \<subseteq> set es"
  shows "latestEntries (es @ ys) = es"
proof -
  have old: "latestEntry (es @ ys) (le_id e) = Some e" if "e \<in> set es" for e
  proof -
    have "latestEntry (es @ ys) (le_id e) \<noteq> None" using that by (auto simp: latestEntry_None)
    then obtain d where d: "latestEntry (es @ ys) (le_id e) = Some d" by blast
    then have "d \<in> set es" "le_id d = le_id e"
      using latestEntry_mem [OF d] assms(2) by auto
    then have "d = e" using assms(1) that by (auto simp: distinct_map inj_on_def)
    with d show ?thesis by simp
  qed
  have "firsts (map le_id (es @ ys)) = map le_id es"
    using assms by (simp add: firsts_append_subset firsts_id image_mono)
  then show ?thesis by (auto simp: latestEntries_def old intro!: map_idI)
qed

text \<open>Appending to the event log keeps, for each id, the position of its first entry and
  the content of its last one, and of the resulting list the last 250 entries.\<close>

theorem event_log_append:
  "applyTableOp s (EventLogAppend entries) =
     OpApplied (s\<lparr>sn_eventLog :=
       slice_last 250 (latestEntries (sn_eventLog s @ entries))\<rparr>)"
  by (simp add: appendUnique_latest MAX_EVENT_LOG_ENTRIES_def)

text \<open>On a well-formed snapshot, appending entries that the log already holds changes
  nothing: a log that is sent twice is the log sent once.\<close>

theorem event_log_replay:
  assumes "snapshot_wf s" and "set entries \<subseteq> set (sn_eventLog s)"
  shows "applyTableOp s (EventLogAppend entries) = OpApplied s"
  using assms by (simp add: appendUnique_latest latestEntries_replay snapshot_wf_def table_wf_def)

theorem event_log_replay_witness:
  "applyTableOp (two_zone_snapshot\<lparr>sn_eventLog := [sample_entry ''e'']\<rparr>) (EventLogAppend [sample_entry ''e'']) =
     OpApplied (two_zone_snapshot\<lparr>sn_eventLog := [sample_entry ''e'']\<rparr>)"
  by (rule event_log_replay)
    (use two_zone_wf in \<open>simp_all add: snapshot_wf_def table_wf_def attachmentsOf_def
      battlefieldStacksOf_def MAX_EVENT_LOG_ENTRIES_def\<close>)

section \<open>Relation lists\<close>

text \<open>The contract of a list kept by id: adding an element with a new id, refusing one whose
  id is taken, removing by id, and failing to remove what is not there.\<close>

locale keyed_collection =
  fixes items :: "game_snapshot \<Rightarrow> 'e list"
    and key :: "'e \<Rightarrow> string"
    and add :: "game_snapshot \<Rightarrow> 'e \<Rightarrow> operation_result"
    and remove :: "game_snapshot \<Rightarrow> string \<Rightarrow> operation_result"
  assumes add_taken: "key e \<in> key ` set (items s) \<Longrightarrow> add s e = OpFailed InvalidOperation"
    and add_new: "key e \<notin> key ` set (items s) \<Longrightarrow>
      \<exists>t. add s e = OpApplied t \<and> items t = items s @ [e]"
    and remove_missing: "k \<notin> key ` set (items s) \<Longrightarrow> remove s k = OpFailed TargetNotFound"
    and remove_held: "k \<in> key ` set (items s) \<Longrightarrow>
      \<exists>t. remove s k = OpApplied t \<and> items t = filter (\<lambda>e. key e \<noteq> k) (items s)"
begin

lemma add_items: "add s e = OpApplied t \<Longrightarrow> key e \<notin> key ` set (items s) \<and> items t = items s @ [e]"
  using add_taken [of e s] add_new [of e s] by fastforce

lemma remove_items:
  "remove s k = OpApplied t \<Longrightarrow> k \<in> key ` set (items s) \<and> items t = filter (\<lambda>e. key e \<noteq> k) (items s)"
  using remove_missing [of k s] remove_held [of k s] by fastforce

lemma add_twice: "add s e = OpApplied t \<Longrightarrow> add t e = OpFailed InvalidOperation"
  using add_items [of s e t] by (simp add: add_taken)

lemma remove_twice: "remove s k = OpApplied t \<Longrightarrow> remove t k = OpFailed TargetNotFound"
  using remove_items [of s k t] by (auto intro!: remove_missing)

lemma add_remove:
  assumes "add s e = OpApplied t"
  shows "\<exists>u. remove t (key e) = OpApplied u \<and> items u = items s"
  using add_items [OF assms] remove_held [of "key e" t] by (auto simp: filter_neq_id)

lemma add_distinct: "add s e = OpApplied t \<Longrightarrow> distinct (map key (items s)) \<Longrightarrow> distinct (map key (items t))"
  using add_items by fastforce

lemma roundtrip:
  assumes "add s e = OpApplied t"
  shows "add t e = OpFailed InvalidOperation \<and>
     (\<exists>u. remove t (key e) = OpApplied u \<and> items u = items s \<and>
          remove u (key e) = OpFailed TargetNotFound)"
  using add_remove [OF assms] add_twice [OF assms] remove_twice by blast

end

interpretation stack_list: keyed_collection sn_stack si_id addStackItem removeStackItem
  by unfold_locales (auto simp: step_defs image_iff eq_commute)

interpretation arrow_list: keyed_collection sn_arrows ar_id addArrow removeArrow
  by unfold_locales (auto simp: step_defs image_iff eq_commute)

interpretation attachment_list: keyed_collection attachmentsOf at_id addAttachment removeAttachment
  by unfold_locales (auto simp: step_defs image_iff eq_commute attachmentsOf_def)

interpretation bstack_list:
  keyed_collection battlefieldStacksOf bs_id addBattlefieldStack removeBattlefieldStack
  by unfold_locales (auto simp: step_defs image_iff eq_commute battlefieldStacksOf_def)

text \<open>An arrow that was added can be removed by its id, which gives the list before; a
  second copy of either message fails, so that the client resynchronises instead of holding
  the arrow twice or dropping it silently.\<close>

theorem arrow_add_remove:
  assumes "applyTableOp s (ArrowAdd arrow) = OpApplied t"
  shows "applyTableOp t (ArrowAdd arrow) = OpFailed InvalidOperation \<and>
     (\<exists>u. applyTableOp t (ArrowRemove (ar_id arrow)) = OpApplied u \<and> sn_arrows u = sn_arrows s \<and>
          applyTableOp u (ArrowRemove (ar_id arrow)) = OpFailed TargetNotFound)"
  using arrow_list.roundtrip assms by simp

definition sample_arrow :: game_arrow where
  "sample_arrow = \<lparr>ar_id = ''x'', ar_ownerId = None, ar_fromInstanceId = ''c1'',
     ar_toInstanceId = ''b1'', ar_color = ''red'', ar_createdAt = []\<rparr>"

theorem arrow_add_remove_witness:
  "\<exists>t. applyTableOp two_zone_snapshot (ArrowAdd sample_arrow) = OpApplied t \<and>
     applyTableOp t (ArrowAdd sample_arrow) = OpFailed InvalidOperation"
proof -
  obtain t where "applyTableOp two_zone_snapshot (ArrowAdd sample_arrow) = OpApplied t"
    by (simp add: addArrow_def two_zone_version)
  with arrow_add_remove [OF this] show ?thesis by blast
qed

text \<open>The same for attachments, whose list is optional in the snapshot.\<close>

theorem attachment_add_remove:
  assumes "applyTableOp s (AttachmentAdd attachment) = OpApplied t"
  shows "applyTableOp t (AttachmentAdd attachment) = OpFailed InvalidOperation \<and>
     (\<exists>u. applyTableOp t (AttachmentRemove (at_id attachment)) = OpApplied u \<and>
          attachmentsOf u = attachmentsOf s \<and>
          applyTableOp u (AttachmentRemove (at_id attachment)) = OpFailed TargetNotFound)"
  using attachment_list.roundtrip assms by simp

definition sample_attachment :: game_attachment where
  "sample_attachment = \<lparr>at_id = ''x'', at_ownerId = None, at_equipmentInstanceId = ''c1'',
     at_attachedToInstanceId = ''b1'', at_createdAt = []\<rparr>"

theorem attachment_add_remove_witness:
  "\<exists>t. applyTableOp two_zone_snapshot (AttachmentAdd sample_attachment) = OpApplied t \<and>
     applyTableOp t (AttachmentAdd sample_attachment) = OpFailed InvalidOperation"
proof -
  obtain t where "applyTableOp two_zone_snapshot (AttachmentAdd sample_attachment) = OpApplied t"
    by (simp add: addAttachment_def attachmentsOf_def two_zone_version)
  with attachment_add_remove [OF this] show ?thesis by blast
qed

end
