(* ===== verification/GameplaySocket.thy ===== *)
theory GameplaySocket
  imports CommandQueue
begin

text \<open>
  The operations of \<open>GameTableWebsocketGameplayService\<close>: sending commands, the handlers of the
  server's messages, resynchronisation, mulligan messages, starting and stopping. A step of the
  service is one of these, or a timer, a refetch that ends, or a change of what it shares with
  others. A handler that awaits a resync stops there; what it still does is a continuation, which
  runs when the refetch ends, and not at all when the refetch fails, because the await then throws.

  The chain that handles the patches of the second protocol one after the other is not modelled, so
  what holds of all runs holds for every order of them. Notifications of the user interface
  (animations, dialogs, dice) and the debug channel have no effect on the service and are left out.
\<close>

section \<open>Resynchronisation\<close>

definition int_string :: "int \<Rightarrow> string" where
  "int_string n = (if n < 0 then ''-'' @ nat_string (nat (- n)) else nat_string (nat n))"

definition refetchGuardSignature :: "string \<Rightarrow> string \<Rightarrow> int \<Rightarrow> string" where
  "refetchGuardSignature gameId reason version = join_strings ''|'' [gameId, reason, int_string version]"

definition allowRefetch :: "int \<Rightarrow> string \<Rightarrow> gameplay \<Rightarrow> bool \<times> gameplay" where
  "allowRefetch now signature s =
     (let guard = prune_map (\<lambda>timestamp. now - timestamp \<le> REFETCH_GUARD_WINDOW_MS) (gp_refetchGuard s)
      in case guard signature of
        Some previous \<Rightarrow>
          if now - previous \<le> REFETCH_GUARD_WINDOW_MS then (False, s\<lparr>gp_refetchGuard := guard\<rparr>)
          else (True, s\<lparr>gp_refetchGuard := guard(signature \<mapsto> now)\<rparr>)
      | None \<Rightarrow> (True, s\<lparr>gp_refetchGuard := guard(signature \<mapsto> now)\<rparr>))"

text \<open>The last part of \<open>handleCommandResyncRequired\<close>.\<close>

definition retryOrGiveUp :: "runtime \<Rightarrow> int \<Rightarrow> pending_command \<Rightarrow> gameplay \<Rightarrow> gameplay" where
  "retryOrGiveUp rt now c s =
     (if \<not> pc_retryable c \<or> pc_retryCount c \<ge> MAX_RETRY_COUNT
      then drainQueue rt now (publishQueueMetrics now (settle (pc_listeners c)
        (RejectedWith ''WebSocket command requires resync and cannot be retried automatically.'')
        (recordDeadLetter now c ResyncRetryExhausted ''Resync required and retry budget exhausted.'' s)))
      else drainQueue rt now (publishQueueMetrics now
        (count_up (\<lambda>q. q\<lparr>qc_retryTotal := qc_retryTotal q + 1\<rparr>)
          (s\<lparr>gp_commandQueue := c\<lparr>pc_retryCount := pc_retryCount c + 1, pc_messageId := [],
               pc_clientActionId := [], pc_timeoutId := 0\<rparr> # gp_commandQueue s\<rparr>))))"

definition runContinuation :: "runtime \<Rightarrow> int \<Rightarrow> continuation \<Rightarrow> gameplay \<Rightarrow> gameplay" where
  "runContinuation rt now k s = (case k of
     FinishPatch clientActionId \<Rightarrow> drainQueue rt now (snd (resolveInFlightCommand now clientActionId None s))
   | DrainOnly \<Rightarrow> drainQueue rt now s
   | RetryCommand c \<Rightarrow> retryOrGiveUp rt now c s
   | NothingMore \<Rightarrow> s)"

text \<open>
  The handler joins the refetch that runs or waits to start; else it starts one, unless one for the
  same reason and version has just been started.
\<close>

definition requestResync ::
  "runtime \<Rightarrow> int \<Rightarrow> nat \<Rightarrow> string \<Rightarrow> int \<Rightarrow> continuation \<Rightarrow> gameplay \<Rightarrow> gameplay" where
  "requestResync rt now ctx reason version k s =
     (case (gp_resync s, gp_queuedResync s) of
        (Some r, _) \<Rightarrow> s\<lparr>gp_refetchWaiters := gp_refetchWaiters s @ [(r, k)]\<rparr>
      | (None, Some q) \<Rightarrow> s\<lparr>gp_queuedWaiters := gp_queuedWaiters s @ [(q, k)]\<rparr>
      | (None, None) \<Rightarrow>
          (case allowRefetch now (refetchGuardSignature (gx_gameId (gp_contexts s ctx)) reason version) s of
             (False, t) \<Rightarrow> runContinuation rt now k (publishQueueMetrics now t)
           | (True, t) \<Rightarrow>
               let q = gp_fresh t in
               t\<lparr>gp_fresh := Suc q, gp_queuedResync := Some q, gp_tasks := gp_tasks t @ [StartRefetch q ctx],
                 gp_queuedWaiters := gp_queuedWaiters t @ [(q, k)]\<rparr>))"

text \<open>The queued refetch starts; the promise of an earlier one that is still there is taken instead.\<close>

definition startRefetch :: "int \<Rightarrow> nat \<Rightarrow> nat \<Rightarrow> gameplay \<Rightarrow> gameplay" where
  "startRefetch now q ctx s =
     (if StartRefetch q ctx \<notin> set (gp_tasks s) then s
      else let t = publishQueueMetrics now (count_up (\<lambda>c. c\<lparr>qc_resyncTotal := qc_resyncTotal c + 1\<rparr>)
            (s\<lparr>gp_tasks := remove1 (StartRefetch q ctx) (gp_tasks s), gp_queuedResync := None\<rparr>))
        in case gp_resync t of
          None \<Rightarrow> t\<lparr>gp_resync := Some q, gp_tasks := gp_tasks t @ [Refetching q ctx]\<rparr>
        | Some r \<Rightarrow> t\<lparr>gp_queuedWaiters := map (\<lambda>(i, k). (if i = q then r else i, k)) (gp_queuedWaiters t)\<rparr>)"

definition awaiting :: "nat \<Rightarrow> (nat \<times> continuation) list \<Rightarrow> continuation list" where
  "awaiting r waiters = map snd (filter (\<lambda>(i, _). i = r) waiters)"

text \<open>The \<open>finally\<close> of the refetch, then the handlers that waited for it.\<close>

definition finishRefetch :: "runtime \<Rightarrow> int \<Rightarrow> nat \<Rightarrow> nat \<Rightarrow> bool \<Rightarrow> gameplay \<Rightarrow> gameplay" where
  "finishRefetch rt now r ctx ok s =
     (if Refetching r ctx \<notin> set (gp_tasks s) then s
      else let ks = awaiting r (gp_refetchWaiters s) @ awaiting r (gp_queuedWaiters s);
               t = drainQueue rt now (s\<lparr>gp_tasks := remove1 (Refetching r ctx) (gp_tasks s), gp_resync := None,
                 gp_refetchWaiters := filter (\<lambda>(i, _). i \<noteq> r) (gp_refetchWaiters s),
                 gp_queuedWaiters := filter (\<lambda>(i, _). i \<noteq> r) (gp_queuedWaiters s)\<rparr>)
        in if ok then fold (runContinuation rt now) ks t else t)"

section \<open>Sending commands\<close>

text \<open>What \<open>sendCommand\<close> answers: \<open>false\<close>, an error, or the promise of this caller.\<close>

datatype send_reply = NotSent | SendBlocked | Waiting nat

text \<open>The pending command of a caller; its promise is the caller's.\<close>

definition createPendingCommand :: "runtime \<Rightarrow> nat \<Rightarrow> string \<Rightarrow> payload \<Rightarrow> nat \<Rightarrow> pending_command" where
  "createPendingCommand rt ctx type payload caller = \<lparr>pc_id = caller, pc_messageId = [],
     pc_clientActionId = [], pc_type = type, pc_payload = payload,
     pc_signature = commandSignature (rt_number rt) type payload, pc_context = ctx, pc_retryCount = 0,
     pc_retryable = (type \<in> set RETRYABLE_COMMANDS), pc_coalesceKey = coalesceKey type payload,
     pc_listeners = [caller], pc_timeoutId = 0\<rparr>"

definition attachToInFlightCommand :: "string \<Rightarrow> string \<Rightarrow> nat \<Rightarrow> gameplay \<Rightarrow> gameplay option" where
  "attachToInFlightCommand type signature caller s =
     (if type \<notin> set IN_FLIGHT_DEDUPED_COMMANDS then None
      else case gp_inFlight s of
        None \<Rightarrow> None
      | Some c \<Rightarrow>
          if pc_type c = type \<and> pc_signature c = signature
          then Some (s\<lparr>gp_inFlight := Some (c\<lparr>pc_listeners := pc_listeners c @ [caller]\<rparr>)\<rparr>)
          else None)"

definition LIMITED_MESSAGE :: string where
  "LIMITED_MESSAGE = ''Accion temporalmente limitada para evitar saturacion.''"

definition submitCommand ::
  "runtime \<Rightarrow> int \<Rightarrow> nat \<Rightarrow> string \<Rightarrow> payload \<Rightarrow> nat \<Rightarrow> gameplay \<Rightarrow> gameplay" where
  "submitCommand rt now ctx type payload caller s =
     (let pending = createPendingCommand rt ctx type payload caller;
          t = (if isPositionCommand type
            then count_up (\<lambda>c. c\<lparr>qc_positionCommandsPerDrag := qc_positionCommandsPerDrag c + 1\<rparr>) s else s)
      in case enqueueCommand rt now pending t of
        (True, u) \<Rightarrow> drainQueue rt now u
      | (False, u) \<Rightarrow> drainQueue rt now (settle [caller] (RejectedWith QUEUE_FULL_MESSAGE)
          (setErrorThrottled now (pc_signature pending @ '':queue_full'') LIMITED_MESSAGE
            (recordDeadLetter now pending QueueFull QUEUE_FULL_MESSAGE
              (count_up (\<lambda>c. c\<lparr>qc_queueFullTotal := qc_queueFullTotal c + 1\<rparr>) u)))))"

definition sendCommand ::
  "runtime \<Rightarrow> int \<Rightarrow> nat \<Rightarrow> string \<Rightarrow> payload \<Rightarrow> gameplay \<Rightarrow> send_reply \<times> gameplay" where
  "sendCommand rt now ctx type payload s =
     (if \<not> isMigratedCommand type \<or> gp_status s \<noteq> SocketConnected
         \<or> gx_snapshot (gp_contexts s ctx) = None \<or> gx_gameId (gp_contexts s ctx) = []
      then (NotSent, s)
      else case websocketPayload type payload of
        None \<Rightarrow> (NotSent, s)
      | Some commandPayload \<Rightarrow>
          let signature = commandSignature (rt_number rt) type commandPayload in
          case isCircuitBlocked now signature (pruneRejectionTelemetry now s) of
            (True, t) \<Rightarrow> (SendBlocked, setErrorThrottled now (signature @ '':circuit'') LIMITED_MESSAGE
              (recordAdhocDeadLetter now (gx_gameId (gp_contexts s ctx)) type CircuitBlocked
                ''Action temporarily blocked after repeated command rejections.''
                (count_up (\<lambda>c. c\<lparr>qc_circuitBlockedTotal := qc_circuitBlockedTotal c + 1\<rparr>) t)))
          | (False, t) \<Rightarrow>
              let caller = gp_callers t; u = t\<lparr>gp_callers := Suc caller\<rparr> in
              (Waiting caller, case attachToInFlightCommand type signature caller u of
                 Some v \<Rightarrow> v
               | None \<Rightarrow> submitCommand rt now ctx type commandPayload caller u))"

section \<open>Messages of the server\<close>

datatype conflict_classification = ConcurrentWrite | StaleClient

record version_conflict =
  vc_currentVersion :: int
  vc_classification :: conflict_classification

record error_payload =
  ep_code :: string
  ep_message :: string
  ep_conflict :: "version_conflict option"

datatype ack_status = AckRejected | AckDuplicate | AckResyncRequired

record command_ack =
  ack_messageId :: "string option"
  ack_clientActionId :: string
  ack_status :: ack_status
  ack_version :: int
  ack_error :: "error_payload option"

datatype resync_reason = ResyncVersionGap | StaleBaseVersion | PermissionChanged | ProjectionUnavailable

record resync_message =
  rm_currentVersion :: int
  rm_reason :: resync_reason
  rm_clientActionId :: "string option"

record error_message =
  em_messageId :: "string option"
  em_clientActionId :: "string option"
  em_error :: error_payload

datatype server_message =
    ConnectionState
  | GamePatch game_patch
  | PatchV2 patch_envelope
  | CommandAck command_ack
  | ResyncRequiredMessage resync_message
  | ErrorMessage error_message
  | MulliganErrorMessage "string option" error_payload
  | MulliganCompleted int
  | OtherMessage

fun failure_text :: "failure_reason \<Rightarrow> string" where
  "failure_text VersionGap = ''version_gap''"
| "failure_text TargetNotFound = ''target_not_found''"
| "failure_text InvalidOperation = ''invalid_operation''"

fun v2_failure_text :: "v2_failure \<Rightarrow> string" where
  "v2_failure_text V2VersionGap = ''version_gap''"
| "v2_failure_text V2TargetNotFound = ''target_not_found''"
| "v2_failure_text V2InvalidOperation = ''invalid_operation''"
| "v2_failure_text V2MissingState = ''missing_state''"

fun resync_reason_text :: "resync_reason \<Rightarrow> string" where
  "resync_reason_text ResyncVersionGap = ''version_gap''"
| "resync_reason_text StaleBaseVersion = ''stale_base_version''"
| "resync_reason_text PermissionChanged = ''permission_changed''"
| "resync_reason_text ProjectionUnavailable = ''projection_unavailable''"

definition setSnapshot :: "nat \<Rightarrow> game_snapshot \<Rightarrow> gameplay \<Rightarrow> gameplay" where
  "setSnapshot ctx snapshot s = s\<lparr>gp_contexts := (gp_contexts s)(ctx :=
     (gp_contexts s ctx)\<lparr>gx_snapshot := Some snapshot\<rparr>)\<rparr>"

section \<open>Patches\<close>

definition finishPatch :: "runtime \<Rightarrow> int \<Rightarrow> string option \<Rightarrow> gameplay \<Rightarrow> gameplay" where
  "finishPatch rt now clientActionId s =
     drainQueue rt now (snd (resolveInFlightCommand now clientActionId None s))"

text \<open>A patch the reducer throws on leaves everything as it is: the handler's promise is rejected.\<close>

definition handlePatch :: "runtime \<Rightarrow> int \<Rightarrow> nat \<Rightarrow> game_patch \<Rightarrow> gameplay \<Rightarrow> gameplay" where
  "handlePatch rt now ctx patch s =
     (case gx_snapshot (gp_contexts s ctx) of
        None \<Rightarrow> requestResync rt now ctx ''missing_state'' (gp_version patch)
          (FinishPatch (gp_clientActionId patch)) s
      | Some snapshot \<Rightarrow> (case applyGameSnapshotPatch snapshot patch of
          Inl e \<Rightarrow> s
        | Inr (Applied next') \<Rightarrow> finishPatch rt now (gp_clientActionId patch) (setSnapshot ctx next' s)
        | Inr (Ignored _) \<Rightarrow> finishPatch rt now (gp_clientActionId patch) s
        | Inr (ResyncRequired _ reason) \<Rightarrow> requestResync rt now ctx (failure_text reason) (gp_version patch)
            (FinishPatch (gp_clientActionId patch)) s))"

text \<open>The patch arrives here with its static cards, where the handler waits for the resolver.\<close>

definition handlePatchV2 :: "runtime \<Rightarrow> int \<Rightarrow> nat \<Rightarrow> patch_envelope \<Rightarrow> gameplay \<Rightarrow> gameplay" where
  "handlePatchV2 rt now ctx patch s =
     (if \<not> gp_v2Enabled s then s
      else case storeApplyPatch (rt_same rt) (rt_collation rt) (gp_store s) patch of
        (StoreApplied _ snapshot, store) \<Rightarrow> finishPatch rt now (pe_ackClientActionId patch)
          (setSnapshot ctx snapshot (s\<lparr>gp_store := store\<rparr>))
      | (StoreIgnored _ _, store) \<Rightarrow> finishPatch rt now (pe_ackClientActionId patch) (s\<lparr>gp_store := store\<rparr>)
      | (StoreResync _ reason, store) \<Rightarrow> requestResync rt now ctx (v2_failure_text reason) (pe_version patch)
          (FinishPatch (pe_ackClientActionId patch)) (s\<lparr>gp_store := store\<rparr>))"

text \<open>Static cards that were looked up after the patch; an exception of the projection is caught.\<close>

definition enrichAppliedPatchStaticCards ::
  "runtime \<Rightarrow> nat \<Rightarrow> v2_static_card obj \<Rightarrow> gameplay \<Rightarrow> gameplay" where
  "enrichAppliedPatchStaticCards rt ctx staticCards s =
     (case mergeStaticCards (rt_same rt) (gp_store s) staticCards of
        (Inr (Some snapshot), store) \<Rightarrow> setSnapshot ctx snapshot (s\<lparr>gp_store := store\<rparr>)
      | (_, store) \<Rightarrow> s\<lparr>gp_store := store\<rparr>)"

section \<open>Acknowledgements\<close>

definition snapshotVersion :: "gameplay \<Rightarrow> nat \<Rightarrow> int option" where
  "snapshotVersion s ctx = map_option sn_version (gx_snapshot (gp_contexts s ctx))"

definition normalizedVersion :: "gameplay \<Rightarrow> int option" where
  "normalizedVersion s = map_option v2_lastAppliedVersion (st_state (gp_store s))"

definition isClientSynchronizedAt :: "gameplay \<Rightarrow> nat \<Rightarrow> int \<Rightarrow> bool" where
  "isClientSynchronizedAt s ctx version \<longleftrightarrow>
     or_default (snapshotVersion s ctx) 0 \<ge> version
     \<and> (gp_v2Enabled s \<longrightarrow> or_default (normalizedVersion s) 0 \<ge> version)"

definition canRetryWithoutResync :: "gameplay \<Rightarrow> nat \<Rightarrow> version_conflict option \<Rightarrow> bool" where
  "canRetryWithoutResync s ctx conflict = (case conflict of
     None \<Rightarrow> False
   | Some c \<Rightarrow> vc_classification c = ConcurrentWrite
       \<and> or_default (snapshotVersion s ctx) 0 \<noteq> 0 \<and> snapshotVersion s ctx = Some (vc_currentVersion c))"

text \<open>\<open>ack.error?.code ?? 'resync_required'\<close>; the version of the conflict, else of the message.\<close>

definition conflictOf :: "command_ack \<Rightarrow> version_conflict option" where
  "conflictOf ack = Option.bind (ack_error ack) ep_conflict"

definition handleCommandResyncRequired ::
  "runtime \<Rightarrow> int \<Rightarrow> nat \<Rightarrow> command_ack \<Rightarrow> gameplay \<Rightarrow> gameplay" where
  "handleCommandResyncRequired rt now ctx ack s =
     (case gp_inFlight s of
        None \<Rightarrow> drainQueue rt now (recordLateAckIgnored now s)
      | Some c \<Rightarrow>
          if \<not> matchesInFlight c (Some (ack_clientActionId ack)) (ack_messageId ack)
          then recordLateAckIgnored now s
          else
            let t = (clearTimeout (pc_timeoutId c) s)\<lparr>gp_inFlight := None\<rparr> in
            if canRetryWithoutResync t ctx (conflictOf ack) then retryOrGiveUp rt now c t
            else requestResync rt now ctx
              (case ack_error ack of Some e \<Rightarrow> ep_code e | None \<Rightarrow> ''resync_required'')
              (case conflictOf ack of Some conflict \<Rightarrow> vc_currentVersion conflict | None \<Rightarrow> ack_version ack)
              (RetryCommand c) t)"

text \<open>The in-flight command as the set of suppressed rejections knows it.\<close>

definition inFlightCommandSignature :: "pending_command \<Rightarrow> string" where
  "inFlightCommandSignature c =
     join_strings ''|'' [pc_clientActionId c, pc_messageId c, pc_signature c]"

definition shouldSuppressConcedeTurnChangedRejection ::
  "pending_command \<Rightarrow> command_ack \<Rightarrow> gameplay \<Rightarrow> bool \<times> gameplay" where
  "shouldSuppressConcedeTurnChangedRejection c ack s =
     (if pc_type c \<noteq> ''turn.changed'' \<or> inFlightCommandSignature c \<notin> gp_suppressed s then (False, s)
      else (str_includes ''conceded players cannot perform game actions''
              (js_lower (case ack_error ack of Some e \<Rightarrow> ep_message e | None \<Rightarrow> [])),
            s\<lparr>gp_suppressed := gp_suppressed s - {inFlightCommandSignature c}\<rparr>))"

definition handleRejectedAck :: "runtime \<Rightarrow> int \<Rightarrow> pending_command \<Rightarrow> command_ack \<Rightarrow> gameplay \<Rightarrow> gameplay" where
  "handleRejectedAck rt now c ack s =
     (case shouldSuppressConcedeTurnChangedRejection c ack s of
        (True, t) \<Rightarrow> drainQueue rt now
          (snd (resolveInFlightCommand now (Some (ack_clientActionId ack)) (ack_messageId ack) t))
      | (False, t) \<Rightarrow> drainQueue rt now (snd (rejectInFlightCommand now
          (case ack_error ack of Some e \<Rightarrow> ep_message e | None \<Rightarrow> ''WebSocket command rejected.'')
          (Some (ack_clientActionId ack)) (ack_messageId ack) Rejected
          (trackRejectedSignature now (pc_signature c)
            (count_up (\<lambda>q. q\<lparr>qc_rejectedTotal := qc_rejectedTotal q + 1\<rparr>) t)))))"

definition handleDuplicateAck :: "runtime \<Rightarrow> int \<Rightarrow> nat \<Rightarrow> command_ack \<Rightarrow> gameplay \<Rightarrow> gameplay" where
  "handleDuplicateAck rt now ctx ack s =
     (let t = snd (resolveInFlightCommand now (Some (ack_clientActionId ack)) (ack_messageId ack) s)
      in if isClientSynchronizedAt t ctx (ack_version ack) then drainQueue rt now t
         else requestResync rt now ctx ''duplicate_ack'' (ack_version ack) DrainOnly t)"

definition handleCommandAck :: "runtime \<Rightarrow> int \<Rightarrow> nat \<Rightarrow> command_ack \<Rightarrow> gameplay \<Rightarrow> gameplay" where
  "handleCommandAck rt now ctx ack s =
     (case gp_inFlight s of
        None \<Rightarrow> recordLateAckIgnored now s
      | Some c \<Rightarrow>
          if \<not> matchesInFlight c (Some (ack_clientActionId ack)) (ack_messageId ack)
          then recordLateAckIgnored now s
          else (case ack_status ack of
            AckRejected \<Rightarrow> handleRejectedAck rt now c ack s
          | AckDuplicate \<Rightarrow> handleDuplicateAck rt now ctx ack s
          | AckResyncRequired \<Rightarrow> handleCommandResyncRequired rt now ctx ack s))"

definition handleResyncRequired :: "runtime \<Rightarrow> int \<Rightarrow> nat \<Rightarrow> resync_message \<Rightarrow> gameplay \<Rightarrow> gameplay" where
  "handleResyncRequired rt now ctx m s = requestResync rt now ctx (resync_reason_text (rm_reason m))
     (rm_currentVersion m) DrainOnly (snd (resolveInFlightCommand now (rm_clientActionId m) None s))"

section \<open>Errors\<close>

text \<open>\<^verbatim>\<open>state/core/game-table-error-message.util.ts\<close>, for the payload this service passes.\<close>

definition js_upper :: "string \<Rightarrow> string" where
  "js_upper s = map upper_char s"

definition CANNOT_APPLY :: string where
  "CANNOT_APPLY = ''errors.runtime.no-se-pudo-aplicar-la-accion''"

definition gameTableErrorMessage :: "string \<Rightarrow> string \<Rightarrow> bool \<Rightarrow> string" where
  "gameTableErrorMessage rawCode detail actorDefeated =
     (let code = js_upper (js_trim rawCode); message = js_trim detail;
          haystack = js_lower (code @ '' '' @ message @ '' '')
      in if code = ''BASE_VERSION_MISMATCH'' \<or> str_includes ''base_version_mismatch'' haystack
         then ''game.gameTable.reloadRequiredMessage''
         else if actorDefeated then ''game.gameTable.defeatedActionBlocked''
         else if code = ''QUEUE_FULL'' \<or> code = ''CIRCUIT_BLOCKED''
           \<or> str_includes ''local queue is full'' haystack
           \<or> str_includes ''temporarily blocked after repeated command rejections'' haystack
           \<or> str_includes ''temporarily limited to avoid saturation'' haystack
         then CANNOT_APPLY
         else if code = ''COMMAND_REJECTED'' \<or> str_includes ''command rejected'' haystack
           \<or> str_includes ''invalid action'' haystack
           \<or> str_includes ''not valid in the current state'' haystack
           \<or> str_includes ''action is not valid'' haystack
         then CANNOT_APPLY
         else if str_includes ''invalid payload field: disconnectvote'' haystack
         then ''game.gameDisconnectVoteModal.targetPlayerBackOnline''
         else if message \<noteq> [] then message else CANNOT_APPLY)"

definition handleError :: "runtime \<Rightarrow> int \<Rightarrow> error_message \<Rightarrow> gameplay \<Rightarrow> gameplay" where
  "handleError rt now m s =
     (let ca = em_clientActionId m; mi = em_messageId m; e = em_error m in
      if isCompletedCommandMessage s ca mi then drainQueue rt now (recordLateAckIgnored now s)
      else case rejectInFlightCommand now
          (if ep_message e = [] then ''WebSocket gameplay error.'' else ep_message e) ca mi Rejected s of
        (rejected, t) \<Rightarrow>
          if \<not> rejected \<and> (given ca \<or> given mi) then drainQueue rt now (recordLateAckIgnored now t)
          else drainQueue rt now (setErrorThrottled now
            (join_strings '':'' [or_default ca ''global'', ep_code e, ep_message e])
            (gameTableErrorMessage (ep_code e) (ep_message e) (case gp_context t of
               Some ctx \<Rightarrow> gx_currentPlayerDefeated (gp_contexts t ctx) | None \<Rightarrow> False)) t))"

section \<open>Mulligans\<close>

text \<open>A message sent at once also schedules a refetch of the context, which is not modelled.\<close>

definition sendMulliganMessage :: "client_message \<Rightarrow> gameplay \<Rightarrow> bool \<times> gameplay" where
  "sendMulliganMessage message s =
     (if gp_status s \<noteq> SocketConnected
      then if gp_status s = SocketError \<or> length (gp_mulliganQueue s) \<ge> MULLIGAN_QUEUE_LIMIT then (False, s)
        else (True, s\<lparr>gp_mulliganQueue := gp_mulliganQueue s @ [message]\<rparr>)
      else transportSend message s)"

definition withRandomId ::
  "runtime \<Rightarrow> (string \<Rightarrow> client_message) \<Rightarrow> gameplay \<Rightarrow> bool \<times> gameplay" where
  "withRandomId rt message s =
     sendMulliganMessage (message (rt_randomId rt (gp_fresh s))) (s\<lparr>gp_fresh := Suc (gp_fresh s)\<rparr>)"

definition sendMulliganTake :: "runtime \<Rightarrow> string \<Rightarrow> gameplay \<Rightarrow> bool \<times> gameplay" where
  "sendMulliganTake rt gameId = withRandomId rt (MulliganTake gameId)"

definition sendMulliganKeep :: "runtime \<Rightarrow> string \<Rightarrow> string list option \<Rightarrow> gameplay \<Rightarrow> bool \<times> gameplay" where
  "sendMulliganKeep rt gameId bottom = withRandomId rt (\<lambda>i. MulliganKeep gameId i
     (if or_default bottom [] = [] then None else bottom))"

definition sendMulliganScryConfirm :: "runtime \<Rightarrow> string \<Rightarrow> string \<Rightarrow> gameplay \<Rightarrow> bool \<times> gameplay" where
  "sendMulliganScryConfirm rt gameId destination =
     withRandomId rt (\<lambda>i. MulliganScryConfirm gameId i destination)"

text \<open>The loop sends the messages in order and stops at the first one the transport refuses.\<close>

fun sendAll :: "client_message list \<Rightarrow> gameplay \<Rightarrow> gameplay" where
  "sendAll [] s = s\<lparr>gp_mulliganQueue := []\<rparr>"
| "sendAll (m # ms) s = (case transportSend m s of
     (True, t) \<Rightarrow> sendAll ms t
   | (False, t) \<Rightarrow> t\<lparr>gp_mulliganQueue := m # ms\<rparr>)"

definition drainMulliganQueue :: "gameplay \<Rightarrow> gameplay" where
  "drainMulliganQueue s =
     (if gp_status s \<noteq> SocketConnected then s else sendAll (gp_mulliganQueue s) s)"

definition handleMulliganCompleted :: "runtime \<Rightarrow> int \<Rightarrow> nat \<Rightarrow> int \<Rightarrow> gameplay \<Rightarrow> gameplay" where
  "handleMulliganCompleted rt now ctx version s =
     (if gp_v2Enabled s \<and> version > max (or_default (snapshotVersion s ctx) 0) (or_default (normalizedVersion s) 0)
      then requestResync rt now ctx ''client_behind'' version NothingMore s else s)"

definition handleMulliganError :: "int \<Rightarrow> string option \<Rightarrow> error_payload \<Rightarrow> gameplay \<Rightarrow> gameplay" where
  "handleMulliganError now messageId e s = setErrorThrottled now
     (join_strings '':'' [or_default messageId ''mulligan'', ep_code e, ep_message e])
     (if ep_message e = [] then ''Mulligan action failed.'' else ep_message e) s"

section \<open>Conceding\<close>

definition isTurnChange :: "pending_command \<Rightarrow> bool" where
  "isTurnChange c \<longleftrightarrow> pc_type c = ''turn.changed''"

text \<open>From the last to the first.\<close>

definition resolveQueuedTurnChangedCommands :: "int \<Rightarrow> gameplay \<Rightarrow> gameplay" where
  "resolveQueuedTurnChangedCommands now s =
     (let turns = rev (filter isTurnChange (gp_commandQueue s))
      in fold (\<lambda>c t. publishQueueMetrics now (settle (pc_listeners c) Resolved t)) turns
        (s\<lparr>gp_commandQueue := filter (\<lambda>c. \<not> isTurnChange c) (gp_commandQueue s)\<rparr>))"

definition prepareForLocalConcede :: "int \<Rightarrow> gameplay \<Rightarrow> gameplay" where
  "prepareForLocalConcede now s =
     (let t = resolveQueuedTurnChangedCommands now s
      in case gp_inFlight t of
        Some c \<Rightarrow> if isTurnChange c
          then t\<lparr>gp_suppressed := insert (inFlightCommandSignature c) (gp_suppressed t)\<rparr> else t
      | None \<Rightarrow> t)"

section \<open>Starting and stopping\<close>

definition zero_counters :: queue_counters where
  "zero_counters = \<lparr>qc_enqueueTotal = 0, qc_drainTotal = 0, qc_dropTotal = 0, qc_retryTotal = 0,
     qc_resyncTotal = 0, qc_lateAckIgnoredTotal = 0, qc_rejectedTotal = 0, qc_circuitBlockedTotal = 0,
     qc_queueFullTotal = 0, qc_coalescedPositionEvents = 0, qc_droppedEphemeralEvents = 0,
     qc_positionCommandsPerDrag = 0\<rparr>"

definition resetQueueTelemetry :: "gameplay \<Rightarrow> gameplay" where
  "resetQueueTelemetry s = s\<lparr>gp_counters := zero_counters, gp_refetchGuard := Map.empty,
     gp_deadLetter := [], gp_deadLetterDedupe := Map.empty, gp_rejectedBySignature := Map.empty,
     gp_blockedSignatures := Map.empty, gp_throttledErrors := Map.empty, gp_suppressed := {},
     gp_connectionStateMessages := 0\<rparr>"

definition CLOSED_MESSAGE :: string where
  "CLOSED_MESSAGE = ''WebSocket connection closed before the command completed.''"

definition rejectQueuedCommands :: "int \<Rightarrow> string \<Rightarrow> dead_letter_reason \<Rightarrow> gameplay \<Rightarrow> gameplay" where
  "rejectQueuedCommands now message reason s = publishQueueMetrics now
     (fold (\<lambda>c t. settle (pc_listeners c) (RejectedWith message) (recordDeadLetter now c reason message t))
       (gp_commandQueue s) (s\<lparr>gp_commandQueue := []\<rparr>))"

definition stopGameplay :: "int \<Rightarrow> gameplay \<Rightarrow> gameplay" where
  "stopGameplay now s =
     (let t = s\<lparr>gp_context := None, gp_resync := None, gp_queuedResync := None, gp_refetchGuard := Map.empty,
            gp_completedIds := [], gp_completedIdSet := {}, gp_connected := False\<rparr>;
          u = rejectQueuedCommands now CLOSED_MESSAGE Disconnect
            (snd (rejectInFlightCommand now CLOSED_MESSAGE None None Disconnect t))
      in u\<lparr>gp_mulliganQueue := [], gp_status := SocketStopped, gp_socketOpen := False\<rparr>)"

text \<open>The transport is connecting when \<open>start\<close> returns.\<close>

definition startGameplay :: "int \<Rightarrow> nat \<Rightarrow> gameplay \<Rightarrow> gameplay" where
  "startGameplay now ctx s = (resetQueueTelemetry ((stopGameplay now s)\<lparr>gp_context := Some ctx\<rparr>))
     \<lparr>gp_status := SocketConnecting\<rparr>"

section \<open>Steps\<close>

definition handleMessage :: "runtime \<Rightarrow> int \<Rightarrow> server_message \<Rightarrow> gameplay \<Rightarrow> gameplay" where
  "handleMessage rt now message s = (case gp_context s of
     None \<Rightarrow> s
   | Some ctx \<Rightarrow> (case message of
       ConnectionState \<Rightarrow> drainQueue rt now (drainMulliganQueue
         (s\<lparr>gp_connectionStateMessages := gp_connectionStateMessages s + 1, gp_connected := True\<rparr>))
     | GamePatch patch \<Rightarrow> handlePatch rt now ctx patch s
     | PatchV2 patch \<Rightarrow> handlePatchV2 rt now ctx patch s
     | CommandAck ack \<Rightarrow> handleCommandAck rt now ctx ack s
     | ResyncRequiredMessage m \<Rightarrow> handleResyncRequired rt now ctx m s
     | ErrorMessage m \<Rightarrow> handleError rt now m s
     | MulliganErrorMessage messageId e \<Rightarrow> handleMulliganError now messageId e s
     | MulliganCompleted version \<Rightarrow> handleMulliganCompleted rt now ctx version s
     | OtherMessage \<Rightarrow> s))"

text \<open>A timer that was cleared does not fire.\<close>

definition commandTimeout :: "runtime \<Rightarrow> int \<Rightarrow> nat \<Rightarrow> gameplay \<Rightarrow> gameplay" where
  "commandTimeout rt now timer s = (case gp_timers s timer of
     None \<Rightarrow> s
   | Some (clientActionId, messageId) \<Rightarrow> drainQueue rt now (snd (rejectInFlightCommand now
       ''WebSocket command timed out.'' (Some clientActionId) (Some messageId) Timeout
       (clearTimeout timer s))))"

datatype gameplay_event =
    Start nat
  | Stop
  | Send nat string payload
  | Concede
  | TakeMulligan string
  | KeepMulligan string "string list option"
  | ConfirmScry string string
  | Receive server_message
  | StaticCardsFound nat "v2_static_card obj"
  | TimerFires nat
  | RefetchStarts nat nat
  | RefetchEnds nat nat bool
  | SocketChanges socket_status bool
  | ContextChanges nat gameplay_context
  | StoreChanges v2_store

definition gameplayStep :: "runtime \<Rightarrow> int \<times> gameplay_event \<Rightarrow> gameplay \<Rightarrow> gameplay" where
  "gameplayStep rt ev s = (case ev of (now, e) \<Rightarrow> (case e of
     Start ctx \<Rightarrow> startGameplay now ctx s
   | Stop \<Rightarrow> stopGameplay now s
   | Send ctx type payload \<Rightarrow> snd (sendCommand rt now ctx type payload s)
   | Concede \<Rightarrow> prepareForLocalConcede now s
   | TakeMulligan gameId \<Rightarrow> snd (sendMulliganTake rt gameId s)
   | KeepMulligan gameId bottom \<Rightarrow> snd (sendMulliganKeep rt gameId bottom s)
   | ConfirmScry gameId destination \<Rightarrow> snd (sendMulliganScryConfirm rt gameId destination s)
   | Receive message \<Rightarrow> handleMessage rt now message s
   | StaticCardsFound ctx cards \<Rightarrow> enrichAppliedPatchStaticCards rt ctx cards s
   | TimerFires timer \<Rightarrow> commandTimeout rt now timer s
   | RefetchStarts q ctx \<Rightarrow> startRefetch now q ctx s
   | RefetchEnds r ctx ok \<Rightarrow> finishRefetch rt now r ctx ok s
   | SocketChanges status isOpen \<Rightarrow> s\<lparr>gp_status := status, gp_socketOpen := isOpen\<rparr>
   | ContextChanges ctx c \<Rightarrow> s\<lparr>gp_contexts := (gp_contexts s)(ctx := c)\<rparr>
   | StoreChanges store \<Rightarrow> s\<lparr>gp_store := store\<rparr>))"

definition initial_gameplay :: "bool \<Rightarrow> (nat \<Rightarrow> gameplay_context) \<Rightarrow> gameplay" where
  "initial_gameplay v2 contexts = \<lparr>gp_commandQueue = [], gp_mulliganQueue = [], gp_inFlight = None,
     gp_context = None, gp_resync = None, gp_queuedResync = None, gp_counters = zero_counters,
     gp_refetchGuard = Map.empty, gp_deadLetter = [], gp_deadLetterDedupe = Map.empty,
     gp_completedIds = [], gp_completedIdSet = {}, gp_rejectedBySignature = Map.empty,
     gp_blockedSignatures = Map.empty, gp_throttledErrors = Map.empty, gp_suppressed = {},
     gp_connectionStateMessages = 0, gp_connected = False, gp_v2Enabled = v2,
     gp_status = SocketStopped, gp_socketOpen = False, gp_contexts = contexts, gp_store = empty_store,
     gp_sent = [], gp_settled = [], gp_timers = Map.empty, gp_tasks = [], gp_refetchWaiters = [],
     gp_queuedWaiters = [], gp_fresh = 1, gp_callers = 0\<rparr>"

end
