(* ===== verification/GameplayInv.thy ===== *)
theory GameplayInv
  imports GameplaySocket Replica
begin

text \<open>
  What the operations of the gameplay service keep: every caller of \<open>sendCommand\<close> is waiting in one
  place or has its answer, a timer runs exactly while a command is in flight, and the queue does
  not stand still while it could be sent.
\<close>

section \<open>Operations that only keep records\<close>

text \<open>The part of the state the invariants are about; the records of rejections, dead letters,
  completed ids and counters are no part of it.\<close>

definition core :: "gameplay \<Rightarrow> (pending_command list \<times> pending_command option \<times> (nat \<times> continuation) list
    \<times> (nat \<times> continuation) list \<times> (nat \<times> command_outcome) list) \<times> (nat \<times> (nat \<rightharpoonup> string \<times> string)
    \<times> task list \<times> nat option \<times> nat option \<times> socket_status \<times> nat)" where
  "core s = ((gp_commandQueue s, gp_inFlight s, gp_refetchWaiters s, gp_queuedWaiters s, gp_settled s),
     (gp_callers s, gp_timers s, gp_tasks s, gp_resync s, gp_queuedResync s, gp_status s, gp_fresh s))"

lemma core_fields:
  assumes "core t = core s"
  shows "gp_commandQueue t = gp_commandQueue s" "gp_inFlight t = gp_inFlight s"
    "gp_refetchWaiters t = gp_refetchWaiters s" "gp_queuedWaiters t = gp_queuedWaiters s"
    "gp_settled t = gp_settled s" "gp_callers t = gp_callers s" "gp_timers t = gp_timers s"
    "gp_tasks t = gp_tasks s" "gp_resync t = gp_resync s" "gp_queuedResync t = gp_queuedResync s"
    "gp_status t = gp_status s" "gp_fresh t = gp_fresh s"
  using assms by (simp_all add: core_def)

lemma publish_core: "core (publishQueueMetrics now s) = core s"
  by (simp add: core_def publishQueueMetrics_def pruneRejectionTelemetry_def)

lemma prune_core: "core (pruneRejectionTelemetry now s) = core s"
  by (simp add: core_def pruneRejectionTelemetry_def)

lemma count_core: "core (count_up f s) = core s"
  by (simp add: core_def count_up_def)

lemma dead_letter_core: "core (recordDeadLetter now c reason details s) = core s"
  "core (recordAdhocDeadLetter now gameId type reason details s) = core s"
  by (simp_all add: core_def recordDeadLetter_def recordAdhocDeadLetter_def recordDeadLetterEvent_def Let_def
      split: option.split)

lemma error_core: "core (setErrorThrottled now key' message s) = core s"
  by (simp add: core_def setErrorThrottled_def split: option.split)

lemma late_core: "core (recordLateAckIgnored now s) = core s"
  by (simp add: recordLateAckIgnored_def publish_core count_core)

lemma track_core: "core (trackRejectedSignature now signature s) = core s"
  by (simp add: core_def trackRejectedSignature_def Let_def)

lemma remember_core: "core (rememberCompletedCommand ca mi s) = core s"
  by (simp add: core_def rememberCompletedCommand_def rememberCompletedCommandId_def Let_def)

lemma setSnapshot_core: "core (setSnapshot ctx snapshot s) = core s"
  by (simp add: core_def setSnapshot_def)

lemma store_core: "core (s\<lparr>gp_store := store\<rparr>) = core s" "core (s\<lparr>gp_contexts := contexts\<rparr>) = core s"
  by (simp_all add: core_def)

lemma suppress_core: "core (snd (shouldSuppressConcedeTurnChangedRejection c ack s)) = core s"
  by (simp add: core_def shouldSuppressConcedeTurnChangedRejection_def)

lemma circuit_core: "core (snd (isCircuitBlocked now signature s)) = core s"
  by (simp add: core_def isCircuitBlocked_def split: option.split)

lemmas neutral_fields [simp] = core_fields [OF publish_core] core_fields [OF prune_core]
  core_fields [OF count_core] core_fields [OF dead_letter_core(1)] core_fields [OF
  dead_letter_core(2)] core_fields [OF error_core] core_fields [OF late_core] core_fields [OF
  track_core] core_fields [OF remember_core] core_fields [OF setSnapshot_core] core_fields [OF
  store_core(1)] core_fields [OF store_core(2)] core_fields [OF suppress_core] core_fields [OF
  circuit_core]

section \<open>Who waits, and who has an answer\<close>

definition continuation_commands :: "continuation \<Rightarrow> pending_command list" where
  "continuation_commands k = (case k of RetryCommand c \<Rightarrow> [c] | _ \<Rightarrow> [])"

definition limbo :: "(nat \<times> continuation) list \<Rightarrow> pending_command list" where
  "limbo waiters = concat (map (continuation_commands \<circ> snd) waiters)"

text \<open>A command waits in the queue, in flight, or for a refetch after which it is sent again.\<close>

definition waiting :: "gameplay \<Rightarrow> pending_command multiset" where
  "waiting s = mset (gp_commandQueue s) + (case gp_inFlight s of None \<Rightarrow> {#} | Some c \<Rightarrow> {#c#})
     + (mset (limbo (gp_refetchWaiters s)) + mset (limbo (gp_queuedWaiters s)))"

definition callersOf :: "pending_command multiset \<Rightarrow> nat multiset" where
  "callersOf commands = sum_mset (image_mset (mset \<circ> pc_listeners) commands)"

lemma callersOf_simps [simp]:
  "callersOf {#} = {#}" "callersOf (add_mset c M) = mset (pc_listeners c) + callersOf M"
  "callersOf (M + N) = callersOf M + callersOf N"
  by (simp_all add: callersOf_def)

lemma in_callersOf: "l \<in># callersOf M \<longleftrightarrow> (\<exists>c \<in># M. l \<in> set (pc_listeners c))"
  by (auto simp: callersOf_def)

definition answered :: "gameplay \<Rightarrow> nat multiset" where
  "answered s = mset (map fst (gp_settled s))"

definition accounted :: "gameplay \<Rightarrow> nat multiset" where
  "accounted s = callersOf (waiting s) + answered s"

definition own_callers :: "pending_command multiset \<Rightarrow> bool" where
  "own_callers commands \<longleftrightarrow> (\<forall>c \<in># commands. pc_id c \<in> set (pc_listeners c))"

lemma own_callers_simps [simp]:
  "own_callers {#}" "own_callers (add_mset c M) \<longleftrightarrow> pc_id c \<in> set (pc_listeners c) \<and> own_callers M"
  "own_callers (M + N) \<longleftrightarrow> own_callers M \<and> own_callers N"
  by (auto simp: own_callers_def)

definition timers_ok :: "gameplay \<Rightarrow> bool" where
  "timers_ok s \<longleftrightarrow> gp_timers s = (case gp_inFlight s of None \<Rightarrow> Map.empty
     | Some c \<Rightarrow> [pc_timeoutId c \<mapsto> (pc_clientActionId c, pc_messageId c)])"

text \<open>Callers are numbered; nobody waits twice, waits with an answer or has two answers. The caller
  of a command listens to it. While an operation runs it can hold commands that are nowhere in the
  state.\<close>

definition ledger :: "pending_command multiset \<Rightarrow> gameplay \<Rightarrow> bool" where
  "ledger held s \<longleftrightarrow> accounted s + callersOf held \<subseteq># mset [0..<gp_callers s]
     \<and> own_callers (waiting s + held) \<and> timers_ok s"

definition ledger_ok :: "gameplay \<Rightarrow> bool" where
  "ledger_ok s \<longleftrightarrow> accounted s \<subseteq># mset [0..<gp_callers s] \<and> own_callers (waiting s) \<and> timers_ok s"

lemma ledger_empty: "ledger {#} s = ledger_ok s"
  by (simp add: ledger_def ledger_ok_def)

text \<open>An operation puts the commands it held where they wait or are answered.\<close>

definition regains :: "pending_command multiset \<Rightarrow> gameplay \<Rightarrow> gameplay \<Rightarrow> bool" where
  "regains commands s t \<longleftrightarrow> (\<forall>held. ledger (held + commands) s \<longrightarrow> ledger held t
     \<and> accounted t = accounted s + callersOf commands \<and> gp_callers t = gp_callers s)"

abbreviation keeps :: "gameplay \<Rightarrow> gameplay \<Rightarrow> bool" where
  "keeps \<equiv> regains {#}"

lemma keeps_refl [simp]: "keeps s s"
  by (simp add: regains_def)

lemma regains_trans: "regains M s t \<Longrightarrow> regains N t u \<Longrightarrow> regains (N + M) s u"
  unfolding regains_def by (metis add.assoc callersOf_simps(3) add.commute)

lemma keeps_trans: "keeps s t \<Longrightarrow> keeps t u \<Longrightarrow> keeps s u"
  using regains_trans [of "{#}" s t "{#}" u] by simp

lemma regains_keeps: "regains M s t \<Longrightarrow> keeps t u \<Longrightarrow> regains M s u"
  using regains_trans [of M s t "{#}" u] by simp

lemma keeps_regains: "keeps s t \<Longrightarrow> regains M t u \<Longrightarrow> regains M s u"
  using regains_trans [of "{#}" s t M u] by simp

lemma keeps_ledger:
  assumes "keeps s t" "ledger_ok s"
  shows "ledger_ok t" "accounted t = accounted s" "gp_callers t = gp_callers s"
  using assms by (simp_all add: regains_def ledger_empty [symmetric])

text \<open>Moving commands between the places changes nothing.\<close>

lemma keeps_moved:
  assumes "waiting t = waiting s" "gp_settled t = gp_settled s" "gp_callers t = gp_callers s"
    and "timers_ok s \<Longrightarrow> timers_ok t"
  shows "keeps s t"
  using assms by (simp add: regains_def ledger_def accounted_def answered_def)

lemma keeps_same:
  assumes "gp_commandQueue t = gp_commandQueue s" "gp_inFlight t = gp_inFlight s"
    "gp_refetchWaiters t = gp_refetchWaiters s" "gp_queuedWaiters t = gp_queuedWaiters s"
    "gp_settled t = gp_settled s" "gp_callers t = gp_callers s" "gp_timers t = gp_timers s"
  shows "keeps s t"
  by (rule keeps_moved) (use assms in \<open>simp_all add: waiting_def timers_ok_def\<close>)

lemma keeps_core: "core t = core s \<Longrightarrow> keeps s t"
  by (intro keeps_same core_fields)

lemma submset_distinct:
  assumes "mset xs \<subseteq># mset [0..<n]"
  shows "distinct xs"
proof -
  from assms obtain M where "mset [0..<n] = mset xs + M" by (auto simp: subset_mset.le_iff_add)
  moreover obtain ys where "mset ys = M" by (rule ex_mset [THEN exE])
  ultimately have "mset [0..<n] = mset (xs @ ys)" by simp
  then have "distinct (xs @ ys)" by (metis distinct_upt mset_eq_imp_distinct_iff)
  then show ?thesis by simp
qed

lemma settled_answers:
  assumes "distinct ls" and "set ls \<inter> fst ` set (gp_settled s) = {}"
  shows "gp_settled (settle ls r s) = gp_settled s @ map (\<lambda>l. (l, r)) ls"
proof -
  have "fold (\<lambda>l st. if l \<in> fst ` set st then st else st @ [(l, r)]) ls st = st @ map (\<lambda>l. (l, r)) ls"
    if "distinct ls" "set ls \<inter> fst ` set st = {}" for ls st
    using that by (induction ls arbitrary: st) auto
  from this [OF assms] show ?thesis by (simp add: settle_def)
qed

lemma settle_core [simp]:
  "gp_refetchWaiters (settle ls r s) = gp_refetchWaiters s" "gp_queuedWaiters (settle ls r s) = gp_queuedWaiters s"
  "gp_callers (settle ls r s) = gp_callers s" "gp_timers (settle ls r s) = gp_timers s"
  "gp_resync (settle ls r s) = gp_resync s" "gp_queuedResync (settle ls r s) = gp_queuedResync s"
  "gp_status (settle ls r s) = gp_status s" "gp_fresh (settle ls r s) = gp_fresh s"
  "gp_tasks (settle ls r s) = gp_tasks s"
  "waiting (settle ls r s) = waiting s" "timers_ok (settle ls r s) = timers_ok s"
  by (simp_all add: settle_def waiting_def timers_ok_def)

text \<open>A command that is answered: its callers have their answers.\<close>

lemma settle_regains: "regains {#c#} t (settle (pc_listeners c) r t)"
  unfolding regains_def
proof (intro allI impI)
  fix held assume ok: "ledger (held + {#c#}) t"
  have "mset (pc_listeners c @ map fst (gp_settled t)) \<subseteq># accounted t + callersOf (held + {#c#})"
    by (simp add: accounted_def answered_def)
  also have "\<dots> \<subseteq># mset [0..<gp_callers t]" using ok by (simp add: ledger_def)
  finally have "mset (pc_listeners c @ map fst (gp_settled t)) \<subseteq># mset [0..<gp_callers t]" .
  from submset_distinct [OF this] have "distinct (pc_listeners c)"
    and "set (pc_listeners c) \<inter> fst ` set (gp_settled t) = {}" by auto
  from settled_answers [OF this, of r]
  have ans: "accounted (settle (pc_listeners c) r t) = accounted t + mset (pc_listeners c)"
    by (simp add: accounted_def answered_def comp_def)
  have "ledger held (settle (pc_listeners c) r t)"
    using ok by (simp add: ledger_def ans ac_simps)
  with ans show "ledger held (settle (pc_listeners c) r t)
      \<and> accounted (settle (pc_listeners c) r t) = accounted t + callersOf {#c#}
      \<and> gp_callers (settle (pc_listeners c) r t) = gp_callers t" by simp
qed

text \<open>Commands that are taken out of the state and put back are kept.\<close>

lemma release:
  assumes "waiting s = waiting t + M" "gp_settled t = gp_settled s" "gp_callers t = gp_callers s"
    and "timers_ok s \<Longrightarrow> timers_ok t" and "regains M t u"
  shows "keeps s u"
  unfolding regains_def
proof (intro allI impI)
  fix held assume "ledger (held + {#}) s"
  with assms(1-4) have "ledger (held + M) t"
    by (simp add: ledger_def accounted_def answered_def ac_simps)
  with assms(5) have "ledger held u" "accounted u = accounted t + callersOf M" "gp_callers u = gp_callers t"
    by (simp_all add: regains_def)
  with assms(1-3) show "ledger held u \<and> accounted u = accounted s + callersOf {#} \<and> gp_callers u = gp_callers s"
    by (simp add: accounted_def answered_def ac_simps)
qed

lemma keeps_settled:
  assumes "waiting s = add_mset c (waiting t)" and "gp_settled t = gp_settled s"
    and "gp_callers t = gp_callers s" and "timers_ok s \<Longrightarrow> timers_ok t"
  shows "keeps s (settle (pc_listeners c) r t)"
  by (rule release [OF _ assms(2-4) settle_regains]) (use assms(1) in simp)

lemma regains_publish: "regains M s t \<Longrightarrow> regains M s (publishQueueMetrics now t)"
  by (rule regains_keeps [OF _ keeps_core [OF publish_core]])

lemma waiting_core: "core t = core s \<Longrightarrow> waiting t = waiting s" "core t = core s \<Longrightarrow> timers_ok t = timers_ok s"
  by (simp_all add: core_def waiting_def timers_ok_def)

lemma resolveInFlight_keeps: "keeps s (snd (resolveInFlightCommand now ca mi s))"
proof (cases "gp_inFlight s")
  case None
  then show ?thesis by (simp add: resolveInFlightCommand_def)
next
  case (Some c)
  let ?t = "(clearTimeout (pc_timeoutId c) s)\<lparr>gp_inFlight := None\<rparr>"
  have "keeps s (settle (pc_listeners c) Resolved
      (rememberCompletedCommand (pc_clientActionId c) (pc_messageId c) ?t))"
    by (rule keeps_settled) (simp_all add: waiting_core [OF remember_core] Some waiting_def timers_ok_def clearTimeout_def)
  from regains_publish [OF this] Some show ?thesis by (simp add: resolveInFlightCommand_def)
qed

lemma rejectInFlight_keeps: "keeps s (snd (rejectInFlightCommand now message ca mi reason s))"
proof (cases "gp_inFlight s")
  case None
  then show ?thesis by (simp add: rejectInFlightCommand_def)
next
  case (Some c)
  let ?t = "(clearTimeout (pc_timeoutId c) s)\<lparr>gp_inFlight := None\<rparr>"
  have "keeps s (settle (pc_listeners c) (RejectedWith message) (recordDeadLetter now c reason message ?t))"
    by (rule keeps_settled) (simp_all add: waiting_core [OF dead_letter_core(1)] Some waiting_def timers_ok_def clearTimeout_def)
  from regains_publish [OF this] Some show ?thesis by (simp add: rejectInFlightCommand_def)
qed

section \<open>The queue\<close>

lemma mset_remove_nth: "i < length xs \<Longrightarrow> mset xs = add_mset (xs ! i) (mset (remove_nth i xs))"
  by (subst id_take_nth_drop [of i xs]) (simp_all add: remove_nth_def)

lemma shiftNextCommand_mset: "shiftNextCommand queue = Some (c, rest) \<Longrightarrow> mset queue = add_mset c (mset rest)"
  by (auto simp: shiftNextCommand_def mset_remove_nth split: option.splits list.splits dest: find_index_less)

lemma waiting_dequeue:
  assumes "mset (gp_commandQueue s) = add_mset c (mset rest)"
  shows "waiting s = add_mset c (waiting (s\<lparr>gp_commandQueue := rest\<rparr>))"
  using assms by (simp add: waiting_def split: option.split)

lemma launchCommand_keeps:
  assumes "gp_inFlight s = None" and "mset (gp_commandQueue s) = add_mset c (mset rest)"
    and "core t = core (launchCommand rt now c (s\<lparr>gp_commandQueue := rest\<rparr>))"
  shows "keeps s t"
proof -
  let ?u = "launchCommand rt now c (s\<lparr>gp_commandQueue := rest\<rparr>)"
  let ?ca = "rt_randomId rt (gp_fresh s)" and ?mi = "rt_randomId rt (Suc (gp_fresh s))"
    and ?tm = "Suc (Suc (gp_fresh s))"
  let ?c = "c\<lparr>pc_messageId := ?mi, pc_clientActionId := ?ca, pc_timeoutId := ?tm\<rparr>"
  have u: "gp_inFlight ?u = Some ?c" "gp_timers ?u = (gp_timers s)(?tm \<mapsto> (?ca, ?mi))"
    "gp_settled ?u = gp_settled s" "gp_callers ?u = gp_callers s" "gp_commandQueue ?u = rest"
    "gp_refetchWaiters ?u = gp_refetchWaiters s" "gp_queuedWaiters ?u = gp_queuedWaiters s"
    by (simp_all add: launchCommand_def Let_def)
  have w: "waiting s = add_mset c (waiting (s\<lparr>gp_commandQueue := rest\<rparr>))"
    "waiting ?u = add_mset ?c (waiting (s\<lparr>gp_commandQueue := rest\<rparr>))"
    using assms(1,2) u by (simp_all add: waiting_def)
  moreover have "timers_ok s \<Longrightarrow> timers_ok ?u" using assms(1) u by (simp add: timers_ok_def)
  ultimately have "keeps s ?u" using u by (simp add: regains_def ledger_def accounted_def answered_def)
  from keeps_trans [OF this keeps_core [OF assms(3)]] show ?thesis .
qed

lemma transportSend_core: "core (snd (transportSend m s)) = core s"
  by (simp add: transportSend_def core_def)

text \<open>What holds of every round holds of the whole loop.\<close>

lemma drainQueue_rel:
  assumes step: "\<And>s t again. drainStep rt now s = Some (again, t) \<Longrightarrow> R s t"
    and refl: "\<And>s. R s s" and trans: "\<And>s t u. R s t \<Longrightarrow> R t u \<Longrightarrow> R s u"
  shows "R s (drainQueue rt now s)"
proof (induction "length (gp_commandQueue s)" arbitrary: s rule: less_induct)
  case less
  show ?case
  proof (cases "drainStep rt now s")
    case None
    then show ?thesis by (simp add: drainQueue.simps [of rt now s] refl)
  next
    case (Some r)
    obtain again t where r: "r = (again, t)" by (cases r)
    from Some r have st: "R s t" by (auto intro: step)
    from less [OF drainStep_shorter [OF Some [unfolded r]]] st show ?thesis
      by (cases again) (auto simp: drainQueue.simps [of rt now s] Some r intro: trans)
  qed
qed

lemma drainStep_keeps:
  assumes "drainStep rt now s = Some (again, t)"
  shows "keeps s t"
proof -
  have idle: "gp_inFlight s = None" using assms by (auto simp: drainStep_def split: if_splits)
  obtain c rest where next': "shiftNextCommand (gp_commandQueue s) = Some (c, rest)"
    using assms by (auto simp: drainStep_def split: if_splits option.splits)
  note queue = shiftNextCommand_mset [OF next']
  let ?ctx = "gp_contexts s (pc_context c)" and ?t = "s\<lparr>gp_commandQueue := rest\<rparr>"
  show ?thesis
  proof (cases "if gx_gameId ?ctx = [] then None else gx_snapshot ?ctx")
    case None
    have "keeps s (settle (pc_listeners c) (RejectedWith SNAPSHOT_UNAVAILABLE) ?t)"
      by (rule keeps_settled) (simp_all add: waiting_dequeue [OF queue] timers_ok_def)
    then have "keeps s (publishQueueMetrics now (recordDeadLetter now c Rejected
        ''Local snapshot unavailable while draining queue.''
        (settle (pc_listeners c) (RejectedWith SNAPSHOT_UNAVAILABLE) ?t)))"
      by (intro regains_publish) (rule keeps_trans [OF _ keeps_core [OF dead_letter_core(1)]])
    with None next' assms show ?thesis by (auto simp: drainStep_def Let_def split: if_splits)
  next
    case (Some snapshot)
    let ?ca = "rt_randomId rt (gp_fresh s)" and ?mi = "rt_randomId rt (Suc (gp_fresh s))"
    let ?m = "commandMessage s c ?mi ?ca (sn_version snapshot)"
    obtain sent u where u: "transportSend ?m (launchCommand rt now c ?t) = (sent, u)"
      by (cases "transportSend ?m (launchCommand rt now c ?t)")
    have k: "keeps s u"
      by (rule launchCommand_keeps [OF idle queue])
        (use transportSend_core [of ?m "launchCommand rt now c ?t"] u in simp)
    have "t = (if sent then u else snd (rejectInFlightCommand now
        ''WebSocket gameplay connection is not available.'' (Some ?ca) (Some ?mi) Disconnect u))"
      using Some next' assms u by (auto simp: drainStep_def Let_def split: if_splits bool.splits)
    then show ?thesis using k keeps_trans [OF k rejectInFlight_keeps] by simp
  qed
qed

lemma drainQueue_keeps: "keeps s (drainQueue rt now s)"
  by (rule drainQueue_rel) (auto intro: drainStep_keeps keeps_trans)

section \<open>New commands\<close>

lemma waiting_remove:
  assumes "i < length (gp_commandQueue s)"
  shows "waiting s = add_mset (gp_commandQueue s ! i)
    (waiting (s\<lparr>gp_commandQueue := remove_nth i (gp_commandQueue s)\<rparr>))"
  by (rule waiting_dequeue [OF mset_remove_nth [OF assms]])

lemma dropQueuedAt_keeps:
  assumes "i < length (gp_commandQueue s)"
  shows "keeps s (dropQueuedAt now i s)" and "waiting (dropQueuedAt now i s) \<subseteq># waiting s"
proof -
  let ?c = "gp_commandQueue s ! i" and ?t = "s\<lparr>gp_commandQueue := remove_nth i (gp_commandQueue s)\<rparr>"
  let ?u = "recordDeadLetter now ?c QueueDropped ''Dropped coalescible command due to queue depth cap.''
    (count_up (\<lambda>c. c\<lparr>qc_dropTotal := qc_dropTotal c + 1\<rparr>) ?t)"
  have u: "core ?u = core ?t" by (simp only: dead_letter_core count_core)
  have w: "waiting s = add_mset ?c (waiting ?u)"
    unfolding waiting_core(1) [OF u] by (rule waiting_remove [OF assms])
  have "keeps s (settle (pc_listeners ?c) (RejectedWith QUEUE_FULL_MESSAGE) ?u)"
    by (rule keeps_settled [OF w]) (simp_all only: waiting_core(2) [OF u], simp_all add: timers_ok_def)
  then show "keeps s (dropQueuedAt now i s)" by (simp add: dropQueuedAt_def Let_def)
  have "waiting (dropQueuedAt now i s) = waiting ?u" by (simp add: dropQueuedAt_def Let_def)
  with w show "waiting (dropQueuedAt now i s) \<subseteq># waiting s" by simp
qed

lemma dropDownToCap_keeps: "keeps s (dropDownToCap now s) \<and> waiting (dropDownToCap now s) \<subseteq># waiting s"
proof (induction now s rule: dropDownToCap.induct)
  case (1 now s)
  show ?case
  proof (cases "if totalQueueDepth s > MAX_QUEUE_DEPTH
      then findOldestDroppableQueueIndex (gp_commandQueue s) else None")
    case None
    then have "dropDownToCap now s = s"
      by (auto simp: dropDownToCap.simps [of now s] split: if_splits)
    then show ?thesis by simp
  next
    case (Some i)
    then have i: "totalQueueDepth s > MAX_QUEUE_DEPTH" "findOldestDroppableQueueIndex (gp_commandQueue s) = Some i"
      by (simp_all split: if_splits)
    note drop = dropQueuedAt_keeps [OF findOldestDroppable_less [OF i(2)]]
    have "dropDownToCap now s = dropDownToCap now (dropQueuedAt now i s)"
      using i by (simp add: dropDownToCap.simps [of now s])
    with "1.IH" [OF i] drop show ?thesis
      by (auto intro: keeps_trans subset_mset.trans)
  qed
qed

lemma dropDownToCap_places:
  "gp_inFlight (dropDownToCap now s) = gp_inFlight s \<and> gp_refetchWaiters (dropDownToCap now s) = gp_refetchWaiters s
   \<and> gp_queuedWaiters (dropDownToCap now s) = gp_queuedWaiters s"
proof (induction now s rule: dropDownToCap.induct)
  case (1 now s)
  show ?case
  proof (cases "totalQueueDepth s > MAX_QUEUE_DEPTH")
    case True
    then show ?thesis using "1.IH" [OF True]
      by (cases "findOldestDroppableQueueIndex (gp_commandQueue s)")
        (simp_all add: dropDownToCap.simps [of now s] dropQueuedAt_def Let_def)
  qed (simp add: dropDownToCap.simps [of now s])
qed

text \<open>A new caller waits or has an answer afterwards.\<close>

definition admits :: "nat \<Rightarrow> gameplay \<Rightarrow> gameplay \<Rightarrow> bool" where
  "admits caller s t \<longleftrightarrow>
     (ledger_ok s \<and> caller \<notin># accounted s \<and> caller < gp_callers s \<longrightarrow>
      ledger_ok t \<and> accounted t = add_mset caller (accounted s)
      \<and> gp_callers t = gp_callers s)"

lemma admits_keeps: "admits caller s t \<Longrightarrow> keeps t u \<Longrightarrow> admits caller s u"
  unfolding admits_def using keeps_ledger by metis

lemma keeps_admits: "keeps s t \<Longrightarrow> admits caller t u \<Longrightarrow> admits caller s u"
  unfolding admits_def using keeps_ledger by metis

lemma add_caller_subset:
  assumes "M \<subseteq># mset [0..<n]" "l \<notin># M" "l < n"
  shows "add_mset l M \<subseteq># mset [0..<n]"
proof (rule mset_subset_eqI)
  fix x
  have "count M x \<le> count (mset [0..<n]) x" using assms(1) by (rule mset_subset_eq_count)
  then show "count (add_mset l M) x \<le> count (mset [0..<n]) x"
    using assms(2,3) by (auto simp: mset_upt not_in_iff)
qed

lemma admits_intro:
  assumes "callersOf (waiting t) = add_mset caller (callersOf (waiting s))" "own_callers (waiting s) \<Longrightarrow> own_callers (waiting t)"
    "gp_settled t = gp_settled s" "gp_callers t = gp_callers s" "timers_ok s \<Longrightarrow> timers_ok t"
  shows "admits caller s t"
proof -
  have "accounted t = add_mset caller (accounted s)" using assms(1,3) by (simp add: accounted_def answered_def)
  with assms(2,4,5) show ?thesis by (simp add: admits_def ledger_ok_def add_caller_subset del: mset_upt)
qed

lemma attach_admits:
  assumes "attachToInFlightCommand type signature caller s = Some t"
  shows "admits caller s t"
proof -
  obtain c where c: "gp_inFlight s = Some c" "t = s\<lparr>gp_inFlight := Some (c\<lparr>pc_listeners := pc_listeners c @ [caller]\<rparr>)\<rparr>"
    using assms by (auto simp: attachToInFlightCommand_def split: if_splits option.splits)
  show ?thesis
    by (rule admits_intro) (simp_all add: c waiting_def timers_ok_def)
qed

lemma find_last_index_less: "find_last_index P xs = Some i \<Longrightarrow> i < length xs"
  by (auto simp: find_last_index_def dest: find_index_less)

lemma coalesce_admits:
  assumes "i < length (gp_commandQueue s)" and "pc_listeners command = [caller]"
    and t: "core t = core (s\<lparr>gp_commandQueue := (gp_commandQueue s)[i := coalesceInto rt command (gp_commandQueue s ! i)]\<rparr>)"
  shows "admits caller s t"
proof -
  let ?c = "gp_commandQueue s ! i" and ?rest = "s\<lparr>gp_commandQueue := remove_nth i (gp_commandQueue s)\<rparr>"
  let ?d = "coalesceInto rt command ?c"
  let ?u = "s\<lparr>gp_commandQueue := (gp_commandQueue s)[i := ?d]\<rparr>"
  have "mset ((gp_commandQueue s)[i := ?d]) = add_mset ?d (mset (remove_nth i (gp_commandQueue s)))"
    using mset_update [OF assms(1), of ?d] mset_remove_nth [OF assms(1)] by simp
  then have w: "waiting ?u = add_mset ?d (waiting ?rest)" by (simp add: waiting_def)
  note v = waiting_remove [OF assms(1)]
  have "admits caller s ?u"
  proof (rule admits_intro)
    show "callersOf (waiting ?u) = add_mset caller (callersOf (waiting s))"
      unfolding w v by (simp add: coalesceInto_def assms(2))
    show "own_callers (waiting ?u)" if "own_callers (waiting s)"
      using that unfolding w v by (simp add: coalesceInto_def)
  qed (simp_all add: timers_ok_def)
  from admits_keeps [OF this keeps_core [OF t]] show ?thesis .
qed

text \<open>A pushed command is there afterwards, or its caller can be told so.\<close>

lemma pushed_admits:
  assumes "pc_id command = caller" and "pc_listeners command = [caller]"
  shows "admits caller s (s\<lparr>gp_commandQueue := gp_commandQueue s @ [command]\<rparr>)"
  by (rule admits_intro) (simp_all add: waiting_def timers_ok_def assms)

definition told :: "nat \<Rightarrow> bool \<times> gameplay \<Rightarrow> gameplay \<Rightarrow> bool" where
  "told caller r v \<longleftrightarrow> (if fst r then core v = core (snd r)
     else \<exists>message u. v = settle [caller] (RejectedWith message) u \<and> core u = core (snd r))"

lemma pending_callers: "ledger_ok s \<Longrightarrow> c \<in># waiting s \<Longrightarrow> pc_id c \<in># callersOf (waiting s)"
  by (auto simp: ledger_ok_def own_callers_def in_callersOf)

lemma pushCommand_admits:
  assumes cmd: "pc_id command = caller" "pc_listeners command = [caller]"
    and v: "told caller (pushCommand now command s) v"
  shows "admits caller s v"
proof (cases "ledger_ok s \<and> caller \<notin># accounted s \<and> caller < gp_callers s")
  case False
  then show ?thesis by (auto simp: admits_def)
next
  case True
  define s1 where "s1 = count_up (\<lambda>c. c\<lparr>qc_enqueueTotal := qc_enqueueTotal c + 1\<rparr>)
     (s\<lparr>gp_commandQueue := gp_commandQueue s @ [command]\<rparr>)"
  define s2 where "s2 = dropDownToCap now s1"
  define at_cap where "at_cap = (if totalQueueDepth s2 \<ge> MAX_QUEUE_DEPTH
     then find_index (\<lambda>c. pc_id c = pc_id command) (gp_commandQueue s2) else None)"
  define s3 where "s3 = (case at_cap of None \<Rightarrow> s2
     | Some i \<Rightarrow> s2\<lparr>gp_commandQueue := remove_nth i (gp_commandQueue s2)\<rparr>)"
  define there where "there \<longleftrightarrow> (\<exists>c \<in> set (gp_commandQueue s3). pc_id c = caller)"
  have push: "fst (pushCommand now command s) = there" "core (snd (pushCommand now command s)) = core s3"
    unfolding pushCommand_def enforceQueueDepthCap_def Let_def s1_def [symmetric] s2_def [symmetric]
    by (simp_all add: s3_def at_cap_def there_def cmd(1) publish_core split: option.split)
  have a1: "admits caller s s1"
    unfolding s1_def by (rule admits_keeps [OF pushed_admits [OF cmd] keeps_core [OF count_core]])
  have a2: "admits caller s s2" unfolding s2_def using a1 dropDownToCap_keeps by (blast intro: admits_keeps)
  have ok2: "ledger_ok s2" "accounted s2 = add_mset caller (accounted s)"
    using a2 True by (auto simp: admits_def)
  have "waiting s2 \<subseteq># waiting s1" unfolding s2_def using dropDownToCap_keeps by blast
  also have "waiting s1 = add_mset command (waiting s)" by (simp add: s1_def waiting_def)
  finally have sub: "waiting s2 \<subseteq># add_mset command (waiting s)" .
  have mine: "c = command" if "c \<in># waiting s2" "pc_id c = caller" for c
  proof (rule ccontr)
    assume "c \<noteq> command"
    with mset_subset_eqD [OF sub that(1)] have "c \<in># waiting s" by simp
    with True that(2) show False using pending_callers [of s c] by (auto simp: accounted_def)
  qed
  show ?thesis
  proof (cases there)
    case there: True
    have "at_cap = None"
    proof (rule ccontr)
      assume "at_cap \<noteq> None"
      then obtain i where i: "at_cap = Some i" "i < length (gp_commandQueue s2)"
        "pc_id (gp_commandQueue s2 ! i) = caller"
        by (auto simp: at_cap_def cmd(1) split: if_splits dest: find_index_less find_index_holds)
      let ?u = "s2\<lparr>gp_commandQueue := remove_nth i (gp_commandQueue s2)\<rparr>"
      note w = waiting_remove [OF i(2)]
      obtain d where "d \<in> set (gp_commandQueue s3)" "pc_id d = caller" using there by (auto simp: there_def)
      then have "d \<in># waiting ?u" by (simp add: s3_def i(1) waiting_def)
      moreover have "d = command" using calculation \<open>pc_id d = caller\<close> by (intro mine) (simp_all add: w)
      moreover have "gp_commandQueue s2 ! i = command" using i(3) by (intro mine) (simp_all add: w)
      ultimately have "waiting s2 = add_mset command (add_mset command (waiting ?u - {#command#}))"
        using w by simp
      then have "mset [caller, caller] \<subseteq># accounted s2"
        by (simp add: accounted_def cmd(2))
      also have "\<dots> \<subseteq># mset [0..<gp_callers s2]" using ok2(1) by (simp add: ledger_ok_def)
      finally show False using submset_distinct by fastforce
    qed
    with v push there have "core v = core s2" by (simp add: told_def s3_def)
    from admits_keeps [OF a2 keeps_core [OF this]] show ?thesis .
  next
    case gone: False
    with v push obtain message u where u: "v = settle [caller] (RejectedWith message) u" "core u = core s3"
      by (auto simp: told_def)
    show ?thesis
    proof (cases at_cap)
      case (Some i)
      then have i: "i < length (gp_commandQueue s2)" "pc_id (gp_commandQueue s2 ! i) = caller"
        by (auto simp: at_cap_def cmd(1) split: if_splits dest: find_index_less find_index_holds)
      note w = waiting_remove [OF i(1)]
      have c: "gp_commandQueue s2 ! i = command" using i(2) by (intro mine) (simp_all add: w)
      have s3: "s3 = s2\<lparr>gp_commandQueue := remove_nth i (gp_commandQueue s2)\<rparr>" by (simp add: s3_def Some)
      have "keeps s2 (settle (pc_listeners command) (RejectedWith message) u)"
        by (rule keeps_settled)
          (use w c core_fields [OF u(2)] waiting_core [OF u(2)] in \<open>simp_all add: s3 timers_ok_def\<close>)
      from admits_keeps [OF a2 this] show ?thesis by (simp add: u(1) cmd(2))
    next
      case None
      then have s3: "s3 = s2" by (simp add: s3_def)
      have "caller \<notin># callersOf (waiting s2)"
      proof
        assume "caller \<in># callersOf (waiting s2)"
        then obtain c where c: "c \<in># waiting s2" "caller \<in> set (pc_listeners c)"
          by (auto simp: in_callersOf)
        have new: "caller \<notin># callersOf (waiting s)" using True by (simp add: accounted_def)
        have "c \<notin># waiting s" using c(2) new by (auto simp: in_callersOf)
        with mset_subset_eqD [OF sub c(1)] have "c = command" by simp
        with gone have "c \<notin> set (gp_commandQueue s2)" by (auto simp: there_def s3 cmd(1))
        with c(1) have "c \<in># waiting s"
          using dropDownToCap_places [of now s1] by (simp add: waiting_def s2_def s1_def)
        with \<open>c \<notin># waiting s\<close> show False ..
      qed
      then have "caller \<in># answered s2" using ok2(2) by (metis accounted_def union_iff union_single_eq_member)
      then have "settle [caller] (RejectedWith message) u = u"
        using core_fields(5) [OF u(2)] by (simp add: settle_def answered_def s3 image_image)
      with u have "core v = core s2" by (simp add: s3)
      from admits_keeps [OF a2 keeps_core [OF this]] show ?thesis .
    qed
  qed
qed

lemma enqueueCommand_admits:
  assumes cmd: "pc_id command = caller" "pc_listeners command = [caller]"
    and v: "told caller (enqueueCommand rt now command s) v"
  shows "admits caller s v"
proof (cases "if pc_coalesceKey command = None then None
    else find_last_index (\<lambda>c. pc_coalesceKey c = pc_coalesceKey command) (gp_commandQueue s)")
  case None
  then show ?thesis using v by (intro pushCommand_admits [OF cmd]) (simp add: enqueueCommand_def)
next
  case (Some i)
  then have i: "i < length (gp_commandQueue s)" by (auto split: if_splits dest: find_last_index_less)
  show ?thesis
    by (rule coalesce_admits [OF i cmd(2), of _ rt])
      (use v in \<open>simp add: enqueueCommand_def Some told_def count_core split: if_splits\<close>)
qed

lemma submitCommand_admits: "admits caller s (submitCommand rt now ctx type payload caller s)"
proof -
  let ?c = "createPendingCommand rt ctx type payload caller"
  let ?t = "if isPositionCommand type
    then count_up (\<lambda>c. c\<lparr>qc_positionCommandsPerDrag := qc_positionCommandsPerDrag c + 1\<rparr>) s else s"
  have cmd: "pc_id ?c = caller" "pc_listeners ?c = [caller]" by (simp_all add: createPendingCommand_def)
  obtain ok u where e: "enqueueCommand rt now ?c ?t = (ok, u)" by (cases "enqueueCommand rt now ?c ?t")
  let ?v = "if ok then u else settle [caller] (RejectedWith QUEUE_FULL_MESSAGE)
    (setErrorThrottled now (pc_signature ?c @ '':queue_full'') LIMITED_MESSAGE
      (recordDeadLetter now ?c QueueFull QUEUE_FULL_MESSAGE
        (count_up (\<lambda>c. c\<lparr>qc_queueFullTotal := qc_queueFullTotal c + 1\<rparr>) u)))"
  have "told caller (enqueueCommand rt now ?c ?t) ?v"
  proof (cases ok)
    case False
    moreover have "core (setErrorThrottled now (pc_signature ?c @ '':queue_full'') LIMITED_MESSAGE
      (recordDeadLetter now ?c QueueFull QUEUE_FULL_MESSAGE
        (count_up (\<lambda>c. c\<lparr>qc_queueFullTotal := qc_queueFullTotal c + 1\<rparr>) u))) = core u"
      by (simp only: error_core dead_letter_core count_core)
    ultimately show ?thesis unfolding told_def e by auto
  qed (simp add: told_def e)
  from enqueueCommand_admits [OF cmd this] have "admits caller ?t ?v" .
  moreover have "keeps s ?t" by (simp add: keeps_core [OF count_core])
  ultimately have "admits caller s (drainQueue rt now ?v)"
    by (blast intro: keeps_admits admits_keeps drainQueue_keeps)
  moreover have "submitCommand rt now ctx type payload caller s = drainQueue rt now ?v"
    unfolding submitCommand_def Let_def e by (cases ok) simp_all
  ultimately show ?thesis by simp
qed

lemma new_caller_ledger:
  assumes ok: "ledger_ok s" and a: "admits (gp_callers s) (s\<lparr>gp_callers := Suc (gp_callers s)\<rparr>) t"
  shows "ledger_ok t \<and> accounted t = add_mset (gp_callers s) (accounted s) \<and> gp_callers t = Suc (gp_callers s)"
proof -
  let ?s = "s\<lparr>gp_callers := Suc (gp_callers s)\<rparr>"
  have same: "waiting ?s = waiting s" "accounted ?s = accounted s" "timers_ok ?s = timers_ok s"
    by (simp_all add: waiting_def accounted_def answered_def timers_ok_def)
  have sub: "accounted s \<subseteq># mset [0..<gp_callers s]" using ok by (simp add: ledger_ok_def)
  have "x < gp_callers s" if "x \<in># accounted s" for x
    using mset_subset_eqD [OF sub that] by simp
  then have "gp_callers s \<notin># accounted s" by blast
  moreover have "accounted s \<subseteq># mset [0..<Suc (gp_callers s)]"
    by (rule subset_mset.order_trans [OF sub]) simp
  then have "ledger_ok ?s" using ok by (simp add: ledger_ok_def same del: mset_upt)
  ultimately show ?thesis using a by (simp add: admits_def same del: mset_upt)
qed

lemma send_core:
  assumes "isCircuitBlocked now signature (pruneRejectionTelemetry now s) = (blocked, t)"
  shows "core t = core s"
  using circuit_core [of now signature "pruneRejectionTelemetry now s"] prune_core [of now s]
  by (simp add: assms)

text \<open>A send that is refused keeps the ledger; else its caller is the next number, and is entered.\<close>

lemma sendCommand_ledger:
  assumes ok: "ledger_ok s"
  shows "ledger_ok (snd (sendCommand rt now ctx type payload s))"
    and "accounted (snd (sendCommand rt now ctx type payload s)) = accounted s
      + mset [gp_callers s..<gp_callers (snd (sendCommand rt now ctx type payload s))]"
    and "gp_callers (snd (sendCommand rt now ctx type payload s))
      = gp_callers s + (case fst (sendCommand rt now ctx type payload s) of Waiting _ \<Rightarrow> 1 | _ \<Rightarrow> 0)"
    and "fst (sendCommand rt now ctx type payload s) = Waiting caller \<Longrightarrow> caller = gp_callers s"
proof -
  let ?r = "sendCommand rt now ctx type payload s"
  have "(keeps s (snd ?r) \<and> (fst ?r = NotSent \<or> fst ?r = SendBlocked))
    \<or> (fst ?r = Waiting (gp_callers s)
       \<and> admits (gp_callers s) (s\<lparr>gp_callers := Suc (gp_callers s)\<rparr>) (snd ?r))"
  proof (cases "\<not> isMigratedCommand type \<or> gp_status s \<noteq> SocketConnected
      \<or> gx_snapshot (gp_contexts s ctx) = None \<or> gx_gameId (gp_contexts s ctx) = []")
    case True
    then show ?thesis by (simp add: sendCommand_def)
  next
    case sendable: False
    show ?thesis
    proof (cases "websocketPayload type payload")
      case None
      with sendable show ?thesis by (simp add: sendCommand_def)
    next
      case (Some p)
      let ?sig = "commandSignature (rt_number rt) type p"
      obtain blocked t where t: "isCircuitBlocked now ?sig (pruneRejectionTelemetry now s) = (blocked, t)"
        by (cases "isCircuitBlocked now ?sig (pruneRejectionTelemetry now s)")
      note same = send_core [OF t]
      show ?thesis
      proof (cases blocked)
        case True
        with sendable Some t same show ?thesis
          by (auto simp: sendCommand_def Let_def error_core dead_letter_core count_core intro!: keeps_core)
      next
        case False
        let ?u = "t\<lparr>gp_callers := Suc (gp_callers t)\<rparr>"
        have u: "core ?u = core (s\<lparr>gp_callers := Suc (gp_callers s)\<rparr>)"
          using same by (simp add: core_def)
        let ?v = "case attachToInFlightCommand type ?sig (gp_callers s) ?u of
          Some v \<Rightarrow> v | None \<Rightarrow> submitCommand rt now ctx type p (gp_callers s) ?u"
        have "admits (gp_callers s) ?u ?v"
          by (cases "attachToInFlightCommand type ?sig (gp_callers s) ?u")
            (simp_all add: submitCommand_admits attach_admits)
        then have "admits (gp_callers s) (s\<lparr>gp_callers := Suc (gp_callers s)\<rparr>) ?v"
          by (rule keeps_admits [OF keeps_core [OF u]])
        moreover have "sendCommand rt now ctx type payload s = (Waiting (gp_callers s), ?v)"
          unfolding sendCommand_def Let_def using sendable Some t False core_fields(6) [OF same]
          by (simp split: option.split)
        ultimately show ?thesis by simp
      qed
    qed
  qed
  then consider (refused) "keeps s (snd ?r)" "fst ?r = NotSent \<or> fst ?r = SendBlocked"
    | (entered) "fst ?r = Waiting (gp_callers s)"
        "admits (gp_callers s) (s\<lparr>gp_callers := Suc (gp_callers s)\<rparr>) (snd ?r)" by blast
  then have "ledger_ok (snd ?r) \<and> accounted (snd ?r) = accounted s + mset [gp_callers s..<gp_callers (snd ?r)]
      \<and> gp_callers (snd ?r) = gp_callers s + (case fst ?r of Waiting _ \<Rightarrow> 1 | _ \<Rightarrow> 0)
      \<and> (fst ?r = Waiting caller \<longrightarrow> caller = gp_callers s)"
  proof cases
    case refused
    then show ?thesis using keeps_ledger [OF refused(1) ok] by auto
  next
    case entered
    then show ?thesis using new_caller_ledger [OF ok entered(2)] by simp
  qed
  then show "ledger_ok (snd ?r)" "accounted (snd ?r) = accounted s + mset [gp_callers s..<gp_callers (snd ?r)]"
    "gp_callers (snd ?r) = gp_callers s + (case fst ?r of Waiting _ \<Rightarrow> 1 | _ \<Rightarrow> 0)"
    "fst ?r = Waiting caller \<Longrightarrow> caller = gp_callers s" by blast+
qed

end
