(* ===== verification/GameplayRun.thy ===== *)
theory GameplayRun
  imports GameplayInv
begin

text \<open>
  The ledger over whole runs of the gameplay service: every handler, timer and refetch keeps it, and
  only a refetch that fails loses a caller.
\<close>

section \<open>Resynchronisation\<close>

lemma regains_enter:
  assumes "waiting t = waiting s + N" "callersOf N = callersOf M" "own_callers M \<Longrightarrow> own_callers N"
    and "gp_settled t = gp_settled s" "gp_callers t = gp_callers s" "timers_ok t = timers_ok s"
  shows "regains M s t"
  using assms by (simp add: regains_def ledger_def accounted_def answered_def ac_simps)

lemma retryOrGiveUp_regains: "regains {#c#} s (retryOrGiveUp rt now c s)"
proof (cases "\<not> pc_retryable c \<or> pc_retryCount c \<ge> MAX_RETRY_COUNT")
  case True
  let ?t = "recordDeadLetter now c ResyncRetryExhausted ''Resync required and retry budget exhausted.'' s"
  have "regains {#c#} s (settle (pc_listeners c)
      (RejectedWith ''WebSocket command requires resync and cannot be retried automatically.'') ?t)"
    by (rule keeps_regains [OF keeps_core [OF dead_letter_core(1)] settle_regains])
  from regains_keeps [OF regains_publish [OF this] drainQueue_keeps] True show ?thesis
    by (simp add: retryOrGiveUp_def)
next
  case False
  let ?c = "c\<lparr>pc_retryCount := pc_retryCount c + 1, pc_messageId := [], pc_clientActionId := [], pc_timeoutId := 0\<rparr>"
  have "regains {#c#} s (s\<lparr>gp_commandQueue := ?c # gp_commandQueue s\<rparr>)"
    by (rule regains_enter [of _ _ "{#?c#}"]) (simp_all add: waiting_def timers_ok_def)
  then have "regains {#c#} s (count_up (\<lambda>q. q\<lparr>qc_retryTotal := qc_retryTotal q + 1\<rparr>)
      (s\<lparr>gp_commandQueue := ?c # gp_commandQueue s\<rparr>))"
    by (rule regains_keeps [OF _ keeps_core [OF count_core]])
  from regains_keeps [OF regains_publish [OF this] drainQueue_keeps] False show ?thesis
    by (simp add: retryOrGiveUp_def)
qed

lemma runContinuation_regains: "regains (mset (continuation_commands k)) s (runContinuation rt now k s)"
  by (cases k) (simp_all add: runContinuation_def continuation_commands_def retryOrGiveUp_regains
      drainQueue_keeps keeps_trans [OF resolveInFlight_keeps drainQueue_keeps])

lemma fold_regains:
  assumes "\<And>x s. regains (mset (held x)) s (f x s)"
  shows "regains (mset (concat (map held xs))) s (fold f xs s)"
proof (induction xs arbitrary: s)
  case (Cons x xs)
  from regains_trans [OF assms Cons.IH] show ?case by (simp add: add.commute)
qed simp

lemma continuations_regain:
  "regains (mset (concat (map continuation_commands ks))) s (fold (runContinuation rt now) ks s)"
  by (rule fold_regains [OF runContinuation_regains])

lemma allowRefetch_core: "core (snd (allowRefetch now signature s)) = core s"
  by (simp add: allowRefetch_def Let_def core_def split: option.split)

lemma requestResync_regains:
  "regains (mset (continuation_commands k)) s (requestResync rt now ctx reason version k s)"
proof -
  note enter = regains_enter [where N = "mset (continuation_commands k)"]
  note places = waiting_def limbo_def timers_ok_def
  show ?thesis
  proof (cases "gp_resync s")
    case (Some r)
    then show ?thesis by (intro enter) (simp_all add: requestResync_def places)
  next
    case none: None
    show ?thesis
    proof (cases "gp_queuedResync s")
      case (Some q)
      with none show ?thesis by (intro enter) (simp_all add: requestResync_def places)
    next
      case None
      let ?sig = "refetchGuardSignature (gx_gameId (gp_contexts s ctx)) reason version"
      obtain start t where t: "allowRefetch now ?sig s = (start, t)" by (cases "allowRefetch now ?sig s")
      with allowRefetch_core [of now ?sig s] have same: "keeps s t" by (simp add: keeps_core)
      show ?thesis
      proof (cases start)
        case True
        have "regains (mset (continuation_commands k)) t
          (t\<lparr>gp_fresh := Suc (gp_fresh t), gp_queuedResync := Some (gp_fresh t),
             gp_tasks := gp_tasks t @ [StartRefetch (gp_fresh t) ctx],
             gp_queuedWaiters := gp_queuedWaiters t @ [(gp_fresh t, k)]\<rparr>)"
          by (intro enter) (simp_all add: places)
        from keeps_regains [OF same this] True t none None show ?thesis
          by (simp add: requestResync_def Let_def)
      next
        case False
        from keeps_regains [OF regains_publish [OF same] runContinuation_regains] False t none None
        show ?thesis by (simp add: requestResync_def)
      qed
    qed
  qed
qed

lemma requestResync_keeps:
  "continuation_commands k = [] \<Longrightarrow> keeps s (requestResync rt now ctx reason version k s)"
  using requestResync_regains [of k] by simp

lemma startRefetch_keeps: "keeps s (startRefetch now q ctx s)"
proof (cases "StartRefetch q ctx \<in> set (gp_tasks s)")
  case True
  let ?t = "publishQueueMetrics now (count_up (\<lambda>c. c\<lparr>qc_resyncTotal := qc_resyncTotal c + 1\<rparr>)
    (s\<lparr>gp_tasks := remove1 (StartRefetch q ctx) (gp_tasks s), gp_queuedResync := None\<rparr>))"
  have same: "keeps s ?t" by (intro regains_publish keeps_same) simp_all
  have limbo: "limbo (map (\<lambda>(i, k). (if i = q then r else i, k)) ws) = limbo ws" for r ws
    by (simp add: limbo_def comp_def case_prod_unfold)
  have "keeps ?t (startRefetch now q ctx s)"
    by (rule keeps_moved) (use True limbo in \<open>simp_all add: startRefetch_def Let_def waiting_def timers_ok_def
      split: option.split\<close>)
  from keeps_trans [OF same this] show ?thesis .
qed (simp add: startRefetch_def)

text \<open>The handlers that waited for the refetch hold their commands when it has ended.\<close>

lemma limbo_split:
  "mset (limbo ws) = mset (limbo (filter (\<lambda>(i, _). i \<noteq> r) ws))
     + mset (concat (map continuation_commands (awaiting r ws)))"
  by (induction ws) (auto simp: limbo_def awaiting_def)

definition refetch_ended :: "nat \<Rightarrow> nat \<Rightarrow> gameplay \<Rightarrow> gameplay" where
  "refetch_ended r ctx s = s\<lparr>gp_tasks := remove1 (Refetching r ctx) (gp_tasks s), gp_resync := None,
     gp_refetchWaiters := filter (\<lambda>(i, _). i \<noteq> r) (gp_refetchWaiters s),
     gp_queuedWaiters := filter (\<lambda>(i, _). i \<noteq> r) (gp_queuedWaiters s)\<rparr>"

definition awaited :: "nat \<Rightarrow> gameplay \<Rightarrow> continuation list" where
  "awaited r s = awaiting r (gp_refetchWaiters s) @ awaiting r (gp_queuedWaiters s)"

lemma finishRefetch_unfold: "finishRefetch rt now r ctx ok s =
  (if Refetching r ctx \<notin> set (gp_tasks s) then s
   else let t = drainQueue rt now (refetch_ended r ctx s)
     in if ok then fold (runContinuation rt now) (awaited r s) t else t)"
  by (simp add: finishRefetch_def refetch_ended_def awaited_def Let_def)

lemma refetch_ended_waiting: "waiting s = waiting (refetch_ended r ctx s)
  + mset (concat (map continuation_commands (awaited r s)))"
  unfolding waiting_def refetch_ended_def awaited_def
  by (simp add: limbo_split [of "gp_refetchWaiters s" r] limbo_split [of "gp_queuedWaiters s" r])

lemma finishRefetch_keeps: "keeps s (finishRefetch rt now r ctx True s)"
proof (cases "Refetching r ctx \<in> set (gp_tasks s)")
  case True
  let ?t = "refetch_ended r ctx s"
  have "keeps s (fold (runContinuation rt now) (awaited r s) (drainQueue rt now ?t))"
    by (rule release [OF refetch_ended_waiting _ _ _ keeps_regains [OF drainQueue_keeps continuations_regain]])
      (simp_all add: refetch_ended_def timers_ok_def)
  with True show ?thesis by (simp add: finishRefetch_unfold)
qed (simp add: finishRefetch_unfold)

text \<open>When it fails, their callers are in no place.\<close>

lemma failed_refetch:
  assumes ok: "ledger_ok s"
  shows "ledger_ok (finishRefetch rt now r ctx False s)"
    and "accounted (finishRefetch rt now r ctx False s) \<subseteq># accounted s"
    and "gp_callers (finishRefetch rt now r ctx False s) = gp_callers s"
proof -
  let ?t = "refetch_ended r ctx s" and ?u = "finishRefetch rt now r ctx False s"
  have "ledger_ok ?u \<and> accounted ?u \<subseteq># accounted s \<and> gp_callers ?u = gp_callers s"
  proof (cases "Refetching r ctx \<in> set (gp_tasks s)")
    case True
    have t: "gp_settled ?t = gp_settled s" "gp_callers ?t = gp_callers s" "timers_ok ?t = timers_ok s"
      by (simp_all add: refetch_ended_def timers_ok_def)
    have sub: "accounted ?t \<subseteq># accounted s"
      using refetch_ended_waiting [of s r ctx] by (simp add: accounted_def answered_def t)
    then have "ledger_ok ?t"
      using ok refetch_ended_waiting [of s r ctx]
      by (auto simp: ledger_ok_def t simp del: mset_upt intro: subset_mset.order_trans)
    from keeps_ledger [OF drainQueue_keeps this] sub t True show ?thesis by (simp add: finishRefetch_unfold)
  qed (simp add: finishRefetch_unfold ok)
  then show "ledger_ok ?u" "accounted ?u \<subseteq># accounted s" "gp_callers ?u = gp_callers s" by blast+
qed

section \<open>The handlers\<close>

lemma settled_then_drained:
  "keeps s (drainQueue rt now (snd (resolveInFlightCommand now ca mi s)))"
  "keeps s (drainQueue rt now (snd (rejectInFlightCommand now message ca mi reason s)))"
  by (rule keeps_trans [OF _ drainQueue_keeps], rule resolveInFlight_keeps rejectInFlight_keeps)+

lemma late_then_drained: "keeps s (drainQueue rt now (recordLateAckIgnored now s))"
  by (rule keeps_trans [OF keeps_core [OF late_core] drainQueue_keeps])

lemma no_commands [simp]: "continuation_commands (FinishPatch ca) = []"
  "continuation_commands DrainOnly = []" "continuation_commands NothingMore = []"
  "continuation_commands (RetryCommand c) = [c]"
  by (simp_all add: continuation_commands_def)

lemma handlePatch_keeps: "keeps s (handlePatch rt now ctx patch s)"
proof -
  have set': "keeps s (finishPatch rt now ca (setSnapshot ctx n s))" for ca n
    unfolding finishPatch_def by (rule keeps_trans [OF keeps_core [OF setSnapshot_core] settled_then_drained(1)])
  have plain: "keeps s (finishPatch rt now ca s)" for ca
    unfolding finishPatch_def by (rule settled_then_drained(1))
  show ?thesis
    by (simp add: handlePatch_def set' plain requestResync_keeps split: option.split sum.split apply_result.split)
qed

lemma handlePatchV2_keeps: "keeps s (handlePatchV2 rt now ctx patch s)"
proof (cases "storeApplyPatch (rt_same rt) (rt_collation rt) (gp_store s) patch")
  case (Pair result store)
  let ?t = "s\<lparr>gp_store := store\<rparr>"
  have same: "keeps s ?t" "keeps s (setSnapshot ctx n ?t)" for n
    by (rule keeps_core, simp add: store_core(1) setSnapshot_core)+
  have "keeps s (finishPatch rt now ca (setSnapshot ctx n ?t))" "keeps s (finishPatch rt now ca ?t)" for ca n
    unfolding finishPatch_def by (rule keeps_trans [OF _ settled_then_drained(1)], rule same)+
  moreover have "keeps s (requestResync rt now ctx reason version (FinishPatch ca) ?t)" for reason version ca
    by (rule keeps_trans [OF same(1) requestResync_keeps]) simp
  ultimately show ?thesis by (cases result) (simp_all add: handlePatchV2_def Pair)
qed

lemma enrich_keeps: "keeps s (enrichAppliedPatchStaticCards rt ctx cards s)"
proof (rule keeps_core)
  obtain result store where m: "mergeStaticCards (rt_same rt) (gp_store s) cards = (result, store)"
    by (cases "mergeStaticCards (rt_same rt) (gp_store s) cards")
  show "core (enrichAppliedPatchStaticCards rt ctx cards s) = core s"
    by (simp add: enrichAppliedPatchStaticCards_def m store_core(1) setSnapshot_core
        split: sum.split option.split)
qed

lemma handleRejectedAck_keeps: "keeps s (handleRejectedAck rt now c ack s)"
proof -
  obtain suppressed t where t: "shouldSuppressConcedeTurnChangedRejection c ack s = (suppressed, t)"
    by (cases "shouldSuppressConcedeTurnChangedRejection c ack s")
  with suppress_core [of c ack s] have same: "core t = core s" by simp
  have "keeps s (drainQueue rt now (snd (resolveInFlightCommand now ca mi t)))" for ca mi
    by (rule keeps_trans [OF keeps_core [OF same] settled_then_drained(1)])
  moreover have "keeps s (drainQueue rt now (snd (rejectInFlightCommand now message ca mi Rejected
      (trackRejectedSignature now (pc_signature c)
        (count_up (\<lambda>q. q\<lparr>qc_rejectedTotal := qc_rejectedTotal q + 1\<rparr>) t)))))" for message ca mi
    by (rule keeps_trans [OF keeps_core settled_then_drained(2)]) (simp only: track_core count_core same)
  ultimately show ?thesis by (simp add: handleRejectedAck_def t split: bool.split)
qed

lemma handleDuplicateAck_keeps: "keeps s (handleDuplicateAck rt now ctx ack s)"
  unfolding handleDuplicateAck_def Let_def
  by (auto intro: settled_then_drained keeps_trans [OF resolveInFlight_keeps requestResync_keeps])

text \<open>The command in flight is taken out, and its continuation holds it.\<close>

lemma handleCommandResyncRequired_keeps: "keeps s (handleCommandResyncRequired rt now ctx ack s)"
proof (cases "gp_inFlight s")
  case None
  then show ?thesis by (simp add: handleCommandResyncRequired_def late_then_drained)
next
  case (Some c)
  let ?t = "(clearTimeout (pc_timeoutId c) s)\<lparr>gp_inFlight := None\<rparr>"
  have taken: "keeps s u" if "regains {#c#} ?t u" for u
    by (rule release [OF _ _ _ _ that])
      (simp_all add: Some waiting_def timers_ok_def clearTimeout_def)
  have "regains {#c#} ?t (requestResync rt now ctx reason version (RetryCommand c) ?t)" for reason version
    using requestResync_regains [of "RetryCommand c"] by simp
  with taken taken [OF retryOrGiveUp_regains] show ?thesis
    by (simp add: handleCommandResyncRequired_def Some Let_def keeps_core [OF late_core])
qed

lemma handleCommandAck_keeps: "keeps s (handleCommandAck rt now ctx ack s)"
  by (simp add: handleCommandAck_def keeps_core [OF late_core] handleRejectedAck_keeps handleDuplicateAck_keeps
      handleCommandResyncRequired_keeps split: option.split ack_status.split)

lemma handleResyncRequired_keeps: "keeps s (handleResyncRequired rt now ctx m s)"
  unfolding handleResyncRequired_def
  by (rule keeps_trans [OF resolveInFlight_keeps requestResync_keeps]) simp

lemma handleError_keeps: "keeps s (handleError rt now m s)"
proof -
  obtain rejected t where t: "rejectInFlightCommand now
      (if ep_message (em_error m) = [] then ''WebSocket gameplay error.'' else ep_message (em_error m))
      (em_clientActionId m) (em_messageId m) Rejected s = (rejected, t)"
    by (metis surj_pair)
  have k: "keeps s t" using rejectInFlight_keeps [of s] t by (metis snd_conv)
  have "keeps s (drainQueue rt now (setErrorThrottled now k' message t))" for k' message
    by (rule keeps_trans [OF k keeps_trans [OF keeps_core [OF error_core] drainQueue_keeps]])
  with keeps_trans [OF k late_then_drained] show ?thesis
    by (simp add: handleError_def Let_def late_then_drained t)
qed

lemma sendAll_keeps: "keeps s (sendAll ms s)"
proof (induction ms arbitrary: s)
  case (Cons m ms)
  show ?case
  proof (cases "gp_socketOpen s")
    case True
    have "keeps s (s\<lparr>gp_sent := gp_sent s @ [m]\<rparr>)" by (rule keeps_same) simp_all
    from keeps_trans [OF this Cons.IH] True show ?thesis by (simp add: transportSend_def)
  qed (simp add: transportSend_def keeps_same)
qed (simp add: keeps_same)

lemma handleMulliganCompleted_keeps: "keeps s (handleMulliganCompleted rt now ctx version s)"
  by (simp add: handleMulliganCompleted_def requestResync_keeps)

lemma connected_keeps: "keeps s (drainQueue rt now (drainMulliganQueue
  (s\<lparr>gp_connectionStateMessages := Suc (gp_connectionStateMessages s), gp_connected := True\<rparr>)))"
proof (rule keeps_trans [OF _ drainQueue_keeps])
  let ?t = "s\<lparr>gp_connectionStateMessages := Suc (gp_connectionStateMessages s), gp_connected := True\<rparr>"
  have "keeps s ?t" by (rule keeps_same) simp_all
  with keeps_trans [OF this sendAll_keeps] show "keeps s (drainMulliganQueue ?t)"
    by (simp add: drainMulliganQueue_def)
qed

lemma handleMessage_keeps: "keeps s (handleMessage rt now message s)"
  by (simp add: handleMessage_def connected_keeps handlePatch_keeps handlePatchV2_keeps handleCommandAck_keeps
      handleResyncRequired_keeps handleError_keeps handleMulliganCompleted_keeps handleMulliganError_def
      keeps_core [OF error_core] split: option.split server_message.split)

section \<open>Conceding, stopping, timers\<close>

lemma fold_settles:
  assumes "\<And>c s. regains {#c#} s (f c s)"
  shows "regains (mset cs) s (fold f cs s)"
  using fold_regains [of "\<lambda>c. [c]" f cs s] assms by simp

lemma resolveQueuedTurnChanged_keeps: "keeps s (resolveQueuedTurnChangedCommands now s)"
proof -
  let ?turns = "filter isTurnChange (gp_commandQueue s)"
    and ?t = "s\<lparr>gp_commandQueue := filter (\<lambda>c. \<not> isTurnChange c) (gp_commandQueue s)\<rparr>"
  have "regains (mset (rev ?turns)) ?t
      (fold (\<lambda>c t. publishQueueMetrics now (settle (pc_listeners c) Resolved t)) (rev ?turns) ?t)"
    by (rule fold_settles) (rule regains_publish [OF settle_regains])
  moreover have "waiting s = waiting ?t + mset (rev ?turns)"
    by (simp add: waiting_def)
  ultimately show ?thesis unfolding resolveQueuedTurnChangedCommands_def Let_def
    by (intro release) (simp_all add: timers_ok_def)
qed

lemma prepareForLocalConcede_keeps: "keeps s (prepareForLocalConcede now s)"
proof -
  have "keeps t (t\<lparr>gp_suppressed := insert x (gp_suppressed t)\<rparr>)" for t :: gameplay and x
    by (rule keeps_same) simp_all
  from keeps_trans [OF resolveQueuedTurnChanged_keeps this] resolveQueuedTurnChanged_keeps show ?thesis
    by (simp add: prepareForLocalConcede_def Let_def split: option.split)
qed

lemma rejectQueuedCommands_keeps: "keeps s (rejectQueuedCommands now message reason s)"
proof -
  let ?t = "s\<lparr>gp_commandQueue := []\<rparr>"
  have "regains (mset (gp_commandQueue s)) ?t (fold (\<lambda>c t. settle (pc_listeners c) (RejectedWith message)
      (recordDeadLetter now c reason message t)) (gp_commandQueue s) ?t)"
    by (rule fold_settles) (rule keeps_regains [OF keeps_core [OF dead_letter_core(1)] settle_regains])
  then show ?thesis unfolding rejectQueuedCommands_def
    by (intro regains_publish release) (simp_all add: waiting_def timers_ok_def)
qed

lemma stopGameplay_keeps: "keeps s (stopGameplay now s)"
proof -
  let ?t = "s\<lparr>gp_context := None, gp_resync := None, gp_queuedResync := None, gp_refetchGuard := Map.empty,
    gp_completedIds := [], gp_completedIdSet := {}, gp_connected := False\<rparr>"
  let ?u = "rejectQueuedCommands now CLOSED_MESSAGE Disconnect
    (snd (rejectInFlightCommand now CLOSED_MESSAGE None None Disconnect ?t))"
  have "keeps s ?t" by (rule keeps_same) simp_all
  from keeps_trans [OF this keeps_trans [OF rejectInFlight_keeps rejectQueuedCommands_keeps]]
  have "keeps s ?u" .
  moreover have "keeps ?u (?u\<lparr>gp_mulliganQueue := [], gp_status := SocketStopped, gp_socketOpen := False\<rparr>)"
    by (rule keeps_same) simp_all
  ultimately show ?thesis unfolding stopGameplay_def Let_def by (rule keeps_trans)
qed

lemma startGameplay_keeps: "keeps s (startGameplay now ctx s)"
proof (rule keeps_trans [OF stopGameplay_keeps])
  show "keeps (stopGameplay now s) (startGameplay now ctx s)"
    by (rule keeps_same) (simp_all add: startGameplay_def resetQueueTelemetry_def)
qed

text \<open>Only the timer of the command in flight runs, and it is cleared with it.\<close>

lemma timeout_same:
  assumes "timers_ok s" and "gp_timers s timer = Some (ca, mi)"
  shows "rejectInFlightCommand now message (Some ca) (Some mi) reason (clearTimeout timer s)
    = rejectInFlightCommand now message (Some ca) (Some mi) reason s"
proof -
  obtain c where c: "gp_inFlight s = Some c" "pc_timeoutId c = timer" "pc_clientActionId c = ca" "pc_messageId c = mi"
    using assms by (auto simp: timers_ok_def split: option.splits if_splits)
  then have "matchesInFlight c (Some ca) (Some mi)" by (simp add: matchesInFlight_def)
  with c show ?thesis
    by (simp add: rejectInFlightCommand_def clearTimeout_def)
qed

lemma commandTimeout_keeps: "keeps s (commandTimeout rt now timer s)"
proof (cases "gp_timers s timer")
  case (Some ids)
  obtain ca mi where ids: "ids = (ca, mi)" by (cases ids)
  show ?thesis
  proof (cases "timers_ok s")
    case True
    from timeout_same [OF True Some [unfolded ids]] settled_then_drained(2) show ?thesis
      by (simp add: commandTimeout_def Some ids)
  qed (simp add: regains_def ledger_def)
qed (simp add: commandTimeout_def)

section \<open>Steps\<close>

lemma mulligan_same:
  "gp_commandQueue (snd (sendMulliganMessage message s)) = gp_commandQueue s"
  "gp_inFlight (snd (sendMulliganMessage message s)) = gp_inFlight s"
  "gp_refetchWaiters (snd (sendMulliganMessage message s)) = gp_refetchWaiters s"
  "gp_queuedWaiters (snd (sendMulliganMessage message s)) = gp_queuedWaiters s"
  "gp_settled (snd (sendMulliganMessage message s)) = gp_settled s"
  "gp_callers (snd (sendMulliganMessage message s)) = gp_callers s"
  "gp_timers (snd (sendMulliganMessage message s)) = gp_timers s"
  "gp_resync (snd (sendMulliganMessage message s)) = gp_resync s"
  "gp_queuedResync (snd (sendMulliganMessage message s)) = gp_queuedResync s"
  "gp_status (snd (sendMulliganMessage message s)) = gp_status s"
  by (simp_all add: sendMulliganMessage_def transportSend_def)

lemma withRandomId_keeps: "keeps s (snd (withRandomId rt message s))"
  by (rule keeps_same) (simp_all add: withRandomId_def mulligan_same)

text \<open>The events after which nobody new waits and nobody is lost.\<close>

definition keeping_event :: "gameplay_event \<Rightarrow> bool" where
  "keeping_event e = (case e of Send _ _ _ \<Rightarrow> False | RefetchEnds _ _ ok \<Rightarrow> ok | _ \<Rightarrow> True)"

lemma step_keeps: "keeping_event e \<Longrightarrow> keeps s (gameplayStep rt (now, e) s)"
  by (cases e) (simp_all add: gameplayStep_def keeping_event_def startGameplay_keeps stopGameplay_keeps
      prepareForLocalConcede_keeps sendMulliganTake_def sendMulliganKeep_def
      sendMulliganScryConfirm_def withRandomId_keeps handleMessage_keeps enrich_keeps commandTimeout_keeps
      startRefetch_keeps finishRefetch_keeps keeps_same)

lemma step_ledger:
  assumes "ledger_ok s"
  shows "ledger_ok (gameplayStep rt ev s)"
proof -
  obtain now e where ev: "ev = (now, e)" by (cases ev)
  show ?thesis
  proof (cases "keeping_event e")
    case True
    from keeps_ledger(1) [OF step_keeps [OF True] assms] show ?thesis by (simp add: ev)
  next
    case False
    then show ?thesis
      by (cases e) (simp_all add: ev keeping_event_def gameplayStep_def sendCommand_ledger [OF assms]
          failed_refetch [OF assms])
  qed
qed

text \<open>Everybody is accounted for.\<close>

definition complete :: "gameplay \<Rightarrow> bool" where
  "complete s \<longleftrightarrow> accounted s = mset [0..<gp_callers s]"

fun refetch_fails :: "gameplay_event \<Rightarrow> bool" where
  "refetch_fails (RefetchEnds r ctx ok) = (\<not> ok)"
| "refetch_fails _ = False"

lemma step_complete:
  assumes "ledger_ok s" "complete s" "\<not> refetch_fails e"
  shows "complete (gameplayStep rt (now, e) s)"
proof (cases "keeping_event e")
  case True
  from keeps_ledger [OF step_keeps [OF True] assms(1)] assms(2) show ?thesis by (simp add: complete_def)
next
  case False
  then obtain ctx type payload where e: "e = Send ctx type payload"
    using assms(3) by (cases e) (simp_all add: keeping_event_def)
  let ?r = "sendCommand rt now ctx type payload s"
  have "gp_callers s \<le> gp_callers (snd ?r)"
    using sendCommand_ledger(3) [OF assms(1), of rt now ctx type payload] by simp
  then have "mset [0..<gp_callers (snd ?r)] = mset [0..<gp_callers s] + mset [gp_callers s..<gp_callers (snd ?r)]"
    by (metis le0 mset_append upt_add_eq_append le_add_diff_inverse)
  with sendCommand_ledger(2) [OF assms(1), of rt now ctx type payload] assms(2) show ?thesis
    by (simp add: complete_def e gameplayStep_def del: mset_upt)
qed

lemma initial_ledger: "ledger_ok (initial_gameplay v2 contexts)" "complete (initial_gameplay v2 contexts)"
  by (simp_all add: initial_gameplay_def ledger_ok_def complete_def accounted_def answered_def waiting_def
      limbo_def timers_ok_def)

end
