(* ===== verification/GameplayQueue.thy ===== *)
theory GameplayQueue
  imports GameplayRun
begin

text \<open>
  What the command queue of the gameplay service promises: it does not stand still while it could be
  sent, gameplay goes before positions and each in its order, and its depth is capped by refusing
  the new command.
\<close>

section \<open>The queue does not stall\<close>

definition quiet :: "gameplay \<Rightarrow> bool" where
  "quiet s \<longleftrightarrow> gp_commandQueue s = [] \<or> gp_inFlight s \<noteq> None \<or> isResyncing s \<or> gp_status s \<noteq> SocketConnected"

lemma quiet_core: "core t = core s \<Longrightarrow> quiet t = quiet s"
  by (simp add: core_def quiet_def isResyncing_def)

lemma shiftNextCommand_some: "queue \<noteq> [] \<Longrightarrow> shiftNextCommand queue \<noteq> None"
  by (simp add: shiftNextCommand_def split: option.split list.split)

lemma drainStep_none: "drainStep rt now s = None \<Longrightarrow> quiet s"
proof (rule ccontr)
  assume none: "drainStep rt now s = None" and "\<not> quiet s"
  then have s: "gp_commandQueue s \<noteq> []" "gp_inFlight s = None" "\<not> isResyncing s" "gp_status s = SocketConnected"
    by (simp_all add: quiet_def)
  then obtain c rest where "shiftNextCommand (gp_commandQueue s) = Some (c, rest)"
    using shiftNextCommand_some by fastforce
  with none s show False by (simp add: drainStep_def Let_def split: option.splits if_splits prod.splits bool.splits)
qed

lemma drainStep_stops: "drainStep rt now s = Some (False, t) \<Longrightarrow> gp_inFlight t \<noteq> None"
  by (auto simp: drainStep_def Let_def transportSend_def launchCommand_def publishQueueMetrics_def
      pruneRejectionTelemetry_def count_up_def split: if_splits option.splits prod.splits)

lemma drainQueue_quiet: "quiet (drainQueue rt now s)"
proof (induction "length (gp_commandQueue s)" arbitrary: s rule: less_induct)
  case less
  show ?case
  proof (cases "drainStep rt now s")
    case None
    then show ?thesis by (simp add: drainQueue.simps [of rt now s] drainStep_none)
  next
    case (Some r)
    obtain again t where r: "r = (again, t)" by (cases r)
    show ?thesis
    proof (cases again)
      case True
      with less [OF drainStep_shorter [OF Some [unfolded r]]] show ?thesis
        by (simp add: drainQueue.simps [of rt now s] Some r)
    next
      case False
      with drainStep_stops Some r have "gp_inFlight t \<noteq> None" by simp
      with False show ?thesis by (simp add: drainQueue.simps [of rt now s] Some r quiet_def)
    qed
  qed
qed

lemma retryOrGiveUp_quiet: "quiet (retryOrGiveUp rt now c s)"
  by (simp add: retryOrGiveUp_def drainQueue_quiet)

lemma runContinuation_quiet: "quiet s \<Longrightarrow> quiet (runContinuation rt now k s)"
  by (cases k) (simp_all add: runContinuation_def drainQueue_quiet retryOrGiveUp_quiet)

text \<open>A handler that asks for a resync leaves one running, or goes on at once.\<close>

lemma requestResync_quiet:
  assumes "k \<noteq> NothingMore \<or> quiet s"
  shows "quiet (requestResync rt now ctx reason version k s)"
proof (cases "isResyncing s")
  case True
  then show ?thesis by (auto simp: requestResync_def quiet_def isResyncing_def split: option.split)
next
  case False
  then have none: "gp_resync s = None" "gp_queuedResync s = None" by (simp_all add: isResyncing_def)
  let ?sig = "refetchGuardSignature (gx_gameId (gp_contexts s ctx)) reason version"
  obtain start t where t: "allowRefetch now ?sig s = (start, t)" by (cases "allowRefetch now ?sig s")
  with allowRefetch_core [of now ?sig s] have same: "core t = core s" by simp
  show ?thesis
  proof (cases start)
    case True
    with t none show ?thesis by (simp add: requestResync_def Let_def quiet_def isResyncing_def)
  next
    case start: False
    have "quiet (runContinuation rt now k (publishQueueMetrics now t))"
    proof (cases "k = NothingMore")
      case True
      with assms quiet_core [OF same] quiet_core [OF publish_core] show ?thesis
        by (simp add: runContinuation_quiet)
    next
      case False
      then show ?thesis by (cases k) (simp_all add: runContinuation_def drainQueue_quiet retryOrGiveUp_quiet)
    qed
    with start t none show ?thesis by (simp add: requestResync_def)
  qed
qed

lemma finishPatch_quiet: "quiet (finishPatch rt now ca s)"
  by (simp add: finishPatch_def drainQueue_quiet)

lemma handlePatch_quiet: "quiet s \<Longrightarrow> quiet (handlePatch rt now ctx patch s)"
  by (simp add: handlePatch_def finishPatch_quiet requestResync_quiet split: option.split sum.split apply_result.split)

lemma handlePatchV2_quiet: "quiet s \<Longrightarrow> quiet (handlePatchV2 rt now ctx patch s)"
  by (simp add: handlePatchV2_def finishPatch_quiet requestResync_quiet split: prod.split v2_apply_result.split)

lemma handleCommandAck_quiet: "quiet s \<Longrightarrow> quiet (handleCommandAck rt now ctx ack s)"
  by (simp add: handleCommandAck_def quiet_core [OF late_core] handleRejectedAck_def handleDuplicateAck_def
      handleCommandResyncRequired_def drainQueue_quiet requestResync_quiet retryOrGiveUp_quiet Let_def
      split: option.split ack_status.split prod.split bool.split)

lemma handleError_quiet: "quiet (handleError rt now m s)"
  by (simp add: handleError_def Let_def drainQueue_quiet split: prod.split)

lemma handleMessage_quiet: "quiet s \<Longrightarrow> quiet (handleMessage rt now message s)"
  by (simp add: handleMessage_def drainQueue_quiet handlePatch_quiet handlePatchV2_quiet handleCommandAck_quiet
      handleResyncRequired_def requestResync_quiet handleError_quiet handleMulliganCompleted_def
      handleMulliganError_def quiet_core [OF error_core] split: option.split server_message.split)

lemma sendCommand_quiet:
  assumes "quiet s"
  shows "quiet (snd (sendCommand rt now ctx type payload s))"
proof (cases "websocketPayload type payload")
  case None
  with assms show ?thesis by (simp add: sendCommand_def)
next
  case (Some p)
  obtain blocked t where t: "isCircuitBlocked now (commandSignature (rt_number rt) type p)
    (pruneRejectionTelemetry now s) = (blocked, t)" by (metis surj_pair)
  note same = send_core [OF t]
  have attached: "quiet v" if "attachToInFlightCommand type sig caller u = Some v" for sig caller u v
    using that by (auto simp: attachToInFlightCommand_def quiet_def split: if_splits option.splits)
  have submitted: "quiet (submitCommand rt now ctx type p caller u)" for caller u
    by (simp add: submitCommand_def Let_def drainQueue_quiet split: prod.split bool.split)
  show ?thesis
  proof (cases blocked)
    case True
    with Some t quiet_core [OF same] assms show ?thesis
      by (simp add: sendCommand_def Let_def quiet_core [OF error_core] quiet_core [OF dead_letter_core(2)]
          quiet_core [OF count_core])
  next
    case False
    with Some t assms show ?thesis
      by (simp add: sendCommand_def Let_def attached submitted split: option.split)
  qed
qed

lemma withRandomId_quiet: "quiet s \<Longrightarrow> quiet (snd (withRandomId rt message s))"
  by (simp add: withRandomId_def quiet_def isResyncing_def mulligan_same)

lemma stopGameplay_status: "gp_status (stopGameplay now s) = SocketStopped"
  by (simp add: stopGameplay_def Let_def)

text \<open>The only event after which a queue can stand still is the socket that connects; the message
  \<open>connection.state\<close>, which the server sends then, drains it.\<close>

fun socket_connects :: "gameplay_event \<Rightarrow> bool" where
  "socket_connects (SocketChanges status isOpen) = (status = SocketConnected)"
| "socket_connects _ = False"

lemma step_quiet:
  assumes "quiet s" "\<not> socket_connects e"
  shows "quiet (gameplayStep rt (now, e) s)"
proof (cases e)
  case (RefetchStarts q ctx)
  have "isResyncing (startRefetch now q ctx s)" if "StartRefetch q ctx \<in> set (gp_tasks s)"
    using that by (simp add: startRefetch_def isResyncing_def Let_def split: option.split)
  with assms(1) RefetchStarts show ?thesis
    by (cases "StartRefetch q ctx \<in> set (gp_tasks s)")
      (simp_all add: gameplayStep_def quiet_def startRefetch_def)
next
  case (RefetchEnds r ctx ok)
  have "quiet (fold (runContinuation rt now) ks (drainQueue rt now t))" for ks t
    by (rule fold_invariant [where Q = "\<lambda>_. True" and P = quiet])
      (simp_all add: drainQueue_quiet runContinuation_quiet)
  with assms(1) RefetchEnds show ?thesis
    by (simp add: gameplayStep_def finishRefetch_unfold drainQueue_quiet Let_def)
next
  case (StaticCardsFound ctx cards)
  then show ?thesis
    using assms(1) by (simp add: gameplayStep_def enrichAppliedPatchStaticCards_def quiet_core [OF setSnapshot_core]
        quiet_core [OF store_core(1)] split: prod.split sum.split option.split)
next
  case Concede
  have c: "gp_inFlight (prepareForLocalConcede now s) = gp_inFlight s"
    "gp_status (prepareForLocalConcede now s) = gp_status s"
    "isResyncing (prepareForLocalConcede now s) = isResyncing s"
    "gp_commandQueue (prepareForLocalConcede now s) = filter (\<lambda>c. \<not> isTurnChange c) (gp_commandQueue s)"
  proof -
    have f: "gp_inFlight (fold (\<lambda>c t. publishQueueMetrics now (settle (pc_listeners c) Resolved t)) cs t) = gp_inFlight t
      \<and> gp_status (fold (\<lambda>c t. publishQueueMetrics now (settle (pc_listeners c) Resolved t)) cs t) = gp_status t
      \<and> gp_resync (fold (\<lambda>c t. publishQueueMetrics now (settle (pc_listeners c) Resolved t)) cs t) = gp_resync t
      \<and> gp_queuedResync (fold (\<lambda>c t. publishQueueMetrics now (settle (pc_listeners c) Resolved t)) cs t) = gp_queuedResync t
      \<and> gp_commandQueue (fold (\<lambda>c t. publishQueueMetrics now (settle (pc_listeners c) Resolved t)) cs t) = gp_commandQueue t"
      for cs t by (induction cs arbitrary: t) simp_all
    show "gp_inFlight (prepareForLocalConcede now s) = gp_inFlight s"
      "gp_status (prepareForLocalConcede now s) = gp_status s"
      "isResyncing (prepareForLocalConcede now s) = isResyncing s"
      "gp_commandQueue (prepareForLocalConcede now s) = filter (\<lambda>c. \<not> isTurnChange c) (gp_commandQueue s)"
      by (simp_all add: prepareForLocalConcede_def resolveQueuedTurnChangedCommands_def Let_def f isResyncing_def
          split: option.split)
  qed
  with assms(1) show ?thesis by (auto simp: Concede gameplayStep_def quiet_def)
next
  case (Start ctx)
  then show ?thesis by (simp add: gameplayStep_def startGameplay_def quiet_def)
next
  case Stop
  then show ?thesis by (simp add: gameplayStep_def quiet_def stopGameplay_status)
next
  case (SocketChanges status isOpen)
  with assms(2) show ?thesis by (simp add: gameplayStep_def quiet_def)
next
  case (ContextChanges ctx c)
  with assms(1) show ?thesis by (simp add: gameplayStep_def quiet_def isResyncing_def)
next
  case (StoreChanges store)
  with assms(1) show ?thesis by (simp add: gameplayStep_def quiet_def isResyncing_def)
qed (use assms in \<open>simp_all add: gameplayStep_def handleMessage_quiet sendCommand_quiet commandTimeout_def
    drainQueue_quiet sendMulliganTake_def sendMulliganKeep_def sendMulliganScryConfirm_def withRandomId_quiet split: option.split\<close>)

lemma connection_state_quiet:
  "gp_context s \<noteq> None \<Longrightarrow> quiet (gameplayStep rt (now, Receive ConnectionState) s)"
  by (auto simp: gameplayStep_def handleMessage_def drainQueue_quiet)

section \<open>The order of sending\<close>

lemma find_index_filter:
  assumes "find_index P xs = Some i"
  shows "filter P xs = xs ! i # filter P (remove_nth i xs)"
    and "filter (\<lambda>x. \<not> P x) (remove_nth i xs) = filter (\<lambda>x. \<not> P x) xs"
proof -
  have i: "i < length xs" "P (xs ! i)" by (rule find_index_less [OF assms], rule find_index_holds [OF assms])
  have before: "\<not> P x" if "x \<in> set (take i xs)" for x
    using that find_index_Some [OF assms] i(1) by (auto simp: in_set_conv_nth)
  then have none: "filter P (take i xs) = []" by (simp add: filter_empty_conv)
  have split: "xs = take i xs @ xs ! i # drop (Suc i) xs" by (rule id_take_nth_drop [OF i(1)])
  have "filter P xs = filter P (take i xs) @ filter P (xs ! i # drop (Suc i) xs)"
    by (subst split) (simp only: filter_append)
  then show "filter P xs = xs ! i # filter P (remove_nth i xs)" using i(2) none by (simp add: remove_nth_def)
  have "filter (\<lambda>x. \<not> P x) xs = filter (\<lambda>x. \<not> P x) (take i xs) @ filter (\<lambda>x. \<not> P x) (xs ! i # drop (Suc i) xs)"
    by (subst split) (simp only: filter_append)
  then show "filter (\<lambda>x. \<not> P x) (remove_nth i xs) = filter (\<lambda>x. \<not> P x) xs" using i(2) by (simp add: remove_nth_def)
qed

section \<open>The cap of the queue\<close>

lemma dropDownToCap_idle: "totalQueueDepth s \<le> MAX_QUEUE_DEPTH \<Longrightarrow> dropDownToCap now s = s"
  by (simp add: dropDownToCap.simps [of now s])

lemma find_index_last:
  assumes "P x" "\<forall>y \<in> set xs. \<not> P y"
  shows "find_index P (xs @ [x]) = Some (length xs)"
  using assms by (induction xs) auto

lemma pushCommand_cap:
  assumes "totalQueueDepth s < MAX_QUEUE_DEPTH" and "\<forall>c \<in> set (gp_commandQueue s). pc_id c \<noteq> pc_id command"
  shows "fst (pushCommand now command s) = (totalQueueDepth s + 1 < MAX_QUEUE_DEPTH)"
    and "gp_commandQueue (snd (pushCommand now command s)) = gp_commandQueue s
      @ (if totalQueueDepth s + 1 < MAX_QUEUE_DEPTH then [command] else [])"
proof -
  let ?t = "count_up (\<lambda>c. c\<lparr>qc_enqueueTotal := qc_enqueueTotal c + 1\<rparr>)
    (s\<lparr>gp_commandQueue := gp_commandQueue s @ [command]\<rparr>)"
  have depth: "totalQueueDepth ?t = Suc (totalQueueDepth s)" by (simp add: totalQueueDepth_def)
  with assms(1) have idle: "dropDownToCap now ?t = ?t" by (intro dropDownToCap_idle) simp
  have found: "find_index (\<lambda>c. pc_id c = pc_id command) (gp_commandQueue ?t) = Some (length (gp_commandQueue s))"
    using find_index_last [of "\<lambda>c. pc_id c = pc_id command" command] assms(2) by simp
  have "gp_commandQueue (snd (pushCommand now command s)) = gp_commandQueue s
      @ (if totalQueueDepth s + 1 < MAX_QUEUE_DEPTH then [command] else [])
    \<and> fst (pushCommand now command s) = (totalQueueDepth s + 1 < MAX_QUEUE_DEPTH)"
  proof (cases "totalQueueDepth s + 1 < MAX_QUEUE_DEPTH")
    case True
    with depth show ?thesis
      unfolding pushCommand_def enforceQueueDepthCap_def Let_def idle by simp
  next
    case False
    with depth found assms(2) show ?thesis
      unfolding pushCommand_def enforceQueueDepthCap_def Let_def idle by (simp add: remove_nth_def)
  qed
  then show "fst (pushCommand now command s) = (totalQueueDepth s + 1 < MAX_QUEUE_DEPTH)"
    "gp_commandQueue (snd (pushCommand now command s)) = gp_commandQueue s
      @ (if totalQueueDepth s + 1 < MAX_QUEUE_DEPTH then [command] else [])" by simp_all
qed

section \<open>Draining with a closed socket\<close>

definition unsendable :: "gameplay \<Rightarrow> bool" where
  "unsendable s \<longleftrightarrow> gp_status s = SocketConnected \<and> \<not> gp_socketOpen s \<and> \<not> isResyncing s \<and> gp_inFlight s = None"

lemma recordDeadLetter_socket [simp]:
  "gp_socketOpen (recordDeadLetter now c reason details s) = gp_socketOpen s"
  by (simp add: recordDeadLetter_def recordDeadLetterEvent_def Let_def split: option.split)

lemma publish_socket [simp]: "gp_socketOpen (publishQueueMetrics now s) = gp_socketOpen s"
  by (simp add: publishQueueMetrics_def pruneRejectionTelemetry_def)

lemma settle_socket [simp]: "gp_socketOpen (settle ls r s) = gp_socketOpen s"
  by (simp add: settle_def)

lemma drainStep_unsendable:
  assumes "unsendable s" "drainStep rt now s = Some (again, t)"
  shows "again \<and> unsendable t \<and> gp_refetchWaiters t = gp_refetchWaiters s \<and> gp_queuedWaiters t = gp_queuedWaiters s"
proof -
  from assms(1) have s: "gp_status s = SocketConnected" "\<not> gp_socketOpen s" "gp_resync s = None"
    "gp_queuedResync s = None" "gp_inFlight s = None" by (simp_all add: unsendable_def isResyncing_def)
  obtain c rest where n: "shiftNextCommand (gp_commandQueue s) = Some (c, rest)"
    using assms(2) by (auto simp: drainStep_def split: if_splits option.splits)
  from assms(2) s n show ?thesis
    by (auto simp: drainStep_def Let_def transportSend_def launchCommand_def count_up_def rejectInFlightCommand_def
        matchesInFlight_def clearTimeout_def isResyncing_def unsendable_def split: if_splits option.splits)
qed

lemma drainQueue_unsendable:
  assumes "unsendable s"
  shows "unsendable (drainQueue rt now s) \<and> gp_commandQueue (drainQueue rt now s) = []
    \<and> gp_refetchWaiters (drainQueue rt now s) = gp_refetchWaiters s
    \<and> gp_queuedWaiters (drainQueue rt now s) = gp_queuedWaiters s"
  using assms
proof (induction "length (gp_commandQueue s)" arbitrary: s rule: less_induct)
  case less
  show ?case
  proof (cases "drainStep rt now s")
    case None
    with drainStep_none [OF None] less.prems show ?thesis
      by (simp add: drainQueue.simps [of rt now s] quiet_def unsendable_def)
  next
    case (Some r)
    obtain again t where r: "r = (again, t)" by (cases r)
    note step = drainStep_unsendable [OF less.prems Some [unfolded r]]
    with less.hyps [OF drainStep_shorter [OF Some [unfolded r]]] show ?thesis
      by (simp add: drainQueue.simps [of rt now s] Some r)
  qed
qed

section \<open>Rejections in a row\<close>

definition rejections :: "gameplay \<Rightarrow> string \<Rightarrow> int list" where
  "rejections s sig = or_default (gp_rejectedBySignature s sig) []"

lemma rejections_tracked:
  "rejections (trackRejectedSignature now sig s) sig = recent_rejections now (rejections s sig) @ [now]"
  by (simp add: rejections_def trackRejectedSignature_def Let_def or_default_def)

lemma third_blocks:
  "2 \<le> length (recent_rejections now (rejections s sig))
   \<Longrightarrow> gp_blockedSignatures (trackRejectedSignature now sig s) sig = Some (now + CIRCUIT_COOLDOWN_MS)"
  by (simp add: rejections_def trackRejectedSignature_def Let_def REJECTION_THRESHOLD_def)

lemma three_rejections_block:
  assumes "t1 \<le> t2" "t2 \<le> t3" "t3 \<le> t1 + REJECTION_WINDOW_MS"
  shows "gp_blockedSignatures (trackRejectedSignature t3 sig (trackRejectedSignature t2 sig
      (trackRejectedSignature t1 sig s))) sig = Some (t3 + CIRCUIT_COOLDOWN_MS)"
  by (rule third_blocks)
    (use assms in \<open>simp add: rejections_tracked recent_rejections_def REJECTION_WINDOW_MS_def\<close>)

lemma blocked_after_prune:
  assumes "gp_blockedSignatures s sig = Some until" "until \<noteq> 0"
  shows "fst (isCircuitBlocked now sig (pruneRejectionTelemetry now s)) = (now < until)"
  using assms by (simp add: isCircuitBlocked_def pruneRejectionTelemetry_def prune_map_def)

end
