(* ===== verification/GameplayProps.thy ===== *)
theory GameplayProps
  imports GameplayQueue SnapshotSamples V2Samples
begin

text \<open>
  The properties of the gameplay service: what happens to those who send commands, in every run of
  its events, and what the queue and the circuit breaker do.
\<close>

section \<open>Sample runs\<close>

text \<open>A table of one game, and the first events of a session up to a command in flight.\<close>

definition sample_contexts :: "nat \<Rightarrow> gameplay_context" where
  "sample_contexts = (\<lambda>_. \<lparr>gx_gameId = ''g'', gx_snapshot = Some two_zone_snapshot, gx_error = None,
     gx_currentPlayerDefeated = False\<rparr>)"

definition sample_runtime :: runtime where
  "sample_runtime = \<lparr>rt_randomId = nat_string, rt_number = (\<lambda>_. ''0''), rt_same = (=), rt_collation = string_order\<rparr>"

definition session_start :: "(int \<times> gameplay_event) list" where
  "session_start = [(0, Start 0), (1, SocketChanges SocketConnected True), (2, Receive ConnectionState),
     (3, Send 0 ''turn.changed'' [])]"

definition resync_ack :: "runtime \<Rightarrow> command_ack" where
  "resync_ack rt = \<lparr>ack_messageId = Some (rt_randomId rt 2), ack_clientActionId = rt_randomId rt 1,
     ack_status = AckResyncRequired, ack_version = 7, ack_error = None\<rparr>"

abbreviation gameplay_run :: "runtime \<Rightarrow> gameplay \<Rightarrow> (int \<times> gameplay_event) list \<Rightarrow> gameplay" where
  "gameplay_run rt \<equiv> run_steps (\<lambda>s ev. gameplayStep rt ev s)"

section \<open>Callers\<close>

interpretation gameplay_ledger: invariant_machine "\<lambda>s ev. gameplayStep rt ev s" "\<lambda>_. True" ledger_ok for rt
  by unfold_locales (rule step_ledger)

interpretation gameplay_complete: invariant_machine "\<lambda>s ev. gameplayStep rt ev s"
  "\<lambda>ev. \<not> refetch_fails (snd ev)" "\<lambda>s. ledger_ok s \<and> complete s" for rt
  by unfold_locales (metis prod.collapse step_complete step_ledger)

interpretation gameplay_quiet: invariant_machine "\<lambda>s ev. gameplayStep rt ev s"
  "\<lambda>ev. \<not> socket_connects (snd ev)" quiet for rt
  by unfold_locales (metis prod.collapse step_quiet)

text \<open>C3: In every run of the gameplay service nobody who sent a command waits for it twice, waits
  although it is answered, or is answered twice; and a timeout runs exactly for the command in
  flight, with its ids.\<close>

theorem gameplay_callers_once:
  fixes events :: "(int \<times> gameplay_event) list"
  defines "s rt v2 contexts \<equiv> gameplay_run rt (initial_gameplay v2 contexts) events"
  shows "accounted (s rt v2 contexts) \<subseteq># mset [0..<gp_callers (s rt v2 contexts)]
    \<and> gp_timers (s rt v2 contexts) = (case gp_inFlight (s rt v2 contexts) of None \<Rightarrow> Map.empty
        | Some c \<Rightarrow> [pc_timeoutId c \<mapsto> (pc_clientActionId c, pc_messageId c)])"
  using gameplay_ledger.run_invar [OF initial_ledger(1), of events rt v2 contexts]
  by (simp add: s_def ledger_ok_def timers_ok_def list.pred_True del: mset_upt)

text \<open>C2: When no refetch fails, everybody who sent a command waits for it, in the queue, in
  flight or for a refetch, or has an answer: through timeouts, errors, lost connections, rejections,
  retries and a full queue no caller is lost.\<close>

theorem gameplay_no_caller_lost:
  assumes "list_all (\<lambda>ev. \<not> refetch_fails (snd ev)) events"
  shows "accounted (gameplay_run rt (initial_gameplay v2 contexts) events)
    = mset [0..<gp_callers (gameplay_run rt (initial_gameplay v2 contexts) events)]"
  using gameplay_complete.run_invar [of "initial_gameplay v2 contexts" events rt] initial_ledger assms
  by (simp add: complete_def del: mset_upt)

theorem gameplay_no_caller_lost_witness:
  "list_all (\<lambda>ev. \<not> refetch_fails (snd ev)) session_start
   \<and> accounted (gameplay_run sample_runtime (initial_gameplay False sample_contexts) session_start)
     = mset [0..<gp_callers (gameplay_run sample_runtime (initial_gameplay False sample_contexts) session_start)]"
proof -
  have start: "list_all (\<lambda>ev. \<not> refetch_fails (snd ev)) session_start" by (simp add: session_start_def)
  from gameplay_no_caller_lost [OF this, of sample_runtime False sample_contexts] start show ?thesis by blast
qed

text \<open>The run up to the command in flight, and to the acknowledgement that asks for a resync.\<close>

lemma empty_publish [simp]:
  "gp_rejectedBySignature s = Map.empty \<Longrightarrow> gp_blockedSignatures s = Map.empty \<Longrightarrow> gp_throttledErrors s = Map.empty
   \<Longrightarrow> publishQueueMetrics now s = s"
  by (simp add: publishQueueMetrics_def pruneRejectionTelemetry_def prune_map_def comp_def)

lemma drain_empty: "gp_commandQueue s = [] \<Longrightarrow> drainQueue rt now s = s"
  by (simp add: drainQueue.simps [of rt now s] drainStep_def)

definition started :: gameplay where
  "started = (initial_gameplay False sample_contexts)\<lparr>gp_context := Some 0, gp_status := SocketConnected,
     gp_socketOpen := True, gp_connectionStateMessages := 1, gp_connected := True\<rparr>"

definition turn_command :: "runtime \<Rightarrow> pending_command" where
  "turn_command rt = (createPendingCommand rt 0 ''turn.changed'' [] 0)\<lparr>pc_messageId := rt_randomId rt 2,
     pc_clientActionId := rt_randomId rt 1, pc_timeoutId := 3\<rparr>"

definition turn_in_flight :: "runtime \<Rightarrow> gameplay" where
  "turn_in_flight rt = started\<lparr>gp_callers := 1, gp_fresh := 4, gp_inFlight := Some (turn_command rt),
     gp_timers := [3 \<mapsto> (rt_randomId rt 1, rt_randomId rt 2)],
     gp_counters := zero_counters\<lparr>qc_enqueueTotal := 1, qc_drainTotal := 1\<rparr>,
     gp_sent := [CommandMessage ''g'' (rt_randomId rt 2) ''turn.changed'' [] (rt_randomId rt 1) 0]\<rparr>"

lemmas started_defs = started_def initial_gameplay_def sample_contexts_def

lemma session_started: "gameplay_run rt (initial_gameplay False sample_contexts)
   [(0, Start 0), (1, SocketChanges SocketConnected True), (2, Receive ConnectionState)] = started"
  by (simp add: started_def gameplayStep_def startGameplay_def stopGameplay_def Let_def resetQueueTelemetry_def
      initial_gameplay_def rejectQueuedCommands_def rejectInFlightCommand_def handleMessage_def
      drainMulliganQueue_def drain_empty)

lemma turn_sent: "sendCommand rt now 0 ''turn.changed'' [] started = (Waiting 0, turn_in_flight rt)"
  by (simp add: started_defs sendCommand_def isMigratedCommand_def WEBSOCKET_COMMANDS_def websocketPayload_def
      pruneRejectionTelemetry_def prune_map_def comp_def isCircuitBlocked_def attachToInFlightCommand_def
      IN_FLIGHT_DEDUPED_COMMANDS_def Let_def submitCommand_def isPositionCommand_def POSITION_COMMANDS_def
      enqueueCommand_def createPendingCommand_def coalesceKey_def COALESCED_COMMANDS_def pushCommand_def
      enforceQueueDepthCap_def dropDownToCap_idle totalQueueDepth_def MAX_QUEUE_DEPTH_def count_up_def
      RETRYABLE_COMMANDS_def drainQueue.simps drainStep_def isResyncing_def shiftNextCommand_def
      launchCommand_def transportSend_def commandMessage_def remove_nth_def turn_in_flight_def turn_command_def
      zero_counters_def two_zone_version eval_nat_numeral)

lemma resync_acked: "gameplayStep rt (now, Receive (CommandAck (resync_ack rt))) (turn_in_flight rt) =
   (turn_in_flight rt)\<lparr>gp_inFlight := None, gp_timers := Map.empty, gp_fresh := 5, gp_queuedResync := Some 4,
     gp_refetchGuard := [refetchGuardSignature ''g'' ''resync_required'' 7 \<mapsto> now],
     gp_tasks := [StartRefetch 4 0], gp_queuedWaiters := [(4, RetryCommand (turn_command rt))]\<rparr>"
  by (simp add: gameplayStep_def handleMessage_def turn_in_flight_def started_defs handleCommandAck_def
      resync_ack_def turn_command_def matchesInFlight_def handleCommandResyncRequired_def canRetryWithoutResync_def
      conflictOf_def requestResync_def allowRefetch_def prune_map_def Let_def clearTimeout_def)

lemma session_run:
  "gameplay_run rt (initial_gameplay False sample_contexts) session_start = turn_in_flight rt"
proof -
  have split: "session_start = [(0, Start 0), (1, SocketChanges SocketConnected True), (2, Receive ConnectionState)]
      @ [(3, Send 0 ''turn.changed'' [])]"
    by (simp add: session_start_def)
  show ?thesis unfolding split run_steps_append session_started by (simp add: gameplayStep_def turn_sent)
qed


section \<open>The queue\<close>

text \<open>C4: After the server's \<open>connection.state\<close> message, through every sequence of events in which the
  socket does not connect anew, the queue never stands still: whenever commands wait in it, one is in
  flight, a resync runs or the socket is not connected.\<close>

theorem queue_never_stalls:
  assumes "gp_context s \<noteq> None" and "list_all (\<lambda>ev. \<not> socket_connects (snd ev)) events"
  shows "quiet (gameplay_run rt (gameplayStep rt (now, Receive ConnectionState) s) events)"
  by (rule gameplay_quiet.run_invar [OF connection_state_quiet [OF assms(1)] assms(2)])

theorem queue_never_stalls_witness:
  "gp_context started \<noteq> None \<and> list_all (\<lambda>ev. \<not> socket_connects (snd ev)) [(3 :: int, Send 0 ''turn.changed'' [])]
   \<and> quiet (gameplay_run sample_runtime (gameplayStep sample_runtime (2, Receive ConnectionState) started)
       [(3, Send 0 ''turn.changed'' [])])"
proof -
  have c: "gp_context started \<noteq> None" by (simp add: started_def)
  have e: "list_all (\<lambda>ev. \<not> socket_connects (snd ev)) [(3 :: int, Send 0 ''turn.changed'' [])]" by simp
  from queue_never_stalls [OF c e, of sample_runtime 2] c e show ?thesis by blast
qed

text \<open>The next command is the oldest one that is no position, and the oldest position only when
  there is no other; the order of the others, and of the positions, is kept.\<close>

theorem next_command_order:
  assumes "shiftNextCommand queue = Some (c, rest)"
  shows "filter (\<lambda>c. \<not> isPositionCommand (pc_type c)) queue
      = (if isPositionCommand (pc_type c) then [] else [c]) @ filter (\<lambda>c. \<not> isPositionCommand (pc_type c)) rest
    \<and> filter (\<lambda>c. isPositionCommand (pc_type c)) queue
      = (if isPositionCommand (pc_type c) then [c] else []) @ filter (\<lambda>c. isPositionCommand (pc_type c)) rest
    \<and> (isPositionCommand (pc_type c) \<longrightarrow> (\<forall>d \<in> set rest. isPositionCommand (pc_type d)))"
proof (cases "find_index (\<lambda>c. \<not> isPositionCommand (pc_type c)) queue")
  case None
  with assms have "queue = c # rest" by (simp add: shiftNextCommand_def split: list.splits)
  with None show ?thesis by (auto simp: find_index_None filter_empty_conv)
next
  case (Some i)
  with assms have c: "c = queue ! i" "rest = remove_nth i queue" by (simp_all add: shiftNextCommand_def)
  from find_index_filter [OF Some] find_index_holds [OF Some] c show ?thesis by simp
qed

definition queued_turn :: pending_command where
  "queued_turn = createPendingCommand sample_runtime 0 ''turn.changed'' [] 0"

definition queued_position :: pending_command where
  "queued_position = createPendingCommand sample_runtime 0 ''cards.position.changed'' [] 1"

lemma sample_types: "isPositionCommand (pc_type queued_position)" "\<not> isPositionCommand (pc_type queued_turn)"
  by (simp_all add: isPositionCommand_def POSITION_COMMANDS_def queued_position_def queued_turn_def
      createPendingCommand_def)

theorem next_command_order_witness:
  "shiftNextCommand [queued_position, queued_turn] = Some (queued_turn, [queued_position])
   \<and> filter (\<lambda>c. \<not> isPositionCommand (pc_type c)) [queued_position, queued_turn]
     = [queued_turn] @ filter (\<lambda>c. \<not> isPositionCommand (pc_type c)) [queued_position]"
proof -
  have s: "shiftNextCommand [queued_position, queued_turn] = Some (queued_turn, [queued_position])"
    by (simp add: shiftNextCommand_def sample_types remove_nth_def)
  from next_command_order [OF s] s sample_types show ?thesis by simp
qed


definition full_queue :: gameplay where
  "full_queue = started\<lparr>gp_commandQueue := replicate 199 (queued_turn\<lparr>pc_id := 7\<rparr>)\<rparr>"


text \<open>When the transport's socket is closed although its status says connected, draining ends with
  an empty queue: each command is taken, given its ids, refused by the transport and rejected, and every
  caller of the queue has an answer.\<close>

theorem drain_with_closed_socket:
  assumes "gp_status s = SocketConnected" "\<not> gp_socketOpen s" "\<not> isResyncing s" "gp_inFlight s = None"
    and "ledger_ok s"
  shows "gp_commandQueue (drainQueue rt now s) = [] \<and> gp_inFlight (drainQueue rt now s) = None
    \<and> answered (drainQueue rt now s) = answered s + callersOf (mset (gp_commandQueue s))"
proof -
  let ?t = "drainQueue rt now s"
  from assms(1-4) have "unsendable s" by (simp add: unsendable_def)
  note d = drainQueue_unsendable [OF this, of rt now]
  then have "waiting s = waiting ?t + mset (gp_commandQueue s)"
    using assms(4) by (simp add: waiting_def unsendable_def)
  moreover have "accounted ?t = accounted s" by (rule keeps_ledger(2) [OF drainQueue_keeps assms(5)])
  ultimately show ?thesis using d by (simp add: accounted_def unsendable_def)
qed

definition closed_queue :: gameplay where
  "closed_queue = started\<lparr>gp_socketOpen := False, gp_callers := 2, gp_commandQueue := [queued_turn, queued_position]\<rparr>"

theorem drain_with_closed_socket_witness:
  "gp_commandQueue (drainQueue sample_runtime 5 closed_queue) = []
   \<and> answered (drainQueue sample_runtime 5 closed_queue) = {#0, 1#}"
proof -
  have q: "gp_status closed_queue = SocketConnected" "\<not> gp_socketOpen closed_queue" "\<not> isResyncing closed_queue"
    "gp_inFlight closed_queue = None" "answered closed_queue = {#}"
    "callersOf (mset (gp_commandQueue closed_queue)) = {#0, 1#}"
    by (simp_all add: closed_queue_def started_defs isResyncing_def answered_def queued_turn_def
        queued_position_def createPendingCommand_def)
  have "ledger_ok closed_queue"
    by (simp add: ledger_ok_def accounted_def waiting_def limbo_def answered_def timers_ok_def closed_queue_def
        started_defs queued_turn_def queued_position_def createPendingCommand_def numeral_2_eq_2)
  from drain_with_closed_socket [OF q(1-4) this, of sample_runtime 5] q show ?thesis by simp
qed

section \<open>The circuit breaker\<close>

text \<open>After three rejections of the same action within two seconds, sending it again is refused,
  without a caller, until two seconds after the third; then it is accepted again.\<close>

theorem rejected_action_is_blocked:
  assumes times: "0 \<le> t1" "t1 \<le> t2" "t2 \<le> t3" "t3 \<le> t1 + REJECTION_WINDOW_MS"
    and sendable: "isMigratedCommand type" "gp_status s = SocketConnected" "gx_snapshot (gp_contexts s ctx) \<noteq> None"
      "gx_gameId (gp_contexts s ctx) \<noteq> []" "websocketPayload type payload = Some sent"
    and rejected: "r = trackRejectedSignature t3 (commandSignature (rt_number rt) type sent)
      (trackRejectedSignature t2 (commandSignature (rt_number rt) type sent)
        (trackRejectedSignature t1 (commandSignature (rt_number rt) type sent) s))"
  shows "fst (sendCommand rt now ctx type payload r)
    = (if now < t3 + CIRCUIT_COOLDOWN_MS then SendBlocked else Waiting (gp_callers s))"
proof -
  let ?sig = "commandSignature (rt_number rt) type sent"
  have blocked: "fst (isCircuitBlocked now ?sig (pruneRejectionTelemetry now r)) = (now < t3 + CIRCUIT_COOLDOWN_MS)"
    unfolding rejected by (rule blocked_after_prune [OF three_rejections_block [OF times(2-4)]])
      (use times in \<open>simp add: CIRCUIT_COOLDOWN_MS_def\<close>)
  have r: "gp_status r = gp_status s" "gp_contexts r = gp_contexts s" "gp_callers r = gp_callers s"
    by (simp_all add: rejected trackRejectedSignature_def Let_def)
  obtain b t where t: "isCircuitBlocked now ?sig (pruneRejectionTelemetry now r) = (b, t)"
    by (metis surj_pair)
  with blocked r sendable core_fields(6) [OF send_core [OF t]] show ?thesis
    by (cases b) (simp_all add: sendCommand_def Let_def)
qed

theorem rejected_action_is_blocked_witness:
  "\<exists>r. fst (sendCommand sample_runtime 1500 0 ''turn.changed'' [] r) = SendBlocked
     \<and> fst (sendCommand sample_runtime 3000 0 ''turn.changed'' [] r) = Waiting 0"
proof -
  let ?sig = "commandSignature (rt_number sample_runtime) ''turn.changed'' []"
  let ?r = "trackRejectedSignature 1000 ?sig (trackRejectedSignature 500 ?sig (trackRejectedSignature 0 ?sig started))"
  have "fst (sendCommand sample_runtime now 0 ''turn.changed'' [] ?r)
      = (if now < 1000 + CIRCUIT_COOLDOWN_MS then SendBlocked else Waiting (gp_callers started))" for now
    by (rule rejected_action_is_blocked [OF _ _ _ _ _ _ _ _ _ refl])
      (simp_all add: REJECTION_WINDOW_MS_def started_defs isMigratedCommand_def WEBSOCKET_COMMANDS_def
        websocketPayload_def)
  then show ?thesis by (intro exI [of _ ?r]) (simp add: CIRCUIT_COOLDOWN_MS_def started_defs)
qed

end
