(* ===== verification/SocketTransport.thy ===== *)
theory SocketTransport
  imports CommandQueue
begin

text \<open>
  \<open>GameTableWebsocketTransportService\<close>
  (\<^verbatim>\<open>game-table/services/game-table-websocket-transport.service.ts\<close>): the socket under the gameplay
  service. It fetches a ticket, opens the socket, opens it again with growing delays when it is
  lost, and filters what arrives. Every socket the service has opened stays in the state, since a
  socket it no longer holds can still be open. Messages are JSON objects, as received.
\<close>

section \<open>State\<close>

datatype ready_state = ReadyConnecting | ReadyOpen | ReadyClosing | ReadyClosed

text \<open>\<open>ws_gameId\<close> is the game the closures of the socket's handlers were made for.\<close>

record web_socket =
  ws_state :: ready_state
  ws_url :: string
  ws_gameId :: string

text \<open>Who waits for a ticket: \<open>connect\<close>, or the timer of a reconnect, which catches its failure.\<close>

datatype opener = FromConnect | FromReconnect

record reconnect_timer =
  rc_id :: nat
  rc_gameId :: string
  rc_delayMs :: nat

record transport =
  tp_socket :: "nat option"
  tp_sockets :: "nat \<rightharpoonup> web_socket"
  tp_connectedGameId :: "string option"
  tp_closeRequested :: bool
  tp_reconnectTimer :: "reconnect_timer option"
  tp_reconnectAttempts :: nat
  tp_pingTimer :: "nat option"
  tp_activeRoute :: "string option"
  tp_status :: socket_status
  tp_online :: "string \<rightharpoonup> bool"
  tp_messages :: "payload list"
  tp_sent :: "(nat \<times> payload) list"
  tp_tickets :: "(nat \<times> opener \<times> string) list"
  tp_fresh :: nat

text \<open>What the host provides: ids, the text of a property key and of a version, the URL with the
  version (or an exception), whether a URL is valid for a socket.\<close>

record browser =
  br_randomId :: "nat \<Rightarrow> string"
  br_key_text :: "json option \<Rightarrow> string"
  br_with_version :: "string \<Rightarrow> jsnum \<Rightarrow> string option"
  br_valid_url :: "string \<Rightarrow> bool"

section \<open>Timers and sockets\<close>

definition stopPing :: "transport \<Rightarrow> transport" where
  "stopPing s = s\<lparr>tp_pingTimer := None\<rparr>"

definition startPing :: "transport \<Rightarrow> transport" where
  "startPing s = (stopPing s)\<lparr>tp_pingTimer := Some (tp_fresh s), tp_fresh := Suc (tp_fresh s)\<rparr>"

definition set_ready :: "nat \<Rightarrow> ready_state \<Rightarrow> transport \<Rightarrow> transport" where
  "set_ready n r s = s\<lparr>tp_sockets := (tp_sockets s)(n := map_option (\<lambda>w. w\<lparr>ws_state := r\<rparr>) (tp_sockets s n))\<rparr>"

definition readyState :: "transport \<Rightarrow> nat \<Rightarrow> ready_state option" where
  "readyState s n = map_option ws_state (tp_sockets s n)"

definition transportDisconnect :: "transport \<Rightarrow> transport" where
  "transportDisconnect s =
     (let t = (stopPing (s\<lparr>tp_closeRequested := True, tp_connectedGameId := None, tp_activeRoute := None,
            tp_reconnectTimer := None, tp_socket := None\<rparr>))\<lparr>tp_online := Map.empty\<rparr>;
          u = (case tp_socket s of
            Some n \<Rightarrow> if readyState s n \<noteq> Some ReadyClosed \<and> readyState s n \<noteq> Some ReadyClosing
              then set_ready n ReadyClosing t else t
          | None \<Rightarrow> t)
      in u\<lparr>tp_status := SocketStopped\<rparr>)"

definition sendText :: "payload \<Rightarrow> transport \<Rightarrow> bool \<times> transport" where
  "sendText message s = (case tp_socket s of
     None \<Rightarrow> (False, s)
   | Some n \<Rightarrow> if readyState s n \<noteq> Some ReadyOpen then (False, s)
       else (True, s\<lparr>tp_sent := tp_sent s @ [(n, message)]\<rparr>))"

definition MAX_RECONNECT_ATTEMPTS :: nat where "MAX_RECONNECT_ATTEMPTS = 5"

definition reconnectDelay :: "nat \<Rightarrow> nat" where
  "reconnectDelay attempts = min (250 * 2 ^ attempts) 2000"

definition scheduleReconnect :: "string \<Rightarrow> transport \<Rightarrow> transport" where
  "scheduleReconnect gameId s =
     (if tp_closeRequested s \<or> tp_connectedGameId s \<noteq> Some gameId \<or> tp_reconnectTimer s \<noteq> None then s
      else if tp_reconnectAttempts s \<ge> MAX_RECONNECT_ATTEMPTS then s\<lparr>tp_status := SocketError\<rparr>
      else s\<lparr>tp_reconnectAttempts := tp_reconnectAttempts s + 1, tp_fresh := Suc (tp_fresh s),
        tp_reconnectTimer := Some \<lparr>rc_id = tp_fresh s, rc_gameId = gameId,
          rc_delayMs = reconnectDelay (tp_reconnectAttempts s)\<rparr>\<rparr>)"

section \<open>Opening\<close>

text \<open>Up to the await of the ticket.\<close>

definition openSocket :: "opener \<Rightarrow> string \<Rightarrow> transport \<Rightarrow> transport" where
  "openSocket origin gameId s = s\<lparr>tp_status := SocketConnecting, tp_fresh := Suc (tp_fresh s),
     tp_tickets := tp_tickets s @ [(tp_fresh s, origin, gameId)]\<rparr>"

definition connect :: "string \<Rightarrow> transport \<Rightarrow> transport" where
  "connect gameId s = openSocket FromConnect gameId ((transportDisconnect s)\<lparr>tp_reconnectAttempts := 0,
     tp_connectedGameId := Some gameId, tp_closeRequested := False\<rparr>)"

text \<open>An exception of \<open>openSocket\<close>: \<open>connect\<close> passes it on, a reconnect tries again.\<close>

definition openingFailed :: "opener \<Rightarrow> string \<Rightarrow> transport \<Rightarrow> transport" where
  "openingFailed origin gameId s =
     (if origin = FromReconnect \<and> \<not> tp_closeRequested s \<and> tp_connectedGameId s = Some gameId
      then scheduleReconnect gameId (s\<lparr>tp_status := SocketDisconnected\<rparr>) else s)"

definition ticketFailed :: "opener \<Rightarrow> string \<Rightarrow> transport \<Rightarrow> transport" where
  "ticketFailed origin gameId s = openingFailed origin gameId
     (if tp_connectedGameId s = Some gameId then s\<lparr>tp_status := SocketError\<rparr> else s)"

definition handleOpen :: "nat \<Rightarrow> transport \<Rightarrow> transport" where
  "handleOpen n s =
     (if tp_socket s = Some n
      then startPing (s\<lparr>tp_reconnectAttempts := 0, tp_status := SocketConnected\<rparr>) else s)"

definition requireRuntimeRoute :: "json option \<Rightarrow> string option" where
  "requireRuntimeRoute route = (if route = Some (JStr ''runtime_ws'') then Some ''runtime_ws'' else None)"

definition requestedVersion :: "json option \<Rightarrow> jsnum option" where
  "requestedVersion configured = (case configured of
     Some (JNum v) \<Rightarrow> if is_integer v \<and> js_le (Fin 1) v then Some v else None
   | _ \<Rightarrow> None)"

definition withLastAppliedVersion :: "browser \<Rightarrow> string \<Rightarrow> jsnum option \<Rightarrow> string option" where
  "withLastAppliedVersion br url version = (case version of
     None \<Rightarrow> Some url | Some v \<Rightarrow> br_with_version br url v)"

record ticket =
  tk_route :: "json option"
  tk_websocketUrl :: string

text \<open>The ticket is there: the route is checked, the URL made, and the socket opened if the game is
  still the one to be connected. \<open>configured\<close> is the version the caller names at that time, and
  \<open>opened\<close> whether the new socket is open at once.\<close>

definition ticketArrived ::
  "browser \<Rightarrow> opener \<Rightarrow> string \<Rightarrow> ticket \<Rightarrow> json option \<Rightarrow> bool \<Rightarrow> transport \<Rightarrow> transport" where
  "ticketArrived br origin gameId ticket configured opened s =
     (case requireRuntimeRoute (tk_route ticket) of
        None \<Rightarrow> ticketFailed origin gameId s
      | Some route \<Rightarrow>
          let t = s\<lparr>tp_activeRoute := Some route\<rparr> in
          case withLastAppliedVersion br (tk_websocketUrl ticket) (requestedVersion configured) of
            None \<Rightarrow> ticketFailed origin gameId t
          | Some url \<Rightarrow>
              if tp_connectedGameId t \<noteq> Some gameId then t
              else if \<not> br_valid_url br url then openingFailed origin gameId (t\<lparr>tp_status := SocketError\<rparr>)
              else let n = tp_fresh t;
                  u = t\<lparr>tp_fresh := Suc n, tp_socket := Some n, tp_sockets := (tp_sockets t)(n \<mapsto>
                    \<lparr>ws_state = (if opened then ReadyOpen else ReadyConnecting), ws_url = url, ws_gameId = gameId\<rparr>)\<rparr>
                in if opened then handleOpen n u else u)"

text \<open>The promise of the ticket is settled.\<close>

definition with_ticket :: "nat \<Rightarrow> (opener \<Rightarrow> string \<Rightarrow> transport \<Rightarrow> transport) \<Rightarrow> transport \<Rightarrow> transport" where
  "with_ticket i f s = (case map_of (tp_tickets s) i of
     None \<Rightarrow> s
   | Some (origin, gameId) \<Rightarrow> f origin gameId (s\<lparr>tp_tickets := filter (\<lambda>(j, _). j \<noteq> i) (tp_tickets s)\<rparr>))"

section \<open>Events of the socket\<close>

definition socketLost :: "string \<Rightarrow> transport \<Rightarrow> transport" where
  "socketLost gameId s =
     scheduleReconnect gameId ((stopPing (s\<lparr>tp_socket := None\<rparr>))\<lparr>tp_status := SocketDisconnected\<rparr>)"

text \<open>\<open>r\<close> is the ready state the browser has set before the event.\<close>

definition socketErrors :: "nat \<Rightarrow> ready_state \<Rightarrow> transport \<Rightarrow> transport" where
  "socketErrors n r s = (case tp_sockets s n of
     None \<Rightarrow> s
   | Some w \<Rightarrow>
       let t = set_ready n r s in
       if tp_socket t \<noteq> Some n then t
       else if r = ReadyOpen \<or> tp_closeRequested t then t\<lparr>tp_status := SocketError\<rparr>
       else socketLost (ws_gameId w) (t\<lparr>tp_status := SocketError\<rparr>))"

definition socketCloses :: "nat \<Rightarrow> transport \<Rightarrow> transport" where
  "socketCloses n s = (case tp_sockets s n of
     None \<Rightarrow> s
   | Some w \<Rightarrow>
       let t = set_ready n ReadyClosed s in
       if tp_socket t \<noteq> Some n then t
       else if tp_closeRequested t
       then (stopPing (t\<lparr>tp_socket := None\<rparr>))\<lparr>tp_connectedGameId := None, tp_status := SocketStopped\<rparr>
       else socketLost (ws_gameId w) t)"

definition socketOpens :: "nat \<Rightarrow> transport \<Rightarrow> transport" where
  "socketOpens n s = (if readyState s n = Some ReadyConnecting then handleOpen n (set_ready n ReadyOpen s) else s)"

definition reconnectFires :: "nat \<Rightarrow> transport \<Rightarrow> transport" where
  "reconnectFires i s = (case tp_reconnectTimer s of
     None \<Rightarrow> s
   | Some timer \<Rightarrow>
       if rc_id timer \<noteq> i then s
       else let t = s\<lparr>tp_reconnectTimer := None\<rparr> in
         if tp_closeRequested t \<or> tp_connectedGameId t \<noteq> Some (rc_gameId timer) then t
         else openSocket FromReconnect (rc_gameId timer) t)"

text \<open>A field that is \<open>undefined\<close> is left out.\<close>

definition optional_field :: "string \<Rightarrow> string option \<Rightarrow> payload" where
  "optional_field name v = (case v of None \<Rightarrow> [] | Some text \<Rightarrow> [(name, JStr text)])"

definition sendPing :: "browser \<Rightarrow> string \<Rightarrow> transport \<Rightarrow> transport" where
  "sendPing br sentAt s = (case tp_socket s of
     None \<Rightarrow> s
   | Some n \<Rightarrow> if readyState s n \<noteq> Some ReadyOpen then s
       else s\<lparr>tp_fresh := Suc (tp_fresh s), tp_sent := tp_sent s @ [(n, (''kind'', JStr ''ping'') #
         optional_field ''gameId'' (tp_connectedGameId s) @
         [(''messageId'', JStr (br_randomId br (tp_fresh s))), (''sentAt'', JStr sentAt)])]\<rparr>)"

definition pingFires :: "browser \<Rightarrow> nat \<Rightarrow> string \<Rightarrow> transport \<Rightarrow> transport" where
  "pingFires br i sentAt s = (if tp_pingTimer s = Some i then sendPing br sentAt s else s)"

section \<open>What arrives\<close>

definition optionalString :: "json option \<Rightarrow> string option" where
  "optionalString v = (case v of Some (JStr s) \<Rightarrow> if js_trim s \<noteq> [] then Some s else None | _ \<Rightarrow> None)"

definition emitMessage :: "payload \<Rightarrow> transport \<Rightarrow> transport" where
  "emitMessage message s = s\<lparr>tp_messages := tp_messages s @ [message]\<rparr>"

definition localError :: "string option \<Rightarrow> string \<Rightarrow> string \<Rightarrow> string option \<Rightarrow> payload" where
  "localError gameId code message messageId = (''kind'', JStr ''error'') # optional_field ''gameId'' gameId @
     optional_field ''messageId'' messageId @
     [(''error'', JObj [(''code'', JStr code), (''message'', JStr message), (''retryable'', JBool False)])]"

definition emitLocalError :: "string \<Rightarrow> string \<Rightarrow> string option \<Rightarrow> transport \<Rightarrow> transport" where
  "emitLocalError code message messageId s = emitMessage (localError (tp_connectedGameId s) code message messageId) s"

definition SERVER_KINDS :: "string list" where
  "SERVER_KINDS = [''command_ack'', ''game_patch'', ''patch.v2'', ''resync_required'', ''error'', ''pong'',
     ''connection_state'', ''connection_joined'', ''connection_left'', ''player_presence_changed'',
     ''mulligan.public_state'', ''mulligan.private_state'', ''mulligan.error'', ''mulligan.completed'']"

definition adaptLegacyTypeServerMessage :: "string option \<Rightarrow> payload \<Rightarrow> payload option" where
  "adaptLegacyTypeServerMessage connectedGameId message =
     (case optionalString (map_of message ''type'') of
        None \<Rightarrow> None
      | Some type \<Rightarrow>
          (case (if type = ''patch'' then map_of message ''patch'' else None) of
            Some (JObj patch) \<Rightarrow> Some (obj_set ''kind'' (JStr ''patch.v2'') patch)
          | _ \<Rightarrow>
            if type = ''resync.required''
            then Some [(''kind'', JStr ''resync_required''),
              (''gameId'', JStr (case optionalString (map_of message ''gameId'') of
                 Some g \<Rightarrow> g | None \<Rightarrow> or_default connectedGameId [])),
              (''currentVersion'', JNum (case map_of message ''currentVersion'' of
                 Some (JNum v) \<Rightarrow> v | _ \<Rightarrow> num 0)),
              (''reason'', JStr ''version_gap'')]
            else if type = ''error''
            then Some ((''kind'', JStr ''error'') #
              optional_field ''gameId'' (case optionalString (map_of message ''gameId'') of
                 Some g \<Rightarrow> Some g | None \<Rightarrow> connectedGameId) @
              optional_field ''clientActionId'' (optionalString (map_of message ''ackClientActionId'')) @
              [(''error'', JObj
                [(''code'', JStr (or_default (optionalString (map_of message ''code'')) ''RUNTIME_ERROR'')),
                 (''message'', JStr (or_default (optionalString (map_of message ''error''))
                    ''Runtime websocket error.'')),
                 (''retryable'', JBool False)])])
            else None))"

definition normalizeServerMessage :: "string option \<Rightarrow> payload \<Rightarrow> payload option" where
  "normalizeServerMessage connectedGameId message = (case map_of message ''kind'' of
     Some (JStr kind) \<Rightarrow> if kind \<in> set SERVER_KINDS then Some message else None
   | _ \<Rightarrow> adaptLegacyTypeServerMessage connectedGameId message)"

definition isValidCommandAck :: "payload \<Rightarrow> bool" where
  "isValidCommandAck message \<longleftrightarrow>
     map_of message ''status'' \<in> {Some (JStr ''rejected''), Some (JStr ''duplicate''), Some (JStr ''resync_required'')}"

definition capturePlayerPresence :: "browser \<Rightarrow> payload \<Rightarrow> transport \<Rightarrow> transport" where
  "capturePlayerPresence br message s =
     (if map_of message ''kind'' \<noteq> Some (JStr ''player_presence_changed'') then s
      else s\<lparr>tp_online := (tp_online s)(br_key_text br (map_of message ''playerId'') \<mapsto>
        (map_of message ''status'' = Some (JStr ''online'')))\<rparr>)"

definition GAME_ID_MISMATCH :: string where
  "GAME_ID_MISMATCH = ''WebSocket message gameId does not match the connected game.''"

definition foreignGame :: "string option \<Rightarrow> payload \<Rightarrow> bool" where
  "foreignGame connectedGameId message \<longleftrightarrow>
     (case optionalString (map_of message ''gameId'') of None \<Rightarrow> False | Some g \<Rightarrow> Some g \<noteq> connectedGameId)"

datatype incoming = NotText | Malformed | Parsed json

definition handleIncomingData :: "browser \<Rightarrow> incoming \<Rightarrow> transport \<Rightarrow> transport" where
  "handleIncomingData br data s = (case data of
     NotText \<Rightarrow> emitLocalError ''INVALID_MESSAGE'' ''WebSocket message data must be text.'' None s
   | Malformed \<Rightarrow> emitLocalError ''INVALID_MESSAGE'' ''WebSocket message must be valid JSON.'' None
       (s\<lparr>tp_status := SocketError\<rparr>)
   | Parsed (JObj message) \<Rightarrow>
       let messageId = optionalString (map_of message ''messageId''); g = tp_connectedGameId s in
       if foreignGame g message then emitLocalError ''GAME_ID_MISMATCH'' GAME_ID_MISMATCH messageId s
       else (case normalizeServerMessage g message of
         None \<Rightarrow> emitLocalError ''INVALID_MESSAGE'' ''WebSocket message kind is not supported.'' messageId s
       | Some normalized \<Rightarrow>
           if foreignGame g normalized
           then emitLocalError ''GAME_ID_MISMATCH'' GAME_ID_MISMATCH messageId s
           else if map_of normalized ''kind'' = Some (JStr ''command_ack'') \<and> \<not> isValidCommandAck normalized
           then emitLocalError ''INVALID_MESSAGE'' ''WebSocket command_ack status is not supported.'' messageId s
           else emitMessage normalized (capturePlayerPresence br normalized s))
   | Parsed _ \<Rightarrow> emitLocalError ''INVALID_MESSAGE'' ''WebSocket message must be an object.'' None s)"

definition socketMessage :: "browser \<Rightarrow> nat \<Rightarrow> incoming \<Rightarrow> transport \<Rightarrow> transport" where
  "socketMessage br n data s = (if tp_socket s = Some n then handleIncomingData br data s else s)"

section \<open>Steps\<close>

datatype transport_event =
    Connect string
  | Disconnected
  | SendText payload
  | TicketArrives nat ticket "json option" bool
  | TicketFails nat
  | SocketOpens nat
  | SocketErrors nat ready_state
  | SocketCloses nat
  | SocketMessage nat incoming
  | ReconnectFires nat
  | PingFires nat string

definition transportStep :: "browser \<Rightarrow> transport \<Rightarrow> transport_event \<Rightarrow> transport" where
  "transportStep br s e = (case e of
     Connect gameId \<Rightarrow> connect gameId s
   | Disconnected \<Rightarrow> transportDisconnect s
   | SendText message \<Rightarrow> snd (sendText message s)
   | TicketArrives i ticket configured opened \<Rightarrow>
       with_ticket i (\<lambda>origin gameId. ticketArrived br origin gameId ticket configured opened) s
   | TicketFails i \<Rightarrow> with_ticket i ticketFailed s
   | SocketOpens n \<Rightarrow> socketOpens n s
   | SocketErrors n r \<Rightarrow> socketErrors n r s
   | SocketCloses n \<Rightarrow> socketCloses n s
   | SocketMessage n data \<Rightarrow> socketMessage br n data s
   | ReconnectFires i \<Rightarrow> reconnectFires i s
   | PingFires i sentAt \<Rightarrow> pingFires br i sentAt s)"

definition initial_transport :: transport where
  "initial_transport = \<lparr>tp_socket = None, tp_sockets = Map.empty, tp_connectedGameId = None,
     tp_closeRequested = False, tp_reconnectTimer = None, tp_reconnectAttempts = 0, tp_pingTimer = None,
     tp_activeRoute = None, tp_status = SocketStopped, tp_online = Map.empty, tp_messages = [], tp_sent = [],
     tp_tickets = [], tp_fresh = 0\<rparr>"

end
