(* ===== verification/TransportProps.thy ===== *)
theory TransportProps
  imports SocketTransport Replica
begin

text \<open>
  What the transport keeps in every run, and what its reconnects, its filter of messages and its
  disconnection promise.
\<close>

section \<open>The invariant\<close>

text \<open>Without a game there is nothing that could act; a reconnect is for the current game, with the
  delay of the last attempt; pings run for a socket; tickets and timers have ids of their own.\<close>

definition timer_fits :: "transport \<Rightarrow> reconnect_timer \<Rightarrow> bool" where
  "timer_fits s timer \<longleftrightarrow> tp_connectedGameId s = Some (rc_gameId timer) \<and> rc_id timer < tp_fresh s
     \<and> 250 \<le> rc_delayMs timer \<and> rc_delayMs timer \<le> 2000"

definition socket_fits :: "transport \<Rightarrow> nat \<Rightarrow> bool" where
  "socket_fits s n \<longleftrightarrow> tp_connectedGameId s \<noteq> None \<and> map_option ws_gameId (tp_sockets s n) = tp_connectedGameId s"

definition transport_ok :: "transport \<Rightarrow> bool" where
  "transport_ok s \<longleftrightarrow> tp_reconnectAttempts s \<le> MAX_RECONNECT_ATTEMPTS
     \<and> (tp_closeRequested s \<longrightarrow> tp_connectedGameId s = None)
     \<and> (tp_connectedGameId s = None \<longrightarrow> tp_status s = SocketStopped)
     \<and> pred_option (timer_fits s) (tp_reconnectTimer s) \<and> pred_option (socket_fits s) (tp_socket s)
     \<and> (tp_pingTimer s \<noteq> None \<longrightarrow> tp_socket s \<noteq> None)
     \<and> (tp_status s = SocketConnected \<longrightarrow> tp_pingTimer s \<noteq> None)
     \<and> list_all (\<lambda>t. fst t < tp_fresh s) (tp_tickets s) \<and> (\<forall>n \<ge> tp_fresh s. tp_sockets s n = None)"

lemmas ok_defs = transport_ok_def timer_fits_def socket_fits_def

lemma fresh_mono [simp]:
  "list_all (\<lambda>t. fst t < n) ts \<Longrightarrow> list_all (\<lambda>t :: nat \<times> opener \<times> string. fst t < Suc n) ts"
  by (auto simp: list_all_iff)

lemma fresh_remove [simp]:
  "list_all (\<lambda>t. fst t < n) ts \<Longrightarrow> list_all (\<lambda>t :: nat \<times> opener \<times> string. fst t < n) (filter P ts)"
  by (auto simp: list_all_iff)

lemma reconnectDelay_bounds [simp]: "250 \<le> reconnectDelay k" "reconnectDelay k \<le> 2000"
  by (simp_all add: reconnectDelay_def)

lemma set_ready_simps [simp]:
  "tp_socket (set_ready n r s) = tp_socket s" "tp_connectedGameId (set_ready n r s) = tp_connectedGameId s"
  "tp_closeRequested (set_ready n r s) = tp_closeRequested s" "tp_reconnectTimer (set_ready n r s) = tp_reconnectTimer s"
  "tp_reconnectAttempts (set_ready n r s) = tp_reconnectAttempts s" "tp_pingTimer (set_ready n r s) = tp_pingTimer s"
  "tp_status (set_ready n r s) = tp_status s" "tp_tickets (set_ready n r s) = tp_tickets s"
  "tp_fresh (set_ready n r s) = tp_fresh s" "tp_messages (set_ready n r s) = tp_messages s"
  "tp_sent (set_ready n r s) = tp_sent s"
  by (simp_all add: set_ready_def)

lemma set_ready_ok: "transport_ok s \<Longrightarrow> transport_ok (set_ready n r s)"
  by (cases "tp_socket s"; cases "tp_reconnectTimer s") (auto simp: transport_ok_def timer_fits_def socket_fits_def set_ready_def
      option.map_comp comp_def)

lemma scheduleReconnect_ok:
  assumes "transport_ok s" "tp_status s \<noteq> SocketConnected"
  shows "transport_ok (scheduleReconnect gameId s)"
  using assms by (cases "tp_socket s") (auto simp: ok_defs scheduleReconnect_def)

lemma disconnect_fields [simp]:
  "tp_socket (transportDisconnect s) = None" "tp_reconnectTimer (transportDisconnect s) = None"
  "tp_pingTimer (transportDisconnect s) = None" "tp_status (transportDisconnect s) = SocketStopped"
  "tp_connectedGameId (transportDisconnect s) = None" "tp_closeRequested (transportDisconnect s)"
  "tp_reconnectAttempts (transportDisconnect s) = tp_reconnectAttempts s"
  "tp_tickets (transportDisconnect s) = tp_tickets s" "tp_fresh (transportDisconnect s) = tp_fresh s"
  "tp_messages (transportDisconnect s) = tp_messages s" "tp_sent (transportDisconnect s) = tp_sent s"
  "tp_sockets (transportDisconnect s) n = None \<longleftrightarrow> tp_sockets s n = None"
  by (auto simp: transportDisconnect_def Let_def stopPing_def set_ready_def split: option.split if_splits)

lemma disconnect_ok: "transport_ok s \<Longrightarrow> transport_ok (transportDisconnect s)"
  by (simp add: transport_ok_def)

lemma openSocket_ok:
  "transport_ok s \<Longrightarrow> tp_connectedGameId s \<noteq> None \<Longrightarrow> transport_ok (openSocket origin gameId s)"
  by (cases "tp_socket s"; cases "tp_reconnectTimer s") (auto simp: ok_defs openSocket_def)

lemma connect_ok: "transport_ok s \<Longrightarrow> transport_ok (connect gameId s)"
  unfolding connect_def by (rule openSocket_ok) (simp_all add: transport_ok_def)

lemma status_ok:
  "transport_ok s \<Longrightarrow> tp_connectedGameId s \<noteq> None \<Longrightarrow> r \<noteq> SocketConnected \<Longrightarrow> transport_ok (s\<lparr>tp_status := r\<rparr>)"
  by (cases "tp_socket s"; cases "tp_reconnectTimer s") (auto simp: ok_defs)

lemma openingFailed_ok:
  "transport_ok s \<Longrightarrow> tp_status s \<noteq> SocketConnected \<or> tp_connectedGameId s \<noteq> Some gameId
   \<Longrightarrow> transport_ok (openingFailed origin gameId s)"
  using status_ok [of s SocketDisconnected] by (auto simp: openingFailed_def intro!: scheduleReconnect_ok)

lemma ticketFailed_ok: "transport_ok s \<Longrightarrow> transport_ok (ticketFailed origin gameId s)"
  unfolding ticketFailed_def by (rule openingFailed_ok) (auto intro: status_ok)

lemma handleOpen_ok: "transport_ok s \<Longrightarrow> transport_ok (handleOpen n s)"
  by (cases "tp_socket s"; cases "tp_reconnectTimer s") (auto simp: ok_defs handleOpen_def startPing_def stopPing_def)

lemma new_socket_ok:
  "transport_ok s \<Longrightarrow> tp_connectedGameId s = Some (ws_gameId w) \<Longrightarrow> transport_ok
    (s\<lparr>tp_fresh := Suc (tp_fresh s), tp_socket := Some (tp_fresh s), tp_sockets := (tp_sockets s)(tp_fresh s \<mapsto> w)\<rparr>)"
  by (cases "tp_reconnectTimer s") (auto simp: ok_defs)

lemma ticketArrived_ok:
  assumes "transport_ok s"
  shows "transport_ok (ticketArrived br origin gameId ticket configured opened s)"
proof -
  have route: "transport_ok (s\<lparr>tp_activeRoute := r\<rparr>)" for r
    using assms by (cases "tp_socket s"; cases "tp_reconnectTimer s") (auto simp: ok_defs)
  have status: "transport_ok (s\<lparr>tp_activeRoute := r, tp_status := SocketError\<rparr>)"
    if "tp_connectedGameId s = Some gameId" for r
    using status_ok [OF route] that by simp
  show ?thesis
    using new_socket_ok [OF route] by (auto simp: ticketArrived_def Let_def assms route status
        intro!: ticketFailed_ok openingFailed_ok handleOpen_ok split: option.split)
qed

lemma socketLost_ok:
  assumes "transport_ok s" "tp_connectedGameId s \<noteq> None"
  shows "transport_ok (socketLost gameId s)"
  unfolding socketLost_def
proof (rule scheduleReconnect_ok)
  show "transport_ok ((stopPing (s\<lparr>tp_socket := None\<rparr>))\<lparr>tp_status := SocketDisconnected\<rparr>)"
    using assms by (cases "tp_reconnectTimer s") (auto simp: ok_defs stopPing_def)
qed simp

lemma socket_game: "transport_ok s \<Longrightarrow> tp_socket s = Some n \<Longrightarrow> tp_connectedGameId s \<noteq> None \<and> \<not> tp_closeRequested s"
  by (auto simp: ok_defs)

lemma socketErrors_ok:
  assumes "transport_ok s"
  shows "transport_ok (socketErrors n r s)"
proof -
  let ?t = "set_ready n r s"
  have t: "transport_ok ?t" using assms by (rule set_ready_ok)
  show ?thesis
    using t socket_game [OF t] status_ok [OF t] socketLost_ok [OF status_ok [OF t]]
    by (auto simp: socketErrors_def Let_def assms split: option.split)
qed

lemma socketCloses_ok:
  assumes "transport_ok s"
  shows "transport_ok (socketCloses n s)"
proof -
  let ?t = "set_ready n ReadyClosed s"
  have t: "transport_ok ?t" using assms by (rule set_ready_ok)
  show ?thesis
    using t socket_game [OF t] socketLost_ok [OF t]
    by (auto simp: socketCloses_def Let_def assms split: option.split)
qed

lemma with_ticket_ok:
  assumes "transport_ok s" and "\<And>origin gameId t. transport_ok t \<Longrightarrow> transport_ok (f origin gameId t)"
  shows "transport_ok (with_ticket i f s)"
proof -
  have "transport_ok (s\<lparr>tp_tickets := filter (\<lambda>(j, _). j \<noteq> i) (tp_tickets s)\<rparr>)"
    using assms(1) by (cases "tp_socket s"; cases "tp_reconnectTimer s") (auto simp: ok_defs)
  then show ?thesis by (auto simp: with_ticket_def assms split: option.split prod.split)
qed

lemma reconnectFires_ok: "transport_ok s \<Longrightarrow> transport_ok (reconnectFires i s)"
  by (cases "tp_socket s"; cases "tp_reconnectTimer s") (auto simp: reconnectFires_def openSocket_def ok_defs)

lemma emit_ok: "transport_ok s \<Longrightarrow> transport_ok (emitMessage m s)" "transport_ok s \<Longrightarrow> transport_ok (emitLocalError c t i s)"
  "transport_ok s \<Longrightarrow> transport_ok (capturePlayerPresence br m s)"
  by (cases "tp_socket s"; cases "tp_reconnectTimer s"; auto simp: ok_defs emitLocalError_def emitMessage_def
      capturePlayerPresence_def)+

lemma handleIncomingData_ok:
  "transport_ok s \<Longrightarrow> tp_connectedGameId s \<noteq> None \<Longrightarrow> transport_ok (handleIncomingData br data s)"
proof (cases data)
  case (Parsed j)
  assume ok: "transport_ok s"
  show ?thesis
  proof (cases j)
    case (JObj message)
    have normal: "transport_ok (case n of None \<Rightarrow> emitLocalError c t i s
      | Some m \<Rightarrow> if P m then emitLocalError c' t' i s else if Q m then emitLocalError c'' t'' i s
          else emitMessage m (capturePlayerPresence br m s))" for n c t i P c' t' Q c'' t''
      using ok by (simp add: emit_ok split: option.split)
    show ?thesis unfolding Parsed JObj handleIncomingData_def Let_def incoming.case json.case
      by (simp only: if_splits normal emit_ok [OF ok]) simp
  qed (simp_all add: Parsed handleIncomingData_def emit_ok ok)
qed (simp_all add: handleIncomingData_def emit_ok status_ok)

lemma transportStep_ok: "transport_ok s \<Longrightarrow> transport_ok (transportStep br s e)"
proof (cases e)
  case (SendText m)
  assume "transport_ok s"
  then show ?thesis by (cases "tp_socket s"; cases "tp_reconnectTimer s")
      (auto simp: SendText transportStep_def sendText_def ok_defs)
next
  case (PingFires i sentAt)
  assume "transport_ok s"
  then show ?thesis
    by (cases "tp_socket s"; cases "tp_reconnectTimer s")
      (auto simp: PingFires transportStep_def pingFires_def sendPing_def ok_defs)
next
  case (SocketMessage n data)
  assume ok: "transport_ok s"
  then show ?thesis using socket_game [OF ok]
    by (auto simp: SocketMessage transportStep_def socketMessage_def intro!: handleIncomingData_ok)
next
  case (SocketOpens n)
  assume "transport_ok s"
  then show ?thesis by (simp add: SocketOpens transportStep_def socketOpens_def handleOpen_ok set_ready_ok)
qed (simp_all add: transportStep_def connect_ok disconnect_ok with_ticket_ok ticketArrived_ok ticketFailed_ok
    socketErrors_ok socketCloses_ok reconnectFires_ok)

interpretation transport_session: invariant_machine "transportStep br" "\<lambda>_. True" transport_ok for br
  by unfold_locales (rule transportStep_ok)

text \<open>C29: In every run of the transport at most five reconnects are attempted in a row, each after a
  delay between a quarter of a second and two seconds and only for the game that is connected; pings
  run only while there is a socket, and do run while it is connected; and without a game there is no
  socket, no timer and no status but stopped.\<close>

theorem transport_run_ok: "transport_ok (run_steps (transportStep br) initial_transport events)"
  by (rule transport_session.run_invar)
    (simp_all add: transport_ok_def initial_transport_def list.pred_True)

section \<open>After a disconnection\<close>

definition at_rest :: "transport \<Rightarrow> bool" where
  "at_rest s \<longleftrightarrow> tp_closeRequested s \<and> tp_connectedGameId s = None \<and> tp_socket s = None
     \<and> tp_reconnectTimer s = None \<and> tp_pingTimer s = None \<and> tp_status s = SocketStopped"

fun is_connect :: "transport_event \<Rightarrow> bool" where
  "is_connect (Connect gameId) = True"
| "is_connect _ = False"

lemma rest_ticket:
  assumes "tp_connectedGameId s = None"
  shows "ticketFailed origin gameId s = s"
    and "\<exists>r. ticketArrived br origin gameId ticket configured opened s = s\<lparr>tp_activeRoute := r\<rparr>"
proof -
  have failed: "ticketFailed origin gameId t = t" if "tp_connectedGameId t = None" for t
    using that by (simp add: ticketFailed_def openingFailed_def)
  show "ticketFailed origin gameId s = s" using assms by (rule failed)
  show "\<exists>r. ticketArrived br origin gameId ticket configured opened s = s\<lparr>tp_activeRoute := r\<rparr>"
  proof (cases "requireRuntimeRoute (tk_route ticket)")
    case None
    then show ?thesis
      using failed [OF assms] by (intro exI [of _ "tp_activeRoute s"]) (simp add: ticketArrived_def)
  next
    case (Some route)
    then show ?thesis using assms failed [of "s\<lparr>tp_activeRoute := Some route\<rparr>"]
      by (intro exI [of _ "Some route"]) (simp add: ticketArrived_def Let_def split: option.split)
  qed
qed

lemma rest_step:
  assumes "at_rest s" "\<not> is_connect e"
  shows "at_rest (transportStep br s e) \<and> tp_messages (transportStep br s e) = tp_messages s
    \<and> tp_sent (transportStep br s e) = tp_sent s"
proof (cases e)
  case (TicketArrives i ticket configured opened)
  show ?thesis
  proof (cases "map_of (tp_tickets s) i")
    case (Some w)
    obtain origin gameId where w: "w = (origin, gameId)" by (cases w)
    let ?t = "s\<lparr>tp_tickets := filter (\<lambda>(j, _). j \<noteq> i) (tp_tickets s)\<rparr>"
    have "tp_connectedGameId ?t = None" using assms(1) by (simp add: at_rest_def)
    from rest_ticket(2) [OF this] obtain r
      where "ticketArrived br origin gameId ticket configured opened ?t = ?t\<lparr>tp_activeRoute := r\<rparr>" by blast
    with assms(1) TicketArrives Some w show ?thesis
      by (simp add: transportStep_def with_ticket_def at_rest_def)
  qed (use assms(1) TicketArrives in \<open>simp add: transportStep_def with_ticket_def\<close>)
next
  case (TicketFails i)
  with assms(1) show ?thesis
    by (auto simp: transportStep_def with_ticket_def at_rest_def rest_ticket(1) split: option.split)
qed (use assms in \<open>auto simp: transportStep_def at_rest_def sendText_def socketOpens_def handleOpen_def
    socketErrors_def socketCloses_def socketMessage_def reconnectFires_def pingFires_def Let_def
    split: option.split\<close>)

lemma rest_run:
  assumes "at_rest s" "list_all (\<lambda>e. \<not> is_connect e) events"
  shows "at_rest (run_steps (transportStep br) s events)
    \<and> tp_messages (run_steps (transportStep br) s events) = tp_messages s
    \<and> tp_sent (run_steps (transportStep br) s events) = tp_sent s"
  using assms
proof (induction events arbitrary: s)
  case (Cons e events)
  then show ?case using rest_step [of s e br] by simp
qed simp

text \<open>A disconnection is final: whatever happens afterwards, tickets that arrive late, events of old
  sockets and timers, until the next \<open>connect\<close> there is no socket and no timer, nothing is sent,
  nobody receives a message and the status stays stopped.\<close>

theorem disconnect_is_final:
  assumes "list_all (\<lambda>e. \<not> is_connect e) events"
  shows "at_rest (run_steps (transportStep br) (transportDisconnect s) events)
    \<and> tp_messages (run_steps (transportStep br) (transportDisconnect s) events) = tp_messages s
    \<and> tp_sent (run_steps (transportStep br) (transportDisconnect s) events) = tp_sent s"
proof -
  have "at_rest (transportDisconnect s)" by (simp add: at_rest_def)
  from rest_run [OF this assms] show ?thesis by simp
qed

definition sample_browser :: browser where
  "sample_browser = \<lparr>br_randomId = nat_string, br_key_text = (\<lambda>_. ''key''), br_with_version = (\<lambda>url v. Some url),
     br_valid_url = (\<lambda>url. url \<noteq> [])\<rparr>"

definition good_ticket :: ticket where
  "good_ticket = \<lparr>tk_route = Some (JStr ''runtime_ws''), tk_websocketUrl = ''wss://runtime''\<rparr>"

theorem disconnect_is_final_witness:
  "let s = run_steps (transportStep sample_browser) initial_transport [Connect ''g'', TicketArrives 0 good_ticket None True]
   in tp_status s = SocketConnected
     \<and> at_rest (run_steps (transportStep sample_browser) (transportDisconnect s) [SocketCloses 1, PingFires 2 ''now''])"
proof -
  let ?s = "run_steps (transportStep sample_browser) initial_transport [Connect ''g'', TicketArrives 0 good_ticket None True]"
  have e: "list_all (\<lambda>e. \<not> is_connect e) [SocketCloses 1, PingFires 2 ''now'']" by simp
  have "tp_status ?s = SocketConnected"
    by (simp add: transportStep_def connect_def openSocket_def transportDisconnect_def initial_transport_def stopPing_def
        with_ticket_def ticketArrived_def good_ticket_def requireRuntimeRoute_def withLastAppliedVersion_def
        requestedVersion_def sample_browser_def handleOpen_def startPing_def)
  with disconnect_is_final [OF e, of sample_browser ?s] show ?thesis by (simp only: Let_def simp_thms)
qed

section \<open>Giving up\<close>

text \<open>A reconnect whose ticket fails: the timer fires, and the ticket it asks for is refused.\<close>

definition failingReconnect :: "transport \<Rightarrow> transport" where
  "failingReconnect s = (case tp_reconnectTimer s of
     None \<Rightarrow> s
   | Some timer \<Rightarrow> with_ticket (tp_fresh s) ticketFailed (reconnectFires (rc_id timer) s))"

definition retrying :: "string \<Rightarrow> nat \<Rightarrow> transport \<Rightarrow> bool" where
  "retrying gameId k s \<longleftrightarrow> transport_ok s \<and> \<not> tp_closeRequested s \<and> tp_connectedGameId s = Some gameId
     \<and> tp_reconnectAttempts s = k \<and> tp_status s = SocketDisconnected
     \<and> map_option rc_delayMs (tp_reconnectTimer s) = Some (reconnectDelay (k - 1))"

lemma failing_round:
  assumes "retrying gameId k s"
  shows "if k < MAX_RECONNECT_ATTEMPTS then retrying gameId (Suc k) (failingReconnect s)
    else tp_status (failingReconnect s) = SocketError \<and> tp_reconnectTimer (failingReconnect s) = None"
proof -
  have ok: "transport_ok s" and s: "\<not> tp_closeRequested s" "tp_connectedGameId s = Some gameId"
    "tp_reconnectAttempts s = k" using assms by (simp_all add: retrying_def)
  obtain timer where timer: "tp_reconnectTimer s = Some timer" using assms by (auto simp: retrying_def)
  have g: "rc_gameId timer = gameId" using ok timer s(2) by (auto simp: ok_defs)
  have "map_of (tp_tickets s) (tp_fresh s) = None"
    using ok by (auto simp: transport_ok_def list_all_iff map_of_eq_None_iff)
  then have found: "map_of (tp_tickets s @ [(tp_fresh s, FromReconnect, gameId)]) (tp_fresh s) = Some (FromReconnect, gameId)"
    by (simp add: map_add_def)
  have run: "failingReconnect s = ticketFailed FromReconnect gameId
    (s\<lparr>tp_reconnectTimer := None, tp_status := SocketConnecting, tp_fresh := Suc (tp_fresh s),
       tp_tickets := filter (\<lambda>(j, _). j \<noteq> tp_fresh s) (tp_tickets s)\<rparr>)"
    using found s(1,2) by (simp add: failingReconnect_def timer reconnectFires_def g openSocket_def with_ticket_def)
  have "transport_ok (failingReconnect s)"
    by (simp add: failingReconnect_def timer with_ticket_ok reconnectFires_ok ticketFailed_ok ok)
  then show ?thesis using s unfolding run
    by (cases "k < MAX_RECONNECT_ATTEMPTS")
      (simp_all add: ticketFailed_def openingFailed_def scheduleReconnect_def retrying_def)
qed

text \<open>C30: When a connected socket is lost and every ticket is refused, five reconnects are tried, after
  delays that double from a quarter of a second up to two seconds; then the status is an error and
  no timer is left.\<close>

theorem reconnects_give_up:
  assumes "transport_ok s" "tp_connectedGameId s = Some gameId" "\<not> tp_closeRequested s"
    and "tp_reconnectAttempts s = 0" "tp_reconnectTimer s = None"
  shows "(\<forall>k < 5. map_option rc_delayMs (tp_reconnectTimer ((failingReconnect ^^ k) (socketLost gameId s)))
      = Some (min (250 * 2 ^ k) 2000))
    \<and> tp_status ((failingReconnect ^^ 5) (socketLost gameId s)) = SocketError
    \<and> tp_reconnectTimer ((failingReconnect ^^ 5) (socketLost gameId s)) = None"
proof -
  have "transport_ok (socketLost gameId s)" using socketLost_ok [OF assms(1)] assms(2) by simp
  then have start: "retrying gameId 1 (socketLost gameId s)"
    using assms(2-) by (simp add: retrying_def socketLost_def scheduleReconnect_def stopPing_def MAX_RECONNECT_ATTEMPTS_def)
  have "retrying gameId (Suc k) ((failingReconnect ^^ k) (socketLost gameId s))" if "k < 5" for k
    using that
  proof (induction k)
    case (Suc k)
    then show ?case using failing_round [of gameId "Suc k" "(failingReconnect ^^ k) (socketLost gameId s)"]
      by (simp add: MAX_RECONNECT_ATTEMPTS_def)
  qed (use start in simp)
  note rounds = this
  have "(failingReconnect ^^ 5) (socketLost gameId s) = failingReconnect ((failingReconnect ^^ 4) (socketLost gameId s))"
    by (simp add: eval_nat_numeral)
  with failing_round [OF rounds [of 4]] have "tp_status ((failingReconnect ^^ 5) (socketLost gameId s)) = SocketError
      \<and> tp_reconnectTimer ((failingReconnect ^^ 5) (socketLost gameId s)) = None"
    by (simp add: MAX_RECONNECT_ATTEMPTS_def)
  moreover have "map_option rc_delayMs (tp_reconnectTimer ((failingReconnect ^^ k) (socketLost gameId s)))
      = Some (min (250 * 2 ^ k) 2000)" if "k < 5" for k
    using rounds [OF that] by (simp add: retrying_def reconnectDelay_def)
  ultimately show ?thesis by blast
qed

theorem reconnects_give_up_witness:
  "let s = run_steps (transportStep sample_browser) initial_transport [Connect ''g'', TicketArrives 0 good_ticket None True]
   in map_option rc_delayMs (tp_reconnectTimer ((failingReconnect ^^ 3) (socketLost ''g'' s))) = Some 2000
     \<and> tp_status ((failingReconnect ^^ 5) (socketLost ''g'' s)) = SocketError"
proof -
  let ?s = "run_steps (transportStep sample_browser) initial_transport [Connect ''g'', TicketArrives 0 good_ticket None True]"
  have ok: "transport_ok ?s"
    by (rule transport_session.run_invar)
      (simp_all add: transport_ok_def initial_transport_def list.pred_True)
  have s: "tp_connectedGameId ?s = Some ''g''" "\<not> tp_closeRequested ?s" "tp_reconnectAttempts ?s = 0"
    "tp_reconnectTimer ?s = None"
    by (simp_all add: transportStep_def connect_def openSocket_def transportDisconnect_def initial_transport_def
        stopPing_def with_ticket_def ticketArrived_def good_ticket_def requireRuntimeRoute_def
        withLastAppliedVersion_def requestedVersion_def sample_browser_def handleOpen_def startPing_def)
  note r = reconnects_give_up [OF ok s]
  have "map_option rc_delayMs (tp_reconnectTimer ((failingReconnect ^^ 3) (socketLost ''g'' ?s)))
      = Some (min (250 * 2 ^ 3) 2000)"
    using r [THEN conjunct1] by (rule allE [of _ 3]) simp
  with r show ?thesis by (simp only: Let_def simp_thms) simp
qed

section \<open>Messages\<close>

lemma local_error_fields:
  "map_of (localError g code text messageId) ''kind'' = Some (JStr ''error'')"
  "\<not> foreignGame g (localError g code text messageId)"
  by (cases g; cases messageId; simp add: localError_def optional_field_def foreignGame_def optionalString_def)+

definition legible :: "string option \<Rightarrow> payload \<Rightarrow> bool" where
  "legible gameId message \<longleftrightarrow> (\<exists>kind \<in> set SERVER_KINDS. map_of message ''kind'' = Some (JStr kind))
     \<and> \<not> foreignGame gameId message
     \<and> (map_of message ''kind'' = Some (JStr ''command_ack'') \<longrightarrow> isValidCommandAck message)"

lemma local_error_legible: "legible g (localError g code text messageId)"
  by (simp add: legible_def local_error_fields SERVER_KINDS_def)

lemma adapted_kind:
  "adaptLegacyTypeServerMessage g message = Some m \<Longrightarrow> \<exists>kind \<in> set SERVER_KINDS. map_of m ''kind'' = Some (JStr kind)"
  by (auto simp: adaptLegacyTypeServerMessage_def SERVER_KINDS_def split: option.splits if_splits json.splits)

lemma normalized_kind:
  "normalizeServerMessage g message = Some m \<Longrightarrow> \<exists>kind \<in> set SERVER_KINDS. map_of m ''kind'' = Some (JStr kind)"
  by (auto simp: normalizeServerMessage_def split: option.splits if_splits json.splits dest: adapted_kind)

lemma emits:
  "tp_messages (emitMessage m s) = tp_messages s @ [m]"
  "tp_messages (emitLocalError code text i s) = tp_messages s @ [localError (tp_connectedGameId s) code text i]"
  "tp_messages (capturePlayerPresence br m s) = tp_messages s"
  by (simp_all add: emitMessage_def emitLocalError_def capturePlayerPresence_def)

text \<open>Whatever arrives on the socket, exactly one message is passed on: it is of a kind the service
  knows, of the connected game or of none, and an acknowledgement has a known status; anything else
  becomes an error message.\<close>

theorem one_legible_message:
  assumes "tp_socket s = Some n"
  shows "\<exists>m. tp_messages (transportStep br s (SocketMessage n data)) = tp_messages s @ [m]
    \<and> legible (tp_connectedGameId s) m"
proof -
  have local': "\<exists>m. tp_messages (emitLocalError code msg i t) = tp_messages s @ [m] \<and> legible (tp_connectedGameId s) m"
    if "tp_messages t = tp_messages s" "tp_connectedGameId t = tp_connectedGameId s" for code msg i t
    using that by (simp add: emits local_error_legible)
  have "\<exists>m. tp_messages (handleIncomingData br data s) = tp_messages s @ [m] \<and> legible (tp_connectedGameId s) m"
  proof (cases data)
    case (Parsed j)
    show ?thesis
    proof (cases j)
      case (JObj message)
      show ?thesis
      proof (cases "normalizeServerMessage (tp_connectedGameId s) message")
        case (Some m)
        have "legible (tp_connectedGameId s) m" if "\<not> foreignGame (tp_connectedGameId s) m"
          "map_of m ''kind'' = Some (JStr ''command_ack'') \<longrightarrow> isValidCommandAck m"
          using normalized_kind [OF Some] that by (simp add: legible_def)
        with Some show ?thesis
          by (simp add: Parsed JObj handleIncomingData_def Let_def emits local_error_legible)
      qed (simp add: Parsed JObj handleIncomingData_def Let_def local')
    qed (simp_all add: Parsed handleIncomingData_def local')
  qed (simp_all add: handleIncomingData_def local')
  with assms show ?thesis by (simp add: transportStep_def socketMessage_def)
qed

theorem one_legible_message_witness:
  "\<exists>m. tp_messages (transportStep sample_browser (initial_transport\<lparr>tp_socket := Some 3\<rparr>) (SocketMessage 3 NotText)) = [m]
    \<and> legible None m"
  using one_legible_message [of "initial_transport\<lparr>tp_socket := Some 3\<rparr>" 3 sample_browser NotText]
  by (simp add: initial_transport_def)

section \<open>What goes wrong\<close>

fun traffic :: "transport_event \<Rightarrow> bool" where
  "traffic (SocketMessage n data) = True"
| "traffic (SendText message) = True"
| "traffic (PingFires i sentAt) = True"
| "traffic _ = False"

text \<open>C31: After one message that is not JSON the status is an error although the socket is open, and no
  message, ping or send changes that: it stays so until the socket itself is closed.\<close>

theorem malformed_message_strands:
  assumes "tp_socket s = Some n" "list_all traffic events"
  shows "tp_status (run_steps (transportStep br) (transportStep br s (SocketMessage n Malformed)) events) = SocketError
    \<and> tp_socket (run_steps (transportStep br) (transportStep br s (SocketMessage n Malformed)) events) = Some n
    \<and> tp_reconnectTimer (run_steps (transportStep br) (transportStep br s (SocketMessage n Malformed)) events)
      = tp_reconnectTimer s"
proof -
  have emitted: "tp_status (emitMessage m s) = tp_status s" "tp_socket (emitMessage m s) = tp_socket s"
    "tp_reconnectTimer (emitMessage m s) = tp_reconnectTimer s"
    "tp_status (emitLocalError c t i s) = tp_status s" "tp_socket (emitLocalError c t i s) = tp_socket s"
    "tp_reconnectTimer (emitLocalError c t i s) = tp_reconnectTimer s"
    "tp_status (capturePlayerPresence br m s) = tp_status s" "tp_socket (capturePlayerPresence br m s) = tp_socket s"
    "tp_reconnectTimer (capturePlayerPresence br m s) = tp_reconnectTimer s" for m c t i s
    by (simp_all add: emitMessage_def emitLocalError_def capturePlayerPresence_def)
  have incoming: "tp_status (handleIncomingData br data s) = (if data = Malformed then SocketError else tp_status s)
      \<and> tp_socket (handleIncomingData br data s) = tp_socket s
      \<and> tp_reconnectTimer (handleIncomingData br data s) = tp_reconnectTimer s" for data s
  proof (cases data)
    case (Parsed j)
    then show ?thesis
      by (cases j) (simp_all add: handleIncomingData_def Let_def emitted split: option.split)
  qed (simp_all add: handleIncomingData_def emitted)
  have step: "tp_status t = SocketError \<Longrightarrow> traffic e \<Longrightarrow> tp_status (transportStep br t e) = SocketError
      \<and> tp_socket (transportStep br t e) = tp_socket t
      \<and> tp_reconnectTimer (transportStep br t e) = tp_reconnectTimer t" for t e
    by (cases e) (simp_all add: transportStep_def socketMessage_def incoming sendText_def pingFires_def
        sendPing_def split: option.split)
  have run: "tp_status t = SocketError \<Longrightarrow> tp_status (run_steps (transportStep br) t events) = SocketError
      \<and> tp_socket (run_steps (transportStep br) t events) = tp_socket t
      \<and> tp_reconnectTimer (run_steps (transportStep br) t events) = tp_reconnectTimer t" for t
    using assms(2) by (induction events arbitrary: t) (simp_all add: step)
  have "tp_status (transportStep br s (SocketMessage n Malformed)) = SocketError
      \<and> tp_socket (transportStep br s (SocketMessage n Malformed)) = Some n
      \<and> tp_reconnectTimer (transportStep br s (SocketMessage n Malformed)) = tp_reconnectTimer s"
    using assms(1) by (simp add: transportStep_def socketMessage_def incoming)
  with run show ?thesis by simp
qed

theorem malformed_message_strands_witness:
  "tp_status (run_steps (transportStep sample_browser) (transportStep sample_browser
     (initial_transport\<lparr>tp_socket := Some 3\<rparr>) (SocketMessage 3 Malformed)) [SocketMessage 3 NotText, PingFires 0 ''now'']) = SocketError"
  using malformed_message_strands [of "initial_transport\<lparr>tp_socket := Some 3\<rparr>" 3
      "[SocketMessage 3 NotText, PingFires 0 ''now'']" sample_browser] by simp

text \<open>Connecting twice to the same game while the first ticket is awaited opens two sockets, and a
  disconnection leaves the first one open: nothing in the service refers to it any more.\<close>

theorem second_connect_leaks_socket:
  "let s = run_steps (transportStep sample_browser) initial_transport
     [Connect ''g'', Connect ''g'', TicketArrives 0 good_ticket None True, TicketArrives 1 good_ticket None True,
      Disconnected]
   in tp_status s = SocketStopped \<and> tp_socket s = None
     \<and> readyState s 2 = Some ReadyOpen \<and> readyState s 4 = Some ReadyClosing"
  by (simp add: transportStep_def connect_def openSocket_def transportDisconnect_def initial_transport_def
      stopPing_def with_ticket_def ticketArrived_def good_ticket_def requireRuntimeRoute_def
      withLastAppliedVersion_def requestedVersion_def sample_browser_def handleOpen_def startPing_def
      readyState_def set_ready_def)

end
