(* ===== verification/SnapshotMutation.thy ===== *)
theory SnapshotMutation
  imports SnapshotSamples "HOL-Library.AList"
begin

text \<open>
  \<^verbatim>\<open>game-table/state/core/game-snapshot-mutation.ts\<close>: local updates of one player, and of many cards
  at once. The source tests by identity whether an update changed anything, to keep the references
  of what it did not touch; the contents are the same either way.
\<close>

section \<open>One player\<close>

definition updateGameSnapshotPlayer ::
  "game_snapshot \<Rightarrow> string \<Rightarrow> (game_player_state \<Rightarrow> game_player_state) \<Rightarrow> game_snapshot" where
  "updateGameSnapshotPlayer s playerId update = (case sn_players s playerId of
     None \<Rightarrow> s
   | Some player \<Rightarrow> s\<lparr>sn_players := (sn_players s)(playerId \<mapsto> update player)\<rparr>)"

lemma updatePlayer_simps:
  "sn_players (updateGameSnapshotPlayer s pid f) pid' =
     (if pid' = pid then map_option f (sn_players s pid) else sn_players s pid')"
  "sn_counters (updateGameSnapshotPlayer s pid f) = sn_counters s"
  by (auto simp: updateGameSnapshotPlayer_def split: option.split)

section \<open>Many cards\<close>

record card_mutation =
  cu_playerId :: string
  cu_zone :: game_zone_name
  cu_instanceId :: string
  cu_update :: "game_card_instance \<Rightarrow> game_card_instance"

type_synonym zone_mutations = "(game_zone_name \<times> card_mutation list) list"

definition groupMutationsByPlayerAndZone :: "card_mutation list \<Rightarrow> (string \<times> zone_mutations) list" where
  "groupMutationsByPlayerAndZone mutations = foldl (\<lambda>grouped m.
     let byZone = (case map_of grouped (cu_playerId m) of None \<Rightarrow> [] | Some b \<Rightarrow> b);
         zoneMutations = (case map_of byZone (cu_zone m) of None \<Rightarrow> [] | Some z \<Rightarrow> z) @ [m]
     in AList.update (cu_playerId m) (AList.update (cu_zone m) zoneMutations byZone) grouped) [] mutations"

definition groupMutationsByInstanceId :: "card_mutation list \<Rightarrow> (string \<times> card_mutation list) list" where
  "groupMutationsByInstanceId mutations = foldl (\<lambda>grouped m.
     AList.update (cu_instanceId m)
       ((case map_of grouped (cu_instanceId m) of None \<Rightarrow> [] | Some ms \<Rightarrow> ms) @ [m]) grouped) [] mutations"

text \<open>The loop over the cards of a zone.\<close>

definition updateZoneCards :: "card_mutation list \<Rightarrow> game_card_instance list \<Rightarrow> game_card_instance list" where
  "updateZoneCards zoneMutations cards =
     (let byInstanceId = map_of (groupMutationsByInstanceId zoneMutations)
      in map (\<lambda>c. case byInstanceId (card_instanceId c) of None \<Rightarrow> c | Some ms \<Rightarrow> fold cu_update ms c) cards)"

text \<open>The loop over the zones of a player; reading the length of a missing zone throws.\<close>

definition updateZones :: "game_player_state \<Rightarrow> zone_mutations \<Rightarrow> game_zones js" where
  "updateZones player byZone = foldl (\<lambda>r (zone, zoneMutations). js_bind r (\<lambda>zones.
     case pl_zones player zone of
       None \<Rightarrow> Inl TypeError
     | Some cards \<Rightarrow> Inr (zones(zone \<mapsto> updateZoneCards zoneMutations cards)))) (Inr (pl_zones player)) byZone"

definition updateGameSnapshotCards :: "game_snapshot \<Rightarrow> card_mutation list \<Rightarrow> game_snapshot js" where
  "updateGameSnapshotCards s mutations =
     (if mutations = [] then Inr s
      else foldl (\<lambda>r (playerId, byZone). js_bind r (\<lambda>t.
        case sn_players s playerId of
          None \<Rightarrow> Inr t
        | Some player \<Rightarrow> js_bind (updateZones player byZone) (\<lambda>zones.
            Inr (t\<lparr>sn_players := (sn_players t)(playerId \<mapsto> player\<lparr>pl_zones := zones\<rparr>)\<rparr>))))
        (Inr s) (groupMutationsByPlayerAndZone mutations))"

section \<open>The grouping\<close>

lemma grouped_instances:
  "map_of (groupMutationsByInstanceId ms) i
   = (case filter (\<lambda>m. cu_instanceId m = i) ms of [] \<Rightarrow> None | xs \<Rightarrow> Some xs)"
  by (induction ms rule: rev_induct)
    (auto simp: groupMutationsByInstanceId_def update_conv' split: list.splits)

lemma updateZoneCards_eq:
  "updateZoneCards ms cards = map (\<lambda>c. fold cu_update (filter (\<lambda>m. cu_instanceId m = card_instanceId c) ms) c) cards"
  by (auto simp: updateZoneCards_def Let_def grouped_instances split: list.split)

definition mutations_of :: "string \<Rightarrow> game_zone_name \<Rightarrow> card_mutation list \<Rightarrow> card_mutation list" where
  "mutations_of playerId zone = filter (\<lambda>m. cu_playerId m = playerId \<and> cu_zone m = zone)"

definition zone_group :: "card_mutation list \<Rightarrow> string \<Rightarrow> zone_mutations option" where
  "zone_group ms = map_of (groupMutationsByPlayerAndZone ms)"

lemma zone_group_snoc: "zone_group (ms @ [m]) = (zone_group ms)(cu_playerId m \<mapsto>
   AList.update (cu_zone m) ((case map_of (case zone_group ms (cu_playerId m) of None \<Rightarrow> [] | Some b \<Rightarrow> b) (cu_zone m) of
      None \<Rightarrow> [] | Some z \<Rightarrow> z) @ [m]) (case zone_group ms (cu_playerId m) of None \<Rightarrow> [] | Some b \<Rightarrow> b))"
  by (simp add: zone_group_def groupMutationsByPlayerAndZone_def Let_def update_conv')

lemma distinct_groups: "distinct (map fst (groupMutationsByPlayerAndZone ms))"
  by (induction ms rule: rev_induct)
    (simp_all add: groupMutationsByPlayerAndZone_def Let_def distinct_update)

lemma zone_group_zones:
  "(case zone_group ms pid of None \<Rightarrow> \<forall>z. mutations_of pid z ms = []
    | Some byZone \<Rightarrow> distinct (map fst byZone) \<and> (\<forall>z. map_of byZone z =
        (case mutations_of pid z ms of [] \<Rightarrow> None | xs \<Rightarrow> Some xs)))"
proof (induction ms rule: rev_induct)
  case Nil
  show ?case by (simp add: zone_group_def groupMutationsByPlayerAndZone_def mutations_of_def)
next
  case (snoc m ms)
  show ?case
  proof (cases "cu_playerId m = pid")
    case True
    with snoc show ?thesis
      by (cases "zone_group ms pid")
        (auto simp: zone_group_snoc distinct_update update_conv' mutations_of_def split: list.splits)
  next
    case False
    then have "mutations_of pid z (ms @ [m]) = mutations_of pid z ms" for z by (simp add: mutations_of_def)
    with snoc False show ?thesis by (cases "zone_group ms pid") (simp_all add: zone_group_snoc)
  qed
qed

section \<open>One after the other\<close>

text \<open>The reference: the mutations one by one, each on the snapshot the one before made.\<close>

definition applyMutation :: "card_mutation \<Rightarrow> game_snapshot \<Rightarrow> game_snapshot js" where
  "applyMutation m s = (case sn_players s (cu_playerId m) of
     None \<Rightarrow> Inr s
   | Some player \<Rightarrow> (case pl_zones player (cu_zone m) of
       None \<Rightarrow> Inl TypeError
     | Some cards \<Rightarrow> Inr (s\<lparr>sn_players := (sn_players s)(cu_playerId m \<mapsto> player\<lparr>pl_zones := (pl_zones player)
         (cu_zone m \<mapsto> map (\<lambda>c. if card_instanceId c = cu_instanceId m then cu_update m c else c) cards)\<rparr>)\<rparr>)))"

definition applyMutations :: "game_snapshot \<Rightarrow> card_mutation list \<Rightarrow> game_snapshot js" where
  "applyMutations s ms = foldl (\<lambda>r m. js_bind r (applyMutation m)) (Inr s) ms"

text \<open>What both do: nothing is missing, and each card goes through its own mutations in order.\<close>

definition mutable :: "game_snapshot \<Rightarrow> card_mutation list \<Rightarrow> bool" where
  "mutable s ms \<longleftrightarrow> (\<forall>m \<in> set ms. case sn_players s (cu_playerId m) of
     None \<Rightarrow> True | Some player \<Rightarrow> pl_zones player (cu_zone m) \<noteq> None)"

definition mutatedCard :: "card_mutation list \<Rightarrow> game_card_instance \<Rightarrow> game_card_instance" where
  "mutatedCard ms c = fold cu_update (filter (\<lambda>m. cu_instanceId m = card_instanceId c) ms) c"

definition mutatedPlayer :: "(game_zone_name \<Rightarrow> card_mutation list) \<Rightarrow> game_player_state \<Rightarrow> game_player_state" where
  "mutatedPlayer mutations p = p\<lparr>pl_zones := \<lambda>z. map_option (map (mutatedCard (mutations z))) (pl_zones p z)\<rparr>"

definition mutated :: "game_snapshot \<Rightarrow> card_mutation list \<Rightarrow> game_snapshot js" where
  "mutated s ms = (if mutable s ms
     then Inr (s\<lparr>sn_players := \<lambda>pid. map_option (mutatedPlayer (\<lambda>z. mutations_of pid z ms)) (sn_players s pid)\<rparr>)
     else Inl TypeError)"

lemma mutatedCard_Nil [simp]: "mutatedCard [] = id"
  by (simp add: mutatedCard_def fun_eq_iff)

lemma mutatedPlayer_Nil [simp]: "mutatedPlayer (\<lambda>z. []) = id"
  by (simp add: mutatedPlayer_def fun_eq_iff option.map_id map_option.id [unfolded id_def] list.map_id)

lemma mutatedCard_id:
  assumes "\<forall>m \<in> set ms. \<forall>c. card_instanceId (cu_update m c) = card_instanceId c"
  shows "card_instanceId (mutatedCard ms c) = card_instanceId c"
proof -
  have "card_instanceId (fold cu_update xs c) = card_instanceId c" if "set xs \<subseteq> set ms" for xs
    using that assms by (induction xs arbitrary: c) auto
  then show ?thesis by (simp add: mutatedCard_def)
qed

lemma mutatedCard_snoc:
  "mutatedCard (ms @ [m]) c = (if cu_instanceId m = card_instanceId c then cu_update m (mutatedCard ms c)
     else mutatedCard ms c)"
  by (simp add: mutatedCard_def)

lemma applyMutations_mutated:
  assumes "\<forall>m \<in> set ms. \<forall>c. card_instanceId (cu_update m c) = card_instanceId c"
  shows "applyMutations s ms = mutated s ms"
  using assms
proof (induction ms rule: rev_induct)
  case Nil
  show ?case by (simp add: applyMutations_def mutated_def mutable_def mutations_of_def option.map_id)
next
  case (snoc m ms)
  then have IH: "applyMutations s ms = mutated s ms" by simp
  have step: "applyMutations s (ms @ [m]) = js_bind (mutated s ms) (applyMutation m)"
    using IH by (simp add: applyMutations_def)
  show ?case
  proof (cases "mutable s ms")
    case False
    then have "\<not> mutable s (ms @ [m])" by (auto simp: mutable_def)
    with False step show ?thesis by (simp add: mutated_def)
  next
    case True
    let ?p = "cu_playerId m" and ?z = "cu_zone m"
    have others: "mutations_of pid z (ms @ [m]) = mutations_of pid z ms" if "pid \<noteq> ?p \<or> z \<noteq> ?z" for pid z
      using that by (auto simp: mutations_of_def)
    have own: "mutations_of ?p ?z (ms @ [m]) = mutations_of ?p ?z ms @ [m]" by (simp add: mutations_of_def)
    have ids: "card_instanceId (mutatedCard (mutations_of ?p ?z ms) c) = card_instanceId c" for c
      by (rule mutatedCard_id) (use snoc.prems in \<open>auto simp: mutations_of_def\<close>)
    show ?thesis
    proof (cases "sn_players s ?p")
      case None
      have "map_option (mutatedPlayer (\<lambda>z. mutations_of pid z (ms @ [m]))) (sn_players s pid)
          = map_option (mutatedPlayer (\<lambda>z. mutations_of pid z ms)) (sn_players s pid)" for pid
        using None others [of pid] by (cases "pid = ?p") simp_all
      with True None step show ?thesis by (simp add: mutated_def mutable_def applyMutation_def)
    next
      case (Some p)
      show ?thesis
      proof (cases "pl_zones p ?z")
        case None
        with True Some step show ?thesis
          by (simp add: mutated_def mutable_def applyMutation_def mutatedPlayer_def)
      next
        case zone: (Some cards)
        have player: "mutatedPlayer (\<lambda>z. mutations_of ?p z (ms @ [m])) p
            = mutatedPlayer (\<lambda>z. mutations_of ?p z ms) p
              \<lparr>pl_zones := (pl_zones (mutatedPlayer (\<lambda>z. mutations_of ?p z ms) p))(?z \<mapsto>
                map (\<lambda>c. if card_instanceId c = cu_instanceId m then cu_update m c else c)
                  (map (mutatedCard (mutations_of ?p ?z ms)) cards))\<rparr>"
          using others [of ?p] own ids zone
          by (auto simp: mutatedPlayer_def fun_eq_iff mutatedCard_snoc)
        have "(\<lambda>pid. map_option (mutatedPlayer (\<lambda>z. mutations_of pid z (ms @ [m]))) (sn_players s pid))
            = (\<lambda>pid. map_option (mutatedPlayer (\<lambda>z. mutations_of pid z ms)) (sn_players s pid))
              (?p \<mapsto> mutatedPlayer (\<lambda>z. mutations_of ?p z (ms @ [m])) p)"
          using Some others by (auto simp: fun_eq_iff)
        with True Some zone step player show ?thesis
          by (simp add: mutated_def mutable_def applyMutation_def) (simp add: mutatedPlayer_def)
      qed
    qed
  qed
qed

section \<open>All at once\<close>

lemma updateZones_eq:
  assumes "distinct (map fst byZone)"
  shows "updateZones p byZone = (if \<forall>z \<in> fst ` set byZone. pl_zones p z \<noteq> None
    then Inr (\<lambda>z. map_option (map (mutatedCard (case map_of byZone z of None \<Rightarrow> [] | Some ms \<Rightarrow> ms))) (pl_zones p z))
    else Inl TypeError)"
  using assms
proof (induction byZone rule: rev_induct)
  case Nil
  show ?case by (simp add: updateZones_def fun_eq_iff list.map_id option.map_id)
next
  case (snoc x byZone)
  obtain z ms where x: "x = (z, ms)" by (cases x)
  have new: "map_of byZone z = None" using snoc.prems by (auto simp: x map_of_eq_None_iff)
  have cards: "updateZoneCards ms = map (mutatedCard ms)"
    by (simp add: fun_eq_iff updateZoneCards_eq mutatedCard_def)
  show ?case
  proof (cases "(\<forall>z \<in> fst ` set byZone. pl_zones p z \<noteq> None) \<and> pl_zones p z \<noteq> None")
    case True
    then show ?thesis using snoc new
      by (auto simp: updateZones_def x cards fun_eq_iff map_add_def split: option.split)
  next
    case False
    then show ?thesis using snoc by (auto simp: updateZones_def x)
  qed
qed

definition batchStep :: "game_snapshot \<Rightarrow> string \<times> zone_mutations \<Rightarrow> game_snapshot \<Rightarrow> game_snapshot js" where
  "batchStep s x t = (case sn_players s (fst x) of
     None \<Rightarrow> Inr t
   | Some player \<Rightarrow> js_bind (updateZones player (snd x)) (\<lambda>zones.
       Inr (t\<lparr>sn_players := (sn_players t)(fst x \<mapsto> player\<lparr>pl_zones := zones\<rparr>)\<rparr>)))"

definition zonesPresent :: "game_snapshot \<Rightarrow> string \<times> zone_mutations \<Rightarrow> bool" where
  "zonesPresent s x \<longleftrightarrow> (case sn_players s (fst x) of None \<Rightarrow> True
     | Some p \<Rightarrow> \<forall>z \<in> fst ` set (snd x). pl_zones p z \<noteq> None)"

definition groupMutations :: "(string \<times> zone_mutations) list \<Rightarrow> string \<Rightarrow> game_zone_name \<Rightarrow> card_mutation list" where
  "groupMutations groups pid z = (case map_of groups pid of None \<Rightarrow> []
     | Some byZone \<Rightarrow> (case map_of byZone z of None \<Rightarrow> [] | Some ms \<Rightarrow> ms))"

lemma batch_eq:
  assumes "distinct (map fst groups)" "\<forall>x \<in> set groups. distinct (map fst (snd x))"
  shows "foldl (\<lambda>r x. js_bind r (batchStep s x)) (Inr s) groups = (if \<forall>x \<in> set groups. zonesPresent s x
    then Inr (s\<lparr>sn_players := \<lambda>pid. map_option (mutatedPlayer (groupMutations groups pid)) (sn_players s pid)\<rparr>)
    else Inl TypeError)"
  using assms
proof (induction groups rule: rev_induct)
  case Nil
  have "groupMutations [] pid = (\<lambda>z. [])" for pid by (simp add: groupMutations_def fun_eq_iff)
  then show ?case by (simp add: option.map_id)
next
  case (snoc x groups)
  have new: "map_of groups (fst x) = None" using snoc.prems by (auto simp: map_of_eq_None_iff)
  have same: "groupMutations (groups @ [x]) pid = groupMutations groups pid" if "pid \<noteq> fst x" for pid
    using that by (cases x) (simp add: groupMutations_def fun_eq_iff map_add_def split: option.split)
  have own: "groupMutations (groups @ [x]) (fst x)
      = (\<lambda>z. case map_of (snd x) z of None \<Rightarrow> [] | Some ms \<Rightarrow> ms)"
    using new by (cases x) (simp add: groupMutations_def fun_eq_iff map_add_def)
  show ?case
  proof (cases "\<forall>y \<in> set groups. zonesPresent s y")
    case False
    then show ?thesis using snoc by auto
  next
    case True
    show ?thesis
    proof (cases "sn_players s (fst x)")
      case None
      have "map_option (mutatedPlayer (groupMutations (groups @ [x]) pid)) (sn_players s pid)
          = map_option (mutatedPlayer (groupMutations groups pid)) (sn_players s pid)" for pid
        using None same by (cases "pid = fst x") simp_all
      with True None snoc show ?thesis by (simp add: batchStep_def zonesPresent_def)
    next
      case (Some p)
      have zones: "updateZones p (snd x) = (if \<forall>z \<in> fst ` set (snd x). pl_zones p z \<noteq> None
          then Inr (pl_zones (mutatedPlayer (groupMutations (groups @ [x]) (fst x)) p)) else Inl TypeError)"
        using updateZones_eq [of "snd x" p] snoc.prems by (simp add: own mutatedPlayer_def)
      have "(\<lambda>pid. map_option (mutatedPlayer (groupMutations (groups @ [x]) pid)) (sn_players s pid))
          = (\<lambda>pid. map_option (mutatedPlayer (groupMutations groups pid)) (sn_players s pid))
            (fst x \<mapsto> mutatedPlayer (groupMutations (groups @ [x]) (fst x)) p)" (is "?l = ?r")
      proof
        fix pid show "?l pid = ?r pid" using Some by (cases "pid = fst x") (simp_all add: same)
      qed
      with True Some snoc zones show ?thesis
        by (simp add: batchStep_def zonesPresent_def) (simp add: mutatedPlayer_def)
    qed
  qed
qed

lemma updateGameSnapshotCards_mutated: "updateGameSnapshotCards s ms = mutated s ms"
proof -
  let ?g = "groupMutationsByPlayerAndZone ms"
  have group: "map_of ?g pid = zone_group ms pid" for pid by (simp add: zone_group_def)
  have entry: "zone_group ms pid = Some byZone" if "(pid, byZone) \<in> set ?g" for pid byZone
    using that distinct_groups [of ms] by (simp add: zone_group_def)
  have zones: "distinct (map fst byZone)" "map_of byZone z = (case mutations_of pid z ms of [] \<Rightarrow> None | xs \<Rightarrow> Some xs)"
    if "zone_group ms pid = Some byZone" for pid byZone z
    using zone_group_zones [where ms = ms and pid = pid] that by simp_all
  have mutations: "groupMutations ?g pid z = mutations_of pid z ms" for pid z
    using zone_group_zones [where ms = ms and pid = pid]
    by (cases "mutations_of pid z ms") (auto simp: groupMutations_def group split: option.splits)
  then have grouped: "groupMutations ?g pid = (\<lambda>z. mutations_of pid z ms)" for pid by (simp add: fun_eq_iff)
  have "(\<forall>x \<in> set ?g. zonesPresent s x) = mutable s ms"
  proof
    assume all: "\<forall>x \<in> set ?g. zonesPresent s x"
    show "mutable s ms" unfolding mutable_def
    proof
      fix m assume m: "m \<in> set ms"
      then have ne: "mutations_of (cu_playerId m) (cu_zone m) ms \<noteq> []" by (auto simp: mutations_of_def filter_empty_conv)
      then obtain byZone where b: "zone_group ms (cu_playerId m) = Some byZone"
        using zone_group_zones [where ms = ms and pid = "cu_playerId m"] by (auto split: option.splits)
      have "map_of byZone (cu_zone m) \<noteq> None" using zones(2) [OF b] ne by (simp split: list.split)
      then have "cu_zone m \<in> fst ` set byZone" by (simp add: map_of_eq_None_iff)
      moreover have "zonesPresent s (cu_playerId m, byZone)"
        using all b by (auto simp: zone_group_def dest: map_of_SomeD)
      ultimately show "case sn_players s (cu_playerId m) of None \<Rightarrow> True | Some p \<Rightarrow> pl_zones p (cu_zone m) \<noteq> None"
        by (auto simp: zonesPresent_def split: option.splits)
    qed
  next
    assume ok: "mutable s ms"
    show "\<forall>x \<in> set ?g. zonesPresent s x"
    proof
      fix x assume x: "x \<in> set ?g"
      obtain pid byZone where p: "x = (pid, byZone)" by (cases x)
      from x p have b: "zone_group ms pid = Some byZone" by (simp add: entry)
      have "\<exists>m \<in> set ms. cu_playerId m = pid \<and> cu_zone m = z" if "z \<in> fst ` set byZone" for z
      proof -
        have "map_of byZone z \<noteq> None" using that by (simp add: map_of_eq_None_iff)
        with zones(2) [OF b] have "mutations_of pid z ms \<noteq> []" by (simp split: list.splits)
        then show ?thesis by (auto simp: mutations_of_def filter_empty_conv)
      qed
      then show "zonesPresent s x" using ok by (fastforce simp: zonesPresent_def p mutable_def split: option.split)
    qed
  qed
  moreover have "\<forall>x \<in> set ?g. distinct (map fst (snd x))" using entry zones(1) by fastforce
  ultimately have batch: "foldl (\<lambda>r x. js_bind r (batchStep s x)) (Inr s) ?g = mutated s ms"
    using batch_eq [OF distinct_groups, of ms s] by (simp add: grouped mutated_def)
  have "updateGameSnapshotCards s ms = foldl (\<lambda>r x. js_bind r (batchStep s x)) (Inr s) ?g"
  proof (cases "ms = []")
    case True
    then show ?thesis by (simp add: updateGameSnapshotCards_def groupMutationsByPlayerAndZone_def)
  next
    case False
    then show ?thesis
      unfolding updateGameSnapshotCards_def batchStep_def case_prod_unfold by (simp only: if_False)
  qed
  with batch show ?thesis by simp
qed

text \<open>C24: Updating many cards at once, grouped by player, zone and card, does what the updates do one
  after the other, and throws exactly when one of them does, as long as no update changes the id of a
  card.\<close>

theorem card_updates_batch:
  assumes "\<forall>m \<in> set ms. \<forall>c. card_instanceId (cu_update m c) = card_instanceId c"
  shows "updateGameSnapshotCards s ms = applyMutations s ms"
  by (simp add: updateGameSnapshotCards_mutated applyMutations_mutated [OF assms])

definition tap_card :: "string \<Rightarrow> card_mutation" where
  "tap_card i = \<lparr>cu_playerId = ''a'', cu_zone = Battlefield, cu_instanceId = i,
     cu_update = (\<lambda>c. c\<lparr>card_tapped := True\<rparr>)\<rparr>"

theorem card_updates_batch_witness:
  "updateGameSnapshotCards two_zone_snapshot [tap_card ''b1'', tap_card ''c1'']
   = applyMutations two_zone_snapshot [tap_card ''b1'', tap_card ''c1'']"
  by (rule card_updates_batch) (simp add: tap_card_def)

end
