(* ===== verification/ValueCommands.thy ===== *)
theory ValueCommands
  imports SnapshotMutation JsString
begin

text \<open>
  \<open>GameTableDebouncedValueCommandsService\<close>
  (\<^verbatim>\<open>game-table/services/game-table-debounced-value-commands.service.ts\<close>): life totals, commander
  damage and counters are shown at once and sent when they have not changed for a while. The state
  is the service together with what its context reads and writes: the game, the pending flag, the
  error, the snapshot. A flush is cut at its two awaits, the sending and the refetch. The context's
  \<open>setSnapshot\<close> is the part of \<open>GameTableSnapshotCoordinatorState\<close> that concerns these values.
\<close>

section \<open>State\<close>

record life_command =
  lc_playerId :: string
  lc_life :: jsnum

record commander_damage_command =
  dc_targetPlayerId :: string
  dc_sourcePlayerId :: string
  dc_commanderInstanceId :: string
  dc_damage :: jsnum

record counter_command =
  cc_scope :: string
  cc_key :: string
  cc_value :: jsnum

text \<open>What a flush timer runs, with the key it was set up for.\<close>

datatype flush = FlushLife string | FlushCommanderDamage string | FlushCounter string

record flush_timer =
  ft_delayMs :: int
  ft_flush :: flush

datatype value_payload =
    LifeChanged life_command
  | CommanderDamageChanged commander_damage_command
  | CounterChanged counter_command

text \<open>A flush that has sent: it awaits the answer, or the refetch after a failure.\<close>

datatype flight_stage = Sending | Refetching

record flight =
  fl_id :: nat
  fl_flush :: flush
  fl_command :: nat
  fl_stage :: flight_stage

text \<open>The maps keep the order of insertion. A queued command has an identity, which \<open>===\<close> compares;
  \<open>vc_sent\<close> lists what was sent, with the identities.\<close>

type_synonym 'c optimistic = "(string \<times> nat \<times> 'c) list"

record value_commands =
  vc_life :: "life_command optimistic"
  vc_damage :: "commander_damage_command optimistic"
  vc_counters :: "counter_command optimistic"
  vc_flushTimers :: "string \<rightharpoonup> flush_timer"
  vc_flights :: "flight list"
  vc_sent :: "(nat \<times> value_payload) list"
  vc_gameId :: string
  vc_pending :: bool
  vc_error :: "string option"
  vc_snapshot :: "game_snapshot option"
  vc_fresh :: nat

definition noValueCommands :: "string \<Rightarrow> game_snapshot option \<Rightarrow> value_commands" where
  "noValueCommands gameId snapshot = \<lparr>vc_life = [], vc_damage = [], vc_counters = [], vc_flushTimers = Map.empty,
     vc_flights = [], vc_sent = [], vc_gameId = gameId, vc_pending = False, vc_error = None,
     vc_snapshot = snapshot, vc_fresh = 0\<rparr>"

definition VALUE_COMMAND_DEBOUNCE_MS :: int where "VALUE_COMMAND_DEBOUNCE_MS = 450"
definition RETRY_DELAY_MS :: int where "RETRY_DELAY_MS = 80"

section \<open>Keys\<close>

definition commanderDamageCommandKey :: "string \<Rightarrow> string \<Rightarrow> string" where
  "commanderDamageCommandKey targetPlayerId commanderInstanceId = targetPlayerId @ '':'' @ commanderInstanceId"

definition counterCommandKey :: "string \<Rightarrow> string \<Rightarrow> string" where
  "counterCommandKey scope key' = scope @ '':'' @ key'"

definition lifeTimerKey :: "string \<Rightarrow> string" where
  "lifeTimerKey playerId = ''life:'' @ playerId"

definition commanderDamageTimerKey :: "string \<Rightarrow> string" where
  "commanderDamageTimerKey key' = ''commander-damage:'' @ key'"

definition counterTimerKey :: "string \<Rightarrow> string" where
  "counterTimerKey key' = ''counter:'' @ key'"

section \<open>The values shown\<close>

definition lifeValue :: "value_commands \<Rightarrow> game_snapshot option \<Rightarrow> string \<Rightarrow> jsnum" where
  "lifeValue s snapshot playerId = (case map_of (vc_life s) playerId of
     Some (_, c) \<Rightarrow> lc_life c
   | None \<Rightarrow> (case Option.bind snapshot (\<lambda>t. sn_players t playerId) of None \<Rightarrow> num 0 | Some p \<Rightarrow> pl_life p))"

definition commanderDamageValue :: "value_commands \<Rightarrow> game_snapshot option \<Rightarrow> string \<Rightarrow> string \<Rightarrow> jsnum" where
  "commanderDamageValue s snapshot targetPlayerId commanderInstanceId =
     (case map_of (vc_damage s) (commanderDamageCommandKey targetPlayerId commanderInstanceId) of
        Some (_, c) \<Rightarrow> dc_damage c
      | None \<Rightarrow> js_max (num 0) (case Option.bind snapshot (\<lambda>t. sn_players t targetPlayerId) of None \<Rightarrow> num 0
          | Some p \<Rightarrow> (case pl_commanderDamage p commanderInstanceId of None \<Rightarrow> num 0 | Some d \<Rightarrow> d)))"

definition counterValue :: "value_commands \<Rightarrow> string \<Rightarrow> string \<Rightarrow> jsnum \<Rightarrow> jsnum" where
  "counterValue s scope key' fallbackValue = (case map_of (vc_counters s) (counterCommandKey scope key') of
     Some (_, c) \<Rightarrow> cc_value c | None \<Rightarrow> fallbackValue)"

definition withLife :: "life_command \<Rightarrow> game_snapshot \<Rightarrow> game_snapshot" where
  "withLife c s = updateGameSnapshotPlayer s (lc_playerId c) (\<lambda>p.
     if pl_life p = lc_life c then p else p\<lparr>pl_life := lc_life c\<rparr>)"

definition withCommanderDamage :: "commander_damage_command \<Rightarrow> game_snapshot \<Rightarrow> game_snapshot" where
  "withCommanderDamage c s = updateGameSnapshotPlayer s (dc_targetPlayerId c) (\<lambda>p.
     if pl_commanderDamage p (dc_commanderInstanceId c) = Some (dc_damage c) then p
     else p\<lparr>pl_commanderDamage := (pl_commanderDamage p)(dc_commanderInstanceId c \<mapsto> dc_damage c)\<rparr>)"

definition playerScope :: "string \<Rightarrow> string option" where
  "playerScope scope = (if starts_with ''player:'' scope then Some (drop (length ''player:'') scope) else None)"

definition applyCounterCommand :: "counter_command \<Rightarrow> game_snapshot \<Rightarrow> game_snapshot" where
  "applyCounterCommand c s = (case playerScope (cc_scope c) of
     Some playerId \<Rightarrow> updateGameSnapshotPlayer s playerId (\<lambda>p.
       if pl_counters p (cc_key c) = Some (cc_value c) then p
       else p\<lparr>pl_counters := (pl_counters p)(cc_key c \<mapsto> cc_value c)\<rparr>)
   | None \<Rightarrow>
       let scopeCounters = Option.bind (sn_counters s) (\<lambda>m. m (cc_scope c))
       in if Option.bind scopeCounters (\<lambda>m. m (cc_key c)) = Some (cc_value c) then s
          else s\<lparr>sn_counters := Some ((case sn_counters s of None \<Rightarrow> Map.empty | Some m \<Rightarrow> m)
            (cc_scope c \<mapsto> (case scopeCounters of None \<Rightarrow> Map.empty | Some m \<Rightarrow> m)(cc_key c \<mapsto> cc_value c)))\<rparr>)"

definition queued :: "'c optimistic \<Rightarrow> 'c list" where
  "queued commands = map (snd \<circ> snd) commands"

definition applyOptimisticLifeCommands :: "value_commands \<Rightarrow> game_snapshot \<Rightarrow> game_snapshot" where
  "applyOptimisticLifeCommands s snapshot = fold withLife (queued (vc_life s)) snapshot"

definition applyOptimisticCommanderDamageCommands :: "value_commands \<Rightarrow> game_snapshot \<Rightarrow> game_snapshot" where
  "applyOptimisticCommanderDamageCommands s snapshot = fold withCommanderDamage (queued (vc_damage s)) snapshot"

definition applyOptimisticCounterCommands :: "value_commands \<Rightarrow> game_snapshot \<Rightarrow> game_snapshot" where
  "applyOptimisticCounterCommands s snapshot = fold applyCounterCommand (queued (vc_counters s)) snapshot"

definition applyOptimisticValues :: "value_commands \<Rightarrow> game_snapshot \<Rightarrow> game_snapshot" where
  "applyOptimisticValues s snapshot =
     applyOptimisticCounterCommands s (applyOptimisticCommanderDamageCommands s (applyOptimisticLifeCommands s snapshot))"

definition setSnapshotWithValues :: "game_snapshot option \<Rightarrow> value_commands \<Rightarrow> value_commands" where
  "setSnapshotWithValues snapshot s = s\<lparr>vc_snapshot := map_option (applyOptimisticValues s) snapshot\<rparr>"

section \<open>Timers\<close>

definition clearFlushTimer :: "string \<Rightarrow> value_commands \<Rightarrow> value_commands" where
  "clearFlushTimer timerKey s = s\<lparr>vc_flushTimers := (vc_flushTimers s)(timerKey := None)\<rparr>"

definition scheduleFlush :: "string \<Rightarrow> int \<Rightarrow> flush \<Rightarrow> value_commands \<Rightarrow> value_commands" where
  "scheduleFlush timerKey delayMs f s =
     (let t = clearFlushTimer timerKey s
      in t\<lparr>vc_flushTimers := (vc_flushTimers t)(timerKey \<mapsto> \<lparr>ft_delayMs = delayMs, ft_flush = f\<rparr>)\<rparr>)"

section \<open>Flushing\<close>

text \<open>Up to the await of the sending.\<close>

definition startSending :: "flush \<Rightarrow> nat \<Rightarrow> value_payload \<Rightarrow> value_commands \<Rightarrow> value_commands" where
  "startSending f n payload s = s\<lparr>vc_pending := True, vc_error := None, vc_sent := vc_sent s @ [(n, payload)],
     vc_flights := vc_flights s @ [\<lparr>fl_id = vc_fresh s, fl_flush = f, fl_command = n, fl_stage = Sending\<rparr>],
     vc_fresh := Suc (vc_fresh s)\<rparr>"

definition flushLife :: "string \<Rightarrow> value_commands \<Rightarrow> value_commands" where
  "flushLife playerId s = (case map_of (vc_life s) playerId of
     None \<Rightarrow> s
   | Some (n, c) \<Rightarrow>
       if vc_gameId s = [] then s
       else if vc_pending s then scheduleFlush (lifeTimerKey playerId) RETRY_DELAY_MS (FlushLife playerId) s
       else startSending (FlushLife playerId) n (LifeChanged c) s)"

definition flushCommanderDamage :: "string \<Rightarrow> value_commands \<Rightarrow> value_commands" where
  "flushCommanderDamage key' s = (case map_of (vc_damage s) key' of
     None \<Rightarrow> s
   | Some (n, c) \<Rightarrow>
       if vc_gameId s = [] then s
       else if vc_pending s then scheduleFlush (commanderDamageTimerKey key') RETRY_DELAY_MS (FlushCommanderDamage key') s
       else startSending (FlushCommanderDamage key') n (CommanderDamageChanged c) s)"

definition flushCounter :: "string \<Rightarrow> value_commands \<Rightarrow> value_commands" where
  "flushCounter key' s = (case map_of (vc_counters s) key' of
     None \<Rightarrow> s
   | Some (n, c) \<Rightarrow>
       if vc_gameId s = [] then s
       else if vc_pending s then scheduleFlush (counterTimerKey key') RETRY_DELAY_MS (FlushCounter key') s
       else startSending (FlushCounter key') n (CounterChanged c) s)"

fun runFlush :: "flush \<Rightarrow> value_commands \<Rightarrow> value_commands" where
  "runFlush (FlushLife playerId) = flushLife playerId"
| "runFlush (FlushCommanderDamage key') = flushCommanderDamage key'"
| "runFlush (FlushCounter key') = flushCounter key'"

text \<open>The optimistic command of a flush, its removal and the key of its timer.\<close>

fun optimisticCommand :: "flush \<Rightarrow> value_commands \<Rightarrow> nat option" where
  "optimisticCommand (FlushLife k) s = map_option fst (map_of (vc_life s) k)"
| "optimisticCommand (FlushCommanderDamage k) s = map_option fst (map_of (vc_damage s) k)"
| "optimisticCommand (FlushCounter k) s = map_option fst (map_of (vc_counters s) k)"

fun deleteOptimistic :: "flush \<Rightarrow> value_commands \<Rightarrow> value_commands" where
  "deleteOptimistic (FlushLife k) s = s\<lparr>vc_life := AList.delete k (vc_life s)\<rparr>"
| "deleteOptimistic (FlushCommanderDamage k) s = s\<lparr>vc_damage := AList.delete k (vc_damage s)\<rparr>"
| "deleteOptimistic (FlushCounter k) s = s\<lparr>vc_counters := AList.delete k (vc_counters s)\<rparr>"

fun timerKeyOf :: "flush \<Rightarrow> string" where
  "timerKeyOf (FlushLife k) = lifeTimerKey k"
| "timerKeyOf (FlushCommanderDamage k) = commanderDamageTimerKey k"
| "timerKeyOf (FlushCounter k) = counterTimerKey k"

text \<open>After the sending: \<open>Inr\<close> what \<open>send\<close> resolved to, or \<open>Inl\<close> the message of the exception.\<close>

definition deleteIfSame :: "flight \<Rightarrow> value_commands \<Rightarrow> value_commands" where
  "deleteIfSame f s = (if optimisticCommand (fl_flush f) s = Some (fl_command f)
     then deleteOptimistic (fl_flush f) s else s)"

definition finishFlush :: "flight \<Rightarrow> value_commands \<Rightarrow> value_commands" where
  "finishFlush f s =
     (let t = s\<lparr>vc_pending := False, vc_flights := filter (\<lambda>g. fl_id g \<noteq> fl_id f) (vc_flights s)\<rparr>
      in if optimisticCommand (fl_flush f) t \<noteq> None
         then scheduleFlush (timerKeyOf (fl_flush f)) RETRY_DELAY_MS (fl_flush f) t else t)"

definition NOT_AVAILABLE :: string where
  "NOT_AVAILABLE = ''WebSocket gameplay connection is not available.''"

definition sendFails :: "flight \<Rightarrow> string \<Rightarrow> value_commands \<Rightarrow> value_commands" where
  "sendFails f message s =
     (let t = deleteIfSame f s
      in t\<lparr>vc_error := Some message,
        vc_flights := map (\<lambda>g. if fl_id g = fl_id f then g\<lparr>fl_stage := Refetching\<rparr> else g) (vc_flights t)\<rparr>)"

text \<open>The context turns the messages of exceptions into texts for the player.\<close>

definition sendEnds :: "(string \<Rightarrow> string) \<Rightarrow> nat \<Rightarrow> string + bool \<Rightarrow> value_commands \<Rightarrow> value_commands" where
  "sendEnds errorMessage n result s = (case find (\<lambda>f. fl_id f = n \<and> fl_stage f = Sending) (vc_flights s) of
     None \<Rightarrow> s
   | Some f \<Rightarrow> (case result of
       Inr True \<Rightarrow> finishFlush f (deleteIfSame f s)
     | Inr False \<Rightarrow> sendFails f (errorMessage NOT_AVAILABLE) s
     | Inl e \<Rightarrow> sendFails f (errorMessage e) s))"

text \<open>The refetch returns or throws; the \<open>finally\<close> block runs either way.\<close>

definition refetchEnds :: "nat \<Rightarrow> value_commands \<Rightarrow> value_commands" where
  "refetchEnds n s = (case find (\<lambda>f. fl_id f = n \<and> fl_stage f = Refetching) (vc_flights s) of
     None \<Rightarrow> s | Some f \<Rightarrow> finishFlush f s)"

section \<open>Queueing\<close>

text \<open>\<open>changes\<close> stands for the test that the update did not return the snapshot it was given.\<close>

definition setLocally :: "(game_snapshot \<Rightarrow> bool) \<Rightarrow> (game_snapshot \<Rightarrow> game_snapshot) \<Rightarrow> value_commands \<Rightarrow> value_commands" where
  "setLocally changes update s = (case vc_snapshot s of
     None \<Rightarrow> s
   | Some t \<Rightarrow> if changes t then setSnapshotWithValues (Some (update t)) s else s)"

definition changesPlayer :: "string \<Rightarrow> (game_player_state \<Rightarrow> bool) \<Rightarrow> game_snapshot \<Rightarrow> bool" where
  "changesPlayer playerId differs t = (case sn_players t playerId of None \<Rightarrow> False | Some p \<Rightarrow> differs p)"

definition updateLocalLife :: "life_command \<Rightarrow> value_commands \<Rightarrow> value_commands" where
  "updateLocalLife c = setLocally (changesPlayer (lc_playerId c) (\<lambda>p. pl_life p \<noteq> lc_life c)) (withLife c)"

definition updateLocalCommanderDamage :: "commander_damage_command \<Rightarrow> value_commands \<Rightarrow> value_commands" where
  "updateLocalCommanderDamage c = setLocally
     (changesPlayer (dc_targetPlayerId c) (\<lambda>p. pl_commanderDamage p (dc_commanderInstanceId c) \<noteq> Some (dc_damage c)))
     (withCommanderDamage c)"

definition changesCounter :: "counter_command \<Rightarrow> game_snapshot \<Rightarrow> bool" where
  "changesCounter c t = (case playerScope (cc_scope c) of
     Some playerId \<Rightarrow> changesPlayer playerId (\<lambda>p. pl_counters p (cc_key c) \<noteq> Some (cc_value c)) t
   | None \<Rightarrow> Option.bind (Option.bind (sn_counters t) (\<lambda>m. m (cc_scope c))) (\<lambda>m. m (cc_key c)) \<noteq> Some (cc_value c))"

definition updateLocalCounter :: "counter_command \<Rightarrow> value_commands \<Rightarrow> value_commands" where
  "updateLocalCounter c = setLocally (changesCounter c) (applyCounterCommand c)"

definition queueLife :: "life_command \<Rightarrow> int option \<Rightarrow> value_commands \<Rightarrow> value_commands" where
  "queueLife c flushDelay s =
     (let playerId = lc_playerId c;
          t = updateLocalLife c (s\<lparr>vc_life := AList.update playerId (vc_fresh s, c) (vc_life s),
            vc_fresh := Suc (vc_fresh s)\<rparr>);
          timerKey = lifeTimerKey playerId;
          flushDelayMs = (case flushDelay of None \<Rightarrow> VALUE_COMMAND_DEBOUNCE_MS | Some d \<Rightarrow> d)
      in if flushDelayMs \<le> 0 then flushLife playerId (clearFlushTimer timerKey t)
         else scheduleFlush timerKey flushDelayMs (FlushLife playerId) t)"

definition queueCommanderDamage :: "commander_damage_command \<Rightarrow> value_commands \<Rightarrow> value_commands" where
  "queueCommanderDamage c s =
     (let key' = commanderDamageCommandKey (dc_targetPlayerId c) (dc_commanderInstanceId c);
          t = updateLocalCommanderDamage c (s\<lparr>vc_damage := AList.update key' (vc_fresh s, c) (vc_damage s),
            vc_fresh := Suc (vc_fresh s)\<rparr>)
      in scheduleFlush (commanderDamageTimerKey key') VALUE_COMMAND_DEBOUNCE_MS (FlushCommanderDamage key') t)"

definition queueCounter :: "counter_command \<Rightarrow> value_commands \<Rightarrow> value_commands" where
  "queueCounter c s =
     (let key' = counterCommandKey (cc_scope c) (cc_key c);
          t = updateLocalCounter c (s\<lparr>vc_counters := AList.update key' (vc_fresh s, c) (vc_counters s),
            vc_fresh := Suc (vc_fresh s)\<rparr>)
      in scheduleFlush (counterTimerKey key') VALUE_COMMAND_DEBOUNCE_MS (FlushCounter key') t)"

definition clearValues :: "value_commands \<Rightarrow> value_commands" where
  "clearValues s = s\<lparr>vc_flushTimers := Map.empty, vc_life := [], vc_damage := [], vc_counters := []\<rparr>"

definition timerFires :: "string \<Rightarrow> value_commands \<Rightarrow> value_commands" where
  "timerFires timerKey s = (case vc_flushTimers s timerKey of
     None \<Rightarrow> s
   | Some t \<Rightarrow> runFlush (ft_flush t) (s\<lparr>vc_flushTimers := (vc_flushTimers s)(timerKey := None)\<rparr>))"

section \<open>Events\<close>

text \<open>The last three are the host's: it enters another game, sets the pending flag for commands of its
  own, and receives snapshots.\<close>

datatype value_event =
    QueueLife life_command "int option"
  | QueueCommanderDamage commander_damage_command
  | QueueCounter counter_command
  | FlushTimerFires string
  | SendEnds nat "string + bool"
  | RefetchEnds nat
  | ClearValues
  | HostGame string
  | HostPending bool
  | HostSnapshot "game_snapshot option"

fun valueStep :: "(string \<Rightarrow> string) \<Rightarrow> value_commands \<Rightarrow> value_event \<Rightarrow> value_commands" where
  "valueStep em s (QueueLife c d) = queueLife c d s"
| "valueStep em s (QueueCommanderDamage c) = queueCommanderDamage c s"
| "valueStep em s (QueueCounter c) = queueCounter c s"
| "valueStep em s (FlushTimerFires k) = timerFires k s"
| "valueStep em s (SendEnds n r) = sendEnds em n r s"
| "valueStep em s (RefetchEnds n) = refetchEnds n s"
| "valueStep em s ClearValues = clearValues s"
| "valueStep em s (HostGame g) = s\<lparr>vc_gameId := g\<rparr>"
| "valueStep em s (HostPending b) = s\<lparr>vc_pending := b\<rparr>"
| "valueStep em s (HostSnapshot t) = setSnapshotWithValues t s"

section \<open>Changing values\<close>

text \<open>
  What the table does with a click: \<open>changeLife\<close>, \<open>setLife\<close> and \<open>setCommanderDamage\<close> of
  \<^verbatim>\<open>game-table/game-table.store.ts\<close>, \<open>changePlayerCounter\<close> of
  \<^verbatim>\<open>game-table/state/cards/game-table-counters.state.ts\<close> and the bounds of
  \<^verbatim>\<open>game-table/utils/player-life-bounds.ts\<close>. Whether the player may change the value is an argument.
\<close>

definition PLAYER_LIFE_MIN :: int where "PLAYER_LIFE_MIN = -99"
definition PLAYER_LIFE_MAX :: int where "PLAYER_LIFE_MAX = 499"

definition clampPlayerLife :: "jsnum \<Rightarrow> jsnum" where
  "clampPlayerLife v = (if \<not> is_finite v then num 0
     else js_min (num PLAYER_LIFE_MAX) (js_max (num PLAYER_LIFE_MIN) v))"

definition refused :: "string \<Rightarrow> value_commands \<Rightarrow> value_commands" where
  "refused what s = s\<lparr>vc_error := Some (''errors.runtime.you-can-only-change-your-own-'' @ what)\<rparr>"

definition changeLife :: "bool \<Rightarrow> string \<Rightarrow> jsnum \<Rightarrow> bool \<Rightarrow> value_commands \<Rightarrow> value_commands" where
  "changeLife canControl playerId delta debounce s =
     (if \<not> canControl then refused ''life-total'' s
      else let currentLife = lifeValue s (vc_snapshot s) playerId;
               nextLife = clampPlayerLife (currentLife + delta)
           in if nextLife = currentLife then s
              else queueLife \<lparr>lc_playerId = playerId, lc_life = nextLife\<rparr> (if debounce then None else Some 0) s)"

definition setLife :: "bool \<Rightarrow> string \<Rightarrow> jsnum \<Rightarrow> value_commands \<Rightarrow> value_commands" where
  "setLife canControl playerId v s =
     (if \<not> canControl then refused ''life-total'' s
      else queueLife \<lparr>lc_playerId = playerId, lc_life = clampPlayerLife v\<rparr> None s)"

definition setCommanderDamage :: "bool \<Rightarrow> string \<Rightarrow> string \<Rightarrow> string \<Rightarrow> jsnum \<Rightarrow> value_commands \<Rightarrow> value_commands" where
  "setCommanderDamage canControl targetPlayerId sourcePlayerId commanderInstanceId delta s =
     (if \<not> canControl then refused ''commander-damage'' s
      else let currentDamage = commanderDamageValue s (vc_snapshot s) targetPlayerId commanderInstanceId;
               nextDamage = js_max (num 0) (currentDamage + delta)
           in if nextDamage = currentDamage \<and> nextDamage \<noteq> NaN then s
              else queueCommanderDamage \<lparr>dc_targetPlayerId = targetPlayerId, dc_sourcePlayerId = sourcePlayerId,
                dc_commanderInstanceId = commanderInstanceId, dc_damage = nextDamage\<rparr> s)"

definition playerCounterValue :: "value_commands \<Rightarrow> string \<Rightarrow> string \<Rightarrow> jsnum" where
  "playerCounterValue s playerId key' = counterValue s (''player:'' @ playerId) key' (js_max (num 0)
     (case Option.bind (vc_snapshot s) (\<lambda>t. sn_players t playerId) of None \<Rightarrow> num 0
      | Some p \<Rightarrow> (case pl_counters p key' of None \<Rightarrow> num 0 | Some v \<Rightarrow> v)))"

definition changePlayerCounter :: "bool \<Rightarrow> string \<Rightarrow> string \<Rightarrow> jsnum \<Rightarrow> value_commands \<Rightarrow> value_commands" where
  "changePlayerCounter canControl playerId key' delta s =
     (if \<not> canControl then refused ''player-counters'' s
      else if playerCounterValue s playerId key' = num 0 \<and> js_less delta (num 0) then s
      else queueCounter \<lparr>cc_scope = ''player:'' @ playerId, cc_key = key',
        cc_value = js_max (num 0) (playerCounterValue s playerId key' + delta)\<rparr> s)"

text \<open>The table as a whole: clicks, and the events of the service other than queueing.\<close>

datatype table_event =
    ChangeLife bool string jsnum bool
  | SetLife bool string jsnum
  | SetCommanderDamage bool string string string jsnum
  | ChangePlayerCounter bool string string jsnum
  | ValueEvent value_event

fun tableStep :: "(string \<Rightarrow> string) \<Rightarrow> value_commands \<Rightarrow> table_event \<Rightarrow> value_commands" where
  "tableStep em s (ChangeLife can p d debounce) = changeLife can p d debounce s"
| "tableStep em s (SetLife can p v) = setLife can p v s"
| "tableStep em s (SetCommanderDamage can t src i d) = setCommanderDamage can t src i d s"
| "tableStep em s (ChangePlayerCounter can p k d) = changePlayerCounter can p k d s"
| "tableStep em s (ValueEvent e) = valueStep em s e"

end
