(* ===== verification/ValueInv.thy ===== *)
theory ValueInv
  imports ValueCommands Replica
begin

text \<open>
  The invariants of the debounced values: the three maps seen as one map from flushes to payloads,
  the parts every event is made of, and what each part keeps.
\<close>

section \<open>The three maps as one\<close>

fun optimisticPayload :: "flush \<Rightarrow> value_commands \<Rightarrow> (nat \<times> value_payload) option" where
  "optimisticPayload (FlushLife k) s = map_option (apsnd LifeChanged) (map_of (vc_life s) k)"
| "optimisticPayload (FlushCommanderDamage k) s = map_option (apsnd CommanderDamageChanged) (map_of (vc_damage s) k)"
| "optimisticPayload (FlushCounter k) s = map_option (apsnd CounterChanged) (map_of (vc_counters s) k)"

lemma optimisticCommand_eq: "optimisticCommand f s = map_option fst (optimisticPayload f s)"
  by (cases f) (simp_all add: option.map_comp comp_def)

lemma runFlush_eq:
  "runFlush f s = (case optimisticPayload f s of None \<Rightarrow> s
     | Some (n, payload) \<Rightarrow> if vc_gameId s = [] then s
         else if vc_pending s then scheduleFlush (timerKeyOf f) RETRY_DELAY_MS f s else startSending f n payload s)"
  by (cases f)
    (auto simp: flushLife_def flushCommanderDamage_def flushCounter_def split: option.splits)

text \<open>A timer fires: its entry is removed and the flush runs.\<close>

definition flushed :: "flush \<Rightarrow> value_commands \<Rightarrow> value_commands" where
  "flushed f s = runFlush f (s\<lparr>vc_flushTimers := (vc_flushTimers s)(timerKeyOf f := None)\<rparr>)"

lemma timerKeyOf_inj [simp]: "timerKeyOf f = timerKeyOf g \<longleftrightarrow> f = g"
  by (cases f; cases g) (simp_all add: lifeTimerKey_def commanderDamageTimerKey_def counterTimerKey_def)

lemma optimistic_cong:
  "vc_life s = vc_life t \<Longrightarrow> vc_damage s = vc_damage t \<Longrightarrow> vc_counters s = vc_counters t \<Longrightarrow>
     optimisticPayload f s = optimisticPayload f t"
  by (cases f) simp_all

lemma setLocally_frame [simp]:
  "vc_life (setLocally ch u s) = vc_life s" "vc_damage (setLocally ch u s) = vc_damage s"
  "vc_counters (setLocally ch u s) = vc_counters s" "vc_flushTimers (setLocally ch u s) = vc_flushTimers s"
  "vc_flights (setLocally ch u s) = vc_flights s" "vc_sent (setLocally ch u s) = vc_sent s"
  "vc_gameId (setLocally ch u s) = vc_gameId s" "vc_pending (setLocally ch u s) = vc_pending s"
  "vc_fresh (setLocally ch u s) = vc_fresh s"
  by (auto simp: setLocally_def setSnapshotWithValues_def split: option.split)

lemma scheduleFlush_eq [simp]:
  "scheduleFlush k d f s = s\<lparr>vc_flushTimers := (vc_flushTimers s)(k \<mapsto> \<lparr>ft_delayMs = d, ft_flush = f\<rparr>)\<rparr>"
  by (simp add: scheduleFlush_def clearFlushTimer_def Let_def)

lemma deleteOptimistic_frame [simp]:
  "vc_flushTimers (deleteOptimistic f s) = vc_flushTimers s" "vc_flights (deleteOptimistic f s) = vc_flights s"
  "vc_sent (deleteOptimistic f s) = vc_sent s" "vc_gameId (deleteOptimistic f s) = vc_gameId s"
  "vc_pending (deleteOptimistic f s) = vc_pending s" "vc_fresh (deleteOptimistic f s) = vc_fresh s"
  "vc_snapshot (deleteOptimistic f s) = vc_snapshot s"
  by (cases f; simp)+

lemma deleteOptimistic_payload [simp]:
  "optimisticPayload g (deleteOptimistic f s) = (if g = f then None else optimisticPayload g s)"
  by (cases f; cases g) (simp_all add: delete_conv')

lemma deleteIfSame_frame [simp]:
  "vc_flushTimers (deleteIfSame f s) = vc_flushTimers s" "vc_flights (deleteIfSame f s) = vc_flights s"
  "vc_sent (deleteIfSame f s) = vc_sent s" "vc_gameId (deleteIfSame f s) = vc_gameId s"
  "vc_pending (deleteIfSame f s) = vc_pending s" "vc_fresh (deleteIfSame f s) = vc_fresh s"
  "vc_snapshot (deleteIfSame f s) = vc_snapshot s"
  by (simp_all add: deleteIfSame_def)

lemma deleteIfSame_payload:
  "optimisticPayload g (deleteIfSame f s) =
     (if g = fl_flush f \<and> optimisticCommand g s = Some (fl_command f) then None else optimisticPayload g s)"
  by (auto simp: deleteIfSame_def)

lemma payload_frame [simp]:
  "optimisticPayload f (s\<lparr>vc_flushTimers := x\<rparr>) = optimisticPayload f s"
  "optimisticPayload f (s\<lparr>vc_flights := fs\<rparr>) = optimisticPayload f s"
  "optimisticPayload f (s\<lparr>vc_pending := b\<rparr>) = optimisticPayload f s"
  "optimisticPayload f (s\<lparr>vc_error := m\<rparr>) = optimisticPayload f s"
  "optimisticPayload f (s\<lparr>vc_sent := xs\<rparr>) = optimisticPayload f s"
  "optimisticPayload f (s\<lparr>vc_fresh := n\<rparr>) = optimisticPayload f s"
  "optimisticPayload f (s\<lparr>vc_gameId := i\<rparr>) = optimisticPayload f s"
  "optimisticPayload f (s\<lparr>vc_snapshot := t\<rparr>) = optimisticPayload f s"
  by (cases f; simp)+

lemma flushed_cases [case_names none stranded retried sent]:
  assumes "optimisticPayload f s = None \<Longrightarrow>
      P (s\<lparr>vc_flushTimers := (vc_flushTimers s)(timerKeyOf f := None)\<rparr>)"
    and "vc_gameId s = [] \<Longrightarrow> P (s\<lparr>vc_flushTimers := (vc_flushTimers s)(timerKeyOf f := None)\<rparr>)"
    and "vc_pending s \<Longrightarrow> P (scheduleFlush (timerKeyOf f) RETRY_DELAY_MS f s)"
    and "\<And>n p. optimisticPayload f s = Some (n, p) \<Longrightarrow> \<not> vc_pending s \<Longrightarrow>
      P (startSending f n p (s\<lparr>vc_flushTimers := (vc_flushTimers s)(timerKeyOf f := None)\<rparr>))"
  shows "P (flushed f s)"
proof (cases "optimisticPayload f s")
  case None
  with assms(1) show ?thesis by (simp add: flushed_def runFlush_eq)
next
  case (Some x)
  obtain n p where x: "x = (n, p)" by (cases x)
  consider "vc_gameId s = []" | "vc_gameId s \<noteq> []" "vc_pending s" | "vc_gameId s \<noteq> []" "\<not> vc_pending s" by blast
  then show ?thesis
  proof cases
    case 1
    with Some assms(2) show ?thesis by (simp add: flushed_def runFlush_eq x)
  next
    case 2
    with Some assms(3) show ?thesis by (simp add: flushed_def runFlush_eq x)
  next
    case 3
    with Some assms(4) show ?thesis by (simp add: flushed_def runFlush_eq x)
  qed
qed

lemma startSending_frame [simp]:
  "vc_flushTimers (startSending f n p s) = vc_flushTimers s" "vc_gameId (startSending f n p s) = vc_gameId s"
  "vc_pending (startSending f n p s)" "vc_fresh (startSending f n p s) = Suc (vc_fresh s)"
  "vc_sent (startSending f n p s) = vc_sent s @ [(n, p)]" "vc_snapshot (startSending f n p s) = vc_snapshot s"
  "vc_flights (startSending f n p s) =
     vc_flights s @ [\<lparr>fl_id = vc_fresh s, fl_flush = f, fl_command = n, fl_stage = Sending\<rparr>]"
  "optimisticPayload g (startSending f n p s) = optimisticPayload g s"
  by (simp_all add: startSending_def)

lemma finishFlush_frame [simp]:
  "vc_flights (finishFlush f s) = filter (\<lambda>g. fl_id g \<noteq> fl_id f) (vc_flights s)"
  "vc_sent (finishFlush f s) = vc_sent s" "vc_gameId (finishFlush f s) = vc_gameId s"
  "vc_fresh (finishFlush f s) = vc_fresh s" "vc_snapshot (finishFlush f s) = vc_snapshot s"
  "optimisticPayload g (finishFlush f s) = optimisticPayload g s"
  by (simp_all add: finishFlush_def Let_def)

lemma finishFlush_timers:
  "vc_flushTimers (finishFlush f s) = (if optimisticPayload (fl_flush f) s = None then vc_flushTimers s
     else (vc_flushTimers s)(timerKeyOf (fl_flush f) \<mapsto> \<lparr>ft_delayMs = RETRY_DELAY_MS, ft_flush = fl_flush f\<rparr>))"
  by (simp add: finishFlush_def Let_def optimisticCommand_eq)

lemma sendFails_frame [simp]:
  "vc_flushTimers (sendFails f m s) = vc_flushTimers s" "vc_sent (sendFails f m s) = vc_sent s"
  "vc_gameId (sendFails f m s) = vc_gameId s" "vc_pending (sendFails f m s) = vc_pending s"
  "vc_fresh (sendFails f m s) = vc_fresh s" "vc_snapshot (sendFails f m s) = vc_snapshot s"
  "optimisticPayload g (sendFails f m s) = optimisticPayload g (deleteIfSame f s)"
  "set (vc_flights (sendFails f m s)) =
     (\<lambda>g. if fl_id g = fl_id f then g\<lparr>fl_stage := Refetching\<rparr> else g) ` set (vc_flights s)"
  "length (vc_flights (sendFails f m s)) = length (vc_flights s)"
  by (simp_all add: sendFails_def Let_def)

lemma sendFails_ids [simp]: "map fl_id (vc_flights (sendFails f m s)) = map fl_id (vc_flights s)"
  by (simp add: sendFails_def Let_def)

text \<open>A queued command, of whichever kind: its flush, its entry, the change of the snapshot.\<close>

datatype queueing = LifeQueued life_command | DamageQueued commander_damage_command | CounterQueued counter_command

fun queuedFlush :: "queueing \<Rightarrow> flush" where
  "queuedFlush (LifeQueued c) = FlushLife (lc_playerId c)"
| "queuedFlush (DamageQueued c) = FlushCommanderDamage (commanderDamageCommandKey (dc_targetPlayerId c) (dc_commanderInstanceId c))"
| "queuedFlush (CounterQueued c) = FlushCounter (counterCommandKey (cc_scope c) (cc_key c))"

fun queuedPayload :: "queueing \<Rightarrow> value_payload" where
  "queuedPayload (LifeQueued c) = LifeChanged c"
| "queuedPayload (DamageQueued c) = CommanderDamageChanged c"
| "queuedPayload (CounterQueued c) = CounterChanged c"

fun enterOptimistic :: "queueing \<Rightarrow> value_commands \<Rightarrow> value_commands" where
  "enterOptimistic (LifeQueued c) s = updateLocalLife c
     (s\<lparr>vc_life := AList.update (lc_playerId c) (vc_fresh s, c) (vc_life s), vc_fresh := Suc (vc_fresh s)\<rparr>)"
| "enterOptimistic (DamageQueued c) s = updateLocalCommanderDamage c
     (s\<lparr>vc_damage := AList.update (commanderDamageCommandKey (dc_targetPlayerId c) (dc_commanderInstanceId c))
       (vc_fresh s, c) (vc_damage s), vc_fresh := Suc (vc_fresh s)\<rparr>)"
| "enterOptimistic (CounterQueued c) s = updateLocalCounter c
     (s\<lparr>vc_counters := AList.update (counterCommandKey (cc_scope c) (cc_key c)) (vc_fresh s, c) (vc_counters s),
       vc_fresh := Suc (vc_fresh s)\<rparr>)"

lemma enterOptimistic_frame [simp]:
  "vc_flushTimers (enterOptimistic q s) = vc_flushTimers s" "vc_flights (enterOptimistic q s) = vc_flights s"
  "vc_sent (enterOptimistic q s) = vc_sent s" "vc_gameId (enterOptimistic q s) = vc_gameId s"
  "vc_pending (enterOptimistic q s) = vc_pending s" "vc_fresh (enterOptimistic q s) = Suc (vc_fresh s)"
  by (cases q; simp add: updateLocalLife_def updateLocalCommanderDamage_def updateLocalCounter_def)+

lemma enterOptimistic_payload [simp]:
  "optimisticPayload f (enterOptimistic q s) =
     (if f = queuedFlush q then Some (vc_fresh s, queuedPayload q) else optimisticPayload f s)"
  by (cases q; cases f) (simp_all add: updateLocalLife_def updateLocalCommanderDamage_def updateLocalCounter_def update_conv')

lemma queueLife_eq:
  "queueLife c d s = (let t = enterOptimistic (LifeQueued c) s; k = lifeTimerKey (lc_playerId c);
       ms = (case d of None \<Rightarrow> VALUE_COMMAND_DEBOUNCE_MS | Some d \<Rightarrow> d)
     in if ms \<le> 0 then flushed (FlushLife (lc_playerId c)) t
        else scheduleFlush k ms (FlushLife (lc_playerId c)) t)"
  by (simp add: queueLife_def Let_def flushed_def clearFlushTimer_def)

lemma queueCommanderDamage_eq:
  "queueCommanderDamage c s = scheduleFlush (timerKeyOf (queuedFlush (DamageQueued c))) VALUE_COMMAND_DEBOUNCE_MS
     (queuedFlush (DamageQueued c)) (enterOptimistic (DamageQueued c) s)"
  by (simp add: queueCommanderDamage_def Let_def)

lemma queueCounter_eq:
  "queueCounter c s = scheduleFlush (timerKeyOf (queuedFlush (CounterQueued c))) VALUE_COMMAND_DEBOUNCE_MS
     (queuedFlush (CounterQueued c)) (enterOptimistic (CounterQueued c) s)"
  by (simp add: queueCounter_def Let_def)

fun queueingOf :: "value_event \<Rightarrow> queueing option" where
  "queueingOf (QueueLife c d) = Some (LifeQueued c)"
| "queueingOf (QueueCommanderDamage c) = Some (DamageQueued c)"
| "queueingOf (QueueCounter c) = Some (CounterQueued c)"
| "queueingOf e = None"

text \<open>What the events are made of; an induction over these parts proves an invariant.\<close>

lemma valueStep_parts:
  assumes enter: "\<And>q s. P s \<Longrightarrow> queueingOf e = Some q \<Longrightarrow> P' (queuedFlush q) (enterOptimistic q s)"
    and schedule: "\<And>f d s. P' f s \<Longrightarrow> P (scheduleFlush (timerKeyOf f) d f s)"
    and flush: "\<And>f s. P' f s \<Longrightarrow> P (flushed f s)"
    and fires: "\<And>k t s. P s \<Longrightarrow> vc_flushTimers s k = Some t \<Longrightarrow> timerKeyOf (ft_flush t) = k \<and> P' (ft_flush t) s"
    and ok: "\<And>f s. P s \<Longrightarrow> f \<in> set (vc_flights s) \<Longrightarrow> P (finishFlush f (deleteIfSame f s))"
    and refetched: "\<And>f s. P s \<Longrightarrow> f \<in> set (vc_flights s) \<Longrightarrow> fl_stage f = Refetching \<Longrightarrow> P (finishFlush f s)"
    and fails: "\<And>f e s. P s \<Longrightarrow> f \<in> set (vc_flights s) \<Longrightarrow> P (sendFails f e s)"
    and clear: "\<And>s. P s \<Longrightarrow> e = ClearValues \<Longrightarrow> P (clearValues s)"
    and snapshot: "\<And>t s. P s \<Longrightarrow> P (setSnapshotWithValues t s)"
    and host: "\<And>g s. P s \<Longrightarrow> e = HostGame g \<Longrightarrow> P (s\<lparr>vc_gameId := g\<rparr>)"
      "\<And>b s. P s \<Longrightarrow> e = HostPending b \<Longrightarrow> P (s\<lparr>vc_pending := b\<rparr>)"
    and s: "P s"
  shows "P (valueStep em s e)"
proof (cases e)
  case (QueueLife c d)
  then show ?thesis using enter [OF s, of "LifeQueued c"] schedule flush [of "FlushLife (lc_playerId c)"]
    by (simp add: queueLife_eq Let_def del: scheduleFlush_eq enterOptimistic.simps) force
next
  case (QueueCommanderDamage c)
  then show ?thesis using schedule [OF enter [OF s, of "DamageQueued c"]] by (simp add: queueCommanderDamage_eq)
next
  case (QueueCounter c)
  then show ?thesis using schedule [OF enter [OF s, of "CounterQueued c"]] by (simp add: queueCounter_eq)
next
  case (FlushTimerFires k)
  then show ?thesis using fires [OF s, of k] flush s by (auto simp: timerFires_def flushed_def split: option.split)
next
  case (SendEnds n r)
  show ?thesis
  proof (cases "find (\<lambda>f. fl_id f = n \<and> fl_stage f = Sending) (vc_flights s)")
    case (Some f)
    then have "f \<in> set (vc_flights s)" by (auto simp: find_Some_iff)
    with SendEnds Some s ok fails show ?thesis by (auto simp: sendEnds_def split: sum.split bool.split)
  qed (use SendEnds s in \<open>simp add: sendEnds_def\<close>)
next
  case (RefetchEnds n)
  show ?thesis
  proof (cases "find (\<lambda>f. fl_id f = n \<and> fl_stage f = Refetching) (vc_flights s)")
    case (Some f)
    then have "f \<in> set (vc_flights s)" "fl_stage f = Refetching" by (auto simp: find_Some_iff)
    with RefetchEnds Some s refetched show ?thesis by (simp add: refetchEnds_def)
  qed (use RefetchEnds s in \<open>simp add: refetchEnds_def\<close>)
qed (use s clear snapshot host in auto)

section \<open>Every value waits for a flush\<close>

definition awaited :: "flush \<Rightarrow> value_commands \<Rightarrow> bool" where
  "awaited f s \<longleftrightarrow> vc_flushTimers s (timerKeyOf f) \<noteq> None \<or> (\<exists>g \<in> set (vc_flights s). fl_flush g = f)"

definition timers_ok :: "value_commands \<Rightarrow> bool" where
  "timers_ok s \<longleftrightarrow> (\<forall>k t. vc_flushTimers s k = Some t \<longrightarrow> timerKeyOf (ft_flush t) = k)
     \<and> distinct (map fl_id (vc_flights s)) \<and> (\<forall>g \<in> set (vc_flights s). fl_id g < vc_fresh s)"

definition all_awaited :: "value_commands \<Rightarrow> bool" where
  "all_awaited s \<longleftrightarrow> timers_ok s \<and> vc_gameId s \<noteq> []
     \<and> (\<forall>f. optimisticPayload f s \<noteq> None \<longrightarrow> awaited f s)"

text \<open>Between entering a value, or taking its timer, and scheduling or flushing it.\<close>

definition awaited_but :: "flush \<Rightarrow> value_commands \<Rightarrow> bool" where
  "awaited_but f s \<longleftrightarrow> timers_ok s \<and> vc_gameId s \<noteq> []
     \<and> (\<forall>g. g \<noteq> f \<longrightarrow> optimisticPayload g s \<noteq> None \<longrightarrow> awaited g s)"

lemma distinct_ids_eq: "distinct (map fl_id xs) \<Longrightarrow> f \<in> set xs \<Longrightarrow> g \<in> set xs \<Longrightarrow> fl_id f = fl_id g \<Longrightarrow> f = g"
  by (simp add: distinct_map inj_on_def)

lemma awaited_sendFails:
  assumes "awaited g s"
  shows "awaited g (sendFails f m s)"
proof (cases "vc_flushTimers s (timerKeyOf g)")
  case None
  with assms obtain h where h: "h \<in> set (vc_flights s)" "fl_flush h = g" by (auto simp: awaited_def)
  let ?h = "if fl_id h = fl_id f then h\<lparr>fl_stage := Refetching\<rparr> else h"
  have "?h \<in> set (vc_flights (sendFails f m s))" "fl_flush ?h = g" using h by (simp_all only: sendFails_frame) auto
  then show ?thesis unfolding awaited_def by blast
qed (simp add: awaited_def)

lemma timers_sendFails: "timers_ok s \<Longrightarrow> timers_ok (sendFails f m s)"
  by (auto simp: timers_ok_def)

lemma payload_cleared [simp]: "optimisticPayload f (clearValues s) = None"
  by (cases f) (simp_all add: clearValues_def)

lemma all_awaited_step:
  assumes "all_awaited s" and "\<forall>g. e = HostGame g \<longrightarrow> g \<noteq> []"
  shows "all_awaited (valueStep em s e)"
proof (rule valueStep_parts [where P' = awaited_but])
  show "awaited_but (queuedFlush q) (enterOptimistic q s)" if "all_awaited s" for q s
    using that by (fastforce simp: all_awaited_def awaited_but_def awaited_def timers_ok_def)
  show "all_awaited (scheduleFlush (timerKeyOf f) d f s)" if "awaited_but f s" for f d s
    using that by (auto simp: all_awaited_def awaited_but_def awaited_def timers_ok_def)
  show "all_awaited (flushed f s)"
    if "awaited_but f s" for f s
    by (rule flushed_cases [where P = all_awaited])
      (use that in \<open>auto simp: all_awaited_def awaited_but_def awaited_def timers_ok_def less_Suc_eq\<close>)
  show "timerKeyOf (ft_flush t) = k \<and> awaited_but (ft_flush t) s"
    if "all_awaited s" "vc_flushTimers s k = Some t" for k t s
    using that by (auto simp: all_awaited_def awaited_but_def timers_ok_def)
  show "all_awaited (clearValues s)" if "all_awaited s" for s
    using that by (auto simp: all_awaited_def timers_ok_def) (simp_all add: clearValues_def)
  show "all_awaited (setSnapshotWithValues t s)" if "all_awaited s" for t s
    using that by (simp add: all_awaited_def timers_ok_def awaited_def setSnapshotWithValues_def)
  show "all_awaited (s\<lparr>vc_pending := b\<rparr>)" if "all_awaited s" for b s
    using that by (simp add: all_awaited_def timers_ok_def awaited_def)
  show "all_awaited (s\<lparr>vc_gameId := g\<rparr>)" if "all_awaited s" "e = HostGame g" for g s
    using that assms(2) by (simp add: all_awaited_def timers_ok_def awaited_def)
  have finish: "all_awaited (finishFlush f t)"
    if s: "all_awaited s" and f: "f \<in> set (vc_flights s)" and t: "t = s \<or> t = deleteIfSame f s" for f s t
  proof -
    have same: "vc_flights t = vc_flights s" "vc_flushTimers t = vc_flushTimers s" "vc_gameId t = vc_gameId s"
        "vc_fresh t = vc_fresh s" using t by auto
    have ids: "\<And>g. g \<in> set (vc_flights s) \<Longrightarrow> fl_id g = fl_id f \<Longrightarrow> g = f"
      using s f by (auto simp: all_awaited_def timers_ok_def dest: distinct_ids_eq)
    have "awaited g (finishFlush f t)" if "optimisticPayload g t \<noteq> None" for g
    proof (cases "g = fl_flush f")
      case True
      with that show ?thesis by (auto simp: awaited_def finishFlush_timers)
    next
      case False
      have "optimisticPayload g s \<noteq> None" using that t by (auto simp: deleteIfSame_payload split: if_splits)
      with s have "awaited g s" by (simp add: all_awaited_def)
      with False ids show ?thesis by (auto simp: awaited_def finishFlush_timers same)
    qed
    moreover have "timers_ok (finishFlush f t)"
      using s by (auto simp: all_awaited_def timers_ok_def finishFlush_timers same distinct_map_filter)
    ultimately show ?thesis using s by (simp add: all_awaited_def same)
  qed
  show "all_awaited (finishFlush f (deleteIfSame f s))" if "all_awaited s" "f \<in> set (vc_flights s)" for f s
    using finish that by blast
  show "all_awaited (finishFlush f s)" if "all_awaited s" "f \<in> set (vc_flights s)" "fl_stage f = Refetching" for f s
    using finish that by blast
  show "all_awaited (sendFails f m s)" if "all_awaited s" "f \<in> set (vc_flights s)" for f m s
    using that timers_sendFails awaited_sendFails
    by (simp add: all_awaited_def deleteIfSame_payload)
qed (rule assms(1))

interpretation awaiting: invariant_machine "valueStep em" "\<lambda>e. \<forall>g. e = HostGame g \<longrightarrow> g \<noteq> []" all_awaited for em
  by unfold_locales (rule all_awaited_step)

lemma all_awaited_initially: "gameId \<noteq> [] \<Longrightarrow> all_awaited (noValueCommands gameId snapshot)"
  by (auto simp: all_awaited_def timers_ok_def noValueCommands_def elim: optimisticPayload.elims)

section \<open>What has been sent\<close>

fun payloadFlush :: "value_payload \<Rightarrow> flush" where
  "payloadFlush (LifeChanged c) = FlushLife (lc_playerId c)"
| "payloadFlush (CommanderDamageChanged c) =
     FlushCommanderDamage (commanderDamageCommandKey (dc_targetPlayerId c) (dc_commanderInstanceId c))"
| "payloadFlush (CounterChanged c) = FlushCounter (counterCommandKey (cc_scope c) (cc_key c))"

lemma payloadFlush_queued [simp]: "payloadFlush (queuedPayload q) = queuedFlush q"
  by (cases q) simp_all

definition ledger_ok :: "value_commands \<Rightarrow> bool" where
  "ledger_ok s \<longleftrightarrow> timers_ok s
     \<and> (\<forall>f n p. optimisticPayload f s = Some (n, p) \<longrightarrow> payloadFlush p = f \<and> n < vc_fresh s)
     \<and> (\<forall>n p. (n, p) \<in> set (vc_sent s) \<longrightarrow> n < vc_fresh s)
     \<and> (\<forall>g \<in> set (vc_flights s). \<exists>p. (fl_command g, p) \<in> set (vc_sent s) \<and> payloadFlush p = fl_flush g)"

lemma ledger_enter: "ledger_ok s \<Longrightarrow> ledger_ok (enterOptimistic q s)"
  by (fastforce simp: ledger_ok_def timers_ok_def less_Suc_eq)

lemma ledger_schedule: "ledger_ok s \<Longrightarrow> ledger_ok (scheduleFlush (timerKeyOf f) d f s)"
  by (auto simp: ledger_ok_def timers_ok_def)

lemma ledger_flush:
  "ledger_ok s \<Longrightarrow> ledger_ok (flushed f s)"
  by (rule flushed_cases [where P = ledger_ok]) (fastforce simp: ledger_ok_def timers_ok_def less_Suc_eq)+

lemma ledger_finish:
  "ledger_ok s \<Longrightarrow> ledger_ok (finishFlush f (deleteIfSame f s))"
  "ledger_ok s \<Longrightarrow> ledger_ok (finishFlush f s)"
  by (auto simp: ledger_ok_def timers_ok_def finishFlush_timers deleteIfSame_payload distinct_map_filter)

lemma ledger_fails: "ledger_ok s \<Longrightarrow> ledger_ok (sendFails f m s)"
  by (auto simp: ledger_ok_def timers_ok_def deleteIfSame_payload)

lemma ledger_clear: "ledger_ok s \<Longrightarrow> ledger_ok (clearValues s)"
  by (auto simp: ledger_ok_def timers_ok_def clearValues_def elim!: optimisticPayload.elims)

lemma ledger_timer: "ledger_ok s \<Longrightarrow> vc_flushTimers s k = Some t \<Longrightarrow> timerKeyOf (ft_flush t) = k"
  by (simp add: ledger_ok_def timers_ok_def)

text \<open>The parts of a step again, with the ledger at hand.\<close>

lemma ledger_parts:
  assumes s: "ledger_ok s" "P s"
    and "\<And>q s. ledger_ok s \<Longrightarrow> P s \<Longrightarrow> queueingOf e = Some q \<Longrightarrow> P (enterOptimistic q s)"
    and "\<And>f d s. P s \<Longrightarrow> P (scheduleFlush (timerKeyOf f) d f s)"
    and "\<And>f s. ledger_ok s \<Longrightarrow> P s \<Longrightarrow> P (flushed f s)"
    and "\<And>f s. ledger_ok s \<Longrightarrow> P s \<Longrightarrow> f \<in> set (vc_flights s) \<Longrightarrow> P (finishFlush f (deleteIfSame f s))"
    and "\<And>f s. ledger_ok s \<Longrightarrow> P s \<Longrightarrow> f \<in> set (vc_flights s) \<Longrightarrow> fl_stage f = Refetching \<Longrightarrow> P (finishFlush f s)"
    and "\<And>f e s. ledger_ok s \<Longrightarrow> P s \<Longrightarrow> f \<in> set (vc_flights s) \<Longrightarrow> P (sendFails f e s)"
    and "\<And>s. P s \<Longrightarrow> e = ClearValues \<Longrightarrow> P (clearValues s)"
    and "\<And>t s. ledger_ok s \<Longrightarrow> P s \<Longrightarrow> P (setSnapshotWithValues t s)"
    and "\<And>g s. P s \<Longrightarrow> e = HostGame g \<Longrightarrow> P (s\<lparr>vc_gameId := g\<rparr>)"
    and "\<And>b s. P s \<Longrightarrow> e = HostPending b \<Longrightarrow> P (s\<lparr>vc_pending := b\<rparr>)"
  shows "ledger_ok (valueStep em s e) \<and> P (valueStep em s e)"
proof (rule valueStep_parts [where P' = "\<lambda>f s. ledger_ok s \<and> P s"])
  show "timerKeyOf (ft_flush t) = k \<and> ledger_ok s \<and> P s"
    if "ledger_ok s \<and> P s" "vc_flushTimers s k = Some t" for k t s
    using that ledger_timer by blast
  show "ledger_ok (s\<lparr>vc_gameId := g\<rparr>) \<and> P (s\<lparr>vc_gameId := g\<rparr>)" if "ledger_ok s \<and> P s" "e = HostGame g" for g s
    using that assms(11) by (simp add: ledger_ok_def timers_ok_def)
  show "ledger_ok (s\<lparr>vc_pending := b\<rparr>) \<and> P (s\<lparr>vc_pending := b\<rparr>)" if "ledger_ok s \<and> P s" "e = HostPending b" for b s
    using that assms(12) by (simp add: ledger_ok_def timers_ok_def)
  show "ledger_ok (setSnapshotWithValues t s) \<and> P (setSnapshotWithValues t s)" if "ledger_ok s \<and> P s" for t s
    using that assms(10) by (simp add: ledger_ok_def timers_ok_def) (simp add: setSnapshotWithValues_def)
qed (use assms in \<open>simp_all only: ledger_enter ledger_schedule ledger_flush ledger_finish ledger_fails ledger_clear simp_thms\<close>)

lemma ledger_step: "ledger_ok s \<Longrightarrow> ledger_ok (valueStep em s e)"
  by (rule ledger_parts [where P = "\<lambda>s. True", THEN conjunct1]) simp_all

interpretation ledger: invariant_machine "valueStep em" "\<lambda>e. True" ledger_ok for em
  by unfold_locales (rule ledger_step)

lemma ledger_initially: "ledger_ok (noValueCommands gameId snapshot)"
  by (auto simp: ledger_ok_def timers_ok_def noValueCommands_def elim: optimisticPayload.elims)

definition waiting_or_sent :: "flush \<Rightarrow> nat \<Rightarrow> value_commands \<Rightarrow> bool" where
  "waiting_or_sent f n s \<longleftrightarrow> (\<exists>m \<ge> n. (\<exists>p. optimisticPayload f s = Some (m, p))
     \<or> (\<exists>p. (m, p) \<in> set (vc_sent s) \<and> payloadFlush p = f))"

lemma waiting_or_sentI:
  "optimisticPayload f s = Some (m, p) \<Longrightarrow> n \<le> m \<Longrightarrow> waiting_or_sent f n s"
  "(m, p) \<in> set (vc_sent s) \<Longrightarrow> payloadFlush p = f \<Longrightarrow> n \<le> m \<Longrightarrow> waiting_or_sent f n s"
  by (auto simp: waiting_or_sent_def)

lemma waiting_or_sent_mono:
  assumes "waiting_or_sent f n s" "set (vc_sent s) \<subseteq> set (vc_sent t)"
    and "\<And>m p. optimisticPayload f s = Some (m, p) \<Longrightarrow> n \<le> m \<Longrightarrow> waiting_or_sent f n t"
  shows "waiting_or_sent f n t"
  using assms by (fastforce simp: waiting_or_sent_def)

lemma waiting_or_sent_deleted:
  assumes s: "ledger_ok s" "waiting_or_sent f n s" "g \<in> set (vc_flights s)"
    and t: "vc_sent t = vc_sent s" "\<And>h. optimisticPayload h t = optimisticPayload h (deleteIfSame g s)"
  shows "waiting_or_sent f n t"
proof (rule waiting_or_sent_mono [OF s(2)])
  fix m p assume m: "optimisticPayload f s = Some (m, p)" "n \<le> m"
  show "waiting_or_sent f n t"
  proof (cases "f = fl_flush g \<and> m = fl_command g")
    case True
    then obtain q where "(m, q) \<in> set (vc_sent t)" "payloadFlush q = f"
      using s(1,3) t(1) by (auto simp: ledger_ok_def)
    then show ?thesis using m(2) by (rule waiting_or_sentI(2))
  next
    case False
    with m have "optimisticPayload f t = Some (m, p)" by (auto simp: t(2) deleteIfSame_payload optimisticCommand_eq)
    then show ?thesis using m(2) by (rule waiting_or_sentI(1))
  qed
qed (simp add: t)

lemma waiting_or_sent_step:
  assumes s: "ledger_ok s" "waiting_or_sent f n s" and e: "e \<noteq> ClearValues"
  shows "waiting_or_sent f n (valueStep em s e)"
proof (rule ledger_parts [where P = "waiting_or_sent f n", OF s, THEN conjunct2])
  show "waiting_or_sent f n (enterOptimistic q s)" if "ledger_ok s" "waiting_or_sent f n s" for q s
  proof (rule waiting_or_sent_mono [OF that(2)])
    fix m p assume m: "optimisticPayload f s = Some (m, p)" "n \<le> m"
    show "waiting_or_sent f n (enterOptimistic q s)"
    proof (cases "f = queuedFlush q")
      case True
      have "m < vc_fresh s" using that(1) m(1) by (auto simp: ledger_ok_def)
      with True m(2) show ?thesis by (simp add: waiting_or_sent_def) (use less_imp_le order_trans in blast)
    next
      case False
      with m show ?thesis by (intro waiting_or_sentI(1)) simp_all
    qed
  qed simp
  show "waiting_or_sent f n (flushed g s)"
    if "waiting_or_sent f n s" for g s
    by (rule flushed_cases [where P = "waiting_or_sent f n"])
      (use that in \<open>auto simp: waiting_or_sent_def\<close>)
  show "waiting_or_sent f n (finishFlush g (deleteIfSame g s))"
    if "ledger_ok s" "waiting_or_sent f n s" "g \<in> set (vc_flights s)" for g s
    using that by (rule waiting_or_sent_deleted) simp_all
  show "waiting_or_sent f n (sendFails g m s)"
    if "ledger_ok s" "waiting_or_sent f n s" "g \<in> set (vc_flights s)" for g m s
    using that by (rule waiting_or_sent_deleted) simp_all
qed (use e in \<open>auto simp: waiting_or_sent_def setSnapshotWithValues_def\<close>)

interpretation waiting: invariant_machine "valueStep em" "\<lambda>e. e \<noteq> ClearValues" "\<lambda>s. ledger_ok s \<and> waiting_or_sent f n s" for em f n
  by unfold_locales (simp add: ledger_step waiting_or_sent_step)

section \<open>At most one flush at a time\<close>

definition one_flight :: "value_commands \<Rightarrow> bool" where
  "one_flight s \<longleftrightarrow> length (vc_flights s) \<le> 1 \<and> (vc_flights s \<noteq> [] \<longrightarrow> vc_pending s)
     \<and> distinct (map fst (vc_sent s))
     \<and> (\<forall>f g n p q. optimisticPayload f s = Some (n, p) \<longrightarrow> optimisticPayload g s = Some (n, q) \<longrightarrow> f = g)
     \<and> (\<forall>f n p q. optimisticPayload f s = Some (n, p) \<longrightarrow> (n, q) \<in> set (vc_sent s) \<longrightarrow>
          (\<exists>g \<in> set (vc_flights s). fl_flush g = f \<and> fl_command g = n \<and> fl_stage g = Sending))"

lemma one_flightD: "one_flight s \<Longrightarrow> f \<in> set (vc_flights s) \<Longrightarrow> vc_flights s = [f]"
  by (cases "vc_flights s") (auto simp: one_flight_def)

lemma one_flight_deleted:
  assumes s: "one_flight s" "f \<in> set (vc_flights s)" and m: "optimisticPayload h (deleteIfSame f s) = Some (n, p)"
  shows "(n, q) \<notin> set (vc_sent s)"
proof
  assume sent: "(n, q) \<in> set (vc_sent s)"
  have h: "optimisticPayload h s = Some (n, p)" using m by (simp add: deleteIfSame_payload split: if_splits)
  with s(1) sent have "\<exists>g \<in> set (vc_flights s). fl_flush g = h \<and> fl_command g = n" unfolding one_flight_def by blast
  then have "fl_flush f = h" "fl_command f = n" using one_flightD [OF s] by simp_all
  with h m show False by (simp add: deleteIfSame_payload optimisticCommand_eq)
qed

lemma one_flight_finished:
  assumes s: "one_flight s" "f \<in> set (vc_flights s)"
  shows "one_flight (finishFlush f (deleteIfSame f s))"
proof -
  have "optimisticPayload h s = Some (n, p)" if "optimisticPayload h (deleteIfSame f s) = Some (n, p)" for h n p
    using that by (simp add: deleteIfSame_payload split: if_splits)
  with s(1) one_flightD [OF s] one_flight_deleted [OF s] show ?thesis
    by (simp add: one_flight_def)
qed

lemma one_flight_fails:
  assumes s: "one_flight s" "f \<in> set (vc_flights s)"
  shows "one_flight (sendFails f m s)"
proof -
  have "optimisticPayload h s = Some (n, p)" if "optimisticPayload h (deleteIfSame f s) = Some (n, p)" for h n p
    using that by (simp add: deleteIfSame_payload split: if_splits)
  with s(1) one_flightD [OF s] one_flight_deleted [OF s] show ?thesis
    by (simp add: one_flight_def)
qed

lemma one_flight_step:
  assumes s: "ledger_ok s" "one_flight s" and e: "e = HostPending False \<longrightarrow> vc_flights s = []"
  shows "one_flight (valueStep em s e)"
proof (cases "\<exists>b. e = HostPending b")
  case True
  then obtain b where b: "e = HostPending b" by blast
  with e have "vc_flights s \<noteq> [] \<longrightarrow> b" by (cases b) simp_all
  with s b show ?thesis by (simp add: one_flight_def)
next
  case False
  show ?thesis
  proof (rule ledger_parts [where P = one_flight, OF s, THEN conjunct2])
    show "one_flight (enterOptimistic q s)" if "ledger_ok s" "one_flight s" for q s
      using that by (fastforce simp: one_flight_def ledger_ok_def)
    show "one_flight (flushed f s)"
      if "ledger_ok s" "one_flight s" for f s
    proof (rule flushed_cases [where P = one_flight])
      fix n p assume new: "optimisticPayload f s = Some (n, p)" "\<not> vc_pending s"
      with that have "vc_flights s = []" "\<And>q. (n, q) \<notin> set (vc_sent s)" by (fastforce simp: one_flight_def)+
      with that new show "one_flight (startSending f n p (s\<lparr>vc_flushTimers := (vc_flushTimers s)(timerKeyOf f := None)\<rparr>))"
        by (fastforce simp: one_flight_def)
    qed (use that in \<open>simp_all add: one_flight_def\<close>)
    show "one_flight (finishFlush f (deleteIfSame f s))" if "one_flight s" "f \<in> set (vc_flights s)" for f s
      using that by (rule one_flight_finished)
    show "one_flight (finishFlush f s)"
      if "ledger_ok s" "one_flight s" "f \<in> set (vc_flights s)" "fl_stage f = Refetching" for f s
      using that one_flightD [OF that(2,3)] by (auto simp: one_flight_def)
    show "one_flight (sendFails f m s)" if "one_flight s" "f \<in> set (vc_flights s)" for f m s
      using that by (rule one_flight_fails)
    show "one_flight (clearValues s)" if "one_flight s" for s
      using that by (auto simp: one_flight_def) (simp_all add: clearValues_def)
  qed (use False in \<open>auto simp: one_flight_def setSnapshotWithValues_def\<close>)
qed

section \<open>The snapshot shows every value\<close>

fun applyPayload :: "value_payload \<Rightarrow> game_snapshot \<Rightarrow> game_snapshot" where
  "applyPayload (LifeChanged c) = withLife c"
| "applyPayload (CommanderDamageChanged c) = withCommanderDamage c"
| "applyPayload (CounterChanged c) = applyCounterCommand c"

fun showsPayload :: "value_payload \<Rightarrow> game_snapshot \<Rightarrow> bool" where
  "showsPayload (LifeChanged c) t = (\<not> changesPlayer (lc_playerId c) (\<lambda>p. pl_life p \<noteq> lc_life c) t)"
| "showsPayload (CommanderDamageChanged c) t = (\<not> changesPlayer (dc_targetPlayerId c)
     (\<lambda>p. pl_commanderDamage p (dc_commanderInstanceId c) \<noteq> Some (dc_damage c)) t)"
| "showsPayload (CounterChanged c) t = (\<not> changesCounter c t)"

lemma starts_with_append: "starts_with p s \<Longrightarrow> s = p @ drop (length p) s"
  by (induction p s rule: starts_with.induct) simp_all

lemma playerScope_eq: "playerScope scope = Some playerId \<Longrightarrow> scope = ''player:'' @ playerId"
  using starts_with_append [of "''player:''" scope] by (auto simp: playerScope_def split: if_splits)

lemma shows_applied: "showsPayload p (applyPayload p t)"
  by (cases p) (auto simp: withLife_def withCommanderDamage_def applyCounterCommand_def changesPlayer_def
      changesCounter_def updatePlayer_simps Let_def split: option.splits)

lemma updatePlayer_id:
  "(\<And>p. sn_players t playerId = Some p \<Longrightarrow> f p = p) \<Longrightarrow> updateGameSnapshotPlayer t playerId f = t"
  by (cases "sn_players t playerId") (simp_all add: updateGameSnapshotPlayer_def map_upd_triv)

lemma changesPlayer_not: "\<not> changesPlayer playerId differs t \<Longrightarrow> sn_players t playerId = Some p \<Longrightarrow> \<not> differs p"
  by (simp add: changesPlayer_def)

lemma apply_shown:
  assumes "showsPayload p t"
  shows "applyPayload p t = t"
proof (cases p)
  case (LifeChanged c)
  with assms have "\<not> changesPlayer (lc_playerId c) (\<lambda>p. pl_life p \<noteq> lc_life c) t" by simp
  from changesPlayer_not [OF this] show ?thesis
    unfolding LifeChanged applyPayload.simps withLife_def by (intro updatePlayer_id) simp
next
  case (CommanderDamageChanged c)
  with assms have "\<not> changesPlayer (dc_targetPlayerId c)
      (\<lambda>p. pl_commanderDamage p (dc_commanderInstanceId c) \<noteq> Some (dc_damage c)) t" by simp
  from changesPlayer_not [OF this] show ?thesis
    unfolding CommanderDamageChanged applyPayload.simps withCommanderDamage_def by (intro updatePlayer_id) simp
next
  case (CounterChanged c)
  show ?thesis
  proof (cases "playerScope (cc_scope c)")
    case None
    with CounterChanged assms show ?thesis by (simp add: applyCounterCommand_def changesCounter_def)
  next
    case (Some playerId)
    then have "\<not> changesPlayer playerId (\<lambda>p. pl_counters p (cc_key c) \<noteq> Some (cc_value c)) t"
      using CounterChanged assms by (simp add: changesCounter_def)
    from changesPlayer_not [OF this]
    have "updateGameSnapshotPlayer t playerId (\<lambda>p. if pl_counters p (cc_key c) = Some (cc_value c) then p
        else p\<lparr>pl_counters := (pl_counters p)(cc_key c \<mapsto> cc_value c)\<rparr>) = t"
      by (intro updatePlayer_id) simp
    with CounterChanged Some show ?thesis by (simp add: applyCounterCommand_def)
  qed
qed

lemma playerScope_inj: "playerScope a = Some x \<Longrightarrow> playerScope b = Some x \<Longrightarrow> a = b"
  using playerScope_eq by metis

lemma shows_other:
  assumes "showsPayload p t" "payloadFlush p \<noteq> payloadFlush q"
  shows "showsPayload p (applyPayload q t)"
proof (cases q)
  case (LifeChanged c)
  with assms show ?thesis by (cases p) (auto simp: withLife_def changesPlayer_def changesCounter_def
      updatePlayer_simps split: option.splits if_splits)
next
  case (CommanderDamageChanged c)
  with assms show ?thesis by (cases p) (auto simp: withCommanderDamage_def changesPlayer_def changesCounter_def
      updatePlayer_simps split: option.splits if_splits)
next
  case (CounterChanged c)
  show ?thesis
  proof (cases "playerScope (cc_scope c)")
    case None
    with CounterChanged assms show ?thesis
      by (cases p) (auto simp: applyCounterCommand_def changesPlayer_def changesCounter_def Let_def split: option.splits)
  next
    case (Some playerId)
    with CounterChanged assms show ?thesis
      by (cases p) (auto simp: applyCounterCommand_def changesPlayer_def changesCounter_def updatePlayer_simps
          dest: playerScope_inj split: option.splits)
  qed
qed

lemma fold_shows:
  assumes "p \<in> set ps" "distinct (map payloadFlush ps)"
  shows "showsPayload p (fold applyPayload ps t)"
proof -
  have keep: "showsPayload p (fold applyPayload qs u)" if "showsPayload p u" "payloadFlush p \<notin> payloadFlush ` set qs" for qs u
    using that by (induction qs arbitrary: u) (auto intro: shows_other)
  show ?thesis using assms
  proof (induction ps arbitrary: t)
    case (Cons q ps)
    show ?case
    proof (cases "p = q")
      case True
      with Cons.prems keep [OF shows_applied] show ?thesis by simp
    next
      case False
      with Cons show ?thesis by simp
    qed
  qed simp
qed

definition optimisticPayloads :: "value_commands \<Rightarrow> value_payload list" where
  "optimisticPayloads s = map LifeChanged (queued (vc_life s))
     @ map CommanderDamageChanged (queued (vc_damage s)) @ map CounterChanged (queued (vc_counters s))"

lemma overlay_fold: "applyOptimisticValues s t = fold applyPayload (optimisticPayloads s) t"
proof -
  have "withLife = applyPayload \<circ> LifeChanged" "withCommanderDamage = applyPayload \<circ> CommanderDamageChanged"
    "applyCounterCommand = applyPayload \<circ> CounterChanged" by (simp_all add: fun_eq_iff)
  then show ?thesis
    by (simp add: applyOptimisticValues_def applyOptimisticLifeCommands_def
        applyOptimisticCommanderDamageCommands_def applyOptimisticCounterCommands_def optimisticPayloads_def fold_map)
qed

definition keys_distinct :: "value_commands \<Rightarrow> bool" where
  "keys_distinct s \<longleftrightarrow> distinct (map fst (vc_life s)) \<and> distinct (map fst (vc_damage s)) \<and> distinct (map fst (vc_counters s))"

lemma payload_listed:
  assumes "keys_distinct s"
  shows "p \<in> set (optimisticPayloads s) \<longleftrightarrow> (\<exists>f n. optimisticPayload f s = Some (n, p))"
proof -
  have "(\<exists>f n. optimisticPayload f s = Some (n, p)) \<longleftrightarrow>
      (\<exists>k n. optimisticPayload (FlushLife k) s = Some (n, p)) \<or> (\<exists>k n. optimisticPayload (FlushCommanderDamage k) s = Some (n, p))
      \<or> (\<exists>k n. optimisticPayload (FlushCounter k) s = Some (n, p))" by (metis flush.exhaust)
  also have "\<dots> \<longleftrightarrow> p \<in> set (optimisticPayloads s)"
    using assms by (force simp: optimisticPayloads_def queued_def keys_distinct_def)
  finally show ?thesis by simp
qed

lemma payloads_distinct:
  assumes "keys_distinct s" "ledger_ok s"
  shows "distinct (map payloadFlush (optimisticPayloads s))"
proof -
  have owner: "optimisticPayload f s = Some (n, p) \<Longrightarrow> payloadFlush p = f" for f n p
    using assms(2) unfolding ledger_ok_def by blast
  have "payloadFlush (LifeChanged (snd (snd x))) = FlushLife (fst x)" if "x \<in> set (vc_life s)" for x
    using owner [of "FlushLife (fst x)" "fst (snd x)" "LifeChanged (snd (snd x))"] that assms(1) by (simp add: keys_distinct_def)
  moreover have "payloadFlush (CommanderDamageChanged (snd (snd x))) = FlushCommanderDamage (fst x)" if "x \<in> set (vc_damage s)" for x
    using owner [of "FlushCommanderDamage (fst x)" "fst (snd x)" "CommanderDamageChanged (snd (snd x))"] that assms(1) by (simp add: keys_distinct_def)
  moreover have "payloadFlush (CounterChanged (snd (snd x))) = FlushCounter (fst x)" if "x \<in> set (vc_counters s)" for x
    using owner [of "FlushCounter (fst x)" "fst (snd x)" "CounterChanged (snd (snd x))"] that assms(1) by (simp add: keys_distinct_def)
  ultimately have "map payloadFlush (optimisticPayloads s) =
      map (FlushLife \<circ> fst) (vc_life s) @ map (FlushCommanderDamage \<circ> fst) (vc_damage s) @ map (FlushCounter \<circ> fst) (vc_counters s)"
    by (simp add: optimisticPayloads_def queued_def)
  with assms(1) show ?thesis by (auto simp: keys_distinct_def distinct_map inj_on_def)
qed

lemma overlay_shows:
  assumes "keys_distinct s" "ledger_ok s" "optimisticPayload f s = Some (n, p)"
  shows "showsPayload p (applyOptimisticValues s t)"
  unfolding overlay_fold
  by (rule fold_shows) (use assms payload_listed payloads_distinct in blast)+

definition values_shown :: "value_commands \<Rightarrow> bool" where
  "values_shown s \<longleftrightarrow> keys_distinct s \<and> (\<forall>t f n p. vc_snapshot s = Some t \<longrightarrow>
     optimisticPayload f s = Some (n, p) \<longrightarrow> showsPayload p t)"

lemma fold_id': "(\<And>x. x \<in> set xs \<Longrightarrow> f x t = t) \<Longrightarrow> fold f xs t = t"
  by (induction xs) auto

lemma overlay_nothing:
  assumes "values_shown s" "vc_snapshot s = Some t"
  shows "applyOptimisticValues s t = t"
proof -
  have "\<forall>p \<in> set (optimisticPayloads s). showsPayload p t"
    using assms payload_listed [of s] unfolding values_shown_def by blast
  then have "fold applyPayload (optimisticPayloads s) t = t"
    by (intro fold_id') (simp add: apply_shown)
  then show ?thesis by (simp add: overlay_fold)
qed

lemma setLocally_shows:
  assumes "keys_distinct s" "ledger_ok s" "optimisticPayload f s = Some (n, p)"
    and old: "\<And>t. vc_snapshot s = Some t \<Longrightarrow> \<not> changes t \<Longrightarrow> showsPayload p t"
    and "vc_snapshot (setLocally changes u s) = Some t"
  shows "showsPayload p t"
proof (cases "vc_snapshot s")
  case None
  with assms(5) show ?thesis by (simp add: setLocally_def)
next
  case (Some t')
  show ?thesis
  proof (cases "changes t'")
    case True
    with Some assms(5) overlay_shows [OF assms(1-3)] show ?thesis
      by (auto simp: setLocally_def setSnapshotWithValues_def)
  next
    case False
    with Some assms(5) old show ?thesis by (simp add: setLocally_def)
  qed
qed

text \<open>Entering a value is entering it in its map and changing the snapshot where it does not show it yet.\<close>

fun enterMap :: "queueing \<Rightarrow> value_commands \<Rightarrow> value_commands" where
  "enterMap (LifeQueued c) s =
     s\<lparr>vc_life := AList.update (lc_playerId c) (vc_fresh s, c) (vc_life s), vc_fresh := Suc (vc_fresh s)\<rparr>"
| "enterMap (DamageQueued c) s =
     s\<lparr>vc_damage := AList.update (commanderDamageCommandKey (dc_targetPlayerId c) (dc_commanderInstanceId c))
       (vc_fresh s, c) (vc_damage s), vc_fresh := Suc (vc_fresh s)\<rparr>"
| "enterMap (CounterQueued c) s =
     s\<lparr>vc_counters := AList.update (counterCommandKey (cc_scope c) (cc_key c)) (vc_fresh s, c) (vc_counters s),
       vc_fresh := Suc (vc_fresh s)\<rparr>"

lemma enterOptimistic_eq:
  "enterOptimistic q s = setLocally (\<lambda>t. \<not> showsPayload (queuedPayload q) t) (applyPayload (queuedPayload q)) (enterMap q s)"
  by (cases q) (simp_all add: updateLocalLife_def updateLocalCommanderDamage_def updateLocalCounter_def)

lemma enterMap_frame:
  "optimisticPayload f (enterMap q s) =
     (if f = queuedFlush q then Some (vc_fresh s, queuedPayload q) else optimisticPayload f s)"
  "keys_distinct s \<Longrightarrow> keys_distinct (enterMap q s)" "vc_snapshot (enterMap q s) = vc_snapshot s"
  by (cases q; cases f; simp add: update_conv') (cases q; simp add: keys_distinct_def distinct_update)+

lemma ledger_enterMap:
  assumes "ledger_ok s"
  shows "ledger_ok (enterMap q s)"
proof -
  have "vc_flushTimers (enterMap q s) = vc_flushTimers s" "vc_flights (enterMap q s) = vc_flights s"
    "vc_sent (enterMap q s) = vc_sent s" "vc_fresh (enterMap q s) = Suc (vc_fresh s)" by (cases q; simp)+
  with assms show ?thesis by (fastforce simp: ledger_ok_def timers_ok_def enterMap_frame(1) less_Suc_eq)
qed

lemma keys_distinct_frame [simp]:
  "keys_distinct (scheduleFlush k d f s) = keys_distinct s" "keys_distinct (setSnapshotWithValues t s) = keys_distinct s"
  "keys_distinct (startSending f n p s) = keys_distinct s" "keys_distinct (s\<lparr>vc_flushTimers := x\<rparr>) = keys_distinct s"
  "keys_distinct (s\<lparr>vc_gameId := i\<rparr>) = keys_distinct s" "keys_distinct (s\<lparr>vc_pending := b\<rparr>) = keys_distinct s"
  "keys_distinct (finishFlush g s) = keys_distinct s" "keys_distinct (setLocally ch u s) = keys_distinct s"
  by (simp_all add: keys_distinct_def setSnapshotWithValues_def startSending_def finishFlush_def Let_def)

lemma keys_distinct_deleted: "keys_distinct s \<Longrightarrow> keys_distinct (deleteIfSame f s)"
proof -
  have "keys_distinct s \<Longrightarrow> keys_distinct (deleteOptimistic g s)" for g
    by (cases g) (simp_all add: keys_distinct_def distinct_delete)
  then show "keys_distinct s \<Longrightarrow> keys_distinct (deleteIfSame f s)" by (simp add: deleteIfSame_def)
qed

lemma keys_distinct_fails: "keys_distinct s \<Longrightarrow> keys_distinct (sendFails f m s)"
  using keys_distinct_deleted [of s f] by (simp add: sendFails_def Let_def keys_distinct_def)

lemma values_shown_mono:
  assumes "values_shown s" "keys_distinct t" "vc_snapshot t = vc_snapshot s"
    and "\<And>f x. optimisticPayload f t = Some x \<Longrightarrow> optimisticPayload f s = Some x"
  shows "values_shown t"
  using assms unfolding values_shown_def by metis

lemma values_shown_deleted:
  assumes "values_shown s" "keys_distinct t" "vc_snapshot t = vc_snapshot s"
    and t: "\<And>h. optimisticPayload h t = optimisticPayload h (deleteIfSame f s)"
  shows "values_shown t"
  by (rule values_shown_mono [OF assms(1-3)]) (simp add: t deleteIfSame_payload split: if_splits)

lemma values_shown_step:
  assumes s: "ledger_ok s" "values_shown s"
  shows "values_shown (valueStep em s e)"
proof (rule ledger_parts [where P = values_shown, OF s, THEN conjunct2])
  have kd: "values_shown s \<Longrightarrow> keys_distinct s" for s by (simp add: values_shown_def)
  show "values_shown (enterOptimistic q s)" if "ledger_ok s" "values_shown s" for q s
  proof -
    let ?t = "enterMap q s"
    have t: "keys_distinct ?t" "ledger_ok ?t" using that by (simp_all add: enterMap_frame values_shown_def ledger_enterMap)
    have "showsPayload p t" if p: "optimisticPayload f ?t = Some (n, p)"
      and "vc_snapshot (enterOptimistic q s) = Some t" for t f n p
    proof (rule setLocally_shows [OF t p])
      show "showsPayload p u" if "vc_snapshot ?t = Some u" "\<not> \<not> showsPayload (queuedPayload q) u" for u
        using that p \<open>values_shown s\<close> by (auto simp: enterMap_frame values_shown_def split: if_splits)
    qed (use that in \<open>simp add: enterOptimistic_eq\<close>)
    then show ?thesis
      using t by (simp add: values_shown_def enterMap_frame) (simp add: enterOptimistic_eq)
  qed
  show "values_shown (scheduleFlush (timerKeyOf f) d f s)" if "values_shown s" for f d s
    using that by (rule values_shown_mono) (use that in \<open>simp_all add: values_shown_def keys_distinct_def\<close>)
  show "values_shown (flushed f s)" if "values_shown s" for f s
    by (rule flushed_cases [where P = values_shown])
      (rule values_shown_mono [OF that]; use kd [OF that] in \<open>simp add: keys_distinct_def startSending_def\<close>)+
  show "values_shown (finishFlush f (deleteIfSame f s))" if "values_shown s" for f s
    using that by (rule values_shown_deleted) (simp_all add: keys_distinct_deleted kd [OF that])
  show "values_shown (finishFlush f s)" if "values_shown s" for f s
    using that by (rule values_shown_mono) (use kd [OF that] in simp_all)
  show "values_shown (sendFails f m s)" if "values_shown s" for f m s
    using that by (rule values_shown_deleted) (simp_all add: keys_distinct_fails kd [OF that])
  show "values_shown (clearValues s)" for s
    by (simp add: values_shown_def) (simp add: clearValues_def keys_distinct_def)
  show "values_shown (setSnapshotWithValues t s)" if "ledger_ok s" "values_shown s" for t s
  proof -
    have "showsPayload p (applyOptimisticValues s u)" if "optimisticPayload f s = Some (n, p)" for f n p u
      using overlay_shows [OF kd [OF \<open>values_shown s\<close>] \<open>ledger_ok s\<close> that] .
    moreover have "optimisticPayload f (setSnapshotWithValues t s) = optimisticPayload f s" for f
      by (simp add: setSnapshotWithValues_def)
    ultimately show ?thesis using kd [OF that(2)] by (auto simp: values_shown_def) (auto simp: setSnapshotWithValues_def)
  qed
  show "values_shown (s\<lparr>vc_gameId := g\<rparr>)" if "values_shown s" for g s
    using that by (simp add: values_shown_def)
  show "values_shown (s\<lparr>vc_pending := b\<rparr>)" if "values_shown s" for b s
    using that by (simp add: values_shown_def)
qed

end
