(* ===== verification/ValueProps.thy ===== *)
theory ValueProps
  imports ValueInv
begin

text \<open>
  Properties of the debounced values: every value shown before it is confirmed waits for a flush,
  the snapshot shows all of them, the last one is sent, and each at most once.
\<close>

abbreviation valueRun :: "(string \<Rightarrow> string) \<Rightarrow> value_commands \<Rightarrow> value_event list \<Rightarrow> value_commands" where
  "valueRun em \<equiv> run_steps (valueStep em)"

definition inGame :: "value_event \<Rightarrow> bool" where
  "inGame e \<longleftrightarrow> (\<forall>g. e = HostGame g \<longrightarrow> g \<noteq> [])"

definition quiet :: "value_commands \<Rightarrow> bool" where
  "quiet s \<longleftrightarrow> vc_flushTimers s = Map.empty \<and> vc_flights s = []"

lemma all_awaited_run:
  assumes "gameId \<noteq> []" "list_all inGame es"
  shows "all_awaited (valueRun em (noValueCommands gameId snapshot) es)"
  using assms by (intro awaiting.run_invar all_awaited_initially) (simp_all add: inGame_def list_all_iff)

lemma ledger_run: "ledger_ok (valueRun em (noValueCommands gameId snapshot) es)"
  by (intro ledger.run_invar ledger_initially) (simp add: list_all_iff)

interpretation shown: invariant_machine "valueStep em" "\<lambda>e. True" "\<lambda>s. ledger_ok s \<and> values_shown s" for em
  by unfold_locales (simp add: ledger_step values_shown_step)

lemma shown_run: "values_shown (valueRun em (noValueCommands gameId snapshot) es)"
proof -
  have "values_shown (noValueCommands gameId snapshot)"
    by (auto simp: values_shown_def keys_distinct_def noValueCommands_def elim: optimisticPayload.elims)
  then show ?thesis
    using shown.run_invar [of "noValueCommands gameId snapshot" es] ledger_initially by (simp add: list_all_iff)
qed

lemma no_entries: "(\<And>k. map_of xs k = None) \<Longrightarrow> xs = []"
proof -
  assume "\<And>k. map_of xs k = None"
  from this [of "fst (hd xs)"] show "xs = []" by (cases xs) auto
qed

text \<open>While a game is open, every life total, commander damage or counter that is shown without being
  confirmed has a flush timer running or a flush under way, whatever is queued, answered, refused,
  cleared or received in the meantime; when no timer runs and no flush is under way, nothing
  unconfirmed is left.\<close>

theorem values_wait_for_flush:
  fixes em :: "string \<Rightarrow> string" and gameId :: string and snapshot :: "game_snapshot option"
  assumes "gameId \<noteq> []" "list_all inGame es"
  defines "t \<equiv> valueRun em (noValueCommands gameId snapshot) es"
  shows "(case optimisticCommand f t of None \<Rightarrow> True
      | Some n \<Rightarrow> vc_flushTimers t (timerKeyOf f) \<noteq> None \<or> (\<exists>g \<in> set (vc_flights t). fl_flush g = f))
    \<and> (quiet t \<longrightarrow> vc_life t = [] \<and> vc_damage t = [] \<and> vc_counters t = [])"
proof -
  have t: "all_awaited t" unfolding t_def by (rule all_awaited_run) fact+
  then have waits: "optimisticPayload g t \<noteq> None \<Longrightarrow> awaited g t" for g by (simp add: all_awaited_def)
  have "optimisticPayload g t = None" if "quiet t" for g
    using waits [of g] that by (cases "optimisticPayload g t") (auto simp: quiet_def awaited_def)
  then have "quiet t \<Longrightarrow> map_of (vc_life t) k = None \<and> map_of (vc_damage t) k = None \<and> map_of (vc_counters t) k = None" for k
    using optimisticPayload.simps by (metis option.map_disc_iff)
  then have "quiet t \<Longrightarrow> vc_life t = [] \<and> vc_damage t = [] \<and> vc_counters t = []" by (simp add: no_entries)
  then show ?thesis
    using waits [of f] by (auto simp: optimisticCommand_eq awaited_def split: option.split)
qed

definition life_to :: "int \<Rightarrow> life_command" where
  "life_to n = \<lparr>lc_playerId = ''a'', lc_life = num n\<rparr>"

theorem values_wait_for_flush_witness:
  "\<exists>t. t = valueRun id (noValueCommands ''g'' None) [QueueLife (life_to 39) None]
     \<and> (case optimisticCommand (FlushLife ''a'') t of None \<Rightarrow> True
        | Some n \<Rightarrow> vc_flushTimers t (timerKeyOf (FlushLife ''a'')) \<noteq> None
            \<or> (\<exists>g \<in> set (vc_flights t). fl_flush g = FlushLife ''a''))
     \<and> (quiet t \<longrightarrow> vc_life t = [] \<and> vc_damage t = [] \<and> vc_counters t = [])"
  by (rule exI, rule conjI, rule refl, rule values_wait_for_flush) (simp_all add: inGame_def)


definition one_player :: game_snapshot where
  "one_player = bare_snapshot\<lparr>sn_players := [''a'' \<mapsto> bare_player]\<rparr>"


section \<open>Clicks\<close>

text \<open>A value a player may choose: a life total within its bounds, or no negative number.\<close>

fun withinBounds :: "value_payload \<Rightarrow> bool" where
  "withinBounds (LifeChanged c) = (\<exists>x. lc_life c = Fin x \<and> of_int PLAYER_LIFE_MIN \<le> x \<and> x \<le> of_int PLAYER_LIFE_MAX)"
| "withinBounds (CommanderDamageChanged c) = (\<not> js_less (dc_damage c) (num 0))"
| "withinBounds (CounterChanged c) = (\<not> js_less (cc_value c) (num 0))"

lemma clamped: "withinBounds (LifeChanged \<lparr>lc_playerId = p, lc_life = clampPlayerLife v\<rparr>)"
  by (cases v) (auto simp: clampPlayerLife_def PLAYER_LIFE_MIN_def PLAYER_LIFE_MAX_def)

definition bounded :: "value_commands \<Rightarrow> bool" where
  "bounded s \<longleftrightarrow> (\<forall>f. pred_option (withinBounds \<circ> snd) (optimisticPayload f s))
     \<and> list_all (withinBounds \<circ> snd) (vc_sent s)"

lemma bounded_step:
  assumes s: "ledger_ok s" "bounded s" and e: "pred_option (withinBounds \<circ> queuedPayload) (queueingOf e)"
  shows "bounded (valueStep em s e)"
proof (rule ledger_parts [where P = bounded, OF s, THEN conjunct2])
  have deleted: "pred_option Q (optimisticPayload f (deleteIfSame g s))" if "pred_option Q (optimisticPayload f s)" for Q f g s
    using that by (simp add: deleteIfSame_payload)
  show "bounded (enterOptimistic q s)" if "bounded s" "queueingOf e = Some q" for q s
    using that e by (simp add: bounded_def)
  show "bounded (flushed f s)" if "bounded s" for f s
  proof (rule flushed_cases [where P = bounded])
    show "bounded (startSending f n p (s\<lparr>vc_flushTimers := (vc_flushTimers s)(timerKeyOf f := None)\<rparr>))"
      if "optimisticPayload f s = Some (n, p)" for n p
    proof -
      have "pred_option (withinBounds \<circ> snd) (optimisticPayload f s)" using \<open>bounded s\<close> unfolding bounded_def by blast
      then have "withinBounds p" using that by simp
      with \<open>bounded s\<close> show ?thesis by (simp add: bounded_def)
    qed
  qed (use that in \<open>simp_all add: bounded_def\<close>)
  show "bounded (finishFlush f (deleteIfSame f s))" if "bounded s" for f s
    using that deleted by (simp add: bounded_def)
  show "bounded (sendFails f m s)" if "bounded s" for f m s
    using that deleted by (simp add: bounded_def)
  show "bounded (clearValues s)" if "bounded s" for s
    using that by (simp add: bounded_def) (simp add: clearValues_def)
qed (auto simp: bounded_def setSnapshotWithValues_def)

lemma tableStep_cases:
  assumes "\<And>m. P (s\<lparr>vc_error := m\<rparr>)" "P s"
    and "\<And>q. pred_option (withinBounds \<circ> queuedPayload) (queueingOf q) \<Longrightarrow> P (valueStep em s q)"
    and "\<forall>v. e = ValueEvent v \<longrightarrow> queueingOf v = None"
  shows "P (tableStep em s e)"
proof -
  have life: "P (queueLife \<lparr>lc_playerId = p, lc_life = clampPlayerLife v\<rparr> d s)" for p v d
    using assms(3) [of "QueueLife \<lparr>lc_playerId = p, lc_life = clampPlayerLife v\<rparr> d"] clamped by simp
  have damage: "P (queueCommanderDamage \<lparr>dc_targetPlayerId = p, dc_sourcePlayerId = o', dc_commanderInstanceId = i,
      dc_damage = js_max (num 0) v\<rparr> s)" for p o' i v
    using assms(3) [of "QueueCommanderDamage \<lparr>dc_targetPlayerId = p, dc_sourcePlayerId = o', dc_commanderInstanceId = i,
      dc_damage = js_max (num 0) v\<rparr>"] js_max_not_less [of "num 0" v] by simp
  have counter: "P (queueCounter \<lparr>cc_scope = sc, cc_key = k, cc_value = js_max (num 0) v\<rparr> s)" for sc k v
    using assms(3) [of "QueueCounter \<lparr>cc_scope = sc, cc_key = k, cc_value = js_max (num 0) v\<rparr>"]
      js_max_not_less [of "num 0" v] by simp
  show ?thesis
    using assms life damage counter
    by (cases e) (simp_all add: changeLife_def setLife_def setCommanderDamage_def changePlayerCounter_def refused_def Let_def)
qed

lemma tableStep_bounded:
  assumes "ledger_ok s" "bounded s" "\<forall>v. e = ValueEvent v \<longrightarrow> queueingOf v = None"
  shows "ledger_ok (tableStep em s e) \<and> bounded (tableStep em s e)"
proof (rule tableStep_cases [where P = "\<lambda>s. ledger_ok s \<and> bounded s"])
  show "ledger_ok (s\<lparr>vc_error := m\<rparr>) \<and> bounded (s\<lparr>vc_error := m\<rparr>)" for m
    using assms(1,2) by (simp add: ledger_ok_def timers_ok_def bounded_def)
qed (use assms ledger_step bounded_step in simp_all)

interpretation clicks: invariant_machine "tableStep em" "\<lambda>e. \<forall>v. e = ValueEvent v \<longrightarrow> queueingOf v = None"
  "\<lambda>s. ledger_ok s \<and> bounded s" for em
  by unfold_locales (simp add: tableStep_bounded)

text \<open>Whatever players click, however often and whatever the snapshot holds, every life total that is
  shown or sent is a number from -99 to 499, and no commander damage or counter is negative.\<close>

theorem values_within_bounds:
  fixes em :: "string \<Rightarrow> string" and gameId :: string and snapshot :: "game_snapshot option"
  assumes "list_all (\<lambda>e. \<forall>v. e = ValueEvent v \<longrightarrow> queueingOf v = None) es"
  defines "t \<equiv> run_steps (tableStep em) (noValueCommands gameId snapshot) es"
  shows "pred_option (withinBounds \<circ> snd) (optimisticPayload f t) \<and> list_all (withinBounds \<circ> snd) (vc_sent t)"
proof -
  have "bounded (noValueCommands gameId snapshot)"
    by (auto simp: bounded_def noValueCommands_def pred_option_def elim!: optimisticPayload.elims)
  then have "bounded t" unfolding t_def
    using clicks.run_invar [OF _ assms(1), of "noValueCommands gameId snapshot" em] ledger_initially by blast
  then show ?thesis by (simp add: bounded_def)
qed

theorem values_within_bounds_witness:
  "list_all (withinBounds \<circ> snd) (vc_sent (run_steps (tableStep id) (noValueCommands ''g'' None)
     [ChangeLife True ''a'' (num (-500)) False]))"
  using values_within_bounds [where em = id and gameId = "''g''" and snapshot = None
      and es = "[ChangeLife True ''a'' (num (-500)) False]"] by simp

definition clickedLife :: "int \<Rightarrow> int \<Rightarrow> int" where
  "clickedLife life delta = min PLAYER_LIFE_MAX (max PLAYER_LIFE_MIN (life + delta))"

lemma clamped_click: "clampPlayerLife (num l + num d) = num (clickedLife l d)"
  by (simp add: clampPlayerLife_def clickedLife_def min_def max_def flip: of_int_add)

lemma changeLife_queues:
  assumes "clickedLife l d \<noteq> l" "lifeValue s (vc_snapshot s) playerId = num l"
  shows "changeLife True playerId (num d) True s = scheduleFlush (lifeTimerKey playerId) VALUE_COMMAND_DEBOUNCE_MS
    (FlushLife playerId) (enterOptimistic (LifeQueued \<lparr>lc_playerId = playerId, lc_life = num (clickedLife l d)\<rparr>) s)"
  using assms by (simp add: changeLife_def clamped_click queueLife_eq Let_def VALUE_COMMAND_DEBOUNCE_MS_def
      del: enterOptimistic.simps plus_jsnum.simps)

definition life_queued :: "string \<Rightarrow> int \<Rightarrow> value_commands \<Rightarrow> value_commands \<Rightarrow> bool" where
  "life_queued playerId l s t \<longleftrightarrow>
     (\<exists>n. optimisticPayload (FlushLife playerId) t = Some (n, LifeChanged \<lparr>lc_playerId = playerId, lc_life = num l\<rparr>))
     \<and> vc_flushTimers t (lifeTimerKey playerId) = Some \<lparr>ft_delayMs = VALUE_COMMAND_DEBOUNCE_MS, ft_flush = FlushLife playerId\<rparr>
     \<and> vc_sent t = vc_sent s \<and> vc_gameId t = vc_gameId s \<and> vc_pending t = vc_pending s"

lemma life_queued_click:
  assumes "life_queued playerId l s t"
  shows "life_queued playerId (clickedLife l d) s (changeLife True playerId (num d) True t)"
proof -
  have shown: "lifeValue t (vc_snapshot t) playerId = num l"
    using assms by (auto simp: life_queued_def lifeValue_def)
  show ?thesis
  proof (cases "clickedLife l d = l")
    case True
    then show ?thesis
      using assms by (simp add: changeLife_def shown clamped_click Let_def del: plus_jsnum.simps)
  next
    case False
    show ?thesis
      using assms unfolding changeLife_queues [OF False shown] life_queued_def scheduleFlush_eq payload_frame
        enterOptimistic_payload by (simp del: enterOptimistic.simps)
  qed
qed

text \<open>Clicks on a life total within the debounce time add up: when the timer fires, one command is sent,
  with the life before the first click changed by all clicks, each result kept within -99 and 499.\<close>

theorem life_clicks_add_up:
  fixes em :: "string \<Rightarrow> string" and s :: value_commands and ds :: "int list"
  assumes "vc_gameId s \<noteq> []" "\<not> vc_pending s"
    and "lifeValue s (vc_snapshot s) playerId = num l" "clickedLife l d \<noteq> l"
  defines "t \<equiv> run_steps (tableStep em) s
     (map (\<lambda>d. ChangeLife True playerId (num d) True) (d # ds) @ [ValueEvent (FlushTimerFires (lifeTimerKey playerId))])"
  shows "map snd (vc_sent t) = map snd (vc_sent s)
    @ [LifeChanged \<lparr>lc_playerId = playerId, lc_life = num (foldl clickedLife l (d # ds))\<rparr>]"
proof -
  let ?u = "run_steps (tableStep em) s (map (\<lambda>d. ChangeLife True playerId (num d) True) (d # ds))"
  have first: "life_queued playerId (clickedLife l d) s (changeLife True playerId (num d) True s)"
    unfolding changeLife_queues [OF assms(4,3)] life_queued_def scheduleFlush_eq payload_frame
      enterOptimistic_payload by (simp del: enterOptimistic.simps)
  have "life_queued playerId (foldl clickedLife m ds) s
      (run_steps (tableStep em) u (map (\<lambda>d. ChangeLife True playerId (num d) True) ds))"
    if "life_queued playerId m s u" for m u
    using that by (induction ds arbitrary: m u) (simp_all add: life_queued_click)
  from this [OF first] have u: "life_queued playerId (foldl clickedLife l (d # ds)) s ?u" by simp
  then obtain n where n: "optimisticPayload (FlushLife playerId) ?u
      = Some (n, LifeChanged \<lparr>lc_playerId = playerId, lc_life = num (foldl clickedLife l (d # ds))\<rparr>)"
    unfolding life_queued_def by blast
  have "t = flushed (FlushLife playerId) ?u"
    unfolding t_def run_steps_append using u by (simp add: timerFires_def flushed_def life_queued_def)
  also have "vc_sent \<dots> = vc_sent s @ [(n, LifeChanged \<lparr>lc_playerId = playerId, lc_life = num (foldl clickedLife l (d # ds))\<rparr>)]"
    using u assms(1,2) n by (simp add: flushed_def runFlush_eq life_queued_def del: runFlush.simps)
  finally show ?thesis by simp
qed

theorem life_clicks_add_up_witness:
  "map snd (vc_sent (run_steps (tableStep id) (noValueCommands ''g'' (Some one_player))
     (map (\<lambda>d. ChangeLife True ''a'' (num d) True) [-1, -1, -3] @ [ValueEvent (FlushTimerFires (lifeTimerKey ''a''))])))
   = [LifeChanged (life_to 35)]"
  using life_clicks_add_up [where s = "noValueCommands ''g'' (Some one_player)" and playerId = "''a''" and l = 40
      and d = "-1" and ds = "[-1, -3]" and em = id]
  by (simp add: noValueCommands_def lifeValue_def one_player_def bare_player_def clickedLife_def
      PLAYER_LIFE_MAX_def PLAYER_LIFE_MIN_def life_to_def)

fun undisturbed :: "(string \<Rightarrow> string) \<Rightarrow> value_commands \<Rightarrow> value_event list \<Rightarrow> bool" where
  "undisturbed em s [] = True"
| "undisturbed em s (e # es) = ((e = HostPending False \<longrightarrow> vc_flights s = []) \<and> undisturbed em (valueStep em s e) es)"

lemma one_flight_run:
  "ledger_ok s \<Longrightarrow> one_flight s \<Longrightarrow> undisturbed em s es \<Longrightarrow> one_flight (valueRun em s es)"
  by (induction es arbitrary: s) (simp_all add: ledger_step one_flight_step)

text \<open>C7: As long as the pending flag is not reset from outside while a flush is under way, at most one
  flush is under way at a time and no queued value is sent twice.\<close>

theorem values_sent_at_most_once:
  fixes em :: "string \<Rightarrow> string" and gameId :: string and snapshot :: "game_snapshot option"
  assumes "undisturbed em (noValueCommands gameId snapshot) es"
  defines "t \<equiv> valueRun em (noValueCommands gameId snapshot) es"
  shows "length (vc_flights t) \<le> 1 \<and> distinct (map fst (vc_sent t))"
proof -
  have "one_flight (noValueCommands gameId snapshot)"
    by (auto simp: one_flight_def noValueCommands_def elim: optimisticPayload.elims)
  then have "one_flight t" unfolding t_def by (intro one_flight_run ledger_initially) (use assms(1) in simp_all)
  then show ?thesis by (simp add: one_flight_def)
qed

theorem values_sent_at_most_once_witness:
  "length (vc_flights (valueRun id (noValueCommands ''g'' None) [QueueLife (life_to 39) (Some 0), HostPending True])) \<le> 1"
  using values_sent_at_most_once [where em = id and gameId = "''g''" and snapshot = None
    and es = "[QueueLife (life_to 39) (Some 0), HostPending True]"] by simp

text \<open>C5: A value queued at any time is not forgotten: in a game and until the values are cleared, the
  service ends, once no timer runs and no flush is under way, having sent it or a later value of the
  same target.\<close>

theorem queued_value_is_sent:
  fixes em :: "string \<Rightarrow> string" and gameId :: string and snapshot :: "game_snapshot option"
  assumes "gameId \<noteq> []" "list_all inGame (es @ fs)" "ClearValues \<notin> set fs"
    and "optimisticCommand f (valueRun em (noValueCommands gameId snapshot) es) = Some n"
  defines "t \<equiv> valueRun em (noValueCommands gameId snapshot) (es @ fs)"
  assumes "quiet t"
  shows "\<exists>m \<ge> n. \<exists>p. (m, p) \<in> set (vc_sent t) \<and> payloadFlush p = f"
proof -
  let ?s = "valueRun em (noValueCommands gameId snapshot) es"
  have "waiting_or_sent f n ?s" using assms(4) by (auto simp: waiting_or_sent_def optimisticCommand_eq)
  then have "waiting_or_sent f n (valueRun em ?s fs)"
    using waiting.run_invar [where f = f and n = n and s = ?s and es = fs] ledger_run assms(3) by (auto simp: list_all_iff)
  then have "waiting_or_sent f n t" by (simp add: t_def run_steps_append)
  moreover have "optimisticPayload f t = None"
  proof (rule ccontr)
    assume "optimisticPayload f t \<noteq> None"
    moreover have "all_awaited t" unfolding t_def by (rule all_awaited_run) fact+
    ultimately have "awaited f t" by (simp add: all_awaited_def)
    with \<open>quiet t\<close> show False by (simp add: awaited_def quiet_def)
  qed
  ultimately show ?thesis by (simp add: waiting_or_sent_def)
qed

definition sent_life_run :: "value_event list" where
  "sent_life_run = [FlushTimerFires (lifeTimerKey ''a''), SendEnds 1 (Inr True)]"

theorem queued_value_is_sent_witness:
  "\<exists>m \<ge> 0. \<exists>p. (m, p) \<in> set (vc_sent (valueRun id (noValueCommands ''g'' None)
     ([QueueLife (life_to 39) None] @ sent_life_run))) \<and> payloadFlush p = FlushLife ''a''"
proof (rule queued_value_is_sent)
  have start: "valueRun id (noValueCommands ''g'' None) [QueueLife (life_to 39) None]
      = (noValueCommands ''g'' None)\<lparr>vc_life := [(''a'', 0, life_to 39)], vc_fresh := 1,
        vc_flushTimers := [lifeTimerKey ''a'' \<mapsto> \<lparr>ft_delayMs = 450, ft_flush = FlushLife ''a''\<rparr>]\<rparr>"
    by (simp add: queueLife_def Let_def noValueCommands_def updateLocalLife_def setLocally_def life_to_def
        VALUE_COMMAND_DEBOUNCE_MS_def)
  show "optimisticCommand (FlushLife ''a'') (valueRun id (noValueCommands ''g'' None) [QueueLife (life_to 39) None]) = Some 0"
    unfolding start by simp
  show "quiet (valueRun id (noValueCommands ''g'' None) ([QueueLife (life_to 39) None] @ sent_life_run))"
    unfolding run_steps_append start
    by (simp add: sent_life_run_def timerFires_def flushLife_def startSending_def noValueCommands_def sendEnds_def
        deleteIfSame_def finishFlush_def Let_def quiet_def fun_eq_iff)
qed (simp_all add: sent_life_run_def inGame_def)

end
