(* ===== verification/GameSession.thy ===== *)
theory GameSession
  imports V2Store
begin

text \<open>
  \<open>GameTableSessionService\<close> (\<^verbatim>\<open>game-table/services/game-table-session.service.ts\<close>) and, below it,
  \<open>GameTableGameRealtimeService\<close> (\<^verbatim>\<open>services/game-table-game-realtime.service.ts\<close>): loading a game,
  fetching its snapshot again, and the control plane (the lifecycle of the game: its status, its
  winner, the rematch), which has revisions of its own. The state is the two services with the
  fields of their context and the normalized store; what they call on other parts is a log.
  An asynchronous method is cut at its awaits: what it waits for is a request, which an event answers.
\<close>

section \<open>State\<close>

text \<open>Who waits for a refetch: \<open>load\<close>, for the game it read, or another caller.\<close>

datatype refetch_origin = FromLoad string | FromOther

datatype session_request =
    SnapshotRequest bool refetch_origin
  | BootstrapRequest bool refetch_origin
  | HydrationRequest bool refetch_origin bootstrap_v2
  | RecoveryRequest nat

datatype session_effect =
    StartWebsocket string
  | StopWebsocket
  | ResetHistories game_snapshot
  | AcceptedControlPlane control_plane
  | RefreshAccess
  | NavigateToRooms
  | NavigateWithLoadError
  | NavigateToWaitingRoom string
  | Rejected

text \<open>\<open>se_subscription\<close> is the game and the generation the handlers of the stream were made for.\<close>

record session =
  se_gameId :: string
  se_snapshot :: "game_snapshot option"
  se_focusedPlayerId :: "string option"
  se_drag :: bool
  se_loading :: bool
  se_error :: "string option"
  se_v2Enabled :: bool
  se_connected :: bool
  se_store :: v2_store
  se_deferred :: "game_snapshot option"
  se_recovery :: "nat option"
  se_generation :: nat
  se_revision :: "int option"
  se_subscription :: "(nat \<times> string) option"
  se_requests :: "(nat \<times> session_request) list"
  se_fresh :: nat
  se_effects :: "session_effect list"

text \<open>Object identity and collation for the store, the cache of static cards, the keys of the players in
  their order, and the own player of a snapshot.\<close>

record session_host =
  sh_same :: identity_test
  sh_collation :: "string comparator"
  sh_mergeBootstrap :: "bootstrap_v2 \<Rightarrow> bootstrap_v2"
  sh_playerIds :: "game_snapshot \<Rightarrow> string list"
  sh_ownPlayerId :: "game_snapshot \<Rightarrow> string option"

definition effect :: "session_effect \<Rightarrow> session \<Rightarrow> session" where
  "effect e s = s\<lparr>se_effects := se_effects s @ [e]\<rparr>"

definition request :: "session_request \<Rightarrow> session \<Rightarrow> session" where
  "request r s = s\<lparr>se_requests := se_requests s @ [(se_fresh s, r)], se_fresh := Suc (se_fresh s)\<rparr>"

section \<open>The control plane\<close>

definition isControlPlaneRevision :: "int \<Rightarrow> bool" where
  "isControlPlaneRevision r \<longleftrightarrow> 0 \<le> r \<and> r \<le> 2 ^ 53 - 1"

definition seedControlPlaneRevision :: "int option \<Rightarrow> session \<Rightarrow> session" where
  "seedControlPlaneRevision revision s = (case revision of
     None \<Rightarrow> s
   | Some r \<Rightarrow>
       if \<not> isControlPlaneRevision r then s
       else case se_revision s of
         None \<Rightarrow> s\<lparr>se_revision := Some r\<rparr>
       | Some q \<Rightarrow> if r > q then s\<lparr>se_revision := Some r\<rparr> else s)"

definition acceptControlPlaneState :: "control_plane \<Rightarrow> session \<Rightarrow> bool \<times> session" where
  "acceptControlPlaneState cp s =
     (let r = cpl_controlPlaneRevision cp
      in if \<not> isControlPlaneRevision r then (False, s)
         else case se_revision s of
           None \<Rightarrow> (True, s\<lparr>se_revision := Some r\<rparr>)
         | Some q \<Rightarrow> if r \<le> q then (False, s) else (True, s\<lparr>se_revision := Some r\<rparr>))"

definition withControlPlane :: "control_plane \<Rightarrow> game_snapshot \<Rightarrow> game_snapshot" where
  "withControlPlane cp t = t\<lparr>
     sn_controlPlaneRevision := Some (cpl_controlPlaneRevision cp),
     sn_status := Some (cpl_status cp),
     sn_winnerPlayerId := Some (cpl_winnerPlayerId cp),
     sn_finishedAt := Some (cpl_finishedAt cp),
     sn_finishReason := Some (cpl_finishReason cp),
     sn_allDisconnectedSince := Some (cpl_allDisconnectedSince cp),
     sn_nextLifecycleAt := Some (cpl_nextLifecycleAt cp),
     sn_ownerId := cpl_ownerId cp,
     sn_rematch := Some \<lparr>rm_votes = rm_votes (cpl_rematch cp),
       rm_deadlineAt = Some (non_null (rm_deadlineAt (cpl_rematch cp)))\<rparr>\<rparr>"

definition controlPlaneFromSnapshot :: "game_snapshot option \<Rightarrow> control_plane option" where
  "controlPlaneFromSnapshot snapshot = (case snapshot of
     None \<Rightarrow> None
   | Some t \<Rightarrow> (case (sn_controlPlaneRevision t, sn_rematch t) of
       (Some r, Some m) \<Rightarrow>
         if \<not> isControlPlaneRevision r then None
         else Some \<lparr>cpl_controlPlaneRevision = r, cpl_status = or_default (sn_status t) ''active'',
           cpl_winnerPlayerId = non_null (sn_winnerPlayerId t), cpl_finishedAt = non_null (sn_finishedAt t),
           cpl_finishReason = non_null (sn_finishReason t),
           cpl_allDisconnectedSince = non_null (sn_allDisconnectedSince t),
           cpl_nextLifecycleAt = non_null (sn_nextLifecycleAt t), cpl_ownerId = sn_ownerId t,
           cpl_rematch = \<lparr>rm_votes = rm_votes m, rm_deadlineAt = Some (non_null (rm_deadlineAt m))\<rparr>\<rparr>
     | _ \<Rightarrow> None))"

definition snapshotWithControlPlane :: "game_snapshot \<Rightarrow> control_plane option \<Rightarrow> game_snapshot" where
  "snapshotWithControlPlane t controlPlane = (case controlPlane of
     None \<Rightarrow> t
   | Some cp \<Rightarrow> if isControlPlaneRevision (cpl_controlPlaneRevision cp) then withControlPlane cp t else t)"

definition preserveNewerControlPlane :: "game_snapshot option \<Rightarrow> game_snapshot \<Rightarrow> game_snapshot" where
  "preserveNewerControlPlane current incoming = (case controlPlaneFromSnapshot current of
     None \<Rightarrow> incoming
   | Some cp \<Rightarrow> (case sn_controlPlaneRevision incoming of
       Some r \<Rightarrow> if isControlPlaneRevision r \<and> r \<ge> cpl_controlPlaneRevision cp then incoming
         else withControlPlane cp incoming
     | None \<Rightarrow> withControlPlane cp incoming))"

definition applyAcceptedControlPlaneState :: "session_host \<Rightarrow> control_plane \<Rightarrow> session \<Rightarrow> session" where
  "applyAcceptedControlPlaneState h cp s =
     (if se_v2Enabled s then (case applyControlPlane (sh_same h) (se_store s) cp of
          (Inl e, st) \<Rightarrow> effect Rejected (s\<lparr>se_store := st\<rparr>)
        | (Inr None, st) \<Rightarrow> s\<lparr>se_store := st\<rparr>
        | (Inr (Some t), st) \<Rightarrow> effect (AcceptedControlPlane cp) (s\<lparr>se_store := st, se_snapshot := Some t\<rparr>))
      else (case se_snapshot s of
          None \<Rightarrow> s
        | Some t \<Rightarrow> effect (AcceptedControlPlane cp) (s\<lparr>se_snapshot := Some (withControlPlane cp t)\<rparr>)))"

definition applyControlPlaneAcknowledgement :: "session_host \<Rightarrow> control_plane \<Rightarrow> session \<Rightarrow> session" where
  "applyControlPlaneAcknowledgement h cp s = (case acceptControlPlaneState cp s of
     (False, t) \<Rightarrow> t | (True, t) \<Rightarrow> applyAcceptedControlPlaneState h cp t)"

section \<open>Showing a snapshot\<close>

definition hasProjectionMetadataChanged :: "session_host \<Rightarrow> game_snapshot \<Rightarrow> game_snapshot \<Rightarrow> bool" where
  "hasProjectionMetadataChanged h current next' \<longleftrightarrow>
     or_default (sn_controlPlaneRevision current) 0 \<noteq> or_default (sn_controlPlaneRevision next') 0
     \<or> (\<exists>playerId \<in> set (sh_playerIds h current @ sh_playerIds h next').
         let a = sn_players current playerId; b = sn_players next' playerId
         in Option.bind a (\<lambda>p. non_null (pl_deckName p)) \<noteq> Option.bind b (\<lambda>p. non_null (pl_deckName p))
            \<or> Option.bind a pl_isOnline \<noteq> Option.bind b pl_isOnline)"

definition nothingNew :: "session_host \<Rightarrow> game_snapshot option \<Rightarrow> game_snapshot \<Rightarrow> bool" where
  "nothingNew h current next' = (case current of
     None \<Rightarrow> False
   | Some t \<Rightarrow> sn_version t = sn_version next' \<and> \<not> hasProjectionMetadataChanged h t next')"

definition applySnapshot :: "session_host \<Rightarrow> game_snapshot \<Rightarrow> session \<Rightarrow> session" where
  "applySnapshot h next' s =
     (let s1 = seedControlPlaneRevision (sn_controlPlaneRevision next') (s\<lparr>se_snapshot := Some next'\<rparr>);
          s2 = (case controlPlaneFromSnapshot (Some next') of
            None \<Rightarrow> s1 | Some cp \<Rightarrow> effect (AcceptedControlPlane cp) s1)
      in if se_focusedPlayerId s2 \<noteq> None then s2
         else s2\<lparr>se_focusedPlayerId := or_else (sh_ownPlayerId h next')
           (or_else (gt_activePlayerId (sn_turn next')) (case sh_playerIds h next' of [] \<Rightarrow> None | p # _ \<Rightarrow> Some p))\<rparr>)"

text \<open>The end of both kinds of refetch: skip, defer or show.\<close>

definition deliverSnapshot :: "session_host \<Rightarrow> bool \<Rightarrow> game_snapshot \<Rightarrow> session \<Rightarrow> session" where
  "deliverSnapshot h force next' s =
     (if \<not> force \<and> nothingNew h (se_snapshot s) next' then s
      else if \<not> force \<and> se_drag s then s\<lparr>se_deferred := Some next'\<rparr>
      else applySnapshot h next' s)"

definition applyDeferredRemoteSnapshot :: "session_host \<Rightarrow> session \<Rightarrow> session" where
  "applyDeferredRemoteSnapshot h s =
     (let t = s\<lparr>se_deferred := None\<rparr>
      in case se_deferred s of
        None \<Rightarrow> t
      | Some deferred \<Rightarrow> (case se_snapshot t of
          None \<Rightarrow> applySnapshot h deferred t
        | Some current \<Rightarrow> if sn_version deferred > sn_version current then applySnapshot h deferred t else t))"

section \<open>The stream of the control plane\<close>

definition stopRealtime :: "session \<Rightarrow> session" where
  "stopRealtime s = s\<lparr>se_subscription := None\<rparr>"

definition subscribeToGameRealtime :: "string \<Rightarrow> session \<Rightarrow> session" where
  "subscribeToGameRealtime gameId s =
     (let generation = Suc (se_generation s);
          t = s\<lparr>se_generation := generation, se_revision := None, se_subscription := Some (generation, gameId)\<rparr>
      in seedControlPlaneRevision (Option.bind (se_snapshot t) sn_controlPlaneRevision) t)"

definition stopSession :: "session \<Rightarrow> session" where
  "stopSession s = stopRealtime (effect StopWebsocket (s\<lparr>se_generation := Suc (se_generation s)\<rparr>))"

section \<open>Loading and refetching\<close>

definition startRefetching :: "bool \<Rightarrow> refetch_origin \<Rightarrow> session \<Rightarrow> session" where
  "startRefetching force origin s =
     (if se_gameId s = [] then s
      else request (if se_v2Enabled s then BootstrapRequest force origin else SnapshotRequest force origin) s)"

definition loadSession :: "session \<Rightarrow> session" where
  "loadSession s =
     (if se_gameId s = [] then s\<lparr>se_error := Some ''Missing game id.'', se_loading := False\<rparr>
      else startRefetching True (FromLoad (se_gameId s)) s)"

text \<open>After the refetch: \<open>load\<close> goes on, any other caller is done or sees the exception.\<close>

definition refetched :: "refetch_origin \<Rightarrow> session \<Rightarrow> session" where
  "refetched origin s = (case origin of
     FromOther \<Rightarrow> s
   | FromLoad gameId \<Rightarrow>
       effect RefreshAccess ((subscribeToGameRealtime gameId (effect (StartWebsocket gameId) s))\<lparr>se_loading := False\<rparr>))"

definition refetchThrows :: "bool \<Rightarrow> refetch_origin \<Rightarrow> session \<Rightarrow> session" where
  "refetchThrows deleted origin s = (case origin of
     FromOther \<Rightarrow> effect Rejected s
   | FromLoad _ \<Rightarrow> (effect (if deleted then NavigateToRooms else NavigateWithLoadError) s)\<lparr>se_loading := False\<rparr>)"

text \<open>An answered request is taken from the list; \<open>Inl\<close> is the failure, true for a 404.\<close>

definition answered :: "nat \<Rightarrow> session \<Rightarrow> (session_request \<times> session) option" where
  "answered n s = map_option (\<lambda>r. (r, s\<lparr>se_requests := filter (\<lambda>(i, _). i \<noteq> n) (se_requests s)\<rparr>))
     (map_of (se_requests s) n)"

definition snapshotArrives ::
  "session_host \<Rightarrow> nat \<Rightarrow> bool + game_snapshot \<times> control_plane option \<Rightarrow> session \<Rightarrow> session" where
  "snapshotArrives h n result s = (case answered n s of
     Some (SnapshotRequest force origin, t) \<Rightarrow> (case result of
       Inl deleted \<Rightarrow> refetchThrows deleted origin t
     | Inr (snapshot, controlPlane) \<Rightarrow>
         let next' = preserveNewerControlPlane (se_snapshot t) (snapshotWithControlPlane snapshot controlPlane)
         in refetched origin (deliverSnapshot h force next' t))
   | _ \<Rightarrow> s)"

definition latestAppliedVersion :: "session \<Rightarrow> int" where
  "latestAppliedVersion s = max (case se_snapshot s of None \<Rightarrow> -1 | Some t \<Rightarrow> sn_version t)
     (case st_state (se_store s) of None \<Rightarrow> -1 | Some v \<Rightarrow> v2_lastAppliedVersion v)"

definition bootstrapArrives :: "session_host \<Rightarrow> nat \<Rightarrow> bool + bootstrap_v2 \<Rightarrow> session \<Rightarrow> session" where
  "bootstrapArrives h n result s = (case answered n s of
     Some (BootstrapRequest force origin, t) \<Rightarrow> (case result of
       Inl deleted \<Rightarrow> refetchThrows deleted origin t
     | Inr bootstrap \<Rightarrow>
         if bg_version (bv_game bootstrap) < latestAppliedVersion t then refetched origin t
         else request (HydrationRequest force origin bootstrap) t)
   | _ \<Rightarrow> s)"

definition incomingRevision :: "bootstrap_v2 \<Rightarrow> int option" where
  "incomingRevision bootstrap = (case bg_controlPlane (bv_game bootstrap) of
     Some cp \<Rightarrow> Some (cpl_controlPlaneRevision cp) | None \<Rightarrow> bg_controlPlaneRevision (bv_game bootstrap))"

text \<open>The static cards have been looked up; the bootstrap becomes the state of the store.\<close>

definition hydrationEnds :: "session_host \<Rightarrow> nat \<Rightarrow> bool + bootstrap_v2 \<Rightarrow> session \<Rightarrow> session" where
  "hydrationEnds h n result s = (case answered n s of
     Some (HydrationRequest force origin bootstrap, t) \<Rightarrow> (case result of
       Inl deleted \<Rightarrow> refetchThrows deleted origin t
     | Inr hydrated \<Rightarrow>
         (case applyBootstrap (sh_same h) (sh_collation h) (se_store t) (sh_mergeBootstrap h hydrated) of
            (Inl e, st) \<Rightarrow> refetchThrows False origin (t\<lparr>se_store := st\<rparr>)
          | (Inr snapshot, st) \<Rightarrow>
              let u = effect (ResetHistories snapshot) (t\<lparr>se_store := st\<rparr>)
              in case controlPlaneFromSnapshot (se_snapshot u) of
                None \<Rightarrow> refetched origin (deliverSnapshot h force snapshot u)
              | Some cp \<Rightarrow>
                  if (case incomingRevision bootstrap of None \<Rightarrow> False
                      | Some r \<Rightarrow> isControlPlaneRevision r \<and> r \<ge> cpl_controlPlaneRevision cp)
                  then refetched origin (deliverSnapshot h force snapshot u)
                  else (case applyControlPlane (sh_same h) (se_store u) cp of
                    (Inl e, st') \<Rightarrow> refetchThrows False origin (u\<lparr>se_store := st'\<rparr>)
                  | (Inr next', st') \<Rightarrow>
                      refetched origin (deliverSnapshot h force (or_default next' snapshot) (u\<lparr>se_store := st'\<rparr>)))))
   | _ \<Rightarrow> s)"

section \<open>Recovery after a reconnect\<close>

definition recoverControlPlane :: "nat \<Rightarrow> session \<Rightarrow> session" where
  "recoverControlPlane generation s =
     (if se_recovery s \<noteq> None then s
      else (request (RecoveryRequest generation) s)\<lparr>se_recovery := Some (se_fresh s)\<rparr>)"

text \<open>The answer is a control plane, nothing newer (\<open>None\<close>), or a failure; a failure is dropped.\<close>

definition recoveryEnds :: "session_host \<Rightarrow> nat \<Rightarrow> unit + control_plane option \<Rightarrow> session \<Rightarrow> session" where
  "recoveryEnds h n result s = (case answered n s of
     Some (RecoveryRequest generation, t) \<Rightarrow>
       let u = (case result of
           Inr (Some cp) \<Rightarrow> if generation = se_generation t then applyControlPlaneAcknowledgement h cp t else t
         | _ \<Rightarrow> t)
       in if se_recovery u = Some n then u\<lparr>se_recovery := None\<rparr> else u
   | _ \<Rightarrow> s)"

section \<open>Events of the stream\<close>

text \<open>\<open>me_controlPlane\<close> is the control plane of the event when it passes \<open>isControlPlaneState\<close>; a room id
  that is no text is \<open>None\<close>.\<close>

record mercure_event =
  me_type :: string
  me_roomId :: "string option"
  me_version :: "int option"
  me_controlPlane :: "control_plane option"

definition refetchIfSnapshotIsBehind :: "mercure_event \<Rightarrow> session \<Rightarrow> session" where
  "refetchIfSnapshotIsBehind e s =
     (if se_v2Enabled s \<and> se_connected s then s
      else case (me_version e, se_snapshot s) of
        (Some v, Some t) \<Rightarrow> if sn_version t \<ge> v then s else startRefetching False FromOther s
      | _ \<Rightarrow> startRefetching False FromOther s)"

definition validControlPlane :: "mercure_event \<Rightarrow> control_plane option" where
  "validControlPlane e = (case me_controlPlane e of
     Some cp \<Rightarrow> if isControlPlaneRevision (cpl_controlPlaneRevision cp) then Some cp else None | None \<Rightarrow> None)"

definition handleGameEvent :: "session_host \<Rightarrow> mercure_event \<Rightarrow> session \<Rightarrow> session" where
  "handleGameEvent h e s =
     (if me_type e = ''room.deleted'' then effect NavigateToRooms (stopSession s)
      else if me_type e = ''room.rematch.created'' then
        (let t = (case validControlPlane e of None \<Rightarrow> s | Some cp \<Rightarrow> applyControlPlaneAcknowledgement h cp s)
         in case me_roomId e of
           Some roomId \<Rightarrow> if js_trim roomId \<noteq> [] then effect (NavigateToWaitingRoom roomId) t else t
         | None \<Rightarrow> t)
      else case validControlPlane e of
        Some cp \<Rightarrow> applyControlPlaneAcknowledgement h cp s
      | None \<Rightarrow> if me_type e = ''room.rematch.vote'' then s else refetchIfSnapshotIsBehind e s)"

definition streamOpens :: "bool \<Rightarrow> session \<Rightarrow> session" where
  "streamOpens reconnected s = (case se_subscription s of
     None \<Rightarrow> s
   | Some (generation, _) \<Rightarrow>
       if reconnected \<and> generation = se_generation s then recoverControlPlane generation s else s)"

definition streamEvent :: "session_host \<Rightarrow> mercure_event \<Rightarrow> session \<Rightarrow> session" where
  "streamEvent h e s = (case se_subscription s of None \<Rightarrow> s | Some _ \<Rightarrow> handleGameEvent h e s)"

section \<open>Events\<close>

text \<open>The gameplay service shares the store and shows the snapshots its patches make.\<close>

definition gameplayPatch :: "session_host \<Rightarrow> patch_envelope \<Rightarrow> session \<Rightarrow> session" where
  "gameplayPatch h patch s = (case storeApplyPatch (sh_same h) (sh_collation h) (se_store s) patch of
     (StoreApplied _ snapshot, st) \<Rightarrow> s\<lparr>se_store := st, se_snapshot := Some snapshot\<rparr>
   | (_, st) \<Rightarrow> s\<lparr>se_store := st\<rparr>)"

datatype session_event =
    Load
  | Refetch bool
  | SnapshotArrives nat "bool + game_snapshot \<times> control_plane option"
  | BootstrapArrives nat "bool + bootstrap_v2"
  | HydrationEnds nat "bool + bootstrap_v2"
  | RecoveryEnds nat "unit + control_plane option"
  | Acknowledged control_plane
  | StreamOpens bool
  | StreamEvent mercure_event
  | DragEnds
  | StopSession
  | GameplayPatch patch_envelope
  | GameplaySnapshot game_snapshot
  | DragStarts
  | WebsocketStatus bool

fun sessionStep :: "session_host \<Rightarrow> session \<Rightarrow> session_event \<Rightarrow> session" where
  "sessionStep h s Load = loadSession s"
| "sessionStep h s (Refetch force) = startRefetching force FromOther s"
| "sessionStep h s (SnapshotArrives n r) = snapshotArrives h n r s"
| "sessionStep h s (BootstrapArrives n r) = bootstrapArrives h n r s"
| "sessionStep h s (HydrationEnds n r) = hydrationEnds h n r s"
| "sessionStep h s (RecoveryEnds n r) = recoveryEnds h n r s"
| "sessionStep h s (Acknowledged cp) = applyControlPlaneAcknowledgement h cp s"
| "sessionStep h s (StreamOpens reconnected) = streamOpens reconnected s"
| "sessionStep h s (StreamEvent e) = streamEvent h e s"
| "sessionStep h s DragEnds = applyDeferredRemoteSnapshot h (s\<lparr>se_drag := False\<rparr>)"
| "sessionStep h s StopSession = stopSession s"
| "sessionStep h s (GameplayPatch patch) = gameplayPatch h patch s"
| "sessionStep h s (GameplaySnapshot t) = s\<lparr>se_snapshot := Some t\<rparr>"
| "sessionStep h s DragStarts = s\<lparr>se_drag := True\<rparr>"
| "sessionStep h s (WebsocketStatus b) = s\<lparr>se_connected := b\<rparr>"

definition newSession :: "string \<Rightarrow> bool \<Rightarrow> session" where
  "newSession gameId v2 = \<lparr>se_gameId = gameId, se_snapshot = None, se_focusedPlayerId = None, se_drag = False,
     se_loading = True, se_error = None, se_v2Enabled = v2, se_connected = False, se_store = empty_store,
     se_deferred = None, se_recovery = None, se_generation = 0, se_revision = None, se_subscription = None,
     se_requests = [], se_fresh = 0, se_effects = []\<rparr>"

end
