(* ===== verification/SessionProps.thy ===== *)
theory SessionProps
  imports GameSession V2Samples SnapshotSamples Replica
begin

text \<open>
  Properties of the session: the lifecycle on the screen does not go back while nothing is
  deferred, loading ends, and where the code does lose newer state.
\<close>

abbreviation sessionRun :: "session_host \<Rightarrow> session \<Rightarrow> session_event list \<Rightarrow> session" where
  "sessionRun h \<equiv> run_steps (sessionStep h)"

lemma effect_frame [simp]:
  "se_snapshot (effect e s) = se_snapshot s" "se_revision (effect e s) = se_revision s"
  "se_v2Enabled (effect e s) = se_v2Enabled s" "se_store (effect e s) = se_store s"
  "se_requests (effect e s) = se_requests s" "se_loading (effect e s) = se_loading s"
  "se_deferred (effect e s) = se_deferred s" "se_error (effect e s) = se_error s"
  "se_gameId (effect e s) = se_gameId s" "se_focusedPlayerId (effect e s) = se_focusedPlayerId s"
  "se_effects (effect e s) = se_effects s @ [e]" "se_drag (effect e s) = se_drag s"
  by (simp_all add: effect_def)

section \<open>The lifecycle that is shown\<close>

definition cpRevision :: "control_plane option \<Rightarrow> int" where
  "cpRevision cp = (case cp of None \<Rightarrow> -1 | Some c \<Rightarrow> cpl_controlPlaneRevision c)"

definition shownRevision :: "session \<Rightarrow> int" where
  "shownRevision s = cpRevision (controlPlaneFromSnapshot (se_snapshot s))"

text \<open>The cursor of the stream is never behind what is shown.\<close>

text \<open>A session of the first protocol asks for snapshots only and leaves the store empty.\<close>

fun firstProtocol :: "session_request \<Rightarrow> bool" where
  "firstProtocol (BootstrapRequest _ _) = False"
| "firstProtocol (HydrationRequest _ _ _) = False"
| "firstProtocol _ = True"

definition cursor_ok :: "session \<Rightarrow> bool" where
  "cursor_ok s \<longleftrightarrow> \<not> se_v2Enabled s \<and> st_state (se_store s) = None \<and> (\<forall>x \<in> set (se_requests s). firstProtocol (snd x))
     \<and> (\<forall>t r. se_snapshot s = Some t \<longrightarrow> sn_controlPlaneRevision t = Some r \<longrightarrow>
     isControlPlaneRevision r \<longrightarrow> (\<exists>q. se_revision s = Some q \<and> r \<le> q))"

lemma cursor_frame:
  "se_snapshot t = se_snapshot s \<Longrightarrow> se_revision t = se_revision s \<Longrightarrow> se_v2Enabled t = se_v2Enabled s \<Longrightarrow>
     se_store t = se_store s \<Longrightarrow> se_requests t = se_requests s \<Longrightarrow> cursor_ok t = cursor_ok s"
  by (simp add: cursor_ok_def)

lemma seed_frame [simp]:
  "se_snapshot (seedControlPlaneRevision r s) = se_snapshot s"
  "se_v2Enabled (seedControlPlaneRevision r s) = se_v2Enabled s"
  "se_requests (seedControlPlaneRevision r s) = se_requests s"
  "se_loading (seedControlPlaneRevision r s) = se_loading s"
  "se_effects (seedControlPlaneRevision r s) = se_effects s"
  "se_error (seedControlPlaneRevision r s) = se_error s"
  "se_store (seedControlPlaneRevision r s) = se_store s"
  by (simp_all add: seedControlPlaneRevision_def split: option.split)

lemma seed_revision:
  "isControlPlaneRevision r \<Longrightarrow> \<exists>q. se_revision (seedControlPlaneRevision (Some r) s) = Some q \<and> r \<le> q"
  by (auto simp: seedControlPlaneRevision_def split: option.split)

lemma applySnapshot_frame [simp]:
  "se_snapshot (applySnapshot h t s) = Some t" "se_v2Enabled (applySnapshot h t s) = se_v2Enabled s"
  "se_revision (applySnapshot h t s) = se_revision (seedControlPlaneRevision (sn_controlPlaneRevision t) (s\<lparr>se_snapshot := Some t\<rparr>))"
  "se_requests (applySnapshot h t s) = se_requests s" "se_loading (applySnapshot h t s) = se_loading s"
  "se_error (applySnapshot h t s) = se_error s" "se_store (applySnapshot h t s) = se_store s"
  "\<exists>es. se_effects (applySnapshot h t s) = se_effects s @ es"
  by (auto simp: applySnapshot_def Let_def split: option.split)

lemma applySnapshot_cursor: "cursor_ok s \<Longrightarrow> cursor_ok (applySnapshot h t s)"
  using seed_revision by (auto simp: cursor_ok_def)

lemma deliver_cursor: "cursor_ok s \<Longrightarrow> cursor_ok (deliverSnapshot h force t s)"
  using applySnapshot_cursor [of s h t] by (auto simp: deliverSnapshot_def cursor_ok_def)

lemma withControlPlane_shown:
  "isControlPlaneRevision (cpl_controlPlaneRevision cp) \<Longrightarrow>
     cpRevision (controlPlaneFromSnapshot (Some (withControlPlane cp t))) = cpl_controlPlaneRevision cp"
  by (simp add: controlPlaneFromSnapshot_def withControlPlane_def cpRevision_def)

lemma fromSnapshot_valid:
  "controlPlaneFromSnapshot snapshot = Some cp \<Longrightarrow> isControlPlaneRevision (cpl_controlPlaneRevision cp)
     \<and> (\<exists>t. snapshot = Some t \<and> sn_controlPlaneRevision t = Some (cpl_controlPlaneRevision cp))"
  by (auto simp: controlPlaneFromSnapshot_def split: option.splits if_splits)

lemma accepted_shown:
  assumes "cursor_ok s"
  shows "cursor_ok (applyControlPlaneAcknowledgement h cp s)
    \<and> shownRevision s \<le> shownRevision (applyControlPlaneAcknowledgement h cp s)"
proof (cases "acceptControlPlaneState cp s")
  case (Pair b t)
  show ?thesis
  proof (cases b)
    case False
    with Pair assms show ?thesis
      by (auto simp: applyControlPlaneAcknowledgement_def acceptControlPlaneState_def Let_def split: if_splits option.splits)
  next
    case True
    let ?r = "cpl_controlPlaneRevision cp"
    have t: "t = s\<lparr>se_revision := Some ?r\<rparr>" "isControlPlaneRevision ?r" "\<And>q. se_revision s = Some q \<Longrightarrow> q < ?r"
      using Pair True by (auto simp: acceptControlPlaneState_def Let_def split: if_splits option.splits)
    have low: "shownRevision s \<le> ?r"
    proof (cases "controlPlaneFromSnapshot (se_snapshot s)")
      case None
      with t(2) show ?thesis by (simp add: shownRevision_def cpRevision_def isControlPlaneRevision_def)
    next
      case (Some c)
      with assms t(3) fromSnapshot_valid [OF Some] show ?thesis
        by (fastforce simp: shownRevision_def cpRevision_def cursor_ok_def)
    qed
    have v1: "\<not> se_v2Enabled s" "st_state (se_store s) = None" "\<forall>x \<in> set (se_requests s). firstProtocol (snd x)"
      using assms by (simp_all add: cursor_ok_def)
    show ?thesis
    proof (cases "se_snapshot s")
      case None
      with Pair True t v1 show ?thesis
        by (simp add: applyControlPlaneAcknowledgement_def applyAcceptedControlPlaneState_def cursor_ok_def
            shownRevision_def)
    next
      case (Some u)
      then have "applyControlPlaneAcknowledgement h cp s
          = effect (AcceptedControlPlane cp) (t\<lparr>se_snapshot := Some (withControlPlane cp u)\<rparr>)"
        using Pair True t v1 by (simp add: applyControlPlaneAcknowledgement_def applyAcceptedControlPlaneState_def)
      then show ?thesis
        using low t v1 withControlPlane_shown [OF t(2), of u]
        by (simp add: shownRevision_def cursor_ok_def) (simp add: withControlPlane_def)
    qed
  qed
qed

lemma preserved_shown:
  assumes "sn_controlPlaneRevision t \<noteq> None \<longrightarrow> sn_rematch t \<noteq> None"
  shows "cpRevision (controlPlaneFromSnapshot current) \<le> cpRevision (controlPlaneFromSnapshot (Some (preserveNewerControlPlane current t)))"
proof (cases "controlPlaneFromSnapshot current")
  case None
  have "-1 \<le> cpRevision (controlPlaneFromSnapshot u)" for u
    using fromSnapshot_valid [of u] by (cases "controlPlaneFromSnapshot u") (auto simp: cpRevision_def isControlPlaneRevision_def)
  with None show ?thesis by (simp add: cpRevision_def)
next
  case (Some cp)
  let ?new = "preserveNewerControlPlane current t"
  have cp: "isControlPlaneRevision (cpl_controlPlaneRevision cp)" using fromSnapshot_valid [OF Some] by simp
  show ?thesis
  proof (cases "\<exists>r. sn_controlPlaneRevision t = Some r \<and> isControlPlaneRevision r \<and> r \<ge> cpl_controlPlaneRevision cp")
    case True
    then obtain r m where "sn_controlPlaneRevision t = Some r" "isControlPlaneRevision r" "r \<ge> cpl_controlPlaneRevision cp"
        "sn_rematch t = Some m" using assms by auto
    with Some show ?thesis by (simp add: preserveNewerControlPlane_def cpRevision_def controlPlaneFromSnapshot_def)
  next
    case False
    then have "?new = withControlPlane cp t"
      using Some by (auto simp: preserveNewerControlPlane_def split: option.split)
    with Some withControlPlane_shown [OF cp, of t] show ?thesis by (simp add: cpRevision_def)
  qed
qed

lemma deliver_shown:
  assumes "shownRevision s \<le> cpRevision (controlPlaneFromSnapshot (Some t))"
  shows "shownRevision s \<le> shownRevision (deliverSnapshot h force t s)"
  using assms by (simp add: deliverSnapshot_def shownRevision_def)

lemma refetched_frame [simp]:
  "se_snapshot (refetched origin s) = se_snapshot s" "se_v2Enabled (refetched origin s) = se_v2Enabled s"
  "se_requests (refetched origin s) = se_requests s" "se_store (refetched origin s) = se_store s"
  by (cases origin; simp add: refetched_def subscribeToGameRealtime_def Let_def)+

lemma refetched_cursor: "cursor_ok s \<Longrightarrow> cursor_ok (refetched origin s)"
proof (cases origin)
  case (FromLoad gameId)
  assume s: "cursor_ok s"
  have "\<exists>q. se_revision (refetched origin s) = Some q \<and> r \<le> q"
    if "se_snapshot s = Some t" "sn_controlPlaneRevision t = Some r" "isControlPlaneRevision r" for t r
    using seed_revision [OF that(3)] that(1,2)
    by (simp add: FromLoad refetched_def subscribeToGameRealtime_def Let_def)
  with s show ?thesis by (simp add: cursor_ok_def)
qed (simp add: refetched_def)

lemma refetchThrows_frame [simp]:
  "se_snapshot (refetchThrows d origin s) = se_snapshot s" "se_v2Enabled (refetchThrows d origin s) = se_v2Enabled s"
  "se_requests (refetchThrows d origin s) = se_requests s" "se_store (refetchThrows d origin s) = se_store s"
  "se_revision (refetchThrows d origin s) = se_revision s"
  by (cases origin; simp add: refetchThrows_def)+

lemma request_frame [simp]:
  "se_snapshot (request r s) = se_snapshot s" "se_v2Enabled (request r s) = se_v2Enabled s"
  "se_store (request r s) = se_store s" "se_revision (request r s) = se_revision s"
  "se_loading (request r s) = se_loading s" "se_effects (request r s) = se_effects s" "se_error (request r s) = se_error s"
  "se_requests (request r s) = se_requests s @ [(se_fresh s, r)]"
  by (simp_all add: request_def)

lemma answered_cases:
  assumes "answered n s = Some (r, t)"
  shows "(n, r) \<in> set (se_requests s)"
    and "t = s\<lparr>se_requests := filter (\<lambda>(i, _). i \<noteq> n) (se_requests s)\<rparr>"
  using assms by (auto simp: answered_def dest: map_of_SomeD)

lemma answered_cursor: "answered n s = Some (r, t) \<Longrightarrow> cursor_ok s \<Longrightarrow> cursor_ok t \<and> firstProtocol r \<and> shownRevision t = shownRevision s"
  using answered_cases [of n s r t] by (fastforce simp: cursor_ok_def shownRevision_def)

lemma refetching_cursor: "cursor_ok s \<Longrightarrow> cursor_ok (startRefetching force origin s)
    \<and> shownRevision (startRefetching force origin s) = shownRevision s"
  by (simp add: startRefetching_def cursor_ok_def shownRevision_def)

definition lifecycleKept :: "session \<Rightarrow> session_event \<Rightarrow> bool" where
  "lifecycleKept s e = (case e of
     GameplaySnapshot t \<Rightarrow> (case se_snapshot s of
       None \<Rightarrow> False
     | Some u \<Rightarrow> sn_controlPlaneRevision t = sn_controlPlaneRevision u \<and> (sn_rematch t = None \<longleftrightarrow> sn_rematch u = None))
   | SnapshotArrives _ (Inr (t, _)) \<Rightarrow> sn_controlPlaneRevision t \<noteq> None \<longrightarrow> sn_rematch t \<noteq> None
   | _ \<Rightarrow> True)"

lemma snapshotArrives_shown:
  assumes s: "cursor_ok s" and e: "lifecycleKept s (SnapshotArrives n r)"
  shows "cursor_ok (snapshotArrives h n r s) \<and> shownRevision s \<le> shownRevision (snapshotArrives h n r s)"
proof (cases "\<exists>force origin t. answered n s = Some (SnapshotRequest force origin, t)")
  case False
  then have "snapshotArrives h n r s = s"
    by (auto simp: snapshotArrives_def split: option.split session_request.split)
  with s show ?thesis by simp
next
  case True
  then obtain force origin t where a: "answered n s = Some (SnapshotRequest force origin, t)" by blast
  from answered_cursor [OF a s] have t: "cursor_ok t" "shownRevision t = shownRevision s" by simp_all
  show ?thesis
  proof (cases r)
    case (Inl deleted)
    with a t show ?thesis
      by (simp add: snapshotArrives_def shownRevision_def) (simp add: cursor_ok_def)
  next
    case (Inr x)
    obtain snapshot cpo where x: "x = (snapshot, cpo)" by (cases x)
    let ?in = "snapshotWithControlPlane snapshot cpo"
    let ?new = "preserveNewerControlPlane (se_snapshot t) ?in"
    have "sn_controlPlaneRevision ?in \<noteq> None \<longrightarrow> sn_rematch ?in \<noteq> None"
      using e by (auto simp: Inr x lifecycleKept_def snapshotWithControlPlane_def withControlPlane_def split: option.split)
    from preserved_shown [OF this, of "se_snapshot t"] have "shownRevision t \<le> cpRevision (controlPlaneFromSnapshot (Some ?new))"
      by (simp add: shownRevision_def)
    from deliver_shown [OF this] have "shownRevision t \<le> shownRevision (deliverSnapshot h force ?new t)" .
    moreover have "cursor_ok (refetched origin (deliverSnapshot h force ?new t))"
      by (intro refetched_cursor deliver_cursor t)
    moreover have "snapshotArrives h n r s = refetched origin (deliverSnapshot h force ?new t)"
      by (simp add: snapshotArrives_def a Inr x)
    ultimately show ?thesis using t(2) by (simp add: shownRevision_def)
  qed
qed

lemma recovery_shown:
  assumes s: "cursor_ok s"
  shows "cursor_ok (recoveryEnds h n r s) \<and> shownRevision s \<le> shownRevision (recoveryEnds h n r s)"
proof (cases "\<exists>generation t. answered n s = Some (RecoveryRequest generation, t)")
  case False
  then have "recoveryEnds h n r s = s"
    by (auto simp: recoveryEnds_def split: option.split session_request.split)
  with s show ?thesis by simp
next
  case True
  then obtain generation t where a: "answered n s = Some (RecoveryRequest generation, t)" by blast
  from answered_cursor [OF a s] have t: "cursor_ok t" "shownRevision t = shownRevision s" by simp_all
  let ?u = "case r of Inr (Some cp) \<Rightarrow> if generation = se_generation t then applyControlPlaneAcknowledgement h cp t else t | _ \<Rightarrow> t"
  have "cursor_ok ?u \<and> shownRevision t \<le> shownRevision ?u"
    using t(1) accepted_shown [OF t(1)] by (auto split: sum.split option.split)
  moreover have "recoveryEnds h n r s = (if se_recovery ?u = Some n then ?u\<lparr>se_recovery := None\<rparr> else ?u)"
    by (simp add: recoveryEnds_def a Let_def)
  ultimately show ?thesis using t(2) by (simp add: shownRevision_def cursor_ok_def)
qed

lemma stop_cursor: "cursor_ok s \<Longrightarrow> cursor_ok (stopSession s) \<and> shownRevision (stopSession s) = shownRevision s"
  by (simp add: stopSession_def stopRealtime_def cursor_ok_def shownRevision_def)

lemma stream_shown:
  assumes s: "cursor_ok s"
  shows "cursor_ok (handleGameEvent h e s) \<and> shownRevision s \<le> shownRevision (handleGameEvent h e s)"
proof -
  have eff: "cursor_ok (effect x t) \<longleftrightarrow> cursor_ok t" "shownRevision (effect x t) = shownRevision t" for x t
    by (simp_all add: cursor_ok_def shownRevision_def)
  have refetch: "cursor_ok (refetchIfSnapshotIsBehind e s) \<and> shownRevision (refetchIfSnapshotIsBehind e s) = shownRevision s"
    using s refetching_cursor [OF s] by (auto simp: refetchIfSnapshotIsBehind_def split: option.split)
  show ?thesis
    using s stop_cursor [OF s] accepted_shown [OF s] refetch
    by (simp add: handleGameEvent_def eff Let_def split: option.split)
qed

lemma session_step_shown:
  assumes s: "cursor_ok s" and e: "lifecycleKept s e"
  shows "cursor_ok (sessionStep h s e) \<and> (e \<noteq> DragEnds \<longrightarrow> shownRevision s \<le> shownRevision (sessionStep h s e))"
proof (cases e)
  case (BootstrapArrives n r)
  have "bootstrapArrives h n r s = s"
    using answered_cursor [OF _ s, of n] by (fastforce simp: bootstrapArrives_def split: option.split session_request.split)
  with s BootstrapArrives show ?thesis by simp
next
  case (HydrationEnds n r)
  have "hydrationEnds h n r s = s"
    using answered_cursor [OF _ s, of n] by (fastforce simp: hydrationEnds_def split: option.split session_request.split)
  with s HydrationEnds show ?thesis by simp
next
  case DragEnds
  have "cursor_ok (s\<lparr>se_drag := False, se_deferred := None\<rparr>)" using s by (simp add: cursor_ok_def)
  with DragEnds show ?thesis
    by (auto simp: applyDeferredRemoteSnapshot_def Let_def applySnapshot_cursor split: option.split)
next
  case (GameplayPatch patch)
  with s show ?thesis
    by (simp add: gameplayPatch_def storeApplyPatch_def cursor_ok_def shownRevision_def)
next
  case (GameplaySnapshot t)
  with s e show ?thesis
    by (auto simp: lifecycleKept_def cursor_ok_def shownRevision_def controlPlaneFromSnapshot_def cpRevision_def
        split: option.splits)
next
  case (StreamOpens reconnected)
  with s show ?thesis
    by (auto simp: streamOpens_def recoverControlPlane_def cursor_ok_def shownRevision_def split: option.split)
next
  case (StreamEvent x)
  with s stream_shown [OF s] show ?thesis by (simp add: streamEvent_def split: option.split)
next
  case Load
  then show ?thesis using s refetching_cursor [OF s]
    by (simp add: loadSession_def) (simp add: cursor_ok_def shownRevision_def)
next
  case (SnapshotArrives n r)
  with snapshotArrives_shown [OF s] e show ?thesis by simp
next
  case (RecoveryEnds n r)
  with recovery_shown [OF s] show ?thesis by simp
next
  case (Acknowledged cp)
  with accepted_shown [OF s] show ?thesis by simp
next
  case StopSession
  with stop_cursor [OF s] show ?thesis by simp
next
  case (Refetch force)
  with refetching_cursor [OF s] show ?thesis by simp
qed (use s in \<open>simp_all add: cursor_ok_def shownRevision_def\<close>)

fun keptRun :: "session_host \<Rightarrow> session \<Rightarrow> session_event list \<Rightarrow> bool" where
  "keptRun h s [] = True"
| "keptRun h s (e # es) = (lifecycleKept s e \<and> keptRun h (sessionStep h s e) es)"

lemma keptRun_append: "keptRun h s (es @ fs) \<longleftrightarrow> keptRun h s es \<and> keptRun h (sessionRun h s es) fs"
  by (induction es arbitrary: s) auto

lemma session_run_shown:
  "cursor_ok s \<Longrightarrow> keptRun h s es \<Longrightarrow> cursor_ok (sessionRun h s es)
     \<and> (DragEnds \<notin> set es \<longrightarrow> shownRevision s \<le> shownRevision (sessionRun h s es))"
proof (induction es arbitrary: s)
  case (Cons e es)
  have "cursor_ok (sessionStep h s e) \<and> (e \<noteq> DragEnds \<longrightarrow> shownRevision s \<le> shownRevision (sessionStep h s e))"
    using Cons.prems by (intro session_step_shown) simp_all
  with Cons.IH [of "sessionStep h s e"] Cons.prems(2) show ?case by auto
qed simp


definition plain_host :: session_host where
  "plain_host = \<lparr>sh_same = (=), sh_collation = string_order, sh_mergeBootstrap = id,
     sh_playerIds = (\<lambda>t. []), sh_ownPlayerId = (\<lambda>t. None)\<rparr>"

definition lifecycle :: "int \<Rightarrow> string \<Rightarrow> control_plane" where
  "lifecycle r status = \<lparr>cpl_controlPlaneRevision = r, cpl_status = status, cpl_winnerPlayerId = None,
     cpl_finishedAt = None, cpl_finishReason = None, cpl_allDisconnectedSince = None, cpl_nextLifecycleAt = None,
     cpl_ownerId = None, cpl_rematch = \<lparr>rm_votes = Map.empty, rm_deadlineAt = None\<rparr>\<rparr>"

definition served :: "int \<Rightarrow> bool + game_snapshot \<times> control_plane option" where
  "served version = Inr (bare_snapshot\<lparr>sn_version := version\<rparr>, Some (lifecycle 1 ''active''))"

definition finished_event :: mercure_event where
  "finished_event = \<lparr>me_type = ''game.finished'', me_roomId = None, me_version = None,
     me_controlPlane = Some (lifecycle 2 ''finished'')\<rparr>"


lemmas session_defs = loadSession_def newSession_def startRefetching_def request_def effect_def snapshotArrives_def
  answered_def refetched_def refetchThrows_def deliverSnapshot_def nothingNew_def hasProjectionMetadataChanged_def
  applySnapshot_def seedControlPlaneRevision_def subscribeToGameRealtime_def preserveNewerControlPlane_def
  snapshotWithControlPlane_def withControlPlane_def controlPlaneFromSnapshot_def isControlPlaneRevision_def
  streamEvent_def handleGameEvent_def validControlPlane_def applyControlPlaneAcknowledgement_def
  acceptControlPlaneState_def applyAcceptedControlPlaneState_def applyDeferredRemoteSnapshot_def

lemmas sample_defs = served_def lifecycle_def finished_event_def plain_host_def bare_snapshot_def Let_def

definition drag_run :: "session_event list" where
  "drag_run = [Load, SnapshotArrives 0 (served 1), DragStarts, Refetch False, SnapshotArrives 1 (served 2),
     StreamEvent finished_event]"


text \<open>The version of a bootstrap is compared before its static cards are awaited: when they arrive, it
  replaces the state of the store, whatever patches were applied meanwhile.\<close>

lemma hydrated_store_state: "setAndHydrate same st v = (Inr snapshot, st') \<Longrightarrow> st_state st' = Some v"
  by (auto simp: setAndHydrate_def split: prod.splits sum.splits)

theorem hydration_replaces_newer_state:
  assumes "answered n s = Some (HydrationRequest force origin b, t)"
    and "controlPlaneFromSnapshot (se_snapshot s) = None"
    and "applyBootstrap (sh_same h) (sh_collation h) (se_store s) (sh_mergeBootstrap h hydrated) = (Inr snapshot, st)"
  shows "map_option v2_lastAppliedVersion (st_state (se_store (hydrationEnds h n (Inr hydrated) s)))
    = Some (bg_version (bv_game (sh_mergeBootstrap h hydrated)))"
proof -
  have t: "se_snapshot t = se_snapshot s" "se_store t = se_store s" using answered_cases(2) [OF assms(1)] by simp_all
  have "se_store (deliverSnapshot h f x u) = se_store u" for f x u by (simp add: deliverSnapshot_def)
  then have "se_store (hydrationEnds h n (Inr hydrated) s) = st"
    using assms t by (simp add: hydrationEnds_def Let_def)
  then show ?thesis
    using assms(3) by (auto simp: applyBootstrap_def Let_def createGameTableNormalizedV2State_def dest!: hydrated_store_state)
qed

section \<open>Loading ends\<close>

fun ofLoad :: "session_request \<Rightarrow> bool" where
  "ofLoad (SnapshotRequest _ origin) = (origin \<noteq> FromOther)"
| "ofLoad (BootstrapRequest _ origin) = (origin \<noteq> FromOther)"
| "ofLoad (HydrationRequest _ origin _) = (origin \<noteq> FromOther)"
| "ofLoad (RecoveryRequest _) = False"

fun leavesLoading :: "session_effect \<Rightarrow> bool" where
  "leavesLoading (StartWebsocket _) = True"
| "leavesLoading NavigateToRooms = True"
| "leavesLoading NavigateWithLoadError = True"
| "leavesLoading _ = False"

definition settled :: "session \<Rightarrow> bool" where
  "settled s \<longleftrightarrow> se_error s \<noteq> None \<or> list_ex leavesLoading (se_effects s)"

definition requests_ok :: "session \<Rightarrow> bool" where
  "requests_ok s \<longleftrightarrow> distinct (map fst (se_requests s)) \<and> (\<forall>x \<in> set (se_requests s). fst x < se_fresh s)
     \<and> (se_loading s \<or> settled s)"

definition loading_ok :: "session \<Rightarrow> bool" where
  "loading_ok s \<longleftrightarrow> requests_ok s \<and> (se_loading s \<longrightarrow> (\<exists>x \<in> set (se_requests s). ofLoad (snd x)))"

text \<open>Most operations leave the requests alone and only add effects.\<close>

definition aside :: "session \<Rightarrow> session \<Rightarrow> bool" where
  "aside s t \<longleftrightarrow> se_requests t = se_requests s \<and> se_fresh t = se_fresh s \<and> se_loading t = se_loading s
     \<and> se_error t = se_error s \<and> (\<exists>es. se_effects t = se_effects s @ es)"

lemma aside_trans: "aside s t \<Longrightarrow> aside t u \<Longrightarrow> aside s u"
  by (auto simp: aside_def)

lemma aside_requests_ok: "aside s t \<Longrightarrow> requests_ok s \<Longrightarrow> requests_ok t"
  by (auto simp: aside_def requests_ok_def settled_def)

lemma aside_loading_ok: "aside s t \<Longrightarrow> loading_ok s \<Longrightarrow> loading_ok t"
  by (auto simp: aside_def requests_ok_def loading_ok_def settled_def)

lemma aside_applySnapshot: "aside s (applySnapshot h t s)"
  by (auto simp: aside_def applySnapshot_def Let_def seedControlPlaneRevision_def effect_def split: option.split)

lemma aside_deliver: "aside s (deliverSnapshot h force t s)"
  using aside_applySnapshot [of s h t] by (auto simp: deliverSnapshot_def aside_def)

lemma aside_accept: "aside s (applyControlPlaneAcknowledgement h cp s)"
  by (auto simp: aside_def applyControlPlaneAcknowledgement_def acceptControlPlaneState_def Let_def
      applyAcceptedControlPlaneState_def effect_def split: option.split prod.split sum.split)

lemma aside_stop: "aside s (stopSession s)"
  by (simp add: aside_def stopSession_def stopRealtime_def effect_def)

lemma aside_patch: "aside s (gameplayPatch h patch s)"
  by (auto simp: aside_def gameplayPatch_def split: prod.split v2_apply_result.split)

lemma request_requests_ok: "requests_ok s \<Longrightarrow> requests_ok (request r s)"
  by (auto simp: requests_ok_def request_def settled_def less_Suc_eq)

lemma request_loading_ok: "requests_ok s \<Longrightarrow> loading_ok s \<or> ofLoad r \<Longrightarrow> loading_ok (request r s)"
  using request_requests_ok [of s r] by (auto simp: loading_ok_def)

lemma answered_ok:
  assumes "answered n s = Some (r, t)" "loading_ok s"
  shows "requests_ok t \<and> (ofLoad r \<or> loading_ok t)"
proof -
  have d: "distinct (map fst (se_requests s))" using assms(2) by (simp add: loading_ok_def requests_ok_def)
  have only: "x = (n, r)" if "x \<in> set (se_requests s)" "fst x = n" for x
    using d answered_cases(1) [OF assms(1)] that by (cases x) (auto dest: eq_key_imp_eq_value)
  have t: "t = s\<lparr>se_requests := filter (\<lambda>x. fst x \<noteq> n) (se_requests s)\<rparr>"
    using answered_cases(2) [OF assms(1)] by (simp add: case_prod_unfold)
  have "requests_ok t" using assms(2) by (auto simp: t loading_ok_def requests_ok_def settled_def distinct_map_filter)
  moreover have "loading_ok t" if "\<not> ofLoad r"
    using assms(2) only that \<open>requests_ok t\<close> by (fastforce simp: t loading_ok_def)
  ultimately show ?thesis by blast
qed

lemma refetched_ok: "requests_ok s \<Longrightarrow> origin = FromOther \<Longrightarrow> loading_ok s \<Longrightarrow> loading_ok (refetched origin s)"
  by (simp add: refetched_def)

lemma refetched_load_ok:
  assumes "requests_ok s" "origin \<noteq> FromOther"
  shows "loading_ok (refetched origin s)"
  using assms by (cases origin) (auto simp: refetched_def subscribeToGameRealtime_def Let_def loading_ok_def
      requests_ok_def settled_def effect_def seedControlPlaneRevision_def split: option.split)

lemma throws_ok:
  assumes "requests_ok s" "origin = FromOther \<longrightarrow> loading_ok s"
  shows "loading_ok (refetchThrows d origin s)"
  using assms by (cases origin) (auto simp: refetchThrows_def loading_ok_def requests_ok_def settled_def effect_def)

lemma refetch_done:
  assumes "requests_ok s" "origin = FromOther \<longrightarrow> loading_ok s" "aside s t"
  shows "loading_ok (refetched origin t)"
  using assms refetched_load_ok [of t origin] aside_requests_ok [OF assms(3)] aside_loading_ok [OF assms(3)]
  by (cases "origin = FromOther") (simp_all add: refetched_def)

lemma snapshotArrives_ok: "loading_ok s \<Longrightarrow> loading_ok (snapshotArrives h n r s)"
proof -
  assume s: "loading_ok s"
  show "loading_ok (snapshotArrives h n r s)"
  proof (cases "\<exists>force origin t. answered n s = Some (SnapshotRequest force origin, t)")
    case False
    then show ?thesis using s by (auto simp: snapshotArrives_def split: option.split session_request.split)
  next
    case True
    then obtain force origin t where a: "answered n s = Some (SnapshotRequest force origin, t)" by blast
    have t: "requests_ok t" "origin = FromOther \<longrightarrow> loading_ok t" using answered_ok [OF a s] by auto
    show ?thesis
      using throws_ok [OF t] refetch_done [OF t aside_deliver]
      by (auto simp: snapshotArrives_def a Let_def split: sum.split)
  qed
qed

lemma bootstrapArrives_ok:
  assumes s: "loading_ok s"
  shows "loading_ok (bootstrapArrives h n r s)"
proof (cases "\<exists>force origin t. answered n s = Some (BootstrapRequest force origin, t)")
  case False
  then show ?thesis using s by (auto simp: bootstrapArrives_def split: option.split session_request.split)
next
  case True
  then obtain force origin t where a: "answered n s = Some (BootstrapRequest force origin, t)" by blast
  have t: "requests_ok t" "origin = FromOther \<longrightarrow> loading_ok t" using answered_ok [OF a s] by auto
  have "aside t t" by (simp add: aside_def)
  with t throws_ok [OF t] refetch_done [OF t] request_loading_ok [OF t(1)] show ?thesis
    by (auto simp: bootstrapArrives_def a split: sum.split)
qed

lemma hydrationEnds_ok:
  assumes s: "loading_ok s"
  shows "loading_ok (hydrationEnds h n r s)"
proof (cases "\<exists>force origin b t. answered n s = Some (HydrationRequest force origin b, t)")
  case False
  then show ?thesis using s by (auto simp: hydrationEnds_def split: option.split session_request.split)
next
  case True
  then obtain force origin b t where a: "answered n s = Some (HydrationRequest force origin b, t)" by blast
  have t: "requests_ok t" "origin = FromOther \<longrightarrow> loading_ok t" using answered_ok [OF a s] by auto
  have throws: "loading_ok (refetchThrows d origin u)" if "aside t u" for d u
    using t that throws_ok [of u origin d] aside_requests_ok aside_loading_ok by blast
  have store: "aside t (t\<lparr>se_store := st\<rparr>)" "aside t (effect x (t\<lparr>se_store := st\<rparr>))"
    "aside t ((effect x (t\<lparr>se_store := st\<rparr>))\<lparr>se_store := st'\<rparr>)" for st st' x by (simp_all add: aside_def effect_def)
  have shown: "loading_ok (refetched origin (deliverSnapshot h force v u))" if "aside t u" for u v
    using refetch_done [OF t aside_trans [OF that aside_deliver]] .
  show ?thesis
    using throws store shown throws_ok [OF t]
    by (auto simp: hydrationEnds_def a Let_def split: sum.split prod.split option.split)
qed

lemma refetching_ok: "loading_ok s \<Longrightarrow> loading_ok (startRefetching force origin s)"
  using request_loading_ok [of s] by (simp add: startRefetching_def) (simp add: loading_ok_def)

lemma recovery_ok:
  assumes s: "loading_ok s"
  shows "loading_ok (recoveryEnds h n r s)"
proof (cases "\<exists>g t. answered n s = Some (RecoveryRequest g, t)")
  case False
  then show ?thesis using s by (auto simp: recoveryEnds_def split: option.split session_request.split)
next
  case True
  then obtain g t where a: "answered n s = Some (RecoveryRequest g, t)" by blast
  have t: "loading_ok t" using answered_ok [OF a s] by auto
  let ?u = "case r of Inr (Some cp) \<Rightarrow> if g = se_generation t then applyControlPlaneAcknowledgement h cp t else t | _ \<Rightarrow> t"
  have "loading_ok ?u" using t aside_loading_ok [OF aside_accept t] by (auto split: sum.split option.split)
  moreover have "aside ?u (?u\<lparr>se_recovery := None\<rparr>)" by (simp add: aside_def)
  ultimately have "loading_ok ?u" "loading_ok (?u\<lparr>se_recovery := None\<rparr>)" using aside_loading_ok by blast+
  then show ?thesis by (simp add: recoveryEnds_def a Let_def)
qed

lemma stream_ok:
  assumes s: "loading_ok s"
  shows "loading_ok (handleGameEvent h e s)"
proof -
  have eff: "aside t (effect x t)" for x t by (simp add: aside_def effect_def)
  have refetch: "loading_ok (refetchIfSnapshotIsBehind e s)"
    using s refetching_ok [OF s] by (auto simp: refetchIfSnapshotIsBehind_def split: option.split)
  have acc: "loading_ok (case validControlPlane e of None \<Rightarrow> s | Some cp \<Rightarrow> applyControlPlaneAcknowledgement h cp s)"
    using s aside_loading_ok [OF aside_accept s] by (simp split: option.split)
  show ?thesis
    using s refetch acc aside_loading_ok [OF eff] aside_loading_ok [OF aside_stop s] aside_loading_ok [OF aside_accept s]
    by (simp add: handleGameEvent_def Let_def split: option.split)
qed

lemma session_step_loading: "loading_ok s \<Longrightarrow> loading_ok (sessionStep h s e)"
proof (cases e)
  case Load
  moreover assume "loading_ok s"
  ultimately show ?thesis using refetching_ok [of s True]
    by (simp add: loadSession_def) (auto simp: loading_ok_def requests_ok_def settled_def)
next
  case DragEnds
  moreover assume "loading_ok s"
  moreover have "aside s (applyDeferredRemoteSnapshot h (s\<lparr>se_drag := False\<rparr>))"
    using aside_trans [OF _ aside_applySnapshot, of s "s\<lparr>se_drag := False, se_deferred := None\<rparr>" h]
    by (auto simp: applyDeferredRemoteSnapshot_def Let_def aside_def split: option.split)
  ultimately show ?thesis using aside_loading_ok by simp
next
  case (StreamOpens reconnected)
  moreover assume s: "loading_ok s"
  have "loading_ok (recoverControlPlane g s)" for g
    using s request_loading_ok [of s "RecoveryRequest g"]
      aside_loading_ok [of "request (RecoveryRequest g) s" "(request (RecoveryRequest g) s)\<lparr>se_recovery := Some (se_fresh s)\<rparr>"]
    by (simp add: recoverControlPlane_def) (simp add: loading_ok_def aside_def)
  ultimately show ?thesis using s by (simp add: streamOpens_def split: option.split)
qed (auto simp: snapshotArrives_ok bootstrapArrives_ok hydrationEnds_ok recovery_ok refetching_ok streamEvent_def stream_ok
    aside_loading_ok [OF aside_accept] aside_loading_ok [OF aside_stop] aside_loading_ok [OF aside_patch]
    split: option.split, auto simp: loading_ok_def requests_ok_def settled_def)

interpretation loading: invariant_machine "sessionStep h" "\<lambda>e. True" loading_ok for h
  by unfold_locales (rule session_step_loading)

text \<open>C18: Loading always ends: once every request has been answered, in whatever way and whatever else
  happened, the game table no longer shows that it loads, and either the websocket was started, or
  the player was led away, or an error is shown.\<close>

theorem loading_ends:
  fixes h :: session_host
  assumes "se_requests (sessionRun h (newSession gameId v2) (Load # es)) = []"
  defines "t \<equiv> sessionRun h (newSession gameId v2) (Load # es)"
  shows "\<not> se_loading t \<and> (se_error t \<noteq> None \<or> list_ex leavesLoading (se_effects t))"
proof -
  have "loading_ok (loadSession (newSession gameId v2))"
    by (simp add: loadSession_def newSession_def startRefetching_def request_def loading_ok_def requests_ok_def settled_def)
  then have "loading_ok t" unfolding t_def using loading.run_invar [of _ es h] by (simp add: list_all_iff)
  moreover have "se_requests t = []" unfolding t_def by (rule assms(1))
  ultimately show ?thesis by (auto simp: loading_ok_def requests_ok_def settled_def)
qed

theorem loading_ends_witness:
  "\<not> se_loading (sessionRun plain_host (newSession ''g'' False) (Load # [SnapshotArrives 0 (Inl True)]))"
proof -
  have "se_requests (sessionRun plain_host (newSession ''g'' False) (Load # [SnapshotArrives 0 (Inl True)])) = []"
    by (simp add: loadSession_def newSession_def startRefetching_def request_def snapshotArrives_def answered_def
        refetchThrows_def effect_def)
  from loading_ends [OF this] show ?thesis by simp
qed

end
