(* ===== verification/BattlefieldPositions.thy ===== *)
theory BattlefieldPositions
  imports PendingTransfer SnapshotMutation BattlefieldGeometry
begin

text \<open>
  The positions a player gives to cards, \<^verbatim>\<open>state/battlefield/game-table-battlefield.state.ts\<close>: a command
  that only moves cards on a battlefield is put in a queue of its own, its positions are shown at once
  and until the command has been persisted; cards played from the hand are moved locally. The part of
  the class that measures elements of the page is not here.
\<close>

section \<open>Commands\<close>

record position_command =
  bpc_playerId :: string
  bpc_instanceId :: string
  bpc_position :: game_card_position

type_synonym position_batch = "position_command list"

definition battlefieldPositionKey :: "position_command \<Rightarrow> string" where
  "battlefieldPositionKey c = bpc_playerId c @ '':'' @ bpc_instanceId c"

definition positionPayload :: "json option \<Rightarrow> game_card_position option" where
  "positionPayload v = (case v of
     Some (JObj candidate) \<Rightarrow> (case (map_of candidate ''x'', map_of candidate ''y'') of
       (Some (JNum x), Some (JNum y)) \<Rightarrow>
         if \<not> is_finite x \<or> \<not> is_finite y then None
         else if map_of candidate ''unit'' = Some (JStr ''ratio'') then Some (RatioPosition x y)
         else Some (PixelPosition x y)
     | _ \<Rightarrow> None)
   | _ \<Rightarrow> None)"

text \<open>\<open>zonePayload\<close> of this class takes any text.\<close>

definition battlefieldPositionCommand :: "payload \<Rightarrow> position_command option" where
  "battlefieldPositionCommand payload =
     (case (stringPayload payload ''playerId'', stringPayload payload ''instanceId'', positionPayload (map_of payload ''position'')) of
        (Some playerId, Some instanceId, Some position) \<Rightarrow>
          if stringPayload payload ''zone'' \<noteq> Some ''battlefield'' then None
          else Some \<lparr>bpc_playerId = playerId, bpc_instanceId = instanceId, bpc_position = position\<rparr>
      | _ \<Rightarrow> None)"

text \<open>The fields \<open>{ playerId, zone, ...entry }\<close>; spreading what is no object, or an array, adds none of the
  fields that are read.\<close>

definition positionEntry :: "string \<Rightarrow> string \<Rightarrow> json \<Rightarrow> payload" where
  "positionEntry playerId zone entry =
     (case entry of JObj fs \<Rightarrow> fs | _ \<Rightarrow> []) @ [(''playerId'', JStr playerId), (''zone'', JStr zone)]"

definition battlefieldPositionBatchCommand :: "payload \<Rightarrow> position_batch option" where
  "battlefieldPositionBatchCommand payload = (case battlefieldPositionCommand payload of
     Some single \<Rightarrow> Some [single]
   | None \<Rightarrow> (case (stringPayload payload ''playerId'', map_of payload ''positions'') of
       (Some playerId, Some (JArr positions)) \<Rightarrow>
         if stringPayload payload ''zone'' \<noteq> Some ''battlefield'' \<or> positions = [] then None
         else let normalized = List.map_filter (\<lambda>entry.
             battlefieldPositionCommand (positionEntry playerId ''battlefield'' entry)) positions
           in if length normalized \<noteq> length positions then None else Some normalized
     | _ \<Rightarrow> None))"

section \<open>The queue\<close>

text \<open>The promise chain as the list of what waits in it, the first of which is being persisted: the batch
  and what \<open>persist\<close> sends.\<close>

record position_queue =
  bq_optimistic :: "position_command obj"
  bq_chain :: "(position_batch \<times> string \<times> payload) list"

definition noPositions :: position_queue where
  "noPositions = \<lparr>bq_optimistic = [], bq_chain = []\<rparr>"

definition tryQueueBattlefieldPositionCommand :: "string \<Rightarrow> payload \<Rightarrow> position_queue \<Rightarrow> bool \<times> position_queue" where
  "tryQueueBattlefieldPositionCommand type payload s = (case battlefieldPositionBatchCommand payload of
     None \<Rightarrow> (False, s)
   | Some batch \<Rightarrow> (True, s\<lparr>
       bq_optimistic := foldl (\<lambda>m c. obj_set (battlefieldPositionKey c) c m) (bq_optimistic s) batch,
       bq_chain := bq_chain s @ [(batch, type, payload)]\<rparr>))"

definition clearOptimisticBattlefieldPosition :: "position_command \<Rightarrow> position_command obj \<Rightarrow> position_command obj" where
  "clearOptimisticBattlefieldPosition c m = (case obj_get m (battlefieldPositionKey c) of
     None \<Rightarrow> m
   | Some current \<Rightarrow> if sameBattlefieldPosition (bpc_position current) (bpc_position c)
       then omitKey m (battlefieldPositionKey c) else m)"

definition clearOptimisticBattlefieldPositions :: "position_batch \<Rightarrow> position_queue \<Rightarrow> position_queue" where
  "clearOptimisticBattlefieldPositions batch s =
     s\<lparr>bq_optimistic := fold clearOptimisticBattlefieldPosition batch (bq_optimistic s)\<rparr>"

text \<open>The first of the queue has been persisted or has failed; the next one starts.\<close>

definition persistEnds :: "position_queue \<Rightarrow> position_queue" where
  "persistEnds s = (case bq_chain s of
     [] \<Rightarrow> s
   | (batch, _) # rest \<Rightarrow> clearOptimisticBattlefieldPositions batch (s\<lparr>bq_chain := rest\<rparr>))"

section \<open>Showing positions\<close>

definition moveCardTo :: "game_card_position \<Rightarrow> game_card_instance \<Rightarrow> game_card_instance" where
  "moveCardTo position c =
     (if (case card_position c of None \<Rightarrow> False | Some p \<Rightarrow> sameBattlefieldPosition p position) then c
      else c\<lparr>card_position := Some position\<rparr>)"

definition positionMutation :: "position_command \<Rightarrow> card_mutation" where
  "positionMutation c = \<lparr>cu_playerId = bpc_playerId c, cu_zone = Battlefield, cu_instanceId = bpc_instanceId c,
     cu_update = moveCardTo (bpc_position c)\<rparr>"

definition applyOptimisticBattlefieldPositions :: "position_queue \<Rightarrow> game_snapshot \<Rightarrow> game_snapshot js" where
  "applyOptimisticBattlefieldPositions s snapshot =
     (if bq_optimistic s = [] then Inr snapshot
      else updateGameSnapshotCards snapshot (map (\<lambda>(k, c). positionMutation c) (bq_optimistic s)))"

text \<open>\<open>updateLocalCardPosition\<close>, with the position already made relative to the battlefield.\<close>

definition updateLocalCardPosition ::
  "string \<Rightarrow> string \<Rightarrow> game_card_position \<Rightarrow> game_snapshot \<Rightarrow> game_snapshot js" where
  "updateLocalCardPosition playerId instanceId position snapshot = updateGameSnapshotCards snapshot
     [positionMutation \<lparr>bpc_playerId = playerId, bpc_instanceId = instanceId, bpc_position = position\<rparr>]"

section \<open>Playing cards from the hand\<close>

definition setCounts :: "(game_zone_name \<times> nat) list \<Rightarrow> game_player_state \<Rightarrow> game_player_state" where
  "setCounts counts player = player\<lparr>pl_zoneCounts := map_option (\<lambda>m. foldl (\<lambda>m (z, n). m(z \<mapsto> num (int n))) m counts)
     (pl_zoneCounts player)\<rparr>"

text \<open>\<open>None\<close> is the answer false; reading a missing zone throws.\<close>

definition moveLocalCardsFromHandToBattlefield :: "game_snapshot \<Rightarrow> string \<Rightarrow> string \<Rightarrow> string list \<Rightarrow>
    game_card_position option \<Rightarrow> game_snapshot option js" where
  "moveLocalCardsFromHandToBattlefield snapshot playerId targetPlayerId movedInstanceIds position =
     (case (sn_players snapshot playerId, sn_players snapshot targetPlayerId) of
        (Some sourcePlayer, Some targetPlayer) \<Rightarrow>
          if movedInstanceIds = [] then Inr None
          else (case pl_zones sourcePlayer Hand of
            None \<Rightarrow> Inl TypeError
          | Some hand \<Rightarrow>
              let movedIds = set movedInstanceIds;
                  movedCards = filter (\<lambda>c. card_instanceId c \<in> movedIds) hand
              in if length movedCards \<noteq> length (unique movedInstanceIds) then Inr None
                 else (case pl_zones targetPlayer Battlefield of
                   None \<Rightarrow> Inl TypeError
                 | Some battlefield \<Rightarrow>
                     let sourceHand = filter (\<lambda>c. card_instanceId c \<notin> movedIds) hand;
                         targetBattlefield = filter (\<lambda>c. card_instanceId c \<notin> movedIds) battlefield
                           @ map (\<lambda>c. case position of None \<Rightarrow> c | Some p \<Rightarrow> c\<lparr>card_position := Some p\<rparr>) movedCards
                     in Inr (Some (snapshot\<lparr>sn_players :=
                       (if playerId = targetPlayerId
                        then (sn_players snapshot)(playerId \<mapsto> setCounts
                          [(Hand, length sourceHand), (Battlefield, length targetBattlefield)]
                          (sourcePlayer\<lparr>pl_zones := (pl_zones sourcePlayer)(Hand \<mapsto> sourceHand, Battlefield \<mapsto> targetBattlefield)\<rparr>))
                        else (sn_players snapshot)
                          (playerId \<mapsto> setCounts [(Hand, length sourceHand)]
                            (sourcePlayer\<lparr>pl_zones := (pl_zones sourcePlayer)(Hand \<mapsto> sourceHand)\<rparr>),
                           targetPlayerId \<mapsto> setCounts [(Battlefield, length targetBattlefield)]
                            (targetPlayer\<lparr>pl_zones := (pl_zones targetPlayer)(Battlefield \<mapsto> targetBattlefield)\<rparr>)))\<rparr>))))
      | _ \<Rightarrow> Inr None)"

end
