(* ===== verification/TableCommands.thy ===== *)
theory TableCommands
  imports BattlefieldPositions
begin

text \<open>
  \<open>GameTableCommandStore\<close> (\<^verbatim>\<open>state/core/game-table-command.store.ts\<close>), through which the table sends
  commands, with \<open>GameTableSnapshotCoordinatorState\<close> (\<^verbatim>\<open>state/core/game-table-snapshot-coordinator.state.ts\<close>),
  through which snapshots come back: the pending flag and the errors of \<open>GameTableCoreState\<close>, the cards
  in transit, the highlights and the queue of positions. Above it, from \<^verbatim>\<open>game-table.store.ts\<close>, conceding
  and the block it puts on changes of the turn.
\<close>

section \<open>State\<close>

datatype thrown = ThrownError string | ThrownOther json

datatype command_origin = DirectCommand | PositionCommand

record running_command =
  rc_origin :: command_origin
  rc_type :: string
  rc_payload :: payload

record table_commands =
  tc_gameId :: string
  tc_snapshot :: "game_snapshot option"
  tc_pending :: bool
  tc_error :: "string option"
  tc_reloadReason :: "string option"
  tc_tracking :: transfer_tracking
  tc_positions :: position_queue
  tc_locallyConcededPlayerId :: "string option"
  tc_running :: "(nat \<times> running_command) list"
  tc_fresh :: nat

text \<open>What the store gets from elsewhere: the own player, whether that player is defeated, the messages of
  errors, which depend on it, the order of keys, the conversion of
  texts to numbers, and the two overlays around the positions: positions clamped to the viewport before
  them, unconfirmed values and card counters after them.\<close>

record table_host =
  th_currentPlayer :: "game_snapshot option \<Rightarrow> string option"
  th_isLocalPlayerDefeated :: "game_snapshot option \<Rightarrow> bool"
  th_errorMessage :: "bool \<Rightarrow> thrown \<Rightarrow> string"
  th_order :: key_order
  th_parse :: "string \<Rightarrow> jsnum"
  th_viewport :: "game_snapshot \<Rightarrow> game_snapshot"
  th_values :: "game_snapshot \<Rightarrow> game_snapshot"

definition newTable :: "string \<Rightarrow> table_commands" where
  "newTable gameId = \<lparr>tc_gameId = gameId, tc_snapshot = None, tc_pending = False, tc_error = None,
     tc_reloadReason = None, tc_tracking = \<lparr>tt_transfers = noTransfers, tt_feedback = noDropFeedback\<rparr>,
     tc_positions = noPositions, tc_locallyConcededPlayerId = None, tc_running = [], tc_fresh = 0\<rparr>"

section \<open>Snapshots\<close>

definition mapFeedback :: "(drop_feedback \<Rightarrow> drop_feedback) \<Rightarrow> table_commands \<Rightarrow> table_commands" where
  "mapFeedback f s = s\<lparr>tc_tracking := mark f (tc_tracking s)\<rparr>"

definition mapTransfers :: "(pending_transfers \<Rightarrow> pending_transfers) \<Rightarrow> table_commands \<Rightarrow> table_commands" where
  "mapTransfers f s = s\<lparr>tc_tracking := (tc_tracking s)\<lparr>tt_transfers := f (tt_transfers (tc_tracking s))\<rparr>\<rparr>"

text \<open>The block of a local concession ends with the table, or when a snapshot shows that the player has not
  conceded.\<close>

definition syncLocalConcede :: "game_snapshot option \<Rightarrow> table_commands \<Rightarrow> table_commands" where
  "syncLocalConcede snapshot s = (case snapshot of
     None \<Rightarrow> s\<lparr>tc_locallyConcededPlayerId := None\<rparr>
   | Some t \<Rightarrow> (case tc_locallyConcededPlayerId s of
       None \<Rightarrow> s
     | Some playerId \<Rightarrow>
         if Option.bind (sn_players t playerId) pl_status \<noteq> Some ConcededPlayer
         then s\<lparr>tc_locallyConcededPlayerId := None\<rparr> else s))"

text \<open>\<open>setSnapshot\<close> of the store and of the coordinator; the result is what was thrown, if anything.\<close>

definition setTableSnapshot ::
  "table_host \<Rightarrow> bool \<Rightarrow> game_snapshot option \<Rightarrow> table_commands \<Rightarrow> js_error option \<times> table_commands" where
  "setTableSnapshot h trackDropFeedback snapshot s =
     (let s0 = syncLocalConcede snapshot s;
          s1 = (if trackDropFeedback then mapFeedback (trackSnapshot (th_order h) snapshot) s0 else s0)
      in case snapshot of
        None \<Rightarrow> (None, s1\<lparr>tc_snapshot := None\<rparr>)
      | Some t \<Rightarrow> (case applyOptimisticBattlefieldPositions (tc_positions s1) (th_viewport h t) of
          Inl e \<Rightarrow> (Some e, s1)
        | Inr positionSnapshot \<Rightarrow>
            let nextSnapshot = th_values h positionSnapshot
            in (None, (mapTransfers (reconcileSnapshot (Some nextSnapshot)) s1)\<lparr>tc_snapshot := Some nextSnapshot\<rparr>)))"

section \<open>Sending\<close>

definition isBattlefieldPositionCommand :: "string \<Rightarrow> bool" where
  "isBattlefieldPositionCommand type \<longleftrightarrow> type = ''card.position.changed'' \<or> type = ''cards.position.changed''"

definition RELOAD_REQUIRED_COMMAND_MESSAGE :: string where
  "RELOAD_REQUIRED_COMMAND_MESSAGE = ''websocket command timed out.''"

definition requiresPageReload :: "thrown \<Rightarrow> bool" where
  "requiresPageReload e = (case e of
     ThrownError message \<Rightarrow> js_lower (js_trim message) = RELOAD_REQUIRED_COMMAND_MESSAGE | ThrownOther _ \<Rightarrow> False)"

definition shouldSuppressCommandErrorToast :: "string \<Rightarrow> string \<Rightarrow> thrown \<Rightarrow> bool" where
  "shouldSuppressCommandErrorToast type message e =
     (let rawMessage = (case e of ThrownError m \<Rightarrow> js_lower m | ThrownOther _ \<Rightarrow> [])
      in if type = ''turn.changed'' \<and> str_includes ''conceded players cannot perform game actions'' rawMessage then True
         else type = ''cards.position.changed''
           \<and> message = ''positions must contain at least one card position.'')"

text \<open>\<open>sendAndApplyCommand\<close> up to its await, and after it: the answer tells whether the gameplay service
  sent the command, and what the HTTP endpoint returned; only one of them is read.\<close>

definition launch :: "command_origin \<Rightarrow> string \<Rightarrow> payload \<Rightarrow> table_commands \<Rightarrow> table_commands" where
  "launch origin type payload s = s\<lparr>
     tc_running := tc_running s @ [(tc_fresh s, \<lparr>rc_origin = origin, rc_type = type, rc_payload = payload\<rparr>)],
     tc_fresh := Suc (tc_fresh s)\<rparr>"

definition applyAnswer ::
  "table_host \<Rightarrow> string \<Rightarrow> thrown + bool \<times> game_snapshot \<Rightarrow> table_commands \<Rightarrow> thrown option \<times> table_commands" where
  "applyAnswer h type answer s = (case answer of
     Inl e \<Rightarrow> (Some e, s)
   | Inr (sentOverWebsocket, snapshot) \<Rightarrow>
       if isMigratedCommand type
       then (if sentOverWebsocket then (None, s)
             else (Some (ThrownError ''WebSocket gameplay connection is not available.''), s))
       else (case setTableSnapshot h True (Some snapshot) s of
         (None, t) \<Rightarrow> (None, t) | (Some _, t) \<Rightarrow> (Some (ThrownError ''TypeError''), t)))"

text \<open>The promise chain of the positions starts \<open>persist\<close> of its first batch.\<close>

definition startPersist :: "table_commands \<Rightarrow> table_commands" where
  "startPersist s = (case bq_chain (tc_positions s) of
     [] \<Rightarrow> s | (_, type, payload) # _ \<Rightarrow> launch PositionCommand type payload s)"

definition queuePosition :: "string \<Rightarrow> payload \<Rightarrow> table_commands \<Rightarrow> (bool \<times> table_commands)" where
  "queuePosition type payload s = (case tryQueueBattlefieldPositionCommand type payload (tc_positions s) of
     (False, _) \<Rightarrow> (False, s)
   | (True, q) \<Rightarrow> (True, if bq_chain (tc_positions s) = [] then startPersist (s\<lparr>tc_positions := q\<rparr>)
       else s\<lparr>tc_positions := q\<rparr>))"

definition issueCommand :: "table_host \<Rightarrow> string \<Rightarrow> payload \<Rightarrow> bool \<Rightarrow> table_commands \<Rightarrow> table_commands" where
  "issueCommand h type payload force s =
     (if tc_gameId s = [] then s
      else case (if isBattlefieldPositionCommand type then queuePosition type payload s else (False, s)) of
        (True, t) \<Rightarrow> t
      | (False, _) \<Rightarrow>
          if tc_pending s \<and> \<not> force then s
          else launch DirectCommand type payload (s\<lparr>tc_pending := True, tc_error := None,
            tc_tracking := registerCommand (th_parse h) (tc_snapshot s) type payload (tc_tracking s)\<rparr>))"

text \<open>The \<open>catch\<close> of \<open>command\<close>.\<close>

definition commandFails :: "table_host \<Rightarrow> string \<Rightarrow> thrown \<Rightarrow> table_commands \<Rightarrow> table_commands" where
  "commandFails h type e s =
     (let t = mapFeedback clearPendingBattlefieldEntries (mapTransfers clearTransfers s);
          message = th_errorMessage h (th_isLocalPlayerDefeated h (tc_snapshot s)) e
      in if requiresPageReload e then t\<lparr>tc_reloadReason := Some ''sync-timeout''\<rparr>
         else if \<not> shouldSuppressCommandErrorToast type message e then t\<lparr>tc_error := Some message\<rparr> else t)"

definition commandEnds ::
  "table_host \<Rightarrow> string \<Rightarrow> thrown + bool \<times> game_snapshot \<Rightarrow> table_commands \<Rightarrow> table_commands" where
  "commandEnds h type answer s = (case applyAnswer h type answer s of
     (None, t) \<Rightarrow> t\<lparr>tc_pending := False\<rparr>
   | (Some e, t) \<Rightarrow> (commandFails h type e t)\<lparr>tc_pending := False\<rparr>)"

definition setGameActionError :: "table_host \<Rightarrow> string \<Rightarrow> table_commands \<Rightarrow> table_commands" where
  "setGameActionError h message s = s\<lparr>tc_error := Some (if th_isLocalPlayerDefeated h (tc_snapshot s)
     then ''game.gameTable.defeatedActionBlocked'' else message)\<rparr>"

text \<open>\<open>persistBattlefieldPositionCommand\<close> after its await, then the next of the chain.\<close>

definition positionEnds ::
  "table_host \<Rightarrow> string \<Rightarrow> thrown + bool \<times> game_snapshot \<Rightarrow> table_commands \<Rightarrow> table_commands" where
  "positionEnds h type answer s = (case applyAnswer h type answer s of
     (e, t) \<Rightarrow>
       let u = t\<lparr>tc_positions := persistEnds (tc_positions t)\<rparr>
       in startPersist (case e of None \<Rightarrow> u
         | Some x \<Rightarrow> setGameActionError h (th_errorMessage h (th_isLocalPlayerDefeated h (tc_snapshot u)) x) u))"

definition commandAnswered ::
  "table_host \<Rightarrow> nat \<Rightarrow> thrown + bool \<times> game_snapshot \<Rightarrow> table_commands \<Rightarrow> table_commands" where
  "commandAnswered h n answer s = (case map_of (tc_running s) n of
     None \<Rightarrow> s
   | Some c \<Rightarrow>
       let t = s\<lparr>tc_running := filter (\<lambda>(i, _). i \<noteq> n) (tc_running s)\<rparr>
       in case rc_origin c of
         DirectCommand \<Rightarrow> commandEnds h (rc_type c) answer t
       | PositionCommand \<Rightarrow> positionEnds h (rc_type c) answer t)"

section \<open>Turns and conceding\<close>

text \<open>\<open>command\<close> of the store.\<close>

definition storeCommand :: "table_host \<Rightarrow> string \<Rightarrow> payload \<Rightarrow> bool \<Rightarrow> table_commands \<Rightarrow> table_commands" where
  "storeCommand h type payload force s =
     (let currentPlayerId = th_currentPlayer h (tc_snapshot s)
      in if type = ''turn.changed'' \<and> tc_locallyConcededPlayerId s \<noteq> None \<and> currentPlayerId \<noteq> None
           \<and> tc_locallyConcededPlayerId s = currentPlayerId then s
         else issueCommand h type payload force s)"

text \<open>\<open>command\<close> catches what a failed command throws, so the \<open>catch\<close> of \<open>concedeGame\<close> has no case.\<close>

definition concedeGame :: "table_host \<Rightarrow> table_commands \<Rightarrow> table_commands" where
  "concedeGame h s = (case th_currentPlayer h (tc_snapshot s) of
     None \<Rightarrow> s
   | Some playerId \<Rightarrow>
       if Option.bind (tc_snapshot s) (\<lambda>t. Option.bind (sn_players t playerId) pl_status) \<noteq> Some ActivePlayer then s
       else storeCommand h ''game.concede'' [(''playerId'', JStr playerId)] True
         (s\<lparr>tc_locallyConcededPlayerId := Some playerId\<rparr>))"

definition canAdvanceTurnPhase :: "table_host \<Rightarrow> table_commands \<Rightarrow> bool" where
  "canAdvanceTurnPhase h s =
     (let activePlayerId = Option.bind (tc_snapshot s) (\<lambda>t. gt_activePlayerId (sn_turn t));
          currentPlayerId = th_currentPlayer h (tc_snapshot s);
          blockedByLocalConcede = (tc_locallyConcededPlayerId s \<noteq> None \<and> tc_locallyConcededPlayerId s = currentPlayerId)
      in (case activePlayerId of None \<Rightarrow> False | Some p \<Rightarrow> p \<noteq> []) \<and> activePlayerId = currentPlayerId
         \<and> \<not> tc_pending s \<and> \<not> blockedByLocalConcede)"

section \<open>Events\<close>

text \<open>Besides commands and their answers: snapshots from the session or from local updates, the timers of
  the highlights, and a forced refresh, which drops what is in transit.\<close>

datatype command_event =
    IssueCommand string payload bool
  | Concede
  | CommandAnswered nat "thrown + bool \<times> game_snapshot"
  | SnapshotSet bool "game_snapshot option"
  | HighlightEnds nat
  | TransitCleared

fun commandStep :: "table_host \<Rightarrow> table_commands \<Rightarrow> command_event \<Rightarrow> table_commands" where
  "commandStep h s (IssueCommand type payload force) = storeCommand h type payload force s"
| "commandStep h s Concede = concedeGame h s"
| "commandStep h s (CommandAnswered n answer) = commandAnswered h n answer s"
| "commandStep h s (SnapshotSet track t) = snd (setTableSnapshot h track t s)"
| "commandStep h s (HighlightEnds n) = mapFeedback (feedbackTimerFires n) s"
| "commandStep h s TransitCleared = mapTransfers clearTransfers s"

end
