(* ===== verification/CommandProps.thy ===== *)
theory CommandProps
  imports TableCommands SnapshotSamples Replica V2Samples
begin

text \<open>
  The pending flag and the commands under way, the queue of positions, failed commands, and what a
  forced concession does to the flag and a failed one to the turn.
\<close>

section \<open>What the operations leave alone\<close>

lemma map_frame [simp]:
  "tc_running (mapFeedback f s) = tc_running s" "tc_pending (mapFeedback f s) = tc_pending s"
  "tc_positions (mapFeedback f s) = tc_positions s" "tc_fresh (mapFeedback f s) = tc_fresh s"
  "tc_locallyConcededPlayerId (mapFeedback f s) = tc_locallyConcededPlayerId s" "tc_snapshot (mapFeedback f s) = tc_snapshot s"
  "tc_running (mapTransfers g s) = tc_running s" "tc_pending (mapTransfers g s) = tc_pending s"
  "tc_positions (mapTransfers g s) = tc_positions s" "tc_fresh (mapTransfers g s) = tc_fresh s"
  "tc_locallyConcededPlayerId (mapTransfers g s) = tc_locallyConcededPlayerId s" "tc_snapshot (mapTransfers g s) = tc_snapshot s"
  by (simp_all add: mapFeedback_def mapTransfers_def)

lemma sync_frame [simp]:
  "tc_running (syncLocalConcede t s) = tc_running s" "tc_pending (syncLocalConcede t s) = tc_pending s"
  "tc_positions (syncLocalConcede t s) = tc_positions s" "tc_fresh (syncLocalConcede t s) = tc_fresh s"
  by (simp_all add: syncLocalConcede_def split: option.split)

lemma snapshot_frame [simp]:
  "tc_running (snd (setTableSnapshot h b t s)) = tc_running s" "tc_pending (snd (setTableSnapshot h b t s)) = tc_pending s"
  "tc_positions (snd (setTableSnapshot h b t s)) = tc_positions s" "tc_fresh (snd (setTableSnapshot h b t s)) = tc_fresh s"
  by (auto simp: setTableSnapshot_def Let_def split: option.split sum.split)

lemma snapshot_frame': "setTableSnapshot h b t s = (e, u) \<Longrightarrow> tc_running u = tc_running s \<and> tc_pending u = tc_pending s
    \<and> tc_positions u = tc_positions s \<and> tc_fresh u = tc_fresh s"
  using snapshot_frame [of h b t s] by simp

lemma answer_frame: "applyAnswer h type a s = (e, u) \<Longrightarrow> tc_running u = tc_running s \<and> tc_pending u = tc_pending s
    \<and> tc_positions u = tc_positions s \<and> tc_fresh u = tc_fresh s"
  by (auto simp: applyAnswer_def dest!: snapshot_frame' split: sum.splits prod.splits option.splits if_splits)

lemma fails_frame [simp]:
  "tc_running (commandFails h type e s) = tc_running s" "tc_pending (commandFails h type e s) = tc_pending s"
  "tc_positions (commandFails h type e s) = tc_positions s" "tc_fresh (commandFails h type e s) = tc_fresh s"
  by (simp_all add: commandFails_def Let_def)

lemma ends_frame [simp]:
  "tc_running (commandEnds h type a s) = tc_running s" "tc_pending (commandEnds h type a s) = False"
  "tc_positions (commandEnds h type a s) = tc_positions s" "tc_fresh (commandEnds h type a s) = tc_fresh s"
  by (auto simp: commandEnds_def dest!: answer_frame split: prod.split option.split)

lemma launch_simps [simp]:
  "tc_running (launch origin type p s) = tc_running s @ [(tc_fresh s, \<lparr>rc_origin = origin, rc_type = type, rc_payload = p\<rparr>)]"
  "tc_pending (launch origin type p s) = tc_pending s" "tc_positions (launch origin type p s) = tc_positions s"
  "tc_fresh (launch origin type p s) = Suc (tc_fresh s)" "tc_snapshot (launch origin type p s) = tc_snapshot s"
  "tc_locallyConcededPlayerId (launch origin type p s) = tc_locallyConcededPlayerId s"
  by (simp_all add: launch_def)

section \<open>Commands under way\<close>

definition under_way :: "command_origin \<Rightarrow> table_commands \<Rightarrow> running_command list" where
  "under_way origin s = filter (\<lambda>c. rc_origin c = origin) (map snd (tc_running s))"

definition numbered :: "table_commands \<Rightarrow> bool" where
  "numbered s \<longleftrightarrow> distinct (map fst (tc_running s)) \<and> (\<forall>x \<in> set (tc_running s). fst x < tc_fresh s)"

lemma under_way_cong: "tc_running s = tc_running t \<Longrightarrow> under_way origin s = under_way origin t"
  by (simp add: under_way_def)

lemma under_way_launch [simp]: "under_way origin (launch origin' type p s) = under_way origin s
    @ (if origin = origin' then [\<lparr>rc_origin = origin', rc_type = type, rc_payload = p\<rparr>] else [])"
  by (auto simp: under_way_def)

text \<open>What happens to the list of running commands in one event: nothing, one is launched, or one is
  answered and perhaps the next position launched.\<close>

text \<open>The position request under way is that of the first batch of the chain.\<close>

definition chain_ok :: "table_commands \<Rightarrow> bool" where
  "chain_ok s \<longleftrightarrow> under_way PositionCommand s = (case bq_chain (tc_positions s) of
     [] \<Rightarrow> [] | (_, type, p) # _ \<Rightarrow> [\<lparr>rc_origin = PositionCommand, rc_type = type, rc_payload = p\<rparr>])"

definition table_ok :: "table_commands \<Rightarrow> bool" where
  "table_ok s \<longleftrightarrow> numbered s \<and> chain_ok s \<and> (tc_pending s \<longrightarrow> under_way DirectCommand s \<noteq> [])"

lemma table_cong:
  "tc_running s = tc_running t \<Longrightarrow> tc_positions s = tc_positions t \<Longrightarrow> tc_fresh s = tc_fresh t \<Longrightarrow>
     tc_pending s = tc_pending t \<Longrightarrow> table_ok s = table_ok t"
  by (simp add: table_ok_def numbered_def chain_ok_def under_way_def)

lemma numbered_launch: "numbered s \<Longrightarrow> numbered (launch origin type p s)"
  by (auto simp: numbered_def less_Suc_eq)

lemma queue_chain:
  "tryQueueBattlefieldPositionCommand type p q = (b, q') \<Longrightarrow>
     (if b then \<exists>batch. bq_chain q' = bq_chain q @ [(batch, type, p)] else q' = q)"
  by (auto simp: tryQueueBattlefieldPositionCommand_def split: option.splits)

lemma queue_ok':
  assumes "table_ok s" "queuePosition type p s = (True, t)"
  shows "table_ok t"
proof -
  obtain q where q: "tryQueueBattlefieldPositionCommand type p (tc_positions s) = (True, q)"
    and t: "t = (if bq_chain (tc_positions s) = [] then startPersist (s\<lparr>tc_positions := q\<rparr>) else s\<lparr>tc_positions := q\<rparr>)"
    using assms(2) by (auto simp: queuePosition_def split: prod.splits bool.splits)
  obtain batch where chain: "bq_chain q = bq_chain (tc_positions s) @ [(batch, type, p)]"
    using queue_chain [OF q] by auto
  show ?thesis
  proof (cases "bq_chain (tc_positions s)")
    case Nil
    have n: "numbered (s\<lparr>tc_positions := q\<rparr>)" using assms(1) by (simp add: table_ok_def numbered_def)
    have u: "under_way origin (s\<lparr>tc_positions := q\<rparr>) = under_way origin s" for origin by (simp add: under_way_def)
    have t': "t = launch PositionCommand type p (s\<lparr>tc_positions := q\<rparr>)"
      using Nil chain by (simp add: t startPersist_def)
    show ?thesis
      using assms(1) numbered_launch [OF n] Nil chain by (simp add: t' table_ok_def chain_ok_def u)
  next
    case (Cons x xs)
    with assms(1) chain show ?thesis
      by (simp add: t table_ok_def numbered_def chain_ok_def under_way_def)
  qed
qed

lemma issue_ok:
  assumes "table_ok s"
  shows "table_ok (issueCommand h type p force s)"
proof -
  have direct: "table_ok (launch DirectCommand type p (s\<lparr>tc_pending := True, tc_error := e, tc_tracking := tr\<rparr>))" for e tr
  proof -
    have "numbered (s\<lparr>tc_pending := True, tc_error := e, tc_tracking := tr\<rparr>)" using assms by (simp add: table_ok_def numbered_def)
    from numbered_launch [OF this] assms show ?thesis
      by (simp add: table_ok_def chain_ok_def) (simp add: under_way_def)
  qed
  show ?thesis
    using assms queue_ok' [OF assms, of type p] direct
    by (auto simp: issueCommand_def split: prod.split bool.split)
qed

lemma under_way_answered:
  assumes "numbered s" "map_of (tc_running s) n = Some c"
  shows "under_way (rc_origin c) s \<noteq> []"
    and "origin \<noteq> rc_origin c \<Longrightarrow> under_way origin (s\<lparr>tc_running := filter (\<lambda>(i, _). i \<noteq> n) (tc_running s)\<rparr>) = under_way origin s"
    and "under_way (rc_origin c) s = [x] \<Longrightarrow> under_way (rc_origin c) (s\<lparr>tc_running := filter (\<lambda>(i, _). i \<noteq> n) (tc_running s)\<rparr>) = []"
proof -
  have mem: "(n, c) \<in> set (tc_running s)" using assms(2) by (rule map_of_SomeD)
  then show "under_way (rc_origin c) s \<noteq> []" by (force simp: under_way_def filter_empty_conv)
  have only: "snd x = c" if "x \<in> set (tc_running s)" "fst x = n" for x
    using assms(1) mem that unfolding numbered_def by (metis eq_key_imp_eq_value prod.collapse)
  have eq: "under_way o' (s\<lparr>tc_running := filter (\<lambda>(i, _). i \<noteq> n) (tc_running s)\<rparr>)
      = map snd (filter (\<lambda>x. fst x \<noteq> n \<and> rc_origin (snd x) = o') (tc_running s))" for o'
    by (simp add: under_way_def filter_map comp_def case_prod_unfold)
  have eq': "under_way o' s = map snd (filter (\<lambda>x. rc_origin (snd x) = o') (tc_running s))" for o'
    by (simp add: under_way_def filter_map comp_def)
  show "under_way origin (s\<lparr>tc_running := filter (\<lambda>(i, _). i \<noteq> n) (tc_running s)\<rparr>) = under_way origin s"
    if "origin \<noteq> rc_origin c"
    unfolding eq eq' using only that by (intro arg_cong [of _ _ "map snd"] filter_cong) auto
  assume one: "under_way (rc_origin c) s = [x]"
  have "\<exists>y. F = [y]" if "map snd F = [x]" for F :: "(nat \<times> running_command) list" using that by (cases F) auto
  from this [OF one[unfolded eq']] obtain y where y: "filter (\<lambda>x. rc_origin (snd x) = rc_origin c) (tc_running s) = [y]"
    by blast
  have "(n, c) \<in> set (filter (\<lambda>x. rc_origin (snd x) = rc_origin c) (tc_running s))" using mem by simp
  then have "y = (n, c)" unfolding y by simp
  moreover have "filter (\<lambda>x. fst x \<noteq> n \<and> rc_origin (snd x) = rc_origin c) (tc_running s)
      = filter (\<lambda>x. fst x \<noteq> n) (filter (\<lambda>x. rc_origin (snd x) = rc_origin c) (tc_running s))"
    by (simp add: conj_commute)
  ultimately have "filter (\<lambda>x. fst x \<noteq> n \<and> rc_origin (snd x) = rc_origin c) (tc_running s) = []"
    unfolding y by simp
  then show "under_way (rc_origin c) (s\<lparr>tc_running := filter (\<lambda>(i, _). i \<noteq> n) (tc_running s)\<rparr>) = []"
    unfolding eq by simp
qed

lemma positionEnds_fields:
  assumes "bq_chain (tc_positions s) = x # rest"
  shows "tc_pending (positionEnds h type a s) = tc_pending s"
    "\<exists>u. positionEnds h type a s = startPersist u \<and> tc_running u = tc_running s \<and> tc_fresh u = tc_fresh s
       \<and> tc_pending u = tc_pending s \<and> bq_chain (tc_positions u) = rest"
proof -
  obtain e t where a: "applyAnswer h type a s = (e, t)" by fastforce
  note f = answer_frame [OF a]
  let ?u = "t\<lparr>tc_positions := persistEnds (tc_positions t)\<rparr>"
  let ?v = "case e of None \<Rightarrow> ?u
         | Some x \<Rightarrow> setGameActionError h (th_errorMessage h (th_isLocalPlayerDefeated h (tc_snapshot ?u)) x) ?u"
  have eq: "positionEnds h type a s = startPersist ?v" by (simp add: positionEnds_def a Let_def)
  have v: "tc_running ?v = tc_running s" "tc_fresh ?v = tc_fresh s" "tc_pending ?v = tc_pending s"
    "bq_chain (tc_positions ?v) = rest"
    using f assms by (cases x; auto simp: setGameActionError_def persistEnds_def
        clearOptimisticBattlefieldPositions_def split: option.split)+
  show "\<exists>u. positionEnds h type a s = startPersist u \<and> tc_running u = tc_running s \<and> tc_fresh u = tc_fresh s
       \<and> tc_pending u = tc_pending s \<and> bq_chain (tc_positions u) = rest"
    using eq v by blast
  have "tc_pending (startPersist w) = tc_pending w" for w
    by (simp add: startPersist_def split: list.split prod.split)
  with eq v show "tc_pending (positionEnds h type a s) = tc_pending s" by simp
qed

lemma startPersist_ok:
  assumes "numbered u" "under_way PositionCommand u = []"
  shows "numbered (startPersist u) \<and> chain_ok (startPersist u) \<and> under_way DirectCommand (startPersist u) = under_way DirectCommand u"
proof (cases "bq_chain (tc_positions u)")
  case (Cons x rest)
  then obtain batch type p where "x = (batch, type, p)" by (cases x)
  with Cons assms numbered_launch [OF assms(1)] show ?thesis by (simp add: startPersist_def chain_ok_def)
qed (use assms in \<open>simp add: startPersist_def chain_ok_def\<close>)

text \<open>An answer takes its own command away; the next position may be launched.\<close>

lemma command_answered_ok:
  assumes "table_ok s"
  shows "table_ok (commandAnswered h n a s)"
proof (cases "map_of (tc_running s) n")
  case (Some c)
  let ?t = "s\<lparr>tc_running := filter (\<lambda>(i, _). i \<noteq> n) (tc_running s)\<rparr>"
  have n: "numbered s" "numbered ?t" using assms by (auto simp: table_ok_def numbered_def intro: distinct_map_filter')
  note way = under_way_answered [OF n(1) Some]
  show ?thesis
  proof (cases "rc_origin c")
    case DirectCommand
    have "under_way PositionCommand ?t = under_way PositionCommand s" using way(2) DirectCommand by simp
    then have "table_ok (commandEnds h (rc_type c) a ?t)"
      using assms n by (simp add: table_ok_def chain_ok_def numbered_def under_way_cong [of "commandEnds h (rc_type c) a ?t" ?t])
    with Some DirectCommand show ?thesis by (simp add: commandAnswered_def)
  next
    case PositionCommand
    then obtain x rest where chain: "bq_chain (tc_positions s) = x # rest"
      using assms way(1) by (auto simp: table_ok_def chain_ok_def split: list.splits)
    then have "\<exists>y. under_way PositionCommand s = [y]"
      using assms by (cases x) (simp add: table_ok_def chain_ok_def)
    then have none: "under_way PositionCommand ?t = []" using way(3) PositionCommand by auto
    have "bq_chain (tc_positions ?t) = x # rest" using chain by simp
    from positionEnds_fields [OF this, of h "rc_type c" a] obtain u
      where u: "positionEnds h (rc_type c) a ?t = startPersist u" "tc_running u = tc_running ?t" "tc_fresh u = tc_fresh ?t"
        "tc_pending (startPersist u) = tc_pending ?t" by metis
    have "numbered u" "under_way PositionCommand u = []" "under_way DirectCommand u = under_way DirectCommand s"
      using n(2) none u(2,3) way(2) [of DirectCommand] PositionCommand
        under_way_cong [of u ?t PositionCommand] under_way_cong [of u ?t DirectCommand] by (simp_all add: numbered_def)
    with startPersist_ok [of u] assms u(4) have "table_ok (startPersist u)" by (simp add: table_ok_def)
    with Some PositionCommand u(1) show ?thesis by (simp add: commandAnswered_def)
  qed
qed (use assms in \<open>simp add: commandAnswered_def\<close>)

lemma command_step_ok: "table_ok s \<Longrightarrow> table_ok (commandStep h s e)"
proof (cases e)
  case Concede
  assume s: "table_ok s"
  then have "table_ok (s\<lparr>tc_locallyConcededPlayerId := p\<rparr>)" for p
    by (rule iffD1 [OF table_cong, rotated -1]) simp_all
  with s Concede show ?thesis by (simp add: concedeGame_def storeCommand_def Let_def issue_ok split: option.split)
qed (auto simp: storeCommand_def Let_def issue_ok command_answered_ok intro: iffD1 [OF table_cong, rotated -1])

interpretation table: invariant_machine "commandStep h" "\<lambda>e. True" table_ok for h
  by unfold_locales (rule command_step_ok)

abbreviation tableRun :: "table_host \<Rightarrow> string \<Rightarrow> command_event list \<Rightarrow> table_commands" where
  "tableRun h gameId \<equiv> run_steps (commandStep h) (newTable gameId)"

lemma table_run_ok: "table_ok (tableRun h gameId es)"
  by (rule table.run_invar)
    (simp_all add: list_all_iff table_ok_def numbered_def chain_ok_def under_way_def newTable_def noPositions_def)

text \<open>The table does not stay pending: in every run of commands, concessions, answers and snapshots, the
  pending flag is set only while a command is under way, so it is released once all are answered.\<close>

theorem pending_flag_released:
  "tc_pending (tableRun h gameId es) \<Longrightarrow> under_way DirectCommand (tableRun h gameId es) \<noteq> []"
  using table_run_ok by (simp add: table_ok_def)

text \<open>C9: The queue of positions never stalls: in every run, exactly one position command is under way while
  the queue is not empty, that of its first batch, and none when it is empty.\<close>

theorem position_queue_never_stalls:
  "under_way PositionCommand (tableRun h gameId es) = (case bq_chain (tc_positions (tableRun h gameId es)) of
     [] \<Rightarrow> [] | (_, type, p) # _ \<Rightarrow> [\<lparr>rc_origin = PositionCommand, rc_type = type, rc_payload = p\<rparr>])"
  using table_run_ok by (simp add: table_ok_def chain_ok_def)

definition no_words :: table_host where
  "no_words = \<lparr>th_currentPlayer = (\<lambda>t. Some ''a''), th_isLocalPlayerDefeated = (\<lambda>t. False),
     th_errorMessage = (\<lambda>b e. ''failed''), th_order = \<lparr>ko_playerIds = (\<lambda>t. [''a'']), ko_zones = (\<lambda>p. [Hand, Battlefield])\<rparr>,
     th_parse = (\<lambda>s. NaN), th_viewport = id, th_values = id\<rparr>"

theorem pending_flag_released_witness:
  "under_way DirectCommand (tableRun no_words ''g'' [IssueCommand ''turn.changed'' [] False]) \<noteq> []"
  by (rule pending_flag_released)
    (simp add: storeCommand_def issueCommand_def newTable_def isBattlefieldPositionCommand_def)

section \<open>One command at a time\<close>

definition unforced :: "command_event \<Rightarrow> bool" where
  "unforced e = (case e of IssueCommand _ _ force \<Rightarrow> \<not> force | Concede \<Rightarrow> False | _ \<Rightarrow> True)"

definition single :: "table_commands \<Rightarrow> bool" where
  "single s \<longleftrightarrow> table_ok s \<and> length (under_way DirectCommand s) = (if tc_pending s then 1 else 0)"

lemma single_cong:
  "tc_running s = tc_running t \<Longrightarrow> tc_positions s = tc_positions t \<Longrightarrow> tc_fresh s = tc_fresh t \<Longrightarrow>
     tc_pending s = tc_pending t \<Longrightarrow> single s = single t"
  using table_cong [of s t] under_way_cong [of s t] by (simp add: single_def)

lemma startPersist_direct:
  "under_way DirectCommand (startPersist u) = under_way DirectCommand u" "tc_pending (startPersist u) = tc_pending u"
  by (simp_all add: startPersist_def split: list.split prod.split)

lemma issue_single:
  assumes "single s"
  shows "single (issueCommand h type p False s)"
proof -
  have queue: "under_way DirectCommand t = under_way DirectCommand s \<and> tc_pending t = tc_pending s"
    if q: "queuePosition type p s = (True, t)" for t
  proof -
    obtain q where "t = startPersist (s\<lparr>tc_positions := q\<rparr>) \<or> t = s\<lparr>tc_positions := q\<rparr>"
      using q by (auto simp: queuePosition_def split: prod.splits bool.splits if_splits)
    moreover have "under_way DirectCommand (s\<lparr>tc_positions := q\<rparr>) = under_way DirectCommand s"
      by (simp add: under_way_def)
    ultimately show ?thesis by (auto simp: startPersist_direct)
  qed
  have same: "under_way DirectCommand (s\<lparr>tc_pending := True, tc_error := e, tc_tracking := tr\<rparr>) = under_way DirectCommand s" for e tr
    by (simp add: under_way_def)
  obtain b t where q: "(if isBattlefieldPositionCommand type then queuePosition type p s else (False, s)) = (b, t)" by fastforce
  have "length (under_way DirectCommand (issueCommand h type p False s))
      = (if tc_pending (issueCommand h type p False s) then 1 else 0)"
  proof (cases b)
    case True
    then have "queuePosition type p s = (True, t)" using q by (simp split: if_splits)
    with queue [OF this] q True assms show ?thesis by (auto simp: issueCommand_def single_def)
  next
    case False
    with q assms same show ?thesis by (auto simp: issueCommand_def single_def split: if_splits)
  qed
  with assms issue_ok show ?thesis by (simp add: single_def)
qed

lemma answered_single:
  assumes "single s"
  shows "single (commandAnswered h n a s)"
proof (cases "map_of (tc_running s) n")
  case (Some c)
  let ?t = "s\<lparr>tc_running := filter (\<lambda>(i, _). i \<noteq> n) (tc_running s)\<rparr>"
  have n: "numbered s" and ok: "table_ok s" using assms by (simp_all add: single_def table_ok_def)
  note way = under_way_answered [OF n Some]
  have "length (under_way DirectCommand (commandAnswered h n a s)) = (if tc_pending (commandAnswered h n a s) then 1 else 0)"
  proof (cases "rc_origin c")
    case DirectCommand
    have "length (under_way DirectCommand s) = 1"
      using assms way(1) DirectCommand by (simp add: single_def split: if_splits)
    then obtain x where "under_way DirectCommand s = [x]" by (auto simp: length_Suc_conv)
    then have "under_way DirectCommand ?t = []" using way(3) DirectCommand by simp
    then show ?thesis
      using Some DirectCommand under_way_cong [of "commandEnds h (rc_type c) a ?t" ?t] by (simp add: commandAnswered_def)
  next
    case PositionCommand
    then obtain x rest where chain: "bq_chain (tc_positions s) = x # rest"
      using ok way(1) by (auto simp: table_ok_def chain_ok_def split: list.splits)
    then have "bq_chain (tc_positions ?t) = x # rest" by simp
    from positionEnds_fields [OF this, of h "rc_type c" a] obtain u
      where u: "positionEnds h (rc_type c) a ?t = startPersist u" "tc_running u = tc_running ?t" "tc_pending u = tc_pending ?t" by metis
    have "under_way DirectCommand u = under_way DirectCommand s"
      using u(2) way(2) [of DirectCommand] PositionCommand under_way_cong [of u ?t DirectCommand] by simp
    then show ?thesis
      using Some PositionCommand u assms startPersist_direct [of u] by (simp add: commandAnswered_def single_def)
  qed
  with command_answered_ok [OF ok] show ?thesis by (simp add: single_def)
qed (use assms in \<open>simp add: commandAnswered_def\<close>)

interpretation unforced: invariant_machine "commandStep h" unforced single for h
proof
  show "single (commandStep h s e)" if "single s" "unforced e" for s e
    using that issue_single answered_single
    by (cases e) (auto simp: unforced_def storeCommand_def Let_def intro: iffD1 [OF single_cong, rotated -1])
qed



section \<open>Conceding\<close>

lemma launch_game [simp]: "tc_gameId (launch origin type p s) = tc_gameId s"
  by (simp add: launch_def)

lemma persist_game [simp]: "tc_gameId (startPersist s) = tc_gameId s"
  by (simp add: startPersist_def split: list.split prod.split)

lemma map_game [simp]:
  "tc_gameId (mapFeedback f s) = tc_gameId s" "tc_gameId (mapTransfers g s) = tc_gameId s"
  by (simp_all add: mapFeedback_def mapTransfers_def)

lemma snapshot_game: "setTableSnapshot h b t s = (e, u) \<Longrightarrow> tc_gameId u = tc_gameId s"
  by (auto simp: setTableSnapshot_def syncLocalConcede_def Let_def split: option.splits sum.splits if_splits)

lemma answer_game: "applyAnswer h type a s = (e, u) \<Longrightarrow> tc_gameId u = tc_gameId s"
  by (auto simp: applyAnswer_def dest!: snapshot_game split: sum.splits prod.splits option.splits if_splits)

lemma ends_game:
  "tc_gameId (commandEnds h type a s) = tc_gameId s" "tc_gameId (positionEnds h type a s) = tc_gameId s"
  by (auto simp: commandEnds_def positionEnds_def commandFails_def setGameActionError_def Let_def
      dest!: answer_game split: prod.split option.split)

lemma issue_game [simp]: "tc_gameId (issueCommand h type p force s) = tc_gameId s"
  by (auto simp: issueCommand_def queuePosition_def split: prod.splits bool.splits if_splits)

lemma gameId_kept: "tc_gameId (commandStep h s e) = tc_gameId s"
  by (cases e) (auto simp: storeCommand_def concedeGame_def commandAnswered_def ends_game Let_def
      snapshot_game [OF surjective_pairing] split: option.split command_origin.split)

text \<open>A command that is no position and that nothing holds back.\<close>

lemma issued:
  assumes "tc_gameId s \<noteq> []" "\<not> isBattlefieldPositionCommand type" "tc_pending s \<longrightarrow> force" "type \<noteq> ''turn.changed''"
  shows "tc_running (commandStep h s (IssueCommand type p force))
      = tc_running s @ [(tc_fresh s, \<lparr>rc_origin = DirectCommand, rc_type = type, rc_payload = p\<rparr>)]"
    "tc_pending (commandStep h s (IssueCommand type p force))"
    "tc_fresh (commandStep h s (IssueCommand type p force)) = Suc (tc_fresh s)"
    "tc_gameId (commandStep h s (IssueCommand type p force)) = tc_gameId s"
    "tc_snapshot (commandStep h s (IssueCommand type p force)) = tc_snapshot s"
  using assms by (auto simp: storeCommand_def issueCommand_def)

lemma not_position: "\<not> isBattlefieldPositionCommand ''card.tapped''" "\<not> isBattlefieldPositionCommand ''life.changed''"
  by (simp_all add: isBattlefieldPositionCommand_def)

lemma conceded:
  assumes "tc_gameId s \<noteq> []" "th_currentPlayer h (tc_snapshot s) = Some p"
    "Option.bind (tc_snapshot s) (\<lambda>t. Option.bind (sn_players t p) pl_status) = Some ActivePlayer"
  shows "tc_running (commandStep h s Concede) = tc_running s
      @ [(tc_fresh s, \<lparr>rc_origin = DirectCommand, rc_type = ''game.concede'', rc_payload = [(''playerId'', JStr p)]\<rparr>)]"
    "tc_fresh (commandStep h s Concede) = Suc (tc_fresh s)" "tc_gameId (commandStep h s Concede) = tc_gameId s"
    "tc_locallyConcededPlayerId (commandStep h s Concede) = Some p" "tc_snapshot (commandStep h s Concede) = tc_snapshot s"
  using assms by (simp_all add: concedeGame_def storeCommand_def issueCommand_def isBattlefieldPositionCommand_def)

definition live_table :: game_snapshot where
  "live_table = bare_snapshot\<lparr>sn_players := [''a'' \<mapsto> bare_player\<lparr>pl_status := Some ActivePlayer\<rparr>]\<rparr>"


text \<open>A command that fails leaves nothing in transit: no card is pending, no entry is marked, the flag is
  released, and the player sees an error or is asked to reload, but for the two errors that are kept silent.\<close>

theorem failed_command_clears_transit:
  fixes h :: table_host and e :: thrown
  assumes "map_of (tc_running s) n = Some c" and "rc_origin c = DirectCommand"
  defines "after \<equiv> commandAnswered h n (Inl e) s"
  shows "\<not> tc_pending after \<and> \<not> isCardPending p z i (tt_transfers (tc_tracking after))
    \<and> df_pendingBattlefieldEntries (tt_feedback (tc_tracking after)) = {}
    \<and> (if requiresPageReload e then tc_reloadReason after = Some ''sync-timeout''
       else shouldSuppressCommandErrorToast (rc_type c) (th_errorMessage h (th_isLocalPlayerDefeated h (tc_snapshot s)) e) e
         \<or> tc_error after \<noteq> None)"
  using assms
  by (simp add: commandAnswered_def commandEnds_def applyAnswer_def commandFails_def Let_def mapFeedback_def
      mapTransfers_def mark_def clearTransfers_def rebuildKeys_def clearPendingBattlefieldEntries_def isCardPending_def)

theorem failed_command_clears_transit_witness:
  "\<not> tc_pending (commandAnswered no_words 0 (Inl (ThrownError ''refused''))
     (tableRun no_words ''g'' [IssueCommand ''card.tapped'' [] False]))"
proof -
  let ?s = "tableRun no_words ''g'' [IssueCommand ''card.tapped'' [] False]"
  have "tc_gameId (newTable ''g'') \<noteq> []" by (simp add: newTable_def)
  from issued [OF this not_position(1), of False no_words "[]"]
  have "map_of (tc_running ?s) 0 = Some \<lparr>rc_origin = DirectCommand, rc_type = ''card.tapped'', rc_payload = []\<rparr>"
    by (simp add: newTable_def del: commandStep.simps)
  from failed_command_clears_transit [OF this] show ?thesis by simp
qed



end
