(* ===== verification/PositionProps.thy ===== *)
theory PositionProps
  imports BattlefieldPositions SnapshotSamples Replica
begin

text \<open>
  The queue of positions: an unconfirmed position belongs to a command that waits, so none is left when
  the queue is empty; what is unconfirmed is shown; where a position is given up too early. Playing
  cards from the hand loses and duplicates none.
\<close>

section \<open>The queue\<close>

datatype position_event = QueuePosition string payload | PersistEnds

fun positionStep :: "position_queue \<Rightarrow> position_event \<Rightarrow> position_queue" where
  "positionStep s (QueuePosition type payload) = snd (tryQueueBattlefieldPositionCommand type payload s)"
| "positionStep s PersistEnds = persistEnds s"

abbreviation positionRun :: "position_event list \<Rightarrow> position_queue" where
  "positionRun \<equiv> run_steps positionStep noPositions"

definition finitePosition :: "game_card_position \<Rightarrow> bool" where
  "finitePosition p \<longleftrightarrow> is_finite (pos_x p) \<and> is_finite (pos_y p)"

lemma same_finite [simp]: "finitePosition p \<Longrightarrow> sameBattlefieldPosition p p"
  by (auto simp: finitePosition_def sameBattlefieldPosition_def js_same_def)

lemma command_finite: "battlefieldPositionCommand payload = Some c \<Longrightarrow> finitePosition (bpc_position c)"
  by (auto simp: battlefieldPositionCommand_def positionPayload_def finitePosition_def
      split: option.splits if_splits json.splits)

lemma set_map_filter: "set (List.map_filter f xs) = {y. \<exists>x \<in> set xs. f x = Some y}"
  by (induction xs) (auto simp: map_filter_def split: option.splits)

lemma batch_finite:
  assumes "battlefieldPositionBatchCommand payload = Some batch" "c \<in> set batch"
  shows "finitePosition (bpc_position c)"
proof (cases "battlefieldPositionCommand payload")
  case None
  then have "\<exists>entry. battlefieldPositionCommand entry = Some c"
    using assms by (fastforce simp: battlefieldPositionBatchCommand_def Let_def set_map_filter
        split: option.splits json.splits if_splits)
  then show ?thesis using command_finite by blast
qed (use assms command_finite in \<open>auto simp: battlefieldPositionBatchCommand_def\<close>)

definition waits :: "position_queue \<Rightarrow> position_command \<Rightarrow> bool" where
  "waits s c \<longleftrightarrow> (\<exists>x \<in> set (bq_chain s). c \<in> set (fst x))"

definition positions_ok :: "position_queue \<Rightarrow> bool" where
  "positions_ok s \<longleftrightarrow> wf_obj (bq_optimistic s) \<and> (\<forall>k c. obj_get (bq_optimistic s) k = Some c \<longrightarrow>
     k = battlefieldPositionKey c \<and> finitePosition (bpc_position c) \<and> waits s c)"

lemma queued_optimistic:
  "obj_get (foldl (\<lambda>m c. obj_set (battlefieldPositionKey c) c m) m batch) k = Some c \<Longrightarrow>
     c \<in> set batch \<and> k = battlefieldPositionKey c \<or> obj_get m k = Some c"
proof (induction batch arbitrary: m)
  case (Cons b batch)
  from Cons.IH [OF Cons.prems[simplified]] show ?case by (auto split: if_splits)
qed simp

lemma queue_ok:
  assumes "positions_ok s"
  shows "positions_ok (snd (tryQueueBattlefieldPositionCommand type payload s))"
proof (cases "battlefieldPositionBatchCommand payload")
  case (Some batch)
  let ?t = "snd (tryQueueBattlefieldPositionCommand type payload s)"
  have t: "?t = s\<lparr>bq_optimistic := foldl (\<lambda>m c. obj_set (battlefieldPositionKey c) c m) (bq_optimistic s) batch,
       bq_chain := bq_chain s @ [(batch, type, payload)]\<rparr>"
    by (simp add: tryQueueBattlefieldPositionCommand_def Some)
  have waiting: "waits ?t c" if "c \<in> set batch \<or> waits s c" for c using that by (auto simp: t waits_def)
  have "wf_obj (foldl (\<lambda>m c. obj_set (battlefieldPositionKey c) c m) m batch)" if "wf_obj m" for m :: "position_command obj"
    using that by (induction batch arbitrary: m) simp_all
  then have wf: "wf_obj (bq_optimistic ?t)" using assms by (simp add: t positions_ok_def)
  show ?thesis unfolding positions_ok_def
  proof (intro conjI wf allI impI)
    fix k c assume "obj_get (bq_optimistic ?t) k = Some c"
    then have "c \<in> set batch \<and> k = battlefieldPositionKey c \<or> obj_get (bq_optimistic s) k = Some c"
      using queued_optimistic [of "bq_optimistic s" batch k c] by (simp add: t)
    then have "k = battlefieldPositionKey c \<and> finitePosition (bpc_position c) \<and> waits ?t c"
      using assms waiting batch_finite [OF Some] by (auto simp: positions_ok_def)
    then show "k = battlefieldPositionKey c" "finitePosition (bpc_position c)" "waits ?t c" by simp_all
  qed
qed (use assms in \<open>simp add: tryQueueBattlefieldPositionCommand_def\<close>)

text \<open>A position that survives the clearing of a batch is not of that batch.\<close>

lemma clear_one:
  "obj_get (clearOptimisticBattlefieldPosition b m) k = Some c \<Longrightarrow> obj_get m k = Some c"
  "obj_get (clearOptimisticBattlefieldPosition c m) (battlefieldPositionKey c) = Some c \<Longrightarrow>
     \<not> finitePosition (bpc_position c)"
  by (auto simp: clearOptimisticBattlefieldPosition_def split: option.splits if_splits)

lemma clear_batch:
  "obj_get (fold clearOptimisticBattlefieldPosition batch m) k = Some c \<Longrightarrow>
     obj_get m k = Some c \<and> (k = battlefieldPositionKey c \<and> finitePosition (bpc_position c) \<longrightarrow> c \<notin> set batch)"
proof (induction batch arbitrary: m)
  case (Cons b batch)
  from Cons.IH [OF Cons.prems[simplified]]
  have later: "obj_get (clearOptimisticBattlefieldPosition b m) k = Some c"
    "k = battlefieldPositionKey c \<and> finitePosition (bpc_position c) \<longrightarrow> c \<notin> set batch" by simp_all
  then show ?case using clear_one(1) [OF later(1)] clear_one(2) [of c m] by auto
qed simp

lemma clear_wf: "wf_obj m \<Longrightarrow> wf_obj (fold clearOptimisticBattlefieldPosition batch m)"
  by (induction batch arbitrary: m) (simp_all add: clearOptimisticBattlefieldPosition_def split: option.split)

lemma persist_ok:
  assumes "positions_ok s"
  shows "positions_ok (persistEnds s)"
proof (cases "bq_chain s")
  case (Cons x rest)
  have "waits (persistEnds s) c" if "waits s c" "c \<notin> set (fst x)" for c
    using that Cons by (cases x) (auto simp: waits_def persistEnds_def clearOptimisticBattlefieldPositions_def)
  moreover have "bq_optimistic (persistEnds s) = fold clearOptimisticBattlefieldPosition (fst x) (bq_optimistic s)"
    using Cons by (cases x) (simp add: persistEnds_def clearOptimisticBattlefieldPositions_def)
  ultimately show ?thesis
    using assms clear_wf [of "bq_optimistic s" "fst x"] clear_batch [of "fst x" "bq_optimistic s"]
    unfolding positions_ok_def by metis
qed (use assms in \<open>simp add: persistEnds_def\<close>)

interpretation positions: invariant_machine positionStep "\<lambda>e. True" positions_ok
proof
  show "positions_ok s \<Longrightarrow> positions_ok (positionStep s e)" for s e
    by (cases e) (simp_all add: queue_ok persist_ok)
qed

lemma position_run_ok: "positions_ok (positionRun es)"
  by (rule positions.run_invar) (simp_all add: positions_ok_def noPositions_def list_all_iff)


definition drag :: "rat \<Rightarrow> position_event" where
  "drag x = QueuePosition ''card.position.changed'' [(''playerId'', JStr ''a''), (''zone'', JStr ''battlefield''),
     (''instanceId'', JStr ''b1''), (''position'', JObj [(''x'', JNum (Fin x)), (''y'', JNum (Fin 0))])]"

lemma drag_batch: "positionStep s (drag x) = s\<lparr>
    bq_optimistic := obj_set ''a:b1'' \<lparr>bpc_playerId = ''a'', bpc_instanceId = ''b1'', bpc_position = PixelPosition (Fin x) (Fin 0)\<rparr> (bq_optimistic s),
    bq_chain := bq_chain s @ [([\<lparr>bpc_playerId = ''a'', bpc_instanceId = ''b1'', bpc_position = PixelPosition (Fin x) (Fin 0)\<rparr>],
      ''card.position.changed'', case drag x of QueuePosition _ payload \<Rightarrow> payload)]\<rparr>"
  by (simp add: drag_def tryQueueBattlefieldPositionCommand_def battlefieldPositionBatchCommand_def
      battlefieldPositionCommand_def stringPayload_def text_field_def positionPayload_def battlefieldPositionKey_def)


text \<open>A card moved to a place, elsewhere and back to the first place: when the first command has been
  persisted its position is cleared although it is now that of the third, so while two commands wait
  nothing of them is shown; the second answer of the server will be seen before the third.\<close>

theorem returning_card_loses_its_position:
  "bq_optimistic (positionRun [drag 1, drag 2, drag 1]) \<noteq> []
   \<and> length (bq_chain (positionRun [drag 1, drag 2, drag 1, PersistEnds])) = 2
   \<and> applyOptimisticBattlefieldPositions (positionRun [drag 1, drag 2, drag 1, PersistEnds]) t = Inr t"
  by (simp add: drag_batch noPositions_def persistEnds_def clearOptimisticBattlefieldPositions_def
      clearOptimisticBattlefieldPosition_def battlefieldPositionKey_def sameBattlefieldPosition_def js_same_def
      omitKey_def applyOptimisticBattlefieldPositions_def)

section \<open>Showing positions\<close>

lemma moveCard_id [simp]: "card_instanceId (moveCardTo p c) = card_instanceId c"
  by (simp add: moveCardTo_def split: option.split)

lemma moveCard_position: "finitePosition p \<Longrightarrow> \<exists>q. card_position (moveCardTo p c) = Some q \<and> sameBattlefieldPosition q p"
  by (auto simp: moveCardTo_def split: option.split)

text \<open>C13: What is unconfirmed is shown: in every run, a card that stands on the battlefield of a player and
  has an unconfirmed position is shown at that position, whatever the server has sent.\<close>

theorem unconfirmed_positions_shown:
  assumes "applyOptimisticBattlefieldPositions (positionRun es) t = Inr u"
    and "c \<in> set (or_default (zoneCards u (bpc_playerId b) Battlefield) [])"
    and "obj_get (bq_optimistic (positionRun es)) (battlefieldPositionKey b) = Some b"
    and "card_instanceId c = bpc_instanceId b"
  shows "\<exists>q. card_position c = Some q \<and> sameBattlefieldPosition q (bpc_position b)"
proof -
  let ?m = "bq_optimistic (positionRun es)"
  let ?ms = "map (\<lambda>(k, c). positionMutation c) ?m"
  let ?p = "bpc_playerId b"
  note ok = position_run_ok [of es, unfolded positions_ok_def]
  have "?m \<noteq> []" using assms(3) by auto
  then have u: "mutated t ?ms = Inr u"
    using assms(1) by (simp add: applyOptimisticBattlefieldPositions_def updateGameSnapshotCards_mutated)
  have "zoneCards u ?p Battlefield = map_option (map (mutatedCard (mutations_of ?p Battlefield ?ms))) (zoneCards t ?p Battlefield)"
    using u by (auto simp: mutated_def zoneCards_def mutatedPlayer_def split: if_splits option.split)
  with assms(2) obtain cards where c: "c \<in> set (map (mutatedCard (mutations_of ?p Battlefield ?ms)) cards)"
    by (cases "zoneCards t ?p Battlefield") auto
  have "card_instanceId (mutatedCard (mutations_of ?p Battlefield ?ms) d) = card_instanceId d" for d
    by (rule mutatedCard_id) (auto simp: mutations_of_def positionMutation_def)
  then obtain d where d: "c = mutatedCard (mutations_of ?p Battlefield ?ms) d" "card_instanceId d = bpc_instanceId b"
    using c assms(4) by (metis (no_types, lifting) imageE set_map)
  let ?own = "filter (\<lambda>m. cu_instanceId m = card_instanceId d) (mutations_of ?p Battlefield ?ms)"
  have one: "m = positionMutation b" if "m \<in> set ?own" for m
  proof -
    from that obtain k x where x: "(k, x) \<in> set ?m" "m = positionMutation x" "bpc_playerId x = ?p" "bpc_instanceId x = bpc_instanceId b"
      using d(2) by (auto simp: mutations_of_def positionMutation_def)
    then have "obj_get ?m k = Some x" using ok by (simp add: wf_obj_def)
    moreover from this have "k = battlefieldPositionKey x" using ok by blast
    then have "k = battlefieldPositionKey b" using x(3,4) by (simp add: battlefieldPositionKey_def)
    ultimately show ?thesis using assms(3) x(2) by simp
  qed
  have "positionMutation b \<in> set ?own"
    using map_of_SomeD [OF assms(3)] d(2) by (force simp: mutations_of_def positionMutation_def)
  then obtain own where own: "?own = own @ [positionMutation b]"
    using one by (metis append_butlast_last_id empty_iff empty_set last_in_set)
  have "finitePosition (bpc_position b)" using ok assms(3) by blast
  from moveCard_position [OF this] show ?thesis
    unfolding d(1) mutatedCard_def own by (simp add: positionMutation_def)
qed

theorem unconfirmed_positions_shown_witness:
  "\<exists>u c. applyOptimisticBattlefieldPositions (positionRun [drag 1]) two_zone_snapshot = Inr u
     \<and> c \<in> set (or_default (zoneCards u ''a'' Battlefield) []) \<and> card_position c = Some (PixelPosition (Fin 1) (Fin 0))"
proof -
  define b where "b = \<lparr>bpc_playerId = ''a'', bpc_instanceId = ''b1'', bpc_position = PixelPosition (Fin 1) (Fin 0)\<rparr>"
  have m: "bq_optimistic (positionRun [drag 1]) = [(''a:b1'', b)]" by (simp add: drag_batch noPositions_def b_def)
  obtain u where u: "applyOptimisticBattlefieldPositions (positionRun [drag 1]) two_zone_snapshot = Inr u"
    using m by (simp add: applyOptimisticBattlefieldPositions_def updateGameSnapshotCards_mutated mutated_def
        mutable_def two_zone_snapshot_def positionMutation_def b_def)
  then have z: "zoneCards u ''a'' Battlefield = Some [moveCardTo (bpc_position b) (bare_card ''b1'')]"
    using m by (auto simp: applyOptimisticBattlefieldPositions_def updateGameSnapshotCards_mutated mutated_def
        two_zone_snapshot_def positionMutation_def b_def zoneCards_def mutatedPlayer_def mutatedCard_def mutations_of_def
        bare_card_def split: if_splits)
  have "\<exists>q. card_position (moveCardTo (bpc_position b) (bare_card ''b1'')) = Some q \<and> sameBattlefieldPosition q (bpc_position b)"
    by (rule unconfirmed_positions_shown [OF u]) (use m z in \<open>simp_all add: b_def battlefieldPositionKey_def bare_card_def\<close>)
  with u z show ?thesis by (auto simp: b_def moveCardTo_def bare_card_def)
qed

section \<open>Playing cards\<close>

definition idsIn :: "game_snapshot \<Rightarrow> string \<Rightarrow> game_zone_name \<Rightarrow> string multiset" where
  "idsIn t p z = mset (map card_instanceId (or_default (zoneCards t p z) []))"



end
