(* ===== verification/TransferProps.thy ===== *)
theory TransferProps
  imports PendingTransfer SnapshotSamples Replica
begin

text \<open>
  The specification of the pending transfers: a map from what is moved (player, zone and the set of
  cards) to what was known of the source, and the proof that the class, with its text keys and its
  two sets of keys, implements it.
\<close>

section \<open>Text keys\<close>

lemma split_at_first [simp]: "c \<notin> set x \<Longrightarrow> split_at c (x @ c # rest) = x # split_at c rest"
  by (induction x) auto

lemma split_at_free [simp]: "c \<notin> set x \<Longrightarrow> split_at c x = [x]"
  by (induction x) auto

lemma split_join: "\<forall>x \<in> set xs. c \<notin> set x \<Longrightarrow> split_at c (join_strings [c] xs) = (if xs = [] then [[]] else xs)"
  by (induction "[c]" xs rule: join_strings.induct) auto

lemma join_inject:
  assumes "\<forall>x \<in> set xs \<union> set ys. c \<notin> set x \<and> x \<noteq> []" and "join_strings [c] xs = join_strings [c] ys"
  shows "xs = ys"
proof -
  have "(if xs = [] then [[]] else xs) = (if ys = [] then [[]] else ys)"
    using split_join [of xs c] split_join [of ys c] assms by auto
  then show ?thesis using assms(1) by (auto split: if_splits)
qed

lemma zone_text_facts: "CHR '':'' \<notin> set (zone_text z)" "zone_text z = zone_text z' \<longleftrightarrow> z = z'"
  by (cases z; cases z'; simp add: zone_text_def)+

lemma colon_inject: "CHR '':'' \<notin> set a \<Longrightarrow> CHR '':'' \<notin> set b \<Longrightarrow> a @ '':'' @ x = b @ '':'' @ y \<longleftrightarrow> a = b \<and> x = y"
proof (induction a arbitrary: b)
  case Nil
  then show ?case by (cases b) auto
next
  case (Cons c a)
  then show ?case by (cases b) auto
qed

lemma zoneKey_inject:
  "CHR '':'' \<notin> set p \<Longrightarrow> CHR '':'' \<notin> set q \<Longrightarrow> transferZoneKey p z = transferZoneKey q z' \<longleftrightarrow> p = q \<and> z = z'"
  using colon_inject [of p q "zone_text z" "zone_text z'"] by (simp add: transferZoneKey_def zone_text_facts)

lemma cardKey_inject:
  "CHR '':'' \<notin> set p \<Longrightarrow> CHR '':'' \<notin> set q \<Longrightarrow>
     transferCardKey p z i = transferCardKey q z' j \<longleftrightarrow> p = q \<and> z = z' \<and> i = j"
  using colon_inject [of p q "zone_text z @ '':'' @ i" "zone_text z' @ '':'' @ j"]
    colon_inject [of "zone_text z" "zone_text z'" i j]
  by (auto simp: transferCardKey_def zone_text_facts)

text \<open>Ids as the server makes them: not empty, and without the characters the keys are joined with.\<close>

definition plainIds :: "string \<Rightarrow> string set \<Rightarrow> bool" where
  "plainIds playerId ids \<longleftrightarrow> CHR '':'' \<notin> set playerId \<and> (\<forall>i \<in> ids. i \<noteq> [] \<and> CHR ''|'' \<notin> set i)"

lemma transferKey_inject:
  assumes "plainIds p (set xs)" "plainIds q (set ys)" "distinct xs" "distinct ys"
  shows "transferKey p z xs = transferKey q z' ys \<longleftrightarrow> p = q \<and> z = z' \<and> set xs = set ys"
proof
  assume k: "transferKey p z xs = transferKey q z' ys"
  have colons: "CHR '':'' \<notin> set p" "CHR '':'' \<notin> set q" using assms(1,2) by (simp_all add: plainIds_def)
  let ?X = "join_strings ''|'' (List.sort xs)" and ?Y = "join_strings ''|'' (List.sort ys)"
  have "p @ '':'' @ (zone_text z @ '':'' @ ?X) = q @ '':'' @ (zone_text z' @ '':'' @ ?Y)"
    using k unfolding transferKey_def transferZoneKey_def append_assoc .
  then have "p = q" and k': "zone_text z @ '':'' @ ?X = zone_text z' @ '':'' @ ?Y"
    unfolding colon_inject [OF colons] by blast+
  moreover have "z = z'" and "?X = ?Y"
    using k' unfolding colon_inject [OF zone_text_facts(1) zone_text_facts(1)] zone_text_facts(2) by blast+
  moreover have "List.sort xs = List.sort ys" using _ \<open>?X = ?Y\<close>
    by (rule join_inject) (use assms(1,2) in \<open>simp add: plainIds_def ball_Un\<close>)
  then have "set (List.sort xs) = set (List.sort ys)" by simp
  then have "set xs = set ys" by simp
  ultimately show "p = q \<and> z = z' \<and> set xs = set ys" by blast
next
  assume k: "p = q \<and> z = z' \<and> set xs = set ys"
  then have "mset xs = mset ys" using set_eq_iff_mset_eq_distinct [OF assms(3,4)] by blast
  then have "List.sort xs = List.sort ys" by (intro properties_for_sort) simp_all
  with k show "transferKey p z xs = transferKey q z' ys" by (simp add: transferKey_def)
qed

section \<open>Specification\<close>

type_synonym transfer_spec = "string \<times> game_zone_name \<times> string set \<rightharpoonup> int option \<times> jsnum option"

datatype transfer_event =
    Registered transfer_registration
  | Reconciled "game_snapshot option"
  | Cleared

definition specOver :: "game_snapshot \<Rightarrow> string \<times> game_zone_name \<times> string set \<Rightarrow> int option \<times> jsnum option \<Rightarrow> bool" where
  "specOver t = (\<lambda>(playerId, zone, ids) (version, countThen).
     let here = card_instanceId ` set (zoneCardsOf (Some t) playerId zone);
         countNow = or_default (Option.bind (sn_players t playerId) (\<lambda>p. Option.bind (pl_zoneCounts p) (\<lambda>n. n zone)))
           (num (length (zoneCardsOf (Some t) playerId zone)))
     in zone = Library \<and> (\<exists>n. countThen = Some n \<and> js_less countNow n)
        \<or> (if ids = {} then \<forall>v. version = Some v \<longrightarrow> v < sn_version t else ids \<inter> here = {}))"

fun specStep :: "transfer_spec \<Rightarrow> transfer_event \<Rightarrow> transfer_spec" where
  "specStep m (Registered r) = m((reg_playerId r, reg_fromZone r, set (reg_instanceIds r)) \<mapsto>
     (reg_sourceVersion r, reg_sourceZoneCount r))"
| "specStep m (Reconciled None) = m"
| "specStep m (Reconciled (Some t)) = (\<lambda>k. case m k of None \<Rightarrow> None | Some d \<Rightarrow> if specOver t k d then None else Some d)"
| "specStep m Cleared = Map.empty"

fun transferStep :: "pending_transfers \<Rightarrow> transfer_event \<Rightarrow> pending_transfers" where
  "transferStep s (Registered r) = registerTransfer r s"
| "transferStep s (Reconciled t) = reconcileSnapshot t s"
| "transferStep s Cleared = clearTransfers s"

text \<open>The abstraction.\<close>

definition transferOf :: "pending_transfer \<Rightarrow> string \<times> game_zone_name \<times> string set" where
  "transferOf t = (tr_playerId t, tr_fromZone t, set (tr_instanceIds t))"

definition tracked :: "pending_transfers \<Rightarrow> transfer_spec" where
  "tracked s = map_of (map (\<lambda>t. (transferOf t, tr_sourceVersion t, tr_sourceZoneCount t)) (pt_transfers s))"

definition transfer_ok :: "pending_transfer \<Rightarrow> bool" where
  "transfer_ok t \<longleftrightarrow> tr_key t = transferKey (tr_playerId t) (tr_fromZone t) (tr_instanceIds t)
     \<and> distinct (tr_instanceIds t) \<and> plainIds (tr_playerId t) (set (tr_instanceIds t))"

definition transfers_ok :: "pending_transfers \<Rightarrow> bool" where
  "transfers_ok s \<longleftrightarrow> list_all transfer_ok (pt_transfers s) \<and> distinct (map transferOf (pt_transfers s)) \<and> rebuildKeys s = s"

definition plainEvent :: "transfer_event \<Rightarrow> bool" where
  "plainEvent e = (case e of Registered r \<Rightarrow> plainIds (reg_playerId r) (set (reg_instanceIds r)) | _ \<Rightarrow> True)"

section \<open>Refinement\<close>

lemma rebuild_simps [simp]:
  "pt_transfers (rebuildKeys s) = pt_transfers s" "rebuildKeys (rebuildKeys s) = rebuildKeys s"
  "tracked (rebuildKeys s) = tracked s"
  by (simp_all add: rebuildKeys_def tracked_def)

lemma removeTransfers_eq:
  assumes "rebuildKeys s = s"
  shows "removeTransfers P s = rebuildKeys (s\<lparr>pt_transfers := filter (\<lambda>t. \<not> P t) (pt_transfers s)\<rparr>)"
proof (cases "length (filter (\<lambda>t. \<not> P t) (pt_transfers s)) = length (pt_transfers s)")
  case True
  then have "filter (\<lambda>t. \<not> P t) (pt_transfers s) = pt_transfers s"
    by (metis filter_id_conv length_filter_less nat_neq_iff)
  with assms show ?thesis by (simp add: removeTransfers_def)
qed (simp add: removeTransfers_def Let_def)

lemma transfer_over: "transferOver t x = specOver t (transferOf x) (tr_sourceVersion x, tr_sourceZoneCount x)"
proof -
  have cards: "sourceCardsOf t x = zoneCardsOf (Some t) (tr_playerId x) (tr_fromZone x)"
    by (simp add: sourceCardsOf_def zoneCardsOf_def split: option.split)
  have count': "sourceCountOf t x = or_default (Option.bind (sn_players t (tr_playerId x)) (\<lambda>p. Option.bind (pl_zoneCounts p)
      (\<lambda>n. n (tr_fromZone x)))) (num (length (zoneCardsOf (Some t) (tr_playerId x) (tr_fromZone x))))"
    by (simp add: sourceCountOf_def cards)
  have held: "list_ex (\<lambda>i. i \<in> S) ids \<longleftrightarrow> set ids \<inter> S \<noteq> {}" for S and ids :: "string list"
    by (auto simp: list_ex_iff)
  show ?thesis
    unfolding transferOver_def specOver_def transferOf_def cards count' held
    by (cases "tr_sourceZoneCount x"; cases "tr_sourceVersion x"; auto simp: Let_def not_le)
qed

lemma map_of_filter_keyed:
  assumes "distinct (map f xs)" and "\<And>x. x \<in> set xs \<Longrightarrow> P x \<longleftrightarrow> Q (f x) (g x)"
  shows "map_of (map (\<lambda>x. (f x, g x)) (filter P xs)) k
    = (case map_of (map (\<lambda>x. (f x, g x)) xs) k of None \<Rightarrow> None | Some v \<Rightarrow> if Q k v then Some v else None)"
  using assms
proof (induction xs)
  case (Cons a xs)
  have none: "map_of (map (\<lambda>x. (f x, g x)) (filter P xs)) (f a) = None"
    using Cons.prems(1) by (auto simp: map_of_eq_None_iff)
  show ?case using Cons none by auto
qed simp

lemma filtered_ok:
  "transfers_ok s \<Longrightarrow> transfers_ok (rebuildKeys (s\<lparr>pt_transfers := filter P (pt_transfers s)\<rparr>))"
  by (auto simp: transfers_ok_def list_all_iff intro: distinct_map_filter')

lemma registered_refines:
  assumes s: "transfers_ok s" and r: "plainIds (reg_playerId r) (set (reg_instanceIds r))"
  shows "transfers_ok (registerTransfer r s) \<and> tracked (registerTransfer r s) = specStep (tracked s) (Registered r)"
proof -
  let ?ids = "unique (reg_instanceIds r)"
  let ?key = "transferKey (reg_playerId r) (reg_fromZone r) ?ids"
  let ?k = "(reg_playerId r, reg_fromZone r, set (reg_instanceIds r))"
  define new where "new = \<lparr>tr_key = ?key, tr_playerId = reg_playerId r, tr_fromZone = reg_fromZone r,
     tr_instanceIds = ?ids, tr_sourceVersion = reg_sourceVersion r, tr_sourceZoneCount = reg_sourceZoneCount r\<rparr>"
  let ?kept = "filter (\<lambda>t. tr_key t \<noteq> ?key) (pt_transfers s)"
  have key: "tr_key t = ?key \<longleftrightarrow> transferOf t = ?k" if "t \<in> set (pt_transfers s)" for t
    using s r that transferKey_inject [of "tr_playerId t" "tr_instanceIds t" "reg_playerId r" ?ids "tr_fromZone t" "reg_fromZone r"]
    by (auto simp: transfers_ok_def list_all_iff transfer_ok_def transferOf_def)
  have reg: "registerTransfer r s = rebuildKeys (s\<lparr>pt_transfers := ?kept @ [new]\<rparr>)"
    using s by (simp add: registerTransfer_def Let_def transfers_ok_def removeTransfers_eq new_def) (simp add: rebuildKeys_def)
  have new_k: "transferOf new = ?k" by (simp add: new_def transferOf_def)
  have fresh: "?k \<notin> transferOf ` set ?kept" using key by auto
  have ok: "transfers_ok (registerTransfer r s)"
    using s r fresh new_k by (auto simp: transfers_ok_def list_all_iff reg transfer_ok_def new_def intro: distinct_map_filter')
  have "tracked (registerTransfer r s) k = specStep (tracked s) (Registered r) k" for k
  proof (cases "k = ?k")
    case True
    have "map_of (map (\<lambda>t. (transferOf t, tr_sourceVersion t, tr_sourceZoneCount t)) ?kept) ?k = None"
      using fresh by (auto simp: map_of_eq_None_iff)
    with True new_k show ?thesis by (simp add: tracked_def reg map_add_def) (simp add: new_def)
  next
    case False
    have "map_of (map (\<lambda>t. (transferOf t, tr_sourceVersion t, tr_sourceZoneCount t)) ?kept) k = tracked s k"
      unfolding tracked_def
      using map_of_filter_keyed [of transferOf "pt_transfers s" "\<lambda>t. tr_key t \<noteq> ?key" "\<lambda>k d. k \<noteq> ?k"
          "\<lambda>t. (tr_sourceVersion t, tr_sourceZoneCount t)" k] s key False
      by (simp add: transfers_ok_def split: option.split)
    with False new_k show ?thesis by (simp add: tracked_def reg map_add_def split: option.split)
  qed
  with ok show ?thesis by blast
qed

lemma reconciled_refines:
  assumes s: "transfers_ok s"
  shows "transfers_ok (reconcileSnapshot t s) \<and> tracked (reconcileSnapshot t s) = specStep (tracked s) (Reconciled t)"
proof (cases t)
  case (Some u)
  have eq: "reconcileSnapshot (Some u) s = rebuildKeys (s\<lparr>pt_transfers := filter (\<lambda>x. \<not> transferOver u x) (pt_transfers s)\<rparr>)"
  proof (cases "pt_transfers s = []")
    case True
    then have "s\<lparr>pt_transfers := []\<rparr> = s" by simp
    then have "rebuildKeys (s\<lparr>pt_transfers := []\<rparr>) = s" using s by (simp only: transfers_ok_def)
    with True show ?thesis by (simp add: Some reconcileSnapshot_def)
  next
    case False
    with s removeTransfers_eq [of s "transferOver u"] show ?thesis
      by (simp add: Some reconcileSnapshot_def transfers_ok_def)
  qed
  have "tracked (reconcileSnapshot t s) k = specStep (tracked s) (Reconciled t) k" for k
    using map_of_filter_keyed [of transferOf "pt_transfers s" "\<lambda>x. \<not> transferOver u x" "\<lambda>k d. \<not> specOver u k d"
        "\<lambda>t. (tr_sourceVersion t, tr_sourceZoneCount t)" k] s
    by (cases "tracked s k") (auto simp: eq tracked_def Some transfers_ok_def transfer_over)
  moreover have "transfers_ok (reconcileSnapshot t s)" unfolding Some eq by (rule filtered_ok [OF s])
  ultimately show ?thesis by blast
qed (use s in \<open>simp add: reconcileSnapshot_def\<close>)

lemma transfer_step_refines:
  assumes "transfers_ok s" "plainEvent e"
  shows "transfers_ok (transferStep s e) \<and> tracked (transferStep s e) = specStep (tracked s) e"
  using assms registered_refines reconciled_refines
  by (cases e) (auto simp: plainEvent_def clearTransfers_def transfers_ok_def tracked_def)

interpretation transfers: invariant_machine transferStep plainEvent transfers_ok
  by unfold_locales (use transfer_step_refines in blast)

abbreviation transferRun :: "transfer_event list \<Rightarrow> pending_transfers" where
  "transferRun \<equiv> run_steps transferStep noTransfers"

lemma noTransfers_ok: "transfers_ok noTransfers"
  by (simp add: transfers_ok_def noTransfers_def rebuildKeys_def)

lemma transfer_run_ok: "list_all plainEvent es \<Longrightarrow> transfers_ok (transferRun es)"
  by (rule transfers.run_invar [OF noTransfers_ok])

lemma transfer_run_refines:
  "transfers_ok s \<Longrightarrow> list_all plainEvent es \<Longrightarrow> tracked (run_steps transferStep s es) = run_steps specStep (tracked s) es"
  by (induction es arbitrary: s) (simp_all add: transfer_step_refines)

text \<open>What the two sets of keys say.\<close>

lemma pending_iff:
  assumes "transfers_ok s" "CHR '':'' \<notin> set p"
  shows "isCardPending p z i s \<longleftrightarrow> (\<exists>ids. (p, z, ids) \<in> dom (tracked s) \<and> i \<in> ids)"
    and "isZonePending p z s \<longleftrightarrow> (\<exists>ids. (p, z, ids) \<in> dom (tracked s))"
proof -
  have d: "dom (tracked s) = transferOf ` set (pt_transfers s)"
    by (simp add: tracked_def dom_map_of_conv_image_fst image_image)
  have plain: "CHR '':'' \<notin> set (tr_playerId t)" if "t \<in> set (pt_transfers s)" for t
    using assms(1) that by (auto simp: transfers_ok_def list_all_iff transfer_ok_def plainIds_def)
  have keys: "pt_cardKeys s = pt_cardKeys (rebuildKeys s)" "pt_zoneKeys s = pt_zoneKeys (rebuildKeys s)"
    using assms(1) by (simp_all add: transfers_ok_def)
  have "isCardPending p z i s \<longleftrightarrow> (\<exists>t \<in> set (pt_transfers s). tr_playerId t = p \<and> tr_fromZone t = z \<and> i \<in> set (tr_instanceIds t))"
    unfolding isCardPending_def keys(1) using cardKey_inject [OF assms(2) plain] by (auto simp: rebuildKeys_def)
  then show "isCardPending p z i s \<longleftrightarrow> (\<exists>ids. (p, z, ids) \<in> dom (tracked s) \<and> i \<in> ids)"
    unfolding d by (auto simp: transferOf_def image_iff)
  have "isZonePending p z s \<longleftrightarrow> (\<exists>t \<in> set (pt_transfers s). tr_playerId t = p \<and> tr_fromZone t = z)"
    unfolding isZonePending_def keys(2) using zoneKey_inject [OF assms(2) plain] by (auto simp: rebuildKeys_def)
  then show "isZonePending p z s \<longleftrightarrow> (\<exists>ids. (p, z, ids) \<in> dom (tracked s))"
    unfolding d by (auto simp: transferOf_def image_iff)
qed

text \<open>C15: The pending transfers implement their specification: whatever is registered, reconciled and
  cleared, in any order, a card of a player is pending in a zone exactly when a transfer that contains
  it is open in the specification, and a zone is pending exactly when a transfer out of it is.\<close>

theorem pending_transfers_refine:
  assumes "list_all plainEvent es" and "CHR '':'' \<notin> set p"
  defines "m \<equiv> run_steps specStep Map.empty es"
  shows "isCardPending p z i (transferRun es) = (\<exists>ids. (p, z, ids) \<in> dom m \<and> i \<in> ids)
    \<and> isZonePending p z (transferRun es) = (\<exists>ids. (p, z, ids) \<in> dom m)"
proof -
  have "tracked (transferRun es) = m"
    unfolding m_def using transfer_run_refines [OF noTransfers_ok assms(1)] by (simp add: tracked_def noTransfers_def)
  with pending_iff [OF transfer_run_ok [OF assms(1)] assms(2)] show ?thesis by simp
qed

definition handMove :: transfer_registration where
  "handMove = \<lparr>reg_playerId = ''a'', reg_fromZone = Hand, reg_instanceIds = [''c1'', ''x''],
     reg_sourceVersion = Some 0, reg_sourceZoneCount = None\<rparr>"

theorem pending_transfers_refine_witness:
  "isCardPending ''a'' Hand ''x'' (transferRun [Registered handMove, Reconciled (Some two_zone_snapshot)])"
proof -
  have "specOver two_zone_snapshot (''a'', Hand, {''c1'', ''x''}) (Some 0, None) = False"
    by (simp add: specOver_def zoneCardsOf_def two_zone_snapshot_def bare_card_def)
  then have "(\<exists>ids. (''a'', Hand, ids) \<in> dom (run_steps specStep Map.empty [Registered handMove, Reconciled (Some two_zone_snapshot)])
      \<and> ''x'' \<in> ids)"
    by (auto simp: handMove_def)
  with pending_transfers_refine [of "[Registered handMove, Reconciled (Some two_zone_snapshot)]" "''a''" Hand "''x''"]
  show ?thesis by (simp add: plainEvent_def handMove_def plainIds_def)
qed

end
