(* ===== verification/FeedbackProps.thy ===== *)
theory FeedbackProps
  imports DropFeedback SnapshotSamples Replica
begin

text \<open>
  Highlights end: every active key has one running timer. A marked card is highlighted when it is
  first shown on the battlefield, and a snapshot that shows every card where it was highlights nothing.
\<close>

section \<open>Timers\<close>

definition feedback_ok :: "drop_feedback \<Rightarrow> bool" where
  "feedback_ok s \<longleftrightarrow> (\<forall>k key'. key' \<in> df_active s k \<longleftrightarrow> df_timers s (k, key') \<noteq> None)
     \<and> (\<forall>k key' n. df_timers s (k, key') = Some n \<longleftrightarrow> (\<exists>ms. (n, (k, key'), ms) \<in> set (df_running s)))
     \<and> distinct (map fst (df_running s)) \<and> (\<forall>y \<in> set (df_running s). fst y < df_fresh s)"

text \<open>What the operations leave alone, and the fields the invariant does not read.\<close>

lemma feedback_frame [simp]:
  "feedback_ok (s\<lparr>df_previousVersion := v\<rparr>) = feedback_ok s"
  "feedback_ok (s\<lparr>df_previousCards := cs\<rparr>) = feedback_ok s"
  "feedback_ok (s\<lparr>df_pendingManaDrops := ms\<rparr>) = feedback_ok s"
  "feedback_ok (s\<lparr>df_pendingBattlefieldEntries := es\<rparr>) = feedback_ok s"
  "feedback_ok (s\<lparr>df_pendingCommanderBattlefieldEntries := es\<rparr>) = feedback_ok s"
  by (simp_all add: feedback_ok_def)

lemma activateKey_ok [simp]:
  assumes "feedback_ok s"
  shows "feedback_ok (activateKey k key' ms s)"
proof -
  note s = assms[unfolded feedback_ok_def]
  let ?t = "activateKey k key' ms s"
  let ?kept = "case df_timers s (k, key') of None \<Rightarrow> df_running s
       | Some existing \<Rightarrow> filter (\<lambda>(i, _). i \<noteq> existing) (df_running s)"
  have kept: "set ?kept = {x \<in> set (df_running s). Some (fst x) \<noteq> df_timers s (k, key')}"
    by (auto split: option.split)
  have run: "df_running ?t = ?kept @ [(df_fresh s, (k, key'), ms)]" by (simp add: activateKey_def)
  have small: "fst y < df_fresh s" if "y \<in> set ?kept" for y using that s kept by auto
  have d: "distinct (map fst ?kept)" using s by (auto split: option.split intro: distinct_map_filter')
  have uniq: "x = y" if "(n, x) \<in> set (df_running s)" "(n, y) \<in> set (df_running s)" for n x y
    using s that by (meson eq_key_imp_eq_value)
  have timer: "df_timers s (k', key'') = Some n" if "(n, (k', key''), ms') \<in> set (df_running s)" for n k' key'' ms'
    using s that by blast
  have running: "df_timers s (k', key'') = Some n \<longleftrightarrow> (\<exists>ms'. (n, (k', key''), ms') \<in> set (df_running s))" for k' key'' n
    using s by blast
  have "df_timers ?t (k', key'') = Some n \<longleftrightarrow> (\<exists>ms'. (n, (k', key''), ms') \<in> set (df_running ?t))" for k' key'' n
  proof (cases "(k', key'') = (k, key')")
    case True
    have "(n, (k, key'), ms') \<notin> set ?kept" for ms' using timer kept by auto
    with True run show ?thesis by (auto simp: activateKey_def)
  next
    case False
    then have "df_timers ?t (k', key'') = df_timers s (k', key'')" by (auto simp: activateKey_def)
    moreover have "(n, (k', key''), ms') \<in> set ?kept \<longleftrightarrow> (n, (k', key''), ms') \<in> set (df_running s)" for ms'
    proof -
      have "df_timers s (k, key') \<noteq> Some n" if "(n, (k', key''), ms') \<in> set (df_running s)"
        using that uniq [OF that] running False by (metis Pair_inject)
      then show ?thesis using kept by auto
    qed
    moreover have "n \<noteq> df_fresh s" if "df_timers s (k', key'') = Some n"
      using s running that by fastforce
    ultimately show ?thesis using running [of k' key'' n] run False by auto
  qed
  moreover have "key'' \<in> df_active ?t k' \<longleftrightarrow> df_timers ?t (k', key'') \<noteq> None" for k' key''
    using s by (auto simp: activateKey_def)
  moreover have "distinct (map fst (df_running ?t))" using d small run by force
  moreover have "fst y < df_fresh ?t" if "y \<in> set (df_running ?t)" for y
    using that small [of y] run by (auto simp: activateKey_def)
  ultimately show ?thesis unfolding feedback_ok_def by blast
qed

lemma feedbackTimer_ok:
  assumes "feedback_ok s"
  shows "feedback_ok (feedbackTimerFires n s)"
proof (cases "map_of (df_running s) n")
  case (Some x)
  obtain k key' ms where x: "x = ((k, key'), ms)" by (metis surj_pair)
  note s = assms[unfolded feedback_ok_def]
  have mem: "(n, (k, key'), ms) \<in> set (df_running s)" using Some x by (auto dest: map_of_SomeD)
  let ?t = "feedbackTimerFires n s"
  have t: "?t = s\<lparr>df_running := filter (\<lambda>(i, _). i \<noteq> n) (df_running s),
       df_active := (df_active s)(k := df_active s k - {key'}), df_timers := (df_timers s)((k, key') := None)\<rparr>"
    using Some x by (simp add: feedbackTimerFires_def)
  have uniq: "y = ((k, key'), ms)" if "(n, y) \<in> set (df_running s)" for y
    using s that mem by (meson eq_key_imp_eq_value)
  have timer: "df_timers s (k, key') = Some n" using s mem by blast
  have "df_timers ?t (k', key'') = Some m \<longleftrightarrow> (\<exists>ms'. (m, (k', key''), ms') \<in> set (df_running ?t))" for k' key'' m
  proof (cases "(k', key'') = (k, key')")
    case True
    have "m = n" if "(m, (k, key'), ms') \<in> set (df_running s)" for m ms'
      using s timer that by (metis option.inject)
    with True show ?thesis by (auto simp: t)
  next
    case False
    then have "(m, (k', key''), ms') \<in> set (df_running ?t) \<longleftrightarrow> (m, (k', key''), ms') \<in> set (df_running s)" for ms'
      using uniq by (auto simp: t)
    with False s show ?thesis by (auto simp: t)
  qed
  moreover have "key'' \<in> df_active ?t k' \<longleftrightarrow> df_timers ?t (k', key'') \<noteq> None" for k' key''
    using s by (auto simp: t)
  moreover have "distinct (map fst (df_running ?t))" using s by (simp add: t)
  moreover have "\<forall>y \<in> set (df_running ?t). fst y < df_fresh ?t" using s by (simp add: t)
  ultimately show ?thesis unfolding feedback_ok_def by blast
qed (use assms in \<open>simp add: feedbackTimerFires_def\<close>)

lemma clearAll_ok:
  assumes "feedback_ok s"
  shows "feedback_ok (clearAllFeedback s)"
proof -
  have "n \<in> ran (df_timers s)" if "(n, x) \<in> set (df_running s)" for n x
    using assms that unfolding feedback_ok_def by (metis ranI surj_pair)
  then have "df_running (clearAllFeedback s) = []"
    by (auto simp: clearAllFeedback_def filter_empty_conv)
  then show ?thesis by (simp add: feedback_ok_def clearAllFeedback_def)
qed

lemma activations_ok [simp]:
  "feedback_ok s \<Longrightarrow> feedback_ok (activateCard c s)"
  "feedback_ok s \<Longrightarrow> feedback_ok (activateZone p z s)"
  "feedback_ok s \<Longrightarrow> feedback_ok (activateBattlefieldEntry c b s)"
  "feedback_ok s \<Longrightarrow> feedback_ok (activateEnteredCard c s)"
  by (simp_all add: activateCard_def activateZone_def activateBattlefieldEntry_def activateEnteredCard_def Let_def)

lemma entries_ok [simp]:
  "feedback_ok s \<Longrightarrow> feedback_ok (activatePendingBattlefieldEntry c s)"
  "feedback_ok s \<Longrightarrow> feedback_ok (activateBattlefieldEntryIfNeeded cs c s)"
  by (simp_all add: activatePendingBattlefieldEntry_def activateBattlefieldEntryIfNeeded_def Let_def split: option.split)

lemma collect_ok [simp]: "feedback_ok (fst x) \<Longrightarrow> feedback_ok (fst (collectManaDrop c x))"
  by (cases x) (simp add: collectManaDrop_def Let_def)

lemma record_ok: "feedback_ok (fst x) \<Longrightarrow> feedback_ok (fst (recordCard cs kc x))"
  by (cases x; cases kc) (auto simp: recordCard_def Let_def split: option.split)

lemma fold_record_ok: "feedback_ok (fst x) \<Longrightarrow> feedback_ok (fst (fold (recordCard cs) kcs x))"
  by (induction kcs arbitrary: x) (simp_all add: record_ok)

lemma changes_ok: "feedback_ok s \<Longrightarrow> feedback_ok (recordSnapshotChanges cs kcs s)"
  using fold_record_ok [of "(s, {})" cs kcs] by (cases "fold (recordCard cs) kcs (s, {})") (simp add: recordSnapshotChanges_def)

lemma pending_entries_ok: "feedback_ok s \<Longrightarrow> feedback_ok (activatePendingBattlefieldEntries kcs s)"
proof -
  have "feedback_ok s \<Longrightarrow> feedback_ok (foldl (\<lambda>t (key', c). activatePendingBattlefieldEntry c t) s kcs)"
    by (induction kcs arbitrary: s) auto
  then show "feedback_ok s \<Longrightarrow> ?thesis" by (simp add: activatePendingBattlefieldEntries_def)
qed

lemma track_ok: "feedback_ok s \<Longrightarrow> feedback_ok (trackSnapshot ko t s)"
  by (auto simp: trackSnapshot_def Let_def intro!: clearAll_ok changes_ok pending_entries_ok split: option.split)

lemma feedback_step_ok: "feedback_ok s \<Longrightarrow> feedback_ok (feedbackStep ko s e)"
  by (cases e) (auto simp: markPendingManaDrop_def markPendingBattlefieldEntry_def
      markPendingCommanderBattlefieldEntry_def clearPendingBattlefieldEntries_def
      intro: track_ok feedbackTimer_ok clearAll_ok)

interpretation highlights: invariant_machine "feedbackStep ko" "\<lambda>e. True" feedback_ok for ko
  by unfold_locales (rule feedback_step_ok)

abbreviation feedbackRun :: "key_order \<Rightarrow> feedback_event list \<Rightarrow> drop_feedback" where
  "feedbackRun ko \<equiv> run_steps (feedbackStep ko) noDropFeedback"

text \<open>C16: Every highlight ends: in every run of snapshots, marks and timers, a key is active exactly when
  one timer of the browser runs that removes it, and a timer runs only for an active key; so when all
  timers have fired nothing is highlighted.\<close>

theorem highlights_end:
  "(key' \<in> df_active (feedbackRun ko es) k) = (\<exists>!n. \<exists>ms. (n, (k, key'), ms) \<in> set (df_running (feedbackRun ko es)))"
proof -
  have "feedback_ok (feedbackRun ko es)"
    by (rule highlights.run_invar) (simp_all add: feedback_ok_def noDropFeedback_def list_all_iff)
  then show ?thesis unfolding feedback_ok_def by (metis option.distinct(1) option.exhaust option.inject)
qed

section \<open>Marked cards\<close>

text \<open>A key whose mark waits, and the same key after its highlight; \<open>b\<close> tells that it is a commander's.\<close>

definition marked :: "string \<Rightarrow> bool \<Rightarrow> drop_feedback \<Rightarrow> bool" where
  "marked key' b s \<longleftrightarrow> key' \<in> df_pendingBattlefieldEntries s \<and> (b \<longrightarrow> key' \<in> df_pendingCommanderBattlefieldEntries s)"

definition highlighted :: "string \<Rightarrow> bool \<Rightarrow> drop_feedback \<Rightarrow> bool" where
  "highlighted key' b s \<longleftrightarrow> key' \<notin> df_pendingBattlefieldEntries s \<and> key' \<in> df_active s EntryFeedback
     \<and> (b \<longrightarrow> key' \<in> df_active s CommanderFeedback)"

lemma activateKey_fields [simp]:
  "df_pendingBattlefieldEntries (activateKey k key' ms s) = df_pendingBattlefieldEntries s"
  "df_pendingCommanderBattlefieldEntries (activateKey k key' ms s) = df_pendingCommanderBattlefieldEntries s"
  "df_pendingManaDrops (activateKey k key' ms s) = df_pendingManaDrops s"
  "df_active (activateKey k key' ms s) = (df_active s)(k := insert key' (df_active s k))"
  by (simp_all add: activateKey_def)

lemma activation_fields [simp]:
  "df_pendingBattlefieldEntries (activateCard c s) = df_pendingBattlefieldEntries s"
  "df_pendingCommanderBattlefieldEntries (activateCard c s) = df_pendingCommanderBattlefieldEntries s"
  "df_pendingBattlefieldEntries (activateEnteredCard c s) = df_pendingBattlefieldEntries s"
  "df_pendingCommanderBattlefieldEntries (activateEnteredCard c s) = df_pendingCommanderBattlefieldEntries s"
  "df_pendingBattlefieldEntries (activateBattlefieldEntry c b s) = df_pendingBattlefieldEntries s"
  "df_pendingCommanderBattlefieldEntries (activateBattlefieldEntry c b s) = df_pendingCommanderBattlefieldEntries s"
  "df_pendingBattlefieldEntries (activateBattlefieldEntryIfNeeded cs c s) = df_pendingBattlefieldEntries s"
  "df_pendingCommanderBattlefieldEntries (activateBattlefieldEntryIfNeeded cs c s) = df_pendingCommanderBattlefieldEntries s"
  "df_pendingBattlefieldEntries (fst (collectManaDrop c x)) = df_pendingBattlefieldEntries (fst x)"
  "df_pendingCommanderBattlefieldEntries (fst (collectManaDrop c x)) = df_pendingCommanderBattlefieldEntries (fst x)"
  by (cases x; auto simp: activateCard_def activateEnteredCard_def activateZone_def activateBattlefieldEntry_def Let_def
      activateBattlefieldEntryIfNeeded_def collectManaDrop_def split: option.split)+

lemma activation_grows [simp]:
  "key' \<in> df_active s k \<Longrightarrow> key' \<in> df_active (activateCard c s) k"
  "key' \<in> df_active s k \<Longrightarrow> key' \<in> df_active (activateEnteredCard c s) k"
  "key' \<in> df_active s k \<Longrightarrow> key' \<in> df_active (activateBattlefieldEntry c b s) k"
  "key' \<in> df_active s k \<Longrightarrow> key' \<in> df_active (activateBattlefieldEntryIfNeeded cs c s) k"
  "key' \<in> df_active (fst x) k \<Longrightarrow> key' \<in> df_active (fst (collectManaDrop c x)) k"
  by (cases x; auto simp: activateCard_def activateEnteredCard_def activateZone_def activateBattlefieldEntry_def Let_def
      activateBattlefieldEntryIfNeeded_def collectManaDrop_def split: option.split)+

lemma pendingEntry_cases:
  "marked key' b s \<Longrightarrow> marked key' b (activatePendingBattlefieldEntry c s) \<or> highlighted key' b (activatePendingBattlefieldEntry c s)"
  "highlighted key' b s \<Longrightarrow> highlighted key' b (activatePendingBattlefieldEntry c s)"
  by (auto simp: activatePendingBattlefieldEntry_def marked_def highlighted_def Let_def activateBattlefieldEntry_def)

lemma pendingEntry_hits:
  assumes "marked key' b s" "ix_zone c = Battlefield" "manaKey (ix_playerId c) (ix_instanceId c) = key'"
  shows "highlighted key' b (activatePendingBattlefieldEntry c s)"
  using assms by (auto simp: activatePendingBattlefieldEntry_def marked_def highlighted_def Let_def
      activateBattlefieldEntry_def)

lemma recordCard_fst:
  "marked key' b (activatePendingBattlefieldEntry (snd kc) (fst x)) \<Longrightarrow> marked key' b (fst (recordCard cs kc x))"
  "highlighted key' b (activatePendingBattlefieldEntry (snd kc) (fst x)) \<Longrightarrow> highlighted key' b (fst (recordCard cs kc x))"
  by (cases x; cases kc; auto simp: recordCard_def Let_def marked_def highlighted_def split: option.split)+

lemma fold_highlighted: "highlighted key' b (fst x) \<Longrightarrow> highlighted key' b (fst (fold (recordCard cs) kcs x))"
  by (induction kcs arbitrary: x) (simp_all add: recordCard_fst(2) pendingEntry_cases(2))

lemma fold_marked:
  assumes "marked key' b (fst x)" "kc \<in> set kcs" "ix_zone (snd kc) = Battlefield"
    "manaKey (ix_playerId (snd kc)) (ix_instanceId (snd kc)) = key'"
  shows "highlighted key' b (fst (fold (recordCard cs) kcs x))"
  using assms
proof (induction kcs arbitrary: x)
  case (Cons a kcs)
  let ?y = "recordCard cs a x"
  consider "highlighted key' b (fst ?y)" | "marked key' b (fst ?y)" "a \<noteq> kc"
    using pendingEntry_cases(1) [OF Cons.prems(1)] pendingEntry_hits [OF Cons.prems(1,3,4)] recordCard_fst by metis
  then show ?case
  proof cases
    case 1
    then show ?thesis by (simp add: fold_highlighted)
  next
    case 2
    with Cons show ?thesis by simp
  qed
qed simp

lemma foldl_highlighted: "highlighted key' b s \<Longrightarrow>
    highlighted key' b (foldl (\<lambda>t (key', c). activatePendingBattlefieldEntry c t) s kcs)"
  by (induction kcs arbitrary: s) (auto simp: pendingEntry_cases(2))

lemma foldl_marked:
  assumes "marked key' b s" "kc \<in> set kcs" "ix_zone (snd kc) = Battlefield"
    "manaKey (ix_playerId (snd kc)) (ix_instanceId (snd kc)) = key'"
  shows "highlighted key' b (foldl (\<lambda>t (key', c). activatePendingBattlefieldEntry c t) s kcs)"
  using assms
proof (induction kcs arbitrary: s)
  case (Cons a kcs)
  let ?t = "activatePendingBattlefieldEntry (snd a) s"
  consider "highlighted key' b ?t" | "marked key' b ?t" "a \<noteq> kc"
    using pendingEntry_cases(1) [OF Cons.prems(1)] pendingEntry_hits [OF Cons.prems(1,3,4)] by metis
  then show ?case
  proof cases
    case 1
    then show ?thesis using foldl_highlighted [of key' b ?t kcs] by (cases a) simp
  next
    case 2
    with Cons show ?thesis by (cases a) simp
  qed
qed simp

lemma highlighted_frame [simp]:
  "highlighted key' b (s\<lparr>df_previousVersion := v\<rparr>) = highlighted key' b s"
  "highlighted key' b (s\<lparr>df_previousCards := cs\<rparr>) = highlighted key' b s"
  "highlighted key' b (s\<lparr>df_pendingManaDrops := ms\<rparr>) = highlighted key' b s"
  by (simp_all add: highlighted_def)

text \<open>A card that was marked as entering the battlefield is highlighted as an entry, as a commander's
  if it was marked as one, by the first snapshot that shows it there, and its mark is used up.\<close>

theorem marked_entry_is_highlighted:
  assumes "df_previousVersion s \<noteq> None"
    and "obj_get (indexSnapshot ko t) key' = Some c" and "ix_zone c = Battlefield"
    and "manaKey (ix_playerId c) (ix_instanceId c) \<in> df_pendingBattlefieldEntries s"
  defines "after \<equiv> trackSnapshot ko (Some t) s"
  shows "isBattlefieldEntrySettling (ix_playerId c) (ix_instanceId c) after
    \<and> (manaKey (ix_playerId c) (ix_instanceId c) \<in> df_pendingCommanderBattlefieldEntries s
       \<longrightarrow> isCommanderEntrySettling (ix_playerId c) (ix_instanceId c) after)
    \<and> manaKey (ix_playerId c) (ix_instanceId c) \<notin> df_pendingBattlefieldEntries after"
proof -
  let ?k = "manaKey (ix_playerId c) (ix_instanceId c)"
  let ?b = "?k \<in> df_pendingCommanderBattlefieldEntries s"
  let ?cs = "indexSnapshot ko t"
  have m: "marked ?k ?b s" using assms(4) by (simp add: marked_def)
  have mem: "(key', c) \<in> set ?cs" using assms(2) by (rule map_of_SomeD)
  obtain v where v: "df_previousVersion s = Some v" using assms(1) by auto
  have "highlighted ?k ?b after"
  proof (cases "sn_version t = v")
    case True
    have "highlighted ?k ?b (activatePendingBattlefieldEntries ?cs s)"
      using foldl_marked [OF m mem] assms(3,4) by (auto simp: activatePendingBattlefieldEntries_def)
    with True v show ?thesis by (simp add: after_def trackSnapshot_def Let_def)
  next
    case False
    have "highlighted ?k ?b (fst (fold (recordCard (df_previousCards s)) ?cs (s, {})))"
      using fold_marked [OF _ mem, of ?k ?b "(s, {})"] m assms(3) by simp
    with False v show ?thesis
      by (cases "fold (recordCard (df_previousCards s)) ?cs (s, {})")
        (simp add: after_def trackSnapshot_def Let_def recordSnapshotChanges_def)
  qed
  then show ?thesis
    by (simp add: highlighted_def isBattlefieldEntrySettling_def isCommanderEntrySettling_def)
qed

definition entering :: drop_feedback where
  "entering = markPendingBattlefieldEntry ''a'' [''b1''] (noDropFeedback\<lparr>df_previousVersion := Some 0\<rparr>)"

definition all_zones :: key_order where
  "all_zones = \<lparr>ko_playerIds = (\<lambda>t. [''a'']), ko_zones = (\<lambda>p. [Hand, Battlefield])\<rparr>"

theorem marked_entry_is_highlighted_witness:
  "isBattlefieldEntrySettling ''a'' ''b1'' (trackSnapshot all_zones (Some two_zone_snapshot) entering)"
proof -
  have "obj_get (indexSnapshot all_zones two_zone_snapshot) ''a:battlefield:b1''
      = Some (indexCard ''a'' Battlefield (bare_card ''b1''))"
    by (simp add: indexSnapshot_def cardsOf_def all_zones_def two_zone_snapshot_def indexKey_def fbCardKey_def
        indexCard_def zone_text_def bare_card_def)
  from marked_entry_is_highlighted [OF _ this, of entering] show ?thesis
    by (simp add: entering_def markPendingBattlefieldEntry_def noDropFeedback_def indexCard_def bare_card_def)
qed

section \<open>Nothing moved\<close>

text \<open>A snapshot in which every card is where it was, and no card is marked, highlights nothing.\<close>

theorem unmoved_cards_highlight_nothing:
  assumes "df_pendingBattlefieldEntries s = {}" and "df_previousVersion s \<noteq> None"
    and "\<And>key' c. (key', c) \<in> set (indexSnapshot ko t) \<Longrightarrow>
      \<exists>p. obj_get (df_previousCards s) key' = Some p \<and> (ix_zone c = Battlefield \<longrightarrow> ix_positionKey p = ix_positionKey c)"
  shows "df_active (trackSnapshot ko (Some t) s) = df_active s \<and> df_running (trackSnapshot ko (Some t) s) = df_running s"
proof -
  have "fold (recordCard (df_previousCards s)) kcs (s, {}) = (s, {})"
    if "\<And>key' c. (key', c) \<in> set kcs \<Longrightarrow> \<exists>p. obj_get (df_previousCards s) key' = Some p
      \<and> (ix_zone c = Battlefield \<longrightarrow> ix_positionKey p = ix_positionKey c)" for kcs
    using that
  proof (induction kcs)
    case (Cons a kcs)
    obtain key' c where a: "a = (key', c)" by (cases a)
    from Cons.prems [of key' c] a obtain p where p: "obj_get (df_previousCards s) key' = Some p"
        "ix_zone c = Battlefield \<longrightarrow> ix_positionKey p = ix_positionKey c" by auto
    have "recordCard (df_previousCards s) a (s, {}) = (s, {})"
      using p assms(1) by (auto simp: a recordCard_def activatePendingBattlefieldEntry_def Let_def)
    moreover have "fold (recordCard (df_previousCards s)) kcs (s, {}) = (s, {})"
      by (rule Cons.IH) (use Cons.prems in auto)
    ultimately show ?case by simp
  qed simp
  from this [OF assms(3)] have "recordSnapshotChanges (df_previousCards s) (indexSnapshot ko t) s = s"
    by (simp add: recordSnapshotChanges_def)
  then show ?thesis
    using assms(1,2) by (auto simp: trackSnapshot_def Let_def activatePendingBattlefieldEntries_def)
qed

end
