(* ===== verification/V2Props.thy ===== *)
theory V2Props
  imports V2Samples Replica
begin

text \<open>
  What the store promises: the versions a patch can take a state to, that sessions keep states
  well formed, what a move does to the zones, and what the projection of a state is.
\<close>

section \<open>Versions\<close>

text \<open>What no operation touches: the version, the pending actions and the identity of the game.\<close>

definition same_version :: "v2_state \<Rightarrow> v2_state \<Rightarrow> bool" where
  "same_version s t \<longleftrightarrow> v2_lastAppliedVersion t = v2_lastAppliedVersion s \<and> v2_pending t = v2_pending s
     \<and> vg_version (v2_game t) = vg_version (v2_game s) \<and> vg_id (v2_game t) = vg_id (v2_game s)
     \<and> vg_viewerId (v2_game t) = vg_viewerId (v2_game s)"

lemma same_version_refl [simp]: "same_version s s"
  by (simp add: same_version_def)

lemma same_version_trans: "same_version s t \<Longrightarrow> same_version t u \<Longrightarrow> same_version s u"
  by (simp add: same_version_def)

lemma updatePlayerV2_version: "updatePlayerV2 s pid f = V2Applied t \<Longrightarrow> same_version s t"
  by (auto simp: updatePlayerV2_def same_version_def split: option.splits)

lemma setZoneCount_version: "setZoneCount s pid zone n = V2Applied t \<Longrightarrow> same_version s t"
  by (auto simp: setZoneCount_def same_version_def split: option.splits)

lemma moveOneCard_version: "moveOneCard s mv = V2Applied t \<Longrightarrow> same_version s t"
  by (elim moveOneCard_applied) (simp add: same_version_def)

lemma addCardsToZone_version: "addCardsToZone s pid zone cards index statics = V2Applied t \<Longrightarrow> same_version s t"
  by (auto simp: addCardsToZone_def same_version_def Let_def split: option.splits prod.splits)

lemma removeCardsFromZone_version: "removeCardsFromZone s pid zone ids indexes = V2Applied t \<Longrightarrow> same_version s t"
  by (auto simp: removeCardsFromZone_def same_version_def Let_def split: option.splits)

lemma revealLibraryTop_version: "revealLibraryTop s pid cards statics epoch = V2Applied t \<Longrightarrow> same_version s t"
  by (auto simp: revealLibraryTop_def same_version_def Let_def split: option.splits prod.splits)

lemma library_version:
  "reorderZoneByIds s pid zone ids = V2Applied t \<Longrightarrow> same_version s t"
  "reorderLibraryTop s pid ids = V2Applied t \<Longrightarrow> same_version s t"
  "clearKnownLibraryOrder s pid epoch = V2Applied t \<Longrightarrow> same_version s t"
  by (auto simp: reorderZoneByIds_def reorderLibraryTop_def clearKnownLibraryOrder_def same_version_def
      Let_def split: option.splits if_splits)

lemma revealLibraryTo_version: "revealLibraryTo s pid cards statics audience = V2Applied t \<Longrightarrow> same_version s t"
  by (cases "revealLibraryTop s pid cards statics None")
    (auto simp: revealLibraryTo_def same_version_def dest: revealLibraryTop_version split: option.splits)

lemma applyEach_version:
  assumes "applyEach f s xs = V2Applied t"
    and "\<And>s x t. f s x = V2Applied t \<Longrightarrow> same_version s t"
  shows "same_version s t"
  using assms(1) by (rule applyEach_induct) (auto intro: same_version_trans assms(2))

lemma applyPlayerOpV2_version: "applyPlayerOpV2 s op = V2Applied t \<Longrightarrow> same_version s t"
  by (cases op) (auto simp: applyPlayerOpV2_def setPlayerLibraryVisibility_def
      setPlayTopLibraryRevealed_def dest: updatePlayerV2_version)

lemma updateInstanceAtZone_version: "updateInstanceAtZone s pid zone iid f = V2Applied t \<Longrightarrow> same_version s t"
  by (auto simp: updateInstanceAtZone_def same_version_def Let_def split: option.splits if_splits)

lemma cardFieldSet_version: "cardFieldSet s pid zone iid f = V2Applied t \<Longrightarrow> same_version s t"
  by (auto simp: cardFieldSet_def v2_then_applied same_version_def dest!: updateInstanceAtZone_version)

lemma applyCardOpV2_version: "applyCardOpV2 s op = V2Applied t \<Longrightarrow> same_version s t"
  by (cases op) (auto simp: applyCardOpV2_def cardCountersPatch_def
      dest: updateInstanceAtZone_version cardFieldSet_version)

lemmas zone_steps_version = addCardsToZone_version removeCardsFromZone_version moveOneCard_version
  setZoneCount_version library_version revealLibraryTop_version revealLibraryTo_version

lemma setZoneCounts_version: "setZoneCounts s pid counts = V2Applied t \<Longrightarrow> same_version s t"
  unfolding setZoneCounts_def
  by (erule applyEach_version) (auto dest: setZoneCount_version split: option.splits)

lemma applyZoneOpV2_version: "applyZoneOpV2 s op = V2Applied t \<Longrightarrow> same_version s t"
  by (cases op) (auto simp: applyZoneOpV2_def dest: zone_steps_version setZoneCounts_version
      applyEach_version [OF _ moveOneCard_version] split: if_splits)

lemma upsertChatMessage_version: "upsertChatMessage coll s m b = V2Applied t \<Longrightarrow> same_version s t"
  by (auto simp: upsertChatMessage_def same_version_def Let_def split: if_splits)

lemma applyTableOpV2_version: "applyTableOpV2 coll s op = V2Applied t \<Longrightarrow> same_version s t"
  by (cases op) (auto simp: applyTableOpV2_def addStackItemV2_def removeStackItemV2_def addRelation_def
      removeRelation_def upsertHelper_def removeHelper_def setChatReactions_def appendEventLogEntries_def
      same_version_def [symmetric] dest: upsertChatMessage_version
      elim!: applyEach_version split: option.splits if_splits, auto simp: same_version_def)

lemma setMulliganHandCount_version: "setMulliganHandCount s pid n = V2Applied t \<Longrightarrow> same_version s t"
  by (auto simp: setMulliganHandCount_def same_version_def split: option.splits)

lemma replacePrivateMulliganHand_version:
  "replacePrivateMulliganHand s pid hand statics = V2Applied t \<Longrightarrow> same_version s t"
  by (auto simp: replacePrivateMulliganHand_def same_version_def Let_def split: option.splits prod.splits)

lemma applyMulliganOpV2_version: "applyMulliganOpV2 s op = V2Applied t \<Longrightarrow> same_version s t"
proof (cases op)
  case MulliganCompleted
  then show "applyMulliganOpV2 s op = V2Applied t \<Longrightarrow> same_version s t"
    by (auto simp: applyMulliganOpV2_def same_version_def)
qed (auto simp: applyMulliganOpV2_def v2_then_applied Let_def split: option.splits
    dest: updatePlayerV2_version setMulliganHandCount_version replacePrivateMulliganHand_version
      same_version_trans)

lemma applyGameOpV2_version: "applyGameOpV2 s op = V2Applied t \<Longrightarrow> same_version s t"
  by (cases op) (auto simp: applyGameOpV2_def same_version_def)

lemma applyOperationV2_version: "applyOperationV2 coll s op = V2Applied t \<Longrightarrow> same_version s t"
  by (cases op) (auto simp: applyOperationV2_def intro: applyPlayerOpV2_version applyCardOpV2_version
      applyZoneOpV2_version applyTableOpV2_version applyMulliganOpV2_version applyGameOpV2_version)

lemma applySameVersionOperation_version:
  assumes "applySameVersionOperation coll s op = V2Applied t"
  shows "same_version s t"
proof -
  have "applyOperationV2 coll s op = V2Applied t
      \<or> (\<exists>targets. applyOperationPreservingZoneCounts coll s op targets = V2Applied t)"
    using assms unfolding applySameVersionOperation_def
    by (auto split: v2_op.splits v2_zone_op.splits)
  then show ?thesis
    by (auto simp: applyOperationPreservingZoneCounts_def Let_def v2_then_applied same_version_def
        restoreZoneCountsForTargets_def dest!: applyOperationV2_version)
qed

lemma record_version [simp]: "same_version s (recordLibraryShuffleRevisions s ops v)"
  by (simp add: recordLibraryShuffleRevisions_def same_version_def Let_def)

lemma v2_patch_steps:
  "case applyPatchEnvelopeV2 coll s patch of
      PatchApplied t \<Rightarrow> v2_lastAppliedVersion t = pe_version patch
        \<and> (pe_version patch = v2_lastAppliedVersion s \<and> vg_version (v2_game t) = vg_version (v2_game s)
           \<or> pe_version patch = v2_lastAppliedVersion s + 1 \<and> vg_version (v2_game t) = pe_version patch)
        \<and> v2_pending t = acknowledge (pe_ackClientActionId patch) (v2_pending s)
    | PatchIgnored t \<Rightarrow> t = s \<and> pe_version patch \<le> v2_lastAppliedVersion s
    | PatchResync t reason \<Rightarrow> t = s \<and> v2_lastAppliedVersion s \<le> pe_version patch"
proof -
  let ?ops = "map normalizePatchOperation (pe_ops patch)"
  have same: "same_version s (recordLibraryShuffleRevisions t wires v)"
    if "applyEach f s ?ops = V2Applied t" "\<And>s op t. f s op = V2Applied t \<Longrightarrow> same_version s t" for f t wires v
    by (rule same_version_trans [OF applyEach_version [OF that(1)] record_version]) (rule that(2))
  show ?thesis
    using same [of "applyOperationV2 coll"] same [of "applySameVersionOperation coll"]
      applyOperationV2_version applySameVersionOperation_version
    by (auto simp: applyPatchEnvelopeV2_def applySameVersionPatch_def Let_def same_version_def
        split: v2_op_result.split)
qed

text \<open>A patch is applied as a whole or the state stays as it was. An applied patch is the next
  version, which the state and the game then have, or an addition to the version the state already
  has; it drops the action it acknowledges from the pending ones and no other. An ignored patch is
  not newer, and a resync is never asked for an older one.\<close>
theorem v2_patch_versions:
  "case applyPatchEnvelopeV2 coll s patch of
      PatchApplied t \<Rightarrow> v2_lastAppliedVersion t = pe_version patch
        \<and> (pe_version patch = v2_lastAppliedVersion s \<and> vg_version (v2_game t) = vg_version (v2_game s)
           \<or> pe_version patch = v2_lastAppliedVersion s + 1 \<and> vg_version (v2_game t) = pe_version patch)
        \<and> v2_pending t = acknowledge (pe_ackClientActionId patch) (v2_pending s)
    | PatchIgnored t \<Rightarrow> t = s \<and> pe_version patch \<le> v2_lastAppliedVersion s
    | PatchResync t reason \<Rightarrow> t = s \<and> v2_lastAppliedVersion s \<le> pe_version patch"
  by (rule v2_patch_steps)

text \<open>So the store is a client that never goes back, whatever order the patches arrive in.\<close>

definition v2_applied :: "string comparator \<Rightarrow> v2_state \<Rightarrow> patch_envelope \<Rightarrow> v2_state option" where
  "v2_applied coll s patch =
     (case applyPatchEnvelopeV2 coll s patch of PatchApplied t \<Rightarrow> Some t | _ \<Rightarrow> None)"

lemma v2_applied_iff: "v2_applied coll s patch = Some t \<longleftrightarrow> applyPatchEnvelopeV2 coll s patch = PatchApplied t"
  by (simp add: v2_applied_def split: v2_internal_result.split)

interpretation v2_client: patch_replica v2_lastAppliedVersion pe_version "v2_applied coll" for coll
proof
  fix s patch t
  assume "v2_applied coll s patch = Some t"
  then have "applyPatchEnvelopeV2 coll s patch = PatchApplied t" by (simp add: v2_applied_iff)
  with v2_patch_steps [where coll = coll and s = s and patch = patch]
  show "v2_lastAppliedVersion t = pe_version patch"
    "v2_lastAppliedVersion s \<le> pe_version patch \<and> pe_version patch \<le> v2_lastAppliedVersion s + 1"
    by auto
qed

lemma v2_client_never_goes_back:
  "v2_lastAppliedVersion s \<le> v2_lastAppliedVersion (deliver_all (v2_applied coll) s patches)"
  by (rule v2_client.deliver_all_version)

section \<open>Sessions\<close>

text \<open>C25: Every state the store holds in a session of well-formed messages is well formed: after a
  bootstrap, patches, pages of history and control-plane updates in any order, zones and counts
  belong to the players and list no card twice, the relations and their six indexes agree, the
  stack lists its items once, and the histories are bounded and the log in order.\<close>
theorem v2_session_wf:
  assumes "store_reached same coll st" and "st_state st = Some s"
  shows "v2_wf coll s"
  using store_reached_wf [OF assms(1)] assms(2) by (simp add: store_wf_def)

definition sample_bootstrap :: bootstrap_v2 where
  "sample_bootstrap = \<lparr>bv_game = \<lparr>bg_id = ''g'', bg_status = ''active'', bg_controlPlaneRevision = None,
       bg_controlPlane = None, bg_winnerPlayerId = None, bg_finishedAt = None, bg_finishReason = None,
       bg_allDisconnectedSince = None, bg_nextLifecycleAt = None, bg_version = 0, bg_viewerId = ''a'',
       bg_ownerId = None, bg_gamePhase = None, bg_mulligan = None, bg_disconnectVotes = None,
       bg_rematch = None, bg_createdAt = None, bg_updatedAt = None\<rparr>,
     bv_players = [], bv_zones = [], bv_instances = Map.empty, bv_zoneCounts = Map.empty,
     bv_sharedCounters = None, bv_relations = \<lparr>br_stack = [], br_arrows = [], br_attachments = [],
       br_battlefieldStacks = None, br_specialEntities = []\<rparr>,
     bv_turn = bare_turn, bv_staticCards = [], bv_chat = None, bv_eventLog = None,
     bv_chatCursor = None, bv_logCursor = None\<rparr>"

lemma sample_bootstrap_wf: "boot_wf sample_bootstrap"
  by (simp add: boot_wf_def sample_bootstrap_def objectValues_def objectEntries_def
      List.map_filter_simps)

theorem v2_session_wf_witness:
  "\<exists>s. st_state (snd (applyBootstrap (=) string_order empty_store sample_bootstrap)) = Some s
     \<and> v2_wf string_order s"
proof -
  let ?st = "snd (applyBootstrap (=) string_order empty_store sample_bootstrap)"
  have r: "store_reached (=) string_order ?st"
    by (intro reached_bootstrap reached_empty sample_bootstrap_wf)
  obtain s where s: "st_state ?st = Some s" by (auto simp: applyBootstrap_def Let_def)
  from v2_session_wf [OF r s] s show ?thesis by blast
qed

section \<open>The projection\<close>

text \<open>C28: The projection of a well-formed state is a well-formed snapshot, or throws the identity
  error; it throws exactly when a card of a zone or the source of a stack item is neither face down
  nor hidden and has no identity to render.\<close>
theorem v2_projection_typed:
  assumes "v2_wf coll s"
  shows "case hydrateSnapshot s of
      Inr snap \<Rightarrow> identity_ok s \<and> snapshot_wf snap
    | Inl e \<Rightarrow> e = GenericError \<and> \<not> identity_ok s"
proof -
  have "players_wf (v2_players s)" using assms by (simp add: v2_wf_def)
  then show ?thesis
    using hydrateSnapshot_total [OF assms] hydrateSnapshot_wf [OF assms] hydrateSnapshot_error
    by (cases "hydrateSnapshot s") auto
qed

theorem v2_projection_typed_witness:
  "v2_wf string_order two_player_table \<and> (\<exists>snap. hydrateSnapshot two_player_table = Inr snap \<and> snapshot_wf snap)"
  using v2_projection_typed [OF two_player_table_wf [of string_order]] two_player_table_identity
  by (auto simp: two_player_table_wf split: sum.splits)

section \<open>Moving a card\<close>

text \<open>The zones a card is in.\<close>

definition placesOf :: "v2_state \<Rightarrow> string \<Rightarrow> (string \<times> game_zone_name) set" where
  "placesOf s iid = {(pid, zone). iid \<in> set (zoneIdsOf s pid zone)}"

definition fromPlace :: "cards_move \<Rightarrow> string \<times> game_zone_name" where
  "fromPlace mv = (cmv_fromPlayer mv, cmv_fromZone mv)"

definition toPlace :: "cards_move \<Rightarrow> string \<times> game_zone_name" where
  "toPlace mv = (cmv_toPlayer mv, cmv_toZone mv)"

lemma filter_absent: "x \<notin> set xs \<Longrightarrow> filter (\<lambda>i. i \<noteq> x) xs = xs"
  by (induction xs) auto

lemma nextSourceZone_filter: "nextSourceZone mv xs = filter (\<lambda>i. i \<noteq> cmv_instanceId mv) xs"
  by (simp add: nextSourceZone_def filter_absent)

lemma moved_zones:
  assumes "moveOneCard s mv = V2Applied t"
  shows "zoneIdsOf t pid zone =
     (if (pid, zone) = toPlace mv
      then nextTargetZone mv (zoneIdsOf s (cmv_fromPlayer mv) (cmv_fromZone mv))
             (zoneIdsOf s (cmv_toPlayer mv) (cmv_toZone mv))
      else if (pid, zone) = fromPlace mv then filter (\<lambda>i. i \<noteq> cmv_instanceId mv) (zoneIdsOf s pid zone)
      else zoneIdsOf s pid zone)"
  using assms
  by (elim moveOneCard_applied)
    (auto simp: zoneIdsOf_def or_default_def movedMaps_def Let_def toPlace_def fromPlace_def
      sameZoneMove_def nextSourceZone_filter split: if_splits)

text \<open>The target list is the old one without the card, which stands at the clamped index.\<close>

lemma moved_target:
  assumes "moveOneCard s mv = V2Applied t"
  shows "zoneIdsOf t (cmv_toPlayer mv) (cmv_toZone mv) =
     insertAt (filter (\<lambda>i. i \<noteq> cmv_instanceId mv) (zoneIdsOf s (cmv_toPlayer mv) (cmv_toZone mv)))
       (clampInsertIndex (cmv_index mv) (length (zoneIdsOf s (cmv_toPlayer mv) (cmv_toZone mv))))
       [cmv_instanceId mv]"
  using moved_zones [OF assms, of "cmv_toPlayer mv" "cmv_toZone mv"]
  by (simp add: toPlace_def nextTargetZone_def sameZoneMove_def)

lemma filter_insertAt:
  "filter P (insertAt xs k ys) = insertAt (filter P xs) (length (filter P (take k xs))) (filter P ys)"
proof -
  have "filter P xs = filter P (take k xs) @ filter P (drop k xs)"
    by (metis append_take_drop_id filter_append)
  then show ?thesis by (simp add: insertAt_def)
qed

lemma insertAt_Nil [simp]: "insertAt xs k [] = xs"
  by (simp add: insertAt_def)

lemma moved_others:
  assumes "moveOneCard s mv = V2Applied t"
  shows "filter (\<lambda>i. i \<noteq> cmv_instanceId mv) (zoneIdsOf t pid zone) =
     filter (\<lambda>i. i \<noteq> cmv_instanceId mv) (zoneIdsOf s pid zone)"
proof (cases "(pid, zone) = toPlace mv")
  case True
  then show ?thesis using moved_target [OF assms] by (simp add: toPlace_def filter_insertAt)
next
  case False
  then show ?thesis by (simp add: moved_zones [OF assms])
qed

lemma moved_places_others:
  assumes "moveOneCard s mv = V2Applied t" and "iid \<noteq> cmv_instanceId mv"
  shows "placesOf t iid = placesOf s iid"
proof -
  have "iid \<in> set (zoneIdsOf t pid zone) \<longleftrightarrow> iid \<in> set (zoneIdsOf s pid zone)" for pid zone
    using arg_cong [OF moved_others [OF assms(1), of pid zone], of set] assms(2) by (auto simp: set_eq_iff)
  then show ?thesis by (simp add: placesOf_def)
qed

lemma moved_places_card:
  assumes "moveOneCard s mv = V2Applied t"
  shows "placesOf t (cmv_instanceId mv) = insert (toPlace mv) (placesOf s (cmv_instanceId mv) - {fromPlace mv})"
proof (rule set_eqI)
  fix place :: "string \<times> game_zone_name"
  obtain pid zone where place: "place = (pid, zone)" by (cases place)
  show "place \<in> placesOf t (cmv_instanceId mv) \<longleftrightarrow>
      place \<in> insert (toPlace mv) (placesOf s (cmv_instanceId mv) - {fromPlace mv})"
  proof (cases "place = toPlace mv")
    case True
    then show ?thesis using moved_target [OF assms] by (simp add: placesOf_def toPlace_def)
  next
    case False
    then show ?thesis by (auto simp: placesOf_def place moved_zones [OF assms])
  qed
qed

lemma normalized_zone:
  "normalizeIncomingCard crd pid zone ops instances statics = (i, c) \<Longrightarrow> vi_zoneId i = zoneId pid zone"
  by (cases crd)
    (auto simp: normalizeIncomingCard_def normalizeCompact_def instanceOfLegacy_def Let_def split: option.splits)

lemma moved_instance_zone:
  assumes "movedInstance s mv = Some (inst, statics)"
  shows "vi_zoneId inst = zoneId (cmv_toPlayer mv) (cmv_toZone mv)"
proof -
  have keep: "vi_zoneId (keepIdentity i c e) = vi_zoneId i" for i c e
    by (simp add: keepIdentity_def split: option.split)
  have complete: "vi_zoneId (completeInstanceIdentity i c) = vi_zoneId i" for i c
    by (simp add: completeInstanceIdentity_def split: option.split)
  have clear: "vi_zoneId (clearRecipients mv i) = vi_zoneId i" for i
    by (simp add: clearRecipients_def)
  show ?thesis
    using assms
    by (auto simp: movedInstance_def Let_def keep complete clear split: option.splits prod.splits
        dest: normalized_zone)
qed

lemma moveOneCard_counts:
  assumes "moveOneCard s mv = V2Applied t"
  obtains fc tc fc' tc' where
    "v2_zoneCounts s (cmv_fromPlayer mv) = Some fc" "v2_zoneCounts s (cmv_toPlayer mv) = Some tc"
    "movedMaps mv
       (num (int (length (nextSourceZone mv (zoneIdsOf s (cmv_fromPlayer mv) (cmv_fromZone mv))))))
       (num (int (length (nextTargetZone mv (zoneIdsOf s (cmv_fromPlayer mv) (cmv_fromZone mv))
          (zoneIdsOf s (cmv_toPlayer mv) (cmv_toZone mv)))))) fc tc = (fc', tc')"
    "v2_zoneCounts t = (v2_zoneCounts s)(cmv_fromPlayer mv \<mapsto> fc', cmv_toPlayer mv \<mapsto> tc')"
  using assms unfolding moveOneCard_def Let_def zoneIdsOf_def or_default_def
  by (auto split: option.splits if_splits prod.splits)

lemma moved_counts:
  assumes "moveOneCard s mv = V2Applied t"
  shows "countsOf t pid zone =
     (if (pid, zone) \<in> {fromPlace mv, toPlace mv} then num (int (length (zoneIdsOf t pid zone)))
      else countsOf s pid zone)"
proof -
  obtain fc tc fc' tc' where c: "v2_zoneCounts s (cmv_fromPlayer mv) = Some fc" "v2_zoneCounts s (cmv_toPlayer mv) = Some tc"
    and maps: "movedMaps mv
       (num (int (length (nextSourceZone mv (zoneIdsOf s (cmv_fromPlayer mv) (cmv_fromZone mv))))))
       (num (int (length (nextTargetZone mv (zoneIdsOf s (cmv_fromPlayer mv) (cmv_fromZone mv))
          (zoneIdsOf s (cmv_toPlayer mv) (cmv_toZone mv)))))) fc tc = (fc', tc')"
    and t: "v2_zoneCounts t = (v2_zoneCounts s)(cmv_fromPlayer mv \<mapsto> fc', cmv_toPlayer mv \<mapsto> tc')"
    using assms by (rule moveOneCard_counts)
  have "countsOf t pid zone =
     (if (pid, zone) = toPlace mv
      then num (int (length (nextTargetZone mv (zoneIdsOf s (cmv_fromPlayer mv) (cmv_fromZone mv))
             (zoneIdsOf s (cmv_toPlayer mv) (cmv_toZone mv)))))
      else if (pid, zone) = fromPlace mv
      then num (int (length (nextSourceZone mv (zoneIdsOf s (cmv_fromPlayer mv) (cmv_fromZone mv)))))
      else countsOf s pid zone)"
    using maps c
    by (auto simp: countsOf_def or_default_def t movedMaps_def Let_def toPlace_def fromPlace_def
        sameZoneMove_def split: if_splits)
  then show ?thesis
    by (simp add: moved_zones [OF assms] nextSourceZone_filter) (simp add: fromPlace_def)
qed

text \<open>A move takes the card out of the zone it came from and puts it into the target zone, at the
  clamped index among the cards that were there, and into no other; every other card stays in its
  zones, in order. The counts of both zones are their lengths, the other counts stay, and the
  instance carries the id of its new zone.\<close>
theorem v2_move_card:
  assumes "moveOneCard s mv = V2Applied t"
  shows "placesOf t (cmv_instanceId mv) = insert (toPlace mv) (placesOf s (cmv_instanceId mv) - {fromPlace mv})
    \<and> (\<forall>iid. iid \<noteq> cmv_instanceId mv \<longrightarrow> placesOf t iid = placesOf s iid)
    \<and> (\<forall>pid zone. filter (\<lambda>i. i \<noteq> cmv_instanceId mv) (zoneIdsOf t pid zone)
         = filter (\<lambda>i. i \<noteq> cmv_instanceId mv) (zoneIdsOf s pid zone))
    \<and> zoneIdsOf t (cmv_toPlayer mv) (cmv_toZone mv) =
        insertAt (filter (\<lambda>i. i \<noteq> cmv_instanceId mv) (zoneIdsOf s (cmv_toPlayer mv) (cmv_toZone mv)))
          (clampInsertIndex (cmv_index mv) (length (zoneIdsOf s (cmv_toPlayer mv) (cmv_toZone mv))))
          [cmv_instanceId mv]
    \<and> (\<forall>pid zone. countsOf t pid zone =
         (if (pid, zone) \<in> {fromPlace mv, toPlace mv} then num (int (length (zoneIdsOf t pid zone)))
          else countsOf s pid zone))
    \<and> map_option vi_zoneId (v2_instances t (cmv_instanceId mv))
        = Some (zoneId (cmv_toPlayer mv) (cmv_toZone mv))"
proof -
  have "map_option vi_zoneId (v2_instances t (cmv_instanceId mv))
      = Some (zoneId (cmv_toPlayer mv) (cmv_toZone mv))"
    using assms moved_instance_zone by (elim moveOneCard_applied) simp
  then show ?thesis
    using moved_places_card [OF assms] moved_places_others [OF assms] moved_others [OF assms]
      moved_target [OF assms] moved_counts [OF assms] by blast
qed

definition play_c1 :: cards_move where
  "play_c1 = \<lparr>cmv_instanceId = ''c1'', cmv_fromPlayer = ''a'', cmv_fromZone = Hand, cmv_toPlayer = ''b'',
     cmv_toZone = Battlefield, cmv_index = None, cmv_card = None, cmv_staticCard = None\<rparr>"

lemma play_c1_runs: "\<exists>t. moveOneCard two_player_table play_c1 = V2Applied t"
  by (simp add: moveOneCard_def play_c1_def two_player_table_def table_zones_def emptyZones_def Let_def
      movedInstance_def movedMaps_def)

theorem v2_move_card_witness:
  "\<exists>t. moveOneCard two_player_table play_c1 = V2Applied t
     \<and> placesOf t ''c1'' = insert (''b'', Battlefield) (placesOf two_player_table ''c1'' - {(''a'', Hand)})"
proof -
  obtain t where t: "moveOneCard two_player_table play_c1 = V2Applied t" using play_c1_runs by blast
  from v2_move_card [OF t] show ?thesis
    by (intro exI [of _ t]) (simp add: t, simp add: play_c1_def fromPlace_def toPlace_def)
qed

end
