(* ===== verification/V2Refine.thy ===== *)
theory V2Refine
  imports V2Samples SnapshotPatch SnapshotSamples
begin

text \<open>
  The two protocols agree where they overlap: a patch of the second protocol whose operations
  have a counterpart in the first one, applied to the normalized state and projected, gives the
  snapshot that the snapshot reducer computes from the projection of the state before.
\<close>

section \<open>Corresponding operations\<close>

text \<open>
  The operations on players and on the game that both reducers handle alike. A library audience
  has no counterpart, since the projection leaves it out, and neither has a rematch without a
  deadline field, which the projection completes.
\<close>

definition legacyPlayerOp :: "v2_player_op \<Rightarrow> player_op option" where
  "legacyPlayerOp operation =
     (case operation of
        V2LifeSet pid v \<Rightarrow> Some (PlayerLifeSet pid v)
      | V2CountersSet pid counters \<Rightarrow> Some (PlayerCountersSet pid counters)
      | V2CommanderDamageSet pid damage \<Rightarrow> Some (PlayerCommanderDamageSet pid damage)
      | V2StatusSet pid status concededAt \<Rightarrow> Some (PlayerStatusSet pid (Some status) concededAt)
      | V2PresenceSet pid online \<Rightarrow> Some (PlayerPresenceSet pid online)
      | LibraryVisibilitySet pid playTop audience \<Rightarrow>
          if audience = None then Some (PlayerLibraryVisibilitySet pid playTop None) else None
      | PlayTopRevealedSet pid enabled \<Rightarrow> Some (PlayerLibraryVisibilitySet pid (Some enabled) None)
      | _ \<Rightarrow> None)"

definition legacyGameOp :: "v2_game_op \<Rightarrow> patch_op option" where
  "legacyGameOp operation =
     (case operation of
        V2GameCountersSet scope counters \<Rightarrow> Some (PlayerOp (GameCountersSet scope counters))
      | V2TurnSet turn \<Rightarrow> Some (TableOp (TurnSet turn))
      | V2PhaseSet phase \<Rightarrow> Some (TableOp (GamePhaseSet phase))
      | V2DisconnectVoteSet votes \<Rightarrow> Some (TableOp (DisconnectVoteSet votes None))
      | V2RematchSet rematch \<Rightarrow>
          (case rematch of
             None \<Rightarrow> Some (TableOp (RematchSet None))
           | Some r \<Rightarrow> if rm_deadlineAt r = None then None else Some (TableOp (RematchSet (Some r))))
      | _ \<Rightarrow> None)"

definition legacyOperation :: "v2_op \<Rightarrow> patch_op option" where
  "legacyOperation operation =
     (case operation of
        V2PlayerOp op \<Rightarrow> map_option PlayerOp (legacyPlayerOp op)
      | V2GameOp op \<Rightarrow> legacyGameOp op
      | V2MulliganOp MulliganCompleted \<Rightarrow> Some (TableOp (GamePhaseSet PhasePlaying))
      | _ \<Rightarrow> None)"

section \<open>One player\<close>

text \<open>Changing the fields of one player changes that player of the snapshot and nothing else.\<close>

lemma hydrateSnapshot_player:
  assumes w: "v2_wf coll s" and h: "hydrateSnapshot s = Inr snap"
    and p: "obj_get (v2_players s) pid = Some p" and color: "vp_colorIdentity p' \<noteq> None"
    and t: "t = s\<lparr>v2_players := obj_set pid p' (v2_players s)\<rparr>"
  obtains old zones new where "sn_players snap pid = Some old" "hydratePlayerWith s pid p zones = Inr old"
    "hydratePlayerWith s pid p' zones = Inr new" "hydrateSnapshot t = Inr (setPlayer snap pid new)"
proof -
  have pw: "players_wf (v2_players s)" using w by (simp add: v2_wf_def)
  then have pwt: "players_wf (v2_players t)" using color by (simp add: t players_wf_set)
  have same: "v2_zones t = v2_zones s" "v2_instances t = v2_instances s" "v2_staticCards t = v2_staticCards s"
    "v2_zoneCounts t = v2_zoneCounts s" "v2_stack t = v2_stack s"
    by (simp_all add: t)
  obtain hs items where hs: "hydratePlayers s = Inr hs" and items: "hydrateStack s = Inr items"
    and snap: "snap = snapshotWith s hs items"
    using h by (auto simp: hydrateSnapshot_def js_bind_eq_Inr)
  have player: "hydratePlayerWith t = hydratePlayerWith s"
    by (intro ext) (simp only: hydratePlayerWith_def countsOf_def same)
  have state: "hydratePlayerState t = hydratePlayerState s"
    by (intro ext) (simp add: hydratePlayerState_def player zones_same_maps [OF same(1-3)])
  have keys: "fst ` set (v2_players t) = fst ` set (v2_players s)"
    using obj_get_key [OF p] by (simp add: t insert_absorb)
  obtain ht where ht: "hydratePlayers t = Inr ht"
    using hydratePlayers_total [OF pw] hydratePlayers_total [OF pwt] hs
    by (auto simp: keys zones_same_maps [OF same(1-3)])
  obtain old where old: "map_of hs pid = Some old" "hydratePlayerState s pid p = Inr old"
    using hydratePlayers_get [OF pw hs, of pid] p by (auto simp: option_rel_Some1)
  then obtain zones where zones: "hydrateZones s pid = Inr zones" "hydratePlayerWith s pid p zones = Inr old"
    by (auto simp: hydratePlayerState_def js_bind_eq_Inr)
  obtain new where new: "map_of ht pid = Some new" "hydratePlayerState s pid p' = Inr new"
    using hydratePlayers_get [OF pwt ht, of pid] by (auto simp: t option_rel_Some1 state [unfolded t])
  have "map_of ht k = ((map_of hs)(pid \<mapsto> new)) k" for k
  proof (cases "k = pid")
    case False
    then show ?thesis
      using hydratePlayers_get [OF pwt ht, of k] hydratePlayers_get [OF pw hs, of k]
      by (cases "obj_get (v2_players s) k") (auto simp: t option_rel_Some1 state [unfolded t])
  qed (simp add: new)
  then have "map_of ht = (map_of hs)(pid \<mapsto> new)" by blast
  then have "hydrateSnapshot t = Inr (setPlayer snap pid new)"
    using ht items hydrateStack_same [OF same(5,2,3)]
    by (simp add: hydrateSnapshot_def snap snapshotWith_def setPlayer_def Let_def t arrowsOf_def
        attachmentsOfV2_def stacksOf_def entitiesOf_def)
  moreover have "hydratePlayerWith s pid p' zones = Inr new"
    using new(2) zones(1) by (simp add: hydratePlayerState_def)
  moreover have "sn_players snap pid = Some old"
    using old(1) by (simp add: snap snapshotWith_def Let_def)
  ultimately show thesis using that zones(2) by blast
qed

lemma hydrateSnapshot_no_player:
  assumes "v2_wf coll s" and "hydrateSnapshot s = Inr snap"
  shows "sn_players snap pid = None \<longleftrightarrow> obj_get (v2_players s) pid = None"
proof -
  obtain hs items where hs: "hydratePlayers s = Inr hs" and snap: "snap = snapshotWith s hs items"
    using assms(2) by (auto simp: hydrateSnapshot_def js_bind_eq_Inr)
  have "players_wf (v2_players s)" using assms(1) by (simp add: v2_wf_def)
  from hydratePlayers_get [OF this hs, of pid] show ?thesis
    by (cases "obj_get (v2_players s) pid") (auto simp: snap snapshotWith_def Let_def option_rel_Some1)
qed

text \<open>A change of the player in the store and one of the projected player that commute.\<close>

definition sim_result :: "game_snapshot \<Rightarrow> v2_op_result \<Rightarrow> operation_result \<Rightarrow> bool" where
  "sim_result snap r legacy \<longleftrightarrow>
     (case r of
        V2Failed e \<Rightarrow> e = V2TargetNotFound \<and> legacy = OpFailed TargetNotFound
      | V2Applied t \<Rightarrow> (\<exists>u. hydrateSnapshot t = Inr u \<and> legacy = OpApplied u))"

lemma updatePlayerV2_sim:
  assumes "v2_wf coll s" and "hydrateSnapshot s = Inr snap"
    and "\<And>p. vp_colorIdentity (f p) = vp_colorIdentity p"
    and "\<And>p zones h h'. hydratePlayerWith s pid p zones = Inr h \<Longrightarrow>
           hydratePlayerWith s pid (f p) zones = Inr h' \<Longrightarrow> g h = Some h'"
  shows "sim_result snap (updatePlayerV2 s pid f) (updatePlayer snap pid g)"
proof (cases "obj_get (v2_players s) pid")
  case None
  then show ?thesis
    using hydrateSnapshot_no_player [OF assms(1,2), of pid]
    by (simp add: sim_result_def updatePlayerV2_def updatePlayer_def)
next
  case (Some p)
  have "players_wf (v2_players s)" using assms(1) by (simp add: v2_wf_def)
  with Some have "vp_colorIdentity (f p) \<noteq> None" using players_wf_get assms(3) by metis
  from hydrateSnapshot_player [OF assms(1,2) Some this refl] obtain old zones new where
    "sn_players snap pid = Some old" "hydratePlayerWith s pid p zones = Inr old"
    "hydratePlayerWith s pid (f p) zones = Inr new"
    "hydrateSnapshot (s\<lparr>v2_players := obj_set pid (f p) (v2_players s)\<rparr>) = Inr (setPlayer snap pid new)"
    by blast
  with assms(4) Some show ?thesis
    by (simp add: sim_result_def updatePlayerV2_def updatePlayer_def)
qed

lemma updatePlayerV2_cases:
  "applyPlayerOpV2 s (LibraryVisibilitySet pid playTop None) = updatePlayerV2 s pid
     (\<lambda>p. p\<lparr>vp_playTopLibraryRevealed := or_else playTop (vp_playTopLibraryRevealed p)\<rparr>)"
  "applyPlayerOpV2 s (PlayTopRevealedSet pid enabled) = updatePlayerV2 s pid
     (\<lambda>p. p\<lparr>vp_playTopLibraryRevealed := or_else (Some enabled) (vp_playTopLibraryRevealed p)\<rparr>)"
  by (simp_all add: applyPlayerOpV2_def setPlayerLibraryVisibility_def setPlayTopLibraryRevealed_def
      or_else_def)

lemma player_op_sim:
  assumes "v2_wf coll s" and "hydrateSnapshot s = Inr snap" and "legacyPlayerOp op = Some legacy"
  shows "sim_result snap (applyPlayerOpV2 s op) (applyPlayerOp snap legacy)"
proof (cases op)
  case (V2StatusSet pid status concededAt)
  with assms show ?thesis
    by (auto simp: legacyPlayerOp_def applyPlayerOpV2_def hydratePlayerWith_def setIfDefined_def or_else_def
        non_null_def intro!: updatePlayerV2_sim [OF assms(1,2)] split: option.splits)
next
  case (LibraryVisibilitySet pid playTop audience)
  with assms show ?thesis
    by (auto simp: legacyPlayerOp_def updatePlayerV2_cases hydratePlayerWith_def setIfDefined_def or_else_def
        intro!: updatePlayerV2_sim [OF assms(1,2)] split: option.splits if_splits)
next
  case (PlayTopRevealedSet pid enabled)
  with assms show ?thesis
    by (auto simp: legacyPlayerOp_def updatePlayerV2_cases hydratePlayerWith_def setIfDefined_def or_else_def
        intro!: updatePlayerV2_sim [OF assms(1,2)] split: option.splits)
qed (use assms in \<open>auto simp: legacyPlayerOp_def applyPlayerOpV2_def hydratePlayerWith_def
       intro!: updatePlayerV2_sim [OF assms(1,2)] split: option.splits\<close>)

section \<open>The game\<close>

lemma cloneDisconnectVotes_same [simp]: "cloneDisconnectVotes votes = votes"
proof (rule ext)
  fix pid
  have "v\<lparr>dvs_eligible := (case dvs_eligible v of None \<Rightarrow> None | Some xs \<Rightarrow> Some xs), dvs_votes := dvs_votes v\<rparr> = v"
    for v :: disconnect_vote_state
    by (cases v; cases "dvs_eligible v") simp_all
  then show "cloneDisconnectVotes votes pid = votes pid"
    by (simp add: cloneDisconnectVotes_def option.map_ident)
qed

lemma cloneRematchState_known: "rm_deadlineAt r \<noteq> None \<Longrightarrow> cloneRematchState r = r"
  by (auto simp: cloneRematchState_def non_null_def split: option.splits)

lemma hydrateSnapshot_game:
  assumes "hydrateSnapshot s = Inr snap"
  shows "hydrateSnapshot (s\<lparr>v2_sharedCounters := m\<rparr>) = Inr (snap\<lparr>sn_counters := Some m\<rparr>)"
    "hydrateSnapshot (s\<lparr>v2_turn := turn\<rparr>) = Inr (snap\<lparr>sn_turn := turn\<rparr>)"
    "hydrateSnapshot (s\<lparr>v2_game := (v2_game s)\<lparr>vg_gamePhase := Some phase\<rparr>\<rparr>) =
       Inr (snap\<lparr>sn_gamePhase := Some phase\<rparr>)"
    "hydrateSnapshot (s\<lparr>v2_game := (v2_game s)\<lparr>vg_disconnectVotes := votes\<rparr>\<rparr>) =
       Inr (snap\<lparr>sn_disconnectVotes := Some (cloneDisconnectVotes votes)\<rparr>)"
    "hydrateSnapshot (s\<lparr>v2_game := (v2_game s)\<lparr>vg_rematch := rematch\<rparr>\<rparr>) =
       Inr (snap\<lparr>sn_rematch := map_option cloneRematchState rematch\<rparr>)"
    "hydrateSnapshot (s\<lparr>v2_game := (v2_game s)\<lparr>vg_version := v\<rparr>,
       v2_lastAppliedVersion := v, v2_pending := pending\<rparr>) = Inr (snap\<lparr>sn_version := v\<rparr>)"
proof -
  obtain hs items where hs: "hydratePlayers s = Inr hs" and items: "hydrateStack s = Inr items"
    and snap: "snap = snapshotWith s hs items"
    using assms by (auto simp: hydrateSnapshot_def js_bind_eq_Inr)
  have players: "hydratePlayers t = hydratePlayers s" and stack: "hydrateStack t = hydrateStack s"
    if "v2_players t = v2_players s" "v2_zones t = v2_zones s" "v2_zoneCounts t = v2_zoneCounts s"
      "v2_instances t = v2_instances s" "v2_staticCards t = v2_staticCards s" "v2_stack t = v2_stack s" for t
    using hydratePlayers_same [OF that(1-5)] hydrateStack_same [OF that(6,4,5)] by simp_all
  note frame = players stack hs items snap hydrateSnapshot_def snapshotWith_def Let_def arrowsOf_def
    attachmentsOfV2_def stacksOf_def entitiesOf_def
  show "hydrateSnapshot (s\<lparr>v2_sharedCounters := m\<rparr>) = Inr (snap\<lparr>sn_counters := Some m\<rparr>)"
    by (simp add: frame)
  show "hydrateSnapshot (s\<lparr>v2_turn := turn\<rparr>) = Inr (snap\<lparr>sn_turn := turn\<rparr>)"
    by (simp add: frame)
  show "hydrateSnapshot (s\<lparr>v2_game := (v2_game s)\<lparr>vg_gamePhase := Some phase\<rparr>\<rparr>) =
       Inr (snap\<lparr>sn_gamePhase := Some phase\<rparr>)"
    by (simp add: frame)
  show "hydrateSnapshot (s\<lparr>v2_game := (v2_game s)\<lparr>vg_disconnectVotes := votes\<rparr>\<rparr>) =
       Inr (snap\<lparr>sn_disconnectVotes := Some (cloneDisconnectVotes votes)\<rparr>)"
    by (simp add: frame)
  show "hydrateSnapshot (s\<lparr>v2_game := (v2_game s)\<lparr>vg_rematch := rematch\<rparr>\<rparr>) =
       Inr (snap\<lparr>sn_rematch := map_option cloneRematchState rematch\<rparr>)"
    by (simp add: frame)
  show "hydrateSnapshot (s\<lparr>v2_game := (v2_game s)\<lparr>vg_version := v\<rparr>,
       v2_lastAppliedVersion := v, v2_pending := pending\<rparr>) = Inr (snap\<lparr>sn_version := v\<rparr>)"
    by (simp add: frame)
qed

lemma snapshot_counters: "hydrateSnapshot s = Inr snap \<Longrightarrow> sn_counters snap = Some (v2_sharedCounters s)"
  and snapshot_version: "hydrateSnapshot s = Inr snap \<Longrightarrow> sn_version snap = v2_lastAppliedVersion s"
  by (auto simp: hydrateSnapshot_def js_bind_eq_Inr snapshotWith_def Let_def)

lemma game_op_sim:
  assumes "hydrateSnapshot s = Inr snap" and "legacyGameOp op = Some legacy"
  shows "\<exists>r. applyOperation snap legacy = Inr r \<and> sim_result snap (applyGameOpV2 s op) r"
  using assms(2) snapshot_counters [OF assms(1)] hydrateSnapshot_game [OF assms(1)]
  by (cases op) (auto simp: legacyGameOp_def applyGameOpV2_def sim_result_def disconnectVotesPayload_def
      cloneRematchState_known or_default_def split: option.splits if_splits)

lemma operation_sim:
  assumes "v2_wf coll s" and "hydrateSnapshot s = Inr snap" and "legacyOperation op = Some legacy"
  shows "\<exists>r. applyOperation snap legacy = Inr r \<and> sim_result snap (applyOperationV2 coll s op) r"
proof (cases op)
  case (V2PlayerOp pop)
  then obtain l where "legacyPlayerOp pop = Some l" "legacy = PlayerOp l"
    using assms(3) by (auto simp: legacyOperation_def)
  then show ?thesis using V2PlayerOp player_op_sim [OF assms(1,2)] by (auto simp: applyOperationV2_def)
next
  case (V2MulliganOp mop)
  then show ?thesis using assms(3) hydrateSnapshot_game(3) [OF assms(2)]
    by (auto simp: legacyOperation_def applyOperationV2_def applyMulliganOpV2_def sim_result_def
        split: v2_mulligan_op.splits)
next
  case (V2GameOp gop)
  then show ?thesis using assms(3) game_op_sim [OF assms(2)]
    by (auto simp: legacyOperation_def applyOperationV2_def)
qed (use assms(3) in \<open>auto simp: legacyOperation_def\<close>)

section \<open>Whole patches\<close>

lemma legacyOperation_wf: "legacyOperation op = Some legacy \<Longrightarrow> v2_op_wf op"
  by (auto simp: legacyOperation_def v2_op_wf_def mulligan_op_wf_def split: v2_op.splits v2_mulligan_op.splits)

lemma operations_sim:
  assumes "v2_wf coll s" and "hydrateSnapshot s = Inr snap"
    and "map legacyOperation ops = map Some legacy"
  shows "case applyEach (applyOperationV2 coll) s ops of
      V2Failed e \<Rightarrow> e = V2TargetNotFound \<and>
        applyOperationsFrom first snap legacy = Inr (OpsResync first TargetNotFound)
    | V2Applied t \<Rightarrow> (\<exists>u. hydrateSnapshot t = Inr u \<and> applyOperationsFrom first snap legacy = Inr (OpsApplied u))"
  using assms
proof (induction ops arbitrary: s snap legacy)
  case Nil
  then show ?case by simp
next
  case (Cons op ops)
  then obtain l ls where legacy: "legacy = l # ls" and l: "legacyOperation op = Some l"
    and ls: "map legacyOperation ops = map Some ls"
    by (cases legacy) auto
  obtain r where r: "applyOperation snap l = Inr r" "sim_result snap (applyOperationV2 coll s op) r"
    using operation_sim [OF Cons.prems(1,2) l] by blast
  show ?case
  proof (cases "applyOperationV2 coll s op")
    case (V2Failed e)
    with r show ?thesis by (simp add: legacy sim_result_def v2_then_def)
  next
    case (V2Applied t)
    with r(2) obtain u where u: "hydrateSnapshot t = Inr u" "r = OpApplied u" by (auto simp: sim_result_def)
    have "v2_wf coll t" using V2Applied Cons.prems(1) legacyOperation_wf [OF l] by (rule applyOperationV2_wf)
    from Cons.IH [OF this u(1) ls] V2Applied r(1) u(2) show ?thesis
      by (simp add: legacy v2_then_def split: v2_op_result.splits)
  qed
qed

lemma no_shuffles:
  assumes "map legacyOperation (map normalizePatchOperation wires) = map Some legacy"
  shows "recordLibraryShuffleRevisions s wires v = s"
proof -
  have "isShuffle (normalizePatchOperation w) = None" if "w \<in> set wires" for w
  proof -
    have "legacyOperation (normalizePatchOperation w) \<in> set (map Some legacy)"
      using that assms by (metis image_eqI list.set_map)
    then show ?thesis
      by (auto simp: legacyOperation_def isShuffle_def split: v2_op.splits v2_zone_op.splits)
  qed
  then have "List.map_filter isShuffle (map normalizePatchOperation wires) = []"
    by (induction wires) (auto simp: List.map_filter_simps)
  then show ?thesis by (simp add: recordLibraryShuffleRevisions_def unique_def)
qed



end
