(* ===== verification/V2Caches.thy ===== *)
theory V2Caches
  imports V2Samples
begin

text \<open>
  The caches of the projector are transparent: as long as no projection has failed, the snapshot
  it returns is the one computed without caches. Every cached value agrees with the objects it was
  computed from, and these are the objects of the state whenever the identity test says so.
\<close>

section \<open>Computations with caches that agree with plain ones\<close>

definition computes :: "(projector \<Rightarrow> bool) \<Rightarrow> (projector \<Rightarrow> bool) \<Rightarrow> 'a pj \<Rightarrow> 'a js \<Rightarrow> bool" where
  "computes I J m r \<longleftrightarrow> (\<forall>p. I p \<longrightarrow> fst (m p) = r \<and> (\<forall>x. r = Inr x \<longrightarrow> J (snd (m p))))"

lemma computesI: "(\<And>p. I p \<Longrightarrow> fst (m p) = r \<and> (\<forall>x. r = Inr x \<longrightarrow> J (snd (m p)))) \<Longrightarrow> computes I J m r"
  by (simp add: computes_def)

lemma computesD: "computes I J m r \<Longrightarrow> I p \<Longrightarrow> fst (m p) = r \<and> (\<forall>x. r = Inr x \<longrightarrow> J (snd (m p)))"
  by (simp add: computes_def)

lemma computes_return: "(\<And>p. I p \<Longrightarrow> J p) \<Longrightarrow> computes I J (pj_return x) (Inr x)"
  by (simp add: computes_def pj_return_def)

lemma computes_bind:
  assumes "computes I J m r" and "\<And>x. r = Inr x \<Longrightarrow> computes J L (f x) (g x)"
  shows "computes I L (pj_bind m f) (js_bind r g)"
proof (rule computesI)
  fix p
  assume "I p"
  from computesD [OF assms(1) this]
  have m: "fst (m p) = r" "\<And>x. r = Inr x \<Longrightarrow> J (snd (m p))" by auto
  show "fst (pj_bind m f p) = js_bind r g \<and> (\<forall>y. js_bind r g = Inr y \<longrightarrow> L (snd (pj_bind m f p)))"
  proof (cases r)
    case (Inl e)
    with m show ?thesis by (cases "m p") (auto simp: pj_bind_def)
  next
    case (Inr x)
    from computesD [OF assms(2) [OF this] m(2) [OF this]] m Inr show ?thesis
      by (cases "m p") (auto simp: pj_bind_def)
  qed
qed

lemma computes_map:
  assumes "\<And>x. x \<in> set xs \<Longrightarrow> computes I I (f x) (g x)"
  shows "computes I I (pj_map f xs) (js_map g xs)"
  using assms
proof (induction xs)
  case Nil
  then show ?case by (simp add: computes_def)
next
  case (Cons x xs)
  have "computes I I (pj_bind (f x) (\<lambda>y. pj_bind (pj_map f xs) (\<lambda>ys. pj_return (y # ys))))
      (js_bind (g x) (\<lambda>y. js_bind (js_map g xs) (\<lambda>ys. Inr (y # ys))))"
    using Cons by (intro computes_bind computes_return) auto
  then show ?case by (simp add: computes_def)
qed

section \<open>Cards and zones\<close>

text \<open>A cached card is the projection of the instance and static card it was computed from.\<close>

definition cards_ok :: "projector \<Rightarrow> bool" where
  "cards_ok p \<longleftrightarrow> (\<forall>iid e. pj_cards p iid = Some e \<longrightarrow>
     renderable (cpj_instance e) (cpj_staticCard e)
     \<and> cpj_card e = Some (hydratedCard (cpj_instance e) (cpj_staticCard e) iid (cpj_zone e)))"

definition players_core :: "projector \<Rightarrow> projector" where
  "players_core p = p\<lparr>pj_cards := Map.empty, pj_zones := Map.empty\<rparr>"

definition zone_inv :: "projector \<Rightarrow> projector \<Rightarrow> bool" where
  "zone_inv c p \<longleftrightarrow> cards_ok p \<and> players_core p = c"

lemma pjCard_computes:
  assumes "sound_identity same"
  shows "computes (zone_inv c) (zone_inv c) (pjCard same s zone iid) (hydrateCardInstance s iid zone)"
proof (rule computesI)
  fix p
  assume p: "zone_inv c p"
  show "fst (pjCard same s zone iid p) = hydrateCardInstance s iid zone
      \<and> (\<forall>x. hydrateCardInstance s iid zone = Inr x \<longrightarrow> zone_inv c (snd (pjCard same s zone iid p)))"
  proof (cases "v2_instances s iid")
    case None
    then show ?thesis using p by (simp add: pjCard_def hydrateCardInstance_cases)
  next
    case (Some i)
    define sc where "sc = obj_get (v2_staticCards s) (vi_cardRef i)"
    have h: "hydrateCardInstance s iid zone =
        (if renderable i sc then Inr (Some (hydratedCard i sc iid zone)) else Inl GenericError)"
      by (simp add: hydrateCardInstance_cases Some sc_def)
    show ?thesis
    proof (cases "\<exists>e. pj_cards p iid = Some e \<and> same (RefInstance (cpj_instance e)) (RefInstance i)
        \<and> same (RefStatic (cpj_staticCard e)) (RefStatic sc) \<and> cpj_zone e = zone")
      case True
      then obtain e where e: "pj_cards p iid = Some e" "same (RefInstance (cpj_instance e)) (RefInstance i)"
        "same (RefStatic (cpj_staticCard e)) (RefStatic sc)" "cpj_zone e = zone" by blast
      then have "cpj_instance e = i" "cpj_staticCard e = sc"
        using assms by (auto simp: sound_identity_def)
      with p e h show ?thesis by (auto simp: pjCard_def Some sc_def [symmetric] zone_inv_def cards_ok_def)
    next
      case False
      then have "pjCard same s zone iid p = (case hydrateCardInstance s iid zone of
          Inl e \<Rightarrow> (Inl e, p)
        | Inr x \<Rightarrow> (Inr x, p\<lparr>pj_cards := (pj_cards p)(iid \<mapsto>
            \<lparr>cpj_instance = i, cpj_staticCard = sc, cpj_zone = zone, cpj_card = x\<rparr>)\<rparr>))"
        by (auto simp: pjCard_def Some sc_def [symmetric] Let_def split: option.split)
      with p h show ?thesis by (auto simp: zone_inv_def cards_ok_def players_core_def)
    qed
  qed
qed

definition present :: "'a option list \<Rightarrow> 'a list" where
  "present xs = map the (filter (\<lambda>c. c \<noteq> None) xs)"

lemma present_simps [simp]: "present [] = []" "present (None # xs) = present xs"
  "present (Some x # xs) = x # present xs"
  by (simp_all add: present_def)

text \<open>When the cached cards match, they are the projection; an error is that of the projection.\<close>

lemma pjCardsMatch_ok:
  assumes "sound_identity same" and "zone_inv c p" and "k \<le> length cards"
  shows "case pjCardsMatch same s zone cards k ids p of
      (Inl e, q) \<Rightarrow> js_map (\<lambda>iid. hydrateCardInstance s iid zone) ids = Inl e
    | (Inr matches, q) \<Rightarrow> zone_inv c q \<and> (matches \<longrightarrow>
        (\<exists>cs. js_map (\<lambda>iid. hydrateCardInstance s iid zone) ids = Inr cs \<and> present cs = drop k cards))"
  using assms(2,3)
proof (induction ids arbitrary: k p)
  case Nil
  then show ?case by simp
next
  case (Cons iid ids)
  obtain r q where m: "pjCard same s zone iid p = (r, q)" by (cases "pjCard same s zone iid p")
  note one = computesD [OF pjCard_computes [OF assms(1)] Cons.prems(1), of s zone iid, unfolded m]
  then have r1: "r = hydrateCardInstance s iid zone" by simp
  from one [THEN conjunct2] have "\<forall>x. r = Inr x \<longrightarrow> zone_inv c q" by (simp only: snd_conv r1)
  with r1 have r: "r = hydrateCardInstance s iid zone" "\<And>x. r = Inr x \<Longrightarrow> zone_inv c q" by blast+
  consider e where "r = Inl e" | "r = Inr None"
    | crd where "r = Inr (Some crd)" "k < length cards \<and> same (RefCard (cards ! k)) (RefCard crd)"
    | crd where "r = Inr (Some crd)" "\<not> (k < length cards \<and> same (RefCard (cards ! k)) (RefCard crd))"
    by (cases r; cases "projr r") auto
  then show ?case
  proof cases
    case 1
    then show ?thesis using m r(1) by (simp add: pj_bind_def)
  next
    case 2
    from Cons.IH [OF r(2) [OF 2] Cons.prems(2)] show ?thesis
      using m r(1) 2 by (auto simp: pj_bind_def split: prod.splits sum.splits)
  next
    case 3
    then have "cards ! k = crd" using assms(1) by (auto simp: sound_identity_def)
    then have "drop k cards = crd # drop (Suc k) cards" using 3 by (auto simp: Cons_nth_drop_Suc)
    with Cons.IH [OF r(2) [OF 3(1)], of "Suc k"] show ?thesis
      using m r(1) 3 by (auto simp: pj_bind_def Suc_leI split: prod.splits sum.splits)
  next
    case 4
    then show ?thesis using m r by (auto simp: pj_bind_def pj_return_def)
  qed
qed

lemma hydrateCards_present:
  "hydrateCards s ids zone = js_bind (js_map (\<lambda>iid. hydrateCardInstance s iid zone) ids) (\<lambda>cs. Inr (present cs))"
  by (simp add: hydrateCards_def present_def)

lemma pjFreshZone_computes:
  assumes "sound_identity same"
  shows "computes (zone_inv c) (zone_inv c) (pjFreshZone same s k zone ids) (hydrateCards s ids zone)"
  unfolding pjFreshZone_def hydrateCards_present
proof (rule computes_bind)
  show "computes (zone_inv c) (zone_inv c) (pj_map (pjCard same s zone) ids)
      (js_map (\<lambda>iid. hydrateCardInstance s iid zone) ids)"
    by (rule computes_map) (rule pjCard_computes [OF assms])
next
  fix cs
  show "computes (zone_inv c) (zone_inv c) (\<lambda>p. let cards = map the (filter (\<lambda>c. c \<noteq> None) cs) in
      (Inr cards, p\<lparr>pj_zones := (pj_zones p)(k \<mapsto> \<lparr>zpj_instanceIds = ids, zpj_cards = cards\<rparr>)\<rparr>))
      (Inr (present cs))"
    by (simp add: computes_def Let_def present_def zone_inv_def cards_ok_def players_core_def)
qed

lemma pjZone_computes:
  assumes "sound_identity same"
  shows "computes (zone_inv c) (zone_inv c) (pjZone same s pid zone) (hydrateCards s (zoneIdsOf s pid zone) zone)"
proof (rule computesI)
  fix p
  assume p: "zone_inv c p"
  let ?ids = "zoneIdsOf s pid zone" and ?k = "zoneId pid zone"
  note fresh = computesD [OF pjFreshZone_computes [OF assms]]
  show "fst (pjZone same s pid zone p) = hydrateCards s ?ids zone
      \<and> (\<forall>x. hydrateCards s ?ids zone = Inr x \<longrightarrow> zone_inv c (snd (pjZone same s pid zone p)))"
  proof (cases "\<exists>e. pj_zones p ?k = Some e \<and> same (RefIds (zpj_instanceIds e)) (RefIds ?ids)")
    case False
    then have "pjZone same s pid zone p = pjFreshZone same s ?k zone ?ids p"
      by (auto simp: pjZone_def Let_def split: option.split)
    with fresh [OF p] show ?thesis by simp
  next
    case True
    then obtain e where e: "pj_zones p ?k = Some e" "same (RefIds (zpj_instanceIds e)) (RefIds ?ids)" by blast
    obtain r q where m: "pjCardsMatch same s zone (zpj_cards e) 0 ?ids p = (r, q)"
      by (cases "pjCardsMatch same s zone (zpj_cards e) 0 ?ids p")
    note match = pjCardsMatch_ok [OF assms p, of 0 "zpj_cards e" s zone ?ids, unfolded m]
    have z: "pjZone same s pid zone p = (case r of Inl e' \<Rightarrow> (Inl e', q)
        | Inr matches \<Rightarrow> if matches then (Inr (zpj_cards e), q) else pjFreshZone same s ?k zone ?ids q)"
      using e m by (simp add: pjZone_def Let_def pj_bind_def pj_return_def split: sum.split)
    show ?thesis
    proof (cases r)
      case (Inl e')
      with match z show ?thesis by (simp add: hydrateCards_present)
    next
      case (Inr matches)
      with match have q: "zone_inv c q" by simp
      show ?thesis
      proof (cases matches)
        case True
        with match Inr z q show ?thesis by (auto simp: hydrateCards_present)
      next
        case False
        with Inr z fresh [OF q] show ?thesis by simp
      qed
    qed
  qed
qed

lemma sameZones_eq:
  assumes "sound_identity same" and "sameZones same old zs"
  shows "old = zs"
proof
  fix z
  have "z \<in> set ZONE_NAMES" by simp
  with assms(2) have "case (old z, zs z) of (Some a, Some b) \<Rightarrow> same (RefCards a) (RefCards b) | _ \<Rightarrow> False"
    by (auto simp: sameZones_def list_all_iff)
  with assms(1) show "old z = zs z" by (auto simp: sound_identity_def split: option.splits)
qed

lemma pjPlayerZones_computes:
  assumes "sound_identity same"
  shows "computes (zone_inv c) (zone_inv c) (pjPlayerZones same s pid) (hydrateZones s pid)"
  unfolding pjPlayerZones_def hydrateZones_def
proof (rule computes_bind)
  show "computes (zone_inv c) (zone_inv c) (pj_map (pjZone same s pid) ZONE_NAMES)
      (js_map (\<lambda>zone. hydrateCards s (zoneIdsOf s pid zone) zone) ZONE_NAMES)"
    by (rule computes_map) (rule pjZone_computes [OF assms])
next
  fix zs
  show "computes (zone_inv c) (zone_inv c) (\<lambda>p. let zones = map_of (zip ZONE_NAMES zs) in
      case pj_projections p pid of
        Some cached \<Rightarrow> (Inr (if sameZones same (ppj_zones cached) zones then ppj_zones cached else zones), p)
      | None \<Rightarrow> (Inr zones, p)) (Inr (map_of (zip ZONE_NAMES zs)))"
    by (auto simp: computes_def Let_def split: option.split dest: sameZones_eq [OF assms])
qed

section \<open>Players\<close>

definition sources_core :: "projector \<Rightarrow> projector" where
  "sources_core p = p\<lparr>pj_cards := Map.empty, pj_zones := Map.empty, pj_projections := Map.empty\<rparr>"

lemma canReuse_core: "canReusePlayerZones same s (sources_core p) = canReusePlayerZones same s p"
  by (simp add: canReusePlayerZones_def sources_core_def)

text \<open>A cached player is the projection of its source with its counts and zones.\<close>

definition players_ok :: "projector \<Rightarrow> bool" where
  "players_ok p \<longleftrightarrow> (\<forall>pid e s. pj_projections p pid = Some e \<longrightarrow> countsOf s pid = ppj_zoneCounts e \<longrightarrow>
     hydratePlayerWith s pid (ppj_source e) (ppj_zones e) = Inr (ppj_player e))"

text \<open>
  While the players of a state are projected in turn, the cached zones are those of the state for
  the players done so far, and for all of them when the sources have not changed.
\<close>

definition loop_inv :: "identity_test \<Rightarrow> v2_state \<Rightarrow> string set \<Rightarrow> projector \<Rightarrow> string set \<Rightarrow> projector \<Rightarrow> bool" where
  "loop_inv same s ids c seen p \<longleftrightarrow> cards_ok p \<and> sources_core p = c \<and> players_ok p
     \<and> dom (pj_projections p) \<subseteq> ids
     \<and> (\<forall>pid e. pj_projections p pid = Some e \<longrightarrow> pid \<in> seen \<or> canReusePlayerZones same s c \<longrightarrow>
          hydrateZones s pid = Inr (ppj_zones e))"

lemma loop_inv_zones:
  assumes "loop_inv same s ids c seen p" and "zone_inv (players_core p) q"
  shows "loop_inv same s ids c seen q"
proof -
  have core: "players_core q = players_core p" and "cards_ok q" using assms(2) by (simp_all add: zone_inv_def)
  moreover have "pj_projections q = pj_projections p"
    using arg_cong [OF core, of pj_projections] by (simp add: players_core_def)
  moreover have "sources_core q = sources_core p"
    using arg_cong [OF core, of "\<lambda>r. r\<lparr>pj_projections := Map.empty\<rparr>"]
    by (simp add: players_core_def sources_core_def)
  ultimately show ?thesis using assms(1) by (simp add: loop_inv_def players_ok_def)
qed

lemma hydratePlayerWith_counts:
  "countsOf s pid = countsOf t pid \<Longrightarrow> hydratePlayerWith s pid p zones = hydratePlayerWith t pid p zones"
  by (simp only: hydratePlayerWith_def)

lemma zones_stage_computes:
  assumes "sound_identity same"
  shows "computes (loop_inv same s ids c seen) (loop_inv same s ids c seen)
     (\<lambda>q. case pj_projections q pid of
         Some cached \<Rightarrow> if canReusePlayerZones same s q then (Inr (ppj_zones cached), q)
           else pjPlayerZones same s pid q
       | None \<Rightarrow> pjPlayerZones same s pid q) (hydrateZones s pid)"
proof (rule computesI)
  fix p
  assume p: "loop_inv same s ids c seen p"
  have "zone_inv (players_core p) p" using p by (simp add: loop_inv_def zone_inv_def)
  from computesD [OF pjPlayerZones_computes [OF assms] this, of s pid] loop_inv_zones [OF p]
  have fresh: "fst (pjPlayerZones same s pid p) = hydrateZones s pid \<and>
      (\<forall>x. hydrateZones s pid = Inr x \<longrightarrow> loop_inv same s ids c seen (snd (pjPlayerZones same s pid p)))"
    by blast
  have reuse: "canReusePlayerZones same s c = canReusePlayerZones same s p"
    using p canReuse_core by (auto simp: loop_inv_def)
  let ?stage = "case pj_projections p pid of
         Some cached \<Rightarrow> if canReusePlayerZones same s p then (Inr (ppj_zones cached), p)
           else pjPlayerZones same s pid p
       | None \<Rightarrow> pjPlayerZones same s pid p"
  show "fst ?stage = hydrateZones s pid \<and>
     (\<forall>x. hydrateZones s pid = Inr x \<longrightarrow> loop_inv same s ids c seen (snd ?stage))"
  proof (cases "\<exists>e. pj_projections p pid = Some e \<and> canReusePlayerZones same s p")
    case True
    then obtain e where e: "pj_projections p pid = Some e" "canReusePlayerZones same s p" by blast
    then have "hydrateZones s pid = Inr (ppj_zones e)" using p reuse by (simp add: loop_inv_def)
    with e p show ?thesis by simp
  next
    case False
    then have "?stage = pjPlayerZones same s pid p" by (cases "pj_projections p pid") simp_all
    with fresh show ?thesis by simp
  qed
qed

lemma loop_inv_insert:
  assumes "loop_inv same s ids c seen p" and "pj_projections p pid = Some e"
    and "hydrateZones s pid = Inr (ppj_zones e)"
  shows "loop_inv same s ids c (insert pid seen) p"
  using assms unfolding loop_inv_def by (metis insert_iff option.inject)

lemma loop_inv_store:
  assumes "loop_inv same s ids c seen p" and "pid \<in> ids" and "hydrateZones s pid = Inr (ppj_zones e)"
    and "\<And>t. countsOf t pid = ppj_zoneCounts e \<Longrightarrow>
           hydratePlayerWith t pid (ppj_source e) (ppj_zones e) = Inr (ppj_player e)"
  shows "loop_inv same s ids c (insert pid seen) (p\<lparr>pj_projections := (pj_projections p)(pid \<mapsto> e)\<rparr>)"
proof -
  let ?q = "p\<lparr>pj_projections := (pj_projections p)(pid \<mapsto> e)\<rparr>"
  have parts: "cards_ok ?q" "sources_core ?q = c" "dom (pj_projections ?q) \<subseteq> ids"
    using assms(1,2) by (auto simp: loop_inv_def cards_ok_def sources_core_def)
  have ok: "players_ok ?q"
    unfolding players_ok_def
  proof (intro allI impI)
    fix k e' t
    assume "pj_projections ?q k = Some e'" and "countsOf t k = ppj_zoneCounts e'"
    then show "hydratePlayerWith t k (ppj_source e') (ppj_zones e') = Inr (ppj_player e')"
      using assms(1,4) by (cases "k = pid") (simp_all add: loop_inv_def players_ok_def)
  qed
  have "\<forall>k e'. pj_projections ?q k = Some e' \<longrightarrow> k \<in> insert pid seen \<or> canReusePlayerZones same s c \<longrightarrow>
      hydrateZones s k = Inr (ppj_zones e')"
  proof (intro allI impI)
    fix k e'
    assume "pj_projections ?q k = Some e'" and "k \<in> insert pid seen \<or> canReusePlayerZones same s c"
    then show "hydrateZones s k = Inr (ppj_zones e')"
      using assms(1,3) by (cases "k = pid") (auto simp: loop_inv_def)
  qed
  with parts ok show ?thesis unfolding loop_inv_def by (intro conjI)
qed

lemma player_stage_computes:
  assumes "sound_identity same" and "pid \<in> ids" and "hydrateZones s pid = Inr zones"
  shows "computes (loop_inv same s ids c seen) (loop_inv same s ids c (insert pid seen))
     (pjPlayerWith same s pid player zones) (hydratePlayerWith s pid player zones)"
proof (rule computesI)
  fix p
  assume p: "loop_inv same s ids c seen p"
  let ?hit = "\<lambda>e. same (RefPlayer (ppj_source e)) (RefPlayer player)
     \<and> same (RefZoneCounts (ppj_zoneCounts e)) (RefZoneCounts (countsOf s pid))
     \<and> same (RefGameZones (ppj_zones e)) (RefGameZones zones)"
  show "fst (pjPlayerWith same s pid player zones p) = hydratePlayerWith s pid player zones \<and>
     (\<forall>x. hydratePlayerWith s pid player zones = Inr x \<longrightarrow>
        loop_inv same s ids c (insert pid seen) (snd (pjPlayerWith same s pid player zones p)))"
  proof (cases "\<exists>e. pj_projections p pid = Some e \<and> ?hit e")
    case True
    then obtain e where e: "pj_projections p pid = Some e" "?hit e" by blast
    then have eq: "ppj_source e = player" "ppj_zoneCounts e = countsOf s pid" "ppj_zones e = zones"
      using assms(1) by (auto simp: sound_identity_def)
    have "hydratePlayerWith s pid player zones = Inr (ppj_player e)"
      using p e(1) eq by (auto simp: loop_inv_def players_ok_def)
    moreover have "pjPlayerWith same s pid player zones p = (Inr (ppj_player e), p)"
      using e by (simp add: pjPlayerWith_def Let_def)
    moreover have "loop_inv same s ids c (insert pid seen) p"
      by (rule loop_inv_insert [OF p e(1)]) (simp add: eq(3) assms(3))
    ultimately show ?thesis by simp
  next
    case False
    then have m: "pjPlayerWith same s pid player zones p = (case hydratePlayerWith s pid player zones of
          Inl e \<Rightarrow> (Inl e, p)
        | Inr h \<Rightarrow> (Inr h, p\<lparr>pj_projections := (pj_projections p)(pid \<mapsto> \<lparr>ppj_source = player,
            ppj_zoneCounts = countsOf s pid, ppj_zones = zones, ppj_player = h\<rparr>)\<rparr>))"
      by (auto simp: pjPlayerWith_def Let_def split: option.split)
    show ?thesis
    proof (cases "hydratePlayerWith s pid player zones")
      case (Inl e)
      with m show ?thesis by simp
    next
      case (Inr h)
      have "loop_inv same s ids c (insert pid seen) (p\<lparr>pj_projections := (pj_projections p)(pid \<mapsto>
          \<lparr>ppj_source = player, ppj_zoneCounts = countsOf s pid, ppj_zones = zones, ppj_player = h\<rparr>)\<rparr>)"
      proof (rule loop_inv_store [OF p assms(2)])
        fix t
        assume "countsOf t pid = ppj_zoneCounts
            \<lparr>ppj_source = player, ppj_zoneCounts = countsOf s pid, ppj_zones = zones, ppj_player = h\<rparr>"
        then have "countsOf t pid = countsOf s pid" by simp
        from hydratePlayerWith_counts [OF this] Inr
        show "hydratePlayerWith t pid (ppj_source \<lparr>ppj_source = player, ppj_zoneCounts = countsOf s pid,
              ppj_zones = zones, ppj_player = h\<rparr>) (ppj_zones \<lparr>ppj_source = player,
              ppj_zoneCounts = countsOf s pid, ppj_zones = zones, ppj_player = h\<rparr>) =
            Inr (ppj_player \<lparr>ppj_source = player, ppj_zoneCounts = countsOf s pid, ppj_zones = zones, ppj_player = h\<rparr>)"
          by simp
      qed (simp add: assms(3))
      with m Inr show ?thesis by simp
    qed
  qed
qed

lemma pjPlayer_computes:
  assumes "sound_identity same" and "pid \<in> ids"
  shows "computes (loop_inv same s ids c seen) (loop_inv same s ids c (insert pid seen))
     (pjPlayer same s pid player) (hydratePlayerState s pid player)"
proof -
  have "computes (loop_inv same s ids c seen) (loop_inv same s ids c (insert pid seen))
     (pj_bind (\<lambda>q. case pj_projections q pid of
         Some cached \<Rightarrow> if canReusePlayerZones same s q then (Inr (ppj_zones cached), q)
           else pjPlayerZones same s pid q
       | None \<Rightarrow> pjPlayerZones same s pid q) (pjPlayerWith same s pid player))
     (js_bind (hydrateZones s pid) (hydratePlayerWith s pid player))"
    using zones_stage_computes [OF assms(1)] player_stage_computes [OF assms] by (rule computes_bind)
  then show ?thesis by (simp add: computes_def pjPlayer_def hydratePlayerState_def)
qed

lemma players_loop_computes:
  assumes "sound_identity same" and "fst ` set xs \<subseteq> ids"
  shows "computes (loop_inv same s ids c seen) (loop_inv same s ids c (seen \<union> fst ` set xs))
     (pj_map (\<lambda>(pid, player). pj_bind (pjPlayer same s pid player) (\<lambda>h. pj_return (pid, h))) xs)
     (js_map (\<lambda>(pid, player). js_bind (hydratePlayerState s pid player) (\<lambda>h. Inr (pid, h))) xs)"
  using assms(2)
proof (induction xs arbitrary: seen)
  case Nil
  then show ?case by (simp add: computes_def)
next
  case (Cons x xs)
  obtain pid player where x: "x = (pid, player)" by (cases x)
  let ?f = "\<lambda>(pid, player). pj_bind (pjPlayer same s pid player) (\<lambda>h. pj_return (pid, h))"
  let ?g = "\<lambda>(pid, player). js_bind (hydratePlayerState s pid player) (\<lambda>h. Inr (pid, h))"
  have one: "computes (loop_inv same s ids c seen) (loop_inv same s ids c (insert pid seen)) (?f x) (?g x)"
    using Cons.prems pjPlayer_computes [OF assms(1), of pid ids]
    by (auto simp: x intro!: computes_bind computes_return)
  have rest: "computes (loop_inv same s ids c (insert pid seen))
      (loop_inv same s ids c (seen \<union> fst ` set (x # xs))) (pj_map ?f xs) (js_map ?g xs)"
    using Cons.IH [of "insert pid seen"] Cons.prems by (simp add: x)
  have "computes (loop_inv same s ids c seen) (loop_inv same s ids c (seen \<union> fst ` set (x # xs)))
      (pj_bind (?f x) (\<lambda>y. pj_bind (pj_map ?f xs) (\<lambda>ys. pj_return (y # ys))))
      (js_bind (?g x) (\<lambda>y. js_bind (js_map ?g xs) (\<lambda>ys. Inr (y # ys))))"
    by (rule computes_bind [OF one], rule computes_bind [OF rest], rule computes_return)
  then show ?case by (simp add: computes_def)
qed

section \<open>All players\<close>

text \<open>The objects the cached zones, and the cached players, were computed from.\<close>

definition zone_sources :: "projector \<Rightarrow> v2_state \<Rightarrow> bool" where
  "zone_sources p s \<longleftrightarrow> pj_zonesSource p = Some (v2_zones s)
     \<and> pj_instancesSource p = Some (v2_instances s) \<and> pj_staticsSource p = Some (v2_staticCards s)"

definition player_sources :: "projector \<Rightarrow> v2_state \<Rightarrow> bool" where
  "player_sources p s \<longleftrightarrow> zone_sources p s \<and> pj_playersSource p = Some (v2_players s)
     \<and> pj_countsSource p = Some (v2_zoneCounts s)"

definition seats_inv :: "string set \<Rightarrow> projector \<Rightarrow> bool" where
  "seats_inv ids p \<longleftrightarrow> cards_ok p \<and> players_ok p \<and> dom (pj_projections p) \<subseteq> ids
     \<and> (\<forall>s pid e. zone_sources p s \<longrightarrow> pj_projections p pid = Some e \<longrightarrow> hydrateZones s pid = Inr (ppj_zones e))
     \<and> (\<forall>s ps. player_sources p s \<longrightarrow> pj_players p = Some ps \<longrightarrow>
          (\<exists>hs. hydratePlayers s = Inr hs \<and> map_of hs = map_of ps))
     \<and> (\<forall>ps. pj_players p = Some ps \<longrightarrow> wf_obj ps)"

definition slots_core :: "projector \<Rightarrow> projector" where
  "slots_core p = p\<lparr>pj_cards := Map.empty, pj_zones := Map.empty, pj_projections := Map.empty,
     pj_playersSource := None, pj_zonesSource := None, pj_countsSource := None,
     pj_instancesSource := None, pj_staticsSource := None, pj_players := None\<rparr>"

lemma hit_iff:
  assumes "sound_identity same" and "hit same ref cached source" and "\<And>a b. ref a = ref b \<Longrightarrow> a = b"
  shows "cached = Some source"
  using assms by (auto simp: hit_def sound_identity_def split: option.splits)

lemma canReuse_sources:
  assumes "sound_identity same" and "canReusePlayerZones same s p"
  shows "zone_sources p s"
proof -
  have "hit same RefZones (pj_zonesSource p) (v2_zones s)"
    "hit same RefInstances (pj_instancesSource p) (v2_instances s)"
    "hit same RefStatics (pj_staticsSource p) (v2_staticCards s)"
    using assms(2) by (simp_all add: canReusePlayerZones_def)
  from this(1) [THEN hit_iff [OF assms(1)]] this(2) [THEN hit_iff [OF assms(1)]]
    this(3) [THEN hit_iff [OF assms(1)]]
  show ?thesis by (simp add: zone_sources_def)
qed

lemma sameSources_sources:
  assumes "sound_identity same" and "sameSources same s p"
  shows "player_sources p s"
proof -
  have "canReusePlayerZones same s p" "hit same RefPlayers (pj_playersSource p) (v2_players s)"
    "hit same RefCounts (pj_countsSource p) (v2_zoneCounts s)"
    using assms(2) by (simp_all add: sameSources_def canReusePlayerZones_def)
  from canReuse_sources [OF assms(1) this(1)] this(2) [THEN hit_iff [OF assms(1)]]
    this(3) [THEN hit_iff [OF assms(1)]]
  show ?thesis by (simp add: player_sources_def)
qed

lemma sources_core_fields:
  assumes "sources_core q = sources_core p"
  shows "pj_players q = pj_players p" "slots_core q = slots_core p"
  using arg_cong [OF assms, of pj_players] arg_cong [OF assms, of slots_core]
  by (simp_all add: sources_core_def slots_core_def)

text \<open>Entries with distinct keys that all occur in an object of the same size are that object.\<close>

lemma map_of_full:
  assumes "distinct (map fst xs)" "distinct (map fst ys)" "length xs = length ys"
    and "\<And>k v. (k, v) \<in> set xs \<Longrightarrow> map_of ys k = Some v"
  shows "map_of xs = map_of ys"
proof -
  have sub: "set xs \<subseteq> set ys" using assms(4) by (auto dest: map_of_SomeD)
  have "distinct xs" "distinct ys" using assms(1,2) by (simp_all add: distinct_map)
  then have "card (set xs) = card (set ys)" using assms(3) by (simp add: distinct_card)
  with sub have "set xs = set ys" by (simp add: card_subset_eq)
  then show ?thesis using assms(1,2) by (simp add: map_of_inject_set)
qed

lemma samePlayerEntries_eq:
  assumes "sound_identity same" and "samePlayerEntries same entries players"
    and "distinct (map fst entries)" and "wf_obj players"
  shows "map_of players = map_of entries"
proof (rule map_of_full [symmetric])
  show "map_of players k = Some v" if "(k, v) \<in> set entries" for k v
  proof -
    from assms(2) have "\<forall>x \<in> set entries. case x of (k, v) \<Rightarrow>
        (case obj_get players k of Some old \<Rightarrow> same (RefPlayerState old) (RefPlayerState v) | None \<Rightarrow> False)"
      by (simp add: samePlayerEntries_def list_all_iff)
    from bspec [OF this that] show ?thesis
      by (cases "map_of players k") (auto dest: assms(1) [unfolded sound_identity_def, rule_format])
  qed
qed (use assms in \<open>simp_all add: samePlayerEntries_def wf_obj_def\<close>)

lemma seats_inv_recorded:
  assumes "loop_inv same s ids c (fst ` set (v2_players s)) q" and "ids \<subseteq> fst ` set (v2_players s)"
    and "hydratePlayers s = Inr hs" and "map_of hs = map_of ps" and "wf_obj ps"
    and "pj_players r = Some ps" and "r = recordPlayerSources s q \<or> r = (recordPlayerSources s q)\<lparr>pj_players := Some ps\<rparr>"
  shows "seats_inv ids r"
proof -
  have fields: "pj_cards r = pj_cards q" "pj_projections r = pj_projections q"
    "pj_zonesSource r = Some (v2_zones s)" "pj_instancesSource r = Some (v2_instances s)"
    "pj_staticsSource r = Some (v2_staticCards s)" "pj_playersSource r = Some (v2_players s)"
    "pj_countsSource r = Some (v2_zoneCounts s)"
    using assms(7) by (auto simp: recordPlayerSources_def)
  have "hydrateZones t pid = Inr (ppj_zones e)" if "zone_sources r t" "pj_projections r pid = Some e" for t pid e
  proof -
    have "hydrateZones t = hydrateZones s"
      using that(1) fields by (intro zones_same_maps) (simp_all add: zone_sources_def)
    moreover have "pid \<in> fst ` set (v2_players s)" using assms(1,2) that(2) fields by (auto simp: loop_inv_def)
    ultimately show ?thesis using assms(1) that(2) fields by (simp add: loop_inv_def)
  qed
  moreover have "\<exists>hs. hydratePlayers t = Inr hs \<and> map_of hs = map_of ps" if "player_sources r t" for t
  proof -
    have same: "v2_players t = v2_players s" "v2_zones t = v2_zones s" "v2_zoneCounts t = v2_zoneCounts s"
      "v2_instances t = v2_instances s" "v2_staticCards t = v2_staticCards s"
      using that fields by (simp_all add: player_sources_def zone_sources_def)
    have "hydratePlayers t = hydratePlayers s" by (rule hydratePlayers_same [OF same])
    then show ?thesis using assms(3,4) by simp
  qed
  ultimately show ?thesis
    using assms(1,5,6) fields by (simp add: seats_inv_def loop_inv_def cards_ok_def players_ok_def)
qed

lemma seats_inv_loop:
  assumes "sound_identity same" and "seats_inv ids p"
  shows "loop_inv same s ids (sources_core p) {} p"
  using assms canReuse_sources [OF assms(1), of s p]
  by (simp add: loop_inv_def seats_inv_def canReuse_core)

lemma pjPlayers_ok:
  assumes sound: "sound_identity same" and inv: "seats_inv ids p"
    and keys: "fst ` set (v2_players s) = ids" and wf: "wf_obj (v2_players s)"
  shows "case pjPlayers same s p of
      (Inl e, q) \<Rightarrow> hydratePlayers s = Inl e
    | (Inr ps, q) \<Rightarrow> (\<exists>hs. hydratePlayers s = Inr hs \<and> map_of hs = map_of ps)
        \<and> seats_inv ids q \<and> slots_core q = slots_core p"
proof (cases "sameSources same s p \<and> pj_players p \<noteq> None")
  case True
  then obtain ps where "pj_players p = Some ps" by blast
  with True inv sameSources_sources [OF sound] show ?thesis
    by (auto simp: pjPlayers_def seats_inv_def)
next
  case False
  let ?f = "\<lambda>(pid, player). pj_bind (pjPlayer same s pid player) (\<lambda>h. pj_return (pid, h))"
  let ?g = "\<lambda>(pid, player). js_bind (hydratePlayerState s pid player) (\<lambda>h. Inr (pid, h))"
  let ?xs = "objectEntries (v2_players s)"
  obtain r q where m: "pj_map ?f ?xs p = (r, q)" by (cases "pj_map ?f ?xs p")
  have loop: "computes (loop_inv same s ids (sources_core p) {})
      (loop_inv same s ids (sources_core p) ({} \<union> fst ` set ?xs)) (pj_map ?f ?xs) (js_map ?g ?xs)"
    by (rule players_loop_computes [OF sound]) (simp add: keys)
  let ?k = "\<lambda>entries q. case pj_players q of
        Some old \<Rightarrow> if samePlayerEntries same entries old then (Inr old, recordPlayerSources s q)
          else (Inr (fromEntries entries), (recordPlayerSources s q)\<lparr>pj_players := Some (fromEntries entries)\<rparr>)
      | None \<Rightarrow> (Inr (fromEntries entries), (recordPlayerSources s q)\<lparr>pj_players := Some (fromEntries entries)\<rparr>)"
  have miss: "pjPlayers same s p = pj_bind (pj_map ?f ?xs) ?k p"
    using False unfolding pjPlayers_def
    by (cases "sameSources same s p"; cases "pj_players p") simp_all
  note run = computesD [OF loop seats_inv_loop [OF sound inv], unfolded m]
  have r: "js_map ?g ?xs = r" using run by simp
  show ?thesis
  proof (cases r)
    case (Inl e)
    then have g: "js_map ?g ?xs = Inl e" and f: "pj_map ?f ?xs p = (Inl e, q)" using r m by simp_all
    have "hydratePlayers s = Inl e" unfolding hydratePlayers_def g by simp
    moreover have "pjPlayers same s p = (Inl e, q)" unfolding miss pj_bind_def f by simp
    ultimately show ?thesis by simp
  next
    case (Inr entries)
    have "\<forall>x. js_map ?g ?xs = Inr x \<longrightarrow> loop_inv same s ids (sources_core p) ({} \<union> fst ` set ?xs) (snd (r, q))"
      by (rule run [THEN conjunct2])
    then have q: "loop_inv same s ids (sources_core p) (fst ` set (v2_players s)) q"
      using r Inr by simp
    from q have "sources_core q = sources_core p" unfolding loop_inv_def by (elim conjE)
    note core = sources_core_fields [OF this]
    have d: "distinct (map fst entries)" by (rule hydrated_entries_distinct [OF wf]) (simp add: r Inr)
    have hs: "hydratePlayers s = Inr entries"
      unfolding hydratePlayers_def r Inr using d by (simp add: fromEntries_distinct)
    have q_inv: "seats_inv ids u" if "pj_players u = Some ps" "map_of entries = map_of ps" "wf_obj ps"
      "u = recordPlayerSources s q \<or> u = (recordPlayerSources s q)\<lparr>pj_players := Some ps\<rparr>" for u ps
      by (rule seats_inv_recorded [OF q _ hs that(2,3,1,4)]) (simp add: keys)
    have f: "pj_map ?f ?xs p = (Inr entries, q)" using m Inr by simp
    have "fromEntries entries = entries" using d by (rule fromEntries_distinct)
    with f have "pjPlayers same s p = (case pj_players q of
          Some old \<Rightarrow> if samePlayerEntries same entries old then (Inr old, recordPlayerSources s q)
            else (Inr entries, (recordPlayerSources s q)\<lparr>pj_players := Some entries\<rparr>)
        | None \<Rightarrow> (Inr entries, (recordPlayerSources s q)\<lparr>pj_players := Some entries\<rparr>))"
      unfolding miss pj_bind_def by (simp only: prod.case sum.case)
    moreover have "slots_core (recordPlayerSources s q) = slots_core p"
      "slots_core ((recordPlayerSources s q)\<lparr>pj_players := Some entries\<rparr>) = slots_core p"
      using core(2) by (simp_all add: slots_core_def recordPlayerSources_def)
    moreover have "seats_inv ids ((recordPlayerSources s q)\<lparr>pj_players := Some entries\<rparr>)"
      using d by (intro q_inv [of _ entries]) (simp_all add: wf_obj_def)
    moreover have "map_of entries = map_of old \<and> seats_inv ids (recordPlayerSources s q)"
      if old: "pj_players q = Some old" and same: "samePlayerEntries same entries old" for old
    proof -
      have "wf_obj old" using inv old core(1) by (simp add: seats_inv_def)
      with samePlayerEntries_eq [OF sound same d] have "map_of entries = map_of old" by simp
      with \<open>wf_obj old\<close> old show ?thesis by (auto intro!: q_inv simp: recordPlayerSources_def)
    qed
    ultimately show ?thesis using hs by (cases "pj_players q") auto
  qed
qed

section \<open>The other slots\<close>

definition slot_ok :: "('s \<Rightarrow> 'v) \<Rightarrow> ('s \<times> 'v) option \<Rightarrow> bool" where
  "slot_ok f slot \<longleftrightarrow> (\<forall>source v. slot = Some (source, v) \<longrightarrow> v = f source)"

lemma memo_ok:
  assumes "sound_identity same" and "memo same ref slot source w = (v, slot')" and "slot_ok f slot"
    and "w = f source" and "\<And>a b. ref a = ref b \<Longrightarrow> a = b"
  shows "v = f source \<and> slot_ok f slot'"
  using assms by (auto simp: memo_def slot_ok_def sound_identity_def split: option.splits prod.splits if_splits)

definition stack_ok :: "projector \<Rightarrow> bool" where
  "stack_ok p \<longleftrightarrow> (\<forall>s items. pj_stack p = Some items \<longrightarrow> pj_stackSource p = Some (v2_stack s) \<longrightarrow>
     pj_stackInstancesSource p = Some (v2_instances s) \<longrightarrow> pj_stackStaticsSource p = Some (v2_staticCards s) \<longrightarrow>
     hydrateStack s = Inr items)"

definition slots_ok :: "projector \<Rightarrow> bool" where
  "slots_ok p \<longleftrightarrow> slot_ok (\<lambda>c. c) (pj_shared p) \<and> slot_ok (\<lambda>t. t) (pj_turn p)
     \<and> slot_ok objectValues (pj_arrows p) \<and> slot_ok objectValues (pj_attachments p)
     \<and> slot_ok objectValues (pj_battlefieldStacks p) \<and> slot_ok objectValues (pj_entities p)
     \<and> slot_ok hydrateChat (pj_chat p) \<and> slot_ok hydrateLog (pj_log p)
     \<and> slot_ok cloneDisconnectVotes (pj_votes p) \<and> slot_ok cloneRematchState (pj_rematch p)"

definition caches_ok :: "string set \<Rightarrow> projector \<Rightarrow> bool" where
  "caches_ok ids p \<longleftrightarrow> seats_inv ids p \<and> stack_ok p \<and> slots_ok p"

lemma slots_core_ok:
  assumes "slots_core q = slots_core p"
  shows "slots_ok q = slots_ok p" "stack_ok q = stack_ok p"
proof -
  have "slots_ok (slots_core r) = slots_ok r" "stack_ok (slots_core r) = stack_ok r" for r
    by (simp_all add: slots_ok_def stack_ok_def slots_core_def)
  with assms show "slots_ok q = slots_ok p" "stack_ok q = stack_ok p" by metis+
qed

text \<open>What a step on another slot leaves as it was.\<close>

definition seats_core :: "projector \<Rightarrow> projector" where
  "seats_core p = empty_projector\<lparr>pj_cards := pj_cards p, pj_projections := pj_projections p,
     pj_playersSource := pj_playersSource p, pj_zonesSource := pj_zonesSource p,
     pj_countsSource := pj_countsSource p, pj_instancesSource := pj_instancesSource p,
     pj_staticsSource := pj_staticsSource p, pj_players := pj_players p\<rparr>"

definition stack_core :: "projector \<Rightarrow> projector" where
  "stack_core p = empty_projector\<lparr>pj_stack := pj_stack p, pj_stackSource := pj_stackSource p,
     pj_stackInstancesSource := pj_stackInstancesSource p, pj_stackStaticsSource := pj_stackStaticsSource p\<rparr>"

lemma seats_core_inv: "seats_core q = seats_core p \<Longrightarrow> seats_inv ids q = seats_inv ids p"
proof -
  have "seats_inv ids (seats_core r) = seats_inv ids r" for r
    by (simp add: seats_inv_def cards_ok_def players_ok_def zone_sources_def player_sources_def seats_core_def)
  then show "seats_core q = seats_core p \<Longrightarrow> ?thesis" by metis
qed

lemma stack_core_ok: "stack_core q = stack_core p \<Longrightarrow> stack_ok q = stack_ok p"
proof -
  have "stack_ok (stack_core r) = stack_ok r" for r by (simp add: stack_ok_def stack_core_def)
  then show "stack_core q = stack_core p \<Longrightarrow> ?thesis" by metis
qed

definition slot_step :: "(projector \<Rightarrow> 'v \<times> projector) \<Rightarrow> 'v \<Rightarrow> bool" where
  "slot_step m v \<longleftrightarrow> (\<forall>p. slots_ok p \<longrightarrow> fst (m p) = v \<and> slots_ok (snd (m p))
     \<and> seats_core (snd (m p)) = seats_core p \<and> stack_core (snd (m p)) = stack_core p)"

lemma slot_stepD:
  assumes "slot_step m v" and "caches_ok ids p"
  shows "fst (m p) = v \<and> caches_ok ids (snd (m p))"
  using assms seats_core_inv [of "snd (m p)" p ids] stack_core_ok [of "snd (m p)" p]
  by (simp add: slot_step_def caches_ok_def)

lemmas slot_step_defs = slot_step_def slots_ok_def seats_core_def stack_core_def

lemma slot_steps:
  assumes "sound_identity same"
  shows "slot_step (pjShared same s) (v2_sharedCounters s)"
    and "slot_step (pjTurn same s) (v2_turn s)"
    and "slot_step (pjArrows same s) (arrowsOf s)"
    and "slot_step (pjAttachments same s) (attachmentsOfV2 s)"
    and "slot_step (pjBattlefieldStacks same s) (stacksOf s)"
    and "slot_step (pjEntities same s) (entitiesOf s)"
    and "slot_step (pjChat same s) (hydrateChat (v2_chat s))"
    and "slot_step (pjLog same s) (hydrateLog (v2_log s))"
    and "slot_step (pjVotes same s) (cloneDisconnectVotes (vg_disconnectVotes (v2_game s)))"
    and "slot_step (pjRematch same r) (map_option cloneRematchState r)"
  by (auto simp: slot_step_defs pjShared_def pjTurn_def pjArrows_def pjAttachments_def
      pjBattlefieldStacks_def pjEntities_def pjChat_def pjLog_def pjVotes_def pjRematch_def
      arrowsOf_def attachmentsOfV2_def stacksOf_def entitiesOf_def
      split: prod.split option.split dest: memo_ok [OF assms])

lemma pjStack_ok:
  assumes "sound_identity same" and "caches_ok ids p"
  shows "fst (pjStack same s p) = hydrateStack s
    \<and> (\<forall>items. hydrateStack s = Inr items \<longrightarrow> caches_ok ids (snd (pjStack same s p)))"
proof -
  let ?r = "snd (pjStack same s p)"
  have fresh: "stack_ok (p\<lparr>pj_stackSource := Some (v2_stack s), pj_stackInstancesSource := Some (v2_instances s),
      pj_stackStaticsSource := Some (v2_staticCards s), pj_stack := Some items\<rparr>)"
    if "hydrateStack s = Inr items" for items
  proof -
    have "hydrateStack t = Inr items" if "v2_stack s = v2_stack t" "v2_instances s = v2_instances t"
      "v2_staticCards s = v2_staticCards t" for t
      using hydrateStack_same [OF that] \<open>hydrateStack s = Inr items\<close> by simp
    then show ?thesis by (simp add: stack_ok_def)
  qed
  have frame: "seats_core ?r = seats_core p" "slots_ok ?r = slots_ok p"
    by (auto simp: pjStack_def Let_def seats_core_def slots_ok_def split: option.split sum.split)
  have "fst (pjStack same s p) = hydrateStack s \<and> (\<forall>items. hydrateStack s = Inr items \<longrightarrow> stack_ok ?r)"
  proof (cases "\<exists>old. pj_stack p = Some old \<and> hit same RefStack (pj_stackSource p) (v2_stack s)
      \<and> hit same RefInstances (pj_stackInstancesSource p) (v2_instances s)
      \<and> hit same RefStatics (pj_stackStaticsSource p) (v2_staticCards s)")
    case True
    then obtain old where old: "pj_stack p = Some old"
      and hits: "hit same RefStack (pj_stackSource p) (v2_stack s)"
        "hit same RefInstances (pj_stackInstancesSource p) (v2_instances s)"
        "hit same RefStatics (pj_stackStaticsSource p) (v2_staticCards s)" by blast
    have "hydrateStack s = Inr old"
      using assms(2) old hits [THEN hit_iff [OF assms(1)]] by (simp add: caches_ok_def stack_ok_def)
    moreover have "pjStack same s p = (Inr old, p)" using old hits by (simp add: pjStack_def)
    ultimately show ?thesis using assms(2) by (simp add: caches_ok_def)
  next
    case False
    then have "pjStack same s p = (let q = p\<lparr>pj_stackSource := Some (v2_stack s),
          pj_stackInstancesSource := Some (v2_instances s), pj_stackStaticsSource := Some (v2_staticCards s)\<rparr>
        in case hydrateStack s of Inl e \<Rightarrow> (Inl e, q) | Inr items \<Rightarrow> (Inr items, q\<lparr>pj_stack := Some items\<rparr>))"
      by (auto simp: pjStack_def Let_def split: option.split)
    then show ?thesis using fresh by (cases "hydrateStack s") simp_all
  qed
  with frame show ?thesis using assms(2) seats_core_inv [OF frame(1)] by (simp add: caches_ok_def)
qed

section \<open>The snapshot\<close>

lemma run_slot:
  assumes "slot_step m v" and "caches_ok ids p"
  obtains q where "m p = (v, q)" "caches_ok ids q"
  using slot_stepD [OF assms] by (cases "m p") simp

lemma snapshotWith_players: "map_of hs = map_of ps \<Longrightarrow> snapshotWith s ps items = snapshotWith s hs items"
  by (simp add: snapshotWith_def)

lemma hydrateWithCaches_ok:
  assumes sound: "sound_identity same" and inv: "caches_ok (fst ` set (v2_players s)) p"
    and wf: "wf_obj (v2_players s)"
  shows "fst (hydrateWithCaches same s p) = hydrateSnapshot s
    \<and> (\<forall>snap. hydrateSnapshot s = Inr snap \<longrightarrow>
         caches_ok (fst ` set (v2_players s)) (snd (hydrateWithCaches same s p)))"
proof -
  let ?ids = "fst ` set (v2_players s)"
  note steps = slot_steps [OF sound]
  have seats: "seats_inv ?ids p" using inv by (simp add: caches_ok_def)
  obtain r p0 where m: "pjPlayers same s p = (r, p0)" by (cases "pjPlayers same s p")
  note players = pjPlayers_ok [OF sound seats refl wf, unfolded m]
  show ?thesis
  proof (cases r)
    case (Inl e)
    with players m show ?thesis by (simp add: hydrateWithCaches_def pj_bind_def hydrateSnapshot_def)
  next
    case (Inr ps)
    with players obtain hs where hs: "hydratePlayers s = Inr hs" "map_of hs = map_of ps"
      and p0: "seats_inv ?ids p0" "slots_core p0 = slots_core p" by auto
    from p0 slots_core_ok [OF p0(2)] inv have ok0: "caches_ok ?ids p0" by (simp add: caches_ok_def)
    obtain p1 where p1: "pjShared same s p0 = (v2_sharedCounters s, p1)" "caches_ok ?ids p1"
      by (rule run_slot [OF steps(1) ok0])
    obtain p2 where p2: "pjTurn same s p1 = (v2_turn s, p2)" "caches_ok ?ids p2"
      by (rule run_slot [OF steps(2) p1(2)])
    obtain r' p3 where st: "pjStack same s p2 = (r', p3)" by (cases "pjStack same s p2")
    from pjStack_ok [OF sound p2(2), of s] st
    have stack: "hydrateStack s = r'" "\<And>items. hydrateStack s = Inr items \<Longrightarrow> caches_ok ?ids p3" by auto
    show ?thesis
    proof (cases r')
      case (Inl e)
      then show ?thesis using m Inr p1(1) p2(1) st stack(1) hs(1)
        by (simp add: hydrateWithCaches_def pj_bind_def hydrateSnapshot_def)
    next
      case items: (Inr items)
      with stack have p3: "caches_ok ?ids p3" by simp
      obtain p4 where p4: "pjArrows same s p3 = (arrowsOf s, p4)" "caches_ok ?ids p4"
        by (rule run_slot [OF steps(3) p3])
      obtain p5 where p5: "pjAttachments same s p4 = (attachmentsOfV2 s, p5)" "caches_ok ?ids p5"
        by (rule run_slot [OF steps(4) p4(2)])
      obtain p6 where p6: "pjBattlefieldStacks same s p5 = (stacksOf s, p6)" "caches_ok ?ids p6"
        by (rule run_slot [OF steps(5) p5(2)])
      obtain p7 where p7: "pjEntities same s p6 = (entitiesOf s, p7)" "caches_ok ?ids p7"
        by (rule run_slot [OF steps(6) p6(2)])
      obtain p8 where p8: "pjChat same s p7 = (hydrateChat (v2_chat s), p8)" "caches_ok ?ids p8"
        by (rule run_slot [OF steps(7) p7(2)])
      obtain p9 where p9: "pjLog same s p8 = (hydrateLog (v2_log s), p9)" "caches_ok ?ids p9"
        by (rule run_slot [OF steps(8) p8(2)])
      obtain p10 where p10: "pjRematch same (vg_rematch (v2_game s)) p9 =
          (map_option cloneRematchState (vg_rematch (v2_game s)), p10)" "caches_ok ?ids p10"
        by (rule run_slot [OF steps(10) p9(2)])
      obtain p11 where p11: "pjVotes same s p10 =
          (cloneDisconnectVotes (vg_disconnectVotes (v2_game s)), p11)" "caches_ok ?ids p11"
        by (rule run_slot [OF steps(9) p10(2)])
      have "hydrateWithCaches same s p = (Inr (snapshotWith s ps items), p11)"
        using m Inr p1(1) p2(1) st items p4(1) p5(1) p6(1) p7(1) p8(1) p9(1) p10(1) p11(1)
        by (simp add: hydrateWithCaches_def pj_bind_def) (simp add: snapshotWith_def Let_def)
      moreover have "hydrateSnapshot s = Inr (snapshotWith s hs items)"
        using hs(1) stack(1) items by (simp add: hydrateSnapshot_def)
      ultimately show ?thesis using p11(2) snapshotWith_players [OF hs(2)] by simp
    qed
  qed
qed

lemma empty_caches_ok: "caches_ok ids empty_projector"
  by (simp add: caches_ok_def seats_inv_def stack_ok_def slots_ok_def slot_ok_def cards_ok_def
      players_ok_def zone_sources_def player_sources_def empty_projector_def)

text \<open>The projector after the states of a run have been projected in turn.\<close>

definition projections :: "identity_test \<Rightarrow> v2_state list \<Rightarrow> projector" where
  "projections same states = foldl (\<lambda>p s. snd (hydrateWithCaches same s p)) empty_projector states"

lemma projections_ok:
  assumes "sound_identity same"
    and "\<And>t. t \<in> set states \<Longrightarrow> wf_obj (v2_players t) \<and> fst ` set (v2_players t) = ids
      \<and> (\<exists>snap. hydrateSnapshot t = Inr snap)"
  shows "caches_ok ids (projections same states)"
  using assms(2)
proof (induction states rule: rev_induct)
  case Nil
  then show ?case by (simp add: projections_def empty_caches_ok)
next
  case (snoc t states)
  let ?p = "projections same states"
  have t: "wf_obj (v2_players t)" "fst ` set (v2_players t) = ids" "\<exists>snap. hydrateSnapshot t = Inr snap"
    using snoc.prems by simp_all
  have "caches_ok ids ?p" using snoc by simp
  then have "caches_ok ids (snd (hydrateWithCaches same t ?p))"
    using hydrateWithCaches_ok [OF assms(1) _ t(1), of ?p] t(2,3) by blast
  then show ?case by (simp add: projections_def)
qed

text \<open>C27: The caches of the projector are transparent: after any run of well-formed states of one
  table whose projections all succeeded, the next state gets exactly the snapshot, or the error,
  of the projection without caches, however the identity test recognises unchanged objects.\<close>
theorem v2_caches_transparent:
  assumes "sound_identity same" and "\<And>t. t \<in> set (s # earlier) \<Longrightarrow> v2_wf coll t"
    and "\<And>t. t \<in> set earlier \<Longrightarrow> fst ` set (v2_players t) = fst ` set (v2_players s)"
    and "\<And>t. t \<in> set earlier \<Longrightarrow> \<exists>snap. hydrateSnapshot t = Inr snap"
  shows "fst (hydrateWithCaches same s (projections same earlier)) = hydrateSnapshot s"
proof -
  have wf: "wf_obj (v2_players t)" if "t \<in> set (s # earlier)" for t
    using assms(2) [OF that] by (simp add: v2_wf_def players_wf_def)
  have "caches_ok (fst ` set (v2_players s)) (projections same earlier)"
    by (rule projections_ok [OF assms(1)]) (use wf assms(3,4) in simp)
  from hydrateWithCaches_ok [OF assms(1) this] wf show ?thesis by simp
qed

text \<open>A card is tapped: the second state is projected from the warm caches.\<close>

definition tapped_table :: v2_state where
  "tapped_table = two_player_table\<lparr>v2_instances := (v2_instances two_player_table)
     (''b1'' \<mapsto> (hidden_instance ''b1'')\<lparr>vi_tapped := Some True\<rparr>)\<rparr>"

lemma tapped_table_wf: "v2_wf coll tapped_table"
  using two_player_table_wf [of coll] by (simp add: tapped_table_def v2_wf_def)

lemma tapped_table_projects: "\<exists>snap. hydrateSnapshot tapped_table = Inr snap"
proof -
  have "identity_ok tapped_table"
    by (auto simp: identity_ok_def tapped_table_def two_player_table_def renderable_def hidden_instance_def
        split: if_splits)
  with hydrateSnapshot_total [OF tapped_table_wf] show ?thesis by blast
qed

theorem v2_caches_transparent_witness:
  "fst (hydrateWithCaches (=) tapped_table (projections (=) [two_player_table])) = hydrateSnapshot tapped_table
     \<and> (\<exists>snap. hydrateSnapshot tapped_table = Inr snap)"
proof (rule conjI [OF _ tapped_table_projects], rule v2_caches_transparent [of _ _ _ string_order])
  show "sound_identity (=)" by (simp add: sound_identity_def)
next
  fix t assume "t \<in> set [tapped_table, two_player_table]"
  then show "v2_wf string_order t" using two_player_table_wf tapped_table_wf by auto
qed (use two_player_table_projects in \<open>auto simp: tapped_table_def\<close>)

end
