(* ===== verification/AssistantModel.thy ===== *)
theory AssistantModel
  imports JsNumber JsString
begin

text \<open>
  The data of the table assistant, the life counter that a group shares at a physical table:
  \<^verbatim>\<open>features/table-assistant/models/table-assistant.models.ts\<close> and the player colours of
  \<^verbatim>\<open>domain/table-assistant-colors.ts\<close>. Optional fields (\<open>field?:\<close>) and nullable ones are
  \<open>option\<close>; an object keyed by ids is a partial map.
\<close>

section \<open>Enumerations\<close>

datatype use_mode = SingleDevice | PerPlayerDevice

datatype room_status = RoomSetup | RoomActive | RoomClosed

datatype participant_role = HostRole | PlayerRole | ViewerRole

datatype assistant_timer_mode = NoTimer | TurnTimer | PhaseTimer

datatype assistant_timer_status = IdleTimer | RunningTimer | PausedTimer

datatype permission_mode = Everyone | HostAndOwner

datatype invitation_status = InvitePending | InviteAccepted | InviteDeclined | InviteExpired

datatype phase_id = Untap | Upkeep | DrawStep | Main1 | Combat | Main2 | EndStep

text \<open>The phases in the order of a turn.\<close>

fun phase_rank :: "phase_id \<Rightarrow> nat" where
  "phase_rank Untap = 0" | "phase_rank Upkeep = 1" | "phase_rank DrawStep = 2" | "phase_rank Main1 = 3"
| "phase_rank Combat = 4" | "phase_rank Main2 = 5" | "phase_rank EndStep = 6"

instantiation phase_id :: linorder
begin

definition less_eq_phase_id :: "phase_id \<Rightarrow> phase_id \<Rightarrow> bool" where
  "less_eq_phase_id a b = (phase_rank a \<le> phase_rank b)"

definition less_phase_id :: "phase_id \<Rightarrow> phase_id \<Rightarrow> bool" where
  "less_phase_id a b = (phase_rank a < phase_rank b)"

instance
proof
  fix a b :: phase_id
  show "a \<le> b \<Longrightarrow> b \<le> a \<Longrightarrow> a = b"
    by (cases a; cases b) (simp_all add: less_eq_phase_id_def)
qed (auto simp: less_eq_phase_id_def less_phase_id_def)

end

datatype player_tracker = Poison | CommanderTax | Energy | Experience

datatype global_tracker = Monarch | Initiative | Storm

datatype tracker_id = CommanderDamageTracker | PlayerTracker player_tracker | GlobalTracker global_tracker

datatype tracker_scope = PlayerTrackerScope | GlobalTrackerScope | SpecialTrackerScope

record tracker_definition =
  td_id :: tracker_id
  td_labelKey :: string
  td_scope :: tracker_scope
  td_defaultEnabled :: bool

section \<open>The room\<close>

record permission_policy =
  tpol_mode :: permission_mode
  tpol_hostCanEditAll :: bool
  tpol_playerCanEditOwnPanel :: bool
  tpol_viewerCanEdit :: bool

record assistant_settings =
  tset_initialLife :: jsnum
  tset_commanderDamageEnabled :: bool
  tset_turnTrackingEnabled :: bool
  tset_phasesEnabled :: bool
  tset_timerMode :: assistant_timer_mode
  tset_skipEliminatedPlayers :: bool
  tset_permissionPolicy :: permission_policy
  tset_activeTrackerIds :: "tracker_id list"

record assistant_player =
  tp_id :: string
  tp_name :: string
  tp_color :: string
  tp_seatIndex :: int
  tp_turnOrder :: int
  tp_life :: jsnum
  tp_startingLife :: jsnum
  tp_eliminated :: bool
  tp_assignedParticipantId :: "string option"
  tp_assignedUserId :: "string option"
  tp_trackers :: "player_tracker \<rightharpoonup> jsnum"

record assistant_user =
  usr_id :: string
  usr_displayName :: string
  usr_email :: "string option"

record assistant_participant =
  tpt_id :: string
  tpt_role :: participant_role
  tpt_user :: "assistant_user option"
  tpt_deviceId :: "string option"
  tpt_assignedPlayerId :: "string option"
  tpt_connected :: bool
  tpt_joinedAt :: string

record assistant_invitation =
  tinv_id :: string
  tinv_roomInviteId :: "string option"
  tinv_invitedFriend :: assistant_user
  tinv_invitedByParticipantId :: string
  tinv_assignedPlayerId :: "string option"
  tinv_status :: invitation_status
  tinv_createdAt :: string
  tinv_updatedAt :: string

record assistant_turn =
  ttu_activePlayerId :: "string option"
  ttu_number :: jsnum
  ttu_phaseId :: "phase_id option"

record assistant_timer =
  ttm_mode :: assistant_timer_mode
  ttm_status :: assistant_timer_status
  ttm_durationSeconds :: "jsnum option"
  ttm_remainingSeconds :: "jsnum option"
  ttm_startedAt :: "string option"

record assistant_sharing =
  tsh_code :: string
  tsh_inviteUrl :: "string option"

record action_log_entry =
  tlog_id :: string
  tlog_type :: string
  tlog_actorParticipantId :: "string option"
  tlog_createdAt :: string

record assistant_room =
  tr_id :: string
  tr_status :: room_status
  tr_mode :: use_mode
  tr_hostParticipantId :: string
  tr_players :: "assistant_player list"
  tr_participants :: "assistant_participant list"
  tr_invitations :: "assistant_invitation list"
  tr_settings :: assistant_settings
  tr_turn :: assistant_turn
  tr_timer :: assistant_timer
  tr_sharing :: assistant_sharing
  tr_globalTrackers :: "global_tracker \<rightharpoonup> jsnum"
  tr_commanderDamage :: "string \<rightharpoonup> (string \<rightharpoonup> jsnum)"
  tr_actionLog :: "action_log_entry list"
  tr_version :: int
  tr_createdAt :: string
  tr_updatedAt :: string

section \<open>Actions and creation options\<close>

text \<open>The constructors follow the \<open>type\<close> tags; every action also carries an actor and an id.\<close>

datatype action_body =
    LifeChanged string jsnum
  | LifeSet string jsnum
  | CommanderDamageChanged string string jsnum
  | TurnPassed
  | TurnReverted string jsnum
  | PhasePassed
  | TimerStarted jsnum
  | TimerPaused jsnum
  | TimerResumed jsnum
  | TimerReset
  | GameReset "string list option" "string list option"
  | EliminationChanged string bool
  | TrackerChanged tracker_id jsnum "string option"
  | ParticipantAssigned string string

record assistant_action =
  act_body :: action_body
  act_actorParticipantId :: "string option"
  act_clientActionId :: "string option"

fun action_type :: "action_body \<Rightarrow> string" where
  "action_type (LifeChanged _ _) = ''life.changed''"
| "action_type (LifeSet _ _) = ''life.set''"
| "action_type (CommanderDamageChanged _ _ _) = ''commander-damage.changed''"
| "action_type TurnPassed = ''turn.passed''"
| "action_type (TurnReverted _ _) = ''turn.reverted''"
| "action_type PhasePassed = ''phase.passed''"
| "action_type (TimerStarted _) = ''timer.started''"
| "action_type (TimerPaused _) = ''timer.paused''"
| "action_type (TimerResumed _) = ''timer.resumed''"
| "action_type TimerReset = ''timer.reset''"
| "action_type (GameReset _ _) = ''game.reset''"
| "action_type (EliminationChanged _ _) = ''player.elimination.changed''"
| "action_type (TrackerChanged _ _ _) = ''tracker.changed''"
| "action_type (ParticipantAssigned _ _) = ''participant.assigned''"

record configured_player =
  cfp_name :: "string option"
  cfp_color :: "string option"

record room_options =
  opt_mode :: use_mode
  opt_roomId :: "string option"
  opt_roomCode :: "string option"
  opt_inviteUrl :: "string option"
  opt_hostUser :: "assistant_user option"
  opt_hostDeviceId :: "string option"
  opt_playerCount :: "jsnum option"
  opt_initialLife :: "jsnum option"
  opt_phasesEnabled :: "bool option"
  opt_timerMode :: "assistant_timer_mode option"
  opt_timerDurationSeconds :: "jsnum option"
  opt_skipEliminatedPlayers :: "bool option"
  opt_activeTrackerIds :: "tracker_id list option"
  opt_players :: "configured_player list option"
  opt_createdAt :: "string option"

section \<open>Colours\<close>

record color_option =
  co_id :: string
  co_labelKey :: string
  co_manaSymbols :: "string list"
  co_manaText :: string
  co_gradient :: string
  co_accent :: string

definition color_entry :: "string \<Rightarrow> string \<Rightarrow> string list \<Rightarrow> string list \<Rightarrow> string \<Rightarrow> color_option" where
  "color_entry i labelKey manaSymbols stops accent =
     \<lparr>co_id = i, co_labelKey = labelKey, co_manaSymbols = manaSymbols,
      co_manaText = map upper_char (concat manaSymbols),
      co_gradient = ''linear-gradient(135deg, '' @ join_strings '', '' stops @ '')'',
      co_accent = accent\<rparr>"

definition TABLE_ASSISTANT_COLOR_OPTIONS :: "color_option list" where
  "TABLE_ASSISTANT_COLOR_OPTIONS = [
    color_entry ''white'' ''shared.text.white'' [''w''] [''#fffdf0'', ''#fff176'', ''#f2c14f'', ''#fffdf0''] ''#fff176'',
    color_entry ''blue'' ''shared.text.blue'' [''u''] [''#48b9e8'', ''#114f88''] ''#70d6ff'',
    color_entry ''black'' ''shared.text.black'' [''b''] [''#6f6572'', ''#08070a''] ''#b4a7bb'',
    color_entry ''red'' ''shared.text.red'' [''r''] [''#f97355'', ''#8d1f18''] ''#ff9277'',
    color_entry ''green'' ''shared.text.green'' [''g''] [''#70c96f'', ''#145c2d''] ''#8df08f'',
    color_entry ''azorius'' ''common.ui.colorAzorius'' [''w'', ''u''] [''#f5f0dc'', ''#48b9e8''] ''#d7efff'',
    color_entry ''dimir'' ''common.ui.colorDimir'' [''u'', ''b''] [''#48b9e8'', ''#08070a''] ''#70d6ff'',
    color_entry ''rakdos'' ''common.ui.colorRakdos'' [''b'', ''r''] [''#08070a'', ''#c83224''] ''#ff7f70'',
    color_entry ''gruul'' ''common.ui.colorGruul'' [''r'', ''g''] [''#d93b25'', ''#1d7a3c''] ''#ff856c'',
    color_entry ''selesnya'' ''common.ui.colorSelesnya'' [''g'', ''w''] [''#2f9c4c'', ''#f5f0dc''] ''#c4f7c8'',
    color_entry ''orzhov'' ''common.ui.colorOrzhov'' [''w'', ''b''] [''#f5f0dc'', ''#08070a''] ''#f1e6d0'',
    color_entry ''izzet'' ''common.ui.colorIzzet'' [''u'', ''r''] [''#36a8df'', ''#c83224''] ''#70d6ff'',
    color_entry ''golgari'' ''common.ui.colorGolgari'' [''b'', ''g''] [''#08070a'', ''#1d7a3c''] ''#8df08f'',
    color_entry ''boros'' ''common.ui.colorBoros'' [''r'', ''w''] [''#d93b25'', ''#f5f0dc''] ''#ffd1bd'',
    color_entry ''simic'' ''common.ui.colorSimic'' [''g'', ''u''] [''#1d7a3c'', ''#36a8df''] ''#86f5dc'',
    color_entry ''esper'' ''common.ui.colorEsper'' [''w'', ''u'', ''b''] [''#f5f0dc'', ''#36a8df'', ''#08070a''] ''#d7efff'',
    color_entry ''grixis'' ''common.ui.colorGrixis'' [''u'', ''b'', ''r''] [''#36a8df'', ''#08070a'', ''#c83224''] ''#70d6ff'',
    color_entry ''jund'' ''common.ui.colorJund'' [''b'', ''r'', ''g''] [''#08070a'', ''#c83224'', ''#1d7a3c''] ''#ff7f70'',
    color_entry ''naya'' ''common.ui.colorNaya'' [''r'', ''g'', ''w''] [''#c83224'', ''#1d7a3c'', ''#f5f0dc''] ''#ffe0a3'',
    color_entry ''bant'' ''common.ui.colorBant'' [''g'', ''w'', ''u''] [''#1d7a3c'', ''#f5f0dc'', ''#36a8df''] ''#c4f7c8'']"

definition LEGACY_COLOR_ALIASES :: "string \<rightharpoonup> string" where
  "LEGACY_COLOR_ALIASES = [''yellow'' \<mapsto> ''white'', ''purple'' \<mapsto> ''dimir'', ''orange'' \<mapsto> ''red'']"

definition tableAssistantColorOption :: "string \<Rightarrow> color_option" where
  "tableAssistantColorOption colorId =
     (let normalizedColorId = (case LEGACY_COLOR_ALIASES colorId of Some i \<Rightarrow> i | None \<Rightarrow> colorId) in
      case List.find (\<lambda>c. co_id c = normalizedColorId) TABLE_ASSISTANT_COLOR_OPTIONS of
        Some c \<Rightarrow> c
      | None \<Rightarrow> hd TABLE_ASSISTANT_COLOR_OPTIONS)"

definition PLAYER_COLORS :: "string list" where
  "PLAYER_COLORS = map co_id TABLE_ASSISTANT_COLOR_OPTIONS"

lemma PLAYER_COLORS_eq:
  "PLAYER_COLORS = [''white'', ''blue'', ''black'', ''red'', ''green'', ''azorius'', ''dimir'',
     ''rakdos'', ''gruul'', ''selesnya'', ''orzhov'', ''izzet'', ''golgari'', ''boros'', ''simic'',
     ''esper'', ''grixis'', ''jund'', ''naya'', ''bant'']"
  by (simp add: PLAYER_COLORS_def TABLE_ASSISTANT_COLOR_OPTIONS_def color_entry_def)

lemma PLAYER_COLORS_length [simp]: "length PLAYER_COLORS = 20"
  by (simp add: PLAYER_COLORS_eq)

end
