(* ===== verification/AssistantState.thy ===== *)
theory AssistantState
  imports AssistantModel Replica
begin

text \<open>
  The state machine of the table assistant, \<^verbatim>\<open>domain/table-assistant-state.ts\<close>: creating a
  room, the permission check, and \<open>applyTableAssistantAction\<close> with every action. The clock is
  an argument, \<open>action_clock\<close>: the readings one action makes, which may differ from each other.
\<close>

record action_clock =
  clk_startedAt :: string
  clk_updatedAt :: string
  clk_logCreatedAt :: string
  clk_millis :: nat

section \<open>Constants\<close>

definition COMMANDER_STARTING_LIFE :: jsnum where "COMMANDER_STARTING_LIFE = num 40"
definition COMMANDER_DAMAGE_LETHAL_AMOUNT :: jsnum where "COMMANDER_DAMAGE_LETHAL_AMOUNT = num 21"
definition DEFAULT_PLAYER_COUNT :: jsnum where "DEFAULT_PLAYER_COUNT = num 4"

definition TABLE_ASSISTANT_PHASES :: "phase_id list" where
  "TABLE_ASSISTANT_PHASES = [Untap, Upkeep, DrawStep, Main1, Combat, Main2, EndStep]"

definition TABLE_ASSISTANT_TRACKERS :: "tracker_definition list" where
  "TABLE_ASSISTANT_TRACKERS = [
    \<lparr>td_id = CommanderDamageTracker, td_labelKey = ''shared.text.commanderDamage'',
     td_scope = SpecialTrackerScope, td_defaultEnabled = True\<rparr>,
    \<lparr>td_id = PlayerTracker Poison, td_labelKey = ''game.playerCounters.poison'',
     td_scope = PlayerTrackerScope, td_defaultEnabled = False\<rparr>,
    \<lparr>td_id = PlayerTracker CommanderTax, td_labelKey = ''common.ui.commanderTax'',
     td_scope = PlayerTrackerScope, td_defaultEnabled = False\<rparr>,
    \<lparr>td_id = PlayerTracker Energy, td_labelKey = ''game.playerCounters.energy'',
     td_scope = PlayerTrackerScope, td_defaultEnabled = False\<rparr>,
    \<lparr>td_id = PlayerTracker Experience, td_labelKey = ''game.playerCounters.experience'',
     td_scope = PlayerTrackerScope, td_defaultEnabled = False\<rparr>,
    \<lparr>td_id = GlobalTracker Monarch, td_labelKey = ''shared.text.monarch'',
     td_scope = GlobalTrackerScope, td_defaultEnabled = False\<rparr>,
    \<lparr>td_id = GlobalTracker Initiative, td_labelKey = ''game.specialHelpers.labels.initiative'',
     td_scope = GlobalTrackerScope, td_defaultEnabled = False\<rparr>,
    \<lparr>td_id = GlobalTracker Storm, td_labelKey = ''common.ui.storm'',
     td_scope = GlobalTrackerScope, td_defaultEnabled = False\<rparr>]"

definition PLAYER_TRACKER_IDS :: "player_tracker list" where
  "PLAYER_TRACKER_IDS = [Poison, CommanderTax, Energy, Experience]"

definition GLOBAL_TRACKER_IDS :: "global_tracker list" where
  "GLOBAL_TRACKER_IDS = [Monarch, Initiative, Storm]"

section \<open>Settings\<close>

definition normalizePositiveInteger :: "jsnum option \<Rightarrow> jsnum \<Rightarrow> jsnum" where
  "normalizePositiveInteger v fallback =
     (case v of
        None \<Rightarrow> fallback
      | Some x \<Rightarrow> if \<not> is_finite x then fallback else js_max (num 1) (js_floor x))"

definition normalizeNullablePositiveInteger :: "jsnum option \<Rightarrow> jsnum option \<Rightarrow> jsnum option" where
  "normalizeNullablePositiveInteger v fallback =
     (case v of
        None \<Rightarrow> fallback
      | Some x \<Rightarrow> if \<not> is_finite x then fallback else Some (js_max (num 1) (js_floor x)))"

definition availableTimerModes :: "bool \<Rightarrow> assistant_timer_mode list" where
  "availableTimerModes phasesEnabled =
     (if phasesEnabled then [NoTimer, TurnTimer, PhaseTimer] else [NoTimer, TurnTimer])"

definition normalizeTimerMode :: "assistant_timer_mode \<Rightarrow> bool \<Rightarrow> assistant_timer_mode" where
  "normalizeTimerMode m phasesEnabled =
     (if m \<in> set (availableTimerModes phasesEnabled) then m else NoTimer)"

definition activeTrackerDefinitions :: "tracker_id list \<Rightarrow> tracker_definition list" where
  "activeTrackerDefinitions activeTrackerIds =
     filter (\<lambda>t. td_id t \<in> set activeTrackerIds) TABLE_ASSISTANT_TRACKERS"

definition defaultPermissionPolicy :: "use_mode \<Rightarrow> permission_policy" where
  "defaultPermissionPolicy m =
     \<lparr>tpol_mode = (if m = SingleDevice then Everyone else HostAndOwner),
      tpol_hostCanEditAll = True, tpol_playerCanEditOwnPanel = True, tpol_viewerCanEdit = False\<rparr>"

definition defaultActiveTrackerIds :: "tracker_id list" where
  "defaultActiveTrackerIds = map td_id (filter td_defaultEnabled TABLE_ASSISTANT_TRACKERS)"

definition if_undefined :: "'a option \<Rightarrow> 'a \<Rightarrow> 'a" where
  "if_undefined v d = (case v of None \<Rightarrow> d | Some x \<Rightarrow> x)"

lemma if_undefined_simps [simp]: "if_undefined None d = d" "if_undefined (Some x) d = x"
  by (simp_all add: if_undefined_def)

definition createDefaultSettings :: "use_mode \<Rightarrow> room_options \<Rightarrow> assistant_settings" where
  "createDefaultSettings m options =
     (let phasesEnabled = if_undefined (opt_phasesEnabled options) False in
      \<lparr>tset_initialLife = normalizePositiveInteger (opt_initialLife options) COMMANDER_STARTING_LIFE,
       tset_commanderDamageEnabled = True, tset_turnTrackingEnabled = True,
       tset_phasesEnabled = phasesEnabled,
       tset_timerMode = normalizeTimerMode (if_undefined (opt_timerMode options) NoTimer) phasesEnabled,
       tset_skipEliminatedPlayers = if_undefined (opt_skipEliminatedPlayers options) False,
       tset_permissionPolicy = defaultPermissionPolicy m,
       tset_activeTrackerIds = if_undefined (opt_activeTrackerIds options) defaultActiveTrackerIds\<rparr>)"

section \<open>Creating a room\<close>

definition normalizedPlayerName :: "string option \<Rightarrow> nat \<Rightarrow> string" where
  "normalizedPlayerName name index =
     (let trimmedName = (case name of None \<Rightarrow> [] | Some n \<Rightarrow> js_trim n) in
      if trimmedName \<noteq> [] then take 40 trimmedName else ''Jugador '' @ nat_string (index + 1))"

definition normalizedPlayerColor :: "string option \<Rightarrow> nat \<Rightarrow> string" where
  "normalizedPlayerColor color index =
     (case color of
        Some c \<Rightarrow> if c \<noteq> [] \<and> c \<in> set PLAYER_COLORS then c
                  else PLAYER_COLORS ! (index mod length PLAYER_COLORS)
      | None \<Rightarrow> PLAYER_COLORS ! (index mod length PLAYER_COLORS))"

definition createPlayerTrackers :: "tracker_id list \<Rightarrow> player_tracker \<rightharpoonup> jsnum" where
  "createPlayerTrackers active =
     foldl (\<lambda>trackers t. if PlayerTracker t \<in> set active then trackers(t \<mapsto> num 0) else trackers)
       Map.empty PLAYER_TRACKER_IDS"

definition createGlobalTrackers :: "tracker_id list \<Rightarrow> global_tracker \<rightharpoonup> jsnum" where
  "createGlobalTrackers active =
     foldl (\<lambda>trackers t. if GlobalTracker t \<in> set active then trackers(t \<mapsto> num 0) else trackers)
       Map.empty GLOBAL_TRACKER_IDS"

definition createPlayer ::
  "jsnum \<Rightarrow> tracker_id list \<Rightarrow> configured_player list \<Rightarrow> nat \<Rightarrow> assistant_player" where
  "createPlayer startingLife active configured index =
     (let configuredPlayer = (if index < length configured then Some (configured ! index) else None) in
      \<lparr>tp_id = ''player-'' @ nat_string (index + 1),
       tp_name = normalizedPlayerName (Option.bind configuredPlayer cfp_name) index,
       tp_color = normalizedPlayerColor (Option.bind configuredPlayer cfp_color) index,
       tp_seatIndex = int index, tp_turnOrder = int index,
       tp_life = startingLife, tp_startingLife = startingLife, tp_eliminated = False,
       tp_assignedParticipantId = None, tp_assignedUserId = None,
       tp_trackers = createPlayerTrackers active\<rparr>)"

text \<open>
  \<open>Array.from({ length: n }, f)\<close>: a length that is not a number counts as zero, and an array
  cannot be longer than 2 ^ 32 - 1.
\<close>

fun array_length :: "jsnum \<Rightarrow> nat js" where
  "array_length NaN = Inr 0"
| "array_length PosInf = Inl RangeError"
| "array_length NegInf = Inr 0"
| "array_length (Fin q) = (if \<lfloor>q\<rfloor> > 2 ^ 32 - 1 then Inl RangeError else Inr (nat \<lfloor>q\<rfloor>))"

definition createPlayers ::
  "jsnum \<Rightarrow> jsnum \<Rightarrow> tracker_id list \<Rightarrow> configured_player list \<Rightarrow> assistant_player list js" where
  "createPlayers playerTotal startingLife active configured =
     js_bind (array_length (js_max (num 1) (js_floor playerTotal))) (\<lambda>n.
       Inr (map (createPlayer startingLife active configured) [0..<n]))"

definition damageRow :: "assistant_player list \<Rightarrow> assistant_player \<Rightarrow> string \<rightharpoonup> jsnum" where
  "damageRow players target =
     foldl (\<lambda>row source. row(tp_id source \<mapsto> num 0)) Map.empty
       (filter (\<lambda>source. tp_id source \<noteq> tp_id target) players)"

definition createCommanderDamage :: "assistant_player list \<Rightarrow> string \<rightharpoonup> (string \<rightharpoonup> jsnum)" where
  "createCommanderDamage players =
     foldl (\<lambda>damage target. damage(tp_id target \<mapsto> damageRow players target)) Map.empty players"

definition buildCommanderDamage :: "assistant_player list \<Rightarrow> string \<rightharpoonup> (string \<rightharpoonup> jsnum)" where
  "buildCommanderDamage players =
     foldl (\<lambda>damage target. damage(tp_id target \<mapsto> damageRow players target)) Map.empty players"

definition HOST_PARTICIPANT :: string where "HOST_PARTICIPANT = ''participant-host''"

definition firstPhase :: "assistant_settings \<Rightarrow> phase_id option" where
  "firstPhase settings = (if tset_phasesEnabled settings then Some (hd TABLE_ASSISTANT_PHASES) else None)"

definition head_id :: "assistant_player list \<Rightarrow> string option" where
  "head_id players = (case players of [] \<Rightarrow> None | p # _ \<Rightarrow> Some (tp_id p))"

definition assignHost :: "room_options \<Rightarrow> assistant_player list \<Rightarrow> assistant_player list" where
  "assignHost options players =
     (case players of
        p # rest \<Rightarrow>
          if opt_mode options = PerPlayerDevice
          then p\<lparr>tp_assignedParticipantId := Some HOST_PARTICIPANT,
                 tp_assignedUserId := map_option usr_id (opt_hostUser options)\<rparr> # rest
          else players
      | [] \<Rightarrow> players)"

definition createInitialTableAssistantRoom :: "string \<Rightarrow> room_options \<Rightarrow> assistant_room js" where
  "createInitialTableAssistantRoom now options =
     (let createdAt = if_undefined (opt_createdAt options) now;
          settings = createDefaultSettings (opt_mode options) options;
          timerDurationSeconds = normalizeNullablePositiveInteger (opt_timerDurationSeconds options) None
      in js_bind (createPlayers (if_undefined (opt_playerCount options) DEFAULT_PLAYER_COUNT)
           (tset_initialLife settings) (tset_activeTrackerIds settings)
           (if_undefined (opt_players options) [])) (\<lambda>players.
         let host = \<lparr>tpt_id = HOST_PARTICIPANT, tpt_role = HostRole,
               tpt_user = opt_hostUser options, tpt_deviceId = opt_hostDeviceId options,
               tpt_assignedPlayerId =
                 (if opt_mode options = PerPlayerDevice then head_id players else None),
               tpt_connected = True, tpt_joinedAt = createdAt\<rparr>;
             assignedPlayers = assignHost options players;
             duration = (if tset_timerMode settings = NoTimer then None else timerDurationSeconds)
         in Inr \<lparr>tr_id = if_undefined (opt_roomId options) ''local-table-assistant-room'',
              tr_status = RoomSetup, tr_mode = opt_mode options,
              tr_hostParticipantId = HOST_PARTICIPANT, tr_players = assignedPlayers,
              tr_participants = [host], tr_invitations = [], tr_settings = settings,
              tr_turn = \<lparr>ttu_activePlayerId = head_id assignedPlayers, ttu_number = num 1,
                ttu_phaseId = firstPhase settings\<rparr>,
              tr_timer = \<lparr>ttm_mode = tset_timerMode settings, ttm_status = IdleTimer,
                ttm_durationSeconds = duration, ttm_remainingSeconds = duration,
                ttm_startedAt = None\<rparr>,
              tr_sharing = \<lparr>tsh_code = if_undefined (opt_roomCode options) ''LOCAL'',
                tsh_inviteUrl = opt_inviteUrl options\<rparr>,
              tr_globalTrackers = createGlobalTrackers (tset_activeTrackerIds settings),
              tr_commanderDamage = createCommanderDamage assignedPlayers,
              tr_actionLog = [], tr_version = 1, tr_createdAt = createdAt, tr_updatedAt = createdAt\<rparr>))"

end
