(* ===== verification/AssistantActions.thy ===== *)
theory AssistantActions
  imports AssistantState
begin

text \<open>
  The actions of the table assistant: \<open>canEditPlayer\<close>, the order of turns
  (\<open>nextActivePlayer\<close>), and \<open>applyTableAssistantAction\<close> with the function of each action,
  in \<^verbatim>\<open>domain/table-assistant-state.ts\<close>.
\<close>

section \<open>Permissions and tests\<close>

definition canEditPlayer :: "assistant_room \<Rightarrow> string \<Rightarrow> string \<Rightarrow> bool" where
  "canEditPlayer room participantId playerId =
     (case List.find (\<lambda>c. tpt_id c = participantId) (tr_participants room) of
        None \<Rightarrow> False
      | Some participant \<Rightarrow>
          if tpt_role participant = ViewerRole then False
          else if tpol_mode (tset_permissionPolicy (tr_settings room)) = Everyone
               \<or> tpt_role participant = HostRole then True
          else tpt_assignedPlayerId participant = Some playerId \<and>
               tpol_playerCanEditOwnPanel (tset_permissionPolicy (tr_settings room)))"

definition isCommanderDamageLethal :: "assistant_room \<Rightarrow> string \<Rightarrow> string \<Rightarrow> bool" where
  "isCommanderDamageLethal room targetId sourceId =
     js_le COMMANDER_DAMAGE_LETHAL_AMOUNT
       (if_undefined (Option.bind (tr_commanderDamage room targetId) (\<lambda>row. row sourceId)) (num 0))"

definition isPlayerEliminated :: "assistant_player \<Rightarrow> bool" where
  "isPlayerEliminated p \<longleftrightarrow> tp_eliminated p \<or> js_le (tp_life p) (num 0)"

section \<open>Committing a change\<close>

definition toActionLogEntry :: "action_clock \<Rightarrow> assistant_action \<Rightarrow> action_log_entry" where
  "toActionLogEntry clk action =
     \<lparr>tlog_id = if_undefined (act_clientActionId action) (''action-'' @ nat_string (clk_millis clk)),
      tlog_type = action_type (act_body action),
      tlog_actorParticipantId = act_actorParticipantId action,
      tlog_createdAt = clk_logCreatedAt clk\<rparr>"

definition commit :: "action_clock \<Rightarrow> assistant_room \<Rightarrow> assistant_action option \<Rightarrow> assistant_room" where
  "commit clk room action =
     room\<lparr>tr_version := tr_version room + 1, tr_updatedAt := clk_updatedAt clk,
          tr_actionLog := (case action of
              None \<Rightarrow> tr_actionLog room
            | Some a \<Rightarrow> tr_actionLog room @ [toActionLogEntry clk a])\<rparr>"

section \<open>Turns\<close>

definition resetTimerForBoundary :: "assistant_room \<Rightarrow> assistant_timer" where
  "resetTimerForBoundary room =
     (let timer = tr_timer room in
      if ttm_mode timer = NoTimer then timer
      else timer\<lparr>ttm_status := IdleTimer, ttm_remainingSeconds := ttm_durationSeconds timer,
                 ttm_startedAt := None\<rparr>)"

definition byTurnOrder :: "assistant_player list \<Rightarrow> assistant_player list" where
  "byTurnOrder players = sort_key tp_turnOrder players"

definition nextActivePlayer :: "assistant_room \<Rightarrow> (string \<times> bool) option" where
  "nextActivePlayer room =
     (if tr_players room = [] then None
      else
        let ordered = byTurnOrder (tr_players room);
            active = ttu_activePlayerId (tr_turn room);
            n = length ordered;
            current = (case find_index (\<lambda>p. Some (tp_id p) = active) ordered of
                         None \<Rightarrow> 0 | Some i \<Rightarrow> i)
        in case List.find (\<lambda>offset. \<not> isPlayerEliminated (ordered ! ((current + offset) mod n)))
                  [1..<Suc n] of
             Some offset \<Rightarrow>
               let candidate = (current + offset) mod n in
               Some (tp_id (ordered ! candidate), candidate \<le> current)
           | None \<Rightarrow>
               (case active of
                  None \<Rightarrow> None
                | Some i \<Rightarrow> if i = [] then None else Some (i, False)))"

definition turnOf :: "assistant_room \<Rightarrow> string \<times> bool \<Rightarrow> assistant_turn" where
  "turnOf room next =
     \<lparr>ttu_activePlayerId = Some (fst next),
      ttu_number = (if snd next then ttu_number (tr_turn room) + num 1 else ttu_number (tr_turn room)),
      ttu_phaseId = firstPhase (tr_settings room)\<rparr>"

definition passTurn :: "action_clock \<Rightarrow> assistant_room \<Rightarrow> assistant_action option \<Rightarrow> assistant_room" where
  "passTurn clk room action =
     (case nextActivePlayer room of
        None \<Rightarrow> room
      | Some next \<Rightarrow>
          commit clk (room\<lparr>tr_turn := turnOf room next, tr_timer := resetTimerForBoundary room\<rparr>) action)"

definition revertTurn ::
  "action_clock \<Rightarrow> assistant_room \<Rightarrow> string \<Rightarrow> jsnum \<Rightarrow> assistant_action \<Rightarrow> assistant_room" where
  "revertTurn clk room activeId number action =
     (if \<not> (\<exists>p \<in> set (tr_players room). tp_id p = activeId) then room
      else commit clk (room\<lparr>tr_turn :=
          \<lparr>ttu_activePlayerId = Some activeId, ttu_number = js_max (num 1) number,
           ttu_phaseId = firstPhase (tr_settings room)\<rparr>\<rparr>) (Some action))"

definition passPhase :: "action_clock \<Rightarrow> assistant_room \<Rightarrow> assistant_action \<Rightarrow> assistant_room" where
  "passPhase clk room action =
     (if \<not> tset_phasesEnabled (tr_settings room) then room
      else case ttu_phaseId (tr_turn room) of
        None \<Rightarrow> room
      | Some phase \<Rightarrow>
          (case find_index (\<lambda>ph. ph = phase) TABLE_ASSISTANT_PHASES of
             None \<Rightarrow> room
           | Some i \<Rightarrow>
               if Suc i < length TABLE_ASSISTANT_PHASES
               then commit clk (room\<lparr>
                   tr_turn := (tr_turn room)\<lparr>ttu_phaseId := Some (TABLE_ASSISTANT_PHASES ! Suc i)\<rparr>,
                   tr_timer := resetTimerForBoundary room\<rparr>) (Some action)
               else passTurn clk room (Some action)))"

definition moveTurnAwayFromEliminatedActive :: "assistant_room \<Rightarrow> assistant_room" where
  "moveTurnAwayFromEliminatedActive room =
     (case List.find (\<lambda>p. Some (tp_id p) = ttu_activePlayerId (tr_turn room)) (tr_players room) of
        None \<Rightarrow> room
      | Some activePlayer \<Rightarrow>
          if \<not> isPlayerEliminated activePlayer then room
          else (case nextActivePlayer room of
              None \<Rightarrow> room
            | Some next \<Rightarrow>
                if Some (fst next) = ttu_activePlayerId (tr_turn room) then room
                else room\<lparr>tr_turn := turnOf room next, tr_timer := resetTimerForBoundary room\<rparr>))"

section \<open>Players, commander damage and trackers\<close>

definition updateAssistantPlayer ::
  "action_clock \<Rightarrow> assistant_room \<Rightarrow> string \<Rightarrow> (assistant_player \<Rightarrow> assistant_player) \<Rightarrow>
   assistant_action option \<Rightarrow> assistant_room" where
  "updateAssistantPlayer clk room playerId updater action =
     (if \<not> (\<exists>p \<in> set (tr_players room). tp_id p = playerId) then room
      else commit clk (moveTurnAwayFromEliminatedActive
        (room\<lparr>tr_players := map (\<lambda>p. if tp_id p = playerId then updater p else p) (tr_players room)\<rparr>)) action)"

definition withEliminationFromLife :: "assistant_player \<Rightarrow> assistant_player" where
  "withEliminationFromLife p = p\<lparr>tp_eliminated := js_le (tp_life p) (num 0)\<rparr>"

definition applyCommanderDamageChange ::
  "action_clock \<Rightarrow> assistant_room \<Rightarrow> string \<Rightarrow> string \<Rightarrow> jsnum \<Rightarrow> assistant_action \<Rightarrow> assistant_room" where
  "applyCommanderDamageChange clk room targetId sourceId delta action =
     (if \<not> tset_commanderDamageEnabled (tr_settings room) then room
      else case tr_commanderDamage room targetId of
        None \<Rightarrow> room
      | Some row \<Rightarrow>
          if targetId = sourceId then room
          else
            let current = if_undefined (row sourceId) (num 0) in
            commit clk (room\<lparr>tr_commanderDamage :=
              (tr_commanderDamage room)(targetId \<mapsto> row(sourceId \<mapsto> js_max (num 0) (current + delta)))\<rparr>)
              (Some action))"

definition applyTrackerChange ::
  "action_clock \<Rightarrow> assistant_room \<Rightarrow> tracker_id \<Rightarrow> jsnum \<Rightarrow> string option \<Rightarrow> assistant_action \<Rightarrow> assistant_room" where
  "applyTrackerChange clk room trackerId v playerId action =
     (if trackerId \<notin> set (tset_activeTrackerIds (tr_settings room)) then room
      else case trackerId of
        PlayerTracker t \<Rightarrow>
          (case playerId of
             None \<Rightarrow> room
           | Some pid \<Rightarrow>
               if pid = [] then room
               else updateAssistantPlayer clk room pid
                 (\<lambda>p. p\<lparr>tp_trackers := (tp_trackers p)(t \<mapsto> v)\<rparr>) (Some action))
      | GlobalTracker g \<Rightarrow>
          commit clk (room\<lparr>tr_globalTrackers := (tr_globalTrackers room)(g \<mapsto> v)\<rparr>) (Some action)
      | CommanderDamageTracker \<Rightarrow> room)"

definition assignParticipantToPlayer ::
  "action_clock \<Rightarrow> assistant_room \<Rightarrow> string \<Rightarrow> string \<Rightarrow> assistant_action option \<Rightarrow> assistant_room" where
  "assignParticipantToPlayer clk room participantId playerId action =
     (if \<not> (\<exists>c \<in> set (tr_participants room). tpt_id c = participantId)
         \<or> \<not> (\<exists>p \<in> set (tr_players room). tp_id p = playerId) then room
      else
        let participant = List.find (\<lambda>c. tpt_id c = participantId) (tr_participants room);
            assignedUserId = map_option usr_id (Option.bind participant tpt_user)
        in commit clk (room\<lparr>
             tr_participants := map (\<lambda>c. if tpt_id c = participantId
               then c\<lparr>tpt_assignedPlayerId := Some playerId\<rparr> else c) (tr_participants room),
             tr_players := map (\<lambda>p. if tp_id p = playerId
               then p\<lparr>tp_assignedParticipantId := Some participantId, tp_assignedUserId := assignedUserId\<rparr>
               else if tp_assignedParticipantId p = Some participantId
               then p\<lparr>tp_assignedParticipantId := None, tp_assignedUserId := None\<rparr>
               else p) (tr_players room)\<rparr>) action)"

section \<open>The timer\<close>

definition startTimer :: "action_clock \<Rightarrow> assistant_room \<Rightarrow> jsnum \<Rightarrow> assistant_action \<Rightarrow> assistant_room" where
  "startTimer clk room seconds action =
     (if ttm_mode (tr_timer room) = NoTimer then room
      else
        let duration = js_max (num 1) (js_floor seconds) in
        commit clk (room\<lparr>tr_timer := (tr_timer room)\<lparr>ttm_status := RunningTimer,
          ttm_durationSeconds := Some duration, ttm_remainingSeconds := Some duration,
          ttm_startedAt := Some (clk_startedAt clk)\<rparr>\<rparr>) (Some action))"

definition pauseTimer :: "action_clock \<Rightarrow> assistant_room \<Rightarrow> jsnum \<Rightarrow> assistant_action \<Rightarrow> assistant_room" where
  "pauseTimer clk room seconds action =
     (if ttm_mode (tr_timer room) = NoTimer then room
      else commit clk (room\<lparr>tr_timer := (tr_timer room)\<lparr>ttm_status := PausedTimer,
          ttm_remainingSeconds := Some (js_max (num 0) (js_floor seconds)),
          ttm_startedAt := None\<rparr>\<rparr>) (Some action))"

definition resumeTimer :: "action_clock \<Rightarrow> assistant_room \<Rightarrow> jsnum \<Rightarrow> assistant_action \<Rightarrow> assistant_room" where
  "resumeTimer clk room seconds action =
     (if ttm_mode (tr_timer room) = NoTimer then room
      else commit clk (room\<lparr>tr_timer := (tr_timer room)\<lparr>ttm_status := RunningTimer,
          ttm_remainingSeconds := Some (js_max (num 0) (js_floor seconds)),
          ttm_startedAt := Some (clk_startedAt clk)\<rparr>\<rparr>) (Some action))"

definition resetTimer :: "action_clock \<Rightarrow> assistant_room \<Rightarrow> assistant_action \<Rightarrow> assistant_room" where
  "resetTimer clk room action =
     (if ttm_mode (tr_timer room) = NoTimer then room
      else commit clk (room\<lparr>tr_timer := resetTimerForBoundary room\<rparr>) (Some action))"

section \<open>Resetting the game\<close>

definition resetValues :: "('k \<rightharpoonup> jsnum) \<Rightarrow> 'k \<rightharpoonup> jsnum" where
  "resetValues values = (\<lambda>k. map_option (\<lambda>_. num 0) (values k))"

definition orderByPlayerId :: "assistant_player list \<Rightarrow> string list option \<Rightarrow> string \<rightharpoonup> int" where
  "orderByPlayerId players order =
     (case order of
        None \<Rightarrow> Map.empty
      | Some ids \<Rightarrow>
          if length ids \<noteq> length players then Map.empty
          else
            let expected = remdups (map tp_id players); requested = remdups ids in
            if length requested \<noteq> length expected \<or> (\<exists>i \<in> set ids. i \<notin> set expected) then Map.empty
            else map_of (rev (zip ids (map int [0..<length ids]))))"

definition withResetPlayerArrangement ::
  "assistant_player list \<Rightarrow> string list option \<Rightarrow> string list option \<Rightarrow> assistant_player list" where
  "withResetPlayerArrangement players turnOrder seatOrder =
     (let turnOrderByPlayerId = orderByPlayerId players turnOrder;
          seatIndexByPlayerId = orderByPlayerId players seatOrder
      in map (\<lambda>p. p\<lparr>tp_turnOrder := if_undefined (turnOrderByPlayerId (tp_id p)) (tp_turnOrder p),
                    tp_seatIndex := if_undefined (seatIndexByPlayerId (tp_id p)) (tp_seatIndex p)\<rparr>) players)"

definition resetGame ::
  "action_clock \<Rightarrow> assistant_room \<Rightarrow> string list option \<Rightarrow> string list option \<Rightarrow> assistant_action \<Rightarrow> assistant_room" where
  "resetGame clk room turnOrder seatOrder action =
     (let players = map (\<lambda>p. p\<lparr>tp_life := tp_startingLife p, tp_eliminated := False,
                                tp_trackers := resetValues (tp_trackers p)\<rparr>)
            (withResetPlayerArrangement (tr_players room) turnOrder seatOrder)
      in commit clk (room\<lparr>tr_players := players,
           tr_turn := \<lparr>ttu_activePlayerId = head_id (byTurnOrder players), ttu_number = num 1,
             ttu_phaseId = firstPhase (tr_settings room)\<rparr>,
           tr_timer := resetTimerForBoundary room,
           tr_globalTrackers := resetValues (tr_globalTrackers room),
           tr_commanderDamage := buildCommanderDamage players, tr_actionLog := []\<rparr>) (Some action))"

section \<open>Every action\<close>

definition applyActionBody :: "action_clock \<Rightarrow> assistant_room \<Rightarrow> action_body \<Rightarrow> assistant_action \<Rightarrow> assistant_room" where
  "applyActionBody clk room body action =
     (case body of
        LifeChanged pid delta \<Rightarrow> updateAssistantPlayer clk room pid
          (\<lambda>p. withEliminationFromLife (p\<lparr>tp_life := tp_life p + delta\<rparr>)) (Some action)
      | LifeSet pid life \<Rightarrow> updateAssistantPlayer clk room pid
          (\<lambda>p. withEliminationFromLife (p\<lparr>tp_life := life\<rparr>)) (Some action)
      | CommanderDamageChanged targetId sourceId delta \<Rightarrow>
          applyCommanderDamageChange clk room targetId sourceId delta action
      | TurnPassed \<Rightarrow> passTurn clk room (Some action)
      | TurnReverted activeId number \<Rightarrow> revertTurn clk room activeId number action
      | PhasePassed \<Rightarrow> passPhase clk room action
      | TimerStarted seconds \<Rightarrow> startTimer clk room seconds action
      | TimerPaused seconds \<Rightarrow> pauseTimer clk room seconds action
      | TimerResumed seconds \<Rightarrow> resumeTimer clk room seconds action
      | TimerReset \<Rightarrow> resetTimer clk room action
      | GameReset turnOrder seatOrder \<Rightarrow> resetGame clk room turnOrder seatOrder action
      | EliminationChanged pid eliminated \<Rightarrow> updateAssistantPlayer clk room pid
          (\<lambda>p. p\<lparr>tp_eliminated := eliminated\<rparr>) (Some action)
      | TrackerChanged trackerId v pid \<Rightarrow> applyTrackerChange clk room trackerId v pid action
      | ParticipantAssigned participantId pid \<Rightarrow>
          assignParticipantToPlayer clk room participantId pid (Some action))"

definition applyTableAssistantAction :: "action_clock \<Rightarrow> assistant_room \<Rightarrow> assistant_action \<Rightarrow> assistant_room" where
  "applyTableAssistantAction clk room action = applyActionBody clk room (act_body action) action"

text \<open>A session: the actions with the clock readings each of them makes.\<close>

definition assistantStep :: "assistant_room \<Rightarrow> action_clock \<times> assistant_action \<Rightarrow> assistant_room" where
  "assistantStep room e = applyTableAssistantAction (fst e) room (snd e)"

section \<open>A sample room\<close>

text \<open>Three players, the second of them eliminated, on which the properties are exercised.\<close>

definition sample_player :: "string \<Rightarrow> int \<Rightarrow> int \<Rightarrow> assistant_player" where
  "sample_player i order life = \<lparr>tp_id = i, tp_name = i, tp_color = ''white'', tp_seatIndex = order,
     tp_turnOrder = order, tp_life = num life, tp_startingLife = num 40, tp_eliminated = False,
     tp_assignedParticipantId = None, tp_assignedUserId = None, tp_trackers = Map.empty\<rparr>"

definition sample_participant :: "string \<Rightarrow> participant_role \<Rightarrow> string option \<Rightarrow> assistant_participant" where
  "sample_participant i role player = \<lparr>tpt_id = i, tpt_role = role, tpt_user = None,
     tpt_deviceId = None, tpt_assignedPlayerId = player, tpt_connected = True, tpt_joinedAt = []\<rparr>"

definition sample_settings :: assistant_settings where
  "sample_settings = \<lparr>tset_initialLife = num 40, tset_commanderDamageEnabled = True,
     tset_turnTrackingEnabled = True, tset_phasesEnabled = True, tset_timerMode = NoTimer,
     tset_skipEliminatedPlayers = False,
     tset_permissionPolicy = defaultPermissionPolicy PerPlayerDevice,
     tset_activeTrackerIds = defaultActiveTrackerIds\<rparr>"

definition three_players :: "assistant_player list" where
  "three_players = [sample_player ''p1'' 0 40, sample_player ''p2'' 1 0, sample_player ''p3'' 2 40]"

definition three_room :: assistant_room where
  "three_room = \<lparr>tr_id = ''r'', tr_status = RoomActive, tr_mode = PerPlayerDevice, tr_hostParticipantId = ''h'',
       tr_players = three_players,
       tr_participants = [sample_participant ''h'' HostRole None,
         sample_participant ''q1'' PlayerRole (Some ''p1''), sample_participant ''q2'' PlayerRole None],
       tr_invitations = [], tr_settings = sample_settings,
       tr_turn = \<lparr>ttu_activePlayerId = Some ''p1'', ttu_number = num 1, ttu_phaseId = Some Untap\<rparr>,
       tr_timer = \<lparr>ttm_mode = NoTimer, ttm_status = IdleTimer, ttm_durationSeconds = None,
         ttm_remainingSeconds = None, ttm_startedAt = None\<rparr>,
       tr_sharing = \<lparr>tsh_code = ''LOCAL'', tsh_inviteUrl = None\<rparr>, tr_globalTrackers = Map.empty,
       tr_commanderDamage = createCommanderDamage three_players, tr_actionLog = [], tr_version = 1,
       tr_createdAt = [], tr_updatedAt = []\<rparr>"

definition sample_clock :: action_clock where
  "sample_clock = \<lparr>clk_startedAt = [], clk_updatedAt = [], clk_logCreatedAt = [], clk_millis = 0\<rparr>"

definition sample_action :: "action_body \<Rightarrow> assistant_action" where
  "sample_action body = \<lparr>act_body = body, act_actorParticipantId = None, act_clientActionId = None\<rparr>"

lemma sample_player_simps [simp]:
  "tp_id (sample_player i n l) = i" "tp_turnOrder (sample_player i n l) = n"
  "tp_life (sample_player i n l) = num l" "tp_eliminated (sample_player i n l) = False"
  "tp_startingLife (sample_player i n l) = num 40"
  by (simp_all add: sample_player_def)

lemma three_room_simps [simp]:
  "tr_players three_room = three_players"
  "tr_turn three_room = \<lparr>ttu_activePlayerId = Some ''p1'', ttu_number = num 1, ttu_phaseId = Some Untap\<rparr>"
  "tr_settings three_room = sample_settings" "ttm_mode (tr_timer three_room) = NoTimer"
  "tr_version three_room = 1" "tr_actionLog three_room = []"
  "tr_commanderDamage three_room = createCommanderDamage three_players"
  "tr_participants three_room = [sample_participant ''h'' HostRole None,
     sample_participant ''q1'' PlayerRole (Some ''p1''), sample_participant ''q2'' PlayerRole None]"
  by (simp_all add: three_room_def)

lemma sample_action_body [simp]: "act_body (sample_action b) = b"
  by (simp add: sample_action_def)

lemma three_players_order: "byTurnOrder three_players = three_players"
  by (simp add: byTurnOrder_def three_players_def)

end
