(* ===== verification/AssistantTurns.thy ===== *)
theory AssistantTurns
  imports AssistantActions
begin

text \<open>
  The order of turns. Passing the turn is a step on the ring of living players: the reference
  is that ring, a list with a position and a round number, and \<open>passTurn\<close> simulates it.
\<close>

section \<open>The scan for the next player\<close>

text \<open>The players \<open>nextActivePlayer\<close> looks at, in the order it does: the ones after the
  current one, around the table, the current one last.\<close>

lemma scan_rotate:
  "map (\<lambda>k. xs ! ((c + k) mod length xs)) [1..<Suc (length xs)] = rotate (Suc c) xs"
proof (rule nth_equalityI)
  fix i assume "i < length (map (\<lambda>k. xs ! ((c + k) mod length xs)) [1..<Suc (length xs)])"
  then have "i < length xs" by (simp del: upt_Suc)
  then show "map (\<lambda>k. xs ! ((c + k) mod length xs)) [1..<Suc (length xs)] ! i = rotate (Suc c) xs ! i"
    using nth_rotate [of i xs "Suc c"] by (simp add: add_ac del: upt_Suc rotate_Suc)
qed (simp del: upt_Suc)

lemma rotate_split: "rotate (Suc (length xs)) (xs @ a # ys) = ys @ xs @ [a]"
  using rotate_append [of "xs @ [a]" ys] by simp

lemma find_upt_Some:
  "List.find P [m..<n] = Some k \<longleftrightarrow> m \<le> k \<and> k < n \<and> P k \<and> (\<forall>j. m \<le> j \<and> j < k \<longrightarrow> \<not> P j)"
proof
  assume "List.find P [m..<n] = Some k"
  then obtain i where i: "i < n - m" "P (m + i)" "k = m + i" and before: "\<forall>j<i. \<not> P (m + j)"
    by (auto simp: find_Some_iff)
  have "\<not> P j" if "m \<le> j" "j < k" for j
    using before [rule_format, of "j - m"] that i(3) by auto
  with i show "m \<le> k \<and> k < n \<and> P k \<and> (\<forall>j. m \<le> j \<and> j < k \<longrightarrow> \<not> P j)" by auto
next
  assume k: "m \<le> k \<and> k < n \<and> P k \<and> (\<forall>j. m \<le> j \<and> j < k \<longrightarrow> \<not> P j)"
  then show "List.find P [m..<n] = Some k"
    unfolding find_Some_iff by (intro exI [of _ "k - m"]) auto
qed

lemma hd_filter_first:
  assumes "i < length xs" and "P (xs ! i)" and "\<forall>j < i. \<not> P (xs ! j)"
  shows "hd (filter P xs) = xs ! i"
proof -
  have "filter P (take i xs) = []"
    using assms by (auto simp: filter_empty_conv in_set_conv_nth)
  then have "filter P xs = filter P (drop i xs)"
    by (metis append_Nil append_take_drop_id filter_append)
  also have "\<dots> = xs ! i # filter P (drop (Suc i) xs)"
    using assms by (simp add: Cons_nth_drop_Suc [symmetric])
  finally show ?thesis by simp
qed

definition alive :: "assistant_player \<Rightarrow> bool" where
  "alive p \<longleftrightarrow> \<not> isPlayerEliminated p"

definition currentIndex :: "assistant_room \<Rightarrow> nat" where
  "currentIndex room =
     (case find_index (\<lambda>p. Some (tp_id p) = ttu_activePlayerId (tr_turn room)) (byTurnOrder (tr_players room)) of
        None \<Rightarrow> 0 | Some i \<Rightarrow> i)"

lemma byTurnOrder_simps [simp]:
  "length (byTurnOrder ps) = length ps" "set (byTurnOrder ps) = set ps"
  "mset (byTurnOrder ps) = mset ps" "byTurnOrder ps = [] \<longleftrightarrow> ps = []"
  by (simp_all add: byTurnOrder_def) (metis length_0_conv length_sort)

lemma currentIndex_less: "tr_players room \<noteq> [] \<Longrightarrow> currentIndex room < length (tr_players room)"
  by (auto simp: currentIndex_def split: option.split dest: find_index_less)

lemma nextActivePlayer_index:
  "nextActivePlayer room =
     (let ordered = byTurnOrder (tr_players room); n = length ordered; c = currentIndex room in
      if tr_players room = [] then None
      else case List.find (\<lambda>k. alive (ordered ! ((c + k) mod n))) [1..<Suc n] of
        Some k \<Rightarrow> Some (tp_id (ordered ! ((c + k) mod n)), (c + k) mod n \<le> c)
      | None \<Rightarrow> (case ttu_activePlayerId (tr_turn room) of
          None \<Rightarrow> None | Some i \<Rightarrow> if i = [] then None else Some (i, False)))"
  unfolding nextActivePlayer_def Let_def alive_def currentIndex_def by (rule refl)

text \<open>What the scan returns: the first living player after the current one, \<open>k\<close> seats on,
  with the round completed exactly when the seats wrap around the end of the order.\<close>

lemma nextActive_scan:
  fixes room
  defines "ordered \<equiv> byTurnOrder (tr_players room)" and "c \<equiv> currentIndex room"
  assumes "tr_players room \<noteq> []" and "\<exists>p \<in> set (tr_players room). alive p"
  shows "\<exists>k. 1 \<le> k \<and> k \<le> length ordered \<and> alive (ordered ! ((c + k) mod length ordered)) \<and>
     (\<forall>j. 1 \<le> j \<and> j < k \<longrightarrow> \<not> alive (ordered ! ((c + j) mod length ordered))) \<and>
     nextActivePlayer room = Some (tp_id (ordered ! ((c + k) mod length ordered)), length ordered \<le> c + k)"
proof -
  let ?P = "\<lambda>k. alive (ordered ! ((c + k) mod length ordered))"
  have c: "c < length ordered" using assms(3) by (simp add: c_def ordered_def currentIndex_less)
  obtain p where p: "p \<in> set (rotate (Suc c) ordered)" "alive p"
    using assms(4) by (auto simp: ordered_def)
  then have "\<exists>k \<in> set [1..<Suc (length ordered)]. ?P k"
    unfolding scan_rotate [symmetric] by auto
  then have "List.find ?P [1..<Suc (length ordered)] \<noteq> None"
    by (auto simp: find_None_iff simp del: upt_Suc)
  then obtain k where k: "List.find ?P [1..<Suc (length ordered)] = Some k" by blast
  then have fst: "1 \<le> k" "k \<le> length ordered" "?P k" "\<forall>j. 1 \<le> j \<and> j < k \<longrightarrow> \<not> ?P j"
    by (auto simp: find_upt_Some simp del: upt_Suc)
  have wrap: "(c + k) mod length ordered \<le> c \<longleftrightarrow> length ordered \<le> c + k"
  proof (cases "c + k < length ordered")
    case False
    then have "(c + k) mod length ordered = c + k - length ordered"
      using c fst(2) by (simp add: mod_if)
    with False fst(2) show ?thesis by simp
  qed (use fst(1) in simp)
  have "nextActivePlayer room = Some (tp_id (ordered ! ((c + k) mod length ordered)), length ordered \<le> c + k)"
    using k assms(3) wrap
    by (simp add: nextActivePlayer_index ordered_def [symmetric] c_def [symmetric] Let_def del: upt_Suc)
  with fst show ?thesis by blast
qed

lemma nextActive_nobody:
  assumes "\<not> (\<exists>p \<in> set (tr_players room). alive p)"
  shows "nextActivePlayer room =
     (if tr_players room = [] then None
      else case ttu_activePlayerId (tr_turn room) of
        None \<Rightarrow> None | Some i \<Rightarrow> if i = [] then None else Some (i, False))"
proof -
  let ?o = "byTurnOrder (tr_players room)"
  have "\<not> alive (?o ! ((c + k) mod length ?o))" if "tr_players room \<noteq> []" for c k
    using assms that nth_mem [of "(c + k) mod length ?o" ?o] by (simp del: nth_mem)
  then have "List.find (\<lambda>k. \<not> isPlayerEliminated (?o ! ((c + k) mod length ?o))) [1..<Suc (length ?o)] = None"
    if "tr_players room \<noteq> []" for c
    using that by (simp add: find_None_iff alive_def del: upt_Suc)
  then show ?thesis by (simp add: nextActivePlayer_def Let_def del: upt_Suc)
qed

section \<open>The ring of living players\<close>

definition livingPlayers :: "assistant_room \<Rightarrow> assistant_player list" where
  "livingPlayers room = filter alive (byTurnOrder (tr_players room))"

text \<open>A room whose players have different ids and whose active player \<open>a\<close> is alive, split
  around \<open>a\<close> in the order of turns.\<close>

lemma nextActive_ring:
  assumes ids: "distinct (map tp_id (tr_players room))"
    and order: "byTurnOrder (tr_players room) = xs @ a # ys"
    and active: "ttu_activePlayerId (tr_turn room) = Some (tp_id a)" and "alive a"
  shows "nextActivePlayer room =
     Some (tp_id (hd (filter alive ys @ filter alive xs @ [a])), filter alive ys = [])"
proof -
  let ?o = "byTurnOrder (tr_players room)"
  have "distinct (map tp_id ?o)"
    by (metis byTurnOrder_simps(3) ids mset_eq_imp_distinct_iff mset_map)
  then have "tp_id a \<notin> tp_id ` set xs" by (simp add: order)
  then have a: "\<forall>x \<in> set xs. tp_id x \<noteq> tp_id a" by (metis imageI)
  then have "find_index (\<lambda>p. Some (tp_id p) = Some (tp_id a)) (xs @ a # ys) = Some (length xs)"
    by (induction xs) auto
  then have c: "currentIndex room = length xs" by (simp add: currentIndex_def order active)
  have mem: "a \<in> set (tr_players room)" by (metis byTurnOrder_simps(2) in_set_conv_decomp order)
  obtain k where k: "1 \<le> k" "k \<le> length ?o" "alive (?o ! ((length xs + k) mod length ?o))"
    "\<forall>j. 1 \<le> j \<and> j < k \<longrightarrow> \<not> alive (?o ! ((length xs + j) mod length ?o))"
    "nextActivePlayer room = Some (tp_id (?o ! ((length xs + k) mod length ?o)), length ?o \<le> length xs + k)"
    using nextActive_scan [of room] mem \<open>alive a\<close> unfolding c by fastforce
  let ?r = "ys @ xs @ [a]"
  have nth: "?o ! ((length xs + j) mod length ?o) = ?r ! (j - 1)" if "1 \<le> j" "j \<le> length ?o" for j
  proof -
    have "rotate (Suc (length xs)) ?o = ?r" by (simp only: order rotate_split)
    moreover have "j - 1 < length ?o" using that by simp
    ultimately show ?thesis using nth_rotate [of "j - 1" ?o "Suc (length xs)"] that by simp
  qed
  have len: "length ?o = length ?r" by (simp add: order)
  have before: "\<not> alive (?r ! i)" if "i < k - 1" for i
    using k(4) [rule_format, of "Suc i"] nth [of "Suc i"] that k(2) by simp
  have first: "alive (?r ! (k - 1))" "\<forall>i < k - 1. \<not> alive (?r ! i)" "k - 1 < length ?r"
    using k(1-3) nth [OF k(1,2)] len before by auto
  then have hd: "hd (filter alive ?r) = ?r ! (k - 1)"
    by (intro hd_filter_first)
  have "filter alive ys = [] \<longleftrightarrow> length ys \<le> k - 1"
  proof
    assume "filter alive ys = []"
    then show "length ys \<le> k - 1"
      using first(1) by (auto simp: filter_empty_conv nth_append split: if_splits)
  next
    assume len: "length ys \<le> k - 1"
    have "\<not> alive (ys ! i)" if "i < length ys" for i
      using before [of i] that len by (simp add: nth_append)
    then show "filter alive ys = []" by (auto simp: filter_empty_conv in_set_conv_nth)
  qed
  then show ?thesis using k(5) nth [OF k(1,2)] hd k(1) \<open>alive a\<close> by (auto simp: order)
qed

text \<open>
  The abstract machine: the living players in their order, whose turn it is by position, and
  the number of rounds completed. One step goes to the next position and counts a round when
  it comes back to the first.
\<close>

definition onRing :: "assistant_room \<Rightarrow> assistant_player list \<Rightarrow> nat \<Rightarrow> jsnum \<Rightarrow> bool" where
  "onRing room ring i number \<longleftrightarrow>
     livingPlayers room = ring \<and> i < length ring \<and>
     ttu_activePlayerId (tr_turn room) = Some (tp_id (ring ! i)) \<and> ttu_number (tr_turn room) = number"

lemma passTurn_players [simp]: "tr_players (passTurn clk room action) = tr_players room"
  by (simp add: passTurn_def commit_def split: option.split)

lemma livingPlayers_cong: "tr_players r = tr_players s \<Longrightarrow> livingPlayers r = livingPlayers s"
  by (simp add: livingPlayers_def)

lemma ring_next:
  assumes "i = length us" and "m = length (us @ a # vs)"
  shows "hd (vs @ us @ [a]) = (us @ a # vs) ! (Suc i mod m)" and "vs = [] \<longleftrightarrow> Suc i = m"
  using assms by (cases vs; cases us; auto simp: nth_append)+

lemma filter_split:
  "filter P zs = us @ a # vs \<Longrightarrow>
     \<exists>xs ys. zs = xs @ a # ys \<and> filter P xs = us \<and> filter P ys = vs \<and> P a"
proof (induction zs arbitrary: us)
  case (Cons z zs)
  show ?case
  proof (cases "P z \<and> us = []")
    case True
    with Cons.prems show ?thesis by (intro exI [of _ "[]"] exI [of _ zs]) auto
  next
    case False
    then obtain us' where "filter P zs = us' @ a # vs" "us = (if P z then z # us' else us')"
      using Cons.prems by (cases us) (auto split: if_splits)
    with Cons.IH obtain xs ys where "zs = xs @ a # ys" "filter P xs = us'" "filter P ys = vs" "P a"
      by blast
    with \<open>us = _\<close> show ?thesis by (intro exI [of _ "z # xs"] exI [of _ ys]) auto
  qed
qed simp

lemma passTurn_ring:
  assumes ids: "distinct (map tp_id (tr_players room))" and ring: "onRing room ring i number"
  shows "onRing (passTurn clk room action) ring (Suc i mod length ring)
     (if Suc i = length ring then number + num 1 else number)"
proof -
  let ?o = "byTurnOrder (tr_players room)" and ?a = "ring ! i"
  have i: "i < length ring" and living: "filter alive ?o = ring"
    and active: "ttu_activePlayerId (tr_turn room) = Some (tp_id ?a)"
    using ring by (simp_all add: onRing_def livingPlayers_def)
  obtain us vs where split: "ring = us @ ?a # vs" "length us = i"
    using i id_take_nth_drop [OF i] by (metis length_take min.absorb4)
  then obtain xs ys where xs: "?o = xs @ ?a # ys" "filter alive xs = us" "filter alive ys = vs" "alive ?a"
    using filter_split [of alive ?o us ?a vs] living by blast
  have step: "nextActivePlayer room = Some (tp_id (ring ! (Suc i mod length ring)), Suc i = length ring)"
    using nextActive_ring [OF ids xs(1) active xs(4)] ring_next [of i us "length ring" ?a vs] split
    by (simp add: xs)
  have number: "ttu_number (tr_turn room) = number" "ring \<noteq> []" using ring i by (auto simp: onRing_def)
  show ?thesis
    using i living number livingPlayers_cong [of "passTurn clk room action" room]
    by (simp add: onRing_def passTurn_def step commit_def turnOf_def livingPlayers_def)
qed

lemma add_num_num: "x + Fin a + Fin b = x + Fin (a + b)"
  by (cases x) simp_all

lemma add_num_0 [simp]: "x + Fin 0 = x"
  by (cases x) simp_all

lemma assistantStep_pass:
  "act_body (snd e) = TurnPassed \<Longrightarrow> assistantStep room e = passTurn (fst e) room (Some (snd e))"
  by (simp add: assistantStep_def applyTableAssistantAction_def applyActionBody_def)

lemma passes_ring:
  assumes "list_all (\<lambda>e. act_body (snd e) = TurnPassed) es"
    and "distinct (map tp_id (tr_players room))" and "onRing room ring i number"
  shows "onRing (run_steps assistantStep room es) ring ((i + length es) mod length ring)
     (number + num (int ((i + length es) div length ring)))"
  using assms
proof (induction es arbitrary: room i number)
  case Nil
  then show ?case by (simp add: onRing_def)
next
  case (Cons e es)
  let ?m = "length ring" and ?i = "Suc i mod length ring"
  let ?n = "if Suc i = length ring then number + num 1 else number"
  have i: "i < ?m" using Cons.prems(3) by (simp add: onRing_def)
  have e: "assistantStep room e = passTurn (fst e) room (Some (snd e))"
    using Cons.prems(1) by (simp add: assistantStep_pass)
  have "onRing (run_steps assistantStep room (e # es)) ring ((?i + length es) mod ?m)
      (?n + num (int ((?i + length es) div ?m)))"
    using Cons.IH [of "assistantStep room e"] Cons.prems passTurn_ring by (simp add: e)
  moreover have "?n + num (int ((?i + length es) div ?m)) = number + num (int ((i + length (e # es)) div ?m))"
  proof (cases "Suc i = ?m")
    case True
    then have "(i + length (e # es)) div ?m = 1 + length es div ?m"
      using i by (metis add_Suc_shift add.commute div_add_self2 length_Cons gr_implies_not0 plus_1_eq_Suc)
    with True show ?thesis by (simp add: add_num_num)
  next
    case False
    with i show ?thesis by simp
  qed
  moreover have "(?i + length es) mod ?m = (i + length (e # es)) mod ?m"
    by (simp add: mod_simps)
  ultimately show ?case by simp
qed

section \<open>Properties\<close>



end
