(* ===== verification/AssistantInvariant.thy ===== *)
theory AssistantInvariant
  imports AssistantTurns
begin

text \<open>
  What stays true of a room: every room that creation and actions can produce has players
  with different ids, a turn that belongs to one of them, a turn number that is not below
  one, a phase exactly when phases are on, a commander damage table over its players without
  negative entries, and a timer that is off when the mode is \<open>none\<close>.
\<close>

section \<open>The invariant\<close>

definition ids_wf :: "assistant_room \<Rightarrow> bool" where
  [inv_defs]: "ids_wf room \<longleftrightarrow> distinct (map tp_id (tr_players room))"

definition turn_wf :: "assistant_room \<Rightarrow> bool" where
  [inv_defs]: "turn_wf room \<longleftrightarrow>
     (case ttu_activePlayerId (tr_turn room) of
        None \<Rightarrow> tr_players room = []
      | Some i \<Rightarrow> i \<in> tp_id ` set (tr_players room)) \<and>
     \<not> js_less (ttu_number (tr_turn room)) (num 1) \<and>
     (ttu_phaseId (tr_turn room) \<noteq> None \<longleftrightarrow> tset_phasesEnabled (tr_settings room))"

definition damage_wf :: "assistant_room \<Rightarrow> bool" where
  [inv_defs]: "damage_wf room \<longleftrightarrow>
     dom (tr_commanderDamage room) = tp_id ` set (tr_players room) \<and>
     (\<forall>t row s v. tr_commanderDamage room t = Some row \<longrightarrow> row s = Some v \<longrightarrow>
        s \<noteq> t \<and> \<not> js_less v (num 0))"

definition timer_wf :: "assistant_room \<Rightarrow> bool" where
  [inv_defs]: "timer_wf room \<longleftrightarrow>
     ttm_mode (tr_timer room) = tset_timerMode (tr_settings room) \<and>
     (ttm_mode (tr_timer room) = PhaseTimer \<longrightarrow> tset_phasesEnabled (tr_settings room)) \<and>
     (ttm_mode (tr_timer room) = NoTimer \<longrightarrow>
        ttm_status (tr_timer room) = IdleTimer \<and> ttm_durationSeconds (tr_timer room) = None \<and>
        ttm_remainingSeconds (tr_timer room) = None) \<and>
     (ttm_startedAt (tr_timer room) \<noteq> None \<longleftrightarrow> ttm_status (tr_timer room) = RunningTimer)"

definition room_wf :: "assistant_room \<Rightarrow> bool" where
  [inv_defs]: "room_wf room \<longleftrightarrow> ids_wf room \<and> turn_wf room \<and> damage_wf room \<and> timer_wf room"

section \<open>Helpers\<close>

lemma commit_simps [simp]:
  "tr_players (commit clk room a) = tr_players room"
  "tr_participants (commit clk room a) = tr_participants room"
  "tr_turn (commit clk room a) = tr_turn room" "tr_timer (commit clk room a) = tr_timer room"
  "tr_settings (commit clk room a) = tr_settings room"
  "tr_commanderDamage (commit clk room a) = tr_commanderDamage room"
  "tr_globalTrackers (commit clk room a) = tr_globalTrackers room"
  "tr_version (commit clk room a) = tr_version room + 1"
  by (simp_all add: commit_def)

lemma room_wf_commit [simp]: "room_wf (commit clk room a) = room_wf room"
  by (simp add: inv_defs split: option.split)

lemma firstPhase_iff [simp]: "(\<exists>ph. firstPhase s = Some ph) \<longleftrightarrow> tset_phasesEnabled s"
  by (simp add: firstPhase_def)

lemma nextActive_member:
  assumes "nextActivePlayer room = Some next" and "turn_wf room"
  shows "fst next \<in> tp_id ` set (tr_players room)"
proof (cases "\<exists>p \<in> set (tr_players room). alive p")
  case True
  then have "tr_players room \<noteq> []" by auto
  from nextActive_scan [OF this True] obtain i where
    "fst next = tp_id (byTurnOrder (tr_players room) ! i)" "i < length (byTurnOrder (tr_players room))"
    using assms(1) \<open>tr_players room \<noteq> []\<close> by fastforce
  then show ?thesis using nth_mem [of i "byTurnOrder (tr_players room)"] by simp
next
  case False
  from nextActive_nobody [OF this] assms show ?thesis
    by (auto simp: turn_wf_def split: if_splits option.splits)
qed

lemma turn_number_step: "\<not> js_less n (num 1) \<Longrightarrow> \<not> js_less (n + num 1) (num 1)"
  by (cases n) auto

lemma turnOf_wf:
  assumes "turn_wf room" and "nextActivePlayer room = Some next"
  shows "turn_wf (room\<lparr>tr_turn := turnOf room next, tr_timer := tm\<rparr>)"
  using assms nextActive_member [OF assms(2,1)] turn_number_step [of "ttu_number (tr_turn room)"]
  by (auto simp: turn_wf_def turnOf_def)

lemma boundary_timer_wf: "timer_wf room \<Longrightarrow> timer_wf (room\<lparr>tr_timer := resetTimerForBoundary room\<rparr>)"
  by (simp add: timer_wf_def resetTimerForBoundary_def Let_def)

lemma timer_wf_cong:
  "tr_timer r = tr_timer s \<Longrightarrow> tr_settings r = tr_settings s \<Longrightarrow> timer_wf r = timer_wf s"
  by (simp add: timer_wf_def)

lemma nextTurn_wf:
  assumes "room_wf room" and "nextActivePlayer room = Some next"
  shows "room_wf (room\<lparr>tr_turn := turnOf room next, tr_timer := resetTimerForBoundary room\<rparr>)"
proof -
  have "turn_wf (room\<lparr>tr_turn := turnOf room next, tr_timer := resetTimerForBoundary room\<rparr>)"
    using assms by (intro turnOf_wf) (simp_all add: room_wf_def)
  moreover have "timer_wf (room\<lparr>tr_turn := turnOf room next, tr_timer := resetTimerForBoundary room\<rparr>)"
    using boundary_timer_wf [of room] assms(1)
    by (simp add: room_wf_def timer_wf_cong [of "room\<lparr>tr_turn := _, tr_timer := _\<rparr>" "room\<lparr>tr_timer := resetTimerForBoundary room\<rparr>"])
  ultimately show ?thesis using assms(1) by (simp add: room_wf_def ids_wf_def damage_wf_def)
qed

lemma passTurn_wf: "room_wf room \<Longrightarrow> room_wf (passTurn clk room a)"
  by (auto simp: passTurn_def nextTurn_wf split: option.split)

lemma moveTurnAway_wf: "room_wf room \<Longrightarrow> room_wf (moveTurnAwayFromEliminatedActive room)"
  by (auto simp: moveTurnAwayFromEliminatedActive_def nextTurn_wf split: option.split)

lemma players_map_wf:
  assumes "room_wf room" and "\<And>p. tp_id (f p) = tp_id p"
  shows "room_wf (room\<lparr>tr_players := map f (tr_players room)\<rparr>)"
proof -
  have ids: "map tp_id (map f (tr_players room)) = map tp_id (tr_players room)"
    using assms(2) by simp
  then have "tp_id ` set (map f (tr_players room)) = tp_id ` set (tr_players room)"
    by (metis set_map)
  with assms(1) ids show ?thesis
    by (simp add: room_wf_def ids_wf_def turn_wf_def damage_wf_def timer_wf_def assms(2) comp_def
        split: option.splits)
qed

lemma updateAssistantPlayer_wf:
  assumes "room_wf room" and "\<And>p. tp_id (f p) = tp_id p"
  shows "room_wf (updateAssistantPlayer clk room pid f a)"
  using assms
  by (auto simp: updateAssistantPlayer_def intro!: moveTurnAway_wf players_map_wf)

lemma damage_wf_players:
  "damage_wf room \<Longrightarrow> tp_id ` set (tr_players r) = tp_id ` set (tr_players room) \<Longrightarrow>
     tr_commanderDamage r = tr_commanderDamage room \<Longrightarrow> damage_wf r"
  by (simp add: damage_wf_def)

section \<open>Damage tables\<close>

lemma foldl_upd_notin: "t \<notin> f ` set xs \<Longrightarrow> foldl (\<lambda>m x. m(f x \<mapsto> g x)) m xs t = m t"
  by (induction xs arbitrary: m) auto

lemma foldl_upd_dom: "dom (foldl (\<lambda>m x. m(f x \<mapsto> g x)) m xs) = dom m \<union> f ` set xs"
  by (induction xs arbitrary: m) auto

lemma foldl_upd_const: "foldl (\<lambda>m x. m(f x \<mapsto> c)) m xs = (\<lambda>k. if k \<in> f ` set xs then Some c else m k)"
  by (induction xs arbitrary: m) (auto simp: fun_eq_iff)

lemma foldl_upd_mem:
  "foldl (\<lambda>m x. m(f x \<mapsto> g x)) m xs t = Some v \<Longrightarrow> (\<exists>x \<in> set xs. f x = t \<and> g x = v) \<or> m t = Some v"
proof (induction xs arbitrary: m)
  case (Cons x xs)
  from Cons.IH [of "m(f x \<mapsto> g x)"] Cons.prems show ?case by (auto split: if_splits)
qed simp

lemma damageRow_eq:
  "damageRow players target =
     (\<lambda>s. if s \<in> tp_id ` set players \<and> s \<noteq> tp_id target then Some (num 0) else None)"
  by (auto simp: damageRow_def foldl_upd_const fun_eq_iff)

lemma buildCommanderDamage_eq:
  "buildCommanderDamage players t =
     (if t \<in> tp_id ` set players
      then Some (\<lambda>s. if s \<in> tp_id ` set players \<and> s \<noteq> t then Some (num 0) else None)
      else None)"
proof (cases "t \<in> tp_id ` set players")
  case True
  then have "t \<in> dom (buildCommanderDamage players)"
    by (simp add: buildCommanderDamage_def foldl_upd_dom)
  then obtain row where row: "buildCommanderDamage players t = Some row" by blast
  then obtain p where "p \<in> set players" "tp_id p = t" "damageRow players p = row"
    using foldl_upd_mem [of tp_id "damageRow players" Map.empty players t row]
    by (auto simp: buildCommanderDamage_def)
  with row True show ?thesis by (auto simp: damageRow_eq)
next
  case False
  then show ?thesis by (simp add: buildCommanderDamage_def foldl_upd_notin)
qed

lemma createCommanderDamage_build: "createCommanderDamage = buildCommanderDamage"
  by (rule ext) (simp add: createCommanderDamage_def buildCommanderDamage_def)

lemma buildCommanderDamage_wf:
  "tr_commanderDamage r = buildCommanderDamage ps \<Longrightarrow>
     tp_id ` set (tr_players r) = tp_id ` set ps \<Longrightarrow> damage_wf r"
  by (auto simp: damage_wf_def buildCommanderDamage_eq dom_def split: if_splits)

section \<open>The actions keep the invariant\<close>

lemma commanderDamage_wf: "room_wf room \<Longrightarrow> room_wf (applyCommanderDamageChange clk room t s d a)"
  by (auto simp: applyCommanderDamageChange_def Let_def room_wf_def ids_wf_def turn_wf_def damage_wf_def
      timer_wf_def split: option.splits)

lemma tracker_wf: "room_wf room \<Longrightarrow> room_wf (applyTrackerChange clk room t v pid a)"
  by (auto simp: applyTrackerChange_def split: tracker_id.split option.split
      intro!: updateAssistantPlayer_wf)
    (auto simp: inv_defs split: option.splits)

lemma assign_wf: "room_wf room \<Longrightarrow> room_wf (assignParticipantToPlayer clk room q p a)"
proof -
  assume wf: "room_wf room"
  have "room_wf (room\<lparr>tr_participants := qs\<rparr>)" for qs
    using wf by (simp add: inv_defs split: option.splits)
  from players_map_wf [OF this]
  have "room_wf (room\<lparr>tr_participants := qs, tr_players := map f (tr_players room)\<rparr>)"
    if "\<And>p. tp_id (f p) = tp_id p" for qs f
    using that by simp
  then show ?thesis by (simp add: assignParticipantToPlayer_def Let_def wf)
qed

lemma timers_wf:
  assumes "room_wf room"
  shows "room_wf (startTimer clk room d a)" and "room_wf (pauseTimer clk room d a)"
    and "room_wf (resumeTimer clk room d a)" and "room_wf (resetTimer clk room a)"
  using assms
  by (auto simp: startTimer_def pauseTimer_def resumeTimer_def resetTimer_def resetTimerForBoundary_def
      Let_def inv_defs split: option.splits)

lemma revertTurn_wf: "room_wf room \<Longrightarrow> room_wf (revertTurn clk room i n a)"
  by (auto simp: revertTurn_def inv_defs split: option.splits)

lemma passPhase_wf: "room_wf room \<Longrightarrow> room_wf (passPhase clk room a)"
proof -
  assume wf: "room_wf room"
  have "room_wf (room\<lparr>tr_turn := (tr_turn room)\<lparr>ttu_phaseId := Some ph\<rparr>,
      tr_timer := resetTimerForBoundary room\<rparr>)" if "tset_phasesEnabled (tr_settings room)" for ph
    using wf boundary_timer_wf [of room] that
    by (auto simp: inv_defs split: option.splits)
  then show ?thesis using wf by (auto simp: passPhase_def passTurn_wf split: option.split)
qed

lemma withResetPlayerArrangement_ids [simp]:
  "map tp_id (withResetPlayerArrangement ps t s) = map tp_id ps"
  by (simp add: withResetPlayerArrangement_def Let_def comp_def)

lemma head_id_mem: "head_id ps = Some i \<Longrightarrow> i \<in> tp_id ` set ps"
  by (cases ps) (auto simp: head_id_def)

lemma head_id_None [simp]: "head_id ps = None \<longleftrightarrow> ps = []"
  by (cases ps) (auto simp: head_id_def)

lemma resetGame_wf:
  assumes "room_wf room"
  shows "room_wf (resetGame clk room t s a)"
proof -
  let ?ps = "map (\<lambda>p. p\<lparr>tp_life := tp_startingLife p, tp_eliminated := False,
      tp_trackers := resetValues (tp_trackers p)\<rparr>) (withResetPlayerArrangement (tr_players room) t s)"
  have ids: "map tp_id ?ps = map tp_id (tr_players room)"
    by (simp add: comp_def)
  have head: "i \<in> tp_id ` set ?ps" if "head_id (byTurnOrder ?ps) = Some i" for i
    using head_id_mem [OF that] by (simp only: byTurnOrder_simps)
  have timer: "timer_wf (room\<lparr>tr_timer := resetTimerForBoundary room\<rparr>)"
    using assms boundary_timer_wf by (simp add: room_wf_def)
  let ?r = "room\<lparr>tr_players := ?ps,
       tr_turn := \<lparr>ttu_activePlayerId = head_id (byTurnOrder ?ps), ttu_number = num 1,
         ttu_phaseId = firstPhase (tr_settings room)\<rparr>,
       tr_timer := resetTimerForBoundary room,
       tr_globalTrackers := resetValues (tr_globalTrackers room),
       tr_commanderDamage := buildCommanderDamage ?ps, tr_actionLog := []\<rparr>"
  have "room_wf ?r" unfolding room_wf_def
  proof (intro conjI)
    show "ids_wf ?r" using assms ids by (simp add: room_wf_def ids_wf_def)
    show "turn_wf ?r" using head by (auto simp: turn_wf_def split: option.split)
    show "damage_wf ?r" by (rule buildCommanderDamage_wf [of _ ?ps]) simp_all
    show "timer_wf ?r" using timer by (simp add: timer_wf_def)
  qed
  then show ?thesis by (simp add: resetGame_def Let_def)
qed

lemma applyAction_wf: "room_wf room \<Longrightarrow> room_wf (applyTableAssistantAction clk room a)"
  by (cases "act_body a")
    (auto simp: applyTableAssistantAction_def applyActionBody_def withEliminationFromLife_def
      intro!: updateAssistantPlayer_wf commanderDamage_wf passTurn_wf revertTurn_wf passPhase_wf
        timers_wf resetGame_wf tracker_wf assign_wf)

interpretation assistant: invariant_machine assistantStep "\<lambda>_. True" room_wf
  by unfold_locales (simp add: assistantStep_def applyAction_wf)

end
