(* ===== verification/AssistantProps.thy ===== *)
theory AssistantProps
  imports AssistantInvariant
begin

text \<open>
  The properties of the table assistant: every reachable room is well-formed, every action is
  one version and one log entry or nothing, the turn leaves a player who is eliminated,
  commander damage adds up, a reset seats the players as requested, phases lead to the next
  turn, and who may edit whom.
\<close>

section \<open>Reachable rooms\<close>

inductive reachable_room :: "assistant_room \<Rightarrow> bool" where
  created: "createInitialTableAssistantRoom now options = Inr room \<Longrightarrow> reachable_room room"
| acted: "reachable_room room \<Longrightarrow> reachable_room (applyTableAssistantAction clk room action)"

lemma createPlayers_ids:
  assumes "createPlayers n life active configured = Inr players"
  shows "distinct (map tp_id players)"
proof -
  obtain k where "players = map (createPlayer life active configured) [0..<k]"
    using assms by (auto simp: createPlayers_def js_bind_eq_Inr)
  then show ?thesis by (simp add: distinct_map inj_on_def createPlayer_def Let_def)
qed

lemma assignHost_ids [simp]: "map tp_id (assignHost options players) = map tp_id players"
  by (cases players) (simp_all add: assignHost_def)

lemma created_wf:
  assumes "createInitialTableAssistantRoom now options = Inr room"
  shows "room_wf room"
proof -
  let ?s = "createDefaultSettings (opt_mode options) options"
  obtain players where players: "distinct (map tp_id players)"
    and room: "tr_players room = assignHost options players" "tr_settings room = ?s"
      "tr_turn room = \<lparr>ttu_activePlayerId = head_id (assignHost options players), ttu_number = num 1,
         ttu_phaseId = firstPhase ?s\<rparr>"
      "tr_commanderDamage room = createCommanderDamage (assignHost options players)"
      "ttm_mode (tr_timer room) = tset_timerMode ?s" "ttm_status (tr_timer room) = IdleTimer"
      "ttm_startedAt (tr_timer room) = None"
      "tset_timerMode ?s = NoTimer \<longrightarrow> ttm_durationSeconds (tr_timer room) = None \<and>
         ttm_remainingSeconds (tr_timer room) = None"
    using assms
    by (clarsimp simp: createInitialTableAssistantRoom_def Let_def js_bind_eq_Inr)
      (rule that, auto intro: createPlayers_ids)
  have "ids_wf room" using players by (simp add: ids_wf_def room)
  moreover have "turn_wf room"
    using head_id_mem [of "assignHost options players"] by (auto simp: turn_wf_def room split: option.split)
  moreover have "damage_wf room"
    by (rule buildCommanderDamage_wf [of _ "assignHost options players"])
      (simp_all add: room createCommanderDamage_build)
  moreover have "timer_wf room"
    using room by (auto simp: timer_wf_def createDefaultSettings_def Let_def normalizeTimerMode_def
        availableTimerModes_def split: if_splits)
  ultimately show ?thesis by (simp add: room_wf_def)
qed

text \<open>C39: every room that creation and any sequence of actions can produce is well-formed:
  different player ids, a turn that belongs to a player, a turn number not below one, a phase
  exactly when phases are on, a commander damage table over the players with no negative
  entry and no entry from a player to itself, and an idle timer when the mode is \<open>none\<close>.\<close>

theorem reachable_room_wf:
  assumes "reachable_room room"
  shows "room_wf room"
  using assms by induction (auto intro: created_wf applyAction_wf)

definition plain_options :: "jsnum \<Rightarrow> room_options" where
  "plain_options n = \<lparr>opt_mode = SingleDevice, opt_roomId = None, opt_roomCode = None,
     opt_inviteUrl = None, opt_hostUser = None, opt_hostDeviceId = None, opt_playerCount = Some n,
     opt_initialLife = None, opt_phasesEnabled = None, opt_timerMode = None,
     opt_timerDurationSeconds = None, opt_skipEliminatedPlayers = None, opt_activeTrackerIds = None,
     opt_players = None, opt_createdAt = None\<rparr>"

lemma plain_room_created: "\<exists>room. createInitialTableAssistantRoom [] (plain_options (num 2)) = Inr room"
  by (simp add: createInitialTableAssistantRoom_def plain_options_def createPlayers_def Let_def)

theorem reachable_room_wf_witness:
  "\<exists>room. createInitialTableAssistantRoom [] (plain_options (num 2)) = Inr room \<and>
     room_wf (applyTableAssistantAction sample_clock room (sample_action TurnPassed))"
  using plain_room_created reachable_room_wf created acted by metis

section \<open>Versions and the action log\<close>

definition committed :: "action_clock \<Rightarrow> assistant_action \<Rightarrow> assistant_room \<Rightarrow> assistant_room \<Rightarrow> bool" where
  "committed clk action room r \<longleftrightarrow>
     tr_version r = tr_version room + 1 \<and> tr_updatedAt r = clk_updatedAt clk \<and>
     tr_actionLog r = (case act_body action of GameReset _ _ \<Rightarrow> [] | _ \<Rightarrow> tr_actionLog room) @
       [toActionLogEntry clk action]"

lemma commit_committed:
  "tr_version r = tr_version room \<Longrightarrow>
   tr_actionLog r = (case act_body action of GameReset _ _ \<Rightarrow> [] | _ \<Rightarrow> tr_actionLog room) \<Longrightarrow>
     committed clk action room (commit clk r (Some action))"
  by (simp add: committed_def commit_def)

lemma moveTurnAway_log [simp]:
  "tr_version (moveTurnAwayFromEliminatedActive r) = tr_version r"
  "tr_actionLog (moveTurnAwayFromEliminatedActive r) = tr_actionLog r"
  by (auto simp: moveTurnAwayFromEliminatedActive_def split: option.split)

lemmas action_defs [step_defs] =
  applyTableAssistantAction_def applyActionBody_def updateAssistantPlayer_def
  applyCommanderDamageChange_def passTurn_def revertTurn_def passPhase_def startTimer_def
  pauseTimer_def resumeTimer_def resetTimer_def resetGame_def applyTrackerChange_def
  assignParticipantToPlayer_def

text \<open>An action is all or nothing. It leaves the room as it is, or it is one version more,
  stamped with the clock, and one log entry more; only a reset starts the log afresh.\<close>

theorem action_commits_once:
  "applyTableAssistantAction clk room action = room \<or>
   committed clk action room (applyTableAssistantAction clk room action)"
  by (cases "act_body action")
    (simp_all add: step_defs Let_def commit_committed split: option.split tracker_id.split)

section \<open>The turn leaves eliminated players\<close>

definition activeAlive :: "assistant_room \<Rightarrow> bool" where
  "activeAlive room \<longleftrightarrow> (\<exists>p \<in> set (tr_players room).
     ttu_activePlayerId (tr_turn room) = Some (tp_id p) \<and> alive p)"

lemma nextActive_alive:
  assumes "nextActivePlayer room = Some next" and "p \<in> set (tr_players room)" and "alive p"
  shows "\<exists>q \<in> set (tr_players room). tp_id q = fst next \<and> alive q"
proof -
  have "tr_players room \<noteq> []" using assms(2) by auto
  from nextActive_scan [OF this] obtain i where "fst next = tp_id (byTurnOrder (tr_players room) ! i)"
    "alive (byTurnOrder (tr_players room) ! i)" "i < length (byTurnOrder (tr_players room))"
    using assms \<open>tr_players room \<noteq> []\<close> by fastforce
  then show ?thesis using nth_mem [of i "byTurnOrder (tr_players room)"] by auto
qed

lemma nextActive_exists:
  "p \<in> set (tr_players room) \<Longrightarrow> alive p \<Longrightarrow> \<exists>next. nextActivePlayer room = Some next"
  using nextActive_scan [of room] by fastforce

lemma moveTurnAway_alive:
  assumes "distinct (map tp_id (tr_players room))"
    and "\<exists>p \<in> set (tr_players room). ttu_activePlayerId (tr_turn room) = Some (tp_id p)"
    and "\<exists>p \<in> set (tr_players room). alive p"
  shows "activeAlive (moveTurnAwayFromEliminatedActive room)"
proof -
  obtain a where a: "a \<in> set (tr_players room)" "ttu_activePlayerId (tr_turn room) = Some (tp_id a)"
    using assms(2) by blast
  have find: "List.find (\<lambda>p. Some (tp_id p) = ttu_activePlayerId (tr_turn room)) (tr_players room) = Some a"
    using find_key [OF assms(1) a(1)] by (simp add: a(2))
  obtain nxt q where step: "nextActivePlayer room = Some nxt" "q \<in> set (tr_players room)"
      "tp_id q = fst nxt" "alive q"
    using assms(3) nextActive_exists nextActive_alive by metis
  show ?thesis
  proof (cases "alive a \<or> Some (fst nxt) = Some (tp_id a)")
    case True
    then have "alive a"
      using step a(1) assms(1) by (metis find_key option.inject)
    then show ?thesis
      using a find by (auto simp: moveTurnAwayFromEliminatedActive_def activeAlive_def alive_def)
  next
    case False
    then have "moveTurnAwayFromEliminatedActive room =
        room\<lparr>tr_turn := turnOf room nxt, tr_timer := resetTimerForBoundary room\<rparr>"
      using a(2) find step(1) by (simp add: moveTurnAwayFromEliminatedActive_def alive_def)
    with step show ?thesis by (simp add: activeAlive_def turnOf_def) metis
  qed
qed

lemma moveTurnAway_players [simp]: "tr_players (moveTurnAwayFromEliminatedActive r) = tr_players r"
  by (auto simp: moveTurnAwayFromEliminatedActive_def split: option.split)

lemma activeAlive_commit [simp]: "activeAlive (commit clk r a) = activeAlive r"
  by (simp add: activeAlive_def)

lemma updateAssistantPlayer_alive:
  fixes clk a
  assumes "room_wf room" and "\<And>p. tp_id (f p) = tp_id p" and "pid \<in> tp_id ` set (tr_players room)"
  defines "r \<equiv> updateAssistantPlayer clk room pid f a"
  assumes "\<exists>p \<in> set (tr_players r). alive p"
  shows "activeAlive r"
proof -
  let ?u = "room\<lparr>tr_players := map (\<lambda>p. if tp_id p = pid then f p else p) (tr_players room)\<rparr>"
  have r: "r = commit clk (moveTurnAwayFromEliminatedActive ?u) a"
    using assms(3) by (auto simp: r_def updateAssistantPlayer_def)
  have "room_wf ?u" using assms(1,2) by (intro players_map_wf) simp_all
  then have "distinct (map tp_id (tr_players ?u))" "turn_wf ?u" by (simp_all add: room_wf_def ids_wf_def)
  moreover have "\<exists>p \<in> set (tr_players ?u). alive p" using assms(5) by (simp add: r)
  moreover from calculation have "\<exists>p \<in> set (tr_players ?u). ttu_activePlayerId (tr_turn ?u) = Some (tp_id p)"
    by (auto simp: turn_wf_def split: option.splits)
  ultimately show ?thesis unfolding r activeAlive_commit by (intro moveTurnAway_alive)
qed

text \<open>After a change to the life or the elimination of a player of a well-formed room, the
  turn belongs to a living player unless everyone is eliminated: a player who dies on their
  own turn passes it on.\<close>

theorem turn_leaves_eliminated_player:
  assumes "room_wf room" and "pid \<in> tp_id ` set (tr_players room)"
    and "act_body action \<in> {LifeChanged pid delta, LifeSet pid life, EliminationChanged pid flag}"
    and "\<exists>p \<in> set (tr_players (applyTableAssistantAction clk room action)). alive p"
  shows "activeAlive (applyTableAssistantAction clk room action)"
proof -
  obtain f where "applyTableAssistantAction clk room action = updateAssistantPlayer clk room pid f (Some action)"
    and "\<And>p. tp_id (f p) = tp_id p"
  proof -
    show thesis if "\<And>f. applyTableAssistantAction clk room action =
        updateAssistantPlayer clk room pid f (Some action) \<Longrightarrow> (\<And>p. tp_id (f p) = tp_id p) \<Longrightarrow> thesis"
      using assms(3)
      by (auto simp: applyTableAssistantAction_def applyActionBody_def withEliminationFromLife_def
          intro: that)
  qed
  with updateAssistantPlayer_alive [OF assms(1) _ assms(2)] assms(4) show ?thesis by metis
qed

lemma three_room_wf: "room_wf three_room"
proof -
  have "damage_wf three_room"
    by (rule buildCommanderDamage_wf [of _ three_players]) (simp_all add: createCommanderDamage_build)
  then show ?thesis
    by (simp add: room_wf_def ids_wf_def turn_wf_def timer_wf_def sample_settings_def)
      (simp add: three_players_def three_room_def)
qed

theorem turn_leaves_eliminated_player_witness:
  "activeAlive (applyTableAssistantAction sample_clock three_room (sample_action (LifeSet ''p1'' (num 0))))"
proof (rule turn_leaves_eliminated_player [OF three_room_wf, where pid = "''p1''" and delta = "num 0"])
  show "''p1'' \<in> tp_id ` set (tr_players three_room)" by (simp add: three_players_def)
  show "\<exists>p \<in> set (tr_players (applyTableAssistantAction sample_clock three_room
      (sample_action (LifeSet ''p1'' (num 0))))). alive p"
    by (simp add: applyTableAssistantAction_def applyActionBody_def updateAssistantPlayer_def
        three_players_def alive_def isPlayerEliminated_def withEliminationFromLife_def)
qed simp

section \<open>Commander damage\<close>

definition damageBetween :: "assistant_room \<Rightarrow> string \<Rightarrow> string \<Rightarrow> jsnum" where
  "damageBetween room targetId sourceId =
     if_undefined (Option.bind (tr_commanderDamage room targetId) (\<lambda>row. row sourceId)) (num 0)"

lemma commander_damage_step:
  fixes clk
  assumes "tset_commanderDamageEnabled (tr_settings room)" and "tr_commanderDamage room t \<noteq> None"
    and "t \<noteq> s" and "act_body action = CommanderDamageChanged t s delta"
  defines "r \<equiv> applyTableAssistantAction clk room action"
  shows "damageBetween r t s = js_max (num 0) (damageBetween room t s + delta)"
    and "(t', s') \<noteq> (t, s) \<Longrightarrow> damageBetween r t' s' = damageBetween room t' s'"
    and "tr_settings r = tr_settings room" and "tr_commanderDamage r t \<noteq> None"
    and "tr_players r = tr_players room"
  using assms
  by (auto simp: applyTableAssistantAction_def applyActionBody_def applyCommanderDamageChange_def
      damageBetween_def Let_def)

text \<open>Commander damage adds up. After any sequence of hits by one commander on one player
  the damage between them has grown by the sum of the hits, no other pair has changed, no
  life total has, and the damage is reported as lethal exactly when the total reaches 21.\<close>

theorem commander_damage_adds_up:
  assumes "tset_commanderDamageEnabled (tr_settings room)" and "tr_commanderDamage room t \<noteq> None"
    and "t \<noteq> s" and "damageBetween room t s = num d" and "0 \<le> d"
    and "list_all2 (\<lambda>e hit. act_body (snd e) = CommanderDamageChanged t s (num (int hit))) es hits"
  shows "let after = run_steps assistantStep room es; total = d + int (sum_list hits) in
     damageBetween after t s = num total \<and> (isCommanderDamageLethal after t s \<longleftrightarrow> 21 \<le> total) \<and>
     (\<forall>t' s'. (t', s') \<noteq> (t, s) \<longrightarrow> damageBetween after t' s' = damageBetween room t' s') \<and>
     tr_players after = tr_players room"
  using assms(6,1-5)
proof (induction arbitrary: room d rule: list_all2_induct)
  case Nil
  then show ?case
    by (simp add: Let_def isCommanderDamageLethal_def damageBetween_def COMMANDER_DAMAGE_LETHAL_AMOUNT_def)
next
  case (Cons e es hit hits)
  let ?r = "applyTableAssistantAction (fst e) room (snd e)"
  note step = commander_damage_step [OF Cons.prems(1-3) Cons.hyps(1), where clk = "fst e"]
  have "damageBetween ?r t s = num (d + int hit)"
    using step(1) Cons.prems(4,5) by simp
  with Cons.IH [of ?r "d + int hit"] step Cons.prems show ?case
    by (simp add: Let_def assistantStep_def add.assoc)
qed

theorem commander_damage_adds_up_witness:
  "isCommanderDamageLethal (run_steps assistantStep three_room
     [(sample_clock, sample_action (CommanderDamageChanged ''p1'' ''p3'' (num (int 10)))),
      (sample_clock, sample_action (CommanderDamageChanged ''p1'' ''p3'' (num (int 12))))]) ''p1'' ''p3''"
proof -
  have zero: "damageBetween three_room ''p1'' ''p3'' = num 0"
    by (simp add: damageBetween_def createCommanderDamage_build buildCommanderDamage_eq three_players_def)
  have row: "tr_commanderDamage three_room ''p1'' \<noteq> None"
    by (simp add: createCommanderDamage_build buildCommanderDamage_eq three_players_def)
  show ?thesis
    using commander_damage_adds_up [of three_room "''p1''" "''p3''" 0
      "[(sample_clock, sample_action (CommanderDamageChanged ''p1'' ''p3'' (num (int 10)))),
        (sample_clock, sample_action (CommanderDamageChanged ''p1'' ''p3'' (num (int 12))))]" "[10, 12]",
      OF _ row _ zero]
    by (simp add: sample_settings_def Let_def)
qed

section \<open>Resetting the game\<close>

lemma zip_upt_map_of:
  assumes "distinct ids" and "i < length ids"
  shows "map_of (rev (zip ids (map int [0..<length ids]))) (ids ! i) = Some (int i)"
proof -
  have "(ids ! i, int i) \<in> set (zip ids (map int [0..<length ids]))"
    using assms(2) by (auto simp: set_zip)
  moreover have "distinct (map fst (rev (zip ids (map int [0..<length ids]))))"
    using assms(1) by (simp add: rev_map [symmetric])
  ultimately show ?thesis by (simp add: map_of_eq_Some_iff)
qed

lemma orderByPlayerId_perm:
  assumes "distinct (map tp_id players)" and "mset ids = mset (map tp_id players)"
    and "i < length ids"
  shows "orderByPlayerId players (Some ids) (ids ! i) = Some (int i)"
proof -
  have d: "distinct ids" and len: "length ids = length players" and set: "set ids = tp_id ` set players"
    using assms by (metis mset_eq_imp_distinct_iff, metis length_map mset_eq_length, metis set_map mset_eq_setD)
  then show ?thesis
    using assms(1) zip_upt_map_of [OF d assms(3)]
    by (auto simp: orderByPlayerId_def Let_def distinct_remdups_id)
qed

lemma sorted_map_unique:
  assumes "sorted (map r xs)" and "sorted (map r ys)" and "inj_on r (set ys)" and "mset xs = mset ys"
  shows "xs = ys"
proof -
  have "mset (map r xs) = mset (map r ys)" using assms(4) by simp
  then have "map r xs = map r ys" using assms(1,2) by (metis properties_for_sort)
  moreover have "set xs = set ys" using assms(4) by (rule mset_eq_setD)
  ultimately show ?thesis using assms(3) by (metis Un_absorb map_inj_on)
qed

text \<open>A list sorted by an injective key is the list of its elements in the order of the key.\<close>

lemma sort_key_by_rank:
  assumes "distinct ids" and "mset (map f players) = mset ids"
    and "\<And>i p. i < length ids \<Longrightarrow> p \<in> set players \<Longrightarrow> f p = ids ! i \<Longrightarrow> k p = int i"
  shows "map f (sort_key k players) = ids"
proof -
  have rank: "k p = int (the (find_index (\<lambda>x. x = f p) ids))" if "p \<in> set players" for p
  proof -
    have "f p \<in> set ids" using assms(2) that by (metis image_eqI set_map mset_eq_setD)
    then obtain i where i: "find_index (\<lambda>x. x = f p) ids = Some i"
      using find_index_ex [of "\<lambda>x. x = f p" ids] by auto
    then have "i < length ids" "f p = ids ! i" using find_index_Some [OF i] by auto
    with assms(3) that i show ?thesis by simp
  qed
  let ?r = "\<lambda>x. int (the (find_index (\<lambda>y. y = x) ids))"
  have "map ?r (map f (sort_key k players)) = map k (sort_key k players)"
    using rank by simp
  then have "sorted (map ?r (map f (sort_key k players)))" by (simp only: sorted_sort_key)
  moreover have rank_nth: "?r (ids ! i) = int i" if len: "i < length ids" for i
  proof -
    obtain j where j: "find_index (\<lambda>y. y = ids ! i) ids = Some j"
      using find_index_ex [of "\<lambda>y. y = ids ! i" ids] nth_mem [OF len] by auto
    then have "j < length ids" "ids ! j = ids ! i" using find_index_Some [OF j] by auto
    then have "j = i" using assms(1) len by (simp add: nth_eq_iff_index_eq)
    with j show ?thesis by simp
  qed
  have "sorted (map ?r ids)"
    by (simp add: sorted_iff_nth_mono rank_nth)
  moreover have "inj_on ?r (set ids)"
    by (auto simp: inj_on_def in_set_conv_nth rank_nth simp del: of_nat_eq_iff) (simp add: rank_nth)
  moreover have "mset (map f (sort_key k players)) = mset ids" using assms(2) by simp
  ultimately show ?thesis by (rule sorted_map_unique)
qed

lemma withResetPlayerArrangement_order:
  assumes "distinct (map tp_id players)" and "mset ids = mset (map tp_id players)"
    and "p \<in> set (withResetPlayerArrangement players (Some ids) seats)" and "i < length ids"
    and "tp_id p = ids ! i"
  shows "tp_turnOrder p = int i"
proof -
  have "\<exists>q. tp_turnOrder p = if_undefined (orderByPlayerId players (Some ids) (tp_id p)) q"
    using assms(3) by (auto simp: withResetPlayerArrangement_def Let_def)
  then show ?thesis using orderByPlayerId_perm [OF assms(1,2,4)] assms(5) by auto
qed

text \<open>A reset with a permutation of the player ids as turn order seats the players in that
  order: the players sorted by turn order are the requested ids, the first of them is active
  in turn one, every life total is the starting one, nobody is marked as eliminated, all
  commander damage is zero and the log holds the reset alone.\<close>

theorem reset_restores_table:
  fixes clk
  assumes "distinct (map tp_id (tr_players room))"
    and "mset ids = mset (map tp_id (tr_players room))"
    and "act_body action = GameReset (Some ids) seats"
  defines "r \<equiv> applyTableAssistantAction clk room action"
  shows "map tp_id (byTurnOrder (tr_players r)) = ids \<and>
     ttu_activePlayerId (tr_turn r) = (case ids of [] \<Rightarrow> None | i # _ \<Rightarrow> Some i) \<and>
     ttu_number (tr_turn r) = num 1 \<and>
     (\<forall>p \<in> set (tr_players r). tp_life p = tp_startingLife p \<and> \<not> tp_eliminated p) \<and>
     (\<forall>t s. damageBetween r t s = num 0) \<and> tr_actionLog r = [toActionLogEntry clk action]"
proof -
  let ?arr = "withResetPlayerArrangement (tr_players room) (Some ids) seats"
  let ?f = "\<lambda>p. p\<lparr>tp_life := tp_startingLife p, tp_eliminated := False,
      tp_trackers := resetValues (tp_trackers p)\<rparr>"
  have r: "r = resetGame clk room (Some ids) seats action"
    using assms(3) by (simp add: r_def applyTableAssistantAction_def applyActionBody_def)
  have players: "tr_players r = map ?f ?arr" by (simp add: r resetGame_def Let_def)
  have d: "distinct ids" using assms(1,2) by (metis mset_eq_imp_distinct_iff)
  have ids: "map tp_id (map ?f ?arr) = map tp_id (tr_players room)" by (simp add: comp_def)
  have order: "map tp_id (byTurnOrder (tr_players r)) = ids"
    unfolding byTurnOrder_def players
  proof (rule sort_key_by_rank [OF d])
    show "mset (map tp_id (map ?f ?arr)) = mset ids" by (simp only: ids assms(2))
    show "tp_turnOrder p = int i" if "i < length ids" "p \<in> set (map ?f ?arr)" "tp_id p = ids ! i" for i p
      using that withResetPlayerArrangement_order [OF assms(1,2) _ that(1), of _ seats] by auto
  qed
  have "head_id (byTurnOrder (tr_players r)) = (case ids of [] \<Rightarrow> None | i # _ \<Rightarrow> Some i)"
    using order by (cases "byTurnOrder (tr_players r)") (auto simp: head_id_def simp del: byTurnOrder_simps)
  then have turn: "ttu_activePlayerId (tr_turn r) = (case ids of [] \<Rightarrow> None | i # _ \<Rightarrow> Some i)"
    "ttu_number (tr_turn r) = num 1"
    by (simp_all add: r resetGame_def Let_def)
  have damage: "damageBetween r t s = num 0" for t s
    by (simp add: r resetGame_def Let_def damageBetween_def buildCommanderDamage_eq)
  have "tr_actionLog r = [toActionLogEntry clk action]"
    by (simp add: r resetGame_def Let_def commit_def)
  with order turn damage show ?thesis by (simp add: players)
qed

theorem reset_restores_table_witness:
  "map tp_id (byTurnOrder (tr_players (applyTableAssistantAction sample_clock three_room
     (sample_action (GameReset (Some [''p3'', ''p1'', ''p2'']) None))))) = [''p3'', ''p1'', ''p2'']"
  using reset_restores_table [of three_room "[''p3'', ''p1'', ''p2'']"
      "sample_action (GameReset (Some [''p3'', ''p1'', ''p2'']) None)" None sample_clock]
  by (simp add: three_players_def)

section \<open>Phases\<close>

lemma phases_sorted: "sorted TABLE_ASSISTANT_PHASES" "distinct TABLE_ASSISTANT_PHASES"
  by (simp_all add: TABLE_ASSISTANT_PHASES_def less_eq_phase_id_def)

lemma phases_nth: "TABLE_ASSISTANT_PHASES ! phase_rank ph = ph" "phase_rank ph < 7"
  by (cases ph; simp add: TABLE_ASSISTANT_PHASES_def)+

lemma phases_index: "find_index (\<lambda>x. x = ph) TABLE_ASSISTANT_PHASES = Some (phase_rank ph)"
  by (cases ph) (simp_all add: TABLE_ASSISTANT_PHASES_def)

lemma phases_length [simp]: "length TABLE_ASSISTANT_PHASES = 7"
  by (simp add: TABLE_ASSISTANT_PHASES_def)

lemma passPhase_step:
  assumes "tset_phasesEnabled (tr_settings room)" and "ttu_phaseId (tr_turn room) = Some ph"
    and "Suc (phase_rank ph) < 7"
  shows "tr_turn (passPhase clk room a) =
      (tr_turn room)\<lparr>ttu_phaseId := Some (TABLE_ASSISTANT_PHASES ! Suc (phase_rank ph))\<rparr>"
    and "tr_players (passPhase clk room a) = tr_players room"
    and "tr_settings (passPhase clk room a) = tr_settings room"
  using assms by (simp_all add: passPhase_def phases_index)

lemma phase_rank_nth: "i < 7 \<Longrightarrow> phase_rank (TABLE_ASSISTANT_PHASES ! i) = i"
  by (auto simp: TABLE_ASSISTANT_PHASES_def numeral_eq_Suc less_Suc_eq)

lemma assistantStep_phase:
  "act_body (snd e) = PhasePassed \<Longrightarrow> assistantStep room e = passPhase (fst e) room (snd e)"
  by (simp add: assistantStep_def applyTableAssistantAction_def applyActionBody_def)

lemma phase_passes:
  assumes "list_all (\<lambda>e. act_body (snd e) = PhasePassed) es"
    and "tset_phasesEnabled (tr_settings room)" and "ttu_phaseId (tr_turn room) = Some ph"
    and "phase_rank ph + length es < 7"
  shows "tr_turn (run_steps assistantStep room es) =
      (tr_turn room)\<lparr>ttu_phaseId := Some (TABLE_ASSISTANT_PHASES ! (phase_rank ph + length es))\<rparr> \<and>
    tr_players (run_steps assistantStep room es) = tr_players room \<and>
    tr_settings (run_steps assistantStep room es) = tr_settings room"
  using assms
proof (induction es arbitrary: room ph)
  case Nil
  then show ?case by (simp add: phases_nth)
next
  case (Cons e es)
  let ?r = "passPhase (fst e) room (snd e)" and ?ph = "TABLE_ASSISTANT_PHASES ! Suc (phase_rank ph)"
  have rank: "phase_rank ?ph = Suc (phase_rank ph)" using Cons.prems(4) by (intro phase_rank_nth) simp
  have "Suc (phase_rank ph) < 7" using Cons.prems(4) by simp
  note step = passPhase_step [OF Cons.prems(2,3) this, of "fst e" "snd e"]
  have "assistantStep room e = ?r" using Cons.prems(1) by (simp add: assistantStep_phase)
  with Cons.IH [of ?r ?ph] step rank Cons.prems show ?case by simp
qed

lemma nextActive_cong:
  "tr_players r = tr_players s \<Longrightarrow> ttu_activePlayerId (tr_turn r) = ttu_activePlayerId (tr_turn s) \<Longrightarrow>
     nextActivePlayer r = nextActivePlayer s"
  by (simp add: nextActivePlayer_def)

lemma run_steps_snoc: "run_steps f s (es @ [e]) = f (run_steps f s es) e"
  by (simp add: run_steps_append)

text \<open>Passing phases goes through the phases of the turn in their order and ends in the next
  turn. With phases on, from phase number \<open>k\<close> of seven, \<open>7 - k\<close> passes give the turn that one
  \<open>turn.passed\<close> gives, and before that only the phase changes.\<close>

theorem phases_end_in_next_turn:
  assumes "list_all (\<lambda>e. act_body (snd e) = PhasePassed) es"
    and "tset_phasesEnabled (tr_settings room)" and "ttu_phaseId (tr_turn room) = Some ph"
    and "phase_rank ph + length es = 7" and "nextActivePlayer room \<noteq> None"
  shows "tr_turn (run_steps assistantStep room es) = tr_turn (passTurn clk room None) \<and>
     (\<forall>n < length es. tr_turn (run_steps assistantStep room (take n es)) =
        (tr_turn room)\<lparr>ttu_phaseId := Some (TABLE_ASSISTANT_PHASES ! (phase_rank ph + n))\<rparr>)"
proof -
  have early: "tr_turn (run_steps assistantStep room (take n es)) =
      (tr_turn room)\<lparr>ttu_phaseId := Some (TABLE_ASSISTANT_PHASES ! (phase_rank ph + n))\<rparr> \<and>
      tr_players (run_steps assistantStep room (take n es)) = tr_players room \<and>
      tr_settings (run_steps assistantStep room (take n es)) = tr_settings room"
    if "n < length es" for n
    using phase_passes [of "take n es" room ph] assms(1-4) that
    by (auto simp: list_all_iff dest: in_set_takeD)
  have "es \<noteq> []" using assms(4) phases_nth(2) [of ph] by auto
  then obtain fs e where es: "es = fs @ [e]" by (metis append_butlast_last_id)
  let ?r = "run_steps assistantStep room fs"
  have r: "tr_turn ?r = (tr_turn room)\<lparr>ttu_phaseId := Some EndStep\<rparr>" "tr_players ?r = tr_players room"
    "tr_settings ?r = tr_settings room"
    using early [of "length fs"] assms(4) by (auto simp: es TABLE_ASSISTANT_PHASES_def)
  then have "nextActivePlayer ?r = nextActivePlayer room" by (intro nextActive_cong) simp_all
  moreover have "assistantStep ?r e = passPhase (fst e) ?r (snd e)"
    using assms(1) by (simp add: es assistantStep_phase)
  ultimately have "tr_turn (run_steps assistantStep room es) = tr_turn (passTurn clk room None)"
    using r assms(2,5) by (auto simp: es run_steps_snoc passPhase_def phases_index passTurn_def turnOf_def)
  with early show ?thesis by blast
qed

theorem phases_end_in_next_turn_witness:
  "tr_turn (run_steps assistantStep three_room (replicate 7 (sample_clock, sample_action PhasePassed))) =
     tr_turn (passTurn sample_clock three_room None)"
proof -
  have "nextActivePlayer three_room \<noteq> None"
    using nextActive_exists [of "sample_player ''p1'' 0 40" three_room]
    by (simp add: three_players_def alive_def isPlayerEliminated_def)
  then show ?thesis
    using phases_end_in_next_turn [of "replicate 7 (sample_clock, sample_action PhasePassed)" three_room Untap]
    by (simp add: list_all_iff sample_settings_def)
qed

section \<open>Permissions\<close>

lemma assign_settings [simp]: "tr_settings (assignParticipantToPlayer clk room q pid a) = tr_settings room"
  by (simp add: assignParticipantToPlayer_def Let_def)

lemma assign_participants:
  "tr_participants (assignParticipantToPlayer clk room q pid a) =
     (if (\<exists>c \<in> set (tr_participants room). tpt_id c = q) \<and> (\<exists>p \<in> set (tr_players room). tp_id p = pid)
      then map (\<lambda>c. if tpt_id c = q then c\<lparr>tpt_assignedPlayerId := Some pid\<rparr> else c) (tr_participants room)
      else tr_participants room)"
  by (simp add: assignParticipantToPlayer_def Let_def)

lemma assigned_body:
  "act_body action = ParticipantAssigned q pid \<Longrightarrow>
     applyTableAssistantAction clk room action = assignParticipantToPlayer clk room q pid (Some action)"
  by (simp add: applyTableAssistantAction_def applyActionBody_def)

text \<open>When each player has their own device, a player who takes a panel over can edit it, a
  viewer can edit nothing, and the host everything.\<close>

theorem assigned_participant_can_edit:
  assumes "c \<in> set (tr_participants room)" and "tpt_id c = q"
    and "distinct (map tpt_id (tr_participants room))" and "pid \<in> tp_id ` set (tr_players room)"
    and "act_body action = ParticipantAssigned q pid"
    and "tpol_mode (tset_permissionPolicy (tr_settings room)) = HostAndOwner"
    and "tpol_playerCanEditOwnPanel (tset_permissionPolicy (tr_settings room))"
  shows "canEditPlayer (applyTableAssistantAction clk room action) q other =
     (case tpt_role c of ViewerRole \<Rightarrow> False | HostRole \<Rightarrow> True | PlayerRole \<Rightarrow> other = pid)"
proof -
  let ?f = "\<lambda>c. if tpt_id c = q then c\<lparr>tpt_assignedPlayerId := Some pid\<rparr> else c"
  have "List.find (\<lambda>d. tpt_id d = tpt_id (?f c)) (map ?f (tr_participants room)) = Some (?f c)"
    by (rule find_key) (use assms(1,3) in \<open>auto simp: comp_def if_distrib [of tpt_id] cong: if_cong\<close>)
  then have found: "List.find (\<lambda>d. tpt_id d = q) (map ?f (tr_participants room)) =
      Some (c\<lparr>tpt_assignedPlayerId := Some pid\<rparr>)"
    using assms(2) by simp
  have "\<exists>c \<in> set (tr_participants room). tpt_id c = q" "\<exists>p \<in> set (tr_players room). tp_id p = pid"
    using assms(1,2,4) by auto
  with found assms(6,7) show ?thesis
    by (simp add: assigned_body [OF assms(5)] canEditPlayer_def assign_participants
        split: participant_role.split) (simp add: eq_commute)
qed

theorem assigned_participant_can_edit_witness:
  "canEditPlayer (applyTableAssistantAction sample_clock three_room
     (sample_action (ParticipantAssigned ''q2'' ''p3''))) ''q2'' ''p3''"
  using assigned_participant_can_edit [of "sample_participant ''q2'' PlayerRole None" three_room "''q2''"
      "''p3''" "sample_action (ParticipantAssigned ''q2'' ''p3'')" sample_clock "''p3''"]
  by (simp add: sample_participant_def three_players_def sample_settings_def defaultPermissionPolicy_def)

text \<open>Reassigning a panel does not take it away from its previous owner. A participant whose
  record says that a player is theirs can still edit it after another participant was
  assigned to that player.\<close>

theorem reassignment_keeps_previous_editor:
  assumes "canEditPlayer room old pid" and "old \<noteq> new"
    and "act_body action = ParticipantAssigned new pid"
  shows "canEditPlayer (applyTableAssistantAction clk room action) old pid"
proof -
  let ?f = "\<lambda>c. if tpt_id c = new then c\<lparr>tpt_assignedPlayerId := Some pid\<rparr> else c"
  have "List.find (\<lambda>c. tpt_id c = old) (map ?f qs) = List.find (\<lambda>c. tpt_id c = old) qs"
    for qs :: "assistant_participant list"
    using assms(2) by (induction qs) auto
  then have same: "List.find (\<lambda>c. tpt_id c = old) (tr_participants (applyTableAssistantAction clk room action)) =
      List.find (\<lambda>c. tpt_id c = old) (tr_participants room)"
    by (simp add: assigned_body [OF assms(3)] assign_participants)
  have sets: "tr_settings (applyTableAssistantAction clk room action) = tr_settings room"
    by (simp add: assigned_body [OF assms(3)])
  show ?thesis using assms(1) unfolding canEditPlayer_def same sets .
qed

theorem reassignment_keeps_previous_editor_witness:
  "canEditPlayer (applyTableAssistantAction sample_clock three_room
     (sample_action (ParticipantAssigned ''q2'' ''p1''))) ''q1'' ''p1''"
  by (rule reassignment_keeps_previous_editor [where new = "''q2''"])
    (simp_all add: canEditPlayer_def sample_participant_def sample_settings_def defaultPermissionPolicy_def)

lemma skip_setting_unused:
  "nextActivePlayer (room\<lparr>tr_settings := (tr_settings room)\<lparr>tset_skipEliminatedPlayers := b\<rparr>\<rparr>) =
     nextActivePlayer room"
  by (simp add: nextActivePlayer_def)

end
