(* ===== verification/MulliganRules.thy ===== *)
theory MulliganRules
  imports GameModel
begin

text \<open>
  The mulligan calculator of \<^verbatim>\<open>features/game/game-table/utils/mulligan-rules.ts\<close>: what a hand
  looks like after a number of mulligans under each rule, whether it may be kept, and whether
  another mulligan is offered. Counts are integers after \<open>sanitizeMulligansTaken\<close>.
\<close>

section \<open>The calculator\<close>

definition LONDON_HAND_SIZE :: int where "LONDON_HAND_SIZE = 7"
definition GENEROUS_HAND_SIZE :: int where "GENEROUS_HAND_SIZE = 7"
definition GENEROUS_BASE_DRAW_COUNT :: int where "GENEROUS_BASE_DRAW_COUNT = 10"

record mulligan_input =
  mi_rule :: mulligan_rule
  mi_firstMulliganFree :: bool
  mi_mulligansTaken :: jsnum

record mulligan_base =
  mb_rule :: mulligan_rule
  mb_mulligansTaken :: int
  mb_effectiveMulligans :: int
  mb_drawCount :: int
  mb_bottomSelectionCount :: int
  mb_finalHandSize :: int
  mb_needsBottomSelection :: bool
  mb_bottomOrderMode :: bottom_order_mode
  mb_needsScryAfterKeep :: bool

record mulligan_state = mulligan_base +
  mb_canTakeAnotherMulligan :: bool

definition sanitizeMulligansTaken :: "jsnum \<Rightarrow> int" where
  "sanitizeMulligansTaken n = (if \<not> is_finite n then 0 else max 0 (js_int (js_floor n)))"

definition calculateEffectiveMulligans :: "int \<Rightarrow> bool \<Rightarrow> int" where
  "calculateEffectiveMulligans taken firstFree = max 0 (taken - (if firstFree then 1 else 0))"

definition buildState ::
  "mulligan_rule \<Rightarrow> int \<Rightarrow> int \<Rightarrow> int \<Rightarrow> int \<Rightarrow> int \<Rightarrow> bottom_order_mode \<Rightarrow> bool \<Rightarrow> mulligan_base" where
  "buildState rule taken effective drawCount bottomCount finalSize order scry =
     \<lparr>mb_rule = rule, mb_mulligansTaken = taken, mb_effectiveMulligans = effective,
      mb_drawCount = drawCount, mb_bottomSelectionCount = bottomCount, mb_finalHandSize = finalSize,
      mb_needsBottomSelection = bottomCount > 0, mb_bottomOrderMode = order,
      mb_needsScryAfterKeep = scry\<rparr>"

fun calculateBaseMulliganState :: "mulligan_rule \<Rightarrow> int \<Rightarrow> int \<Rightarrow> mulligan_base" where
  "calculateBaseMulliganState London taken effective =
     buildState London taken effective LONDON_HAND_SIZE effective (LONDON_HAND_SIZE - effective)
       PlayerChosenOrder False"
| "calculateBaseMulliganState Vancouver taken effective =
     (let drawCount = max 0 (LONDON_HAND_SIZE - effective) in
      buildState Vancouver taken effective drawCount 0 drawCount NoBottomOrder (effective > 0))"
| "calculateBaseMulliganState Paris taken effective =
     (let drawCount = max 0 (LONDON_HAND_SIZE - effective) in
      buildState Paris taken effective drawCount 0 drawCount NoBottomOrder False)"
| "calculateBaseMulliganState Generous taken effective =
     (let drawCount = max 0 (GENEROUS_BASE_DRAW_COUNT - effective);
          bottomCount = max 0 (drawCount - GENEROUS_HAND_SIZE) in
      buildState Generous taken effective drawCount bottomCount (drawCount - bottomCount)
        RandomServerSide False)"

definition isMulliganAttemptValid :: "mulligan_base \<Rightarrow> bool" where
  "isMulliganAttemptValid st \<longleftrightarrow> mb_drawCount st \<ge> 0 \<and> mb_bottomSelectionCount st \<ge> 0 \<and>
     mb_finalHandSize st \<ge> 0 \<and> mb_bottomSelectionCount st \<le> mb_drawCount st"

definition hasGameplayRelevantMulliganChange :: "mulligan_base \<Rightarrow> mulligan_base \<Rightarrow> bool" where
  "hasGameplayRelevantMulliganChange current new \<longleftrightarrow>
     mb_drawCount current \<noteq> mb_drawCount new \<or>
     mb_bottomSelectionCount current \<noteq> mb_bottomSelectionCount new \<or>
     mb_finalHandSize current \<noteq> mb_finalHandSize new \<or>
     mb_needsBottomSelection current \<noteq> mb_needsBottomSelection new \<or>
     mb_bottomOrderMode current \<noteq> mb_bottomOrderMode new \<or>
     mb_needsScryAfterKeep current \<noteq> mb_needsScryAfterKeep new"

definition canTakeNextMulligan :: "mulligan_rule \<Rightarrow> bool \<Rightarrow> int \<Rightarrow> mulligan_base \<Rightarrow> bool" where
  "canTakeNextMulligan rule firstFree taken current =
     (let nextTaken = taken + 1;
          nextEffective = calculateEffectiveMulligans nextTaken firstFree;
          new = calculateBaseMulliganState rule nextTaken nextEffective
      in if \<not> isMulliganAttemptValid new then False
         else if mb_effectiveMulligans new = mb_effectiveMulligans current
         then mb_mulligansTaken new > mb_mulligansTaken current
         else hasGameplayRelevantMulliganChange current new)"

definition calculateMulliganState :: "mulligan_input \<Rightarrow> mulligan_state" where
  "calculateMulliganState inp =
     (let taken = sanitizeMulligansTaken (mi_mulligansTaken inp);
          effective = calculateEffectiveMulligans taken (mi_firstMulliganFree inp);
          base = calculateBaseMulliganState (mi_rule inp) taken effective
      in mulligan_base.extend base (mulligan_state.fields
           (canTakeNextMulligan (mi_rule inp) (mi_firstMulliganFree inp) taken base)))"

definition canKeepMulliganState :: "mulligan_state \<Rightarrow> jsnum \<Rightarrow> bool" where
  "canKeepMulliganState st handLength =
     (let normalizedHandLength =
            (if is_finite handLength then max 0 (js_int (js_floor handLength)) else 0) in
      if mb_drawCount st < 0 \<or> mb_bottomSelectionCount st < 0 \<or> mb_finalHandSize st < 0 then False
      else if mb_rule st = London \<or> mb_rule st = Generous
      then mb_bottomSelectionCount st \<le> normalizedHandLength
      else True)"

section \<open>Lemmas\<close>

text \<open>The number of mulligans that still change the hand.\<close>

fun mulliganLimit :: "mulligan_rule \<Rightarrow> int" where
  "mulliganLimit Generous = 10"
| "mulliganLimit _ = 7"

definition mulliganInput :: "mulligan_rule \<Rightarrow> bool \<Rightarrow> int \<Rightarrow> mulligan_input" where
  "mulliganInput rule free n = \<lparr>mi_rule = rule, mi_firstMulliganFree = free, mi_mulligansTaken = num n\<rparr>"

lemmas mulligan_defs [step_defs] =
  calculateMulliganState_def canTakeNextMulligan_def isMulliganAttemptValid_def
  hasGameplayRelevantMulliganChange_def buildState_def mulligan_base.defs mulligan_state.defs
  LONDON_HAND_SIZE_def GENEROUS_HAND_SIZE_def GENEROUS_BASE_DRAW_COUNT_def

lemma effective_mono:
  "0 \<le> n \<Longrightarrow> calculateEffectiveMulligans (n + 1) free =
     (if free \<and> n = 0 then calculateEffectiveMulligans n free else calculateEffectiveMulligans n free + 1)"
  by (auto simp: calculateEffectiveMulligans_def)

lemma effective_nonneg: "0 \<le> calculateEffectiveMulligans n free"
  by (simp add: calculateEffectiveMulligans_def)

lemma sanitize_nonneg: "0 \<le> sanitizeMulligansTaken n"
  by (simp add: sanitizeMulligansTaken_def)

lemma sanitize_num [simp]: "0 \<le> i \<Longrightarrow> sanitizeMulligansTaken (num i) = i"
  by (simp add: sanitizeMulligansTaken_def)

lemma canTakeNext_limit:
  fixes rule free n
  assumes "0 \<le> n"
  defines "e \<equiv> calculateEffectiveMulligans n free"
  shows "canTakeNextMulligan rule free n (calculateBaseMulliganState rule n e) \<longleftrightarrow> e < mulliganLimit rule"
proof -
  have e: "0 \<le> e" by (simp add: e_def effective_nonneg)
  consider "free" "n = 0" "calculateEffectiveMulligans (n + 1) free = e" "e = 0"
    | "calculateEffectiveMulligans (n + 1) free = e + 1"
    using effective_mono [OF assms(1), of free] assms(1)
    by (auto simp: e_def calculateEffectiveMulligans_def split: if_splits)
  then show ?thesis
    by cases (cases rule; use e in \<open>simp add: step_defs Let_def\<close>; linarith?)+
qed

lemma base_fields:
  assumes "0 \<le> n"
  shows "mb_drawCount (calculateMulliganState (mulliganInput rule free n)) =
      mb_drawCount (calculateBaseMulliganState rule n (calculateEffectiveMulligans n free))"
    and "mb_bottomSelectionCount (calculateMulliganState (mulliganInput rule free n)) =
      mb_bottomSelectionCount (calculateBaseMulliganState rule n (calculateEffectiveMulligans n free))"
    and "mb_finalHandSize (calculateMulliganState (mulliganInput rule free n)) =
      mb_finalHandSize (calculateBaseMulliganState rule n (calculateEffectiveMulligans n free))"
    and "mb_rule (calculateMulliganState (mulliganInput rule free n)) = rule"
  using assms
  by (cases rule; simp add: calculateMulliganState_def mulliganInput_def Let_def mulligan_base.defs
      mulligan_state.defs buildState_def)+

lemma base_hand:
  fixes m :: int
  assumes "0 \<le> e" and "e < mulliganLimit rule" and "e' = e \<or> e' = e + 1"
  defines "st \<equiv> calculateBaseMulliganState rule m e'"
  shows "0 \<le> mb_bottomSelectionCount st \<and> mb_bottomSelectionCount st \<le> mb_drawCount st \<and>
     0 \<le> mb_drawCount st \<and> mb_finalHandSize st = mb_drawCount st - mb_bottomSelectionCount st \<and>
     0 \<le> mb_finalHandSize st \<and> mb_finalHandSize st \<le> 7 \<and>
     mb_finalHandSize st \<le> mb_finalHandSize (calculateBaseMulliganState rule n e)"
  using assms(1-3)
  by (cases rule) (auto simp: st_def buildState_def Let_def LONDON_HAND_SIZE_def GENEROUS_HAND_SIZE_def
      GENEROUS_BASE_DRAW_COUNT_def)

section \<open>Properties\<close>

text \<open>Another mulligan is offered exactly while the effective number of mulligans, the free
  one not counted, is below ten under the generous rule and below seven under the others;
  so the offers end, whatever number the caller passes in.\<close>

theorem mulligan_offered_until_limit:
  "mb_canTakeAnotherMulligan (calculateMulliganState inp) \<longleftrightarrow>
     calculateEffectiveMulligans (sanitizeMulligansTaken (mi_mulligansTaken inp)) (mi_firstMulliganFree inp)
       < mulliganLimit (mi_rule inp)"
  using canTakeNext_limit [OF sanitize_nonneg, where rule = "mi_rule inp" and free = "mi_firstMulliganFree inp"]
  by (simp add: calculateMulliganState_def Let_def mulligan_base.defs mulligan_state.defs)

text \<open>An offered mulligan leads to a hand that can be kept: with the cards it draws, the
  cards to put back are among them and what remains is the announced final hand.\<close>

theorem offered_mulligan_can_be_kept:
  assumes "0 \<le> n" and "mb_canTakeAnotherMulligan (calculateMulliganState (mulliganInput rule free n))"
  defines "st \<equiv> calculateMulliganState (mulliganInput rule free (n + 1))"
  shows "canKeepMulliganState st (num (mb_drawCount st)) \<and>
     mb_finalHandSize st = mb_drawCount st - mb_bottomSelectionCount st \<and>
     0 \<le> mb_finalHandSize st \<and> mb_finalHandSize st \<le> 7 \<and>
     mb_finalHandSize st \<le> mb_finalHandSize (calculateMulliganState (mulliganInput rule free n))"
proof -
  let ?e = "calculateEffectiveMulligans n free" and ?e' = "calculateEffectiveMulligans (n + 1) free"
  have e: "0 \<le> ?e" "?e < mulliganLimit rule"
    using effective_nonneg canTakeNext_limit [OF assms(1), where rule = rule and free = free] assms(1,2)
    by (simp_all add: calculateMulliganState_def mulliganInput_def Let_def mulligan_base.defs mulligan_state.defs)
  have "?e' = ?e \<or> ?e' = ?e + 1"
    using effective_mono [OF assms(1), of free] by auto
  with e assms(1) base_hand [of ?e rule ?e' "n + 1" n]
  show ?thesis by (simp add: st_def canKeepMulliganState_def base_fields)
qed

theorem offered_mulligan_can_be_kept_witness:
  "canKeepMulliganState (calculateMulliganState (mulliganInput London True (1 + 1))) (num 7)"
proof -
  have one: "mb_canTakeAnotherMulligan (calculateMulliganState (mulliganInput London True 1))"
    using sanitize_num [of 1]
    by (simp add: mulliganInput_def step_defs Let_def calculateEffectiveMulligans_def)
  have "mb_drawCount (calculateMulliganState (mulliganInput London True (1 + 1))) = 7"
    by (subst base_fields) (simp_all add: buildState_def LONDON_HAND_SIZE_def)
  with offered_mulligan_can_be_kept [OF _ one] show ?thesis by simp
qed

end
